(* ===== verification/Go_Prelude.thy ===== *)
theory Go_Prelude
  imports Main
begin

text \<open>
  Shared vocabulary of the development: the Go values the operator computes with (byte strings,
  32-bit integers, error trees) and the shape of its effectful functions.

  \<^item> Strings are ASCII character lists. \<open>trim_space\<close>, \<open>has_prefix\<close>, \<open>cut_prefix\<close>, \<open>to_lower\<close>
    and the decimal printer and parser stand for the functions of Go's \<open>strings\<close> and
    \<open>strconv\<close> packages with the same names.  \<open>strings.TrimSpace\<close> also trims the Unicode spaces, U+0085 and U+00A0 among them,
    which no ASCII string holds: versions, names, labels, image references and revisions are ASCII.
  \<^item> \<open>int32\<close> is two's complement wrap-around at 32 bits: \<open>int32 (x + 1)\<close> is Go's \<open>x + 1\<close>
    on an \<open>int32\<close>.
  \<^item> \<open>go_error\<close> is an error value with everything \<open>errors.Is\<close> and \<open>errors.As\<close> can see of it:
    the sentinel it is, and the errors it wraps, in the order Go traverses them.
  \<^item> \<open>('s, 'a) run\<close> is a Go function that reads and writes state \<open>'s\<close> and returns \<open>('a, error)\<close>.
    State changes made before an error is returned stay, as they do in Go.  \<open>wp\<close> is the weakest
    precondition of such a function; the component theories prove their facts in this calculus.
\<close>

section \<open>Strings and integers\<close>

definition is_space :: "char \<Rightarrow> bool" where
  "is_space c \<longleftrightarrow> c \<in> {CHR '' '', CHR 0x09, CHR 0x0A, CHR 0x0B, CHR 0x0C, CHR 0x0D}"

definition trim_space :: "string \<Rightarrow> string" where
  "trim_space s = rev (dropWhile is_space (rev (dropWhile is_space s)))"

definition has_prefix :: "string \<Rightarrow> string \<Rightarrow> bool" where
  "has_prefix s p \<longleftrightarrow> take (length p) s = p"

definition cut_prefix :: "string \<Rightarrow> string \<Rightarrow> string option" where
  "cut_prefix s p = (if has_prefix s p then Some (drop (length p) s) else None)"

definition trim_prefix :: "string \<Rightarrow> string \<Rightarrow> string" where
  "trim_prefix s p = (if has_prefix s p then drop (length p) s else s)"

definition trim_right_char :: "char \<Rightarrow> string \<Rightarrow> string" where
  "trim_right_char c s = rev (dropWhile (\<lambda>x. x = c) (rev s))"

definition to_lower :: "string \<Rightarrow> string" where
  "to_lower s = map (\<lambda>c. if of_char c \<in> {65..90::nat} then char_of (of_char c + 32 :: nat) else c) s"

definition replace_char :: "char \<Rightarrow> char \<Rightarrow> string \<Rightarrow> string" where
  "replace_char a b s = map (\<lambda>c. if c = a then b else c) s"

definition digit_char :: "nat \<Rightarrow> char" where
  "digit_char d = char_of (48 + d)"

definition is_digit :: "char \<Rightarrow> bool" where
  "is_digit c \<longleftrightarrow> (of_char c :: nat) \<in> {48..57}"

definition digit_val :: "char \<Rightarrow> nat" where
  "digit_val c = of_char c - 48"

fun nat_str :: "nat \<Rightarrow> string" where
  "nat_str n = (if n < 10 then [digit_char n] else nat_str (n div 10) @ [digit_char (n mod 10)])"

declare nat_str.simps [simp del]

definition int_str :: "int \<Rightarrow> string" where
  "int_str i = (if i < 0 then CHR ''-'' # nat_str (nat (- i)) else nat_str (nat i))"

definition digits_val :: "string \<Rightarrow> nat" where
  "digits_val s = foldl (\<lambda>acc c. 10 * acc + digit_val c) 0 s"

text \<open>\<open>strconv.ParseUint(s, 10, bits)\<close>: the digits of a non-empty decimal string, if the value fits.\<close>

definition parse_uint :: "nat \<Rightarrow> string \<Rightarrow> nat option" where
  "parse_uint bits s =
     (if s = [] \<or> \<not> list_all is_digit s then None
      else if digits_val s < 2 ^ bits then Some (digits_val s) else None)"

text \<open>\<open>strconv.Atoi\<close>: an optional sign and decimal digits, in the range of a 64-bit integer.\<close>

definition atoi :: "string \<Rightarrow> int option" where
  "atoi s =
     (let digits = (if s \<noteq> [] \<and> hd s \<in> {CHR ''+'', CHR ''-''} then tl s else s);
          v = (if s \<noteq> [] \<and> hd s = CHR ''-'' then - int (digits_val digits) else int (digits_val digits))
      in if digits = [] \<or> \<not> list_all is_digit digits then None
         else if - (2 ^ 63) \<le> v \<and> v < 2 ^ 63 then Some v else None)"

definition int32 :: "int \<Rightarrow> int" where
  "int32 x = (x + 2 ^ 31) mod 2 ^ 32 - 2 ^ 31"

section \<open>Error values\<close>

datatype errno = ECONNREFUSED | ECONNRESET | ECONNABORTED | ETIMEDOUT | EHOSTUNREACH
  | ENETUNREACH | EPIPE | EAGAIN | OtherErrno nat

datatype sentinel =
    ErrTransientConnection
  | ErrTransientRemoteOverloaded
  | ErrTransientClusterState
  | ErrTransientKubernetesAPI
  | ErrPermanentConfig
  | ErrPermanentPrerequisitesMissing
  | ErrLockHeld
  | ErrPartitionRetry
  | ErrAlreadyJoined
  | ErrAlreadyVoter
  | ErrAlreadyNonVoter
  | ErrAutopilotNotAvailable
  | ErrContextCanceled
  | ErrDeadlineExceeded
  | ErrOsDeadlineExceeded
  | ErrNetClosed
  | ErrEOF
  | ErrUnexpectedEOF
  | Errno errno

datatype api_reason = NotFound | AlreadyExists | Conflict | TooManyRequests | ServiceUnavailable
  | InternalError | Timeout | ServerTimeout | OtherReason string

text \<open>
  \<open>Text\<close> is \<open>errors.New\<close> or \<open>fmt.Errorf\<close> without \<open>%w\<close>; \<open>Wrapf\<close> is \<open>fmt.Errorf\<close> with one or
  several \<open>%w\<close>, or \<open>errors.Join\<close>; \<open>ApiStatus\<close> is a Kubernetes status error with its reason and
  whether its details carry an unexpected-server-response cause; \<open>NetError\<close> and \<open>DNSError\<close> carry
  their \<open>Timeout()\<close>; \<open>BaoStatus\<close> is an OpenBao API error with its HTTP status; \<open>Coded\<close> is an executor error with its
  reason code, its message and its cause, if any; \<open>RecoveryIssue\<close> is the restore package's diagnostic with its cause, if any;
  \<open>Panic\<close> is a nil dereference, which ends the function like an error.
\<close>

datatype go_error =
    Sentinel sentinel
  | Text string
  | Wrapf string "go_error list"
  | Reasoned string go_error
  | ApiStatus api_reason bool
  | NetError bool
  | DNSError bool
  | HeldError string string string
  | BaoStatus int
  | Coded string string "go_error list"
  | RecoveryIssue string string "go_error list"
  | Panic string

fun err_nodes :: "go_error \<Rightarrow> go_error list" where
  "err_nodes (Wrapf m es) = Wrapf m es # concat (map err_nodes es)"
| "err_nodes (Reasoned r e) = Reasoned r e # err_nodes e"
| "err_nodes (RecoveryIssue r m es) = RecoveryIssue r m es # concat (map err_nodes es)"
| "err_nodes (Coded c m es) = Coded c m es # concat (map err_nodes es)"
| "err_nodes (HeldError opn h m) = [HeldError opn h m, Sentinel ErrLockHeld]"
| "err_nodes e = [e]"

definition errors_is :: "sentinel \<Rightarrow> go_error \<Rightarrow> bool" where
  "errors_is t e \<longleftrightarrow> Sentinel t \<in> set (err_nodes e)"

definition errors_as :: "(go_error \<Rightarrow> bool) \<Rightarrow> go_error \<Rightarrow> go_error option" where
  "errors_as P e = find P (err_nodes e)"

definition is_api_status :: "go_error \<Rightarrow> bool" where
  "is_api_status e = (case e of ApiStatus _ _ \<Rightarrow> True | _ \<Rightarrow> False)"

text \<open>\<open>apierrors.ReasonForError\<close>: the reason of the first status error in the tree.\<close>

definition api_reason_of :: "go_error \<Rightarrow> api_reason option" where
  "api_reason_of e = (case errors_as is_api_status e of Some (ApiStatus r _) \<Rightarrow> Some r | _ \<Rightarrow> None)"

definition api_unexpected :: "go_error \<Rightarrow> bool" where
  "api_unexpected e = (case errors_as is_api_status e of Some (ApiStatus _ u) \<Rightarrow> u | _ \<Rightarrow> False)"

abbreviation is_not_found :: "go_error \<Rightarrow> bool" where
  "is_not_found e \<equiv> api_reason_of e = Some NotFound"

abbreviation is_conflict :: "go_error \<Rightarrow> bool" where
  "is_conflict e \<equiv> api_reason_of e = Some Conflict"

abbreviation is_already_exists :: "go_error \<Rightarrow> bool" where
  "is_already_exists e \<equiv> api_reason_of e = Some AlreadyExists"

abbreviation errorf :: "string \<Rightarrow> go_error" where
  "errorf m \<equiv> Text m"

abbreviation wrapf :: "string \<Rightarrow> go_error \<Rightarrow> go_error" where
  "wrapf m e \<equiv> Wrapf m [e]"

section \<open>Effectful functions\<close>

type_synonym ('s, 'a) run = "'s \<Rightarrow> (go_error + 'a) \<times> 's"

definition ret :: "'a \<Rightarrow> ('s, 'a) run" where
  "ret a s = (Inr a, s)"

definition failwith :: "go_error \<Rightarrow> ('s, 'a) run" where
  "failwith e s = (Inl e, s)"

definition bnd :: "('s, 'a) run \<Rightarrow> ('a \<Rightarrow> ('s, 'b) run) \<Rightarrow> ('s, 'b) run" where
  "bnd m k s = (case m s of (Inl e, t) \<Rightarrow> (Inl e, t) | (Inr a, t) \<Rightarrow> k a t)"

definition gets :: "('s \<Rightarrow> 'a) \<Rightarrow> ('s, 'a) run" where
  "gets f s = (Inr (f s), s)"

definition modify :: "('s \<Rightarrow> 's) \<Rightarrow> ('s, unit) run" where
  "modify f s = (Inr (), f s)"

definition lift_res :: "go_error + 'a \<Rightarrow> ('s, 'a) run" where
  "lift_res r s = (r, s)"

text \<open>A call whose error the caller inspects instead of returning it.\<close>

definition attempt :: "('s, 'a) run \<Rightarrow> ('s, go_error + 'a) run" where
  "attempt m s = (case m s of (r, t) \<Rightarrow> (Inr r, t))"

text \<open>\<open>if err := m; err != nil { return fmt.Errorf("msg: %w", err) }\<close>\<close>

definition wrap_err :: "(go_error \<Rightarrow> go_error) \<Rightarrow> ('s, 'a) run \<Rightarrow> ('s, 'a) run" where
  "wrap_err f m s = (case m s of (Inl e, t) \<Rightarrow> (Inl (f e), t) | (Inr a, t) \<Rightarrow> (Inr a, t))"

text \<open>
  \<open>if outcome, waiting, err := m; waiting || err != nil { return outcome, err }; k\<close>: the first
  function answers \<open>Some outcome\<close> when the caller has to stop.
\<close>

definition unless_done :: "('s, 'o option) run \<Rightarrow> ('s, 'o) run \<Rightarrow> ('s, 'o) run" where
  "unless_done m k = bnd m (\<lambda>w. case w of Some out \<Rightarrow> ret out | None \<Rightarrow> k)"

text \<open>The same where the caller is itself such a guard.\<close>

definition unless_stop :: "('s, 'o option) run \<Rightarrow> ('s, 'o option) run \<Rightarrow> ('s, 'o option) run" where
  "unless_stop m k = bnd m (\<lambda>w. case w of Some out \<Rightarrow> ret (Some out) | None \<Rightarrow> k)"

section \<open>Weakest preconditions\<close>

definition wp :: "('s, 'a) run \<Rightarrow> ('a \<Rightarrow> 's \<Rightarrow> bool) \<Rightarrow> (go_error \<Rightarrow> 's \<Rightarrow> bool) \<Rightarrow> 's \<Rightarrow> bool" where
  "wp m Q E s = (case m s of (Inl e, t) \<Rightarrow> E e t | (Inr a, t) \<Rightarrow> Q a t)"

named_theorems wps \<open>weakest preconditions of the basic functions\<close>

lemma wp_ret [wps]: "wp (ret a) Q E s = Q a s"
  by (simp add: wp_def ret_def)

lemma wp_failwith [wps]: "wp (failwith e) Q E s = E e s"
  by (simp add: wp_def failwith_def)

lemma wp_bnd [wps]: "wp (bnd m k) Q E s = wp m (\<lambda>a. wp (k a) Q E) E s"
  by (simp add: wp_def bnd_def split: prod.split sum.split)

lemma wp_gets [wps]: "wp (gets f) Q E s = Q (f s) s"
  by (simp add: wp_def gets_def)

lemma wp_modify [wps]: "wp (modify f) Q E s = Q () (f s)"
  by (simp add: wp_def modify_def)

lemma wp_lift_res [wps]: "wp (lift_res r) Q E s = (case r of Inl e \<Rightarrow> E e s | Inr a \<Rightarrow> Q a s)"
  by (simp add: wp_def lift_res_def)

lemma wp_attempt [wps]: "wp (attempt m) Q E s = wp m (\<lambda>a. Q (Inr a)) (\<lambda>e. Q (Inl e)) s"
  by (simp add: wp_def attempt_def split: prod.split sum.split)

lemma wp_wrap_err [wps]: "wp (wrap_err f m) Q E s = wp m Q (\<lambda>e. E (f e)) s"
  by (simp add: wp_def wrap_err_def split: prod.split sum.split)

lemma wp_unless_done [wps]:
  "wp (unless_done m k) Q E s =
     wp m (\<lambda>w t. case w of Some out \<Rightarrow> Q out t | None \<Rightarrow> wp k Q E t) E s"
  by (simp add: unless_done_def wp_def bnd_def ret_def split: prod.split sum.split option.split)

lemma wp_unless_stop [wps]:
  "wp (unless_stop m k) Q E s =
     wp m (\<lambda>w t. case w of Some out \<Rightarrow> Q (Some out) t | None \<Rightarrow> wp k Q E t) E s"
  by (simp add: unless_stop_def wp_def bnd_def ret_def split: prod.split sum.split option.split)

lemma wp_if [wps]: "wp (if b then m else n) Q E s = (if b then wp m Q E s else wp n Q E s)"
  by simp

lemma wp_mono:
  assumes "wp m Q E s"
    and "\<And>a t. Q a t \<Longrightarrow> Q' a t" and "\<And>e t. E e t \<Longrightarrow> E' e t"
  shows "wp m Q' E' s"
  using assms by (auto simp: wp_def split: prod.splits sum.splits)

lemma wp_conj: "wp m Q E s \<Longrightarrow> wp m Q' E' s \<Longrightarrow> wp m (\<lambda>a t. Q a t \<and> Q' a t) (\<lambda>e t. E e t \<and> E' e t) s"
  by (auto simp: wp_def split: prod.splits sum.splits)

text \<open>A postcondition that ignores the result speaks about the state the function leaves.\<close>

lemma wp_snd: "wp m (\<lambda>_. P) (\<lambda>_. P) s \<longleftrightarrow> P (snd (m s))"
  by (auto simp: wp_def split: prod.split sum.split)

lemma wp_result: "m s = (Inr a, t) \<Longrightarrow> wp m Q E s \<Longrightarrow> Q a t"
  by (simp add: wp_def)

lemma wp_error: "m s = (Inl e, t) \<Longrightarrow> wp m Q E s \<Longrightarrow> E e t"
  by (simp add: wp_def)

section \<open>Frames\<close>

text \<open>
  \<open>keeps R m\<close>: whatever happens, the state \<open>m\<close> leaves is related to the one it found.  For a preorder
  \<open>R\<close> (such as "the cluster object is unchanged") the property is closed under the combinators, which
  the locale proves once for all frames the components use.
\<close>

definition keeps :: "('s \<Rightarrow> 's \<Rightarrow> bool) \<Rightarrow> ('s, 'a) run \<Rightarrow> bool" where
  "keeps R m \<longleftrightarrow> (\<forall>s. R s (snd (m s)))"

lemma wp_keeps:
  assumes "keeps R m" and "\<And>a t. R s t \<Longrightarrow> Q a t" and "\<And>e t. R s t \<Longrightarrow> E e t"
  shows "wp m Q E s"
  using assms by (auto simp: keeps_def wp_def split: prod.split sum.split) (metis snd_conv)+

lemma keeps_mono: "keeps R m \<Longrightarrow> (\<And>s t. R s t \<Longrightarrow> R' s t) \<Longrightarrow> keeps R' m"
  by (auto simp: keeps_def)

locale frame =
  fixes R :: "'s \<Rightarrow> 's \<Rightarrow> bool"
  assumes refl: "R s s"
    and trans: "R s t \<Longrightarrow> R t u \<Longrightarrow> R s u"
begin

lemma keeps_pure [simp, intro]:
  "keeps R (ret a)" "keeps R (failwith e)" "keeps R (gets f)" "keeps R (lift_res r)"
  by (simp_all add: keeps_def ret_def failwith_def gets_def lift_res_def refl)

lemma keeps_bnd [intro!]: "keeps R m \<Longrightarrow> (\<And>a. keeps R (k a)) \<Longrightarrow> keeps R (bnd m k)"
  unfolding keeps_def bnd_def
  by (auto split: prod.split sum.split) (metis snd_conv trans)+

lemma keeps_attempt [intro!]: "keeps R m \<Longrightarrow> keeps R (attempt m)"
  by (auto simp: keeps_def attempt_def split: prod.split) (metis snd_conv)

lemma keeps_wrap_err [intro!]: "keeps R m \<Longrightarrow> keeps R (wrap_err f m)"
  by (auto simp: keeps_def wrap_err_def split: prod.split sum.split) (metis snd_conv)+

lemma keeps_unless_done [intro!]: "keeps R m \<Longrightarrow> keeps R k \<Longrightarrow> keeps R (unless_done m k)"
  unfolding unless_done_def by (auto split: option.split)

lemma keeps_unless_stop [intro!]: "keeps R m \<Longrightarrow> keeps R k \<Longrightarrow> keeps R (unless_stop m k)"
  unfolding unless_stop_def by (auto split: option.split)

lemma keeps_modify: "(\<And>s. R s (f s)) \<Longrightarrow> keeps R (modify f)"
  by (simp add: keeps_def modify_def)

end

text \<open>
  \<open>safe J I m\<close>: from a state that satisfies \<open>J\<close> a normal return satisfies \<open>J\<close> again, and a return with an error, after
  which the caller gives up its copy of the object, still satisfies the weaker \<open>I\<close>.
\<close>

definition safe :: "('s \<Rightarrow> bool) \<Rightarrow> ('s \<Rightarrow> bool) \<Rightarrow> ('s, 'a) run \<Rightarrow> bool" where
  "safe J I m \<longleftrightarrow> (\<forall>s. J s \<longrightarrow> wp m (\<lambda>_. J) (\<lambda>_. I) s)"

lemma safeD: "safe J I m \<Longrightarrow> J s \<Longrightarrow> wp m (\<lambda>_. J) (\<lambda>_. I) s"
  by (simp add: safe_def)

locale abandonable =
  fixes J I :: "'s \<Rightarrow> bool"
  assumes weaken: "J s \<Longrightarrow> I s"
begin

lemma safe_pure [simp, intro]:
  "safe J I (ret a)" "safe J I (failwith e)" "safe J I (gets f)" "safe J I (lift_res r)"
  by (auto simp: safe_def wps weaken split: sum.split)

lemma safe_bnd [intro!]:
  assumes "safe J I m" and "\<And>a. safe J I (k a)" shows "safe J I (bnd m k)"
  unfolding safe_def
proof (intro allI impI)
  fix s assume "J s"
  with assms(1) have "wp m (\<lambda>_. J) (\<lambda>_. I) s" by (rule safeD)
  then show "wp (bnd m k) (\<lambda>_. J) (\<lambda>_. I) s" unfolding wp_bnd
    by (rule wp_mono) (auto intro: safeD [OF assms(2)])
qed

lemma safe_wrap_err [intro!]: "safe J I m \<Longrightarrow> safe J I (wrap_err f m)"
  by (simp add: safe_def wps)

lemma safe_unless_done [intro!]: "safe J I m \<Longrightarrow> safe J I k \<Longrightarrow> safe J I (unless_done m k)"
  unfolding unless_done_def by (auto split: option.split)

end

section \<open>Triples\<close>

text \<open>\<open>ht P m Q E\<close>: from \<open>P\<close>, \<open>m\<close> returns a value with \<open>Q\<close> or an error with \<open>E\<close>.\<close>

definition ht :: "('s \<Rightarrow> bool) \<Rightarrow> ('s, 'a) run \<Rightarrow> ('a \<Rightarrow> 's \<Rightarrow> bool) \<Rightarrow> (go_error \<Rightarrow> 's \<Rightarrow> bool) \<Rightarrow> bool" where
  "ht P m Q E \<longleftrightarrow> (\<forall>s. P s \<longrightarrow> wp m Q E s)"

lemma htD: "ht P m Q E \<Longrightarrow> P s \<Longrightarrow> wp m Q E s"
  by (simp add: ht_def)

lemma ht_bnd: "ht P m R E \<Longrightarrow> (\<And>a. ht (R a) (k a) Q E) \<Longrightarrow> ht P (bnd m k) Q E"
  by (auto simp: ht_def wp_bnd elim!: wp_mono)

lemma ht_attempt: "ht P m (\<lambda>a. Q (Inr a)) (\<lambda>e. Q (Inl e)) \<Longrightarrow> ht P (attempt m) Q E"
  by (simp add: ht_def wp_attempt)

lemma ht_wrap: "ht P m Q (\<lambda>e. E (f e)) \<Longrightarrow> ht P (wrap_err f m) Q E"
  by (simp add: ht_def wp_wrap_err)

lemma ht_ret: "(\<And>s. P s \<Longrightarrow> Q a s) \<Longrightarrow> ht P (ret a) Q E"
  by (simp add: ht_def wp_ret)

lemma ht_fail: "(\<And>s. P s \<Longrightarrow> E e s) \<Longrightarrow> ht P (failwith e) Q E"
  by (simp add: ht_def wp_failwith)

lemma ht_gets: "(\<And>c0. ht (\<lambda>s. P s \<and> f s = c0) (k c0) Q E) \<Longrightarrow> ht P (bnd (gets f) k) Q E"
  by (auto simp: ht_def wp_bnd wp_gets)

lemma ht_conseq: "ht P m Q E \<Longrightarrow> (\<And>s. P' s \<Longrightarrow> P s) \<Longrightarrow> (\<And>a s. Q a s \<Longrightarrow> Q' a s) \<Longrightarrow> (\<And>e s. E e s \<Longrightarrow> E' e s) \<Longrightarrow> ht P' m Q' E'"
  unfolding ht_def by (blast intro: wp_mono)

lemma ht_pre: "ht P m Q E \<Longrightarrow> (\<And>s. P' s \<Longrightarrow> P s) \<Longrightarrow> ht P' m Q E"
  by (auto simp: ht_def)

lemma ht_post: "ht P m Q E \<Longrightarrow> (\<And>a s. Q a s \<Longrightarrow> Q' a s) \<Longrightarrow> (\<And>e s. E e s \<Longrightarrow> E' e s) \<Longrightarrow> ht P m Q' E'"
  by (erule ht_conseq)

lemma ht_ex: "(\<And>x. ht (P x) m Q E) \<Longrightarrow> ht (\<lambda>s. \<exists>x. P x s) m Q E"
  by (auto simp: ht_def)

lemma ht_if: "(b \<Longrightarrow> ht P m Q E) \<Longrightarrow> (\<not> b \<Longrightarrow> ht P n Q E) \<Longrightarrow> ht P (if b then m else n) Q E"
  by simp

lemma ht_unless_done:
  "ht P m (\<lambda>w. case w of Some r \<Rightarrow> Q r | None \<Rightarrow> R) E \<Longrightarrow> ht R k Q E \<Longrightarrow> ht P (unless_done m k) Q E"
  unfolding unless_done_def by (erule ht_bnd) (auto simp: ht_def wps split: option.split)

lemma ht_unless_stop:
  "ht P m (\<lambda>w. case w of Some r \<Rightarrow> Q (Some r) | None \<Rightarrow> R) E \<Longrightarrow> ht R k Q E \<Longrightarrow> ht P (unless_stop m k) Q E"
  unfolding unless_stop_def by (erule ht_bnd) (auto simp: ht_def wps split: option.split)

lemma ht_assume: "(\<And>s. P s \<Longrightarrow> B) \<Longrightarrow> (B \<Longrightarrow> ht P m Q E) \<Longrightarrow> ht P m Q E"
  by (auto simp: ht_def)

section \<open>Facts about the primitives\<close>

lemma trim_space_Nil [simp]: "trim_space [] = []"
  by (simp add: trim_space_def)

lemma dropWhile_rev_dropWhile:
  "dropWhile P (rev (dropWhile P (rev (dropWhile P xs)))) = rev (dropWhile P (rev (dropWhile P xs)))"
proof -
  let ?ys = "dropWhile P xs"
  have "?ys \<noteq> [] \<Longrightarrow> \<not> P (hd ?ys)" by (rule hd_dropWhile)
  moreover have "takeWhile P (rev ?ys) @ dropWhile P (rev ?ys) = rev ?ys" by simp
  then have split: "?ys = rev (dropWhile P (rev ?ys)) @ rev (takeWhile P (rev ?ys))"
    by (metis rev_append rev_rev_ident)
  ultimately have "rev (dropWhile P (rev ?ys)) \<noteq> [] \<Longrightarrow> \<not> P (hd (rev (dropWhile P (rev ?ys))))"
    by (metis append_is_Nil_conv hd_append2)
  then show ?thesis
    unfolding dropWhile_eq_self_iff by blast
qed

lemma trim_space_idem [simp]: "trim_space (trim_space s) = trim_space s"
  by (simp add: trim_space_def dropWhile_rev_dropWhile)

lemma trim_space_eq_self:
  "trim_space s = s \<longleftrightarrow> s = [] \<or> (\<not> is_space (hd s) \<and> \<not> is_space (last s))"
proof (cases "s = []")
  case False
  have *: "trim_space s = s" if "\<not> is_space (hd s)" "\<not> is_space (last s)"
  proof -
    have "dropWhile is_space s = s" "dropWhile is_space (rev s) = rev s"
      using that False by (simp_all add: dropWhile_eq_self_iff hd_rev)
    then show ?thesis by (simp add: trim_space_def)
  qed
  have "\<not> is_space (hd s)" "\<not> is_space (last s)" if "trim_space s = s"
  proof -
    have "length (dropWhile is_space s) = length s"
      using arg_cong [OF that, of length] length_dropWhile_le [of is_space s]
        length_dropWhile_le [of is_space "rev (dropWhile is_space s)"]
      by (simp add: trim_space_def)
    then have d: "dropWhile is_space s = s"
      by (metis append_eq_conv_conj append_Nil dropWhile_eq_drop drop0 length_append add_cancel_right_left
          length_0_conv takeWhile_dropWhile_id)
    then show "\<not> is_space (hd s)" using False by (simp add: dropWhile_eq_self_iff)
    have "dropWhile is_space (rev s) = rev s"
      using that d by (simp add: trim_space_def rev_swap)
    then show "\<not> is_space (last s)" using False by (simp add: dropWhile_eq_self_iff hd_rev)
  qed
  with * False show ?thesis by blast
qed simp

lemma has_prefix_append [simp]: "has_prefix (p @ s) p"
  by (simp add: has_prefix_def)

lemma cut_prefix_iff: "cut_prefix s p = Some r \<longleftrightarrow> s = p @ r"
  by (auto simp: cut_prefix_def has_prefix_def) (metis append_take_drop_id)

lemma int32_range: "- (2 ^ 31) \<le> int32 x \<and> int32 x < 2 ^ 31"
  by (simp add: int32_def)

lemma int32_id: "- (2 ^ 31) \<le> x \<Longrightarrow> x < 2 ^ 31 \<Longrightarrow> int32 x = x"
  by (simp add: int32_def)

lemma err_nodes_refl [simp]: "e \<in> set (err_nodes e)"
  by (cases e) auto

lemma digit_val_digit_char [simp]: "d < 10 \<Longrightarrow> digit_val (digit_char d) = d"
  by (simp add: digit_val_def digit_char_def)

lemma is_digit_digit_char [simp]: "d < 10 \<Longrightarrow> is_digit (digit_char d)"
  by (simp add: is_digit_def digit_char_def)

lemma digits_val_snoc: "digits_val (s @ [c]) = 10 * digits_val s + digit_val c"
  by (simp add: digits_val_def)

lemma nat_str_not_Nil [simp]: "nat_str n \<noteq> []"
  by (subst nat_str.simps) simp

lemma nat_str_digits: "list_all is_digit (nat_str n)"
proof (induction n rule: nat_str.induct)
  case (1 n)
  then show ?case by (simp add: nat_str.simps [of n])
qed

lemma digits_val_nat_str [simp]: "digits_val (nat_str n) = n"
proof (induction n rule: nat_str.induct)
  case (1 n)
  show ?case
  proof (cases "n < 10")
    case True
    then show ?thesis by (simp add: nat_str.simps [of n] digits_val_def)
  next
    case False
    with 1 show ?thesis by (simp add: nat_str.simps [of n] digits_val_snoc)
  qed
qed

lemma char_zero: "is_digit c \<Longrightarrow> digit_val c = 0 \<longleftrightarrow> c = CHR ''0''"
proof -
  assume "is_digit c"
  then have "digit_val c = 0 \<longleftrightarrow> (of_char c :: nat) = of_char (CHR ''0'')"
    by (auto simp: is_digit_def digit_val_def)
  then show ?thesis by (simp only: of_char_eq_iff)
qed

lemma digit_char_digit_val [simp]: "is_digit c \<Longrightarrow> digit_char (digit_val c) = c"
  by (simp add: is_digit_def digit_val_def digit_char_def)

lemma digit_val_less: "is_digit c \<Longrightarrow> digit_val c < 10"
  by (auto simp: is_digit_def digit_val_def)

text \<open>A digit string without a superfluous leading zero is the printed form of its value.\<close>

lemma digits_val_pos:
  "s \<noteq> [] \<Longrightarrow> list_all is_digit s \<Longrightarrow> hd s \<noteq> CHR ''0'' \<Longrightarrow> 0 < digits_val s"
proof (induction s rule: rev_induct)
  case (snoc c s)
  then show ?case
    by (cases "s = []") (auto simp: digits_val_snoc digits_val_def char_zero [symmetric])
qed simp

lemma nat_str_digits_val:
  "s \<noteq> [] \<Longrightarrow> list_all is_digit s \<Longrightarrow> \<not> (length s > 1 \<and> hd s = CHR ''0'') \<Longrightarrow> nat_str (digits_val s) = s"
proof (induction s rule: rev_induct)
  case (snoc c s)
  note c = digit_val_less [of c]
  show ?case
  proof (cases "s = []")
    case True
    with snoc.prems c show ?thesis by (simp add: digits_val_def nat_str.simps [of "digit_val c"])
  next
    case False
    then have s: "list_all is_digit s" "hd s \<noteq> CHR ''0''" using snoc.prems by (cases s; simp)+
    then have "nat_str (digits_val s) = s" "0 < digits_val s"
      using False snoc.IH digits_val_pos by auto
    with c snoc.prems show ?thesis
      by (simp add: digits_val_snoc nat_str.simps [of "10 * digits_val s + digit_val c"])
  qed
qed simp

text \<open>Printing and parsing a decimal number round trip, and only canonical strings print back.\<close>

lemma parse_uint_nat_str: "n < 2 ^ bits \<Longrightarrow> parse_uint bits (nat_str n) = Some n"
  by (simp add: parse_uint_def nat_str_digits)

lemma nat_str_inject [simp]: "nat_str m = nat_str n \<longleftrightarrow> m = n"
  by (metis digits_val_nat_str)

end
