(* ===== verification/Operator_Errors.thy ===== *)
theory Operator_Errors
  imports Go_Prelude
begin

text \<open>
  The error taxonomy of the operator (\<open>internal/platform/errors/errors.go\<close>): which errors are
  transient, which are permanent, how a controller is told to retry, and the reason strings
  attached for status conditions.  Go's nil error is \<open>None\<close> here; a wrapper of \<open>None\<close> is \<open>None\<close>.
\<close>

section \<open>Reasons\<close>

definition WithReason :: "string \<Rightarrow> go_error option \<Rightarrow> go_error option" where
  "WithReason reason err = map_option (Reasoned reason) err"

definition is_reasoned :: "go_error \<Rightarrow> bool" where
  "is_reasoned e = (case e of Reasoned _ _ \<Rightarrow> True | _ \<Rightarrow> False)"

definition Reason :: "go_error option \<Rightarrow> string option" where
  "Reason err = (case err of None \<Rightarrow> None
     | Some e \<Rightarrow> (case errors_as is_reasoned e of
          Some (Reasoned r _) \<Rightarrow> if trim_space r \<noteq> [] then Some r else None
        | _ \<Rightarrow> None))"

section \<open>Classification\<close>

definition transientErrnos :: "errno list" where
  "transientErrnos = [ECONNREFUSED, ECONNRESET, ECONNABORTED, ETIMEDOUT, EHOSTUNREACH, ENETUNREACH, EPIPE]"

text \<open>What a node answers to \<open>Timeout()\<close> when it implements \<open>net.Error\<close>.\<close>

definition net_timeout :: "go_error \<Rightarrow> bool option" where
  "net_timeout e = (case e of
      NetError t \<Rightarrow> Some t
    | DNSError t \<Rightarrow> Some t
    | Sentinel ErrDeadlineExceeded \<Rightarrow> Some True
    | Sentinel ErrOsDeadlineExceeded \<Rightarrow> Some True
    | Sentinel (Errno n) \<Rightarrow> Some (n = EAGAIN \<or> n = ETIMEDOUT)
    | _ \<Rightarrow> None)"

definition is_net_error :: "go_error \<Rightarrow> bool" where
  "is_net_error e \<longleftrightarrow> net_timeout e \<noteq> None"

definition is_dns_error :: "go_error \<Rightarrow> bool" where
  "is_dns_error e = (case e of DNSError _ \<Rightarrow> True | _ \<Rightarrow> False)"

definition IsTransientConnection :: "go_error option \<Rightarrow> bool" where
  "IsTransientConnection err = (case err of None \<Rightarrow> False
     | Some e \<Rightarrow>
         if errors_is ErrTransientConnection e then True
         else if errors_is ErrDeadlineExceeded e \<or> errors_is ErrOsDeadlineExceeded e \<or> errors_is ErrNetClosed e
         then True
         else if errors_is ErrEOF e \<or> errors_is ErrUnexpectedEOF e then True
         else if list_ex (\<lambda>n. errors_is (Errno n) e) transientErrnos then True
         else if (case errors_as is_net_error e of
                    Some n \<Rightarrow> net_timeout n = Some True | None \<Rightarrow> False) then True
         else errors_as is_dns_error e \<noteq> None)"

definition IsTransientKubernetesAPI :: "go_error option \<Rightarrow> bool" where
  "IsTransientKubernetesAPI err = (case err of None \<Rightarrow> False
     | Some e \<Rightarrow>
         if errors_is ErrTransientKubernetesAPI e then True
         else api_reason_of e = Some TooManyRequests \<or> api_reason_of e = Some ServiceUnavailable
           \<or> api_reason_of e = Some InternalError \<or> api_reason_of e = Some Timeout
           \<or> api_reason_of e = Some ServerTimeout \<or> api_unexpected e
           \<or> errors_is ErrDeadlineExceeded e)"

definition IsTransientRemoteOverloaded :: "go_error option \<Rightarrow> bool" where
  "IsTransientRemoteOverloaded err =
     (case err of None \<Rightarrow> False | Some e \<Rightarrow> errors_is ErrTransientRemoteOverloaded e)"

definition IsTransientClusterState :: "go_error option \<Rightarrow> bool" where
  "IsTransientClusterState err =
     (case err of None \<Rightarrow> False | Some e \<Rightarrow> errors_is ErrTransientClusterState e)"

text \<open>\<open>fmt.Errorf("%w: %w", sentinel, err)\<close>\<close>

definition wrap2 :: "sentinel \<Rightarrow> go_error \<Rightarrow> go_error" where
  "wrap2 t e = Wrapf '''' [Sentinel t, e]"

definition WrapTransientConnection :: "go_error option \<Rightarrow> go_error option" where
  "WrapTransientConnection err = (case err of None \<Rightarrow> None
     | Some e \<Rightarrow> if IsTransientConnection (Some e) then Some e else Some (wrap2 ErrTransientConnection e))"

definition WrapTransientRemoteOverloaded :: "go_error option \<Rightarrow> go_error option" where
  "WrapTransientRemoteOverloaded err = (case err of None \<Rightarrow> None
     | Some e \<Rightarrow> if IsTransientRemoteOverloaded (Some e) then Some e
                 else Some (wrap2 ErrTransientRemoteOverloaded e))"

definition WrapTransientClusterState :: "go_error option \<Rightarrow> go_error option" where
  "WrapTransientClusterState err = (case err of None \<Rightarrow> None
     | Some e \<Rightarrow> if IsTransientClusterState (Some e) then Some e
                 else Some (wrap2 ErrTransientClusterState e))"

definition WrapTransientKubernetesAPI :: "go_error option \<Rightarrow> go_error option" where
  "WrapTransientKubernetesAPI err = (case err of None \<Rightarrow> None
     | Some e \<Rightarrow> if IsTransientKubernetesAPI (Some e) then Some e
                 else Some (wrap2 ErrTransientKubernetesAPI e))"

definition WrapPermanentConfig :: "go_error option \<Rightarrow> go_error option" where
  "WrapPermanentConfig err = map_option (wrap2 ErrPermanentConfig) err"

definition WrapPermanentPrerequisitesMissing :: "go_error option \<Rightarrow> go_error option" where
  "WrapPermanentPrerequisitesMissing err = map_option (wrap2 ErrPermanentPrerequisitesMissing) err"

definition IsTransient :: "go_error option \<Rightarrow> bool" where
  "IsTransient err \<longleftrightarrow> IsTransientConnection err \<or> IsTransientRemoteOverloaded err
     \<or> IsTransientClusterState err \<or> IsTransientKubernetesAPI err"

definition IsPermanent :: "go_error option \<Rightarrow> bool" where
  "IsPermanent err = (case err of None \<Rightarrow> False
     | Some e \<Rightarrow> errors_is ErrPermanentConfig e \<or> errors_is ErrPermanentPrerequisitesMissing e)"

abbreviation seconds :: "int \<Rightarrow> int" where
  "seconds n \<equiv> n * 1000000000"

definition ShouldRequeue :: "go_error option \<Rightarrow> bool \<times> int" where
  "ShouldRequeue err =
     (if err = None then (False, 0)
      else if IsTransient err \<and> IsTransientConnection err then (True, seconds 5)
      else if IsTransient err \<and> IsTransientRemoteOverloaded err then (True, seconds 15)
      else if IsTransient err \<and> IsTransientClusterState err then (True, seconds 5)
      else if IsTransient err \<and> IsTransientKubernetesAPI err then (True, seconds 5)
      else if IsPermanent err then (False, 0)
      else (True, 0))"

text \<open>The wrapped permanent configuration error with a reason that the upgrade code returns.\<close>

definition permanentReason :: "string \<Rightarrow> go_error \<Rightarrow> go_error" where
  "permanentReason reason e = Reasoned reason (wrap2 ErrPermanentConfig e)"

section \<open>Lemmas\<close>

lemma errors_is_wrap2: "errors_is t (wrap2 t' e) \<longleftrightarrow> t = t' \<or> errors_is t e"
  by (auto simp: errors_is_def wrap2_def)

lemma errors_is_Reasoned [simp]: "errors_is t (Reasoned r e) \<longleftrightarrow> errors_is t e"
  by (simp add: errors_is_def)

lemma errors_as_wrap2_status: "errors_as is_api_status (wrap2 t e) = errors_as is_api_status e"
  by (simp add: errors_as_def wrap2_def is_api_status_def)

lemma api_reason_of_wrap2 [simp]: "api_reason_of (wrap2 t e) = api_reason_of e"
  by (simp add: api_reason_of_def errors_as_wrap2_status)

lemma api_unexpected_wrap2 [simp]: "api_unexpected (wrap2 t e) = api_unexpected e"
  by (simp add: api_unexpected_def errors_as_wrap2_status)

lemma errors_as_status_wrapf [simp]: "errors_as is_api_status (wrapf m e) = errors_as is_api_status e"
  by (simp add: errors_as_def is_api_status_def)

lemma api_reason_of_wrapf [simp]: "api_reason_of (wrapf m e) = api_reason_of e"
  by (simp add: api_reason_of_def)

lemma api_reason_of_Text [simp]: "api_reason_of (Text m) = None"
  by (simp add: api_reason_of_def errors_as_def is_api_status_def)

lemma api_reason_of_Panic [simp]: "api_reason_of (Panic m) = None"
  by (simp add: api_reason_of_def errors_as_def is_api_status_def)

lemma api_reason_of_Held [simp]: "api_reason_of (HeldError a b c) = None"
  by (simp add: api_reason_of_def errors_as_def is_api_status_def)

lemma api_reason_of_ApiStatus [simp]: "api_reason_of (ApiStatus r u) = Some r"
  by (simp add: api_reason_of_def errors_as_def is_api_status_def)

lemma net_timeout_wrap2_permanent:
  assumes "t \<in> {ErrPermanentConfig, ErrPermanentPrerequisitesMissing}"
  shows "errors_as is_net_error (wrap2 t e) = errors_as is_net_error e"
    and "errors_as is_dns_error (wrap2 t e) = errors_as is_dns_error e"
  using assms by (auto simp: errors_as_def wrap2_def is_net_error_def net_timeout_def is_dns_error_def)

text \<open>A permanent wrapper never changes how the wrapped error is classified as transient.\<close>

lemma IsTransientConnection_permanent_wrap:
  "t \<in> {ErrPermanentConfig, ErrPermanentPrerequisitesMissing} \<Longrightarrow>
     IsTransientConnection (Some (wrap2 t e)) = IsTransientConnection (Some e)"
  by (auto simp: IsTransientConnection_def errors_is_wrap2 net_timeout_wrap2_permanent transientErrnos_def)

lemma IsTransient_permanent_wrap:
  "t \<in> {ErrPermanentConfig, ErrPermanentPrerequisitesMissing} \<Longrightarrow>
     IsTransient (Some (wrap2 t e)) = IsTransient (Some e)"
  by (auto simp: IsTransient_def IsTransientConnection_permanent_wrap IsTransientRemoteOverloaded_def
      IsTransientClusterState_def IsTransientKubernetesAPI_def errors_is_wrap2)

lemma IsPermanent_wrap [simp]:
  "IsPermanent (Some (wrap2 ErrPermanentConfig e))"
  "IsPermanent (Some (wrap2 ErrPermanentPrerequisitesMissing e))"
  by (simp_all add: IsPermanent_def errors_is_wrap2)

lemma ShouldRequeue_permanent_wrap:
  assumes "t \<in> {ErrPermanentConfig, ErrPermanentPrerequisitesMissing}"
  shows "ShouldRequeue (Some (wrap2 t e)) =
    (if IsTransient (Some e) then ShouldRequeue (Some e) else (False, 0))"
  using assms
  by (auto simp: ShouldRequeue_def IsTransient_permanent_wrap IsTransientConnection_permanent_wrap
      IsTransientRemoteOverloaded_def IsTransientClusterState_def IsTransientKubernetesAPI_def
      errors_is_wrap2 IsTransient_def)

lemma errors_as_Reasoned:
  "\<not> P (Reasoned r e) \<Longrightarrow> errors_as P (Reasoned r e) = errors_as P e"
  by (simp add: errors_as_def)

text \<open>A reason does not change how an error is retried.\<close>

lemma ShouldRequeue_Reasoned [simp]: "ShouldRequeue (Some (Reasoned r e)) = ShouldRequeue (Some e)"
  by (simp add: ShouldRequeue_def IsTransient_def IsTransientConnection_def IsTransientRemoteOverloaded_def
      IsTransientClusterState_def IsTransientKubernetesAPI_def IsPermanent_def api_reason_of_def
      api_unexpected_def errors_as_Reasoned is_net_error_def net_timeout_def is_dns_error_def is_api_status_def)

section \<open>Properties\<close>

text \<open>
  How a controller retries is decided by one total rule: a nil error stops, every transient
  error is retried after a positive delay of five or fifteen seconds, a permanent error that is not
  transient stops, and any other error is retried with the controller's own backoff (delay 0).
\<close>

theorem ShouldRequeue_cases:
  "ShouldRequeue err =
     (case err of None \<Rightarrow> (False, 0)
      | Some e \<Rightarrow>
          if IsTransient err
          then (True, if IsTransientRemoteOverloaded err \<and> \<not> IsTransientConnection err
                      then seconds 15 else seconds 5)
          else if IsPermanent err then (False, 0) else (True, 0))"
  by (cases err) (auto simp: ShouldRequeue_def IsTransient_def)

text \<open>
  Marking an error as a permanent configuration error stops the retries of a non-transient
  cause, but never those of a transient one: the transient classification of the cause shows
  through the wrapper, and so does its delay.
\<close>

theorem WrapPermanentConfig_requeue:
  "ShouldRequeue (WrapPermanentConfig (Some e)) =
     (if IsTransient (Some e) then ShouldRequeue (Some e) else (False, 0))"
  by (simp add: WrapPermanentConfig_def ShouldRequeue_permanent_wrap)

end
