(* ===== verification/Api_Types.thy ===== *)
theory Api_Types
  imports Operator_Errors
begin

text \<open>
  The data the upgrade subsystem works on: the parts of the \<open>OpenBaoCluster\<close> resource it reads and
  writes (\<open>api/v1alpha1\<close>), and the fields of Kubernetes objects (Pods, StatefulSets, claims, Jobs) its
  code inspects.  Go string types with an enumerated set of values are datatypes with one constructor
  per constant and one for every other string; the empty string is \<open>Other... []\<close>.  A pointer field is an
  option, a time is an integer number of nanoseconds, a map of strings is an association list read
  with \<open>map_of\<close>.
\<close>

type_synonym time = int
type_synonym labels = "(string \<times> string) list"

text \<open>Reading a missing key of a Go string map gives the empty string.\<close>

definition lookup_label :: "labels \<Rightarrow> string \<Rightarrow> string" where
  "lookup_label m k = (case map_of m k of None \<Rightarrow> [] | Some v \<Rightarrow> v)"

section \<open>Blue/green status\<close>

datatype BlueGreenPhase =
    PhaseIdle
  | PhaseDeployingGreen
  | PhaseJoiningMesh
  | PhaseSyncing
  | PhasePromoting
  | PhaseDemotingBlue
  | PhaseCleanup
  | PhaseRestoringReadReplicas
  | PhaseRollingBack
  | PhaseRollbackCleanup
  | OtherPhase string

datatype BlueGreenValidationHookStage =
    StagePrepared
  | StageCommitted
  | StageCreated
  | StageTerminalObserved
  | StageUnknown
  | OtherStage string

datatype BlueGreenValidationHookResult = ResultSucceeded | ResultFailed | OtherResult string

record BlueGreenValidationHookStatus =
  vhOperationID :: string
  vhGreenRevision :: string
  vhSpecHash :: string
  vhStage :: BlueGreenValidationHookStage
  vhJobName :: string
  vhJobUID :: string
  vhPreparedAt :: "time option"
  vhCommittedAt :: "time option"
  vhCreatedAt :: "time option"
  vhTerminalResult :: BlueGreenValidationHookResult
  vhTerminalObservedAt :: "time option"

record BlueGreenStatus =
  bgPhase :: BlueGreenPhase
  bgOperationID :: string
  bgBlueRevision :: string
  bgBlueControllerRevision :: string
  bgBlueImage :: string
  bgBlueReplicas :: int
  bgGreenImage :: string
  bgGreenVersion :: string
  bgGreenReplicas :: int
  bgGreenRevision :: string
  bgManualPromotionRequired :: bool
  bgStartTime :: "time option"
  bgJobFailureCount :: int
  bgLastJobFailure :: string
  bgPreUpgradeSnapshotJobName :: string
  bgValidationHook :: "BlueGreenValidationHookStatus option"
  bgRollbackReason :: string
  bgRollbackStartTime :: "time option"
  bgRollbackAttempt :: int

text \<open>The zero value of the struct, \<open>&BlueGreenStatus{}\<close>.\<close>

definition emptyBlueGreenStatus :: BlueGreenStatus where
  "emptyBlueGreenStatus = \<lparr> bgPhase = OtherPhase [], bgOperationID = [], bgBlueRevision = [],
     bgBlueControllerRevision = [], bgBlueImage = [], bgBlueReplicas = 0, bgGreenImage = [],
     bgGreenVersion = [], bgGreenReplicas = 0, bgGreenRevision = [],
     bgManualPromotionRequired = False, bgStartTime = None, bgJobFailureCount = 0,
     bgLastJobFailure = [], bgPreUpgradeSnapshotJobName = [], bgValidationHook = None,
     bgRollbackReason = [], bgRollbackStartTime = None, bgRollbackAttempt = 0 \<rparr>"

section \<open>Locks, break glass, progress and requests\<close>

record OperationLockStatus =
  lkOperation :: string
  lkHolder :: string
  lkMessage :: string
  lkAcquiredAt :: "time option"
  lkRenewedAt :: "time option"

datatype BreakGlassReason =
    RollbackConsensusRepairFailed
  | RollbackCleanupPeerRemovalFailed
  | OtherBreakGlassReason string

record BreakGlassStatus =
  gkActive :: bool
  gkReason :: BreakGlassReason
  gkMessage :: string
  gkNonce :: string
  gkEnteredAt :: "time option"
  gkSteps :: "string list"
  gkAcknowledgedAt :: "time option"

record ControllerErrorStatus =
  ceReason :: string
  ceMessage :: string
  ceAt :: "time option"

record UpgradeProgress =
  upTargetVersion :: string
  upFromVersion :: string
  upStartedAt :: "time option"
  upCurrentPartition :: int
  upCompletedPods :: "int list"
  upLastStepDownTime :: "time option"
  upFailure :: "ControllerErrorStatus option"

record UpgradeRequestStatus =
  urLastHandledRetry :: string
  urLastHandledPromote :: string
  urLastHandledRollback :: string

record ReadReplicaStatus =
  rrReadyReplicas :: int
  rrRegisteredReplicas :: int

record Condition =
  cdType :: string
  cdStatus :: string
  cdReason :: string
  cdMessage :: string
  cdObservedGeneration :: int
  cdLastTransitionTime :: time

datatype UpdateStrategyType = RollingUpdate | BlueGreen | OtherStrategy string

section \<open>Backup status\<close>

record BackupSnapshotSummary =
  ssmDigest :: string
  ssmSize :: int
  ssmClusterID :: string
  ssmVersion :: string

record RestoreTestRun =
  tnNamespace :: string
  tnName :: string
  tnKey :: string
  tnStartedAt :: time
  tnUID :: string

datatype RestoreTestOutcome = RestoreTestPassed | RestoreTestFailed | OtherTestOutcome string

record RestoreTestResult =
  trName :: string
  trFinishedAt :: time
  trNamespace :: string
  trKey :: string
  trDigest :: string
  trReason :: string
  trMessage :: string
  trOutcome :: RestoreTestOutcome

record RestoreTestStatus =
  tsActive :: "RestoreTestRun option"
  tsLast :: "RestoreTestResult option"
  tsLastSuccessTime :: "time option"
  tsLastScheduledAt :: "time option"
  tsLastBackupCount :: int
  tsConditions :: "Condition list"

record BackupStatus =
  bkSuccessfulBackups :: int
  bkLatestSnapshot :: "BackupSnapshotSummary option"
  bkRestoreTest :: "RestoreTestStatus option"
  bkLastBackupTime :: "time option"
  bkLastAttemptTime :: "time option"
  bkLastAttemptScheduledTime :: "time option"
  bkLastHandledManualTrigger :: string
  bkLastBackupSize :: int
  bkLastBackupDuration :: string
  bkLastBackupName :: string
  bkNextScheduledBackup :: "time option"
  bkConsecutiveFailures :: int
  bkLastFailureReason :: string
  bkLastFailureMessage :: string
  bkLastFailureTime :: "time option"

record AdminOpsControllerStatus =
  aoLastError :: "ControllerErrorStatus option"

section \<open>Specification\<close>

record RestoreClusterTemplate =
  ctVersion :: string
  ctImage :: string
  ctInitContainer :: "string option"

record RestoreTest =
  tcSchedule :: string
  tcEverySuccessfulBackups :: int
  tcNamespace :: string
  tcClusterTemplate :: RestoreClusterTemplate
  tcCredentialsSecretRef :: "string option"
  tcCleanupAfterSeconds :: int

record ValidationHookConfig =
  hkImage :: string
  hkCommand :: "string list"
  hkArgs :: "string list"
  hkTimeoutSeconds :: "int option"

record VerificationConfig =
  vcMinSyncDuration :: string
  vcPrePromotionHook :: "ValidationHookConfig option"

record AutoRollbackConfig =
  arEnabled :: bool
  arOnJobFailure :: bool
  arOnValidationFailure :: bool

record BlueGreenConfig =
  bcAutoPromote :: bool
  bcVerification :: "VerificationConfig option"
  bcMaxJobFailures :: "int option"
  bcPreUpgradeSnapshot :: bool
  bcAutoRollback :: "AutoRollbackConfig option"

record UpgradeRequestConfig =
  rqRetry :: string
  rqPromote :: string
  rqRollback :: string

record UpgradeConfig =
  ucImage :: string
  ucPreUpgradeSnapshot :: bool
  ucJWTAuthRole :: string
  ucStrategy :: UpdateStrategyType
  ucRequests :: "UpgradeRequestConfig option"
  ucBlueGreen :: "BlueGreenConfig option"

record ImageVerificationConfig =
  ivEnabled :: bool
  ivFailurePolicy :: string

record BackupTarget =
  btProvider :: string
  btEndpoint :: string
  btBucket :: string
  btPathPrefix :: string
  btCredentialsSecretRef :: "string option"
  btWorkloadIdentity :: "(labels \<times> labels) option"
  btRoleARN :: string
  btInsecureSkipVerify :: bool

record BackupRetention =
  brMaxCount :: int
  brMaxAge :: string

record BackupSchedule =
  bsSchedule :: string
  bsTarget :: BackupTarget
  bsJWTAuthRole :: string
  bsTokenSecretRef :: "string option"
  bsRetention :: "BackupRetention option"
  bsImage :: string
  bsRestoreTest :: "RestoreTest option"

record ClusterSpec =
  spVersion :: string
  spImage :: string
  spReplicas :: int
  spUpgrade :: "UpgradeConfig option"
  spReadReplicas :: "int option"
  spBreakGlassAck :: string
  spImageVerification :: "ImageVerificationConfig option"
  spOperatorImageVerification :: "ImageVerificationConfig option"
  spInitContainer :: "string option"
  spPaused :: bool
  spProfile :: string
  spNetworkEgressRules :: "string list option"
  spSelfInit :: "(bool \<times> bool option) option"
  spBackup :: "BackupSchedule option"
  spReconcilePolicies :: bool

record ClusterStatus =
  ssPhase :: string
  ssReadyReplicas :: int
  ssReadReplicas :: "ReadReplicaStatus option"
  ssCurrentVersion :: string
  ssAcceptedUpgradeStrategy :: UpdateStrategyType
  ssInitialized :: bool
  ssActiveLeader :: string
  ssUpgrade :: "UpgradeProgress option"
  ssUpgradeRequests :: "UpgradeRequestStatus option"
  ssBlueGreen :: "BlueGreenStatus option"
  ssOperationLock :: "OperationLockStatus option"
  ssBreakGlass :: "BreakGlassStatus option"
  ssWorkloadLastError :: "ControllerErrorStatus option"
  ssConditions :: "Condition list"
  ssBackup :: "BackupStatus option"
  ssAdminOps :: "AdminOpsControllerStatus option"
  ssPolicyRevisions :: "labels option"

record Cluster =
  clName :: string
  clNamespace :: string
  clUID :: string
  clResourceVersion :: nat
  clGeneration :: int
  clAnnotations :: labels
  clCreationTimestamp :: time
  clDeletionTimestamp :: "time option"
  clSpec :: ClusterSpec
  clStatus :: ClusterStatus

abbreviation blueGreen :: "Cluster \<Rightarrow> BlueGreenStatus option" where
  "blueGreen c \<equiv> ssBlueGreen (clStatus c)"

definition mapStatus :: "(ClusterStatus \<Rightarrow> ClusterStatus) \<Rightarrow> Cluster \<Rightarrow> Cluster" where
  "mapStatus f c = c\<lparr>clStatus := f (clStatus c)\<rparr>"

definition setBlueGreen :: "BlueGreenStatus option \<Rightarrow> Cluster \<Rightarrow> Cluster" where
  "setBlueGreen b = mapStatus (\<lambda>st. st\<lparr>ssBlueGreen := b\<rparr>)"

text \<open>A write through the status pointer; a nil pointer is left alone here, callers test it first.\<close>

definition mapBlueGreen :: "(BlueGreenStatus \<Rightarrow> BlueGreenStatus) \<Rightarrow> Cluster \<Rightarrow> Cluster" where
  "mapBlueGreen f = mapStatus (\<lambda>st. st\<lparr>ssBlueGreen := map_option f (ssBlueGreen st)\<rparr>)"

definition setOperationLock :: "OperationLockStatus option \<Rightarrow> Cluster \<Rightarrow> Cluster" where
  "setOperationLock l = mapStatus (\<lambda>st. st\<lparr>ssOperationLock := l\<rparr>)"

definition setBreakGlass :: "BreakGlassStatus option \<Rightarrow> Cluster \<Rightarrow> Cluster" where
  "setBreakGlass g = mapStatus (\<lambda>st. st\<lparr>ssBreakGlass := g\<rparr>)"

section \<open>Kubernetes objects\<close>

record OwnerReference =
  orAPIVersion :: string
  orKind :: string
  orName :: string
  orUID :: string
  orController :: "bool option"

record ObjectMeta =
  omName :: string
  omNamespace :: string
  omUID :: string
  omResourceVersion :: string
  omGeneration :: int
  omLabels :: labels
  omAnnotations :: labels
  omOwnerReferences :: "OwnerReference list"
  omCreationTimestamp :: time
  omDeletionTimestamp :: "time option"

record ContainerStatus =
  csName :: string
  csWaitingReason :: "string option"
  csTerminatedExitCode :: "int option"
  csTerminatedMessage :: string

record Pod =
  pdMeta :: ObjectMeta
  pdPhase :: string
  pdConditions :: "Condition list"
  pdContainerStatuses :: "ContainerStatus list"
  pdContainers :: "(string \<times> string) list"
  pdClaims :: "string list"
  pdInitContainers :: "string list"
  pdInitContainerStatuses :: "ContainerStatus list"
  pdEphemeralContainers :: "string list"
  pdEphemeralContainerStatuses :: "ContainerStatus list"

record StatefulSet =
  stMeta :: ObjectMeta
  stSpecReplicas :: "int option"
  stTemplateLabels :: labels
  stContainers :: "(string \<times> string) list"
  stOnDelete :: bool
  stPartition :: "int option"
  stObservedGeneration :: int
  stReplicas :: int
  stReadyReplicas :: int
  stCurrentReplicas :: int
  stUpdatedReplicas :: int
  stCurrentRevision :: string
  stUpdateRevision :: string

record PersistentVolumeClaim =
  pvMeta :: ObjectMeta
  pvConditions :: "Condition list"

text \<open>A Job with the parts of its specification the operator sets, and its status.\<close>

record Job =
  jbMeta :: ObjectMeta
  jbBackoffLimit :: int
  jbActiveDeadlineSeconds :: "int option"
  jbImage :: string
  jbCommand :: "string list"
  jbArgs :: "string list"
  jbServiceAccountToken :: bool
  jbRunAsNonRoot :: bool
  jbReadOnlyRootFilesystem :: bool
  jbConditions :: "Condition list"
  jbActive :: int
  jbTerminating :: "int option"
  jbSucceeded :: int
  jbFailed :: int
  jbStartTime :: "time option"
  jbCompletionTime :: "time option"

abbreviation pdName :: "Pod \<Rightarrow> string" where
  "pdName p \<equiv> omName (pdMeta p)"

abbreviation pdLabels :: "Pod \<Rightarrow> labels" where
  "pdLabels p \<equiv> omLabels (pdMeta p)"

text \<open>\<open>meta.FindStatusCondition\<close>: the first condition of the type.\<close>

definition findStatusCondition :: "Condition list \<Rightarrow> string \<Rightarrow> Condition option" where
  "findStatusCondition cs t = find (\<lambda>c. cdType c = t) cs"

text \<open>
  \<open>spSelfInit\<close> holds the flags \<open>selfInit.enabled\<close> and \<open>selfInit.oidc.enabled\<close>; an egress rule is opaque.
  \<open>btWorkloadIdentity\<close> holds the annotations of the service account and the Pod labels; a secret reference is its name.
\<close>

section \<open>A concrete cluster for the witnesses\<close>

definition exampleBackupTarget :: BackupTarget where
  "exampleBackupTarget = \<lparr> btProvider = ''s3'', btEndpoint = ''https://store'', btBucket = ''b'', btPathPrefix = [],
     btCredentialsSecretRef = Some ''creds'', btWorkloadIdentity = None, btRoleARN = [], btInsecureSkipVerify = False \<rparr>"

definition exampleBaseStatus :: ClusterStatus where
  "exampleBaseStatus = \<lparr> ssPhase = ''Running'', ssReadyReplicas = 3, ssReadReplicas = None,
     ssCurrentVersion = ''2.4.0'', ssAcceptedUpgradeStrategy = BlueGreen, ssInitialized = True, ssActiveLeader = [],
     ssUpgrade = None, ssUpgradeRequests = None, ssBlueGreen = None, ssOperationLock = None,
     ssBreakGlass = None, ssWorkloadLastError = None, ssConditions = [], ssBackup = None,
     ssAdminOps = None, ssPolicyRevisions = None \<rparr>"

definition exampleBase :: Cluster where
  "exampleBase = \<lparr> clName = ''bao'', clNamespace = ''ns'', clUID = ''u1'', clResourceVersion = 7, clGeneration = 4,
     clAnnotations = [], clCreationTimestamp = 0, clDeletionTimestamp = None,
     clSpec = \<lparr> spVersion = ''2.4.0'', spImage = ''openbao:2.4.0'', spReplicas = 3, spUpgrade = None,
       spReadReplicas = None, spBreakGlassAck = [], spImageVerification = None,
       spOperatorImageVerification = None, spInitContainer = None, spPaused = False, spProfile = ''Development'',
       spNetworkEgressRules = None, spSelfInit = None, spBackup = None, spReconcilePolicies = False \<rparr>,
     clStatus = exampleBaseStatus \<rparr>"

section \<open>Frame rules of the setters\<close>

lemma mapStatus_sel [simp]:
  "clName (mapStatus f c) = clName c" "clNamespace (mapStatus f c) = clNamespace c"
  "clUID (mapStatus f c) = clUID c" "clSpec (mapStatus f c) = clSpec c"
  "clResourceVersion (mapStatus f c) = clResourceVersion c" "clGeneration (mapStatus f c) = clGeneration c" "clAnnotations (mapStatus f c) = clAnnotations c"
  "clDeletionTimestamp (mapStatus f c) = clDeletionTimestamp c"
  "clStatus (mapStatus f c) = f (clStatus c)"
  by (simp_all add: mapStatus_def)

lemma setBlueGreen_sel [simp]:
  "clName (setBlueGreen b c) = clName c" "clNamespace (setBlueGreen b c) = clNamespace c"
  "clUID (setBlueGreen b c) = clUID c" "clSpec (setBlueGreen b c) = clSpec c"
  "blueGreen (setBlueGreen b c) = b"
  "ssOperationLock (clStatus (setBlueGreen b c)) = ssOperationLock (clStatus c)"
  "ssBreakGlass (clStatus (setBlueGreen b c)) = ssBreakGlass (clStatus c)"
  "ssCurrentVersion (clStatus (setBlueGreen b c)) = ssCurrentVersion (clStatus c)"
  by (simp_all add: setBlueGreen_def)

lemma mapBlueGreen_sel [simp]:
  "clName (mapBlueGreen f c) = clName c" "clNamespace (mapBlueGreen f c) = clNamespace c"
  "clUID (mapBlueGreen f c) = clUID c" "clSpec (mapBlueGreen f c) = clSpec c"
  "blueGreen (mapBlueGreen f c) = map_option f (blueGreen c)"
  "ssOperationLock (clStatus (mapBlueGreen f c)) = ssOperationLock (clStatus c)"
  "ssBreakGlass (clStatus (mapBlueGreen f c)) = ssBreakGlass (clStatus c)"
  "ssCurrentVersion (clStatus (mapBlueGreen f c)) = ssCurrentVersion (clStatus c)"
  "ssAcceptedUpgradeStrategy (clStatus (mapBlueGreen f c)) = ssAcceptedUpgradeStrategy (clStatus c)"
  by (simp_all add: mapBlueGreen_def)

lemma setOperationLock_sel [simp]:
  "clName (setOperationLock l c) = clName c" "clNamespace (setOperationLock l c) = clNamespace c"
  "clUID (setOperationLock l c) = clUID c" "clSpec (setOperationLock l c) = clSpec c"
  "blueGreen (setOperationLock l c) = blueGreen c"
  "ssOperationLock (clStatus (setOperationLock l c)) = l"
  "ssBreakGlass (clStatus (setOperationLock l c)) = ssBreakGlass (clStatus c)"
  "ssCurrentVersion (clStatus (setOperationLock l c)) = ssCurrentVersion (clStatus c)"
  by (simp_all add: setOperationLock_def)

lemma setBreakGlass_sel [simp]:
  "clName (setBreakGlass l c) = clName c" "clNamespace (setBreakGlass l c) = clNamespace c"
  "clUID (setBreakGlass l c) = clUID c" "clSpec (setBreakGlass l c) = clSpec c"
  "blueGreen (setBreakGlass l c) = blueGreen c"
  "ssBreakGlass (clStatus (setBreakGlass l c)) = l"
  "ssOperationLock (clStatus (setBreakGlass l c)) = ssOperationLock (clStatus c)"
  "ssCurrentVersion (clStatus (setBreakGlass l c)) = ssCurrentVersion (clStatus c)"
  by (simp_all add: setBreakGlass_def)

end
