(* ===== verification/Ownership.thy ===== *)
theory Ownership
  imports Api_Types
begin

text \<open>
  Proofs of ownership and the names and labels of managed objects
  (\<open>internal/platform/resourceownership\<close>, \<open>internal/platform/resourceidentity\<close>,
  \<open>internal/service/opslifecycle/job_ownership.go\<close>, \<open>internal/adapter/kube/job.go\<close>,
  \<open>internal/port/openbao/k8slabels.go\<close>).  A \<open>client.Object\<close> is its metadata, nil is \<open>None\<close>.
\<close>

section \<open>Group, version and kind\<close>

record GroupVersionKind =
  gvkGroup :: string
  gvkVersion :: string
  gvkKind :: string

definition gvk_empty :: "GroupVersionKind \<Rightarrow> bool" where
  "gvk_empty g \<longleftrightarrow> gvkGroup g = [] \<and> gvkVersion g = [] \<and> gvkKind g = []"

definition groupVersionString :: "GroupVersionKind \<Rightarrow> string" where
  "groupVersionString g = (if gvkGroup g \<noteq> [] then gvkGroup g @ ''/'' @ gvkVersion g else gvkVersion g)"

text \<open>The group part of \<open>schema.ParseGroupVersion\<close>; more than one slash is an error.\<close>

definition parseGroup :: "string \<Rightarrow> string option" where
  "parseGroup gv =
     (if gv = [] \<or> gv = ''/'' then Some []
      else if count_list gv (CHR ''/'') = 0 then Some []
      else if count_list gv (CHR ''/'') = 1 then Some (takeWhile (\<lambda>c. c \<noteq> CHR ''/'') gv)
      else None)"

definition openBaoClusterGVK :: GroupVersionKind where
  "openBaoClusterGVK = \<lparr> gvkGroup = ''openbao.org'', gvkVersion = ''v1alpha1'', gvkKind = ''OpenBaoCluster'' \<rparr>"

section \<open>Ownership proofs\<close>

definition AnnotationOpenBaoOwnerUID :: string where
  "AnnotationOpenBaoOwnerUID = ''openbao.org/owner-uid''"

definition is_controller_ref :: "OwnerReference \<Rightarrow> bool" where
  "is_controller_ref r \<longleftrightarrow> orController r = Some True"

text \<open>\<open>metav1.GetControllerOfNoCopy\<close>: the first reference marked as controller.\<close>

definition getControllerOf :: "ObjectMeta \<Rightarrow> OwnerReference option" where
  "getControllerOf obj = find is_controller_ref (omOwnerReferences obj)"

definition HasControllerOwnerReference :: "ObjectMeta option \<Rightarrow> ObjectMeta option \<Rightarrow> bool" where
  "HasControllerOwnerReference obj owner = (case (obj, owner) of
      (Some ob, Some ow) \<Rightarrow>
        (if omUID ow = [] then False
         else list_ex (\<lambda>r. is_controller_ref r \<and> orUID r = omUID ow) (omOwnerReferences ob))
    | _ \<Rightarrow> False)"

definition HasOwnerUIDAnnotation :: "ObjectMeta option \<Rightarrow> ObjectMeta option \<Rightarrow> bool" where
  "HasOwnerUIDAnnotation obj owner = (case (obj, owner) of
      (Some ob, Some ow) \<Rightarrow>
        omUID ow \<noteq> [] \<and> lookup_label (omAnnotations ob) AnnotationOpenBaoOwnerUID = omUID ow
    | _ \<Rightarrow> False)"

definition HasOwnerProof :: "ObjectMeta option \<Rightarrow> ObjectMeta option \<Rightarrow> bool" where
  "HasOwnerProof obj owner \<longleftrightarrow> HasControllerOwnerReference obj owner \<or> HasOwnerUIDAnnotation obj owner"

definition HasManagedControllerOwnerProof ::
    "ObjectMeta option \<Rightarrow> ObjectMeta option \<Rightarrow> GroupVersionKind \<Rightarrow> bool" where
  "HasManagedControllerOwnerProof obj owner gvk = (case (obj, owner) of
      (Some ob, Some ow) \<Rightarrow>
        (if omUID ow = [] \<or> gvk_empty gvk then False
         else if omNamespace ob \<noteq> omNamespace ow then False
         else case getControllerOf ob of
             None \<Rightarrow> False
           | Some r \<Rightarrow>
               if orAPIVersion r \<noteq> groupVersionString gvk \<or> orKind r \<noteq> gvkKind gvk
                  \<or> orName r \<noteq> omName ow \<or> orUID r \<noteq> omUID ow
               then False else HasOwnerUIDAnnotation obj owner)
    | _ \<Rightarrow> False)"

definition setAnnotation :: "string \<Rightarrow> string \<Rightarrow> labels \<Rightarrow> labels" where
  "setAnnotation k v m = (k, v) # filter (\<lambda>p. fst p \<noteq> k) m"

definition SetOwnerUIDAnnotation :: "ObjectMeta \<Rightarrow> ObjectMeta option \<Rightarrow> go_error + ObjectMeta" where
  "SetOwnerUIDAnnotation obj owner = (case owner of
      None \<Rightarrow> Inl (errorf ''owner is required'')
    | Some ow \<Rightarrow>
        if omUID ow = [] then Inr obj
        else Inr (obj\<lparr>omAnnotations := setAnnotation AnnotationOpenBaoOwnerUID (omUID ow) (omAnnotations obj)\<rparr>))"

definition RequireOwnerUID :: "ObjectMeta option \<Rightarrow> go_error option" where
  "RequireOwnerUID owner = (case owner of
      None \<Rightarrow> Some (errorf ''owner is required'')
    | Some ow \<Rightarrow> if omUID ow = [] then Some (errorf ''owner UID is required'') else None)"

definition RequireOwnerProof :: "string \<Rightarrow> string \<Rightarrow> ObjectMeta option \<Rightarrow> ObjectMeta option \<Rightarrow> go_error option" where
  "RequireOwnerProof action kind obj owner =
     (if HasOwnerProof obj owner then None
      else Some (errorf (trim_space action @ '' '' @ kind @ '' ''
        @ (case obj of None \<Rightarrow> ''/'' | Some ob \<Rightarrow> omNamespace ob @ ''/'' @ omName ob)
        @ '' requires OpenBaoCluster owner proof'')))"

definition RequireManagedControllerOwnerProof ::
    "string \<Rightarrow> string \<Rightarrow> ObjectMeta option \<Rightarrow> ObjectMeta option \<Rightarrow> GroupVersionKind \<Rightarrow> go_error option" where
  "RequireManagedControllerOwnerProof action kind obj owner gvk =
     (if HasManagedControllerOwnerProof obj owner gvk then None
      else Some (errorf (trim_space action @ '' '' @ kind @ '' ''
        @ (case obj of None \<Rightarrow> ''/'' | Some ob \<Rightarrow> omNamespace ob @ ''/'' @ omName ob)
        @ '' requires managed controller owner '' @ gvkKind gvk @ '' ''
        @ (case owner of None \<Rightarrow> ''/'' | Some ow \<Rightarrow> omNamespace ow @ ''/'' @ omName ow)
        @ '' with UID '' @ (case owner of None \<Rightarrow> [] | Some ow \<Rightarrow> omUID ow))))"

section \<open>Managed Jobs\<close>

text \<open>\<open>controllerutil.SetControllerReference\<close> for an owner registered in the scheme under \<open>gvk\<close>.\<close>

definition referSameObject :: "OwnerReference \<Rightarrow> OwnerReference \<Rightarrow> bool" where
  "referSameObject a b = (case (parseGroup (orAPIVersion a), parseGroup (orAPIVersion b)) of
      (Some ga, Some gb) \<Rightarrow> ga = gb \<and> orKind a = orKind b \<and> orName a = orName b
    | _ \<Rightarrow> False)"

fun upsertOwnerRef :: "OwnerReference \<Rightarrow> OwnerReference list \<Rightarrow> OwnerReference list" where
  "upsertOwnerRef ref [] = [ref]"
| "upsertOwnerRef ref (r # rs) = (if referSameObject r ref then ref # rs else r # upsertOwnerRef ref rs)"

definition controllerRef :: "ObjectMeta \<Rightarrow> GroupVersionKind \<Rightarrow> OwnerReference" where
  "controllerRef owner gvk = \<lparr> orAPIVersion = groupVersionString gvk, orKind = gvkKind gvk,
     orName = omName owner, orUID = omUID owner, orController = Some True \<rparr>"

definition SetControllerReference ::
    "ObjectMeta \<Rightarrow> GroupVersionKind \<Rightarrow> ObjectMeta \<Rightarrow> go_error + ObjectMeta" where
  "SetControllerReference owner gvk obj =
     (if omNamespace owner \<noteq> [] \<and> omNamespace obj = []
      then Inl (errorf ''cluster-scoped resource must not have a namespace-scoped owner'')
      else if omNamespace owner \<noteq> [] \<and> omNamespace owner \<noteq> omNamespace obj
      then Inl (errorf ''cross-namespace owner references are disallowed'')
      else let ref = controllerRef owner gvk in
        (case getControllerOf obj of
           Some existing \<Rightarrow>
             if \<not> referSameObject existing ref then Inl (errorf ''Object is already owned by another controller'')
             else Inr (obj\<lparr>omOwnerReferences := upsertOwnerRef ref (omOwnerReferences obj)\<rparr>)
         | None \<Rightarrow> Inr (obj\<lparr>omOwnerReferences := upsertOwnerRef ref (omOwnerReferences obj)\<rparr>)))"

definition PrepareManagedJobOwner ::
    "Job option \<Rightarrow> ObjectMeta option \<Rightarrow> GroupVersionKind option \<Rightarrow> go_error + Job" where
  "PrepareManagedJobOwner job owner scheme = (case job of
      None \<Rightarrow> Inl (errorf ''job is required'')
    | Some j \<Rightarrow>
      (case scheme of
         None \<Rightarrow> Inl (errorf ''scheme is required'')
       | Some gvk \<Rightarrow>
         (case RequireOwnerUID owner of
            Some e \<Rightarrow> Inl e
          | None \<Rightarrow>
            (case SetControllerReference (the owner) gvk (jbMeta j) of
               Inl e \<Rightarrow> Inl (wrapf ''failed to set controller reference'' e)
             | Inr m \<Rightarrow>
               (case SetOwnerUIDAnnotation m owner of
                  Inl e \<Rightarrow> Inl (wrapf ''failed to set owner UID annotation'' e)
                | Inr m' \<Rightarrow> Inr (j\<lparr>jbMeta := m'\<rparr>))))))"

definition RequireManagedJobOwner ::
    "string \<Rightarrow> Job option \<Rightarrow> ObjectMeta option \<Rightarrow> GroupVersionKind \<Rightarrow> go_error option" where
  "RequireManagedJobOwner action job owner gvk =
     RequireManagedControllerOwnerProof action ''resource'' (map_option jbMeta job) owner gvk"

text \<open>\<open>get\<close> is the reader's Get; a nil reader is \<open>None\<close>.\<close>

definition ReadManagedJob ::
    "('k \<Rightarrow> ('s, Job) run) option \<Rightarrow> 'k \<Rightarrow> ObjectMeta option \<Rightarrow> GroupVersionKind \<Rightarrow> string
       \<Rightarrow> ('s, Job) run" where
  "ReadManagedJob reader key owner gvk action = (case reader of
      None \<Rightarrow> failwith (errorf ''reader is required'')
    | Some get \<Rightarrow> bnd (get key) (\<lambda>job.
        case RequireManagedJobOwner action (Some job) owner gvk of
          Some e \<Rightarrow> failwith e
        | None \<Rightarrow> ret job))"

definition JobSucceeded :: "Job option \<Rightarrow> bool" where
  "JobSucceeded job = (case job of None \<Rightarrow> False
     | Some j \<Rightarrow>
         if list_ex (\<lambda>c. cdType c = ''Complete'' \<and> cdStatus c = ''True'') (jbConditions j) then True
         else jbSucceeded j > 0)"

definition JobFailed :: "Job option \<Rightarrow> bool" where
  "JobFailed job = (case job of None \<Rightarrow> False
     | Some j \<Rightarrow>
         if list_ex (\<lambda>c. cdType c = ''Failed'' \<and> cdStatus c = ''True'') (jbConditions j) then True
         else jbFailed j > 0 \<and> jbActive j = 0 \<and> jbSucceeded j = 0)"

section \<open>Labels\<close>

text \<open>Answers \<open>(value, present)\<close>, or an error for a value that is neither true nor false.\<close>

definition ParseBoolLabel :: "labels \<Rightarrow> string \<Rightarrow> go_error + bool \<times> bool" where
  "ParseBoolLabel labels key = (case map_of labels key of
      None \<Rightarrow> Inr (False, False)
    | Some raw \<Rightarrow>
        (let value = trim_space raw in
         if value = [] then Inr (False, False)
         else if to_lower value = ''true'' then Inr (True, True)
         else if to_lower value = ''false'' then Inr (False, True)
         else Inl (errorf (''invalid boolean label value '' @ value @ '' for '' @ key @ '' (expected true/false)''))))"

definition LabelAppName :: string where "LabelAppName = ''app.kubernetes.io/name''"
definition LabelAppInstance :: string where "LabelAppInstance = ''app.kubernetes.io/instance''"
definition LabelAppManagedBy :: string where "LabelAppManagedBy = ''app.kubernetes.io/managed-by''"
definition LabelOpenBaoCluster :: string where "LabelOpenBaoCluster = ''openbao.org/cluster''"
definition LabelOpenBaoRevision :: string where "LabelOpenBaoRevision = ''openbao.org/revision''"
definition LabelOpenBaoWorkloadPool :: string where "LabelOpenBaoWorkloadPool = ''openbao.org/workload-pool''"

definition Labels :: "Cluster \<Rightarrow> labels" where
  "Labels cluster =
     [(LabelAppName, ''openbao''), (LabelAppInstance, clName cluster),
      (LabelAppManagedBy, ''openbao-operator''), (LabelOpenBaoCluster, clName cluster)]"

definition PodSelectorLabelsForPoolWithRevision :: "Cluster \<Rightarrow> string \<Rightarrow> string \<Rightarrow> labels" where
  "PodSelectorLabelsForPoolWithRevision cluster pool revision =
     Labels cluster
     @ (if pool \<noteq> [] then [(LabelOpenBaoWorkloadPool, pool)] else [])
     @ (if revision \<noteq> [] then [(LabelOpenBaoRevision, revision)] else [])"

definition PodSelectorLabels :: "Cluster \<Rightarrow> labels" where
  "PodSelectorLabels cluster = PodSelectorLabelsForPoolWithRevision cluster [] []"

definition VoterPodSelectorLabelsWithRevision :: "Cluster \<Rightarrow> string \<Rightarrow> labels" where
  "VoterPodSelectorLabelsWithRevision cluster revision =
     PodSelectorLabelsForPoolWithRevision cluster ''voter'' revision"

definition ReadReplicaPodSelectorLabels :: "Cluster \<Rightarrow> labels" where
  "ReadReplicaPodSelectorLabels cluster = PodSelectorLabelsForPoolWithRevision cluster ''read-replica'' []"

definition ConfigMapNameWithRevision :: "Cluster \<Rightarrow> string \<Rightarrow> string" where
  "ConfigMapNameWithRevision cluster revision =
     (if revision = [] then clName cluster @ ''-config'' else clName cluster @ ''-config'' @ ''-'' @ revision)"

definition ReadReplicaStatefulSetName :: "Cluster \<Rightarrow> string" where
  "ReadReplicaStatefulSetName cluster = clName cluster @ ''-read''"

text \<open>The metadata of the cluster resource, as an owner.\<close>

definition clusterMeta :: "Cluster \<Rightarrow> ObjectMeta" where
  "clusterMeta c = \<lparr> omName = clName c, omNamespace = clNamespace c, omUID = clUID c,
     omResourceVersion = nat_str (clResourceVersion c), omGeneration = 0, omLabels = [],
     omAnnotations = clAnnotations c, omOwnerReferences = [], omCreationTimestamp = clCreationTimestamp c,
     omDeletionTimestamp = clDeletionTimestamp c \<rparr>"

abbreviation owned :: "ObjectMeta \<Rightarrow> Cluster \<Rightarrow> bool" where
  "owned m c \<equiv> HasOwnerProof (Some m) (Some (clusterMeta c))"

text \<open>\<open>client.MatchingLabels\<close>: every selector entry is a label of the object.\<close>

definition labelsMatch :: "labels \<Rightarrow> labels \<Rightarrow> bool" where
  "labelsMatch sel ls \<longleftrightarrow> list_all (\<lambda>(k, v). map_of ls k = Some v) sel"

text \<open>A concrete owner and Job for the witnesses.\<close>

definition exampleMeta :: ObjectMeta where
  "exampleMeta = \<lparr> omName = ''c'', omNamespace = ''ns'', omUID = ''u1'', omResourceVersion = ''1'',
     omGeneration = 1, omLabels = [], omAnnotations = [], omOwnerReferences = [], omCreationTimestamp = 0,
     omDeletionTimestamp = None \<rparr>"

definition exampleJob :: Job where
  "exampleJob = \<lparr> jbMeta = exampleMeta, jbBackoffLimit = 0, jbActiveDeadlineSeconds = None, jbImage = [],
     jbCommand = [], jbArgs = [], jbServiceAccountToken = False, jbRunAsNonRoot = True,
     jbReadOnlyRootFilesystem = True, jbConditions = [], jbActive = 0, jbTerminating = None, jbSucceeded = 0, jbFailed = 0, jbStartTime = None, jbCompletionTime = None \<rparr>"

section \<open>Lemmas\<close>

lemma setAnnotation_lookup [simp]: "lookup_label (setAnnotation k v m) k = v"
  by (simp add: setAnnotation_def lookup_label_def)

lemma map_of_filter_key: "k' \<noteq> k \<Longrightarrow> map_of (filter (\<lambda>p. fst p \<noteq> k) m) k' = map_of m k'"
  by (induction m) auto

lemma setAnnotation_other [simp]: "k' \<noteq> k \<Longrightarrow> lookup_label (setAnnotation k v m) k' = lookup_label m k'"
  by (simp add: setAnnotation_def lookup_label_def map_of_filter_key)

text \<open>Upserting a controller reference makes it the controller unless a foreign one precedes it.\<close>

lemma find_upsert:
  assumes "orController ref = Some True"
    and "find is_controller_ref rs = None \<or> (\<exists>r. find is_controller_ref rs = Some r \<and> referSameObject r ref)"
  shows "find is_controller_ref (upsertOwnerRef ref rs) = Some ref"
  using assms
  by (induction rs) (auto simp: is_controller_ref_def split: if_splits)

lemma SetControllerReference_ok:
  assumes "SetControllerReference ow gvk ob = Inr m"
  shows "getControllerOf m = Some (controllerRef ow gvk)"
    and "omNamespace ow \<noteq> [] \<Longrightarrow> omNamespace m = omNamespace ow"
    and "omAnnotations m = omAnnotations ob" and "omNamespace m = omNamespace ob"
proof -
  have ref: "orController (controllerRef ow gvk) = Some True" by (simp add: controllerRef_def)
  show "getControllerOf m = Some (controllerRef ow gvk)"
    using assms by (auto simp: SetControllerReference_def Let_def getControllerOf_def
        intro!: find_upsert ref split: if_splits option.splits)
  show "omNamespace ow \<noteq> [] \<Longrightarrow> omNamespace m = omNamespace ow"
    "omAnnotations m = omAnnotations ob" "omNamespace m = omNamespace ob"
    using assms by (auto simp: SetControllerReference_def Let_def split: if_splits option.splits)
qed

lemma not_both_terminal:
  "jbConditions j = [] \<Longrightarrow> 0 \<le> jbSucceeded j \<Longrightarrow> \<not> (JobSucceeded (Some j) \<and> JobFailed (Some j))"
  by (auto simp: JobSucceeded_def JobFailed_def)

lemma wp_ReadManagedJob [wps]:
  "wp (ReadManagedJob (Some get) key owner gvk action) Q E s =
     wp (get key) (\<lambda>job t. case RequireManagedJobOwner action (Some job) owner gvk of
        Some e \<Rightarrow> E e t | None \<Rightarrow> Q job t) E s"
  by (auto simp: ReadManagedJob_def wp_def bnd_def failwith_def ret_def split: prod.split sum.split option.split)

section \<open>Properties\<close>

text \<open>
  A Job stamped by \<open>PrepareManagedJobOwner\<close> carries the managed ownership proof that
  \<open>ReadManagedJob\<close> later demands, whatever references and annotations it had before: stamping and
  checking agree.
\<close>

theorem prepared_job_is_managed:
  assumes "PrepareManagedJobOwner (Some j) (Some ow) (Some gvk) = Inr j'"
    and "omNamespace ow \<noteq> []" and "\<not> gvk_empty gvk"
  shows "RequireManagedJobOwner action (Some j') (Some ow) gvk = None"
proof -
  from assms(1) obtain m where uid: "omUID ow \<noteq> []"
    and m: "SetControllerReference ow gvk (jbMeta j) = Inr m"
    and j': "j' = j\<lparr>jbMeta := m\<lparr>omAnnotations :=
        setAnnotation AnnotationOpenBaoOwnerUID (omUID ow) (omAnnotations m)\<rparr>\<rparr>"
    by (auto simp: PrepareManagedJobOwner_def RequireOwnerUID_def SetOwnerUIDAnnotation_def
        split: if_splits sum.splits)
  from SetControllerReference_ok [OF m] assms(2,3) uid show ?thesis
    by (simp add: j' RequireManagedJobOwner_def RequireManagedControllerOwnerProof_def
        HasManagedControllerOwnerProof_def getControllerOf_def controllerRef_def HasOwnerUIDAnnotation_def)
qed

theorem prepared_job_is_managed_witness:
  "\<exists>j'. PrepareManagedJobOwner (Some exampleJob) (Some exampleMeta) (Some openBaoClusterGVK) = Inr j'
     \<and> RequireManagedJobOwner ''run'' (Some j') (Some exampleMeta) openBaoClusterGVK = None"
proof -
  have "\<not> isl (PrepareManagedJobOwner (Some exampleJob) (Some exampleMeta) (Some openBaoClusterGVK))"
    by code_simp
  then obtain j' where j: "PrepareManagedJobOwner (Some exampleJob) (Some exampleMeta) (Some openBaoClusterGVK) = Inr j'"
    by (auto simp: isl_def) (metis sum.exhaust)
  show ?thesis
    using j prepared_job_is_managed [OF j, of "''run''"]
    by (auto simp: exampleMeta_def openBaoClusterGVK_def gvk_empty_def)
qed

end
