(* ===== verification/Operation_Lock.thy ===== *)
theory Operation_Lock
  imports Ownership
begin

text \<open>
  The operation lock of a cluster: a field of its status that at most one long-running operation
  holds (\<open>internal/service/opslifecycle/lock.go\<close>), written by an optimistic status patch that repeats
  on a resource-version conflict (\<open>internal/platform/statusapply/openbaocluster_operationlock.go\<close>), and
  the lock of the upgrade flow built on it (\<open>internal/service/upgrade/core/lock.go\<close>).

  The API server is a parameter (\<open>lock_api\<close>).  \<open>server\<close> is a concrete one in which other
  clients write the status of the same object between any two calls; the theorems about lost
  updates are proved against it.
\<close>

section \<open>Lock identities\<close>

record OperationLock =
  olHolder :: string
  olOperation :: string

record AcquireOptions =
  aoMessage :: string
  aoForce :: bool
  aoForceIf :: "(OperationLockStatus \<Rightarrow> bool) option"

record AcquireResult =
  arsPreviousLock :: "OperationLockStatus option"
  arsForced :: bool

definition IsHeldBy :: "OperationLock \<Rightarrow> OperationLockStatus option \<Rightarrow> bool" where
  "IsHeldBy l lock = (case lock of None \<Rightarrow> False
     | Some k \<Rightarrow> lkOperation k = olOperation l \<and> lkHolder k = olHolder l)"

definition newOperationLockStatus :: "OperationLock \<Rightarrow> string \<Rightarrow> time \<Rightarrow> OperationLockStatus" where
  "newOperationLockStatus lock message now = \<lparr> lkOperation = olOperation lock, lkHolder = olHolder lock,
     lkMessage = message, lkAcquiredAt = Some now, lkRenewedAt = Some now \<rparr>"

definition heldErrorFor :: "OperationLockStatus \<Rightarrow> go_error" where
  "heldErrorFor lock = HeldError (lkOperation lock) (lkHolder lock) (lkMessage lock)"

definition is_held_error :: "go_error \<Rightarrow> bool" where
  "is_held_error e = (case e of HeldError _ _ _ \<Rightarrow> True | _ \<Rightarrow> False)"

definition IsLockHeld :: "go_error option \<Rightarrow> bool" where
  "IsLockHeld err = (case err of None \<Rightarrow> False | Some e \<Rightarrow> errors_is ErrLockHeld e)"

definition AsHeldError :: "go_error \<Rightarrow> go_error option" where
  "AsHeldError e = errors_as is_held_error e"

definition AddHeldAuditFields :: "labels \<Rightarrow> go_error \<Rightarrow> labels" where
  "AddHeldAuditFields flds err = (case AsHeldError err of
      Some (HeldError opn holder _) \<Rightarrow>
        setAnnotation ''held_by_holder'' holder (setAnnotation ''held_by_operation'' opn flds)
    | _ \<Rightarrow> flds)"

section \<open>Optimistic status patches\<close>

text \<open>
  \<open>la_reader\<close> is the dedicated reader (nil falls back to the client's Get \<open>la_get\<close>); \<open>la_patch\<close> is
  \<open>Status().Patch\<close> of the lock field with the read object as optimistic base, which answers the
  object the server stored; \<open>la_now\<close> reads the clock.
\<close>

record 'w lock_api =
  la_reader :: "(string \<Rightarrow> string \<Rightarrow> ('w, Cluster) run) option"
  la_get :: "string \<Rightarrow> string \<Rightarrow> ('w, Cluster) run"
  la_patch :: "Cluster \<Rightarrow> OperationLockStatus option \<Rightarrow> ('w, Cluster) run"
  la_now :: "'w \<Rightarrow> time"

text \<open>\<open>retry.RetryOnConflict\<close>: at most \<open>n\<close> attempts, the last conflict is returned.\<close>

fun retryOnConflict :: "nat \<Rightarrow> ('w, 'a) run \<Rightarrow> ('w, 'a) run" where
  "retryOnConflict 0 m w = (Inl (errorf ''timed out waiting for the condition''), w)"
| "retryOnConflict (Suc n) m w = (case m w of
     (Inr a, w') \<Rightarrow> (Inr a, w')
   | (Inl e, w') \<Rightarrow> if is_conflict e \<and> n \<noteq> 0 then retryOnConflict n m w' else (Inl e, w'))"

definition DefaultRetrySteps :: nat where
  "DefaultRetrySteps = 5"

definition lockAttempt ::
    "'w lock_api \<Rightarrow> string \<Rightarrow> string \<Rightarrow> (time \<Rightarrow> Cluster \<Rightarrow> go_error + Cluster \<times> 'r) \<Rightarrow> ('w, Cluster \<times> 'r) run" where
  "lockAttempt api ns name mutate =
     bnd (wrap_err (wrapf ''failed to get cluster before operation lock status patch'')
       ((case la_reader api of Some g \<Rightarrow> g | None \<Rightarrow> la_get api) ns name)) (\<lambda>current.
     bnd (gets (la_now api)) (\<lambda>now.
     bnd (lift_res (mutate now current)) (\<lambda>(desired, r).
       if ssOperationLock (clStatus current) = ssOperationLock (clStatus desired) then ret (desired, r)
       else bnd (la_patch api current (ssOperationLock (clStatus desired))) (\<lambda>patched. ret (patched, r)))))"

definition MutateAndPatchLockStatus ::
    "'w lock_api \<Rightarrow> string \<Rightarrow> string \<Rightarrow> (time \<Rightarrow> Cluster \<Rightarrow> go_error + Cluster \<times> 'r) \<Rightarrow> ('w, Cluster \<times> 'r) run" where
  "MutateAndPatchLockStatus api ns name mutate =
     (if name = [] then failwith (errorf ''cluster name is required'')
      else wrap_err (wrapf ''failed to mutate operation lock status'')
             (retryOnConflict DefaultRetrySteps (lockAttempt api ns name mutate)))"

definition mutateOperationLockStatus ::
    "'w lock_api \<Rightarrow> Cluster \<Rightarrow> (time \<Rightarrow> Cluster \<Rightarrow> go_error + Cluster \<times> 'r) \<Rightarrow> ('w, Cluster \<times> 'r) run" where
  "mutateOperationLockStatus api cluster mutate =
     bnd (wrap_err (wrapf ''failed to patch operation lock status'')
            (MutateAndPatchLockStatus api (clNamespace cluster) (clName cluster) mutate))
       (\<lambda>(updated, r). ret
          (setOperationLock (ssOperationLock (clStatus updated))
             (cluster\<lparr>clResourceVersion := clResourceVersion updated\<rparr>), r))"

section \<open>Acquire and release\<close>

definition acquireMutator ::
    "OperationLock \<Rightarrow> AcquireOptions \<Rightarrow> time \<Rightarrow> Cluster \<Rightarrow> go_error + Cluster \<times> AcquireResult" where
  "acquireMutator lock opts now obj =
     (let current = ssOperationLock (clStatus obj);
          result = \<lparr> arsPreviousLock = current, arsForced = False \<rparr>
      in case current of
           None \<Rightarrow> Inr (setOperationLock (Some (newOperationLockStatus lock (aoMessage opts) now)) obj, result)
         | Some k \<Rightarrow>
             if IsHeldBy lock current
             then Inr (setOperationLock (Some (k\<lparr>lkMessage := aoMessage opts, lkRenewedAt := Some now,
                         lkAcquiredAt := (if lkAcquiredAt k = None then Some now else lkAcquiredAt k)\<rparr>)) obj,
                       result)
             else if aoForce opts \<or> (case aoForceIf opts of Some f \<Rightarrow> f k | None \<Rightarrow> False)
             then Inr (setOperationLock (Some (newOperationLockStatus lock (aoMessage opts) now)) obj,
                       result\<lparr>arsForced := True\<rparr>)
             else Inl (heldErrorFor k))"

definition releaseMutator :: "OperationLock \<Rightarrow> time \<Rightarrow> Cluster \<Rightarrow> go_error + Cluster \<times> unit" where
  "releaseMutator lock now obj = (case ssOperationLock (clStatus obj) of
      None \<Rightarrow> Inr (obj, ())
    | Some k \<Rightarrow> if \<not> IsHeldBy lock (Some k) then Inl (heldErrorFor k)
                else Inr (setOperationLock None obj, ()))"

definition AcquireWithReaderResult ::
    "'w lock_api \<Rightarrow> Cluster option \<Rightarrow> OperationLock \<Rightarrow> AcquireOptions \<Rightarrow> ('w, Cluster \<times> AcquireResult) run" where
  "AcquireWithReaderResult api cluster lock opts = (case cluster of
      None \<Rightarrow> failwith (errorf ''cluster is required'')
    | Some c \<Rightarrow>
        if olHolder lock = [] then failwith (errorf ''holder is required'')
        else if olOperation lock = [] then failwith (errorf ''operation is required'')
        else mutateOperationLockStatus api c (acquireMutator lock opts))"

definition AcquireWithReader ::
    "'w lock_api \<Rightarrow> Cluster option \<Rightarrow> OperationLock \<Rightarrow> AcquireOptions \<Rightarrow> ('w, Cluster) run" where
  "AcquireWithReader api cluster lock opts =
     bnd (AcquireWithReaderResult api cluster lock opts) (\<lambda>(c, _). ret c)"

definition ReleaseWithReader :: "'w lock_api \<Rightarrow> Cluster option \<Rightarrow> OperationLock \<Rightarrow> ('w, Cluster) run" where
  "ReleaseWithReader api cluster lock = (case cluster of
      None \<Rightarrow> failwith (errorf ''cluster is required'')
    | Some c \<Rightarrow>
        if olHolder lock = [] then failwith (errorf ''holder is required'')
        else if olOperation lock = [] then failwith (errorf ''operation is required'')
        else bnd (mutateOperationLockStatus api c (releaseMutator lock)) (\<lambda>(c', _). ret c'))"

section \<open>The upgrade lock\<close>

definition upgradeOperationLock :: OperationLock where
  "upgradeOperationLock = \<lparr> olHolder = ''openbaocluster/upgrade'', olOperation = ''Upgrade'' \<rparr>"

definition IsUpgradeOperationLockHeldByUs :: "OperationLockStatus option \<Rightarrow> bool" where
  "IsUpgradeOperationLockHeldByUs lock = IsHeldBy upgradeOperationLock lock"

definition AcquireUpgradeOperationLock :: "'w lock_api \<Rightarrow> Cluster option \<Rightarrow> string \<Rightarrow> ('w, Cluster) run" where
  "AcquireUpgradeOperationLock api cluster message = (case cluster of
      None \<Rightarrow> failwith (errorf ''cluster is required'')
    | Some c \<Rightarrow> AcquireWithReader api cluster upgradeOperationLock
        \<lparr> aoMessage = message, aoForce = False, aoForceIf = None \<rparr>)"

definition ReleaseUpgradeOperationLock :: "'w lock_api \<Rightarrow> Cluster option \<Rightarrow> ('w, Cluster) run" where
  "ReleaseUpgradeOperationLock api cluster = (case cluster of
      None \<Rightarrow> failwith (errorf ''cluster is required'')
    | Some c \<Rightarrow> ReleaseWithReader api cluster upgradeOperationLock)"

definition upgradeLockAuditFields :: "Cluster option \<Rightarrow> labels" where
  "upgradeLockAuditFields cluster = (case cluster of
      None \<Rightarrow> [(''operation'', ''Upgrade''), (''holder'', ''openbaocluster/upgrade'')]
    | Some c \<Rightarrow> [(''cluster_namespace'', clNamespace c), (''cluster_name'', clName c),
                 (''operation'', ''Upgrade''), (''holder'', ''openbaocluster/upgrade'')])"

text \<open>
  The audit log is the second parameter.  The answer is the in-memory cluster and, when another
  operation holds the lock, the error that says so (\<open>LockAcquireResult\<close> with \<open>Blocked\<close> set).
\<close>

definition AcquireUpgradeLock ::
    "'w lock_api \<Rightarrow> (string \<Rightarrow> labels \<Rightarrow> ('w, unit) run) \<Rightarrow> Cluster \<Rightarrow> string
       \<Rightarrow> ('w, Cluster \<times> go_error option) run" where
  "AcquireUpgradeLock api audit cluster message =
     (let lockHeldByUs = IsUpgradeOperationLockHeldByUs (ssOperationLock (clStatus cluster)) in
      bnd (attempt (AcquireUpgradeOperationLock api (Some cluster) message)) (\<lambda>r. case r of
        Inl err \<Rightarrow>
          if \<not> IsLockHeld (Some err) then failwith err
          else bnd (audit ''OperationLockBlocked'' (AddHeldAuditFields (upgradeLockAuditFields (Some cluster)) err))
                 (\<lambda>_. ret (cluster, Some err))
      | Inr c \<Rightarrow>
          if \<not> lockHeldByUs
          then bnd (audit ''OperationLockAcquired'' (upgradeLockAuditFields (Some c))) (\<lambda>_. ret (c, None))
          else ret (c, None)))"

definition ReleaseUpgradeLockIfHeld ::
    "'w lock_api \<Rightarrow> (string \<Rightarrow> labels \<Rightarrow> ('w, unit) run) \<Rightarrow> Cluster option \<Rightarrow> ('w, Cluster) run" where
  "ReleaseUpgradeLockIfHeld api audit cluster = (case cluster of
      None \<Rightarrow> failwith (errorf ''cluster is required'')
    | Some c \<Rightarrow>
        if \<not> IsUpgradeOperationLockHeldByUs (ssOperationLock (clStatus c)) then ret c
        else bnd (attempt (ReleaseUpgradeOperationLock api cluster)) (\<lambda>r. case r of
          Inl err \<Rightarrow>
            if IsLockHeld (Some err) then ret c
            else failwith (wrapf ''failed to release upgrade operation lock'' err)
        | Inr c' \<Rightarrow> bnd (audit ''OperationLockReleased'' (upgradeLockAuditFields (Some c'))) (\<lambda>_. ret c')))"

text \<open>The in-memory cluster after the release attempt, and the error to return.\<close>

definition ReleaseUpgradeLockOnErrorIfHeld ::
    "'w lock_api \<Rightarrow> (string \<Rightarrow> labels \<Rightarrow> ('w, unit) run) \<Rightarrow> Cluster \<Rightarrow> bool \<Rightarrow> go_error option \<Rightarrow> string
       \<Rightarrow> ('w, Cluster \<times> go_error option) run" where
  "ReleaseUpgradeLockOnErrorIfHeld api audit cluster shouldRelease cause msg = (case cause of
      None \<Rightarrow> ret (cluster, None)
    | Some ca \<Rightarrow>
        if \<not> shouldRelease then ret (cluster, Some ca)
        else bnd (attempt (ReleaseUpgradeLockIfHeld api audit (Some cluster))) (\<lambda>r. case r of
          Inl err \<Rightarrow> ret (cluster, Some (Wrapf ''join'' [ca, if msg = [] then err else wrapf msg err]))
        | Inr c \<Rightarrow> ret (c, Some ca)))"

section \<open>Requeue classes and phase audit\<close>

datatype RetryClass = RetryClassLockContention | RetryClassProgressPoll | RetryClassStandard | OtherRetryClass string

definition requeueShort :: int where
  "requeueShort = seconds 5"

text \<open>The standard delay can be set in the environment, so it is a parameter.\<close>

definition RequeueDelay :: "int \<Rightarrow> RetryClass \<Rightarrow> int" where
  "RequeueDelay requeueStandard class = (case class of
      RetryClassLockContention \<Rightarrow> requeueShort
    | RetryClassProgressPoll \<Rightarrow> requeueShort
    | RetryClassStandard \<Rightarrow> requeueStandard
    | OtherRetryClass _ \<Rightarrow> requeueStandard)"

definition phaseTransitionFields :: "string \<Rightarrow> string \<Rightarrow> labels \<Rightarrow> labels" where
  "phaseTransitionFields phaseFrom phaseTo flds =
     setAnnotation ''phase_to'' phaseTo (setAnnotation ''phase_from'' phaseFrom flds)"

definition LogPhaseTransition ::
    "(string \<Rightarrow> labels \<Rightarrow> ('w, unit) run) \<Rightarrow> string \<Rightarrow> string \<Rightarrow> string \<Rightarrow> labels \<Rightarrow> ('w, unit) run" where
  "LogPhaseTransition audit eventType phaseFrom phaseTo flds =
     (if phaseFrom = phaseTo then ret ()
      else audit eventType (phaseTransitionFields phaseFrom phaseTo flds))"

end
