(* ===== verification/Lock_Server.thy ===== *)
theory Lock_Server
  imports Operation_Lock
begin

text \<open>
  What the operation lock promises when other clients write the same status concurrently.  The locale
  \<open>optimistic_lock_server\<close> states the contract of the API server the lock relies on: a patch whose base
  is out of date is refused with a conflict and changes nothing; a patch with any other answer may or
  may not have been stored, but if it was then the stored lock was the one that was read.  The lock
  operations are proved safe from that contract alone, and the contract is proved for \<open>server\<close>, in
  which other clients write between any two calls and replies can be lost.
\<close>

section \<open>A server with interference\<close>

datatype lock_write =
    OwnWrite "OperationLockStatus option" "OperationLockStatus option"
  | ForeignWrite "OperationLockStatus option" "OperationLockStatus option"

record server =
  svObj :: Cluster
  svLog :: "lock_write list"
  svOthers :: "(ClusterStatus \<Rightarrow> ClusterStatus) list list"
  svLoseReply :: "bool list"
  svClock :: "nat \<Rightarrow> time"

abbreviation svLock :: "server \<Rightarrow> OperationLockStatus option" where
  "svLock s \<equiv> ssOperationLock (clStatus (svObj s))"

definition foreignWrite :: "(ClusterStatus \<Rightarrow> ClusterStatus) \<Rightarrow> server \<Rightarrow> server" where
  "foreignWrite f s =
     (let obj = (mapStatus f (svObj s))\<lparr>clResourceVersion := Suc (clResourceVersion (svObj s))\<rparr>
      in s\<lparr>svObj := obj, svLog := svLog s @ [ForeignWrite (svLock s) (ssOperationLock (clStatus obj))]\<rparr>)"

text \<open>Before a call is served, the next batch of foreign writes takes place.\<close>

definition interfere :: "server \<Rightarrow> server" where
  "interfere s = (case svOthers s of
      [] \<Rightarrow> s
    | fs # rest \<Rightarrow> fold foreignWrite fs (s\<lparr>svOthers := rest\<rparr>))"

definition serverGet :: "string \<Rightarrow> string \<Rightarrow> (server, Cluster) run" where
  "serverGet ns name s0 =
     (let s = interfere s0 in
      if clNamespace (svObj s) = ns \<and> clName (svObj s) = name then (Inr (svObj s), s)
      else (Inl (ApiStatus NotFound False), s))"

definition serverPatch :: "Cluster \<Rightarrow> OperationLockStatus option \<Rightarrow> (server, Cluster) run" where
  "serverPatch base desired s0 =
     (let s = interfere s0 in
      if clResourceVersion base \<noteq> clResourceVersion (svObj s) then (Inl (ApiStatus Conflict False), s)
      else let obj = (setOperationLock desired (svObj s))\<lparr>clResourceVersion := Suc (clResourceVersion (svObj s))\<rparr>;
               t = s\<lparr>svObj := obj, svLog := svLog s @ [OwnWrite (svLock s) desired]\<rparr>
           in (case svLoseReply s of
                 True # rest \<Rightarrow> (Inl (NetError True), t\<lparr>svLoseReply := rest\<rparr>)
               | False # rest \<Rightarrow> (Inr obj, t\<lparr>svLoseReply := rest\<rparr>)
               | [] \<Rightarrow> (Inr obj, t)))"

definition serverApi :: "server lock_api" where
  "serverApi = \<lparr> la_reader = Some serverGet, la_get = serverGet, la_patch = serverPatch,
     la_now = (\<lambda>s. svClock s (length (svLog s))) \<rparr>"

fun own_write :: "lock_write \<Rightarrow> (OperationLockStatus option \<times> OperationLockStatus option) list" where
  "own_write (OwnWrite b a) = [(b, a)]"
| "own_write (ForeignWrite _ _) = []"

definition ownWrites :: "server \<Rightarrow> (OperationLockStatus option \<times> OperationLockStatus option) list" where
  "ownWrites s = concat (map own_write (svLog s))"

text \<open>An object read from the server is current exactly as long as its version is.\<close>

definition readFrom :: "Cluster \<Rightarrow> server \<Rightarrow> bool" where
  "readFrom c s \<longleftrightarrow> clResourceVersion c \<le> clResourceVersion (svObj s)
     \<and> (clResourceVersion c = clResourceVersion (svObj s)
          \<longrightarrow> ssOperationLock (clStatus c) = svLock s)"

text \<open>What an acquisition may overwrite.\<close>

definition forcible :: "AcquireOptions \<Rightarrow> OperationLockStatus option \<Rightarrow> bool" where
  "forcible opts b \<longleftrightarrow> (case b of None \<Rightarrow> False
     | Some k \<Rightarrow> aoForce opts \<or> (case aoForceIf opts of Some f \<Rightarrow> f k | None \<Rightarrow> False))"

definition mayOverwrite :: "OperationLock \<Rightarrow> AcquireOptions \<Rightarrow> OperationLockStatus option \<Rightarrow> bool" where
  "mayOverwrite lock opts b \<longleftrightarrow> b = None \<or> IsHeldBy lock b \<or> forcible opts b"

text \<open>
  \<open>oneWrite R ws ws'\<close>: at most one write was added, and it replaced a lock \<open>b\<close> by \<open>a\<close> with \<open>R b a\<close>.
  \<open>lawfulMutator R\<close>: every change the mutator makes satisfies \<open>R\<close>, and its errors are not conflicts.
\<close>

definition oneWrite ::
    "('l \<Rightarrow> 'l \<Rightarrow> bool) \<Rightarrow> ('l \<times> 'l) list \<Rightarrow> ('l \<times> 'l) list \<Rightarrow> bool" where
  "oneWrite R ws ws' \<longleftrightarrow> ws' = ws \<or> (\<exists>b a. ws' = ws @ [(b, a)] \<and> R b a)"

definition lawfulMutator ::
    "(OperationLockStatus option \<Rightarrow> OperationLockStatus option \<Rightarrow> bool)
       \<Rightarrow> (time \<Rightarrow> Cluster \<Rightarrow> go_error + Cluster \<times> 'r) \<Rightarrow> bool" where
  "lawfulMutator R mutate \<longleftrightarrow>
     (\<forall>now c d x. mutate now c = Inr (d, x) \<longrightarrow> R (ssOperationLock (clStatus c)) (ssOperationLock (clStatus d)))
     \<and> (\<forall>now c e. mutate now c = Inl e \<longrightarrow> \<not> is_conflict e)"

text \<open>A concrete cluster and two servers for the witnesses: a quiet one, and one where another client
  writes while the acquisition runs.\<close>

definition quietServer :: server where
  "quietServer = \<lparr> svObj = exampleBase, svLog = [], svOthers = [], svLoseReply = [], svClock = (\<lambda>n. int n) \<rparr>"

definition busyServer :: server where
  "busyServer = quietServer\<lparr>svOthers := [[], [\<lambda>st. st\<lparr>ssPhase := ''Upgrading''\<rparr>], [], []]\<rparr>"

definition upgradeHeldServer :: server where
  "upgradeHeldServer = quietServer\<lparr>svObj := setOperationLock
     (Some (newOperationLockStatus upgradeOperationLock ''m'' 1)) exampleBase\<rparr>"

section \<open>The contract and the lock operations under it\<close>

lemma upgradeOperationLock_named [simp]:
  "olHolder upgradeOperationLock \<noteq> []" "olOperation upgradeOperationLock \<noteq> []"
  by (simp_all add: upgradeOperationLock_def)

lemma oneWrite_refl [simp]: "oneWrite R ws ws"
  by (simp add: oneWrite_def)

lemma acquireMutator_lawful:
  "lawfulMutator (\<lambda>b a. mayOverwrite lock opts b \<and> IsHeldBy lock a) (acquireMutator lock opts)"
  by (auto simp: lawfulMutator_def acquireMutator_def mayOverwrite_def forcible_def IsHeldBy_def heldErrorFor_def
      newOperationLockStatus_def Let_def split: option.splits if_splits)

lemma releaseMutator_lawful:
  "lawfulMutator (\<lambda>b a. (b = None \<or> IsHeldBy lock b) \<and> a = None) (releaseMutator lock)"
  by (auto simp: lawfulMutator_def releaseMutator_def heldErrorFor_def IsHeldBy_def split: option.splits if_splits)


locale optimistic_lock_server =
  fixes api :: "'w lock_api"
    and writes :: "'w \<Rightarrow> (OperationLockStatus option \<times> OperationLockStatus option) list"
    and snapshot :: "Cluster \<Rightarrow> 'w \<Rightarrow> bool"
  assumes get_writes: "(case la_reader api of Some g \<Rightarrow> g | None \<Rightarrow> la_get api) ns name s = (r, t) \<Longrightarrow> writes t = writes s"
    and get_snapshot: "(case la_reader api of Some g \<Rightarrow> g | None \<Rightarrow> la_get api) ns name s = (Inr c, t) \<Longrightarrow> snapshot c t"
    and patch_stored: "snapshot c s \<Longrightarrow> la_patch api c l s = (Inr c', t) \<Longrightarrow>
           writes t = writes s @ [(ssOperationLock (clStatus c), l)] \<and> ssOperationLock (clStatus c') = l"
    and patch_failed: "snapshot c s \<Longrightarrow> la_patch api c l s = (Inl e, t) \<Longrightarrow>
           writes t = writes s \<or> \<not> is_conflict e \<and> writes t = writes s @ [(ssOperationLock (clStatus c), l)]"
begin

lemma attempt_atomic:
  assumes law: "lawfulMutator R mutate"
    and run: "lockAttempt api ns name mutate s = (r, t)"
  shows "oneWrite R (writes s) (writes t) \<and> (\<forall>e. r = Inl e \<and> is_conflict e \<longrightarrow> writes t = writes s)"
proof -
  let ?g = "case la_reader api of Some g \<Rightarrow> g | None \<Rightarrow> la_get api"
  obtain rg u where g: "?g ns name s = (rg, u)" by (cases "?g ns name s") auto
  note wu = get_writes [OF g]
  show ?thesis
  proof (cases rg)
    case (Inl err)
    with run g wu show ?thesis by (auto simp: lockAttempt_def bnd_def wrap_err_def oneWrite_def)
  next
    case c: (Inr c)
    note sn = get_snapshot [OF g [unfolded c]]
    show ?thesis
    proof (cases "mutate (la_now api u) c")
      case (Inl err)
      with run g c wu law show ?thesis
        by (auto simp: lockAttempt_def bnd_def wrap_err_def gets_def lift_res_def oneWrite_def lawfulMutator_def)
    next
      case (Inr dx)
      then obtain d x where m: "mutate (la_now api u) c = Inr (d, x)" by (cases dx) auto
      then have R: "R (ssOperationLock (clStatus c)) (ssOperationLock (clStatus d))"
        using law by (auto simp: lawfulMutator_def)
      show ?thesis
        using run g c wu m R patch_stored [OF sn, of "ssOperationLock (clStatus d)"]
          patch_failed [OF sn, of "ssOperationLock (clStatus d)"]
        by (auto simp: lockAttempt_def bnd_def wrap_err_def gets_def lift_res_def ret_def oneWrite_def
            split: sum.splits if_splits prod.splits)
    qed
  qed
qed

lemma retry_atomic:
  assumes "lawfulMutator R mutate"
    and "retryOnConflict n (lockAttempt api ns name mutate) s = (r, t)"
  shows "oneWrite R (writes s) (writes t)"
  using assms(2)
proof (induction n arbitrary: s)
  case 0
  then show ?case by (simp add: oneWrite_def)
next
  case (Suc n)
  obtain r' u where a: "lockAttempt api ns name mutate s = (r', u)" by (cases "lockAttempt api ns name mutate s") auto
  with Suc.prems Suc.IH [of u] attempt_atomic [OF assms(1) a] show ?case
    by (auto split: sum.splits if_splits)
qed

lemma mutate_atomic:
  assumes "lawfulMutator R mutate" and "mutateOperationLockStatus api c mutate s = (r, t)"
  shows "oneWrite R (writes s) (writes t)"
proof -
  obtain r' where "retryOnConflict DefaultRetrySteps
      (lockAttempt api (clNamespace c) (clName c) mutate) s = (r', t) \<or> t = s"
    using assms(2)
    by (auto simp: mutateOperationLockStatus_def MutateAndPatchLockStatus_def bnd_def wrap_err_def failwith_def
        ret_def split: prod.splits sum.splits if_splits)
  then show ?thesis
    using retry_atomic [OF assms(1)] oneWrite_refl by blast
qed

lemma attempt_result:
  assumes "lawfulMutator R mutate"
    and run: "lockAttempt api ns name mutate s = (Inr (d, x), t)"
  shows "\<exists>b. R b (ssOperationLock (clStatus d))"
proof -
  let ?g = "case la_reader api of Some g \<Rightarrow> g | None \<Rightarrow> la_get api"
  obtain c u where g: "?g ns name s = (Inr c, u)"
    using run by (cases "?g ns name s") (auto simp: lockAttempt_def bnd_def wrap_err_def split: sum.splits)
  note sn = get_snapshot [OF g]
  obtain d' where m: "mutate (la_now api u) c = Inr (d', x)"
    using run g by (auto simp: lockAttempt_def bnd_def wrap_err_def gets_def lift_res_def ret_def
        split: sum.splits if_splits prod.splits)
  then have "R (ssOperationLock (clStatus c)) (ssOperationLock (clStatus d'))"
    using assms(1) by (auto simp: lawfulMutator_def)
  moreover have "ssOperationLock (clStatus d) = ssOperationLock (clStatus d')"
    using run g m patch_stored [OF sn]
    by (auto simp: lockAttempt_def bnd_def wrap_err_def gets_def lift_res_def ret_def
        split: sum.splits if_splits prod.splits)
  ultimately show ?thesis by auto
qed

lemma retry_result:
  assumes "lawfulMutator R mutate"
    and "retryOnConflict n (lockAttempt api ns name mutate) s = (Inr (d, x), t)"
  shows "\<exists>b. R b (ssOperationLock (clStatus d))"
  using assms(2)
proof (induction n arbitrary: s)
  case (Suc n)
  obtain r' u where a: "lockAttempt api ns name mutate s = (r', u)" by (cases "lockAttempt api ns name mutate s") auto
  with Suc attempt_result [OF assms(1)] show ?case by (auto split: sum.splits if_splits)
qed simp

lemma acquire_holds:
  assumes "AcquireWithReaderResult api c lock opts s = (Inr (c', res), t)"
  shows "IsHeldBy lock (ssOperationLock (clStatus c'))"
  using assms retry_result [OF acquireMutator_lawful, of _ _ _ lock opts]
  by (fastforce simp: AcquireWithReaderResult_def mutateOperationLockStatus_def MutateAndPatchLockStatus_def
      bnd_def wrap_err_def failwith_def ret_def split: option.splits if_splits prod.splits sum.splits)

lemma acquire_atomic:
  assumes "AcquireWithReaderResult api c lock opts s = (r, t)"
  shows "oneWrite (\<lambda>b a. mayOverwrite lock opts b \<and> IsHeldBy lock a) (writes s) (writes t)"
  using assms mutate_atomic [OF acquireMutator_lawful]
  by (auto simp: AcquireWithReaderResult_def failwith_def oneWrite_def split: option.splits if_splits)

lemma release_atomic:
  assumes "ReleaseWithReader api c lock s = (r, t)"
  shows "oneWrite (\<lambda>b a. (b = None \<or> IsHeldBy lock b) \<and> a = None) (writes s) (writes t)"
proof (cases "c = None \<or> olHolder lock = [] \<or> olOperation lock = []")
  case True
  with assms show ?thesis
    by (auto simp: ReleaseWithReader_def failwith_def oneWrite_def split: option.splits if_splits)
next
  case False
  then obtain c' where c: "c = Some c'" by auto
  obtain r' u where m: "mutateOperationLockStatus api c' (releaseMutator lock) s = (r', u)"
    by (cases "mutateOperationLockStatus api c' (releaseMutator lock) s") auto
  moreover have "u = t"
    using assms False m c by (auto simp: ReleaseWithReader_def bnd_def ret_def split: sum.splits prod.splits)
  ultimately show ?thesis
    using mutate_atomic [OF releaseMutator_lawful] by auto
qed

end

section \<open>The server keeps the contract\<close>

lemma foreignWrite_writes [simp]: "ownWrites (foreignWrite f s) = ownWrites s"
  by (simp add: ownWrites_def foreignWrite_def Let_def)

lemma fold_foreignWrite:
  "ownWrites (fold foreignWrite fs s) = ownWrites s
   \<and> clResourceVersion (svObj (fold foreignWrite fs s)) = clResourceVersion (svObj s) + length fs"
  by (induction fs arbitrary: s) (auto simp: foreignWrite_def ownWrites_def Let_def)

lemma interfere_writes [simp]: "ownWrites (interfere s) = ownWrites s"
  using fold_foreignWrite [of _ "s\<lparr>svOthers := _\<rparr>"]
  by (auto simp: interfere_def ownWrites_def split: list.splits)

lemma interfere_version: "clResourceVersion (svObj s) \<le> clResourceVersion (svObj (interfere s))"
  using fold_foreignWrite by (auto simp: interfere_def split: list.splits)

lemma interfere_unchanged:
  assumes "clResourceVersion (svObj (interfere s)) = clResourceVersion (svObj s)"
  shows "svObj (interfere s) = svObj s"
proof (cases "svOthers s")
  case (Cons fs rest)
  have "length fs = 0"
    using assms fold_foreignWrite [of fs "s\<lparr>svOthers := rest\<rparr>"] by (simp add: interfere_def Cons)
  then show ?thesis by (simp add: interfere_def Cons)
qed (simp add: interfere_def)

lemma readFrom_interfere: "readFrom c s \<Longrightarrow> readFrom c (interfere s)"
  unfolding readFrom_def using interfere_version [of s] interfere_unchanged [of s]
  by (metis le_trans le_antisym)

interpretation lockServer: optimistic_lock_server serverApi ownWrites readFrom
proof
  fix ns name s r t
  assume "(case la_reader serverApi of Some g \<Rightarrow> g | None \<Rightarrow> la_get serverApi) ns name s = (r, t)"
  then show "ownWrites t = ownWrites s"
    by (auto simp: serverApi_def serverGet_def Let_def split: if_splits)
next
  fix ns name s c t
  assume "(case la_reader serverApi of Some g \<Rightarrow> g | None \<Rightarrow> la_get serverApi) ns name s = (Inr c, t)"
  then show "readFrom c t"
    by (auto simp: serverApi_def serverGet_def Let_def readFrom_def split: if_splits)
next
  fix c s l c' t
  assume "readFrom c s" "la_patch serverApi c l s = (Inr c', t)"
  then show "ownWrites t = ownWrites s @ [(ssOperationLock (clStatus c), l)] \<and> ssOperationLock (clStatus c') = l"
    using readFrom_interfere [of c s] interfere_writes [of s]
    by (auto simp: serverApi_def serverPatch_def Let_def readFrom_def ownWrites_def split: if_splits list.splits bool.splits)
next
  fix c s l e t
  assume "readFrom c s" "la_patch serverApi c l s = (Inl e, t)"
  then show "ownWrites t = ownWrites s
      \<or> \<not> is_conflict e \<and> ownWrites t = ownWrites s @ [(ssOperationLock (clStatus c), l)]"
    using readFrom_interfere [of c s] interfere_writes [of s]
    by (auto simp: serverApi_def serverPatch_def Let_def readFrom_def ownWrites_def api_reason_of_def errors_as_def
        is_api_status_def split: if_splits list.splits bool.splits)
qed

section \<open>A quiet server\<close>

abbreviation quiet :: "server \<Rightarrow> Cluster \<Rightarrow> bool" where
  "quiet s c \<equiv> svOthers s = [] \<and> svLoseReply s = [] \<and> clName c \<noteq> []
     \<and> clNamespace (svObj s) = clNamespace c \<and> clName (svObj s) = clName c"

lemma lockAttempt_quiet:
  assumes "quiet s c" and "mutate (svClock s (length (svLog s))) (svObj s) = Inr (d, x)"
  shows "\<exists>c' t. lockAttempt serverApi (clNamespace c) (clName c) mutate s = (Inr (c', x), t) \<and> quiet t c
     \<and> svLock t = ssOperationLock (clStatus d) \<and> ssOperationLock (clStatus c') = ssOperationLock (clStatus d)
     \<and> clStatus (svObj t) = (clStatus (svObj s))\<lparr>ssOperationLock := ssOperationLock (clStatus d)\<rparr>"
proof (cases "svLock s = ssOperationLock (clStatus d)")
  case True
  with assms show ?thesis
    by (simp add: lockAttempt_def serverApi_def serverGet_def interfere_def bnd_def wrap_err_def gets_def
        lift_res_def ret_def)
next
  case False
  with assms show ?thesis
    by (simp add: lockAttempt_def serverApi_def serverGet_def serverPatch_def interfere_def bnd_def wrap_err_def
        gets_def lift_res_def ret_def setOperationLock_def Let_def)
qed

lemma mutate_quiet:
  assumes "quiet s c" and "mutate (svClock s (length (svLog s))) (svObj s) = Inr (d, x)"
  shows "\<exists>c' t. mutateOperationLockStatus serverApi c mutate s = (Inr (c', x), t) \<and> quiet t c'
     \<and> svLock t = ssOperationLock (clStatus d) \<and> ssOperationLock (clStatus c') = ssOperationLock (clStatus d)
     \<and> clStatus (svObj t) = (clStatus (svObj s))\<lparr>ssOperationLock := ssOperationLock (clStatus d)\<rparr>"
proof -
  obtain c' t where a: "lockAttempt serverApi (clNamespace c) (clName c) mutate s = (Inr (c', x), t)" "quiet t c"
     "svLock t = ssOperationLock (clStatus d)" "ssOperationLock (clStatus c') = ssOperationLock (clStatus d)"
     "clStatus (svObj t) = (clStatus (svObj s))\<lparr>ssOperationLock := ssOperationLock (clStatus d)\<rparr>"
    using lockAttempt_quiet [of s c mutate d x, OF assms] by blast
  have "retryOnConflict DefaultRetrySteps (lockAttempt serverApi (clNamespace c) (clName c) mutate) s = (Inr (c', x), t)"
    using a(1) by (simp add: DefaultRetrySteps_def numeral_eq_Suc)
  with a assms(1) show ?thesis
    by (simp add: mutateOperationLockStatus_def MutateAndPatchLockStatus_def bnd_def wrap_err_def ret_def)
qed

section \<open>Properties\<close>

text \<open>
  C21: acquiring the upgrade lock never takes a lock from another operation.  Whatever other clients
  write between its calls, and even when replies are lost, an acquisition stores at most one lock;
  the lock it replaced was free or already the upgrade's, the lock it stored is the upgrade's, and
  when the call succeeds the in-memory cluster shows the upgrade as holder.
\<close>

theorem upgrade_lock_never_steals:
  assumes "AcquireUpgradeOperationLock serverApi (Some c) message s = (r, t)"
  shows "oneWrite (\<lambda>b a. (b = None \<or> IsUpgradeOperationLockHeldByUs b) \<and> IsUpgradeOperationLockHeldByUs a)
           (ownWrites s) (ownWrites t)
     \<and> (case r of Inr c' \<Rightarrow> IsUpgradeOperationLockHeldByUs (ssOperationLock (clStatus c')) | Inl _ \<Rightarrow> True)"
proof -
  let ?opts = "\<lparr> aoMessage = message, aoForce = False, aoForceIf = None \<rparr>"
  obtain r' where a: "AcquireWithReaderResult serverApi (Some c) upgradeOperationLock ?opts s = (r', t)"
    and r: "r = map_sum id fst r'"
    using assms by (auto simp: AcquireUpgradeOperationLock_def AcquireWithReader_def bnd_def ret_def
        split: prod.splits sum.splits)
  have no_force: "mayOverwrite upgradeOperationLock ?opts b \<longleftrightarrow> b = None \<or> IsUpgradeOperationLockHeldByUs b" for b
    by (auto simp: mayOverwrite_def forcible_def IsUpgradeOperationLockHeldByUs_def split: option.splits)
  show ?thesis
    using lockServer.acquire_atomic [OF a] lockServer.acquire_holds [of "Some c" upgradeOperationLock ?opts s _ _ t] a r
    by (cases r') (auto simp: no_force IsUpgradeOperationLockHeldByUs_def)
qed

text \<open>Another client's write makes the first patch conflict; the second attempt stores the lock.\<close>

theorem upgrade_lock_never_steals_witness:
  "\<exists>c' t. AcquireUpgradeOperationLock serverApi (Some exampleBase) ''m'' busyServer = (Inr c', t)
     \<and> IsUpgradeOperationLockHeldByUs (ssOperationLock (clStatus c'))
     \<and> oneWrite (\<lambda>b a. (b = None \<or> IsUpgradeOperationLockHeldByUs b) \<and> IsUpgradeOperationLockHeldByUs a)
           (ownWrites busyServer) (ownWrites t)"
proof -
  have "\<not> isl (fst (AcquireUpgradeOperationLock serverApi (Some exampleBase) ''m'' busyServer))"
    by code_simp
  then obtain c' t where a: "AcquireUpgradeOperationLock serverApi (Some exampleBase) ''m'' busyServer = (Inr c', t)"
    by (metis eq_fst_iff isl_def sum.exhaust)
  show ?thesis
    using a upgrade_lock_never_steals [OF a] by auto
qed

text \<open>
  C22: releasing the upgrade lock stores at most one lock, and only ever clears a lock that was the
  upgrade's own: a release that races with another operation's acquisition never removes the other
  operation's lock.
\<close>

theorem upgrade_release_only_own:
  assumes "ReleaseUpgradeOperationLock serverApi (Some c) s = (r, t)"
  shows "oneWrite (\<lambda>b a. (b = None \<or> IsUpgradeOperationLockHeldByUs b) \<and> a = None) (ownWrites s) (ownWrites t)"
  using assms lockServer.release_atomic [of "Some c" upgradeOperationLock]
  by (auto simp: ReleaseUpgradeOperationLock_def IsUpgradeOperationLockHeldByUs_def)

theorem upgrade_release_only_own_witness:
  "\<exists>r t. ReleaseUpgradeOperationLock serverApi (Some (svObj upgradeHeldServer)) upgradeHeldServer = (r, t)
     \<and> \<not> isl r \<and> svLock t = None
     \<and> oneWrite (\<lambda>b a. (b = None \<or> IsUpgradeOperationLockHeldByUs b) \<and> a = None)
           (ownWrites upgradeHeldServer) (ownWrites t)"
proof -
  let ?run = "ReleaseUpgradeOperationLock serverApi (Some (svObj upgradeHeldServer)) upgradeHeldServer"
  have "\<not> isl (fst ?run) \<and> svLock (snd ?run) = None"
    by code_simp
  then show ?thesis
    using upgrade_release_only_own [of "svObj upgradeHeldServer" upgradeHeldServer "fst ?run" "snd ?run"]
    by (intro exI [of _ "fst ?run"] exI [of _ "snd ?run"]) simp
qed

text \<open>
  C23: without interference the lock works end to end.  On a free lock the acquisition succeeds, the
  stored lock is the upgrade's, the release that follows succeeds, and the whole status of the stored
  object is back to what it was; on a lock of another operation the acquisition is refused with a
  lock-held error and nothing is written.
\<close>

theorem upgrade_lock_round_trip:
  assumes "quiet s c"
  shows "case svLock s of
      None \<Rightarrow> (\<exists>c' t c'' u. AcquireUpgradeOperationLock serverApi (Some c) message s = (Inr c', t)
        \<and> IsUpgradeOperationLockHeldByUs (svLock t)
        \<and> ReleaseUpgradeOperationLock serverApi (Some c') t = (Inr c'', u)
        \<and> clStatus (svObj u) = clStatus (svObj s))
    | Some k \<Rightarrow> IsUpgradeOperationLockHeldByUs (Some k)
        \<or> (\<exists>e. AcquireUpgradeOperationLock serverApi (Some c) message s = (Inl e, s) \<and> IsLockHeld (Some e))"
proof (cases "svLock s")
  case None
  let ?opts = "\<lparr> aoMessage = message, aoForce = False, aoForceIf = None \<rparr>"
  let ?k = "newOperationLockStatus upgradeOperationLock message (svClock s (length (svLog s)))"
  have held: "IsHeldBy upgradeOperationLock (Some ?k)"
    by (simp add: IsHeldBy_def newOperationLockStatus_def)
  have m: "acquireMutator upgradeOperationLock ?opts (svClock s (length (svLog s))) (svObj s)
      = Inr (setOperationLock (Some ?k) (svObj s), \<lparr> arsPreviousLock = None, arsForced = False \<rparr>)"
    by (simp add: acquireMutator_def None)
  obtain c' t where acq: "mutateOperationLockStatus serverApi c (acquireMutator upgradeOperationLock ?opts) s
        = (Inr (c', \<lparr> arsPreviousLock = None, arsForced = False \<rparr>), t)"
    and q: "quiet t c'" and lt: "svLock t = Some ?k"
    and st: "clStatus (svObj t) = (clStatus (svObj s))\<lparr>ssOperationLock := Some ?k\<rparr>"
    using mutate_quiet [of s c "acquireMutator upgradeOperationLock ?opts" "setOperationLock (Some ?k) (svObj s)", OF assms m] by auto
  have rel: "releaseMutator upgradeOperationLock now (svObj t) = Inr (setOperationLock None (svObj t), ())" for now
    using held by (simp add: releaseMutator_def lt)
  obtain c'' u where rls: "mutateOperationLockStatus serverApi c' (releaseMutator upgradeOperationLock) t = (Inr (c'', ()), u)"
    and su: "clStatus (svObj u) = (clStatus (svObj t))\<lparr>ssOperationLock := None\<rparr>"
    using mutate_quiet [of t c' "releaseMutator upgradeOperationLock" "setOperationLock None (svObj t)", OF q rel] by auto
  have "clStatus (svObj u) = clStatus (svObj s)"
    using su st None by simp
  with acq rls lt held None show ?thesis
    by (auto simp: AcquireUpgradeOperationLock_def AcquireWithReader_def AcquireWithReaderResult_def bnd_def ret_def
        upgradeOperationLock_def ReleaseUpgradeOperationLock_def ReleaseWithReader_def IsUpgradeOperationLockHeldByUs_def)
next
  case (Some k)
  have m: "acquireMutator upgradeOperationLock opts now (svObj s) = Inl (heldErrorFor k)"
    if "\<not> IsUpgradeOperationLockHeldByUs (Some k)" "\<not> aoForce opts" "aoForceIf opts = None" for opts now
    using that by (simp add: acquireMutator_def Some IsUpgradeOperationLockHeldByUs_def)
  have "\<not> is_conflict (heldErrorFor k)" by (simp add: heldErrorFor_def)
  then show ?thesis
    using assms Some
    by (auto simp: AcquireUpgradeOperationLock_def AcquireWithReader_def AcquireWithReaderResult_def
        mutateOperationLockStatus_def MutateAndPatchLockStatus_def
        DefaultRetrySteps_def numeral_eq_Suc lockAttempt_def serverApi_def serverGet_def interfere_def
        bnd_def ret_def wrap_err_def gets_def lift_res_def failwith_def m IsLockHeld_def errors_is_def heldErrorFor_def)
qed

theorem upgrade_lock_round_trip_witness:
  "\<exists>c' t c'' u. AcquireUpgradeOperationLock serverApi (Some exampleBase) ''m'' quietServer = (Inr c', t)
     \<and> IsUpgradeOperationLockHeldByUs (svLock t)
     \<and> ReleaseUpgradeOperationLock serverApi (Some c') t = (Inr c'', u)
     \<and> clStatus (svObj u) = clStatus (svObj quietServer)"
  using upgrade_lock_round_trip [of quietServer exampleBase "''m''"]
  by (simp add: quietServer_def exampleBase_def exampleBaseStatus_def)

end
