(* ===== verification/Upgrade_Requests.thy ===== *)
theory Upgrade_Requests
  imports Api_Types
begin

text \<open>
  Upgrade requests (\<open>internal/service/upgrade/requests.go\<close>, \<open>acknowledgements.go\<close>): the user writes a
  token into the specification, a reconcile pass that acts on it acknowledges the exact token, and the
  acknowledgement is written to the status after the pass.  A nil cluster is \<open>None\<close>.
\<close>

section \<open>Request values\<close>

definition requestsOf :: "Cluster option \<Rightarrow> UpgradeRequestConfig option" where
  "requestsOf cluster = (case cluster of None \<Rightarrow> None
     | Some c \<Rightarrow> (case spUpgrade (clSpec c) of None \<Rightarrow> None | Some u \<Rightarrow> ucRequests u))"

definition RetryRequestValue :: "Cluster option \<Rightarrow> string" where
  "RetryRequestValue cluster = (case requestsOf cluster of None \<Rightarrow> [] | Some r \<Rightarrow> trim_space (rqRetry r))"

definition PromoteRequestValue :: "Cluster option \<Rightarrow> string" where
  "PromoteRequestValue cluster = (case requestsOf cluster of None \<Rightarrow> [] | Some r \<Rightarrow> trim_space (rqPromote r))"

definition RollbackRequestValue :: "Cluster option \<Rightarrow> string" where
  "RollbackRequestValue cluster = (case requestsOf cluster of None \<Rightarrow> [] | Some r \<Rightarrow> trim_space (rqRollback r))"

definition handledOf :: "Cluster option \<Rightarrow> UpgradeRequestStatus option" where
  "handledOf cluster = (case cluster of None \<Rightarrow> None | Some c \<Rightarrow> ssUpgradeRequests (clStatus c))"

definition lastHandledRetry :: "Cluster option \<Rightarrow> string" where
  "lastHandledRetry cluster = (case handledOf cluster of None \<Rightarrow> [] | Some h \<Rightarrow> trim_space (urLastHandledRetry h))"

definition lastHandledPromote :: "Cluster option \<Rightarrow> string" where
  "lastHandledPromote cluster = (case handledOf cluster of None \<Rightarrow> [] | Some h \<Rightarrow> trim_space (urLastHandledPromote h))"

definition lastHandledRollback :: "Cluster option \<Rightarrow> string" where
  "lastHandledRollback cluster = (case handledOf cluster of None \<Rightarrow> [] | Some h \<Rightarrow> trim_space (urLastHandledRollback h))"

definition RetryRequestPending :: "Cluster option \<Rightarrow> bool" where
  "RetryRequestPending cluster \<longleftrightarrow>
     RetryRequestValue cluster \<noteq> [] \<and> RetryRequestValue cluster \<noteq> lastHandledRetry cluster"

definition PromoteRequestPending :: "Cluster option \<Rightarrow> bool" where
  "PromoteRequestPending cluster \<longleftrightarrow>
     PromoteRequestValue cluster \<noteq> [] \<and> PromoteRequestValue cluster \<noteq> lastHandledPromote cluster"

definition RollbackRequestPending :: "Cluster option \<Rightarrow> bool" where
  "RollbackRequestPending cluster \<longleftrightarrow>
     RollbackRequestValue cluster \<noteq> [] \<and> RollbackRequestValue cluster \<noteq> lastHandledRollback cluster"

section \<open>Marking requests as handled\<close>

definition emptyUpgradeRequestStatus :: UpgradeRequestStatus where
  "emptyUpgradeRequestStatus = \<lparr> urLastHandledRetry = [], urLastHandledPromote = [], urLastHandledRollback = [] \<rparr>"

definition ensureUpgradeRequestStatus :: "ClusterStatus \<Rightarrow> UpgradeRequestStatus" where
  "ensureUpgradeRequestStatus st = (case ssUpgradeRequests st of None \<Rightarrow> emptyUpgradeRequestStatus | Some h \<Rightarrow> h)"

definition MarkRetryRequestHandled :: "string \<Rightarrow> ClusterStatus \<Rightarrow> ClusterStatus" where
  "MarkRetryRequestHandled v st =
     st\<lparr>ssUpgradeRequests := Some ((ensureUpgradeRequestStatus st)\<lparr>urLastHandledRetry := trim_space v\<rparr>)\<rparr>"

definition MarkPromoteRequestHandled :: "string \<Rightarrow> ClusterStatus \<Rightarrow> ClusterStatus" where
  "MarkPromoteRequestHandled v st =
     st\<lparr>ssUpgradeRequests := Some ((ensureUpgradeRequestStatus st)\<lparr>urLastHandledPromote := trim_space v\<rparr>)\<rparr>"

definition MarkRollbackRequestHandled :: "string \<Rightarrow> ClusterStatus \<Rightarrow> ClusterStatus" where
  "MarkRollbackRequestHandled v st =
     st\<lparr>ssUpgradeRequests := Some ((ensureUpgradeRequestStatus st)\<lparr>urLastHandledRollback := trim_space v\<rparr>)\<rparr>"

section \<open>Acknowledgements\<close>

record RequestAcknowledgements =
  akRetry :: string
  akPromote :: string
  akRollback :: string

definition noAcks :: RequestAcknowledgements where
  "noAcks = \<lparr> akRetry = [], akPromote = [], akRollback = [] \<rparr>"

definition acksIsEmpty :: "RequestAcknowledgements \<Rightarrow> bool" where
  "acksIsEmpty a \<longleftrightarrow> trim_space (akRetry a) = [] \<and> trim_space (akPromote a) = [] \<and> trim_space (akRollback a) = []"

definition Merge :: "RequestAcknowledgements \<Rightarrow> RequestAcknowledgements \<Rightarrow> RequestAcknowledgements" where
  "Merge a nxt =
     (let a = (if trim_space (akRetry nxt) \<noteq> [] then a\<lparr>akRetry := trim_space (akRetry nxt)\<rparr> else a);
          a = (if trim_space (akPromote nxt) \<noteq> [] then a\<lparr>akPromote := trim_space (akPromote nxt)\<rparr> else a);
          a = (if trim_space (akRollback nxt) \<noteq> [] then a\<lparr>akRollback := trim_space (akRollback nxt)\<rparr> else a)
      in a)"

definition ApplyTo :: "RequestAcknowledgements \<Rightarrow> ClusterStatus \<Rightarrow> ClusterStatus" where
  "ApplyTo a st =
     (let st = (if trim_space (akRetry a) \<noteq> [] then MarkRetryRequestHandled (trim_space (akRetry a)) st else st);
          st = (if trim_space (akPromote a) \<noteq> [] then MarkPromoteRequestHandled (trim_space (akPromote a)) st else st);
          st = (if trim_space (akRollback a) \<noteq> [] then MarkRollbackRequestHandled (trim_space (akRollback a)) st else st)
      in st)"

section \<open>Lemmas\<close>

lemmas mark_defs = MarkRetryRequestHandled_def MarkPromoteRequestHandled_def MarkRollbackRequestHandled_def
  ensureUpgradeRequestStatus_def emptyUpgradeRequestStatus_def

text \<open>The handled tokens after an acknowledgement: the acknowledged one, or the one before.\<close>

lemma lastHandled_ApplyTo:
  "lastHandledRetry (Some (mapStatus (ApplyTo a) c)) =
     (if trim_space (akRetry a) \<noteq> [] then trim_space (akRetry a) else lastHandledRetry (Some c))"
  "lastHandledPromote (Some (mapStatus (ApplyTo a) c)) =
     (if trim_space (akPromote a) \<noteq> [] then trim_space (akPromote a) else lastHandledPromote (Some c))"
  "lastHandledRollback (Some (mapStatus (ApplyTo a) c)) =
     (if trim_space (akRollback a) \<noteq> [] then trim_space (akRollback a) else lastHandledRollback (Some c))"
  by (auto simp: lastHandledRetry_def lastHandledPromote_def lastHandledRollback_def handledOf_def ApplyTo_def
      mark_defs Let_def split: option.splits)

lemma requestValue_ApplyTo [simp]:
  "RetryRequestValue (Some (mapStatus f c)) = RetryRequestValue (Some c)"
  "PromoteRequestValue (Some (mapStatus f c)) = PromoteRequestValue (Some c)"
  "RollbackRequestValue (Some (mapStatus f c)) = RollbackRequestValue (Some c)"
  by (simp_all add: RetryRequestValue_def PromoteRequestValue_def RollbackRequestValue_def requestsOf_def)

lemma Merge_trim:
  "trim_space (akRetry (Merge a b)) = (if trim_space (akRetry b) \<noteq> [] then trim_space (akRetry b) else trim_space (akRetry a))"
  "trim_space (akPromote (Merge a b)) = (if trim_space (akPromote b) \<noteq> [] then trim_space (akPromote b) else trim_space (akPromote a))"
  "trim_space (akRollback (Merge a b)) = (if trim_space (akRollback b) \<noteq> [] then trim_space (akRollback b) else trim_space (akRollback a))"
  by (simp_all add: Merge_def Let_def)

lemma handled_only: "ApplyTo a st = st\<lparr>ssUpgradeRequests := ssUpgradeRequests (ApplyTo a st)\<rparr>"
  by (simp add: ApplyTo_def mark_defs Let_def)

section \<open>Properties\<close>

text \<open>
  Applying merged acknowledgements to a freshly read status settles a rollback request exactly when
  one of the passes acknowledged that very token: a request whose token was acknowledged is no longer
  pending, a newer token written meanwhile stays pending, a pass that acknowledged nothing leaves the
  request as it was, and no other part of the status changes.
\<close>

theorem acknowledgement_exact:
  "RollbackRequestPending (Some (mapStatus (ApplyTo (Merge a b)) c)) \<longleftrightarrow>
     RollbackRequestValue (Some c) \<noteq> [] \<and>
     RollbackRequestValue (Some c) \<noteq>
       (if trim_space (akRollback b) \<noteq> [] then trim_space (akRollback b)
        else if trim_space (akRollback a) \<noteq> [] then trim_space (akRollback a)
        else lastHandledRollback (Some c))
   \<and> clStatus (mapStatus (ApplyTo (Merge a b)) c) =
       (clStatus c)\<lparr>ssUpgradeRequests := ssUpgradeRequests (ApplyTo (Merge a b) (clStatus c))\<rparr>"
  using handled_only [of "Merge a b" "clStatus c"]
  by (auto simp: RollbackRequestPending_def lastHandled_ApplyTo Merge_trim)

end
