(* ===== verification/BlueGreen_State.thy ===== *)
theory BlueGreen_State
  imports Upgrade_Requests
begin

text \<open>
  The status of a blue/green upgrade and the operations every strategy shares
  (\<open>internal/service/upgrade/core\<close>): phase changes, the promotion mode, the captured target, upgrade
  progress, and the in-memory metrics sessions.  The clock is an argument; a nil pointer is \<open>None\<close>.
\<close>

section \<open>Blue/green state (bluegreen\_state.go)\<close>

definition CurrentBlueGreenPhase :: "Cluster option \<Rightarrow> BlueGreenPhase" where
  "CurrentBlueGreenPhase cluster = (case cluster of None \<Rightarrow> PhaseIdle
     | Some c \<Rightarrow> (case blueGreen c of None \<Rightarrow> PhaseIdle | Some b \<Rightarrow> bgPhase b))"

definition IsBlueGreenRollbackSet :: "Cluster option \<Rightarrow> bool" where
  "IsBlueGreenRollbackSet cluster \<longleftrightarrow> (case cluster of None \<Rightarrow> False
     | Some c \<Rightarrow> (case blueGreen c of None \<Rightarrow> False | Some b \<Rightarrow> bgRollbackStartTime b \<noteq> None))"

definition BlueGreenUpgradeState :: "Cluster option \<Rightarrow> bool \<times> bool" where
  "BlueGreenUpgradeState cluster =
     (CurrentBlueGreenPhase cluster \<noteq> PhaseIdle,
      (case cluster of None \<Rightarrow> False
       | Some c \<Rightarrow> ssCurrentVersion (clStatus c) \<noteq> [] \<and> spVersion (clSpec c) \<noteq> ssCurrentVersion (clStatus c)))"

definition BlueGreenStartEventPending :: "Cluster option \<Rightarrow> bool" where
  "BlueGreenStartEventPending cluster \<longleftrightarrow> (case cluster of None \<Rightarrow> True
     | Some c \<Rightarrow> (case blueGreen c of None \<Rightarrow> True | Some b \<Rightarrow> bgPreUpgradeSnapshotJobName b = []))"

definition InitializeBlueGreenManualPromotion :: "Cluster \<Rightarrow> Cluster" where
  "InitializeBlueGreenManualPromotion c = (case (blueGreen c, spUpgrade (clSpec c)) of
      (Some b, Some u) \<Rightarrow>
        if bgGreenRevision b \<noteq> [] \<or> bgPreUpgradeSnapshotJobName b \<noteq> [] then c
        else setBlueGreen (Some (b\<lparr>bgManualPromotionRequired :=
               (case ucBlueGreen u of None \<Rightarrow> False | Some g \<Rightarrow> \<not> bcAutoPromote g)\<rparr>)) c
    | _ \<Rightarrow> c)"

definition AdvanceBlueGreenPhase :: "time \<Rightarrow> BlueGreenPhase \<Rightarrow> BlueGreenStatus \<Rightarrow> BlueGreenStatus" where
  "AdvanceBlueGreenPhase now phase b = b\<lparr>bgPhase := phase,
     bgStartTime := (if phase \<noteq> PhaseIdle then Some now else None),
     bgJobFailureCount := 0, bgLastJobFailure := []\<rparr>"

definition BeginBlueGreenRollback :: "time \<Rightarrow> string \<Rightarrow> BlueGreenStatus \<Rightarrow> BlueGreenStatus" where
  "BeginBlueGreenRollback now reason b =
     b\<lparr>bgRollbackReason := reason, bgRollbackStartTime := Some now, bgPhase := PhaseRollingBack\<rparr>"

definition ResetBlueGreenTransientState :: "time \<Rightarrow> BlueGreenStatus \<Rightarrow> BlueGreenStatus" where
  "ResetBlueGreenTransientState now b0 =
     (let b = (AdvanceBlueGreenPhase now PhaseIdle b0)\<lparr>bgGreenRevision := [], bgGreenImage := [],
            bgGreenVersion := [], bgGreenReplicas := 0, bgManualPromotionRequired := False\<rparr>
      in if bgValidationHook b = None then b\<lparr>bgOperationID := []\<rparr> else b)"

definition CaptureBlueGreenTarget :: "ClusterSpec \<Rightarrow> BlueGreenStatus \<Rightarrow> BlueGreenStatus" where
  "CaptureBlueGreenTarget spec b = b\<lparr>bgGreenVersion := spVersion spec, bgGreenImage := spImage spec,
     bgGreenReplicas := spReplicas spec, bgBlueReplicas := spReplicas spec\<rparr>"

definition PromoteBlueGreenTarget :: "BlueGreenStatus \<Rightarrow> BlueGreenStatus" where
  "PromoteBlueGreenTarget b0 =
     (let b = (if bgGreenImage b0 \<noteq> [] then b0\<lparr>bgBlueImage := bgGreenImage b0\<rparr> else b0)
      in if bgGreenReplicas b > 0 then b\<lparr>bgBlueReplicas := bgGreenReplicas b\<rparr> else b)"

definition FinalizeBlueGreenTerminalState :: "time \<Rightarrow> bool \<Rightarrow> Cluster \<Rightarrow> Cluster" where
  "FinalizeBlueGreenTerminalState now promoteGreenToBlue c = (case blueGreen c of
      None \<Rightarrow> c
    | Some b \<Rightarrow>
        (let b' = (if promoteGreenToBlue
                   then PromoteBlueGreenTarget (b\<lparr>bgBlueRevision := bgGreenRevision b, bgBlueControllerRevision := []\<rparr>)
                   else b)
         in setBlueGreen (Some (ResetBlueGreenTransientState now b')) c))"

section \<open>Upgrade progress (status.go)\<close>

definition emptyUpgradeProgress :: UpgradeProgress where
  "emptyUpgradeProgress = \<lparr> upTargetVersion = [], upFromVersion = [], upStartedAt = None, upCurrentPartition = 0,
     upCompletedPods = [], upLastStepDownTime = None, upFailure = None \<rparr>"

definition SetUpgradeStarted :: "time \<Rightarrow> string \<Rightarrow> string \<Rightarrow> int \<Rightarrow> ClusterStatus \<Rightarrow> ClusterStatus" where
  "SetUpgradeStarted now from' to' replicas st = st\<lparr>ssUpgrade := Some \<lparr> upTargetVersion = to', upFromVersion = from',
     upStartedAt = Some now, upCurrentPartition = replicas, upCompletedPods = [], upLastStepDownTime = None,
     upFailure = None \<rparr>\<rparr>"

definition SetUpgradeProgress :: "int \<Rightarrow> int \<Rightarrow> ClusterStatus \<Rightarrow> ClusterStatus" where
  "SetUpgradeProgress part completedPod st = (case ssUpgrade st of
      None \<Rightarrow> st
    | Some u \<Rightarrow> st\<lparr>ssUpgrade := Some (u\<lparr>upCurrentPartition := part,
                    upCompletedPods := upCompletedPods u @ [completedPod]\<rparr>)\<rparr>)"

definition SetStepDownPerformed :: "time \<Rightarrow> ClusterStatus \<Rightarrow> ClusterStatus" where
  "SetStepDownPerformed now st = (case ssUpgrade st of
      None \<Rightarrow> st | Some u \<Rightarrow> st\<lparr>ssUpgrade := Some (u\<lparr>upLastStepDownTime := Some now\<rparr>)\<rparr>)"

definition SetUpgradeComplete :: "string \<Rightarrow> ClusterStatus \<Rightarrow> ClusterStatus" where
  "SetUpgradeComplete version st = st\<lparr>ssUpgrade := None, ssCurrentVersion := version\<rparr>"

definition SetUpgradeFailed :: "time \<Rightarrow> string \<Rightarrow> string \<Rightarrow> ClusterStatus \<Rightarrow> ClusterStatus" where
  "SetUpgradeFailed now reason message st =
     (let u = (case ssUpgrade st of None \<Rightarrow> emptyUpgradeProgress | Some u \<Rightarrow> u)
      in st\<lparr>ssUpgrade := Some (u\<lparr>upFailure :=
             Some \<lparr> ceReason = reason, ceMessage = message, ceAt = Some now \<rparr>\<rparr>)\<rparr>)"

definition ClearUpgrade :: "ClusterStatus \<Rightarrow> ClusterStatus" where
  "ClearUpgrade st = st\<lparr>ssUpgrade := None\<rparr>"

section \<open>Metrics sessions (metrics\_session.go, metrics\_lifecycle.go)\<close>

record UpgradeMetricsSessionState =
  msStartedAt :: time
  msStepDownCounted :: bool
  msRollbackSeen :: bool

type_synonym sessions = "string \<rightharpoonup> UpgradeMetricsSessionState"

definition UpgradeMetricsSessionKey :: "string \<Rightarrow> string \<Rightarrow> string" where
  "UpgradeMetricsSessionKey namespace name = namespace @ ''/'' @ name"

definition EnsureUpgradeMetricsSession ::
    "string \<Rightarrow> time \<Rightarrow> sessions \<Rightarrow> (UpgradeMetricsSessionState \<times> bool) \<times> sessions" where
  "EnsureUpgradeMetricsSession key startedAt m = (case m key of
      Some st \<Rightarrow> ((st, False), m)
    | None \<Rightarrow> (let st = \<lparr> msStartedAt = startedAt, msStepDownCounted = False, msRollbackSeen = False \<rparr>
               in ((st, True), m(key \<mapsto> st))))"

definition MarkUpgradeMetricsStepDownCounted ::
    "string \<Rightarrow> time \<Rightarrow> sessions \<Rightarrow> (UpgradeMetricsSessionState \<times> bool) \<times> sessions" where
  "MarkUpgradeMetricsStepDownCounted key startedAt m =
     (case EnsureUpgradeMetricsSession key startedAt m of
        ((st, _), m1) \<Rightarrow>
          if msStepDownCounted st then ((st, False), m1)
          else (let st' = st\<lparr>msStepDownCounted := True\<rparr> in ((st', True), m1(key \<mapsto> st'))))"

record UpgradeMetricsPhaseTransition =
  mtSessionStarted :: bool
  mtRollbackStarted :: bool
  mtCompleted :: bool
  mtDuration :: int
  mtRollbackSeen :: bool

definition ReconcileUpgradeMetricsSession ::
    "string \<Rightarrow> bool \<Rightarrow> bool \<Rightarrow> bool \<Rightarrow> bool \<Rightarrow> time \<Rightarrow> time \<Rightarrow> sessions
       \<Rightarrow> UpgradeMetricsPhaseTransition \<times> sessions" where
  "ReconcileUpgradeMetricsSession key initialActive active initialRollbackSet rollbackSet startedAt now m0 =
     (let (st1, m1) = (case m0 key of
              Some s \<Rightarrow> (Some s, m0)
            | None \<Rightarrow> if initialActive
                then (case EnsureUpgradeMetricsSession key startedAt m0 of ((s, _), m) \<Rightarrow> (Some s, m))
                else (None, m0));
          (st2, m2, started) = (if \<not> initialActive \<and> active
                then (case EnsureUpgradeMetricsSession key now m1 of ((s, created), m) \<Rightarrow> (Some s, m, created))
                else (st1, m1, False));
          rb = (rollbackSet \<and> \<not> initialRollbackSet);
          (st3, m3) = (if rb
                then (case st2 of
                        Some s \<Rightarrow> (let s' = s\<lparr>msRollbackSeen := True\<rparr> in (Some s', m2(key \<mapsto> s')))
                      | None \<Rightarrow> (None, m2))
                else (st2, m2))
      in (case (initialActive \<and> \<not> active, st3) of
            (True, Some s) \<Rightarrow>
              (\<lparr> mtSessionStarted = started, mtRollbackStarted = rb, mtCompleted = True,
                 mtDuration = now - msStartedAt s, mtRollbackSeen = msRollbackSeen s \<rparr>, m3(key := None))
          | _ \<Rightarrow>
              (\<lparr> mtSessionStarted = started, mtRollbackStarted = rb, mtCompleted = False,
                 mtDuration = 0, mtRollbackSeen = False \<rparr>, m3)))"

text \<open>The metric updates of one pass, in order (\<open>bluegreen/manager_metrics.go\<close>).\<close>

datatype metric =
    SetInProgress bool
  | SetRunningProgress int
  | SetInactiveProgress
  | IncrementTotal
  | IncrementRollback
  | IncrementFailure
  | IncrementSuccess
  | RecordDuration int string string
  | RecordPodDuration int string
  | SetMetricStatus int
  | SetPodsCompleted int
  | SetTotalPods int
  | SetPartition int

definition finalizeBlueGreenMetrics ::
    "time \<Rightarrow> Cluster \<Rightarrow> BlueGreenPhase \<Rightarrow> bool \<Rightarrow> sessions \<Rightarrow> metric list \<times> sessions" where
  "finalizeBlueGreenMetrics now c initialPhase initialRollbackSet m =
     (let phase = CurrentBlueGreenPhase (Some c);
          inProgress = (phase \<noteq> PhaseIdle);
          startedAt = (case blueGreen c of None \<Rightarrow> now
                       | Some b \<Rightarrow> (case bgStartTime b of None \<Rightarrow> now | Some t \<Rightarrow> t));
          (tr, m') = ReconcileUpgradeMetricsSession (UpgradeMetricsSessionKey (clNamespace c) (clName c))
             (initialPhase \<noteq> PhaseIdle) inProgress initialRollbackSet (IsBlueGreenRollbackSet (Some c)) startedAt now m
      in ([SetInProgress inProgress, if inProgress then SetRunningProgress (spReplicas (clSpec c)) else SetInactiveProgress]
          @ (if mtSessionStarted tr then [IncrementTotal] else [])
          @ (if mtRollbackStarted tr then [IncrementRollback, IncrementFailure] else [])
          @ (if mtCompleted tr
             then RecordDuration (mtDuration tr) (ssCurrentVersion (clStatus c)) (spVersion (clSpec c))
               # (if initialPhase = PhaseCleanup then [IncrementSuccess, SetMetricStatus 2]
                  else (if \<not> mtRollbackSeen tr then [IncrementFailure] else []) @ [SetMetricStatus 3])
             else []), m'))"

section \<open>Frame rules of the state operations\<close>

lemma AdvanceBlueGreenPhase_sel [simp]:
  "bgPhase (AdvanceBlueGreenPhase now p b) = p"
  "bgStartTime (AdvanceBlueGreenPhase now p b) = (if p \<noteq> PhaseIdle then Some now else None)"
  "bgJobFailureCount (AdvanceBlueGreenPhase now p b) = 0"
  "bgLastJobFailure (AdvanceBlueGreenPhase now p b) = []"
  "bgBlueRevision (AdvanceBlueGreenPhase now p b) = bgBlueRevision b"
  "bgGreenRevision (AdvanceBlueGreenPhase now p b) = bgGreenRevision b"
  "bgGreenVersion (AdvanceBlueGreenPhase now p b) = bgGreenVersion b"
  "bgGreenImage (AdvanceBlueGreenPhase now p b) = bgGreenImage b"
  "bgGreenReplicas (AdvanceBlueGreenPhase now p b) = bgGreenReplicas b"
  "bgValidationHook (AdvanceBlueGreenPhase now p b) = bgValidationHook b"
  "bgRollbackStartTime (AdvanceBlueGreenPhase now p b) = bgRollbackStartTime b"
  "bgManualPromotionRequired (AdvanceBlueGreenPhase now p b) = bgManualPromotionRequired b"
  "bgOperationID (AdvanceBlueGreenPhase now p b) = bgOperationID b"
  "bgPreUpgradeSnapshotJobName (AdvanceBlueGreenPhase now p b) = bgPreUpgradeSnapshotJobName b"
  by (simp_all add: AdvanceBlueGreenPhase_def)

lemma ResetBlueGreenTransientState_sel [simp]:
  "bgPhase (ResetBlueGreenTransientState now b) = PhaseIdle"
  "bgStartTime (ResetBlueGreenTransientState now b) = None"
  "bgGreenRevision (ResetBlueGreenTransientState now b) = []"
  "bgGreenImage (ResetBlueGreenTransientState now b) = []"
  "bgGreenVersion (ResetBlueGreenTransientState now b) = []"
  "bgGreenReplicas (ResetBlueGreenTransientState now b) = 0"
  "bgManualPromotionRequired (ResetBlueGreenTransientState now b) = False"
  "bgJobFailureCount (ResetBlueGreenTransientState now b) = 0"
  "bgLastJobFailure (ResetBlueGreenTransientState now b) = []"
  "bgBlueRevision (ResetBlueGreenTransientState now b) = bgBlueRevision b"
  "bgBlueImage (ResetBlueGreenTransientState now b) = bgBlueImage b"
  "bgBlueReplicas (ResetBlueGreenTransientState now b) = bgBlueReplicas b"
  "bgValidationHook (ResetBlueGreenTransientState now b) = bgValidationHook b"
  "bgRollbackStartTime (ResetBlueGreenTransientState now b) = bgRollbackStartTime b"
  "bgPreUpgradeSnapshotJobName (ResetBlueGreenTransientState now b) = bgPreUpgradeSnapshotJobName b"
  by (simp_all add: ResetBlueGreenTransientState_def AdvanceBlueGreenPhase_def Let_def)

lemma PromoteBlueGreenTarget_sel [simp]:
  "bgBlueImage (PromoteBlueGreenTarget b) = (if bgGreenImage b \<noteq> [] then bgGreenImage b else bgBlueImage b)"
  "bgBlueReplicas (PromoteBlueGreenTarget b) = (if bgGreenReplicas b > 0 then bgGreenReplicas b else bgBlueReplicas b)"
  "bgBlueRevision (PromoteBlueGreenTarget b) = bgBlueRevision b"
  "bgValidationHook (PromoteBlueGreenTarget b) = bgValidationHook b"
  "bgRollbackStartTime (PromoteBlueGreenTarget b) = bgRollbackStartTime b"
  "bgPreUpgradeSnapshotJobName (PromoteBlueGreenTarget b) = bgPreUpgradeSnapshotJobName b"
  by (simp_all add: PromoteBlueGreenTarget_def Let_def)

lemma FinalizeBlueGreenTerminalState_sel [simp]:
  "blueGreen (FinalizeBlueGreenTerminalState now p c) = (case blueGreen c of None \<Rightarrow> None
     | Some b \<Rightarrow> Some (ResetBlueGreenTransientState now (if p
          then PromoteBlueGreenTarget (b\<lparr>bgBlueRevision := bgGreenRevision b, bgBlueControllerRevision := []\<rparr>) else b)))"
  "clName (FinalizeBlueGreenTerminalState now p c) = clName c"
  "clNamespace (FinalizeBlueGreenTerminalState now p c) = clNamespace c"
  "clUID (FinalizeBlueGreenTerminalState now p c) = clUID c"
  "clSpec (FinalizeBlueGreenTerminalState now p c) = clSpec c"
  "ssOperationLock (clStatus (FinalizeBlueGreenTerminalState now p c)) = ssOperationLock (clStatus c)"
  "ssBreakGlass (clStatus (FinalizeBlueGreenTerminalState now p c)) = ssBreakGlass (clStatus c)"
  by (auto simp: FinalizeBlueGreenTerminalState_def Let_def split: option.split)

lemma InitializeBlueGreenManualPromotion_sel [simp]:
  "clName (InitializeBlueGreenManualPromotion c) = clName c"
  "clNamespace (InitializeBlueGreenManualPromotion c) = clNamespace c"
  "clUID (InitializeBlueGreenManualPromotion c) = clUID c"
  "clSpec (InitializeBlueGreenManualPromotion c) = clSpec c"
  "CurrentBlueGreenPhase (Some (InitializeBlueGreenManualPromotion c)) = CurrentBlueGreenPhase (Some c)"
  "ssOperationLock (clStatus (InitializeBlueGreenManualPromotion c)) = ssOperationLock (clStatus c)"
  "ssBreakGlass (clStatus (InitializeBlueGreenManualPromotion c)) = ssBreakGlass (clStatus c)"
  by (auto simp: InitializeBlueGreenManualPromotion_def CurrentBlueGreenPhase_def split: option.split)

section \<open>Properties\<close>

text \<open>
  Finalizing a completed upgrade makes the Green target the stable one and leaves no in-flight
  state behind: the phase is Idle, the new Blue revision, image and population are the ones Green was
  deployed with, and no Green field, timer, failure count or promotion gate survives.
\<close>

theorem finalize_promotes_green:
  assumes "blueGreen c = Some b" and "bgGreenImage b \<noteq> []" and "bgGreenReplicas b > 0"
  shows "\<exists>b'. blueGreen (FinalizeBlueGreenTerminalState now True c) = Some b'
    \<and> bgPhase b' = PhaseIdle \<and> bgStartTime b' = None
    \<and> bgBlueRevision b' = bgGreenRevision b \<and> bgBlueImage b' = bgGreenImage b \<and> bgBlueReplicas b' = bgGreenReplicas b
    \<and> bgGreenRevision b' = [] \<and> bgGreenImage b' = [] \<and> bgGreenVersion b' = [] \<and> bgGreenReplicas b' = 0
    \<and> bgJobFailureCount b' = 0 \<and> bgLastJobFailure b' = [] \<and> \<not> bgManualPromotionRequired b'
    \<and> (bgValidationHook b = None \<longrightarrow> bgOperationID b' = [])"
  using assms by (simp add: ResetBlueGreenTransientState_def PromoteBlueGreenTarget_def AdvanceBlueGreenPhase_def Let_def)

theorem finalize_promotes_green_witness:
  "\<exists>b'. blueGreen (FinalizeBlueGreenTerminalState 9 True (setBlueGreen (Some (emptyBlueGreenStatus
        \<lparr>bgPhase := PhaseCleanup, bgGreenRevision := ''g2'', bgGreenImage := ''img:2'', bgGreenReplicas := 3\<rparr>))
        exampleBase)) = Some b'
     \<and> bgBlueRevision b' = ''g2'' \<and> bgBlueImage b' = ''img:2'' \<and> bgBlueReplicas b' = 3 \<and> bgPhase b' = PhaseIdle"
  using finalize_promotes_green [of "setBlueGreen (Some (emptyBlueGreenStatus
      \<lparr>bgPhase := PhaseCleanup, bgGreenRevision := ''g2'', bgGreenImage := ''img:2'', bgGreenReplicas := 3\<rparr>)) exampleBase"
    "emptyBlueGreenStatus\<lparr>bgPhase := PhaseCleanup, bgGreenRevision := ''g2'', bgGreenImage := ''img:2'', bgGreenReplicas := 3\<rparr>" 9]
  by (simp add: emptyBlueGreenStatus_def)

text \<open>
  C34: the manual promotion gate is armed only for upgrades that start without a recorded snapshot Job.
  Once an upgrade has recorded one, finalizing keeps the name, so the next upgrade starts with the gate
  open even when automatic promotion is switched off.
\<close>

theorem manual_promotion_not_rearmed:
  assumes "blueGreen c = Some b" and "bgPreUpgradeSnapshotJobName b \<noteq> []"
  shows "\<exists>b'. blueGreen (InitializeBlueGreenManualPromotion (FinalizeBlueGreenTerminalState now promote c)) = Some b'
    \<and> bgPreUpgradeSnapshotJobName b' = bgPreUpgradeSnapshotJobName b \<and> \<not> bgManualPromotionRequired b'"
  using assms by (auto simp: InitializeBlueGreenManualPromotion_def split: option.split)

theorem manual_promotion_not_rearmed_witness:
  "\<exists>b'. blueGreen (InitializeBlueGreenManualPromotion (FinalizeBlueGreenTerminalState 9 True
       (setBlueGreen (Some (emptyBlueGreenStatus\<lparr>bgPhase := PhaseCleanup, bgPreUpgradeSnapshotJobName := ''job''\<rparr>))
         exampleBase))) = Some b' \<and> \<not> bgManualPromotionRequired b'"
  using manual_promotion_not_rearmed [of "setBlueGreen (Some (emptyBlueGreenStatus
      \<lparr>bgPhase := PhaseCleanup, bgPreUpgradeSnapshotJobName := ''job''\<rparr>)) exampleBase"
    "emptyBlueGreenStatus\<lparr>bgPhase := PhaseCleanup, bgPreUpgradeSnapshotJobName := ''job''\<rparr>" 9 True]
  by auto

text \<open>
  C40: an upgrade whose last phase was the restore of the read replicas is recorded as a failed one:
  the pass that ends it emits a failure and the failed status, and no success, although no rollback
  took place.
\<close>

theorem restore_completion_counted_as_failure:
  assumes "CurrentBlueGreenPhase (Some c) = PhaseIdle" and "\<not> IsBlueGreenRollbackSet (Some c)"
    and "sessions (UpgradeMetricsSessionKey (clNamespace c) (clName c)) = Some s" and "\<not> msRollbackSeen s"
  shows "IncrementFailure \<in> set (fst (finalizeBlueGreenMetrics now c PhaseRestoringReadReplicas False sessions))
    \<and> SetMetricStatus 3 \<in> set (fst (finalizeBlueGreenMetrics now c PhaseRestoringReadReplicas False sessions))
    \<and> IncrementSuccess \<notin> set (fst (finalizeBlueGreenMetrics now c PhaseRestoringReadReplicas False sessions))"
  using assms by (simp add: finalizeBlueGreenMetrics_def ReconcileUpgradeMetricsSession_def Let_def)

theorem restore_completion_counted_as_failure_witness:
  "IncrementFailure \<in> set (fst (finalizeBlueGreenMetrics 9 exampleBase PhaseRestoringReadReplicas False
      [''ns/bao'' \<mapsto> \<lparr> msStartedAt = 1, msStepDownCounted = False, msRollbackSeen = False \<rparr>]))"
  using restore_completion_counted_as_failure [of exampleBase
    "[''ns/bao'' \<mapsto> \<lparr> msStartedAt = 1, msStepDownCounted = False, msRollbackSeen = False \<rparr>]"
    "\<lparr> msStartedAt = 1, msStepDownCounted = False, msRollbackSeen = False \<rparr>" 9]
  by (simp add: CurrentBlueGreenPhase_def IsBlueGreenRollbackSet_def exampleBase_def exampleBaseStatus_def
      UpgradeMetricsSessionKey_def)

end
