(* ===== verification/BlueGreen_Stepper.thy ===== *)
theory BlueGreen_Stepper
  imports BlueGreen_State Ownership Operation_Lock
begin

text \<open>
  The decision core of a blue/green upgrade, without effects: phase outcomes (\<open>bluegreen/outcome.go\<close>),
  preconditions and Job decisions (\<open>bluegreen/stepper.go\<close>), rollback policy
  (\<open>rollback_control.go\<close>, \<open>job_helpers.go\<close>), the selection of the acting strategy and of the stable
  voters (\<open>internal/port/workload/strategy.go\<close>, \<open>upgrade/bluegreen_target.go\<close>), and Job names
  (\<open>upgrade/job_naming.go\<close>, \<open>bluegreen/job.go\<close>, \<open>bluegreen/hooks.go\<close>).  SHA-256 in hexadecimal is
  the parameter \<open>sha\<close>.  A dereference of a nil \<open>spec.upgrade\<close> is a \<open>Panic\<close>.
\<close>

section \<open>Phase outcomes\<close>

datatype phaseOutcomeKind = KAdvance | KRequeueAfter | KHold | KRollback | KAbort | KDone | KOther string

record phaseOutcome =
  poKind :: phaseOutcomeKind
  poNextPhase :: BlueGreenPhase
  poAfter :: int
  poReason :: string
  poAcks :: RequestAcknowledgements

definition zeroOutcome :: phaseOutcome where
  "zeroOutcome = \<lparr> poKind = KOther [], poNextPhase = OtherPhase [], poAfter = 0, poReason = [], poAcks = noAcks \<rparr>"

definition validateOutcome :: "phaseOutcome \<Rightarrow> go_error option" where
  "validateOutcome p = (case poKind p of
      KAdvance \<Rightarrow> if poNextPhase p = OtherPhase [] then Some (errorf ''advance outcome requires nextPhase'') else None
    | KRequeueAfter \<Rightarrow> if poAfter p \<le> 0 then Some (errorf ''requeueAfter outcome requires after > 0'') else None
    | KRollback \<Rightarrow> if poReason p = [] then Some (errorf ''rollback outcome requires reason'') else None
    | KAbort \<Rightarrow> if poReason p = [] then Some (errorf ''abort outcome requires reason'') else None
    | KHold \<Rightarrow> None
    | KDone \<Rightarrow> None
    | KOther k \<Rightarrow> Some (errorf (''unknown outcome kind: '' @ k)))"

definition advance :: "BlueGreenPhase \<Rightarrow> phaseOutcome" where
  "advance to' = zeroOutcome\<lparr>poKind := KAdvance, poNextPhase := to'\<rparr>"

definition requeueAfterOutcome :: "int \<Rightarrow> phaseOutcome" where
  "requeueAfterOutcome after = zeroOutcome\<lparr>poKind := KRequeueAfter, poAfter := after\<rparr>"

definition hold :: phaseOutcome where
  "hold = zeroOutcome\<lparr>poKind := KHold\<rparr>"

definition rollback :: "string \<Rightarrow> phaseOutcome" where
  "rollback reason = zeroOutcome\<lparr>poKind := KRollback, poReason := reason\<rparr>"

definition doneOutcome :: phaseOutcome where
  "doneOutcome = zeroOutcome\<lparr>poKind := KDone\<rparr>"

section \<open>Pod snapshots and preconditions\<close>

record podSnapshot =
  psReady :: bool
  psUnsealed :: bool
  psActive :: bool
  psDeleting :: bool

fun countReadyUnsealedPods :: "podSnapshot list \<Rightarrow> nat" where
  "countReadyUnsealedPods [] = 0"
| "countReadyUnsealedPods (p # ps) =
     (if psDeleting p then countReadyUnsealedPods ps
      else if psReady p \<and> psUnsealed p then Suc (countReadyUnsealedPods ps)
      else countReadyUnsealedPods ps)"

definition leaderObserved :: "podSnapshot list \<Rightarrow> bool" where
  "leaderObserved pods \<longleftrightarrow> list_ex (\<lambda>p. \<not> psDeleting p \<and> psActive p) pods"

definition demotionPreconditionsSatisfied :: "podSnapshot list \<Rightarrow> int \<Rightarrow> bool" where
  "demotionPreconditionsSatisfied greenPods desiredGreenPods =
     (let desired = (if desiredGreenPods < 1 then 1 else desiredGreenPods)
      in \<not> int (countReadyUnsealedPods greenPods) < desired)"

definition cleanupPreconditionsSatisfied :: "podSnapshot list \<Rightarrow> int \<Rightarrow> bool \<Rightarrow> bool" where
  "cleanupPreconditionsSatisfied greenPods desiredGreenPods leaderOK =
     (let desired = (if desiredGreenPods < 1 then 1 else desiredGreenPods)
      in if int (countReadyUnsealedPods greenPods) < desired then False
         else if \<not> leaderOK then False else True)"

definition isPodReady :: "Pod \<Rightarrow> bool" where
  "isPodReady pod \<longleftrightarrow> list_ex (\<lambda>c. cdType c = ''Ready'' \<and> cdStatus c = ''True'') (pdConditions pod)"

definition countActivePods :: "Pod list \<Rightarrow> nat" where
  "countActivePods pods = length (filter (\<lambda>p. omDeletionTimestamp (pdMeta p) = None) pods)"

fun podSnapshotsFromPods :: "Pod list \<Rightarrow> go_error + podSnapshot list" where
  "podSnapshotsFromPods [] = Inr []"
| "podSnapshotsFromPods (pod # pods) = (case ParseBoolLabel (pdLabels pod) ''openbao-sealed'' of
      Inl e \<Rightarrow> Inl (wrapf (''failed to parse sealed label on pod '' @ pdName pod) e)
    | Inr (sealed, present) \<Rightarrow>
        (let active = (case ParseBoolLabel (pdLabels pod) ''openbao-active'' of
                Inl _ \<Rightarrow> False | Inr (isActive, isActivePresent) \<Rightarrow> isActivePresent \<and> isActive);
             snap = \<lparr> psReady = isPodReady pod, psUnsealed = present \<and> \<not> sealed, psActive = active,
                      psDeleting = (omDeletionTimestamp (pdMeta pod) \<noteq> None) \<rparr>
         in (case podSnapshotsFromPods pods of Inl e \<Rightarrow> Inl e | Inr ss \<Rightarrow> Inr (snap # ss))))"

section \<open>Executor and hook decisions\<close>

record JobResult =
  jrName :: string
  jrExists :: bool
  jrSucceeded :: bool
  jrFailed :: bool
  jrRunning :: bool

record autoRollbackConfig =
  acEnabled :: bool
  acOnJobFailure :: bool
  acOnValidationFailure :: bool

definition executorRunID :: "autoRollbackConfig \<Rightarrow> int \<Rightarrow> string" where
  "executorRunID autoRollback currentFailureCount =
     (let shouldRetryOrRollback = (acEnabled autoRollback \<and> acOnJobFailure autoRollback)
      in if \<not> shouldRetryOrRollback \<or> currentFailureCount \<le> 0 then []
         else ''retry-'' @ int_str currentFailureCount)"

record executorDecision =
  edCompleted :: bool
  edOutcome :: phaseOutcome
  edNextFailureCount :: int
  edJobFailed :: bool
  edLastJobFailure :: string

definition executorJobDecision ::
    "autoRollbackConfig \<Rightarrow> int \<Rightarrow> int \<Rightarrow> JobResult option \<Rightarrow> string \<Rightarrow> go_error + executorDecision" where
  "executorJobDecision autoRollback currentFailureCount maxFailures0 result abortMessage = (case result of
      None \<Rightarrow> Inl (errorf ''job result is required'')
    | Some r \<Rightarrow>
      (let maxFailures = (if maxFailures0 \<le> 0 then 5 else maxFailures0) in
       if jrSucceeded r then Inr \<lparr> edCompleted = True, edOutcome = zeroOutcome, edNextFailureCount = 0,
            edJobFailed = False, edLastJobFailure = [] \<rparr>
       else if jrRunning r then Inr \<lparr> edCompleted = False, edOutcome = requeueAfterOutcome requeueShort,
            edNextFailureCount = currentFailureCount, edJobFailed = False, edLastJobFailure = [] \<rparr>
       else if \<not> jrFailed r then Inl (errorf ''invalid job result: neither running, failed, nor succeeded'')
       else if acEnabled autoRollback \<and> acOnJobFailure autoRollback
       then (let nextCount = int32 (currentFailureCount + 1) in
             if nextCount \<ge> maxFailures
             then Inr \<lparr> edCompleted = False, edOutcome = rollback abortMessage, edNextFailureCount = nextCount,
                    edJobFailed = True, edLastJobFailure = jrName r \<rparr>
             else Inr \<lparr> edCompleted = False, edOutcome = requeueAfterOutcome requeueShort,
                    edNextFailureCount = nextCount, edJobFailed = True, edLastJobFailure = jrName r \<rparr>)
       else Inr \<lparr> edCompleted = False, edOutcome = hold,
              edNextFailureCount = (if currentFailureCount \<le> 0 then 1 else currentFailureCount),
              edJobFailed = True, edLastJobFailure = jrName r \<rparr>))"

text \<open>\<open>Some outcome\<close> is a handled hook result.\<close>

definition validationHookDecision :: "bool \<Rightarrow> JobResult option \<Rightarrow> string \<Rightarrow> go_error + phaseOutcome option" where
  "validationHookDecision rollbackOnFailure hookJob failureReason = (case hookJob of
      None \<Rightarrow> Inr None
    | Some j \<Rightarrow>
        if jrRunning j then Inr (Some (requeueAfterOutcome requeueShort))
        else if jrFailed j then (if rollbackOnFailure then Inr (Some (rollback failureReason)) else Inr (Some hold))
        else if jrSucceeded j then Inr None
        else Inl (errorf ''invalid hook job result: neither running, failed, nor succeeded''))"

definition prePromotionHookDecision ::
    "autoRollbackConfig \<Rightarrow> JobResult option \<Rightarrow> string \<Rightarrow> go_error + phaseOutcome option" where
  "prePromotionHookDecision autoRollback hookJob failureReason =
     validationHookDecision (acEnabled autoRollback \<and> acOnValidationFailure autoRollback) hookJob failureReason"

definition jobResultFromJob :: "Job \<Rightarrow> JobResult" where
  "jobResultFromJob job =
     (if JobSucceeded (Some job)
      then \<lparr> jrName = omName (jbMeta job), jrExists = True, jrSucceeded = True, jrFailed = False, jrRunning = False \<rparr>
      else if JobFailed (Some job)
      then \<lparr> jrName = omName (jbMeta job), jrExists = True, jrSucceeded = False, jrFailed = True, jrRunning = False \<rparr>
      else \<lparr> jrName = omName (jbMeta job), jrExists = True, jrSucceeded = False, jrFailed = False, jrRunning = True \<rparr>)"

section \<open>Rollback policy\<close>

definition isEarlyPhase :: "BlueGreenPhase \<Rightarrow> bool" where
  "isEarlyPhase phase \<longleftrightarrow> phase = PhaseDeployingGreen \<or> phase = PhaseJoiningMesh \<or> phase = PhaseSyncing"

definition isPastPointOfNoReturn :: "BlueGreenPhase \<Rightarrow> bool" where
  "isPastPointOfNoReturn phase \<longleftrightarrow> phase = PhaseCleanup \<or> phase = PhaseRestoringReadReplicas"

definition autoRollbackSettings :: "Cluster \<Rightarrow> go_error + autoRollbackConfig" where
  "autoRollbackSettings c = (case spUpgrade (clSpec c) of
      None \<Rightarrow> Inl (Panic ''spec.upgrade'')
    | Some u \<Rightarrow> (case ucBlueGreen u of
        None \<Rightarrow> Inr \<lparr> acEnabled = True, acOnJobFailure = True, acOnValidationFailure = True \<rparr>
      | Some g \<Rightarrow> (case bcAutoRollback g of
          None \<Rightarrow> Inr \<lparr> acEnabled = True, acOnJobFailure = True, acOnValidationFailure = True \<rparr>
        | Some ar \<Rightarrow> Inr \<lparr> acEnabled = arEnabled ar, acOnJobFailure = arOnJobFailure ar,
                            acOnValidationFailure = arOnValidationFailure ar \<rparr>)))"

definition getMaxJobFailures :: "Cluster \<Rightarrow> go_error + int" where
  "getMaxJobFailures c = (case spUpgrade (clSpec c) of
      None \<Rightarrow> Inl (Panic ''spec.upgrade'')
    | Some u \<Rightarrow> (case ucBlueGreen u of
        None \<Rightarrow> Inr 5
      | Some g \<Rightarrow> (case bcMaxJobFailures g of None \<Rightarrow> Inr 5 | Some n \<Rightarrow> Inr n)))"

definition operationScopedRunID :: "string \<Rightarrow> string \<Rightarrow> string" where
  "operationScopedRunID operationID runID =
     (if has_prefix operationID ''bg-v2-'' then operationID @ ''/'' @ runID else runID)"

definition rollbackRunID :: "Cluster \<Rightarrow> string" where
  "rollbackRunID c = (case blueGreen c of
      None \<Rightarrow> ''rollback''
    | Some b \<Rightarrow> operationScopedRunID (bgOperationID b)
        (if bgRollbackAttempt b > 0 then ''rollback-retry-'' @ int_str (bgRollbackAttempt b) else ''rollback''))"

definition shouldResumeBlueGreenRollbackAfterBreakGlassAck :: "Cluster \<Rightarrow> bool" where
  "shouldResumeBlueGreenRollbackAfterBreakGlassAck c = (case (blueGreen c, ssBreakGlass (clStatus c)) of
      (Some b, Some g) \<Rightarrow> (case gkReason g of
          RollbackConsensusRepairFailed \<Rightarrow> bgPhase b = PhaseRollingBack
        | RollbackCleanupPeerRemovalFailed \<Rightarrow> bgPhase b = PhaseRollbackCleanup
        | OtherBreakGlassReason _ \<Rightarrow> False)
    | _ \<Rightarrow> False)"

text \<open>A pod or claim name is the prefix followed by a canonical unsigned 32-bit ordinal.\<close>

definition rollbackOrdinalName :: "string \<Rightarrow> string \<Rightarrow> bool" where
  "rollbackOrdinalName name prefix = (case cut_prefix name prefix of
      None \<Rightarrow> False
    | Some ordinal \<Rightarrow> (case parse_uint 32 ordinal of None \<Rightarrow> False | Some v \<Rightarrow> nat_str v = ordinal))"

section \<open>Strategies and stable voters\<close>

definition DesiredStrategy :: "Cluster option \<Rightarrow> UpdateStrategyType" where
  "DesiredStrategy cluster = (case cluster of None \<Rightarrow> RollingUpdate
     | Some c \<Rightarrow> (case spUpgrade (clSpec c) of None \<Rightarrow> RollingUpdate
         | Some u \<Rightarrow> if ucStrategy u = OtherStrategy [] then RollingUpdate else ucStrategy u))"

definition EffectiveStrategy :: "Cluster option \<Rightarrow> UpdateStrategyType" where
  "EffectiveStrategy cluster = (case cluster of
      None \<Rightarrow> DesiredStrategy None
    | Some c \<Rightarrow>
        if ssAcceptedUpgradeStrategy (clStatus c) \<noteq> OtherStrategy [] then ssAcceptedUpgradeStrategy (clStatus c)
        else if ssInitialized (clStatus c)
        then (if blueGreen c \<noteq> None then BlueGreen else RollingUpdate)
        else DesiredStrategy (Some c))"

definition StableVoterRevision :: "Cluster option \<Rightarrow> string" where
  "StableVoterRevision cluster = (case cluster of None \<Rightarrow> []
     | Some c \<Rightarrow> (case blueGreen c of None \<Rightarrow> [] | Some b \<Rightarrow> trim_space (bgBlueRevision b)))"

definition StableVoterStatefulSetName :: "Cluster option \<Rightarrow> string" where
  "StableVoterStatefulSetName cluster = (case cluster of None \<Rightarrow> []
     | Some c \<Rightarrow>
         (let revision = StableVoterRevision (Some c)
          in if revision = [] then clName c else clName c @ ''-'' @ revision))"

definition StableVoterPodName :: "Cluster option \<Rightarrow> int \<Rightarrow> string" where
  "StableVoterPodName cluster ordinal = StableVoterStatefulSetName cluster @ ''-'' @ int_str ordinal"

definition BlueGreenTargetReplicas :: "Cluster \<Rightarrow> int" where
  "BlueGreenTargetReplicas c = (case blueGreen c of
      None \<Rightarrow> spReplicas (clSpec c)
    | Some b \<Rightarrow> if bgPhase b \<noteq> PhaseIdle \<and> bgGreenReplicas b > 0 then bgGreenReplicas b else spReplicas (clSpec c))"

definition BlueGreenSourceReplicas :: "Cluster \<Rightarrow> int" where
  "BlueGreenSourceReplicas c = (case blueGreen c of
      None \<Rightarrow> spReplicas (clSpec c)
    | Some b \<Rightarrow> if bgBlueReplicas b > 0 then bgBlueReplicas b else spReplicas (clSpec c))"

section \<open>Job names\<close>

datatype ExecutorAction = ActionJoinGreenNonVoters | ActionWaitGreenSynced | ActionPromoteGreenVoters
  | ActionDemoteBlueNonVotersStepDown | ActionRemoveBluePeers | ActionRemoveGreenPeers | ActionRepairConsensus
  | ActionRollingStepDownLeader

fun actionString :: "ExecutorAction \<Rightarrow> string" where
  "actionString ActionJoinGreenNonVoters = ''bluegreen-join-green-nonvoters''"
| "actionString ActionWaitGreenSynced = ''bluegreen-wait-green-synced''"
| "actionString ActionPromoteGreenVoters = ''bluegreen-promote-green-voters''"
| "actionString ActionDemoteBlueNonVotersStepDown = ''bluegreen-demote-blue-nonvoters-stepdown''"
| "actionString ActionRemoveBluePeers = ''bluegreen-remove-blue-peers''"
| "actionString ActionRemoveGreenPeers = ''bluegreen-remove-green-peers''"
| "actionString ActionRepairConsensus = ''bluegreen-repair-consensus''"
| "actionString ActionRollingStepDownLeader = ''rolling-stepdown-leader''"

text \<open>The name is lower case without underscores, cut so that the suffix fits in 63 characters.\<close>

definition boundedJobName :: "string \<Rightarrow> string \<Rightarrow> string" where
  "boundedJobName base0 suffix =
     (let base = replace_char (CHR ''_'') (CHR ''-'') (to_lower base0);
          maxBaseLen = 63 - 1 - length suffix;
          base = (if length base > maxBaseLen then trim_right_char (CHR ''-'') (take maxBaseLen base) else base)
      in base @ ''-'' @ suffix)"

definition upgradeExecutorJobName ::
    "(string \<Rightarrow> string) \<Rightarrow> string \<Rightarrow> ExecutorAction \<Rightarrow> string \<Rightarrow> string \<Rightarrow> string \<Rightarrow> string" where
  "upgradeExecutorJobName sha clusterName action runID blueRevision greenRevision =
     (let payload = clusterName @ ''|'' @ actionString action @ ''|'' @ runID @ ''|'' @ blueRevision @ ''|'' @ greenRevision
      in boundedJobName (''upgrade-'' @ clusterName @ ''-'' @ actionString action) (take 10 (sha payload)))"

definition preUpgradeSnapshotJobName :: "(string \<Rightarrow> string) \<Rightarrow> Cluster option \<Rightarrow> string" where
  "preUpgradeSnapshotJobName sha cluster = (case cluster of None \<Rightarrow> []
     | Some c \<Rightarrow>
         (let blueRevision = (case blueGreen c of None \<Rightarrow> [] | Some b \<Rightarrow> bgBlueRevision b);
              payload = clName c @ ''|pre-upgrade-snapshot|'' @ ssCurrentVersion (clStatus c) @ ''|''
                @ spVersion (clSpec c) @ ''|'' @ spImage (clSpec c) @ ''|'' @ int_str (spReplicas (clSpec c))
                @ ''|'' @ blueRevision
          in boundedJobName (''upgrade-'' @ clName c @ ''-preupgrade-snapshot'') (take 10 (sha payload))))"

definition validationHookJobName ::
    "(string \<Rightarrow> string) \<Rightarrow> string \<Rightarrow> string \<Rightarrow> string \<Rightarrow> string \<Rightarrow> string" where
  "validationHookJobName sha clusterName operationID greenRevision specHash =
     boundedJobName (''upgrade-'' @ clusterName @ ''-validation-hook'')
       (take 12 (sha (operationID @ ''|'' @ greenRevision @ ''|'' @ specHash)))"

definition buildUpgradeExecutorJobAnnotations :: "ExecutorAction \<Rightarrow> string \<Rightarrow> labels" where
  "buildUpgradeExecutorJobAnnotations action runID =
     (''openbao.org/upgrade-action'', actionString action)
     # (if trim_space runID \<noteq> [] then [(''openbao.org/upgrade-run-id'', runID)] else [])"

text \<open>The failure count after \<open>n\<close> failed runs of the same executor step, and the last outcome.\<close>

definition failedResult :: "string \<Rightarrow> JobResult" where
  "failedResult name = \<lparr> jrName = name, jrExists = True, jrSucceeded = False, jrFailed = True, jrRunning = False \<rparr>"

fun afterFailures :: "autoRollbackConfig \<Rightarrow> int \<Rightarrow> string \<Rightarrow> string \<Rightarrow> nat \<Rightarrow> int \<times> phaseOutcome" where
  "afterFailures ar mx msg job 0 = (0, zeroOutcome)"
| "afterFailures ar mx msg job (Suc n) =
     (case executorJobDecision ar (fst (afterFailures ar mx msg job n)) mx (Some (failedResult job)) msg of
        Inl _ \<Rightarrow> (0, zeroOutcome)
      | Inr d \<Rightarrow> (edNextFailureCount d, edOutcome d))"

section \<open>Lemmas\<close>

lemmas outcome_defs = advance_def requeueAfterOutcome_def hold_def rollback_def doneOutcome_def zeroOutcome_def

lemma outcome_kind [simp]:
  "poKind (advance p) = KAdvance" "poNextPhase (advance p) = p" "poAcks (advance p) = noAcks"
  "poKind (requeueAfterOutcome d) = KRequeueAfter" "poAfter (requeueAfterOutcome d) = d"
  "poKind hold = KHold" "poKind (rollback r) = KRollback" "poReason (rollback r) = r"
  "poKind doneOutcome = KDone" "poKind zeroOutcome = KOther []"
  by (simp_all add: outcome_defs)

lemma jobResult_trichotomy:
  "(jrSucceeded (jobResultFromJob j), jrFailed (jobResultFromJob j), jrRunning (jobResultFromJob j))
     \<in> {(True, False, False), (False, True, False), (False, False, True)}"
  by (simp add: jobResultFromJob_def)

lemma jobResult_succeeded [simp]: "jrSucceeded (jobResultFromJob j) \<longleftrightarrow> JobSucceeded (Some j)"
  by (simp add: jobResultFromJob_def)

lemma length_trim_right_char: "length (trim_right_char c s) \<le> length s"
  using length_dropWhile_le [of _ "rev s"] by (simp add: trim_right_char_def)

lemma length_replace_lower [simp]: "length (replace_char a b (to_lower s)) = length s"
  by (simp add: replace_char_def to_lower_def)

lemma boundedJobName_length: "length suffix \<le> 61 \<Longrightarrow> length (boundedJobName base suffix) \<le> 63"
proof -
  assume s: "length suffix \<le> 61"
  let ?m = "62 - length suffix"
  have "length (trim_right_char (CHR ''-'') (take ?m x)) \<le> ?m" for x
    using length_trim_right_char [of "CHR ''-''" "take ?m x"] by (simp add: min_def split: if_splits)
  from this [of "replace_char (CHR ''_'') (CHR ''-'') (to_lower base)"] show ?thesis
    using s by (auto simp: boundedJobName_def Let_def)
qed

lemma decision_failed:
  assumes "acEnabled ar" "acOnJobFailure ar"
  shows "executorJobDecision ar n mx (Some (failedResult job)) msg =
     Inr \<lparr> edCompleted = False,
       edOutcome = (if int32 (n + 1) \<ge> (if mx \<le> 0 then 5 else mx) then rollback msg else requeueAfterOutcome requeueShort),
       edNextFailureCount = int32 (n + 1), edJobFailed = True, edLastJobFailure = job \<rparr>"
  using assms by (simp add: executorJobDecision_def failedResult_def Let_def)

lemma afterFailures_count:
  assumes "acEnabled ar" "acOnJobFailure ar" "n < 2 ^ 31"
  shows "fst (afterFailures ar mx msg job n) = int n"
  using assms(3)
proof (induction n)
  case (Suc n)
  then show ?case using assms(1,2) by (simp add: decision_failed int32_id)
qed simp

section \<open>Properties\<close>

text \<open>
  C31: repeated executor failures always end in a rollback decision, and never before the configured
  limit.  With automatic rollback on Job failure, the outcome after the \<open>n\<close>-th consecutive failure is a
  retry for every \<open>n\<close> below the limit (five when it is not positive) and a rollback from the limit on,
  for every failure count an \<open>int32\<close> can hold.
\<close>

theorem executor_failures_bounded:
  assumes "acEnabled ar" and "acOnJobFailure ar" and "Suc n < 2 ^ 31"
  shows "afterFailures ar mx msg job (Suc n) =
    (int (Suc n), if int (Suc n) \<ge> (if mx \<le> 0 then 5 else mx) then rollback msg else requeueAfterOutcome requeueShort)"
  using assms afterFailures_count [of ar n mx msg job] by (simp add: decision_failed int32_id)

theorem executor_failures_bounded_witness:
  "afterFailures \<lparr> acEnabled = True, acOnJobFailure = True, acOnValidationFailure = True \<rparr> 3 ''m'' ''j'' (Suc 2) = (3, rollback ''m'')
   \<and> snd (afterFailures \<lparr> acEnabled = True, acOnJobFailure = True, acOnValidationFailure = True \<rparr> 3 ''m'' ''j'' (Suc 1))
       = requeueAfterOutcome requeueShort"
  using executor_failures_bounded [of "\<lparr> acEnabled = True, acOnJobFailure = True, acOnValidationFailure = True \<rparr>" 2 3 "''m''" "''j''"]
    executor_failures_bounded [of "\<lparr> acEnabled = True, acOnJobFailure = True, acOnValidationFailure = True \<rparr>" 1 3 "''m''" "''j''"]
  by simp

text \<open>
  The name test that guards the deletion of discarded Green data recognises exactly the names of the
  StatefulSet's own ordinals: the prefix followed by a decimal number below \<open>2 ^ 32\<close> without sign, spaces
  or leading zeros.
\<close>

theorem rollbackOrdinalName_iff:
  "rollbackOrdinalName name prefix \<longleftrightarrow> (\<exists>n<2 ^ 32. name = prefix @ nat_str n)"
proof
  assume "rollbackOrdinalName name prefix"
  then obtain r v where "cut_prefix name prefix = Some r" "parse_uint 32 r = Some v" "nat_str v = r"
    by (auto simp: rollbackOrdinalName_def split: option.splits)
  then show "\<exists>n<2 ^ 32. name = prefix @ nat_str n"
    by (auto simp: cut_prefix_iff parse_uint_def split: if_splits)
next
  assume "\<exists>n<2 ^ 32. name = prefix @ nat_str n"
  then obtain n where n: "n < 2 ^ 32" "name = prefix @ nat_str n" by blast
  have "cut_prefix name prefix = Some (nat_str n)" by (simp add: cut_prefix_iff n)
  then show "rollbackOrdinalName name prefix"
    using parse_uint_nat_str [OF n(1)] by (simp add: rollbackOrdinalName_def)
qed

theorem rollbackOrdinalName_iff_witness:
  "rollbackOrdinalName ''data-bao-g2-12'' ''data-bao-g2-'' \<and> \<not> rollbackOrdinalName ''data-bao-g2-012'' ''data-bao-g2-''"
proof -
  have d: "nat_str 12 = ''12''" by code_simp
  have "\<nexists>n. ''data-bao-g2-012'' = ''data-bao-g2-'' @ nat_str n"
  proof
    assume "\<exists>n. ''data-bao-g2-012'' = ''data-bao-g2-'' @ nat_str n"
    then obtain n where n: "nat_str n = ''012''" by auto
    then have "n = 12"
      using digits_val_nat_str [of n] by (simp add: digits_val_def digit_val_def)
    with d n show False by simp
  qed
  moreover have "(\<exists>n<2 ^ 32. ''data-bao-g2-12'' = ''data-bao-g2-'' @ nat_str n)"
    using d by (intro exI [of _ 12]) simp
  ultimately show ?thesis
    using rollbackOrdinalName_iff [of "''data-bao-g2-12''" "''data-bao-g2-''"]
      rollbackOrdinalName_iff [of "''data-bao-g2-012''" "''data-bao-g2-''"] by blast
qed

text \<open>
  Every Job the blue/green manager creates has a name the API server accepts in length: executor,
  snapshot and hook Jobs are at most 63 characters long for every cluster name, revision and run.
\<close>

theorem job_names_bounded:
  "length (upgradeExecutorJobName sha name action run blue green) \<le> 63
   \<and> length (preUpgradeSnapshotJobName sha cluster) \<le> 63
   \<and> length (validationHookJobName sha name opid green hash) \<le> 63"
  by (auto simp: upgradeExecutorJobName_def preUpgradeSnapshotJobName_def validationHookJobName_def Let_def
      intro!: boundedJobName_length split: option.split)

end
