(* ===== verification/Sem_Version.thy ===== *)
theory Sem_Version
  imports Api_Types "HOL-Library.List_Lexorder" "HOL-Library.Product_Lexorder" "HOL-Library.Char_ord"
begin

text \<open>
  Semantic versions: the strict parser and comparison of the SemVer library the operator vendors, the
  wrapper \<open>internal/platform/semver/version.go\<close>, and the upgrade policy built on it
  (\<open>internal/service/upgrade/version.go\<close>, \<open>image_version.go\<close>, \<open>bluegreen/version_compatibility.go\<close>).

  Comparison is shown to be comparison of keys in a linear order, which gives the order laws; printing
  inverts parsing; the policy theorems say which upgrades are refused.
\<close>

section \<open>Splitting\<close>

fun split_on :: "char \<Rightarrow> string \<Rightarrow> string list" where
  "split_on c [] = [[]]"
| "split_on c (x # xs) =
     (if x = c then [] # split_on c xs
      else (case split_on c xs of [] \<Rightarrow> [[x]] | p # ps \<Rightarrow> (x # p) # ps))"

text \<open>\<open>strings.SplitN(s, sep, 2)\<close> on a string that contains the separator, and \<open>SplitN(s, sep, 3)\<close>.\<close>

definition cut_at :: "char \<Rightarrow> string \<Rightarrow> (string \<times> string) option" where
  "cut_at c s = (if c \<in> set s then Some (takeWhile (\<lambda>x. x \<noteq> c) s, tl (dropWhile (\<lambda>x. x \<noteq> c) s)) else None)"

definition split_three :: "char \<Rightarrow> string \<Rightarrow> (string \<times> string \<times> string) option" where
  "split_three c s = (case cut_at c s of
      None \<Rightarrow> None
    | Some (a, r) \<Rightarrow> (case cut_at c r of None \<Rightarrow> None | Some (b, d) \<Rightarrow> Some (a, b, d)))"

section \<open>The SemVer library\<close>

record mmVersion =
  mmMajor :: nat
  mmMinor :: nat
  mmPatch :: nat
  mmPre :: string
  mmMetadata :: string

definition is_alnum_dash :: "char \<Rightarrow> bool" where
  "is_alnum_dash c \<longleftrightarrow> is_digit c \<or> (of_char c :: nat) \<in> {65..90} \<or> (of_char c :: nat) \<in> {97..122} \<or> c = CHR ''-''"

text \<open>The error a validation loop stops at is the error of the first bad part.\<close>

fun firstError :: "('a \<Rightarrow> go_error option) \<Rightarrow> 'a list \<Rightarrow> go_error option" where
  "firstError f [] = None"
| "firstError f (x # xs) = (case f x of Some e \<Rightarrow> Some e | None \<Rightarrow> firstError f xs)"

definition prereleasePartError :: "string \<Rightarrow> go_error option" where
  "prereleasePartError p =
     (if p = [] then Some (errorf ''invalid prerelease string'')
      else if list_all is_digit p
      then (if length p > 1 \<and> hd p = CHR ''0'' then Some (errorf ''version segment starts with 0'') else None)
      else if \<not> list_all is_alnum_dash p then Some (errorf ''invalid prerelease string'')
      else None)"

definition validatePrerelease :: "string \<Rightarrow> go_error option" where
  "validatePrerelease p = firstError prereleasePartError (split_on (CHR ''.'') p)"

definition metadataPartError :: "string \<Rightarrow> go_error option" where
  "metadataPartError p =
     (if p = [] then Some (errorf ''invalid metadata string'')
      else if \<not> list_all is_alnum_dash p then Some (errorf ''invalid metadata string'')
      else None)"

definition validateMetadata :: "string \<Rightarrow> go_error option" where
  "validateMetadata m = firstError metadataPartError (split_on (CHR ''.'') m)"

definition segmentError :: "string \<Rightarrow> go_error option" where
  "segmentError p =
     (if \<not> list_all is_digit p then Some (errorf ''invalid characters in version'')
      else if length p > 1 \<and> hd p = CHR ''0'' then Some (errorf ''version segment starts with 0'')
      else None)"

definition parseCore :: "string \<Rightarrow> string \<Rightarrow> string \<Rightarrow> string \<Rightarrow> string \<Rightarrow> go_error + mmVersion" where
  "parseCore a b c pre metadata = (case firstError segmentError [a, b, c] of
      Some e \<Rightarrow> Inl e
    | None \<Rightarrow> (case (parse_uint 64 a, parse_uint 64 b, parse_uint 64 c) of
          (Some x, Some y, Some z) \<Rightarrow>
            Inr \<lparr> mmMajor = x, mmMinor = y, mmPatch = z, mmPre = pre, mmMetadata = metadata \<rparr>
        | _ \<Rightarrow> Inl (errorf ''strconv.ParseUint'')))"

definition parsePre :: "string \<Rightarrow> string \<Rightarrow> string \<Rightarrow> string \<Rightarrow> go_error + mmVersion" where
  "parsePre a b c metadata = (case cut_at (CHR ''-'') c of
      None \<Rightarrow> parseCore a b c [] metadata
    | Some (c', pre) \<Rightarrow>
        (case validatePrerelease pre of Some e \<Rightarrow> Inl e | None \<Rightarrow> parseCore a b c' pre metadata))"

definition StrictNewVersion :: "string \<Rightarrow> go_error + mmVersion" where
  "StrictNewVersion v =
     (if v = [] then Inl (errorf ''Version string empty'')
      else if length v > 256 then Inl (errorf ''version string is too long'')
      else case split_three (CHR ''.'') v of
          None \<Rightarrow> Inl (errorf ''Invalid Semantic Version'')
        | Some (a, b, c) \<Rightarrow>
            (case cut_at (CHR ''+'') c of
               None \<Rightarrow> parsePre a b c []
             | Some (c', metadata) \<Rightarrow>
                 (case validateMetadata metadata of Some e \<Rightarrow> Inl e | None \<Rightarrow> parsePre a b c' metadata)))"

definition mmString :: "mmVersion \<Rightarrow> string" where
  "mmString v = nat_str (mmMajor v) @ ''.'' @ nat_str (mmMinor v) @ ''.'' @ nat_str (mmPatch v)
     @ (if mmPre v \<noteq> [] then CHR ''-'' # mmPre v else [])
     @ (if mmMetadata v \<noteq> [] then CHR ''+'' # mmMetadata v else [])"

definition compareSegment :: "nat \<Rightarrow> nat \<Rightarrow> int" where
  "compareSegment v w = (if v < w then -1 else if v > w then 1 else 0)"

definition comparePrePart :: "string \<Rightarrow> string \<Rightarrow> int" where
  "comparePrePart s t =
     (if s = t then 0
      else if s = [] then (if t \<noteq> [] then -1 else 1)
      else if t = [] then (if s \<noteq> [] then 1 else -1)
      else case (parse_uint 64 t, parse_uint 64 s) of
          (None, None) \<Rightarrow> if s > t then 1 else -1
        | (None, Some _) \<Rightarrow> -1
        | (Some _, None) \<Rightarrow> 1
        | (Some ti, Some si) \<Rightarrow> if si > ti then 1 else -1)"

fun comparePreParts :: "string list \<Rightarrow> string list \<Rightarrow> int" where
  "comparePreParts [] [] = 0"
| "comparePreParts (s # ss) [] =
     (let d = comparePrePart s [] in if d \<noteq> 0 then d else comparePreParts ss [])"
| "comparePreParts [] (t # ts) =
     (let d = comparePrePart [] t in if d \<noteq> 0 then d else comparePreParts [] ts)"
| "comparePreParts (s # ss) (t # ts) =
     (let d = comparePrePart s t in if d \<noteq> 0 then d else comparePreParts ss ts)"

definition comparePrerelease :: "string \<Rightarrow> string \<Rightarrow> int" where
  "comparePrerelease v w = comparePreParts (split_on (CHR ''.'') v) (split_on (CHR ''.'') w)"

definition mmCompare :: "mmVersion \<Rightarrow> mmVersion \<Rightarrow> int" where
  "mmCompare v w =
     (if compareSegment (mmMajor v) (mmMajor w) \<noteq> 0 then compareSegment (mmMajor v) (mmMajor w)
      else if compareSegment (mmMinor v) (mmMinor w) \<noteq> 0 then compareSegment (mmMinor v) (mmMinor w)
      else if compareSegment (mmPatch v) (mmPatch w) \<noteq> 0 then compareSegment (mmPatch v) (mmPatch w)
      else if mmPre v = [] \<and> mmPre w = [] then 0
      else if mmPre v = [] then 1
      else if mmPre w = [] then -1
      else comparePrerelease (mmPre v) (mmPre w))"

section \<open>The operator's wrapper\<close>

text \<open>\<open>int\<close> has 64 bits on the platforms the operator is built for.\<close>

definition maxInt :: nat where
  "maxInt = 2 ^ 63 - 1"

definition versionPartToInt :: "nat \<Rightarrow> string \<Rightarrow> go_error + nat" where
  "versionPartToInt part name =
     (if part > maxInt then Inl (errorf (name @ '' version '' @ nat_str part @ '' exceeds supported integer range''))
      else Inr part)"

definition Parse :: "string \<Rightarrow> go_error + mmVersion" where
  "Parse version =
     (let trimmed = trim_space version in
      if trimmed = [] then Inl (errorf ''version string is empty'')
      else case StrictNewVersion (trim_prefix trimmed ''v'') of
          Inl e \<Rightarrow> Inl (wrapf (''invalid semantic version '' @ version) e)
        | Inr p \<Rightarrow>
            (case versionPartToInt (mmMajor p) ''major'' of
               Inl e \<Rightarrow> Inl e
             | Inr _ \<Rightarrow> (case versionPartToInt (mmMinor p) ''minor'' of
                  Inl e \<Rightarrow> Inl e
                | Inr _ \<Rightarrow> (case versionPartToInt (mmPatch p) ''patch'' of
                     Inl e \<Rightarrow> Inl e | Inr _ \<Rightarrow> Inr p))))"

definition NewVersion :: "int \<Rightarrow> int \<Rightarrow> int \<Rightarrow> go_error + mmVersion" where
  "NewVersion major minor patch =
     (if major < 0 then Inl (errorf ''major version cannot be negative'')
      else if minor < 0 then Inl (errorf ''minor version cannot be negative'')
      else if patch < 0 then Inl (errorf ''patch version cannot be negative'')
      else Parse (int_str major @ ''.'' @ int_str minor @ ''.'' @ int_str patch))"

definition AtLeast :: "string \<Rightarrow> int \<Rightarrow> int \<Rightarrow> int \<Rightarrow> go_error + bool" where
  "AtLeast version wantMajor wantMinor wantPatch = (case Parse version of
      Inl e \<Rightarrow> Inl e
    | Inr parsed \<Rightarrow> (case NewVersion wantMajor wantMinor wantPatch of
         Inl e \<Rightarrow> Inl e
       | Inr want \<Rightarrow> Inr (mmCompare parsed want \<ge> 0)))"

section \<open>Upgrade policy\<close>

datatype VersionChange = VersionChangeNone | VersionChangePatch | VersionChangeMinor
  | VersionChangeMajor | VersionChangeDowngrade

record SemVer =
  svMajor :: nat
  svMinor :: nat
  svPatch :: nat
  svPrerelease :: string
  svBuild :: string

definition SemVerString :: "SemVer \<Rightarrow> string" where
  "SemVerString v =
     (let version = nat_str (svMajor v) @ ''.'' @ nat_str (svMinor v) @ ''.'' @ nat_str (svPatch v);
          version = (if svPrerelease v \<noteq> [] then version @ ''-'' @ svPrerelease v else version);
          version = (if svBuild v \<noteq> [] then version @ ''+'' @ svBuild v else version)
      in version)"

definition ParseVersion :: "string \<Rightarrow> go_error + SemVer" where
  "ParseVersion version = (case Parse version of
      Inl e \<Rightarrow> Inl e
    | Inr p \<Rightarrow> Inr \<lparr> svMajor = mmMajor p, svMinor = mmMinor p, svPatch = mmPatch p,
        svPrerelease = mmPre p, svBuild = mmMetadata p \<rparr>)"

definition ValidateVersion :: "string \<Rightarrow> go_error option" where
  "ValidateVersion version = (case ParseVersion version of Inl e \<Rightarrow> Some e | Inr _ \<Rightarrow> None)"

definition CompareVersions :: "string \<Rightarrow> string \<Rightarrow> go_error + VersionChange" where
  "CompareVersions from' to' = (case Parse from' of
      Inl e \<Rightarrow> Inl (wrapf ''invalid 'from' version'' e)
    | Inr fromVer \<Rightarrow> (case Parse to' of
         Inl e \<Rightarrow> Inl (wrapf ''invalid 'to' version'' e)
       | Inr toVer \<Rightarrow>
           (let cmp = mmCompare toVer fromVer in
            if cmp < 0 then Inr VersionChangeDowngrade
            else if cmp = 0 then Inr VersionChangeNone
            else if mmMajor toVer \<noteq> mmMajor fromVer then Inr VersionChangeMajor
            else if mmMinor toVer \<noteq> mmMinor fromVer then Inr VersionChangeMinor
            else Inr VersionChangePatch)))"

definition IsDowngrade :: "string \<Rightarrow> string \<Rightarrow> bool" where
  "IsDowngrade from' to' = (case CompareVersions from' to' of
      Inl _ \<Rightarrow> False | Inr change \<Rightarrow> change = VersionChangeDowngrade)"

definition IsSkipMinorUpgrade :: "string \<Rightarrow> string \<Rightarrow> bool" where
  "IsSkipMinorUpgrade from' to' = (case ParseVersion from' of
      Inl _ \<Rightarrow> False
    | Inr f \<Rightarrow> (case ParseVersion to' of
         Inl _ \<Rightarrow> False
       | Inr t \<Rightarrow> if svMajor f \<noteq> svMajor t then False else int (svMinor t) - int (svMinor f) > 1))"

text \<open>The refusals; the accepted branches only log.\<close>

definition ValidateUpgradeTargetVersion :: "string \<Rightarrow> string \<Rightarrow> go_error option" where
  "ValidateUpgradeTargetVersion currentVersion targetVersion = (case ValidateVersion targetVersion of
      Some e \<Rightarrow> Some (permanentReason ''InvalidVersion'' (wrapf (''invalid target version '' @ targetVersion) e))
    | None \<Rightarrow>
        if currentVersion = [] then None
        else if IsDowngrade currentVersion targetVersion
        then Some (permanentReason ''DowngradeBlocked''
               (errorf (''downgrade from '' @ currentVersion @ '' to '' @ targetVersion @ '' is not supported'')))
        else None)"

text \<open>
  An image reference as the container-registry library classifies it; its parser is the parameter
  \<open>parseReference\<close>.
\<close>

datatype imageRef = DigestRef | TagRef string | OtherRef

definition ValidateImageRefMatchesVersion ::
    "(string \<Rightarrow> go_error + imageRef) \<Rightarrow> string \<Rightarrow> string \<Rightarrow> go_error option" where
  "ValidateImageRefMatchesVersion parseReference version imageRef0 =
     (let ref0 = trim_space imageRef0 in
      if ref0 = [] then None
      else case parseReference ref0 of
          Inl e \<Rightarrow> Some (permanentReason ''ImageVersionMismatch'' (wrapf (''invalid spec.image '' @ ref0) e))
        | Inr DigestRef \<Rightarrow> None
        | Inr OtherRef \<Rightarrow> None
        | Inr (TagRef tag) \<Rightarrow>
            (case ParseVersion tag of
               Inl _ \<Rightarrow> None
             | Inr imageVersion \<Rightarrow>
                 (case ParseVersion version of
                    Inl e \<Rightarrow> Some (permanentReason ''InvalidVersion'' (wrapf (''invalid target version '' @ version) e))
                  | Inr targetVersion \<Rightarrow>
                      if SemVerString imageVersion = SemVerString targetVersion then None
                      else Some (permanentReason ''ImageVersionMismatch''
                             (errorf (''spec.image tag '' @ tag @ '' does not match spec.version '' @ version))))))"

definition isPre26Version :: "SemVer \<Rightarrow> bool" where
  "isPre26Version v \<longleftrightarrow> svMajor v < 2 \<or> (svMajor v = 2 \<and> svMinor v < 6)"

definition is26OrNewerVersion :: "SemVer \<Rightarrow> bool" where
  "is26OrNewerVersion v \<longleftrightarrow> svMajor v > 2 \<or> (svMajor v = 2 \<and> svMinor v \<ge> 6)"

definition validateVersionCompatibility :: "string \<Rightarrow> string \<Rightarrow> go_error option" where
  "validateVersionCompatibility currentVersion targetVersion = (case ParseVersion currentVersion of
      Inl _ \<Rightarrow> None
    | Inr current \<Rightarrow> (case ParseVersion targetVersion of
         Inl _ \<Rightarrow> None
       | Inr target \<Rightarrow>
           if \<not> isPre26Version current \<or> \<not> is26OrNewerVersion target then None
           else Some (permanentReason ''BlueGreenVersionIncompatible''
                  (errorf (''blue/green upgrade from OpenBao '' @ currentVersion @ '' to '' @ targetVersion @ '' is blocked'')))))"


section \<open>Comparison is comparison of keys\<close>

definition cmp :: "'a::linorder \<Rightarrow> 'a \<Rightarrow> int" where
  "cmp x y = (if x < y then -1 else if x = y then 0 else 1)"

text \<open>
  The rank of a prerelease identifier: the empty string first, then numbers by value, then other
  identifiers by bytes.  A version without prerelease ranks after all its prereleases.
\<close>

definition partKey :: "string \<Rightarrow> nat \<times> nat \<times> string" where
  "partKey s = (if s = [] then (0, 0, []) else case parse_uint 64 s of Some n \<Rightarrow> (1, n, []) | None \<Rightarrow> (2, 0, s))"

definition versionKey :: "mmVersion \<Rightarrow> nat \<times> nat \<times> nat \<times> nat \<times> (nat \<times> nat \<times> string) list" where
  "versionKey v = (mmMajor v, mmMinor v, mmPatch v,
     if mmPre v = [] then (1, []) else (0, map partKey (split_on (CHR ''.'') (mmPre v))))"

lemma firstError_None: "firstError f xs = None \<longleftrightarrow> list_all (\<lambda>x. f x = None) xs"
  by (induction xs) (auto split: option.split)

lemma canonical_number_inject:
  assumes "prereleasePartError s = None" "prereleasePartError t = None"
    and "parse_uint 64 s = Some n" "parse_uint 64 t = Some n"
  shows "s = t"
proof -
  have "nat_str (digits_val p) = p" if "prereleasePartError p = None" "parse_uint 64 p = Some n" for p
    using that nat_str_digits_val [of p] by (auto simp: prereleasePartError_def parse_uint_def split: if_splits)
  then show ?thesis
    using assms by (metis option.inject parse_uint_def option.distinct(1))
qed

lemma comparePrePart_key:
  assumes "prereleasePartError s = None" "prereleasePartError t = None"
  shows "comparePrePart s t = cmp (partKey s) (partKey t)"
  using assms canonical_number_inject [OF assms]
  by (auto simp: comparePrePart_def partKey_def cmp_def prereleasePartError_def split: option.split if_splits)

lemma comparePreParts_key:
  assumes "list_all (\<lambda>p. prereleasePartError p = None) ss" "list_all (\<lambda>p. prereleasePartError p = None) ts"
  shows "comparePreParts ss ts = cmp (map partKey ss) (map partKey ts)"
  using assms
proof (induction ss ts rule: comparePreParts.induct)
  case (4 s ss t ts)
  then show ?case by (auto simp: comparePrePart_key cmp_def)
qed (auto simp: comparePrePart_def prereleasePartError_def cmp_def Let_def)


definition validVersion :: "mmVersion \<Rightarrow> bool" where
  "validVersion v \<longleftrightarrow> mmPre v = [] \<or> validatePrerelease (mmPre v) = None"

lemma mmCompare_key:
  assumes "validVersion v" "validVersion w"
  shows "mmCompare v w = cmp (versionKey v) (versionKey w)"
proof (cases "mmPre v = [] \<or> mmPre w = []")
  case True
  then show ?thesis
    by (auto simp: mmCompare_def compareSegment_def cmp_def versionKey_def)
next
  case False
  with assms have "list_all (\<lambda>p. prereleasePartError p = None) (split_on (CHR ''.'') (mmPre v))"
    "list_all (\<lambda>p. prereleasePartError p = None) (split_on (CHR ''.'') (mmPre w))"
    by (auto simp: validVersion_def validatePrerelease_def firstError_None)
  then have "comparePrerelease (mmPre v) (mmPre w)
      = cmp (map partKey (split_on (CHR ''.'') (mmPre v))) (map partKey (split_on (CHR ''.'') (mmPre w)))"
    unfolding comparePrerelease_def by (rule comparePreParts_key)
  with False show ?thesis
    by (auto simp: mmCompare_def compareSegment_def cmp_def versionKey_def)
qed

lemma StrictNewVersion_valid: "StrictNewVersion s = Inr v \<Longrightarrow> validVersion v"
  by (auto simp: StrictNewVersion_def parsePre_def parseCore_def validVersion_def
      split: if_splits option.splits prod.splits)

lemma Parse_Strict:
  "Parse s = Inr v \<longleftrightarrow> trim_space s \<noteq> [] \<and> StrictNewVersion (trim_prefix (trim_space s) ''v'') = Inr v
     \<and> mmMajor v \<le> maxInt \<and> mmMinor v \<le> maxInt \<and> mmPatch v \<le> maxInt"
  by (auto simp: Parse_def versionPartToInt_def Let_def split: sum.splits if_splits)

lemma Parse_valid: "Parse s = Inr v \<Longrightarrow> validVersion v"
  using StrictNewVersion_valid by (auto simp: Parse_Strict)

section \<open>Printing inverts parsing\<close>

lemma cut_at_eq: "cut_at c s = Some (a, b) \<Longrightarrow> s = a @ c # b \<and> c \<notin> set a"
proof -
  let ?d = "dropWhile (\<lambda>x. x \<noteq> c) s"
  assume "cut_at c s = Some (a, b)"
  then have c: "c \<in> set s" and a: "a = takeWhile (\<lambda>x. x \<noteq> c) s" and b: "b = tl ?d"
    by (auto simp: cut_at_def split: if_splits)
  have d: "?d \<noteq> []" using c by (auto simp: dropWhile_eq_Nil_conv)
  then have "hd ?d = c" using hd_dropWhile [OF d] by simp
  then have "?d = c # b" using list.collapse [OF d] b by simp
  moreover have "s = a @ ?d" by (simp add: a)
  ultimately show ?thesis by (auto simp: a dest: set_takeWhileD)
qed

lemma split_three_eq: "split_three c s = Some (x, y, z) \<Longrightarrow> s = x @ c # y @ c # z"
  by (auto simp: split_three_def dest!: cut_at_eq split: option.splits)

lemma segment_number:
  "segmentError p = None \<Longrightarrow> parse_uint 64 p = Some n \<Longrightarrow> nat_str n = p"
  using nat_str_digits_val [of p] by (auto simp: segmentError_def parse_uint_def split: if_splits)

lemma parseCore_string:
  "parseCore a b c pre md = Inr v \<Longrightarrow> nat_str (mmMajor v) = a \<and> nat_str (mmMinor v) = b
     \<and> nat_str (mmPatch v) = c \<and> mmPre v = pre \<and> mmMetadata v = md"
  by (auto simp: parseCore_def segment_number split: option.splits)

lemma validate_not_Nil: "validatePrerelease [] \<noteq> None" "validateMetadata [] \<noteq> None"
  by (simp_all add: validatePrerelease_def prereleasePartError_def validateMetadata_def metadataPartError_def)

lemma parsePre_string:
  "parsePre a b c md = Inr v \<Longrightarrow> nat_str (mmMajor v) = a \<and> nat_str (mmMinor v) = b \<and> mmMetadata v = md
     \<and> nat_str (mmPatch v) @ (if mmPre v \<noteq> [] then CHR ''-'' # mmPre v else []) = c"
  using validate_not_Nil(1)
  by (auto simp: parsePre_def dest!: parseCore_string cut_at_eq split: option.splits)

lemma StrictNewVersion_string:
  assumes "StrictNewVersion s = Inr v"
  shows "mmString v = s"
proof -
  obtain a b c where sp: "split_three (CHR ''.'') s = Some (a, b, c)"
    using assms by (auto simp: StrictNewVersion_def split: if_splits option.splits)
  note s = split_three_eq [OF sp]
  have p: "(cut_at (CHR ''+'') c = None \<and> parsePre a b c [] = Inr v)
      \<or> (\<exists>c' md. cut_at (CHR ''+'') c = Some (c', md) \<and> validateMetadata md = None \<and> parsePre a b c' md = Inr v)"
    using assms by (auto simp: StrictNewVersion_def sp split: if_splits option.splits)
  from p show ?thesis
    using validate_not_Nil(2) by (auto simp: s mmString_def dest!: parsePre_string cut_at_eq)
qed

lemma nat_str_Cons: "\<exists>d ds. nat_str n = d # ds \<and> is_digit d"
  using nat_str_digits [of n] nat_str_not_Nil [of n] by (cases "nat_str n") auto

lemma is_digit_not:
  "is_digit c \<Longrightarrow> \<not> is_space c" "is_digit c \<Longrightarrow> c \<noteq> CHR ''v''"
  by (auto simp: is_digit_def is_space_def)

text \<open>The canonical string parses to the version it was printed from.\<close>

lemma Parse_mmString:
  assumes "Parse s = Inr v"
  shows "Parse (mmString v) = Inr v"
proof -
  let ?t = "trim_space s"
  let ?u = "trim_prefix ?t ''v''"
  have u: "StrictNewVersion ?u = Inr v" and t: "?t \<noteq> []"
    and bounds: "mmMajor v \<le> maxInt" "mmMinor v \<le> maxInt" "mmPatch v \<le> maxInt"
    using assms by (auto simp: Parse_Strict)
  have str: "mmString v = ?u" by (rule StrictNewVersion_string [OF u])
  obtain d ds where d: "?u = d # ds" "is_digit d"
    using nat_str_Cons [of "mmMajor v"] by (auto simp: str [symmetric] mmString_def)
  have "last ?u = last ?t"
    using d by (cases ?t) (auto simp: trim_prefix_def split: if_splits)
  moreover have "\<not> is_space (last ?t)"
    using t trim_space_eq_self [of ?t] by simp
  ultimately have "trim_space ?u = ?u"
    using d is_digit_not by (auto simp: trim_space_eq_self)
  moreover have "trim_prefix ?u ''v'' = ?u"
    using d is_digit_not by (auto simp: trim_prefix_def has_prefix_def)
  ultimately show ?thesis
    using u d bounds by (simp add: Parse_Strict str)
qed

lemma ParseVersion_Parse:
  "ParseVersion s = Inr x \<longleftrightarrow> (\<exists>v. Parse s = Inr v \<and> x = \<lparr> svMajor = mmMajor v, svMinor = mmMinor v,
     svPatch = mmPatch v, svPrerelease = mmPre v, svBuild = mmMetadata v \<rparr>)"
  by (auto simp: ParseVersion_def split: sum.splits)

lemma SemVerString_mmString:
  "SemVerString \<lparr> svMajor = mmMajor v, svMinor = mmMinor v, svPatch = mmPatch v,
     svPrerelease = mmPre v, svBuild = mmMetadata v \<rparr> = mmString v"
  by (simp add: SemVerString_def mmString_def Let_def)


section \<open>Errors of the parser are final\<close>

definition plain_error :: "go_error \<Rightarrow> bool" where
  "plain_error e \<longleftrightarrow> (\<exists>m. e = Text m) \<or> (\<exists>m n. e = wrapf m (Text n))"

lemma firstError_plain:
  "firstError prereleasePartError xs = Some e \<Longrightarrow> \<exists>m. e = Text m"
  "firstError metadataPartError xs = Some e \<Longrightarrow> \<exists>m. e = Text m"
  "firstError segmentError xs = Some e \<Longrightarrow> \<exists>m. e = Text m"
  by (induction xs) (auto simp: prereleasePartError_def metadataPartError_def segmentError_def
      split: if_splits option.splits)

lemma StrictNewVersion_error: "StrictNewVersion s = Inl e \<Longrightarrow> \<exists>m. e = Text m"
  by (auto simp: StrictNewVersion_def parsePre_def parseCore_def validatePrerelease_def validateMetadata_def
      simp del: firstError.simps dest: firstError_plain split: if_splits option.splits prod.splits)

lemma ParseVersion_error: "ParseVersion s = Inl e \<Longrightarrow> plain_error e"
  by (auto simp: ParseVersion_def Parse_def Let_def versionPartToInt_def plain_error_def
      dest!: StrictNewVersion_error split: if_splits sum.splits)

lemma plain_error_not_transient:
  "plain_error e \<Longrightarrow> \<not> IsTransient (Some (wrapf m e))" "\<not> IsTransient (Some (Text m))"
  by (auto simp: plain_error_def IsTransient_def IsTransientConnection_def IsTransientRemoteOverloaded_def
      IsTransientClusterState_def IsTransientKubernetesAPI_def errors_is_def errors_as_def transientErrnos_def
      is_net_error_def net_timeout_def is_dns_error_def api_unexpected_def is_api_status_def api_reason_of_def)

lemma permanentReason_final:
  "\<not> IsTransient (Some e) \<Longrightarrow> ShouldRequeue (Some (permanentReason r e)) = (False, 0)"
  using ShouldRequeue_permanent_wrap [of ErrPermanentConfig e]
  by (simp add: permanentReason_def ShouldRequeue_Reasoned)

text \<open>The definitions that evaluate a parse of a concrete string.\<close>

lemmas parse_eval = ParseVersion_def Parse_def StrictNewVersion_def parsePre_def parseCore_def split_three_def
  cut_at_def segmentError_def validatePrerelease_def prereleasePartError_def validateMetadata_def
  metadataPartError_def is_alnum_dash_def is_digit_def digit_val_def parse_uint_def digits_val_def
  versionPartToInt_def maxInt_def trim_space_def is_space_def trim_prefix_def has_prefix_def Let_def

section \<open>Properties\<close>

text \<open>
  C32: the downgrade rule is a strict order on versions.  For any three version strings that parse,
  exactly one of "\<open>a\<close> to \<open>b\<close> is a downgrade", "\<open>b\<close> to \<open>a\<close> is a downgrade" and "no change" holds, and a
  chain of downgrades is a downgrade, prerelease tags included.
\<close>

theorem downgrade_strict_order:
  assumes "ValidateVersion a = None" "ValidateVersion b = None" "ValidateVersion c = None"
  shows "(IsDowngrade a b, IsDowngrade b a, CompareVersions a b = Inr VersionChangeNone)
      \<in> {(True, False, False), (False, True, False), (False, False, True)}
    \<and> (IsDowngrade a b \<and> IsDowngrade b c \<longrightarrow> IsDowngrade a c)"
proof -
  obtain u v w where p: "Parse a = Inr u" "Parse b = Inr v" "Parse c = Inr w"
    using assms by (auto simp: ValidateVersion_def ParseVersion_def split: sum.splits)
  note key = mmCompare_key [OF Parse_valid Parse_valid]
  show ?thesis
    using key [OF p(2,1)] key [OF p(1,2)] key [OF p(3,2)] key [OF p(3,1)]
    by (auto simp: IsDowngrade_def CompareVersions_def p cmp_def Let_def split: if_splits)
qed

theorem downgrade_strict_order_witness:
  "IsDowngrade ''2.4.0'' ''2.4.0-rc.2'' \<and> IsDowngrade ''2.4.0-rc.2'' ''v2.4.0-rc.1''
   \<and> IsDowngrade ''2.4.0'' ''v2.4.0-rc.1''"
proof -
  have "ValidateVersion ''2.4.0'' = None" "ValidateVersion ''2.4.0-rc.2'' = None"
    "ValidateVersion ''v2.4.0-rc.1'' = None"
    "IsDowngrade ''2.4.0'' ''2.4.0-rc.2''" "IsDowngrade ''2.4.0-rc.2'' ''v2.4.0-rc.1''"
    by (simp_all add: ValidateVersion_def IsDowngrade_def CompareVersions_def mmCompare_def compareSegment_def
        comparePrerelease_def comparePrePart_def parse_eval)
  then show ?thesis
    using downgrade_strict_order [of "''2.4.0''" "''2.4.0-rc.2''" "''v2.4.0-rc.1''"] by blast
qed

text \<open>
  C33: printing a parsed version gives a string that parses to the same version, whatever white space,
  leading v, prerelease or build metadata the input had; so two version strings with the same printed
  form are the same version.
\<close>

theorem ParseVersion_String:
  assumes "ParseVersion s = Inr v"
  shows "ParseVersion (SemVerString v) = Inr v"
  using assms Parse_mmString by (auto simp: ParseVersion_Parse SemVerString_mmString)

theorem ParseVersion_String_witness:
  "\<exists>v. ParseVersion '' v2.4.0-rc.1+b7 '' = Inr v \<and> SemVerString v = ''2.4.0-rc.1+b7''
     \<and> ParseVersion ''2.4.0-rc.1+b7'' = Inr v"
proof -
  define v where "v = \<lparr> svMajor = 2, svMinor = 4, svPatch = 0, svPrerelease = ''rc.1'', svBuild = ''b7'' \<rparr>"
  have p: "ParseVersion '' v2.4.0-rc.1+b7 '' = Inr v" by (simp add: v_def parse_eval)
  have s: "SemVerString v = ''2.4.0-rc.1+b7''"
    unfolding v_def by code_simp
  show ?thesis using p s ParseVersion_String [OF p] by auto
qed

text \<open>
  The target version of an upgrade is accepted exactly when it parses and is not below the running
  version (a running version that is unknown or does not parse blocks nothing), and every refusal is
  final: the controller does not retry it.
\<close>

theorem ValidateUpgradeTargetVersion_spec:
  "(ValidateUpgradeTargetVersion cur tgt = None \<longleftrightarrow>
      ValidateVersion tgt = None \<and> \<not> (ValidateVersion cur = None \<and> IsDowngrade cur tgt))
   \<and> (case ValidateUpgradeTargetVersion cur tgt of None \<Rightarrow> True | Some e \<Rightarrow> ShouldRequeue (Some e) = (False, 0))"
proof -
  have empty: "ValidateVersion [] \<noteq> None"
    by (simp add: ValidateVersion_def ParseVersion_def Parse_def)
  have "ValidateVersion cur = None" if "IsDowngrade cur tgt"
    using that by (auto simp: IsDowngrade_def CompareVersions_def ValidateVersion_def ParseVersion_def split: sum.splits)
  then show ?thesis
    using empty
    by (auto simp: ValidateUpgradeTargetVersion_def ValidateVersion_def
        intro!: permanentReason_final plain_error_not_transient ParseVersion_error split: option.split sum.splits)
qed

text \<open>
  A blue/green upgrade that crosses the 2.6 protocol boundary is refused, with a final error, and
  no other upgrade between versions that parse is.
\<close>

theorem version_boundary_blocked:
  assumes "ParseVersion cur = Inr v" and "ParseVersion tgt = Inr w"
  shows "case validateVersionCompatibility cur tgt of
      None \<Rightarrow> (svMajor v, svMinor v) \<ge> (2, 6) \<or> (svMajor w, svMinor w) < (2, 6)
    | Some e \<Rightarrow> (svMajor v, svMinor v) < (2, 6) \<and> (svMajor w, svMinor w) \<ge> (2, 6)
        \<and> ShouldRequeue (Some e) = (False, 0)"
  using assms
  by (auto simp: validateVersionCompatibility_def isPre26Version_def is26OrNewerVersion_def
      intro!: permanentReason_final plain_error_not_transient)

theorem version_boundary_blocked_witness:
  "validateVersionCompatibility ''2.5.1'' ''2.6.0'' \<noteq> None"
proof -
  define v where "v = \<lparr> svMajor = 2, svMinor = 5, svPatch = 1, svPrerelease = [], svBuild = [] \<rparr>"
  define w where "w = \<lparr> svMajor = 2, svMinor = 6, svPatch = 0, svPrerelease = [], svBuild = [] \<rparr>"
  have "ParseVersion ''2.5.1'' = Inr v" "ParseVersion ''2.6.0'' = Inr w"
    by (simp_all add: v_def w_def parse_eval)
  from version_boundary_blocked [OF this] show ?thesis
    by (auto simp: v_def w_def split: option.splits)
qed

end
