(* ===== verification/Upgrade_Snapshot.thy ===== *)
theory Upgrade_Snapshot
  imports Operator_Errors Api_Types
begin

text \<open>
  The checks before a pre-upgrade snapshot (\<open>internal/service/upgrade/snapshot/validation.go\<close>) and the part of
  the hardened profile they rely on (\<open>internal/platform/hardenedcontract/contract.go\<close>): the backup target must be
  configured, authenticated, and, for hardened clusters, reachable through explicit egress rules and bound to
  an explicit storage identity.  Whether egress rules are explicit is the parameter \<open>explicit\<close>, as the rules
  themselves are opaque here.
\<close>

section \<open>The hardened storage contract\<close>

record Violation =
  viReason :: string
  viMessage :: string

definition securityViolation :: "string \<Rightarrow> Violation" where
  "securityViolation message = \<lparr> viReason = ''SecurityViolation'', viMessage = message \<rparr>"

definition storageTargetUsesS3 :: "BackupTarget \<Rightarrow> bool" where
  "storageTargetUsesS3 target \<longleftrightarrow> trim_space (to_lower (btProvider target)) \<in> {[], ''s3''}"

definition HasExplicitStorageIdentity :: "BackupTarget \<Rightarrow> bool" where
  "HasExplicitStorageIdentity target =
     (if (case btCredentialsSecretRef target of None \<Rightarrow> False | Some n \<Rightarrow> trim_space n \<noteq> []) then True
      else if storageTargetUsesS3 target \<and> trim_space (btRoleARN target) \<noteq> [] then True
      else case btWorkloadIdentity target of
          None \<Rightarrow> False
        | Some (annotations, podLabels) \<Rightarrow> annotations \<noteq> [] \<or> podLabels \<noteq> [])"

definition EvaluateStorageTarget :: "string \<Rightarrow> BackupTarget \<Rightarrow> Violation option" where
  "EvaluateStorageTarget operation target =
     (let title = (if trim_space operation = [] then ''Storage'' else trim_space operation) in
      if btInsecureSkipVerify target
      then Some (securityViolation (''Hardened profile does not allow '' @ to_lower title
             @ '' storage TLS verification to be disabled.''))
      else if \<not> HasExplicitStorageIdentity target
      then Some (securityViolation (''Hardened profile does not allow '' @ to_lower title
             @ '' storage to rely on ambient credentials; configure ''
             @ ''target.credentialsSecretRef, target.workloadIdentity, or target.roleArn for S3 targets.''))
      else None)"

section \<open>Prerequisites of a snapshot\<close>

definition ValidateHardenedNetwork :: "(string list \<Rightarrow> bool) \<Rightarrow> Cluster option \<Rightarrow> string \<Rightarrow> go_error option" where
  "ValidateHardenedNetwork explicit cluster message = (case cluster of
      None \<Rightarrow> None
    | Some c \<Rightarrow>
        if spProfile (clSpec c) \<noteq> ''Hardened'' then None
        else case spNetworkEgressRules (clSpec c) of
            None \<Rightarrow> Some (permanentReason ''NetworkEgressRulesRequired'' (errorf message))
          | Some rules \<Rightarrow>
              if rules = [] then Some (permanentReason ''NetworkEgressRulesRequired'' (errorf message))
              else if \<not> explicit rules
              then Some (permanentReason ''SecurityViolation'' (errorf
                ''hardened profile requires spec.network.egressRules entries to be port-scoped and target explicit non-wildcard peers''))
              else None)"

definition RequireBackupConfig :: "Cluster option \<Rightarrow> bool \<Rightarrow> string \<Rightarrow> go_error option" where
  "RequireBackupConfig cluster requireEndpoint message = (case cluster of
      None \<Rightarrow> Some (errorf message)
    | Some c \<Rightarrow> (case spBackup (clSpec c) of
        None \<Rightarrow> Some (errorf message)
      | Some b \<Rightarrow> if requireEndpoint \<and> trim_space (btEndpoint (bsTarget b)) = [] then Some (errorf message) else None))"

definition ValidateBackupAuth :: "Cluster option \<Rightarrow> string \<Rightarrow> go_error option" where
  "ValidateBackupAuth cluster message = (case cluster of
      None \<Rightarrow> Some (errorf message)
    | Some c \<Rightarrow> (case spBackup (clSpec c) of
        None \<Rightarrow> Some (errorf message)
      | Some b \<Rightarrow>
          (let oidc = (case spSelfInit (clSpec c) of Some (_, Some e) \<Rightarrow> e | _ \<Rightarrow> False);
               hasJWTAuth = (trim_space (bsJWTAuthRole b) \<noteq> [] \<or> oidc);
               hasTokenSecret = (case bsTokenSecretRef b of None \<Rightarrow> False | Some n \<Rightarrow> trim_space n \<noteq> [])
           in if hasJWTAuth \<or> hasTokenSecret then None else Some (errorf message))))"

definition ValidateHardenedBackupTarget :: "Cluster option \<Rightarrow> go_error option" where
  "ValidateHardenedBackupTarget cluster = (case cluster of
      None \<Rightarrow> None
    | Some c \<Rightarrow> (case spBackup (clSpec c) of
        None \<Rightarrow> None
      | Some b \<Rightarrow>
          if spProfile (clSpec c) \<noteq> ''Hardened'' then None
          else (case EvaluateStorageTarget ''Backup'' (bsTarget b) of
              None \<Rightarrow> None
            | Some v \<Rightarrow> Some (permanentReason (viReason v) (errorf (viMessage v))))))"

definition BackupTokenSecretName :: "Cluster option \<Rightarrow> string option" where
  "BackupTokenSecretName cluster = (case cluster of
      None \<Rightarrow> None
    | Some c \<Rightarrow> (case spBackup (clSpec c) of
        None \<Rightarrow> None
      | Some b \<Rightarrow> (case bsTokenSecretRef b of
          None \<Rightarrow> None
        | Some n \<Rightarrow> if trim_space n = [] then None else Some (trim_space n))))"

record ValidationOptions =
  voMissingBackupMessage :: string
  voRequireEndpoint :: bool
  voRequireTokenSecret :: bool
  voNetworkErrorMessage :: string
  voAuthenticationMessage :: string

text \<open>The checks that need no call, in the order of \<open>ValidatePreUpgradeSnapshotPrerequisites\<close>.\<close>

definition snapshotConfigError :: "(string list \<Rightarrow> bool) \<Rightarrow> Cluster option \<Rightarrow> ValidationOptions \<Rightarrow> go_error option" where
  "snapshotConfigError explicit cluster opts =
     (case RequireBackupConfig cluster (voRequireEndpoint opts) (voMissingBackupMessage opts) of
        Some e \<Rightarrow> Some e
      | None \<Rightarrow> (case ValidateHardenedNetwork explicit cluster (voNetworkErrorMessage opts) of
          Some e \<Rightarrow> Some e
        | None \<Rightarrow> (case ValidateHardenedBackupTarget cluster of
            Some e \<Rightarrow> Some e
          | None \<Rightarrow> ValidateBackupAuth cluster (voAuthenticationMessage opts))))"

text \<open>\<open>fallback\<close> is \<open>constants.DefaultBackupImage()\<close>, which reads the environment of the process.\<close>

definition resolveBackupExecutorImage :: "go_error + string \<Rightarrow> Cluster \<Rightarrow> go_error + string" where
  "resolveBackupExecutorImage fallback c =
     (let image = (case spBackup (clSpec c) of None \<Rightarrow> [] | Some b \<Rightarrow> bsImage b) in
      if trim_space image \<noteq> [] then Inr image
      else case fallback of
          Inl e \<Rightarrow> Inl (wrap2 ErrPermanentConfig (Reasoned ''HelperImageConfigurationInvalid''
                     (wrapf ''default backup executor image is unavailable'' e)))
        | Inr i \<Rightarrow> Inr i)"

end
