(* ===== verification/Restore_Types.thy ===== *)
theory Restore_Types
  imports Ownership
begin

text \<open>
  The \<open>OpenBaoRestore\<close> resource (\<open>api/v1alpha1/openbaorestore_types.go\<close> and
  \<open>openbaorestore_target_types.go\<close>): the request, its durable execution receipts, the submission claim, the
  fresh target and the managed restart.  Go string types follow the conventions of \<open>Api_Types\<close>.
\<close>

section \<open>Enumerations\<close>

datatype RestorePhase =
    RestorePhasePending
  | RestorePhaseValidating
  | RestorePhaseRunning
  | RestorePhaseCompleted
  | RestorePhaseFailed
  | RestorePhaseUnknown
  | OtherRestorePhase string

datatype RestoreExecutionStage =
    ExecutionPrepared
  | ExecutionCommitted
  | ExecutionCreated
  | ExecutionTerminalObserved
  | ExecutionFollowThroughComplete
  | ExecutionUnknown
  | OtherExecutionStage string

datatype RestoreExecutionResult = ExecutionSucceeded | ExecutionFailed | OtherExecutionResult string

datatype RestoreTargetLifecycle = LifecycleRetain | LifecycleDisposable | OtherLifecycle string

datatype RestoreTargetCleanup = CleanupPending | CleanupComplete | CleanupFailed | OtherCleanup string

datatype RestoreAdministratorDisposition = AdministratorResume | AdministratorAbandon | OtherDisposition string

section \<open>Status\<close>

record RestoreExecutionStatus =
  exTargetUID :: string
  exOperationID :: string
  exStage :: RestoreExecutionStage
  exJobName :: string
  exJobUID :: string
  exPreparedAt :: "time option"
  exCommittedAt :: "time option"
  exCreatedAt :: "time option"
  exTerminalResult :: RestoreExecutionResult
  exTerminalObservedAt :: "time option"

definition emptyExecution :: RestoreExecutionStatus where
  "emptyExecution = \<lparr> exTargetUID = [], exOperationID = [], exStage = OtherExecutionStage [], exJobName = [],
     exJobUID = [], exPreparedAt = None, exCommittedAt = None, exCreatedAt = None,
     exTerminalResult = OtherExecutionResult [], exTerminalObservedAt = None \<rparr>"

record RestoreSubmissionClaim =
  smPodUID :: string
  smTargetPodName :: string
  smTargetPodUID :: string
  smTargetPodIP :: string
  smTargetContainerID :: string
  smDigest :: string
  smSize :: int
  smClaimedAt :: time

record RestoreRestartPod =
  rpName :: string
  rpUID :: string
  rpStatefulSetUID :: string

record RestoreRestartStatus =
  rtPods :: "RestoreRestartPod list"
  rtCompletedAt :: "time option"

record RestoreTargetStatus =
  tgReservedAt :: time
  tgUID :: string
  tgDataPVCUID :: string
  tgBootstrapClusterID :: string
  tgAppliedAt :: "time option"
  tgCleanup :: RestoreTargetCleanup

definition emptyTarget :: RestoreTargetStatus where
  "emptyTarget = \<lparr> tgReservedAt = 0, tgUID = [], tgDataPVCUID = [], tgBootstrapClusterID = [],
     tgAppliedAt = None, tgCleanup = OtherCleanup [] \<rparr>"

record OpenBaoRestoreStatus =
  rsTarget :: "RestoreTargetStatus option"
  rsSubmissionClaim :: "RestoreSubmissionClaim option"
  rsRestart :: "RestoreRestartStatus option"
  rsAdministratorDisposition :: RestoreAdministratorDisposition
  rsPhase :: RestorePhase
  rsStartTime :: "time option"
  rsCompletionTime :: "time option"
  rsExecution :: "RestoreExecutionStatus option"
  rsSnapshotKey :: string
  rsMessage :: string
  rsConditions :: "Condition list"

section \<open>Specification\<close>

record RestoreSource =
  soExpectedClusterID :: string
  soExpectedVersion :: string
  soExpectedDigest :: string
  soExpectedSize :: int
  soKey :: string
  soTarget :: BackupTarget

record OpenBaoRestoreSpec =
  opCleanupAfterSeconds :: int
  opClusterTemplate :: "RestoreClusterTemplate option"
  opTargetLifecycle :: RestoreTargetLifecycle
  opCluster :: string
  opSource :: RestoreSource
  opImage :: string
  opForce :: bool
  opOverrideOperationLock :: bool

record OpenBaoRestore =
  orsName :: string
  orsNamespace :: string
  orsUID :: string
  orsResourceVersion :: nat
  orsGeneration :: int
  orsAnnotations :: labels
  orsFinalizers :: "string list"
  orsDeletionTimestamp :: "time option"
  orsSpec :: OpenBaoRestoreSpec
  orsStatus :: OpenBaoRestoreStatus

definition mapRestoreStatus :: "(OpenBaoRestoreStatus \<Rightarrow> OpenBaoRestoreStatus) \<Rightarrow> OpenBaoRestore \<Rightarrow> OpenBaoRestore" where
  "mapRestoreStatus f r = r\<lparr>orsStatus := f (orsStatus r)\<rparr>"

section \<open>Neighbours of the restore manager\<close>

record HealthStatus =
  hsInitialized :: bool
  hsSealed :: bool
  hsStandby :: bool
  hsPerformanceStandby :: bool
  hsVersion :: string
  hsClusterID :: string

record RaftServer =
  rvNodeID :: string
  rvLeader :: bool
  rvVoter :: bool

section \<open>Status conditions and merge patches\<close>

text \<open>\<open>meta.SetStatusCondition\<close>: the transition time of an existing condition moves only with its status.\<close>

definition setStatusCondition :: "Condition \<Rightarrow> Condition list \<Rightarrow> Condition list" where
  "setStatusCondition k cs =
     (if findStatusCondition cs (cdType k) = None then cs @ [k]
      else let updated = (\<lambda>c. k\<lparr>cdLastTransitionTime :=
                 (if cdStatus c \<noteq> cdStatus k then cdLastTransitionTime k else cdLastTransitionTime c)\<rparr>);
               (before, rest) = (takeWhile (\<lambda>c. cdType c \<noteq> cdType k) cs, dropWhile (\<lambda>c. cdType c \<noteq> cdType k) cs)
           in before @ updated (hd rest) # tl rest)"

text \<open>
  A JSON merge patch computed from \<open>base\<close> and \<open>new\<close> and applied to the stored value \<open>cur\<close>: a field that did
  not change between \<open>base\<close> and \<open>new\<close> is not part of the patch, a changed scalar or list is replaced, a nested
  object is merged field by field.
\<close>

definition mrg :: "'a \<Rightarrow> 'a \<Rightarrow> 'a \<Rightarrow> 'a" where
  "mrg base new cur = (if new = base then cur else new)"

definition mrgObj :: "('a \<Rightarrow> 'a \<Rightarrow> 'a \<Rightarrow> 'a) \<Rightarrow> 'a \<Rightarrow> 'a option \<Rightarrow> 'a option \<Rightarrow> 'a option \<Rightarrow> 'a option" where
  "mrgObj m zero base new cur =
     (if new = base then cur
      else case new of None \<Rightarrow> None
        | Some n \<Rightarrow> Some (m (case base of Some b \<Rightarrow> b | None \<Rightarrow> zero) n (case cur of Some c \<Rightarrow> c | None \<Rightarrow> zero)))"

definition mrgExecution :: "RestoreExecutionStatus \<Rightarrow> RestoreExecutionStatus \<Rightarrow> RestoreExecutionStatus \<Rightarrow> RestoreExecutionStatus" where
  "mrgExecution b n c = \<lparr> exTargetUID = mrg (exTargetUID b) (exTargetUID n) (exTargetUID c),
     exOperationID = mrg (exOperationID b) (exOperationID n) (exOperationID c),
     exStage = mrg (exStage b) (exStage n) (exStage c), exJobName = mrg (exJobName b) (exJobName n) (exJobName c),
     exJobUID = mrg (exJobUID b) (exJobUID n) (exJobUID c), exPreparedAt = mrg (exPreparedAt b) (exPreparedAt n) (exPreparedAt c),
     exCommittedAt = mrg (exCommittedAt b) (exCommittedAt n) (exCommittedAt c),
     exCreatedAt = mrg (exCreatedAt b) (exCreatedAt n) (exCreatedAt c),
     exTerminalResult = mrg (exTerminalResult b) (exTerminalResult n) (exTerminalResult c),
     exTerminalObservedAt = mrg (exTerminalObservedAt b) (exTerminalObservedAt n) (exTerminalObservedAt c) \<rparr>"

definition mrgTarget :: "RestoreTargetStatus \<Rightarrow> RestoreTargetStatus \<Rightarrow> RestoreTargetStatus \<Rightarrow> RestoreTargetStatus" where
  "mrgTarget b n c = \<lparr> tgReservedAt = mrg (tgReservedAt b) (tgReservedAt n) (tgReservedAt c),
     tgUID = mrg (tgUID b) (tgUID n) (tgUID c), tgDataPVCUID = mrg (tgDataPVCUID b) (tgDataPVCUID n) (tgDataPVCUID c),
     tgBootstrapClusterID = mrg (tgBootstrapClusterID b) (tgBootstrapClusterID n) (tgBootstrapClusterID c),
     tgAppliedAt = mrg (tgAppliedAt b) (tgAppliedAt n) (tgAppliedAt c), tgCleanup = mrg (tgCleanup b) (tgCleanup n) (tgCleanup c) \<rparr>"

definition mrgRestart :: "RestoreRestartStatus \<Rightarrow> RestoreRestartStatus \<Rightarrow> RestoreRestartStatus \<Rightarrow> RestoreRestartStatus" where
  "mrgRestart b n c = \<lparr> rtPods = mrg (rtPods b) (rtPods n) (rtPods c), rtCompletedAt = mrg (rtCompletedAt b) (rtCompletedAt n) (rtCompletedAt c) \<rparr>"

definition mergeStatus :: "OpenBaoRestoreStatus \<Rightarrow> OpenBaoRestoreStatus \<Rightarrow> OpenBaoRestoreStatus \<Rightarrow> OpenBaoRestoreStatus" where
  "mergeStatus b n c = \<lparr> rsTarget = mrgObj mrgTarget emptyTarget (rsTarget b) (rsTarget n) (rsTarget c),
     rsSubmissionClaim = mrg (rsSubmissionClaim b) (rsSubmissionClaim n) (rsSubmissionClaim c),
     rsRestart = mrgObj mrgRestart \<lparr> rtPods = [], rtCompletedAt = None \<rparr> (rsRestart b) (rsRestart n) (rsRestart c),
     rsAdministratorDisposition = mrg (rsAdministratorDisposition b) (rsAdministratorDisposition n) (rsAdministratorDisposition c),
     rsPhase = mrg (rsPhase b) (rsPhase n) (rsPhase c), rsStartTime = mrg (rsStartTime b) (rsStartTime n) (rsStartTime c),
     rsCompletionTime = mrg (rsCompletionTime b) (rsCompletionTime n) (rsCompletionTime c),
     rsExecution = mrgObj mrgExecution emptyExecution (rsExecution b) (rsExecution n) (rsExecution c),
     rsSnapshotKey = mrg (rsSnapshotKey b) (rsSnapshotKey n) (rsSnapshotKey c), rsMessage = mrg (rsMessage b) (rsMessage n) (rsMessage c),
     rsConditions = mrg (rsConditions b) (rsConditions n) (rsConditions c) \<rparr>"

section \<open>Lemmas\<close>

lemma mapRestoreStatus_sel [simp]:
  "orsName (mapRestoreStatus f r) = orsName r" "orsNamespace (mapRestoreStatus f r) = orsNamespace r"
  "orsUID (mapRestoreStatus f r) = orsUID r" "orsResourceVersion (mapRestoreStatus f r) = orsResourceVersion r"
  "orsSpec (mapRestoreStatus f r) = orsSpec r" "orsFinalizers (mapRestoreStatus f r) = orsFinalizers r"
  "orsDeletionTimestamp (mapRestoreStatus f r) = orsDeletionTimestamp r"
  "orsAnnotations (mapRestoreStatus f r) = orsAnnotations r"
  "orsStatus (mapRestoreStatus f r) = f (orsStatus r)"
  by (simp_all add: mapRestoreStatus_def)

text \<open>Applied to the value it was computed from, a merge patch gives the new value.\<close>

lemma mrg_self [simp]: "mrg b n b = n" "mrg b b c = c"
  by (simp_all add: mrg_def)

lemma mrgExecution_self [simp]: "mrgExecution b n b = n"
  by (simp add: mrgExecution_def)

lemma mrgTarget_self [simp]: "mrgTarget b n b = n"
  by (simp add: mrgTarget_def)

lemma mrgRestart_self [simp]: "mrgRestart b n b = n"
  by (simp add: mrgRestart_def)

lemma mrgObj_self: "(\<And>x y. m x y x = y) \<Longrightarrow> mrgObj m z b n b = n"
  by (auto simp: mrgObj_def split: option.split)

lemma mrgObj_same [simp]: "mrgObj m z b b c = c"
  by (simp add: mrgObj_def)

lemma mergeStatus_self [simp]: "mergeStatus b n b = n"
  by (simp add: mergeStatus_def mrgObj_self)

end
