(* ===== verification/BlueGreen_World.thy ===== *)
theory BlueGreen_World
  imports BlueGreen_Stepper Sem_Version Upgrade_Snapshot Restore_Types
begin

text \<open>
  The world of the blue/green manager: the in-memory cluster object, the metrics sessions, the request
  acknowledgements of the pass, and a trace of
  every call that leaves the process, with its answer.  The API server, the OpenBao nodes, the clock,
  random numbers and the packages that render configuration, build Jobs and verify signatures are the
  record \<open>env\<close>; an answer may depend on everything that happened before (the trace), so one \<open>env\<close> is one
  arbitrary behaviour of the surroundings and a theorem for every \<open>env\<close> covers failures, stale caches and
  concurrent writers.  Calls on the cached client and on the live reader are not told apart.
\<close>

section \<open>Events\<close>

record RenderOptions =
  roTargetRevisionForJoin :: string
  roRetryJoinLabelSelector :: string
  roRetryJoinAsNonVoter :: bool

record ClientConfig =
  ccClusterKey :: string
  ccBaseURL :: string
  ccCACert :: string
  ccTLSServerName :: string
  ccConnectionTimeout :: int
  ccRequestTimeout :: int
  ccSmartClientDisabled :: bool

datatype backupMetric =
    BackupInProgress bool
  | BackupState int
  | BackupSuccessTotal
  | BackupFailureTotal
  | BackupConsecutiveFailures int
  | BackupLastAttempt time
  | BackupLastSuccess time
  | BackupLastSize int
  | BackupLastDuration int
  | RetentionDeleted int
  | RestoreTestCleared
  | RestoreTestValue bool
  | RestoreTestLastSuccess time

datatype event =
    GetClusterE "go_error + Cluster"
  | PatchLockE "OperationLockStatus option" "go_error + Cluster"
  | ApplyStatusE "BlueGreenStatus option" "UpgradeProgress option" "BackupStatus option" bool "go_error option"
  | GetJobE string "go_error + Job"
  | CreateJobE Job "go_error + Job"
  | DeleteJobE string "go_error option"
  | GetStsE string "go_error + StatefulSet"
  | DeleteStsE string "(string \<times> string) option" "go_error option"
  | ListPodsE labels "go_error + Pod list"
  | ListClaimsE "go_error + PersistentVolumeClaim list"
  | DeleteClaimE string string string "go_error option"
  | EnsureServiceAccountE "go_error option"
  | EnsureGreenStsE string "go_error option"
  | VerifyImageE string "go_error + string"
  | GetPodE string "go_error + Pod"
  | DeletePodE string "go_error option"
  | PatchPartitionE string int "go_error option"
  | ListJobsE labels "go_error + Job list"
  | GetSecretE string "go_error + labels"
  | LoadCACertE "go_error + string"
  | NewClientE ClientConfig "go_error option"
  | IsHealthyE string "go_error + bool"
  | IsLeaderE string "go_error + bool"
  | EnsureBackupAccountE "go_error option"
  | EnsureBackupRBACE "go_error option"
  | EventE bool string string
  | AuditE string labels
  | MetricE metric
  | StepDownMetricE bool
  | ListRestoresE "go_error + OpenBaoRestore list"
  | GetRestoreE string string "go_error + OpenBaoRestore"
  | CreateRestoreE bool OpenBaoRestore "go_error option"
  | DeleteRestoreE string string string "go_error option"
  | PatchAnnotationsE labels "go_error + Cluster"
  | BackupReadinessE "go_error + string \<times> string \<times> string"
  | OpenStorageE "go_error option"
  | StorageListE string "go_error + string list"
  | StorageDeleteE "string list" "go_error option"
  | StorageHeadE string "go_error + int option"
  | ShortUUIDE "go_error + string"
  | BackupMetricE backupMetric

text \<open>
  What backups need of their surroundings.  \<open>kParseSchedule\<close> is the parser of the cron library, with the schedule as the function
  \<open>Next\<close>; \<open>kBackupReadiness\<close> the readiness of the backup identity (status, reason, message); \<open>kCreateRestore\<close> has the
  dry-run flag; \<open>kUnmarshalSummary\<close> decodes the termination message of an executor; \<open>kOperatorPolicies\<close> are the names and
  texts of the policies an operator role needs; \<open>kSortNewest\<close> is \<open>sort.Slice\<close> with the later timestamp first, which leaves
  the order of equal timestamps open.
\<close>

record backupEnv =
  kParseSchedule :: "string \<Rightarrow> go_error + (time \<Rightarrow> time)"
  kListRestores :: "event list \<Rightarrow> go_error + OpenBaoRestore list"
  kGetRestore :: "event list \<Rightarrow> string \<Rightarrow> string \<Rightarrow> go_error + OpenBaoRestore"
  kCreateRestore :: "event list \<Rightarrow> bool \<Rightarrow> OpenBaoRestore \<Rightarrow> go_error option"
  kDeleteRestore :: "event list \<Rightarrow> OpenBaoRestore \<Rightarrow> string \<Rightarrow> go_error option"
  kPatchAnnotations :: "event list \<Rightarrow> Cluster \<Rightarrow> labels \<Rightarrow> go_error + Cluster"
  kBackupReadiness :: "event list \<Rightarrow> Cluster \<Rightarrow> go_error + string \<times> string \<times> string"
  kOpenStorage :: "event list \<Rightarrow> Cluster \<Rightarrow> go_error option"
  kStorageList :: "event list \<Rightarrow> string \<Rightarrow> go_error + string list"
  kStorageDelete :: "event list \<Rightarrow> string list \<Rightarrow> go_error option"
  kStorageHead :: "event list \<Rightarrow> string \<Rightarrow> go_error + int option"
  kShortUUID :: "event list \<Rightarrow> go_error + string"
  kBuildBackupJob :: "Cluster \<Rightarrow> string \<Rightarrow> string \<Rightarrow> string \<Rightarrow> string \<Rightarrow> go_error + Job"
  kUnmarshalSummary :: "string \<Rightarrow> BackupSnapshotSummary option"
  kIdentityMessage :: "Cluster \<Rightarrow> string option"
  kFailureHint :: "Cluster \<Rightarrow> string"
  kDurationString :: "int \<Rightarrow> string"
  kOperatorPolicies :: "Cluster \<Rightarrow> (string \<times> string) list"
  kPolicyDigest :: "string \<Rightarrow> string"
  kSortNewest :: "(string \<times> time) list \<Rightarrow> (string \<times> time) list"

record env =
  eNow :: "event list \<Rightarrow> time"
  eUUID :: "event list \<Rightarrow> string"
  eNonce :: "event list \<Rightarrow> string"
  eSha :: "string \<Rightarrow> string"
  eRevision :: "string \<Rightarrow> string \<Rightarrow> int \<Rightarrow> string"
  eOpenBaoImage :: "string \<Rightarrow> string"
  eRequeueStandard :: int
  eHasWorkloadRuntime :: bool
  eHasAdminOpsMutator :: bool
  eParseDuration :: "string \<Rightarrow> go_error + int"
  eParseReference :: "string \<Rightarrow> go_error + imageRef"
  eValidateSealPlugins :: "Cluster \<Rightarrow> go_error option"
  eGetCluster :: "event list \<Rightarrow> go_error + Cluster"
  ePatchLock :: "event list \<Rightarrow> Cluster \<Rightarrow> OperationLockStatus option \<Rightarrow> go_error + Cluster"
  eApplyStatus :: "event list \<Rightarrow> Cluster \<Rightarrow> bool \<Rightarrow> go_error option"
  eGetJob :: "event list \<Rightarrow> string \<Rightarrow> go_error + Job"
  eCreateJob :: "event list \<Rightarrow> Job \<Rightarrow> go_error + Job"
  eDeleteJob :: "event list \<Rightarrow> Job \<Rightarrow> go_error option"
  eGetSts :: "event list \<Rightarrow> string \<Rightarrow> go_error + StatefulSet"
  eDeleteSts :: "event list \<Rightarrow> StatefulSet \<Rightarrow> (string \<times> string) option \<Rightarrow> go_error option"
  eListPods :: "event list \<Rightarrow> labels \<Rightarrow> go_error + Pod list"
  eListClaims :: "event list \<Rightarrow> go_error + PersistentVolumeClaim list"
  eDeleteClaim :: "event list \<Rightarrow> PersistentVolumeClaim \<Rightarrow> go_error option"
  eEnsureServiceAccount :: "event list \<Rightarrow> Cluster \<Rightarrow> go_error option"
  eRenderConfig :: "Cluster \<Rightarrow> RenderOptions \<Rightarrow> go_error + string"
  eEnsureGreenSts :: "event list \<Rightarrow> Cluster \<Rightarrow> string \<Rightarrow> string \<Rightarrow> string \<Rightarrow> string \<Rightarrow> go_error option"
  eMainVerification :: "Cluster \<Rightarrow> bool"
  eOperatorVerification :: "Cluster \<Rightarrow> bool"
  eVerifyMain :: "event list \<Rightarrow> Cluster \<Rightarrow> string \<Rightarrow> go_error + string"
  eVerifyOperator :: "event list \<Rightarrow> Cluster \<Rightarrow> string \<Rightarrow> go_error + string"
  eDefaultInitImage :: "go_error + string"
  eDefaultUpgradeImage :: "go_error + string"
  eDefaultBackupImage :: "go_error + string"
  eEgressRulesExplicit :: "string list \<Rightarrow> bool"
  eHasBackupRuntime :: bool
  eEnsureBackupAccount :: "event list \<Rightarrow> Cluster \<Rightarrow> go_error option"
  eEnsureBackupRBAC :: "event list \<Rightarrow> Cluster \<Rightarrow> go_error option"
  eBuildSnapshotJob :: "Cluster \<Rightarrow> string \<Rightarrow> string \<Rightarrow> string \<Rightarrow> go_error + Job"
  eBuildExecutorJob :: "Cluster \<Rightarrow> string \<Rightarrow> ExecutorAction \<Rightarrow> string \<Rightarrow> string \<Rightarrow> string \<Rightarrow> string \<Rightarrow> go_error + Job"
  eSecurityLabels :: "Cluster \<Rightarrow> labels"
  eJsonHook :: "string \<Rightarrow> string list \<Rightarrow> string list \<Rightarrow> int \<Rightarrow> go_error + string"
  eGetPod :: "event list \<Rightarrow> string \<Rightarrow> go_error + Pod"
  eDeletePod :: "event list \<Rightarrow> Pod \<Rightarrow> go_error option"
  ePatchPartition :: "event list \<Rightarrow> StatefulSet \<Rightarrow> int \<Rightarrow> go_error option"
  eListJobs :: "event list \<Rightarrow> labels \<Rightarrow> go_error + Job list"
  eGetSecret :: "event list \<Rightarrow> string \<Rightarrow> go_error + labels"
  eLoadCACert :: "event list \<Rightarrow> Cluster \<Rightarrow> go_error + string"
  eTLSServerName :: "Cluster \<Rightarrow> string"
  eNewClient :: "event list \<Rightarrow> ClientConfig \<Rightarrow> go_error option"
  eIsHealthy :: "event list \<Rightarrow> ClientConfig \<Rightarrow> go_error + bool"
  eIsLeader :: "event list \<Rightarrow> ClientConfig \<Rightarrow> go_error + bool"
  eErrorText :: "go_error \<Rightarrow> string"
  eBackup :: backupEnv

section \<open>State\<close>

record st =
  cl :: Cluster
  trace :: "event list"
  sess :: sessions
  acks :: RequestAcknowledgements
  backupJobMetricsSeen :: "string list"

type_synonym 'a op = "(st, 'a) run"

definition emit :: "event \<Rightarrow> unit op" where
  "emit e = modify (\<lambda>s. s\<lparr>trace := trace s @ [e]\<rparr>)"

text \<open>A call: its answer is a function of the trace so far, and is recorded.\<close>

definition call :: "(event list \<Rightarrow> go_error + 'a) \<Rightarrow> (go_error + 'a \<Rightarrow> event) \<Rightarrow> 'a op" where
  "call f ev s = (let r = f (trace s) in (r, s\<lparr>trace := trace s @ [ev r]\<rparr>))"

definition callU :: "(event list \<Rightarrow> go_error option) \<Rightarrow> (go_error option \<Rightarrow> event) \<Rightarrow> unit op" where
  "callU f ev s = (let r = f (trace s) in
     (case r of None \<Rightarrow> Inr () | Some e \<Rightarrow> Inl e, s\<lparr>trace := trace s @ [ev r]\<rparr>))"

definition now :: "env \<Rightarrow> time op" where
  "now env = gets (\<lambda>s. eNow env (trace s))"

definition setCl :: "Cluster \<Rightarrow> unit op" where
  "setCl c = modify (\<lambda>s. s\<lparr>cl := c\<rparr>)"

definition updCl :: "(Cluster \<Rightarrow> Cluster) \<Rightarrow> unit op" where
  "updCl f = modify (\<lambda>s. s\<lparr>cl := f (cl s)\<rparr>)"

definition updBG :: "(BlueGreenStatus \<Rightarrow> BlueGreenStatus) \<Rightarrow> unit op" where
  "updBG f = updCl (mapBlueGreen f)"

text \<open>A read through \<open>cluster.Status.BlueGreen\<close>, which panics when the pointer is nil.\<close>

definition withBG :: "(BlueGreenStatus \<Rightarrow> 'a op) \<Rightarrow> 'a op" where
  "withBG k = bnd (gets (\<lambda>s. blueGreen (cl s))) (\<lambda>b. case b of
      None \<Rightarrow> failwith (Panic ''status.blueGreen'') | Some b \<Rightarrow> k b)"

definition withUpgrade :: "(UpgradeConfig \<Rightarrow> 'a op) \<Rightarrow> 'a op" where
  "withUpgrade k = bnd (gets (\<lambda>s. spUpgrade (clSpec (cl s)))) (\<lambda>u. case u of
      None \<Rightarrow> failwith (Panic ''spec.upgrade'') | Some u \<Rightarrow> k u)"

section \<open>Calls\<close>

definition getJob :: "env \<Rightarrow> string \<Rightarrow> Job op" where
  "getJob env name = call (\<lambda>tr. eGetJob env tr name) (GetJobE name)"

definition createJob :: "env \<Rightarrow> Job \<Rightarrow> Job op" where
  "createJob env j = call (\<lambda>tr. eCreateJob env tr j) (CreateJobE j)"

definition deleteJob :: "env \<Rightarrow> Job \<Rightarrow> unit op" where
  "deleteJob env j = callU (\<lambda>tr. eDeleteJob env tr j) (DeleteJobE (omName (jbMeta j)))"

definition getSts :: "env \<Rightarrow> string \<Rightarrow> StatefulSet op" where
  "getSts env name = call (\<lambda>tr. eGetSts env tr name) (GetStsE name)"

definition deleteSts :: "env \<Rightarrow> StatefulSet \<Rightarrow> (string \<times> string) option \<Rightarrow> unit op" where
  "deleteSts env sts pre = callU (\<lambda>tr. eDeleteSts env tr sts pre) (DeleteStsE (omName (stMeta sts)) pre)"

definition listPods :: "env \<Rightarrow> labels \<Rightarrow> Pod list op" where
  "listPods env sel = call (\<lambda>tr. eListPods env tr sel) (ListPodsE sel)"

definition listClaims :: "env \<Rightarrow> PersistentVolumeClaim list op" where
  "listClaims env = call (eListClaims env) ListClaimsE"

definition deleteClaim :: "env \<Rightarrow> PersistentVolumeClaim \<Rightarrow> unit op" where
  "deleteClaim env p = callU (\<lambda>tr. eDeleteClaim env tr p)
     (DeleteClaimE (omName (pvMeta p)) (omUID (pvMeta p)) (omResourceVersion (pvMeta p)))"

definition getCluster :: "env \<Rightarrow> Cluster op" where
  "getCluster env = call (eGetCluster env) GetClusterE"

definition applyStatus :: "env \<Rightarrow> Cluster \<Rightarrow> bool \<Rightarrow> unit op" where
  "applyStatus env desired force = callU (\<lambda>tr. eApplyStatus env tr desired force) 
     (ApplyStatusE (blueGreen desired) (ssUpgrade (clStatus desired)) (ssBackup (clStatus desired)) force)"

definition audit :: "string \<Rightarrow> labels \<Rightarrow> unit op" where
  "audit ty flds = emit (AuditE ty flds)"

definition getPod :: "env \<Rightarrow> string \<Rightarrow> Pod op" where
  "getPod env name = call (\<lambda>tr. eGetPod env tr name) (GetPodE name)"

definition deletePod :: "env \<Rightarrow> Pod \<Rightarrow> unit op" where
  "deletePod env p = callU (\<lambda>tr. eDeletePod env tr p) (DeletePodE (pdName p))"

definition patchPartition :: "env \<Rightarrow> StatefulSet \<Rightarrow> int \<Rightarrow> unit op" where
  "patchPartition env sts part = callU (\<lambda>tr. ePatchPartition env tr sts part) (PatchPartitionE (omName (stMeta sts)) part)"

definition listJobs :: "env \<Rightarrow> labels \<Rightarrow> Job list op" where
  "listJobs env sel = call (\<lambda>tr. eListJobs env tr sel) (ListJobsE sel)"

definition getSecret :: "env \<Rightarrow> string \<Rightarrow> labels op" where
  "getSecret env name = call (\<lambda>tr. eGetSecret env tr name) (GetSecretE name)"

text \<open>The API the operation lock works against in this world.\<close>

definition bgLockApi :: "env \<Rightarrow> st lock_api" where
  "bgLockApi env = \<lparr> la_reader = Some (\<lambda>ns name. getCluster env), la_get = (\<lambda>ns name. getCluster env),
     la_patch = (\<lambda>base l. call (\<lambda>tr. ePatchLock env tr base l) (PatchLockE l)),
     la_now = (\<lambda>s. eNow env (trace s)) \<rparr>"

section \<open>Events and audit (events.go, upgrade/audit.go)\<close>

definition emitNormalEvent :: "string \<Rightarrow> string \<Rightarrow> unit op" where
  "emitNormalEvent reason note = emit (EventE False reason note)"

definition emitWarningEvent :: "string \<Rightarrow> string \<Rightarrow> unit op" where
  "emitWarningEvent reason note = emit (EventE True reason note)"

definition upgradeAuditFields :: "Cluster option \<Rightarrow> string \<Rightarrow> labels" where
  "upgradeAuditFields cluster strategy = (''strategy'', strategy)
     # (case cluster of None \<Rightarrow> []
        | Some c \<Rightarrow> [(''cluster_namespace'', clNamespace c), (''cluster_name'', clName c)])"

definition UpgradeStartedAuditFields :: "Cluster option \<Rightarrow> string \<Rightarrow> string \<Rightarrow> string \<Rightarrow> labels" where
  "UpgradeStartedAuditFields cluster strategy fromVersion toVersion =
     setAnnotation ''to_version'' toVersion (setAnnotation ''from_version'' fromVersion (upgradeAuditFields cluster strategy))"

definition UpgradeCompletedAuditFields :: "Cluster option \<Rightarrow> string \<Rightarrow> string \<Rightarrow> labels" where
  "UpgradeCompletedAuditFields cluster strategy version =
     setAnnotation ''version'' version (upgradeAuditFields cluster strategy)"

definition clusterAuditFields :: "Cluster \<Rightarrow> labels" where
  "clusterAuditFields c = [(''cluster_namespace'', clNamespace c), (''cluster_name'', clName c)]"

section \<open>Frames of the calls\<close>

text \<open>\<open>sameCl\<close>: the cluster object, the sessions and the acknowledgements are untouched, the trace only grows.\<close>

definition sameCl :: "st \<Rightarrow> st \<Rightarrow> bool" where
  "sameCl s t \<longleftrightarrow> cl t = cl s \<and> sess t = sess s \<and> acks t = acks s \<and> (\<exists>ev. trace t = trace s @ ev)"

interpretation sameCl: frame sameCl
  by unfold_locales (auto simp: sameCl_def)

lemma keeps_call [simp, intro]: "keeps sameCl (call f ev)" "keeps sameCl (callU g ev')" "keeps sameCl (emit e)"
  "keeps sameCl (now env)"
  by (simp_all add: keeps_def sameCl_def call_def callU_def emit_def modify_def now_def gets_def Let_def)

lemma keeps_calls [simp, intro]:
  "keeps sameCl (getJob env n)" "keeps sameCl (createJob env j)" "keeps sameCl (deleteJob env j)"
  "keeps sameCl (getSts env n)" "keeps sameCl (deleteSts env x pre)" "keeps sameCl (listPods env sel)"
  "keeps sameCl (listClaims env)" "keeps sameCl (deleteClaim env p)" "keeps sameCl (getCluster env)"
  "keeps sameCl (applyStatus env d f)" "keeps sameCl (audit ty flds)" "keeps sameCl (emitNormalEvent a b)"
  "keeps sameCl (emitWarningEvent a b)" "keeps sameCl (getPod env n)" "keeps sameCl (deletePod env pod)"
  "keeps sameCl (patchPartition env sts i)" "keeps sameCl (listJobs env lsel)" "keeps sameCl (getSecret env n)"
  by (simp_all add: getPod_def deletePod_def patchPartition_def listJobs_def getSecret_def getJob_def createJob_def deleteJob_def getSts_def deleteSts_def listPods_def listClaims_def
      deleteClaim_def getCluster_def applyStatus_def audit_def emitNormalEvent_def emitWarningEvent_def)

lemma wp_withBG [wps]:
  "wp (withBG k) Q E s = (case blueGreen (cl s) of None \<Rightarrow> E (Panic ''status.blueGreen'') s | Some b \<Rightarrow> wp (k b) Q E s)"
  by (simp add: withBG_def wps split: option.split)

lemma wp_withUpgrade [wps]:
  "wp (withUpgrade k) Q E s = (case spUpgrade (clSpec (cl s)) of None \<Rightarrow> E (Panic ''spec.upgrade'') s | Some u \<Rightarrow> wp (k u) Q E s)"
  by (simp add: withUpgrade_def wps split: option.split)

lemma wp_state [wps]:
  "wp (setCl c) Q E s = Q () (s\<lparr>cl := c\<rparr>)"
  "wp (updCl f) Q E s = Q () (s\<lparr>cl := f (cl s)\<rparr>)"
  "wp (updBG g) Q E s = Q () (s\<lparr>cl := mapBlueGreen g (cl s)\<rparr>)"
  "wp (emit e) Q E s = Q () (s\<lparr>trace := trace s @ [e]\<rparr>)"
  "wp (now env) Q2 E s = Q2 (eNow env (trace s)) s"
  by (simp_all add: setCl_def updCl_def updBG_def emit_def now_def wps)

lemma wp_call [wps]:
  "wp (call f ev) Q E s = (case f (trace s) of
      Inl e \<Rightarrow> E e (s\<lparr>trace := trace s @ [ev (Inl e)]\<rparr>) | Inr a \<Rightarrow> Q a (s\<lparr>trace := trace s @ [ev (Inr a)]\<rparr>))"
  "wp (callU g ev') Q2 E s = (case g (trace s) of
      Some e \<Rightarrow> E e (s\<lparr>trace := trace s @ [ev' (Some e)]\<rparr>) | None \<Rightarrow> Q2 () (s\<lparr>trace := trace s @ [ev' None]\<rparr>))"
  by (simp_all add: call_def callU_def wp_def Let_def split: sum.split option.split)

end
