(* ===== verification/Pod_Clients.thy ===== *)
theory Pod_Clients
  imports BlueGreen_World
begin

text \<open>
  OpenBao API clients for single Pods and the search for the leader
  (\<open>internal/service/upgrade/raftops/pod_client.go\<close>, \<open>leader_observer.go\<close>, \<open>cluster_pod_url.go\<close>): the leader is the
  one Pod whose label says so; when the labels are ambiguous or silent, every eligible Pod is asked.  A client
  is its configuration; what the node behind it answers is a function of the surroundings.
\<close>

section \<open>Clients\<close>

record ClusterPodClientOptions =
  coConnectionTimeout :: int
  coRequestTimeout :: int
  coSmartClientDisabled :: bool

definition defaultClientOptions :: ClusterPodClientOptions where
  "defaultClientOptions = \<lparr> coConnectionTimeout = 0, coRequestTimeout = 0, coSmartClientDisabled = False \<rparr>"

definition ClusterPodURLForService :: "string \<Rightarrow> string \<Rightarrow> string \<Rightarrow> string" where
  "ClusterPodURLForService namespace serviceName podName =
     ''https://'' @ podName @ ''.'' @ serviceName @ ''.'' @ namespace @ ''.svc:8200''"

definition ClusterPodURL :: "Cluster \<Rightarrow> string \<Rightarrow> string" where
  "ClusterPodURL c podName = ClusterPodURLForService (clNamespace c) (clName c) podName"

definition LoadClusterCACert :: "env \<Rightarrow> string op" where
  "LoadClusterCACert env = bnd (gets cl) (\<lambda>c. call (\<lambda>tr. eLoadCACert env tr c) LoadCACertE)"

definition NewClusterPodClient :: "env \<Rightarrow> string \<Rightarrow> string \<Rightarrow> ClusterPodClientOptions \<Rightarrow> ClientConfig op" where
  "NewClusterPodClient env podName caCert opts = bnd (gets cl) (\<lambda>c.
     if podName = [] then failwith (errorf ''pod name is required'')
     else let cfg = \<lparr> ccClusterKey = clNamespace c @ ''/'' @ clName c, ccBaseURL = ClusterPodURL c podName,
              ccCACert = caCert, ccTLSServerName = eTLSServerName env c,
              ccConnectionTimeout = coConnectionTimeout opts, ccRequestTimeout = coRequestTimeout opts,
              ccSmartClientDisabled = coSmartClientDisabled opts \<rparr>
          in bnd (wrap_err (wrapf (''failed to create OpenBao client for pod '' @ podName))
                    (callU (\<lambda>tr. eNewClient env tr cfg) (NewClientE cfg))) (\<lambda>_. ret cfg))"

definition IsLeader :: "env \<Rightarrow> ClientConfig \<Rightarrow> bool op" where
  "IsLeader env cfg = call (\<lambda>tr. eIsLeader env tr cfg) (IsLeaderE (ccBaseURL cfg))"

definition IsHealthy :: "env \<Rightarrow> ClientConfig \<Rightarrow> bool op" where
  "IsHealthy env cfg = call (\<lambda>tr. eIsHealthy env tr cfg) (IsHealthyE (ccBaseURL cfg))"

definition IsClusterPodLeader :: "env \<Rightarrow> string \<Rightarrow> ClusterPodClientOptions \<Rightarrow> bool op" where
  "IsClusterPodLeader env podName opts =
     bnd (wrap_err (wrapf ''failed to load cluster trust bundle'') (LoadClusterCACert env)) (\<lambda>caCert.
     bnd (NewClusterPodClient env podName caCert opts) (\<lambda>cfg.
     wrap_err (wrapf (''failed to check leadership for pod '' @ podName)) (IsLeader env cfg)))"

section \<open>The leader by label\<close>

definition labelledLeader :: "Pod \<Rightarrow> bool" where
  "labelledLeader pod \<longleftrightarrow> omDeletionTimestamp (pdMeta pod) = None
     \<and> ParseBoolLabel (pdLabels pod) ''openbao-active'' = Inr (True, True)"

definition FindLeaderPodByLabel :: "Pod list \<Rightarrow> go_error + string option" where
  "FindLeaderPodByLabel pods = (case map pdName (filter labelledLeader pods) of
      [] \<Rightarrow> Inr None
    | [leader] \<Rightarrow> Inr (Some leader)
    | leaders \<Rightarrow> Inl (errorf (''multiple leaders detected via pod labels ('' @ nat_str (length leaders) @ '')'')))"

section \<open>The leader by probe\<close>

definition eligibleLeaderProbePod :: "Pod \<Rightarrow> bool" where
  "eligibleLeaderProbePod pod \<longleftrightarrow> omDeletionTimestamp (pdMeta pod) = None \<and> pdPhase pod = ''Running'' \<and> isPodReady pod
     \<and> (case ParseBoolLabel (pdLabels pod) ''openbao-sealed'' of Inl _ \<Rightarrow> True | Inr (sealed, present) \<Rightarrow> \<not> present \<or> \<not> sealed)"

fun ProbeLeaderPod :: "Pod list \<Rightarrow> (Pod \<Rightarrow> bool op) \<Rightarrow> string option op" where
  "ProbeLeaderPod [] probe = ret None"
| "ProbeLeaderPod (pod # pods) probe =
     (if \<not> eligibleLeaderProbePod pod then ProbeLeaderPod pods probe
      else bnd (attempt (probe pod)) (\<lambda>r. case r of
          Inl _ \<Rightarrow> ProbeLeaderPod pods probe
        | Inr isLeader \<Rightarrow> if isLeader then ret (Some (pdName pod)) else ProbeLeaderPod pods probe))"

definition FindClusterLeaderPod :: "env \<Rightarrow> Pod list \<Rightarrow> ClusterPodClientOptions \<Rightarrow> (string \<times> string) option op" where
  "FindClusterLeaderPod env pods opts = (case FindLeaderPodByLabel pods of
      Inr (Some leader) \<Rightarrow> ret (Some (leader, ''label''))
    | _ \<Rightarrow> bnd (attempt (LoadClusterCACert env)) (\<lambda>r. case r of
        Inl _ \<Rightarrow> ret None
      | Inr caCert \<Rightarrow>
          bnd (ProbeLeaderPod pods (\<lambda>pod. bnd (NewClusterPodClient env (pdName pod) caCert opts) (IsLeader env))) (\<lambda>leader.
          ret (map_option (\<lambda>l. (l, ''api'')) leader))))"

text \<open>\<open>openBaoClusterOps.FindLeaderPod\<close> of the blue/green manager.\<close>

definition findLeaderPod :: "env \<Rightarrow> Pod list \<Rightarrow> (string \<times> string) option op" where
  "findLeaderPod env pods = FindClusterLeaderPod env pods
     \<lparr> coConnectionTimeout = seconds 2, coRequestTimeout = seconds 2, coSmartClientDisabled = True \<rparr>"

section \<open>Frames\<close>

lemma keeps_clients [simp, intro]:
  "keeps sameCl (LoadClusterCACert env)" "keeps sameCl (NewClusterPodClient env n ca opts)"
  "keeps sameCl (IsLeader env cfg)" "keeps sameCl (IsHealthy env cfg)" "keeps sameCl (IsClusterPodLeader env n opts)"
  by (auto simp: LoadClusterCACert_def NewClusterPodClient_def IsLeader_def IsHealthy_def IsClusterPodLeader_def Let_def)

lemma keeps_ProbeLeaderPod [intro]:
  "(\<And>p. keeps sameCl (probe p)) \<Longrightarrow> keeps sameCl (ProbeLeaderPod pods probe)"
  by (induction pods) (auto split: sum.split)

lemma keeps_findLeaderPod [simp, intro]: "keeps sameCl (findLeaderPod env pods)"
  unfolding findLeaderPod_def FindClusterLeaderPod_def
  by (auto intro!: keeps_ProbeLeaderPod split: sum.split option.split)

end
