(* ===== verification/BlueGreen_Jobs.thy ===== *)
theory BlueGreen_Jobs
  imports Pod_Clients
begin

text \<open>
  The building blocks the phase handlers call: image verification
  (\<open>bluegreen/image_verification.go\<close>, \<open>upgrade/image_verification.go\<close>), idempotent Jobs
  (\<open>upgrade/job.go\<close>, \<open>bluegreen/job.go\<close>, \<open>bluegreen/snapshot_job.go\<close>, \<open>upgrade/snapshot\<close>), Pods and
  StatefulSets of a revision (\<open>bluegreen/pods.go\<close>), status checkpoints
  (\<open>app/openbaocluster/adminopsstatus/mutate.go\<close>, \<open>platform/statusapply\<close>), recovery of execution inputs
  (\<open>bluegreen/execution_state.go\<close>) and of the blue/green status (\<open>service/workload\<close>).
\<close>

section \<open>Image verification\<close>

definition imageVerificationFailurePolicy :: "Cluster \<Rightarrow> string" where
  "imageVerificationFailurePolicy c = (case spImageVerification (clSpec c) of
      None \<Rightarrow> ''Block''
    | Some iv \<Rightarrow> if ivFailurePolicy iv = [] then ''Block'' else ivFailurePolicy iv)"

definition OperatorImageVerificationFailurePolicy :: "Cluster \<Rightarrow> string" where
  "OperatorImageVerificationFailurePolicy c = (case spOperatorImageVerification (clSpec c) of
      None \<Rightarrow> ''Block''
    | Some iv \<Rightarrow> if trim_space (ivFailurePolicy iv) = [] then ''Block'' else ivFailurePolicy iv)"

definition verifyImageDigest :: "env \<Rightarrow> string \<Rightarrow> string \<Rightarrow> string \<Rightarrow> string op" where
  "verifyImageDigest env imageRef failureReason prefix = bnd (gets cl) (\<lambda>c.
     if \<not> eMainVerification env c then ret []
     else if imageRef = [] then ret []
     else bnd (attempt (call (\<lambda>tr. eVerifyMain env tr c imageRef) (VerifyImageE imageRef))) (\<lambda>r. case r of
        Inr digest \<Rightarrow> ret digest
      | Inl err \<Rightarrow>
          if imageVerificationFailurePolicy c = ''Block''
          then failwith (Reasoned failureReason (wrapf (prefix @ '' (policy=Block)'') err))
          else ret []))"

definition VerifyOperatorImageDigest :: "env \<Rightarrow> string \<Rightarrow> string \<Rightarrow> string \<Rightarrow> string op" where
  "VerifyOperatorImageDigest env imageRef failureReason prefix = bnd (gets cl) (\<lambda>c.
     if \<not> eOperatorVerification env c then ret []
     else if imageRef = [] then ret []
     else bnd (attempt (call (\<lambda>tr. eVerifyOperator env tr c imageRef) (VerifyImageE imageRef))) (\<lambda>r. case r of
        Inr digest \<Rightarrow> ret digest
      | Inl err \<Rightarrow>
          if OperatorImageVerificationFailurePolicy c = ''Block''
          then failwith (let w = wrapf (prefix @ '' (policy=Block)'') err
                         in if failureReason = [] then w else Reasoned failureReason w)
          else ret []))"

definition resolveInitContainerImage :: "env \<Rightarrow> Cluster \<Rightarrow> go_error + string" where
  "resolveInitContainerImage env c = (case spInitContainer (clSpec c) of
      Some img \<Rightarrow> if img \<noteq> [] then Inr img
        else (case eDefaultInitImage env of
                Inl e \<Rightarrow> Inl (wrap2 ErrPermanentConfig (Reasoned ''HelperImageConfigurationInvalid'' (wrapf ''default init container image is unavailable'' e)))
              | Inr i \<Rightarrow> Inr i)
    | None \<Rightarrow> (case eDefaultInitImage env of
                Inl e \<Rightarrow> Inl (wrap2 ErrPermanentConfig (Reasoned ''HelperImageConfigurationInvalid'' (wrapf ''default init container image is unavailable'' e)))
              | Inr i \<Rightarrow> Inr i))"

definition resolveUpgradeExecutorImage :: "env \<Rightarrow> Cluster \<Rightarrow> string \<Rightarrow> go_error + string" where
  "resolveUpgradeExecutorImage env c verifiedExecutorDigest =
     (let image = (if verifiedExecutorDigest = [] then
                     (case spUpgrade (clSpec c) of None \<Rightarrow> [] | Some u \<Rightarrow> trim_space (ucImage u))
                   else verifiedExecutorDigest)
      in if image \<noteq> [] then Inr image
         else case eDefaultUpgradeImage env of
             Inl e \<Rightarrow> Inl (wrap2 ErrPermanentConfig (Reasoned ''HelperImageConfigurationInvalid'' (wrapf ''default upgrade executor image is unavailable'' e)))
           | Inr i \<Rightarrow> Inr i)"

section \<open>Jobs\<close>

definition readManagedJob :: "env \<Rightarrow> string \<Rightarrow> string \<Rightarrow> Job op" where
  "readManagedJob env name action = bnd (gets cl) (\<lambda>c.
     ReadManagedJob (Some (getJob env)) name (Some (clusterMeta c)) openBaoClusterGVK action)"

record executorJobResult =
  ejName :: string
  ejSucceeded :: bool
  ejFailed :: bool
  ejRunning :: bool

definition executorResultFromJob :: "Job \<Rightarrow> executorJobResult" where
  "executorResultFromJob job =
     (if JobSucceeded (Some job)
      then \<lparr> ejName = omName (jbMeta job), ejSucceeded = True, ejFailed = False, ejRunning = False \<rparr>
      else if JobFailed (Some job)
      then \<lparr> ejName = omName (jbMeta job), ejSucceeded = False, ejFailed = True, ejRunning = False \<rparr>
      else \<lparr> ejName = omName (jbMeta job), ejSucceeded = False, ejFailed = False, ejRunning = True \<rparr>)"

definition ensureUpgradeExecutorJob ::
    "env \<Rightarrow> ExecutorAction \<Rightarrow> string \<Rightarrow> string \<Rightarrow> string \<Rightarrow> executorJobResult op" where
  "ensureUpgradeExecutorJob env action runID blueRevision greenRevision = bnd (gets cl) (\<lambda>c.
     let jobName = upgradeExecutorJobName (eSha env) (clName c) action runID blueRevision greenRevision in
     bnd (attempt (readManagedJob env jobName ''observe upgrade'')) (\<lambda>r. case r of
       Inr job \<Rightarrow> ret (executorResultFromJob job)
     | Inl err \<Rightarrow>
         if \<not> is_not_found err then failwith (wrapf (''failed to get upgrade Job '' @ jobName) err)
         else
           bnd (wrap_err (wrapf ''failed to resolve upgrade executor image for verification'')
                  (lift_res (resolveUpgradeExecutorImage env c []))) (\<lambda>executorImage.
           bnd (VerifyOperatorImageDigest env executorImage [] ''upgrade executor image verification failed'') (\<lambda>digest.
           bnd (wrap_err (wrapf (''failed to build upgrade Job '' @ jobName))
                  (lift_res (eBuildExecutorJob env c jobName action runID blueRevision greenRevision digest))) (\<lambda>job.
           bnd (wrap_err (wrapf (''failed to prepare upgrade Job ownership '' @ jobName))
                  (lift_res (PrepareManagedJobOwner (Some job) (Some (clusterMeta c)) (Some openBaoClusterGVK)))) (\<lambda>owned.
           bnd (attempt (createJob env owned)) (\<lambda>created. case created of
             Inr _ \<Rightarrow> ret \<lparr> ejName = jobName, ejSucceeded = False, ejFailed = False, ejRunning = True \<rparr>
           | Inl cerr \<Rightarrow>
               if is_already_exists cerr
               then bnd (wrap_err (wrapf ''upgrade Job create collided with an untrusted existing Job'')
                           (readManagedJob env jobName ''use existing upgrade'')) (\<lambda>existing.
                    ret (executorResultFromJob existing))
               else failwith (wrapf (''failed to create upgrade Job '' @ jobName) cerr))))))))"

definition EnsureExecutorJob :: "env \<Rightarrow> ExecutorAction \<Rightarrow> string \<Rightarrow> string \<Rightarrow> string \<Rightarrow> JobResult op" where
  "EnsureExecutorJob env action runID blueRevision greenRevision =
     bnd (ensureUpgradeExecutorJob env action runID blueRevision greenRevision) (\<lambda>r.
       ret \<lparr> jrName = ejName r, jrExists = True, jrSucceeded = ejSucceeded r, jrFailed = ejFailed r,
             jrRunning = ejRunning r \<rparr>)"

definition ensureJob :: "env \<Rightarrow> string \<Rightarrow> (string \<Rightarrow> Job op) \<Rightarrow> JobResult op" where
  "ensureJob env jobName build =
     (if jobName = [] then failwith (errorf ''jobName is required'')
      else bnd (attempt (readManagedJob env jobName ''observe blue-green upgrade'')) (\<lambda>r. case r of
          Inr job \<Rightarrow> ret (jobResultFromJob job)
        | Inl err \<Rightarrow>
            if \<not> is_not_found err then failwith (wrapf (''failed to get Job '' @ jobName) err)
            else bnd (build jobName) (\<lambda>built.
              bnd (gets cl) (\<lambda>c.
              bnd (wrap_err (wrapf (''failed to prepare Job ownership '' @ jobName))
                     (lift_res (PrepareManagedJobOwner (Some built) (Some (clusterMeta c)) (Some openBaoClusterGVK)))) (\<lambda>owned.
              bnd (attempt (createJob env owned)) (\<lambda>created. case created of
                Inr _ \<Rightarrow> ret \<lparr> jrName = jobName, jrExists = True, jrSucceeded = False, jrFailed = False, jrRunning = True \<rparr>
              | Inl cerr \<Rightarrow>
                  if is_already_exists cerr
                  then bnd (wrap_err (wrapf ''job create collided with an untrusted existing Job'')
                              (readManagedJob env jobName ''use existing blue-green upgrade'')) (\<lambda>existing.
                       ret (jobResultFromJob existing))
                  else failwith (wrapf (''failed to create Job '' @ jobName) cerr)))))))"

definition getJobStatus :: "env \<Rightarrow> string \<Rightarrow> JobResult op" where
  "getJobStatus env jobName =
     (if jobName = [] then failwith (errorf ''jobName is required'')
      else bnd (attempt (readManagedJob env jobName ''observe blue-green upgrade'')) (\<lambda>r. case r of
          Inr job \<Rightarrow> ret (jobResultFromJob job)
        | Inl err \<Rightarrow>
            if is_not_found err
            then ret \<lparr> jrName = jobName, jrExists = False, jrSucceeded = False, jrFailed = False, jrRunning = False \<rparr>
            else failwith (wrapf (''failed to get Job '' @ jobName) err)))"

section \<open>Pre-upgrade snapshot Jobs\<close>

datatype JobState = JobStateNone | JobStateRunning | JobStateFailed | JobStateSucceeded

definition JobStateFromBatchJob :: "Job option \<Rightarrow> JobState" where
  "JobStateFromBatchJob job = (case job of None \<Rightarrow> JobStateNone
     | Some j \<Rightarrow> if JobSucceeded (Some j) then JobStateSucceeded
                 else if JobFailed (Some j) then JobStateFailed else JobStateRunning)"

definition JobStateFromResult :: "JobResult option \<Rightarrow> JobState" where
  "JobStateFromResult result = (case result of None \<Rightarrow> JobStateNone
     | Some r \<Rightarrow> if \<not> jrExists r then JobStateNone
                 else if jrSucceeded r then JobStateSucceeded
                 else if jrFailed r then JobStateFailed
                 else if jrRunning r then JobStateRunning else JobStateNone)"

definition ReconcileExistingJob :: "JobState \<Rightarrow> (bool op) option \<Rightarrow> (bool op) option \<Rightarrow> bool op" where
  "ReconcileExistingJob state onFailed onSucceeded = (case state of
      JobStateFailed \<Rightarrow> (case onFailed of None \<Rightarrow> ret False | Some h \<Rightarrow> h)
    | JobStateSucceeded \<Rightarrow> (case onSucceeded of None \<Rightarrow> ret True | Some h \<Rightarrow> h)
    | JobStateRunning \<Rightarrow> ret False
    | JobStateNone \<Rightarrow> ret False)"

definition EnsureBackupTokenSecretExists :: "env \<Rightarrow> string \<Rightarrow> unit op" where
  "EnsureBackupTokenSecretExists env secretName = bnd (attempt (getSecret env secretName)) (\<lambda>r. case r of
      Inr _ \<Rightarrow> ret ()
    | Inl e \<Rightarrow>
        if is_not_found e then failwith (errorf (''backup token Secret '' @ secretName @ '' not found''))
        else failwith (wrapf (''failed to get backup token Secret '' @ secretName) e))"

definition ValidatePreUpgradeSnapshotPrerequisites :: "env \<Rightarrow> ValidationOptions \<Rightarrow> unit op" where
  "ValidatePreUpgradeSnapshotPrerequisites env opts = bnd (gets cl) (\<lambda>c.
     case snapshotConfigError (eEgressRulesExplicit env) (Some c) opts of
       Some e \<Rightarrow> failwith e
     | None \<Rightarrow>
         if \<not> voRequireTokenSecret opts then ret ()
         else (case BackupTokenSecretName (Some c) of
             None \<Rightarrow> ret ()
           | Some secretName \<Rightarrow> EnsureBackupTokenSecretExists env secretName))"

definition EnsureRuntime :: "env \<Rightarrow> unit op" where
  "EnsureRuntime env = bnd (gets cl) (\<lambda>c.
     if \<not> eHasBackupRuntime env then failwith (errorf ''backup runtime is not configured'')
     else bnd (wrap_err (wrapf ''failed to ensure backup ServiceAccount'')
                 (callU (\<lambda>tr. eEnsureBackupAccount env tr c) EnsureBackupAccountE)) (\<lambda>_.
          wrap_err (wrapf ''failed to ensure backup RBAC'') (callU (\<lambda>tr. eEnsureBackupRBAC env tr c) EnsureBackupRBACE)))"

definition ResolvePreUpgradeSnapshotExecutorDigest :: "env \<Rightarrow> string \<Rightarrow> string \<Rightarrow> string op" where
  "ResolvePreUpgradeSnapshotExecutorDigest env failureReason failureMessage = bnd (gets cl) (\<lambda>c.
     bnd (wrap_err (wrapf ''failed to determine pre-upgrade snapshot executor image'')
            (lift_res (resolveBackupExecutorImage (eDefaultBackupImage env) c))) (\<lambda>image.
     VerifyOperatorImageDigest env image failureReason failureMessage))"

definition blueGreenSnapshotOptions :: ValidationOptions where
  "blueGreenSnapshotOptions = \<lparr> voMissingBackupMessage = ''backup configuration required for pre-upgrade snapshot'',
     voRequireEndpoint = True, voRequireTokenSecret = False,
     voNetworkErrorMessage = ''hardened profile with pre-upgrade snapshots enabled requires explicit spec.network.egressRules so snapshot Jobs can reach the object storage endpoint'',
     voAuthenticationMessage = ''backup authentication is required: set spec.backup.jwtAuthRole or spec.backup.tokenSecretRef (or enable spec.selfInit.oidc.enabled=true)'' \<rparr>"

definition ensurePreUpgradeSnapshotJob :: "env \<Rightarrow> string \<Rightarrow> JobResult op" where
  "ensurePreUpgradeSnapshotJob env jobName = bnd (gets cl) (\<lambda>c.
     bnd (wrap_err (permanentReason ''PreUpgradeBackupFailed'')
            (ValidatePreUpgradeSnapshotPrerequisites env blueGreenSnapshotOptions)) (\<lambda>_.
         bnd (EnsureRuntime env) (\<lambda>_.
         ensureJob env jobName (\<lambda>name.
           bnd (ResolvePreUpgradeSnapshotExecutorDigest env ''BlueGreenSnapshotImageVerificationFailed''
                  ''Pre-upgrade snapshot executor image verification failed'') (\<lambda>digest.
           let statefulSetName = (case blueGreen c of
                 Some b \<Rightarrow> if bgBlueRevision b \<noteq> [] then clName c @ ''-'' @ bgBlueRevision b else clName c
               | None \<Rightarrow> clName c)
           in bnd (lift_res (eBuildSnapshotJob env c name digest statefulSetName)) (\<lambda>job.
              ret (job\<lparr>jbMeta := (jbMeta job)\<lparr>
                omLabels := filter (\<lambda>p. fst p \<noteq> ''openbao.org/backup-type'')
                  (setAnnotation ''openbao.org/component'' ''upgrade-snapshot'' (omLabels (jbMeta job))),
                omAnnotations := setAnnotation ''openbao.org/snapshot-phase'' ''pre-upgrade'' (omAnnotations (jbMeta job))\<rparr>\<rparr>)))))))"

section \<open>Pods and StatefulSets of a revision\<close>

definition getPodsByRevision :: "env \<Rightarrow> string \<Rightarrow> Pod list op" where
  "getPodsByRevision env revision = bnd (gets cl) (\<lambda>c.
     let ctrl = (case blueGreen c of None \<Rightarrow> [] | Some b \<Rightarrow> bgBlueControllerRevision b);
         sel = [(LabelAppInstance, clName c), (LabelAppName, ''openbao'')]
           @ (if revision \<noteq> [] then [(LabelOpenBaoRevision, revision)]
              else if ctrl \<noteq> [] then [(''controller-revision-hash'', ctrl)] else [])
     in bnd (wrap_err (wrapf (''failed to list pods for revision '' @ revision)) (listPods env sel)) (\<lambda>pods.
        if revision \<noteq> [] \<or> ctrl \<noteq> [] then ret pods
        else ret (filter (\<lambda>p. has_prefix (pdName p) (clName c @ ''-'')
                            \<and> lookup_label (pdLabels p) LabelOpenBaoRevision = []) pods)))"

definition cleanupGreenStatefulSet :: "env \<Rightarrow> unit op" where
  "cleanupGreenStatefulSet env = bnd (gets cl) (\<lambda>c.
     case blueGreen c of
       None \<Rightarrow> ret ()
     | Some b \<Rightarrow>
         if bgGreenRevision b = [] then ret ()
         else bnd (attempt (getSts env (clName c @ ''-'' @ bgGreenRevision b))) (\<lambda>r. case r of
           Inl err \<Rightarrow> if is_not_found err then ret () else failwith (wrapf ''failed to get Green StatefulSet'' err)
         | Inr sts \<Rightarrow> wrap_err (wrapf ''failed to delete Green StatefulSet'') (deleteSts env sts None)))"

definition readExecutionStatefulSet :: "env \<Rightarrow> string \<Rightarrow> StatefulSet op" where
  "readExecutionStatefulSet env name = bnd (getSts env name) (\<lambda>sts.
     case stSpecReplicas sts of
       None \<Rightarrow> failwith (errorf (''StatefulSet '' @ name @ '' has no positive replica count''))
     | Some n \<Rightarrow> if n < 1 then failwith (errorf (''StatefulSet '' @ name @ '' has no positive replica count''))
                 else ret sts)"

section \<open>Status checkpoints\<close>

text \<open>\<open>MutateAndApplyOpenBaoClusterAdminOpsStatusWithReader\<close>, then the copy of the fields read back.\<close>

definition MutateAndApplyAdminOpsStatus ::
    "env \<Rightarrow> string \<Rightarrow> (Cluster \<Rightarrow> go_error + Cluster) \<Rightarrow> bool \<Rightarrow> Cluster op" where
  "MutateAndApplyAdminOpsStatus env name mutate force =
     (if name = [] then failwith (errorf ''cluster name is required'')
      else bnd (wrap_err (wrapf ''failed to apply adminops status'')
             (retryOnConflict DefaultRetrySteps
               (bnd (wrap_err (wrapf ''failed to get cluster before adminops status apply'') (getCluster env)) (\<lambda>current.
                bnd (lift_res (mutate current)) (\<lambda>desired. applyStatus env desired force))))) (\<lambda>_.
           wrap_err (wrapf ''failed to get cluster after adminops status apply'') (getCluster env)))"

datatype OwnershipPolicy = RespectOwnership | ForceOwnershipOnConflict | ForceOwnership

definition MutateWithReader :: "env \<Rightarrow> (Cluster \<Rightarrow> go_error + Cluster) \<Rightarrow> OwnershipPolicy \<Rightarrow> unit op" where
  "MutateWithReader env mutate ownership = bnd (gets cl) (\<lambda>c.
     bnd (attempt (MutateAndApplyAdminOpsStatus env (clName c) mutate (ownership = ForceOwnership))) (\<lambda>r1.
     bnd (case r1 of
            Inl err \<Rightarrow> if is_conflict err \<and> ownership = ForceOwnershipOnConflict
                       then attempt (MutateAndApplyAdminOpsStatus env (clName c) mutate True) else ret r1
          | Inr _ \<Rightarrow> ret r1) (\<lambda>r2. case r2 of
        Inl err \<Rightarrow> failwith (wrapf ''failed to apply adminops status for OpenBaoCluster'' err)
      | Inr updated \<Rightarrow> updCl (\<lambda>c. (mapStatus (\<lambda>st. st\<lparr>
            ssAcceptedUpgradeStrategy := ssAcceptedUpgradeStrategy (clStatus updated),
            ssUpgrade := ssUpgrade (clStatus updated), ssUpgradeRequests := ssUpgradeRequests (clStatus updated),
            ssBlueGreen := ssBlueGreen (clStatus updated), ssBreakGlass := ssBreakGlass (clStatus updated),
            ssBackup := ssBackup (clStatus updated), ssAdminOps := ssAdminOps (clStatus updated)\<rparr>) c)
              \<lparr>clResourceVersion := clResourceVersion updated\<rparr>))))"

definition persistBlueGreenStatus :: "env \<Rightarrow> unit op" where
  "persistBlueGreenStatus env =
     (if \<not> eHasAdminOpsMutator env then failwith (errorf ''adminops status mutator is required'')
      else bnd (gets cl) (\<lambda>c. wrap_err (wrapf ''failed to persist blue/green validation hook status'')
             (MutateWithReader env (\<lambda>obj. Inr (setBlueGreen (blueGreen c) obj)) ForceOwnershipOnConflict)))"

section \<open>Recovery of execution inputs (execution\_state.go)\<close>

definition calculateRevision :: "env \<Rightarrow> Cluster \<Rightarrow> string" where
  "calculateRevision env c = eRevision env (spVersion (clSpec c)) (spImage (clSpec c)) (spReplicas (clSpec c))"

definition recoverGreenTarget :: "env \<Rightarrow> unit op" where
  "recoverGreenTarget env = withBG (\<lambda>b. bnd (gets cl) (\<lambda>c.
     if bgGreenReplicas b > 0 \<and> bgGreenImage b \<noteq> [] then ret ()
     else
       let revision = (if bgPhase b = PhaseRestoringReadReplicas then bgBlueRevision b else bgGreenRevision b) in
       bnd (attempt (readExecutionStatefulSet env (clName c @ ''-'' @ revision))) (\<lambda>r. case r of
         Inl err \<Rightarrow>
           if is_not_found err \<and> bgPhase b = PhaseDeployingGreen \<and> revision = calculateRevision env c
           then updBG (\<lambda>b. b\<lparr>bgGreenImage := spImage (clSpec c), bgGreenVersion := spVersion (clSpec c),
                              bgGreenReplicas := spReplicas (clSpec c)\<rparr>)
           else failwith (wrapf ''recover Green target'' err)
       | Inr sts \<Rightarrow>
           let image = (case find (\<lambda>k. fst k = ''openbao'') (stContainers sts) of
                  Some k \<Rightarrow> snd k | None \<Rightarrow> bgGreenImage b) in
           bnd (updBG (\<lambda>b. b\<lparr>bgGreenReplicas := (case stSpecReplicas sts of Some n \<Rightarrow> n | None \<Rightarrow> 0),
                             bgGreenImage := image\<rparr>)) (\<lambda>_.
           if image = [] then failwith (errorf ''recover Green target: StatefulSet has no OpenBao image'')
           else bnd (getPodsByRevision env revision) (\<lambda>pods.
             case find (\<lambda>p. lookup_label (pdLabels p) ''openbao-version'' \<noteq> []) pods of
               None \<Rightarrow> ret ()
             | Some p \<Rightarrow> updBG (\<lambda>b. b\<lparr>bgGreenVersion := lookup_label (pdLabels p) ''openbao-version''\<rparr>))))))"

definition ensureExecutionState :: "env \<Rightarrow> unit op" where
  "ensureExecutionState env = bnd (gets cl) (\<lambda>c. case blueGreen c of
      None \<Rightarrow> ret ()
    | Some b \<Rightarrow>
        if bgPhase b = PhaseIdle then ret ()
        else if bgGreenReplicas b > 0 \<and> bgGreenImage b \<noteq> [] \<and> bgBlueReplicas b > 0 then ret ()
        else if bgGreenRevision b = [] \<and> bgPhase b \<noteq> PhaseRestoringReadReplicas then ret ()
        else
          bnd (recoverGreenTarget env) (\<lambda>_.
          bnd (if bgPhase b = PhaseRestoringReadReplicas then updBG PromoteBlueGreenTarget else ret ()) (\<lambda>_.
          withBG (\<lambda>b'.
            if bgBlueReplicas b' > 0 then ret ()
            else bnd (gets cl) (\<lambda>c'.
              bnd (attempt (readExecutionStatefulSet env (StableVoterStatefulSetName (Some c')))) (\<lambda>r. case r of
                Inr sts \<Rightarrow> updBG (\<lambda>b. b\<lparr>bgBlueReplicas := (case stSpecReplicas sts of Some n \<Rightarrow> n | None \<Rightarrow> 0)\<rparr>)
              | Inl err \<Rightarrow>
                  if is_not_found err \<and> isPastPointOfNoReturn (bgPhase b') then ret ()
                  else failwith (wrapf ''recover Blue replica count'' err)))))))"

section \<open>Blue/green status bootstrap (service/workload)\<close>

record revisionCounts =
  rcRev :: string
  rcReady :: nat
  rcTotal :: nat
  rcImage :: string

definition workloadPodReady :: "Pod \<Rightarrow> bool" where
  "workloadPodReady pod = (case find (\<lambda>c. cdType c = ''Ready'') (pdConditions pod) of
      None \<Rightarrow> False | Some c \<Rightarrow> cdStatus c = ''True'')"

definition countPod :: "Pod \<Rightarrow> revisionCounts \<Rightarrow> revisionCounts" where
  "countPod pod k = k\<lparr>rcTotal := Suc (rcTotal k),
     rcReady := (if pdPhase pod = ''Running'' \<and> workloadPodReady pod then Suc (rcReady k) else rcReady k),
     rcImage := (if rcImage k = [] then
        (case find (\<lambda>ct. fst ct = ''openbao'') (pdContainers pod) of Some ct \<Rightarrow> snd ct | None \<Rightarrow> []) else rcImage k)\<rparr>"

fun addPod :: "Pod \<Rightarrow> string \<Rightarrow> revisionCounts list \<Rightarrow> revisionCounts list" where
  "addPod pod r [] = [countPod pod \<lparr> rcRev = r, rcReady = 0, rcTotal = 0, rcImage = [] \<rparr>]"
| "addPod pod r (k # ks) = (if rcRev k = r then countPod pod k # ks else k # addPod pod r ks)"

fun countRevisions :: "Pod list \<Rightarrow> revisionCounts list \<Rightarrow> revisionCounts list" where
  "countRevisions [] acc = acc"
| "countRevisions (pod # pods) acc =
     (let r = lookup_label (pdLabels pod) LabelOpenBaoRevision in
      if omDeletionTimestamp (pdMeta pod) \<noteq> None \<or> r = [] then countRevisions pods acc
      else countRevisions pods (addPod pod r acc))"

text \<open>The sort order of the candidates; the first one after sorting is the one no other precedes.\<close>

definition candidateBefore :: "string \<Rightarrow> string \<Rightarrow> revisionCounts \<Rightarrow> revisionCounts \<Rightarrow> bool" where
  "candidateBefore expected hint a b =
     (let score = (\<lambda>k. if expected \<noteq> [] \<and> rcImage k = expected then 2
                      else if hint \<noteq> [] \<and> rcImage k = hint then 1 else (0::nat))
      in if rcReady a \<noteq> rcReady b then rcReady a > rcReady b
         else if rcTotal a \<noteq> rcTotal b then rcTotal a > rcTotal b
         else if score a \<noteq> score b then score a > score b
         else rcRev a < rcRev b)"

definition firstCandidate :: "string \<Rightarrow> string \<Rightarrow> revisionCounts list \<Rightarrow> revisionCounts option" where
  "firstCandidate expected hint ks = (case ks of [] \<Rightarrow> None
     | k # rest \<Rightarrow> Some (foldl (\<lambda>best x. if candidateBefore expected hint x best then x else best) k rest))"

definition InferActiveRevisionFromPods :: "env \<Rightarrow> (string \<times> string) op" where
  "InferActiveRevisionFromPods env = bnd (gets cl) (\<lambda>c.
     bnd (wrap_err (wrapf ''failed to list pods for revision inference'') (listPods env (Labels c))) (\<lambda>pods.
     let expected = (if ssCurrentVersion (clStatus c) \<noteq> [] \<and> spVersion (clSpec c) \<noteq> []
                        \<and> ssCurrentVersion (clStatus c) \<noteq> spVersion (clSpec c)
                     then eOpenBaoImage env (ssCurrentVersion (clStatus c)) else []);
         hint = (case blueGreen c of None \<Rightarrow> [] | Some b \<Rightarrow> bgBlueImage b)
     in case firstCandidate expected hint (countRevisions pods []) of
          None \<Rightarrow> ret ([], []) | Some k \<Rightarrow> ret (rcRev k, rcImage k)))"

definition resolvedSpecImage :: "env \<Rightarrow> Cluster \<Rightarrow> string" where
  "resolvedSpecImage env c =
     (if trim_space (spImage (clSpec c)) \<noteq> [] then trim_space (spImage (clSpec c))
      else eOpenBaoImage env (spVersion (clSpec c)))"

definition resolveBlueImage :: "env \<Rightarrow> Cluster \<Rightarrow> string \<Rightarrow> string" where
  "resolveBlueImage env c inferredImage =
     (if trim_space inferredImage \<noteq> [] then trim_space inferredImage
      else if ssCurrentVersion (clStatus c) \<noteq> [] \<and> ssCurrentVersion (clStatus c) \<noteq> spVersion (clSpec c)
      then eOpenBaoImage env (ssCurrentVersion (clStatus c))
      else resolvedSpecImage env c)"

definition BlueGreenStableRevision :: "env \<Rightarrow> Cluster \<Rightarrow> string" where
  "BlueGreenStableRevision env c = (case blueGreen c of
      Some b \<Rightarrow> trim_space (bgBlueRevision b)
    | None \<Rightarrow> if EffectiveStrategy (Some c) \<noteq> BlueGreen then []
              else eRevision env (spVersion (clSpec c)) (resolvedSpecImage env c) (spReplicas (clSpec c)))"

definition BlueGreenActiveRevision :: "env \<Rightarrow> Cluster \<Rightarrow> string" where
  "BlueGreenActiveRevision env c = (case blueGreen c of
      Some b \<Rightarrow> if bgPhase b = PhaseCleanup \<and> trim_space (bgGreenRevision b) \<noteq> []
                then trim_space (bgGreenRevision b) else BlueGreenStableRevision env c
    | None \<Rightarrow> BlueGreenStableRevision env c)"

text \<open>The status exists: its Blue population is filled in during an upgrade, its Blue identity in phase Idle.\<close>

definition refreshBlueGreenStatus :: "env \<Rightarrow> Cluster \<Rightarrow> BlueGreenStatus \<Rightarrow> string \<Rightarrow> string \<Rightarrow> unit op" where
  "refreshBlueGreenStatus env c b inferredRevision inferredImage =
     (if bgPhase b \<noteq> PhaseIdle then
        (if bgBlueReplicas b = 0 then
           bnd (attempt (getSts env (if bgBlueRevision b \<noteq> [] then clName c @ ''-'' @ bgBlueRevision b else clName c))) (\<lambda>g.
             case g of
               Inr sts \<Rightarrow> (case stSpecReplicas sts of
                   Some n \<Rightarrow> updBG (\<lambda>b. b\<lparr>bgBlueReplicas := n\<rparr>) | None \<Rightarrow> ret ())
             | Inl _ \<Rightarrow> ret ())
         else ret ())
      else if bgBlueRevision b \<noteq> [] \<and> ssCurrentVersion (clStatus c) = spVersion (clSpec c) then ret ()
      else
        bnd (if inferredRevision \<noteq> [] \<and> inferredRevision \<noteq> bgBlueRevision b
             then updBG (\<lambda>b. b\<lparr>bgBlueRevision := inferredRevision\<rparr>) else ret ()) (\<lambda>_.
        if inferredImage \<noteq> [] \<and> (bgBlueImage b = [] \<or> bgBlueImage b \<noteq> inferredImage)
        then updBG (\<lambda>b. b\<lparr>bgBlueImage := inferredImage\<rparr>)
        else if trim_space (bgBlueImage b) = []
        then updBG (\<lambda>b. b\<lparr>bgBlueImage := resolveBlueImage env c []\<rparr>)
        else ret ()))"

definition EnsureBlueGreenStatus :: "env \<Rightarrow> unit op" where
  "EnsureBlueGreenStatus env = bnd (gets cl) (\<lambda>c.
     if EffectiveStrategy (Some c) \<noteq> BlueGreen then ret ()
     else bnd (attempt (InferActiveRevisionFromPods env)) (\<lambda>r.
       let (rev0, img0) = (case r of Inl _ \<Rightarrow> ([], []) | Inr p \<Rightarrow> p);
           inferredRevision = trim_space rev0; inferredImage = trim_space img0
       in case blueGreen c of
         None \<Rightarrow> updCl (setBlueGreen (Some (emptyBlueGreenStatus\<lparr>bgPhase := PhaseIdle,
             bgBlueRevision := (if inferredRevision = []
               then eRevision env (spVersion (clSpec c)) (resolvedSpecImage env c) (spReplicas (clSpec c))
               else inferredRevision),
             bgBlueImage := resolveBlueImage env c inferredImage\<rparr>)))
       | Some b \<Rightarrow> refreshBlueGreenStatus env c b inferredRevision inferredImage))"

section \<open>The upgrade lock in this world\<close>

definition releaseUpgradeLockIfHeld :: "env \<Rightarrow> unit op" where
  "releaseUpgradeLockIfHeld env = bnd (gets cl) (\<lambda>c.
     bnd (ReleaseUpgradeLockIfHeld (bgLockApi env) audit (Some c)) setCl)"

definition finalizeUpgradeTerminalState :: "env \<Rightarrow> bool \<Rightarrow> unit op" where
  "finalizeUpgradeTerminalState env promoteGreenToBlue =
     bnd (now env) (\<lambda>n. bnd (updCl (FinalizeBlueGreenTerminalState n promoteGreenToBlue)) (\<lambda>_.
       releaseUpgradeLockIfHeld env))"

end
