(* ===== verification/BlueGreen_Hooks.thy ===== *)
theory BlueGreen_Hooks
  imports BlueGreen_Jobs
begin

text \<open>
  The pre-promotion validation hook (\<open>bluegreen/hooks.go\<close>): a user-supplied Job that must succeed before
  Green is promoted.  Its execution is tracked by a receipt in the cluster status with the stages
  Prepared, Committed, Created and TerminalObserved (or Unknown); every stage is persisted before the
  next effect, so that a crash never runs the hook twice for one receipt.
\<close>

section \<open>Normalisation and identity\<close>

record normalizedValidationHook =
  nhImage :: string
  nhCommand :: "string list"
  nhArgs :: "string list"
  nhTimeoutSeconds :: int

definition normalizeValidationHook :: "ValidationHookConfig option \<Rightarrow> go_error + normalizedValidationHook" where
  "normalizeValidationHook hook = (case hook of
      None \<Rightarrow> Inl (errorf ''hook is required'')
    | Some h \<Rightarrow>
        if trim_space (hkImage h) = [] then Inl (errorf ''hook.image is required'')
        else Inr \<lparr> nhImage = trim_space (hkImage h), nhCommand = hkCommand h, nhArgs = hkArgs h,
                   nhTimeoutSeconds = (case hkTimeoutSeconds h of None \<Rightarrow> 300 | Some t \<Rightarrow> t) \<rparr>)"

definition validationHookSpecHash :: "env \<Rightarrow> ValidationHookConfig option \<Rightarrow> go_error + string" where
  "validationHookSpecHash env hook = (case normalizeValidationHook hook of
      Inl e \<Rightarrow> Inl e
    | Inr n \<Rightarrow> (case eJsonHook env (nhImage n) (nhCommand n) (nhArgs n) (nhTimeoutSeconds n) of
         Inl e \<Rightarrow> Inl (wrapf ''failed to encode normalized validation hook'' e)
       | Inr payload \<Rightarrow> Inr (eSha env payload)))"

record hookIdentity =
  hiOperationID :: string
  hiGreenRevision :: string
  hiSpecHash :: string
  hiJobName :: string

definition validationHookIdentity :: "env \<Rightarrow> Cluster \<Rightarrow> ValidationHookConfig option \<Rightarrow> go_error + hookIdentity" where
  "validationHookIdentity env c hook = (case blueGreen c of
      None \<Rightarrow> Inl (errorf ''blue/green status is required'')
    | Some b \<Rightarrow>
        (let operationID = trim_space (bgOperationID b); greenRevision = trim_space (bgGreenRevision b) in
         if operationID = [] then Inl (errorf ''blue/green operation ID is required'')
         else if greenRevision = [] then Inl (errorf ''green revision is required'')
         else case validationHookSpecHash env hook of
             Inl e \<Rightarrow> Inl e
           | Inr specHash \<Rightarrow> Inr \<lparr> hiOperationID = operationID, hiGreenRevision = greenRevision, hiSpecHash = specHash,
               hiJobName = validationHookJobName (eSha env) (clName c) operationID greenRevision specHash \<rparr>))"

definition validationHookStatusMatches :: "BlueGreenValidationHookStatus option \<Rightarrow> hookIdentity \<Rightarrow> bool" where
  "validationHookStatusMatches status i = (case status of None \<Rightarrow> False
     | Some h \<Rightarrow> vhOperationID h = hiOperationID i \<and> vhGreenRevision h = hiGreenRevision i
         \<and> vhSpecHash h = hiSpecHash i \<and> vhJobName h = hiJobName i)"

definition annOperationID :: string where "annOperationID = ''openbao.org/validation-hook-operation-id''"
definition annGreenRevision :: string where "annGreenRevision = ''openbao.org/validation-hook-green-revision''"
definition annSpecHash :: string where "annSpecHash = ''openbao.org/validation-hook-spec-hash''"

definition validationHookJobMatchesReceipt :: "Job \<Rightarrow> BlueGreenValidationHookStatus \<Rightarrow> go_error option" where
  "validationHookJobMatchesReceipt job receipt =
     (let ann = omAnnotations (jbMeta job) in
      if omName (jbMeta job) \<noteq> vhJobName receipt
      then Some (errorf ''validation hook Job name does not match receipt'')
      else if lookup_label ann annOperationID \<noteq> vhOperationID receipt
            \<or> lookup_label ann annGreenRevision \<noteq> vhGreenRevision receipt
            \<or> lookup_label ann annSpecHash \<noteq> vhSpecHash receipt
      then Some (errorf ''validation hook Job identity annotations do not match the persisted receipt'')
      else if vhJobUID receipt \<noteq> [] \<and> omUID (jbMeta job) \<noteq> vhJobUID receipt
      then Some (errorf ''validation hook Job UID does not match receipt UID'')
      else None)"

section \<open>Receipt operations\<close>

definition updHook :: "(BlueGreenValidationHookStatus \<Rightarrow> BlueGreenValidationHookStatus) \<Rightarrow> unit op" where
  "updHook f = updBG (\<lambda>b. b\<lparr>bgValidationHook := map_option f (bgValidationHook b)\<rparr>)"

definition withHook :: "(BlueGreenValidationHookStatus \<Rightarrow> 'a op) \<Rightarrow> 'a op" where
  "withHook k = withBG (\<lambda>b. case bgValidationHook b of
      None \<Rightarrow> failwith (Panic ''status.blueGreen.validationHook'') | Some h \<Rightarrow> k h)"

definition prepareValidationHookExecution :: "env \<Rightarrow> hookIdentity \<Rightarrow> unit op" where
  "prepareValidationHookExecution env i = bnd (now env) (\<lambda>n.
     bnd (updBG (\<lambda>b. b\<lparr>bgValidationHook := Some \<lparr> vhOperationID = hiOperationID i, vhGreenRevision = hiGreenRevision i,
        vhSpecHash = hiSpecHash i, vhStage = StagePrepared, vhJobName = hiJobName i, vhJobUID = [],
        vhPreparedAt = Some n, vhCommittedAt = None, vhCreatedAt = None, vhTerminalResult = OtherResult [],
        vhTerminalObservedAt = None \<rparr>\<rparr>)) (\<lambda>_. persistBlueGreenStatus env))"

definition readValidationHookJob :: "env \<Rightarrow> BlueGreenValidationHookStatus \<Rightarrow> Job op" where
  "readValidationHookJob env receipt =
     bnd (readManagedJob env (vhJobName receipt) ''observe blue-green validation hook'') (\<lambda>job.
       case validationHookJobMatchesReceipt job receipt of Some e \<Rightarrow> failwith e | None \<Rightarrow> ret job)"

text \<open>The parts of the Job specification the model keeps; quantities and platform user IDs are fixed text.\<close>

definition buildValidationHookJob ::
    "env \<Rightarrow> BlueGreenValidationHookStatus \<Rightarrow> ValidationHookConfig option \<Rightarrow> Job op" where
  "buildValidationHookJob env receipt hook = bnd (lift_res (normalizeValidationHook hook)) (\<lambda>n.
     bnd (VerifyOperatorImageDigest env (nhImage n) ''ValidationHookImageVerificationFailed''
            ''Validation hook image verification failed'') (\<lambda>digest.
     bnd (gets cl) (\<lambda>c.
     ret \<lparr> jbMeta = \<lparr> omName = vhJobName receipt, omNamespace = clNamespace c, omUID = [], omResourceVersion = [],
             omGeneration = 0,
             omLabels = Labels c @ [(''openbao.org/component'', ''validation-hook'')] @ eSecurityLabels env c,
             omAnnotations = [(annOperationID, vhOperationID receipt), (annGreenRevision, vhGreenRevision receipt),
                              (annSpecHash, vhSpecHash receipt)],
             omOwnerReferences = [], omCreationTimestamp = 0, omDeletionTimestamp = None \<rparr>,
           jbBackoffLimit = 0, jbActiveDeadlineSeconds = Some (nhTimeoutSeconds n),
           jbImage = (if digest \<noteq> [] then digest else nhImage n), jbCommand = nhCommand n, jbArgs = nhArgs n,
           jbServiceAccountToken = False, jbRunAsNonRoot = True, jbReadOnlyRootFilesystem = True,
           jbConditions = [], jbActive = 0, jbTerminating = None, jbSucceeded = 0, jbFailed = 0, jbStartTime = None, jbCompletionTime = None \<rparr>)))"

definition markValidationHookUnknown :: "env \<Rightarrow> unit op" where
  "markValidationHookUnknown env = withHook (\<lambda>_. bnd (updHook (\<lambda>h. h\<lparr>vhStage := StageUnknown\<rparr>)) (\<lambda>_. persistBlueGreenStatus env))"

definition persistValidationHookCreated :: "env \<Rightarrow> Job \<Rightarrow> unit op" where
  "persistValidationHookCreated env job = withHook (\<lambda>_. bnd (now env) (\<lambda>n.
     bnd (updHook (\<lambda>h. h\<lparr>vhStage := StageCreated, vhJobUID := omUID (jbMeta job), vhCreatedAt := Some n\<rparr>)) (\<lambda>_.
       persistBlueGreenStatus env)))"

definition commitAndCreateValidationHookJob :: "env \<Rightarrow> ValidationHookConfig option \<Rightarrow> JobResult op" where
  "commitAndCreateValidationHookJob env hook = withHook (\<lambda>receipt0.
     bnd (buildValidationHookJob env receipt0 hook) (\<lambda>built.
     bnd (gets cl) (\<lambda>c.
     bnd (wrap_err (wrapf ''failed to prepare validation hook Job ownership'')
            (lift_res (PrepareManagedJobOwner (Some built) (Some (clusterMeta c)) (Some openBaoClusterGVK)))) (\<lambda>job.
     bnd (now env) (\<lambda>n.
     bnd (updHook (\<lambda>h. h\<lparr>vhStage := StageCommitted, vhCommittedAt := Some n\<rparr>)) (\<lambda>_.
     bnd (persistBlueGreenStatus env) (\<lambda>_.
     withHook (\<lambda>receipt.
     bnd (attempt (createJob env job)) (\<lambda>r. case r of
       Inr created \<Rightarrow> bnd (persistValidationHookCreated env created) (\<lambda>_. ret (jobResultFromJob created))
     | Inl err \<Rightarrow>
         bnd (attempt (readValidationHookJob env receipt)) (\<lambda>r'. case r' of
           Inr existing \<Rightarrow> bnd (persistValidationHookCreated env existing) (\<lambda>_. ret (jobResultFromJob existing))
         | Inl readErr \<Rightarrow>
             if \<not> is_not_found readErr
             then failwith (wrapf ''validation hook Job create failed and its outcome could not be observed'' readErr)
             else bnd (wrap_err (wrapf ''validation hook Job create failed and marking the execution Unknown also failed'')
                         (markValidationHookUnknown env)) (\<lambda>_.
                  failwith (wrapf ''validation hook execution is Unknown after its committed Job creation failed'' err))))))))))))"

text \<open>The answer is the Job result and whether the receipt advanced.\<close>

definition observePersistedValidationHook :: "env \<Rightarrow> (JobResult \<times> bool) op" where
  "observePersistedValidationHook env = withHook (\<lambda>receipt.
     bnd (attempt (readValidationHookJob env receipt)) (\<lambda>r. case r of
       Inl err \<Rightarrow>
         if is_not_found err
         then bnd (markValidationHookUnknown env) (\<lambda>_.
              failwith (errorf ''validation hook execution is Unknown because committed Job is missing''))
         else failwith err
     | Inr job \<Rightarrow>
         if vhStage receipt = StageCommitted
         then bnd (persistValidationHookCreated env job) (\<lambda>_. ret (jobResultFromJob job, True))
         else
           let result = jobResultFromJob job in
           if jrRunning result then ret (result, False)
           else bnd (now env) (\<lambda>n.
             bnd (updHook (\<lambda>h. h\<lparr>vhStage := StageTerminalObserved, vhTerminalObservedAt := Some n,
                    vhTerminalResult := (if jrSucceeded result then ResultSucceeded else ResultFailed)\<rparr>)) (\<lambda>_.
             bnd (persistBlueGreenStatus env) (\<lambda>_. ret (result, True))))))"

definition validationHookResultFromReceipt :: "BlueGreenValidationHookStatus option \<Rightarrow> go_error + JobResult" where
  "validationHookResultFromReceipt receipt = (case receipt of
      None \<Rightarrow> Inl (errorf ''terminal validation hook receipt is required'')
    | Some h \<Rightarrow>
        if vhStage h \<noteq> StageTerminalObserved then Inl (errorf ''terminal validation hook receipt is required'')
        else case vhTerminalResult h of
            ResultSucceeded \<Rightarrow> Inr \<lparr> jrName = vhJobName h, jrExists = True, jrSucceeded = True, jrFailed = False, jrRunning = False \<rparr>
          | ResultFailed \<Rightarrow> Inr \<lparr> jrName = vhJobName h, jrExists = True, jrSucceeded = False, jrFailed = True, jrRunning = False \<rparr>
          | OtherResult _ \<Rightarrow> Inl (errorf ''validation hook receipt has invalid terminal result''))"

definition dispatchStage ::
    "env \<Rightarrow> BlueGreenValidationHookStatus \<Rightarrow> ValidationHookConfig option \<Rightarrow> (JobResult option \<times> bool) op" where
  "dispatchStage env receipt hook = (case vhStage receipt of
      StagePrepared \<Rightarrow> bnd (commitAndCreateValidationHookJob env hook) (\<lambda>r. ret (Some r, True))
    | StageCommitted \<Rightarrow> bnd (observePersistedValidationHook env) (\<lambda>(r, adv). ret (Some r, adv))
    | StageCreated \<Rightarrow> bnd (observePersistedValidationHook env) (\<lambda>(r, adv). ret (Some r, adv))
    | StageTerminalObserved \<Rightarrow> bnd (lift_res (validationHookResultFromReceipt (Some receipt))) (\<lambda>r. ret (Some r, False))
    | StageUnknown \<Rightarrow> failwith (errorf ''pre-promotion hook execution is Unknown and will not be recreated automatically'')
    | OtherStage _ \<Rightarrow> failwith (errorf ''pre-promotion hook execution has invalid stage''))"

definition reconcilePrePromotionHookJob :: "env \<Rightarrow> ValidationHookConfig option \<Rightarrow> (JobResult option \<times> bool) op" where
  "reconcilePrePromotionHookJob env hook = bnd (gets cl) (\<lambda>c. case blueGreen c of
      None \<Rightarrow> failwith (errorf ''blue/green status is required'')
    | Some b \<Rightarrow>
      (case bgValidationHook b of
         None \<Rightarrow>
           if hook = None then ret (None, False)
           else if trim_space (bgOperationID b) = []
           then bnd (gets trace) (\<lambda>tr. bnd (updBG (\<lambda>b. b\<lparr>bgOperationID := eUUID env tr\<rparr>)) (\<lambda>_.
                bnd (persistBlueGreenStatus env) (\<lambda>_. ret (None, True))))
           else bnd (lift_res (validationHookIdentity env c hook)) (\<lambda>i.
                bnd (prepareValidationHookExecution env i) (\<lambda>_. ret (None, True)))
       | Some receipt \<Rightarrow>
           (case hook of
              Some _ \<Rightarrow> bnd (lift_res (validationHookIdentity env c hook)) (\<lambda>i.
                if \<not> validationHookStatusMatches (Some receipt) i
                then (if vhStage receipt = StagePrepared
                      then bnd (prepareValidationHookExecution env i) (\<lambda>_. ret (None, True))
                      else failwith (errorf ''pre-promotion hook specification changed after execution was committed''))
                else dispatchStage env receipt hook)
            | None \<Rightarrow>
                if vhStage receipt = StagePrepared
                then failwith (errorf ''pre-promotion hook was removed after execution was prepared'')
                else dispatchStage env receipt hook)))"

section \<open>Receipts outside the Syncing phase\<close>

definition deleteTerminalValidationHookJob :: "env \<Rightarrow> BlueGreenValidationHookStatus \<Rightarrow> unit op" where
  "deleteTerminalValidationHookJob env receipt =
     bnd (attempt (readValidationHookJob env receipt)) (\<lambda>r. case r of
       Inl err \<Rightarrow> if is_not_found err then ret () else failwith err
     | Inr job \<Rightarrow> bnd (attempt (deleteJob env job)) (\<lambda>d. case d of
         Inr _ \<Rightarrow> ret ()
       | Inl err \<Rightarrow> if is_not_found err then ret ()
                    else failwith (wrapf ''failed to delete terminal validation hook Job'' err)))"

definition clearHookReceipt :: "BlueGreenPhase \<Rightarrow> BlueGreenStatus \<Rightarrow> BlueGreenStatus" where
  "clearHookReceipt phase b =
     (let b = b\<lparr>bgValidationHook := None\<rparr> in if phase = PhaseIdle then b\<lparr>bgOperationID := []\<rparr> else b)"

text \<open>\<open>Some after\<close> says that the pass ends here with this requeue delay.\<close>

definition reconcileValidationHookOutsideSyncing :: "env \<Rightarrow> int option op" where
  "reconcileValidationHookOutsideSyncing env = bnd (gets cl) (\<lambda>c. case blueGreen c of
      None \<Rightarrow> ret None
    | Some b \<Rightarrow>
      (case bgValidationHook b of
         None \<Rightarrow> ret None
       | Some receipt \<Rightarrow>
           if bgPhase b = PhaseSyncing then ret None
           else (case vhStage receipt of
               StagePrepared \<Rightarrow>
                 if bgPhase b \<noteq> PhaseIdle \<and> bgPhase b \<noteq> PhaseRollingBack \<and> bgPhase b \<noteq> PhaseRollbackCleanup
                 then failwith (errorf ''validation hook execution was not committed before phase'')
                 else bnd (updBG (clearHookReceipt (bgPhase b))) (\<lambda>_.
                      bnd (persistBlueGreenStatus env) (\<lambda>_. ret (Some requeueShort)))
             | StageCommitted \<Rightarrow> bnd (observePersistedValidationHook env) (\<lambda>_. ret (Some requeueShort))
             | StageCreated \<Rightarrow> bnd (observePersistedValidationHook env) (\<lambda>_. ret (Some requeueShort))
             | StageTerminalObserved \<Rightarrow>
                 bnd (deleteTerminalValidationHookJob env receipt) (\<lambda>_.
                 bnd (updBG (clearHookReceipt (bgPhase b))) (\<lambda>_.
                 bnd (persistBlueGreenStatus env) (\<lambda>_. ret (Some requeueShort))))
             | StageUnknown \<Rightarrow> failwith (errorf ''pre-promotion hook execution is Unknown and will not be recreated automatically'')
             | OtherStage _ \<Rightarrow> failwith (errorf ''pre-promotion hook execution has invalid stage''))))"

end
