(* ===== verification/BlueGreen_Phases.thy ===== *)
theory BlueGreen_Phases
  imports BlueGreen_Hooks
begin

text \<open>
  The handlers of the blue/green phases (\<open>manager_phase_startup.go\<close>, \<open>manager_phase_cutover.go\<close>,
  \<open>syncing.go\<close>, \<open>deploying_green.go\<close>, \<open>cutover_cleanup.go\<close>, \<open>rollback_workflow.go\<close>,
  \<open>rollback_cleanup.go\<close>, \<open>read_replica_restore.go\<close>, \<open>lifecycle.go\<close>, \<open>job_helpers.go\<close>, \<open>break_glass.go\<close>).
  A guard that may end the handler answers \<open>Some outcome\<close> to stop and \<open>None\<close> to go on.
\<close>

abbreviation waitShort :: "phaseOutcome option" where
  "waitShort \<equiv> Some (requeueAfterOutcome requeueShort)"

section \<open>Executor steps (job\_helpers.go)\<close>

text \<open>\<open>None\<close>: the step is completed.\<close>

definition runExecutorJobStep :: "env \<Rightarrow> ExecutorAction \<Rightarrow> string \<Rightarrow> phaseOutcome option op" where
  "runExecutorJobStep env action abortMessage = bnd (gets cl) (\<lambda>c. case blueGreen c of
      None \<Rightarrow> failwith (errorf ''blue/green status is nil'')
    | Some b \<Rightarrow>
        bnd (lift_res (autoRollbackSettings c)) (\<lambda>autoRollback.
        bnd (EnsureExecutorJob env action
               (operationScopedRunID (bgOperationID b) (executorRunID autoRollback (bgJobFailureCount b)))
               (bgBlueRevision b) (bgGreenRevision b)) (\<lambda>result.
        bnd (lift_res (getMaxJobFailures c)) (\<lambda>maxFailures.
        bnd (lift_res (executorJobDecision autoRollback (bgJobFailureCount b) maxFailures (Some result) abortMessage)) (\<lambda>d.
          if edCompleted d
          then bnd (updBG (\<lambda>b. b\<lparr>bgJobFailureCount := 0, bgLastJobFailure := []\<rparr>)) (\<lambda>_. ret None)
          else if edJobFailed d
          then bnd (updBG (\<lambda>b. b\<lparr>bgLastJobFailure := edLastJobFailure d, bgJobFailureCount := edNextFailureCount d\<rparr>)) (\<lambda>_.
               ret (Some (edOutcome d)))
          else ret (Some (edOutcome d)))))))"

section \<open>Starting an upgrade (lifecycle.go)\<close>

definition recordBlueGreenUpgradeStart :: "env \<Rightarrow> unit op" where
  "recordBlueGreenUpgradeStart env = bnd (gets cl) (\<lambda>c.
     bnd (if BlueGreenStartEventPending (Some c)
          then emitNormalEvent ''UpgradeStarted'' (''Blue/green upgrade started from '' @ ssCurrentVersion (clStatus c)
                 @ '' to '' @ spVersion (clSpec c))
          else ret ()) (\<lambda>_.
     bnd (audit ''UpgradeStarted'' (UpgradeStartedAuditFields (Some c) ''BlueGreen''
            (ssCurrentVersion (clStatus c)) (spVersion (clSpec c)))) (\<lambda>_.
     bnd (updCl InitializeBlueGreenManualPromotion) (\<lambda>_.
     bnd (gets trace) (\<lambda>tr.
       updBG (\<lambda>b. if bgOperationID b = [] then b\<lparr>bgOperationID := ''bg-v2-'' @ eUUID env tr\<rparr> else b))))))"

definition blueGreenPreUpgradeSnapshotEnabled :: "UpgradeConfig \<Rightarrow> bool" where
  "blueGreenPreUpgradeSnapshotEnabled u \<longleftrightarrow> ucPreUpgradeSnapshot u
     \<or> (case ucBlueGreen u of None \<Rightarrow> False | Some g \<Rightarrow> bcPreUpgradeSnapshot g)"

definition ensureBlueGreenPreUpgradeSnapshotComplete :: "env \<Rightarrow> phaseOutcome option op" where
  "ensureBlueGreenPreUpgradeSnapshotComplete env = withUpgrade (\<lambda>u.
     if \<not> blueGreenPreUpgradeSnapshotEnabled u then ret None
     else bnd (gets cl) (\<lambda>c. case blueGreen c of
        None \<Rightarrow> failwith (errorf ''blue/green status is nil'')
      | Some b \<Rightarrow>
          let jobName = preUpgradeSnapshotJobName (eSha env) (Some c) in
          if bgPreUpgradeSnapshotJobName b \<noteq> jobName
          then bnd (ensurePreUpgradeSnapshotJob env jobName) (\<lambda>_.
               bnd (updBG (\<lambda>b. b\<lparr>bgPreUpgradeSnapshotJobName := jobName\<rparr>)) (\<lambda>_.
               bnd (emitNormalEvent ''PreUpgradeSnapshotJobCreated'' (''Created pre-upgrade snapshot Job '' @ jobName)) (\<lambda>_.
               ret waitShort)))
          else bnd (wrap_err (wrapf ''failed to check pre-upgrade snapshot job status'') (getJobStatus env jobName)) (\<lambda>js.
               bnd (ReconcileExistingJob (JobStateFromResult (Some js))
                      (Some (bnd (emitWarningEvent ''PreUpgradeSnapshotFailed'' (''Pre-upgrade snapshot Job '' @ jobName @ '' failed''))
                               (\<lambda>_. failwith (errorf (''pre-upgrade snapshot job failed: '' @ jobName)))))
                      (Some (bnd (emitNormalEvent ''PreUpgradeSnapshotCompleted'' (''Pre-upgrade snapshot completed successfully with Job '' @ jobName))
                               (\<lambda>_. ret True)))) (\<lambda>complete.
               if \<not> complete then ret waitShort else ret None))))"

definition handlePhaseIdle :: "env \<Rightarrow> phaseOutcome op" where
  "handlePhaseIdle env = bnd (recordBlueGreenUpgradeStart env) (\<lambda>_.
     unless_done (ensureBlueGreenPreUpgradeSnapshotComplete env)
       (bnd (gets cl) (\<lambda>c.
        bnd (wrap_err (wrapf ''capture Blue replica count'')
               (readExecutionStatefulSet env (StableVoterStatefulSetName (Some c)))) (\<lambda>sts.
        let n = (case stSpecReplicas sts of Some n \<Rightarrow> n | None \<Rightarrow> 0) in
        if n \<noteq> spReplicas (clSpec c) then ret (requeueAfterOutcome requeueShort)
        else withBG (\<lambda>_.
          bnd (updBG (\<lambda>b. (CaptureBlueGreenTarget (clSpec c) b)\<lparr>bgBlueReplicas := n,
                 bgGreenRevision := calculateRevision env c\<rparr>)) (\<lambda>_.
          ret (advance PhaseDeployingGreen)))))))"

section \<open>Deploying Green\<close>

definition bluePodsHaveExpectedRevision :: "Pod list \<Rightarrow> string \<Rightarrow> bool" where
  "bluePodsHaveExpectedRevision bluePods blueRevision \<longleftrightarrow>
     list_all (\<lambda>pod. (blueRevision = [] \<and> lookup_label (pdLabels pod) LabelOpenBaoRevision = [])
        \<or> map_of (pdLabels pod) LabelOpenBaoRevision = Some blueRevision) bluePods"

definition unsealedPod :: "Pod \<Rightarrow> bool" where
  "unsealedPod pod = (case ParseBoolLabel (pdLabels pod) ''openbao-sealed'' of
      Inl _ \<Rightarrow> False | Inr (sealed, present) \<Rightarrow> present \<and> \<not> sealed)"

definition blueClusterReadyForGreen :: "Pod list \<Rightarrow> bool" where
  "blueClusterReadyForGreen bluePods \<longleftrightarrow> list_ex (\<lambda>pod. isPodReady pod \<and> unsealedPod pod) bluePods"

definition ensureBlueClusterReadyForGreen :: "env \<Rightarrow> string \<Rightarrow> phaseOutcome option op" where
  "ensureBlueClusterReadyForGreen env blueRevision =
     bnd (wrap_err (wrapf ''failed to get Blue pods'') (getPodsByRevision env blueRevision)) (\<lambda>bluePods.
       if bluePods = [] then ret waitShort
       else if \<not> bluePodsHaveExpectedRevision bluePods blueRevision then ret waitShort
       else if \<not> blueClusterReadyForGreen bluePods then ret waitShort
       else ret None)"

definition greenStatefulSetReady :: "int \<Rightarrow> StatefulSet \<Rightarrow> bool" where
  "greenStatefulSetReady desired0 sts =
     (let desired = (case stSpecReplicas sts of Some n \<Rightarrow> n | None \<Rightarrow> desired0) in \<not> stReadyReplicas sts < desired)"

fun joinStrings :: "string \<Rightarrow> string list \<Rightarrow> string" where
  "joinStrings sep [] = []"
| "joinStrings sep [x] = x"
| "joinStrings sep (x # xs) = x @ sep @ joinStrings sep xs"

definition blueRetryJoinLabelSelector :: "Cluster \<Rightarrow> string \<Rightarrow> string" where
  "blueRetryJoinLabelSelector c blueRevision =
     (if trim_space blueRevision \<noteq> [] then []
      else case blueGreen c of
          None \<Rightarrow> []
        | Some b \<Rightarrow>
            (let ctrl = trim_space (bgBlueControllerRevision b) in
             if ctrl = [] then []
             else joinStrings '','' (sort (map (\<lambda>(k, v). k @ ''='' @ v)
                    (VoterPodSelectorLabelsWithRevision c [] @ [(''controller-revision-hash'', ctrl)])))))"

definition greenRenderOptions :: "Cluster \<Rightarrow> string \<Rightarrow> RenderOptions" where
  "greenRenderOptions c blueRevision = \<lparr> roTargetRevisionForJoin = blueRevision,
     roRetryJoinLabelSelector = blueRetryJoinLabelSelector c blueRevision, roRetryJoinAsNonVoter = True \<rparr>"

definition prepareGreenStatefulSetImages :: "env \<Rightarrow> (string \<times> string) op" where
  "prepareGreenStatefulSetImages env = bnd (gets cl) (\<lambda>c.
     bnd (verifyImageDigest env (spImage (clSpec c)) ''BlueGreenImageVerificationFailed'' ''Green image verification failed'') (\<lambda>gd.
     bnd (wrap_err (wrapf ''failed to resolve Green init container image'') (lift_res (resolveInitContainerImage env c))) (\<lambda>init.
     bnd (VerifyOperatorImageDigest env init ''InitContainerImageVerificationFailed''
            ''Green init container image verification failed'') (\<lambda>idg.
     ret (if gd \<noteq> [] then gd else spImage (clSpec c), if idg \<noteq> [] then idg else init)))))"

definition createGreenStatefulSet :: "env \<Rightarrow> string \<Rightarrow> string \<Rightarrow> phaseOutcome op" where
  "createGreenStatefulSet env blueRevision greenRevision =
     (if \<not> eHasWorkloadRuntime env then failwith (errorf ''workload runtime is not configured'')
      else bnd (gets cl) (\<lambda>c.
        bnd (wrap_err (wrapf ''failed to render config for Green cluster'')
               (lift_res (eRenderConfig env c (greenRenderOptions c blueRevision)))) (\<lambda>config.
        bnd (prepareGreenStatefulSetImages env) (\<lambda>(greenImage, initImage).
        bnd (wrap_err (wrapf ''failed to create Green StatefulSet'')
               (callU (\<lambda>tr. eEnsureGreenSts env tr c config greenImage initImage greenRevision) (EnsureGreenStsE greenRevision))) (\<lambda>_.
        ret (requeueAfterOutcome requeueShort))))))"

definition getGreenStatefulSet :: "env \<Rightarrow> string \<Rightarrow> StatefulSet option op" where
  "getGreenStatefulSet env greenRevision = bnd (gets cl) (\<lambda>c.
     bnd (attempt (getSts env (clName c @ ''-'' @ greenRevision))) (\<lambda>r. case r of
       Inr sts \<Rightarrow> ret (Some sts)
     | Inl err \<Rightarrow> if is_not_found err then ret None else failwith (wrapf ''failed to get Green StatefulSet'' err)))"

text \<open>The loop over the sealed labels stops at the first pod that is not proved unsealed.\<close>

fun greenPodsUnsealed :: "Pod list \<Rightarrow> go_error + bool" where
  "greenPodsUnsealed [] = Inr True"
| "greenPodsUnsealed (pod # pods) = (case ParseBoolLabel (pdLabels pod) ''openbao-sealed'' of
      Inl e \<Rightarrow> Inl (wrapf (''failed to parse sealed label on pod '' @ pdName pod) e)
    | Inr (sealed, present) \<Rightarrow> if present \<and> \<not> sealed then greenPodsUnsealed pods else Inr False)"

definition waitForGreenPodsReady :: "env \<Rightarrow> string \<Rightarrow> phaseOutcome option op" where
  "waitForGreenPodsReady env greenRevision =
     bnd (wrap_err (wrapf ''failed to get Green pods'') (getPodsByRevision env greenRevision)) (\<lambda>pods.
       if list_ex (\<lambda>p. pdPhase p \<noteq> ''Running'') pods then ret waitShort
       else bnd (lift_res (greenPodsUnsealed pods)) (\<lambda>ok. if ok then ret None else ret waitShort))"

definition ensureGreenStatefulSetReady :: "env \<Rightarrow> string \<Rightarrow> string \<Rightarrow> phaseOutcome option op" where
  "ensureGreenStatefulSetReady env blueRevision greenRevision = bnd (gets cl) (\<lambda>c.
     bnd (getGreenStatefulSet env greenRevision) (\<lambda>found. case found of
       None \<Rightarrow> bnd (createGreenStatefulSet env blueRevision greenRevision) (\<lambda>out. ret (Some out))
     | Some sts \<Rightarrow>
         if \<not> greenStatefulSetReady (spReplicas (clSpec c)) sts then ret waitShort
         else waitForGreenPodsReady env greenRevision))"

definition handlePhaseDeployingGreen :: "env \<Rightarrow> phaseOutcome op" where
  "handlePhaseDeployingGreen env = withBG (\<lambda>b.
     unless_done (ensureBlueClusterReadyForGreen env (bgBlueRevision b))
     (unless_done (ensureGreenStatefulSetReady env (bgBlueRevision b) (bgGreenRevision b))
       (ret (advance PhaseJoiningMesh))))"

section \<open>Joining and syncing\<close>

definition bgStatusRequired :: "'a op \<Rightarrow> 'a op" where
  "bgStatusRequired k = bnd (gets (\<lambda>s. blueGreen (cl s))) (\<lambda>b. case b of
      None \<Rightarrow> failwith (errorf ''blue/green status is nil'') | Some _ \<Rightarrow> k)"

definition handlePhaseJoiningMesh :: "env \<Rightarrow> phaseOutcome op" where
  "handlePhaseJoiningMesh env = bgStatusRequired
     (unless_done (runExecutorJobStep env ActionJoinGreenNonVoters ''job failure threshold exceeded'')
       (ret (advance PhaseSyncing)))"

definition ensureMinimumSyncDuration :: "env \<Rightarrow> phaseOutcome option op" where
  "ensureMinimumSyncDuration env = withUpgrade (\<lambda>u.
     let minSync = (case ucBlueGreen u of None \<Rightarrow> [] | Some g \<Rightarrow>
            (case bcVerification g of None \<Rightarrow> [] | Some v \<Rightarrow> vcMinSyncDuration v)) in
     if minSync = [] then ret None
     else withBG (\<lambda>b. case bgStartTime b of
         None \<Rightarrow> failwith (errorf ''StartTime is nil in Syncing phase'')
       | Some start \<Rightarrow>
           bnd (wrap_err (wrapf ''invalid MinSyncDuration'') (lift_res (eParseDuration env minSync))) (\<lambda>minDuration.
           bnd (now env) (\<lambda>n.
             if n - start \<ge> minDuration then ret None
             else ret (Some (requeueAfterOutcome (minDuration - (n - start))))))))"

definition prePromotionHook :: "UpgradeConfig \<Rightarrow> ValidationHookConfig option" where
  "prePromotionHook u = (case ucBlueGreen u of None \<Rightarrow> None
     | Some g \<Rightarrow> (case bcVerification g of None \<Rightarrow> None | Some v \<Rightarrow> vcPrePromotionHook v))"

definition ensurePrePromotionHookComplete :: "env \<Rightarrow> phaseOutcome option op" where
  "ensurePrePromotionHookComplete env = bnd (gets cl) (\<lambda>c. case blueGreen c of
      None \<Rightarrow> failwith (errorf ''blue/green status is required'')
    | Some b \<Rightarrow> withUpgrade (\<lambda>u.
        let hook = prePromotionHook u in
        if hook = None \<and> bgValidationHook b = None then ret None
        else bnd (wrap_err (wrapf ''failed to reconcile pre-promotion hook Job'') (reconcilePrePromotionHookJob env hook)) (\<lambda>(res, advanced).
          case (advanced, res) of
            (False, Some hookResult) \<Rightarrow>
              bnd (gets cl) (\<lambda>c'.
              bnd (lift_res (autoRollbackSettings c')) (\<lambda>ar.
              bnd (lift_res (prePromotionHookDecision ar (Some hookResult) ''pre-promotion hook failed'')) (\<lambda>d. ret d)))
          | _ \<Rightarrow> ret waitShort)))"

definition decideSyncPromotion :: "phaseOutcome op" where
  "decideSyncPromotion = withBG (\<lambda>b. bnd (gets cl) (\<lambda>c.
     if \<not> bgManualPromotionRequired b
     then bnd (emitNormalEvent ''BlueGreenPromotionApproved'' (''Promotion approved for Green revision '' @ bgGreenRevision b)) (\<lambda>_.
          ret (advance PhasePromoting))
     else if PromoteRequestPending (Some c)
     then bnd (emitNormalEvent ''BlueGreenPromotionApproved'' (''Promotion approved for Green revision '' @ bgGreenRevision b)) (\<lambda>_.
          ret ((advance PhasePromoting)\<lparr>poAcks := noAcks\<lparr>akPromote := PromoteRequestValue (Some c)\<rparr>\<rparr>))
     else bnd (emitNormalEvent ''BlueGreenHoldEntered''
            (''Blue/green upgrade is waiting for promotion approval for target version '' @ spVersion (clSpec c))) (\<lambda>_.
          ret hold)))"

definition handlePhaseSyncing :: "env \<Rightarrow> phaseOutcome op" where
  "handlePhaseSyncing env = bgStatusRequired
     (unless_done (ensureMinimumSyncDuration env)
     (unless_done (runExecutorJobStep env ActionWaitGreenSynced ''job failure threshold exceeded'')
     (unless_done (ensurePrePromotionHookComplete env)
       decideSyncPromotion)))"

section \<open>Cutover\<close>

definition handlePhasePromoting :: "env \<Rightarrow> phaseOutcome op" where
  "handlePhasePromoting env = bgStatusRequired
     (unless_done (runExecutorJobStep env ActionPromoteGreenVoters ''promotion job failure threshold exceeded'')
       (ret (advance PhaseDemotingBlue)))"

definition markBlueGreenStepDown :: "env \<Rightarrow> unit op" where
  "markBlueGreenStepDown env = bnd (now env) (\<lambda>n. bnd (gets (\<lambda>s. s)) (\<lambda>s.
     case MarkUpgradeMetricsStepDownCounted (UpgradeMetricsSessionKey (clNamespace (cl s)) (clName (cl s))) n (sess s) of
       ((_, counted), m) \<Rightarrow>
         bnd (modify (\<lambda>s. s\<lparr>sess := m\<rparr>)) (\<lambda>_. if counted then emit (StepDownMetricE True) else ret ())))"

text \<open>\<open>False\<close>: the preconditions do not hold yet.\<close>

definition ensureGreenReadyForBlueDemotion :: "env \<Rightarrow> bool op" where
  "ensureGreenReadyForBlueDemotion env = withBG (\<lambda>b.
     if bgGreenRevision b = [] then failwith (errorf ''green revision is empty in DemotingBlue phase'')
     else bnd (wrap_err (wrapf ''failed to get Green pods'') (getPodsByRevision env (bgGreenRevision b))) (\<lambda>pods.
          bnd (lift_res (podSnapshotsFromPods pods)) (\<lambda>snaps.
          bnd (gets cl) (\<lambda>c. ret (demotionPreconditionsSatisfied snaps (BlueGreenTargetReplicas c))))))"

definition waitForGreenLeaderAfterBlueDemotion :: "env \<Rightarrow> phaseOutcome option op" where
  "waitForGreenLeaderAfterBlueDemotion env = withBG (\<lambda>b.
     bnd (wrap_err (wrapf ''failed to get Green pods after demotion'') (getPodsByRevision env (bgGreenRevision b))) (\<lambda>pods.
     bnd (findLeaderPod env pods) (\<lambda>l. if l = None then ret waitShort else ret None)))"

definition handlePhaseDemotingBlue :: "env \<Rightarrow> phaseOutcome op" where
  "handlePhaseDemotingBlue env = bgStatusRequired
     (bnd (markBlueGreenStepDown env) (\<lambda>_.
      bnd (ensureGreenReadyForBlueDemotion env) (\<lambda>ready.
      if \<not> ready then ret (requeueAfterOutcome requeueShort)
      else withBG (\<lambda>b0.
        bnd (runExecutorJobStep env ActionDemoteBlueNonVotersStepDown ''demotion job failure threshold exceeded'') (\<lambda>step.
          case step of
            Some out \<Rightarrow> withBG (\<lambda>b1.
              bnd (if bgLastJobFailure b1 \<noteq> [] \<and> bgLastJobFailure b1 \<noteq> bgLastJobFailure b0
                   then emit (StepDownMetricE False) else ret ()) (\<lambda>_. ret out))
          | None \<Rightarrow> unless_done (waitForGreenLeaderAfterBlueDemotion env) (ret (advance PhaseCleanup)))))))"

section \<open>Cleanup\<close>

definition ensureGreenReadyForBlueCleanup :: "env \<Rightarrow> phaseOutcome option op" where
  "ensureGreenReadyForBlueCleanup env = withBG (\<lambda>b.
     if bgGreenRevision b = [] then failwith (errorf ''green revision is empty in Cleanup phase'')
     else bnd (wrap_err (wrapf ''failed to get Green pods'') (getPodsByRevision env (bgGreenRevision b))) (\<lambda>pods.
          bnd (lift_res (podSnapshotsFromPods pods)) (\<lambda>snaps.
          bnd (if leaderObserved snaps then ret True
               else bnd (findLeaderPod env pods) (\<lambda>l. ret (l \<noteq> None))) (\<lambda>leaderOK.
          bnd (gets cl) (\<lambda>c.
            if cleanupPreconditionsSatisfied snaps (BlueGreenTargetReplicas c) leaderOK then ret None else ret waitShort)))))"

definition ensureBlueStatefulSetDeleted :: "env \<Rightarrow> phaseOutcome option op" where
  "ensureBlueStatefulSetDeleted env = withBG (\<lambda>b. bnd (gets cl) (\<lambda>c.
     bnd (attempt (getSts env (StableVoterStatefulSetName (Some c)))) (\<lambda>r. case r of
       Inl err \<Rightarrow> if is_not_found err then ret None else failwith (wrapf ''failed to get Blue StatefulSet'' err)
     | Inr sts \<Rightarrow> bnd (wrap_err (wrapf ''failed to delete Blue StatefulSet'') (deleteSts env sts None)) (\<lambda>_. ret waitShort))))"

definition ensureBluePodsTerminated :: "env \<Rightarrow> phaseOutcome option op" where
  "ensureBluePodsTerminated env = withBG (\<lambda>b.
     bnd (wrap_err (wrapf ''failed to check Blue pods'') (getPodsByRevision env (bgBlueRevision b))) (\<lambda>pods.
       if countActivePods pods > 0 then ret waitShort else ret None))"

definition shouldRestoreSteadyReadReplicas :: "Cluster \<Rightarrow> bool" where
  "shouldRestoreSteadyReadReplicas c = (case spReadReplicas (clSpec c) of None \<Rightarrow> False | Some n \<Rightarrow> n > 0)"

definition maybeResetBlueGreenRollbackState :: "BlueGreenStatus \<Rightarrow> BlueGreenStatus" where
  "maybeResetBlueGreenRollbackState b =
     (if bgRollbackStartTime b = None then b
      else b\<lparr>bgRollbackReason := [], bgRollbackStartTime := None, bgRollbackAttempt := 0\<rparr>)"

definition beginSteadyReadReplicaRestore :: "BlueGreenStatus \<Rightarrow> BlueGreenStatus" where
  "beginSteadyReadReplicaRestore b0 =
     (let b = (if bgGreenRevision b0 \<noteq> [] then b0\<lparr>bgBlueRevision := bgGreenRevision b0, bgBlueControllerRevision := []\<rparr> else b0);
          b = (PromoteBlueGreenTarget b)\<lparr>bgGreenRevision := [], bgManualPromotionRequired := False\<rparr>
      in maybeResetBlueGreenRollbackState b)"

definition finalizeCompletedBlueGreenUpgrade :: "env \<Rightarrow> bool \<Rightarrow> phaseOutcome op" where
  "finalizeCompletedBlueGreenUpgrade env promoteGreenToBlue = withBG (\<lambda>b.
     bnd (finalizeUpgradeTerminalState env promoteGreenToBlue) (\<lambda>_.
     bnd (gets cl) (\<lambda>c.
     bnd (audit ''UpgradeCompleted'' (UpgradeCompletedAuditFields (Some c) ''BlueGreen'' (bgGreenVersion b))) (\<lambda>_.
     bnd (emitNormalEvent ''UpgradeComplete'' (''Blue/green upgrade completed for target version '' @ bgGreenVersion b)) (\<lambda>_.
     ret (requeueAfterOutcome requeueShort))))))"

definition completeBlueGreenUpgrade :: "env \<Rightarrow> phaseOutcome op" where
  "completeBlueGreenUpgrade env = bnd (gets cl) (\<lambda>c.
     if shouldRestoreSteadyReadReplicas c
     then bnd (updBG beginSteadyReadReplicaRestore) (\<lambda>_. ret (advance PhaseRestoringReadReplicas))
     else finalizeCompletedBlueGreenUpgrade env True)"

definition handlePhaseCleanup :: "env \<Rightarrow> phaseOutcome op" where
  "handlePhaseCleanup env = bgStatusRequired
     (unless_done (ensureGreenReadyForBlueCleanup env)
     (unless_done (runExecutorJobStep env ActionRemoveBluePeers ''cleanup peer removal job failure threshold exceeded'')
     (unless_done (ensureBlueStatefulSetDeleted env)
     (unless_done (ensureBluePodsTerminated env)
       (completeBlueGreenUpgrade env)))))"

section \<open>Restoring read replicas\<close>

definition conditionTrue :: "Cluster \<Rightarrow> string \<Rightarrow> bool" where
  "conditionTrue c t = (case findStatusCondition (ssConditions (clStatus c)) t of
      None \<Rightarrow> False | Some k \<Rightarrow> cdStatus k = ''True'')"

definition readReplicaRestoreComplete :: "Cluster \<Rightarrow> bool" where
  "readReplicaRestoreComplete c =
     (if \<not> shouldRestoreSteadyReadReplicas c then True
      else case (ssReadReplicas (clStatus c), spReadReplicas (clSpec c)) of
          (Some rr, Some desired) \<Rightarrow>
            (if rrReadyReplicas rr \<noteq> desired \<or> rrRegisteredReplicas rr \<noteq> desired then False
             else conditionTrue c ''ReadReplicasReady'' \<and> conditionTrue c ''ReadServingAvailable''
               \<and> conditionTrue c ''RaftMembershipReady'')
        | _ \<Rightarrow> False)"

definition handlePhaseRestoringReadReplicas :: "env \<Rightarrow> phaseOutcome op" where
  "handlePhaseRestoringReadReplicas env = bnd (gets cl) (\<lambda>c.
     if blueGreen c = None then ret zeroOutcome
     else if \<not> shouldRestoreSteadyReadReplicas c then finalizeCompletedBlueGreenUpgrade env False
     else if \<not> readReplicaRestoreComplete c then ret (requeueAfterOutcome requeueShort)
     else finalizeCompletedBlueGreenUpgrade env False)"

end
