(* ===== verification/BlueGreen_Rollback.thy ===== *)
theory BlueGreen_Rollback
  imports BlueGreen_Phases
begin

text \<open>
  Unwinding a blue/green upgrade: break-glass mode (\<open>bluegreen/break_glass.go\<close>), the two rollback phases
  (\<open>rollback_workflow.go\<close>), the retirement of the discarded Green data (\<open>rollback_cleanup.go\<close>), the
  decision between abort, rollback and refusal (\<open>rollback_control.go\<close>, \<open>lifecycle.go\<close>) and the drain of the
  steady read replicas (\<open>read_replicas.go\<close>).
\<close>

text \<open>A \<open>recon.Result\<close> is its requeue delay; 0 asks for no requeue.\<close>

type_synonym Result = int

section \<open>Break glass\<close>

definition breakGlassReasonString :: "BreakGlassReason \<Rightarrow> string" where
  "breakGlassReasonString r = (case r of
      RollbackConsensusRepairFailed \<Rightarrow> ''RollbackConsensusRepairFailed''
    | RollbackCleanupPeerRemovalFailed \<Rightarrow> ''RollbackCleanupPeerRemovalFailed''
    | OtherBreakGlassReason s \<Rightarrow> s)"

definition shouldHaltForBreakGlass :: "Cluster \<Rightarrow> bool" where
  "shouldHaltForBreakGlass c = (case ssBreakGlass (clStatus c) of
      None \<Rightarrow> False
    | Some g \<Rightarrow> if \<not> gkActive g then False else spBreakGlassAck (clSpec c) \<noteq> gkNonce g)"

text \<open>\<open>Some after\<close>: the pass ends here.\<close>

definition handleBreakGlassAck :: "env \<Rightarrow> Result option op" where
  "handleBreakGlassAck env = bnd (gets cl) (\<lambda>c. case ssBreakGlass (clStatus c) of
      None \<Rightarrow> ret None
    | Some g \<Rightarrow>
        if \<not> gkActive g then ret None
        else if gkNonce g = [] \<or> spBreakGlassAck (clSpec c) \<noteq> gkNonce g then ret (Some 0)
        else bnd (now env) (\<lambda>n.
          bnd (updCl (setBreakGlass (Some (g\<lparr>gkActive := False, gkAcknowledgedAt := Some n\<rparr>)))) (\<lambda>_.
          bnd (audit ''BreakGlassAcknowledged''
                 (clusterAuditFields c @ [(''reason'', breakGlassReasonString (gkReason g))])) (\<lambda>_.
          bnd (emitNormalEvent ''BreakGlassAcknowledged''
                 (''Break glass acknowledged for reason '' @ breakGlassReasonString (gkReason g))) (\<lambda>_.
          bnd (gets (\<lambda>s. shouldResumeBlueGreenRollbackAfterBreakGlassAck (cl s))) (\<lambda>resume.
          bnd (if resume
               then updBG (\<lambda>b. b\<lparr>bgRollbackAttempt := int32 (bgRollbackAttempt b + 1), bgJobFailureCount := 0,
                                 bgLastJobFailure := []\<rparr>)
               else ret ()) (\<lambda>_. ret (Some requeueShort))))))))"

text \<open>The patch in the last recovery step, with its shell and JSON quotes.\<close>

definition breakGlassAckPatch :: "string \<Rightarrow> string" where
  "breakGlassAckPatch nonce = (let q = CHR 0x22; a = CHR 0x27 in
     [a, CHR ''{'', q] @ ''spec'' @ [q] @ '':{'' @ [q] @ ''breakGlassAck'' @ [q, CHR '':'', q] @ nonce @ [q] @ ''}}'' @ [a])"

definition enterBreakGlassForRollbackJobFailure ::
    "env \<Rightarrow> string \<Rightarrow> BreakGlassReason \<Rightarrow> string \<Rightarrow> string list \<Rightarrow> string \<Rightarrow> unit op" where
  "enterBreakGlassForRollbackJobFailure env jobName reason message steps note = bnd (gets cl) (\<lambda>c.
     if (case ssBreakGlass (clStatus c) of None \<Rightarrow> False | Some g \<Rightarrow> gkActive g) then ret ()
     else bnd (now env) (\<lambda>n. bnd (gets (\<lambda>s. eNonce env (trace s))) (\<lambda>nonce.
       bnd (updCl (setBreakGlass (Some \<lparr> gkActive = True, gkReason = reason, gkMessage = message, gkNonce = nonce,
              gkEnteredAt = Some n,
              gkSteps = steps @ [''Acknowledge break glass to retry rollback automation: kubectl -n '' @ clNamespace c
                @ '' patch openbaocluster '' @ clName c @ '' --type merge -p '' @ breakGlassAckPatch nonce],
              gkAcknowledgedAt = None \<rparr>))) (\<lambda>_.
       bnd (audit ''BreakGlassEntered'' (clusterAuditFields c
              @ [(''reason'', breakGlassReasonString reason), (''job'', jobName)])) (\<lambda>_.
       emitWarningEvent ''BreakGlassEntered'' note)))))"

definition enterBreakGlassRollbackConsensusRepairFailed :: "env \<Rightarrow> string \<Rightarrow> unit op" where
  "enterBreakGlassRollbackConsensusRepairFailed env jobName = bnd (gets cl) (\<lambda>c.
     enterBreakGlassForRollbackJobFailure env jobName RollbackConsensusRepairFailed
       (''Rollback consensus repair Job '' @ jobName @ '' failed; manual intervention required'')
       [''Inspect rollback Job logs: kubectl -n '' @ clNamespace c @ '' logs job/'' @ jobName,
        ''Inspect pod status: kubectl -n '' @ clNamespace c @ '' get pods -l '' @ LabelOpenBaoCluster @ ''='' @ clName c @ '' -o wide'',
        ''Attempt to identify Raft leader: kubectl -n '' @ clNamespace c @ '' exec -it '' @ clName c @ ''-0 -- bao operator raft list-peers'',
        ''Perform any required Raft recovery steps (peer removal, snapshot restore) per the user-guide runbook.'']
       (''Break glass entered after rollback consensus repair Job '' @ jobName @ '' failed''))"

definition enterBreakGlassRollbackCleanupPeerRemovalFailed :: "env \<Rightarrow> string \<Rightarrow> unit op" where
  "enterBreakGlassRollbackCleanupPeerRemovalFailed env jobName = bnd (gets cl) (\<lambda>c.
     enterBreakGlassForRollbackJobFailure env jobName RollbackCleanupPeerRemovalFailed
       (''Rollback cleanup peer-removal Job '' @ jobName @ '' failed; manual intervention required'')
       [''Inspect rollback cleanup Job logs: kubectl -n '' @ clNamespace c @ '' logs job/'' @ jobName,
        ''Inspect pod status: kubectl -n '' @ clNamespace c @ '' get pods -l '' @ LabelOpenBaoCluster @ ''='' @ clName c @ '' -o wide'',
        ''Inspect remaining Raft peers from the Blue leader: kubectl -n '' @ clNamespace c @ '' exec -it '' @ clName c @ ''-0 -- bao operator raft list-peers'',
        ''Remove any stale Green peers manually if required, then verify the Blue cluster is healthy before resuming automation.'']
       (''Break glass entered after rollback cleanup peer-removal Job '' @ jobName @ '' failed''))"

section \<open>Rollback Jobs and the Blue leader\<close>

definition ensureRollbackExecutorJob ::
    "env \<Rightarrow> ExecutorAction \<Rightarrow> (string \<Rightarrow> unit op) \<Rightarrow> phaseOutcome option op" where
  "ensureRollbackExecutorJob env action onFailed = withBG (\<lambda>b. bnd (gets cl) (\<lambda>c.
     bnd (EnsureExecutorJob env action (rollbackRunID c) (bgBlueRevision b) (bgGreenRevision b)) (\<lambda>result.
       if jrRunning result then ret waitShort
       else if jrFailed result then bnd (onFailed (jrName result)) (\<lambda>_. ret (Some hold))
       else ret None)))"

definition ensureRollbackConsensusRepaired :: "env \<Rightarrow> phaseOutcome option op" where
  "ensureRollbackConsensusRepaired env =
     ensureRollbackExecutorJob env ActionRepairConsensus (enterBreakGlassRollbackConsensusRepairFailed env)"

definition ensureBlueLeaderDuringRollback :: "env \<Rightarrow> phaseOutcome option op" where
  "ensureBlueLeaderDuringRollback env = withBG (\<lambda>b.
     bnd (wrap_err (wrapf ''failed to get Blue pods'') (getPodsByRevision env (bgBlueRevision b))) (\<lambda>bluePods.
     bnd (findLeaderPod env bluePods) (\<lambda>l. if l = None then ret waitShort else ret None)))"

definition ensureGreenPeersRemovedDuringRollbackCleanup :: "env \<Rightarrow> phaseOutcome option op" where
  "ensureGreenPeersRemovedDuringRollbackCleanup env =
     ensureRollbackExecutorJob env ActionRemoveGreenPeers (enterBreakGlassRollbackCleanupPeerRemovalFailed env)"

definition handlePhaseRollingBack :: "env \<Rightarrow> phaseOutcome op" where
  "handlePhaseRollingBack env = bgStatusRequired
     (unless_done (ensureRollbackConsensusRepaired env)
     (unless_done (ensureBlueLeaderDuringRollback env)
       (ret (advance PhaseRollbackCleanup))))"

section \<open>Retiring the discarded Green data (rollback\_cleanup.go)\<close>

text \<open>The claims of the discarded revision; a claim of that name that is not provably ours is an error.\<close>

fun discardedGreenClaims ::
    "Cluster \<Rightarrow> string \<Rightarrow> PersistentVolumeClaim list \<Rightarrow> go_error + PersistentVolumeClaim list" where
  "discardedGreenClaims c prefix [] = Inr []"
| "discardedGreenClaims c prefix (p # ps) =
     (if \<not> rollbackOrdinalName (omName (pvMeta p)) prefix then discardedGreenClaims c prefix ps
      else if \<not> HasOwnerUIDAnnotation (Some (pvMeta p)) (Some (clusterMeta c))
      then Inl (errorf (''discarded Green PVC '' @ omName (pvMeta p) @ '' lacks cluster UID ownership''))
      else if list_ex (\<lambda>(k, v). lookup_label (omLabels (pvMeta p)) k \<noteq> v) (Labels c)
      then Inl (errorf (''discarded Green PVC '' @ omName (pvMeta p) @ '' lacks managed cluster labels''))
      else case discardedGreenClaims c prefix ps of Inl e \<Rightarrow> Inl e | Inr ds \<Rightarrow> Inr (p # ds))"

text \<open>\<open>client.IgnoreNotFound(err) != nil\<close>\<close>

definition ignoreNotFound :: "unit op \<Rightarrow> unit op" where
  "ignoreNotFound m = bnd (attempt m) (\<lambda>r. case r of
      Inr _ \<Rightarrow> ret () | Inl err \<Rightarrow> if is_not_found err then ret () else failwith err)"

fun deleteDiscardedClaims :: "env \<Rightarrow> PersistentVolumeClaim list \<Rightarrow> unit op" where
  "deleteDiscardedClaims env [] = ret ()"
| "deleteDiscardedClaims env (p # ps) =
     (if omDeletionTimestamp (pvMeta p) \<noteq> None then deleteDiscardedClaims env ps
      else bnd (ignoreNotFound (deleteClaim env p)) (\<lambda>_. deleteDiscardedClaims env ps))"

definition podUsesGreen :: "string \<Rightarrow> string \<Rightarrow> Pod \<Rightarrow> bool" where
  "podUsesGreen greenName claimPrefix pod \<longleftrightarrow> rollbackOrdinalName (pdName pod) (greenName @ ''-'')
     \<or> list_ex (\<lambda>n. rollbackOrdinalName n claimPrefix) (pdClaims pod)"

definition retireRollbackGreenData :: "env \<Rightarrow> bool op" where
  "retireRollbackGreenData env = bnd (gets cl) (\<lambda>c. case blueGreen c of
      None \<Rightarrow> failwith (errorf ''discarded Green revision is required for rollback cleanup'')
    | Some b \<Rightarrow>
        if bgPhase b \<noteq> PhaseRollbackCleanup \<or> bgGreenRevision b = [] \<or> bgGreenRevision b = bgBlueRevision b
        then failwith (errorf ''discarded Green revision is required for rollback cleanup'')
        else (case RequireOwnerUID (Some (clusterMeta c)) of
          Some e \<Rightarrow> failwith e
        | None \<Rightarrow>
            let greenName = clName c @ ''-'' @ bgGreenRevision b; claimPrefix = ''data-'' @ greenName @ ''-'' in
            if greenName = ReadReplicaStatefulSetName c
            then failwith (errorf ''rollback cleanup cannot retire the read-replica workload'')
            else bnd (attempt (getSts env greenName)) (\<lambda>r. case r of
                Inr sts \<Rightarrow>
                  (case RequireManagedControllerOwnerProof ''delete discarded Green StatefulSet'' ''StatefulSet''
                          (Some (stMeta sts)) (Some (clusterMeta c)) openBaoClusterGVK of
                     Some e \<Rightarrow> failwith e
                   | None \<Rightarrow>
                       if lookup_label (stTemplateLabels sts) LabelOpenBaoRevision \<noteq> bgGreenRevision b
                       then failwith (errorf (''StatefulSet '' @ greenName @ '' does not identify the discarded Green revision''))
                       else bnd (if omDeletionTimestamp (stMeta sts) = None
                                 then ignoreNotFound (deleteSts env sts
                                        (Some (omUID (stMeta sts), omResourceVersion (stMeta sts))))
                                 else ret ()) (\<lambda>_. ret False))
              | Inl err \<Rightarrow>
                  if \<not> is_not_found err then failwith err
                  else bnd (listPods env []) (\<lambda>pods.
                    if list_ex (podUsesGreen greenName claimPrefix) pods then ret False
                    else bnd (listClaims env) (\<lambda>claims.
                      bnd (lift_res (discardedGreenClaims c claimPrefix claims)) (\<lambda>discarded.
                      bnd (deleteDiscardedClaims env discarded) (\<lambda>_. ret (discarded = []))))))))"

section \<open>Terminal transitions (lifecycle.go)\<close>

definition abortUpgrade :: "env \<Rightarrow> unit op" where
  "abortUpgrade env = bnd (gets cl) (\<lambda>c. case blueGreen c of
      None \<Rightarrow> ret ()
    | Some b \<Rightarrow>
        if bgGreenRevision b = [] then ret ()
        else bnd (wrap_err (wrapf ''failed to cleanup Green StatefulSet during abort'') (cleanupGreenStatefulSet env)) (\<lambda>_.
             finalizeUpgradeTerminalState env False))"

definition completeBlueGreenRollback :: "env \<Rightarrow> string \<Rightarrow> phaseOutcome op" where
  "completeBlueGreenRollback env rollbackReason =
     bnd (finalizeUpgradeTerminalState env False) (\<lambda>_. bnd (gets cl) (\<lambda>c.
     bnd (audit ''RollbackCompleted'' (clusterAuditFields c @ [(''reason'', rollbackReason)])) (\<lambda>_.
     ret doneOutcome)))"

definition handlePhaseRollbackCleanup :: "env \<Rightarrow> phaseOutcome op" where
  "handlePhaseRollbackCleanup env = bgStatusRequired
     (unless_done (ensureGreenPeersRemovedDuringRollbackCleanup env)
     (unless_done (ensureBlueLeaderDuringRollback env)
       (bnd (wrap_err (wrapf ''failed to retire discarded Green data'') (retireRollbackGreenData env)) (\<lambda>retired.
        if \<not> retired then ret (requeueAfterOutcome requeueShort)
        else withBG (\<lambda>b. completeBlueGreenRollback env (bgRollbackReason b))))))"

section \<open>Abort, rollback or refusal (rollback\_control.go)\<close>

definition containerFailed :: "ContainerStatus \<Rightarrow> bool" where
  "containerFailed k \<longleftrightarrow>
     (case csWaitingReason k of None \<Rightarrow> False
      | Some r \<Rightarrow> r = ''CrashLoopBackOff'' \<or> r = ''ImagePullBackOff'' \<or> r = ''ErrImagePull'')
     \<or> (case csTerminatedExitCode k of None \<Rightarrow> False | Some code \<Rightarrow> code \<noteq> 0)"

definition checkAbortConditions :: "env \<Rightarrow> bool op" where
  "checkAbortConditions env = bnd (gets cl) (\<lambda>c. case blueGreen c of
      None \<Rightarrow> ret False
    | Some b \<Rightarrow>
        if \<not> isEarlyPhase (bgPhase b) then ret False
        else if bgGreenRevision b = [] then ret False
        else bnd (wrap_err (wrapf ''failed to get Green pods'') (getPodsByRevision env (bgGreenRevision b))) (\<lambda>pods.
             ret (list_ex (\<lambda>pod. list_ex containerFailed (pdContainerStatuses pod)) pods)))"

definition phaseString :: "BlueGreenPhase \<Rightarrow> string" where
  "phaseString p = (case p of
      PhaseIdle \<Rightarrow> ''Idle'' | PhaseDeployingGreen \<Rightarrow> ''DeployingGreen'' | PhaseJoiningMesh \<Rightarrow> ''JoiningMesh''
    | PhaseSyncing \<Rightarrow> ''Syncing'' | PhasePromoting \<Rightarrow> ''Promoting'' | PhaseDemotingBlue \<Rightarrow> ''DemotingBlue''
    | PhaseCleanup \<Rightarrow> ''Cleanup'' | PhaseRestoringReadReplicas \<Rightarrow> ''RestoringReadReplicas''
    | PhaseRollingBack \<Rightarrow> ''RollingBack'' | PhaseRollbackCleanup \<Rightarrow> ''RollbackCleanup'' | OtherPhase s \<Rightarrow> s)"

definition refuseRollback :: "env \<Rightarrow> string \<Rightarrow> Result op" where
  "refuseRollback env reason = withBG (\<lambda>b.
     bnd (emitWarningEvent ''RollbackRefused'' (''Blue/green rollback refused in phase '' @ phaseString (bgPhase b)
            @ '' because Blue peer removal has started; retrying the phase: '' @ reason)) (\<lambda>_.
     ret (eRequeueStandard env)))"

definition triggerRollback :: "env \<Rightarrow> string \<Rightarrow> Result op" where
  "triggerRollback env reason = withBG (\<lambda>_. bnd (now env) (\<lambda>n.
     bnd (updBG (BeginBlueGreenRollback n reason)) (\<lambda>_.
     bnd (gets cl) (\<lambda>c.
     bnd (audit ''RollbackInitiated'' (clusterAuditFields c @ [(''reason'', reason)])) (\<lambda>_.
     bnd (emitWarningEvent ''RollbackStarted'' (''Blue/green rollback started: '' @ reason)) (\<lambda>_.
     ret requeueShort))))))"

definition triggerRollbackOrAbort :: "env \<Rightarrow> string \<Rightarrow> Result op" where
  "triggerRollbackOrAbort env reason = withBG (\<lambda>b.
     if isPastPointOfNoReturn (bgPhase b) then refuseRollback env reason
     else bnd (gets cl) (\<lambda>c.
       bnd (audit ''UpgradeFailed'' (clusterAuditFields c @ [(''strategy'', ''BlueGreen''), (''reason'', reason)])) (\<lambda>_.
       bnd (emitWarningEvent ''UpgradeFailed'' (''Blue/green upgrade failed: '' @ reason)) (\<lambda>_.
       if isEarlyPhase (bgPhase b)
       then bnd (wrap_err (wrapf ''failed to abort upgrade'') (abortUpgrade env)) (\<lambda>_. ret 0)
       else triggerRollback env reason))))"

section \<open>Draining the steady read replicas (read\_replicas.go)\<close>

definition derefReplicas :: "int option \<Rightarrow> int" where
  "derefReplicas r = (case r of None \<Rightarrow> 0 | Some n \<Rightarrow> n)"

definition readReplicaStatefulSetScaledDown :: "StatefulSet option \<Rightarrow> bool" where
  "readReplicaStatefulSetScaledDown sts = (case sts of
      None \<Rightarrow> True
    | Some s \<Rightarrow> if stObservedGeneration s < omGeneration (stMeta s) then False
               else if derefReplicas (stSpecReplicas s) \<noteq> 0 then False
               else stReplicas s = 0 \<and> stReadyReplicas s = 0 \<and> stCurrentReplicas s = 0)"

text \<open>\<open>Some after\<close>: the pass has to wait.\<close>

definition ensureSteadyReadReplicasScaledDown :: "env \<Rightarrow> Result option op" where
  "ensureSteadyReadReplicasScaledDown env = bnd (gets cl) (\<lambda>c. case spReadReplicas (clSpec c) of
      None \<Rightarrow> ret None
    | Some k \<Rightarrow>
        if k = 0 then ret None
        else bnd (attempt (getSts env (ReadReplicaStatefulSetName c))) (\<lambda>r. case r of
            Inl err \<Rightarrow> if is_not_found err then ret None
                       else failwith (wrapf ''failed to get steady read-replica StatefulSet'' err)
          | Inr sts \<Rightarrow> if readReplicaStatefulSetScaledDown (Some sts) then ret None else ret (Some requeueShort)))"

end
