(* ===== verification/BlueGreen_Reconcile.thy ===== *)
theory BlueGreen_Reconcile
  imports BlueGreen_Rollback
begin

text \<open>
  One reconcile pass of the blue/green manager: the state machine (\<open>manager_state_machine.go\<close>), the
  preflight checks (\<open>workflow_preflight.go\<close>), manual requests (\<open>requests.go\<close>) and the entry points
  (\<open>manager_workflow.go\<close>, \<open>manager.go\<close>).  A step that may end the pass answers \<open>Some result\<close>; the request
  acknowledgements are a component of the state, as the code passes a pointer to them, and survive an
  error.
\<close>

section \<open>The state machine\<close>

definition requeueAfter :: "int \<Rightarrow> Result" where
  "requeueAfter duration = (if duration \<le> 0 then 0 else duration)"

definition applyOutcome :: "env \<Rightarrow> phaseOutcome \<Rightarrow> Result op" where
  "applyOutcome env outcome = (case validateOutcome outcome of
      Some e \<Rightarrow> failwith e
    | None \<Rightarrow> (case poKind outcome of
        KAdvance \<Rightarrow> withBG (\<lambda>b. bnd (now env) (\<lambda>n.
          bnd (updBG (AdvanceBlueGreenPhase n (poNextPhase outcome))) (\<lambda>_.
          bnd (gets cl) (\<lambda>c.
          bnd (LogPhaseTransition audit ''BlueGreenPhaseTransition'' (phaseString (bgPhase b))
                 (phaseString (poNextPhase outcome)) (clusterAuditFields c)) (\<lambda>_.
          if poNextPhase outcome = PhaseIdle then ret 0 else ret requeueShort)))))
      | KRequeueAfter \<Rightarrow> ret (requeueAfter (poAfter outcome))
      | KHold \<Rightarrow> ret 0
      | KRollback \<Rightarrow> triggerRollbackOrAbort env (poReason outcome)
      | KAbort \<Rightarrow> bnd (abortUpgrade env) (\<lambda>_. ret 0)
      | KDone \<Rightarrow> ret 0
      | KOther k \<Rightarrow> failwith (errorf (''unknown outcome kind: '' @ k))))"

text \<open>The table of handlers; a phase that is not in it is an error.\<close>

definition phaseHandler :: "env \<Rightarrow> BlueGreenPhase \<Rightarrow> phaseOutcome op option" where
  "phaseHandler env phase = (case phase of
      PhaseIdle \<Rightarrow> Some (handlePhaseIdle env)
    | PhaseDeployingGreen \<Rightarrow> Some (handlePhaseDeployingGreen env)
    | PhaseJoiningMesh \<Rightarrow> Some (handlePhaseJoiningMesh env)
    | PhaseSyncing \<Rightarrow> Some (handlePhaseSyncing env)
    | PhasePromoting \<Rightarrow> Some (handlePhasePromoting env)
    | PhaseDemotingBlue \<Rightarrow> Some (handlePhaseDemotingBlue env)
    | PhaseCleanup \<Rightarrow> Some (handlePhaseCleanup env)
    | PhaseRestoringReadReplicas \<Rightarrow> Some (handlePhaseRestoringReadReplicas env)
    | PhaseRollingBack \<Rightarrow> Some (handlePhaseRollingBack env)
    | PhaseRollbackCleanup \<Rightarrow> Some (handlePhaseRollbackCleanup env)
    | OtherPhase _ \<Rightarrow> None)"

definition executeStateMachine :: "env \<Rightarrow> Result op" where
  "executeStateMachine env = withBG (\<lambda>b. case phaseHandler env (bgPhase b) of
      None \<Rightarrow> failwith (errorf (''unknown blue/green phase: '' @ phaseString (bgPhase b)))
    | Some handler \<Rightarrow>
        bnd handler (\<lambda>outcome.
        bnd (applyOutcome env outcome) (\<lambda>result.
        bnd (modify (\<lambda>s. s\<lparr>acks := Merge (acks s) (poAcks outcome)\<rparr>)) (\<lambda>_.
        ret result))))"

section \<open>Preflight\<close>

definition shouldReconcileBlueGreen :: "Cluster \<Rightarrow> bool" where
  "shouldReconcileBlueGreen c \<longleftrightarrow> EffectiveStrategy (Some c) = BlueGreen"

definition ensureBlueGreenStatus :: "env \<Rightarrow> unit op" where
  "ensureBlueGreenStatus env = (if \<not> eHasWorkloadRuntime env then ret () else EnsureBlueGreenStatus env)"

definition shouldWaitForSteadyReadReplicaDrain :: "Cluster \<Rightarrow> bool" where
  "shouldWaitForSteadyReadReplicaDrain c \<longleftrightarrow> CurrentBlueGreenPhase (Some c) \<noteq> PhaseRestoringReadReplicas"

definition handleUnexpectedPromoteRequest :: "unit op" where
  "handleUnexpectedPromoteRequest = bnd (gets cl) (\<lambda>c.
     if \<not> PromoteRequestPending (Some c) then ret ()
     else if CurrentBlueGreenPhase (Some c) = PhaseSyncing
            \<and> (case blueGreen c of None \<Rightarrow> False | Some b \<Rightarrow> bgManualPromotionRequired b) then ret ()
     else modify (\<lambda>s. s\<lparr>acks := (acks s)\<lparr>akPromote := PromoteRequestValue (Some c)\<rparr>\<rparr>))"

text \<open>Return \<open>err\<close> after releasing the lock, keeping what the release did to the in-memory cluster.\<close>

definition releaseLockOnError :: "env \<Rightarrow> go_error \<Rightarrow> unit op" where
  "releaseLockOnError env err = bnd (gets cl) (\<lambda>c.
     bnd (ReleaseUpgradeLockOnErrorIfHeld (bgLockApi env) audit c True (Some err) []) (\<lambda>(c', e).
     bnd (setCl c') (\<lambda>_. case e of None \<Rightarrow> ret () | Some e \<Rightarrow> failwith e)))"

definition validateIdleUpgradeInputs :: "env \<Rightarrow> unit op" where
  "validateIdleUpgradeInputs env = bnd (gets cl) (\<lambda>c.
     let cur = ssCurrentVersion (clStatus c); target = spVersion (clSpec c) in
     if CurrentBlueGreenPhase (Some c) \<noteq> PhaseIdle then ret ()
     else case ValidateUpgradeTargetVersion cur target of
         Some err \<Rightarrow> releaseLockOnError env err
       | None \<Rightarrow> (case validateVersionCompatibility cur target of
           Some err \<Rightarrow> releaseLockOnError env err
         | None \<Rightarrow> (case ValidateImageRefMatchesVersion (eParseReference env) target (spImage (clSpec c)) of
             Some err \<Rightarrow> releaseLockOnError env err
           | None \<Rightarrow> ret ())))"

definition maybeAcquireUpgradeLock :: "env \<Rightarrow> bool \<Rightarrow> bool \<Rightarrow> Result option op" where
  "maybeAcquireUpgradeLock env upgradeActive upgradeNeeded =
     (if \<not> upgradeActive \<and> \<not> upgradeNeeded then ret None
      else bnd (gets cl) (\<lambda>c.
        bnd (wrap_err (wrapf ''failed to acquire upgrade operation lock'')
               (AcquireUpgradeLock (bgLockApi env) audit c
                  (''blue/green upgrade phase '' @ phaseString (CurrentBlueGreenPhase (Some c))))) (\<lambda>(c', blocked).
        bnd (setCl c') (\<lambda>_. case blocked of
          None \<Rightarrow> ret None
        | Some err \<Rightarrow>
            bnd (emitWarningEvent ''OperationLockBlocked'' ''Blue/green upgrade blocked by operation lock'') (\<lambda>_.
            if upgradeActive
            then failwith (wrapf ''blue/green upgrade in progress but operation lock is held by another operation'' err)
            else ret (Some (RequeueDelay (eRequeueStandard env) RetryClassLockContention)))))))"

definition ensureIdleAndCleanupGreen :: "env \<Rightarrow> unit op" where
  "ensureIdleAndCleanupGreen env = bnd (gets cl) (\<lambda>c. case blueGreen c of
      None \<Rightarrow> ret ()
    | Some b \<Rightarrow>
        bnd (if bgGreenRevision b \<noteq> []
             then wrap_err (wrapf ''failed to cleanup Green StatefulSet'') (cleanupGreenStatefulSet env)
             else ret ()) (\<lambda>_.
        bnd (now env) (\<lambda>n.
        bnd (updBG (ResetBlueGreenTransientState n)) (\<lambda>_. releaseUpgradeLockIfHeld env))))"

definition handleNoUpgradeNeeded :: "env \<Rightarrow> Result option op" where
  "handleNoUpgradeNeeded env = bnd (gets cl) (\<lambda>c.
     if CurrentBlueGreenPhase (Some c) \<noteq> PhaseIdle then ret None
     else if ssCurrentVersion (clStatus c) = []
     then bnd (ensureIdleAndCleanupGreen env) (\<lambda>_. ret (Some (eRequeueStandard env)))
     else if ssCurrentVersion (clStatus c) = spVersion (clSpec c)
     then bnd (ensureIdleAndCleanupGreen env) (\<lambda>_. ret (Some 0))
     else ret None)"

definition maybeHandleTargetRevisionDrift :: "env \<Rightarrow> Result option op" where
  "maybeHandleTargetRevisionDrift env = bnd (gets cl) (\<lambda>c. case blueGreen c of
      None \<Rightarrow> ret None
    | Some b \<Rightarrow>
        if bgPhase b = PhaseIdle \<or> bgPhase b = PhaseRollingBack \<or> bgPhase b = PhaseRollbackCleanup then ret None
        else if bgGreenRevision b = [] then ret None
        else if bgGreenRevision b = calculateRevision env c then ret None
        else if isPastPointOfNoReturn (bgPhase b) then ret None
        else bnd (triggerRollbackOrAbort env ''VersionMismatch'') (\<lambda>result.
             ret (Some (if result = 0 then requeueShort else result))))"

definition maybeAbortUpgrade :: "env \<Rightarrow> Result option op" where
  "maybeAbortUpgrade env =
     bnd (wrap_err (wrapf ''failed to check abort conditions'') (checkAbortConditions env)) (\<lambda>shouldAbort.
       if \<not> shouldAbort then ret None
       else bnd (wrap_err (wrapf ''failed to abort upgrade'') (abortUpgrade env)) (\<lambda>_. ret (Some requeueShort)))"

definition prepareBlueGreenReconcile :: "env \<Rightarrow> Result option op" where
  "prepareBlueGreenReconcile env = bnd (gets cl) (\<lambda>c0.
     bnd (wrap_err (wrapf ''failed to ensure upgrade ServiceAccount'')
            (callU (\<lambda>tr. eEnsureServiceAccount env tr c0) EnsureServiceAccountE)) (\<lambda>_.
     bnd (ensureBlueGreenStatus env) (\<lambda>_.
     unless_stop (reconcileValidationHookOutsideSyncing env)
     (bnd (gets (\<lambda>s. shouldHaltForBreakGlass (cl s))) (\<lambda>halt.
      if halt then ret (Some (eRequeueStandard env))
      else bnd handleUnexpectedPromoteRequest (\<lambda>_.
      bnd (gets (\<lambda>s. BlueGreenUpgradeState (Some (cl s)))) (\<lambda>(upgradeActive, upgradeNeeded).
      unless_stop (maybeAcquireUpgradeLock env upgradeActive upgradeNeeded)
      (unless_stop (handleNoUpgradeNeeded env)
      (unless_stop (maybeHandleTargetRevisionDrift env)
      (bnd (validateIdleUpgradeInputs env) (\<lambda>_.
      unless_stop (maybeAbortUpgrade env)
      (bnd (gets (\<lambda>s. shouldWaitForSteadyReadReplicaDrain (cl s))) (\<lambda>drain.
       if drain then ensureSteadyReadReplicasScaledDown env else ret None)))))))))))))"

section \<open>Manual rollback (requests.go)\<close>

definition acknowledgeRollback :: "string \<Rightarrow> unit op" where
  "acknowledgeRollback v = modify (\<lambda>s. s\<lparr>acks := (acks s)\<lparr>akRollback := v\<rparr>\<rparr>)"

definition handleManualRollbackRequest :: "env \<Rightarrow> Result option op" where
  "handleManualRollbackRequest env = bnd (gets cl) (\<lambda>c.
     let request = RollbackRequestValue (Some c) in
     if \<not> RollbackRequestPending (Some c) then ret None
     else case blueGreen c of
         None \<Rightarrow> bnd (acknowledgeRollback request) (\<lambda>_. ret None)
       | Some b \<Rightarrow>
           if bgPhase b = PhaseIdle then bnd (acknowledgeRollback request) (\<lambda>_. ret None)
           else if bgPhase b = PhaseRollingBack \<or> bgPhase b = PhaseRollbackCleanup
           then bnd (acknowledgeRollback request) (\<lambda>_. ret None)
           else if isPastPointOfNoReturn (bgPhase b)
           then bnd (acknowledgeRollback request) (\<lambda>_.
                bnd (emitWarningEvent ''RollbackRefused''
                       (''Blue/green rollback request via spec.upgrade.requests.rollback refused in phase ''
                        @ phaseString (bgPhase b) @ '' because Blue peer removal has started'')) (\<lambda>_. ret None))
           else if bgGreenRevision b = []
           then bnd (wrap_err (wrapf ''failed to abort upgrade via spec.upgrade.requests.rollback'') (abortUpgrade env)) (\<lambda>_.
                bnd (acknowledgeRollback request) (\<lambda>_. ret (Some 0)))
           else bnd (triggerRollback env ''manual rollback request via spec.upgrade.requests.rollback'') (\<lambda>result.
                bnd (acknowledgeRollback request) (\<lambda>_. ret (Some result))))"

section \<open>The entry points\<close>

fun emitAll :: "event list \<Rightarrow> unit op" where
  "emitAll [] = ret ()"
| "emitAll (e # es) = bnd (emit e) (\<lambda>_. emitAll es)"

text \<open>The deferred metrics update, which runs on every return.\<close>

definition recordBlueGreenMetrics :: "env \<Rightarrow> BlueGreenPhase \<Rightarrow> bool \<Rightarrow> unit op" where
  "recordBlueGreenMetrics env initialPhase initialRollbackSet = bnd (now env) (\<lambda>n. bnd (gets (\<lambda>s. s)) (\<lambda>s.
     case finalizeBlueGreenMetrics n (cl s) initialPhase initialRollbackSet (sess s) of (ms, sess') \<Rightarrow>
       bnd (modify (\<lambda>s. s\<lparr>sess := sess'\<rparr>)) (\<lambda>_. emitAll (map MetricE ms))))"

definition deferring :: "unit op \<Rightarrow> 'a op \<Rightarrow> 'a op" where
  "deferring final m = bnd (attempt m) (\<lambda>r. bnd final (\<lambda>_. lift_res r))"

definition reconcileBlueGreen :: "env \<Rightarrow> Result op" where
  "reconcileBlueGreen env = bnd (gets cl) (\<lambda>c.
     if \<not> shouldReconcileBlueGreen c then ret 0
     else if \<not> ssInitialized (clStatus c)
     then bnd (emitAll (map MetricE [SetInProgress False, SetMetricStatus 0, SetPodsCompleted 0, SetTotalPods 0, SetPartition 0]))
            (\<lambda>_. ret (eRequeueStandard env))
     else deferring (recordBlueGreenMetrics env (CurrentBlueGreenPhase (Some c)) (IsBlueGreenRollbackSet (Some c)))
            (unless_done (prepareBlueGreenReconcile env) (executeStateMachine env)))"

definition reconcile :: "env \<Rightarrow> Result op" where
  "reconcile env =
     unless_done (handleBreakGlassAck env)
     (bnd (ensureExecutionState env) (\<lambda>_.
      unless_done (handleManualRollbackRequest env)
      (bnd (gets cl) (\<lambda>c. case WrapPermanentConfig (eValidateSealPlugins env c) of
         Some err \<Rightarrow> failwith err
       | None \<Rightarrow> reconcileBlueGreen env))))"

text \<open>\<open>Reconcile\<close> starts with no acknowledgements and returns them with the result, also on an error.\<close>

definition Reconcile :: "env \<Rightarrow> st \<Rightarrow> (go_error + Result) \<times> RequestAcknowledgements \<times> st" where
  "Reconcile env s = (case reconcile env (s\<lparr>acks := noAcks\<rparr>) of (r, t) \<Rightarrow> (r, acks t, t))"

end
