(* ===== verification/BlueGreen_Frames.thy ===== *)
theory BlueGreen_Frames
  imports BlueGreen_Reconcile
begin

text \<open>
  What the parts of a pass leave alone.  \<open>fr V P\<close> is the frame "the view \<open>V\<close> of the cluster is unchanged and
  every call made satisfies \<open>P\<close>"; it is a \<open>frame\<close> for every \<open>V\<close> and \<open>P\<close>, so its closure under the
  combinators is proved once.  \<open>quiet\<close> excludes the destructive calls, \<open>core\<close> is the identity of the upgrade
  (phase, revisions, promotion mode, specification).  \<open>yields S m\<close> bounds the results of \<open>m\<close>.
\<close>

section \<open>Frames over a view and the calls\<close>

definition fr :: "(Cluster \<Rightarrow> 'v) \<Rightarrow> (event \<Rightarrow> bool) \<Rightarrow> st \<Rightarrow> st \<Rightarrow> bool" where
  "fr V P s t \<longleftrightarrow> V (cl t) = V (cl s) \<and> (\<exists>ev. trace t = trace s @ ev \<and> list_all P ev)"

interpretation fr: frame "fr V P" for V P
  by unfold_locales (auto simp: fr_def)

fun quiet :: "event \<Rightarrow> bool" where
  "quiet (DeleteStsE _ _ _) = False"
| "quiet (DeleteClaimE _ _ _ _) = False"
| "quiet (DeletePodE _ _) = False"
| "quiet (PatchPartitionE _ _ _) = False"
| "quiet _ = True"

record upgradeCore =
  ucName :: string
  ucNamespace :: string
  ucUID :: string
  ucSpec :: ClusterSpec
  ucBG :: "(BlueGreenPhase \<times> string \<times> string \<times> string \<times> bool) option"

definition bgCore :: "BlueGreenStatus \<Rightarrow> BlueGreenPhase \<times> string \<times> string \<times> string \<times> bool" where
  "bgCore b = (bgPhase b, bgBlueRevision b, bgBlueControllerRevision b, bgGreenRevision b, bgManualPromotionRequired b)"

definition core :: "Cluster \<Rightarrow> upgradeCore" where
  "core c = \<lparr> ucName = clName c, ucNamespace = clNamespace c, ucUID = clUID c, ucSpec = clSpec c,
     ucBG = map_option bgCore (blueGreen c) \<rparr>"

abbreviation stays :: "st \<Rightarrow> st \<Rightarrow> bool" where
  "stays \<equiv> fr core quiet"

lemma keeps_fr_call:
  "(\<And>r. P (ev r)) \<Longrightarrow> keeps (fr V P) (call f ev)"
  "(\<And>r. P (ev' r)) \<Longrightarrow> keeps (fr V P) (callU g ev')"
  "P e \<Longrightarrow> keeps (fr V P) (emit e)"
  by (simp_all add: keeps_def fr_def call_def callU_def emit_def modify_def Let_def)

lemma keeps_fr_upd:
  "(\<And>c. V (f c) = V c) \<Longrightarrow> keeps (fr V P) (updCl f)"
  "(\<And>c. V (mapBlueGreen g c) = V c) \<Longrightarrow> keeps (fr V P) (updBG g)"
  by (simp_all add: keeps_def fr_def updCl_def updBG_def modify_def)

lemma keeps_modify_cl [simp, intro]:
  "keeps (fr V P) (modify (\<lambda>s. s\<lparr>sess := f s\<rparr>))" "keeps (fr V P) (modify (\<lambda>s. s\<lparr>acks := g s\<rparr>))"
  "keeps (fr V P) (now env)"
  by (simp_all add: keeps_def fr_def modify_def now_def gets_def)

lemma keeps_withBG [intro!]: "(\<And>b. keeps (fr V P) (k b)) \<Longrightarrow> keeps (fr V P) (withBG k)"
  unfolding withBG_def by (auto split: option.split)

lemma keeps_withUpgrade [intro!]: "(\<And>b. keeps (fr V P) (k b)) \<Longrightarrow> keeps (fr V P) (withUpgrade k)"
  unfolding withUpgrade_def by (auto split: option.split)

lemma keeps_withHook [intro!]: "(\<And>b. keeps (fr V P) (k b)) \<Longrightarrow> keeps (fr V P) (withHook k)"
  unfolding withHook_def by (auto split: option.split)

lemma keeps_bgStatusRequired [intro!]: "keeps (fr V P) k \<Longrightarrow> keeps (fr V P) (bgStatusRequired k)"
  unfolding bgStatusRequired_def by (auto split: option.split)

lemma core_upd [simp]: "(\<And>b. bgCore (g b) = bgCore b) \<Longrightarrow> core (mapBlueGreen g c) = core c"
  by (cases "blueGreen c") (simp_all add: core_def)

lemma keeps_updBG [intro!]: "(\<And>b. bgCore (g b) = bgCore b) \<Longrightarrow> keeps stays (updBG g)"
  by (rule keeps_fr_upd) simp

lemma keeps_fr_clients [intro]:
  "(\<And>r. P (LoadCACertE r)) \<Longrightarrow> keeps (fr V P) (LoadClusterCACert env)"
  "(\<And>c r. P (NewClientE c r)) \<Longrightarrow> keeps (fr V P) (NewClusterPodClient env n ca opts)"
  "(\<And>u r. P (IsLeaderE u r)) \<Longrightarrow> keeps (fr V P) (IsLeader env cfg)"
  "(\<And>u r. P (IsHealthyE u r)) \<Longrightarrow> keeps (fr V P) (IsHealthy env cfg)"
  by (auto simp: LoadClusterCACert_def NewClusterPodClient_def IsLeader_def IsHealthy_def Let_def intro!: keeps_fr_call)

lemma keeps_fr_probe: "(\<And>p. keeps (fr V P) (probe p)) \<Longrightarrow> keeps (fr V P) (ProbeLeaderPod pods probe)"
  by (induction pods) (auto split: sum.split)

lemma stays_findLeaderPod: "keeps stays (findLeaderPod env pods)"
  by (auto simp: findLeaderPod_def FindClusterLeaderPod_def intro!: keeps_fr_probe keeps_fr_clients split: sum.split option.split)

lemma stays_calls [simp, intro]:
  "keeps stays (getJob env n)" "keeps stays (createJob env j)" "keeps stays (deleteJob env j)"
  "keeps stays (getSts env n)" "keeps stays (listPods env sel)" "keeps stays (listClaims env)"
  "keeps stays (getCluster env)" "keeps stays (applyStatus env d f)" "keeps stays (audit ty flds)"
  "keeps stays (emitNormalEvent a b)" "keeps stays (emitWarningEvent a b)"
  "keeps stays (findLeaderPod env pods)"
  by (simp_all add: getJob_def createJob_def deleteJob_def getSts_def listPods_def listClaims_def
      getCluster_def applyStatus_def audit_def emitNormalEvent_def emitWarningEvent_def keeps_fr_call)
    (rule stays_findLeaderPod)

section \<open>Jobs and Pods\<close>

lemma stays_getPods [simp, intro]: "keeps stays (getPodsByRevision env r)"
  unfolding getPodsByRevision_def Let_def by auto

lemma stays_readManagedJob [simp, intro]: "keeps stays (readManagedJob env n a)"
  unfolding readManagedJob_def ReadManagedJob_def by (auto split: option.split)

lemma stays_verify [simp, intro]:
  "keeps stays (verifyImageDigest env i r p)" "keeps stays (VerifyOperatorImageDigest env i r p)"
  unfolding verifyImageDigest_def VerifyOperatorImageDigest_def
  by (auto intro!: keeps_fr_call split: sum.split)

lemma stays_ensureUpgradeExecutorJob [simp, intro]: "keeps stays (ensureUpgradeExecutorJob env a r b g)"
  unfolding ensureUpgradeExecutorJob_def Let_def by (auto split: sum.split)

lemma stays_EnsureExecutorJob [simp, intro]: "keeps stays (EnsureExecutorJob env a r b g)"
  unfolding EnsureExecutorJob_def by auto

lemma stays_ensureJob [intro]: "(\<And>n. keeps stays (build n)) \<Longrightarrow> keeps stays (ensureJob env n build)"
  unfolding ensureJob_def by (auto split: sum.split)

lemma stays_getJobStatus [simp, intro]: "keeps stays (getJobStatus env n)"
  unfolding getJobStatus_def by (auto split: sum.split)

lemma stays_snapshotJob [simp, intro]: "keeps stays (ensurePreUpgradeSnapshotJob env n)"
  unfolding ensurePreUpgradeSnapshotJob_def ValidatePreUpgradeSnapshotPrerequisites_def EnsureBackupTokenSecretExists_def
    EnsureRuntime_def ResolvePreUpgradeSnapshotExecutorDigest_def getSecret_def Let_def
  by (auto intro!: keeps_fr_call stays_ensureJob split: option.split sum.split)

lemma stays_readExecutionStatefulSet [simp, intro]: "keeps stays (readExecutionStatefulSet env n)"
  unfolding readExecutionStatefulSet_def by (auto split: option.split)

lemma stays_runExecutorJobStep [simp, intro]: "keeps stays (runExecutorJobStep env a m)"
  unfolding runExecutorJobStep_def by (auto simp: bgCore_def split: option.split)

section \<open>Retries and the operation lock\<close>

lemma keeps_retry [intro!]:
  assumes "keeps (fr V P) m" shows "keeps (fr V P) (retryOnConflict n m)"
proof -
  have "fr V P s (snd (retryOnConflict n m s))" for s
  proof (induction n arbitrary: s)
    case (Suc n)
    obtain r t where m: "m s = (r, t)" by (cases "m s")
    then have "fr V P s t" using assms by (metis keeps_def snd_conv)
    with m Suc show ?case by (auto split: sum.split intro: fr.trans)
  qed (simp add: fr.refl)
  then show ?thesis by (simp add: keeps_def)
qed

lemma wp_retry:
  assumes "\<And>s. wp m Q (\<lambda>_ _. True) s" shows "wp (retryOnConflict n m) Q (\<lambda>_ _. True) s"
proof (induction n arbitrary: s)
  case (Suc n)
  note IH = Suc [of "snd (m s)"]
  from assms [of s] IH show ?case by (auto simp: wp_def split: sum.split prod.split)
qed (simp add: wp_def)

text \<open>\<open>unlocked\<close> erases the lock and the resource version, all that a lock operation changes in memory.\<close>

definition unlocked :: "Cluster \<Rightarrow> Cluster" where
  "unlocked c = setOperationLock None (c\<lparr>clResourceVersion := 0\<rparr>)"

lemma unlocked_proj [simp]:
  "core (unlocked c) = core c" "blueGreen (unlocked c) = blueGreen c" "clSpec (unlocked c) = clSpec c"
  "clName (unlocked c) = clName c" "ssCurrentVersion (clStatus (unlocked c)) = ssCurrentVersion (clStatus c)"
  "ssBreakGlass (clStatus (unlocked c)) = ssBreakGlass (clStatus c)"
  by (simp_all add: unlocked_def core_def setOperationLock_def)

lemma unlocked_sel:
  assumes "unlocked c = unlocked d"
  shows "core c = core d" "blueGreen c = blueGreen d" "clSpec c = clSpec d" "clName c = clName d"
    "ssCurrentVersion (clStatus c) = ssCurrentVersion (clStatus d)"
    "ssBreakGlass (clStatus c) = ssBreakGlass (clStatus d)"
  using arg_cong [OF assms, of core] arg_cong [OF assms, of blueGreen] arg_cong [OF assms, of clSpec]
    arg_cong [OF assms, of clName] arg_cong [OF assms, of "\<lambda>c. ssCurrentVersion (clStatus c)"]
    arg_cong [OF assms, of "\<lambda>c. ssBreakGlass (clStatus c)"] by simp_all

lemma unlocked_setLock [simp]: "unlocked (setOperationLock l (c\<lparr>clResourceVersion := n\<rparr>)) = unlocked c"
  by (simp add: unlocked_def setOperationLock_def mapStatus_def)

section \<open>Bounds on results\<close>

definition yields :: "('a \<Rightarrow> bool) \<Rightarrow> ('s, 'a) run \<Rightarrow> bool" where
  "yields S m \<longleftrightarrow> (\<forall>s a. fst (m s) = Inr a \<longrightarrow> S a)"

abbreviation orNone :: "('a \<Rightarrow> bool) \<Rightarrow> 'a option \<Rightarrow> bool" where
  "orNone \<equiv> pred_option"

lemma yields_pure [simp]: "yields S (ret a) \<longleftrightarrow> S a" "yields S (failwith e)"
  by (simp_all add: yields_def ret_def failwith_def)

lemma yields_use: "yields T m \<Longrightarrow> (\<And>a. T a \<Longrightarrow> yields S (k a)) \<Longrightarrow> yields S (bnd m k)"
  unfolding yields_def bnd_def by (auto split: prod.splits sum.splits) (metis fst_conv)

lemma fst_lift_res [simp]: "fst (lift_res r s) = r"
  by (simp add: lift_res_def)

lemma yields_bnd [intro!]: "(\<And>a s. fst (m s) = Inr a \<Longrightarrow> yields S (k a)) \<Longrightarrow> yields S (bnd m k)"
  by (rule yields_use [of "\<lambda>a. \<exists>s. fst (m s) = Inr a"]) (auto simp: yields_def)

lemma yields_weaken: "yields S m \<Longrightarrow> (\<And>a. S a \<Longrightarrow> T a) \<Longrightarrow> yields T m"
  by (simp add: yields_def)

lemma yieldsD: "yields S m \<Longrightarrow> fst (m s) = Inr a \<Longrightarrow> S a"
  by (simp add: yields_def)

lemma yields_wrap [intro!]: "yields S m \<Longrightarrow> yields S (wrap_err f m)"
  unfolding yields_def wrap_err_def by (auto split: prod.splits sum.splits) (metis fst_conv)

lemma yields_attempt: "yields S m \<Longrightarrow> yields (\<lambda>r. case r of Inl _ \<Rightarrow> True | Inr a \<Rightarrow> S a) (attempt m)"
  unfolding yields_def attempt_def by (auto split: prod.splits sum.splits) (metis fst_conv)

lemma yields_unless_done [intro!]:
  "yields (orNone S) m \<Longrightarrow> yields S k \<Longrightarrow> yields S (unless_done m k)"
  unfolding unless_done_def by (erule yields_use) (auto split: option.splits)

lemma yields_withBG [intro!]: "(\<And>b. yields S (k b)) \<Longrightarrow> yields S (withBG k)"
  unfolding withBG_def by (auto split: option.split)

lemma yields_bgStatusRequired [intro!]: "yields S k \<Longrightarrow> yields S (bgStatusRequired k)"
  unfolding bgStatusRequired_def by (auto split: option.split)

lemma yields_wp: "yields S m \<longleftrightarrow> (\<forall>s. wp m (\<lambda>a _. S a) (\<lambda>_ _. True) s)"
proof -
  have "(\<forall>a. fst (m s) = Inr a \<longrightarrow> S a) \<longleftrightarrow> wp m (\<lambda>a _. S a) (\<lambda>_ _. True) s" for s
    by (cases "m s") (auto simp: wp_def split: sum.split)
  then show ?thesis by (simp add: yields_def)
qed

lemma yields_retry: "yields S m \<Longrightarrow> yields S (retryOnConflict n m)"
  unfolding yields_wp by (auto intro: wp_retry)

text \<open>Frame and result together.\<close>

lemma wp_keeps_yields:
  assumes "keeps R m" and "yields S m" and "\<And>a t. R s t \<Longrightarrow> S a \<Longrightarrow> Q a t" and "\<And>e t. R s t \<Longrightarrow> E e t"
  shows "wp m Q E s"
proof -
  have "wp m (\<lambda>_ t. R s t) (\<lambda>_ t. R s t) s" using assms(1) by (rule wp_keeps) simp_all
  moreover have "wp m (\<lambda>a _. S a) (\<lambda>_ _. True) s" using assms(2) by (simp add: yields_wp)
  ultimately have "wp m (\<lambda>a t. R s t \<and> S a) (\<lambda>e t. R s t \<and> True) s" by (rule wp_conj)
  then show ?thesis by (rule wp_mono) (use assms in auto)
qed

section \<open>The lock operations of a pass\<close>

lemma keeps_lockAttempt [simp, intro]: "keeps (fr V quiet) (lockAttempt (bgLockApi env) ns n mutate)"
  unfolding lockAttempt_def bgLockApi_def
  by (auto simp: getCluster_def intro!: keeps_fr_call split: prod.split)

lemma keeps_mutateLock [simp, intro]: "keeps (fr V quiet) (mutateOperationLockStatus (bgLockApi env) c mutate)"
  unfolding mutateOperationLockStatus_def MutateAndPatchLockStatus_def by (auto split: prod.split)

lemma yields_mutateLock: "yields (\<lambda>p. unlocked (fst p) = unlocked c) (mutateOperationLockStatus api c mutate)"
  unfolding mutateOperationLockStatus_def by (auto split: prod.split)

lemma keeps_audit [simp, intro]: "keeps (fr V quiet) (audit ty flds)"
  by (simp add: audit_def keeps_fr_call)

lemma keeps_release [simp, intro]: "keeps (fr V quiet) (ReleaseUpgradeLockIfHeld (bgLockApi env) audit (Some c))"
  unfolding ReleaseUpgradeLockIfHeld_def ReleaseUpgradeOperationLock_def ReleaseWithReader_def
  by (auto split: sum.split option.split)

lemma yields_release: "yields (\<lambda>c'. unlocked c' = unlocked c) (ReleaseUpgradeLockIfHeld api audit (Some c))"
proof -
  have "yields (\<lambda>c'. unlocked c' = unlocked c) (ReleaseUpgradeOperationLock api (Some c))"
    unfolding ReleaseUpgradeOperationLock_def ReleaseWithReader_def
    by (auto intro!: yields_use [OF yields_mutateLock] split: option.split)
  note r = yields_use [OF yields_attempt [OF this]]
  show ?thesis
    unfolding ReleaseUpgradeLockIfHeld_def by (simp, intro conjI impI, rule r) (auto split: sum.splits)
qed

lemma keeps_acquire [simp, intro]: "keeps (fr V quiet) (AcquireUpgradeLock (bgLockApi env) audit c msg)"
  unfolding AcquireUpgradeLock_def AcquireUpgradeOperationLock_def AcquireWithReader_def AcquireWithReaderResult_def Let_def
  by (auto split: sum.split option.split prod.split)

lemma yields_acquire: "yields (\<lambda>p. unlocked (fst p) = unlocked c) (AcquireUpgradeLock api audit c msg)"
proof -
  have a: "yields (\<lambda>p. unlocked (fst p) = unlocked c) (AcquireWithReaderResult api (Some c) upgradeOperationLock opts)" for opts
    unfolding AcquireWithReaderResult_def by (simp add: yields_mutateLock)
  have "yields (\<lambda>c'. unlocked c' = unlocked c) (AcquireUpgradeOperationLock api (Some c) msg)"
    unfolding AcquireUpgradeOperationLock_def AcquireWithReader_def option.case
    by (rule yields_use [OF a]) (auto split: prod.split)
  note r = yields_use [OF yields_attempt [OF this]]
  show ?thesis unfolding AcquireUpgradeLock_def Let_def by (rule r) (auto split: sum.splits)
qed

lemma keepsI: "(\<And>s. wp m (\<lambda>_. R s) (\<lambda>_. R s) s) \<Longrightarrow> keeps R m"
  by (simp add: wp_snd keeps_def)

lemma keeps_releaseLock [simp, intro]: "keeps (fr unlocked quiet) (releaseUpgradeLockIfHeld env)"
  by (rule keepsI) (simp add: releaseUpgradeLockIfHeld_def wps,
      rule wp_keeps_yields [OF keeps_release yields_release], auto simp: fr_def wps)

section \<open>Status checkpoints\<close>

text \<open>
  The named hypothesis of the phase properties: an object read right after an accepted status write of the manager
  shows the phase, the revisions and the promotion flag of that write.  The other fields of the blue/green
  status (hook receipts, job counters, times) may differ, as may every other read, which may be stale or fail.
  The operator runs as a single elected leader and owns these fields, and the read after a write is a live one.
\<close>

definition singleWriter :: "env \<Rightarrow> bool" where
  "singleWriter env \<longleftrightarrow> (\<forall>tr b u k f c. eGetCluster env (tr @ [ApplyStatusE b u k f None]) = Inr c
     \<longrightarrow> map_option bgCore (blueGreen c) = map_option bgCore b)"

lemma keeps_MutateAndApply [simp, intro]: "keeps (fr V quiet) (MutateAndApplyAdminOpsStatus env n mutate f)"
  unfolding MutateAndApplyAdminOpsStatus_def
  by (auto simp: getCluster_def applyStatus_def intro!: keeps_fr_call)

lemma yields_MutateAndApply:
  assumes "singleWriter env"
  shows "yields (\<lambda>c. map_option bgCore (blueGreen c) = map_option bgCore b) (MutateAndApplyAdminOpsStatus env n (\<lambda>obj. Inr (setBlueGreen b obj)) f)"
proof -
  let ?Q = "\<lambda>_ t. \<exists>tr u k. trace t = tr @ [ApplyStatusE b u k f None]"
  let ?m = "bnd (wrap_err (wrapf ''failed to get cluster before adminops status apply'') (getCluster env)) (\<lambda>current.
                bnd (lift_res (Inr (setBlueGreen b current))) (\<lambda>desired. applyStatus env desired f))"
  have "wp ?m ?Q (\<lambda>_ _. True) s" for s
    by (auto simp: wps getCluster_def applyStatus_def split: sum.split option.split)
  then have *: "wp (retryOnConflict k ?m) ?Q (\<lambda>_ _. True) s" for k s by (rule wp_retry)
  have "wp (MutateAndApplyAdminOpsStatus env n (\<lambda>obj. Inr (setBlueGreen b obj)) f) (\<lambda>c _. map_option bgCore (blueGreen c) = map_option bgCore b)
      (\<lambda>_ _. True) s" for s
    unfolding MutateAndApplyAdminOpsStatus_def wp_if wp_bnd wp_wrap_err wp_failwith if_bool_eq_conj
    by (intro conjI impI, simp, rule wp_mono [OF * [unfolded wp_wrap_err]])
      (use assms in \<open>auto simp: wps getCluster_def singleWriter_def split: sum.split\<close>)
  then show ?thesis by (simp add: yields_wp)
qed

lemma stays_copyBack:
  assumes "stays s t" and "map_option bgCore (blueGreen updated) = map_option bgCore (blueGreen (cl s))"
  shows "stays s (t\<lparr>cl := (mapStatus (\<lambda>st. st\<lparr>ssAcceptedUpgradeStrategy := a, ssUpgrade := u, ssUpgradeRequests := q,
            ssBlueGreen := blueGreen updated, ssBreakGlass := g, ssBackup := k, ssAdminOps := ao\<rparr>) (cl t))\<lparr>clResourceVersion := n\<rparr>\<rparr>)"
  using assms by (auto simp: fr_def core_def mapStatus_def)

lemma stays_persist [simp, intro]:
  assumes "singleWriter env" shows "keeps stays (persistBlueGreenStatus env)"
proof (rule keepsI)
  fix s :: st
  let ?m = "MutateAndApplyAdminOpsStatus env (clName (cl s)) (\<lambda>obj. Inr (setBlueGreen (blueGreen (cl s)) obj))"
  note rule = wp_keeps_yields [OF keeps_MutateAndApply yields_MutateAndApply [OF assms]]
  have 2: "wp (?m True) (\<lambda>a t. stays s t \<and> map_option bgCore (blueGreen a) = map_option bgCore (blueGreen (cl s))) (\<lambda>_. stays s) t" if "stays s t" for t
    by (rule rule) (use that in \<open>auto intro: fr.trans\<close>)
  have 1: "wp (?m False) (\<lambda>a t. stays s t \<and> map_option bgCore (blueGreen a) = map_option bgCore (blueGreen (cl s))) (\<lambda>_. stays s) s"
    by (rule rule) auto
  show "wp (persistBlueGreenStatus env) (\<lambda>_. stays s) (\<lambda>_. stays s) s"
    unfolding persistBlueGreenStatus_def MutateWithReader_def
    by (simp add: wps fr.refl, intro impI, rule wp_mono [OF 1])
      (auto simp: wps stays_copyBack intro!: wp_mono [OF 2])
qed

section \<open>The validation hook\<close>

lemma stays_updHook [simp, intro]: "keeps stays (updHook f)"
  unfolding updHook_def by (auto simp: bgCore_def)

lemma stays_hookWrites [simp, intro]:
  assumes "singleWriter env"
  shows "keeps stays (prepareValidationHookExecution env i)" "keeps stays (markValidationHookUnknown env)"
    "keeps stays (persistValidationHookCreated env job)"
  using stays_persist [OF assms]
  unfolding prepareValidationHookExecution_def markValidationHookUnknown_def persistValidationHookCreated_def
  by (auto simp: bgCore_def)

lemma stays_hookReads [simp, intro]:
  "keeps stays (readValidationHookJob env receipt)" "keeps stays (buildValidationHookJob env receipt hook)"
  unfolding readValidationHookJob_def buildValidationHookJob_def by (auto split: option.split)

lemma stays_commitHook [simp, intro]:
  "singleWriter env \<Longrightarrow> keeps stays (commitAndCreateValidationHookJob env hook)"
  unfolding commitAndCreateValidationHookJob_def by (auto split: sum.split)

lemma stays_observeHook [simp, intro]:
  "singleWriter env \<Longrightarrow> keeps stays (observePersistedValidationHook env)"
  unfolding observePersistedValidationHook_def Let_def by (auto split: sum.split)

lemma stays_dispatchStage [simp, intro]: "singleWriter env \<Longrightarrow> keeps stays (dispatchStage env receipt hook)"
  unfolding dispatchStage_def by (auto split: BlueGreenValidationHookStage.split prod.split)

lemma stays_reconcileHook [simp, intro]: "singleWriter env \<Longrightarrow> keeps stays (reconcilePrePromotionHookJob env hook)"
  unfolding reconcilePrePromotionHookJob_def by (auto simp: bgCore_def split: option.split)

lemma stays_outsideSyncing [simp, intro]: "singleWriter env \<Longrightarrow> keeps stays (reconcileValidationHookOutsideSyncing env)"
  unfolding reconcileValidationHookOutsideSyncing_def deleteTerminalValidationHookJob_def
  by (auto simp: bgCore_def clearHookReceipt_def Let_def
      split: option.split BlueGreenValidationHookStage.split sum.split prod.split)

section \<open>The handlers that leave the upgrade where it is\<close>

lemma stays_snapshot [simp, intro]: "keeps stays (ensureBlueGreenPreUpgradeSnapshotComplete env)"
  unfolding ensureBlueGreenPreUpgradeSnapshotComplete_def ReconcileExistingJob_def Let_def
  by (auto simp: bgCore_def split: option.split JobState.split)

lemma stays_greenSts [simp, intro]:
  "keeps stays (getGreenStatefulSet env r)" "keeps stays (createGreenStatefulSet env b r)"
  "keeps stays (waitForGreenPodsReady env r)" "keeps stays (ensureBlueClusterReadyForGreen env r)"
  unfolding getGreenStatefulSet_def createGreenStatefulSet_def prepareGreenStatefulSetImages_def waitForGreenPodsReady_def
    ensureBlueClusterReadyForGreen_def
  by (auto intro!: keeps_fr_call split: option.split sum.split)

lemma stays_deploying [simp, intro]: "keeps stays (handlePhaseDeployingGreen env)"
  unfolding handlePhaseDeployingGreen_def ensureGreenStatefulSetReady_def by (auto split: option.split)

lemma stays_joining [simp, intro]: "keeps stays (handlePhaseJoiningMesh env)" "keeps stays (handlePhasePromoting env)"
  unfolding handlePhaseJoiningMesh_def handlePhasePromoting_def by auto

lemma stays_minSync [simp, intro]: "keeps stays (ensureMinimumSyncDuration env)"
  unfolding ensureMinimumSyncDuration_def Let_def by (auto split: option.split)

lemma stays_prePromotion [simp, intro]: "singleWriter env \<Longrightarrow> keeps stays (ensurePrePromotionHookComplete env)"
  unfolding ensurePrePromotionHookComplete_def Let_def by (auto split: option.split bool.split prod.split)

lemma stays_syncing [simp, intro]: "singleWriter env \<Longrightarrow> keeps stays (handlePhaseSyncing env)"
  unfolding handlePhaseSyncing_def decideSyncPromotion_def by auto

lemma stays_demoting [simp, intro]: "keeps stays (handlePhaseDemotingBlue env)"
  unfolding handlePhaseDemotingBlue_def markBlueGreenStepDown_def ensureGreenReadyForBlueDemotion_def
    waitForGreenLeaderAfterBlueDemotion_def
  by (auto intro!: keeps_fr_call split: option.split prod.split)

lemma stays_cleanupGuards [simp, intro]:
  "keeps stays (ensureGreenReadyForBlueCleanup env)" "keeps stays (ensureBluePodsTerminated env)"
  unfolding ensureGreenReadyForBlueCleanup_def ensureBluePodsTerminated_def by auto

lemma stays_breakGlass [simp, intro]:
  "keeps stays (enterBreakGlassRollbackConsensusRepairFailed env job)"
  "keeps stays (enterBreakGlassRollbackCleanupPeerRemovalFailed env job)"
  unfolding enterBreakGlassRollbackConsensusRepairFailed_def enterBreakGlassRollbackCleanupPeerRemovalFailed_def
    enterBreakGlassForRollbackJobFailure_def
  by (auto intro!: keeps_fr_upd simp: core_def)

lemma stays_rollingBack [simp, intro]:
  "keeps stays (ensureBlueLeaderDuringRollback env)" "keeps stays (ensureGreenPeersRemovedDuringRollbackCleanup env)"
  "keeps stays (handlePhaseRollingBack env)"
  unfolding ensureBlueLeaderDuringRollback_def ensureGreenPeersRemovedDuringRollbackCleanup_def handlePhaseRollingBack_def
    ensureRollbackConsensusRepaired_def ensureRollbackExecutorJob_def
  by auto

end
