(* ===== verification/BlueGreen_Pass.thy ===== *)
theory BlueGreen_Pass
  imports BlueGreen_Frames
begin

text \<open>
  The composition of a reconcile pass, proved once.  \<open>ident\<close> is the identity of the upgrade a pass works on;
  everything the manager does before it aborts, resets, rolls back or runs a phase handler keeps it.  The
  locale \<open>pass_contract\<close> is the interface between the pass and a property of it: given what the property
  needs of the four effects that can change the upgrade, it holds of the whole pass, on every return and
  every error.
\<close>

section \<open>The identity of the upgrade\<close>

abbreviation phaseOf :: "Cluster \<Rightarrow> BlueGreenPhase" where
  "phaseOf c \<equiv> CurrentBlueGreenPhase (Some c)"

definition greenOf :: "Cluster \<Rightarrow> string" where
  "greenOf c = (case blueGreen c of None \<Rightarrow> [] | Some b \<Rightarrow> bgGreenRevision b)"

definition manualOf :: "Cluster \<Rightarrow> bool" where
  "manualOf c = (case blueGreen c of None \<Rightarrow> False | Some b \<Rightarrow> bgManualPromotionRequired b)"

record passIdent =
  piName :: string
  piUID :: string
  piSpec :: ClusterSpec
  piPhase :: BlueGreenPhase
  piGreen :: string
  piManual :: bool
  piBlue :: string

text \<open>In phase Idle the Blue identity is still being inferred and is not part of the upgrade.\<close>

definition ident :: "Cluster \<Rightarrow> passIdent" where
  "ident c = \<lparr> piName = clName c, piUID = clUID c, piSpec = clSpec c, piPhase = phaseOf c, piGreen = greenOf c,
     piManual = manualOf c, piBlue = (if phaseOf c = PhaseIdle then [] else StableVoterRevision (Some c)) \<rparr>"

abbreviation sameIdent :: "st \<Rightarrow> st \<Rightarrow> bool" where
  "sameIdent \<equiv> fr ident quiet"

definition canRollBack :: "BlueGreenPhase \<Rightarrow> bool" where
  "canRollBack p \<longleftrightarrow> p \<notin> {PhaseIdle, PhaseCleanup, PhaseRestoringReadReplicas, PhaseRollingBack, PhaseRollbackCleanup}"

lemmas ident_defs = ident_def greenOf_def manualOf_def StableVoterRevision_def CurrentBlueGreenPhase_def

lemma core_ident: "core c = core d \<Longrightarrow> ident c = ident d"
  by (auto simp: core_def bgCore_def ident_defs split: option.splits)

lemma stays_sameIdent: "stays s t \<Longrightarrow> sameIdent s t"
  by (auto simp: fr_def intro: core_ident)

lemma stays_keepsIdent [simp]: "keeps stays m \<Longrightarrow> keeps sameIdent m"
  by (erule keeps_mono) (rule stays_sameIdent)

lemma ident_mapBlueGreen:
  "(\<And>b. (bgPhase (g b), bgGreenRevision (g b), bgManualPromotionRequired (g b), bgPhase b \<noteq> PhaseIdle \<longrightarrow> bgBlueRevision (g b) = bgBlueRevision b)
     = (bgPhase b, bgGreenRevision b, bgManualPromotionRequired b, True)) \<Longrightarrow> ident (mapBlueGreen g c) = ident c"
  by (cases "blueGreen c") (auto simp: ident_defs)

lemma sameIdent_updBG [intro!]:
  "(\<And>b. (bgPhase (g b), bgGreenRevision (g b), bgManualPromotionRequired (g b), bgBlueRevision (g b))
     = (bgPhase b, bgGreenRevision b, bgManualPromotionRequired b, bgBlueRevision b)) \<Longrightarrow> keeps sameIdent (updBG g)"
  by (rule keeps_fr_upd) (rule ident_mapBlueGreen, simp)

lemma ident_unlocked: "unlocked c = unlocked d \<Longrightarrow> ident c = ident d"
  by (rule core_ident) (rule unlocked_sel)

lemma sameIdent_releaseLock [simp, intro]: "keeps sameIdent (releaseUpgradeLockIfHeld env)"
  by (rule keeps_mono [OF keeps_releaseLock]) (auto simp: fr_def intro: ident_unlocked)

lemma sameIdent_recover [simp, intro]: "keeps sameIdent (recoverGreenTarget env)"
  unfolding recoverGreenTarget_def Let_def by (auto split: option.split sum.split)

lemma PromoteBlueGreenTarget_ident [simp]:
  "bgPhase (PromoteBlueGreenTarget b) = bgPhase b" "bgGreenRevision (PromoteBlueGreenTarget b) = bgGreenRevision b"
  "bgManualPromotionRequired (PromoteBlueGreenTarget b) = bgManualPromotionRequired b"
  by (simp_all add: PromoteBlueGreenTarget_def Let_def)

lemma sameIdent_execution [simp, intro]: "keeps sameIdent (ensureExecutionState env)"
  unfolding ensureExecutionState_def by (auto split: option.split sum.split)

lemma stays_infer [simp, intro]: "keeps stays (InferActiveRevisionFromPods env)"
  unfolding InferActiveRevisionFromPods_def Let_def by (auto split: option.split)

text \<open>A status that did not exist is created in phase Idle, which is also the phase of a missing one.\<close>

lemma sameIdent_refresh:
  assumes "blueGreen (cl t) = Some b" shows "wp (refreshBlueGreenStatus env c b r i) (\<lambda>_. sameIdent t) (\<lambda>_. sameIdent t) t"
proof (cases "bgPhase b = PhaseIdle")
  case False
  have "keeps sameIdent (refreshBlueGreenStatus env c b r i)"
    unfolding refreshBlueGreenStatus_def using False by (auto split: option.split sum.split)
  then show ?thesis by (rule wp_keeps) simp_all
next
  case True
  with assms show ?thesis unfolding refreshBlueGreenStatus_def by (auto simp: wps fr_def ident_defs)
qed

lemma sameIdent_setup [simp, intro]: "keeps sameIdent (ensureBlueGreenStatus env)"
proof (rule keepsI)
  fix s :: st
  have new: "wp (case blueGreen (cl s) of
        None \<Rightarrow> updCl (setBlueGreen (Some (emptyBlueGreenStatus\<lparr>bgPhase := PhaseIdle, bgBlueRevision := r, bgBlueImage := i\<rparr>)))
      | Some b \<Rightarrow> refreshBlueGreenStatus env c b r' i') (\<lambda>_. sameIdent s) (\<lambda>_. sameIdent s) (t\<lparr>cl := cl s\<rparr>)"
    if "stays s t" for t r i r' i' c
  proof (cases "blueGreen (cl s)")
    case None
    then show ?thesis using that by (simp add: wps fr_def ident_defs emptyBlueGreenStatus_def)
  next
    case (Some b)
    have "wp (refreshBlueGreenStatus env c b r' i') (\<lambda>_. sameIdent (t\<lparr>cl := cl s\<rparr>)) (\<lambda>_. sameIdent (t\<lparr>cl := cl s\<rparr>)) (t\<lparr>cl := cl s\<rparr>)"
      by (rule sameIdent_refresh) (simp add: Some)
    then show ?thesis using Some that
      by (auto elim!: wp_mono simp: fr_def)
  qed
  have infer: "keeps sameCl (InferActiveRevisionFromPods env)"
    unfolding InferActiveRevisionFromPods_def Let_def by (auto split: option.split)
  have same: "stays s t \<and> t\<lparr>cl := cl s\<rparr> = t" if "sameCl s t" "stays s t" for t using that by (simp add: sameCl_def)
  have infer2: "wp (InferActiveRevisionFromPods env) Q E s"
    if "\<And>a t. stays s t \<Longrightarrow> Q a (t\<lparr>cl := cl s\<rparr>)" "\<And>e t. stays s t \<Longrightarrow> E e (t\<lparr>cl := cl s\<rparr>)" for Q E
  proof -
    have "wp (InferActiveRevisionFromPods env) (\<lambda>_ t. sameCl s t \<and> stays s t) (\<lambda>_ t. sameCl s t \<and> stays s t) s"
      by (rule wp_conj; rule wp_keeps [OF infer] wp_keeps [OF stays_infer]) simp_all
    then show ?thesis by (rule wp_mono) (metis that same)+
  qed
  show "wp (ensureBlueGreenStatus env) (\<lambda>_. sameIdent s) (\<lambda>_. sameIdent s) s"
    unfolding ensureBlueGreenStatus_def EnsureBlueGreenStatus_def Let_def
    by (simp add: wps fr.refl, intro conjI impI, rule infer2)
      (use new in \<open>simp_all split: prod.split\<close>)
qed

lemma sameIdent_acquire [simp, intro]: "keeps sameIdent (maybeAcquireUpgradeLock env a n)"
proof (rule keepsI)
  fix s :: st
  show "wp (maybeAcquireUpgradeLock env a n) (\<lambda>_. sameIdent s) (\<lambda>_. sameIdent s) s"
  proof (cases "\<not> a \<and> \<not> n")
    case True
    then show ?thesis by (simp add: maybeAcquireUpgradeLock_def wps fr.refl)
  next
    case False
    show ?thesis
      unfolding maybeAcquireUpgradeLock_def if_not_P [OF False] wp_bnd wp_gets wp_wrap_err
      by (rule wp_keeps_yields [OF keeps_acquire [of "\<lambda>c. c"] yields_acquire])
        (auto simp: fr_def wps emitWarningEvent_def dest!: ident_unlocked split: option.split prod.split)
  qed
qed

lemma sameIdent_validate [simp, intro]: "keeps sameIdent (validateIdleUpgradeInputs env)"
proof -
  have y: "yields (\<lambda>p. unlocked (fst p) = unlocked c) (ReleaseUpgradeLockOnErrorIfHeld api audit c True (Some e) msg)" for api c e msg
    unfolding ReleaseUpgradeLockOnErrorIfHeld_def
    by (auto intro!: yields_use [OF yields_attempt [OF yields_release]] split: sum.splits)
  have k: "keeps (fr V quiet) (ReleaseUpgradeLockOnErrorIfHeld (bgLockApi env) audit c True (Some e) msg)" for V :: "Cluster \<Rightarrow> Cluster" and c e msg
    unfolding ReleaseUpgradeLockOnErrorIfHeld_def by (auto split: sum.split)
  have "wp (releaseLockOnError env e) (\<lambda>_. sameIdent s) (\<lambda>_. sameIdent s) s" for e s
    unfolding releaseLockOnError_def wp_bnd wp_gets
    by (rule wp_keeps_yields [OF k [of "\<lambda>c. c"] y])
      (auto simp: fr_def wps dest!: ident_unlocked split: option.split prod.split)
  then have "keeps sameIdent (releaseLockOnError env e)" for e by (rule keepsI)
  then show ?thesis unfolding validateIdleUpgradeInputs_def Let_def by (auto split: option.split)
qed

lemma sameIdent_breakGlassAck [simp, intro]: "keeps sameIdent (handleBreakGlassAck env)"
proof -
  have "keeps sameIdent (updCl (setBreakGlass g))" for g
    by (rule keeps_fr_upd) (simp add: ident_defs)
  then show ?thesis unfolding handleBreakGlassAck_def by (auto split: option.split)
qed

lemma stays_checks [simp, intro]:
  "keeps stays (ensureSteadyReadReplicasScaledDown env)" "keeps stays (checkAbortConditions env)"
  "keeps stays handleUnexpectedPromoteRequest" "keeps stays (acknowledgeRollback v)"
  unfolding ensureSteadyReadReplicasScaledDown_def checkAbortConditions_def handleUnexpectedPromoteRequest_def
    acknowledgeRollback_def
  by (auto split: option.split sum.split)

section \<open>The contract of a pass\<close>

text \<open>
  \<open>ok0\<close> holds while the pass has not yet touched the upgrade, \<open>ok1\<close> when it may end.  The laws: quiet steps
  keep \<open>ok0\<close>, bookkeeping after the pass keeps \<open>ok1\<close>, and each effect that changes the upgrade leads from the
  one to the other.
\<close>

locale pass_contract =
  fixes env :: env and ok0 :: "st \<Rightarrow> bool" and ok1 :: "st \<Rightarrow> bool"
  assumes writer: "ok0 s \<Longrightarrow> singleWriter env"
    and quietly: "ok0 s \<Longrightarrow> sameIdent s t \<Longrightarrow> ok0 t"
    and finish: "ok0 s \<Longrightarrow> ok1 s"
    and bookkeeping: "ok1 s \<Longrightarrow> cl t = cl s \<Longrightarrow> trace t = trace s @ ev \<Longrightarrow> list_all quiet ev \<Longrightarrow> ok1 t"
    and abort: "ok0 s \<Longrightarrow> isEarlyPhase (phaseOf (cl s)) \<Longrightarrow> wp (abortUpgrade env) (\<lambda>_. ok1) (\<lambda>_. ok1) s"
    and idle: "ok0 s \<Longrightarrow> phaseOf (cl s) = PhaseIdle \<Longrightarrow> wp (ensureIdleAndCleanupGreen env) (\<lambda>_. ok1) (\<lambda>_. ok1) s"
    and rolls: "ok0 s \<Longrightarrow> canRollBack (phaseOf (cl s)) \<Longrightarrow> wp (triggerRollback env r) (\<lambda>_. ok1) (\<lambda>_. ok1) s"
    and handler: "ok0 s \<Longrightarrow> phaseHandler env (phaseOf (cl s)) = Some h \<Longrightarrow>
      wp (bnd h (applyOutcome env)) (\<lambda>_. ok1) (\<lambda>_. ok1) s"
begin

definition goesOn :: "'r option \<Rightarrow> st \<Rightarrow> bool" where
  "goesOn r t \<longleftrightarrow> (if r = None then ok0 t else ok1 t)"

lemma goesOn_simps [simp]: "goesOn None t \<longleftrightarrow> ok0 t" "goesOn (Some r) t \<longleftrightarrow> ok1 t"
  by (simp_all add: goesOn_def)

abbreviation ends :: "'a op \<Rightarrow> st \<Rightarrow> bool" where
  "ends m s \<equiv> wp m (\<lambda>_. ok1) (\<lambda>_. ok1) s"

abbreviation checks :: "'r option op \<Rightarrow> st \<Rightarrow> bool" where
  "checks m s \<equiv> wp m goesOn (\<lambda>_. ok1) s"

lemma checks_quiet: "keeps sameIdent m \<Longrightarrow> ok0 s \<Longrightarrow> checks m s"
  by (erule wp_keeps) (auto simp: goesOn_def intro: quietly finish)

lemma checks_stop: "checks m s \<Longrightarrow> (\<And>t. ok0 t \<Longrightarrow> checks k t) \<Longrightarrow> checks (unless_stop m k) s"
  unfolding wps by (erule wp_mono) (auto split: option.split)

lemma checks_first: "keeps sameIdent m \<Longrightarrow> ok0 s \<Longrightarrow> (\<And>a t. ok0 t \<Longrightarrow> checks (k a) t) \<Longrightarrow> checks (bnd m k) s"
  unfolding wp_bnd by (erule wp_keeps) (auto intro: quietly finish)

lemma checks_ends: "ends m s \<Longrightarrow> checks (bnd m (\<lambda>x. ret (Some (f x)))) s"
  unfolding wp_bnd by (erule wp_mono) (simp_all add: wps)

lemma ends_first: "keeps sameIdent m \<Longrightarrow> ok0 s \<Longrightarrow> (\<And>a t. ok0 t \<Longrightarrow> ends (k a) t) \<Longrightarrow> ends (bnd m k) s"
  unfolding wp_bnd by (erule wp_keeps) (auto intro: quietly finish)

lemma ends_unless_done: "checks m s \<Longrightarrow> (\<And>t. ok0 t \<Longrightarrow> ends k t) \<Longrightarrow> ends (unless_done m k) s"
  unfolding wps by (erule wp_mono) (auto split: option.split)

lemma ends_wrap: "ends m s \<Longrightarrow> ends (bnd (wrap_err f m) (\<lambda>_. ret r)) s"
  unfolding wp_bnd wp_wrap_err by (erule wp_mono) (simp_all add: wps)

lemma refl0: "ok0 s \<Longrightarrow> ends (ret a) s" "ok0 s \<Longrightarrow> ends (failwith e) s"
  by (simp_all add: wps finish)

lemma ok0_phase: "sameIdent s t \<Longrightarrow> phaseOf (cl t) = phaseOf (cl s)"
  by (simp add: fr_def ident_def)

lemma ends_rollbackOrAbort:
  assumes "ok0 s" and "canRollBack (phaseOf (cl s)) \<or> isPastPointOfNoReturn (phaseOf (cl s))"
  shows "ends (triggerRollbackOrAbort env r) s"
proof (cases "blueGreen (cl s)")
  case None
  with assms show ?thesis by (simp add: triggerRollbackOrAbort_def wps finish)
next
  case (Some b)
  then have p: "phaseOf (cl s) = bgPhase b" by (simp add: CurrentBlueGreenPhase_def)
  let ?t = "s\<lparr>trace := trace s @ ev\<rparr>"
  have ok: "ok0 (s\<lparr>trace := trace s @ ev\<rparr>)" if "list_all quiet ev" for ev
    by (rule quietly [OF assms(1)]) (use that in \<open>simp add: fr_def\<close>)
  show ?thesis
    using assms(2) Some p ok unfolding triggerRollbackOrAbort_def refuseRollback_def
    by (auto simp: wp_withBG wp_bnd wp_gets wp_state audit_def emitWarningEvent_def wp_ret wp_wrap_err
        intro!: finish wp_mono [OF abort] rolls)
qed

lemma checks_noUpgrade: "ok0 s \<Longrightarrow> checks (handleNoUpgradeNeeded env) s"
  unfolding handleNoUpgradeNeeded_def wp_bnd [of "gets cl"] wp_gets
  by (auto simp: wp_ret intro!: checks_ends idle)

lemma checks_drift: "ok0 s \<Longrightarrow> checks (maybeHandleTargetRevisionDrift env) s"
  unfolding maybeHandleTargetRevisionDrift_def wp_bnd [of "gets cl"] wp_gets
  by (auto simp: wp_ret canRollBack_def isPastPointOfNoReturn_def CurrentBlueGreenPhase_def split: option.split
      intro!: checks_ends ends_rollbackOrAbort)

lemma checks_abort:
  assumes "ok0 s" shows "checks (maybeAbortUpgrade env) s"
proof -
  have "wp (checkAbortConditions env) (\<lambda>a t. a \<longrightarrow> isEarlyPhase (phaseOf (cl s))) (\<lambda>_ _. True) s"
    unfolding checkAbortConditions_def wp_bnd [of "gets cl"] wp_gets
    by (auto simp: wp_ret wp_bnd CurrentBlueGreenPhase_def split: option.split
        intro!: wp_keeps [OF fr.keeps_wrap_err [OF stays_getPods]])
  moreover have "wp (checkAbortConditions env) (\<lambda>_. sameIdent s) (\<lambda>_. sameIdent s) s"
    by (rule wp_keeps [OF stays_keepsIdent [OF stays_checks(2)]])
  ultimately have "wp (checkAbortConditions env) (\<lambda>a t. (a \<longrightarrow> isEarlyPhase (phaseOf (cl s))) \<and> sameIdent s t)
      (\<lambda>_ t. True \<and> sameIdent s t) s" by (rule wp_conj)
  then show ?thesis
    unfolding maybeAbortUpgrade_def wp_bnd wp_wrap_err
    by (rule wp_mono) (use assms in \<open>auto simp: wp_ret wp_bnd wp_wrap_err wp_if ok0_phase intro: quietly finish
      intro!: wp_mono [OF abort]\<close>)
qed

lemma checks_prepare:
  assumes "ok0 s" shows "checks (prepareBlueGreenReconcile env) s"
proof -
  have sa: "keeps sameIdent (wrap_err f (callU g EnsureServiceAccountE))" for f g
    by (auto intro!: keeps_fr_call)
  note hook = checks_quiet [OF stays_keepsIdent [OF stays_outsideSyncing [OF writer [OF assms]]]]
  note promote = stays_keepsIdent [OF stays_checks(3)]
  note drain = checks_quiet [OF stays_keepsIdent [OF stays_checks(1)]]
  have halt: "checks (if b then ret (Some r) else m) t" if "ok0 t" "\<not> b \<Longrightarrow> checks m t" for b r m t
    using that by (simp add: wps finish)
  show ?thesis
    unfolding prepareBlueGreenReconcile_def
    by (intro checks_first halt checks_stop hook checks_quiet [OF sameIdent_acquire] checks_noUpgrade
        checks_drift checks_abort sa promote sameIdent_setup sameIdent_validate fr.keeps_pure assms)
      (auto intro!: checks_first checks_stop checks_quiet [OF sameIdent_acquire] checks_noUpgrade
        checks_drift checks_abort drain simp: wp_ret)
qed

lemma ends_stateMachine:
  assumes "ok0 s" shows "ends (executeStateMachine env) s"
proof (cases "blueGreen (cl s)")
  case None
  with assms show ?thesis by (simp add: executeStateMachine_def wps finish)
next
  case (Some b)
  then have p: "phaseOf (cl s) = bgPhase b" by (simp add: CurrentBlueGreenPhase_def)
  have acks: "wp (modify (\<lambda>s. s\<lparr>acks := f s\<rparr>)) (\<lambda>_. ends (ret r)) E t" if "ok1 t" for t f E and r :: Result
    using that by (simp add: wps bookkeeping [where ev = "[]"])
  show ?thesis
  proof (cases "phaseHandler env (bgPhase b)")
    case None
    with Some assms show ?thesis by (simp add: executeStateMachine_def wps finish)
  next
    case (Some h)
    have "wp h (\<lambda>out t. ends (applyOutcome env out) t) (\<lambda>_. ok1) s"
      using handler [OF assms, of h] Some p by (simp add: wp_bnd)
    then have "ends (bnd h (\<lambda>out. bnd (applyOutcome env out) (\<lambda>result.
        bnd (modify (\<lambda>s. s\<lparr>acks := Merge (acks s) (poAcks out)\<rparr>)) (\<lambda>_. ret result)))) s"
      unfolding wp_bnd by (rule wp_mono) (auto elim!: wp_mono intro!: acks simp: wp_ret)
    with Some \<open>blueGreen (cl s) = Some b\<close> show ?thesis by (simp add: executeStateMachine_def wp_withBG)
  qed
qed

lemma emitAll_metrics:
  "wp (emitAll (map MetricE ms)) (\<lambda>_ t. cl t = cl s \<and> (\<exists>ev. trace t = trace s @ ev \<and> list_all quiet ev)) E s"
proof (induction ms arbitrary: s)
  case (Cons m ms)
  show ?case
    by (simp add: wp_bnd wp_state, rule wp_mono [OF Cons]) auto
qed (simp add: wps)

lemma ends_metrics: "ok1 s \<Longrightarrow> ends (recordBlueGreenMetrics env p b) s"
  unfolding recordBlueGreenMetrics_def
  by (auto simp: wp_bnd wp_state wp_gets wp_modify split: prod.split
      intro!: wp_mono [OF emitAll_metrics] intro: bookkeeping)

lemma ends_reconcileBlueGreen:
  assumes "ok0 s" shows "ends (reconcileBlueGreen env) s"
proof -
  have pass: "ends (unless_done (prepareBlueGreenReconcile env) (executeStateMachine env)) s"
    by (rule ends_unless_done [OF checks_prepare [OF assms] ends_stateMachine])
  have after: "ends (bnd (recordBlueGreenMetrics env q b) (\<lambda>_. lift_res r)) t" if "ok1 t" for q b r t
    unfolding wp_bnd by (rule wp_mono [OF ends_metrics [OF that]]) (auto simp: wps split: sum.split)
  have "ends (deferring (recordBlueGreenMetrics env q b)
      (unless_done (prepareBlueGreenReconcile env) (executeStateMachine env))) s" for q b
    unfolding deferring_def wp_bnd [of "attempt _"] wp_attempt by (rule wp_mono [OF pass]) (auto intro: after)
  moreover have "ends (bnd (emitAll (map MetricE ms)) (\<lambda>_. ret r)) s" for ms r
    unfolding wp_bnd by (rule wp_mono [OF emitAll_metrics]) (auto simp: wps intro: bookkeeping finish assms)
  ultimately show ?thesis
    using assms unfolding reconcileBlueGreen_def wp_bnd [of "gets cl"] wp_gets
    by (auto simp: wp_ret finish simp del: emitAll.simps list.map)
qed

lemma checks_manualRollback:
  assumes "ok0 s" shows "checks (handleManualRollbackRequest env) s"
proof (cases "blueGreen (cl s)")
  case None
  note ack = checks_first [OF stays_keepsIdent [OF stays_checks(4)] assms]
  show ?thesis using None assms unfolding handleManualRollbackRequest_def wp_bnd [of "gets cl"] wp_gets Let_def
    by (auto simp: wp_ret intro!: ack)
next
  case (Some b)
  then have p: "phaseOf (cl s) = bgPhase b" by (simp add: CurrentBlueGreenPhase_def)
  note ack = checks_first [OF stays_keepsIdent [OF stays_checks(4)] assms]
  note warn = checks_first [OF stays_keepsIdent [OF stays_calls(11)]]
  have ack1: "wp (bnd (acknowledgeRollback v) (\<lambda>_. ret (Some x))) goesOn (\<lambda>_. ok1) t" if "ok1 t" for v x t
    using that by (simp add: wps acknowledgeRollback_def bookkeeping [where ev = "[]"])
  have roll: "checks (bnd (triggerRollback env r) (\<lambda>x. bnd (acknowledgeRollback v) (\<lambda>_. ret (Some x)))) s"
    if "canRollBack (bgPhase b)" for r v
    unfolding wp_bnd [of "triggerRollback env r"]
    by (rule wp_mono [OF rolls [OF assms]]) (use that p in \<open>auto intro: ack1\<close>)
  have none: "checks (bnd (wrap_err f (abortUpgrade env)) (\<lambda>_. bnd (acknowledgeRollback v) (\<lambda>_. ret (Some x)))) s"
    if "bgGreenRevision b = []" for f v x
    using that Some ack1 [OF finish [OF assms], of v x] by (simp add: abortUpgrade_def wps)
  show ?thesis
    using Some p assms roll none unfolding handleManualRollbackRequest_def wp_bnd [of "gets cl"] wp_gets Let_def
    by (auto simp: wp_ret canRollBack_def isPastPointOfNoReturn_def intro!: ack warn)
qed

lemma ends_reconcile:
  assumes "ok0 s" shows "ends (reconcile env) s"
proof -
  have plugins: "ends (bnd (gets cl) (\<lambda>c. case f c of Some err \<Rightarrow> failwith err | None \<Rightarrow> reconcileBlueGreen env)) t"
    if "ok0 t" for t f
    using that ends_reconcileBlueGreen [OF that] by (simp add: wps finish split: option.split)
  show ?thesis
    unfolding reconcile_def
    by (intro ends_unless_done ends_first checks_quiet [OF sameIdent_breakGlassAck] sameIdent_execution
        checks_manualRollback plugins assms)
qed

text \<open>The state a pass leaves, from a state in which it may start.\<close>

lemma Reconcile_ok:
  assumes "ok0 (s\<lparr>acks := noAcks\<rparr>)" shows "ok1 (snd (snd (Reconcile env s)))"
  using ends_reconcile [OF assms] by (simp add: Reconcile_def wp_snd split: prod.split) (metis snd_conv)

end

end
