(* ===== verification/BlueGreen_Moves.thy ===== *)
theory BlueGreen_Moves
  imports BlueGreen_Pass
begin

text \<open>
  The phase graph of a blue/green upgrade.  \<open>forward\<close> is the regular successor of a phase, \<open>mayMove\<close> the
  abstract specification of what one pass may do to the phase; the theorem says that the whole pass, with
  every check, request, failure and error path, refines it.
\<close>

section \<open>The abstract phase machine\<close>

definition forward :: "BlueGreenPhase \<Rightarrow> BlueGreenPhase option" where
  "forward p = (case p of
      PhaseIdle \<Rightarrow> Some PhaseDeployingGreen
    | PhaseDeployingGreen \<Rightarrow> Some PhaseJoiningMesh
    | PhaseJoiningMesh \<Rightarrow> Some PhaseSyncing
    | PhaseSyncing \<Rightarrow> Some PhasePromoting
    | PhasePromoting \<Rightarrow> Some PhaseDemotingBlue
    | PhaseDemotingBlue \<Rightarrow> Some PhaseCleanup
    | PhaseCleanup \<Rightarrow> Some PhaseRestoringReadReplicas
    | PhaseRestoringReadReplicas \<Rightarrow> None
    | PhaseRollingBack \<Rightarrow> Some PhaseRollbackCleanup
    | PhaseRollbackCleanup \<Rightarrow> None
    | OtherPhase _ \<Rightarrow> None)"

definition canFinish :: "BlueGreenPhase \<Rightarrow> bool" where
  "canFinish p \<longleftrightarrow> isEarlyPhase p \<or> p \<in> {PhaseCleanup, PhaseRestoringReadReplicas, PhaseRollbackCleanup}"

definition mayMove :: "BlueGreenPhase \<Rightarrow> BlueGreenPhase \<Rightarrow> bool" where
  "mayMove p q \<longleftrightarrow> q = p \<or> forward p = Some q \<or> (canRollBack p \<and> q = PhaseRollingBack) \<or> (canFinish p \<and> q = PhaseIdle)"

text \<open>What a handler may answer.\<close>

definition mayYield :: "BlueGreenPhase \<Rightarrow> phaseOutcome \<Rightarrow> bool" where
  "mayYield p out \<longleftrightarrow> poKind out \<noteq> KAbort \<and> (poKind out = KAdvance \<longrightarrow> forward p = Some (poNextPhase out))
     \<and> (poKind out = KRollback \<longrightarrow> canRollBack p \<or> isPastPointOfNoReturn p)"

abbreviation samePhase :: "st \<Rightarrow> st \<Rightarrow> bool" where
  "samePhase \<equiv> fr phaseOf (\<lambda>_. True)"

text \<open>An outcome that only waits.\<close>

definition waits :: "phaseOutcome \<Rightarrow> bool" where
  "waits out \<longleftrightarrow> poKind out \<in> {KRequeueAfter, KHold, KDone}"

lemma waits_mayYield [simp]: "waits out \<Longrightarrow> mayYield p out"
  by (auto simp: waits_def mayYield_def)

lemma waits_outcomes [simp]: "waits (requeueAfterOutcome d)" "waits hold" "waits doneOutcome"
  by (simp_all add: waits_def)

lemma mayYield_advance [simp]: "forward p = Some q \<Longrightarrow> mayYield p (advance q)"
  by (simp add: mayYield_def)

section \<open>Outcomes of the handlers\<close>

lemma core_phase: "core c = core d \<Longrightarrow> phaseOf c = phaseOf d"
  by (auto simp: core_def bgCore_def CurrentBlueGreenPhase_def split: option.splits)

lemma stays_samePhase: "stays s t \<Longrightarrow> samePhase s t"
  by (auto simp: fr_def intro: core_phase simp: list_all_iff)

lemma executorDecision_waits:
  "executorJobDecision ar n mx r msg = Inr d \<Longrightarrow> \<not> edCompleted d \<Longrightarrow> waits (edOutcome d) \<or> poKind (edOutcome d) = KRollback"
  by (auto simp: executorJobDecision_def Let_def split: option.splits if_splits)

lemma yields_runExecutorJobStep:
  "canRollBack p \<or> isPastPointOfNoReturn p \<Longrightarrow> yields (orNone (mayYield p)) (runExecutorJobStep env a msg)"
  unfolding runExecutorJobStep_def
  by (auto split: option.split dest!: executorDecision_waits simp: mayYield_def waits_def)

lemma yields_Idle: "yields (mayYield PhaseIdle) (handlePhaseIdle env)"
proof -
  have "yields (orNone (mayYield PhaseIdle)) (ensureBlueGreenPreUpgradeSnapshotComplete env)"
    unfolding ensureBlueGreenPreUpgradeSnapshotComplete_def withUpgrade_def Let_def by (auto split: option.split)
  then show ?thesis unfolding handlePhaseIdle_def Let_def by (auto simp: forward_def)
qed

lemma yields_waits: "yields (orNone waits) m \<Longrightarrow> yields (orNone (mayYield p)) m"
  by (erule yields_weaken) (auto elim: option.pred_mono_strong)

lemma yields_Deploying: "yields (mayYield PhaseDeployingGreen) (handlePhaseDeployingGreen env)"
proof -
  have "yields (orNone waits) (ensureBlueClusterReadyForGreen env b)" for b
    unfolding ensureBlueClusterReadyForGreen_def by auto
  moreover have "yields waits (createGreenStatefulSet env b g)" for b g
    unfolding createGreenStatefulSet_def by (auto split: prod.split)
  then have "waits out" if "fst (createGreenStatefulSet env b g s) = Inr out" for b g s out
    using that by (metis yieldsD)
  then have "yields (orNone waits) (ensureGreenStatefulSetReady env b g)" for b g
    unfolding ensureGreenStatefulSetReady_def waitForGreenPodsReady_def
    by (auto split: option.split)
  ultimately show ?thesis
    unfolding handlePhaseDeployingGreen_def
    by (auto simp: forward_def intro!: yields_waits)
qed

lemma yields_Joining: "yields (mayYield PhaseJoiningMesh) (handlePhaseJoiningMesh env)"
  unfolding handlePhaseJoiningMesh_def
  by (auto intro!: yields_runExecutorJobStep simp: canRollBack_def forward_def)

lemma yields_Promoting: "yields (mayYield PhasePromoting) (handlePhasePromoting env)"
  unfolding handlePhasePromoting_def
  by (auto intro!: yields_runExecutorJobStep simp: canRollBack_def forward_def)

lemma yields_minSync: "yields (orNone (mayYield p)) (ensureMinimumSyncDuration env)"
  unfolding ensureMinimumSyncDuration_def withUpgrade_def Let_def by (auto split: option.split)

lemma hookDecision_mayYield:
  "prePromotionHookDecision ar j msg = Inr d \<Longrightarrow> canRollBack p \<Longrightarrow> orNone (mayYield p) d"
  by (auto simp: prePromotionHookDecision_def validationHookDecision_def mayYield_def split: option.splits if_splits)

lemma yields_prePromotion: "canRollBack p \<Longrightarrow> yields (orNone (mayYield p)) (ensurePrePromotionHookComplete env)"
  unfolding ensurePrePromotionHookComplete_def withUpgrade_def Let_def
  by (auto split: option.split bool.split prod.split) (erule (1) hookDecision_mayYield)+

lemma yields_Syncing: "yields (mayYield PhaseSyncing) (handlePhaseSyncing env)"
  unfolding handlePhaseSyncing_def decideSyncPromotion_def
  by (auto intro!: yields_runExecutorJobStep yields_minSync yields_prePromotion
      simp: canRollBack_def forward_def mayYield_def [of PhaseSyncing "advance PhasePromoting\<lparr>poAcks := a\<rparr>" for a])

lemma yields_Demoting: "yields (mayYield PhaseDemotingBlue) (handlePhaseDemotingBlue env)"
proof -
  have "yields (orNone (mayYield PhaseDemotingBlue)) (waitForGreenLeaderAfterBlueDemotion env)"
    unfolding waitForGreenLeaderAfterBlueDemotion_def by auto
  moreover have "mayYield PhaseDemotingBlue out"
    if "fst (runExecutorJobStep env a m s) = Inr (Some out)" for a m s out
    using yieldsD [OF yields_runExecutorJobStep [of PhaseDemotingBlue env a m] that] by (simp add: canRollBack_def)
  ultimately show ?thesis
    unfolding handlePhaseDemotingBlue_def by (auto simp: forward_def split: option.split)
qed

lemma yields_RollingBack: "yields (mayYield PhaseRollingBack) (handlePhaseRollingBack env)"
  unfolding handlePhaseRollingBack_def ensureRollbackConsensusRepaired_def ensureRollbackExecutorJob_def
    ensureBlueLeaderDuringRollback_def
  by (auto simp: forward_def)

section \<open>What a pass does to the phase\<close>

lemma stays_keepsPhase [simp]: "keeps stays m \<Longrightarrow> keeps samePhase m"
  by (erule keeps_mono) (rule stays_samePhase)

lemma phase_mapBlueGreen: "(\<And>b. bgPhase (g b) = bgPhase b) \<Longrightarrow> phaseOf (mapBlueGreen g c) = phaseOf c"
  by (cases "blueGreen c") (simp_all add: CurrentBlueGreenPhase_def)

lemma samePhase_updBG [intro!]: "(\<And>b. bgPhase (g b) = bgPhase b) \<Longrightarrow> keeps samePhase (updBG g)"
  by (rule keeps_fr_upd) (rule phase_mapBlueGreen)

lemma samePhase_start [simp, intro]: "keeps samePhase (recordBlueGreenUpgradeStart env)"
  unfolding recordBlueGreenUpgradeStart_def by (auto intro!: keeps_fr_upd(1))

lemma samePhase_Idle [simp, intro]: "keeps samePhase (handlePhaseIdle env)"
  unfolding handlePhaseIdle_def Let_def by (auto simp: CaptureBlueGreenTarget_def)

lemma phase_Finalize [simp]: "phaseOf (FinalizeBlueGreenTerminalState n p c) = PhaseIdle"
  by (simp add: CurrentBlueGreenPhase_def split: option.split)

lemma phase_unlocked: "unlocked c = unlocked d \<Longrightarrow> phaseOf c = phaseOf d"
  by (rule core_phase) (rule unlocked_sel)

lemma samePhase_releaseLock [simp, intro]: "keeps samePhase (releaseUpgradeLockIfHeld env)"
  by (rule keeps_mono [OF keeps_releaseLock]) (auto simp: fr_def list_all_iff intro: phase_unlocked)

lemma wp_finalize:
  "(\<And>t. phaseOf (cl t) = PhaseIdle \<Longrightarrow> Q () t) \<Longrightarrow> (\<And>e t. phaseOf (cl t) = PhaseIdle \<Longrightarrow> E e t)
    \<Longrightarrow> wp (finalizeUpgradeTerminalState env p) Q E s"
  unfolding finalizeUpgradeTerminalState_def
  by (simp add: wps, rule wp_keeps [OF samePhase_releaseLock]) (auto simp: fr_def)

text \<open>A relation that allows the phase to fall back to Idle.\<close>

definition toIdle :: "st \<Rightarrow> st \<Rightarrow> bool" where
  "toIdle s t \<longleftrightarrow> phaseOf (cl t) = phaseOf (cl s) \<or> phaseOf (cl t) = PhaseIdle"

interpretation toIdle: frame toIdle
  by unfold_locales (auto simp: toIdle_def)

lemma samePhase_toIdle [simp]: "keeps samePhase m \<Longrightarrow> keeps toIdle m"
  by (erule keeps_mono) (auto simp: fr_def toIdle_def)

lemma toIdle_finalize [simp, intro]: "keeps toIdle (finalizeUpgradeTerminalState env p)"
  by (rule keepsI) (auto intro!: wp_finalize simp: toIdle_def)

lemma sameCl_keepsPhase [simp]: "keeps sameCl m \<Longrightarrow> keeps samePhase m"
  by (erule keeps_mono) (auto simp: fr_def sameCl_def list_all_iff)

lemma sameCl_ignoreNotFound [simp, intro]: "keeps sameCl m \<Longrightarrow> keeps sameCl (ignoreNotFound m)"
  unfolding ignoreNotFound_def by (auto split: sum.split)

lemma sameCl_deleteDiscarded [simp, intro]: "keeps sameCl (deleteDiscardedClaims env ps)"
  by (induction ps) auto

lemma sameCl_deletions [simp, intro]:
  "keeps sameCl (cleanupGreenStatefulSet env)" "keeps sameCl (retireRollbackGreenData env)"
  unfolding cleanupGreenStatefulSet_def retireRollbackGreenData_def Let_def
  by (auto split: option.split sum.split)

lemma samePhase_deleteBlue [simp, intro]: "keeps samePhase (ensureBlueStatefulSetDeleted env)"
  unfolding ensureBlueStatefulSetDeleted_def by (auto split: sum.split)

lemma toIdle_abort [simp, intro]: "keeps toIdle (abortUpgrade env)"
  unfolding abortUpgrade_def by (auto split: option.split)

text \<open>The guards of a handler: each one stops with a bounded outcome or leaves the phase for the next.\<close>

lemma wp_guard:
  assumes "keeps samePhase m" and "yields (orNone S) m"
    and "\<And>out t. samePhase s t \<Longrightarrow> S out \<Longrightarrow> Q out t" and "\<And>t. samePhase s t \<Longrightarrow> wp k Q E t"
    and "\<And>e t. samePhase s t \<Longrightarrow> E e t"
  shows "wp (unless_done m k) Q E s"
  unfolding wps by (rule wp_keeps_yields [OF assms(1,2)]) (use assms in \<open>auto split: option.splits\<close>)

text \<open>
  After a handler: either the phase is the one it ran in and the outcome is one of that phase, or the
  upgrade has been finalized and the outcome only waits.
\<close>

definition handled :: "BlueGreenPhase \<Rightarrow> phaseOutcome \<Rightarrow> st \<Rightarrow> bool" where
  "handled p out t \<longleftrightarrow> (phaseOf (cl t) = p \<and> mayYield p out) \<or> (canFinish p \<and> phaseOf (cl t) = PhaseIdle \<and> waits out)"

definition failedIn :: "BlueGreenPhase \<Rightarrow> go_error \<Rightarrow> st \<Rightarrow> bool" where
  "failedIn p e t \<longleftrightarrow> phaseOf (cl t) = p \<or> (canFinish p \<and> phaseOf (cl t) = PhaseIdle)"

lemma handler_simple:
  "keeps samePhase h \<Longrightarrow> yields (mayYield p) h \<Longrightarrow> phaseOf (cl s) = p \<Longrightarrow> wp h (handled p) (failedIn p) s"
  by (rule wp_keeps_yields [where S = "mayYield p" and R = samePhase]) (auto simp: handled_def failedIn_def fr_def)

lemma guard_handled:
  assumes "keeps samePhase m" and "yields (orNone (mayYield p)) m" and "phaseOf (cl s) = p"
    and "\<And>t. phaseOf (cl t) = p \<Longrightarrow> wp k (handled p) (failedIn p) t"
  shows "wp (unless_done m k) (handled p) (failedIn p) s"
  by (rule wp_guard [OF assms(1,2)]) (use assms in \<open>auto simp: handled_def failedIn_def fr_def\<close>)

lemma required_handled:
  "phaseOf (cl s) = p \<Longrightarrow> wp k (handled p) (failedIn p) s \<Longrightarrow> wp (bgStatusRequired k) (handled p) (failedIn p) s"
  by (simp add: bgStatusRequired_def wps failedIn_def split: option.split)

lemma wp_finalizeCompleted:
  assumes "canFinish p" and "phaseOf (cl s) = p"
  shows "wp (finalizeCompletedBlueGreenUpgrade env promote) (handled p) (failedIn p) s"
  unfolding finalizeCompletedBlueGreenUpgrade_def wps
  using assms by (auto simp: failedIn_def handled_def wps audit_def emitNormalEvent_def split: option.split intro!: wp_finalize)

lemma handler_Cleanup:
  assumes "phaseOf (cl s) = PhaseCleanup"
  shows "wp (handlePhaseCleanup env) (handled PhaseCleanup) (failedIn PhaseCleanup) s"
proof -
  have fin: "canFinish PhaseCleanup" by (simp add: canFinish_def)
  have "phaseOf (mapBlueGreen beginSteadyReadReplicaRestore c) = phaseOf c" for c
    by (rule phase_mapBlueGreen)
      (simp add: beginSteadyReadReplicaRestore_def maybeResetBlueGreenRollbackState_def PromoteBlueGreenTarget_def Let_def)
  then have complete: "wp (completeBlueGreenUpgrade env) (handled PhaseCleanup) (failedIn PhaseCleanup) t"
    if "phaseOf (cl t) = PhaseCleanup" for t
    using that wp_finalizeCompleted [OF fin that] unfolding completeBlueGreenUpgrade_def
    by (simp add: wps handled_def forward_def mayYield_def)
  have y: "yields (orNone waits) (ensureGreenReadyForBlueCleanup env)"
    "yields (orNone waits) (ensureBlueStatefulSetDeleted env)" "yields (orNone waits) (ensureBluePodsTerminated env)"
    unfolding ensureGreenReadyForBlueCleanup_def ensureBlueStatefulSetDeleted_def ensureBluePodsTerminated_def
    by (auto split: sum.split)
  have r: "yields (orNone (mayYield PhaseCleanup)) (runExecutorJobStep env a m)" for a m
    by (rule yields_runExecutorJobStep) (simp add: isPastPointOfNoReturn_def)
  show ?thesis
    unfolding handlePhaseCleanup_def
    by (intro required_handled guard_handled complete y [THEN yields_waits] r assms) simp_all
qed

lemma handler_Restoring:
  assumes "phaseOf (cl s) = PhaseRestoringReadReplicas"
  shows "wp (handlePhaseRestoringReadReplicas env) (handled PhaseRestoringReadReplicas) (failedIn PhaseRestoringReadReplicas) s"
  using assms wp_finalizeCompleted [OF _ assms, of env False] unfolding handlePhaseRestoringReadReplicas_def
  by (auto simp: wps handled_def canFinish_def mayYield_def zeroOutcome_def)

lemma handler_RollbackCleanup:
  assumes "phaseOf (cl s) = PhaseRollbackCleanup"
  shows "wp (handlePhaseRollbackCleanup env) (handled PhaseRollbackCleanup) (failedIn PhaseRollbackCleanup) s"
proof -
  let ?p = PhaseRollbackCleanup
  have "wp (completeBlueGreenRollback env r) (handled ?p) (failedIn ?p) t" for t r
    unfolding completeBlueGreenRollback_def wps
    by (auto simp: failedIn_def handled_def canFinish_def wps audit_def intro!: wp_finalize)
  note complete = this
  have retire: "wp (bnd (wrap_err f (retireRollbackGreenData env)) (\<lambda>retired.
        if \<not> retired then ret (requeueAfterOutcome requeueShort)
        else withBG (\<lambda>b. completeBlueGreenRollback env (bgRollbackReason b)))) (handled ?p) (failedIn ?p) t"
    if "phaseOf (cl t) = ?p" for t f
    unfolding wps by (rule wp_keeps [OF sameCl_deletions(2)])
      (use that complete in \<open>auto simp: sameCl_def failedIn_def handled_def wps split: option.split\<close>)
  have "yields (orNone waits) (ensureGreenPeersRemovedDuringRollbackCleanup env)"
    "yields (orNone waits) (ensureBlueLeaderDuringRollback env)"
    unfolding ensureGreenPeersRemovedDuringRollbackCleanup_def ensureRollbackExecutorJob_def ensureBlueLeaderDuringRollback_def
    by auto
  note y = this [THEN yields_waits]
  show ?thesis
    unfolding handlePhaseRollbackCleanup_def
    by (intro required_handled guard_handled retire y assms) simp_all
qed

lemma handler_handled:
  assumes "singleWriter env" and "phaseHandler env p = Some h" and "phaseOf (cl s) = p"
  shows "wp h (handled p) (failedIn p) s"
  using assms(2,3) handler_Cleanup handler_Restoring handler_RollbackCleanup stays_syncing [OF assms(1)]
  by (cases p) (auto simp: phaseHandler_def
      intro: handler_simple yields_Idle yields_Deploying yields_Joining yields_Syncing yields_Promoting yields_Demoting
        yields_RollingBack)

section \<open>The state machine and the checks before it\<close>

abbreviation movesFrom :: "BlueGreenPhase \<Rightarrow> st \<Rightarrow> bool" where
  "movesFrom p t \<equiv> mayMove p (phaseOf (cl t))"

lemma wp_abort:
  assumes "phaseOf (cl s) = p" and "canFinish p"
  shows "wp (abortUpgrade env) (\<lambda>_. movesFrom p) (\<lambda>_. movesFrom p) s"
  by (rule wp_keeps [OF toIdle_abort]) (use assms in \<open>auto simp: toIdle_def mayMove_def\<close>)

lemma wp_triggerRollback:
  assumes "phaseOf (cl s) = p" and "canRollBack p"
  shows "wp (triggerRollback env r) (\<lambda>_. movesFrom p) (\<lambda>_. movesFrom p) s"
  using assms unfolding triggerRollback_def
  by (auto simp: wps audit_def emitWarningEvent_def CurrentBlueGreenPhase_def BeginBlueGreenRollback_def mayMove_def
      split: option.splits)

lemma wp_triggerRollbackOrAbort:
  assumes "phaseOf (cl s) = p" and "canRollBack p \<or> isPastPointOfNoReturn p"
  shows "wp (triggerRollbackOrAbort env r) (\<lambda>_. movesFrom p) (\<lambda>_. movesFrom p) s"
proof (cases "blueGreen (cl s)")
  case None
  with assms show ?thesis by (simp add: triggerRollbackOrAbort_def wps mayMove_def)
next
  case (Some b)
  then have p: "bgPhase b = p" using assms by (simp add: CurrentBlueGreenPhase_def)
  with Some assms show ?thesis
    by (auto simp: triggerRollbackOrAbort_def refuseRollback_def wps audit_def emitWarningEvent_def
        mayMove_def [of "phaseOf (cl s)" "phaseOf (cl s)"] canFinish_def
        intro!: wp_triggerRollback wp_mono [OF wp_abort])
qed

lemma wp_applyOutcome:
  assumes "handled p out s"
  shows "wp (applyOutcome env out) (\<lambda>_. movesFrom p) (\<lambda>_. movesFrom p) s"
proof -
  have stay: "movesFrom p s" using assms by (auto simp: handled_def mayMove_def)
  show ?thesis
  proof (cases "poKind out")
    case KAdvance
    then have "phaseOf (cl s) = p" "forward p = Some (poNextPhase out)"
      using assms by (auto simp: handled_def waits_def mayYield_def)
    with KAdvance show ?thesis
      by (auto simp: applyOutcome_def validateOutcome_def LogPhaseTransition_def audit_def wps mayMove_def
          CurrentBlueGreenPhase_def split: option.split)
  next
    case KRollback
    then have "phaseOf (cl s) = p" "canRollBack p \<or> isPastPointOfNoReturn p"
      using assms by (auto simp: handled_def waits_def mayYield_def)
    with KRollback stay show ?thesis
      by (auto simp: applyOutcome_def validateOutcome_def wps intro!: wp_triggerRollbackOrAbort)
  qed (use assms stay in \<open>auto simp: applyOutcome_def validateOutcome_def wps handled_def mayYield_def waits_def split: if_split\<close>)
qed

lemma mayMove_refl [simp]: "mayMove p p"
  by (simp add: mayMove_def)

lemma wp_idle:
  assumes "phaseOf (cl s) = PhaseIdle"
  shows "wp (ensureIdleAndCleanupGreen env) (\<lambda>_ t. phaseOf (cl t) = PhaseIdle) (\<lambda>_ t. phaseOf (cl t) = PhaseIdle) s"
proof -
  have reset: "phaseOf (mapBlueGreen (ResetBlueGreenTransientState n) c) = PhaseIdle" for n c
    by (simp add: CurrentBlueGreenPhase_def split: option.split)
  have green: "keeps samePhase (wrap_err f (cleanupGreenStatefulSet env))" for f by auto
  have rest: "wp (releaseUpgradeLockIfHeld env) (\<lambda>_ t. phaseOf (cl t) = PhaseIdle) (\<lambda>_ t. phaseOf (cl t) = PhaseIdle) t"
    if "phaseOf (cl t) = PhaseIdle" for t
    by (rule wp_keeps [OF samePhase_releaseLock]) (use that in \<open>auto simp: fr_def\<close>)
  show ?thesis
    unfolding ensureIdleAndCleanupGreen_def wp_bnd [of "gets cl"] wp_gets
    using assms by (cases "blueGreen (cl s)")
      (auto simp: wp_ret wp_bnd wp_state reset fr_def intro!: wp_keeps [OF green] rest)
qed

section \<open>The pass implements the phase machine\<close>

lemma failedIn_moves: "failedIn p e t \<Longrightarrow> movesFrom p t"
  by (auto simp: failedIn_def mayMove_def)

lemma handler_moves:
  assumes "singleWriter env" and "phaseHandler env (phaseOf (cl s)) = Some h"
  shows "wp (bnd h (applyOutcome env)) (\<lambda>_. movesFrom (phaseOf (cl s))) (\<lambda>_. movesFrom (phaseOf (cl s))) s"
  unfolding wp_bnd
  by (rule wp_mono [OF handler_handled [OF assms refl]]) (auto intro: wp_applyOutcome failedIn_moves)

lemma sameIdent_phase: "sameIdent s t \<Longrightarrow> phaseOf (cl t) = phaseOf (cl s)"
  by (simp add: fr_def ident_def)

interpretation moves: pass_contract env "\<lambda>s. singleWriter env \<and> phaseOf (cl s) = p" "movesFrom p" for env p
proof
  fix s :: st
  assume s: "singleWriter env \<and> phaseOf (cl s) = p"
  show "singleWriter env" "movesFrom p s" using s by simp_all
  show "singleWriter env \<and> phaseOf (cl t) = p" if "sameIdent s t" for t
    using s sameIdent_phase [OF that] by simp
  show "wp (abortUpgrade env) (\<lambda>_. movesFrom p) (\<lambda>_. movesFrom p) s" if "isEarlyPhase (phaseOf (cl s))"
    by (rule wp_abort) (use s that in \<open>auto simp: canFinish_def\<close>)
  show "wp (ensureIdleAndCleanupGreen env) (\<lambda>_. movesFrom p) (\<lambda>_. movesFrom p) s" if "phaseOf (cl s) = PhaseIdle"
    by (rule wp_mono [OF wp_idle [OF that]]) (use s that in auto)
  show "wp (triggerRollback env r) (\<lambda>_. movesFrom p) (\<lambda>_. movesFrom p) s" if "canRollBack (phaseOf (cl s))" for r
    by (rule wp_triggerRollback) (use s that in auto)
  show "wp (bnd h (applyOutcome env)) (\<lambda>_. movesFrom p) (\<lambda>_. movesFrom p) s" if "phaseHandler env (phaseOf (cl s)) = Some h" for h
    using handler_moves [OF _ that] s by simp
next
  fix s t :: st assume "movesFrom p s" "cl t = cl s" then show "movesFrom p t" by simp
qed

lemma pass_moves: "singleWriter env \<Longrightarrow> mayMove (phaseOf (cl s)) (phaseOf (cl (snd (snd (Reconcile env s)))))"
  by (rule moves.Reconcile_ok) simp

end
