(* ===== verification/BlueGreen_Runs.thy ===== *)
theory BlueGreen_Runs
  imports BlueGreen_Moves "HOL-Library.Sublist"
begin

text \<open>
  Runs of the operator: reconcile passes in any surroundings, interleaved with edits of the specification
  and writes of other controllers.  The phase machine of \<open>BlueGreen_Moves\<close> is lifted to runs: which phases
  a run must have gone through, and which it can no longer leave.
\<close>

section \<open>Concrete surroundings for the witnesses\<close>

definition exampleUpgrade :: UpgradeConfig where
  "exampleUpgrade = \<lparr> ucImage = ''exec:1'', ucPreUpgradeSnapshot = False, ucJWTAuthRole = [], ucStrategy = BlueGreen,
     ucRequests = None, ucBlueGreen = Some \<lparr> bcAutoPromote = False, bcVerification = None, bcMaxJobFailures = None,
       bcPreUpgradeSnapshot = False, bcAutoRollback = None \<rparr> \<rparr>"

definition exampleBG :: "BlueGreenPhase \<Rightarrow> BlueGreenStatus" where
  "exampleBG p = emptyBlueGreenStatus\<lparr>bgPhase := p, bgOperationID := ''bg-v2-7'', bgBlueRevision := ''b1'', bgBlueImage := ''img:1'',
     bgBlueReplicas := 3, bgGreenRevision := ''g2'', bgGreenImage := ''img:2'', bgGreenVersion := ''2.4.1'',
     bgGreenReplicas := 3, bgManualPromotionRequired := True, bgStartTime := Some 1\<rparr>"

definition exampleCluster :: "BlueGreenPhase \<Rightarrow> Cluster" where
  "exampleCluster p = setBlueGreen (Some (exampleBG p)) (exampleBase\<lparr>clSpec := (clSpec exampleBase)\<lparr>spVersion := ''2.4.1'',
     spImage := ''img:2'', spUpgrade := Some exampleUpgrade\<rparr>\<rparr>)"

definition exampleState :: "BlueGreenPhase \<Rightarrow> st" where
  "exampleState p = \<lparr> cl = exampleCluster p, trace = [], sess = (\<lambda>_. None), acks = noAcks, backupJobMetricsSeen = [] \<rparr>"

text \<open>An API server that finds nothing, accepts every write, and answers a status read with the last write.\<close>

definition exampleBackupEnv :: backupEnv where
  "exampleBackupEnv = \<lparr> kParseSchedule = (\<lambda>_. Inr (\<lambda>t. t + seconds 3600)), kListRestores = (\<lambda>tr. Inr []),
     kGetRestore = (\<lambda>tr ns n. Inl (ApiStatus NotFound False)), kCreateRestore = (\<lambda>tr dry r. None),
     kDeleteRestore = (\<lambda>tr r u. None), kPatchAnnotations = (\<lambda>tr c ans. Inr (c\<lparr>clAnnotations := ans\<rparr>)),
     kBackupReadiness = (\<lambda>tr c. Inr (''True'', [], [])), kOpenStorage = (\<lambda>tr c. None), kStorageList = (\<lambda>tr p. Inr []),
     kStorageDelete = (\<lambda>tr ks. None), kStorageHead = (\<lambda>tr k. Inr None), kShortUUID = (\<lambda>tr. Inr ''0123abcd''),
     kBuildBackupJob = (\<lambda>c n k d s. Inr exampleJob), kUnmarshalSummary = (\<lambda>m. None), kIdentityMessage = (\<lambda>c. None),
     kFailureHint = (\<lambda>c. []), kDurationString = int_str, kOperatorPolicies = (\<lambda>c. []), kPolicyDigest = (\<lambda>p. p),
     kSortNewest = sort_key (\<lambda>(k, t). - t) \<rparr>"

definition exampleEnv :: env where
  "exampleEnv = \<lparr> eNow = (\<lambda>tr. int (length tr)), eUUID = (\<lambda>_. ''id''), eNonce = (\<lambda>_. ''n0''), eSha = (\<lambda>x. x),
     eRevision = (\<lambda>v i n. ''g2''), eOpenBaoImage = (\<lambda>v. v), eRequeueStandard = seconds 30, eHasWorkloadRuntime = True,
     eHasAdminOpsMutator = True, eParseDuration = (\<lambda>_. Inr 0), eParseReference = (\<lambda>_. Inr DigestRef),
     eValidateSealPlugins = (\<lambda>_. None),
     eGetCluster = (\<lambda>tr. case rev tr of
         ApplyStatusE b _ _ _ None # _ \<Rightarrow> Inr (setBlueGreen b (exampleCluster PhaseSyncing))
       | _ \<Rightarrow> Inr (exampleCluster PhaseSyncing)),
     ePatchLock = (\<lambda>tr base l. Inr (setOperationLock l base)), eApplyStatus = (\<lambda>tr c f. None),
     eGetJob = (\<lambda>tr n. Inl (ApiStatus NotFound False)), eCreateJob = (\<lambda>tr j. Inr j), eDeleteJob = (\<lambda>tr j. None),
     eGetSts = (\<lambda>tr n. Inl (ApiStatus NotFound False)), eDeleteSts = (\<lambda>tr x p. None), eListPods = (\<lambda>tr sel. Inr []),
     eListClaims = (\<lambda>tr. Inr []), eDeleteClaim = (\<lambda>tr p. None), eEnsureServiceAccount = (\<lambda>tr c. None),
     eRenderConfig = (\<lambda>c opts. Inr ''cfg''), eEnsureGreenSts = (\<lambda>tr c a b d r. None), eMainVerification = (\<lambda>_. False),
     eOperatorVerification = (\<lambda>_. False), eVerifyMain = (\<lambda>tr c i. Inr i), eVerifyOperator = (\<lambda>tr c i. Inr i),
     eDefaultInitImage = Inr ''init:1'', eDefaultUpgradeImage = Inr ''exec:1'', eDefaultBackupImage = Inr ''backup:1'',
     eEgressRulesExplicit = (\<lambda>_. True), eHasBackupRuntime = True,
     eEnsureBackupAccount = (\<lambda>tr c. None), eEnsureBackupRBAC = (\<lambda>tr c. None),
     eBuildSnapshotJob = (\<lambda>c n i s. Inr exampleJob), eBuildExecutorJob = (\<lambda>c n a r b g i. Inr exampleJob),
     eSecurityLabels = (\<lambda>_. []), eJsonHook = (\<lambda>i c a t. Inr i), 
     eGetPod = (\<lambda>tr n. Inl (ApiStatus NotFound False)), eDeletePod = (\<lambda>tr p. None), ePatchPartition = (\<lambda>tr x i. None),
     eListJobs = (\<lambda>tr sel. Inr []), eGetSecret = (\<lambda>tr n. Inl (ApiStatus NotFound False)), eLoadCACert = (\<lambda>tr c. Inr ''ca''),
     eTLSServerName = (\<lambda>c. []), eNewClient = (\<lambda>tr cfg. None), eIsHealthy = (\<lambda>tr cfg. Inr True),
     eIsLeader = (\<lambda>tr cfg. Inr False), eErrorText = (\<lambda>e. ''error''), eBackup = exampleBackupEnv \<rparr>"

lemma exampleEnv_singleWriter: "singleWriter exampleEnv"
  by (simp add: singleWriter_def exampleEnv_def)

section \<open>Runs\<close>

text \<open>A step is a pass, or any change of the object by somebody else that leaves the phase alone.\<close>

inductive step :: "st \<Rightarrow> st \<Rightarrow> bool" where
  pass: "singleWriter env \<Longrightarrow> step s (snd (snd (Reconcile env s)))"
| edit: "phaseOf c = phaseOf (cl s) \<Longrightarrow> step s (s\<lparr>cl := c\<rparr>)"

inductive_cases stepE: "step s t"

text \<open>\<open>run s ps t\<close>: a run from \<open>s\<close> to \<open>t\<close>; \<open>ps\<close> are the phases after each step, the latest first.\<close>

inductive run :: "st \<Rightarrow> BlueGreenPhase list \<Rightarrow> st \<Rightarrow> bool" where
  start: "run s [] s"
| more: "run s ps t \<Longrightarrow> step t u \<Longrightarrow> run s (phaseOf (cl u) # ps) u"

text \<open>The phases an upgrade must have entered to be in a phase, the latest first.\<close>

definition chain :: "BlueGreenPhase \<Rightarrow> BlueGreenPhase list" where
  "chain p = (case p of
      PhaseDeployingGreen \<Rightarrow> [PhaseDeployingGreen]
    | PhaseJoiningMesh \<Rightarrow> [PhaseJoiningMesh, PhaseDeployingGreen]
    | PhaseSyncing \<Rightarrow> [PhaseSyncing, PhaseJoiningMesh, PhaseDeployingGreen]
    | PhasePromoting \<Rightarrow> [PhasePromoting, PhaseSyncing, PhaseJoiningMesh, PhaseDeployingGreen]
    | PhaseDemotingBlue \<Rightarrow> [PhaseDemotingBlue, PhasePromoting, PhaseSyncing, PhaseJoiningMesh, PhaseDeployingGreen]
    | PhaseCleanup \<Rightarrow> [PhaseCleanup, PhaseDemotingBlue, PhasePromoting, PhaseSyncing, PhaseJoiningMesh, PhaseDeployingGreen]
    | PhaseRestoringReadReplicas \<Rightarrow> [PhaseRestoringReadReplicas, PhaseCleanup, PhaseDemotingBlue, PhasePromoting, PhaseSyncing,
        PhaseJoiningMesh, PhaseDeployingGreen]
    | PhaseRollbackCleanup \<Rightarrow> [PhaseRollbackCleanup, PhaseRollingBack]
    | PhaseRollingBack \<Rightarrow> [PhaseRollingBack]
    | _ \<Rightarrow> [])"

lemma step_moves: "step s t \<Longrightarrow> mayMove (phaseOf (cl s)) (phaseOf (cl t))"
proof (erule stepE)
  fix env assume "t = snd (snd (Reconcile env s))" "singleWriter env"
  then show ?thesis using pass_moves by blast
next
  fix c assume "t = s\<lparr>cl := c\<rparr>" "phaseOf c = phaseOf (cl s)"
  then show ?thesis by simp
qed

lemma chain_step:
  assumes "mayMove p q" and "subseq (chain p) ps" shows "subseq (chain q) (q # ps)"
proof -
  consider "q = p" | "forward p = Some q" | "q = PhaseRollingBack" | "q = PhaseIdle"
    using assms(1) by (auto simp: mayMove_def)
  then show ?thesis
  proof cases
    case 1
    then show ?thesis using assms(2) by (simp add: list_emb_Cons)
  next
    case 2
    then have "chain q = q # chain p \<or> chain q = []"
      by (cases p) (auto simp: forward_def chain_def)
    with assms(2) show ?thesis by auto
  qed (auto simp: chain_def)
qed

lemma past_closed:
  "mayMove p q \<Longrightarrow> q \<noteq> PhaseIdle \<Longrightarrow> isPastPointOfNoReturn p \<Longrightarrow> isPastPointOfNoReturn q"
  by (cases p) (auto simp: mayMove_def isPastPointOfNoReturn_def canRollBack_def forward_def)

lemma rollback_closed:
  "mayMove p q \<Longrightarrow> q \<noteq> PhaseIdle \<Longrightarrow> p \<in> {PhaseRollingBack, PhaseRollbackCleanup}
    \<Longrightarrow> q \<in> {PhaseRollingBack, PhaseRollbackCleanup}"
  by (cases p) (auto simp: mayMove_def canRollBack_def canFinish_def isEarlyPhase_def forward_def)

section \<open>Properties\<close>

text \<open>
  C1: one reconcile pass of the blue/green manager refines the abstract phase machine.  There is one
  hypothesis on the surroundings: an object that is read right after an accepted status write of the pass shows the
  phase, the revisions and the promotion flag just written; a stale or concurrently changed read-back of these five fields is
  excluded.  Every other answer is arbitrary: errors, missing objects, failed Jobs, conflicts, and all other reads,
  which may be stale.  Then, on every path, error paths included, the phase afterwards is the phase before, its
  regular successor, RollingBack from a phase that can still roll back, or Idle from a phase that may finish or be aborted.
\<close>

theorem pass_refines_phase_machine:
  assumes "singleWriter env"
  shows "mayMove (phaseOf (cl s)) (phaseOf (cl (snd (snd (Reconcile env s)))))"
  using assms by (rule pass_moves)

theorem pass_refines_phase_machine_witness:
  "mayMove PhaseSyncing (phaseOf (cl (snd (snd (Reconcile exampleEnv (exampleState PhaseSyncing))))))"
  using pass_refines_phase_machine [OF exampleEnv_singleWriter, of "exampleState PhaseSyncing"]
  by (simp add: exampleState_def exampleCluster_def exampleBG_def CurrentBlueGreenPhase_def)

text \<open>
  C3: no phase is skipped.  A run that starts in Idle, with any number of passes (each in surroundings that
  read back the phase, revisions and promotion flag it writes, as for C1), specification edits and
  foreign writes that leave the phase alone, has entered in order every phase that precedes the one it is in: Blue is not demoted
  before Green was promoted, and Cleanup is not entered before Blue was demoted.
\<close>

theorem no_phase_skipped:
  assumes "run s ps t" and "phaseOf (cl s) = PhaseIdle"
  shows "subseq (chain (phaseOf (cl t))) ps"
  using assms
proof (induction rule: run.induct)
  case (start s)
  then show ?case by (simp add: chain_def)
next
  case (more s ps t u)
  then show ?case using chain_step step_moves by blast
qed

theorem no_phase_skipped_witness:
  "subseq (chain (phaseOf (cl (snd (snd (Reconcile exampleEnv (exampleState PhaseIdle)))))))
     [phaseOf (cl (snd (snd (Reconcile exampleEnv (exampleState PhaseIdle)))))]"
proof -
  have "run (exampleState PhaseIdle) [phaseOf (cl (snd (snd (Reconcile exampleEnv (exampleState PhaseIdle)))))]
      (snd (snd (Reconcile exampleEnv (exampleState PhaseIdle))))"
    by (rule run.more [OF run.start step.pass [OF exampleEnv_singleWriter]])
  from no_phase_skipped [OF this] show ?thesis
    by (simp add: exampleState_def exampleCluster_def exampleBG_def CurrentBlueGreenPhase_def)
qed

text \<open>
  C4: the point of no return.  Once Blue peers may have been removed (Cleanup or RestoringReadReplicas),
  no sequence of passes, requests or edits (with the surroundings of C3) rolls the upgrade back: until it is
  finalized it stays in these two phases.  Likewise a started rollback is only ever completed, never turned into a promotion.
\<close>

theorem committed_directions:
  assumes "(\<lambda>s t. step s t \<and> phaseOf (cl t) \<noteq> PhaseIdle)\<^sup>*\<^sup>* s t"
  shows "(isPastPointOfNoReturn (phaseOf (cl s)) \<longrightarrow> isPastPointOfNoReturn (phaseOf (cl t)))
    \<and> (phaseOf (cl s) \<in> {PhaseRollingBack, PhaseRollbackCleanup} \<longrightarrow> phaseOf (cl t) \<in> {PhaseRollingBack, PhaseRollbackCleanup})"
  using assms
proof (induction rule: rtranclp_induct)
  case base
  then show ?case by simp
next
  case (step t u)
  then have "mayMove (phaseOf (cl t)) (phaseOf (cl u))" "phaseOf (cl u) \<noteq> PhaseIdle" by (auto intro: step_moves)
  with step.IH show ?case using past_closed rollback_closed by blast
qed

theorem committed_directions_witness:
  "isPastPointOfNoReturn (phaseOf (cl ((exampleState PhaseCleanup)
     \<lparr>cl := (exampleCluster PhaseCleanup)\<lparr>clUID := ''other''\<rparr>\<rparr>)))"
proof -
  let ?t = "(exampleState PhaseCleanup)\<lparr>cl := (exampleCluster PhaseCleanup)\<lparr>clUID := ''other''\<rparr>\<rparr>"
  have "step (exampleState PhaseCleanup) ?t"
    by (rule step.edit) (simp add: exampleState_def CurrentBlueGreenPhase_def)
  moreover have "phaseOf (cl ?t) \<noteq> PhaseIdle"
    by (simp add: exampleCluster_def exampleBG_def CurrentBlueGreenPhase_def)
  ultimately have "(\<lambda>s t. step s t \<and> phaseOf (cl t) \<noteq> PhaseIdle)\<^sup>*\<^sup>* (exampleState PhaseCleanup) ?t"
    by (intro r_into_rtranclp conjI)
  from committed_directions [OF this] show ?thesis
    by (simp add: exampleState_def exampleCluster_def exampleBG_def CurrentBlueGreenPhase_def isPastPointOfNoReturn_def)
qed

end
