(* ===== verification/Strategy_Transition.thy ===== *)
theory Strategy_Transition
  imports BlueGreen_Runs
begin

text \<open>
  The gate between the two upgrade strategies (\<open>service/upgrade/strategy_transition.go\<close>): a requested
  change of \<open>spec.upgrade.strategy\<close> is accepted only when no operation is active and the workload is
  steady.  The reader is the record of the answers its list calls give; the two listings of StatefulSets
  (one to infer the strategy, one to validate the workload) may differ.
\<close>

section \<open>Model\<close>

record strategyReader =
  rdInferSets :: "go_error + StatefulSet list"
  rdSteadySets :: "go_error + StatefulSet list"
  rdVoterPods :: "go_error + Pod list"
  rdClaims :: "go_error + PersistentVolumeClaim list"

text \<open>A sequence of guards \<open>if cond { return fmt.Errorf(msg) }\<close>.\<close>

fun firstFailing :: "(bool \<times> string) list \<Rightarrow> go_error option" where
  "firstFailing [] = None"
| "firstFailing ((bad, msg) # rest) = (if bad then Some (errorf msg) else firstFailing rest)"

definition ReasonUpgradeStrategyTransitionBlocked :: string where
  "ReasonUpgradeStrategyTransitionBlocked = ''UpgradeStrategyTransitionBlocked''"

definition OperatorJWTBootstrapEnabled :: "Cluster \<Rightarrow> bool" where
  "OperatorJWTBootstrapEnabled c = (case spSelfInit (clSpec c) of Some (True, Some True) \<Rightarrow> True | _ \<Rightarrow> False)"

definition EffectiveJWTRole :: "string \<Rightarrow> bool \<Rightarrow> string \<Rightarrow> string" where
  "EffectiveJWTRole configuredRole bootstrapEnabled defaultRole =
     (let role = trim_space configuredRole
      in if role \<noteq> [] then role else if bootstrapEnabled then defaultRole else [])"

definition resolveUpgradeJWTAuthRole :: "Cluster \<Rightarrow> string" where
  "resolveUpgradeJWTAuthRole c =
     EffectiveJWTRole (case spUpgrade (clSpec c) of None \<Rightarrow> [] | Some u \<Rightarrow> trim_space (ucJWTAuthRole u))
       (OperatorJWTBootstrapEnabled c) ''openbao-operator-upgrade''"

definition podReady :: "Pod \<Rightarrow> bool" where
  "podReady p \<longleftrightarrow> list_ex (\<lambda>k. cdType k = ''Ready'' \<and> cdStatus k = ''True'') (pdConditions p)"

definition containerImage :: "(string \<times> string) list \<Rightarrow> string \<Rightarrow> string" where
  "containerImage containers name = (case map_of containers name of None \<Rightarrow> [] | Some i \<Rightarrow> i)"

definition blockedStrategyTransition :: "go_error \<Rightarrow> go_error" where
  "blockedStrategyTransition e = Reasoned ReasonUpgradeStrategyTransitionBlocked
     (case WrapTransientClusterState (Some e) of Some w \<Rightarrow> w | None \<Rightarrow> e)"

definition voterStatefulSets :: "Cluster \<Rightarrow> go_error + StatefulSet list \<Rightarrow> go_error + StatefulSet list" where
  "voterStatefulSets c answer = (case answer of
      Inl e \<Rightarrow> Inl (wrapf ''list managed StatefulSets'' e)
    | Inr items \<Rightarrow> Inr (filter (\<lambda>s. omName (stMeta s) \<noteq> ReadReplicaStatefulSetName c) items))"

definition inferCurrentStrategy :: "Cluster \<Rightarrow> go_error + StatefulSet list \<Rightarrow> go_error + UpdateStrategyType" where
  "inferCurrentStrategy c answer =
     (if blueGreen c \<noteq> None then Inr BlueGreen
      else case voterStatefulSets c answer of
          Inl e \<Rightarrow> Inl e
        | Inr [] \<Rightarrow> Inr (DesiredStrategy (Some c))
        | Inr sets \<Rightarrow>
            (let foundRolling = list_ex (\<lambda>s. omName (stMeta s) = clName c) sets;
                 foundBlueGreen = list_ex (\<lambda>s. omName (stMeta s) \<noteq> clName c) sets
             in if foundRolling \<and> foundBlueGreen
                then Inl (errorf ''cannot infer current upgrade strategy while both rolling and revisioned voter StatefulSets exist'')
                else if foundBlueGreen then Inr BlueGreen else Inr RollingUpdate))"

definition hasActiveClusterOperation :: "Cluster option \<Rightarrow> bool" where
  "hasActiveClusterOperation cluster = (case cluster of None \<Rightarrow> False
     | Some c \<Rightarrow>
         ssOperationLock (clStatus c) \<noteq> None \<or> ssUpgrade (clStatus c) \<noteq> None
         \<or> (case blueGreen c of None \<Rightarrow> False | Some b \<Rightarrow> bgPhase b \<noteq> OtherPhase [] \<and> bgPhase b \<noteq> PhaseIdle)
         \<or> (case ssBreakGlass (clStatus c) of None \<Rightarrow> False | Some g \<Rightarrow> gkActive g))"

definition validateIdleBlueGreenStatus :: "BlueGreenStatus option \<Rightarrow> go_error option" where
  "validateIdleBlueGreenStatus status = (case status of None \<Rightarrow> None
     | Some b \<Rightarrow> firstFailing
         [(bgPhase b \<noteq> OtherPhase [] \<and> bgPhase b \<noteq> PhaseIdle, ''finish or recover the blue/green phase before changing spec.upgrade.strategy''),
          (trim_space (bgGreenRevision b) \<noteq> [], ''remove the Green revision before changing spec.upgrade.strategy''),
          (bgStartTime b \<noteq> None \<or> bgRollbackStartTime b \<noteq> None \<or> bgManualPromotionRequired b,
             ''finish the blue/green promotion or rollback before changing spec.upgrade.strategy''),
          (bgJobFailureCount b \<noteq> 0 \<or> trim_space (bgLastJobFailure b) \<noteq> [],
             ''recover the blue/green job failure state before changing spec.upgrade.strategy'')])"

definition validateIdleStrategyTransitionStatus :: "Cluster \<Rightarrow> UpdateStrategyType \<Rightarrow> go_error option" where
  "validateIdleStrategyTransitionStatus c desired =
     (let st = clStatus c; sp = clSpec c in
      case firstFailing
        [(\<not> ssInitialized st, ''finish cluster initialization before changing spec.upgrade.strategy''),
         (ssPhase st \<noteq> ''Running'', ''wait for status.phase=Running before changing spec.upgrade.strategy''),
         (trim_space (ssCurrentVersion st) \<noteq> trim_space (spVersion sp),
            ''finish or recover the current version transition before changing spec.upgrade.strategy''),
         (ssReadyReplicas st \<noteq> spReplicas sp, ''wait for all voter replicas to become ready before changing spec.upgrade.strategy''),
         (case findStatusCondition (ssConditions st) ''Available'' of None \<Rightarrow> True | Some k \<Rightarrow> cdStatus k \<noteq> ''True'',
            ''wait for the Available condition to become True before changing spec.upgrade.strategy''),
         (case findStatusCondition (ssConditions st) ''Degraded'' of None \<Rightarrow> False
            | Some k \<Rightarrow> cdStatus k = ''True'' \<and> cdReason k \<noteq> ReasonUpgradeStrategyTransitionBlocked,
            ''resolve the Degraded condition before changing spec.upgrade.strategy''),
         (ssWorkloadLastError st \<noteq> None, ''resolve the workload controller error before changing spec.upgrade.strategy''),
         (ssUpgrade st \<noteq> None, ''finish or recover the rolling upgrade before changing spec.upgrade.strategy''),
         (ssOperationLock st \<noteq> None, ''wait for the operation lock to clear before changing spec.upgrade.strategy''),
         (case ssBreakGlass st of None \<Rightarrow> False | Some g \<Rightarrow> gkActive g,
            ''recover the cluster from safe mode before changing spec.upgrade.strategy'')] of
        Some e \<Rightarrow> Some e
      | None \<Rightarrow> (case validateIdleBlueGreenStatus (ssBlueGreen st) of
            Some e \<Rightarrow> Some e
          | None \<Rightarrow> firstFailing
              ((RetryRequestPending (Some c) \<or> PromoteRequestPending (Some c) \<or> RollbackRequestPending (Some c),
                 ''finish or clear pending spec.upgrade.requests before changing spec.upgrade.strategy'')
               # (case spReadReplicas sp of None \<Rightarrow> []
                  | Some n \<Rightarrow> if n > 0 then
                      (case ssReadReplicas st of
                         None \<Rightarrow> [(True, ''wait for read replica status before changing spec.upgrade.strategy'')]
                       | Some r \<Rightarrow> [(rrReadyReplicas r \<noteq> n, ''wait for read replicas to become ready before changing spec.upgrade.strategy'')])
                      else [])
               @ [(desired \<noteq> RollingUpdate \<and> desired \<noteq> BlueGreen, ''unsupported requested upgrade strategy'')])))"

definition validateBlueGreenTransitionPrerequisites :: "env \<Rightarrow> Cluster \<Rightarrow> go_error option" where
  "validateBlueGreenTransitionPrerequisites env c =
     (if spUpgrade (clSpec c) = None then Some (errorf ''spec.upgrade is required when switching to BlueGreen'')
      else if trim_space (resolveUpgradeJWTAuthRole c) = []
      then Some (errorf ''switching to BlueGreen requires spec.upgrade.jwtAuthRole or the default role from spec.selfInit.oidc bootstrap'')
      else case resolveUpgradeExecutorImage env c [] of
          Inl e \<Rightarrow> Some (wrapf ''resolve BlueGreen upgrade executor image'' e)
        | Inr _ \<Rightarrow> None)"

definition validateStatefulSetSteady :: "Cluster \<Rightarrow> StatefulSet \<Rightarrow> go_error option" where
  "validateStatefulSetSteady c s = (let desired = spReplicas (clSpec c) in firstFailing
     [(stObservedGeneration s < omGeneration (stMeta s) \<or> stSpecReplicas s \<noteq> Some desired \<or> stReplicas s \<noteq> desired
         \<or> stCurrentReplicas s \<noteq> desired \<or> stReadyReplicas s \<noteq> desired,
         ''wait for voter StatefulSet to finish scaling or restarting before changing spec.upgrade.strategy''),
      (trim_space (stCurrentRevision s) = [], ''wait for voter StatefulSet to report its current revision before changing spec.upgrade.strategy''),
      (\<not> stOnDelete s \<and> (stUpdatedReplicas s \<noteq> desired \<or> stCurrentRevision s \<noteq> stUpdateRevision s),
         ''wait for voter StatefulSet revisions to converge before changing spec.upgrade.strategy''),
      (case stPartition s of None \<Rightarrow> False | Some p \<Rightarrow> p \<noteq> 0,
         ''wait for voter StatefulSet rolling partition to reach zero before changing spec.upgrade.strategy'')])"

definition expectedPodNames :: "string \<Rightarrow> int \<Rightarrow> string list" where
  "expectedPodNames active replicas = map (\<lambda>i. active @ ''-'' @ nat_str i) [0..<nat replicas]"

fun validatePods :: "string list \<Rightarrow> string \<Rightarrow> Pod list \<Rightarrow> go_error option" where
  "validatePods expected revision [] = None"
| "validatePods expected revision (p # ps) = (case firstFailing
     [(pdName p \<notin> set expected, ''remove non-active voter pod before changing spec.upgrade.strategy''),
      (omDeletionTimestamp (pdMeta p) \<noteq> None \<or> \<not> podReady p, ''wait for voter pod to become Ready before changing spec.upgrade.strategy''),
      (trim_space (lookup_label (pdLabels p) ''controller-revision-hash'') \<noteq> trim_space revision,
         ''wait for voter pod to converge on current controller revision before changing spec.upgrade.strategy'')] of
      Some e \<Rightarrow> Some e | None \<Rightarrow> validatePods expected revision ps)"

definition validateVoterPodsSteady :: "Cluster \<Rightarrow> go_error + Pod list \<Rightarrow> string \<Rightarrow> string \<Rightarrow> go_error option" where
  "validateVoterPodsSteady c answer active revision = (case answer of
      Inl e \<Rightarrow> Some (wrapf ''list voter pods'' e)
    | Inr pods \<Rightarrow>
        if int (length pods) \<noteq> spReplicas (clSpec c)
        then Some (errorf ''wait for exactly the desired number of active voter pods before changing spec.upgrade.strategy'')
        else validatePods (expectedPodNames active (spReplicas (clSpec c))) revision pods)"

definition validateNoPVCResizePending :: "go_error + PersistentVolumeClaim list \<Rightarrow> go_error option" where
  "validateNoPVCResizePending answer = (case answer of
      Inl e \<Rightarrow> Some (wrapf ''list managed PVCs'' e)
    | Inr claims \<Rightarrow>
        if list_ex (\<lambda>p. list_ex (\<lambda>k. cdType k = ''FileSystemResizePending'' \<and> cdStatus k = ''True'') (pvConditions p)) claims
        then Some (errorf ''finish the filesystem resize for PVC before changing spec.upgrade.strategy'')
        else None)"

text \<open>The scan for the active StatefulSet: any other voter StatefulSet ends it with an error; the last match wins.\<close>

fun findActive :: "string \<Rightarrow> StatefulSet option \<Rightarrow> StatefulSet list \<Rightarrow> go_error + StatefulSet option" where
  "findActive name found [] = Inr found"
| "findActive name found (s # ss) =
     (if omName (stMeta s) = name then findActive name (Some s) ss
      else Inl (errorf ''remove non-active voter StatefulSet before changing spec.upgrade.strategy''))"

definition validateSteadyWorkload :: "strategyReader \<Rightarrow> Cluster \<Rightarrow> go_error + StatefulSet" where
  "validateSteadyWorkload rd c = (case voterStatefulSets c (rdSteadySets rd) of
      Inl e \<Rightarrow> Inl e
    | Inr sets \<Rightarrow> (let activeName = StableVoterStatefulSetName (Some c) in
        case findActive activeName None sets of
          Inl e \<Rightarrow> Inl e
        | Inr None \<Rightarrow> Inl (errorf ''active voter StatefulSet was not found'')
        | Inr (Some active) \<Rightarrow>
            (case validateStatefulSetSteady c active of
               Some e \<Rightarrow> Inl e
             | None \<Rightarrow> (case validateVoterPodsSteady c (rdVoterPods rd) activeName (stCurrentRevision active) of
                  Some e \<Rightarrow> Inl e
                | None \<Rightarrow> (case validateNoPVCResizePending (rdClaims rd) of
                     Some e \<Rightarrow> Inl e
                   | None \<Rightarrow> Inr active)))))"

definition normalizeStrategyTransitionStatus :: "time \<Rightarrow> UpdateStrategyType \<Rightarrow> StatefulSet \<Rightarrow> Cluster \<Rightarrow> Cluster" where
  "normalizeStrategyTransitionStatus tm desired active c0 =
     (let c1 = mapStatus (\<lambda>st. st\<lparr>ssUpgrade := None\<rparr>) c0;
          c2 = (if desired = BlueGreen then
                  setBlueGreen (Some ((case blueGreen c1 of None \<Rightarrow> emptyBlueGreenStatus | Some b \<Rightarrow> b)
                    \<lparr>bgPhase := PhaseIdle,
                     bgBlueRevision := trim_space (lookup_label (stTemplateLabels active) LabelOpenBaoRevision),
                     bgBlueControllerRevision := trim_space (stCurrentRevision active),
                     bgBlueImage := trim_space (containerImage (stContainers active) ''openbao'')\<rparr>)) c1
                else c1)
      in mapBlueGreen (ResetBlueGreenTransientState tm) c2)"

abbreviation acceptStrategy :: "UpdateStrategyType \<Rightarrow> Cluster \<Rightarrow> Cluster" where
  "acceptStrategy u \<equiv> mapStatus (\<lambda>st. st\<lparr>ssAcceptedUpgradeStrategy := u\<rparr>)"

text \<open>
  \<open>Reconcile\<close> after the accepted strategy is known; the second component is the cluster object the
  function leaves.
\<close>

definition acceptTransition :: "env \<Rightarrow> time \<Rightarrow> strategyReader \<Rightarrow> Cluster \<Rightarrow> (go_error + int) \<times> Cluster" where
  "acceptTransition env tm rd c = (let desired = DesiredStrategy (Some c) in
     if desired = ssAcceptedUpgradeStrategy (clStatus c) then (Inr 0, c)
     else if hasActiveClusterOperation (Some c) then (Inr 0, c)
     else case validateIdleStrategyTransitionStatus c desired of
         Some e \<Rightarrow> (Inl (blockedStrategyTransition e), c)
       | None \<Rightarrow> (case validateSteadyWorkload rd c of
           Inl e \<Rightarrow> (Inl (blockedStrategyTransition e), c)
         | Inr active \<Rightarrow>
             (case if desired = BlueGreen then validateBlueGreenTransitionPrerequisites env c else None of
                Some e \<Rightarrow> (Inl (blockedStrategyTransition e), c)
              | None \<Rightarrow> (Inr requeueShort,
                   acceptStrategy desired (normalizeStrategyTransitionStatus tm desired active c)))))"

definition StrategyTransition :: "env \<Rightarrow> time \<Rightarrow> strategyReader option \<Rightarrow> Cluster option \<Rightarrow> (go_error + int) \<times> Cluster option" where
  "StrategyTransition env tm reader cluster = (case (cluster, reader) of
      (Some c, Some rd) \<Rightarrow>
        if ssAcceptedUpgradeStrategy (clStatus c) = OtherStrategy [] then
          (case inferCurrentStrategy c (rdInferSets rd) of
             Inl e \<Rightarrow> (Inl (Reasoned ReasonUpgradeStrategyTransitionBlocked
                 (case WrapTransientKubernetesAPI (Some e) of Some w \<Rightarrow> w | None \<Rightarrow> e)), cluster)
           | Inr inferred \<Rightarrow> map_prod id Some (acceptTransition env tm rd (acceptStrategy inferred c)))
        else map_prod id Some (acceptTransition env tm rd c)
    | _ \<Rightarrow> (Inr 0, cluster))"

section \<open>Lemmas\<close>

lemma firstFailing_None: "firstFailing cs = None \<longleftrightarrow> list_all (\<lambda>(bad, _). \<not> bad) cs"
  by (induction cs rule: firstFailing.induct) auto

lemma findActive_Inr: "findActive n f ss = Inr r \<Longrightarrow> list_all (\<lambda>s. omName (stMeta s) = n) ss"
  by (induction n f ss rule: findActive.induct) (auto split: if_splits)

lemma validatePods_None:
  "validatePods ex hash ps = None \<longleftrightarrow>
     list_all (\<lambda>p. pdName p \<in> set ex \<and> omDeletionTimestamp (pdMeta p) = None \<and> podReady p
       \<and> trim_space (lookup_label (pdLabels p) ''controller-revision-hash'') = trim_space hash) ps"
  by (induction ps) (auto split: option.splits if_splits)

lemma expectedPodNames_length: "length (expectedPodNames a n) = nat n"
  by (simp add: expectedPodNames_def)

text \<open>As many distinct names as expected ones, all of them expected, are exactly the expected ones.\<close>

lemma all_expected:
  assumes "distinct (map pdName pods)" "int (length pods) = n" "\<forall>p\<in>set pods. pdName p \<in> set (expectedPodNames a n)"
  shows "set (map pdName pods) = set (expectedPodNames a n)"
proof (rule card_subset_eq)
  show "set (map pdName pods) \<subseteq> set (expectedPodNames a n)" using assms(3) by auto
  then have "card (set (map pdName pods)) \<le> card (set (expectedPodNames a n))" by (simp add: card_mono)
  moreover have "card (set (map pdName pods)) = length pods" using assms(1) by (metis distinct_card length_map)
  moreover have "card (set (expectedPodNames a n)) \<le> length (expectedPodNames a n)" by (rule card_length)
  ultimately show "card (set (map pdName pods)) = card (set (expectedPodNames a n))"
    using assms(2) by (simp add: expectedPodNames_length)
qed simp

lemma validateVoterPodsSteady_None:
  assumes "validateVoterPodsSteady c (Inr pods) a hash = None" "distinct (map pdName pods)"
  shows "set (map pdName pods) = set (expectedPodNames a (spReplicas (clSpec c)))
    \<and> list_all (\<lambda>p. omDeletionTimestamp (pdMeta p) = None \<and> podReady p) pods"
proof -
  have n: "int (length pods) = spReplicas (clSpec c)"
    and ok: "validatePods (expectedPodNames a (spReplicas (clSpec c))) hash pods = None"
    using assms(1) by (auto simp: validateVoterPodsSteady_def split: if_splits)
  then show ?thesis
    using all_expected [OF assms(2) n] by (auto simp: validatePods_None list_all_iff)
qed

lemma validateSteadyWorkload_Inr:
  assumes "validateSteadyWorkload rd c = Inr active" "rdVoterPods rd = Inr pods" "distinct (map pdName pods)"
  shows "\<exists>sets. voterStatefulSets c (rdSteadySets rd) = Inr sets
      \<and> list_all (\<lambda>s. omName (stMeta s) = StableVoterStatefulSetName (Some c)) sets"
    and "set (map pdName pods) = set (expectedPodNames (StableVoterStatefulSetName (Some c)) (spReplicas (clSpec c)))
      \<and> list_all (\<lambda>p. omDeletionTimestamp (pdMeta p) = None \<and> podReady p) pods"
proof -
  obtain sets where "voterStatefulSets c (rdSteadySets rd) = Inr sets"
    and "findActive (StableVoterStatefulSetName (Some c)) None sets = Inr (Some active)"
    and v: "validateVoterPodsSteady c (Inr pods) (StableVoterStatefulSetName (Some c)) (stCurrentRevision active) = None"
    using assms(1,2) by (auto simp: validateSteadyWorkload_def Let_def split: sum.splits option.splits)
  then show "\<exists>sets. voterStatefulSets c (rdSteadySets rd) = Inr sets
      \<and> list_all (\<lambda>s. omName (stMeta s) = StableVoterStatefulSetName (Some c)) sets"
    by (auto dest: findActive_Inr)
  show "set (map pdName pods) = set (expectedPodNames (StableVoterStatefulSetName (Some c)) (spReplicas (clSpec c)))
      \<and> list_all (\<lambda>p. omDeletionTimestamp (pdMeta p) = None \<and> podReady p) pods"
    using v assms(3) by (rule validateVoterPodsSteady_None)
qed

lemma validateIdle_desired:
  "validateIdleStrategyTransitionStatus c u = None \<Longrightarrow> u = RollingUpdate \<or> u = BlueGreen"
  by (auto simp: validateIdleStrategyTransitionStatus_def firstFailing_None Let_def split: option.splits if_splits)

lemma validateIdle_quiet:
  "validateIdleStrategyTransitionStatus c u = None \<Longrightarrow>
     ssPhase (clStatus c) = ''Running'' \<and> trim_space (ssCurrentVersion (clStatus c)) = trim_space (spVersion (clSpec c))
     \<and> \<not> RetryRequestPending (Some c) \<and> \<not> PromoteRequestPending (Some c) \<and> \<not> RollbackRequestPending (Some c)"
  by (auto simp: validateIdleStrategyTransitionStatus_def firstFailing_None Let_def split: option.splits if_splits)

lemma normalize_idle:
  "blueGreen (normalizeStrategyTransitionStatus tm u active c) = Some b \<Longrightarrow> bgPhase b = PhaseIdle \<and> bgGreenRevision b = [] \<and> bgStartTime b = None"
  by (auto simp: normalizeStrategyTransitionStatus_def ResetBlueGreenTransientState_def AdvanceBlueGreenPhase_def Let_def
      split: if_splits option.splits)

text \<open>The StatefulSet that serves as the stable voter pool survives the switch, given its revision label.\<close>

lemma normalize_stable:
  assumes "trim_space (lookup_label (stTemplateLabels active) LabelOpenBaoRevision) = StableVoterRevision (Some c)"
  shows "StableVoterStatefulSetName (Some (acceptStrategy u (normalizeStrategyTransitionStatus tm u active c)))
    = StableVoterStatefulSetName (Some c)"
proof -
  have "StableVoterRevision (Some (acceptStrategy u (normalizeStrategyTransitionStatus tm u active c))) = StableVoterRevision (Some c)"
    using assms
    by (auto simp: StableVoterRevision_def normalizeStrategyTransitionStatus_def ResetBlueGreenTransientState_def
        AdvanceBlueGreenPhase_def Let_def split: option.splits)
  moreover have "clName (acceptStrategy u (normalizeStrategyTransitionStatus tm u active c)) = clName c"
    by (simp add: normalizeStrategyTransitionStatus_def Let_def)
  ultimately show ?thesis by (simp add: StableVoterStatefulSetName_def Let_def)
qed

section \<open>Specification of a safe switch\<close>

text \<open>The strategy a cluster runs, and the object the gate starts from when none was accepted before.\<close>

definition runsStrategy :: "strategyReader \<Rightarrow> Cluster \<Rightarrow> UpdateStrategyType \<Rightarrow> bool" where
  "runsStrategy rd c u \<longleftrightarrow>
     (if blueGreen c \<noteq> None then u = BlueGreen
      else case voterStatefulSets c (rdInferSets rd) of
          Inl _ \<Rightarrow> False
        | Inr sets \<Rightarrow> if sets = [] then u = DesiredStrategy (Some c)
            else u = RollingUpdate \<and> list_all (\<lambda>s. omName (stMeta s) = clName c) sets
              \<or> u = BlueGreen \<and> list_all (\<lambda>s. omName (stMeta s) \<noteq> clName c) sets)"

definition startsFrom :: "strategyReader \<Rightarrow> Cluster \<Rightarrow> Cluster \<Rightarrow> bool" where
  "startsFrom rd c c0 \<longleftrightarrow>
     (if ssAcceptedUpgradeStrategy (clStatus c) = OtherStrategy [] then \<exists>u. runsStrategy rd c u \<and> c0 = acceptStrategy u c
      else c0 = c)"

lemma inferred_runs: "inferCurrentStrategy c (rdInferSets rd) = Inr u \<Longrightarrow> runsStrategy rd c u"
  by (auto simp: inferCurrentStrategy_def runsStrategy_def Let_def list_all_iff list_ex_iff split: if_splits sum.splits list.splits)

definition safeSwitch :: "strategyReader \<Rightarrow> Pod list \<Rightarrow> Cluster \<Rightarrow> Cluster \<Rightarrow> bool" where
  "safeSwitch rd pods c c' \<longleftrightarrow>
     ssAcceptedUpgradeStrategy (clStatus c') = DesiredStrategy (Some c)
     \<and> DesiredStrategy (Some c) \<in> {RollingUpdate, BlueGreen}
     \<and> \<not> hasActiveClusterOperation (Some c)
     \<and> ssPhase (clStatus c) = ''Running'' \<and> trim_space (ssCurrentVersion (clStatus c)) = trim_space (spVersion (clSpec c))
     \<and> \<not> RetryRequestPending (Some c) \<and> \<not> PromoteRequestPending (Some c) \<and> \<not> RollbackRequestPending (Some c)
     \<and> (\<exists>sets. voterStatefulSets c (rdSteadySets rd) = Inr sets
          \<and> list_all (\<lambda>s. omName (stMeta s) = StableVoterStatefulSetName (Some c)) sets)
     \<and> set (map pdName pods) = set (expectedPodNames (StableVoterStatefulSetName (Some c)) (spReplicas (clSpec c)))
     \<and> list_all (\<lambda>p. omDeletionTimestamp (pdMeta p) = None \<and> podReady p) pods
     \<and> (\<forall>b. blueGreen c' = Some b \<longrightarrow> bgPhase b = PhaseIdle \<and> bgGreenRevision b = [] \<and> bgStartTime b = None)
     \<and> (\<exists>active. validateSteadyWorkload rd c = Inr active
          \<and> (trim_space (lookup_label (stTemplateLabels active) LabelOpenBaoRevision) = StableVoterRevision (Some c)
             \<longrightarrow> StableVoterStatefulSetName (Some c') = StableVoterStatefulSetName (Some c)))"

lemma acceptTransition_safe:
  assumes "acceptTransition env tm rd c = (r, c')" "c' \<noteq> c"
    and "rdVoterPods rd = Inr pods" "distinct (map pdName pods)"
  shows "safeSwitch rd pods c c'"
proof -
  let ?u = "DesiredStrategy (Some c)"
  obtain active where a: "validateIdleStrategyTransitionStatus c ?u = None" "validateSteadyWorkload rd c = Inr active"
      "\<not> hasActiveClusterOperation (Some c)"
    and c': "c' = acceptStrategy ?u (normalizeStrategyTransitionStatus tm ?u active c)"
    using assms(1,2) by (auto simp: acceptTransition_def Let_def split: if_splits option.splits sum.splits)
  have "bgPhase b = PhaseIdle \<and> bgGreenRevision b = [] \<and> bgStartTime b = None" if "blueGreen c' = Some b" for b
    using that c' normalize_idle [of tm ?u active c b] by simp
  moreover have "trim_space (lookup_label (stTemplateLabels active) LabelOpenBaoRevision) = StableVoterRevision (Some c)
      \<longrightarrow> StableVoterStatefulSetName (Some c') = StableVoterStatefulSetName (Some c)"
    using normalize_stable c' by blast
  moreover have "ssAcceptedUpgradeStrategy (clStatus c') = ?u" by (simp add: c')
  ultimately show ?thesis
    unfolding safeSwitch_def
    using a(2,3) validateIdle_desired [OF a(1)] validateIdle_quiet [OF a(1)]
      validateSteadyWorkload_Inr [OF a(2) assms(3,4)] by blast
qed

section \<open>A concrete steady cluster\<close>

definition steadyPod :: "nat \<Rightarrow> Pod" where
  "steadyPod i = \<lparr> pdMeta = exampleMeta\<lparr>omName := ''bao-'' @ nat_str i, omLabels := [(''controller-revision-hash'', ''r1'')]\<rparr>,
     pdPhase = ''Running'', pdConditions = [\<lparr> cdType = ''Ready'', cdStatus = ''True'', cdReason = [], cdMessage = [],
       cdObservedGeneration = 0, cdLastTransitionTime = 0 \<rparr>], pdContainerStatuses = [], pdContainers = [], pdClaims = [],
     pdInitContainers = [], pdInitContainerStatuses = [], pdEphemeralContainers = [], pdEphemeralContainerStatuses = [] \<rparr>"

definition steadySet :: StatefulSet where
  "steadySet = \<lparr> stMeta = exampleMeta\<lparr>omName := ''bao''\<rparr>, stSpecReplicas = Some 3, stTemplateLabels = [],
     stContainers = [(''openbao'', ''openbao:2.4.0'')], stOnDelete = False, stPartition = None, stObservedGeneration = 1,
     stReplicas = 3, stReadyReplicas = 3, stCurrentReplicas = 3, stUpdatedReplicas = 3, stCurrentRevision = ''r1'',
     stUpdateRevision = ''r1'' \<rparr>"

definition steadyReader :: strategyReader where
  "steadyReader = \<lparr> rdInferSets = Inr [steadySet], rdSteadySets = Inr [steadySet], rdVoterPods = Inr (map steadyPod [0..<3]),
     rdClaims = Inr [] \<rparr>"

definition steadyUpgrade :: "UpdateStrategyType \<Rightarrow> UpgradeConfig" where
  "steadyUpgrade u = \<lparr> ucImage = ''exec:1'', ucPreUpgradeSnapshot = False, ucJWTAuthRole = ''role'', ucStrategy = u,
     ucRequests = None, ucBlueGreen = None \<rparr>"

definition steadyCluster :: "UpdateStrategyType \<Rightarrow> UpdateStrategyType \<Rightarrow> Cluster" where
  "steadyCluster desired accepted = mapStatus (\<lambda>st. st\<lparr>ssAcceptedUpgradeStrategy := accepted,
       ssConditions := [\<lparr> cdType = ''Available'', cdStatus = ''True'', cdReason = [], cdMessage = [],
         cdObservedGeneration = 0, cdLastTransitionTime = 0 \<rparr>]\<rparr>)
     (exampleBase\<lparr>clSpec := (clSpec exampleBase)\<lparr>spUpgrade := Some (steadyUpgrade desired)\<rparr>\<rparr>)"

section \<open>Properties\<close>

text \<open>
  C25: what a pass of the strategy gate can do to the cluster object.  A cluster without an accepted strategy is first given the one
  it runs: BlueGreen if it has a blue/green status or only revisioned voter StatefulSets, RollingUpdate if only the unrevisioned
  one exists, the requested one if it has no voter StatefulSet yet; no steadiness is asked for that, since nothing switches.
  From the strategy accepted then, the gate either leaves the object alone or accepts exactly the requested strategy, and this only in a
  steady cluster: no operation is active, no request is pending, the running
  version is the specified one, no voter StatefulSet but the active one exists, and the voter Pods are
  exactly its ordinals, each Ready and none terminating.  Afterwards the blue/green status is Idle without
  a Green revision, and the stable voter StatefulSet is the one before when its revision label names it.
  The Pod list is assumed to be answered and to hold no name twice.
\<close>

theorem strategy_change_is_safe:
  assumes "StrategyTransition env tm (Some rd) (Some c) = (r, Some c')"
    and "rdVoterPods rd = Inr pods" and "distinct (map pdName pods)"
  shows "c' = c \<or> (\<exists>c0. startsFrom rd c c0 \<and> (c' = c0 \<or> safeSwitch rd pods c0 c'))"
proof (cases "ssAcceptedUpgradeStrategy (clStatus c) = OtherStrategy []")
  case False
  then have "acceptTransition env tm rd c = (r, c')" and "startsFrom rd c c"
    using assms(1) by (auto simp: StrategyTransition_def startsFrom_def map_prod_def split: prod.splits)
  then show ?thesis using acceptTransition_safe assms(2,3) by blast
next
  case True
  show ?thesis
  proof (cases "inferCurrentStrategy c (rdInferSets rd)")
    case (Inl e)
    then show ?thesis using True assms(1) by (simp add: StrategyTransition_def)
  next
    case (Inr u)
    then have "acceptTransition env tm rd (acceptStrategy u c) = (r, c')"
      using True assms(1) by (auto simp: StrategyTransition_def map_prod_def split: prod.splits)
    moreover have "startsFrom rd c (acceptStrategy u c)"
      using True inferred_runs [OF Inr] by (auto simp: startsFrom_def)
    ultimately show ?thesis using acceptTransition_safe assms(2,3) by blast
  qed
qed

theorem strategy_change_is_safe_witness:
  "\<exists>c0 c'. snd (StrategyTransition exampleEnv 5 (Some steadyReader) (Some (steadyCluster BlueGreen (OtherStrategy [])))) = Some c'
     \<and> ssAcceptedUpgradeStrategy (clStatus c0) = RollingUpdate \<and> ssAcceptedUpgradeStrategy (clStatus c') = BlueGreen
     \<and> safeSwitch steadyReader (map steadyPod [0..<3]) c0 c'"
proof -
  let ?c = "steadyCluster BlueGreen (OtherStrategy [])"
  let ?r = "StrategyTransition exampleEnv 5 (Some steadyReader) (Some ?c)"
  have "map_option (\<lambda>d. ssAcceptedUpgradeStrategy (clStatus d)) (snd ?r) = Some BlueGreen"
    by code_simp
  then obtain c' where c': "snd ?r = Some c'" "ssAcceptedUpgradeStrategy (clStatus c') = BlueGreen" by auto
  have "distinct (map pdName (map steadyPod [0..<3]))" by code_simp
  moreover have "rdVoterPods steadyReader = Inr (map steadyPod [0..<3])" by (simp add: steadyReader_def)
  ultimately have or: "c' = ?c \<or> (\<exists>c0. startsFrom steadyReader ?c c0 \<and> (c' = c0 \<or> safeSwitch steadyReader (map steadyPod [0..<3]) c0 c'))"
    using strategy_change_is_safe [of exampleEnv 5 steadyReader ?c "fst ?r" c' "map steadyPod [0..<3]"] c'
    by (metis prod.collapse)
  have e: "ssAcceptedUpgradeStrategy (clStatus ?c) = OtherStrategy []" by (simp add: steadyCluster_def)
  have "voterStatefulSets ?c (rdInferSets steadyReader) = Inr [steadySet]" "omName (stMeta steadySet) = clName ?c"
    "blueGreen ?c = None" by code_simp+
  then have start: "ssAcceptedUpgradeStrategy (clStatus c0) = RollingUpdate" if "startsFrom steadyReader ?c c0" for c0
    using that e by (auto simp: startsFrom_def runsStrategy_def)
  have "c' \<noteq> ?c" using c'(2) e by auto
  with or obtain c0 where c0: "startsFrom steadyReader ?c c0" "c' = c0 \<or> safeSwitch steadyReader (map steadyPod [0..<3]) c0 c'" by blast
  moreover have "c' \<noteq> c0" using start [OF c0(1)] c'(2) by auto
  ultimately show ?thesis using c' start by blast
qed

text \<open>
  C35: the state of a completed rollback blocks every later change of the strategy.  Finalizing a rollback
  keeps its start time, so the gate refuses the requested strategy and leaves the cluster as it is, whatever
  the workload looks like, although the cluster is idle.
\<close>

theorem rollback_blocks_strategy_change:
  assumes "blueGreen c = Some b"
    and "d = FinalizeBlueGreenTerminalState t1 False (setBlueGreen (Some (BeginBlueGreenRollback t0 reason b)) c)"
    and "ssAcceptedUpgradeStrategy (clStatus d) \<noteq> OtherStrategy []"
    and "DesiredStrategy (Some d) \<noteq> ssAcceptedUpgradeStrategy (clStatus d)"
    and "\<not> hasActiveClusterOperation (Some d)"
  shows "\<exists>e. StrategyTransition env tm (Some rd) (Some d) = (Inl e, Some d)"
proof -
  have "\<exists>b'. blueGreen d = Some b' \<and> bgRollbackStartTime b' = Some t0"
    unfolding assms(2)
    by (simp add: FinalizeBlueGreenTerminalState_def ResetBlueGreenTransientState_def AdvanceBlueGreenPhase_def
        BeginBlueGreenRollback_def Let_def)
  then have "validateIdleBlueGreenStatus (ssBlueGreen (clStatus d)) \<noteq> None"
    by (auto simp: validateIdleBlueGreenStatus_def firstFailing_None split: option.splits)
  then have "validateIdleStrategyTransitionStatus d u \<noteq> None" for u
    by (auto simp: validateIdleStrategyTransitionStatus_def Let_def split: option.splits)
  then obtain e where "validateIdleStrategyTransitionStatus d (DesiredStrategy (Some d)) = Some e" by blast
  then show ?thesis
    using assms(3-5) by (simp add: StrategyTransition_def acceptTransition_def Let_def)
qed

theorem rollback_blocks_strategy_change_witness:
  "\<exists>e d. StrategyTransition exampleEnv 9 (Some steadyReader) (Some d) = (Inl e, Some d) \<and> \<not> hasActiveClusterOperation (Some d)"
proof -
  let ?c = "setBlueGreen (Some emptyBlueGreenStatus) (steadyCluster RollingUpdate BlueGreen)"
  let ?d = "FinalizeBlueGreenTerminalState 7 False (setBlueGreen (Some (BeginBlueGreenRollback 3 ''why'' emptyBlueGreenStatus)) ?c)"
  have "ssAcceptedUpgradeStrategy (clStatus ?d) = BlueGreen" "DesiredStrategy (Some ?d) = RollingUpdate"
      "\<not> hasActiveClusterOperation (Some ?d)"
    by code_simp+
  then show ?thesis
    using rollback_blocks_strategy_change [of ?c emptyBlueGreenStatus ?d 7 3 "''why''" exampleEnv 9 steadyReader] by auto
qed

end
