(* ===== verification/Restore_World.thy ===== *)
theory Restore_World
  imports Restore_Types Operation_Lock
begin

text \<open>
  The world of the restore manager: the request object it works on in memory, every version of that
  object the API server has stored (the latest first), and a trace of the calls that leave the process.
  Status writes are merge patches with an optimistic lock, as \<open>patchStatus\<close> sends them: a write whose base
  is not the latest version is a conflict; any other write may be refused, stored, or stored with the reply
  lost.  All other answers are functions of the trace in the record \<open>renv\<close>, so they are arbitrary.  A pass
  starts on any stored version, which models a cache that lags behind.
\<close>

section \<open>Shorthands\<close>

abbreviation execution :: "OpenBaoRestore \<Rightarrow> RestoreExecutionStatus option" where
  "execution r \<equiv> rsExecution (orsStatus r)"

abbreviation target :: "OpenBaoRestore \<Rightarrow> RestoreTargetStatus option" where
  "target r \<equiv> rsTarget (orsStatus r)"

abbreviation restorePhase :: "OpenBaoRestore \<Rightarrow> RestorePhase" where
  "restorePhase r \<equiv> rsPhase (orsStatus r)"

section \<open>Calls\<close>

datatype writeReply = Accepted | Refused go_error | ReplyLost go_error

datatype revent =
    RPatchStatus OpenBaoRestoreStatus "go_error option"
  | RPatchFinalizers "string list" "go_error option"
  | RGetCluster "go_error + Cluster"
  | RPatchCluster Cluster Cluster "go_error + Cluster"
  | RCreateCluster Cluster bool "go_error option"
  | RDeleteCluster string string "go_error option"
  | RPatchLock "OperationLockStatus option" "go_error + Cluster"
  | RGetJob string "go_error + Job"
  | RCreateJob Job "go_error + Job"
  | RDeleteJob string "go_error option"
  | RListPods labels "go_error + Pod list"
  | RGetClaim string "go_error + PersistentVolumeClaim"
  | RDeleteClaim string string "go_error option"
  | RGetSts string "go_error + StatefulSet"
  | RGetPod string "go_error + Pod"
  | RPatchPod string "go_error option"
  | RDeletePod string string "go_error option"
  | RTrustBundle "go_error option"
  | RHealth string "go_error + HealthStatus"
  | RRecoveryClient string "go_error option"
  | RReadRaft string "go_error + RaftServer list option"
  | RStepDown string "go_error option"
  | RPrepareRetained string "go_error + string"
  | RVerifyImage string "go_error + string"
  | RReadiness "go_error + string \<times> string \<times> string"
  | REnsureResources string "go_error option"
  | REvent bool string string
  | RAudit string labels
  | RMetric string int

text \<open>
  \<open>rePodPages\<close> answers a paginated list call: the first page and those that follow while the server returns
  a continue token.  Optional fields are the manager's fields that may be nil.
\<close>

record renv =
  reNow :: "revent list \<Rightarrow> time"
  reSha :: "string \<Rightarrow> string"
  rePatchStatus :: "revent list \<Rightarrow> writeReply"
  rePatchFinalizers :: "revent list \<Rightarrow> writeReply"
  reGetRestore :: "revent list \<Rightarrow> go_error + nat"
  reGetCluster :: "revent list \<Rightarrow> go_error + Cluster"
  rePatchCluster :: "revent list \<Rightarrow> Cluster \<Rightarrow> Cluster \<Rightarrow> go_error + Cluster"
  reCreateCluster :: "revent list \<Rightarrow> Cluster \<Rightarrow> bool \<Rightarrow> go_error option"
  reDeleteCluster :: "revent list \<Rightarrow> go_error option"
  rePatchLock :: "revent list \<Rightarrow> Cluster \<Rightarrow> OperationLockStatus option \<Rightarrow> go_error + Cluster"
  reGetJob :: "revent list \<Rightarrow> string \<Rightarrow> go_error + Job"
  reCreateJob :: "revent list \<Rightarrow> Job \<Rightarrow> go_error + Job"
  reDeleteJob :: "revent list \<Rightarrow> Job \<Rightarrow> go_error option"
  rePodPages :: "revent list \<Rightarrow> labels \<Rightarrow> (go_error + Pod list) \<times> (go_error + Pod list) list"
  reGetClaim :: "revent list \<Rightarrow> string \<Rightarrow> go_error + PersistentVolumeClaim"
  reDeleteClaim :: "revent list \<Rightarrow> PersistentVolumeClaim \<Rightarrow> go_error option"
  reGetSts :: "revent list \<Rightarrow> string \<Rightarrow> go_error + StatefulSet"
  reGetPod :: "revent list \<Rightarrow> string \<Rightarrow> go_error + Pod"
  rePatchPod :: "revent list \<Rightarrow> Pod \<Rightarrow> go_error option"
  reDeletePod :: "revent list \<Rightarrow> Pod \<Rightarrow> go_error option"
  reTrustBundle :: "revent list \<Rightarrow> Cluster \<Rightarrow> go_error option"
  reHealth :: "revent list \<Rightarrow> string \<Rightarrow> go_error + HealthStatus"
  reRecoveryClient :: "(revent list \<Rightarrow> Cluster \<Rightarrow> string \<Rightarrow> go_error option) option"
  reReadRaft :: "revent list \<Rightarrow> string \<Rightarrow> go_error + RaftServer list option"
  reStepDown :: "revent list \<Rightarrow> string \<Rightarrow> go_error option"
  rePrepareRetained :: "(revent list \<Rightarrow> Cluster \<Rightarrow> string \<Rightarrow> go_error + string) option"
  reOperatorVerification :: "Cluster \<Rightarrow> bool"
  reVerifyOperator :: "revent list \<Rightarrow> Cluster \<Rightarrow> string \<Rightarrow> go_error + string"
  reBackupImage :: "Cluster \<Rightarrow> string"
  reDefaultBackupImage :: "go_error + string"
  reBuildJob :: "OpenBaoRestore \<Rightarrow> Cluster \<Rightarrow> string \<Rightarrow> go_error + Job"
  reReadiness :: "revent list \<Rightarrow> OpenBaoRestore \<Rightarrow> Cluster \<Rightarrow> go_error + string \<times> string \<times> string"
  reEnsureServiceAccount :: "revent list \<Rightarrow> Cluster \<Rightarrow> go_error option"
  reEnsureRBAC :: "revent list \<Rightarrow> Cluster \<Rightarrow> string \<Rightarrow> go_error option"
  reEgressRulesExplicit :: "string list \<Rightarrow> bool"
  reStorageViolation :: "OpenBaoRestore \<Rightarrow> string option"
  reIdentityMessage :: "OpenBaoRestore \<Rightarrow> Cluster \<Rightarrow> string option"

section \<open>State\<close>

record rst =
  rq :: OpenBaoRestore
  hist :: "OpenBaoRestore list"
  rtrace :: "revent list"

abbreviation stored :: "rst \<Rightarrow> OpenBaoRestore" where
  "stored s \<equiv> hd (hist s)"

type_synonym 'a rop = "(rst, 'a) run"

definition remit :: "revent \<Rightarrow> unit rop" where
  "remit e = modify (\<lambda>s. s\<lparr>rtrace := rtrace s @ [e]\<rparr>)"

definition rcall :: "(revent list \<Rightarrow> go_error + 'a) \<Rightarrow> (go_error + 'a \<Rightarrow> revent) \<Rightarrow> 'a rop" where
  "rcall f ev s = (let r = f (rtrace s) in (r, s\<lparr>rtrace := rtrace s @ [ev r]\<rparr>))"

definition rcallU :: "(revent list \<Rightarrow> go_error option) \<Rightarrow> (go_error option \<Rightarrow> revent) \<Rightarrow> unit rop" where
  "rcallU f ev s = (let r = f (rtrace s) in
     (case r of None \<Rightarrow> Inr () | Some e \<Rightarrow> Inl e, s\<lparr>rtrace := rtrace s @ [ev r]\<rparr>))"

definition rnow :: "renv \<Rightarrow> time rop" where
  "rnow env = gets (\<lambda>s. reNow env (rtrace s))"

definition updRq :: "(OpenBaoRestore \<Rightarrow> OpenBaoRestore) \<Rightarrow> unit rop" where
  "updRq f = modify (\<lambda>s. s\<lparr>rq := f (rq s)\<rparr>)"

text \<open>What the server stores for a patch of the status computed from \<open>base\<close> and \<open>new\<close>; a patch without effect keeps the version.\<close>

definition patchedStatus :: "OpenBaoRestore \<Rightarrow> OpenBaoRestore \<Rightarrow> OpenBaoRestore \<Rightarrow> OpenBaoRestore" where
  "patchedStatus base new cur =
     (let merged = mergeStatus (orsStatus base) (orsStatus new) (orsStatus cur)
      in if merged = orsStatus cur then cur
         else cur\<lparr>orsStatus := merged, orsResourceVersion := Suc (orsResourceVersion cur)\<rparr>)"

definition pushVersion :: "OpenBaoRestore \<Rightarrow> OpenBaoRestore list \<Rightarrow> OpenBaoRestore list" where
  "pushVersion v vs = (if v = hd vs then vs else v # vs)"

definition patchStatus :: "renv \<Rightarrow> OpenBaoRestore \<Rightarrow> unit rop" where
  "patchStatus env original s =
     (let new = patchedStatus original (rq s) (stored s);
          failed = (\<lambda>e t. (Inl e, t\<lparr>rtrace := rtrace t @ [RPatchStatus (orsStatus (rq s)) (Some e)]\<rparr>))
      in case rePatchStatus env (rtrace s) of
           Refused e \<Rightarrow> failed e s
         | reply \<Rightarrow>
             if orsResourceVersion original \<noteq> orsResourceVersion (stored s) then failed (ApiStatus Conflict False) s
             else (case reply of
                 ReplyLost e \<Rightarrow> failed e (s\<lparr>hist := pushVersion new (hist s)\<rparr>)
               | _ \<Rightarrow> (Inr (), s\<lparr>hist := pushVersion new (hist s), rq := new,
                        rtrace := rtrace s @ [RPatchStatus (orsStatus (rq s)) None]\<rparr>)))"

text \<open>\<open>original := restore.DeepCopy()\<close>, a change of the status, and the patch.\<close>

definition updateStatus :: "renv \<Rightarrow> (OpenBaoRestoreStatus \<Rightarrow> OpenBaoRestoreStatus) \<Rightarrow> unit rop" where
  "updateStatus env f = bnd (gets rq) (\<lambda>original. bnd (updRq (mapRestoreStatus f)) (\<lambda>_. patchStatus env original))"

text \<open>The finalizer list is patched without an optimistic lock: the list is replaced when it changed.\<close>

definition patchFinalizers :: "renv \<Rightarrow> (string list \<Rightarrow> string list) \<Rightarrow> unit rop" where
  "patchFinalizers env f s =
     (let base = rq s; new = base\<lparr>orsFinalizers := f (orsFinalizers base)\<rparr>; cur = stored s;
          fs = mrg (orsFinalizers base) (orsFinalizers new) (orsFinalizers cur);
          cur' = (if fs = orsFinalizers cur then cur
                  else cur\<lparr>orsFinalizers := fs, orsResourceVersion := Suc (orsResourceVersion cur)\<rparr>);
          failed = (\<lambda>e t. (Inl e, t\<lparr>rtrace := rtrace t @ [RPatchFinalizers (orsFinalizers new) (Some e)]\<rparr>))
      in case rePatchFinalizers env (rtrace s) of
           Refused e \<Rightarrow> failed e (s\<lparr>rq := new\<rparr>)
         | ReplyLost e \<Rightarrow> failed e (s\<lparr>rq := new, hist := pushVersion cur' (hist s)\<rparr>)
         | Accepted \<Rightarrow> (Inr (), s\<lparr>hist := pushVersion cur' (hist s), rq := cur',
             rtrace := rtrace s @ [RPatchFinalizers (orsFinalizers new) None]\<rparr>))"

text \<open>A read of the request through the cache: any version the server has stored.\<close>

definition getRestore :: "renv \<Rightarrow> unit rop" where
  "getRestore env s = (case reGetRestore env (rtrace s) of
      Inl e \<Rightarrow> (Inl e, s)
    | Inr n \<Rightarrow> (Inr (), s\<lparr>rq := hist s ! (n mod length (hist s))\<rparr>))"

definition rgetCluster :: "renv \<Rightarrow> Cluster rop" where
  "rgetCluster env = rcall (reGetCluster env) RGetCluster"

definition rpatchCluster :: "renv \<Rightarrow> Cluster \<Rightarrow> Cluster \<Rightarrow> Cluster rop" where
  "rpatchCluster env before new = rcall (\<lambda>tr. rePatchCluster env tr before new) (RPatchCluster before new)"

definition rgetJob :: "renv \<Rightarrow> string \<Rightarrow> Job rop" where
  "rgetJob env name = rcall (\<lambda>tr. reGetJob env tr name) (RGetJob name)"

definition rcreateJob :: "renv \<Rightarrow> Job \<Rightarrow> Job rop" where
  "rcreateJob env j = rcall (\<lambda>tr. reCreateJob env tr j) (RCreateJob j)"

definition rdeleteJob :: "renv \<Rightarrow> Job \<Rightarrow> unit rop" where
  "rdeleteJob env j = rcallU (\<lambda>tr. reDeleteJob env tr j) (RDeleteJob (omName (jbMeta j)))"

definition rgetClaim :: "renv \<Rightarrow> string \<Rightarrow> PersistentVolumeClaim rop" where
  "rgetClaim env name = rcall (\<lambda>tr. reGetClaim env tr name) (RGetClaim name)"

definition raudit :: "string \<Rightarrow> labels \<Rightarrow> unit rop" where
  "raudit ty flds = remit (RAudit ty flds)"

definition rLockApi :: "renv \<Rightarrow> rst lock_api" where
  "rLockApi env = \<lparr> la_reader = Some (\<lambda>ns name. rgetCluster env), la_get = (\<lambda>ns name. rgetCluster env),
     la_patch = (\<lambda>base l. rcall (\<lambda>tr. rePatchLock env tr base l) (RPatchLock l)),
     la_now = (\<lambda>s. reNow env (rtrace s)) \<rparr>"

text \<open>A read through a status pointer, which panics when it is nil.\<close>

definition withExecution :: "(RestoreExecutionStatus \<Rightarrow> 'a rop) \<Rightarrow> 'a rop" where
  "withExecution k = bnd (gets (\<lambda>s. execution (rq s))) (\<lambda>x. case x of
      None \<Rightarrow> failwith (Panic ''status.execution'') | Some x \<Rightarrow> k x)"

definition withTarget :: "(RestoreTargetStatus \<Rightarrow> 'a rop) \<Rightarrow> 'a rop" where
  "withTarget k = bnd (gets (\<lambda>s. target (rq s))) (\<lambda>x. case x of
      None \<Rightarrow> failwith (Panic ''status.target'') | Some x \<Rightarrow> k x)"

section \<open>Events (events.go)\<close>

definition emitRestoreEvent :: "bool \<Rightarrow> string \<Rightarrow> string \<Rightarrow> unit rop" where
  "emitRestoreEvent warning reason note = remit (REvent warning reason note)"

section \<open>Weakest preconditions\<close>

lemma wp_rstate [wps]:
  "wp (remit e) Q E s = Q () (s\<lparr>rtrace := rtrace s @ [e]\<rparr>)"
  "wp (rnow env) Q2 E s = Q2 (reNow env (rtrace s)) s"
  "wp (updRq f) Q E s = Q () (s\<lparr>rq := f (rq s)\<rparr>)"
  by (simp_all add: remit_def rnow_def updRq_def wps)

lemma wp_withExecution [wps]:
  "wp (withExecution k) Q E s = (case execution (rq s) of None \<Rightarrow> E (Panic ''status.execution'') s | Some x \<Rightarrow> wp (k x) Q E s)"
  by (simp add: withExecution_def wps split: option.split)

lemma wp_withTarget [wps]:
  "wp (withTarget k) Q E s = (case target (rq s) of None \<Rightarrow> E (Panic ''status.target'') s | Some x \<Rightarrow> wp (k x) Q E s)"
  by (simp add: withTarget_def wps split: option.split)

lemma wp_updateStatus [wps]:
  "wp (updateStatus env f) Q E s = wp (patchStatus env (rq s)) Q E (s\<lparr>rq := mapRestoreStatus f (rq s)\<rparr>)"
  by (simp add: updateStatus_def wps)

end
