(* ===== verification/Restore_Execution.thy ===== *)
theory Restore_Execution
  imports Restore_World
begin

text \<open>
  The parts of the restore manager every phase uses: names and messages (\<open>manager_helpers.go\<close>), the durable
  execution receipts (\<open>execution.go\<close>), the pure decision (\<open>manager_decision.go\<close>), terminal transitions and lock
  release (\<open>manager_status.go\<close>), the observation of executor Pods (\<open>executor_observation.go\<close>) and the
  submission claim of the executor (\<open>submission_claim.go\<close>).
\<close>

section \<open>Names, labels and messages\<close>

definition restoreRequeueImmediately :: int where "restoreRequeueImmediately = seconds 1"
definition restoreRequeueJobPoll :: int where "restoreRequeueJobPoll = seconds 15"
definition restoreRequeueJobCheck :: int where "restoreRequeueJobCheck = seconds 10"

definition AnnotationRestoreHold :: string where "AnnotationRestoreHold = ''openbao.org/restore-hold''"
definition AnnotationRestoreOrigin :: string where "AnnotationRestoreOrigin = ''openbao.org/restore-origin''"
definition AnnotationRestoreAcknowledge :: string where "AnnotationRestoreAcknowledge = ''openbao.org/restore-acknowledge''"
definition AnnotationMaintenance :: string where "AnnotationMaintenance = ''openbao.org/maintenance''"
definition AnnotationConfigHash :: string where "AnnotationConfigHash = ''openbao.org/config-hash''"
definition restoreExecutionIDAnnotation :: string where "restoreExecutionIDAnnotation = ''openbao.org/restore-execution-id''"
definition OpenBaoRestoreFinalizer :: string where "OpenBaoRestoreFinalizer = ''openbao.org/openbaorestore-finalizer''"

definition delAnnotation :: "string \<Rightarrow> labels \<Rightarrow> labels" where
  "delAnnotation k = filter (\<lambda>(a, _). a \<noteq> k)"

definition openBaoRestoreGVK :: GroupVersionKind where
  "openBaoRestoreGVK = \<lparr> gvkGroup = ''openbao.org'', gvkVersion = ''v1alpha1'', gvkKind = ''OpenBaoRestore'' \<rparr>"

definition restoreMeta :: "OpenBaoRestore \<Rightarrow> ObjectMeta" where
  "restoreMeta r = \<lparr> omName = orsName r, omNamespace = orsNamespace r, omUID = orsUID r,
     omResourceVersion = nat_str (orsResourceVersion r), omGeneration = orsGeneration r, omLabels = [],
     omAnnotations = orsAnnotations r, omOwnerReferences = [], omCreationTimestamp = 0,
     omDeletionTimestamp = orsDeletionTimestamp r \<rparr>"

definition restoreOperationLock :: "OpenBaoRestore \<Rightarrow> OperationLock" where
  "restoreOperationLock r = \<lparr> olHolder = ''openbaorestore/'' @ orsName r, olOperation = ''Restore'' \<rparr>"

definition restoreLockMessage :: "OpenBaoRestore \<Rightarrow> string" where
  "restoreLockMessage r = ''restore '' @ orsNamespace r @ ''/'' @ orsName r"

definition restoreWaitingForOperationLockStatusMessage :: "go_error \<Rightarrow> string" where
  "restoreWaitingForOperationLockStatusMessage err = (case AsHeldError err of
      Some (HeldError opn holder _) \<Rightarrow> ''Waiting for cluster operation lock held by operation='' @ opn @ '' holder='' @ holder
        @ ''. Restore will retry automatically; use overrideOperationLock with force=true only for disaster recovery.''
    | _ \<Rightarrow> ''Waiting for cluster operation lock. Restore will retry automatically.'')"

definition restoreJobRunningStatusMessage :: "string \<Rightarrow> string" where
  "restoreJobRunningStatusMessage jobName =
     ''Waiting for terminal conditions and executor termination for restore Job '' @ jobName @ ''.''"

definition restoreJobFailedStatusMessage :: "Job option \<Rightarrow> string \<Rightarrow> string" where
  "restoreJobFailedStatusMessage job failureHint =
     (let logs = (\<lambda>j. ''. Check kubectl logs job/'' @ omName (jbMeta j) @ '' -n '' @ omNamespace (jbMeta j) @ ''.'');
          message = (case job of None \<Rightarrow> ''Restore Job failed. Check the restore Job logs.''
            | Some j \<Rightarrow> (case find (\<lambda>k. cdType k = ''Failed'' \<and> cdStatus k = ''True'' \<and> cdMessage k \<noteq> []) (jbConditions j) of
                Some k \<Rightarrow> ''Restore Job '' @ omName (jbMeta j) @ '' failed: '' @ cdMessage k @ logs j
              | None \<Rightarrow> ''Restore Job '' @ omName (jbMeta j) @ '' failed'' @ logs j))
      in if failureHint = [] then message else message @ '' '' @ failureHint)"

definition restoreJobName :: "renv \<Rightarrow> OpenBaoRestore \<Rightarrow> string" where
  "restoreJobName env r =
     (let base = to_lower (replace_char (CHR ''_'') (CHR ''-'') (''restore-'' @ orsName r))
      in if length base \<le> 63 then base
         else let suffix = take 10 (reSha env (orsName r))
              in trim_right_char (CHR ''-'') (take (63 - 1 - length suffix) base) @ ''-'' @ suffix)"

definition restoreTargetStatefulSetName :: "Cluster \<Rightarrow> string" where
  "restoreTargetStatefulSetName c = (case blueGreen c of
      Some b \<Rightarrow> if bgBlueRevision b \<noteq> [] then clName c @ ''-'' @ bgBlueRevision b else clName c
    | None \<Rightarrow> clName c)"

definition restoreAuditFields :: "OpenBaoRestore \<Rightarrow> labels" where
  "restoreAuditFields r = [(''cluster_namespace'', orsNamespace r), (''cluster_name'', opCluster (orsSpec r)),
     (''restore_name'', orsName r)]"

definition getRestoreExecutorImage :: "renv \<Rightarrow> OpenBaoRestore \<Rightarrow> Cluster \<Rightarrow> go_error + string" where
  "getRestoreExecutorImage env r c =
     (if opImage (orsSpec r) \<noteq> [] then Inr (opImage (orsSpec r))
      else if reBackupImage env c \<noteq> [] then Inr (reBackupImage env c)
      else case reDefaultBackupImage env of
          Inl e \<Rightarrow> Inl (permanentReason ''HelperImageConfigurationInvalid'' (wrapf ''default restore executor image is unavailable'' e))
        | Inr i \<Rightarrow> Inr i)"

section \<open>Execution receipts (execution.go)\<close>

definition restoreExecutionOperationID :: "OpenBaoRestore \<Rightarrow> string" where
  "restoreExecutionOperationID r = (if orsUID r \<noteq> [] then orsUID r else orsNamespace r @ ''/'' @ orsName r)"

definition newRestoreExecutionStatus :: "renv \<Rightarrow> time \<Rightarrow> OpenBaoRestore \<Rightarrow> RestoreExecutionStatus" where
  "newRestoreExecutionStatus env tm r = emptyExecution\<lparr>exOperationID := restoreExecutionOperationID r,
     exStage := ExecutionPrepared, exJobName := restoreJobName env r, exPreparedAt := Some tm\<rparr>"

definition restoreExecutionCommitted :: "RestoreExecutionStatus option \<Rightarrow> bool" where
  "restoreExecutionCommitted x = (case x of None \<Rightarrow> False
     | Some x \<Rightarrow> exStage x \<in> {ExecutionCommitted, ExecutionCreated, ExecutionTerminalObserved,
         ExecutionFollowThroughComplete, ExecutionUnknown})"

definition validateRestoreExecutionIdentity :: "renv \<Rightarrow> OpenBaoRestore \<Rightarrow> go_error option" where
  "validateRestoreExecutionIdentity env r = (case execution r of
      None \<Rightarrow> Some (errorf ''restore execution status is missing'')
    | Some x \<Rightarrow>
        if exOperationID x \<noteq> restoreExecutionOperationID r then Some (errorf ''restore execution operationID does not match'')
        else if exJobName x \<noteq> restoreJobName env r then Some (errorf ''restore execution jobName does not match'')
        else None)"

definition validateRestoreExecutionJob :: "RestoreExecutionStatus option \<Rightarrow> Job option \<Rightarrow> go_error option" where
  "validateRestoreExecutionJob x job = (case (x, job) of
      (Some x, Some j) \<Rightarrow>
        if omName (jbMeta j) \<noteq> exJobName x then Some (errorf ''restore Job name does not match receipt'')
        else if exJobUID x \<noteq> [] \<and> omUID (jbMeta j) \<noteq> exJobUID x then Some (errorf ''restore Job UID does not match receipt'')
        else let operationID = lookup_label (omAnnotations (jbMeta j)) restoreExecutionIDAnnotation
             in if operationID \<noteq> [] \<and> operationID \<noteq> exOperationID x then Some (errorf ''restore Job operation ID does not match receipt'')
                else None
    | _ \<Rightarrow> Some (errorf ''restore execution and Job are required''))"

abbreviation setExecution :: "(RestoreExecutionStatus \<Rightarrow> RestoreExecutionStatus) \<Rightarrow> OpenBaoRestoreStatus \<Rightarrow> OpenBaoRestoreStatus" where
  "setExecution f st \<equiv> st\<lparr>rsExecution := map_option f (rsExecution st)\<rparr>"

definition markRestoreExecutionCommitted :: "renv \<Rightarrow> unit rop" where
  "markRestoreExecutionCommitted env = withExecution (\<lambda>x. bnd (rnow env) (\<lambda>tm.
     updateStatus env (\<lambda>st. (setExecution (\<lambda>x. x\<lparr>exStage := ExecutionCommitted, exCommittedAt := Some tm\<rparr>) st)
       \<lparr>rsMessage := ''Committed restore execution '' @ exOperationID x @ ''; creating Job '' @ exJobName x @ '' exactly once.''\<rparr>)))"

definition markRestoreExecutionCreated :: "renv \<Rightarrow> Job option \<Rightarrow> unit rop" where
  "markRestoreExecutionCreated env job = bnd (gets rq) (\<lambda>r.
     case validateRestoreExecutionJob (execution r) job of
       Some e \<Rightarrow> failwith e
     | None \<Rightarrow> (case job of None \<Rightarrow> failwith (Panic ''job'')
         | Some j \<Rightarrow> bnd (rnow env) (\<lambda>tm.
             updateStatus env (\<lambda>st. (setExecution (\<lambda>x. x\<lparr>exStage := ExecutionCreated, exJobUID := omUID (jbMeta j),
                 exCreatedAt := Some tm\<rparr>) st)\<lparr>rsMessage := restoreJobRunningStatusMessage (omName (jbMeta j))\<rparr>))))"

definition markRestoreExecutionTerminal :: "renv \<Rightarrow> RestoreExecutionResult \<Rightarrow> unit rop" where
  "markRestoreExecutionTerminal env result = withExecution (\<lambda>x. bnd (rnow env) (\<lambda>tm.
     updateStatus env (\<lambda>st. (setExecution (\<lambda>x. x\<lparr>exStage := ExecutionTerminalObserved, exTerminalResult := result,
         exTerminalObservedAt := Some tm\<rparr>) st)\<lparr>rsMessage := ''Restore Job '' @ exJobName x @ '' terminal result recorded.''\<rparr>)))"

definition restoreCondition :: "OpenBaoRestore \<Rightarrow> string \<Rightarrow> string \<Rightarrow> string \<Rightarrow> string \<Rightarrow> time \<Rightarrow> Condition" where
  "restoreCondition r ty status reason message tm = \<lparr> cdType = ty, cdStatus = status, cdReason = reason,
     cdMessage = message, cdObservedGeneration = orsGeneration r, cdLastTransitionTime = tm \<rparr>"

definition markRestoreExecutionUnknown :: "renv \<Rightarrow> string \<Rightarrow> unit rop" where
  "markRestoreExecutionUnknown env message = bnd (gets rq) (\<lambda>r. bnd (rnow env) (\<lambda>tm.
     updateStatus env (\<lambda>st. st\<lparr>
       rsExecution := Some ((case rsExecution st of Some x \<Rightarrow> x | None \<Rightarrow> newRestoreExecutionStatus env tm r)
         \<lparr>exStage := ExecutionUnknown\<rparr>),
       rsPhase := RestorePhaseUnknown, rsMessage := message,
       rsConditions := setStatusCondition (restoreCondition r ''RestoreComplete'' ''Unknown'' ''RestoreExecutionUnknown'' message tm)
         (if opTargetLifecycle (orsSpec r) \<noteq> LifecycleDisposable
          then setStatusCondition (restoreCondition r ''RecoveryReleased'' ''False'' ''AwaitingAcknowledgement''
                 ''Inspect the restored target before acknowledging Resume or Abandon'' tm) (rsConditions st)
          else rsConditions st)\<rparr>)))"

definition restoreSubmissionExcluded :: "OpenBaoRestore \<Rightarrow> bool" where
  "restoreSubmissionExcluded r =
     (if rsSubmissionClaim (orsStatus r) \<noteq> None then False
      else if \<not> restoreExecutionCommitted (execution r) then True
      else restorePhase r = RestorePhaseFailed
        \<and> (case execution r of None \<Rightarrow> False
           | Some x \<Rightarrow> exStage x = ExecutionTerminalObserved \<and> exTerminalResult x = ExecutionFailed))"

section \<open>Decision (manager\_decision.go)\<close>

datatype restoreDecisionKind =
    restoreDecisionIdle
  | restoreDecisionMarkUnknown
  | restoreDecisionCreateJob
  | restoreDecisionAdoptLegacyJob
  | restoreDecisionRecordCreatedReceipt
  | restoreDecisionRecordSucceededJob
  | restoreDecisionRecordFailedJob
  | restoreDecisionPollJob
  | restoreDecisionContinueRecovery
  | restoreDecisionFailRestore
  | restoreDecisionCompleteRestore

datatype restoreJobState = restoreJobNotObserved | restoreJobRunning | restoreJobSucceeded | restoreJobFailed

record restoreState =
  dsExecutionStage :: RestoreExecutionStage
  dsTerminalResult :: RestoreExecutionResult
  dsLegacy :: bool
  dsJobState :: restoreJobState
  dsUnknownMessage :: string
  dsWaitMessage :: string
  dsFailureMessage :: string

definition zeroRestoreState :: restoreState where
  "zeroRestoreState = \<lparr> dsExecutionStage = OtherExecutionStage [], dsTerminalResult = OtherExecutionResult [],
     dsLegacy = False, dsJobState = restoreJobNotObserved, dsUnknownMessage = [], dsWaitMessage = [], dsFailureMessage = [] \<rparr>"

record restoreDecision =
  dcKind :: restoreDecisionKind
  dcMessage :: string

definition decideRestore :: "restoreState \<Rightarrow> restoreDecision" where
  "decideRestore state = (let plain = (\<lambda>k. \<lparr> dcKind = k, dcMessage = [] \<rparr>) in
     if dsFailureMessage state \<noteq> [] then \<lparr> dcKind = restoreDecisionFailRestore, dcMessage = dsFailureMessage state \<rparr>
     else if dsUnknownMessage state \<noteq> [] then \<lparr> dcKind = restoreDecisionMarkUnknown, dcMessage = dsUnknownMessage state \<rparr>
     else if dsLegacy state then plain restoreDecisionAdoptLegacyJob
     else case dsExecutionStage state of
         ExecutionPrepared \<Rightarrow> plain restoreDecisionCreateJob
       | ExecutionCommitted \<Rightarrow> plain restoreDecisionRecordCreatedReceipt
       | ExecutionCreated \<Rightarrow> (case dsJobState state of
             restoreJobSucceeded \<Rightarrow> plain restoreDecisionRecordSucceededJob
           | restoreJobFailed \<Rightarrow> plain restoreDecisionRecordFailedJob
           | _ \<Rightarrow> plain restoreDecisionPollJob)
       | ExecutionTerminalObserved \<Rightarrow> (case dsTerminalResult state of
             ExecutionSucceeded \<Rightarrow> plain restoreDecisionContinueRecovery
           | ExecutionFailed \<Rightarrow> plain restoreDecisionFailRestore
           | OtherExecutionResult _ \<Rightarrow> \<lparr> dcKind = restoreDecisionMarkUnknown,
               dcMessage = ''Restore terminal receipt has unsupported result. The operator will not create or recreate a restore Job.'' \<rparr>)
       | ExecutionFollowThroughComplete \<Rightarrow> plain restoreDecisionCompleteRestore
       | ExecutionUnknown \<Rightarrow> plain restoreDecisionIdle
       | OtherExecutionStage _ \<Rightarrow> \<lparr> dcKind = restoreDecisionMarkUnknown,
           dcMessage = ''Restore execution has unsupported stage. The operator will not create or recreate a restore Job.'' \<rparr>)"

section \<open>Lock release and terminal phases (manager\_status.go)\<close>

definition ignoreHeld :: "'a rop \<Rightarrow> ('a \<Rightarrow> unit rop) \<Rightarrow> unit rop" where
  "ignoreHeld m k = bnd (attempt m) (\<lambda>r. case r of
      Inl e \<Rightarrow> if IsLockHeld (Some e) then ret () else failwith e | Inr a \<Rightarrow> k a)"

definition releaseClusterLock :: "renv \<Rightarrow> unit rop" where
  "releaseClusterLock env = bnd (gets rq) (\<lambda>r.
     if opCluster (orsSpec r) = [] then ret ()
     else bnd (attempt (rgetCluster env)) (\<lambda>g. case g of
         Inl e \<Rightarrow> if is_not_found e then ret () else failwith (wrapf ''failed to get target cluster for lock release'' e)
       | Inr c \<Rightarrow>
           if (case execution r of None \<Rightarrow> False | Some x \<Rightarrow> exTargetUID x \<noteq> [] \<and> exTargetUID x \<noteq> clUID c) then ret ()
           else bnd (if restoreSubmissionExcluded r
                        \<and> lookup_label (clAnnotations c) AnnotationRestoreHold = restoreExecutionOperationID r
                     then rpatchCluster env c (c\<lparr>clAnnotations := delAnnotation AnnotationRestoreHold (clAnnotations c)\<rparr>)
                     else ret c) (\<lambda>c'.
             ignoreHeld (ReleaseWithReader (rLockApi env) (Some c') (restoreOperationLock r)) (\<lambda>_.
               raudit ''OperationLockReleased'' (restoreAuditFields r
                 @ [(''operation'', ''Restore''), (''holder'', olHolder (restoreOperationLock r))])))))"

definition durationSince :: "OpenBaoRestore \<Rightarrow> time \<Rightarrow> int" where
  "durationSince r tm = (case rsStartTime (orsStatus r) of None \<Rightarrow> 0 | Some t \<Rightarrow> tm - t)"

definition failRestore :: "renv \<Rightarrow> string \<Rightarrow> string \<Rightarrow> int rop" where
  "failRestore env reason message = bnd (gets rq) (\<lambda>r. bnd (rnow env) (\<lambda>tm.
     bnd (wrap_err (wrapf ''failed to patch restore status'') (updateStatus env (\<lambda>st. st\<lparr>rsPhase := RestorePhaseFailed,
            rsCompletionTime := Some tm, rsMessage := message,
            rsConditions := setStatusCondition (restoreCondition r ''RestoreComplete'' ''False'' reason message tm) (rsConditions st)\<rparr>))) (\<lambda>_.
     bnd (raudit ''RestoreFailed'' (restoreAuditFields r)) (\<lambda>_.
     bnd (emitRestoreEvent True ''RestoreFailed'' message) (\<lambda>_.
     bnd (gets rq) (\<lambda>r'. bnd (remit (RMetric ''failure'' (durationSince r' tm))) (\<lambda>_.
     bnd (attempt (releaseClusterLock env)) (\<lambda>_. ret 0))))))))"

definition completeRestore :: "renv \<Rightarrow> string \<Rightarrow> unit rop" where
  "completeRestore env message = bnd (gets rq) (\<lambda>r. bnd (rnow env) (\<lambda>tm.
     bnd (wrap_err (wrapf ''failed to patch restore status'') (updateStatus env (\<lambda>st. st\<lparr>rsPhase := RestorePhaseCompleted,
            rsCompletionTime := Some tm, rsMessage := message,
            rsConditions := setStatusCondition (restoreCondition r ''RestoreComplete'' ''True'' ''RestoreSucceeded'' message tm) (rsConditions st)\<rparr>))) (\<lambda>_.
     bnd (raudit ''RestoreCompleted'' (restoreAuditFields r)) (\<lambda>_.
     bnd (emitRestoreEvent False ''RestoreCompleted'' message) (\<lambda>_.
     bnd (gets rq) (\<lambda>r'. bnd (remit (RMetric ''success'' (durationSince r' tm))) (\<lambda>_.
     bnd (attempt (releaseClusterLock env)) (\<lambda>_. ret ()))))))))"

definition patchRestoreConfigurationCondition :: "renv \<Rightarrow> string \<Rightarrow> string \<Rightarrow> string \<Rightarrow> unit rop" where
  "patchRestoreConfigurationCondition env status reason message = bnd (gets rq) (\<lambda>r.
     if (case findStatusCondition (rsConditions (orsStatus r)) ''RestoreConfigurationReady'' of None \<Rightarrow> False
         | Some k \<Rightarrow> cdStatus k = status \<and> cdReason k = reason \<and> cdMessage k = message \<and> cdObservedGeneration k = orsGeneration r)
     then ret ()
     else bnd (rnow env) (\<lambda>tm. wrap_err (wrapf ''failed to patch restore configuration status'')
       (updateStatus env (\<lambda>st. st\<lparr>rsConditions := setStatusCondition
          (restoreCondition r ''RestoreConfigurationReady'' status reason message tm) (rsConditions st)\<rparr>))))"

definition ensureFinalizer :: "renv \<Rightarrow> unit rop" where
  "ensureFinalizer env = bnd (gets rq) (\<lambda>r.
     if OpenBaoRestoreFinalizer \<in> set (orsFinalizers r) then ret ()
     else bnd (wrap_err (wrapf ''failed to add finalizer'') (patchFinalizers env (\<lambda>fs. fs @ [OpenBaoRestoreFinalizer]))) (\<lambda>_.
       wrap_err (wrapf ''failed to refresh restore after adding finalizer'') (getRestore env)))"

definition readRestoreJob :: "renv \<Rightarrow> string \<Rightarrow> string \<Rightarrow> Job rop" where
  "readRestoreJob env name action = bnd (gets rq) (\<lambda>r.
     ReadManagedJob (Some (rgetJob env)) name (Some (restoreMeta r)) openBaoRestoreGVK action)"

definition deleteRestoreJob :: "renv \<Rightarrow> bool rop" where
  "deleteRestoreJob env = bnd (gets rq) (\<lambda>r.
     bnd (attempt (readRestoreJob env (restoreJobName env r) ''delete restore'')) (\<lambda>g. case g of
       Inl e \<Rightarrow> if is_not_found e then ret True else failwith (wrapf ''failed to get restore Job during deletion'' e)
     | Inr job \<Rightarrow>
         if omDeletionTimestamp (jbMeta job) = None
         then bnd (attempt (rdeleteJob env job)) (\<lambda>d. case d of
             Inl e \<Rightarrow> if is_not_found e then ret False else failwith (wrapf ''failed to delete restore Job during deletion'' e)
           | Inr _ \<Rightarrow> ret False)
         else ret False))"

section \<open>Executor Pods (executor\_observation.go)\<close>

definition containerTerminated :: "string \<Rightarrow> ContainerStatus list \<Rightarrow> bool" where
  "containerTerminated name statuses = (case find (\<lambda>k. csName k = name) statuses of
      None \<Rightarrow> False | Some k \<Rightarrow> csTerminatedExitCode k \<noteq> None)"

definition restoreExecutorContainersTerminated :: "Pod \<Rightarrow> bool" where
  "restoreExecutorContainersTerminated p \<longleftrightarrow>
     (pdPhase p = ''Succeeded'' \<or> pdPhase p = ''Failed'') \<and> pdContainers p \<noteq> []
     \<and> list_all (\<lambda>(n, _). containerTerminated n (pdContainerStatuses p)) (pdContainers p)
     \<and> list_all (\<lambda>n. containerTerminated n (pdInitContainerStatuses p)) (pdInitContainers p)
     \<and> list_all (\<lambda>n. containerTerminated n (pdEphemeralContainerStatuses p)) (pdEphemeralContainers p)"

text \<open>The scan of one page: an error, an answer that ends the loop, or nothing.\<close>

fun scanExecutorPods :: "Job \<Rightarrow> Pod list \<Rightarrow> go_error + string option" where
  "scanExecutorPods job [] = Inr None"
| "scanExecutorPods job (p # ps) = (case getControllerOf (pdMeta p) of
      None \<Rightarrow> scanExecutorPods job ps
    | Some owner \<Rightarrow>
        if orUID owner \<noteq> omUID (jbMeta job) then scanExecutorPods job ps
        else if orAPIVersion owner \<noteq> ''batch/v1'' \<or> orKind owner \<noteq> ''Job'' \<or> orName owner \<noteq> omName (jbMeta job)
        then Inl (errorf (''restore executor Pod '' @ pdName p @ '' has inconsistent Job ownership''))
        else if \<not> restoreExecutorContainersTerminated p
        then Inr (Some (''Waiting for restore executor Pod '' @ pdName p @ '' to report termination of all containers.''))
        else scanExecutorPods job ps)"

fun scanPages :: "labels \<Rightarrow> string \<Rightarrow> (Pod list \<Rightarrow> go_error + string option) \<Rightarrow> string \<Rightarrow> (go_error + Pod list) list \<Rightarrow> string rop" where
  "scanPages sel msg f none [] = ret none"
| "scanPages sel msg f none (page # pages) = bnd (remit (RListPods sel page)) (\<lambda>_. case page of
      Inl e \<Rightarrow> failwith (wrapf msg e)
    | Inr pods \<Rightarrow> (case f pods of
          Inl e \<Rightarrow> failwith e
        | Inr (Some answer) \<Rightarrow> ret answer
        | Inr None \<Rightarrow> scanPages sel msg f none pages))"

definition restoreExecutorPending :: "renv \<Rightarrow> Job \<Rightarrow> string rop" where
  "restoreExecutorPending env job =
     (if omUID (jbMeta job) = [] then failwith (errorf ''restore Job UID is required for executor observation'')
      else bnd (gets (\<lambda>s. rePodPages env (rtrace s) [])) (\<lambda>(page, pages).
        scanPages [] ''list restore executor Pods'' (scanExecutorPods job) [] (page # pages)))"

definition claimantIssue :: "RestoreExecutionStatus \<Rightarrow> RestoreSubmissionClaim \<Rightarrow> Pod list \<Rightarrow> go_error + string option" where
  "claimantIssue x claim pods = (case find (\<lambda>p. omUID (pdMeta p) = smPodUID claim) pods of
      None \<Rightarrow> Inr None
    | Some p \<Rightarrow> (case getControllerOf (pdMeta p) of
          Some owner \<Rightarrow>
            if orAPIVersion owner \<noteq> ''batch/v1'' \<or> orKind owner \<noteq> ''Job'' \<or> orUID owner \<noteq> exJobUID x \<or> orName owner \<noteq> exJobName x
            then Inr (Some ''submission claimant does not belong to the recorded restore Job'') else Inr (Some [])
        | None \<Rightarrow> Inr (Some ''submission claimant does not belong to the recorded restore Job'')))"

definition validateClaimExecutor :: "renv \<Rightarrow> string rop" where
  "validateClaimExecutor env = bnd (gets rq) (\<lambda>r. case rsSubmissionClaim (orsStatus r) of
      None \<Rightarrow> ret []
    | Some claim \<Rightarrow> (case execution r of
          None \<Rightarrow> ret ''submission claimant has no recorded restore Job''
        | Some x \<Rightarrow>
            if exJobUID x = [] then ret ''submission claimant has no recorded restore Job''
            else let sel = [(''batch.kubernetes.io/controller-uid'', exJobUID x)]
                 in bnd (gets (\<lambda>s. rePodPages env (rtrace s) sel)) (\<lambda>(page, pages).
                      scanPages sel ''read submission claimant'' (claimantIssue x claim)
                        ''submission claimant Pod is absent; its Job ownership cannot be checked'' (page # pages))))"

section \<open>The submission claim of the executor (submission\_claim.go)\<close>

definition restorePreparationTimeout :: int where
  "restorePreparationTimeout = seconds (30 * 60)"

text \<open>The executor reads the request, checks it and reserves the submission; only \<open>Inr\<close> allows it to submit.\<close>

definition ClaimRestore :: "renv \<Rightarrow> string \<Rightarrow> RestoreSubmissionClaim \<Rightarrow> unit rop" where
  "ClaimRestore env requestUID claim =
     bnd (wrap_err (wrapf ''read restore before claim'') (getRestore env)) (\<lambda>_.
     bnd (gets rq) (\<lambda>r. bnd (rnow env) (\<lambda>tm.
       if orsUID r \<noteq> requestUID \<or> orsDeletionTimestamp r \<noteq> None \<or> restorePhase r \<noteq> RestorePhaseRunning
          \<or> (case execution r of None \<Rightarrow> True
             | Some x \<Rightarrow> exOperationID x \<noteq> requestUID \<or> exStage x \<noteq> ExecutionCreated
                 \<or> (case exPreparedAt x of None \<Rightarrow> True | Some p \<Rightarrow> \<not> tm < p + restorePreparationTimeout))
          \<or> rsSubmissionClaim (orsStatus r) \<noteq> None \<or> smPodUID claim = [] \<or> smSize claim \<le> 0
       then failwith (errorf ''restore cannot accept a submission claim'')
       else if (soExpectedDigest (opSource (orsSpec r)) \<noteq> [] \<and> soExpectedDigest (opSource (orsSpec r)) \<noteq> smDigest claim)
          \<or> (soExpectedSize (opSource (orsSpec r)) \<noteq> 0 \<and> soExpectedSize (opSource (orsSpec r)) \<noteq> smSize claim)
       then failwith (errorf ''staged snapshot does not match the expected digest or size'')
       else wrap_err (wrapf ''submission claim not acknowledged; do not submit'')
              (updateStatus env (\<lambda>st. st\<lparr>rsSubmissionClaim := Some (claim\<lparr>smClaimedAt := tm\<rparr>)\<rparr>)))))"

end
