(* ===== verification/Restore_Recovery.thy ===== *)
theory Restore_Recovery
  imports Restore_Execution
begin

text \<open>
  Recovery after a restore: voter health (\<open>target_health.go\<close>), the managed restart of every recorded Pod
  (\<open>recovery_restart.go\<close>, \<open>recovery_status.go\<close>), administrator acknowledgement and the hold on the target
  (\<open>acknowledgement.go\<close>), deletion of disposable targets (\<open>target_cleanup.go\<close>) and the life of a fresh target
  (\<open>target.go\<close>).
\<close>

section \<open>Health of the target (target\_health.go)\<close>

fun readVoters :: "renv \<Rightarrow> Cluster \<Rightarrow> nat list \<Rightarrow> HealthStatus option \<Rightarrow> HealthStatus option rop" where
  "readVoters env c [] leader = ret leader"
| "readVoters env c (i # is) leader =
     (let url = ''https://'' @ restoreTargetStatefulSetName c @ ''-'' @ nat_str i @ ''.'' @ clName c @ ''.'' @ clNamespace c @ ''.svc:8200''
      in bnd (wrap_err (wrapf ''read target voter health'') (rcall (\<lambda>tr. reHealth env tr url) (RHealth url))) (\<lambda>health.
         if \<not> hsInitialized health \<or> hsSealed health then failwith (errorf ''target voter is not initialized and unsealed'')
         else if \<not> hsStandby health \<and> \<not> hsPerformanceStandby health
         then (if leader \<noteq> None then failwith (errorf ''target reports multiple active voters'')
               else readVoters env c is (Some health))
         else readVoters env c is leader))"

definition targetHealth :: "renv \<Rightarrow> Cluster \<Rightarrow> HealthStatus rop" where
  "targetHealth env c = bnd (rcallU (\<lambda>tr. reTrustBundle env tr c) RTrustBundle) (\<lambda>_.
     bnd (readVoters env c [0..<nat (spReplicas (clSpec c))] None) (\<lambda>leader. case leader of
       None \<Rightarrow> failwith (errorf ''target has no healthy active voter'')
     | Some h \<Rightarrow> ret h))"

section \<open>Managed restart (recovery\_restart.go)\<close>

definition recoveryBlocked :: "string \<Rightarrow> go_error" where
  "recoveryBlocked message = RecoveryIssue ''RecoveryBlocked'' message []"

definition is_recovery_issue :: "go_error \<Rightarrow> bool" where
  "is_recovery_issue e = (case e of RecoveryIssue _ _ _ \<Rightarrow> True | _ \<Rightarrow> False)"

text \<open>The outcome of a call as the cause of an issue.\<close>

definition causeOf :: "go_error + 'a \<Rightarrow> go_error list" where
  "causeOf r = (case r of Inl e \<Rightarrow> [e] | Inr _ \<Rightarrow> [])"

definition reportRecovery :: "renv \<Rightarrow> string \<Rightarrow> string \<Rightarrow> int rop" where
  "reportRecovery env reason message = bnd (gets rq) (\<lambda>r.
     if rsMessage (orsStatus r) = message
        \<and> (case findStatusCondition (rsConditions (orsStatus r)) ''RecoveryReleased'' of None \<Rightarrow> False
           | Some k \<Rightarrow> cdStatus k = ''False'' \<and> cdReason k = reason \<and> cdMessage k = message \<and> cdObservedGeneration k = orsGeneration r)
     then ret restoreRequeueJobCheck
     else bnd (rnow env) (\<lambda>tm. bnd (updateStatus env (\<lambda>st. st\<lparr>rsMessage := message,
            rsConditions := setStatusCondition (restoreCondition r ''RecoveryReleased'' ''False'' reason message tm) (rsConditions st)\<rparr>)) (\<lambda>_.
          ret restoreRequeueJobCheck)))"

definition isControlledBy :: "ObjectMeta \<Rightarrow> string \<Rightarrow> bool" where
  "isControlledBy m uid = (case getControllerOf m of None \<Rightarrow> False | Some o' \<Rightarrow> orUID o' = uid)"

definition controllerUID :: "ObjectMeta \<Rightarrow> string rop" where
  "controllerUID m = (case getControllerOf m of None \<Rightarrow> failwith (Panic ''controller reference'') | Some o' \<Rightarrow> ret (orUID o'))"

fun readPoolPods :: "renv \<Rightarrow> StatefulSet \<Rightarrow> string \<Rightarrow> nat list \<Rightarrow> Pod list rop" where
  "readPoolPods env sts name [] = ret []"
| "readPoolPods env sts name (i # is) =
     (let podName = name @ ''-'' @ nat_str i in
      bnd (attempt (rcall (\<lambda>tr. reGetPod env tr podName) (RGetPod podName))) (\<lambda>g. case g of
        Inl e \<Rightarrow> if is_not_found e
          then failwith (RecoveryIssue ''WaitingForPod'' (''Waiting for workload Pod '' @ podName @ '' to exist; inspect its StatefulSet and scheduling events'') [])
          else failwith e
      | Inr pod \<Rightarrow>
          if omUID (pdMeta pod) = [] \<or> \<not> isControlledBy (pdMeta pod) (omUID (stMeta sts))
          then failwith (recoveryBlocked (''workload Pod '' @ pdName pod @ '' is not owned by the target StatefulSet''))
          else bnd (readPoolPods env sts name is) (\<lambda>pods. ret (pod # pods))))"

fun readPools :: "renv \<Rightarrow> Cluster \<Rightarrow> (string \<times> int) list \<Rightarrow> Pod list rop" where
  "readPools env c [] = ret []"
| "readPools env c ((name, replicas) # pools) =
     (if replicas < 1 then failwith (recoveryBlocked ''managed Resume requires a nonempty voter pool'')
      else bnd (rcall (\<lambda>tr. reGetSts env tr name) (RGetSts name)) (\<lambda>sts.
        if \<not> isControlledBy (stMeta sts) (clUID c) \<or> omDeletionTimestamp (stMeta sts) \<noteq> None \<or> stSpecReplicas sts \<noteq> Some replicas
        then failwith (recoveryBlocked (''workload '' @ name @ '' is not the stable target pool''))
        else bnd (readPoolPods env sts name [0..<nat replicas]) (\<lambda>pods.
          bnd (readPools env c pools) (\<lambda>more. ret (pods @ more)))))"

definition recoveryPods :: "renv \<Rightarrow> Cluster \<Rightarrow> Pod list rop" where
  "recoveryPods env c = readPools env c
     ((restoreTargetStatefulSetName c, spReplicas (clSpec c))
      # (case spReadReplicas (clSpec c) of None \<Rightarrow> []
         | Some n \<Rightarrow> if n > 0 then [(ReadReplicaStatefulSetName c, n)] else []))"

text \<open>\<open>recoveryLeader\<close>: \<open>i\<close> is the index of the next Pod, \<open>leader\<close> the one found so far.\<close>

fun scanLeader :: "int \<Rightarrow> RaftServer list \<Rightarrow> nat \<Rightarrow> string \<Rightarrow> Pod list \<Rightarrow> go_error + string" where
  "scanLeader voters servers i leader [] =
     (if leader = [] then Inl (errorf ''target Raft membership has no workload leader'') else Inr leader)"
| "scanLeader voters servers i leader (p # ps) = (case find (\<lambda>v. rvNodeID v = pdName p) servers of
      None \<Rightarrow> Inl (errorf (''workload Pod '' @ pdName p @ '' does not have its expected Raft membership''))
    | Some v \<Rightarrow>
        if rvVoter v \<noteq> (int i < voters)
        then Inl (errorf (''workload Pod '' @ pdName p @ '' does not have its expected Raft membership''))
        else if rvLeader v
        then (if leader \<noteq> [] \<or> int i \<ge> voters then Inl (errorf ''target Raft membership has an invalid leader'')
              else scanLeader voters servers (Suc i) (pdName p) ps)
        else scanLeader voters servers (Suc i) leader ps)"

definition recoveryLeader :: "Cluster \<Rightarrow> Pod list \<Rightarrow> RaftServer list option \<Rightarrow> go_error + string" where
  "recoveryLeader c pods membership = (case membership of
      None \<Rightarrow> Inl (errorf ''target returned no Raft membership'')
    | Some servers \<Rightarrow> scanLeader (spReplicas (clSpec c)) servers 0 [] pods)"

definition replacedPods :: "Pod list \<Rightarrow> RestoreRestartPod list \<Rightarrow> nat" where
  "replacedPods pods originals = length (filter (\<lambda>(p, original). omUID (pdMeta p) \<noteq> rpUID original) (zip pods originals))"

definition recoveryPodReady :: "Pod \<Rightarrow> bool" where
  "recoveryPodReady p \<longleftrightarrow> omDeletionTimestamp (pdMeta p) = None
     \<and> list_ex (\<lambda>k. cdType k = ''Ready'' \<and> cdStatus k = ''True'') (pdConditions p)"

text \<open>A Pod that belongs to the pool read by \<open>recoveryPods\<close> has a controller, so the dereference succeeds there.\<close>

definition sameRecoveryIdentity :: "Pod \<Rightarrow> RestoreRestartPod \<Rightarrow> bool" where
  "sameRecoveryIdentity p original \<longleftrightarrow> pdName p = rpName original
     \<and> (case getControllerOf (pdMeta p) of None \<Rightarrow> False | Some o' \<Rightarrow> orUID o' = rpStatefulSetUID original)"

definition checkRecoveryPods :: "Pod list \<Rightarrow> RestoreRestartStatus option \<Rightarrow> go_error option" where
  "checkRecoveryPods pods restart =
     (if (case restart of None \<Rightarrow> False | Some t \<Rightarrow> length pods \<noteq> length (rtPods t))
      then Some (recoveryBlocked ''workload topology changed during Resume; restore the topology or use Abandon'')
      else if (case restart of None \<Rightarrow> False | Some t \<Rightarrow> \<not> list_all2 sameRecoveryIdentity pods (rtPods t))
      then Some (recoveryBlocked ''workload identity changed during Resume; use Abandon'')
      else case find (\<lambda>p. \<not> recoveryPodReady p) pods of
          None \<Rightarrow> None
        | Some p \<Rightarrow> Some (RecoveryIssue ''WaitingForPod'' (''Waiting for Pod '' @ pdName p @
            '' to become Ready; inspect Pod events, unseal access, and readiness probes'' @
            (case restart of None \<Rightarrow> [] | Some t \<Rightarrow> '' ('' @ nat_str (replacedPods pods (rtPods t)) @ ''/'' @ nat_str (length pods) @ '' Pods replaced)'')) []))"

definition recoveryLeaderForTarget :: "renv \<Rightarrow> Cluster \<Rightarrow> Pod list \<Rightarrow> string rop" where
  "recoveryLeaderForTarget env c pods =
     bnd (attempt (targetHealth env c)) (\<lambda>h. case h of
       Inl e \<Rightarrow> failwith (RecoveryIssue ''VoterHealthUnavailable''
         ''Cannot confirm every voter is initialized, unsealed, and healthy; inspect voter health and TLS trust'' [e])
     | Inr _ \<Rightarrow> (case reRecoveryClient env of
         None \<Rightarrow> failwith (recoveryBlocked ''authenticated restore recovery client is required'')
       | Some factory \<Rightarrow> (case pods of [] \<Rightarrow> failwith (Panic ''pods[0]'')
         | p # _ \<Rightarrow>
           bnd (attempt (rcallU (\<lambda>tr. factory tr c (pdName p)) (RRecoveryClient (pdName p)))) (\<lambda>a. case a of
             Inl e \<Rightarrow> failwith (RecoveryIssue ''OperatorAccessUnavailable''
               (''Cannot authenticate to voter '' @ pdName p @ ''; repair restored operator JWT and TLS trust'') [e])
           | Inr _ \<Rightarrow> bnd (attempt (rcall (\<lambda>tr. reReadRaft env tr (pdName p)) (RReadRaft (pdName p)))) (\<lambda>m. case m of
               Inl e \<Rightarrow> failwith (RecoveryIssue ''OperatorAccessUnavailable''
                 (''Cannot read Raft membership through voter '' @ pdName p @ ''; check operator authentication, permissions, and connectivity'') [e])
             | Inr membership \<Rightarrow> (case recoveryLeader c pods membership of
                   Inl e \<Rightarrow> failwith (RecoveryIssue ''MembershipChanged'' ((case e of Text m \<Rightarrow> m | _ \<Rightarrow> []) @ ''; inspect Raft membership before continuing'') [])
                 | Inr leader \<Rightarrow> ret leader))))))"

definition prepareRecoveryWorkload :: "renv \<Rightarrow> Cluster \<Rightarrow> bool \<Rightarrow> string rop" where
  "prepareRecoveryWorkload env c handoff = bnd (gets rq) (\<lambda>r. case rsRestart (orsStatus r) of
      None \<Rightarrow> ret []
    | Some restart \<Rightarrow>
        if \<not> handoff then ret []
        else (case (rePrepareRetained env, rtPods restart) of
            (Some prepare, [p]) \<Rightarrow> rcall (\<lambda>tr. prepare tr c (rpStatefulSetUID p)) (RPrepareRetained (rpStatefulSetUID p))
          | _ \<Rightarrow> failwith (recoveryBlocked ''retained target workload preparation is unavailable; use Abandon for administrator recovery'')))"

fun restartPods :: "Pod list \<Rightarrow> RestoreRestartPod list rop" where
  "restartPods [] = ret []"
| "restartPods (p # ps) = bnd (controllerUID (pdMeta p)) (\<lambda>uid. bnd (restartPods ps) (\<lambda>rest.
     ret (\<lparr> rpName = pdName p, rpUID = omUID (pdMeta p), rpStatefulSetUID = uid \<rparr> # rest)))"

definition recordRecoveryRestart :: "renv \<Rightarrow> Pod list \<Rightarrow> unit rop" where
  "recordRecoveryRestart env pods = bnd (restartPods pods) (\<lambda>originals.
     updateStatus env (\<lambda>st. st\<lparr>rsRestart := Some \<lparr> rtPods = originals, rtCompletedAt = None \<rparr>,
       rsMessage := ''Administrator Resume accepted; restarting voters and read replicas while the management hold remains''\<rparr>))"

definition restartRecoveryPod :: "renv \<Rightarrow> Pod \<Rightarrow> nat \<Rightarrow> nat \<Rightarrow> bool rop" where
  "restartRecoveryPod env candidate replaced totalPods =
     bnd (rcallU (\<lambda>tr. rePatchPod env tr candidate) (RPatchPod (pdName candidate))) (\<lambda>_.
     bnd (attempt (rcallU (\<lambda>tr. reDeletePod env tr candidate) (RDeletePod (pdName candidate) (omUID (pdMeta candidate))))) (\<lambda>d.
       failwith (RecoveryIssue ''Restarting'' (''Restarting Pod '' @ pdName candidate @ ''; '' @ nat_str replaced @ ''/'' @ nat_str totalPods
         @ '' Pods replaced and ready'') (case d of Inl e \<Rightarrow> if is_not_found e then [] else [e] | Inr _ \<Rightarrow> []))))"

text \<open>The next Pod to restart: the last one still running that is not the leader, or the leader when no other is left.\<close>

fun restartCandidate :: "string \<Rightarrow> Pod option \<Rightarrow> (Pod \<times> RestoreRestartPod) list \<Rightarrow> Pod option" where
  "restartCandidate leader found [] = found"
| "restartCandidate leader found ((p, original) # rest) =
     restartCandidate leader
       (if omUID (pdMeta p) = rpUID original \<and> (case found of None \<Rightarrow> True | Some f \<Rightarrow> pdName f = leader) then Some p else found) rest"

definition restartNextPod :: "renv \<Rightarrow> Cluster \<Rightarrow> Pod list \<Rightarrow> RestoreRestartStatus \<Rightarrow> string \<Rightarrow> bool rop" where
  "restartNextPod env c pods restart leader =
     (let replaced = replacedPods pods (rtPods restart) in
      case restartCandidate leader None (zip pods (rtPods restart)) of
        None \<Rightarrow>
          if rtCompletedAt restart \<noteq> None then ret True
          else bnd (rnow env) (\<lambda>tm. bnd (updateStatus env (\<lambda>st. st\<lparr>rsRestart :=
                 map_option (\<lambda>t. t\<lparr>rtCompletedAt := Some tm\<rparr>) (rsRestart st)\<rparr>)) (\<lambda>_. ret False))
      | Some candidate \<Rightarrow>
          if pdName candidate = leader \<and> spReplicas (clSpec c) > 1
          then (case reRecoveryClient env of
              None \<Rightarrow> failwith (Panic ''recoveryClientFor'')
            | Some factory \<Rightarrow>
                bnd (rcallU (\<lambda>tr. factory tr c (pdName candidate)) (RRecoveryClient (pdName candidate))) (\<lambda>_.
                bnd (attempt (rcallU (\<lambda>tr. reStepDown env tr (pdName candidate)) (RStepDown (pdName candidate)))) (\<lambda>d.
                  failwith (RecoveryIssue ''Restarting'' (''Waiting for leader '' @ pdName candidate @ '' to step down; ''
                    @ nat_str replaced @ ''/'' @ nat_str (length pods) @ '' Pods replaced and ready'') (causeOf d)))))
          else restartRecoveryPod env candidate replaced (length pods))"

definition restartChecked :: "renv \<Rightarrow> Cluster \<Rightarrow> Pod list \<Rightarrow> RestoreRestartStatus option \<Rightarrow> bool rop" where
  "restartChecked env c pods restart = (case checkRecoveryPods pods restart of
      Some e \<Rightarrow> failwith e
    | None \<Rightarrow> bnd (recoveryLeaderForTarget env c pods) (\<lambda>leader. case restart of
          None \<Rightarrow> bnd (recordRecoveryRestart env pods) (\<lambda>_. ret False)
        | Some t \<Rightarrow> restartNextPod env c pods t leader))"

definition restartAcknowledgedTarget :: "renv \<Rightarrow> Cluster \<Rightarrow> bool rop" where
  "restartAcknowledgedTarget env c = bnd (gets rq) (\<lambda>r.
     let restart = rsRestart (orsStatus r);
         handoff = (target r \<noteq> None \<and> lookup_label (clAnnotations c) AnnotationRestoreOrigin = orsUID r)
     in if (case restart of None \<Rightarrow> False | Some t \<Rightarrow> rtCompletedAt t \<noteq> None) \<and> \<not> handoff then ret True
        else if clDeletionTimestamp c \<noteq> None \<or> spPaused (clSpec c)
          \<or> lookup_label (clAnnotations c) AnnotationRestoreHold \<noteq> restoreExecutionOperationID r
          \<or> \<not> IsHeldBy (restoreOperationLock r) (ssOperationLock (clStatus c))
        then failwith (recoveryBlocked ''managed Resume requires the original held, locked, unpaused target; use Abandon for administrator recovery'')
        else bnd (prepareRecoveryWorkload env c handoff) (\<lambda>configHash. bnd (recoveryPods env c) (\<lambda>pods.
          case (pods, restart) of
            ([p], Some t) \<Rightarrow>
              if configHash \<noteq> [] \<and> lookup_label (omAnnotations (pdMeta p)) AnnotationConfigHash \<noteq> configHash
              then (case rtPods t of [] \<Rightarrow> failwith (Panic ''restart.Pods[0]'')
                | original # _ \<Rightarrow>
                    if \<not> sameRecoveryIdentity p original
                    then failwith (recoveryBlocked ''workload identity changed during Resume; use Abandon'')
                    else restartRecoveryPod env p 0 1)
              else restartChecked env c pods restart
          | _ \<Rightarrow> restartChecked env c pods restart)))"

section \<open>Hold and acknowledgement (acknowledgement.go)\<close>

definition holdTarget :: "renv \<Rightarrow> Cluster \<Rightarrow> unit rop" where
  "holdTarget env c = bnd (rgetCluster env) (\<lambda>live. bnd (gets rq) (\<lambda>r.
     let marker = restoreExecutionOperationID r; value = lookup_label (clAnnotations live) AnnotationRestoreHold
     in if clUID live \<noteq> clUID c \<or> clDeletionTimestamp live \<noteq> None \<or> \<not> IsHeldBy (restoreOperationLock r) (ssOperationLock (clStatus live))
        then failwith (errorf ''restore requires the original locked target'')
        else if value \<noteq> []
        then (if value \<noteq> marker then failwith (errorf ''target belongs to another held restore'') else ret ())
        else bnd (rpatchCluster env live (live\<lparr>clAnnotations := setAnnotation AnnotationRestoreHold marker (clAnnotations live)\<rparr>)) (\<lambda>_. ret ())))"

definition retainedTargetAccepted :: "OpenBaoRestore \<Rightarrow> bool" where
  "retainedTargetAccepted r \<longleftrightarrow> opTargetLifecycle (orsSpec r) = LifecycleRetain
     \<and> rsAdministratorDisposition (orsStatus r) = AdministratorResume
     \<and> (case target r of None \<Rightarrow> False | Some t \<Rightarrow> tgAppliedAt t \<noteq> None)"

definition resumeAcknowledgedTarget :: "renv \<Rightarrow> Cluster \<Rightarrow> string rop" where
  "resumeAcknowledgedTarget env c = bnd (gets rq) (\<lambda>r.
     if spPaused (clSpec c) \<or> clDeletionTimestamp c \<noteq> None
        \<or> (ssOperationLock (clStatus c) \<noteq> None \<and> \<not> IsHeldBy (restoreOperationLock r) (ssOperationLock (clStatus c)))
     then ret ''Target is paused, deleting, or locked by another operation; use Abandon for administrator recovery''
     else if (case execution r of None \<Rightarrow> True | Some x \<Rightarrow> exJobUID x = [])
     then ret ''Executor identity is unbound; use Abandon for administrator recovery''
     else withExecution (\<lambda>x. bnd (bnd (gets rq) (\<lambda>r. restoreExecutorPending env
         \<lparr> jbMeta = (restoreMeta r)\<lparr>omName := exJobName x, omUID := exJobUID x\<rparr>, jbBackoffLimit = 0, jbActiveDeadlineSeconds = None,
           jbImage = [], jbCommand = [], jbArgs = [], jbServiceAccountToken = False, jbRunAsNonRoot = False,
           jbReadOnlyRootFilesystem = False, jbConditions = [], jbActive = 0, jbTerminating = None, jbSucceeded = 0, jbFailed = 0, jbStartTime = None, jbCompletionTime = None \<rparr>)) (\<lambda>pending.
       if pending \<noteq> [] then failwith (recoveryBlocked pending)
       else bnd (restartAcknowledgedTarget env c) (\<lambda>done'.
         if \<not> done' then failwith (RecoveryIssue ''Restarting''
           ''Managed restart intent is recorded; the hold remains until all Pod replacements are ready'' [])
         else let hold = lookup_label (clAnnotations c) AnnotationRestoreHold
              in if hold \<noteq> [] \<and> hold \<noteq> restoreExecutionOperationID r
                 then ret ''Target has another restore hold; use Abandon for administrator recovery''
                 else ret []))))"

definition acknowledgedTargetUID :: "OpenBaoRestore \<Rightarrow> Cluster \<Rightarrow> string" where
  "acknowledgedTargetUID r c = (case execution r of
      Some x \<Rightarrow> if exTargetUID x \<noteq> [] then exTargetUID x else (case target r of Some t \<Rightarrow> tgUID t | None \<Rightarrow> clUID c)
    | None \<Rightarrow> (case target r of Some t \<Rightarrow> tgUID t | None \<Rightarrow> clUID c))"

text \<open>The release of the hold: the annotations go, and Abandon leaves the target paused.\<close>

definition releasedCluster :: "OpenBaoRestore \<Rightarrow> RestoreAdministratorDisposition \<Rightarrow> Cluster \<Rightarrow> Cluster" where
  "releasedCluster r action c =
     (let c1 = (if action = AdministratorAbandon then c\<lparr>clSpec := (clSpec c)\<lparr>spPaused := True\<rparr>\<rparr> else c);
          anns = delAnnotation AnnotationRestoreHold (clAnnotations c1)
      in c1\<lparr>clAnnotations := (if target r \<noteq> None \<and> lookup_label anns AnnotationRestoreOrigin = orsUID r
                               then delAnnotation AnnotationRestoreOrigin anns else anns)\<rparr>)"

definition releaseAcknowledgedTarget :: "renv \<Rightarrow> RestoreAdministratorDisposition \<Rightarrow> string rop" where
  "releaseAcknowledgedTarget env action = bnd (gets rq) (\<lambda>r. bnd (attempt (rgetCluster env)) (\<lambda>g. case g of
      Inl e \<Rightarrow> if is_not_found e
        then ret (if action = AdministratorAbandon then [] else ''Target is absent; use Abandon after administrator recovery'')
        else failwith e
    | Inr c \<Rightarrow>
        if clUID c \<noteq> acknowledgedTargetUID r c
        then ret (if action = AdministratorAbandon then []
                  else ''Target UID differs; use Abandon after administrator recovery; the replacement will not be changed'')
        else bnd (if action = AdministratorResume then resumeAcknowledgedTarget env c else ret []) (\<lambda>blocked.
          if blocked \<noteq> [] then ret blocked
          else bnd (gets rq) (\<lambda>r.
            let hold = lookup_label (clAnnotations c) AnnotationRestoreHold in
            bnd (if hold = restoreExecutionOperationID r
                   \<or> (action = AdministratorAbandon \<and> hold = []
                      \<and> (lookup_label (clAnnotations c) AnnotationRestoreOrigin = orsUID r \<or> rsRestart (orsStatus r) \<noteq> None))
                 then rpatchCluster env c (releasedCluster r action c) else ret c) (\<lambda>c'.
            bnd (ignoreHeld (ReleaseWithReader (rLockApi env) (Some c') (restoreOperationLock r)) (\<lambda>_. ret ())) (\<lambda>_. ret []))))))"

definition dispositionOf :: "string \<Rightarrow> RestoreAdministratorDisposition" where
  "dispositionOf v = (if v = ''Resume'' then AdministratorResume else if v = ''Abandon'' then AdministratorAbandon else OtherDisposition v)"

text \<open>\<open>return result, errors.Join(cause, patchErr)\<close>\<close>

definition joinErrors :: "go_error list \<Rightarrow> go_error + int \<Rightarrow> int rop" where
  "joinErrors causes patch = (case (causes @ causeOf patch, patch) of
      ([], Inr result) \<Rightarrow> ret result | (es, _) \<Rightarrow> failwith (Wrapf ''join'' es))"

definition recordDisposition :: "renv \<Rightarrow> RestoreAdministratorDisposition \<Rightarrow> bool \<Rightarrow> unit rop" where
  "recordDisposition env action cleanupFailed = bnd (gets rq) (\<lambda>r. bnd (rnow env) (\<lambda>tm.
     updateStatus env (\<lambda>st. st\<lparr>rsAdministratorDisposition := action,
       rsMessage := (if action = AdministratorResume
         then ''Administrator accepted recovery; voter and read-replica restarts completed and management resumed. Snapshot application remains unconfirmed for existing targets''
         else if action = AdministratorAbandon
         then ''Administrator abandoned operator recovery; the original target is left paused if present'' else rsMessage st),
       rsPhase := (if cleanupFailed then RestorePhaseFailed else rsPhase st),
       rsCompletionTime := Some tm,
       rsConditions := setStatusCondition (restoreCondition r ''RecoveryReleased'' ''True''
         (if action = AdministratorAbandon then ''Abandoned'' else ''Resumed'')
         ''Administrator accepted responsibility for remaining processes and resources; this is not application or deletion proof.'' tm)
         (rsConditions st)\<rparr>)))"

definition completeIfAccepted :: "renv \<Rightarrow> int rop" where
  "completeIfAccepted env = bnd (gets rq) (\<lambda>r.
     if retainedTargetAccepted r
     then bnd (completeRestore env ''Fresh target application confirmed; administrator accepted the retained target'') (\<lambda>_. ret 0)
     else ret 0)"

definition blockAcknowledgement :: "renv \<Rightarrow> string \<Rightarrow> int rop" where
  "blockAcknowledgement env message = reportRecovery env ''RecoveryBlocked'' message"

definition reconcileAcknowledgement :: "renv \<Rightarrow> int rop" where
  "reconcileAcknowledgement env = bnd (gets rq) (\<lambda>r.
     let cleanupFailed = (case target r of None \<Rightarrow> False | Some t \<Rightarrow> tgCleanup t = CleanupFailed);
         cut = cut_prefix (lookup_label (orsAnnotations r) AnnotationRestoreAcknowledge) (restoreExecutionOperationID r @ ''/'');
         resuming = (rsRestart (orsStatus r) \<noteq> None \<and> rsAdministratorDisposition (orsStatus r) = OtherDisposition []
           \<and> cut \<noteq> Some ''Abandon'');
         action = (if resuming then AdministratorResume
                   else case cut of None \<Rightarrow> OtherDisposition [] | Some v \<Rightarrow> dispositionOf v)
     in if restorePhase r \<noteq> RestorePhaseUnknown \<and> \<not> cleanupFailed then ret 0
        else if action \<noteq> AdministratorResume \<and> action \<noteq> AdministratorAbandon then ret 0
        else if cleanupFailed \<and> action = AdministratorResume
        then blockAcknowledgement env ''Target cleanup failed; use Abandon after administrator cleanup''
        else if opTargetLifecycle (orsSpec r) = LifecycleDisposable \<and> action = AdministratorResume
        then blockAcknowledgement env ''Disposable targets cannot resume; use Abandon after administrator cleanup''
        else if rsAdministratorDisposition (orsStatus r) = OtherDisposition []
        then bnd (attempt (releaseAcknowledgedTarget env action)) (\<lambda>res. case res of
            Inl e \<Rightarrow>
              if action = AdministratorResume
              then (case errors_as is_recovery_issue e of
                  Some (RecoveryIssue reason message causes) \<Rightarrow>
                    bnd (attempt (reportRecovery env reason message)) (joinErrors causes)
                | _ \<Rightarrow> bnd (attempt (blockAcknowledgement env
                    ''Resume is waiting for recovery prerequisites; inspect the controller error and repair the target, or use Abandon for administrator recovery''))
                    (joinErrors [e]))
              else failwith e
          | Inr blocked \<Rightarrow>
              if blocked \<noteq> [] then blockAcknowledgement env blocked
              else bnd (recordDisposition env action cleanupFailed) (\<lambda>_. completeIfAccepted env))
        else completeIfAccepted env)"

section \<open>Disposable targets (target\_cleanup.go)\<close>

abbreviation setTarget :: "(RestoreTargetStatus \<Rightarrow> RestoreTargetStatus) \<Rightarrow> OpenBaoRestoreStatus \<Rightarrow> OpenBaoRestoreStatus" where
  "setTarget f st \<equiv> st\<lparr>rsTarget := map_option f (rsTarget st)\<rparr>"

definition targetPVCName :: "OpenBaoRestore \<Rightarrow> string" where
  "targetPVCName r = ''data-'' @ opCluster (orsSpec r) @ ''-0''"

definition originalTargetPVC :: "PersistentVolumeClaim \<Rightarrow> Cluster \<Rightarrow> bool" where
  "originalTargetPVC pvc c \<longleftrightarrow> HasOwnerUIDAnnotation (Some (pvMeta pvc)) (Some (clusterMeta c))
     \<and> \<not> omCreationTimestamp (pvMeta pvc) < clCreationTimestamp c"

definition bindTarget :: "renv \<Rightarrow> (RestoreTargetStatus \<Rightarrow> RestoreTargetStatus) \<Rightarrow> int rop" where
  "bindTarget env f = bnd (updateStatus env (setTarget f)) (\<lambda>_. ret restoreRequeueImmediately)"

definition finishTargetCleanup :: "renv \<Rightarrow> int rop" where
  "finishTargetCleanup env = bnd (gets rq) (\<lambda>r.
     if restorePhase r = RestorePhaseFailed \<or> restorePhase r = RestorePhaseCompleted then ret 0
     else withTarget (\<lambda>t.
       if tgAppliedAt t \<noteq> None
       then bnd (completeRestore env ''Fresh target application confirmed; disposable Kubernetes resources deleted'') (\<lambda>_. ret 0)
       else failRestore env ''RestoreFailed'' ''Disposable target deleted without confirmed snapshot application''))"

definition markTargetCleanupComplete :: "renv \<Rightarrow> int rop" where
  "markTargetCleanupComplete env = bnd (updateStatus env (setTarget (\<lambda>t. t\<lparr>tgCleanup := CleanupComplete\<rparr>))) (\<lambda>_. finishTargetCleanup env)"

definition failCleanup :: "renv \<Rightarrow> string \<Rightarrow> int rop" where
  "failCleanup env message = bnd (gets rq) (\<lambda>r. withTarget (\<lambda>t.
     if tgCleanup t = CleanupFailed \<and> rsMessage (orsStatus r) = message then ret 0
     else bnd (rnow env) (\<lambda>tm. bnd (updateStatus env (\<lambda>st. (setTarget (\<lambda>t. t\<lparr>tgCleanup := CleanupFailed\<rparr>) st)\<lparr>rsMessage := message,
            rsConditions := setStatusCondition (restoreCondition r ''RecoveryReleased'' ''False'' ''RecoveryBlocked'' message tm) (rsConditions st)\<rparr>)) (\<lambda>_.
          ret restoreRequeueImmediately))))"

definition cleanupTargetPVC :: "renv \<Rightarrow> int rop" where
  "cleanupTargetPVC env = bnd (gets rq) (\<lambda>r. withTarget (\<lambda>t. bnd (attempt (rgetClaim env (targetPVCName r))) (\<lambda>g. case g of
      Inl e \<Rightarrow> if is_not_found e then markTargetCleanupComplete env else failwith e
    | Inr pvc \<Rightarrow>
        if tgDataPVCUID t = [] \<and> HasOwnerUIDAnnotation (Some (pvMeta pvc)) (Some ((restoreMeta r)\<lparr>omUID := tgUID t\<rparr>))
        then bindTarget env (\<lambda>t. t\<lparr>tgDataPVCUID := omUID (pvMeta pvc)\<rparr>)
        else if tgDataPVCUID t = [] \<or> omUID (pvMeta pvc) \<noteq> tgDataPVCUID t
        then failCleanup env ''Cleanup refused: data PVC identity is unbound or replaced''
        else bnd (attempt (rcallU (\<lambda>tr. reDeleteClaim env tr pvc) (RDeleteClaim (omName (pvMeta pvc)) (tgDataPVCUID t)))) (\<lambda>d. case d of
            Inl e \<Rightarrow> if is_not_found e then ret restoreRequeueJobCheck else failwith (wrapf ''delete fresh target PVC'' e)
          | Inr _ \<Rightarrow> ret restoreRequeueJobCheck))))"

definition deleteTargetCluster :: "renv \<Rightarrow> Cluster \<Rightarrow> int rop" where
  "deleteTargetCluster env c = bnd (gets rq) (\<lambda>r. withTarget (\<lambda>t.
     let hold = lookup_label (clAnnotations c) AnnotationRestoreHold in
     if hold \<noteq> [] then
       (if hold \<noteq> orsUID r then failCleanup env ''Cleanup refused: target has another restore hold''
        else bnd (rpatchCluster env c (c\<lparr>clSpec := (clSpec c)\<lparr>spPaused := True\<rparr>,
                    clAnnotations := delAnnotation AnnotationRestoreHold (clAnnotations c)\<rparr>)) (\<lambda>_. ret restoreRequeueImmediately))
     else if clDeletionTimestamp c = None
     then bnd (attempt (rcallU (reDeleteCluster env) (RDeleteCluster (clName c) (tgUID t)))) (\<lambda>d. case d of
         Inl e \<Rightarrow> if is_not_found e then ret restoreRequeueJobCheck else failwith e
       | Inr _ \<Rightarrow> ret restoreRequeueJobCheck)
     else ret restoreRequeueJobCheck))"

definition cleanupTargetCluster :: "renv \<Rightarrow> Cluster \<Rightarrow> int rop" where
  "cleanupTargetCluster env c = bnd (gets rq) (\<lambda>r. withTarget (\<lambda>t.
     let origin = lookup_label (clAnnotations c) AnnotationRestoreOrigin in
     if tgUID t = [] \<and> origin \<noteq> orsUID r then markTargetCleanupComplete env
     else if tgUID t = [] then bindTarget env (\<lambda>t. t\<lparr>tgUID := clUID c\<rparr>)
     else if clUID c \<noteq> tgUID t \<or> origin \<noteq> orsUID r then failCleanup env ''Cleanup refused: target identity is unbound or replaced''
     else if tgDataPVCUID t = [] \<and> tgCleanup t \<noteq> CleanupFailed
     then bnd (attempt (rgetClaim env (targetPVCName r))) (\<lambda>g. case g of
         Inr pvc \<Rightarrow>
           if \<not> originalTargetPVC pvc c then failCleanup env ''Cleanup refused: data PVC predates the target or lacks original owner proof''
           else bindTarget env (\<lambda>t. t\<lparr>tgDataPVCUID := omUID (pvMeta pvc)\<rparr>)
       | Inl e \<Rightarrow> if is_not_found e then deleteTargetCluster env c else failwith e)
     else deleteTargetCluster env c))"

text \<open>The part of \<open>cleanupTarget\<close> after a failed cleanup has been offered for acknowledgement.\<close>

definition cleanupResources :: "renv \<Rightarrow> int rop" where
  "cleanupResources env = bnd (gets rq) (\<lambda>r.
     bnd (if execution r \<noteq> None then deleteRestoreJob env else ret True) (\<lambda>done'.
       if \<not> done' then ret restoreRequeueJobCheck
       else bnd (attempt (rgetCluster env)) (\<lambda>g. case g of
           Inr c \<Rightarrow> cleanupTargetCluster env c
         | Inl e \<Rightarrow> if \<not> is_not_found e then failwith e
             else withTarget (\<lambda>t.
               if tgCleanup t = CleanupFailed then ret 0
               else if tgUID t = [] then markTargetCleanupComplete env
               else cleanupTargetPVC env))))"

definition cleanupTarget :: "renv \<Rightarrow> int rop" where
  "cleanupTarget env = bnd (gets rq) (\<lambda>r. case target r of
      None \<Rightarrow> ret 0
    | Some t \<Rightarrow>
        if tgCleanup t = CleanupComplete then finishTargetCleanup env
        else if rsAdministratorDisposition (orsStatus r) = AdministratorAbandon then ret 0
        else if tgCleanup t = OtherCleanup [] then bindTarget env (\<lambda>t. t\<lparr>tgCleanup := CleanupPending\<rparr>)
        else if tgCleanup t = CleanupFailed
        then bnd (reconcileAcknowledgement env) (\<lambda>result. bnd (gets rq) (\<lambda>r.
               if rsAdministratorDisposition (orsStatus r) \<noteq> OtherDisposition [] then ret result else cleanupResources env))
        else cleanupResources env)"

section \<open>The fresh target (target.go)\<close>

definition targetBootstrapTimeout :: int where "targetBootstrapTimeout = seconds (30 * 60)"
definition targetApplicationTimeout :: int where "targetApplicationTimeout = seconds (10 * 60)"

definition emptyClusterStatus :: ClusterStatus where
  "emptyClusterStatus = \<lparr> ssPhase = [], ssReadyReplicas = 0, ssReadReplicas = None, ssCurrentVersion = [],
     ssAcceptedUpgradeStrategy = OtherStrategy [], ssInitialized = False, ssActiveLeader = [], ssUpgrade = None, ssUpgradeRequests = None,
     ssBlueGreen = None, ssOperationLock = None, ssBreakGlass = None, ssWorkloadLastError = None, ssConditions = [],
     ssBackup = None, ssAdminOps = None, ssPolicyRevisions = None \<rparr>"

definition projectRestoreTarget :: "OpenBaoRestore \<Rightarrow> RestoreClusterTemplate \<Rightarrow> Cluster" where
  "projectRestoreTarget r template = \<lparr> clName = opCluster (orsSpec r), clNamespace = orsNamespace r, clUID = [],
     clResourceVersion = 0, clGeneration = 0, clAnnotations = [(AnnotationRestoreOrigin, orsUID r)], clCreationTimestamp = 0, clDeletionTimestamp = None,
     clSpec = \<lparr> spVersion = ctVersion template, spImage = ctImage template, spReplicas = 1, spUpgrade = None, spReadReplicas = None,
       spBreakGlassAck = [], spImageVerification = None, spOperatorImageVerification = None, spInitContainer = ctInitContainer template,
       spPaused = False, spProfile = ''Development'', spNetworkEgressRules = None, spSelfInit = Some (True, Some True), spBackup = None, spReconcilePolicies = False \<rparr>,
     clStatus = emptyClusterStatus \<rparr>"

definition createFreshTarget :: "renv \<Rightarrow> RestoreClusterTemplate \<Rightarrow> bool \<Rightarrow> int rop" where
  "createFreshTarget env template targetExists = bnd (gets rq) (\<lambda>r. bnd (rnow env) (\<lambda>tm.
     if (case rsStartTime (orsStatus r) of None \<Rightarrow> False | Some t \<Rightarrow> tm > t + targetBootstrapTimeout)
     then failRestore env ''TargetBootstrapTimedOut'' ''Fresh target validation deadline exceeded''
     else if targetExists then failRestore env ''TargetCollision'' ''Fresh targets cannot adopt an existing OpenBaoCluster''
     else bnd (attempt (rgetClaim env (targetPVCName r))) (\<lambda>g. case g of
         Inr _ \<Rightarrow> failRestore env ''TargetCollision'' ''Fresh target data PVC already exists''
       | Inl e \<Rightarrow> if \<not> is_not_found e then failwith e
           else let child = projectRestoreTarget r template in
             bnd (attempt (rcallU (\<lambda>tr. reCreateCluster env tr child True) (RCreateCluster child True))) (\<lambda>dry. case dry of
               Inl e \<Rightarrow> if api_reason_of e = Some (OtherReason ''Forbidden'') \<or> api_reason_of e = Some (OtherReason ''Invalid'')
                 then failRestore env ''DestinationRejected'' ''Fresh target rejected by destination admission''
                 else failwith (wrapf ''validate fresh target'' e)
             | Inr _ \<Rightarrow> bnd (rnow env) (\<lambda>tm.
                 bnd (updateStatus env (\<lambda>st. st\<lparr>rsTarget := Some (emptyTarget\<lparr>tgReservedAt := tm\<rparr>)\<rparr>)) (\<lambda>_.
                 bnd (wrap_err (wrapf ''fresh target creation attempt'')
                        (rcallU (\<lambda>tr. reCreateCluster env tr child False) (RCreateCluster child False))) (\<lambda>_.
                 ret restoreRequeueImmediately)))))))"

text \<open>The checks on the data volume and the identity of the bootstrapped target.\<close>

definition prepareBoundTarget :: "renv \<Rightarrow> Cluster \<Rightarrow> (bool \<times> int) rop" where
  "prepareBoundTarget env c = bnd (gets rq) (\<lambda>r. withTarget (\<lambda>t.
     let stop = (\<lambda>m. bnd m (\<lambda>result. ret (False, result))) in
     bnd (attempt (rgetClaim env (targetPVCName r))) (\<lambda>g. case g of
       Inl e \<Rightarrow> if is_not_found e then ret (False, restoreRequeueJobCheck) else failwith e
     | Inr pvc \<Rightarrow>
         if \<not> originalTargetPVC pvc c \<or> (tgDataPVCUID t \<noteq> [] \<and> tgDataPVCUID t \<noteq> omUID (pvMeta pvc))
         then stop (failRestore env ''TargetStorageChanged'' ''Fresh target PVC was replaced or lacks original owner proof'')
         else if tgDataPVCUID t = [] then stop (bindTarget env (\<lambda>t. t\<lparr>tgDataPVCUID := omUID (pvMeta pvc)\<rparr>))
         else if tgBootstrapClusterID t \<noteq> [] then ret (True, 0)
         else bnd (attempt (targetHealth env c)) (\<lambda>h. case h of
             Inl _ \<Rightarrow> ret (False, restoreRequeueJobCheck)
           | Inr health \<Rightarrow>
               if hsVersion health \<noteq> soExpectedVersion (opSource (orsSpec r)) \<or> hsClusterID health = []
                  \<or> hsClusterID health = soExpectedClusterID (opSource (orsSpec r))
               then stop (failRestore env ''TargetIdentityMismatch'' ''Fresh target must report the expected version and a distinct native identity'')
               else stop (bindTarget env (\<lambda>t. t\<lparr>tgBootstrapClusterID := hsClusterID health\<rparr>))))))"

definition prepareTarget :: "renv \<Rightarrow> (bool \<times> int) rop" where
  "prepareTarget env = bnd (gets rq) (\<lambda>r. case opClusterTemplate (orsSpec r) of
      None \<Rightarrow> ret (True, 0)
    | Some template \<Rightarrow> bnd (attempt (rgetCluster env)) (\<lambda>g.
        let stop = (\<lambda>m. bnd m (\<lambda>result. ret (False, result))) in
        if (case g of Inl e \<Rightarrow> \<not> is_not_found e | Inr _ \<Rightarrow> False) then lift_res (map_sum id (\<lambda>_. (False, 0)) g)
        else (case target r of
            None \<Rightarrow> stop (createFreshTarget env template (\<not> isl g))
          | Some t \<Rightarrow> (case g of
                Inl _ \<Rightarrow> stop (failRestore env ''TargetUnavailable'' ''Reserved target is missing, replaced, or deleting; it will not be recreated'')
              | Inr c \<Rightarrow>
                  if lookup_label (clAnnotations c) AnnotationRestoreOrigin \<noteq> orsUID r \<or> (tgUID t \<noteq> [] \<and> clUID c \<noteq> tgUID t)
                     \<or> clDeletionTimestamp c \<noteq> None
                  then stop (failRestore env ''TargetUnavailable'' ''Reserved target is missing, replaced, or deleting; it will not be recreated'')
                  else if tgUID t = [] then stop (bindTarget env (\<lambda>t. t\<lparr>tgUID := clUID c\<rparr>))
                  else bnd (rnow env) (\<lambda>tm.
                    if tm > tgReservedAt t + targetBootstrapTimeout
                    then stop (failRestore env ''TargetBootstrapTimedOut'' ''Fresh target bootstrap deadline exceeded'')
                    else prepareBoundTarget env c)))))"

definition needsTargetCleanup :: "OpenBaoRestore \<Rightarrow> bool" where
  "needsTargetCleanup r \<longleftrightarrow> opTargetLifecycle (orsSpec r) = LifecycleDisposable
     \<and> (case target r of None \<Rightarrow> False | Some t \<Rightarrow> tgCleanup t \<noteq> CleanupComplete)
     \<and> rsAdministratorDisposition (orsStatus r) \<noteq> AdministratorAbandon"

definition finishTargetRecovery :: "renv \<Rightarrow> int rop" where
  "finishTargetRecovery env = bnd (gets rq) (\<lambda>r.
     if opTargetLifecycle (orsSpec r) \<noteq> LifecycleDisposable then reconcileAcknowledgement env
     else withTarget (\<lambda>t. bnd (rnow env) (\<lambda>tm.
       if (case tgAppliedAt t of None \<Rightarrow> False | Some a \<Rightarrow> tm < a + seconds (opCleanupAfterSeconds (orsSpec r)))
       then ret restoreRequeueJobCheck else cleanupTarget env)))"

definition observeTargetApplication :: "renv \<Rightarrow> int rop" where
  "observeTargetApplication env = bnd (gets rq) (\<lambda>r. withTarget (\<lambda>t. bnd (attempt (rgetCluster env)) (\<lambda>g. case g of
      Inl e \<Rightarrow> if is_not_found e then finishTargetRecovery env else failwith e
    | Inr c \<Rightarrow>
        if clUID c \<noteq> tgUID t \<or> lookup_label (clAnnotations c) AnnotationRestoreHold \<noteq> orsUID r then finishTargetRecovery env
        else bnd (attempt (targetHealth env c)) (\<lambda>h. bnd (rnow env) (\<lambda>tm.
          if (case h of Inl _ \<Rightarrow> False | Inr health \<Rightarrow> hsClusterID health = soExpectedClusterID (opSource (orsSpec r))
                \<and> hsVersion health = soExpectedVersion (opSource (orsSpec r)))
          then bnd (updateStatus env (\<lambda>st. (setTarget (\<lambda>t. t\<lparr>tgAppliedAt := Some tm\<rparr>) st)\<lparr>rsMessage :=
                 ''Fresh target reports the expected source identity and healthy leadership; retained targets require administrator handoff''\<rparr>))
                 (\<lambda>_. ret restoreRequeueImmediately)
          else (case rsSubmissionClaim (orsStatus r) of
              None \<Rightarrow> failwith (Panic ''status.submissionClaim'')
            | Some claim \<Rightarrow> if tm < smClaimedAt claim + targetApplicationTimeout then ret restoreRequeueJobCheck
                else finishTargetRecovery env))))))"

definition reconcileTargetRecovery :: "renv \<Rightarrow> int rop" where
  "reconcileTargetRecovery env = bnd (gets rq) (\<lambda>r.
     if (case target r of None \<Rightarrow> False | Some t \<Rightarrow> tgCleanup t \<noteq> OtherCleanup []) then cleanupTarget env
     else if rsRestart (orsStatus r) \<noteq> None \<or> (case target r of None \<Rightarrow> True | Some t \<Rightarrow> tgBootstrapClusterID t = [])
     then reconcileAcknowledgement env
     else if (case target r of None \<Rightarrow> False | Some t \<Rightarrow> tgAppliedAt t = None) \<and> rsSubmissionClaim (orsStatus r) \<noteq> None
     then observeTargetApplication env
     else finishTargetRecovery env)"

definition releaseUnsubmittedTarget :: "renv \<Rightarrow> unit rop" where
  "releaseUnsubmittedTarget env = bnd (gets rq) (\<lambda>r. case target r of
      None \<Rightarrow> ret ()
    | Some t \<Rightarrow>
        if opTargetLifecycle (orsSpec r) \<noteq> LifecycleRetain \<or> \<not> restoreSubmissionExcluded r then ret ()
        else bnd (attempt (rgetCluster env)) (\<lambda>g. case g of
            Inl e \<Rightarrow> if is_not_found e then ret () else failwith e
          | Inr c \<Rightarrow>
              if lookup_label (clAnnotations c) AnnotationRestoreOrigin \<noteq> orsUID r \<or> (tgUID t \<noteq> [] \<and> tgUID t \<noteq> clUID c) then ret ()
              else bnd (rpatchCluster env c (c\<lparr>clSpec := (clSpec c)\<lparr>spPaused := True\<rparr>,
                     clAnnotations := delAnnotation AnnotationRestoreOrigin (clAnnotations c)\<rparr>)) (\<lambda>_. ret ())))"

end
