(* ===== verification/Restore_Reconcile.thy ===== *)
theory Restore_Reconcile
  imports Restore_Recovery
begin

text \<open>
  One pass of the restore manager: validation (\<open>manager_validation.go\<close>), observation
  (\<open>manager_observation.go\<close>), the effects of a decision (\<open>manager_effects.go\<close>), deletion
  (\<open>manager_status.go\<close>) and the dispatch on the phase (\<open>manager_reconcile.go\<close>).
\<close>

section \<open>Validation\<close>

definition stopWith :: "int rop \<Rightarrow> (int + 'a) rop" where
  "stopWith m = bnd m (\<lambda>result. ret (Inl result))"

definition validateCluster :: "renv \<Rightarrow> (int + Cluster) rop" where
  "validateCluster env = bnd (gets rq) (\<lambda>r. bnd (attempt (rgetCluster env)) (\<lambda>g. case g of
      Inl e \<Rightarrow> if is_not_found e then stopWith (failRestore env ''RestoreFailed'' (''target cluster '' @ opCluster (orsSpec r) @ '' not found''))
        else failwith (wrapf ''failed to get target cluster'' e)
    | Inr c \<Rightarrow>
        if spProfile (clSpec c) = ''Hardened'' then
          (case spNetworkEgressRules (clSpec c) of
             None \<Rightarrow> stopWith (failRestore env ''RestoreFailed''
               ''Hardened profile requires explicit spec.network.egressRules so restore Jobs can reach the object storage endpoint'')
           | Some rules \<Rightarrow>
               if rules = [] then stopWith (failRestore env ''RestoreFailed''
                 ''Hardened profile requires explicit spec.network.egressRules so restore Jobs can reach the object storage endpoint'')
               else if \<not> reEgressRulesExplicit env rules then stopWith (failRestore env ''RestoreFailed''
                 ''Hardened profile requires spec.network.egressRules entries to be port-scoped and target explicit non-wildcard peers'')
               else (case reStorageViolation env r of
                   Some message \<Rightarrow> stopWith (failRestore env ''RestoreFailed'' message)
                 | None \<Rightarrow> ret (Inr c)))
        else ret (Inr c)))"

definition restoreForceIf :: "OpenBaoRestore \<Rightarrow> OperationLockStatus \<Rightarrow> bool" where
  "restoreForceIf r current \<longleftrightarrow> opOverrideOperationLock (orsSpec r) \<and> opForce (orsSpec r) \<and> lkOperation current \<noteq> ''Restore''"

definition restoreAcquireOptions :: "OpenBaoRestore \<Rightarrow> AcquireOptions" where
  "restoreAcquireOptions r = \<lparr> aoMessage = restoreLockMessage r, aoForce = False, aoForceIf = Some (restoreForceIf r) \<rparr>"

definition restoreLockFields :: "OpenBaoRestore \<Rightarrow> labels" where
  "restoreLockFields r = restoreAuditFields r @ [(''operation'', ''Restore''), (''holder'', olHolder (restoreOperationLock r))]"

definition acquireOperationLock :: "renv \<Rightarrow> Cluster \<Rightarrow> (int + OperationLockStatus option \<times> bool \<times> Cluster) rop" where
  "acquireOperationLock env c = bnd (gets rq) (\<lambda>r.
     if opOverrideOperationLock (orsSpec r) \<and> \<not> opForce (orsSpec r)
     then stopWith (failRestore env ''RestoreFailed'' ''overrideOperationLock requires force: true'')
     else bnd (attempt (AcquireWithReaderResult (rLockApi env) (Some c) (restoreOperationLock r) (restoreAcquireOptions r))) (\<lambda>a. case a of
         Inl e \<Rightarrow>
           if IsLockHeld (Some e) then
             bnd (raudit ''OperationLockBlocked'' (AddHeldAuditFields (restoreLockFields r) e)) (\<lambda>_.
             bnd (emitRestoreEvent True ''OperationLockBlocked'' ''Restore is waiting for the cluster operation lock'') (\<lambda>_.
             bnd (wrap_err (wrapf ''failed to patch restore status after lock contention'')
                    (updateStatus env (\<lambda>st. st\<lparr>rsMessage := restoreWaitingForOperationLockStatusMessage e\<rparr>))) (\<lambda>_.
             ret (Inl (RequeueDelay 0 RetryClassLockContention)))))
           else failwith (wrapf ''failed to acquire cluster operation lock'' e)
       | Inr (c', result) \<Rightarrow>
           bnd (if arsForced result \<and> arsPreviousLock result \<noteq> None
                then raudit ''OperationLockForceAcquired'' (restoreLockFields r @ (case arsPreviousLock result of None \<Rightarrow> []
                       | Some k \<Rightarrow> [(''replaced_operation'', lkOperation k), (''replaced_holder'', lkHolder k)]))
                else if \<not> IsHeldBy (restoreOperationLock r) (arsPreviousLock result)
                then raudit ''OperationLockAcquired'' (restoreLockFields r) else ret ()) (\<lambda>_.
           ret (Inr (arsPreviousLock result, arsForced result, c')))))"

definition handleLockOverride :: "renv \<Rightarrow> OperationLockStatus \<Rightarrow> unit rop" where
  "handleLockOverride env before = bnd (gets rq) (\<lambda>r. bnd (rnow env) (\<lambda>tm.
     bnd (emitRestoreEvent True ''OperationLockOverride'' (''OverrideOperationLock used; cleared existing lock operation='' @ lkOperation before @ '' holder='' @ lkHolder before)) (\<lambda>_.
     wrap_err (wrapf ''failed to patch restore status after lock override'')
       (updateStatus env (\<lambda>st. st\<lparr>rsConditions := setStatusCondition (restoreCondition r ''OperationLockOverride'' ''True''
          ''OperationLockOverridden'' (''Cleared existing lock operation='' @ lkOperation before @ '' holder='' @ lkHolder before) tm) (rsConditions st)\<rparr>)))))"

definition validateClusterState :: "renv \<Rightarrow> Cluster \<Rightarrow> int option rop" where
  "validateClusterState env c = bnd (gets rq) (\<lambda>r.
     if opForce (orsSpec r) then ret None
     else if \<not> ssInitialized (clStatus c)
     then bnd (failRestore env ''RestoreFailed'' ''target cluster is not initialized (use force: true to override)'') (\<lambda>x. ret (Some x))
     else if (case findStatusCondition (ssConditions (clStatus c)) ''Upgrading'' of None \<Rightarrow> False | Some k \<Rightarrow> cdStatus k = ''True'')
     then bnd (failRestore env ''RestoreFailed'' ''cannot restore while cluster is upgrading'') (\<lambda>x. ret (Some x))
     else ret None)"

definition validateExecutionReadiness :: "renv \<Rightarrow> Cluster \<Rightarrow> int option rop" where
  "validateExecutionReadiness env c = bnd (gets rq) (\<lambda>r.
     bnd (wrap_err (wrapf ''failed to evaluate restore prerequisites'') (rcall (\<lambda>tr. reReadiness env tr r c) RReadiness)) (\<lambda>(status, reason, message).
     bnd (patchRestoreConfigurationCondition env status reason message) (\<lambda>_.
       if status \<noteq> ''True'' then bnd (failRestore env ''RestoreFailed'' message) (\<lambda>x. ret (Some x)) else ret None)))"

definition ensureRestoreResources :: "renv \<Rightarrow> Cluster \<Rightarrow> unit rop" where
  "ensureRestoreResources env c = bnd (gets rq) (\<lambda>r.
     bnd (wrap_err (wrapf ''failed to ensure restore service account'')
            (rcallU (\<lambda>tr. reEnsureServiceAccount env tr c) (REnsureResources ''serviceaccount''))) (\<lambda>_.
     wrap_err (wrapf ''failed to ensure restore RBAC'')
       (rcallU (\<lambda>tr. reEnsureRBAC env tr c (orsName r)) (REnsureResources ''rbac''))))"

section \<open>Pending and Validating\<close>

definition handlePending :: "renv \<Rightarrow> int rop" where
  "handlePending env = bnd (gets rq) (\<lambda>r. bnd (rnow env) (\<lambda>tm.
     bnd (wrap_err (wrapf ''failed to patch restore status'') (updateStatus env (\<lambda>st. st\<lparr>rsStartTime := Some tm,
            rsPhase := RestorePhaseValidating, rsSnapshotKey := soKey (opSource (orsSpec r)),
            rsMessage := ''Validating restore preconditions''\<rparr>))) (\<lambda>_.
     bnd (LogPhaseTransition raudit ''RestorePhaseTransition'' ''Pending'' ''Validating'' (restoreAuditFields r)) (\<lambda>_.
     bnd (emitRestoreEvent False ''RestoreValidationStarted'' (''Restore validation started for cluster '' @ opCluster (orsSpec r))) (\<lambda>_.
     bnd (remit (RMetric ''started'' 0)) (\<lambda>_. ret restoreRequeueImmediately))))))"

definition startExecution :: "renv \<Rightarrow> Cluster \<Rightarrow> int rop" where
  "startExecution env c = bnd (gets rq) (\<lambda>r. bnd (rnow env) (\<lambda>tm.
     let x = (newRestoreExecutionStatus env tm r)\<lparr>exTargetUID := clUID c\<rparr> in
     bnd (wrap_err (wrapf ''failed to patch restore status'') (updateStatus env (\<lambda>st. st\<lparr>rsPhase := RestorePhaseRunning,
            rsExecution := Some x,
            rsMessage := ''Restore execution '' @ exOperationID x @ '' prepared; waiting to commit Job '' @ exJobName x @ ''.''\<rparr>))) (\<lambda>_.
     bnd (LogPhaseTransition raudit ''RestorePhaseTransition'' ''Validating'' ''Running'' (restoreAuditFields r)) (\<lambda>_.
     bnd (emitRestoreEvent False ''RestoreStarted'' (''Restore started for cluster '' @ opCluster (orsSpec r))) (\<lambda>_.
     ret restoreRequeueImmediately)))))"

definition handleValidating :: "renv \<Rightarrow> int rop" where
  "handleValidating env =
     bnd (prepareTarget env) (\<lambda>(ready, result). if \<not> ready then ret result else
     bnd (validateCluster env) (\<lambda>v. case v of Inl result \<Rightarrow> ret result | Inr c \<Rightarrow>
     bnd (acquireOperationLock env c) (\<lambda>a. case a of Inl result \<Rightarrow> ret result | Inr (before, forced, c') \<Rightarrow>
     bnd (case before of Some k \<Rightarrow> if forced then handleLockOverride env k else ret () | None \<Rightarrow> ret ()) (\<lambda>_.
     unless_done (validateClusterState env c') (
     unless_done (validateExecutionReadiness env c') (
     bnd (ensureRestoreResources env c') (\<lambda>_. startExecution env c')))))))"

section \<open>Observation\<close>

record restoreObservation =
  obState :: restoreState
  obCluster :: "Cluster option"
  obJob :: "Job option"

definition unknownRestoreObservation :: "Cluster option \<Rightarrow> string \<Rightarrow> restoreObservation" where
  "unknownRestoreObservation c message = \<lparr> obState = zeroRestoreState\<lparr>dsUnknownMessage := message\<rparr>, obCluster = c, obJob = None \<rparr>"

definition failedRestoreObservation :: "Cluster option \<Rightarrow> string \<Rightarrow> restoreObservation" where
  "failedRestoreObservation c message = \<lparr> obState = zeroRestoreState\<lparr>dsFailureMessage := message\<rparr>, obCluster = c, obJob = None \<rparr>"

definition classifyRestoreJob :: "Job option \<Rightarrow> restoreJobState" where
  "classifyRestoreJob job = (case job of None \<Rightarrow> restoreJobRunning
     | Some j \<Rightarrow>
         if jbActive j \<noteq> 0 \<or> (case jbTerminating j of None \<Rightarrow> False | Some n \<Rightarrow> n \<noteq> 0) then restoreJobRunning
         else let succeeded = list_ex (\<lambda>k. cdStatus k = ''True'' \<and> cdType k = ''Complete'') (jbConditions j);
                  failed = list_ex (\<lambda>k. cdStatus k = ''True'' \<and> cdType k = ''Failed'') (jbConditions j)
              in if succeeded \<and> \<not> failed then restoreJobSucceeded
                 else if failed \<and> \<not> succeeded then restoreJobFailed else restoreJobRunning)"

definition observeLegacyRestoreJob :: "renv \<Rightarrow> Cluster \<Rightarrow> restoreObservation rop" where
  "observeLegacyRestoreJob env c = bnd (gets rq) (\<lambda>r.
     bnd (attempt (readRestoreJob env (restoreJobName env r) ''observe restore'')) (\<lambda>g. case g of
       Inl e \<Rightarrow> if is_not_found e then ret (unknownRestoreObservation (Some c)
           ''Restore is Running without an execution receipt and its Job is missing.'')
         else failwith (wrapf ''failed to get restore job'' e)
     | Inr job \<Rightarrow>
         let jobOperationID = lookup_label (omAnnotations (jbMeta job)) restoreExecutionIDAnnotation
         in if jobOperationID \<noteq> [] \<and> jobOperationID \<noteq> restoreExecutionOperationID r
            then ret (unknownRestoreObservation (Some c) (''Existing restore Job '' @ omName (jbMeta job) @ '' has another operation ID.''))
            else ret \<lparr> obState = zeroRestoreState\<lparr>dsLegacy := True\<rparr>, obCluster = Some c, obJob = Some job \<rparr>))"

definition observeRestoreJob :: "renv \<Rightarrow> restoreObservation \<Rightarrow> restoreObservation rop" where
  "observeRestoreJob env ob = bnd (gets rq) (\<lambda>r. withExecution (\<lambda>x.
     let committed = (dsExecutionStage (obState ob) = ExecutionCommitted);
         unknown = (\<lambda>m. ret (ob\<lparr>obState := (obState ob)\<lparr>dsUnknownMessage := m\<rparr>\<rparr>))
     in bnd (attempt (readRestoreJob env (exJobName x) (if committed then ''observe committed restore'' else ''observe restore''))) (\<lambda>g. case g of
          Inl e \<Rightarrow> if is_not_found e
            then unknown ((if committed then ''Committed restore Job '' else ''Restore Job '') @ exJobName x @ '' is missing.'')
            else failwith (wrapf ''failed to get restore Job'' e)
        | Inr job \<Rightarrow> (case validateRestoreExecutionJob (execution r) (Some job) of
            Some e \<Rightarrow> unknown (if committed then ''Committed restore Job identity is inconsistent. The operator will not recreate it.''
                else ''Restore Job identity no longer matches its creation receipt. The operator will not recreate it.'')
          | None \<Rightarrow> bnd (validateClaimExecutor env) (\<lambda>issue.
              if issue \<noteq> [] then unknown (''Submission claim requires administrator investigation: '' @ issue)
              else let jobState = classifyRestoreJob (Some job);
                       ob' = ob\<lparr>obJob := Some job, obState := (obState ob)\<lparr>dsJobState := jobState\<rparr>\<rparr>
                   in if jobState = restoreJobSucceeded \<or> jobState = restoreJobFailed
                      then bnd (restoreExecutorPending env job) (\<lambda>pending.
                        if pending \<noteq> [] then ret (ob'\<lparr>obState := (obState ob')\<lparr>dsJobState := restoreJobRunning, dsWaitMessage := pending\<rparr>\<rparr>)
                        else ret ob')
                      else ret ob')))))"

definition observeRestore :: "renv \<Rightarrow> restoreObservation rop" where
  "observeRestore env = bnd (gets rq) (\<lambda>r. bnd (attempt (rgetCluster env)) (\<lambda>g. case g of
      Inl e \<Rightarrow>
        if is_not_found e then
          (if execution r \<noteq> None \<and> \<not> restoreExecutionCommitted (execution r)
           then ret (failedRestoreObservation None ''Original target disappeared before execution commitment'')
           else ret (unknownRestoreObservation None ''Original target is absent; acknowledge Abandon after administrator inspection.''))
        else failwith (wrapf ''failed to get target cluster'' e)
    | Inr c \<Rightarrow> (case execution r of
        None \<Rightarrow> observeLegacyRestoreJob env c
      | Some x \<Rightarrow>
          if exTargetUID x \<noteq> [] \<and> exTargetUID x \<noteq> clUID c
          then (if \<not> restoreExecutionCommitted (execution r)
                then ret (failedRestoreObservation (Some c) ''Original target cluster was replaced before execution commitment'')
                else ret (unknownRestoreObservation (Some c) ''Original target cluster was replaced; administrator investigation is required.''))
          else (case validateRestoreExecutionIdentity env r of
              Some e \<Rightarrow> ret (unknownRestoreObservation (Some c) ''Restore execution identity is inconsistent.'')
            | None \<Rightarrow>
                let ob = \<lparr> obState = zeroRestoreState\<lparr>dsExecutionStage := exStage x, dsTerminalResult := exTerminalResult x\<rparr>,
                           obCluster = Some c, obJob = None \<rparr>
                in if exStage x = ExecutionCommitted \<or> exStage x = ExecutionCreated then observeRestoreJob env ob else ret ob))))"

section \<open>Effects\<close>

definition renewRunningRestoreLock :: "renv \<Rightarrow> Cluster option \<Rightarrow> bool rop" where
  "renewRunningRestoreLock env cluster = (case cluster of None \<Rightarrow> failwith (Panic ''cluster'') | Some c \<Rightarrow> bnd (gets rq) (\<lambda>r.
     bnd (attempt (AcquireWithReader (rLockApi env) (Some c) (restoreOperationLock r)
            \<lparr> aoMessage = restoreLockMessage r, aoForce = False, aoForceIf = None \<rparr>)) (\<lambda>a. case a of
       Inl e \<Rightarrow>
         if IsLockHeld (Some e) then
           bnd (raudit ''RestoreLockLost'' (restoreAuditFields r)) (\<lambda>_.
           bnd (emitRestoreEvent True ''OperationLockLost'' ''Restore lost the cluster operation lock while running'') (\<lambda>_.
             if restoreExecutionCommitted (execution r) then ret False
             else bnd (failRestore env ''RestoreFailed''
               ''Restore stopped because another operation took the cluster operation lock while the restore Job was running.'') (\<lambda>_. ret True)))
         else failwith (wrapf ''failed to renew cluster operation lock'' e)
     | Inr _ \<Rightarrow>
         if \<not> IsHeldBy (restoreOperationLock r) (ssOperationLock (clStatus c))
         then bnd (raudit ''OperationLockAcquired'' (restoreLockFields r)) (\<lambda>_. ret False) else ret False)))"

definition verifyRestoreExecutor :: "renv \<Rightarrow> Cluster \<Rightarrow> string \<Rightarrow> (int + string) rop" where
  "verifyRestoreExecutor env c executorImage =
     (if executorImage = [] \<or> \<not> reOperatorVerification env c then ret (Inr [])
      else bnd (attempt (rcall (\<lambda>tr. reVerifyOperator env tr c executorImage) (RVerifyImage executorImage))) (\<lambda>v. case v of
          Inr digest \<Rightarrow> ret (Inr digest)
        | Inl e \<Rightarrow>
            let configured = (case spOperatorImageVerification (clSpec c) of None \<Rightarrow> [] | Some k \<Rightarrow> ivFailurePolicy k);
                failurePolicy = (if configured = [] then ''Block'' else configured)
            in if failurePolicy \<noteq> ''Block'' then ret (Inr [])
               else if IsTransient (Some e)
               then stopWith (bnd (wrap_err (wrapf ''failed to patch restore status after transient image verification failure'')
                      (updateStatus env (\<lambda>st. st\<lparr>rsMessage := ''Waiting for restore executor image verification before creating the restore Job''\<rparr>)))
                      (\<lambda>_. ret restoreRequeueJobPoll))
               else stopWith (failRestore env ''RestoreFailed'' ''Restore executor image verification failed.'')))"

text \<open>The Job was created, or its creation failed in a way that has to be resolved.\<close>

definition submitRestoreJob :: "renv \<Rightarrow> Cluster \<Rightarrow> string \<Rightarrow> Job \<Rightarrow> int rop" where
  "submitRestoreJob env c jobName job = bnd (gets rq) (\<lambda>r. bnd (attempt (rcreateJob env job)) (\<lambda>created. case created of
      Inl e \<Rightarrow>
        if is_already_exists e then
          bnd (wrap_err (wrapf ''restore Job create collided with an untrusted existing Job'') (readRestoreJob env jobName ''use existing restore'')) (\<lambda>existing.
          bnd (wrap_err (wrapf ''failed to persist existing restore Job creation receipt'') (markRestoreExecutionCreated env (Some existing))) (\<lambda>_.
          ret restoreRequeueJobCheck))
        else bnd (attempt (readRestoreJob env jobName ''resolve ambiguous restore create'')) (\<lambda>g. case g of
            Inr existing \<Rightarrow>
              bnd (wrap_err (wrapf ''failed to persist restore Job receipt after ambiguous create'') (markRestoreExecutionCreated env (Some existing))) (\<lambda>_.
              ret restoreRequeueJobCheck)
          | Inl readErr \<Rightarrow>
              if \<not> is_not_found readErr then failwith (wrapf ''failed to resolve restore Job create error'' readErr)
              else bnd (wrap_err (wrapf ''failed to record ambiguous restore Job creation'') (markRestoreExecutionUnknown env
                   ''Restore Job creation returned an error after the execution was committed. The Job is not observable, so its execution state is unknown and the operator will not retry creation.'')) (\<lambda>_.
                 ret 0))
    | Inr j \<Rightarrow>
        bnd (wrap_err (wrapf ''failed to persist restore Job creation receipt'') (markRestoreExecutionCreated env (Some j))) (\<lambda>_.
        bnd (raudit ''RestoreJobCreated'' (restoreAuditFields r @ [(''job'', jobName)])) (\<lambda>_.
        bnd (case reIdentityMessage env r c of Some m \<Rightarrow> emitRestoreEvent False ''RestoreIdentityConfiguration'' m | None \<Rightarrow> ret ()) (\<lambda>_.
        bnd (emitRestoreEvent False ''RestoreJobCreated'' (''Created restore Job '' @ jobName)) (\<lambda>_. ret restoreRequeueJobCheck))))))"

definition createRestoreJob :: "renv \<Rightarrow> Cluster \<Rightarrow> string \<Rightarrow> int rop" where
  "createRestoreJob env c jobName = bnd (gets rq) (\<lambda>r.
     if (case execution r of None \<Rightarrow> True | Some x \<Rightarrow> exStage x \<noteq> ExecutionPrepared)
     then failwith (errorf ''restore execution must be Prepared before Job creation'')
     else (case validateRestoreExecutionIdentity env r of
         Some e \<Rightarrow> failwith (wrapf ''invalid prepared restore execution'' e)
       | None \<Rightarrow> (case getRestoreExecutorImage env r c of
           Inl e \<Rightarrow> failRestore env ''RestoreFailed'' ''failed to determine restore executor image''
         | Inr executorImage \<Rightarrow> bnd (verifyRestoreExecutor env c executorImage) (\<lambda>v. case v of
             Inl result \<Rightarrow> ret result
           | Inr digest \<Rightarrow> bnd (gets rq) (\<lambda>r. case reBuildJob env r c digest of
               Inl e \<Rightarrow> failRestore env ''RestoreFailed'' ''failed to build restore job''
             | Inr job \<Rightarrow> (case PrepareManagedJobOwner (Some job) (Some (restoreMeta r)) (Some openBaoRestoreGVK) of
                 Inl e \<Rightarrow> failwith (wrapf ''failed to prepare restore Job ownership'' e)
               | Inr owned' \<Rightarrow>
                   bnd (holdTarget env c) (\<lambda>_.
                   bnd (wrap_err (wrapf ''failed to persist restore Job creation commitment'') (markRestoreExecutionCommitted env)) (\<lambda>_.
                   submitRestoreJob env c jobName owned'))))))))"

definition finishFailedExecution :: "renv \<Rightarrow> int rop" where
  "finishFailedExecution env = bnd (gets rq) (\<lambda>r. withExecution (\<lambda>x.
     if rsSubmissionClaim (orsStatus r) = None \<and> exTargetUID x \<noteq> []
     then failRestore env ''RestoreFailed'' ''Restore executor failed before submission; no snapshot was submitted''
     else bnd (markRestoreExecutionUnknown env
       ''Restore executor failed after its submission claim; inspect the target and acknowledge administrator recovery.'') (\<lambda>_. ret 0)))"

definition recordFailedJob :: "renv \<Rightarrow> restoreObservation \<Rightarrow> int rop" where
  "recordFailedJob env ob =
     bnd (wrap_err (wrapf ''failed to persist failed restore Job receipt'') (markRestoreExecutionTerminal env ExecutionFailed)) (\<lambda>_.
     bnd (gets rq) (\<lambda>r. withExecution (\<lambda>x.
       if rsSubmissionClaim (orsStatus r) = None \<and> exTargetUID x \<noteq> []
       then failRestore env ''RestoreFailed'' (restoreJobFailedStatusMessage (obJob ob) ''Failed before submission; no snapshot was submitted.'')
       else bnd (markRestoreExecutionUnknown env (restoreJobFailedStatusMessage (obJob ob)
              ''Snapshot application is uncertain; inspect the target and acknowledge administrator recovery.'')) (\<lambda>_. ret 0))))"

definition pollJob :: "renv \<Rightarrow> restoreObservation \<Rightarrow> int rop" where
  "pollJob env ob = (case obJob ob of None \<Rightarrow> failwith (Panic ''job'')
     | Some job \<Rightarrow>
         bnd (wrap_err (wrapf ''failed to patch restore status while job is running'')
                (updateStatus env (\<lambda>st. st\<lparr>rsMessage := (if dsWaitMessage (obState ob) \<noteq> [] then dsWaitMessage (obState ob)
                   else restoreJobRunningStatusMessage (omName (jbMeta job)))\<rparr>))) (\<lambda>_.
         ret restoreRequeueJobPoll))"

text \<open>The effect of every decision but the adoption of a legacy Job, which comes back to this function.\<close>

definition applyDirectDecision :: "renv \<Rightarrow> restoreObservation \<Rightarrow> restoreDecision \<Rightarrow> int rop" where
  "applyDirectDecision env ob d =
     (let holding = (\<lambda>k. bnd (renewRunningRestoreLock env (obCluster ob)) (\<lambda>done'. if done' then ret 0 else k)) in
      case dcKind d of
        restoreDecisionIdle \<Rightarrow> ret 0
      | restoreDecisionMarkUnknown \<Rightarrow> bnd (markRestoreExecutionUnknown env (dcMessage d)) (\<lambda>_. ret 0)
      | restoreDecisionCreateJob \<Rightarrow> holding (withExecution (\<lambda>x. case obCluster ob of
            None \<Rightarrow> failwith (Panic ''cluster'') | Some c \<Rightarrow> createRestoreJob env c (exJobName x)))
      | restoreDecisionRecordCreatedReceipt \<Rightarrow>
          bnd (wrap_err (wrapf ''failed to persist restore Job creation receipt'') (markRestoreExecutionCreated env (obJob ob))) (\<lambda>_.
          ret restoreRequeueImmediately)
      | restoreDecisionRecordSucceededJob \<Rightarrow>
          bnd (wrap_err (wrapf ''failed to persist successful restore Job receipt'') (markRestoreExecutionTerminal env ExecutionSucceeded)) (\<lambda>_.
          bnd (markRestoreExecutionUnknown env ''Snapshot request accepted; application is unconfirmed. Follow the administrator recovery runbook before acknowledging Resume or Abandon.'') (\<lambda>_.
          ret 0))
      | restoreDecisionRecordFailedJob \<Rightarrow> holding (recordFailedJob env ob)
      | restoreDecisionPollJob \<Rightarrow> holding (pollJob env ob)
      | restoreDecisionContinueRecovery \<Rightarrow>
          bnd (markRestoreExecutionUnknown env ''Snapshot application requires administrator confirmation.'') (\<lambda>_. ret 0)
      | restoreDecisionFailRestore \<Rightarrow>
          if dcMessage d \<noteq> [] then failRestore env ''RestoreFailed'' (dcMessage d) else finishFailedExecution env
      | restoreDecisionCompleteRestore \<Rightarrow> bnd (completeRestore env ''Restore completed successfully after post-restore recovery'') (\<lambda>_. ret 0)
      | restoreDecisionAdoptLegacyJob \<Rightarrow> failwith (errorf ''unsupported restore decision''))"

definition adoptLegacyRestoreJob :: "renv \<Rightarrow> restoreObservation \<Rightarrow> int rop" where
  "adoptLegacyRestoreJob env ob = (case obJob ob of None \<Rightarrow> failwith (Panic ''job'')
     | Some job \<Rightarrow> bnd (gets rq) (\<lambda>r. bnd (rnow env) (\<lambda>tm.
         bnd (wrap_err (wrapf ''failed to persist legacy restore Job receipt'') (updateStatus env (\<lambda>st. st\<lparr>rsExecution := Some (emptyExecution
                \<lparr>exOperationID := restoreExecutionOperationID r, exStage := ExecutionCreated, exJobName := omName (jbMeta job),
                 exJobUID := omUID (jbMeta job), exPreparedAt := Some tm, exCommittedAt := Some tm, exCreatedAt := Some tm\<rparr>),
                rsMessage := ''Adopted existing restore Job '' @ omName (jbMeta job) @ '' and persisted its execution receipt.''\<rparr>))) (\<lambda>_.
         bnd (observeRestoreJob env \<lparr> obState = zeroRestoreState\<lparr>dsExecutionStage := ExecutionCreated\<rparr>,
                obCluster = obCluster ob, obJob = None \<rparr>) (\<lambda>next'.
         applyDirectDecision env next' (decideRestore (obState next')))))))"

definition applyRestoreDecision :: "renv \<Rightarrow> restoreObservation \<Rightarrow> restoreDecision \<Rightarrow> int rop" where
  "applyRestoreDecision env ob d =
     (if dcKind d = restoreDecisionAdoptLegacyJob then adoptLegacyRestoreJob env ob else applyDirectDecision env ob d)"

definition handleRunning :: "renv \<Rightarrow> int rop" where
  "handleRunning env = bnd (observeRestore env) (\<lambda>ob. applyRestoreDecision env ob (decideRestore (obState ob)))"

section \<open>Deletion and terminal phases\<close>

definition finalizeRestoreDeletion :: "renv \<Rightarrow> int rop" where
  "finalizeRestoreDeletion env = bnd (releaseUnsubmittedTarget env) (\<lambda>_.
     bnd (wrap_err (wrapf ''failed to release cluster operation lock during restore deletion'') (releaseClusterLock env)) (\<lambda>_.
     bnd (wrap_err (wrapf ''failed to remove finalizer'') (patchFinalizers env (filter (\<lambda>f. f \<noteq> OpenBaoRestoreFinalizer)))) (\<lambda>_. ret 0)))"

definition handleDeletion :: "renv \<Rightarrow> int rop" where
  "handleDeletion env = bnd (gets rq) (\<lambda>r.
     if OpenBaoRestoreFinalizer \<notin> set (orsFinalizers r) then ret 0
     else if opTargetLifecycle (orsSpec r) = LifecycleDisposable \<and> target r \<noteq> None
     then (if needsTargetCleanup r then cleanupTarget env else finalizeRestoreDeletion env)
     else if \<not> restoreSubmissionExcluded r \<and> rsAdministratorDisposition (orsStatus r) = OtherDisposition []
       \<and> restorePhase r \<noteq> RestorePhaseCompleted
     then (if restorePhase r \<noteq> RestorePhaseUnknown
           then bnd (markRestoreExecutionUnknown env ''Deletion requested after execution commitment; administrator acknowledgement is required.'') (\<lambda>_. ret 0)
           else reconcileAcknowledgement env)
     else if rsAdministratorDisposition (orsStatus r) \<noteq> OtherDisposition [] then finalizeRestoreDeletion env
     else bnd (deleteRestoreJob env) (\<lambda>deleted. if deleted then finalizeRestoreDeletion env else ret restoreRequeueImmediately))"

definition ensureTerminalCleanup :: "renv \<Rightarrow> int rop" where
  "ensureTerminalCleanup env = bnd (gets rq) (\<lambda>r.
     if needsTargetCleanup r then cleanupTarget env
     else bnd (releaseUnsubmittedTarget env) (\<lambda>_.
       bnd (if (case execution r of None \<Rightarrow> False | Some x \<Rightarrow> exJobName x \<noteq> [])
            then wrap_err (wrapf ''failed to remove terminal restore Job'') (deleteRestoreJob env) else ret True) (\<lambda>deleted.
         if \<not> deleted then ret restoreRequeueImmediately
         else bnd (wrap_err (wrapf ''failed to release cluster operation lock for terminal restore'') (releaseClusterLock env)) (\<lambda>_. ret 0))))"

section \<open>Reconcile\<close>

definition dispatchPhase :: "renv \<Rightarrow> RestorePhase \<Rightarrow> int rop" where
  "dispatchPhase env p = (case p of
      RestorePhasePending \<Rightarrow> handlePending env
    | RestorePhaseValidating \<Rightarrow> handleValidating env
    | RestorePhaseRunning \<Rightarrow> handleRunning env
    | RestorePhaseCompleted \<Rightarrow> ensureTerminalCleanup env
    | RestorePhaseFailed \<Rightarrow> ensureTerminalCleanup env
    | RestorePhaseUnknown \<Rightarrow> reconcileTargetRecovery env
    | OtherRestorePhase _ \<Rightarrow> ret 0)"

definition RestoreReconcile :: "renv \<Rightarrow> int rop" where
  "RestoreReconcile env = bnd (gets rq) (\<lambda>r.
     if orsDeletionTimestamp r \<noteq> None then handleDeletion env
     else bnd (wrap_err (wrapf ''failed to ensure restore finalizer'') (ensureFinalizer env)) (\<lambda>_.
       bnd (updRq (\<lambda>r. if restorePhase r = OtherRestorePhase [] then mapRestoreStatus (\<lambda>st. st\<lparr>rsPhase := RestorePhasePending\<rparr>) r else r)) (\<lambda>_.
       bnd (gets rq) (\<lambda>r. dispatchPhase env (restorePhase r)))))"

end
