(* ===== verification/Restore_Invariant.thy ===== *)
theory Restore_Invariant
  imports Restore_Reconcile
begin

text \<open>
  The invariant of a restore request.  \<open>evolves u v\<close> says how a stored version \<open>v\<close> may follow an older one
  \<open>u\<close>: receipts only move forward, a submission claim and the identities of a fresh target are written once.
  \<open>restoreInv\<close> requires it of every two stored versions and ties the destructive calls in the trace to what is
  stored; \<open>synced\<close> adds that the copy in memory agrees with a stored version, which is what makes an
  accepted patch of that copy safe.  \<open>rquiet\<close> and \<open>rstays\<close> are the frames of the calls that change nothing
  relevant.
\<close>

section \<open>What matters of a version\<close>

definition normPhase :: "RestorePhase \<Rightarrow> RestorePhase" where
  "normPhase p = (if p = OtherRestorePhase [] then RestorePhasePending else p)"

abbreviation submissionClaim :: "OpenBaoRestore \<Rightarrow> RestoreSubmissionClaim option" where
  "submissionClaim r \<equiv> rsSubmissionClaim (orsStatus r)"

definition essence :: "OpenBaoRestore \<Rightarrow> string \<times> OpenBaoRestoreSpec \<times> RestoreExecutionStatus option
    \<times> RestoreSubmissionClaim option \<times> RestoreTargetStatus option \<times> RestorePhase" where
  "essence r = (orsUID r, orsSpec r, execution r, submissionClaim r, target r, normPhase (restorePhase r))"

fun stageRank :: "RestoreExecutionStage \<Rightarrow> nat" where
  "stageRank (OtherExecutionStage _) = 0"
| "stageRank ExecutionPrepared = 1"
| "stageRank ExecutionCommitted = 2"
| "stageRank ExecutionCreated = 3"
| "stageRank ExecutionTerminalObserved = 4"
| "stageRank ExecutionFollowThroughComplete = 5"
| "stageRank ExecutionUnknown = 6"

definition stageOf :: "OpenBaoRestore \<Rightarrow> RestoreExecutionStage" where
  "stageOf r = (case execution r of None \<Rightarrow> OtherExecutionStage [] | Some x \<Rightarrow> exStage x)"

definition early :: "OpenBaoRestore \<Rightarrow> bool" where
  "early r \<longleftrightarrow> normPhase (restorePhase r) \<in> {RestorePhasePending, RestorePhaseValidating}"

definition applied :: "OpenBaoRestore \<Rightarrow> bool" where
  "applied r \<longleftrightarrow> (case target r of None \<Rightarrow> False | Some t \<Rightarrow> tgAppliedAt t \<noteq> None)"

definition disposable :: "OpenBaoRestore \<Rightarrow> bool" where
  "disposable r \<longleftrightarrow> opTargetLifecycle (orsSpec r) = LifecycleDisposable"

definition writtenOnce :: "'a \<Rightarrow> 'a \<Rightarrow> 'a \<Rightarrow> bool" where
  "writtenOnce zero x y \<longleftrightarrow> x = zero \<or> y = x"

definition targetStep :: "RestoreTargetStatus option \<Rightarrow> RestoreTargetStatus option \<Rightarrow> bool" where
  "targetStep a b = (case a of None \<Rightarrow> True | Some t \<Rightarrow> (case b of None \<Rightarrow> False
     | Some t' \<Rightarrow> writtenOnce [] (tgUID t) (tgUID t') \<and> writtenOnce [] (tgDataPVCUID t) (tgDataPVCUID t')
         \<and> writtenOnce [] (tgBootstrapClusterID t) (tgBootstrapClusterID t')
         \<and> writtenOnce None (tgAppliedAt t) (tgAppliedAt t')))"

definition claimStep :: "OpenBaoRestore \<Rightarrow> OpenBaoRestore \<Rightarrow> bool" where
  "claimStep u v \<longleftrightarrow> submissionClaim v = submissionClaim u
     \<or> (submissionClaim u = None \<and> stageRank (stageOf u) \<le> 3 \<and> 3 \<le> stageRank (stageOf v))"

definition cleanupAllowed :: "OpenBaoRestore \<Rightarrow> bool" where
  "cleanupAllowed v \<longleftrightarrow> (case target v of None \<Rightarrow> True | Some t \<Rightarrow> tgCleanup t = OtherCleanup [] \<or> disposable v)"

definition okVersion :: "OpenBaoRestore \<Rightarrow> bool" where
  "okVersion v \<longleftrightarrow> (early v \<longrightarrow> stageRank (stageOf v) = 0)
     \<and> cleanupAllowed v
     \<and> (restorePhase v = RestorePhaseCompleted \<longrightarrow> applied v \<or> stageOf v = ExecutionFollowThroughComplete)"

definition evolves :: "OpenBaoRestore \<Rightarrow> OpenBaoRestore \<Rightarrow> bool" where
  "evolves u v \<longleftrightarrow> orsUID v = orsUID u \<and> orsSpec v = orsSpec u
     \<and> stageRank (stageOf u) \<le> stageRank (stageOf v)
     \<and> (stageOf v = ExecutionFollowThroughComplete \<longrightarrow> stageOf u = ExecutionFollowThroughComplete)
     \<and> claimStep u v \<and> targetStep (target u) (target v) \<and> (early v \<longrightarrow> early u) \<and> (okVersion u \<longrightarrow> okVersion v)"

section \<open>The trace\<close>

fun isCreateJob :: "revent \<Rightarrow> bool" where
  "isCreateJob (RCreateJob _ _) = True"
| "isCreateJob _ = False"

abbreviation createdJobs :: "revent list \<Rightarrow> nat" where
  "createdJobs tr \<equiv> length (filter isCreateJob tr)"

text \<open>The target was seen with the identity of the snapshot's source, as an initialized, unsealed leader.\<close>

definition healthSeen :: "revent list \<Rightarrow> HealthStatus \<Rightarrow> bool" where
  "healthSeen tr h \<longleftrightarrow> (\<exists>url. RHealth url (Inr h) \<in> set tr)
     \<and> hsInitialized h \<and> \<not> hsSealed h \<and> \<not> hsStandby h \<and> \<not> hsPerformanceStandby h"

definition confirmed :: "revent list \<Rightarrow> OpenBaoRestoreSpec \<Rightarrow> bool" where
  "confirmed tr sp \<longleftrightarrow> (\<exists>h. healthSeen tr h \<and> hsClusterID h = soExpectedClusterID (opSource sp)
     \<and> hsVersion h = soExpectedVersion (opSource sp))"

fun okEvent :: "OpenBaoRestore \<Rightarrow> revent \<Rightarrow> bool" where
  "okEvent v (RDeleteCluster _ uid _) \<longleftrightarrow> disposable v \<and> uid \<noteq> [] \<and> map_option tgUID (target v) = Some uid"
| "okEvent v (RDeleteClaim _ uid _) \<longleftrightarrow> disposable v \<and> uid \<noteq> [] \<and> map_option tgDataPVCUID (target v) = Some uid"
| "okEvent v _ \<longleftrightarrow> True"

definition okTrace :: "revent list \<Rightarrow> OpenBaoRestore \<Rightarrow> bool" where
  "okTrace tr v \<longleftrightarrow> createdJobs tr \<le> 1 \<and> (createdJobs tr = 1 \<longrightarrow> 2 \<le> stageRank (stageOf v))
     \<and> (applied v \<longrightarrow> confirmed tr (orsSpec v)) \<and> list_all (okEvent v) tr"

section \<open>The invariant\<close>

definition newer :: "OpenBaoRestore \<Rightarrow> OpenBaoRestore \<Rightarrow> bool" where
  "newer v u \<longleftrightarrow> evolves u v \<and> orsResourceVersion u < orsResourceVersion v"

definition restoreInv :: "OpenBaoRestoreSpec \<Rightarrow> rst \<Rightarrow> bool" where
  "restoreInv sp s \<longleftrightarrow> hist s \<noteq> [] \<and> orsSpec (stored s) = sp \<and> sorted_wrt newer (hist s) \<and> list_all okVersion (hist s) \<and> okTrace (rtrace s) (stored s)"

definition inHist :: "OpenBaoRestore \<Rightarrow> OpenBaoRestore list \<Rightarrow> bool" where
  "inHist r vs \<longleftrightarrow> list_ex (\<lambda>v. orsResourceVersion v = orsResourceVersion r \<and> essence v = essence r) vs"

definition synced :: "OpenBaoRestoreSpec \<Rightarrow> rst \<Rightarrow> bool" where
  "synced sp s \<longleftrightarrow> restoreInv sp s \<and> inHist (rq s) (hist s)"

section \<open>Facts about versions\<close>

lemma evolves_refl [simp]: "evolves u u"
  by (simp add: evolves_def claimStep_def targetStep_def writtenOnce_def split: option.split)

lemma claimStep_trans:
  "claimStep u v \<Longrightarrow> claimStep v w \<Longrightarrow> stageRank (stageOf u) \<le> stageRank (stageOf v)
     \<Longrightarrow> stageRank (stageOf v) \<le> stageRank (stageOf w) \<Longrightarrow> claimStep u w"
  by (auto simp: claimStep_def)

lemma targetStep_trans: "targetStep a b \<Longrightarrow> targetStep b c \<Longrightarrow> targetStep a c"
  by (auto simp: targetStep_def writtenOnce_def split: option.splits)

lemma evolves_trans: "evolves u v \<Longrightarrow> evolves v w \<Longrightarrow> evolves u w"
  unfolding evolves_def by (metis claimStep_trans targetStep_trans order_trans)

lemma essence_cong:
  assumes "essence u = essence u'"
  shows "stageOf u = stageOf u'" "early u = early u'" "applied u = applied u'" "disposable u = disposable u'"
    "orsSpec u = orsSpec u'" "orsUID u = orsUID u'" "target u = target u'" "submissionClaim u = submissionClaim u'"
    "execution u = execution u'" "okVersion u = okVersion u'"
proof -
  show *: "stageOf u = stageOf u'" "early u = early u'" "applied u = applied u'" "disposable u = disposable u'"
    "orsSpec u = orsSpec u'" "orsUID u = orsUID u'" "target u = target u'" "submissionClaim u = submissionClaim u'"
    "execution u = execution u'"
    using assms by (simp_all add: essence_def stageOf_def early_def applied_def disposable_def)
  have "(restorePhase u = RestorePhaseCompleted) = (restorePhase u' = RestorePhaseCompleted)"
    using assms by (auto simp: essence_def normPhase_def split: if_splits)
  with * show "okVersion u = okVersion u'" by (simp add: okVersion_def cleanupAllowed_def split: option.split)
qed

lemma evolves_cong: "essence u = essence u' \<Longrightarrow> essence v = essence v' \<Longrightarrow> evolves u v = evolves u' v'"
  using essence_cong [of u u'] essence_cong [of v v'] by (simp add: evolves_def claimStep_def)

lemma evolves_essence: "essence u = essence v \<Longrightarrow> evolves u v"
  by (metis evolves_cong evolves_refl)

lemma evolves_target:
  assumes "evolves u v" and "target u = Some t"
  obtains t' where "target v = Some t'" "tgUID t \<noteq> [] \<Longrightarrow> tgUID t' = tgUID t"
    "tgDataPVCUID t \<noteq> [] \<Longrightarrow> tgDataPVCUID t' = tgDataPVCUID t"
  using assms by (auto simp: evolves_def targetStep_def writtenOnce_def split: option.splits)

lemma evolves_okEvent:
  assumes "evolves u v" and "okEvent u e" shows "okEvent v e"
proof -
  have d: "disposable u = disposable v" using assms by (simp add: evolves_def disposable_def)
  show ?thesis
  proof (cases e)
    case (RDeleteCluster n uid r)
    then obtain t where "target u = Some t" using assms by auto
    then show ?thesis using assms RDeleteCluster d by (auto elim!: evolves_target [of u v])
  next
    case (RDeleteClaim n uid r)
    then obtain t where "target u = Some t" using assms by auto
    then show ?thesis using assms RDeleteClaim d by (auto elim!: evolves_target [of u v])
  qed simp_all
qed

lemma okTrace_evolves:
  "okTrace tr u \<Longrightarrow> evolves u v \<Longrightarrow> (applied v \<Longrightarrow> \<not> applied u \<Longrightarrow> confirmed tr (orsSpec u)) \<Longrightarrow> okTrace tr v"
  unfolding okTrace_def
  by (auto simp: list_all_iff evolves_okEvent) (auto simp: evolves_def)

lemma confirmed_append: "confirmed tr sp \<Longrightarrow> confirmed (tr @ ev) sp"
  by (auto simp: confirmed_def healthSeen_def)

lemma okTrace_append:
  "okTrace tr v \<Longrightarrow> \<not> isCreateJob e \<Longrightarrow> okEvent v e \<Longrightarrow> okTrace (tr @ [e]) v"
  by (auto simp: okTrace_def confirmed_append)

lemma restoreInv_stored:
  assumes "restoreInv sp s" and "v \<in> set (hist s)"
  shows "evolves v (stored s)" "okVersion v" "orsResourceVersion v = orsResourceVersion (stored s) \<Longrightarrow> v = stored s"
proof -
  obtain w ws where h: "hist s = w # ws" using assms by (cases "hist s") (auto simp: restoreInv_def)
  with assms show "evolves v (stored s)" "okVersion v"
    "orsResourceVersion v = orsResourceVersion (stored s) \<Longrightarrow> v = stored s"
    by (auto simp: restoreInv_def newer_def list_all_iff)
qed

lemma synced_rq:
  assumes "synced sp s"
  shows "evolves (rq s) (stored s)" "okVersion (rq s)" "orsSpec (rq s) = sp"
    "orsResourceVersion (rq s) = orsResourceVersion (stored s) \<Longrightarrow> essence (rq s) = essence (stored s)"
proof -
  obtain v where v: "v \<in> set (hist s)" "orsResourceVersion v = orsResourceVersion (rq s)" "essence v = essence (rq s)"
    using assms by (auto simp: synced_def inHist_def list_ex_iff)
  have inv: "restoreInv sp s" using assms by (simp add: synced_def)
  show ev: "evolves (rq s) (stored s)" and "okVersion (rq s)"
    using restoreInv_stored [OF inv v(1)] evolves_cong [OF v(3) refl] essence_cong(10) [OF v(3)] by simp_all
  show "orsSpec (rq s) = sp" using ev inv by (simp add: evolves_def restoreInv_def)
  show "orsResourceVersion (rq s) = orsResourceVersion (stored s) \<Longrightarrow> essence (rq s) = essence (stored s)"
    using restoreInv_stored(3) [OF inv v(1)] v by simp
qed

end
