(* ===== verification/Restore_Frames.thy ===== *)
theory Restore_Frames
  imports Restore_Invariant
begin

text \<open>
  What the parts of a restore pass leave alone: \<open>rquiet\<close> (nothing is written, no Job is created, no target is
  deleted) and \<open>rstays\<close> (the essence of the request is unchanged and the invariant holds whatever the outcome),
  and the rule for a status patch, from which the safety of every write follows.
\<close>

section \<open>Frames\<close>

fun harmless :: "revent \<Rightarrow> bool" where
  "harmless (RCreateJob _ _) = False"
| "harmless (RDeleteCluster _ _ _) = False"
| "harmless (RDeleteClaim _ _ _) = False"
| "harmless _ = True"

definition rquiet :: "rst \<Rightarrow> rst \<Rightarrow> bool" where
  "rquiet s t \<longleftrightarrow> rq t = rq s \<and> hist t = hist s \<and> (\<exists>ev. rtrace t = rtrace s @ ev \<and> list_all harmless ev)"

definition rstays :: "OpenBaoRestoreSpec \<Rightarrow> rst \<Rightarrow> rst \<Rightarrow> bool" where
  "rstays sp s t \<longleftrightarrow> (synced sp s \<longrightarrow> synced sp t \<and> essence (rq t) = essence (rq s))"

interpretation rquiet: frame rquiet
  by unfold_locales (auto simp: rquiet_def)

interpretation rstays: frame "rstays sp" for sp
  by unfold_locales (auto simp: rstays_def)

lemma okTrace_harmless: "okTrace tr v \<Longrightarrow> list_all harmless ev \<Longrightarrow> okTrace (tr @ ev) v"
proof (induction ev arbitrary: tr)
  case (Cons e ev)
  have "\<not> isCreateJob e \<and> okEvent v e" using Cons.prems by (cases e) simp_all
  then have "okTrace (tr @ [e]) v" using Cons.prems by (simp add: okTrace_append)
  from Cons.IH [OF this] Cons.prems show ?case by simp
qed simp

lemma rquiet_rq: "rquiet s t \<Longrightarrow> rq t = rq s"
  by (simp add: rquiet_def)

lemma rquiet_synced: "rquiet s t \<Longrightarrow> synced sp s \<Longrightarrow> synced sp t"
  by (auto simp: rquiet_def synced_def restoreInv_def okTrace_harmless)

lemma rquiet_restoreInv: "rquiet s t \<Longrightarrow> restoreInv sp s \<Longrightarrow> restoreInv sp t"
  by (auto simp: rquiet_def restoreInv_def okTrace_harmless)

lemma rquiet_rstays: "keeps rquiet m \<Longrightarrow> keeps (rstays sp) m"
  by (erule keeps_mono) (auto simp: rstays_def rquiet_synced, simp add: rquiet_def)

text \<open>The two frames as rules for weakest preconditions.\<close>

lemma wp_rquiet:
  assumes "keeps rquiet m" and "synced sp s" and "\<And>a t. synced sp t \<Longrightarrow> rq t = rq s \<Longrightarrow> Q a t"
    and "\<And>e t. synced sp t \<Longrightarrow> rq t = rq s \<Longrightarrow> E e t"
  shows "wp m Q E s"
  by (rule wp_keeps [OF assms(1)]) (blast intro: assms rquiet_synced rquiet_rq)+

lemma wp_rstays:
  assumes "keeps (rstays sp) m" and "synced sp s" and "\<And>a t. synced sp t \<Longrightarrow> essence (rq t) = essence (rq s) \<Longrightarrow> Q a t"
    and "\<And>e t. synced sp t \<Longrightarrow> essence (rq t) = essence (rq s) \<Longrightarrow> E e t"
  shows "wp m Q E s"
  by (rule wp_keeps [OF assms(1)]) (use assms in \<open>auto simp: rstays_def\<close>)

section \<open>Calls that write nothing\<close>

lemma rquiet_calls:
  "(\<And>r. harmless (ev r)) \<Longrightarrow> keeps rquiet (rcall f ev)"
  "(\<And>r. harmless (ev' r)) \<Longrightarrow> keeps rquiet (rcallU g ev')"
  "harmless e \<Longrightarrow> keeps rquiet (remit e)"
  by (simp_all add: keeps_def rquiet_def rcall_def rcallU_def remit_def modify_def Let_def)

lemma rquiet_prims [simp, intro]:
  "keeps rquiet (rgetCluster env)" "keeps rquiet (rpatchCluster env b c)" "keeps rquiet (rgetJob env n)"
  "keeps rquiet (rdeleteJob env j)" "keeps rquiet (rgetClaim env n)" "keeps rquiet (raudit ty flds)"
  "keeps rquiet (emitRestoreEvent w rsn note)" "keeps rquiet (rnow env)"
  by (simp_all add: rgetCluster_def rpatchCluster_def rgetJob_def rdeleteJob_def rgetClaim_def raudit_def
      emitRestoreEvent_def rnow_def rquiet_calls)

lemma rquiet_withTarget [intro!]: "(\<And>t. keeps rquiet (k t)) \<Longrightarrow> keeps rquiet (withTarget k)"
  unfolding withTarget_def by (auto split: option.split)

lemma rquiet_withExecution [intro!]: "(\<And>t. keeps rquiet (k t)) \<Longrightarrow> keeps rquiet (withExecution k)"
  unfolding withExecution_def by (auto split: option.split)

lemma rquiet_retry [intro!]:
  assumes "keeps rquiet m" shows "keeps rquiet (retryOnConflict n m)"
proof -
  have "rquiet s (snd (retryOnConflict n m s))" for s
  proof (induction n arbitrary: s)
    case (Suc n)
    obtain r t where m: "m s = (r, t)" by (cases "m s")
    then have "rquiet s t" using assms by (metis keeps_def snd_conv)
    with m Suc show ?case by (auto split: sum.split intro: rquiet.trans)
  qed (simp add: rquiet.refl)
  then show ?thesis by (simp add: keeps_def)
qed

lemma rquiet_mutateLock [simp, intro]: "keeps rquiet (mutateOperationLockStatus (rLockApi env) c mutate)"
  unfolding mutateOperationLockStatus_def MutateAndPatchLockStatus_def lockAttempt_def rLockApi_def
  by (auto intro!: rquiet_calls split: prod.split)

lemma rquiet_lock [simp, intro]:
  "keeps rquiet (ReleaseWithReader (rLockApi env) c l)" "keeps rquiet (AcquireWithReaderResult (rLockApi env) c l opts)"
  unfolding ReleaseWithReader_def AcquireWithReaderResult_def
  by (auto split: option.split prod.split)

lemma rquiet_acquire [simp, intro]: "keeps rquiet (AcquireWithReader (rLockApi env) c l opts)"
  unfolding AcquireWithReader_def by (auto split: prod.split)

lemma rquiet_ignoreHeld [intro!]: "keeps rquiet m \<Longrightarrow> (\<And>a. keeps rquiet (k a)) \<Longrightarrow> keeps rquiet (ignoreHeld m k)"
  unfolding ignoreHeld_def by (auto split: sum.split)

lemma rquiet_releaseClusterLock [simp, intro]: "keeps rquiet (releaseClusterLock env)"
  unfolding releaseClusterLock_def by (auto split: sum.split)

lemma rquiet_readRestoreJob [simp, intro]: "keeps rquiet (readRestoreJob env n a)"
  unfolding readRestoreJob_def ReadManagedJob_def by (auto split: option.split)

lemma rquiet_deleteRestoreJob [simp, intro]: "keeps rquiet (deleteRestoreJob env)"
  unfolding deleteRestoreJob_def by (auto split: sum.split)

lemma rquiet_scanPages [simp, intro]: "keeps rquiet (scanPages sel msg f none pages)"
  by (induction pages) (auto intro!: rquiet_calls split: sum.split option.split)

lemma rquiet_observers [simp, intro]: "keeps rquiet (restoreExecutorPending env job)" "keeps rquiet (validateClaimExecutor env)"
  unfolding restoreExecutorPending_def validateClaimExecutor_def Let_def
  by (auto split: option.split prod.split simp del: scanPages.simps)

lemma rquiet_readVoters [simp, intro]: "keeps rquiet (readVoters env c is leader)"
  by (induction "is" arbitrary: leader) (auto intro!: rquiet_calls simp: Let_def)

lemma rquiet_targetHealth [simp, intro]: "keeps rquiet (targetHealth env c)"
  unfolding targetHealth_def by (auto intro!: rquiet_calls split: option.split)

lemma rquiet_readPoolPods [simp, intro]: "keeps rquiet (readPoolPods env sts name is)"
  by (induction "is") (auto intro!: rquiet_calls simp: Let_def split: sum.split)

lemma rquiet_readPools [simp, intro]: "keeps rquiet (readPools env c pools)"
proof (induction pools)
  case (Cons p pools)
  then show ?case by (cases p) (auto intro!: rquiet_calls)
qed simp

lemma rquiet_recoveryPods [simp, intro]: "keeps rquiet (recoveryPods env c)"
  unfolding recoveryPods_def by (rule rquiet_readPools)

lemma rquiet_recoveryLeader [simp, intro]: "keeps rquiet (recoveryLeaderForTarget env c pods)"
  unfolding recoveryLeaderForTarget_def by (auto intro!: rquiet_calls split: sum.split option.split list.split)

lemma rquiet_prepareRecovery [simp, intro]: "keeps rquiet (prepareRecoveryWorkload env c h)"
  unfolding prepareRecoveryWorkload_def by (auto intro!: rquiet_calls split: option.split list.split)

lemma rquiet_restartPods [simp, intro]: "keeps rquiet (restartPods pods)"
  by (induction pods) (auto simp: controllerUID_def split: option.split)

lemma rquiet_restartRecoveryPod [simp, intro]: "keeps rquiet (restartRecoveryPod env p i n)"
  unfolding restartRecoveryPod_def by (auto intro!: rquiet_calls)

lemma rquiet_holdTarget [simp, intro]: "keeps rquiet (holdTarget env c)"
  unfolding holdTarget_def Let_def by auto

lemma rquiet_releaseUnsubmitted [simp, intro]: "keeps rquiet (releaseUnsubmittedTarget env)"
  unfolding releaseUnsubmittedTarget_def by (auto split: option.split sum.split)

lemma rquiet_ensureResources [simp, intro]: "keeps rquiet (ensureRestoreResources env c)"
  unfolding ensureRestoreResources_def by (auto intro!: rquiet_calls)

lemma rquiet_observeLegacy [simp, intro]: "keeps rquiet (observeLegacyRestoreJob env c)"
  unfolding observeLegacyRestoreJob_def Let_def by (auto split: sum.split)

lemma rquiet_observeJob [simp, intro]: "keeps rquiet (observeRestoreJob env ob)"
  unfolding observeRestoreJob_def Let_def by (auto split: sum.split option.split)

lemma rquiet_observeRestore [simp, intro]: "keeps rquiet (observeRestore env)"
  unfolding observeRestore_def Let_def by (auto split: sum.split option.split)

lemma rquiet_logPhase [simp, intro]: "keeps rquiet (LogPhaseTransition raudit e a b flds)"
  unfolding LogPhaseTransition_def by auto

section \<open>Status patches\<close>

lemma mergeStatus_keep:
  assumes "rsExecution b = rsExecution c" "rsSubmissionClaim b = rsSubmissionClaim c" "rsTarget b = rsTarget c"
  shows "rsExecution (mergeStatus b n c) = rsExecution n" "rsSubmissionClaim (mergeStatus b n c) = rsSubmissionClaim n"
    "rsTarget (mergeStatus b n c) = rsTarget n" "rsPhase (mergeStatus b n c) = mrg (rsPhase b) (rsPhase n) (rsPhase c)"
  using assms by (simp_all add: mergeStatus_def mrgObj_self)

lemma essence_patched:
  assumes "essence base = essence cur"
  shows "essence (patchedStatus base (mapRestoreStatus f base) cur) = essence (mapRestoreStatus f base)"
proof -
  let ?n = "f (orsStatus base)" and ?c = "orsStatus cur"
  let ?m = "mergeStatus (orsStatus base) ?n ?c"
  have eq: "rsExecution (orsStatus base) = rsExecution ?c" "rsSubmissionClaim (orsStatus base) = rsSubmissionClaim ?c"
    "rsTarget (orsStatus base) = rsTarget ?c" "normPhase (restorePhase base) = normPhase (restorePhase cur)"
    "orsUID base = orsUID cur" "orsSpec base = orsSpec cur"
    using assms by (simp_all add: essence_def)
  have "normPhase (rsPhase ?m) = normPhase (rsPhase ?n)"
    using eq(4) mergeStatus_keep(4) [OF eq(1-3), of ?n] by (simp add: mrg_def)
  then have "essence (cur\<lparr>orsStatus := ?m, orsResourceVersion := k\<rparr>) = essence (mapRestoreStatus f base)" for k
    using mergeStatus_keep [OF eq(1-3)] eq by (simp add: essence_def)
  moreover have "essence (patchedStatus base (mapRestoreStatus f base) cur) = essence (cur\<lparr>orsStatus := ?m, orsResourceVersion := k\<rparr>)" for k
    by (simp add: patchedStatus_def essence_def Let_def)
  ultimately show ?thesis by simp
qed

lemma patchedStatus_version:
  "patchedStatus base new cur = cur \<or> orsResourceVersion (patchedStatus base new cur) = Suc (orsResourceVersion cur)"
  by (simp add: patchedStatus_def Let_def)

lemma pushVersion_facts [simp]:
  "hd (pushVersion v vs) = v" "set vs \<subseteq> set (pushVersion v vs)"
  by (auto simp: pushVersion_def)

text \<open>Storing a version that evolves from the latest one keeps the invariant.\<close>

lemma restoreInv_push:
  assumes inv: "restoreInv sp s" and ev: "evolves (stored s) v"
    and new: "v = stored s \<or> orsResourceVersion v = Suc (orsResourceVersion (stored s))"
    and conf: "applied v \<Longrightarrow> \<not> applied (stored s) \<Longrightarrow> confirmed (rtrace s) (orsSpec v)"
    and t: "hist t = pushVersion v (hist s)" "rtrace t = rtrace s @ tr" "list_all harmless tr"
  shows "restoreInv sp t"
proof -
  obtain u us where h: "hist s = u # us" using inv by (cases "hist s") (auto simp: restoreInv_def)
  have spec: "orsSpec v = orsSpec u" using ev h by (simp add: evolves_def)
  have "okTrace (rtrace s) u" using inv h by (simp add: restoreInv_def)
  then have tr: "okTrace (rtrace s @ tr) v"
    using ev conf h spec t(3) by (auto intro!: okTrace_harmless intro: okTrace_evolves)
  have ok: "okVersion v" using ev inv h by (simp add: evolves_def restoreInv_def)
  have "newer v w" if "v \<noteq> u" "w \<in> set (hist s)" for w
  proof -
    have "evolves w v" using restoreInv_stored(1) [OF inv that(2)] ev by (rule evolves_trans)
    moreover have "orsResourceVersion w \<le> orsResourceVersion u"
      using that(2) inv h by (auto simp: restoreInv_def newer_def less_imp_le)
    ultimately show ?thesis using new that(1) h by (simp add: newer_def)
  qed
  then show ?thesis using inv h t ok tr spec by (auto simp: restoreInv_def pushVersion_def)
qed

lemma wp_updateStatus_inv:
  assumes syn: "synced sp s" and ev: "evolves (rq s) (mapRestoreStatus f (rq s))"
    and conf: "applied (mapRestoreStatus f (rq s)) \<Longrightarrow> \<not> applied (rq s) \<Longrightarrow> confirmed (rtrace s) (orsSpec (rq s))"
  shows "wp (updateStatus env f)
      (\<lambda>_ t. synced sp t \<and> essence (rq t) = essence (mapRestoreStatus f (rq s)) \<and> rq t = stored t
         \<and> createdJobs (rtrace t) = createdJobs (rtrace s) \<and> essence (stored s) = essence (rq s))
      (\<lambda>_ t. restoreInv sp t \<and> (essence (mapRestoreStatus f (rq s)) = essence (rq s)
         \<longrightarrow> synced sp t \<and> essence (rq t) = essence (rq s))) s"
proof -
  let ?r = "mapRestoreStatus f (rq s)" and ?v = "patchedStatus (rq s) (mapRestoreStatus f (rq s)) (stored s)"
  have inv: "restoreInv sp s" using syn by (simp add: synced_def)
  have quiet: "restoreInv sp (s\<lparr>rq := ?r, rtrace := rtrace s @ [RPatchStatus x y]\<rparr>)" for x y
    using inv by (simp add: restoreInv_def okTrace_append)
  have dirty: "inHist ?r vs" if "essence ?r = essence (rq s)" "set (hist s) \<subseteq> set vs" for vs
    using syn that by (auto simp: synced_def inHist_def list_ex_iff)
  show ?thesis
  proof (cases "orsResourceVersion (rq s) = orsResourceVersion (stored s)")
    case False
    then show ?thesis using quiet dirty unfolding wp_updateStatus
      by (simp add: wp_def patchStatus_def Let_def synced_def split: writeReply.split)
  next
    case True
    then have e: "essence (rq s) = essence (stored s)" by (rule synced_rq(4) [OF syn])
    have v: "essence ?v = essence ?r" using e by (rule essence_patched)
    have evv: "evolves (stored s) ?v" using ev evolves_cong [OF e v [symmetric]] by simp
    have confv: "applied ?v \<Longrightarrow> \<not> applied (stored s) \<Longrightarrow> confirmed (rtrace s) (orsSpec ?v)"
      using conf essence_cong [OF e] essence_cong [OF v] by simp
    have push: "restoreInv sp t" if "hist t = pushVersion ?v (hist s)" "rtrace t = rtrace s @ [RPatchStatus x y]" for t x y
      using restoreInv_push [OF inv evv patchedStatus_version confv that] by simp
    have pushed: "inHist ?v (pushVersion ?v (hist s))"
      using inv by (cases "hist s") (auto simp: inHist_def pushVersion_def restoreInv_def)
    show ?thesis using True quiet push dirty pushed v e unfolding wp_updateStatus
      by (simp add: wp_def patchStatus_def Let_def synced_def split: writeReply.split)
  qed
qed

end
