(* ===== verification/Restore_Safety.thy ===== *)
theory Restore_Safety
  imports Restore_Frames
begin

text \<open>
  Every operation of the restore manager keeps the invariant: from a copy of the request that agrees with a
  stored version it ends in such a state, or it fails and only the stored state is claimed to be safe
  (\<open>safe\<close>, closed under the combinators by the locale \<open>abandonable\<close>).  Operations that are safe only in a given stage
  have a rule with that stage as precondition.
\<close>

context abandonable
begin

lemma wp_bnd_safe:
  assumes "wp m (\<lambda>_. J) (\<lambda>_. I) s" and "\<And>a. safe J I (k a)" shows "wp (bnd m k) (\<lambda>_. J) (\<lambda>_. I) s"
  unfolding wp_bnd by (rule wp_mono [OF assms(1)]) (auto intro: safeD [OF assms(2)])

lemma safe_branches:
  "safe J I m \<Longrightarrow> safe J I n \<Longrightarrow> safe J I (if b then m else n)"
  "(\<And>e. safe J I (f e)) \<Longrightarrow> (\<And>a. safe J I (g a)) \<Longrightarrow> safe J I (case r of Inl e \<Rightarrow> f e | Inr a \<Rightarrow> g a)"
  "safe J I m \<Longrightarrow> (\<And>x. safe J I (h x)) \<Longrightarrow> safe J I (case p of None \<Rightarrow> m | Some x \<Rightarrow> h x)"
  by (auto split: sum.split option.split)

end

interpretation restore: abandonable "synced sp" "restoreInv sp" for sp
  by unfold_locales (simp add: synced_def)

abbreviation rsafe :: "OpenBaoRestoreSpec \<Rightarrow> 'a rop \<Rightarrow> bool" where
  "rsafe sp \<equiv> safe (synced sp) (restoreInv sp)"

lemma rsafe_rstays: "keeps (rstays sp) m \<Longrightarrow> rsafe sp m"
  by (auto simp: safe_def intro!: wp_rstays restore.weaken)

lemma rsafe_rquiet: "keeps rquiet m \<Longrightarrow> rsafe sp m"
  by (intro rsafe_rstays rquiet_rstays)

lemmas quiet_ops = rquiet_prims rquiet_lock rquiet_acquire rquiet_releaseClusterLock rquiet_readRestoreJob
  rquiet_deleteRestoreJob rquiet_observers rquiet_targetHealth rquiet_recoveryPods rquiet_recoveryLeader
  rquiet_prepareRecovery rquiet_restartPods rquiet_restartRecoveryPod rquiet_holdTarget rquiet_releaseUnsubmitted
  rquiet_ensureResources rquiet_observeLegacy rquiet_observeJob rquiet_observeRestore rquiet_logPhase

lemmas rstays_quiet [simp, intro] = quiet_ops [THEN rquiet_rstays]
lemmas rsafe_quiet [simp, intro] = quiet_ops [THEN rsafe_rquiet]
lemmas rstays_calls = rquiet_calls [THEN rquiet_rstays]
lemmas rsafe_calls = rquiet_calls [THEN rsafe_rquiet]

section \<open>Updates that keep the essence\<close>

lemma rstays_updateStatus:
  assumes "\<And>r. essence (mapRestoreStatus f r) = essence r"
  shows "keeps (rstays sp) (updateStatus env f)"
  unfolding keeps_def wp_snd [symmetric]
proof
  fix s
  show "wp (updateStatus env f) (\<lambda>_. rstays sp s) (\<lambda>_. rstays sp s) s"
  proof (cases "synced sp s")
    case True
    have "evolves (rq s) (mapRestoreStatus f (rq s))" using assms by (simp add: evolves_essence)
    then show ?thesis using essence_cong(3) [OF assms]
      by (intro wp_mono [OF wp_updateStatus_inv [OF True]]) (auto simp: rstays_def assms)
  qed (simp add: rstays_def wp_def split: prod.split sum.split)
qed

lemma rstays_ignoreHeld [simp, intro]:
  "keeps (rstays sp) (ignoreHeld (ReleaseWithReader (rLockApi env) c l) (\<lambda>_. ret ()))"
  by (intro rquiet_rstays) auto

lemma rstays_reportRecovery [simp, intro]: "keeps (rstays sp) (reportRecovery env reason msg)"
  unfolding reportRecovery_def by (auto intro!: rstays_updateStatus simp: essence_def)

lemma rstays_recordRecoveryRestart [simp, intro]: "keeps (rstays sp) (recordRecoveryRestart env pods)"
  unfolding recordRecoveryRestart_def by (auto intro!: rstays_updateStatus simp: essence_def)

lemma rstays_restartNextPod [simp, intro]: "keeps (rstays sp) (restartNextPod env c pods t l)"
  unfolding restartNextPod_def Let_def
  by (auto intro!: rstays_updateStatus rstays_calls simp: essence_def split: option.split)

lemma rstays_restart [simp, intro]: "keeps (rstays sp) (restartAcknowledgedTarget env c)"
  unfolding restartAcknowledgedTarget_def restartChecked_def Let_def
  by (auto split: option.split list.split)

lemma rstays_resume [simp, intro]: "keeps (rstays sp) (resumeAcknowledgedTarget env c)"
  unfolding resumeAcknowledgedTarget_def withExecution_def Let_def by (auto split: option.split)

lemma rstays_release [simp, intro]: "keeps (rstays sp) (releaseAcknowledgedTarget env a)"
  unfolding releaseAcknowledgedTarget_def Let_def by (auto split: sum.split)

lemma rstays_conditions [simp, intro]:
  "keeps (rstays sp) (patchRestoreConfigurationCondition env a b c)" "keeps (rstays sp) (handleLockOverride env k)"
  unfolding patchRestoreConfigurationCondition_def handleLockOverride_def
  by (auto intro!: rstays_updateStatus simp: essence_def)

lemma rsafe_attempt_stays: "keeps (rstays sp) m \<Longrightarrow> rsafe sp (attempt m)"
  by (intro rsafe_rstays rstays.keeps_attempt)

lemma rsafe_attempt: "keeps rquiet m \<Longrightarrow> rsafe sp (attempt m)"
  by (intro rsafe_attempt_stays rquiet_rstays)

section \<open>Updates of the phase and the receipts\<close>

text \<open>A status update that any request may make.\<close>

lemma rsafe_updateStatus:
  assumes "\<And>r. evolves r (mapRestoreStatus f r)" and "\<And>r. target (mapRestoreStatus f r) = target r"
  shows "rsafe sp (updateStatus env f)"
proof -
  have "applied (mapRestoreStatus f r) = applied r" for r using assms(2) by (simp add: applied_def)
  then show ?thesis using assms(1)
    by (auto simp: safe_def intro!: wp_mono [OF wp_updateStatus_inv])
qed

lemma rsafe_keeps_essence: "(\<And>r. essence (mapRestoreStatus f r) = essence r) \<Longrightarrow> rsafe sp (updateStatus env f)"
  by (intro rsafe_rstays rstays_updateStatus)

lemma evolves_phase:
  assumes "orsUID v = orsUID u" "orsSpec v = orsSpec u" "execution v = execution u" "submissionClaim v = submissionClaim u"
    "target v = target u" "early v \<Longrightarrow> early u"
    "restorePhase v = RestorePhaseCompleted \<Longrightarrow> restorePhase u \<noteq> RestorePhaseCompleted \<Longrightarrow> applied u \<or> stageOf u = ExecutionFollowThroughComplete"
  shows "evolves u v"
proof -
  have s: "stageOf v = stageOf u" "disposable v = disposable u" "applied v = applied u"
    using assms by (simp_all add: stageOf_def disposable_def applied_def)
  have "targetStep (target u) (target v)" using assms(5) by (simp add: targetStep_def writtenOnce_def split: option.split)
  moreover have "cleanupAllowed v = cleanupAllowed u" using assms(5) s by (simp add: cleanupAllowed_def split: option.split)
  ultimately show ?thesis using assms s by (auto simp: evolves_def claimStep_def okVersion_def)
qed

lemma rsafe_failRestore [simp, intro]: "rsafe sp (failRestore env reason msg)"
  unfolding failRestore_def
  by (auto intro!: rsafe_updateStatus evolves_phase rsafe_calls rsafe_attempt simp: early_def normPhase_def)

lemma wp_completeRestore:
  assumes s: "synced sp s" and ok: "applied (rq s) \<or> stageOf (rq s) = ExecutionFollowThroughComplete"
  shows "wp (completeRestore env msg) (\<lambda>_. synced sp) (\<lambda>_. restoreInv sp) s"
proof -
  have "wp (updateStatus env f) (\<lambda>_. synced sp) (\<lambda>_. restoreInv sp) s"
    if "f = (\<lambda>st. st\<lparr>rsPhase := RestorePhaseCompleted, rsCompletionTime := a, rsMessage := msg, rsConditions := g (rsConditions st)\<rparr>)" for f a g
    using ok unfolding that
    by (intro wp_mono [OF wp_updateStatus_inv [OF s]]) (auto intro!: evolves_phase simp: early_def normPhase_def applied_def)
  then show ?thesis unfolding completeRestore_def
    by (subst wp_bnd, simp only: wp_gets wp_rstate, subst wp_bnd, simp only: wp_gets wp_rstate)
      (auto intro!: restore.wp_bnd_safe rsafe_calls rsafe_attempt simp: wp_wrap_err)
qed

lemma evolves_unknown:
  assumes "orsUID v = orsUID u" "orsSpec v = orsSpec u" "stageOf v = ExecutionUnknown" "submissionClaim v = submissionClaim u"
    "target v = target u" "restorePhase v = RestorePhaseUnknown"
  shows "evolves u v"
proof -
  have "stageRank (stageOf u) \<le> 6" by (cases "stageOf u") simp_all
  moreover have "targetStep (target u) (target v)" using assms by (simp add: targetStep_def writtenOnce_def split: option.split)
  moreover have "disposable v = disposable u" "\<not> early v"
    using assms by (simp_all add: disposable_def early_def normPhase_def)
  moreover from this have "cleanupAllowed v = cleanupAllowed u" using assms by (simp add: cleanupAllowed_def split: option.split)
  ultimately show ?thesis using assms by (auto simp: evolves_def claimStep_def okVersion_def)
qed

lemma rsafe_markUnknown [simp, intro]: "rsafe sp (markRestoreExecutionUnknown env msg)"
  unfolding markRestoreExecutionUnknown_def
  by (auto intro!: rsafe_updateStatus evolves_unknown simp: stageOf_def)

lemma rsafe_recordDisposition [simp, intro]: "rsafe sp (recordDisposition env a b)"
  unfolding recordDisposition_def
  by (auto intro!: rsafe_updateStatus evolves_phase simp: early_def normPhase_def split: if_splits)

lemma rsafe_completeIfAccepted [simp, intro]: "rsafe sp (completeIfAccepted env)"
  unfolding safe_def
proof (intro allI impI)
  fix s assume s: "synced sp s"
  have "wp (completeRestore env m) (\<lambda>_. synced sp) (\<lambda>_. restoreInv sp) s" if "retainedTargetAccepted (rq s)" for m
    using that by (intro wp_completeRestore [OF s]) (auto simp: retainedTargetAccepted_def applied_def split: option.splits)
  then show "wp (completeIfAccepted env) (\<lambda>_. synced sp) (\<lambda>_. restoreInv sp) s"
    unfolding completeIfAccepted_def using s
    by (subst wp_bnd) (auto simp: wp_gets wp_if wp_ret intro!: restore.wp_bnd_safe)
qed

lemma rsafe_reconcileAcknowledgement [simp, intro]: "rsafe sp (reconcileAcknowledgement env)"
proof -
  have join: "rsafe sp (joinErrors es p)" for es p
    unfolding joinErrors_def by (auto split: list.split sum.split)
  have block: "rsafe sp (blockAcknowledgement env m)" "keeps (rstays sp) (blockAcknowledgement env m)" for m
    by (auto simp: blockAcknowledgement_def intro: rsafe_rstays)
  have err: "rsafe sp (case x of Some (RecoveryIssue reason message causes) \<Rightarrow>
      bnd (attempt (reportRecovery env reason message)) (joinErrors causes)
    | _ \<Rightarrow> bnd (attempt (blockAcknowledgement env m)) (joinErrors es))" for x m es
    by (cases x) (auto intro!: rsafe_attempt_stays join block split: go_error.split)
  show ?thesis unfolding reconcileAcknowledgement_def Let_def
    by (intro restore.safe_bnd restore.safe_branches rsafe_attempt_stays join block err) auto
qed

section \<open>Operations that are safe for some requests\<close>

text \<open>\<open>given sp P m\<close>: \<open>m\<close> is safe when the copy in memory satisfies \<open>P\<close>.  Its rules follow the combinators.\<close>

definition given :: "OpenBaoRestoreSpec \<Rightarrow> (OpenBaoRestore \<Rightarrow> bool) \<Rightarrow> 'a rop \<Rightarrow> bool" where
  "given sp P m \<longleftrightarrow> (\<forall>s. synced sp s \<longrightarrow> P (rq s) \<longrightarrow> wp m (\<lambda>_. synced sp) (\<lambda>_. restoreInv sp) s)"

lemma givenD: "given sp P m \<Longrightarrow> synced sp s \<Longrightarrow> P (rq s) \<Longrightarrow> wp m (\<lambda>_. synced sp) (\<lambda>_. restoreInv sp) s"
  by (simp add: given_def)

lemma given_safe: "rsafe sp m \<Longrightarrow> given sp P m"
  by (simp add: given_def safe_def)

lemma safe_given: "given sp (\<lambda>_. True) m \<Longrightarrow> rsafe sp m"
  by (simp add: given_def safe_def)

lemma given_mono: "given sp P m \<Longrightarrow> (\<And>r. Q r \<Longrightarrow> orsSpec r = sp \<Longrightarrow> okVersion r \<Longrightarrow> P r) \<Longrightarrow> given sp Q m"
  by (auto simp: given_def dest: synced_rq(2,3))

lemma given_branches:
  "(b \<Longrightarrow> given sp P m) \<Longrightarrow> (\<not> b \<Longrightarrow> given sp P n) \<Longrightarrow> given sp P (if b then m else n)"
  "(\<And>e. r = Inl e \<Longrightarrow> given sp P (f e)) \<Longrightarrow> (\<And>a. r = Inr a \<Longrightarrow> given sp P (g a)) \<Longrightarrow> given sp P (case r of Inl e \<Rightarrow> f e | Inr a \<Rightarrow> g a)"
  "(p = None \<Longrightarrow> given sp P k) \<Longrightarrow> (\<And>x. p = Some x \<Longrightarrow> given sp P (h x)) \<Longrightarrow> given sp P (case p of None \<Rightarrow> k | Some x \<Rightarrow> h x)"
  by (auto split: sum.split option.split)

lemma given_bnd: "given sp P m \<Longrightarrow> (\<And>a. rsafe sp (k a)) \<Longrightarrow> given sp P (bnd m k)"
  by (auto simp: given_def intro: restore.wp_bnd_safe)

lemma given_quiet:
  assumes "keeps rquiet m" and "\<And>a. given sp P (k a)" shows "given sp P (bnd m k)"
  unfolding given_def wp_bnd
  by (intro allI impI, rule wp_rquiet [OF assms(1)]) (auto intro: givenD [OF assms(2)] restore.weaken)

lemma given_attempt: "keeps rquiet m \<Longrightarrow> (\<And>a. given sp P (k a)) \<Longrightarrow> given sp P (bnd (attempt m) k)"
  by (rule given_quiet) auto

lemma given_stays:
  assumes "keeps (rstays sp) m" and "\<And>r r'. essence r = essence r' \<Longrightarrow> P r' \<Longrightarrow> P r" and "\<And>a. given sp P (k a)"
  shows "given sp P (bnd m k)"
  unfolding given_def wp_bnd
  by (intro allI impI, rule wp_rstays [OF assms(1)]) (auto intro: givenD [OF assms(3)] assms(2) restore.weaken)

text \<open>Opaque to the classical rules, which would substitute \<open>sp\<close>.\<close>

definition hasSpec :: "OpenBaoRestoreSpec \<Rightarrow> OpenBaoRestore \<Rightarrow> bool" where
  "hasSpec sp r \<longleftrightarrow> orsSpec r = sp"

lemma given_request:
  "(\<And>r. P r \<Longrightarrow> hasSpec sp r \<Longrightarrow> okVersion r \<Longrightarrow> given sp (\<lambda>r'. P r' \<and> r' = r) (k r)) \<Longrightarrow> given sp P (bnd (gets rq) k)"
  by (auto simp: given_def wp_bnd wp_gets hasSpec_def dest: synced_rq(2,3))

lemma given_withTarget: "(\<And>t. given sp (\<lambda>r. P r \<and> target r = Some t) (k t)) \<Longrightarrow> given sp P (withTarget k)"
  by (auto simp: given_def wp_withTarget restore.weaken split: option.split)

lemma given_withExecution: "(\<And>x. given sp (\<lambda>r. P r \<and> execution r = Some x) (k x)) \<Longrightarrow> given sp P (withExecution k)"
  by (auto simp: given_def wp_withExecution restore.weaken split: option.split)

lemma given_fail: "given sp P (failwith e)"
  by (intro given_safe) simp

lemma given_update:
  assumes "\<And>r. P r \<Longrightarrow> orsSpec r = sp \<Longrightarrow> okVersion r \<Longrightarrow> evolves r (mapRestoreStatus f r)"
    and "\<And>r. P r \<Longrightarrow> applied (mapRestoreStatus f r) \<Longrightarrow> applied r"
  shows "given sp P (updateStatus env f)"
  unfolding given_def
  by (intro allI impI wp_mono [OF wp_updateStatus_inv]) (auto intro: assms dest: synced_rq(2,3))

lemma given_wrap: "given sp P m \<Longrightarrow> given sp P (wrap_err f m)"
  by (simp add: given_def wp_wrap_err)

text \<open>A deletion with a precondition on the identity bound in the status.\<close>

lemma given_delete:
  assumes "\<And>r x. P r \<Longrightarrow> orsSpec r = sp \<Longrightarrow> okEvent r (ev x)" and "\<And>x. \<not> isCreateJob (ev x)" and "\<And>a. rsafe sp (k a)"
  shows "given sp P (bnd (attempt (rcallU f ev)) k)"
proof (intro given_bnd assms(3), unfold given_def wp_attempt, intro allI impI)
  fix s assume s: "synced sp s" "P (rq s)"
  have "okEvent (stored s) (ev x)" for x
    using evolves_okEvent [OF synced_rq(1) [OF s(1)]] assms(1) [OF s(2) synced_rq(3) [OF s(1)]] by blast
  then have "synced sp (s\<lparr>rtrace := rtrace s @ [ev x]\<rparr>)" for x
    using s(1) assms(2) by (simp add: synced_def restoreInv_def okTrace_append)
  then show "wp (rcallU f ev) (\<lambda>a. synced sp) (\<lambda>e. synced sp) s"
    by (simp add: wp_def rcallU_def Let_def split: option.split)
qed

section \<open>Fresh and disposable targets\<close>

text \<open>A change of the target record: identities are only filled in, cleanup is recorded for disposable targets.\<close>

lemma evolves_target_update:
  assumes "orsUID v = orsUID u" "orsSpec v = orsSpec u" "execution v = execution u" "submissionClaim v = submissionClaim u"
    "restorePhase v = restorePhase u" "targetStep (target u) (target v)"
    "\<And>t. target v = Some t \<Longrightarrow> tgCleanup t = OtherCleanup [] \<or> disposable v \<or> map_option tgCleanup (target u) = Some (tgCleanup t)"
  shows "evolves u v"
proof -
  have s: "stageOf v = stageOf u" "disposable v = disposable u" "early v = early u"
    using assms by (simp_all add: stageOf_def disposable_def early_def)
  have "applied v" if "applied u"
    using assms(6) that by (auto simp: applied_def targetStep_def writtenOnce_def split: option.splits)
  moreover have "okVersion u \<Longrightarrow> cleanupAllowed v"
    using assms(7) s by (auto simp: okVersion_def cleanupAllowed_def split: option.splits)
  ultimately show ?thesis using assms s by (auto simp: evolves_def claimStep_def okVersion_def)
qed

text \<open>\<open>fills f t\<close>: the change \<open>f\<close> of the target record \<open>t\<close> only fills in identities.\<close>

definition fills :: "(RestoreTargetStatus \<Rightarrow> RestoreTargetStatus) \<Rightarrow> RestoreTargetStatus \<Rightarrow> bool" where
  "fills f t \<longleftrightarrow> targetStep (Some t) (Some (f t)) \<and> tgAppliedAt (f t) = tgAppliedAt t"

lemma given_setTarget:
  assumes "\<And>r t. P r \<Longrightarrow> target r = Some t \<Longrightarrow> fills f t \<and> (tgCleanup (f t) = tgCleanup t \<or> opTargetLifecycle sp = LifecycleDisposable)"
    and "\<And>st. rsExecution (g st) = rsExecution st \<and> rsSubmissionClaim (g st) = rsSubmissionClaim st \<and> rsPhase (g st) = rsPhase st
      \<and> rsTarget (g st) = map_option f (rsTarget st)"
  shows "given sp P (updateStatus env g)"
proof (rule given_update)
  fix r assume r: "P r" "orsSpec r = sp"
  show "evolves r (mapRestoreStatus g r)"
  proof (cases "target r")
    case None
    then show ?thesis using assms(2) by (intro evolves_target_update) (simp_all add: targetStep_def)
  next
    case (Some t)
    then show ?thesis using assms(1) [OF r(1) Some] assms(2) r(2)
      by (intro evolves_target_update) (auto simp: fills_def disposable_def)
  qed
next
  fix r assume "P r" "applied (mapRestoreStatus g r)"
  then show "applied r" using assms by (cases "target r") (auto simp: applied_def fills_def)
qed

lemma given_bindTarget:
  "(\<And>r t. P r \<Longrightarrow> target r = Some t \<Longrightarrow> fills f t \<and> (tgCleanup (f t) = tgCleanup t \<or> opTargetLifecycle sp = LifecycleDisposable))
     \<Longrightarrow> given sp P (bindTarget env f)"
  unfolding bindTarget_def by (intro given_bnd given_setTarget) auto

lemmas fills_simps = fills_def targetStep_def writtenOnce_def

lemma rsafe_finishTargetCleanup [simp, intro]: "rsafe sp (finishTargetCleanup env)"
proof -
  have "given sp (\<lambda>r. target r = Some t) (completeRestore env m)" if "tgAppliedAt t \<noteq> None" for t m
    unfolding given_def using that by (auto intro!: wp_completeRestore simp: applied_def)
  then show ?thesis unfolding finishTargetCleanup_def
    by (intro restore.safe_bnd restore.safe_branches safe_given [OF given_withTarget] given_branches given_bnd)
      (auto intro: given_safe)
qed

end
