(* ===== verification/Restore_Pass.thy ===== *)
theory Restore_Pass
  imports Restore_Safety
begin

text \<open>
  The safety of a whole pass: targets and their cleanup, validation, the decision of a running restore with the
  creation of its Job, deletion, and \<open>RestoreReconcile\<close> itself; and of the submission claim of the executor.
\<close>

section \<open>Cleanup of a disposable target\<close>

lemmas given_intros = given_request given_withTarget given_branches given_attempt

lemma disposable_ops:
  assumes d: "opTargetLifecycle sp = LifecycleDisposable"
  shows "rsafe sp (markTargetCleanupComplete env)" "rsafe sp (failCleanup env msg)"
    "rsafe sp (bindTarget env (\<lambda>t. t\<lparr>tgCleanup := CleanupPending\<rparr>))"
proof -
  have cleanup: "fills (\<lambda>t. t\<lparr>tgCleanup := k\<rparr>) t" for k t by (simp add: fills_simps)
  show "rsafe sp (markTargetCleanupComplete env)" unfolding markTargetCleanupComplete_def
    by (intro restore.safe_bnd safe_given [OF given_setTarget]) (auto simp: cleanup d)
  show "rsafe sp (bindTarget env (\<lambda>t. t\<lparr>tgCleanup := CleanupPending\<rparr>))"
    by (intro safe_given [OF given_bindTarget]) (auto simp: cleanup d)
  have "rsafe sp (updateStatus env (\<lambda>st. (setTarget (\<lambda>t. t\<lparr>tgCleanup := CleanupFailed\<rparr>) st)\<lparr>rsMessage := m,
      rsConditions := g (rsConditions st)\<rparr>))" for m g
    by (intro safe_given [OF given_setTarget [where f = "\<lambda>t. t\<lparr>tgCleanup := CleanupFailed\<rparr>"]]) (auto simp: cleanup d)
  then show "rsafe sp (failCleanup env msg)" unfolding failCleanup_def
    by (intro restore.safe_bnd safe_given [OF given_withTarget] given_safe restore.safe_branches) auto
qed

lemma given_bindUID:
  "given sp (\<lambda>r. \<forall>t. target r = Some t \<longrightarrow> tgUID t = []) (bindTarget env (\<lambda>t. t\<lparr>tgUID := u\<rparr>))"
  "given sp (\<lambda>r. \<forall>t. target r = Some t \<longrightarrow> tgDataPVCUID t = []) (bindTarget env (\<lambda>t. t\<lparr>tgDataPVCUID := u\<rparr>))"
  "given sp (\<lambda>r. \<forall>t. target r = Some t \<longrightarrow> tgBootstrapClusterID t = []) (bindTarget env (\<lambda>t. t\<lparr>tgBootstrapClusterID := u\<rparr>))"
  by (rule given_bindTarget, simp add: fills_simps)+

lemma rsafe_cleanupTargetPVC: "opTargetLifecycle sp = LifecycleDisposable \<Longrightarrow> rsafe sp (cleanupTargetPVC env)"
  unfolding cleanupTargetPVC_def
  by (rule safe_given, intro given_intros given_delete)
    (auto intro!: given_safe disposable_ops restore.safe_branches given_mono [OF given_bindUID(2)] simp: disposable_def)

lemma given_deleteTargetCluster:
  "opTargetLifecycle sp = LifecycleDisposable
     \<Longrightarrow> given sp (\<lambda>r. \<forall>t. target r = Some t \<longrightarrow> tgUID t \<noteq> []) (deleteTargetCluster env c)"
  unfolding deleteTargetCluster_def Let_def
  by (intro given_intros given_delete)
    (auto intro!: given_safe disposable_ops restore.safe_branches simp: disposable_def)

lemma rsafe_cleanupTargetCluster:
  assumes d: "opTargetLifecycle sp = LifecycleDisposable" shows "rsafe sp (cleanupTargetCluster env c)"
  unfolding cleanupTargetCluster_def Let_def
  by (rule safe_given, intro given_intros)
    (auto intro!: given_safe disposable_ops d given_mono [OF given_bindUID(1)] given_mono [OF given_bindUID(2)]
       given_mono [OF given_deleteTargetCluster [OF d]])

lemma rsafe_cleanupTarget: 
  assumes d: "opTargetLifecycle sp = LifecycleDisposable" shows "rsafe sp (cleanupTarget env)"
proof -
  have "rsafe sp (cleanupResources env)" unfolding cleanupResources_def
    by (intro restore.safe_bnd restore.safe_branches rsafe_attempt safe_given [OF given_withTarget] given_safe)
      (auto intro!: disposable_ops d rsafe_cleanupTargetPVC rsafe_cleanupTargetCluster)
  then show ?thesis unfolding cleanupTarget_def
    by (intro restore.safe_bnd restore.safe_branches) (auto intro!: disposable_ops d)
qed

section \<open>The fresh target\<close>

lemma given_createFreshTarget: "given sp (\<lambda>r. target r = None) (createFreshTarget env template ex)"
proof -
  have "given sp (\<lambda>r. target r = None) (updateStatus env (\<lambda>st. st\<lparr>rsTarget := Some (emptyTarget\<lparr>tgReservedAt := tm\<rparr>)\<rparr>))" for tm
    by (rule given_update) (auto intro!: evolves_target_update simp: targetStep_def emptyTarget_def applied_def)
  then have *: "given sp (\<lambda>r. target r = None \<and> r = r0) (updateStatus env (\<lambda>st. st\<lparr>rsTarget := Some (emptyTarget\<lparr>tgReservedAt := tm\<rparr>)\<rparr>))" for tm r0
    by (rule given_mono) simp
  show ?thesis unfolding createFreshTarget_def Let_def
    by (intro given_intros given_quiet [OF rquiet_prims(8)] rquiet_calls given_bnd [OF *]) (auto intro!: given_safe rsafe_calls)
qed

lemma wp_rcall:
  "wp (rcall f ev) Q E s = (case f (rtrace s) of Inl e \<Rightarrow> E e (s\<lparr>rtrace := rtrace s @ [ev (Inl e)]\<rparr>)
     | Inr a \<Rightarrow> Q a (s\<lparr>rtrace := rtrace s @ [ev (Inr a)]\<rparr>))"
  "wp (rcallU g ev') Q' E s = (case g (rtrace s) of Some e \<Rightarrow> E e (s\<lparr>rtrace := rtrace s @ [ev' (Some e)]\<rparr>)
     | None \<Rightarrow> Q' () (s\<lparr>rtrace := rtrace s @ [ev' None]\<rparr>))"
  by (auto simp: wp_def rcall_def rcallU_def Let_def split: sum.split option.split)

lemma healthSeen_append: "healthSeen tr h \<Longrightarrow> healthSeen (tr @ ev) h"
  by (auto simp: healthSeen_def)

text \<open>The answer of \<open>targetHealth\<close> was read from an initialized, unsealed, active voter.\<close>

lemma leader_seen:
  "(\<forall>h. l = Some h \<longrightarrow> healthSeen (rtrace s) h)
     \<Longrightarrow> wp (readVoters env c is l) (\<lambda>l' t. \<forall>h. l' = Some h \<longrightarrow> healthSeen (rtrace t) h) (\<lambda>_ _. True) s"
proof (induction "is" arbitrary: l s)
  case (Cons i "is")
  show ?case unfolding readVoters.simps Let_def wp_bnd wp_wrap_err wp_rcall wp_if wp_failwith
    using Cons.prems healthSeen_append [of "rtrace s"]
    by (auto split: sum.split intro!: Cons.IH) (auto simp: healthSeen_def)
qed (simp add: wp_ret)

lemma health_seen: "wp (targetHealth env c) (\<lambda>h t. healthSeen (rtrace t) h) (\<lambda>_ _. True) s"
proof -
  have "wp (readVoters env c is None) (\<lambda>l' t. \<forall>h. l' = Some h \<longrightarrow> healthSeen (rtrace t) h) (\<lambda>_ _. True) t" for t "is"
    by (rule leader_seen) simp
  then have "wp (readVoters env c is None) (\<lambda>leader. wp (case leader of None \<Rightarrow> failwith e | Some h \<Rightarrow> ret h)
      (\<lambda>h t. healthSeen (rtrace t) h) (\<lambda>_ _. True)) (\<lambda>_ _. True) t" for t "is" e
    by (rule wp_mono) (auto simp: wp_ret wp_failwith split: option.split)
  then show ?thesis unfolding targetHealth_def wp_bnd wp_rcall by (simp split: option.split)
qed

section \<open>Steps that stop the pass or leave the request alone\<close>

definition passes :: "OpenBaoRestoreSpec \<Rightarrow> (OpenBaoRestore \<Rightarrow> bool) \<Rightarrow> ('a \<Rightarrow> bool) \<Rightarrow> 'a rop \<Rightarrow> bool" where
  "passes sp P ok m \<longleftrightarrow> (\<forall>s. synced sp s \<longrightarrow> P (rq s) \<longrightarrow>
     wp m (\<lambda>a t. synced sp t \<and> (ok a \<longrightarrow> essence (rq t) = essence (rq s))) (\<lambda>_. restoreInv sp) s)"

lemma passesD:
  "passes sp P ok m \<Longrightarrow> synced sp s \<Longrightarrow> P (rq s)
     \<Longrightarrow> wp m (\<lambda>a t. synced sp t \<and> (ok a \<longrightarrow> essence (rq t) = essence (rq s))) (\<lambda>_. restoreInv sp) s"
  by (simp add: passes_def)

lemma passes_stop:
  assumes "given sp P m" and "\<And>x. \<not> ok (f x)" shows "passes sp P ok (bnd m (\<lambda>x. ret (f x)))"
  unfolding passes_def wp_bnd wp_ret
  by (intro allI impI wp_mono [OF givenD [OF assms(1)]]) (auto simp: assms(2))

lemma passes_stays: "keeps (rstays sp) m \<Longrightarrow> passes sp P ok m"
  unfolding passes_def by (auto intro!: wp_rstays restore.weaken)

lemma passes_pure: "passes sp P ok (ret a)" "passes sp P ok (failwith e)"
  by (intro passes_stays rstays.keeps_pure)+

lemma passes_branches:
  "(b \<Longrightarrow> passes sp P ok m) \<Longrightarrow> (\<not> b \<Longrightarrow> passes sp P ok n) \<Longrightarrow> passes sp P ok (if b then m else n)"
  "(\<And>e. r = Inl e \<Longrightarrow> passes sp P ok (f e)) \<Longrightarrow> (\<And>a. r = Inr a \<Longrightarrow> passes sp P ok (g a)) \<Longrightarrow> passes sp P ok (case r of Inl e \<Rightarrow> f e | Inr a \<Rightarrow> g a)"
  "(p = None \<Longrightarrow> passes sp P ok k) \<Longrightarrow> (\<And>x. p = Some x \<Longrightarrow> passes sp P ok (h x)) \<Longrightarrow> passes sp P ok (case p of None \<Rightarrow> k | Some x \<Rightarrow> h x)"
  "(\<And>a b. passes sp P ok (d a b)) \<Longrightarrow> passes sp P ok (case q of (a, b) \<Rightarrow> d a b)"
  by (auto split: sum.split option.split prod.split)

lemma passes_bnd:
  assumes "keeps (rstays sp) m" and "\<And>r r'. essence r = essence r' \<Longrightarrow> P r' \<Longrightarrow> P r" and "\<And>a. passes sp P ok (k a)"
  shows "passes sp P ok (bnd m k)"
  unfolding passes_def wp_bnd
proof (intro allI impI, rule wp_rstays [OF assms(1)])
  fix s a t assume "synced sp t" "essence (rq t) = essence (rq s)" "P (rq s)"
  then show "wp (k a) (\<lambda>a t. synced sp t \<and> (ok a \<longrightarrow> essence (rq t) = essence (rq s))) (\<lambda>_. restoreInv sp) t"
    using assms(2,3) by (fastforce simp: passes_def)
qed (auto intro: restore.weaken)

lemma passes_quiet:
  assumes "keeps rquiet m" and "\<And>a. passes sp P ok (k a)" shows "passes sp P ok (bnd m k)"
  unfolding passes_def wp_bnd
proof (intro allI impI, rule wp_rquiet [OF assms(1)])
  fix s a t assume t: "synced sp t" "rq t = rq s" "P (rq s)"
  then show "wp (k a) (\<lambda>a t. synced sp t \<and> (ok a \<longrightarrow> essence (rq t) = essence (rq s))) (\<lambda>_. restoreInv sp) t"
    using passesD [OF assms(2), of t a] by simp
qed (auto intro: restore.weaken)

lemma passes_attempt: "keeps rquiet m \<Longrightarrow> (\<And>a. passes sp P ok (k a)) \<Longrightarrow> passes sp P ok (bnd (attempt m) k)"
  by (rule passes_quiet) auto

lemma passes_request:
  "(\<And>r. P r \<Longrightarrow> hasSpec sp r \<Longrightarrow> okVersion r \<Longrightarrow> passes sp (\<lambda>r'. P r' \<and> r' = r) ok (k r)) \<Longrightarrow> passes sp P ok (bnd (gets rq) k)"
  by (auto simp: passes_def wp_bnd wp_gets hasSpec_def dest: synced_rq(2,3))

lemma passes_withTarget: "(\<And>t. passes sp (\<lambda>r. P r \<and> target r = Some t) ok (k t)) \<Longrightarrow> passes sp P ok (withTarget k)"
  by (auto simp: passes_def wp_withTarget restore.weaken split: option.split)

lemma given_passes:
  assumes "passes sp P ok m" and "\<And>r r'. essence r = essence r' \<Longrightarrow> P r' \<Longrightarrow> P r"
    and "\<And>a. ok a \<Longrightarrow> given sp P (k a)" and "\<And>a. \<not> ok a \<Longrightarrow> rsafe sp (k a)"
  shows "given sp P (bnd m k)"
  unfolding given_def wp_bnd
proof (intro allI impI, rule wp_mono [of m _ "\<lambda>_. restoreInv sp"])
  fix s assume s: "synced sp s" "P (rq s)"
  then show "wp m (\<lambda>a t. synced sp t \<and> (ok a \<longrightarrow> essence (rq t) = essence (rq s))) (\<lambda>_. restoreInv sp) s"
    using assms(1) by (simp add: passes_def)
  fix a t assume t: "synced sp t \<and> (ok a \<longrightarrow> essence (rq t) = essence (rq s))"
  show "wp (k a) (\<lambda>_. synced sp) (\<lambda>_. restoreInv sp) t"
  proof (cases "ok a")
    case True
    then show ?thesis using t s assms(2) by (auto intro: givenD [OF assms(3)])
  next
    case False
    then show ?thesis using t by (auto intro: safeD [OF assms(4)])
  qed
qed simp

lemmas passes_intros = passes_request passes_withTarget passes_branches passes_attempt passes_pure passes_stop

section \<open>Validation\<close>

lemma passes_prepareBoundTarget: "passes sp P fst (prepareBoundTarget env c)"
  unfolding prepareBoundTarget_def Let_def
  by (intro passes_intros)
    (auto intro!: given_safe given_mono [OF given_bindUID(2)] given_mono [OF given_bindUID(3)])

lemma passes_prepareTarget: "passes sp P fst (prepareTarget env)"
  unfolding prepareTarget_def Let_def
  by (intro passes_intros passes_quiet [OF rquiet_prims(8)] passes_prepareBoundTarget passes_stays [OF rstays.keeps_pure(4)])
    (auto intro!: given_safe given_mono [OF given_bindUID(1)] given_mono [OF given_createFreshTarget])

lemma passes_stopWith: "rsafe sp m \<Longrightarrow> passes sp P (\<lambda>a. \<not> isl a) (stopWith m)"
  unfolding stopWith_def by (rule passes_stop) (auto intro: given_safe)

lemma passes_validateCluster: "passes sp P (\<lambda>a. \<not> isl a) (validateCluster env)"
  unfolding validateCluster_def
  by (intro passes_request passes_branches passes_attempt passes_pure passes_stopWith) auto

lemma passes_acquireOperationLock: "passes sp P (\<lambda>a. \<not> isl a) (acquireOperationLock env c)"
proof -
  have *: "rsafe sp (updateStatus env (\<lambda>st. st\<lparr>rsMessage := m\<rparr>))" for m
    by (intro rsafe_keeps_essence) (simp add: essence_def)
  have audit: "keeps rquiet (if a then raudit x y else if b then raudit x' y' else ret ())" for a b x y x' y' by simp
  have "passes sp P (\<lambda>a. \<not> isl a) (bnd (wrap_err w (updateStatus env (\<lambda>st. st\<lparr>rsMessage := m\<rparr>))) (\<lambda>_. ret (Inl x)))" for P w m x
    by (rule passes_stop [of sp P _ _ "\<lambda>_. Inl x"]) (auto intro!: given_safe *)
  then show ?thesis unfolding acquireOperationLock_def
    by (intro passes_request passes_branches passes_attempt passes_pure passes_stopWith passes_quiet [OF rquiet_prims(6)]
        passes_quiet [OF rquiet_prims(7)] passes_quiet [OF audit]) auto
qed

lemma passes_validateClusterState: "passes sp P (\<lambda>a. a = None) (validateClusterState env c)"
  unfolding validateClusterState_def
  by (intro passes_request passes_branches passes_pure passes_stop) (auto intro: given_safe)

lemma passes_mono: "passes sp P ok m \<Longrightarrow> (\<And>r. Q r \<Longrightarrow> P r) \<Longrightarrow> passes sp Q ok m"
  by (auto simp: passes_def)

lemma passes_validateExecutionReadiness: "passes sp (\<lambda>_. True) (\<lambda>a. a = None) (validateExecutionReadiness env c)"
proof -
  have *: "passes sp (\<lambda>_. True) (\<lambda>a. a = None) (bnd (patchRestoreConfigurationCondition env st rs m) (\<lambda>_.
      if st \<noteq> ''True'' then bnd (failRestore env ''RestoreFailed'' m) (\<lambda>x. ret (Some x)) else ret None))" for st rs m
    by (intro passes_bnd passes_branches passes_pure passes_stop) (auto intro: given_safe)
  show ?thesis unfolding validateExecutionReadiness_def
    by (intro passes_request passes_quiet) (auto intro!: rquiet_calls passes_mono [OF *])
qed

lemma given_unless_done:
  assumes "passes sp P (\<lambda>a. a = None) m" and "\<And>r r'. essence r = essence r' \<Longrightarrow> P r' \<Longrightarrow> P r" and "given sp P k"
  shows "given sp P (unless_done m k)"
  unfolding unless_done_def by (rule given_passes [OF assms(1,2)]) (auto simp: assms(3) split: option.split)

section \<open>Pending and Validating\<close>

lemma given_handlePending: "given sp (\<lambda>r. restorePhase r = RestorePhasePending) (handlePending env)"
proof -
  have "given sp (\<lambda>r. restorePhase r = RestorePhasePending \<and> r = r0) (updateStatus env (\<lambda>st. st\<lparr>rsStartTime := a,
      rsPhase := RestorePhaseValidating, rsSnapshotKey := b, rsMessage := c\<rparr>))" for a b c r0
    by (rule given_update) (auto intro!: evolves_phase simp: early_def normPhase_def applied_def)
  then show ?thesis unfolding handlePending_def
    by (intro given_request given_quiet [OF rquiet_prims(8)] given_bnd given_wrap) (auto intro!: rsafe_calls)
qed

lemma given_startExecution: "given sp early (startExecution env c)"
proof -
  have "given sp (\<lambda>r. early r \<and> r = r0) (updateStatus env (\<lambda>st. st\<lparr>rsPhase := RestorePhaseRunning,
      rsExecution := Some ((newRestoreExecutionStatus env tm r1)\<lparr>exTargetUID := u\<rparr>), rsMessage := m\<rparr>))" for tm u m r0 r1
    by (rule given_update)
      (auto simp: evolves_def okVersion_def claimStep_def early_def normPhase_def applied_def stageOf_def newRestoreExecutionStatus_def
         cleanupAllowed_def disposable_def targetStep_def writtenOnce_def split: option.splits)
  then show ?thesis unfolding startExecution_def Let_def
    by (intro given_request given_quiet [OF rquiet_prims(8)] given_bnd given_wrap) auto
qed

lemma given_handleValidating: "given sp early (handleValidating env)"
proof -
  have e: "essence r = essence r' \<Longrightarrow> early r' \<Longrightarrow> early r" for r r' using essence_cong(2) by blast
  let ?k = "\<lambda>(b, f, c). bnd (case b of Some k \<Rightarrow> if f then handleLockOverride env k else ret () | None \<Rightarrow> ret ()) (\<lambda>_.
      unless_done (validateClusterState env c) (unless_done (validateExecutionReadiness env c)
        (bnd (ensureRestoreResources env c) (\<lambda>_. startExecution env c))))"
  have "given sp early (?k (b, f, c))" for b f c
    by (simp, intro given_stays [OF _ e] given_unless_done [OF _ e] passes_validateClusterState
        passes_mono [OF passes_validateExecutionReadiness] given_startExecution) (auto split: option.split)
  then have "given sp early (case a of Inl result \<Rightarrow> ret result | Inr x \<Rightarrow> ?k x)" for a
    by (cases a) (auto intro: given_safe)
  then have "given sp early (bnd (acquireOperationLock env c) (\<lambda>a. case a of Inl result \<Rightarrow> ret result | Inr x \<Rightarrow> ?k x))" for c
    by (intro given_passes [OF passes_acquireOperationLock e]) (auto split: sum.split)
  then have "given sp early (bnd (validateCluster env) (\<lambda>v. case v of Inl result \<Rightarrow> ret result | Inr c \<Rightarrow>
      bnd (acquireOperationLock env c) (\<lambda>a. case a of Inl result \<Rightarrow> ret result | Inr x \<Rightarrow> ?k x)))"
    by (intro given_passes [OF passes_validateCluster e]) (auto split: sum.split)
  then show ?thesis unfolding handleValidating_def
    by (intro given_passes [OF passes_prepareTarget e]) (auto simp: if_distrib split: prod.split)
qed

end
