(* ===== verification/Restore_Running.thy ===== *)
theory Restore_Running
  imports Restore_Pass
begin

text \<open>
  The safety of a running restore: the receipts, the one creation of the Job, the observation and the effect of
  the decision; then recovery, deletion and the pass as a whole.
\<close>

section \<open>Receipts\<close>

lemma evolves_receipt:
  assumes "orsUID v = orsUID u" "orsSpec v = orsSpec u" "submissionClaim v = submissionClaim u" "target v = target u"
    "restorePhase v = restorePhase u" "stageRank (stageOf u) \<le> stageRank (stageOf v)"
    "stageOf u \<noteq> ExecutionFollowThroughComplete" "stageOf v \<noteq> ExecutionFollowThroughComplete" "\<not> early u"
  shows "evolves u v"
proof -
  have s: "early v = early u" "disposable v = disposable u" "applied v = applied u"
    using assms by (simp_all add: early_def disposable_def applied_def)
  moreover from this have "cleanupAllowed v = cleanupAllowed u" using assms by (simp add: cleanupAllowed_def split: option.split)
  moreover have "targetStep (target u) (target v)" using assms by (simp add: targetStep_def writtenOnce_def split: option.split)
  ultimately show ?thesis using assms by (auto simp: evolves_def claimStep_def okVersion_def)
qed

lemma stage_not_followThrough: "stageRank (stageOf r) \<le> 4 \<Longrightarrow> stageOf r \<noteq> ExecutionFollowThroughComplete"
  by auto

lemma given_receipt:
  assumes "\<And>r. P r \<Longrightarrow> \<not> early r \<and> stageRank (stageOf r) \<le> stageRank (exStage (f x)) \<and> execution r = Some x"
    and "stageRank (exStage (f x)) \<le> 4"
  shows "given sp P (updateStatus env (\<lambda>st. (setExecution f st)\<lparr>rsMessage := m\<rparr>))"
proof (rule given_update)
  fix r assume "P r"
  then have r: "\<not> early r" "stageRank (stageOf r) \<le> stageRank (exStage (f x))" "execution r = Some x" using assms(1) by auto
  then show "evolves r (mapRestoreStatus (\<lambda>st. (setExecution f st)\<lparr>rsMessage := m\<rparr>) r)"
    using assms(2) stage_not_followThrough [of r]
    by (intro evolves_receipt) (auto simp: stageOf_def)
qed (simp add: applied_def)

lemma given_markCreated: "given sp (\<lambda>r. \<not> early r \<and> stageRank (stageOf r) \<le> 3) (markRestoreExecutionCreated env job)"
  unfolding markRestoreExecutionCreated_def
proof (intro given_request given_branches given_fail given_quiet [OF rquiet_prims(8)])
  fix r j tm
  assume "\<not> early r \<and> stageRank (stageOf r) \<le> 3" and ok: "validateRestoreExecutionJob (execution r) job = None"
  then obtain x where "execution r = Some x" by (auto simp: validateRestoreExecutionJob_def split: option.splits)
  then show "given sp (\<lambda>r'. (\<not> early r' \<and> stageRank (stageOf r') \<le> 3) \<and> r' = r)
      (updateStatus env (\<lambda>st. (setExecution (\<lambda>x. x\<lparr>exStage := ExecutionCreated, exJobUID := omUID (jbMeta j),
         exCreatedAt := Some tm\<rparr>) st)\<lparr>rsMessage := restoreJobRunningStatusMessage (omName (jbMeta j))\<rparr>))"
    by (intro given_receipt [where x = x]) auto
qed

lemma given_markTerminal: "given sp (\<lambda>r. \<not> early r \<and> stageRank (stageOf r) \<le> 4) (markRestoreExecutionTerminal env result)"
  unfolding markRestoreExecutionTerminal_def
  by (intro given_withExecution given_quiet [OF rquiet_prims(8)] given_receipt) auto

section \<open>Creation of the Job\<close>

text \<open>An accepted commitment proves that no Job was created before.\<close>

lemma wp_commit:
  assumes s: "synced sp s" and p: "\<not> early (rq s)" "stageOf (rq s) = ExecutionPrepared"
  shows "wp (markRestoreExecutionCommitted env)
      (\<lambda>_ t. synced sp t \<and> \<not> early (rq t) \<and> stageOf (rq t) = ExecutionCommitted \<and> rq t = stored t \<and> createdJobs (rtrace t) = 0)
      (\<lambda>_. restoreInv sp) s"
proof -
  obtain x where x: "execution (rq s) = Some x" "exStage x = ExecutionPrepared"
    using p by (auto simp: stageOf_def split: option.splits)
  let ?f = "\<lambda>tm st. (setExecution (\<lambda>x. x\<lparr>exStage := ExecutionCommitted, exCommittedAt := Some tm\<rparr>) st)
       \<lparr>rsMessage := ''Committed restore execution '' @ exOperationID x @ ''; creating Job '' @ exJobName x @ '' exactly once.''\<rparr>"
  let ?r = "\<lambda>tm. mapRestoreStatus (?f tm) (rq s)"
  have r: "stageOf (?r tm) = ExecutionCommitted" "early (?r tm) = early (rq s)" "applied (?r tm) = applied (rq s)" for tm
    using x by (simp_all add: stageOf_def early_def applied_def)
  have ev: "evolves (rq s) (?r tm)" for tm
    using p r by (intro evolves_receipt) auto
  have none: "createdJobs (rtrace s) = 0" if "essence (stored s) = essence (rq s)"
    using s p essence_cong(1) [OF that] by (auto simp: synced_def restoreInv_def okTrace_def le_Suc_eq)
  have post: "stageOf v = ExecutionCommitted \<and> \<not> early v" if "essence v = essence (?r tm)" for v tm
    using essence_cong(1,2) [OF that] r p by simp
  show ?thesis unfolding markRestoreExecutionCommitted_def wp_withExecution x(1) option.case wp_bnd wp_rstate
    by (rule wp_mono [OF wp_updateStatus_inv [OF s ev]]) (use r(3) post none in auto)
qed

lemma given_afterCreate:
  "given sp (\<lambda>r. \<not> early r \<and> stageRank (stageOf r) \<le> 3) (bnd (wrap_err w (markRestoreExecutionCreated env job)) k)"
  if "\<And>a. rsafe sp (k a)"
  by (intro given_bnd given_wrap given_markCreated that)

lemma wp_submitRestoreJob:
  assumes s: "synced sp s" "\<not> early (rq s)" "stageOf (rq s) = ExecutionCommitted" "rq s = stored s" "createdJobs (rtrace s) = 0"
  shows "wp (submitRestoreJob env c n job) (\<lambda>_. synced sp) (\<lambda>_. restoreInv sp) s"
proof -
  have created: "synced sp (s\<lparr>rtrace := rtrace s @ [RCreateJob job x]\<rparr>)" for x
  proof -
    have "okTrace (rtrace s @ [RCreateJob job x]) (stored s)"
      using s by (auto simp: synced_def restoreInv_def okTrace_def confirmed_append)
    then show ?thesis using s(1) by (simp add: synced_def restoreInv_def)
  qed
  let ?P = "\<lambda>r. \<not> early r \<and> stageRank (stageOf r) \<le> 3"
  have ok: "given sp ?P (bnd (wrap_err w (markRestoreExecutionCreated env j)) (\<lambda>_. bnd (raudit a b) (\<lambda>_.
      bnd (case i of Some m \<Rightarrow> emitRestoreEvent False x m | None \<Rightarrow> ret ()) (\<lambda>_. bnd (emitRestoreEvent False y z) (\<lambda>_. ret q)))))"
    for w j a b i x y z q by (rule given_afterCreate) (auto split: option.split)
  have again: "given sp ?P (bnd (wrap_err w (markRestoreExecutionCreated env j)) (\<lambda>_. ret q))" for w j q
    by (rule given_afterCreate) auto
  have collided: "given sp ?P (bnd (wrap_err v (readRestoreJob env n act)) (\<lambda>ex.
      bnd (wrap_err w (markRestoreExecutionCreated env (Some ex))) (\<lambda>_. ret q)))" for v w act q
    by (intro given_quiet again) auto
  have ambiguous: "given sp ?P (bnd (attempt (readRestoreJob env n act)) (\<lambda>g. case g of
        Inr ex \<Rightarrow> bnd (wrap_err w (markRestoreExecutionCreated env (Some ex))) (\<lambda>_. ret q)
      | Inl readErr \<Rightarrow> if \<not> is_not_found readErr then failwith (wrapf m readErr)
          else bnd (wrap_err v (markRestoreExecutionUnknown env msg)) (\<lambda>_. ret 0)))" for act w q m v msg
    by (intro given_attempt given_branches again) (auto intro!: given_safe)
  have p: "?P (rq s)" using s by simp
  show ?thesis unfolding submitRestoreJob_def wp_bnd wp_gets wp_attempt rcreateJob_def wp_rcall
    using givenD [OF ok created] givenD [OF collided created] givenD [OF ambiguous created] p
    by (auto simp: wp_if wp_bnd split: sum.split)
qed

lemma passes_verifyExecutor: "passes sp P (\<lambda>a. \<not> isl a) (verifyRestoreExecutor env c i)"
proof -
  have "rsafe sp (updateStatus env (\<lambda>st. st\<lparr>rsMessage := m\<rparr>))" for m
    by (intro rsafe_keeps_essence) (simp add: essence_def)
  then show ?thesis unfolding verifyRestoreExecutor_def Let_def
    by (intro passes_branches passes_attempt passes_pure passes_stopWith) (auto intro!: rquiet_calls)
qed

lemma given_createRestoreJob: "given sp (\<lambda>r. \<not> early r) (createRestoreJob env c n)"
proof -
  let ?P = "\<lambda>r. \<not> early r \<and> stageOf r = ExecutionPrepared"
  have e: "essence r = essence r' \<Longrightarrow> ?P r' \<Longrightarrow> ?P r" for r r' using essence_cong(1,2) [of r r'] by simp
  have "given sp ?P (bnd (wrap_err w (markRestoreExecutionCommitted env)) (\<lambda>_. submitRestoreJob env c n job))" for w job
    unfolding given_def wp_bnd wp_wrap_err
    by (intro allI impI, rule wp_mono [OF wp_commit]) (auto intro: wp_submitRestoreJob)
  then have hold: "given sp ?P (bnd (holdTarget env c) (\<lambda>_. bnd (wrap_err w (markRestoreExecutionCommitted env)) (\<lambda>_.
      submitRestoreJob env c n job)))" for w job
    by (intro given_quiet [OF rquiet_holdTarget])
  have build: "given sp (\<lambda>r. ?P r \<and> r = r0) (case x of Inl err \<Rightarrow> failwith (wrapf m err)
     | Inr owned' \<Rightarrow> bnd (holdTarget env c) (\<lambda>_. bnd (wrap_err w (markRestoreExecutionCommitted env)) (\<lambda>_.
          submitRestoreJob env c n owned')))" for x m w r0
    by (intro given_branches given_fail given_mono [OF hold]) auto
  have body: "given sp ?P (bnd (verifyRestoreExecutor env c i) (\<lambda>v. case v of Inl result \<Rightarrow> ret result
     | Inr digest \<Rightarrow> bnd (gets rq) (\<lambda>r. case reBuildJob env r c digest of
          Inl e \<Rightarrow> failRestore env f g
        | Inr job \<Rightarrow> (case PrepareManagedJobOwner (Some job) (Some (restoreMeta r)) (Some openBaoRestoreGVK) of
            Inl err \<Rightarrow> failwith (wrapf m err)
          | Inr owned' \<Rightarrow> bnd (holdTarget env c) (\<lambda>_. bnd (wrap_err w (markRestoreExecutionCommitted env)) (\<lambda>_.
              submitRestoreJob env c n owned'))))))" for i f g m w
    by (rule given_passes [OF passes_verifyExecutor e])
      (auto intro!: given_request given_branches(2) build intro: given_safe split: sum.split)
  show ?thesis unfolding createRestoreJob_def
    by (intro given_request given_branches given_fail given_mono [OF body] given_safe rsafe_failRestore)
      (auto simp: stageOf_def split: option.splits)
qed

section \<open>Observation and decision\<close>

text \<open>The stage the decision is taken on is the stage of the request.\<close>

definition observed :: "restoreObservation \<Rightarrow> OpenBaoRestore \<Rightarrow> bool" where
  "observed ob r \<longleftrightarrow> dsUnknownMessage (obState ob) \<noteq> [] \<or> dsFailureMessage (obState ob) \<noteq> []
     \<or> (if dsLegacy (obState ob) then execution r = None else dsExecutionStage (obState ob) = stageOf r)"

definition fits :: "restoreDecision \<Rightarrow> OpenBaoRestore \<Rightarrow> bool" where
  "fits d r \<longleftrightarrow> (dcKind d = restoreDecisionRecordCreatedReceipt \<longrightarrow> stageOf r = ExecutionCommitted)
     \<and> (dcKind d = restoreDecisionCreateJob \<longrightarrow> stageOf r = ExecutionPrepared)
     \<and> (dcKind d \<in> {restoreDecisionRecordSucceededJob, restoreDecisionRecordFailedJob} \<longrightarrow> stageOf r = ExecutionCreated)
     \<and> (dcKind d = restoreDecisionCompleteRestore \<longrightarrow> stageOf r = ExecutionFollowThroughComplete)
     \<and> (dcKind d = restoreDecisionAdoptLegacyJob \<longrightarrow> execution r = None)"

lemma decide_fits: "observed ob r \<Longrightarrow> fits (decideRestore (obState ob)) r"
  by (auto simp: observed_def fits_def decideRestore_def Let_def
      split: if_splits RestoreExecutionStage.splits restoreJobState.splits RestoreExecutionResult.splits)

lemma wp_bnd_any:
  assumes "\<And>a t. wp (k a) Q (\<lambda>_ _. True) t" shows "wp (bnd m k) Q (\<lambda>_ _. True) s"
proof -
  have "wp m (\<lambda>_ _. True) (\<lambda>_ _. True) s" by (simp add: wp_snd)
  then show ?thesis unfolding wp_bnd by (rule wp_mono) (use assms in auto)
qed

lemma observeJob_stage:
  "wp (observeRestoreJob env ob) (\<lambda>ob' _. dsExecutionStage (obState ob') = dsExecutionStage (obState ob)
     \<and> dsLegacy (obState ob') = dsLegacy (obState ob)) (\<lambda>_ _. True) s"
  unfolding observeRestoreJob_def withExecution_def Let_def
  by (intro wp_bnd_any) (auto simp: wp_failwith wp_ret split: option.split sum.split intro!: wp_bnd_any)

lemma observeLegacy_kind:
  "wp (observeLegacyRestoreJob env c) (\<lambda>ob _. dsUnknownMessage (obState ob) \<noteq> [] \<or> dsLegacy (obState ob)) (\<lambda>_ _. True) s"
  unfolding observeLegacyRestoreJob_def Let_def unknownRestoreObservation_def
  by (intro wp_bnd_any) (auto simp: wp_failwith wp_ret split: sum.split)

lemma observe_observed: "wp (observeRestore env) (\<lambda>ob _. observed ob (rq s)) (\<lambda>_ _. True) s"
proof -
  have legacy: "wp (observeLegacyRestoreJob env c) (\<lambda>ob _. observed ob (rq s)) (\<lambda>_ _. True) t" if "execution (rq s) = None" for c t
    by (rule wp_mono [OF observeLegacy_kind]) (use that in \<open>auto simp: observed_def\<close>)
  have job: "wp (observeRestoreJob env ob) (\<lambda>ob _. observed ob (rq s)) (\<lambda>_ _. True) t"
    if "dsExecutionStage (obState ob) = stageOf (rq s)" "\<not> dsLegacy (obState ob)" for ob t
    by (rule wp_mono [OF observeJob_stage]) (use that in \<open>auto simp: observed_def\<close>)
  have noted: "m \<noteq> [] \<Longrightarrow> observed (unknownRestoreObservation c m) r" "m \<noteq> [] \<Longrightarrow> observed (failedRestoreObservation c m) r"
    "dsExecutionStage (obState ob) = stageOf r \<Longrightarrow> \<not> dsLegacy (obState ob) \<Longrightarrow> observed ob r" for m c r ob
    by (simp_all add: observed_def unknownRestoreObservation_def failedRestoreObservation_def)
  show ?thesis unfolding observeRestore_def Let_def
    by (subst wp_bnd, simp only: wp_gets, rule wp_bnd_any)
      (auto simp: wp_failwith wp_ret noted stageOf_def zeroRestoreState_def split: sum.split option.split intro!: legacy job noted(3))
qed

section \<open>Effects of a decision\<close>

lemma passes_renewLock: "passes sp P (\<lambda>done'. \<not> done') (renewRunningRestoreLock env c)"
proof -
  have "passes sp P (\<lambda>done'. \<not> done') (bnd (failRestore env a b) (\<lambda>_. ret True))" for P a b
    by (rule passes_stop) (auto intro: given_safe)
  then show ?thesis unfolding renewRunningRestoreLock_def
    by (intro passes_branches passes_request passes_attempt passes_pure passes_quiet [OF rquiet_prims(6)]
        passes_quiet [OF rquiet_prims(7)]) auto
qed

lemma rsafe_message: "rsafe sp (updateStatus env (\<lambda>st. st\<lparr>rsMessage := m\<rparr>))"
  by (intro rsafe_keeps_essence) (simp add: essence_def)

lemma rsafe_pollJob: "rsafe sp (pollJob env ob)"
  unfolding pollJob_def by (auto intro!: rsafe_message split: option.split)

lemma rsafe_withExecution: "(\<And>x. rsafe sp (k x)) \<Longrightarrow> rsafe sp (withExecution k)"
  by (rule safe_given, rule given_withExecution, rule given_safe)

lemma rsafe_finishFailed: "rsafe sp (finishFailedExecution env)"
  unfolding finishFailedExecution_def
  by (intro restore.safe_bnd rsafe_withExecution restore.safe_branches) auto

lemma given_recordFailedJob: "given sp (\<lambda>r. \<not> early r \<and> stageRank (stageOf r) \<le> 4) (recordFailedJob env ob)"
  unfolding recordFailedJob_def
  by (intro given_bnd given_wrap given_markTerminal restore.safe_bnd rsafe_withExecution restore.safe_branches) auto

lemma given_completeRestore: "given sp (\<lambda>r. stageOf r = ExecutionFollowThroughComplete) (completeRestore env m)"
  unfolding given_def by (auto intro: wp_completeRestore)

lemma given_applyDirect: "given sp (\<lambda>r. \<not> early r \<and> fits d r) (applyDirectDecision env ob d)"
proof -
  have e: "essence r = essence r' \<Longrightarrow> \<not> early r' \<and> fits d r' \<Longrightarrow> \<not> early r \<and> fits d r" for r r'
    using essence_cong(1,2,9) [of r r'] by (simp add: fits_def)
  have holding: "given sp (\<lambda>r. \<not> early r \<and> fits d r) (bnd (renewRunningRestoreLock env c) (\<lambda>done'. if done' then ret 0 else k))"
    if "given sp (\<lambda>r. \<not> early r \<and> fits d r) k" for c k
    by (rule given_passes [OF passes_renewLock e]) (use that in auto)
  show ?thesis
  proof (cases "dcKind d")
    case restoreDecisionCreateJob
    have "given sp (\<lambda>r. \<not> early r \<and> fits d r) (withExecution (\<lambda>x. case obCluster ob of
        None \<Rightarrow> failwith (Panic ''cluster'') | Some c \<Rightarrow> createRestoreJob env c (exJobName x)))"
      by (intro given_withExecution given_branches given_fail given_mono [OF given_createRestoreJob]) auto
    then show ?thesis using restoreDecisionCreateJob unfolding applyDirectDecision_def Let_def by (simp add: holding)
  next
    case restoreDecisionRecordCreatedReceipt
    have "given sp (\<lambda>r. \<not> early r \<and> fits d r) (bnd (wrap_err w (markRestoreExecutionCreated env j)) (\<lambda>_. ret q))" for w j q
      by (intro given_bnd given_wrap given_mono [OF given_markCreated])
        (use restoreDecisionRecordCreatedReceipt in \<open>auto simp: fits_def\<close>)
    then show ?thesis using restoreDecisionRecordCreatedReceipt unfolding applyDirectDecision_def Let_def by simp
  next
    case restoreDecisionRecordSucceededJob
    have "given sp (\<lambda>r. \<not> early r \<and> fits d r) (bnd (wrap_err w (markRestoreExecutionTerminal env x)) (\<lambda>_.
        bnd (markRestoreExecutionUnknown env m) (\<lambda>_. ret 0)))" for w x m
      by (intro given_bnd given_wrap given_mono [OF given_markTerminal])
        (use restoreDecisionRecordSucceededJob in \<open>auto simp: fits_def\<close>)
    then show ?thesis using restoreDecisionRecordSucceededJob unfolding applyDirectDecision_def Let_def by simp
  next
    case restoreDecisionRecordFailedJob
    have "given sp (\<lambda>r. \<not> early r \<and> fits d r) (recordFailedJob env ob)"
      by (rule given_mono [OF given_recordFailedJob]) (use restoreDecisionRecordFailedJob in \<open>auto simp: fits_def\<close>)
    then show ?thesis using restoreDecisionRecordFailedJob unfolding applyDirectDecision_def Let_def by (simp add: holding)
  next
    case restoreDecisionCompleteRestore
    have "given sp (\<lambda>r. \<not> early r \<and> fits d r) (bnd (completeRestore env m) (\<lambda>_. ret 0))" for m
      by (intro given_bnd given_mono [OF given_completeRestore]) (use restoreDecisionCompleteRestore in \<open>auto simp: fits_def\<close>)
    then show ?thesis using restoreDecisionCompleteRestore unfolding applyDirectDecision_def Let_def by simp
  next
    case restoreDecisionPollJob
    then show ?thesis unfolding applyDirectDecision_def Let_def by (simp add: holding given_safe rsafe_pollJob)
  qed (unfold applyDirectDecision_def Let_def, auto intro!: given_safe rsafe_finishFailed)
qed

lemma given_adoptLegacy: "given sp (\<lambda>r. \<not> early r \<and> execution r = None) (adoptLegacyRestoreJob env ob)"
proof -
  have next': "given sp (\<lambda>r. \<not> early r \<and> stageOf r = ExecutionCreated)
      (bnd (observeRestoreJob env ob') (\<lambda>next'. applyDirectDecision env next' (decideRestore (obState next'))))"
    if ob': "dsExecutionStage (obState ob') = ExecutionCreated" "\<not> dsLegacy (obState ob')" for ob'
    unfolding given_def wp_bnd
  proof (intro allI impI)
    fix s assume s: "synced sp s" "\<not> early (rq s) \<and> stageOf (rq s) = ExecutionCreated"
    have "wp (observeRestoreJob env ob') (\<lambda>_ t. synced sp t \<and> rq t = rq s) (\<lambda>_ t. restoreInv sp t) s"
      by (rule wp_rquiet [OF _ s(1)]) (auto intro: restore.weaken)
    from wp_conj [OF this observeJob_stage]
    show "wp (observeRestoreJob env ob') (\<lambda>a. wp (applyDirectDecision env a (decideRestore (obState a))) (\<lambda>_. synced sp) (\<lambda>_. restoreInv sp))
        (\<lambda>_. restoreInv sp) s"
      by (rule wp_mono) (use s ob' in \<open>auto intro!: givenD [OF given_applyDirect] decide_fits simp: observed_def\<close>)
  qed
  have "wp (bnd (wrap_err w (updateStatus env (\<lambda>st. st\<lparr>rsExecution := Some (emptyExecution\<lparr>exOperationID := a, exStage := ExecutionCreated,
        exJobName := b, exJobUID := c, exPreparedAt := d, exCommittedAt := e, exCreatedAt := f\<rparr>), rsMessage := g\<rparr>))) (\<lambda>_.
      bnd (observeRestoreJob env ob') (\<lambda>next'. applyDirectDecision env next' (decideRestore (obState next')))))
      (\<lambda>_. synced sp) (\<lambda>_. restoreInv sp) s"
    if s: "synced sp s" "\<not> early (rq s)" "execution (rq s) = None"
      and ob': "dsExecutionStage (obState ob') = ExecutionCreated" "\<not> dsLegacy (obState ob')" for w a b c d e f g ob' s
  proof -
    let ?r = "mapRestoreStatus (\<lambda>st. st\<lparr>rsExecution := Some (emptyExecution\<lparr>exOperationID := a, exStage := ExecutionCreated,
        exJobName := b, exJobUID := c, exPreparedAt := d, exCommittedAt := e, exCreatedAt := f\<rparr>), rsMessage := g\<rparr>) (rq s)"
    have r: "stageOf ?r = ExecutionCreated" "early ?r = early (rq s)" "applied ?r = applied (rq s)" "stageOf (rq s) = OtherExecutionStage []"
      using s by (simp_all add: stageOf_def early_def applied_def)
    have "evolves (rq s) ?r" using r s by (intro evolves_receipt) auto
    note upd = wp_updateStatus_inv [OF s(1) this]
    have post: "\<not> early v \<and> stageOf v = ExecutionCreated" if "essence v = essence ?r" for v
      using essence_cong(1,2) [OF that] r s(2) by simp
    show ?thesis by (subst wp_bnd, unfold wp_wrap_err, rule wp_mono [OF upd])
        (use r(3) post in \<open>auto intro!: givenD [OF next' [OF ob']]\<close>)
  qed
  then show ?thesis unfolding adoptLegacyRestoreJob_def given_def
    by (auto simp: wp_failwith wp_bnd [of "gets rq"] wp_bnd [of "rnow env"] wp_gets wp_rstate zeroRestoreState_def
        split: option.split intro: restore.weaken)
qed

lemma given_handleRunning: "given sp (\<lambda>r. \<not> early r) (handleRunning env)"
  unfolding given_def handleRunning_def wp_bnd
proof (intro allI impI)
  fix s assume s: "synced sp s" "\<not> early (rq s)"
  have "wp (observeRestore env) (\<lambda>_ t. synced sp t \<and> rq t = rq s) (\<lambda>_ t. restoreInv sp t) s"
    by (rule wp_rquiet [OF _ s(1)]) (auto intro: restore.weaken)
  from wp_conj [OF this observe_observed]
  show "wp (observeRestore env) (\<lambda>ob. wp (applyRestoreDecision env ob (decideRestore (obState ob))) (\<lambda>_. synced sp) (\<lambda>_. restoreInv sp))
      (\<lambda>_. restoreInv sp) s"
  proof (rule wp_mono, goal_cases)
    case (1 ob t)
    then have fits: "fits (decideRestore (obState ob)) (rq t)" using decide_fits by simp
    then have "dcKind (decideRestore (obState ob)) = restoreDecisionAdoptLegacyJob \<Longrightarrow> execution (rq t) = None"
      by (simp add: fits_def)
    with 1 s fits show ?case unfolding applyRestoreDecision_def
      by (auto intro: givenD [OF given_adoptLegacy] givenD [OF given_applyDirect])
  qed simp
qed

section \<open>Recovery, deletion and the pass\<close>

lemma cleanup_disposable:
  "hasSpec sp r \<Longrightarrow> opTargetLifecycle (orsSpec r) = LifecycleDisposable \<Longrightarrow> rsafe sp (cleanupTarget env)"
  "hasSpec sp r \<Longrightarrow> needsTargetCleanup r \<Longrightarrow> rsafe sp (cleanupTarget env)"
  by (auto simp: hasSpec_def needsTargetCleanup_def intro: rsafe_cleanupTarget)

lemma rsafe_finishTargetRecovery [simp, intro]: "rsafe sp (finishTargetRecovery env)"
  unfolding finishTargetRecovery_def
  by (rule safe_given, intro given_request given_branches given_withTarget given_quiet [OF rquiet_prims(8)])
    (auto intro!: given_safe intro: cleanup_disposable)

lemma given_observeTargetApplication: "given sp (\<lambda>r. \<not> applied r) (observeTargetApplication env)"
proof -
  have tail: "wp (bnd (attempt (targetHealth env c)) (\<lambda>h. bnd (rnow env) (\<lambda>tm.
      if (case h of Inl _ \<Rightarrow> False | Inr health \<Rightarrow> hsClusterID health = soExpectedClusterID (opSource (orsSpec (rq s)))
            \<and> hsVersion health = soExpectedVersion (opSource (orsSpec (rq s))))
      then bnd (updateStatus env (\<lambda>st. (setTarget (\<lambda>t. t\<lparr>tgAppliedAt := Some tm\<rparr>) st)\<lparr>rsMessage := m\<rparr>)) (\<lambda>_. ret q)
      else k tm))) (\<lambda>_. synced sp) (\<lambda>_. restoreInv sp) s"
    if s: "synced sp s" "\<not> applied (rq s)" and k: "\<And>tm. rsafe sp (k tm)" for s c m q k
  proof -
    let ?good = "\<lambda>health. hsClusterID health = soExpectedClusterID (opSource (orsSpec (rq s)))
            \<and> hsVersion health = soExpectedVersion (opSource (orsSpec (rq s)))"
    have upd: "wp (bnd (updateStatus env (\<lambda>st. (setTarget (\<lambda>t. t\<lparr>tgAppliedAt := Some tm\<rparr>) st)\<lparr>rsMessage := m\<rparr>)) (\<lambda>_. ret q))
        (\<lambda>_. synced sp) (\<lambda>_. restoreInv sp) t"
      if t: "synced sp t" "rq t = rq s" "healthSeen (rtrace t) health" "?good health" for t tm health
    proof -
      have "evolves (rq t) (mapRestoreStatus (\<lambda>st. (setTarget (\<lambda>t. t\<lparr>tgAppliedAt := Some tm\<rparr>) st)\<lparr>rsMessage := m\<rparr>) (rq t))"
        using s(2) t(2) by (intro evolves_target_update)
          (auto simp: targetStep_def writtenOnce_def applied_def split: option.splits)
      moreover have "confirmed (rtrace t) (orsSpec (rq t))" using t by (auto simp: confirmed_def)
      ultimately have "wp (updateStatus env (\<lambda>st. (setTarget (\<lambda>t. t\<lparr>tgAppliedAt := Some tm\<rparr>) st)\<lparr>rsMessage := m\<rparr>))
          (\<lambda>_. synced sp) (\<lambda>_. restoreInv sp) t"
        by (rule wp_mono [OF wp_updateStatus_inv [OF t(1)]]) auto
      then show ?thesis by (rule restore.wp_bnd_safe) simp
    qed
    have "wp (targetHealth env c) (\<lambda>_ t. synced sp t \<and> rq t = rq s) (\<lambda>_ t. synced sp t \<and> rq t = rq s) s"
      by (rule wp_rquiet [OF _ s(1)]) auto
    from wp_conj [OF this health_seen]
    show ?thesis unfolding wp_bnd [of "attempt _"] wp_attempt
      by (rule wp_mono) (auto simp: wp_bnd [of "rnow env"] wp_rstate intro: upd safeD [OF k])
  qed
  have app: "given sp (\<lambda>r. (\<not> applied r \<and> r = r0) \<and> target r = Some t) (bnd (attempt (targetHealth env c)) (\<lambda>h. bnd (rnow env) (\<lambda>tm.
      if (case h of Inl _ \<Rightarrow> False | Inr health \<Rightarrow> hsClusterID health = soExpectedClusterID (opSource (orsSpec r0))
            \<and> hsVersion health = soExpectedVersion (opSource (orsSpec r0)))
      then bnd (updateStatus env (\<lambda>st. (setTarget (\<lambda>t. t\<lparr>tgAppliedAt := Some tm\<rparr>) st)\<lparr>rsMessage := m\<rparr>)) (\<lambda>_. ret q)
      else k tm)))" if "\<And>tm. rsafe sp (k tm)" for r0 t c m q k
    using tail [OF _ _ that] by (auto simp: given_def)
  show ?thesis unfolding observeTargetApplication_def
    by (intro given_request given_withTarget given_attempt [OF rquiet_prims(1)] given_branches app restore.safe_branches)
      (auto intro: given_safe)
qed

lemma rsafe_reconcileTargetRecovery [simp, intro]: "rsafe sp (reconcileTargetRecovery env)"
  unfolding reconcileTargetRecovery_def
proof (rule safe_given, intro given_request given_branches)
  fix r assume "hasSpec sp r" "okVersion r" "case target r of None \<Rightarrow> False | Some t \<Rightarrow> tgCleanup t \<noteq> OtherCleanup []"
  then have "opTargetLifecycle sp = LifecycleDisposable"
    by (auto simp: hasSpec_def okVersion_def cleanupAllowed_def disposable_def split: option.splits)
  then show "given sp (\<lambda>r'. True \<and> r' = r) (cleanupTarget env)" by (intro given_safe rsafe_cleanupTarget)
next
  fix r assume "(case target r of None \<Rightarrow> False | Some t \<Rightarrow> tgAppliedAt t = None) \<and> submissionClaim r \<noteq> None"
  then show "given sp (\<lambda>r'. True \<and> r' = r) (observeTargetApplication env)"
    by (intro given_mono [OF given_observeTargetApplication]) (auto simp: applied_def split: option.splits)
qed (auto intro: given_safe)

lemma rsafe_patchFinalizers: "rsafe sp (patchFinalizers env f)"
proof -
  have ess: "essence (r\<lparr>orsFinalizers := fs\<rparr>) = essence r" "essence (r\<lparr>orsFinalizers := fs, orsResourceVersion := n\<rparr>) = essence r" for r fs n
    by (simp_all add: essence_def)
  have "wp (patchFinalizers env f) (\<lambda>_. synced sp) (\<lambda>_. restoreInv sp) s" if s: "synced sp s" for s
  proof -
    have inv: "restoreInv sp s" using s by (simp add: synced_def)
    define fs where "fs = mrg (orsFinalizers (rq s)) (f (orsFinalizers (rq s))) (orsFinalizers (stored s))"
    define v where "v = (if fs = orsFinalizers (stored s) then stored s
      else (stored s)\<lparr>orsFinalizers := fs, orsResourceVersion := Suc (orsResourceVersion (stored s))\<rparr>)"
    have v: "essence (stored s) = essence v" by (simp add: v_def ess)
    have push: "restoreInv sp t" if "hist t = pushVersion v (hist s)" "rtrace t = rtrace s @ [RPatchFinalizers x y]" for t x y
      by (rule restoreInv_push [OF inv evolves_essence [OF v] _ _ that])
        (use essence_cong(3) [OF v] in \<open>auto simp: v_def\<close>)
    have quiet: "restoreInv sp (s\<lparr>rq := r, rtrace := rtrace s @ [RPatchFinalizers x y]\<rparr>)" for r x y
      using inv by (simp add: restoreInv_def okTrace_append)
    have "inHist v (pushVersion v (hist s))"
      using inv by (cases "hist s") (auto simp: inHist_def pushVersion_def restoreInv_def)
    then show ?thesis using push quiet
      by (cases "fs = orsFinalizers (stored s)")
        (simp_all add: wp_def patchFinalizers_def Let_def synced_def fs_def [symmetric] v_def split: writeReply.split)
  qed
  then show ?thesis by (simp add: safe_def)
qed

lemma rsafe_getRestore: "rsafe sp (getRestore env)"
proof -
  have "synced sp (s\<lparr>rq := hist s ! (n mod length (hist s))\<rparr>)" if "synced sp s" for s n
  proof -
    have "hist s \<noteq> []" using that by (simp add: synced_def restoreInv_def)
    then have "hist s ! (n mod length (hist s)) \<in> set (hist s)" by simp
    then show ?thesis using that by (auto simp: synced_def restoreInv_def inHist_def list_ex_iff)
  qed
  then show ?thesis by (auto simp: safe_def wp_def getRestore_def intro: restore.weaken split: sum.split)
qed

lemma rsafe_handleDeletion: "rsafe sp (handleDeletion env)"
proof -
  have final: "rsafe sp (finalizeRestoreDeletion env)" unfolding finalizeRestoreDeletion_def
    by (auto intro!: rsafe_patchFinalizers)
  show ?thesis unfolding handleDeletion_def
    by (rule safe_given, intro given_request given_branches)
      (auto intro!: given_safe final restore.safe_branches intro: cleanup_disposable)
qed

lemma rsafe_ensureTerminalCleanup: "rsafe sp (ensureTerminalCleanup env)"
  unfolding ensureTerminalCleanup_def
  by (rule safe_given, intro given_request given_branches)
    (auto intro!: given_safe restore.safe_branches intro: cleanup_disposable)

lemma rsafe_RestoreReconcile: "rsafe sp (RestoreReconcile env)"
proof -
  have fin: "rsafe sp (ensureFinalizer env)" unfolding ensureFinalizer_def
    by (auto intro!: rsafe_patchFinalizers rsafe_getRestore)
  have norm: "rsafe sp (updRq (\<lambda>r. if restorePhase r = OtherRestorePhase [] then mapRestoreStatus (\<lambda>st. st\<lparr>rsPhase := RestorePhasePending\<rparr>) r else r))"
    by (auto simp: safe_def wp_rstate synced_def restoreInv_def inHist_def essence_def normPhase_def)
  have "given sp (\<lambda>r'. True \<and> r' = r) (dispatchPhase env (restorePhase r))" for r
    by (cases "restorePhase r")
      (auto simp: dispatchPhase_def early_def normPhase_def intro: given_safe rsafe_ensureTerminalCleanup
         intro!: given_mono [OF given_handlePending] given_mono [OF given_handleValidating] given_mono [OF given_handleRunning])
  then have disp: "rsafe sp (bnd (gets rq) (\<lambda>r. dispatchPhase env (restorePhase r)))"
    by (intro safe_given given_request) blast
  have "rsafe sp (if d then handleDeletion env else bnd (wrap_err w (ensureFinalizer env)) (\<lambda>_. bnd (updRq (\<lambda>r.
      if restorePhase r = OtherRestorePhase [] then mapRestoreStatus (\<lambda>st. st\<lparr>rsPhase := RestorePhasePending\<rparr>) r else r)) (\<lambda>_.
      bnd (gets rq) (\<lambda>r. dispatchPhase env (restorePhase r)))))" for d w
    by (rule restore.safe_branches(1) [OF rsafe_handleDeletion restore.safe_bnd [OF restore.safe_wrap_err [OF fin]
        restore.safe_bnd [OF norm disp]]])
  then show ?thesis unfolding RestoreReconcile_def by (rule restore.safe_bnd [OF restore.safe_pure(3)])
qed

section \<open>The claim of the executor\<close>

lemma evolves_claim:
  "stageOf r = ExecutionCreated \<Longrightarrow> submissionClaim r = None \<Longrightarrow> evolves r (mapRestoreStatus (\<lambda>st. st\<lparr>rsSubmissionClaim := c\<rparr>) r)"
  by (auto simp: evolves_def claimStep_def okVersion_def cleanupAllowed_def disposable_def applied_def early_def stageOf_def
      targetStep_def writtenOnce_def split: option.splits)

lemma rsafe_ClaimRestore: "rsafe sp (ClaimRestore env uid claim)"
proof -
  have "given sp (\<lambda>r'. True \<and> r' = r) (updateStatus env (\<lambda>st. st\<lparr>rsSubmissionClaim := c\<rparr>))"
    if "stageOf r = ExecutionCreated" "submissionClaim r = None" for r c
    using that by (intro given_update) (auto intro!: evolves_claim simp: applied_def)
  then have guarded: "rsafe sp (bnd (gets rq) (\<lambda>r. bnd (rnow env) (\<lambda>tm. if b r tm then failwith e else if b' r then failwith e'
      else wrap_err w (updateStatus env (\<lambda>st. st\<lparr>rsSubmissionClaim := Some (c tm)\<rparr>)))))"
    if "\<And>r tm. \<not> b r tm \<Longrightarrow> stageOf r = ExecutionCreated \<and> submissionClaim r = None" for b b' e e' w c
    using that by (intro safe_given given_request given_quiet [OF rquiet_prims(8)] given_branches given_wrap given_fail) auto
  show ?thesis unfolding ClaimRestore_def
    by (rule restore.safe_bnd [OF restore.safe_wrap_err [OF rsafe_getRestore] guarded])
      (auto simp: stageOf_def split: option.splits)
qed

end
