(* ===== verification/Restore_Runs.thy ===== *)
theory Restore_Runs
  imports Restore_Running Lock_Server
begin

text \<open>
  Restores over time: passes of the operator from any stored version of the request (a cache may lag), claims of
  executors, and edits of users, in any order and with any answers of the API server.  The properties hold in
  every state such a run reaches.
\<close>

section \<open>Runs\<close>

text \<open>
  A run may start anywhere in the life of a request: on any version whose phase, receipts and cleanup are consistent and
  whose target is not yet recorded as applied.
\<close>

definition startable :: "OpenBaoRestore \<Rightarrow> bool" where
  "startable v \<longleftrightarrow> okVersion v \<and> \<not> applied v"

inductive restoreStep :: "rst \<Rightarrow> rst \<Rightarrow> bool" where
  pass: "v \<in> set (hist s) \<Longrightarrow> restoreStep s (snd (RestoreReconcile env (s\<lparr>rq := v\<rparr>)))"
| claim: "v \<in> set (hist s) \<Longrightarrow> restoreStep s (snd (ClaimRestore env uid c (s\<lparr>rq := v\<rparr>)))"
| edit: "restoreStep s (s\<lparr>hist := (stored s)\<lparr>orsResourceVersion := Suc (orsResourceVersion (stored s)),
     orsAnnotations := a, orsDeletionTimestamp := d\<rparr> # hist s\<rparr>)"

inductive restoreRun :: "OpenBaoRestoreSpec \<Rightarrow> rst \<Rightarrow> bool" where
  start: "startable v \<Longrightarrow> orsSpec v = sp \<Longrightarrow> restoreRun sp \<lparr> rq = v, hist = [v], rtrace = [] \<rparr>"
| step: "restoreRun sp s \<Longrightarrow> restoreStep s t \<Longrightarrow> restoreRun sp t"

lemma safe_step:
  assumes "rsafe sp m" and "restoreInv sp s" and "v \<in> set (hist s)"
  shows "restoreInv sp (snd (m (s\<lparr>rq := v\<rparr>)))"
proof -
  have "synced sp (s\<lparr>rq := v\<rparr>)" using assms(2,3) by (auto simp: synced_def restoreInv_def inHist_def list_ex_iff)
  with assms(1) have "wp m (\<lambda>_. synced sp) (\<lambda>_. restoreInv sp) (s\<lparr>rq := v\<rparr>)" by (rule safeD)
  then have "wp m (\<lambda>_. restoreInv sp) (\<lambda>_. restoreInv sp) (s\<lparr>rq := v\<rparr>)" by (rule wp_mono) (auto intro: restore.weaken)
  then show ?thesis by (simp add: wp_snd)
qed

lemma run_invariant: "restoreRun sp s \<Longrightarrow> restoreInv sp s"
proof (induction rule: restoreRun.induct)
  case (start v sp)
  then show ?case by (simp add: restoreInv_def okTrace_def startable_def)
next
  case (step sp s t)
  from step.hyps(2) show ?case
  proof cases
    case (edit d a)
    have e: "essence (stored s) = essence ((stored s)\<lparr>orsResourceVersion := Suc (orsResourceVersion (stored s)),
        orsAnnotations := a, orsDeletionTimestamp := d\<rparr>)" (is "_ = essence ?v") by (simp add: essence_def)
    show ?thesis
      by (rule restoreInv_push [OF step.IH evolves_essence [OF e], where tr = "[]"])
        (use essence_cong(3) [OF e] in \<open>auto simp: edit pushVersion_def dest: arg_cong [of _ _ orsResourceVersion]\<close>)
  qed (auto intro: step.IH safe_step rsafe_RestoreReconcile rsafe_ClaimRestore)
qed

lemma run_history:
  assumes "restoreRun sp s" and "i \<le> j" and "j < length (hist s)"
  shows "evolves (hist s ! j) (hist s ! i)"
  using run_invariant [OF assms(1)] assms(2,3)
  by (cases "i = j") (auto simp: restoreInv_def sorted_wrt_iff_nth_less newer_def)

section \<open>An example\<close>

text \<open>
  A restore of cluster \<open>prod\<close> in an environment where every call succeeds: three passes and the claim of the
  executor.  The receipt of the Job is stored after the third pass.
\<close>

definition exampleRestoreSpec :: OpenBaoRestoreSpec where
  "exampleRestoreSpec = \<lparr> opCleanupAfterSeconds = 0, opClusterTemplate = None, opTargetLifecycle = OtherLifecycle [],
     opCluster = ''prod'', opSource = \<lparr> soExpectedClusterID = [], soExpectedVersion = [], soExpectedDigest = [],
       soExpectedSize = 0, soKey = ''k'', soTarget = exampleBackupTarget \<rparr>, opImage = ''img'', opForce = True, opOverrideOperationLock = False \<rparr>"

definition exampleRestore :: OpenBaoRestore where
  "exampleRestore = \<lparr> orsName = ''r'', orsNamespace = ''ns'', orsUID = ''u'', orsResourceVersion = 1, orsGeneration = 1,
     orsAnnotations = [], orsFinalizers = [OpenBaoRestoreFinalizer], orsDeletionTimestamp = None, orsSpec = exampleRestoreSpec,
     orsStatus = \<lparr> rsTarget = None, rsSubmissionClaim = None, rsRestart = None,
       rsAdministratorDisposition = OtherDisposition [], rsPhase = RestorePhaseRunning, rsStartTime = Some 0,
       rsCompletionTime = None, rsExecution = Some (emptyExecution\<lparr>exTargetUID := ''u1'', exOperationID := ''u'',
         exStage := ExecutionPrepared, exJobName := ''restore-r'', exPreparedAt := Some 0\<rparr>),
       rsSnapshotKey = ''k'', rsMessage = [], rsConditions = [] \<rparr> \<rparr>"

definition exampleTarget :: Cluster where
  "exampleTarget = exampleBase\<lparr>clStatus := exampleBaseStatus\<lparr>ssOperationLock := Some \<lparr> lkOperation = ''Restore'',
     lkHolder = ''openbaorestore/r'', lkMessage = [], lkAcquiredAt = Some 0, lkRenewedAt = Some 0 \<rparr>\<rparr>\<rparr>"

definition exampleRestoreJob :: Job where
  "exampleRestoreJob = \<lparr> jbMeta = \<lparr> omName = ''restore-r'', omNamespace = ''ns'', omUID = ''j'', omResourceVersion = [],
       omGeneration = 1, omLabels = [], omAnnotations = [], omOwnerReferences = [], omCreationTimestamp = 0, omDeletionTimestamp = None \<rparr>,
     jbBackoffLimit = 0, jbActiveDeadlineSeconds = None, jbImage = [], jbCommand = [], jbArgs = [], jbServiceAccountToken = False,
     jbRunAsNonRoot = True, jbReadOnlyRootFilesystem = True, jbConditions = [], jbActive = 0, jbTerminating = None, jbSucceeded = 0, jbFailed = 0, jbStartTime = None, jbCompletionTime = None \<rparr>"

definition exampleRenv :: renv where
  "exampleRenv = \<lparr> reNow = (\<lambda>_. 5), reSha = (\<lambda>_. []), rePatchStatus = (\<lambda>_. Accepted), rePatchFinalizers = (\<lambda>_. Accepted),
     reGetRestore = (\<lambda>_. Inr 0), reGetCluster = (\<lambda>_. Inr exampleTarget), rePatchCluster = (\<lambda>_ _ c. Inr c),
     reCreateCluster = (\<lambda>_ _ _. None), reDeleteCluster = (\<lambda>_. None), rePatchLock = (\<lambda>_ c l. Inr (setOperationLock l c)),
     reGetJob = (\<lambda>_ _. Inl (ApiStatus NotFound False)), reCreateJob = (\<lambda>_ j. Inr j), reDeleteJob = (\<lambda>_ _. None),
     rePodPages = (\<lambda>_ _. (Inr [], [])), reGetClaim = (\<lambda>_ _. Inl (ApiStatus NotFound False)), reDeleteClaim = (\<lambda>_ _. None),
     reGetSts = (\<lambda>_ _. Inl (ApiStatus NotFound False)), reGetPod = (\<lambda>_ _. Inl (ApiStatus NotFound False)), rePatchPod = (\<lambda>_ _. None),
     reDeletePod = (\<lambda>_ _. None), reTrustBundle = (\<lambda>_ _. None),
     reHealth = (\<lambda>_ _. Inr \<lparr> hsInitialized = True, hsSealed = False, hsStandby = False, hsPerformanceStandby = False, hsVersion = ''2.4.0'', hsClusterID = ''source'' \<rparr>),
     reRecoveryClient = None, reReadRaft = (\<lambda>_ _. Inr None), reStepDown = (\<lambda>_ _. None), rePrepareRetained = None,
     reOperatorVerification = (\<lambda>_. False), reVerifyOperator = (\<lambda>_ _ _. Inr []), reBackupImage = (\<lambda>_. []),
     reDefaultBackupImage = Inr ''img'', reBuildJob = (\<lambda>_ _ _. Inr exampleRestoreJob), reReadiness = (\<lambda>_ _ _. Inr (''True'', ''Ready'', ''ok'')),
     reEnsureServiceAccount = (\<lambda>_ _. None), reEnsureRBAC = (\<lambda>_ _ _. None), reEgressRulesExplicit = (\<lambda>_. True),
     reStorageViolation = (\<lambda>_. None), reIdentityMessage = (\<lambda>_ _. None) \<rparr>"

definition exampleStart :: rst where
  "exampleStart = \<lparr> rq = exampleRestore, hist = [exampleRestore], rtrace = [] \<rparr>"

lemma exampleRun_start: "restoreRun exampleRestoreSpec exampleStart"
  unfolding exampleStart_def
  by (rule start) (simp_all add: startable_def exampleRestore_def okVersion_def applied_def cleanupAllowed_def early_def normPhase_def)

lemma exampleRenv_sel [simp]:
  "reNow exampleRenv tr = 5" "rePatchStatus exampleRenv tr = Accepted" "reGetRestore exampleRenv tr = Inr 0"
  "reGetCluster exampleRenv tr = Inr exampleTarget" "rePatchCluster exampleRenv tr b c = Inr c"
  "rePatchLock exampleRenv tr c l = Inr (setOperationLock l c)" "reCreateJob exampleRenv tr j = Inr j"
  "reOperatorVerification exampleRenv c = False" "reBuildJob exampleRenv r c d = Inr exampleRestoreJob"
  "reIdentityMessage exampleRenv r c = None"
  by (simp_all add: exampleRenv_def)

lemma exampleTarget_sel [simp]:
  "clUID exampleTarget = ''u1''" "clName exampleTarget = ''bao''" "clDeletionTimestamp exampleTarget = None" "clAnnotations exampleTarget = []"
  "ssOperationLock (clStatus exampleTarget) = Some \<lparr> lkOperation = ''Restore'', lkHolder = ''openbaorestore/r'',
     lkMessage = [], lkAcquiredAt = Some 0, lkRenewedAt = Some 0 \<rparr>"
  by (simp_all add: exampleTarget_def exampleBase_def)

lemma example_name: "orsName r = ''r'' \<Longrightarrow> restoreJobName env r = ''restore-r''"
proof -
  have "to_lower (replace_char (CHR ''_'') (CHR ''-'') ''restore-r'') = ''restore-r''" by code_simp
  then show "orsName r = ''r'' \<Longrightarrow> restoreJobName env r = ''restore-r''" by (simp add: restoreJobName_def)
qed

text \<open>The lock of the target is the restore's own, so it is renewed.\<close>

definition renewedLock :: "string \<Rightarrow> OperationLockStatus" where
  "renewedLock m = \<lparr> lkOperation = ''Restore'', lkHolder = ''openbaorestore/r'', lkMessage = m, lkAcquiredAt = Some 0, lkRenewedAt = Some 5 \<rparr>"

definition friendly :: "renv \<Rightarrow> bool" where
  "friendly env \<longleftrightarrow> reNow env = reNow exampleRenv \<and> reGetCluster env = reGetCluster exampleRenv \<and> rePatchLock env = rePatchLock exampleRenv"

lemma example_lock:
  assumes "friendly env"
  shows "wp (AcquireWithReader (rLockApi env) (Some exampleTarget) \<lparr> olHolder = ''openbaorestore/r'', olOperation = ''Restore'' \<rparr>
       \<lparr> aoMessage = m, aoForce = False, aoForceIf = None \<rparr>) Q E s
     = Q (setOperationLock (Some (renewedLock m)) exampleTarget) (s\<lparr>rtrace := rtrace s @ [RGetCluster (Inr exampleTarget),
         RPatchLock (Some (renewedLock m)) (Inr (setOperationLock (Some (renewedLock m)) exampleTarget))]\<rparr>)"
  using assms
  by (simp add: wp_def AcquireWithReader_def AcquireWithReaderResult_def restoreOperationLock_def mutateOperationLockStatus_def
      MutateAndPatchLockStatus_def DefaultRetrySteps_def lockAttempt_def rLockApi_def rgetCluster_def rcall_def acquireMutator_def IsHeldBy_def
      bnd_def ret_def gets_def wrap_err_def lift_res_def Let_def eval_nat_numeral renewedLock_def setOperationLock_def mapStatus_def friendly_def)

lemma wp_patchStatus:
  "wp (patchStatus env original) Q E s = (let new = patchedStatus original (rq s) (stored s) in
     case rePatchStatus env (rtrace s) of
       Refused e \<Rightarrow> E e (s\<lparr>rtrace := rtrace s @ [RPatchStatus (orsStatus (rq s)) (Some e)]\<rparr>)
     | reply \<Rightarrow> if orsResourceVersion original \<noteq> orsResourceVersion (stored s)
         then E (ApiStatus Conflict False) (s\<lparr>rtrace := rtrace s @ [RPatchStatus (orsStatus (rq s)) (Some (ApiStatus Conflict False))]\<rparr>)
         else (case reply of
             ReplyLost e \<Rightarrow> E e (s\<lparr>hist := pushVersion new (hist s), rtrace := rtrace s @ [RPatchStatus (orsStatus (rq s)) (Some e)]\<rparr>)
           | _ \<Rightarrow> Q () (s\<lparr>hist := pushVersion new (hist s), rq := new, rtrace := rtrace s @ [RPatchStatus (orsStatus (rq s)) None]\<rparr>)))"
  by (auto simp: wp_def patchStatus_def Let_def split: writeReply.split)

lemmas example_simps = exampleStart_def exampleRestore_def ensureFinalizer_def dispatchPhase_def handleRunning_def observeRestore_def
  rgetCluster_def wp_rcall validateRestoreExecutionIdentity_def restoreExecutionOperationID_def example_name emptyExecution_def
  applyRestoreDecision_def applyDirectDecision_def decideRestore_def zeroRestoreState_def renewRunningRestoreLock_def example_lock friendly_def
  IsHeldBy_def restoreOperationLock_def createRestoreJob_def getRestoreExecutorImage_def exampleRestoreSpec_def verifyRestoreExecutor_def
  holdTarget_def rpatchCluster_def markRestoreExecutionCommitted_def wp_patchStatus submitRestoreJob_def rcreateJob_def
  markRestoreExecutionCreated_def validateRestoreExecutionJob_def PrepareManagedJobOwner_def RequireOwnerUID_def
  SetControllerReference_def SetOwnerUIDAnnotation_def getControllerOf_def restoreMeta_def exampleRestoreJob_def lookup_label_def
  setAnnotation_def AnnotationRestoreHold_def AnnotationOpenBaoOwnerUID_def restoreExecutionIDAnnotation_def patchedStatus_def
  mergeStatus_def mrgObj_def stageOf_def raudit_def emitRestoreEvent_def

lemma example_pass:
  "wp (RestoreReconcile exampleRenv) (\<lambda>_ t. createdJobs (rtrace t) = 1 \<and> stageOf (stored t) = ExecutionCreated) (\<lambda>_ _. False) exampleStart"
  by (simp add: RestoreReconcile_def wps example_simps Let_def)

definition exampleClaim :: RestoreSubmissionClaim where
  "exampleClaim = \<lparr> smPodUID = ''p'', smTargetPodName = ''bao-0'', smTargetPodUID = ''q'', smTargetPodIP = [], smTargetContainerID = [],
     smDigest = ''d'', smSize = 4, smClaimedAt = 0 \<rparr>"

lemma wp_getRestore:
  "wp (getRestore env) Q E s = (case reGetRestore env (rtrace s) of Inl e \<Rightarrow> E e s
     | Inr n \<Rightarrow> Q () (s\<lparr>rq := hist s ! (n mod length (hist s))\<rparr>))"
  by (simp add: wp_def getRestore_def split: sum.split)

lemma example_claim:
  "wp (RestoreReconcile exampleRenv) (\<lambda>_ t. wp (ClaimRestore exampleRenv ''u'' exampleClaim) (\<lambda>_ u. True) (\<lambda>_ _. False) (t\<lparr>rq := stored t\<rparr>)) (\<lambda>_ _. False) exampleStart"
  by (simp add: RestoreReconcile_def wps example_simps Let_def ClaimRestore_def wp_getRestore pushVersion_def exampleClaim_def
      restorePreparationTimeout_def)

section \<open>Properties\<close>

text \<open>
  C2: in every run, whatever the API server answers, however stale the cache is and wherever a pass fails, at most
  one restore Job is ever created for a request, and only after the commitment to create it is stored.
\<close>

theorem restore_job_created_once:
  assumes "restoreRun sp s"
  shows "createdJobs (rtrace s) \<le> 1 \<and> (createdJobs (rtrace s) = 1 \<longrightarrow> restoreExecutionCommitted (execution (stored s)))"
proof -
  have "2 \<le> stageRank (stageOf r) \<Longrightarrow> restoreExecutionCommitted (execution r)" for r
    by (cases "execution r"; cases "stageOf r") (auto simp: stageOf_def restoreExecutionCommitted_def)
  then show ?thesis using run_invariant [OF assms] by (auto simp: restoreInv_def okTrace_def)
qed

lemma example_run: "restoreRun exampleRestoreSpec (snd (RestoreReconcile exampleRenv exampleStart))"
proof -
  have "restoreStep exampleStart (snd (RestoreReconcile exampleRenv (exampleStart\<lparr>rq := exampleRestore\<rparr>)))"
    by (rule pass) (simp add: exampleStart_def)
  then show ?thesis using step [OF exampleRun_start] by (simp add: exampleStart_def)
qed

theorem restore_job_created_once_witness:
  "createdJobs (rtrace (snd (RestoreReconcile exampleRenv exampleStart))) = 1
     \<and> restoreExecutionCommitted (execution (stored (snd (RestoreReconcile exampleRenv exampleStart))))"
  using restore_job_created_once [OF example_run] example_pass
  by (auto simp: wp_def split: prod.splits sum.splits)

text \<open>
  C5: the stored versions of a request only move forward: execution receipts never go back, a submission claim and
  the identities of a fresh target (cluster UID, volume UID, bootstrap identity, application time) never change
  once they are recorded.
\<close>

theorem receipts_never_move_back:
  assumes "restoreRun sp s" and "i \<le> j" and "j < length (hist s)"
  shows "stageRank (stageOf (hist s ! j)) \<le> stageRank (stageOf (hist s ! i))
     \<and> (submissionClaim (hist s ! j) \<noteq> None \<longrightarrow> submissionClaim (hist s ! i) = submissionClaim (hist s ! j))
     \<and> targetStep (target (hist s ! j)) (target (hist s ! i))"
  using run_history [OF assms] by (auto simp: evolves_def claimStep_def)

lemma example_history:
  "wp (RestoreReconcile exampleRenv) (\<lambda>_ t. map stageOf (hist t) = [ExecutionCreated, ExecutionCommitted, ExecutionPrepared]) (\<lambda>_ _. False) exampleStart"
  by (simp add: RestoreReconcile_def wps example_simps Let_def pushVersion_def)

theorem receipts_never_move_back_witness:
  "let s = snd (RestoreReconcile exampleRenv exampleStart) in
     map stageOf (hist s) = [ExecutionCreated, ExecutionCommitted, ExecutionPrepared]
     \<and> targetStep (target (hist s ! 2)) (target (hist s ! 0))"
proof -
  let ?s = "snd (RestoreReconcile exampleRenv exampleStart)"
  have h: "map stageOf (hist ?s) = [ExecutionCreated, ExecutionCommitted, ExecutionPrepared]"
    using example_history by (auto simp: wp_def split: prod.splits sum.splits)
  then have "length (hist ?s) = 3" by (metis length_map list.size(3,4) One_nat_def numeral_3_eq_3 add_Suc_right Nat.add_0_right)
  then show ?thesis using h receipts_never_move_back [OF example_run, of 0 2] by (simp add: Let_def)
qed

text \<open>
  C6: when the operator reports a failure before submission (the restore is Failed with a terminal receipt and no
  claim, on which it releases the target), no version stored later carries a submission claim: no executor
  is allowed to submit the snapshot afterwards.
\<close>

theorem no_submission_after_exclusion:
  assumes "restoreRun sp s" and "i \<le> j" and "j < length (hist s)"
    and "restoreExecutionCommitted (execution (hist s ! j))" and "restoreSubmissionExcluded (hist s ! j)"
  shows "submissionClaim (hist s ! i) = None"
proof -
  have "4 \<le> stageRank (stageOf (hist s ! j)) \<and> submissionClaim (hist s ! j) = None"
    using assms(4,5) by (auto simp: restoreSubmissionExcluded_def stageOf_def split: if_splits option.splits)
  then show ?thesis using run_history [OF assms(1-3)] by (auto simp: evolves_def claimStep_def)
qed

text \<open>The executor fails before it claims the submission; the next pass records it.\<close>

definition failedRestoreJob :: Job where
  "failedRestoreJob = exampleRestoreJob\<lparr>jbMeta := (jbMeta exampleRestoreJob)\<lparr>omAnnotations := [(AnnotationOpenBaoOwnerUID, ''u'')],
     omOwnerReferences := [\<lparr> orAPIVersion = ''openbao.org/v1alpha1'', orKind = ''OpenBaoRestore'', orName = ''r'', orUID = ''u'', orController = Some True \<rparr>]\<rparr>,
     jbConditions := [\<lparr> cdType = ''Failed'', cdStatus = ''True'', cdReason = [], cdMessage = [], cdObservedGeneration = 0, cdLastTransitionTime = 0 \<rparr>]\<rparr>"

definition failingRenv :: renv where
  "failingRenv = exampleRenv\<lparr>reGetJob := \<lambda>_ _. Inr failedRestoreJob\<rparr>"

definition excludedNow :: "rst \<Rightarrow> bool" where
  "excludedNow s \<longleftrightarrow> hist s \<noteq> [] \<and> restoreExecutionCommitted (execution (stored s)) \<and> restoreSubmissionExcluded (stored s)"

lemma example_failed:
  "wp (RestoreReconcile exampleRenv) (\<lambda>_ t. wp (RestoreReconcile failingRenv) (\<lambda>_. excludedNow) (\<lambda>_. excludedNow) (t\<lparr>rq := stored t\<rparr>))
     (\<lambda>_ _. False) exampleStart"
  by (simp add: RestoreReconcile_def wps example_simps Let_def pushVersion_def failingRenv_def failedRestoreJob_def observeRestoreJob_def
     readRestoreJob_def ReadManagedJob_def rgetJob_def RequireManagedJobOwner_def RequireManagedControllerOwnerProof_def HasManagedControllerOwnerProof_def
     HasOwnerUIDAnnotation_def is_controller_ref_def openBaoRestoreGVK_def gvk_empty_def groupVersionString_def validateClaimExecutor_def
     classifyRestoreJob_def restoreExecutorPending_def exampleRenv_def recordFailedJob_def markRestoreExecutionTerminal_def failRestore_def,
     rule wp_keeps [OF rquiet_releaseClusterLock])
    (simp_all add: wps excludedNow_def rquiet_def restoreSubmissionExcluded_def restoreExecutionCommitted_def)

definition failedRun :: rst where
  "failedRun = (let s = snd (RestoreReconcile exampleRenv exampleStart) in snd (RestoreReconcile failingRenv (s\<lparr>rq := stored s\<rparr>)))"

definition editedRun :: rst where
  "editedRun = failedRun\<lparr>hist := (stored failedRun)\<lparr>orsResourceVersion := Suc (orsResourceVersion (stored failedRun)),
     orsAnnotations := [], orsDeletionTimestamp := Some 9\<rparr> # hist failedRun\<rparr>"

lemma failedRun_facts: "restoreRun exampleRestoreSpec editedRun" "excludedNow failedRun"
proof -
  let ?s = "snd (RestoreReconcile exampleRenv exampleStart)"
  have "hist ?s \<noteq> []" using run_invariant [OF example_run] by (simp add: restoreInv_def)
  then have "restoreStep ?s failedRun" unfolding failedRun_def Let_def by (intro pass) simp
  then have "restoreRun exampleRestoreSpec failedRun" by (rule step [OF example_run])
  then show "restoreRun exampleRestoreSpec editedRun" unfolding editedRun_def by (rule step) (rule edit)
  show "excludedNow failedRun"
    using example_failed by (auto simp: wp_def failedRun_def Let_def split: prod.splits sum.splits)
qed

theorem no_submission_after_exclusion_witness:
  "restoreSubmissionExcluded (hist editedRun ! 1) \<and> submissionClaim (hist editedRun ! 0) = None"
proof -
  have h: "hist failedRun ! 0 = stored failedRun" "hist failedRun \<noteq> []"
    using failedRun_facts(2) by (simp_all add: excludedNow_def hd_conv_nth)
  then have "restoreExecutionCommitted (execution (hist editedRun ! 1))" "restoreSubmissionExcluded (hist editedRun ! 1)"
    using failedRun_facts(2) by (simp_all add: excludedNow_def editedRun_def)
  then show ?thesis
    using no_submission_after_exclusion [OF failedRun_facts(1), of 0 1] h(2) by (simp add: editedRun_def)
qed

text \<open>
  C7: an executor that is allowed to submit is the only one: when its claim is acknowledged no version stored so far
  carries a claim, the Job's creation is recorded and nothing later is, and its claim is stored.  A recorded claim
  never changes, so no other executor is ever acknowledged.
\<close>

theorem submission_claim_exclusive:
  assumes run: "restoreRun sp s" and claim: "ClaimRestore env uid c s = (Inr (), t)"
  shows "(\<forall>w \<in> set (hist s). submissionClaim w = None) \<and> stageOf (stored s) = ExecutionCreated
     \<and> (\<exists>tm. submissionClaim (stored t) = Some (c\<lparr>smClaimedAt := tm\<rparr>))"
proof -
  note inv = run_invariant [OF run]
  have hist: "hist s ! (n mod length (hist s)) \<in> set (hist s)" for n using inv by (simp add: restoreInv_def)
  have older: "submissionClaim w = None" if "submissionClaim (stored s) = None" "w \<in> set (hist s)" for w
    using restoreInv_stored(1) [OF inv that(2)] that(1) by (auto simp: evolves_def claimStep_def)
  have st: "execution v = Some x \<Longrightarrow> stageOf v = exStage x" for v x by (simp add: stageOf_def)
  have accepted: "(\<forall>w \<in> set (hist s). submissionClaim w = None) \<and> stageOf (stored s) = ExecutionCreated
      \<and> (\<exists>tm. submissionClaim (hd (pushVersion (patchedStatus v (mapRestoreStatus (\<lambda>st. st\<lparr>rsSubmissionClaim := Some (c\<lparr>smClaimedAt := tm'\<rparr>)\<rparr>) v) (stored s)) (hist s)))
            = Some (c\<lparr>smClaimedAt := tm\<rparr>))"
    if "v \<in> set (hist s)" "orsResourceVersion v = orsResourceVersion (stored s)" "submissionClaim v = None" "stageOf v = ExecutionCreated" for v tm'
    using restoreInv_stored(3) [OF inv that(1,2)] that(3,4) older
    by (auto simp: patchedStatus_def Let_def dest: arg_cong [of _ _ rsSubmissionClaim])
  have "wp (ClaimRestore env uid c) (\<lambda>_ t. (\<forall>w \<in> set (hist s). submissionClaim w = None) \<and> stageOf (stored s) = ExecutionCreated
     \<and> (\<exists>tm. submissionClaim (stored t) = Some (c\<lparr>smClaimedAt := tm\<rparr>))) (\<lambda>_ _. True) s"
    unfolding ClaimRestore_def wp_bnd wp_wrap_err wp_getRestore wp_gets wp_rstate wp_if wp_failwith wp_updateStatus wp_patchStatus Let_def
    using accepted [OF hist] by (auto simp: st split: sum.split writeReply.split option.splits)
  then show ?thesis using claim by (rule wp_result [rotated])
qed

theorem submission_claim_exclusive_witness:
  "let s = (snd (RestoreReconcile exampleRenv exampleStart))\<lparr>rq := stored (snd (RestoreReconcile exampleRenv exampleStart))\<rparr>;
       t = snd (ClaimRestore exampleRenv ''u'' exampleClaim s)
   in stageOf (stored s) = ExecutionCreated \<and> (\<exists>tm. submissionClaim (stored t) = Some (exampleClaim\<lparr>smClaimedAt := tm\<rparr>))"
proof -
  let ?r = "snd (RestoreReconcile exampleRenv exampleStart)"
  let ?s = "?r\<lparr>rq := stored ?r\<rparr>"
  have "fst (ClaimRestore exampleRenv ''u'' exampleClaim ?s) = Inr ()"
    using example_claim by (auto simp: wp_def split: prod.splits sum.splits)
  then have c: "ClaimRestore exampleRenv ''u'' exampleClaim ?s = (Inr (), snd (ClaimRestore exampleRenv ''u'' exampleClaim ?s))"
    by (metis prod.collapse)
  have "ClaimRestore exampleRenv ''u'' exampleClaim ?s = ClaimRestore exampleRenv ''u'' exampleClaim ?r"
    by (simp add: ClaimRestore_def bnd_def wrap_err_def getRestore_def)
  with c submission_claim_exclusive [OF example_run, of exampleRenv "''u''" exampleClaim]
  show ?thesis by (simp add: Let_def)
qed

text \<open>
  C8: a restore is Completed only after the operator has seen the target as an initialized, unsealed, active
  node that reports the cluster identity and the version expected of the snapshot's source (unless the request came
  from an older operator with a follow-through receipt, which this code never writes).
\<close>

theorem completed_only_when_confirmed:
  assumes run: "restoreRun sp s" and v: "v \<in> set (hist s)" "restorePhase v = RestorePhaseCompleted"
    and legacy: "stageOf (last (hist s)) \<noteq> ExecutionFollowThroughComplete"
  shows "confirmed (rtrace s) sp"
proof -
  note inv = run_invariant [OF run]
  obtain i where i: "i < length (hist s)" "v = hist s ! i" using v(1) by (auto simp: in_set_conv_nth)
  have "evolves (last (hist s)) v"
    using run_history [OF run, of i "length (hist s) - 1"] i by (cases "hist s = []") (auto simp: last_conv_nth)
  then have "applied v" using restoreInv_stored(2) [OF inv v(1)] v(2) legacy by (auto simp: okVersion_def evolves_def)
  moreover have "evolves v (stored s)" by (rule restoreInv_stored(1) [OF inv v(1)])
  ultimately have "applied (stored s)"
    by (auto simp: evolves_def applied_def targetStep_def writtenOnce_def split: option.splits)
  then show ?thesis using inv by (auto simp: restoreInv_def okTrace_def)
qed

text \<open>A disposable restore whose snapshot was submitted: three passes confirm the application, clean up and complete.\<close>

definition submittedRestore :: OpenBaoRestore where
  "submittedRestore = exampleRestore\<lparr>orsSpec := exampleRestoreSpec\<lparr>opTargetLifecycle := LifecycleDisposable,
       opSource := \<lparr> soExpectedClusterID = ''source'', soExpectedVersion = ''2.4.0'', soExpectedDigest = [], soExpectedSize = 0,
         soKey = ''k'', soTarget = exampleBackupTarget \<rparr>\<rparr>,
     orsStatus := (orsStatus exampleRestore)\<lparr>rsPhase := RestorePhaseUnknown, rsSubmissionClaim := Some exampleClaim,
       rsTarget := Some (emptyTarget\<lparr>tgUID := ''u1'', tgDataPVCUID := ''v'', tgBootstrapClusterID := ''fresh''\<rparr>),
       rsExecution := Some (emptyExecution\<lparr>exTargetUID := ''u1'', exOperationID := ''u'', exStage := ExecutionUnknown,
         exJobName := ''restore-r'', exJobUID := ''j''\<rparr>)\<rparr>\<rparr>"

definition heldTarget :: Cluster where
  "heldTarget = exampleTarget\<lparr>clAnnotations := [(AnnotationRestoreHold, ''u''), (AnnotationRestoreOrigin, ''u'')],
     clSpec := (clSpec exampleTarget)\<lparr>spReplicas := 1\<rparr>\<rparr>"

definition heldRenv :: renv where
  "heldRenv = exampleRenv\<lparr>reGetCluster := \<lambda>_. Inr heldTarget\<rparr>"

definition goneRenv :: renv where
  "goneRenv = exampleRenv\<lparr>reGetCluster := \<lambda>_. Inl (ApiStatus NotFound False)\<rparr>"

definition submittedStart :: rst where
  "submittedStart = \<lparr> rq = submittedRestore, hist = [submittedRestore], rtrace = [] \<rparr>"

lemmas submitted_simps = submittedRestore_def exampleRestore_def ensureFinalizer_def dispatchPhase_def
  reconcileTargetRecovery_def observeTargetApplication_def emptyTarget_def emptyExecution_def rgetCluster_def wp_rcall
  targetHealth_def wp_patchStatus patchedStatus_def mergeStatus_def mrgObj_def pushVersion_def finishTargetRecovery_def cleanupTarget_def
  bindTarget_def exampleClaim_def exampleRestoreSpec_def lookup_label_def AnnotationRestoreHold_def AnnotationRestoreOrigin_def
  cleanupResources_def deleteRestoreJob_def readRestoreJob_def ReadManagedJob_def rgetJob_def cleanupTargetPVC_def rgetClaim_def
  markTargetCleanupComplete_def finishTargetCleanup_def completeRestore_def raudit_def emitRestoreEvent_def releaseClusterLock_def
  stageOf_def

lemma submitted_pass:
  "wp (RestoreReconcile heldRenv) (\<lambda>_ t. wp (RestoreReconcile heldRenv) (\<lambda>_ u. wp (RestoreReconcile goneRenv)
      (\<lambda>_ v. restorePhase (stored v) = RestorePhaseCompleted \<and> stageOf (last (hist v)) = ExecutionUnknown) (\<lambda>_ _. False) (u\<lparr>rq := stored u\<rparr>))
      (\<lambda>_ _. False) (t\<lparr>rq := stored t\<rparr>)) (\<lambda>_ _. False) submittedStart"
  by (simp add: submittedStart_def RestoreReconcile_def wps submitted_simps Let_def heldRenv_def goneRenv_def heldTarget_def
      exampleTarget_def exampleBase_def exampleRenv_def)

definition completedRun :: rst where
  "completedRun = (let s = snd (RestoreReconcile heldRenv submittedStart);
       t = snd (RestoreReconcile heldRenv (s\<lparr>rq := stored s\<rparr>)) in snd (RestoreReconcile goneRenv (t\<lparr>rq := stored t\<rparr>)))"

lemma run_pass: "restoreRun sp s \<Longrightarrow> restoreRun sp (snd (RestoreReconcile env (s\<lparr>rq := stored s\<rparr>)))"
  by (frule run_invariant, erule step, rule pass) (simp add: restoreInv_def)

lemma completedRun_facts:
  "restoreRun (orsSpec submittedRestore) completedRun"
  "restorePhase (stored completedRun) = RestorePhaseCompleted" "stageOf (last (hist completedRun)) = ExecutionUnknown"
proof -
  have "restoreRun (orsSpec submittedRestore) submittedStart" unfolding submittedStart_def
    by (rule start) (simp_all add: startable_def submittedRestore_def okVersion_def applied_def cleanupAllowed_def early_def normPhase_def emptyTarget_def)
  moreover have "submittedStart\<lparr>rq := stored submittedStart\<rparr> = submittedStart" by (simp add: submittedStart_def)
  ultimately have "restoreRun (orsSpec submittedRestore) (snd (RestoreReconcile heldRenv submittedStart))"
    using run_pass [of "orsSpec submittedRestore" submittedStart] by simp
  then show "restoreRun (orsSpec submittedRestore) completedRun"
    unfolding completedRun_def Let_def by (intro run_pass)
  show "restorePhase (stored completedRun) = RestorePhaseCompleted" "stageOf (last (hist completedRun)) = ExecutionUnknown"
    using submitted_pass by (auto simp: wp_def completedRun_def Let_def split: prod.splits sum.splits)
qed

theorem completed_only_when_confirmed_witness: "confirmed (rtrace completedRun) (orsSpec submittedRestore)"
proof -
  have "hist completedRun \<noteq> []" using run_invariant [OF completedRun_facts(1)] by (simp add: restoreInv_def)
  then show ?thesis
    by (intro completed_only_when_confirmed [OF completedRun_facts(1), of "stored completedRun"]) (simp_all add: completedRun_facts)
qed

text \<open>
  C16: the operator deletes a target cluster or its data volume only for a restore whose target is Disposable, and
  only under the UID recorded in the status as the one this restore created.
\<close>

theorem only_bound_disposable_targets_are_deleted:
  assumes "restoreRun sp s" and "e \<in> set (rtrace s)"
  shows "case e of
      RDeleteCluster _ uid _ \<Rightarrow> opTargetLifecycle sp = LifecycleDisposable \<and> uid \<noteq> [] \<and> map_option tgUID (target (stored s)) = Some uid
    | RDeleteClaim _ uid _ \<Rightarrow> opTargetLifecycle sp = LifecycleDisposable \<and> uid \<noteq> [] \<and> map_option tgDataPVCUID (target (stored s)) = Some uid
    | _ \<Rightarrow> True"
proof -
  have "okEvent (stored s) e" "orsSpec (stored s) = sp"
    using run_invariant [OF assms(1)] assms(2) by (auto simp: restoreInv_def okTrace_def list_all_iff)
  then show ?thesis by (cases e) (auto simp: disposable_def)
qed

definition doomedRestore :: OpenBaoRestore where
  "doomedRestore = submittedRestore\<lparr>orsStatus := (orsStatus submittedRestore)\<lparr>rsPhase := RestorePhaseFailed, rsExecution := None,
     rsSubmissionClaim := None, rsTarget := Some (emptyTarget\<lparr>tgUID := ''u1'', tgDataPVCUID := ''v'', tgCleanup := CleanupPending\<rparr>)\<rparr>\<rparr>"

definition doomedRenv :: renv where
  "doomedRenv = exampleRenv\<lparr>reGetCluster := \<lambda>_. Inr (exampleTarget\<lparr>clAnnotations := [(AnnotationRestoreOrigin, ''u'')]\<rparr>)\<rparr>"

definition doomedStart :: rst where
  "doomedStart = \<lparr> rq = doomedRestore, hist = [doomedRestore], rtrace = [] \<rparr>"

lemma doomed_pass:
  "wp (RestoreReconcile doomedRenv) (\<lambda>_ t. RDeleteCluster ''bao'' ''u1'' None \<in> set (rtrace t)) (\<lambda>_ _. False) doomedStart"
  by (simp add: doomedStart_def doomedRestore_def RestoreReconcile_def wps submitted_simps Let_def doomedRenv_def exampleRenv_def
      ensureTerminalCleanup_def needsTargetCleanup_def cleanupTargetCluster_def deleteTargetCluster_def)

theorem only_bound_disposable_targets_are_deleted_witness:
  "map_option tgUID (target (stored (snd (RestoreReconcile doomedRenv doomedStart)))) = Some ''u1''"
proof -
  have "restoreRun (orsSpec doomedRestore) doomedStart" unfolding doomedStart_def
    by (rule start) (simp_all add: startable_def doomedRestore_def submittedRestore_def okVersion_def applied_def cleanupAllowed_def
        disposable_def early_def normPhase_def emptyTarget_def)
  moreover have "doomedStart\<lparr>rq := stored doomedStart\<rparr> = doomedStart" by (simp add: doomedStart_def)
  ultimately have run: "restoreRun (orsSpec doomedRestore) (snd (RestoreReconcile doomedRenv doomedStart))"
    using run_pass [of "orsSpec doomedRestore" doomedStart] by simp
  have "RDeleteCluster ''bao'' ''u1'' None \<in> set (rtrace (snd (RestoreReconcile doomedRenv doomedStart)))"
    using doomed_pass by (auto simp: wp_def split: prod.splits sum.splits)
  from only_bound_disposable_targets_are_deleted [OF run this] show ?thesis by simp
qed

end
