(* ===== verification/Restore_Parts.thy ===== *)
theory Restore_Parts
  imports Restore_Runs
begin

text \<open>
  Properties of single parts of the restore manager: the operation lock it takes on the target, the leader it
  accepts, the order in which it restarts Pods, and the names of its Jobs.
\<close>

section \<open>The operation lock\<close>

text \<open>
  C24: a restore that takes the operation lock of its target stores at most one lock, and overwrites only a lock
  that is free, its own, or (with force and override both requested) held by an operation that is not a restore: the
  lock of another restore is never taken, even when other clients write the status between the calls.
\<close>

theorem restore_lock_spares_other_restores:
  assumes a: "AcquireWithReaderResult serverApi (Some c) (restoreOperationLock r) (restoreAcquireOptions r) s = (res, t)"
  shows "oneWrite (\<lambda>b a. (case b of None \<Rightarrow> True | Some k \<Rightarrow> IsHeldBy (restoreOperationLock r) b
            \<or> (opOverrideOperationLock (orsSpec r) \<and> opForce (orsSpec r) \<and> lkOperation k \<noteq> ''Restore''))
          \<and> IsHeldBy (restoreOperationLock r) a) (ownWrites s) (ownWrites t)"
proof -
  have "mayOverwrite (restoreOperationLock r) (restoreAcquireOptions r) b \<longleftrightarrow> (case b of None \<Rightarrow> True
      | Some k \<Rightarrow> IsHeldBy (restoreOperationLock r) b
          \<or> (opOverrideOperationLock (orsSpec r) \<and> opForce (orsSpec r) \<and> lkOperation k \<noteq> ''Restore''))" for b
    by (auto simp: mayOverwrite_def forcible_def restoreAcquireOptions_def restoreForceIf_def split: option.split)
  then show ?thesis using lockServer.acquire_atomic [OF a] by simp
qed

definition forcedRestore :: OpenBaoRestore where
  "forcedRestore = exampleRestore\<lparr>orsSpec := exampleRestoreSpec\<lparr>opOverrideOperationLock := True\<rparr>\<rparr>"

theorem restore_lock_spares_other_restores_witness:
  "let t = snd (AcquireWithReaderResult serverApi (Some exampleBase) (restoreOperationLock forcedRestore) (restoreAcquireOptions forcedRestore) upgradeHeldServer)
   in ownWrites t \<noteq> [] \<and> oneWrite (\<lambda>b a. IsHeldBy (restoreOperationLock forcedRestore) a) (ownWrites upgradeHeldServer) (ownWrites t)"
proof -
  let ?m = "AcquireWithReaderResult serverApi (Some exampleBase) (restoreOperationLock forcedRestore) (restoreAcquireOptions forcedRestore)"
  have "ownWrites (snd (?m upgradeHeldServer)) \<noteq> []" by code_simp
  moreover have "?m upgradeHeldServer = (fst (?m upgradeHeldServer), snd (?m upgradeHeldServer))" by simp
  from restore_lock_spares_other_restores [OF this]
  have "oneWrite (\<lambda>b a. IsHeldBy (restoreOperationLock forcedRestore) a) (ownWrites upgradeHeldServer) (ownWrites (snd (?m upgradeHeldServer)))"
    by (auto simp: oneWrite_def)
  ultimately show ?thesis by (simp add: Let_def)
qed

section \<open>The leader\<close>

definition memberOf :: "RaftServer list \<Rightarrow> Pod \<Rightarrow> RaftServer option" where
  "memberOf servers p = find (\<lambda>v. rvNodeID v = pdName p) servers"

definition leads :: "RaftServer list \<Rightarrow> Pod \<Rightarrow> bool" where
  "leads servers p \<longleftrightarrow> (case memberOf servers p of None \<Rightarrow> False | Some v \<Rightarrow> rvLeader v)"

definition expectedMember :: "int \<Rightarrow> RaftServer list \<Rightarrow> nat \<Rightarrow> Pod \<Rightarrow> bool" where
  "expectedMember voters servers i p \<longleftrightarrow> (case memberOf servers p of None \<Rightarrow> False | Some v \<Rightarrow> rvVoter v = (int i < voters))"

lemma scanLeader_iff:
  "\<forall>p \<in> set ps. pdName p \<noteq> [] \<Longrightarrow> scanLeader n servers i leader ps = Inr l \<longleftrightarrow>
     (\<forall>j < length ps. expectedMember n servers (i + j) (ps ! j))
     \<and> (if leader \<noteq> [] then l = leader \<and> (\<forall>j < length ps. \<not> leads servers (ps ! j))
        else \<exists>k < length ps. int (i + k) < n \<and> pdName (ps ! k) = l \<and> (\<forall>j < length ps. leads servers (ps ! j) \<longleftrightarrow> j = k))"
proof (induction ps arbitrary: i leader)
  case (Cons p ps)
  have m: "find (\<lambda>v. rvNodeID v = pdName p) servers = memberOf servers p" by (simp add: memberOf_def)
  note IH = Cons.IH [of "Suc i"]
  show ?case
  proof (cases "memberOf servers p")
    case None
    then show ?thesis by (auto simp: m All_less_Suc2 expectedMember_def)
  next
    case (Some v)
    then have "expectedMember n servers i p = (rvVoter v = (int i < n))" "leads servers p = rvLeader v"
      by (simp_all add: expectedMember_def leads_def)
    then show ?thesis using Cons.prems Some IH by (auto simp: m All_less_Suc2 Ex_less_Suc2)
  qed
qed auto

text \<open>A three-voter workload, the Raft members of which are led by the second Pod.\<close>

definition voterPod :: "string \<Rightarrow> Pod" where
  "voterPod n = \<lparr> pdMeta = \<lparr> omName = n, omNamespace = ''ns'', omUID = n, omResourceVersion = [], omGeneration = 1, omLabels = [],
       omAnnotations = [], omOwnerReferences = [], omCreationTimestamp = 0, omDeletionTimestamp = None \<rparr>, pdPhase = ''Running'', pdConditions = [],
     pdContainerStatuses = [], pdContainers = [], pdClaims = [], pdInitContainers = [], pdInitContainerStatuses = [],
     pdEphemeralContainers = [], pdEphemeralContainerStatuses = [] \<rparr>"

definition raftMembers :: "RaftServer list" where
  "raftMembers = [\<lparr> rvNodeID = ''a'', rvLeader = False, rvVoter = True \<rparr>, \<lparr> rvNodeID = ''b'', rvLeader = True, rvVoter = True \<rparr>,
     \<lparr> rvNodeID = ''c'', rvLeader = False, rvVoter = True \<rparr>]"

text \<open>
  C29: the Pod the managed restart takes for the leader is the leader: an answer is given exactly when every Pod of
  the workload is a Raft member with the role of its pool (voters first, read replicas after them) and exactly one
  of them, a voter, leads.
\<close>

theorem recovery_leader_exact:
  assumes "\<forall>p \<in> set pods. pdName p \<noteq> []"
  shows "recoveryLeader c pods (Some servers) = Inr l \<longleftrightarrow>
     (\<forall>i < length pods. expectedMember (spReplicas (clSpec c)) servers i (pods ! i))
     \<and> (\<exists>k < length pods. int k < spReplicas (clSpec c) \<and> pdName (pods ! k) = l
          \<and> (\<forall>i < length pods. leads servers (pods ! i) \<longleftrightarrow> i = k))"
  using scanLeader_iff [OF assms, of "spReplicas (clSpec c)" servers 0 "[]" l] by (simp add: recoveryLeader_def)

theorem recovery_leader_exact_witness:
  "recoveryLeader exampleBase (map voterPod [''a'', ''b'', ''c'']) (Some raftMembers) = Inr ''b''
     \<and> map (leads raftMembers) (map voterPod [''a'', ''b'', ''c'']) = [False, True, False]"
proof -
  let ?pods = "map voterPod [''a'', ''b'', ''c'']"
  have p: "\<forall>p \<in> set ?pods. pdName p \<noteq> []" by (simp add: voterPod_def)
  have r: "recoveryLeader exampleBase ?pods (Some raftMembers) = Inr ''b''" by code_simp
  then obtain k where k: "k < 3" "pdName (?pods ! k) = ''b''" "\<forall>i < 3. leads raftMembers (?pods ! i) \<longleftrightarrow> i = k"
    using recovery_leader_exact [OF p, of exampleBase raftMembers "''b''"] by (auto simp: numeral_3_eq_3)
  have "k = 0 \<or> k = 1 \<or> k = 2" using k(1) by arith
  with k(2) have "k = 1" by (elim disjE) (simp_all add: voterPod_def)
  with k(3) have all: "i < 3 \<Longrightarrow> leads raftMembers (?pods ! i) \<longleftrightarrow> i = 1" for i by blast
  show ?thesis using r all [of 0] all [of 1] all [of 2] by simp
qed

section \<open>The order of restarts\<close>

text \<open>
  C30: the managed restart replaces the leader last: the candidate is a Pod not replaced yet, it is the leader only
  when every other Pod is replaced, and there is no candidate exactly when all are.
\<close>

theorem leader_restarts_last:
  "case restartCandidate leader None pairs of
     None \<Rightarrow> \<forall>(q, original) \<in> set pairs. omUID (pdMeta q) \<noteq> rpUID original
   | Some p \<Rightarrow> (\<exists>original. (p, original) \<in> set pairs \<and> omUID (pdMeta p) = rpUID original)
       \<and> (pdName p = leader \<longrightarrow> (\<forall>(q, original) \<in> set pairs. omUID (pdMeta q) = rpUID original \<longrightarrow> pdName q = leader))"
proof -
  let ?open = "\<lambda>(q, original). omUID (pdMeta q) = rpUID original"
  have "case restartCandidate leader found pairs of
      None \<Rightarrow> found = None \<and> (\<forall>x \<in> set pairs. \<not> ?open x)
    | Some p \<Rightarrow> (found = Some p \<or> (\<exists>original. (p, original) \<in> set pairs \<and> omUID (pdMeta p) = rpUID original))
        \<and> (pdName p = leader \<longrightarrow> (\<forall>x \<in> set pairs. ?open x \<longrightarrow> pdName (fst x) = leader)
             \<and> (\<forall>f. found = Some f \<longrightarrow> pdName f = leader))" for found
  proof (induction leader found pairs rule: restartCandidate.induct)
    case (2 leader found p original rest)
    then show ?case by (auto split: option.splits if_splits)
  qed (auto split: option.split)
  from this [of None] show ?thesis by (auto split: option.splits)
qed

theorem leader_restarts_last_witness:
  "let pairs = map (\<lambda>n. (voterPod n, \<lparr> rpName = n, rpUID = n, rpStatefulSetUID = [] \<rparr>)) [''b'', ''c'', ''a''];
       p = voterPod ''c'' in
     restartCandidate ''b'' None pairs = Some p \<and> (p, \<lparr> rpName = ''c'', rpUID = ''c'', rpStatefulSetUID = [] \<rparr>) \<in> set pairs"
proof -
  let ?pairs = "map (\<lambda>n. (voterPod n, \<lparr> rpName = n, rpUID = n, rpStatefulSetUID = [] \<rparr>)) [''b'', ''c'', ''a'']"
  have "restartCandidate ''b'' None ?pairs = Some (voterPod ''c'')" by code_simp
  with leader_restarts_last [where leader = "''b''" and pairs = ?pairs] show ?thesis by (auto simp: Let_def voterPod_def)
qed

section \<open>Decisions and names\<close>

text \<open>
  A restore Job is created exactly on a prepared execution that was read without a contradiction: no failure, no
  unknown state, no Job of an older operator.
\<close>

theorem create_decision_iff_prepared:
  "dcKind (decideRestore st) = restoreDecisionCreateJob \<longleftrightarrow>
     dsFailureMessage st = [] \<and> dsUnknownMessage st = [] \<and> \<not> dsLegacy st \<and> dsExecutionStage st = ExecutionPrepared"
  by (auto simp: decideRestore_def Let_def
      split: RestoreExecutionStage.split restoreJobState.split RestoreExecutionResult.split)

text \<open>The name of a restore Job always fits into a DNS label of 63 bytes, whatever the length of the request's name and of the hash.\<close>

theorem restore_job_name_fits: "length (restoreJobName env r) \<le> 63"
proof -
  have le: "length (trim_right_char c xs) \<le> length xs" for c xs
    using length_dropWhile_le [of _ "rev xs"] by (simp add: trim_right_char_def)
  have "length (trim_right_char c (take (63 - 1 - length ys) xs) @ ''-'' @ ys) \<le> 63" if "length ys \<le> 10" for c xs ys
    using le [of c "take (63 - 1 - length ys) xs"] that by (simp, arith)
  from this [of "take 10 (reSha env (orsName r))"] show ?thesis by (simp add: restoreJobName_def Let_def)
qed

end
