(* ===== verification/Rolling_State.thy ===== *)
theory Rolling_State
  imports BlueGreen_Jobs
begin

text \<open>
  The decisions of the rolling upgrade manager that need no call (\<open>internal/service/upgrade/rolling\<close>): which
  action a reconcile pass takes (\<open>upgrade_state.go\<close>), the next Pod of the rollout (\<open>rollout.go\<close>), the deadlines
  (\<open>timeout.go\<close>), failures (\<open>failure.go\<close>, \<open>upgrade/failure_status.go\<close>), the Pods of the StatefulSet (\<open>helpers.go\<close>)
  and the Pods a retry replaces (\<open>retry.go\<close>).
\<close>

section \<open>Failures of an upgrade\<close>

definition UpgradeFailureReason :: "UpgradeProgress option \<Rightarrow> string" where
  "UpgradeFailureReason progress = (case progress of None \<Rightarrow> []
     | Some u \<Rightarrow> (case upFailure u of None \<Rightarrow> [] | Some f \<Rightarrow> trim_space (ceReason f)))"

definition UpgradeFailureMessage :: "UpgradeProgress option \<Rightarrow> string" where
  "UpgradeFailureMessage progress = (case progress of None \<Rightarrow> []
     | Some u \<Rightarrow> (case upFailure u of None \<Rightarrow> [] | Some f \<Rightarrow> trim_space (ceMessage f)))"

definition UpgradeFailureAt :: "UpgradeProgress option \<Rightarrow> time option" where
  "UpgradeFailureAt progress = (case progress of None \<Rightarrow> None
     | Some u \<Rightarrow> (case upFailure u of None \<Rightarrow> None | Some f \<Rightarrow> ceAt f))"

definition UpgradeFailed :: "UpgradeProgress option \<Rightarrow> bool" where
  "UpgradeFailed progress \<longleftrightarrow> UpgradeFailureReason progress \<noteq> []"

section \<open>The action of a pass\<close>

datatype upgradeAction = upgradeIdle | upgradeStart | upgradeResume | upgradeRetry | upgradeRetarget | upgradeWaitForRetry

record upgradeDecision =
  udAction :: upgradeAction
  udRetryRequest :: string
  udAcknowledgements :: RequestAcknowledgements

abbreviation progressOf :: "Cluster \<Rightarrow> UpgradeProgress option" where
  "progressOf c \<equiv> ssUpgrade (clStatus c)"

definition decideUpgrade :: "Cluster \<Rightarrow> upgradeDecision" where
  "decideUpgrade c =
     (let retryPending = RetryRequestPending (Some c);
          (action, request) = (case progressOf c of
              None \<Rightarrow>
                (if ssCurrentVersion (clStatus c) \<noteq> [] \<and> spVersion (clSpec c) \<noteq> ssCurrentVersion (clStatus c)
                 then upgradeStart else upgradeIdle, [])
            | Some u \<Rightarrow>
                if spVersion (clSpec c) \<noteq> upTargetVersion u then (upgradeRetarget, [])
                else if \<not> UpgradeFailed (Some u) then (upgradeResume, [])
                else if retryPending then (upgradeRetry, RetryRequestValue (Some c))
                else (upgradeWaitForRetry, []))
      in \<lparr> udAction = action, udRetryRequest = request,
           udAcknowledgements = (if retryPending \<and> action \<noteq> upgradeRetry
              then noAcks\<lparr>akRetry := RetryRequestValue (Some c)\<rparr> else noAcks) \<rparr>)"

definition strategyString :: "UpdateStrategyType \<Rightarrow> string" where
  "strategyString s = (case s of RollingUpdate \<Rightarrow> ''RollingUpdate'' | BlueGreen \<Rightarrow> ''BlueGreen'' | OtherStrategy x \<Rightarrow> x)"

definition shouldSkipUpgradeReconcile :: "int \<Rightarrow> Cluster \<Rightarrow> int option" where
  "shouldSkipUpgradeReconcile requeueStandard c =
     (if \<not> ssInitialized (clStatus c) then Some requeueStandard
      else if EffectiveStrategy (Some c) = BlueGreen then Some 0
      else case ssBreakGlass (clStatus c) of
          Some g \<Rightarrow> if gkActive g \<and> spBreakGlassAck (clSpec c) \<noteq> gkNonce g then Some requeueStandard else None
        | None \<Rightarrow> None)"

section \<open>The next Pod of the rollout\<close>

record rolloutTargetPod =
  rtCurrentPartition :: int
  rtNextPartition :: int
  rtOrdinal :: int
  rtName :: string

text \<open>\<open>None\<close>: every Pod has been updated.\<close>

definition nextRolloutTargetPod :: "Cluster \<Rightarrow> go_error + rolloutTargetPod option" where
  "nextRolloutTargetPod c = (case progressOf c of
      None \<Rightarrow> Inl (errorf ''upgrade state is nil'')
    | Some u \<Rightarrow>
        (let currentPartition = upCurrentPartition u in
         if currentPartition = 0 then Inr None
         else let targetOrdinal = int32 (currentPartition - 1) in
           Inr (Some \<lparr> rtCurrentPartition = currentPartition, rtNextPartition = int32 (currentPartition - 1),
                rtOrdinal = targetOrdinal, rtName = StableVoterPodName (Some c) targetOrdinal \<rparr>)))"

definition currentResumeTargetPodName :: "Cluster \<Rightarrow> string" where
  "currentResumeTargetPodName c = (case progressOf c of
      None \<Rightarrow> []
    | Some u \<Rightarrow> if upCurrentPartition u \<le> 0 then [] else StableVoterPodName (Some c) (int32 (upCurrentPartition u - 1)))"

definition requiredQuorum :: "int \<Rightarrow> int" where
  "requiredQuorum replicas = (if replicas < 0 then - ((- replicas) div 2) else replicas div 2) + 1"

definition statefulSetTemplateCurrent :: "StatefulSet \<Rightarrow> Cluster \<Rightarrow> bool" where
  "statefulSetTemplateCurrent sts c \<longleftrightarrow>
     lookup_label (omAnnotations (stMeta sts)) ''openbao.org/cluster-generation'' = int_str (clGeneration c)
     \<and> stObservedGeneration sts \<ge> omGeneration (stMeta sts)"

section \<open>Deadlines\<close>

definition DefaultPodReadyTimeout :: int where "DefaultPodReadyTimeout = seconds (10 * 60)"
definition DefaultHealthCheckTimeout :: int where "DefaultHealthCheckTimeout = seconds 5"
definition DefaultStepDownTimeout :: int where "DefaultStepDownTimeout = seconds 60"

record upgradeTimeoutSpec =
  toDeadline :: int
  toReason :: string
  toMessage :: string
  toError :: string

definition podRevisionTimeout :: "string \<Rightarrow> upgradeTimeoutSpec" where
  "podRevisionTimeout podName = \<lparr> toDeadline = DefaultPodReadyTimeout, toReason = ''PodNotReady'',
     toMessage = ''Pod '' @ podName @ '' failed to become ready within 10m0s'',
     toError = ''pod '' @ podName @ '' did not roll to update revision within 10m0s'' \<rparr>"

definition podReadyTimeout :: "string \<Rightarrow> upgradeTimeoutSpec" where
  "podReadyTimeout podName = \<lparr> toDeadline = DefaultPodReadyTimeout, toReason = ''PodNotReady'',
     toMessage = ''Pod '' @ podName @ '' failed to become ready within 10m0s'',
     toError = ''pod '' @ podName @ '' did not become ready within 10m0s'' \<rparr>"

definition podHealthTimeout :: "string \<Rightarrow> upgradeTimeoutSpec" where
  "podHealthTimeout podName = \<lparr> toDeadline = DefaultPodReadyTimeout + DefaultHealthCheckTimeout,
     toReason = ''HealthCheckFailed'',
     toMessage = ''OpenBao health check failed for pod '' @ podName @ '': timeout'',
     toError = ''OpenBao health check timeout for pod '' @ podName \<rparr>"

definition stepDownTimeout :: "string \<Rightarrow> upgradeTimeoutSpec" where
  "stepDownTimeout podName = \<lparr> toDeadline = DefaultStepDownTimeout, toReason = ''StepDownTimeout'',
     toMessage = ''Leader step-down timed out for pod '' @ podName,
     toError = ''step-down timeout for pod '' @ podName @ '': exceeded 1m0s'' \<rparr>"

section \<open>Recording a failure\<close>

record upgradeFailureDetails =
  fdFirstFailure :: bool
  fdReason :: string
  fdMessage :: string

definition orDefault :: "string \<Rightarrow> string \<Rightarrow> string" where
  "orDefault s d = (if s \<noteq> [] then s else d)"

text \<open>The failure an upgrade already carries is kept; \<open>n\<close> is the time of the call.\<close>

definition resolveUpgradeFailure :: "time \<Rightarrow> string \<Rightarrow> string \<Rightarrow> Cluster \<Rightarrow> upgradeFailureDetails \<times> Cluster" where
  "resolveUpgradeFailure n defaultReason defaultMessage c =
     (let c' = (if progressOf c = None \<or> \<not> UpgradeFailed (progressOf c)
                then mapStatus (SetUpgradeFailed n defaultReason defaultMessage) c else c)
      in (\<lparr> fdFirstFailure = (progressOf c = None \<or> UpgradeFailureAt (progressOf c) = None),
            fdReason = orDefault (UpgradeFailureReason (progressOf c')) defaultReason,
            fdMessage = orDefault (UpgradeFailureMessage (progressOf c')) defaultMessage \<rparr>, c'))"

section \<open>Pods of the StatefulSet\<close>

definition extractOrdinal :: "string \<Rightarrow> int" where
  "extractOrdinal podName =
     (let parts = split_on (CHR ''-'') podName in
      if length parts < 2 then 0 else (case atoi (last parts) of None \<Rightarrow> 0 | Some i \<Rightarrow> i))"

definition isStatefulSetPod :: "string \<Rightarrow> Pod \<Rightarrow> bool" where
  "isStatefulSetPod prefix pod \<longleftrightarrow> lookup_label (pdLabels pod) ''openbao.org/component'' \<noteq> ''backup''
     \<and> (case cut_prefix (pdName pod) prefix of None \<Rightarrow> False
        | Some suffix \<Rightarrow> (case atoi suffix of None \<Rightarrow> False | Some ordinal \<Rightarrow> ordinal \<ge> 0))"

text \<open>Sorted by descending ordinal; the order of equal ordinals, which distinct canonical names exclude, is the listed one.\<close>

definition statefulSetPods :: "string \<Rightarrow> Pod list \<Rightarrow> Pod list" where
  "statefulSetPods prefix pods = sort_key (\<lambda>p. - extractOrdinal (pdName p)) (filter (isStatefulSetPod prefix) pods)"

definition baoContainerImage :: "(string \<times> string) list \<Rightarrow> string" where
  "baoContainerImage containers = (case find (\<lambda>k. fst k = ''openbao'') containers of
      Some k \<Rightarrow> snd k | None \<Rightarrow> (case containers of [] \<Rightarrow> [] | k # _ \<Rightarrow> snd k))"

section \<open>Retry\<close>

definition retryFailureFieldsRemain :: "Cluster \<Rightarrow> bool" where
  "retryFailureFieldsRemain c \<longleftrightarrow> (case progressOf c of None \<Rightarrow> False
     | Some u \<Rightarrow> UpgradeFailed (Some u) \<or> UpgradeFailureMessage (Some u) \<noteq> [] \<or> UpgradeFailureAt (Some u) \<noteq> None
         \<or> upLastStepDownTime u \<noteq> None)"

definition clearUpgradeFailureForRetry :: "time \<Rightarrow> ClusterStatus \<Rightarrow> ClusterStatus" where
  "clearUpgradeFailureForRetry n st = (case ssUpgrade st of None \<Rightarrow> st
     | Some u \<Rightarrow> st\<lparr>ssUpgrade := Some (u\<lparr>upFailure := None, upLastStepDownTime := None, upStartedAt := Some n\<rparr>)\<rparr>)"

text \<open>The target first, then the completed Pods, each valid ordinal once.\<close>

definition addOrdinal :: "int \<Rightarrow> int list \<Rightarrow> int \<Rightarrow> int list" where
  "addOrdinal replicas ordinals i =
     (if i < 0 then ordinals
      else if replicas > 0 \<and> i \<ge> replicas then ordinals
      else if i \<in> set ordinals then ordinals else ordinals @ [i])"

definition retryResetOrdinals :: "Cluster \<Rightarrow> int list" where
  "retryResetOrdinals c = (case progressOf c of None \<Rightarrow> []
     | Some u \<Rightarrow> if upCurrentPartition u \<le> 0 then []
         else foldl (addOrdinal (spReplicas (clSpec c))) [] (int32 (upCurrentPartition u - 1) # upCompletedPods u))"

section \<open>Snapshot Jobs\<close>

definition backupJobName :: "Cluster \<Rightarrow> string" where
  "backupJobName c = ''pre-upgrade-backup-'' @ clName c @ ''-gen'' @ int_str (clGeneration c)"

definition isCurrentAttemptPreUpgradeBackupJobName :: "string \<Rightarrow> string \<Rightarrow> bool" where
  "isCurrentAttemptPreUpgradeBackupJobName name0 expected0 =
     (let name = trim_space name0; expected = trim_space expected0 in
      if name = [] \<or> expected = [] then False
      else if name = expected then True else has_prefix name (expected @ ''-''))"

section \<open>Read replicas and metrics\<close>

definition desiredReadReplicaReplicas :: "Cluster \<Rightarrow> int" where
  "desiredReadReplicaReplicas c = (case spReadReplicas (clSpec c) of None \<Rightarrow> 0 | Some n \<Rightarrow> if n \<le> 0 then 0 else n)"

definition SetRunningProgressMetrics :: "int \<Rightarrow> int \<Rightarrow> int \<Rightarrow> metric list" where
  "SetRunningProgressMetrics replicas completedPods part =
     [SetInProgress True, SetMetricStatus 1, SetTotalPods replicas, SetPodsCompleted completedPods, SetPartition part]"

definition ClearProgressMetrics :: "metric list" where
  "ClearProgressMetrics = [SetPodsCompleted 0, SetTotalPods 0, SetPartition 0]"

definition SetInactiveProgressMetrics :: "metric list" where
  "SetInactiveProgressMetrics = SetInProgress False # ClearProgressMetrics"

definition SetTerminalProgressMetrics :: "int \<Rightarrow> metric list" where
  "SetTerminalProgressMetrics status = SetInactiveProgressMetrics @ [SetMetricStatus status]"

definition inProgressMetrics :: "Cluster \<Rightarrow> metric list" where
  "inProgressMetrics c = (case progressOf c of
      None \<Rightarrow> SetRunningProgressMetrics (spReplicas (clSpec c)) 0 0
    | Some u \<Rightarrow> SetRunningProgressMetrics (spReplicas (clSpec c)) (int (length (upCompletedPods u))) (upCurrentPartition u))"

end
