(* ===== verification/Rolling_Rollout.thy ===== *)
theory Rolling_Rollout
  imports Rolling_State BlueGreen_Reconcile
begin

text \<open>
  The rollout of one Pod by the rolling upgrade manager (\<open>rollout.go\<close>, \<open>rollout_leader.go\<close>, \<open>rollout_wait.go\<close>): read
  whether the Pod is already updated, move leadership away from it, lower the partition of the StatefulSet
  by one, and wait for the new Pod.  Nothing blocks: a condition that does not hold yet answers \<open>False\<close> and the
  next pass tries again; a deadline that has passed marks the upgrade as failed.
\<close>

section \<open>Events, metrics and status writes\<close>

definition emitMetrics :: "metric list \<Rightarrow> unit op" where
  "emitMetrics ms = emitAll (map MetricE ms)"

definition patchStatusSSA :: "env \<Rightarrow> unit op" where
  "patchStatusSSA env =
     (if \<not> eHasAdminOpsMutator env then failwith (errorf ''adminops status mutator is required'')
      else bnd (gets cl) (\<lambda>c.
        wrap_err (wrapf ''failed to apply adminops status plane for rolling upgrade status'')
          (MutateWithReader env (\<lambda>obj. Inr (mapStatus (\<lambda>st. st\<lparr>ssUpgrade := progressOf c\<rparr>) obj)) ForceOwnershipOnConflict)))"

definition patchUpgradeStatus :: "env \<Rightarrow> unit op" where
  "patchUpgradeStatus env = patchStatusSSA env"

definition recordUpgradeFailure :: "env \<Rightarrow> string \<Rightarrow> string \<Rightarrow> string \<Rightarrow> unit op" where
  "recordUpgradeFailure env strategy defaultReason defaultMessage =
     bnd (now env) (\<lambda>n. bnd (gets cl) (\<lambda>c.
     case resolveUpgradeFailure n defaultReason defaultMessage c of (details, c') \<Rightarrow>
     bnd (setCl c') (\<lambda>_.
     bnd (emitMetrics [SetMetricStatus 3]) (\<lambda>_.
     bnd (if fdFirstFailure details
          then bnd (emitMetrics [IncrementFailure]) (\<lambda>_.
               bnd (audit ''UpgradeFailed'' (clusterAuditFields c @ [(''strategy'', strategy), (''reason'', fdReason details)])) (\<lambda>_.
               emitWarningEvent (fdReason details) (''Upgrade failed: '' @ fdMessage details)))
          else ret ()) (\<lambda>_.
     bnd (attempt (patchUpgradeStatus env)) (\<lambda>_. ret ()))))))"

section \<open>Deadlines\<close>

definition failUpgradeIfTimestampTimeout :: "env \<Rightarrow> time option \<Rightarrow> upgradeTimeoutSpec \<Rightarrow> unit op" where
  "failUpgradeIfTimestampTimeout env startedAt timeout = (case startedAt of
      None \<Rightarrow> ret ()
    | Some t \<Rightarrow> bnd (now env) (\<lambda>n.
        if n - t \<le> toDeadline timeout then ret ()
        else bnd (updCl (mapStatus (SetUpgradeFailed n (toReason timeout) (toMessage timeout)))) (\<lambda>_.
             failwith (errorf (toError timeout)))))"

definition failUpgradeIfStartedTimeout :: "env \<Rightarrow> upgradeTimeoutSpec \<Rightarrow> unit op" where
  "failUpgradeIfStartedTimeout env timeout = bnd (gets cl) (\<lambda>c. case progressOf c of
      None \<Rightarrow> ret ()
    | Some u \<Rightarrow> failUpgradeIfTimestampTimeout env (upStartedAt u) timeout)"

section \<open>The partition of the StatefulSet\<close>

definition setStatefulSetPartition :: "env \<Rightarrow> int \<Rightarrow> unit op" where
  "setStatefulSetPartition env part = bnd (gets cl) (\<lambda>c.
     bnd (wrap_err (wrapf ''failed to get StatefulSet'') (getSts env (StableVoterStatefulSetName (Some c)))) (\<lambda>sts.
     if \<not> statefulSetTemplateCurrent sts c
     then failwith (Wrapf '''' [Sentinel ErrPartitionRetry, wrap2 ErrTransientKubernetesAPI
            (errorf (''StatefulSet template has not observed cluster generation '' @ int_str (clGeneration c)))])
     else bnd (attempt (patchPartition env sts part)) (\<lambda>r. case r of
         Inr _ \<Rightarrow> ret ()
       | Inl err \<Rightarrow>
           let w = wrapf ''failed to update StatefulSet partition'' err in
           if is_conflict err
           then failwith (Wrapf '''' [Sentinel ErrPartitionRetry, the (WrapTransientKubernetesAPI (Some w))])
           else failwith w)))"

section \<open>Observing the target Pod\<close>

definition checkPodRevisionUpdated :: "env \<Rightarrow> string \<Rightarrow> bool \<Rightarrow> bool op" where
  "checkPodRevisionUpdated env podName repairStalePod =
     bnd (failUpgradeIfStartedTimeout env (podRevisionTimeout podName)) (\<lambda>_. bnd (gets cl) (\<lambda>c.
     bnd (wrap_err (wrapf ''failed to get StatefulSet while checking pod revision'')
            (getSts env (StableVoterStatefulSetName (Some c)))) (\<lambda>sts.
     let targetRevision = trim_space (stUpdateRevision sts);
         desiredImage = trim_space (baoContainerImage (stContainers sts)) in
     if \<not> statefulSetTemplateCurrent sts c then ret False
     else if targetRevision = [] then ret False
     else bnd (attempt (getPod env podName)) (\<lambda>r. case r of
         Inl err \<Rightarrow> if is_not_found err then ret False
           else failwith (wrapf (''failed to get pod '' @ podName @ '' while checking revision'') err)
       | Inr pod \<Rightarrow>
           if omDeletionTimestamp (pdMeta pod) \<noteq> None then ret False
           else let podRevision = trim_space (lookup_label (pdLabels pod) ''controller-revision-hash'');
                    podImage = trim_space (baoContainerImage (pdContainers pod)) in
             if podRevision \<noteq> targetRevision \<or> (desiredImage \<noteq> [] \<and> podImage \<noteq> desiredImage)
             then (if repairStalePod \<and> desiredImage \<noteq> [] \<and> podImage \<noteq> desiredImage
                   then bnd (attempt (deletePod env pod)) (\<lambda>d. case d of
                       Inr _ \<Rightarrow> ret False
                     | Inl err \<Rightarrow> if is_not_found err then ret False
                         else failwith (wrapf (''failed to delete stale pod '' @ podName @ '' while waiting for revision update'') err))
                   else ret False)
             else ret True))))"

definition podRevisionAlreadyUpdated :: "env \<Rightarrow> string \<Rightarrow> bool op" where
  "podRevisionAlreadyUpdated env podName = checkPodRevisionUpdated env podName False"

definition waitForPodRevisionUpdated :: "env \<Rightarrow> string \<Rightarrow> bool op" where
  "waitForPodRevisionUpdated env podName = checkPodRevisionUpdated env podName True"

definition waitForPodReady :: "env \<Rightarrow> string \<Rightarrow> bool op" where
  "waitForPodReady env podName =
     bnd (failUpgradeIfStartedTimeout env (podReadyTimeout podName)) (\<lambda>_.
     bnd (attempt (getPod env podName)) (\<lambda>r. case r of
       Inl err \<Rightarrow> if is_not_found err then ret False else failwith (wrapf (''failed to get pod '' @ podName) err)
     | Inr pod \<Rightarrow> ret (omDeletionTimestamp (pdMeta pod) = None \<and> isPodReady pod)))"

definition waitForPodHealthy :: "env \<Rightarrow> string \<Rightarrow> bool op" where
  "waitForPodHealthy env podName =
     bnd (failUpgradeIfStartedTimeout env (podHealthTimeout podName)) (\<lambda>_.
     bnd (attempt (LoadClusterCACert env)) (\<lambda>ca. case ca of
       Inl _ \<Rightarrow> ret False
     | Inr caCert \<Rightarrow> bnd (attempt (NewClusterPodClient env podName caCert defaultClientOptions)) (\<lambda>k. case k of
         Inl err \<Rightarrow> if IsTransientConnection (Some err) then ret False
           else failwith (wrapf ''failed to create OpenBao client'' err)
       | Inr cfg \<Rightarrow> bnd (attempt (IsHealthy env cfg)) (\<lambda>h. case h of Inl _ \<Rightarrow> ret False | Inr healthy \<Rightarrow> ret healthy))))"

section \<open>Moving leadership away (rollout\_leader.go)\<close>

definition currentLeaderPodByLabel :: "env \<Rightarrow> string op" where
  "currentLeaderPodByLabel env = bnd (gets cl) (\<lambda>c.
     bnd (wrap_err (wrapf ''failed to list pods'')
            (listPods env [(LabelAppInstance, clName c), (LabelAppName, ''openbao'')])) (\<lambda>pods.
     bnd (lift_res (FindLeaderPodByLabel pods)) (\<lambda>leader. ret (case leader of None \<Rightarrow> [] | Some l \<Rightarrow> l))))"

definition rollingStepDownJobName :: "env \<Rightarrow> Cluster \<Rightarrow> string \<Rightarrow> string" where
  "rollingStepDownJobName env c podName =
     upgradeExecutorJobName (eSha env) (clName c) ActionRollingStepDownLeader podName (StableVoterRevision (Some c)) []"

definition isTargetPodLeader :: "env \<Rightarrow> string \<Rightarrow> bool op" where
  "isTargetPodLeader env podName = IsClusterPodLeader env podName defaultClientOptions"

text \<open>A Job that was read at the start and is older than the step-down deadline fails the upgrade.\<close>

definition failOnStepDownTimeout :: "env \<Rightarrow> Job option \<Rightarrow> string \<Rightarrow> unit op" where
  "failOnStepDownTimeout env job podName = (case job of
      None \<Rightarrow> ret ()
    | Some j \<Rightarrow>
        if omCreationTimestamp (jbMeta j) = 0 then ret ()
        else bnd (attempt (failUpgradeIfTimestampTimeout env (Some (omCreationTimestamp (jbMeta j))) (stepDownTimeout podName))) (\<lambda>r.
          case r of Inr _ \<Rightarrow> ret () | Inl err \<Rightarrow> bnd (emit (StepDownMetricE False)) (\<lambda>_. failwith err)))"

definition recordStepDownPerformed :: "env \<Rightarrow> string \<Rightarrow> bool op" where
  "recordStepDownPerformed env podName = bnd (now env) (\<lambda>n.
     bnd (updCl (mapStatus (SetStepDownPerformed n))) (\<lambda>_. bnd (gets cl) (\<lambda>c.
     bnd (audit ''StepDownCompleted'' (clusterAuditFields c @ [(''pod'', podName)])) (\<lambda>_. ret True))))"

text \<open>After the Job succeeded: the label of the Pod first, then its own answer.\<close>

definition confirmLeadershipMoved :: "env \<Rightarrow> Job option \<Rightarrow> string \<Rightarrow> bool op" where
  "confirmLeadershipMoved env stepDownJob podName =
     bnd (attempt (getPod env podName)) (\<lambda>g. case g of
       Inl _ \<Rightarrow> ret False
     | Inr pod \<Rightarrow> (case ParseBoolLabel (pdLabels pod) ''openbao-active'' of
         Inl _ \<Rightarrow> ret False
       | Inr (stillLeader, present) \<Rightarrow>
           if present \<and> \<not> stillLeader then recordStepDownPerformed env podName
           else bnd (attempt (LoadClusterCACert env)) (\<lambda>ca. case ca of
               Inl _ \<Rightarrow> ret False
             | Inr caCert \<Rightarrow> bnd (attempt (NewClusterPodClient env podName caCert defaultClientOptions)) (\<lambda>k. case k of
                 Inl err \<Rightarrow> if IsTransientConnection (Some err) then ret False
                   else failwith (wrapf ''failed to create OpenBao client while checking leader transfer'' err)
               | Inr cfg \<Rightarrow> bnd (attempt (IsLeader env cfg)) (\<lambda>l. case l of
                   Inl _ \<Rightarrow> ret False
                 | Inr isLeader \<Rightarrow>
                     if \<not> isLeader then recordStepDownPerformed env podName
                     else bnd (failOnStepDownTimeout env stepDownJob podName) (\<lambda>_. ret False))))))"

text \<open>The Job runs, or is created: its result decides.\<close>

definition runStepDownJob :: "env \<Rightarrow> Job option \<Rightarrow> string \<Rightarrow> bool op" where
  "runStepDownJob env stepDownJob podName = bnd (gets cl) (\<lambda>c.
     bnd (wrap_err (wrapf ''failed to ensure step-down Job'')
            (EnsureExecutorJob env ActionRollingStepDownLeader podName (StableVoterRevision (Some c)) [])) (\<lambda>result.
     if jrFailed result
     then bnd (emit (StepDownMetricE False)) (\<lambda>_. failwith (errorf (''step-down Job '' @ jrName result @ '' failed'')))
     else if jrRunning result
     then bnd (failOnStepDownTimeout env stepDownJob podName) (\<lambda>_. ret False)
     else confirmLeadershipMoved env stepDownJob podName))"

definition stepDownLeader :: "env \<Rightarrow> string \<Rightarrow> bool op" where
  "stepDownLeader env podName = bnd (gets cl) (\<lambda>c. case progressOf c of
      None \<Rightarrow> failwith (errorf ''upgrade state is nil'')
    | Some u \<Rightarrow>
        bnd (attempt (readManagedJob env (rollingStepDownJobName env c podName) ''observe rolling step-down'')) (\<lambda>r. case r of
          Inr job \<Rightarrow> runStepDownJob env (Some job) podName
        | Inl err \<Rightarrow>
            if \<not> is_not_found err then failwith (wrapf ''failed to get step-down Job'' err)
            else bnd (attempt (isTargetPodLeader env podName)) (\<lambda>l. case l of
                Inl _ \<Rightarrow> ret False
              | Inr targetIsLeader \<Rightarrow>
                  if \<not> targetIsLeader then ret True
                  else bnd (emit (StepDownMetricE True)) (\<lambda>_.
                       bnd (audit ''StepDown'' (clusterAuditFields c @ [(''pod'', podName),
                              (''target_version'', upTargetVersion u), (''from_version'', upFromVersion u)])) (\<lambda>_.
                       runStepDownJob env None podName)))))"

section \<open>One Pod\<close>

definition targetPodAlreadyRolledOut :: "env \<Rightarrow> rolloutTargetPod \<Rightarrow> bool op" where
  "targetPodAlreadyRolledOut env target =
     bnd (podRevisionAlreadyUpdated env (rtName target)) (\<lambda>revisionUpdated.
     if \<not> revisionUpdated then ret False else waitForPodReady env (rtName target))"

definition ensureTargetPodLeadershipTransferred :: "env \<Rightarrow> rolloutTargetPod \<Rightarrow> bool op" where
  "ensureTargetPodLeadershipTransferred env target = bnd (gets cl) (\<lambda>c.
     if spReplicas (clSpec c) \<le> 1 then ret True
     else bnd (attempt (currentLeaderPodByLabel env)) (\<lambda>r.
       let leaderPodName = (case r of Inl _ \<Rightarrow> [] | Inr l \<Rightarrow> l) in
       if leaderPodName \<noteq> [] \<and> leaderPodName \<noteq> rtName target then ret True
       else stepDownLeader env (rtName target)))"

definition waitForTargetPodRollout :: "env \<Rightarrow> rolloutTargetPod \<Rightarrow> bool op" where
  "waitForTargetPodRollout env target =
     bnd (waitForPodRevisionUpdated env (rtName target)) (\<lambda>revisionUpdated.
     if \<not> revisionUpdated then ret False
     else bnd (waitForPodReady env (rtName target)) (\<lambda>podReady.
       if \<not> podReady then ret False else waitForPodHealthy env (rtName target)))"

definition recordCompletedTargetPodUpgrade :: "env \<Rightarrow> rolloutTargetPod \<Rightarrow> time \<Rightarrow> unit op" where
  "recordCompletedTargetPodUpgrade env target podStartTime =
     bnd (updCl (mapStatus (SetUpgradeProgress (rtNextPartition target) (rtOrdinal target)))) (\<lambda>_.
     bnd (now env) (\<lambda>n. bnd (gets cl) (\<lambda>c. case progressOf c of
       None \<Rightarrow> failwith (Panic ''status.upgrade'')
     | Some u \<Rightarrow> emitMetrics [RecordPodDuration (n - podStartTime) (rtName target),
                   SetPodsCompleted (int (length (upCompletedPods u))), SetPartition (rtNextPartition target)])))"

definition performPodByPodUpgrade :: "env \<Rightarrow> bool op" where
  "performPodByPodUpgrade env = bnd (gets cl) (\<lambda>c. bnd (lift_res (nextRolloutTargetPod c)) (\<lambda>tgt. case tgt of
      None \<Rightarrow> ret True
    | Some target \<Rightarrow>
        bnd (now env) (\<lambda>podStartTime.
        bnd (targetPodAlreadyRolledOut env target) (\<lambda>alreadyRolledOut.
        if alreadyRolledOut
        then bnd (wrap_err (wrapf ''failed to advance partition while resuming rolled-out target'')
                    (setStatefulSetPartition env (rtNextPartition target))) (\<lambda>_.
             bnd (recordCompletedTargetPodUpgrade env target podStartTime) (\<lambda>_.
             ret (rtNextPartition target = 0)))
        else bnd (ensureTargetPodLeadershipTransferred env target) (\<lambda>stepDownComplete.
          if \<not> stepDownComplete then ret False
          else bnd (wrap_err (wrapf ''failed to update partition'')
                      (setStatefulSetPartition env (rtNextPartition target))) (\<lambda>_.
               bnd (waitForTargetPodRollout env target) (\<lambda>rolloutComplete.
               if \<not> rolloutComplete then ret False
               else bnd (recordCompletedTargetPodUpgrade env target podStartTime) (\<lambda>_.
                    ret (rtNextPartition target = 0)))))))))"

end
