(* ===== verification/Rolling_Manager.thy ===== *)
theory Rolling_Manager
  imports Rolling_Rollout
begin

text \<open>
  One reconcile pass of the rolling upgrade manager (\<open>internal/service/upgrade/rolling\<close>): validation
  (\<open>validate.go\<close>, \<open>validate_health.go\<close>), the pre-upgrade snapshot (\<open>snapshot_*.go\<close>), retries (\<open>retry.go\<close>), the read
  replica gate (\<open>read_replicas.go\<close>), preparation and execution (\<open>workflow_*.go\<close>, \<open>lifecycle.go\<close>), the lock and the entry
  point (\<open>manager_workflow.go\<close>, \<open>manager.go\<close>).
\<close>

section \<open>Health (validate\_health.go)\<close>

definition transientClusterState :: "string \<Rightarrow> go_error \<Rightarrow> go_error" where
  "transientClusterState reason e = Reasoned reason (the (WrapTransientClusterState (Some e)))"

definition transientClusterStatef :: "string \<Rightarrow> string \<Rightarrow> go_error" where
  "transientClusterStatef reason m = transientClusterState reason (errorf m)"

definition getClusterPods :: "env \<Rightarrow> Pod list op" where
  "getClusterPods env = bnd (gets cl) (\<lambda>c.
     bnd (listPods env [(LabelAppInstance, clName c), (LabelAppName, ''openbao''), (LabelAppManagedBy, ''openbao-operator'')]) (\<lambda>pods.
     ret (statefulSetPods (StableVoterStatefulSetName (Some c) @ ''-'') pods)))"

definition getUpgradeStatefulSet :: "env \<Rightarrow> StatefulSet op" where
  "getUpgradeStatefulSet env = bnd (gets cl) (\<lambda>c.
     bnd (attempt (getSts env (StableVoterStatefulSetName (Some c)))) (\<lambda>r. case r of
       Inr sts \<Rightarrow> ret sts
     | Inl err \<Rightarrow>
         if is_not_found err
         then failwith (transientClusterStatef ''ClusterNotReady'' ''StatefulSet not found; cluster may not be fully initialized'')
         else failwith (wrapf ''failed to get StatefulSet'' err)))"

record clusterHealthCounts =
  chHealthyPods :: int
  chLeaderCount :: int

definition noteLeader :: "string \<Rightarrow> unit op" where
  "noteLeader podName = updCl (mapStatus (\<lambda>st. st\<lparr>ssActiveLeader := podName\<rparr>))"

text \<open>One Pod of \<open>checkPodHealth\<close>: whether it is healthy and whether it leads, then the rest.\<close>

fun countPodHealth :: "env \<Rightarrow> string \<Rightarrow> Pod list \<Rightarrow> clusterHealthCounts \<Rightarrow> clusterHealthCounts op" where
  "countPodHealth env caCert [] counts = ret counts"
| "countPodHealth env caCert (pod # pods) counts =
     (if pdPhase pod \<noteq> ''Running'' then countPodHealth env caCert pods counts
      else bnd (attempt (NewClusterPodClient env (pdName pod) caCert defaultClientOptions)) (\<lambda>k. case k of
          Inl _ \<Rightarrow> countPodHealth env caCert pods counts
        | Inr cfg \<Rightarrow> bnd (attempt (IsHealthy env cfg)) (\<lambda>h. case h of
            Inl _ \<Rightarrow> countPodHealth env caCert pods counts
          | Inr healthy \<Rightarrow>
              let counts' = (if healthy then counts\<lparr>chHealthyPods := chHealthyPods counts + 1\<rparr> else counts);
                  leads = (\<lambda>isLeader. if isLeader
                    then bnd (noteLeader (pdName pod)) (\<lambda>_.
                         countPodHealth env caCert pods (counts'\<lparr>chLeaderCount := chLeaderCount counts' + 1\<rparr>))
                    else countPodHealth env caCert pods counts')
              in (case ParseBoolLabel (pdLabels pod) ''openbao-active'' of
                    Inl _ \<Rightarrow> countPodHealth env caCert pods counts'
                  | Inr (isLeader, present) \<Rightarrow>
                      if present then leads isLeader
                      else bnd (attempt (IsLeader env cfg)) (\<lambda>l. case l of
                          Inl _ \<Rightarrow> countPodHealth env caCert pods counts'
                        | Inr isLeader' \<Rightarrow> leads isLeader')))))"

definition checkPodHealth :: "env \<Rightarrow> Pod list \<Rightarrow> clusterHealthCounts op" where
  "checkPodHealth env pods =
     bnd (wrap_err (wrapf ''failed to get CA certificate'') (LoadClusterCACert env)) (\<lambda>caCert.
     countPodHealth env caCert pods \<lparr> chHealthyPods = 0, chLeaderCount = 0 \<rparr>)"

definition requireHealthyLeaderQuorum :: "env \<Rightarrow> Pod list \<Rightarrow> clusterHealthCounts op" where
  "requireHealthyLeaderQuorum env pods =
     bnd (wrap_err (wrapf ''failed to check pod health'') (checkPodHealth env pods)) (\<lambda>counts. bnd (gets cl) (\<lambda>c.
     if chHealthyPods counts < requiredQuorum (spReplicas (clSpec c))
     then failwith (transientClusterStatef ''QuorumLost'' ''cluster has lost quorum'')
     else if chLeaderCount counts = 0
     then failwith (transientClusterStatef ''LeaderUnknown'' ''no leader found in cluster'')
     else if chLeaderCount counts > 1
     then failwith (errorf ''multiple leaders detected; possible split-brain'')
     else ret counts))"

definition verifyClusterHealth :: "env \<Rightarrow> unit op" where
  "verifyClusterHealth env = bnd (getUpgradeStatefulSet env) (\<lambda>sts. bnd (gets cl) (\<lambda>c.
     if stReadyReplicas sts \<noteq> spReplicas (clSpec c)
     then failwith (transientClusterStatef ''ClusterNotReady'' ''not all replicas are ready'')
     else bnd (wrap_err (wrapf ''failed to list cluster pods'') (getClusterPods env)) (\<lambda>podList.
       if int (length podList) \<noteq> spReplicas (clSpec c)
       then failwith (transientClusterStatef ''ClusterNotReady'' ''unexpected number of pods'')
       else bnd (requireHealthyLeaderQuorum env podList) (\<lambda>_. ret ()))))"

definition markResumeUpgradeTimeout :: "env \<Rightarrow> string \<Rightarrow> unit op" where
  "markResumeUpgradeTimeout env podName = bnd (gets cl) (\<lambda>c. case progressOf c of
      None \<Rightarrow> ret ()
    | Some _ \<Rightarrow> failUpgradeIfStartedTimeout env (podReadyTimeout (if podName = [] then ''upgrade-target'' else podName)))"

definition ensureResumeReadyReplicaQuorum :: "env \<Rightarrow> string \<Rightarrow> int \<Rightarrow> int \<Rightarrow> unit op" where
  "ensureResumeReadyReplicaQuorum env targetPodName readyReplicas quorumRequired =
     (if readyReplicas \<ge> quorumRequired then ret ()
      else let msg = ''rolling upgrade cannot continue without quorum-ready replicas'' in
        bnd (wrap_err (wrapf msg) (markResumeUpgradeTimeout env targetPodName)) (\<lambda>_.
        failwith (transientClusterStatef ''ClusterNotReady'' msg)))"

definition ensureResumePodQuorum :: "env \<Rightarrow> string \<Rightarrow> int \<Rightarrow> int \<Rightarrow> unit op" where
  "ensureResumePodQuorum env targetPodName podCount quorumRequired =
     (if podCount \<ge> quorumRequired then ret ()
      else let msg = ''rolling upgrade cannot continue with too few cluster pods'' in
        bnd (wrap_err (wrapf msg) (markResumeUpgradeTimeout env targetPodName)) (\<lambda>_.
        failwith (transientClusterStatef ''ClusterNotReady'' msg)))"

definition resumePodReadyBlocker :: "env \<Rightarrow> string \<Rightarrow> go_error \<Rightarrow> unit op" where
  "resumePodReadyBlocker env podName err =
     bnd (wrap_err (wrapf (eErrorText env err)) (markResumeUpgradeTimeout env podName)) (\<lambda>_.
     failwith (transientClusterState ''PodNotReady'' err))"

definition resumePodHealthBlocker :: "env \<Rightarrow> string \<Rightarrow> go_error \<Rightarrow> unit op" where
  "resumePodHealthBlocker env podName err =
     bnd (wrap_err (wrapf (eErrorText env err)) (failUpgradeIfStartedTimeout env (podHealthTimeout podName))) (\<lambda>_.
     failwith (transientClusterState ''HealthCheckFailed'' err))"

text \<open>The Pod the map built from the list holds under a name: the last one listed.\<close>

definition podNamed :: "Pod list \<Rightarrow> string \<Rightarrow> Pod option" where
  "podNamed pods name = find (\<lambda>p. pdName p = name) (rev pods)"

definition verifyOtherPod :: "env \<Rightarrow> string \<Rightarrow> Pod list \<Rightarrow> string \<Rightarrow> string \<Rightarrow> unit op" where
  "verifyOtherPod env caCert pods targetPodName podName = (case podNamed pods podName of
      None \<Rightarrow> resumePodReadyBlocker env podName (errorf (''rolling upgrade cannot continue while non-target pod ''
                @ podName @ '' is missing; current target is '' @ targetPodName))
    | Some pod \<Rightarrow>
        if \<not> isPodReady pod
        then resumePodReadyBlocker env podName (errorf (''rolling upgrade cannot continue while non-target pod ''
               @ podName @ '' is not ready; current target is '' @ targetPodName))
        else bnd (attempt (NewClusterPodClient env podName caCert defaultClientOptions)) (\<lambda>k. case k of
            Inl err \<Rightarrow> resumePodReadyBlocker env podName (wrapf (''rolling upgrade cannot continue while non-target pod ''
                         @ podName @ '' is unavailable'') err)
          | Inr cfg \<Rightarrow> bnd (attempt (IsHealthy env cfg)) (\<lambda>h. case h of
              Inl err \<Rightarrow> resumePodHealthBlocker env podName (wrapf (''rolling upgrade cannot continue while non-target pod ''
                           @ podName @ '' is unhealthy'') err)
            | Inr healthy \<Rightarrow>
                if \<not> healthy
                then resumePodHealthBlocker env podName (errorf (''rolling upgrade cannot continue while non-target pod ''
                       @ podName @ '' is unhealthy; current target is '' @ targetPodName))
                else ret ())))"

fun verifyOtherPods :: "env \<Rightarrow> string \<Rightarrow> Pod list \<Rightarrow> string \<Rightarrow> string list \<Rightarrow> unit op" where
  "verifyOtherPods env caCert pods targetPodName [] = ret ()"
| "verifyOtherPods env caCert pods targetPodName (podName # names) =
     (if podName = targetPodName then verifyOtherPods env caCert pods targetPodName names
      else bnd (verifyOtherPod env caCert pods targetPodName podName) (\<lambda>_.
           verifyOtherPods env caCert pods targetPodName names))"

definition voterPodNames :: "Cluster \<Rightarrow> string list" where
  "voterPodNames c = map (\<lambda>i. StableVoterPodName (Some c) (int i)) [0..<nat (spReplicas (clSpec c))]"

definition verifyNonTargetPodsReadyAndHealthy :: "env \<Rightarrow> Pod list \<Rightarrow> string \<Rightarrow> unit op" where
  "verifyNonTargetPodsReadyAndHealthy env pods targetPodName =
     bnd (wrap_err (wrapf ''failed to get CA certificate'') (LoadClusterCACert env)) (\<lambda>caCert. bnd (gets cl) (\<lambda>c.
     verifyOtherPods env caCert pods targetPodName (voterPodNames c)))"

definition verifyResumeClusterHealth :: "env \<Rightarrow> unit op" where
  "verifyResumeClusterHealth env = bnd (getUpgradeStatefulSet env) (\<lambda>sts. bnd (gets cl) (\<lambda>c.
     let targetPodName = currentResumeTargetPodName c; quorumRequired = requiredQuorum (spReplicas (clSpec c)) in
     bnd (ensureResumeReadyReplicaQuorum env targetPodName (stReadyReplicas sts) quorumRequired) (\<lambda>_.
     bnd (wrap_err (wrapf ''failed to list cluster pods'') (getClusterPods env)) (\<lambda>podList.
     bnd (ensureResumePodQuorum env targetPodName (int (length podList)) quorumRequired) (\<lambda>_.
     bnd (verifyNonTargetPodsReadyAndHealthy env podList targetPodName) (\<lambda>_.
     bnd (requireHealthyLeaderQuorum env podList) (\<lambda>_. ret ())))))))"

definition validateUpgrade :: "env \<Rightarrow> unit op" where
  "validateUpgrade env = bnd (gets cl) (\<lambda>c.
     case ValidateUpgradeTargetVersion (ssCurrentVersion (clStatus c)) (spVersion (clSpec c)) of
       Some err \<Rightarrow> failwith err
     | None \<Rightarrow> (case ValidateImageRefMatchesVersion (eParseReference env) (spVersion (clSpec c)) (spImage (clSpec c)) of
         Some err \<Rightarrow> failwith err
       | None \<Rightarrow> if progressOf c \<noteq> None then verifyResumeClusterHealth env else verifyClusterHealth env))"

section \<open>The pre-upgrade snapshot\<close>

definition rollingSnapshotOptions :: ValidationOptions where
  "rollingSnapshotOptions = \<lparr> voMissingBackupMessage = ''backup configuration is required when preUpgradeSnapshot is enabled'',
     voRequireEndpoint = False, voRequireTokenSecret = True,
     voNetworkErrorMessage = ''hardened profile with pre-upgrade snapshots enabled requires explicit spec.network.egressRules so backup Jobs can reach the object storage endpoint'',
     voAuthenticationMessage = ''backup authentication is required: either jwtAuthRole or tokenSecretRef must be set'' \<rparr>"

definition findExistingPreUpgradeBackupJob :: "env \<Rightarrow> (string \<times> JobState) op" where
  "findExistingPreUpgradeBackupJob env = bnd (gets cl) (\<lambda>c.
     bnd (attempt (readManagedJob env (backupJobName c) ''observe pre-upgrade backup'')) (\<lambda>r. case r of
       Inr job \<Rightarrow> ret (omName (jbMeta job), JobStateFromBatchJob (Some job))
     | Inl err \<Rightarrow> if is_not_found err then ret ([], JobStateNone)
         else failwith (wrapf (''failed to get backup job '' @ backupJobName c) err)))"

text \<open>Jobs of the current attempt must be owned; the failed ones are counted.\<close>

fun countFailedJobs :: "Cluster \<Rightarrow> string \<Rightarrow> Job list \<Rightarrow> go_error + int" where
  "countFailedJobs c expected [] = Inr 0"
| "countFailedJobs c expected (job # jobs) =
     (if \<not> isCurrentAttemptPreUpgradeBackupJobName (omName (jbMeta job)) expected then countFailedJobs c expected jobs
      else case RequireManagedJobOwner ''count failed pre-upgrade backup'' (Some job) (Some (clusterMeta c)) openBaoClusterGVK of
          Some e \<Rightarrow> Inl e
        | None \<Rightarrow> (case countFailedJobs c expected jobs of
            Inl e \<Rightarrow> Inl e | Inr n \<Rightarrow> Inr (if JobFailed (Some job) then n + 1 else n)))"

definition countFailedPreUpgradeBackupJobs :: "env \<Rightarrow> string \<Rightarrow> int op" where
  "countFailedPreUpgradeBackupJobs env expectedJobName = bnd (gets cl) (\<lambda>c.
     bnd (wrap_err (wrapf ''failed to list backup jobs'') (listJobs env [(LabelAppInstance, clName c),
            (LabelAppManagedBy, ''openbao-operator''), (LabelOpenBaoCluster, clName c), (''openbao.org/component'', ''backup''),
            (''openbao.org/backup-type'', ''pre-upgrade'')])) (\<lambda>jobs.
     lift_res (countFailedJobs c expectedJobName jobs)))"

definition deletePreUpgradeBackupJob :: "env \<Rightarrow> string \<Rightarrow> unit op" where
  "deletePreUpgradeBackupJob env jobName =
     bnd (attempt (readManagedJob env jobName ''delete pre-upgrade backup'')) (\<lambda>r. case r of
       Inl err \<Rightarrow> if is_not_found err then ret () else failwith (wrapf ''failed to get job'' err)
     | Inr job \<Rightarrow> wrap_err (wrapf ''failed to delete job'') (ignoreNotFound (deleteJob env job)))"

definition DefaultMaxPreUpgradeBackupRetries :: int where
  "DefaultMaxPreUpgradeBackupRetries = 3"

definition handleFailedPreUpgradeBackupJob :: "env \<Rightarrow> string \<Rightarrow> bool op" where
  "handleFailedPreUpgradeBackupJob env jobName = bnd (gets cl) (\<lambda>c.
     bnd (wrap_err (wrapf ''failed to count failed backup jobs'') (countFailedPreUpgradeBackupJobs env (backupJobName c))) (\<lambda>failedCount.
     if failedCount \<ge> DefaultMaxPreUpgradeBackupRetries
     then bnd (audit ''PreUpgradeSnapshotFailed'' (clusterAuditFields c @ [(''job'', jobName), (''attempts'', int_str failedCount)])) (\<lambda>_.
          bnd (emitWarningEvent ''PreUpgradeSnapshotFailed'' (''Pre-upgrade snapshot failed after '' @ int_str failedCount
                 @ '' attempts; last Job was '' @ jobName)) (\<lambda>_.
          failwith (Reasoned ''PreUpgradeBackupFailed'' (errorf (''pre-upgrade backup failed after '' @ int_str failedCount
                 @ '' attempts (max retries exceeded); manual intervention required'')))))
     else bnd (wrap_err (wrapf (''failed to delete failed backup job '' @ jobName)) (deletePreUpgradeBackupJob env jobName)) (\<lambda>_.
          bnd (audit ''PreUpgradeSnapshotRetry'' (clusterAuditFields c @ [(''job'', jobName),
                 (''attempt'', int_str (failedCount + 1)), (''max_retries'', int_str DefaultMaxPreUpgradeBackupRetries)])) (\<lambda>_.
          ret False))))"

definition recordSuccessfulPreUpgradeBackupJob :: "string \<Rightarrow> unit op" where
  "recordSuccessfulPreUpgradeBackupJob jobName = bnd (gets cl) (\<lambda>c.
     bnd (audit ''PreUpgradeSnapshotCompleted'' (clusterAuditFields c @ [(''job'', jobName)])) (\<lambda>_.
     if progressOf c = None
     then emitNormalEvent ''PreUpgradeSnapshotCompleted'' (''Pre-upgrade snapshot completed successfully with Job '' @ jobName)
     else ret ()))"

definition reconcileExistingPreUpgradeBackupJob :: "env \<Rightarrow> string \<Rightarrow> JobState \<Rightarrow> bool op" where
  "reconcileExistingPreUpgradeBackupJob env jobName jobState =
     ReconcileExistingJob jobState (Some (handleFailedPreUpgradeBackupJob env jobName))
       (Some (bnd (recordSuccessfulPreUpgradeBackupJob jobName) (\<lambda>_. ret True)))"

definition buildPreUpgradeBackupJob :: "env \<Rightarrow> Cluster \<Rightarrow> string \<Rightarrow> string \<Rightarrow> go_error + Job" where
  "buildPreUpgradeBackupJob env c jobName digest = (case eBuildSnapshotJob env c jobName digest [] of
      Inl e \<Rightarrow> Inl (wrapf ''failed to build backup job'' e)
    | Inr job \<Rightarrow> (case PrepareManagedJobOwner (Some job) (Some (clusterMeta c)) (Some openBaoClusterGVK) of
        Inl e \<Rightarrow> Inl (wrapf ''failed to prepare backup Job ownership'' e) | Inr j \<Rightarrow> Inr j))"

definition createPreUpgradeBackupJob :: "env \<Rightarrow> bool op" where
  "createPreUpgradeBackupJob env = bnd (gets cl) (\<lambda>c.
     let jobName = backupJobName c in
     bnd (wrap_err (Reasoned ''PreUpgradeBackupFailed'') (EnsureRuntime env)) (\<lambda>_.
     bnd (wrap_err (Reasoned ''PreUpgradeBackupFailed'') (ResolvePreUpgradeSnapshotExecutorDigest env
            ''PreUpgradeBackupImageVerificationFailed'' ''pre-upgrade backup executor image verification failed'')) (\<lambda>digest.
     bnd (lift_res (buildPreUpgradeBackupJob env c jobName digest)) (\<lambda>job.
     bnd (attempt (createJob env job)) (\<lambda>r. case r of
       Inl err \<Rightarrow>
         if is_already_exists err
         then bnd (wrap_err (wrapf ''pre-upgrade backup Job create collided with an untrusted existing Job'')
                     (readManagedJob env jobName ''use existing pre-upgrade backup'')) (\<lambda>_. ret False)
         else failwith (wrapf ''failed to create backup job'' err)
     | Inr _ \<Rightarrow>
         bnd (audit ''PreUpgradeSnapshotJobCreated'' (clusterAuditFields c @ [(''job'', jobName)])) (\<lambda>_.
         bnd (emitNormalEvent ''PreUpgradeSnapshotJobCreated'' (''Created pre-upgrade snapshot Job '' @ jobName)) (\<lambda>_.
         ret False)))))))"

definition handlePreUpgradeSnapshot :: "env \<Rightarrow> bool op" where
  "handlePreUpgradeSnapshot env = bnd (gets cl) (\<lambda>c.
     if (case spUpgrade (clSpec c) of None \<Rightarrow> True | Some u \<Rightarrow> \<not> ucPreUpgradeSnapshot u) then ret True
     else bnd (ValidatePreUpgradeSnapshotPrerequisites env rollingSnapshotOptions) (\<lambda>_.
       bnd (wrap_err (wrapf ''failed to check for existing pre-upgrade backup job'') (findExistingPreUpgradeBackupJob env)) (\<lambda>(name, jobState).
       if name \<noteq> [] then reconcileExistingPreUpgradeBackupJob env name jobState
       else createPreUpgradeBackupJob env)))"

definition ensurePreUpgradeSnapshotComplete :: "env \<Rightarrow> Result option op" where
  "ensurePreUpgradeSnapshotComplete env = bnd (gets cl) (\<lambda>c.
     if (case spUpgrade (clSpec c) of None \<Rightarrow> True | Some u \<Rightarrow> \<not> ucPreUpgradeSnapshot u) then ret None
     else bnd (handlePreUpgradeSnapshot env) (\<lambda>complete. ret (if complete then None else Some requeueShort)))"

section \<open>Retry of a failed upgrade\<close>

definition cleanupStepDownJobForRetry :: "env \<Rightarrow> unit op" where
  "cleanupStepDownJobForRetry env = bnd (gets cl) (\<lambda>c. case progressOf c of
      None \<Rightarrow> ret ()
    | Some u \<Rightarrow>
        if upCurrentPartition u \<le> 0 then ret ()
        else let targetPod = StableVoterPodName (Some c) (int32 (upCurrentPartition u - 1)) in
          bnd (attempt (readManagedJob env (rollingStepDownJobName env c targetPod) ''delete stale step-down'')) (\<lambda>r. case r of
            Inl err \<Rightarrow> if is_not_found err then ret () else failwith (wrapf ''failed to get step-down Job for retry cleanup'' err)
          | Inr job \<Rightarrow> wrap_err (wrapf ''failed to delete step-down Job for retry cleanup'') (ignoreNotFound (deleteJob env job))))"

definition resetRolloutPodForRetry :: "env \<Rightarrow> StatefulSet \<Rightarrow> int \<Rightarrow> unit op" where
  "resetRolloutPodForRetry env sts ordinal = bnd (gets cl) (\<lambda>c.
     bnd (attempt (getPod env (StableVoterPodName (Some c) ordinal))) (\<lambda>r. case r of
       Inl err \<Rightarrow> if is_not_found err then ret () else failwith (wrapf ''failed to get rollout pod for retry reset'' err)
     | Inr pod \<Rightarrow>
         let podRevision = trim_space (lookup_label (pdLabels pod) ''controller-revision-hash'');
             desiredRevision = trim_space (stUpdateRevision sts);
             podImage = trim_space (baoContainerImage (pdContainers pod));
             desiredImage = trim_space (baoContainerImage (stContainers sts)) in
         if isPodReady pod \<and> \<not> (desiredRevision \<noteq> [] \<and> podRevision \<noteq> desiredRevision)
            \<and> \<not> (desiredImage \<noteq> [] \<and> podImage \<noteq> desiredImage) then ret ()
         else wrap_err (wrapf ''failed to delete rollout pod for retry reset'') (ignoreNotFound (deletePod env pod))))"

fun resetRolloutPods :: "env \<Rightarrow> StatefulSet \<Rightarrow> int list \<Rightarrow> unit op" where
  "resetRolloutPods env sts [] = ret ()"
| "resetRolloutPods env sts (i # is) = bnd (resetRolloutPodForRetry env sts i) (\<lambda>_. resetRolloutPods env sts is)"

definition resetRolloutPodsForRetry :: "env \<Rightarrow> unit op" where
  "resetRolloutPodsForRetry env = bnd (gets cl) (\<lambda>c. case progressOf c of
      None \<Rightarrow> ret ()
    | Some u \<Rightarrow>
        if upCurrentPartition u \<le> 0 then ret ()
        else bnd (attempt (getSts env (StableVoterStatefulSetName (Some c)))) (\<lambda>r. case r of
            Inl err \<Rightarrow> if is_not_found err then ret () else failwith (wrapf ''failed to get StatefulSet for retry pod reset'' err)
          | Inr sts \<Rightarrow>
              let desiredImage = trim_space (baoContainerImage (stContainers sts)); specImage = trim_space (spImage (clSpec c)) in
              if specImage \<noteq> [] \<and> desiredImage \<noteq> specImage
              then failwith (wrap2 ErrTransientKubernetesAPI (errorf (''StatefulSet template still references '' @ desiredImage
                     @ '' while retry target image is '' @ specImage)))
              else resetRolloutPods env sts (retryResetOrdinals c)))"

definition retryMutator :: "time \<Rightarrow> string \<Rightarrow> Cluster \<Rightarrow> Cluster" where
  "retryMutator n retryRequest obj = mapStatus (\<lambda>st. MarkRetryRequestHandled retryRequest (clearUpgradeFailureForRetry n st)) obj"

text \<open>The clock is read once here; the code reads it in each attempt of the write.\<close>

definition patchRetryStatusSSA :: "env \<Rightarrow> string \<Rightarrow> unit op" where
  "patchRetryStatusSSA env retryRequest =
     (if \<not> eHasAdminOpsMutator env then failwith (errorf ''adminops status mutator is required'')
      else bnd (now env) (\<lambda>n.
        bnd (wrap_err (wrapf ''failed to apply cleared retry status'')
               (MutateWithReader env (\<lambda>obj. Inr (retryMutator n retryRequest obj)) ForceOwnership)) (\<lambda>_.
        bnd (gets cl) (\<lambda>c. if retryFailureFieldsRemain c
          then failwith (errorf ''failed to clear failed rolling-upgrade state via SSA'') else ret ()))))"

definition prepareFailedUpgradeRetry :: "env \<Rightarrow> string \<Rightarrow> unit op" where
  "prepareFailedUpgradeRetry env retryRequest = bnd (gets cl) (\<lambda>c. case progressOf c of
      None \<Rightarrow> failwith (Panic ''status.upgrade'')
    | Some u \<Rightarrow>
        bnd (emitNormalEvent ''RollingRetryRequested'' (''Rolling upgrade retry requested for target version '' @ upTargetVersion u)) (\<lambda>_.
        bnd (cleanupStepDownJobForRetry env) (\<lambda>_.
        bnd (resetRolloutPodsForRetry env) (\<lambda>_.
        bnd (wrap_err (wrapf ''failed to clear failed upgrade state for retry'') (patchRetryStatusSSA env retryRequest)) (\<lambda>_.
        bnd (gets cl) (\<lambda>c'. case progressOf c' of
          None \<Rightarrow> ret ()
        | Some u' \<Rightarrow> emitNormalEvent ''RollingRetryAccepted'' (''Rolling upgrade retry accepted for target version '' @ upTargetVersion u')))))))"

section \<open>Read replicas and finalization\<close>

definition isPodHealthyForFinalization :: "env \<Rightarrow> string \<Rightarrow> bool op" where
  "isPodHealthyForFinalization env podName =
     bnd (attempt (LoadClusterCACert env)) (\<lambda>ca. case ca of
       Inl _ \<Rightarrow> ret False
     | Inr caCert \<Rightarrow> bnd (attempt (NewClusterPodClient env podName caCert defaultClientOptions)) (\<lambda>k. case k of
         Inl err \<Rightarrow> if IsTransientConnection (Some err) then ret False
           else failwith (wrapf (''failed to create OpenBao client for finalization health check on pod '' @ podName) err)
       | Inr cfg \<Rightarrow> bnd (attempt (IsHealthy env cfg)) (\<lambda>h. case h of Inl _ \<Rightarrow> ret False | Inr healthy \<Rightarrow> ret healthy)))"

text \<open>Every Pod ready, at the given revision and healthy, in the listed order.\<close>

fun podsConverged :: "env \<Rightarrow> string \<Rightarrow> Pod list \<Rightarrow> bool op" where
  "podsConverged env updateRevision [] = ret True"
| "podsConverged env updateRevision (pod # pods) =
     (if \<not> isPodReady pod then ret False
      else if lookup_label (pdLabels pod) ''controller-revision-hash'' \<noteq> updateRevision then ret False
      else bnd (isPodHealthyForFinalization env (pdName pod)) (\<lambda>healthy.
        if \<not> healthy then ret False else podsConverged env updateRevision pods))"

definition getReadReplicaStatefulSet :: "env \<Rightarrow> StatefulSet op" where
  "getReadReplicaStatefulSet env = bnd (gets cl) (\<lambda>c.
     bnd (attempt (getSts env (ReadReplicaStatefulSetName c))) (\<lambda>r. case r of
       Inr sts \<Rightarrow> ret sts
     | Inl err \<Rightarrow> if is_not_found err
         then failwith (errorf ''read-replica StatefulSet not found while preparing rolling upgrade'')
         else failwith (wrapf ''failed to get read-replica StatefulSet'' err)))"

definition ensureReadReplicaPoolReadyForRollingUpgrade :: "env \<Rightarrow> Result option op" where
  "ensureReadReplicaPoolReadyForRollingUpgrade env = bnd (gets cl) (\<lambda>c.
     let desiredReplicas = desiredReadReplicaReplicas c in
     if desiredReplicas = 0 then ret None
     else bnd (getReadReplicaStatefulSet env) (\<lambda>sts.
       if omGeneration (stMeta sts) > 0 \<and> stObservedGeneration sts < omGeneration (stMeta sts) then ret (Some requeueShort)
       else if stReadyReplicas sts \<noteq> desiredReplicas \<or> stUpdatedReplicas sts \<noteq> desiredReplicas
         \<or> stCurrentRevision sts = [] \<or> stCurrentRevision sts \<noteq> stUpdateRevision sts then ret (Some requeueShort)
       else bnd (wrap_err (wrapf ''failed to list read-replica pods'') (listPods env (ReadReplicaPodSelectorLabels c))) (\<lambda>pods.
         if int (length pods) \<noteq> desiredReplicas then ret (Some requeueShort)
         else bnd (podsConverged env (stUpdateRevision sts) pods) (\<lambda>ok. ret (if ok then None else Some requeueShort)))))"

definition waitForFinalizationConverged :: "env \<Rightarrow> bool op" where
  "waitForFinalizationConverged env = bnd (gets cl) (\<lambda>c.
     bnd (wrap_err (wrapf ''failed to get StatefulSet while checking upgrade convergence'')
            (getSts env (StableVoterStatefulSetName (Some c)))) (\<lambda>sts.
     let part = (case stPartition sts of None \<Rightarrow> 0 | Some p \<Rightarrow> p);
         revisionsConverged = (stReadyReplicas sts = spReplicas (clSpec c) \<and> stUpdatedReplicas sts = spReplicas (clSpec c)
           \<and> stCurrentRevision sts \<noteq> [] \<and> stCurrentRevision sts = stUpdateRevision sts) in
     if revisionsConverged \<and> part \<noteq> 0 \<and> (case progressOf c of None \<Rightarrow> False | Some u \<Rightarrow> upCurrentPartition u = 0)
     then bnd (wrap_err (wrapf ''failed to repair stale StatefulSet partition before finalization'')
                 (setStatefulSetPartition env 0)) (\<lambda>_. ret False)
     else if \<not> (revisionsConverged \<and> part = 0) then ret False
     else bnd (wrap_err (wrapf ''failed to list cluster pods while checking upgrade convergence'') (getClusterPods env)) (\<lambda>pods.
       if int (length pods) \<noteq> spReplicas (clSpec c) then ret False
       else podsConverged env (stUpdateRevision sts) pods)))"

definition patchFinalizedUpgradeStatus :: "env \<Rightarrow> unit op" where
  "patchFinalizedUpgradeStatus env =
     (if \<not> eHasAdminOpsMutator env then failwith (errorf ''adminops status mutator is required'')
      else wrap_err (wrapf ''failed to patch finalized rolling upgrade status'')
             (MutateWithReader env (\<lambda>obj. Inr (mapStatus (\<lambda>st. st\<lparr>ssUpgrade := None\<rparr>) obj)) ForceOwnership))"

section \<open>Preparation (workflow\_prepare.go)\<close>

definition applyUpgradeDecision :: "env \<Rightarrow> upgradeDecision \<Rightarrow> unit op" where
  "applyUpgradeDecision env decision =
     (if udAction decision = upgradeRetarget then updCl (mapStatus ClearUpgrade)
      else if udAction decision = upgradeRetry then prepareFailedUpgradeRetry env (udRetryRequest decision)
      else ret ())"

definition ensureUpgradePrerequisites :: "env \<Rightarrow> unit op" where
  "ensureUpgradePrerequisites env = bnd (gets cl) (\<lambda>c.
     bnd (wrap_err (wrapf ''failed to ensure upgrade ServiceAccount'')
            (callU (\<lambda>tr. eEnsureServiceAccount env tr c) EnsureServiceAccountE)) (\<lambda>_. validateUpgrade env))"

definition persistValidationFailure :: "env \<Rightarrow> go_error \<Rightarrow> unit op" where
  "persistValidationFailure env validationErr = bnd (gets cl) (\<lambda>c.
     if progressOf c = None then ret ()
     else wrap_err (\<lambda>err. Wrapf ''failed to persist rolling upgrade status after validation failure'' [err, validationErr])
            (patchUpgradeStatus env))"

definition handlePreStartUpgradeFailure :: "env \<Rightarrow> go_error \<Rightarrow> 'a op" where
  "handlePreStartUpgradeFailure env cause =
     bnd (persistValidationFailure env cause) (\<lambda>_. bnd (gets cl) (\<lambda>c.
     bnd (ReleaseUpgradeLockOnErrorIfHeld (bgLockApi env) audit c (progressOf c = None) (Some cause)
            ''failed to release upgrade operation lock after pre-start failure'') (\<lambda>(c', e).
     bnd (setCl c') (\<lambda>_. failwith (case e of None \<Rightarrow> cause | Some e \<Rightarrow> e)))))"

definition startUpgradeExecutionIfNeeded :: "env \<Rightarrow> string \<Rightarrow> unit op" where
  "startUpgradeExecutionIfNeeded env strategy = bnd (gets cl) (\<lambda>c.
     if progressOf c \<noteq> None then ret ()
     else let fromVersion = ssCurrentVersion (clStatus c); toVersion = spVersion (clSpec c); replicas = spReplicas (clSpec c) in
       bnd (now env) (\<lambda>n.
       bnd (updCl (mapStatus (SetUpgradeStarted n fromVersion toVersion replicas))) (\<lambda>_.
       bnd (wrap_err (wrapf ''failed to lock StatefulSet partition'') (setStatefulSetPartition env replicas)) (\<lambda>_.
       bnd (wrap_err (wrapf ''failed to update status after initializing upgrade'') (patchUpgradeStatus env)) (\<lambda>_.
       bnd (emitMetrics [IncrementTotal]) (\<lambda>_.
       bnd (gets cl) (\<lambda>c'.
       bnd (audit ''UpgradeStarted'' (UpgradeStartedAuditFields (Some c') strategy fromVersion toVersion)) (\<lambda>_.
       emitNormalEvent ''UpgradeStarted'' (''Upgrade from '' @ fromVersion @ '' to '' @ toVersion @ '' has started'')))))))))"

definition recordInProgressMetrics :: "unit op" where
  "recordInProgressMetrics = bnd (gets cl) (\<lambda>c. emitMetrics (inProgressMetrics c))"

definition prepareUpgradeExecution :: "env \<Rightarrow> string \<Rightarrow> upgradeDecision \<Rightarrow> Result option op" where
  "prepareUpgradeExecution env strategy decision =
     bnd (applyUpgradeDecision env decision) (\<lambda>_.
     bnd (attempt (ensureUpgradePrerequisites env)) (\<lambda>p. case p of
       Inl err \<Rightarrow> handlePreStartUpgradeFailure env err
     | Inr _ \<Rightarrow>
         unless_stop (ensurePreUpgradeSnapshotComplete env)
         (bnd (startUpgradeExecutionIfNeeded env strategy) (\<lambda>_.
          bnd (ensureReadReplicaPoolReadyForRollingUpgrade env) (\<lambda>w.
          bnd recordInProgressMetrics (\<lambda>_. ret w))))))"

section \<open>Execution (workflow\_execute.go)\<close>

definition requeueAfterProgressPatch :: "env \<Rightarrow> string \<Rightarrow> Result op" where
  "requeueAfterProgressPatch env errorMessage =
     bnd (wrap_err (wrapf errorMessage) (patchUpgradeStatus env)) (\<lambda>_. ret requeueShort)"

definition handleUpgradeExecutionFailure :: "env \<Rightarrow> string \<Rightarrow> go_error \<Rightarrow> Result op" where
  "handleUpgradeExecutionFailure env strategy cause =
     bnd (recordUpgradeFailure env strategy ''UpgradeFailed'' (eErrorText env cause)) (\<lambda>_. failwith cause)"

definition finalizeConvergedUpgrade :: "env \<Rightarrow> string \<Rightarrow> Result op" where
  "finalizeConvergedUpgrade env strategy =
     bnd (waitForFinalizationConverged env) (\<lambda>converged.
     if \<not> converged then requeueAfterProgressPatch env ''failed to persist upgrade progress while waiting for convergence''
     else bnd (gets cl) (\<lambda>c. bnd (now env) (\<lambda>n.
       let toVersion = spVersion (clSpec c);
           fromVersion = (case progressOf c of None \<Rightarrow> [] | Some u \<Rightarrow> upFromVersion u);
           duration = (case progressOf c of None \<Rightarrow> 0 | Some u \<Rightarrow> (case upStartedAt u of None \<Rightarrow> 0 | Some t \<Rightarrow> n - t)) in
       bnd (updCl (mapStatus (SetUpgradeComplete toVersion))) (\<lambda>_.
       bnd (wrap_err (wrapf ''failed to update status after completing upgrade'') (patchFinalizedUpgradeStatus env)) (\<lambda>_.
       bnd (emitMetrics ((if duration > 0 then [RecordDuration duration fromVersion toVersion] else [])
              @ SetTerminalProgressMetrics 2 @ [IncrementSuccess])) (\<lambda>_.
       bnd (gets cl) (\<lambda>c'.
       bnd (audit ''UpgradeCompleted'' (UpgradeCompletedAuditFields (Some c') strategy toVersion)) (\<lambda>_.
       bnd (emitNormalEvent ''UpgradeComplete'' (''Upgrade from '' @ fromVersion @ '' to '' @ toVersion @ '' finished successfully'')) (\<lambda>_.
       ret 0)))))))))"

definition reconcileUpgradeExecution :: "env \<Rightarrow> string \<Rightarrow> Result op" where
  "reconcileUpgradeExecution env strategy =
     bnd (attempt (performPodByPodUpgrade env)) (\<lambda>r. case r of
       Inl err \<Rightarrow>
         if errors_is ErrPartitionRetry err
         then bnd (emitWarningEvent ''RollingPartitionRetry'' ''Rolling upgrade partition update will retry in 5s'') (\<lambda>_. ret requeueShort)
         else handleUpgradeExecutionFailure env strategy err
     | Inr completed \<Rightarrow>
         if \<not> completed then requeueAfterProgressPatch env ''failed to update upgrade progress''
         else finalizeConvergedUpgrade env strategy)"

section \<open>The lock and the entry point\<close>

definition handleBlockedUpgradeLock :: "env \<Rightarrow> string \<Rightarrow> go_error \<Rightarrow> Result op" where
  "handleBlockedUpgradeLock env strategy lockErr =
     bnd (emitWarningEvent ''OperationLockBlocked'' ''Upgrade blocked by operation lock'') (\<lambda>_. bnd (gets cl) (\<lambda>c.
     if progressOf c = None then ret (RequeueDelay (eRequeueStandard env) RetryClassLockContention)
     else bnd (recordUpgradeFailure env strategy ''UpgradeFailed'' ''upgrade halted due to concurrent operation lock'') (\<lambda>_.
          failwith (wrapf ''upgrade in progress but operation lock is held by another operation'' lockErr))))"

definition lockMessage :: "Cluster \<Rightarrow> string" where
  "lockMessage c = (case progressOf c of
      None \<Rightarrow> ''upgrade to '' @ spVersion (clSpec c)
    | Some u \<Rightarrow> if upTargetVersion u \<noteq> [] then ''upgrade to '' @ upTargetVersion u @ '' (in progress)''
                else ''upgrade to '' @ spVersion (clSpec c))"

definition acquireUpgradeLock :: "env \<Rightarrow> string \<Rightarrow> Result op" where
  "acquireUpgradeLock env strategy = bnd (gets cl) (\<lambda>c.
     bnd (wrap_err (wrapf ''failed to acquire upgrade operation lock'')
            (AcquireUpgradeLock (bgLockApi env) audit c (lockMessage c))) (\<lambda>(c', blocked).
     bnd (setCl c') (\<lambda>_. case blocked of None \<Rightarrow> ret 0 | Some err \<Rightarrow> handleBlockedUpgradeLock env strategy err)))"

definition ensureUpgradeLock :: "env \<Rightarrow> string \<Rightarrow> upgradeAction \<Rightarrow> Result option op" where
  "ensureUpgradeLock env strategy action =
     (if action = upgradeIdle \<or> action = upgradeWaitForRetry
      then bnd (emitMetrics SetInactiveProgressMetrics) (\<lambda>_.
           bnd (attempt (releaseUpgradeLockIfHeld env)) (\<lambda>r. case r of
             Inl _ \<Rightarrow> ret (Some requeueShort) | Inr _ \<Rightarrow> ret (Some 0)))
      else bnd (acquireUpgradeLock env strategy) (\<lambda>result. ret (if result > 0 then Some result else None)))"

definition rollingReconcile :: "env \<Rightarrow> Result op" where
  "rollingReconcile env = bnd (gets cl) (\<lambda>c. case shouldSkipUpgradeReconcile (eRequeueStandard env) c of
      Some result \<Rightarrow> ret result
    | None \<Rightarrow> (case WrapPermanentConfig (eValidateSealPlugins env c) of
        Some err \<Rightarrow> failwith err
      | None \<Rightarrow>
          let decision = decideUpgrade c; strategy = strategyString (EffectiveStrategy (Some c)) in
          bnd (modify (\<lambda>s. s\<lparr>acks := Merge (acks s) (udAcknowledgements decision)\<rparr>)) (\<lambda>_.
          unless_done (ensureUpgradeLock env strategy (udAction decision))
          (unless_done (prepareUpgradeExecution env strategy decision)
          (reconcileUpgradeExecution env strategy)))))"

text \<open>\<open>Manager.Reconcile\<close>: the result and the acknowledgements, which survive an error.\<close>

definition RollingReconcile :: "env \<Rightarrow> st \<Rightarrow> (go_error + Result) \<times> RequestAcknowledgements \<times> st" where
  "RollingReconcile env s = (case rollingReconcile env (s\<lparr>acks := noAcks\<rparr>) of (r, t) \<Rightarrow> (r, acks t, t))"

end
