(* ===== verification/Rolling_Frames.thy ===== *)
theory Rolling_Frames
  imports Rolling_Manager BlueGreen_Frames
begin

text \<open>
  What the parts of a rolling pass leave alone.  \<open>site\<close> is what identifies the workload a pass works on (names,
  specification, generation, blue/green status).  \<open>calm\<close> excludes the two kinds of calls the safety properties speak
  about, writes of the partition and of the status; \<open>fr V calm\<close> is the frame of everything else.
\<close>

section \<open>Calm calls\<close>

fun calm :: "event \<Rightarrow> bool" where
  "calm (PatchPartitionE _ _ _) = False"
| "calm (ApplyStatusE _ _ _ _ _) = False"
| "calm _ = True"

record site =
  siName :: string
  siNamespace :: string
  siSpec :: ClusterSpec
  siGeneration :: int
  siBlueGreen :: "BlueGreenStatus option"

definition site :: "Cluster \<Rightarrow> site" where
  "site c = \<lparr> siName = clName c, siNamespace = clNamespace c, siSpec = clSpec c, siGeneration = clGeneration c,
     siBlueGreen = blueGreen c \<rparr>"

lemma site_sel:
  assumes "site c = site d"
  shows "clName c = clName d" "clNamespace c = clNamespace d" "clSpec c = clSpec d" "clGeneration c = clGeneration d"
    "blueGreen c = blueGreen d"
  using assms by (simp_all add: site_def)

lemma site_names:
  assumes "site c = site d"
  shows "StableVoterStatefulSetName (Some c) = StableVoterStatefulSetName (Some d)"
    "StableVoterPodName (Some c) i = StableVoterPodName (Some d) i"
    "ClusterPodURL c p = ClusterPodURL d p" "voterPodNames c = voterPodNames d"
    "statefulSetTemplateCurrent x c = statefulSetTemplateCurrent x d"
  using site_sel [OF assms]
  by (simp_all add: StableVoterPodName_def StableVoterStatefulSetName_def StableVoterRevision_def
      ClusterPodURL_def ClusterPodURLForService_def voterPodNames_def statefulSetTemplateCurrent_def Let_def)

text \<open>\<open>upd\<close> is a view that status fields other than the blue/green status do not belong to.\<close>

lemma site_mapStatus [simp]: "(\<And>st. ssBlueGreen (f st) = ssBlueGreen st) \<Longrightarrow> site (mapStatus f c) = site c"
  by (simp add: site_def)

lemma calm_calls [simp, intro]:
  "keeps (fr V calm) (getJob env n)" "keeps (fr V calm) (createJob env j)" "keeps (fr V calm) (deleteJob env j)"
  "keeps (fr V calm) (getSts env n)" "keeps (fr V calm) (listPods env sel)" "keeps (fr V calm) (listJobs env sel)"
  "keeps (fr V calm) (getCluster env)" "keeps (fr V calm) (audit ty flds)" "keeps (fr V calm) (emitNormalEvent a b)"
  "keeps (fr V calm) (emitWarningEvent a b)" "keeps (fr V calm) (getPod env n)" "keeps (fr V calm) (deletePod env p)"
  "keeps (fr V calm) (getSecret env n)"
  "keeps (fr V calm) (LoadClusterCACert env)" "keeps (fr V calm) (NewClusterPodClient env n ca opts)"
  "keeps (fr V calm) (IsLeader env cfg)" "keeps (fr V calm) (IsHealthy env cfg)"
  by (auto simp: getJob_def createJob_def deleteJob_def getSts_def listPods_def listJobs_def getCluster_def audit_def
      emitNormalEvent_def emitWarningEvent_def getPod_def deletePod_def getSecret_def intro!: keeps_fr_call)

lemma calm_emit [simp, intro]: "calm e \<Longrightarrow> keeps (fr V calm) (emit e)"
  by (rule keeps_fr_call)

lemma calm_emitMetrics [simp, intro]: "keeps (fr V calm) (emitMetrics ms)"
proof -
  have "keeps (fr V calm) (emitAll es)" if "list_all calm es" for es
    using that by (induction es) auto
  then show ?thesis by (simp add: emitMetrics_def list_all_iff)
qed

lemma calm_IsClusterPodLeader [simp, intro]: "keeps (fr V calm) (IsClusterPodLeader env n opts)"
  unfolding IsClusterPodLeader_def by auto

lemma calm_readManagedJob [simp, intro]: "keeps (fr V calm) (readManagedJob env n a)"
  unfolding readManagedJob_def ReadManagedJob_def by (auto split: option.split)

lemma calm_verify [simp, intro]: "keeps (fr V calm) (VerifyOperatorImageDigest env i r p)"
  unfolding VerifyOperatorImageDigest_def by (auto intro!: keeps_fr_call split: sum.split)

lemma calm_EnsureExecutorJob [simp, intro]: "keeps (fr V calm) (EnsureExecutorJob env a r b g)"
  unfolding EnsureExecutorJob_def ensureUpgradeExecutorJob_def Let_def by (auto split: sum.split)

lemma calm_ignoreNotFound [intro!]: "keeps (fr V calm) m \<Longrightarrow> keeps (fr V calm) (ignoreNotFound m)"
  unfolding ignoreNotFound_def by (auto split: sum.split)

section \<open>The parts of a pass that only read\<close>

lemma calm_getters [simp, intro]:
  "keeps (fr V calm) (getClusterPods env)" "keeps (fr V calm) (getUpgradeStatefulSet env)"
  "keeps (fr V calm) (getReadReplicaStatefulSet env)" "keeps (fr V calm) (currentLeaderPodByLabel env)"
  "keeps (fr V calm) (isTargetPodLeader env n)" "keeps (fr V calm) (isPodHealthyForFinalization env n)"
  unfolding getClusterPods_def getUpgradeStatefulSet_def getReadReplicaStatefulSet_def currentLeaderPodByLabel_def
    isTargetPodLeader_def isPodHealthyForFinalization_def
  by (auto split: sum.split)

lemma calm_podsConverged [simp, intro]: "keeps (fr V calm) (podsConverged env r pods)"
  by (induction pods) auto

lemma calm_readReplicas [simp, intro]: "keeps (fr V calm) (ensureReadReplicaPoolReadyForRollingUpgrade env)"
  unfolding ensureReadReplicaPoolReadyForRollingUpgrade_def Let_def by auto

lemma calm_noteLeader [simp, intro]: "(\<And>c. V (mapStatus (\<lambda>st. st\<lparr>ssActiveLeader := n\<rparr>) c) = V c) \<Longrightarrow> keeps (fr V calm) (noteLeader n)"
  unfolding noteLeader_def by (rule keeps_fr_upd)

lemma calm_countPodHealth [intro]:
  assumes "\<And>n c. V (mapStatus (\<lambda>st. st\<lparr>ssActiveLeader := n\<rparr>) c) = V c"
  shows "keeps (fr V calm) (countPodHealth env ca pods counts)"
  by (induction pods arbitrary: counts) (auto simp: Let_def assms split: sum.split prod.split)

lemma calm_checkPodHealth [intro]:
  assumes "\<And>n c. V (mapStatus (\<lambda>st. st\<lparr>ssActiveLeader := n\<rparr>) c) = V c"
  shows "keeps (fr V calm) (checkPodHealth env pods)" "keeps (fr V calm) (requireHealthyLeaderQuorum env pods)"
  unfolding checkPodHealth_def requireHealthyLeaderQuorum_def
  by (auto intro!: calm_countPodHealth assms)

lemma calm_snapshot [simp, intro]: "keeps (fr V calm) (ensurePreUpgradeSnapshotComplete env)"
  unfolding ensurePreUpgradeSnapshotComplete_def handlePreUpgradeSnapshot_def ValidatePreUpgradeSnapshotPrerequisites_def
    EnsureBackupTokenSecretExists_def findExistingPreUpgradeBackupJob_def reconcileExistingPreUpgradeBackupJob_def
    ReconcileExistingJob_def handleFailedPreUpgradeBackupJob_def countFailedPreUpgradeBackupJobs_def deletePreUpgradeBackupJob_def
    recordSuccessfulPreUpgradeBackupJob_def createPreUpgradeBackupJob_def EnsureRuntime_def
    ResolvePreUpgradeSnapshotExecutorDigest_def Let_def
  by (auto intro!: keeps_fr_call split: option.split sum.split prod.split JobState.split)

lemma calm_resetPods [simp, intro]: "keeps (fr V calm) (resetRolloutPods env sts is)"
proof -
  have "keeps (fr V calm) (resetRolloutPodForRetry env sts i)" for i
    unfolding resetRolloutPodForRetry_def Let_def by (auto split: sum.split)
  then show ?thesis by (induction "is") auto
qed

lemma calm_retryCleanup [simp, intro]:
  "keeps (fr V calm) (cleanupStepDownJobForRetry env)" "keeps (fr V calm) (resetRolloutPodsForRetry env)"
  unfolding cleanupStepDownJobForRetry_def resetRolloutPodsForRetry_def Let_def
  by (auto split: option.split sum.split)

section \<open>Deadlines and step-down\<close>

text \<open>A deadline writes only the failure of the progress record.\<close>

definition faultless :: "(Cluster \<Rightarrow> 'v) \<Rightarrow> bool" where
  "faultless V \<longleftrightarrow> (\<forall>c n r m. V (mapStatus (SetUpgradeFailed n r m) c) = V c)
     \<and> (\<forall>c n. V (mapStatus (SetStepDownPerformed n) c) = V c)
     \<and> (\<forall>c n. V (mapStatus (\<lambda>st. st\<lparr>ssActiveLeader := n\<rparr>) c) = V c)"

lemma faultless_site [simp, intro]: "faultless site"
  by (auto simp: faultless_def SetUpgradeFailed_def SetStepDownPerformed_def Let_def intro!: site_mapStatus split: option.split)

lemma calm_deadlines [intro]:
  assumes "faultless V"
  shows "keeps (fr V calm) (failUpgradeIfTimestampTimeout env t spec)" "keeps (fr V calm) (failUpgradeIfStartedTimeout env spec)"
  using assms unfolding failUpgradeIfTimestampTimeout_def failUpgradeIfStartedTimeout_def
  by (auto simp: faultless_def intro!: keeps_fr_upd split: option.split)

lemma calm_health [intro]:
  assumes "faultless V"
  shows "keeps (fr V calm) (resumePodReadyBlocker env n e)" "keeps (fr V calm) (resumePodHealthBlocker env n e)"
    "keeps (fr V calm) (markResumeUpgradeTimeout env n)"
  using assms unfolding resumePodReadyBlocker_def resumePodHealthBlocker_def markResumeUpgradeTimeout_def
  by (auto split: option.split)

lemma calm_verifyOtherPods [intro]:
  assumes "faultless V" shows "keeps (fr V calm) (verifyOtherPods env ca pods tgt names)"
proof -
  have "keeps (fr V calm) (verifyOtherPod env ca pods tgt n)" for n
    using assms unfolding verifyOtherPod_def by (auto intro!: calm_health split: option.split sum.split)
  then show ?thesis by (induction names) auto
qed

lemma calm_validateUpgrade [intro]:
  assumes "faultless V" shows "keeps (fr V calm) (validateUpgrade env)"
  using assms unfolding validateUpgrade_def verifyResumeClusterHealth_def verifyClusterHealth_def
    ensureResumeReadyReplicaQuorum_def ensureResumePodQuorum_def verifyNonTargetPodsReadyAndHealthy_def Let_def
  by (auto simp: faultless_def intro!: calm_checkPodHealth calm_verifyOtherPods calm_health split: option.split)

lemma calm_stepDown [intro]:
  assumes "faultless V" shows "keeps (fr V calm) (stepDownLeader env n)"
proof -
  have 1: "keeps (fr V calm) (failOnStepDownTimeout env j n)" for j
    using assms unfolding failOnStepDownTimeout_def by (auto split: option.split sum.split)
  have 2: "keeps (fr V calm) (recordStepDownPerformed env n)"
    using assms unfolding recordStepDownPerformed_def by (auto simp: faultless_def intro!: keeps_fr_upd)
  have 3: "keeps (fr V calm) (confirmLeadershipMoved env j n)" for j
    unfolding confirmLeadershipMoved_def using 1 2 by (auto split: option.split sum.split prod.split)
  have 4: "keeps (fr V calm) (runStepDownJob env j n)" for j
    unfolding runStepDownJob_def using 1 3 by auto
  show ?thesis unfolding stepDownLeader_def using 4 by (auto split: option.split sum.split)
qed

lemma calm_rollout [intro]:
  assumes "faultless V"
  shows "keeps (fr V calm) (targetPodAlreadyRolledOut env t)" "keeps (fr V calm) (waitForTargetPodRollout env t)"
    "keeps (fr V calm) (ensureTargetPodLeadershipTransferred env t)"
proof -
  have 1: "keeps (fr V calm) (checkPodRevisionUpdated env n b)" for n b
    using assms unfolding checkPodRevisionUpdated_def Let_def by (auto split: option.split sum.split)
  have 2: "keeps (fr V calm) (waitForPodReady env n)" "keeps (fr V calm) (waitForPodHealthy env n)" for n
    using assms unfolding waitForPodReady_def waitForPodHealthy_def by (auto split: option.split sum.split)
  show "keeps (fr V calm) (targetPodAlreadyRolledOut env t)" "keeps (fr V calm) (waitForTargetPodRollout env t)"
    "keeps (fr V calm) (ensureTargetPodLeadershipTransferred env t)"
    using assms 1 2 calm_stepDown [OF assms] unfolding targetPodAlreadyRolledOut_def waitForTargetPodRollout_def podRevisionAlreadyUpdated_def
      waitForPodRevisionUpdated_def ensureTargetPodLeadershipTransferred_def Let_def
    by (auto split: sum.split)
qed

section \<open>The lock\<close>

text \<open>The lock operations make no status write the properties speak of; in memory they change the lock alone.\<close>

lemma calm_lockAttempt [simp, intro]: "keeps (fr V calm) (lockAttempt (bgLockApi env) ns n mutate)"
  unfolding lockAttempt_def bgLockApi_def
  by (auto simp: getCluster_def intro!: keeps_fr_call split: prod.split)

lemma calm_mutateLock [simp, intro]: "keeps (fr V calm) (mutateOperationLockStatus (bgLockApi env) c mutate)"
  unfolding mutateOperationLockStatus_def MutateAndPatchLockStatus_def by (auto split: prod.split)

lemma calm_release [simp, intro]: "keeps (fr V calm) (ReleaseUpgradeLockIfHeld (bgLockApi env) audit (Some c))"
  unfolding ReleaseUpgradeLockIfHeld_def ReleaseUpgradeOperationLock_def ReleaseWithReader_def
  by (auto split: sum.split option.split)

lemma calm_acquire [simp, intro]: "keeps (fr V calm) (AcquireUpgradeLock (bgLockApi env) audit c msg)"
  unfolding AcquireUpgradeLock_def AcquireUpgradeOperationLock_def AcquireWithReader_def AcquireWithReaderResult_def Let_def
  by (auto split: sum.split option.split prod.split)

lemma calm_releaseOnError [simp, intro]:
  "keeps (fr V calm) (ReleaseUpgradeLockOnErrorIfHeld (bgLockApi env) audit c b e m)"
  unfolding ReleaseUpgradeLockOnErrorIfHeld_def by (auto split: sum.split option.split)

lemma yields_releaseOnError:
  "yields (\<lambda>p. unlocked (fst p) = unlocked c) (ReleaseUpgradeLockOnErrorIfHeld api audit c b e m)"
  unfolding ReleaseUpgradeLockOnErrorIfHeld_def
  by (cases e) (auto intro!: yields_use [OF yields_attempt [OF yields_release [where c = c]]] split: sum.splits)

lemma calm_releaseUpgradeLock [simp, intro]: "keeps (fr unlocked calm) (releaseUpgradeLockIfHeld env)"
  by (rule keepsI) (simp add: releaseUpgradeLockIfHeld_def wps,
      rule wp_keeps_yields [OF calm_release yields_release], auto simp: fr_def wps)

text \<open>What is left when the lock and the resource version are erased decides the site and the progress.\<close>

lemma unlocked_rolling:
  assumes "unlocked c = unlocked d" shows "site c = site d" "progressOf c = progressOf d"
proof -
  have "site (unlocked x) = site x" "progressOf (unlocked x) = progressOf x" for x
    by (simp_all add: unlocked_def site_def setOperationLock_def)
  with assms show "site c = site d" "progressOf c = progressOf d" by metis+
qed

end
