(* ===== verification/Rolling_Safety.thy ===== *)
theory Rolling_Safety
  imports Rolling_Frames
begin

text \<open>
  What a rolling pass must have observed before it writes.  \<open>vet\<close> says when a write of the partition or of the
  progress record is justified by the events of the pass before it, \<open>guarded\<close> that every event of a trace is.
  \<open>sound\<close> is the invariant of a pass; \<open>at\<close> adds the recorded partition and the events seen so far, which the proofs
  accumulate step by step.
\<close>

section \<open>Progress records\<close>

text \<open>The completed Pods are the ordinals from the start of the upgrade down to the current partition.\<close>

definition progressOK :: "UpgradeProgress option \<Rightarrow> bool" where
  "progressOK progress = (case progress of None \<Rightarrow> True
     | Some u \<Rightarrow> 0 \<le> upCurrentPartition u \<and> upCurrentPartition u < 2 ^ 31
         \<and> upCompletedPods u = map (\<lambda>k. upCurrentPartition u + int k) (rev [0..<length (upCompletedPods u)]))"

abbreviation partitionOf :: "Cluster \<Rightarrow> int option" where
  "partitionOf c \<equiv> map_option upCurrentPartition (progressOf c)"

lemma progressOK_advance:
  assumes "progressOK (ssUpgrade st)" and "ssUpgrade st = Some u" and "0 < upCurrentPartition u"
  shows "progressOK (ssUpgrade (SetUpgradeProgress (upCurrentPartition u - 1) (upCurrentPartition u - 1) st))"
proof -
  have "[0..<Suc n] = 0 # map Suc [0..<n]" for n :: nat
    by (subst map_Suc_upt) (simp only: upt_conv_Cons)
  then have "map f (rev [0..<Suc n]) = map (\<lambda>k. f (Suc k)) (rev [0..<n]) @ [f 0]" for f :: "nat \<Rightarrow> int" and n
    by (simp add: rev_map comp_def)
  then show ?thesis using assms
    by (simp add: progressOK_def SetUpgradeProgress_def algebra_simps del: upt_Suc)
qed

lemma progressOK_others:
  "progressOK (ssUpgrade st) \<Longrightarrow> progressOK (ssUpgrade (SetUpgradeFailed n r m st))"
  "progressOK (ssUpgrade st) \<Longrightarrow> progressOK (ssUpgrade (SetStepDownPerformed n st))"
  "progressOK (ssUpgrade st) \<Longrightarrow> progressOK (ssUpgrade (clearUpgradeFailureForRetry n st))"
  by (auto simp: progressOK_def SetUpgradeFailed_def SetStepDownPerformed_def clearUpgradeFailureForRetry_def
      emptyUpgradeProgress_def Let_def split: option.split)

section \<open>Evidence\<close>

abbreviation voterURL :: "Cluster \<Rightarrow> int \<Rightarrow> string" where
  "voterURL c i \<equiv> ClusterPodURL c (StableVoterPodName (Some c) i)"

abbreviation voterSet :: "Cluster \<Rightarrow> string" where
  "voterSet c \<equiv> StableVoterStatefulSetName (Some c)"

text \<open>Every voter but the target answered that it is healthy.\<close>

definition othersHealthy :: "Cluster \<Rightarrow> int \<Rightarrow> event set \<Rightarrow> bool" where
  "othersHealthy c i X \<longleftrightarrow> (\<forall>j. 0 \<le> j \<and> j < spReplicas (clSpec c) \<and> j \<noteq> i \<longrightarrow> IsHealthyE (voterURL c j) (Inr True) \<in> X)"

text \<open>The StatefulSet reported every replica ready.\<close>

definition allReady :: "Cluster \<Rightarrow> event set \<Rightarrow> bool" where
  "allReady c X \<longleftrightarrow> (\<exists>sts. GetStsE (voterSet c) (Inr sts) \<in> X \<and> stReadyReplicas sts = spReplicas (clSpec c))"

text \<open>Another Pod is the leader: by the labels, by the Pod's own label, or by its own answer.\<close>

definition leaderElsewhere :: "Cluster \<Rightarrow> int \<Rightarrow> event set \<Rightarrow> bool" where
  "leaderElsewhere c i X \<longleftrightarrow>
     (\<exists>sel pods l. ListPodsE sel (Inr pods) \<in> X \<and> FindLeaderPodByLabel pods = Inr (Some l) \<and> l \<noteq> StableVoterPodName (Some c) i)
   \<or> (\<exists>pod. GetPodE (StableVoterPodName (Some c) i) (Inr pod) \<in> X
        \<and> ParseBoolLabel (pdLabels pod) ''openbao-active'' = Inr (False, True))
   \<or> IsLeaderE (voterURL c i) (Inr False) \<in> X"

text \<open>The target already runs the update revision of the current template and is ready.\<close>

definition alreadyRolled :: "Cluster \<Rightarrow> int \<Rightarrow> event set \<Rightarrow> bool" where
  "alreadyRolled c i X \<longleftrightarrow> (\<exists>sts pod pod'. GetStsE (voterSet c) (Inr sts) \<in> X \<and> statefulSetTemplateCurrent sts c
     \<and> GetPodE (StableVoterPodName (Some c) i) (Inr pod) \<in> X
     \<and> trim_space (lookup_label (pdLabels pod) ''controller-revision-hash'') = trim_space (stUpdateRevision sts)
     \<and> GetPodE (StableVoterPodName (Some c) i) (Inr pod') \<in> X \<and> isPodReady pod')"

definition templateSeen :: "Cluster \<Rightarrow> event set \<Rightarrow> bool" where
  "templateSeen c X \<longleftrightarrow> (\<exists>sts. GetStsE (voterSet c) (Inr sts) \<in> X \<and> statefulSetTemplateCurrent sts c)"

definition mayLower :: "Cluster \<Rightarrow> int \<Rightarrow> event set \<Rightarrow> bool" where
  "mayLower c q X \<longleftrightarrow> 0 < q \<and> templateSeen c X \<and> (othersHealthy c (q - 1) X \<or> allReady c X)
     \<and> (spReplicas (clSpec c) \<le> 1 \<or> alreadyRolled c (q - 1) X \<or> leaderElsewhere c (q - 1) X)"

definition revisionsConverged :: "Cluster \<Rightarrow> StatefulSet \<Rightarrow> bool" where
  "revisionsConverged c sts \<longleftrightarrow> stReadyReplicas sts = spReplicas (clSpec c) \<and> stUpdatedReplicas sts = spReplicas (clSpec c)
     \<and> stCurrentRevision sts \<noteq> [] \<and> stCurrentRevision sts = stUpdateRevision sts"

text \<open>Every voter Pod is listed, ready, at the update revision and healthy, and the partition is zero.\<close>

definition converged :: "Cluster \<Rightarrow> event set \<Rightarrow> bool" where
  "converged c X \<longleftrightarrow> (\<exists>sts sel pods. GetStsE (voterSet c) (Inr sts) \<in> X \<and> revisionsConverged c sts
     \<and> (stPartition sts = None \<or> stPartition sts = Some 0)
     \<and> ListPodsE sel (Inr pods) \<in> X
     \<and> (let voters = statefulSetPods (voterSet c @ ''-'') pods in
        int (length voters) = spReplicas (clSpec c)
        \<and> (\<forall>p\<in>set voters. isPodReady p \<and> lookup_label (pdLabels p) ''controller-revision-hash'' = stUpdateRevision sts
             \<and> IsHealthyE (ClusterPodURL c (pdName p)) (Inr True) \<in> X)))"

text \<open>
  The partition a pass works from: the recorded one, the one read back by a retry, or all replicas when the upgrade
  starts over.
\<close>

definition inForce :: "Cluster \<Rightarrow> int \<Rightarrow> event set \<Rightarrow> bool" where
  "inForce c q X = (case udAction (decideUpgrade c) of
      upgradeResume \<Rightarrow> partitionOf c = Some q
    | upgradeRetry \<Rightarrow> (\<exists>d. GetClusterE (Inr d) \<in> X \<and> (partitionOf d = Some q \<or> progressOf d = None \<and> q = spReplicas (clSpec c)))
    | upgradeStart \<Rightarrow> q = spReplicas (clSpec c)
    | upgradeRetarget \<Rightarrow> q = spReplicas (clSpec c)
    | _ \<Rightarrow> False)"

definition partitionJustified :: "Cluster \<Rightarrow> event list \<Rightarrow> int \<Rightarrow> bool" where
  "partitionJustified c past p \<longleftrightarrow>
     (p = spReplicas (clSpec c) \<and> udAction (decideUpgrade c) \<noteq> upgradeResume)
   \<or> (p = 0 \<and> (\<exists>sts. GetStsE (voterSet c) (Inr sts) \<in> set past \<and> revisionsConverged c sts))
   \<or> (inForce c (p + 1) (set past) \<and> mayLower c (p + 1) (set past))"

definition clearingJustified :: "Cluster \<Rightarrow> event list \<Rightarrow> bool" where
  "clearingJustified c past \<longleftrightarrow> converged c (set past) \<or> (\<exists>d. GetClusterE (Inr d) \<in> set past \<and> progressOf d = None)"

fun vet :: "Cluster \<Rightarrow> event list \<Rightarrow> event \<Rightarrow> bool" where
  "vet c past (PatchPartitionE _ p _) = partitionJustified c past p"
| "vet c past (ApplyStatusE _ u _ _ _) = (progressOK u \<and> (u = None \<longrightarrow> clearingJustified c past))"
| "vet c past _ = True"

text \<open>The progress record of every status write has the right form.\<close>

fun progressTyped :: "event \<Rightarrow> bool" where
  "progressTyped (ApplyStatusE _ u _ _ _) = progressOK u"
| "progressTyped _ = True"

lemma vet_typed: "vet c past e \<Longrightarrow> progressTyped e"
  by (cases e) auto

fun guarded :: "(event list \<Rightarrow> event \<Rightarrow> bool) \<Rightarrow> event list \<Rightarrow> event list \<Rightarrow> bool" where
  "guarded G past [] = True"
| "guarded G past (e # es) = (G past e \<and> guarded G (past @ [e]) es)"

lemma guarded_append [simp]: "guarded G past (xs @ ys) \<longleftrightarrow> guarded G past xs \<and> guarded G (past @ xs) ys"
  by (induction xs arbitrary: past) auto

lemma guarded_mono: "guarded G past es \<Longrightarrow> (\<And>past e. G past e \<Longrightarrow> H past e) \<Longrightarrow> guarded H past es"
  by (induction es arbitrary: past) auto

lemma guarded_typed: "guarded (vet c) past es \<Longrightarrow> list_all progressTyped es"
  by (induction es arbitrary: past) (auto simp: vet_typed)

lemma vet_calm: "calm e \<Longrightarrow> vet c past e"
  by (cases e) auto

lemma guarded_calm: "list_all calm es \<Longrightarrow> guarded (vet c) past es"
  by (induction es arbitrary: past) (auto simp: vet_calm)

section \<open>The invariant of a pass\<close>

definition sound :: "Cluster \<Rightarrow> st \<Rightarrow> bool" where
  "sound c s \<longleftrightarrow> site (cl s) = site c \<and> progressOK (progressOf (cl s)) \<and> guarded (vet c) [] (trace s)"

definition at :: "Cluster \<Rightarrow> int option \<Rightarrow> event set \<Rightarrow> st \<Rightarrow> bool" where
  "at c v X s \<longleftrightarrow> sound c s \<and> partitionOf (cl s) = v \<and> X \<subseteq> set (trace s)"

lemma at_sound: "at c v X s \<Longrightarrow> sound c s"
  by (simp add: at_def)

interpretation at: abandonable "at c v X" "sound c" for c v X
  by unfold_locales (rule at_sound)

lemma at_emit [simp]: "at c v X s \<Longrightarrow> calm e \<Longrightarrow> at c v X (s\<lparr>trace := trace s @ [e]\<rparr>)"
  by (auto simp: at_def sound_def vet_calm)

lemma at_insert: "at c v X s \<Longrightarrow> calm e \<Longrightarrow> at c v (insert e X) (s\<lparr>trace := trace s @ [e]\<rparr>)"
  by (auto simp: at_def sound_def vet_calm)

lemma sound_calm:
  assumes "fr (\<lambda>c. (site c, progressOK (progressOf c))) calm s t" and "sound c s" shows "sound c t"
  using assms by (auto simp: fr_def sound_def guarded_calm)

lemma at_calm:
  assumes "fr (\<lambda>c. (site c, progressOf c)) calm s t" and "at c v X s" shows "at c v X t"
  using assms by (auto simp: fr_def sound_def at_def guarded_calm)

lemma safe_calm [intro]: "keeps (fr (\<lambda>c. (site c, progressOf c)) calm) m \<Longrightarrow> safe (at c v X) (sound c) m"
  unfolding safe_def by (auto elim!: wp_keeps dest: at_calm at_sound)

lemma wp_calm:
  "keeps (fr (\<lambda>c. (site c, progressOf c)) calm) m \<Longrightarrow> at c v X s \<Longrightarrow> (\<And>a t. at c v X t \<Longrightarrow> Q a t)
   \<Longrightarrow> (\<And>e t. sound c t \<Longrightarrow> E e t) \<Longrightarrow> wp m Q E s"
  by (erule wp_keeps) (blast dest: at_calm at_sound)+

lemma at_mono: "at c v X s \<Longrightarrow> Y \<subseteq> X \<Longrightarrow> at c v Y s"
  by (auto simp: at_def)

section \<open>Triples of the rolling upgrade\<close>

lemma ht_safe: "safe (at c v X) (sound c) m \<Longrightarrow> ht (at c v X) m (\<lambda>_. at c v X) (\<lambda>_. sound c)"
  by (simp add: ht_def safe_def)

lemma ht_calm: "keeps (fr (\<lambda>c. (site c, progressOf c)) calm) m \<Longrightarrow> ht (at c v X) m (\<lambda>_. at c v X) (\<lambda>_. at c v X)"
  by (auto simp: ht_def elim!: wp_keeps dest: at_calm)

lemma ht_calmE: "keeps (fr (\<lambda>c. (site c, progressOf c)) calm) m \<Longrightarrow> ht (at c v X) m (\<lambda>_. at c v X) (\<lambda>_. sound c)"
  by (rule ht_safe) auto

text \<open>What a part that keeps every recorded observation keeps: any property of the trace that grows with it.\<close>

definition grows :: "(event set \<Rightarrow> bool) \<Rightarrow> bool" where
  "grows P \<longleftrightarrow> (\<forall>X Y. X \<subseteq> Y \<longrightarrow> P X \<longrightarrow> P Y)"

definition seen :: "Cluster \<Rightarrow> int option \<Rightarrow> (event set \<Rightarrow> bool) \<Rightarrow> st \<Rightarrow> bool" where
  "seen c v P s \<longleftrightarrow> sound c s \<and> partitionOf (cl s) = v \<and> P (set (trace s))"

lemma at_seen: "at c v X s \<longleftrightarrow> seen c v (\<lambda>Z. X \<subseteq> Z) s"
  by (simp add: at_def seen_def)

lemma seen_at: "seen c v P s \<Longrightarrow> at c v (set (trace s)) s"
  by (simp add: at_def seen_def)

lemma ht_seen:
  assumes "\<And>X. ht (at c v X) m (\<lambda>_. at c v X) (\<lambda>_. sound c)" and "grows P"
  shows "ht (seen c v P) m (\<lambda>_. seen c v P) (\<lambda>_. sound c)"
  unfolding ht_def
proof (intro allI impI)
  fix s assume s: "seen c v P s"
  from htD [OF assms(1) seen_at [OF s]] show "wp m (\<lambda>_. seen c v P) (\<lambda>_. sound c) s"
    by (rule wp_mono) (use s assms(2) in \<open>auto simp: seen_def at_def grows_def\<close>)
qed

lemma ht_seen_obs:
  assumes "\<And>X. ht (at c v X) m (\<lambda>a s. at c v X s \<and> R a (set (trace s))) (\<lambda>_. sound c)" and "grows P"
  shows "ht (seen c v P) m (\<lambda>a. seen c v (\<lambda>Z. P Z \<and> R a Z)) (\<lambda>_. sound c)"
  unfolding ht_def
proof (intro allI impI)
  fix s assume s: "seen c v P s"
  from htD [OF assms(1) seen_at [OF s]] show "wp m (\<lambda>a. seen c v (\<lambda>Z. P Z \<and> R a Z)) (\<lambda>_. sound c) s"
    by (rule wp_mono) (use s assms(2) in \<open>auto simp: seen_def at_def grows_def\<close>)
qed

text \<open>Reading the cluster object: only what the invariant says of it matters.\<close>

lemma ht_cl:
  assumes "\<And>d. site d = site c \<Longrightarrow> partitionOf d = v \<Longrightarrow> progressOK (progressOf d) \<Longrightarrow> ht (seen c v P) (k d) Q E"
  shows "ht (seen c v P) (bnd (gets cl) k) Q E"
  using assms by (auto simp: ht_def wps seen_def sound_def)

lemma ht_cl_at:
  assumes "\<And>d. site d = site c \<Longrightarrow> partitionOf d = v \<Longrightarrow> progressOK (progressOf d) \<Longrightarrow> ht (at c v X) (k d) Q E"
  shows "ht (at c v X) (bnd (gets cl) k) Q E"
  using assms by (auto simp: ht_def wps at_def sound_def)

lemma ht_error: "ht P m Q (\<lambda>_. at c v X) \<Longrightarrow> ht P m Q (\<lambda>_. sound c)"
  by (erule ht_conseq) (auto intro: at_sound)

end
