(* ===== verification/Rolling_Steps.thy ===== *)
theory Rolling_Steps
  imports Rolling_Safety
begin

text \<open>
  The steps of a rolling pass, one by one: each keeps \<open>sound\<close> on every path, and where it reports success the
  trace holds the observations that justify the next step.
\<close>

section \<open>Deadlines\<close>

lemma sound_updCl:
  "sound c s \<Longrightarrow> site d = site c \<Longrightarrow> progressOK (progressOf d) \<Longrightarrow> sound c (s\<lparr>cl := d\<rparr>)"
  by (simp add: sound_def)

lemma sound_failed: "sound c s \<Longrightarrow> sound c (s\<lparr>cl := mapStatus (SetUpgradeFailed n r m) (cl s)\<rparr>)"
proof -
  have "ssBlueGreen (SetUpgradeFailed n r m st) = ssBlueGreen st" for st by (simp add: SetUpgradeFailed_def Let_def)
  then show "sound c s \<Longrightarrow> ?thesis" by (intro sound_updCl) (auto simp: sound_def progressOK_others)
qed

lemma ht_deadline:
  "ht (at c v X) (failUpgradeIfTimestampTimeout env t spec) (\<lambda>_. at c v X) (\<lambda>_. sound c)"
  "ht (at c v X) (failUpgradeIfStartedTimeout env spec) (\<lambda>_. at c v X) (\<lambda>_. sound c)"
  by (auto simp: ht_def failUpgradeIfStartedTimeout_def failUpgradeIfTimestampTimeout_def wps
      dest: at_sound intro!: sound_failed split: option.split)

lemma ht_markResume: "ht (at c v X) (markResumeUpgradeTimeout env n) (\<lambda>_. at c v X) (\<lambda>_. sound c)"
  unfolding markResumeUpgradeTimeout_def
  by (rule ht_gets) (auto intro!: ht_pre [OF ht_deadline(2)] ht_ret split: option.split)

section \<open>Single observations\<close>

lemma at_site: "at c v X s \<Longrightarrow> site (cl s) = site c"
  by (simp add: at_def sound_def)

lemma ht_getSts: "ht (at c v X) (getSts env n) (\<lambda>sts. at c v (insert (GetStsE n (Inr sts)) X)) (\<lambda>_. at c v X)"
  by (auto simp: ht_def getSts_def wps at_insert split: sum.split)

lemma ht_getSts_obs:
  "ht (at c v X) (getSts env n) (\<lambda>sts s. at c v X s \<and> GetStsE n (Inr sts) \<in> set (trace s)) (\<lambda>_. at c v X)"
  by (rule ht_conseq [OF ht_getSts [where c = c and v = v and X = X]]) (auto simp: at_def)

lemma ht_getPod: "ht (at c v X) (getPod env n) (\<lambda>pod. at c v (insert (GetPodE n (Inr pod)) X)) (\<lambda>_. at c v X)"
  by (auto simp: ht_def getPod_def wps at_insert split: sum.split)

lemma ht_listPods: "ht (at c v X) (listPods env sel) (\<lambda>pods. at c v (insert (ListPodsE sel (Inr pods)) X)) (\<lambda>_. at c v X)"
  by (auto simp: ht_def listPods_def wps at_insert split: sum.split)

lemma ht_IsHealthy: "ht (at c v X) (IsHealthy env cfg) (\<lambda>h. at c v (insert (IsHealthyE (ccBaseURL cfg) (Inr h)) X)) (\<lambda>_. at c v X)"
  by (auto simp: ht_def IsHealthy_def wps at_insert split: sum.split)

lemma ht_IsLeader: "ht (at c v X) (IsLeader env cfg) (\<lambda>h. at c v (insert (IsLeaderE (ccBaseURL cfg) (Inr h)) X)) (\<lambda>_. at c v X)"
  by (auto simp: ht_def IsLeader_def wps at_insert split: sum.split)

lemma ht_try:
  assumes "ht P m R (\<lambda>_. R')" and "\<And>a. ht (R a) (k a) Q E" and "\<And>e. ht R' (h e) Q E"
  shows "ht P (bnd (attempt m) (\<lambda>r. case r of Inl e \<Rightarrow> h e | Inr a \<Rightarrow> k a)) Q E"
proof (rule ht_bnd [OF ht_attempt [where Q = "\<lambda>r. case r of Inl _ \<Rightarrow> R' | Inr a \<Rightarrow> R a"]])
  show "ht P m (\<lambda>a. case Inr a of Inl _ \<Rightarrow> R' | Inr a \<Rightarrow> R a) (\<lambda>e. case Inl e of Inl _ \<Rightarrow> R' | Inr a \<Rightarrow> R a)"
    using assms(1) by simp
  show "ht (case r of Inl _ \<Rightarrow> R' | Inr a \<Rightarrow> R a) (case r of Inl e \<Rightarrow> h e | Inr a \<Rightarrow> k a) Q E" for r
    using assms(2,3) by (cases r) simp_all
qed

text \<open>A client asks the Pod it was made for.\<close>

lemma ht_newClient:
  "ht (at c v X) (NewClusterPodClient env n ca opts) (\<lambda>cfg t. at c v X t \<and> ccBaseURL cfg = ClusterPodURL c n) (\<lambda>_. at c v X)"
  unfolding ht_def
proof (intro allI impI)
  fix s assume s: "at c v X s"
  have "ClusterPodURL (cl s) n = ClusterPodURL c n" using site_names(3) [OF at_site [OF s]] .
  with s show "wp (NewClusterPodClient env n ca opts) (\<lambda>cfg t. at c v X t \<and> ccBaseURL cfg = ClusterPodURL c n) (\<lambda>_. at c v X) s"
    by (auto simp: NewClusterPodClient_def wps Let_def split: option.split)
qed

lemma ht_client:
  assumes "\<And>cfg. ccBaseURL cfg = ClusterPodURL c n \<Longrightarrow> ht (at c v X) (k cfg) Q E"
    and "\<And>e. ht (at c v X) (h e) Q E"
  shows "ht (at c v X) (bnd (attempt (NewClusterPodClient env n ca opts)) (\<lambda>r. case r of Inl e \<Rightarrow> h e | Inr cfg \<Rightarrow> k cfg)) Q E"
  by (rule ht_try [OF ht_newClient _ assms(2)]) (rule ht_assume, use assms(1) in \<open>auto intro: ht_pre\<close>)

section \<open>Health before a pass\<close>

text \<open>A blocker never returns normally.\<close>

lemma ht_blocker:
  "ht (at c v X) (resumePodReadyBlocker env n e) Q (\<lambda>_. sound c)" "ht (at c v X) (resumePodHealthBlocker env n e) Q (\<lambda>_. sound c)"
  unfolding resumePodReadyBlocker_def resumePodHealthBlocker_def
  by (auto intro!: ht_bnd ht_wrap ht_markResume ht_deadline ht_fail intro: at_sound)

lemma ht_verifyOtherPod:
  "ht (at c v X) (verifyOtherPod env ca pods tgt n) (\<lambda>_. at c v (insert (IsHealthyE (ClusterPodURL c n) (Inr True)) X)) (\<lambda>_. sound c)"
  unfolding verifyOtherPod_def
proof (cases "podNamed pods n", goal_cases)
  case 1
  then show ?case by (simp add: ht_blocker)
next
  case (2 pod)
  then show ?case
    by (simp only: option.case, intro ht_if ht_blocker ht_client ht_try [OF ht_IsHealthy])
      (auto intro: ht_pre [OF ht_blocker(2)] ht_ret at_mono)
qed

lemma ht_verifyOtherPods:
  "ht (at c v X) (verifyOtherPods env ca pods tgt names)
     (\<lambda>_. at c v (X \<union> {IsHealthyE (ClusterPodURL c n) (Inr True) | n. n \<in> set names \<and> n \<noteq> tgt})) (\<lambda>_. sound c)"
proof (induction names arbitrary: X)
  case Nil
  then show ?case by (simp add: ht_ret)
next
  case (Cons n ns)
  let ?H = "\<lambda>ms. {IsHealthyE (ClusterPodURL c m) (Inr True) | m. m \<in> set ms \<and> m \<noteq> tgt}"
  show ?case
  proof (cases "n = tgt")
    case True
    then have "?H (n # ns) = ?H ns" by auto
    with True Cons show ?thesis by simp
  next
    case False
    then have e: "X \<union> ?H (n # ns) = insert (IsHealthyE (ClusterPodURL c n) (Inr True)) X \<union> ?H ns" by auto
    show ?thesis unfolding e by (simp only: verifyOtherPods.simps False if_False) (rule ht_bnd [OF ht_verifyOtherPod Cons])
  qed
qed

lemma podName_inject:
  "0 \<le> i \<Longrightarrow> 0 \<le> j \<Longrightarrow> StableVoterPodName c i = StableVoterPodName c j \<longleftrightarrow> i = j"
  by (auto simp: StableVoterPodName_def int_str_def)

lemma othersHealthyI:
  assumes "{IsHealthyE (ClusterPodURL c n) (Inr True) | n. n \<in> set (voterPodNames c) \<and> n \<noteq> StableVoterPodName (Some c) i} \<subseteq> X"
    and "0 \<le> i"
  shows "othersHealthy c i X"
  unfolding othersHealthy_def
proof (intro allI impI)
  fix j assume j: "0 \<le> j \<and> j < spReplicas (clSpec c) \<and> j \<noteq> i"
  then have "StableVoterPodName (Some c) j \<in> set (voterPodNames c)"
    by (auto simp: voterPodNames_def intro!: image_eqI [of _ _ "nat j"])
  moreover have "StableVoterPodName (Some c) j \<noteq> StableVoterPodName (Some c) i"
    using j assms(2) by (simp add: podName_inject)
  ultimately show "IsHealthyE (voterURL c j) (Inr True) \<in> X" using assms(1) by blast
qed

lemma evidence_mono:
  assumes "X \<subseteq> Y"
  shows "othersHealthy c i X \<Longrightarrow> othersHealthy c i Y" "allReady c X \<Longrightarrow> allReady c Y"
    "leaderElsewhere c i X \<Longrightarrow> leaderElsewhere c i Y" "alreadyRolled c i X \<Longrightarrow> alreadyRolled c i Y"
    "templateSeen c X \<Longrightarrow> templateSeen c Y"
  using assms unfolding othersHealthy_def allReady_def leaderElsewhere_def alreadyRolled_def templateSeen_def
  by blast+

lemma int32_pred: "0 < q \<Longrightarrow> q < 2 ^ 31 \<Longrightarrow> int32 (q - 1) = q - 1"
  by (simp add: int32_def)

section \<open>Validation\<close>

text \<open>What validation has established when it succeeds.\<close>

definition validated :: "Cluster \<Rightarrow> int option \<Rightarrow> event set \<Rightarrow> bool" where
  "validated c v X = (case v of
      None \<Rightarrow> allReady c X
    | Some q \<Rightarrow> 0 < q \<longrightarrow> othersHealthy c (q - 1) X)"

lemma validated_mono: "validated c v X \<Longrightarrow> X \<subseteq> Y \<Longrightarrow> validated c v Y"
  by (auto simp: validated_def evidence_mono split: option.splits)

lemma at_validated: "at c v X s \<Longrightarrow> validated c v X \<Longrightarrow> validated c v (set (trace s))"
  by (auto simp: at_def intro: validated_mono)

lemma ht_requireHealthy: "ht (at c v X) (requireHealthyLeaderQuorum env pods) (\<lambda>_. at c v X) (\<lambda>_. sound c)"
  by (rule ht_calmE) (auto intro!: calm_checkPodHealth site_mapStatus)

lemma at_target:
  assumes "at c (Some q) X s" "0 < q"
  shows "currentResumeTargetPodName (cl s) = StableVoterPodName (Some c) (q - 1)"
proof -
  from assms(1) obtain u where "progressOf (cl s) = Some u" "upCurrentPartition u = q" "progressOK (Some u)"
    by (auto simp: at_def sound_def)
  then show ?thesis
    using assms(2) site_names(2) [OF at_site [OF assms(1)]]
    by (simp add: currentResumeTargetPodName_def progressOK_def int32_pred)
qed

lemma ht_quorumGates:
  "ht (at c v X) (ensureResumeReadyReplicaQuorum env n a b) (\<lambda>_. at c v X) (\<lambda>_. sound c)"
  "ht (at c v X) (ensureResumePodQuorum env n a b) (\<lambda>_. at c v X) (\<lambda>_. sound c)"
  unfolding ensureResumeReadyReplicaQuorum_def ensureResumePodQuorum_def Let_def
  by (auto intro!: ht_ret ht_bnd ht_wrap ht_markResume ht_fail intro: at_sound)

lemma grows_evidence [simp, intro]:
  "grows (othersHealthy c i)" "grows (allReady c)" "grows (leaderElsewhere c i)" "grows (alreadyRolled c i)"
  "grows (templateSeen c)" "grows (validated c v)" "grows (\<lambda>Z. X \<subseteq> Z)" "grows (\<lambda>Z. e \<in> Z)" "grows (\<lambda>Z. B)"
  by (auto simp: grows_def intro: evidence_mono validated_mono)

lemma grows_conj [intro!]: "grows P \<Longrightarrow> grows Q \<Longrightarrow> grows (\<lambda>Z. P Z \<and> Q Z)"
  by (auto simp: grows_def)

lemma grows_disj [intro!]: "grows P \<Longrightarrow> grows Q \<Longrightarrow> grows (\<lambda>Z. P Z \<or> Q Z)"
  by (auto simp: grows_def)

lemma grows_insert [intro]: "grows P \<Longrightarrow> P X \<Longrightarrow> P (insert e X)"
  by (meson grows_def subset_insertI)

lemma ht_nonTarget:
  assumes "0 < q \<Longrightarrow> tgt = StableVoterPodName (Some c) (q - 1)"
  shows "ht (at c (Some q) X) (verifyNonTargetPodsReadyAndHealthy env pods tgt)
     (\<lambda>_. seen c (Some q) (validated c (Some q))) (\<lambda>_. sound c)"
  unfolding verifyNonTargetPodsReadyAndHealthy_def
proof (intro ht_bnd [OF ht_wrap [OF ht_calmE [OF calm_calls(14)]]] ht_cl_at, goal_cases)
  case (1 ca d)
  let ?H = "{IsHealthyE (ClusterPodURL c n) (Inr True) | n. n \<in> set (voterPodNames c) \<and> n \<noteq> tgt}"
  have "validated c (Some q) Z" if "?H \<subseteq> Z" for Z
    using that assms by (auto simp: validated_def intro!: othersHealthyI)
  then have "ht (at c (Some q) X) (verifyOtherPods env ca pods tgt (voterPodNames c))
     (\<lambda>_. seen c (Some q) (validated c (Some q))) (\<lambda>_. sound c)"
    by (intro ht_conseq [OF ht_verifyOtherPods [where c = c and v = "Some q" and X = X]]) (simp_all add: at_def seen_def)
  then show ?case by (simp add: site_names(4) [OF 1(1)])
qed

lemma ht_verifyResume:
  "ht (at c (Some q) X) (verifyResumeClusterHealth env) (\<lambda>_. seen c (Some q) (validated c (Some q))) (\<lambda>_. sound c)"
  unfolding verifyResumeClusterHealth_def Let_def
proof (intro ht_bnd [OF ht_calmE [OF calm_getters(2)]] ht_gets, goal_cases)
  case (1 sts d)
  show ?case
  proof (rule ht_assume [where B = "0 < q \<longrightarrow> currentResumeTargetPodName d = StableVoterPodName (Some c) (q - 1)"], goal_cases)
    case (1 s)
    then show ?case using at_target by blast
  next
    case 2
    show ?case
      by (rule ht_pre [where P = "at c (Some q) X"], intro ht_bnd [OF ht_quorumGates(1)] ht_bnd [OF ht_quorumGates(2)]
          ht_bnd [OF ht_wrap [OF ht_calmE [OF calm_getters(1)]]] ht_bnd [OF ht_nonTarget]
          ht_bnd [OF ht_seen [OF ht_requireHealthy]] ht_ret)
        (use 2 in auto)
  qed
qed

lemma ht_upgradeSts:
  "ht (at c v X) (getUpgradeStatefulSet env) (\<lambda>sts. at c v (insert (GetStsE (voterSet c) (Inr sts)) X)) (\<lambda>_. sound c)"
  unfolding getUpgradeStatefulSet_def
proof (rule ht_cl_at, goal_cases)
  case (1 d)
  show ?case
    unfolding site_names(1) [OF 1(1)]
    by (rule ht_try [OF ht_getSts], auto intro!: ht_ret ht_fail intro: at_sound)
qed

lemma ht_verifyHealth:
  "ht (at c None X) (verifyClusterHealth env) (\<lambda>_. seen c None (validated c None)) (\<lambda>_. sound c)"
  unfolding verifyClusterHealth_def
proof (intro ht_bnd [OF ht_upgradeSts] ht_cl_at ht_if, goal_cases)
  case (1 sts d)
  then show ?case by (auto intro: ht_fail at_sound)
next
  case (2 sts d)
  let ?P = "seen c None (validated c None)"
  show ?case
  proof (rule ht_pre [of ?P], intro ht_bnd [OF ht_wrap [OF ht_seen [OF ht_calmE [OF calm_getters(1)]]]] ht_if
      ht_bnd [OF ht_seen [OF ht_requireHealthy]])
    fix s assume "at c None (insert (GetStsE (voterSet c) (Inr sts)) X) s"
    then show "?P s" using 2 site_sel(3) [OF 2(1)]
      by (auto simp: at_def seen_def validated_def allReady_def)
  qed (auto intro!: ht_fail ht_ret simp: seen_def)
qed

lemma ht_validate:
  "ht (at c v X) (validateUpgrade env) (\<lambda>_. seen c v (validated c v)) (\<lambda>_. sound c)"
  unfolding validateUpgrade_def
proof (intro ht_cl_at, goal_cases)
  case (1 d)
  show ?case
    using 1(2) by (cases v) (auto intro: ht_fail at_sound ht_verifyResume ht_verifyHealth split: option.split)
qed

section \<open>The target Pod\<close>

text \<open>The target a pass computes from the recorded partition.\<close>

definition targetOf :: "Cluster \<Rightarrow> int \<Rightarrow> rolloutTargetPod" where
  "targetOf c q = \<lparr> rtCurrentPartition = q, rtNextPartition = q - 1, rtOrdinal = q - 1,
     rtName = StableVoterPodName (Some c) (q - 1) \<rparr>"

lemma targetOf_simps [simp]:
  "rtCurrentPartition (targetOf c q) = q" "rtNextPartition (targetOf c q) = q - 1" "rtOrdinal (targetOf c q) = q - 1"
  "rtName (targetOf c q) = StableVoterPodName (Some c) (q - 1)"
  by (simp_all add: targetOf_def)

lemma nextTarget:
  assumes "site d = site c" "partitionOf d = Some q" "progressOK (progressOf d)"
  shows "nextRolloutTargetPod d = Inr (if q = 0 then None else Some (targetOf c q))" "0 \<le> q"
proof -
  from assms obtain u where u: "progressOf d = Some u" "upCurrentPartition u = q" "0 \<le> q" "q < 2 ^ 31"
    by (auto simp: progressOK_def)
  then have "q \<noteq> 0 \<Longrightarrow> int32 (q - 1) = q - 1" by (simp add: int32_pred)
  with u show "nextRolloutTargetPod d = Inr (if q = 0 then None else Some (targetOf c q))" "0 \<le> q"
    by (simp_all add: nextRolloutTargetPod_def targetOf_def Let_def site_names(2) [OF assms(1)])
qed

text \<open>A yes from the revision check, and from the readiness check, was observed.\<close>

lemma ht_revision:
  "ht (at c v X) (checkPodRevisionUpdated env n b) (\<lambda>ok s. at c v X s \<and> (ok \<longrightarrow> (\<exists>sts pod.
     at c v (insert (GetPodE n (Inr pod)) (insert (GetStsE (voterSet c) (Inr sts)) X)) s
     \<and> statefulSetTemplateCurrent sts c
     \<and> trim_space (lookup_label (pdLabels pod) ''controller-revision-hash'') = trim_space (stUpdateRevision sts)))) (\<lambda>_. sound c)"
  unfolding checkPodRevisionUpdated_def Let_def
proof (intro ht_bnd [OF ht_deadline(2)] ht_cl_at, goal_cases)
  case (1 u d)
  show ?case
    unfolding site_names(1) [OF 1(1)] site_names(5) [OF 1(1)]
  proof (rule ht_bnd [OF ht_wrap [OF ht_error [OF ht_getSts]]], intro ht_if ht_try [OF ht_getPod], goal_cases)
    case (3 sts pod)
    then show ?case by (auto intro!: ht_ret intro: at_mono)
  next
    case (4 sts pod)
    show ?case
      by (rule ht_try [OF ht_calm [OF calm_calls(12)]]) (auto intro!: ht_ret ht_fail intro: at_mono at_sound)
  qed (auto intro!: ht_ret ht_fail intro: at_mono at_sound)
qed

lemma ht_podReady:
  "ht (at c v X) (waitForPodReady env n) (\<lambda>ok s. at c v X s \<and> (ok \<longrightarrow> (\<exists>pod. GetPodE n (Inr pod) \<in> set (trace s) \<and> isPodReady pod)))
     (\<lambda>_. sound c)"
  unfolding waitForPodReady_def
  by (intro ht_bnd [OF ht_deadline(2)] ht_try [OF ht_getPod])
    (auto intro!: ht_ret ht_fail intro: at_mono at_sound simp: at_def)

lemma ht_alreadyRolled:
  "ht (at c v X) (targetPodAlreadyRolledOut env (targetOf c q)) (\<lambda>ok s. at c v X s \<and> (ok \<longrightarrow> alreadyRolled c (q - 1) (set (trace s))))
     (\<lambda>_. sound c)"
  unfolding targetPodAlreadyRolledOut_def podRevisionAlreadyUpdated_def targetOf_simps
proof (rule ht_bnd [OF ht_revision], intro ht_if ht_ret, goal_cases)
  case (2 ok)
  show ?case
    unfolding ht_def
  proof (intro allI impI)
    fix s
    assume "at c v X s \<and> (ok \<longrightarrow> (\<exists>sts pod.
      at c v (insert (GetPodE (StableVoterPodName (Some c) (q - 1)) (Inr pod)) (insert (GetStsE (voterSet c) (Inr sts)) X)) s
      \<and> statefulSetTemplateCurrent sts c
      \<and> trim_space (lookup_label (pdLabels pod) ''controller-revision-hash'') = trim_space (stUpdateRevision sts)))"
    then obtain sts pod where 1: "at c v (insert (GetPodE (StableVoterPodName (Some c) (q - 1)) (Inr pod))
        (insert (GetStsE (voterSet c) (Inr sts)) X)) s" and 2: "statefulSetTemplateCurrent sts c"
      "trim_space (lookup_label (pdLabels pod) ''controller-revision-hash'') = trim_space (stUpdateRevision sts)"
      using 2 by blast
    from htD [OF ht_podReady 1] show "wp (waitForPodReady env (StableVoterPodName (Some c) (q - 1)))
       (\<lambda>ok s. at c v X s \<and> (ok \<longrightarrow> alreadyRolled c (q - 1) (set (trace s)))) (\<lambda>_. sound c) s"
      by (rule wp_mono) (use 2 in \<open>auto simp: at_def alreadyRolled_def\<close>)
  qed
qed simp

lemma ht_rollout:
  "ht (at c v X) (waitForTargetPodRollout env t) (\<lambda>_. at c v X) (\<lambda>_. sound c)"
proof -
  have rev: "ht (at c v X) (waitForPodRevisionUpdated env n) (\<lambda>_. at c v X) (\<lambda>_. sound c)" for n
    unfolding waitForPodRevisionUpdated_def by (rule ht_conseq [OF ht_revision]) auto
  have ready: "ht (at c v X) (waitForPodReady env n) (\<lambda>_. at c v X) (\<lambda>_. sound c)" for n
    by (rule ht_conseq [OF ht_podReady]) auto
  have healthy: "ht (at c v X) (waitForPodHealthy env n) (\<lambda>_. at c v X) (\<lambda>_. sound c)" for n
    unfolding waitForPodHealthy_def
    by (rule ht_bnd [OF ht_deadline(2)], rule ht_calmE) (auto split: sum.split)
  show ?thesis unfolding waitForTargetPodRollout_def
    by (intro ht_bnd [OF rev] ht_bnd [OF ready] ht_if healthy ht_ret)
qed

section \<open>Leadership\<close>

abbreviation movedIf :: "Cluster \<Rightarrow> int \<Rightarrow> int option \<Rightarrow> event set \<Rightarrow> bool \<Rightarrow> st \<Rightarrow> bool" where
  "movedIf c i v X ok s \<equiv> at c v X s \<and> (ok \<longrightarrow> leaderElsewhere c i (set (trace s)))"

lemma ht_stepDownTimeout: "ht (at c v X) (failOnStepDownTimeout env job n) (\<lambda>_. at c v X) (\<lambda>_. sound c)"
proof -
  have emit: "ht (sound c) (emit (StepDownMetricE b)) (\<lambda>_. sound c) (\<lambda>_. sound c)" for b
    by (auto simp: ht_def wps sound_def)
  show ?thesis unfolding failOnStepDownTimeout_def
    by (auto intro!: ht_ret ht_fail ht_try [OF ht_deadline(1)] ht_bnd [OF emit] split: option.split)
qed

lemma ht_performed:
  assumes "leaderElsewhere c i X"
  shows "ht (at c v X) (recordStepDownPerformed env n) (movedIf c i v X) (\<lambda>_. sound c)"
proof -
  have "at c v X (s\<lparr>cl := mapStatus (SetStepDownPerformed t) (cl s)\<rparr>)" if "at c v X s" for s t
  proof -
    have "ssBlueGreen (SetStepDownPerformed t st) = ssBlueGreen st" for st by (simp add: SetStepDownPerformed_def split: option.split)
    then show ?thesis using that
      by (auto simp: at_def sound_def progressOK_others) (auto simp: SetStepDownPerformed_def split: option.split)
  qed
  then have upd: "ht (at c v X) (updCl (mapStatus (SetStepDownPerformed t))) (\<lambda>_. at c v X) (\<lambda>_. sound c)" for t
    by (simp add: ht_def wps)
  have "leaderElsewhere c i (set (trace s))" if "at c v X s" for s
    using that assms evidence_mono(3) by (auto simp: at_def)
  then show ?thesis unfolding recordStepDownPerformed_def
    by (intro ht_bnd [OF ht_calmE [OF keeps_modify_cl(3)]] ht_bnd [OF upd] ht_cl_at ht_bnd [OF ht_calmE [OF calm_calls(8)]] ht_ret) blast
qed

lemma ht_confirm:
  "ht (at c v X) (confirmLeadershipMoved env job (StableVoterPodName (Some c) i)) (movedIf c i v X) (\<lambda>_. sound c)"
proof -
  let ?n = "StableVoterPodName (Some c) i"
  have performed: "ht (at c v Y) (recordStepDownPerformed env ?n) (movedIf c i v X) (\<lambda>_. sound c)"
    if "leaderElsewhere c i Y" "X \<subseteq> Y" for Y
    by (rule ht_conseq [OF ht_performed [OF that(1)]]) (use that(2) in \<open>auto intro: at_mono\<close>)
  have no: "ht (at c v Y) (ret False) (movedIf c i v X) (\<lambda>_. sound c)" if "X \<subseteq> Y" for Y
    by (rule ht_ret) (use that in \<open>auto intro: at_mono\<close>)
  have bad: "ht (at c v Y) (failwith e) (movedIf c i v X) (\<lambda>_. sound c)" for Y e
    by (rule ht_fail) (rule at_sound)
  have ask: "ht (at c v Y) (bnd (attempt (IsLeader env cfg)) (\<lambda>l. case l of Inl _ \<Rightarrow> ret False
      | Inr isLeader \<Rightarrow> if \<not> isLeader then recordStepDownPerformed env ?n
          else bnd (failOnStepDownTimeout env job ?n) (\<lambda>_. ret False))) (movedIf c i v X) (\<lambda>_. sound c)"
    if "ccBaseURL cfg = voterURL c i" "X \<subseteq> Y" for cfg Y
    using that by (intro ht_try [OF ht_IsLeader] ht_if ht_bnd [OF ht_stepDownTimeout] no performed)
      (auto simp: leaderElsewhere_def)
  show ?thesis
    unfolding confirmLeadershipMoved_def
  proof (rule ht_try [OF ht_getPod], goal_cases)
    case (1 pod)
    show ?case
    proof (cases "ParseBoolLabel (pdLabels pod) ''openbao-active''")
      case (Inr p)
      obtain still present where p: "p = (still, present)" by (cases p)
      show ?thesis
        unfolding Inr p sum.case prod.case
        by (intro ht_if ht_try [OF ht_calm [OF calm_calls(14)]] ht_client ask no bad performed)
          (use Inr p in \<open>auto simp: leaderElsewhere_def\<close>)
    qed (auto intro: no)
  qed (rule no [OF order.refl])
qed

lemma ht_runStepDown:
  "ht (at c v X) (runStepDownJob env job (StableVoterPodName (Some c) i)) (movedIf c i v X) (\<lambda>_. sound c)"
  unfolding runStepDownJob_def
proof (rule ht_cl_at, rule ht_bnd [OF ht_wrap [OF ht_calmE [OF calm_EnsureExecutorJob]]], intro ht_if, goal_cases)
  case (1 d r)
  show ?case by (rule ht_bnd [OF ht_calmE]) (auto intro: ht_fail at_sound)
next
  case (2 d r)
  show ?case by (rule ht_bnd [OF ht_stepDownTimeout]) (auto intro: ht_ret)
next
  case (3 d r)
  show ?case by (rule ht_confirm)
qed

lemma ht_isTargetLeader:
  "ht (at c v X) (isTargetPodLeader env (StableVoterPodName (Some c) i))
     (\<lambda>l s. at c v X s \<and> (\<not> l \<longrightarrow> leaderElsewhere c i (set (trace s)))) (\<lambda>_. at c v X)"
proof -
  have ask: "ht (\<lambda>t. at c v X t \<and> ccBaseURL cfg = voterURL c i) (IsLeader env cfg)
      (\<lambda>l s. at c v X s \<and> (\<not> l \<longrightarrow> leaderElsewhere c i (set (trace s)))) (\<lambda>_. at c v X)" for cfg
    by (rule ht_assume [where B = "ccBaseURL cfg = voterURL c i"], blast, rule ht_conseq [OF ht_IsLeader [where c = c and v = v and X = X]])
      (auto simp: at_def leaderElsewhere_def)
  show ?thesis
    unfolding isTargetPodLeader_def IsClusterPodLeader_def
    by (intro ht_bnd [OF ht_wrap [OF ht_calm [OF calm_calls(14)]]] ht_bnd [OF ht_newClient] ht_wrap ask)
qed

lemma ht_stepDown:
  "ht (at c v X) (stepDownLeader env (StableVoterPodName (Some c) i)) (movedIf c i v X) (\<lambda>_. sound c)"
proof -
  have go: "ht (at c v X) (bnd (emit e) (\<lambda>_. bnd (audit a b) (\<lambda>_. runStepDownJob env job (StableVoterPodName (Some c) i))))
      (movedIf c i v X) (\<lambda>_. sound c)" if "calm e" for e a b job
    by (intro ht_bnd [OF ht_calmE [OF calm_emit]] ht_bnd [OF ht_calmE [OF calm_calls(8)]] ht_runStepDown that)
  show ?thesis
    unfolding stepDownLeader_def
  proof (rule ht_cl_at, goal_cases)
    case (1 d)
    show ?case
    proof (cases "progressOf d")
      case (Some u)
      show ?thesis
        unfolding Some option.case
      proof (rule ht_try [OF ht_calm [OF calm_readManagedJob] ht_runStepDown], intro ht_if ht_try [OF ht_isTargetLeader], goal_cases)
        case (3 e l)
        then show ?case by (auto intro: ht_pre [OF go])
      qed (auto intro!: ht_ret ht_fail intro: at_sound)
    qed (auto intro: ht_fail at_sound)
  qed
qed

lemma ht_leadership:
  "ht (at c v X) (ensureTargetPodLeadershipTransferred env (targetOf c q))
     (\<lambda>ok s. at c v X s \<and> (ok \<longrightarrow> spReplicas (clSpec c) \<le> 1 \<or> leaderElsewhere c (q - 1) (set (trace s)))) (\<lambda>_. sound c)"
proof -
  let ?Q = "\<lambda>ok s. at c v X s \<and> (ok \<longrightarrow> spReplicas (clSpec c) \<le> 1 \<or> leaderElsewhere c (q - 1) (set (trace s)))"
  have byLabel: "ht (at c v X) (currentLeaderPodByLabel env) (\<lambda>l s. at c v X s
      \<and> (l \<noteq> [] \<and> l \<noteq> StableVoterPodName (Some c) (q - 1) \<longrightarrow> leaderElsewhere c (q - 1) (set (trace s)))) (\<lambda>_. at c v X)"
    unfolding currentLeaderPodByLabel_def
  proof (intro ht_cl_at ht_bnd [OF ht_wrap [OF ht_listPods]], goal_cases)
    case (1 d pods)
    then show ?case
      by (cases "FindLeaderPodByLabel pods")
        (auto simp: ht_def wps at_def leaderElsewhere_def split: option.split)
  qed
  have down: "ht (at c v X) (stepDownLeader env (StableVoterPodName (Some c) (q - 1))) ?Q (\<lambda>_. sound c)"
    by (rule ht_conseq [OF ht_stepDown]) auto
  show ?thesis
    unfolding ensureTargetPodLeadershipTransferred_def Let_def targetOf_simps
  proof (intro ht_cl_at ht_if, goal_cases)
    case (1 d)
    then show ?case using site_sel(3) [OF 1(1)] by (auto intro: ht_ret)
  next
    case (2 d)
    show ?case
    proof (rule ht_bnd [OF ht_attempt [where Q = "\<lambda>r s. at c v X s \<and> (case r of Inl _ \<Rightarrow> True
        | Inr l \<Rightarrow> l \<noteq> [] \<and> l \<noteq> StableVoterPodName (Some c) (q - 1) \<longrightarrow> leaderElsewhere c (q - 1) (set (trace s)))"]], goal_cases)
      case 1
      then show ?case using byLabel by simp
    next
      case (2 r)
      show ?case by (intro ht_if) (cases r, auto intro: ht_ret ht_pre [OF down])
    qed
  qed
qed

section \<open>The partition\<close>

lemma ht_setPartition:
  assumes "grows P"
    and "\<And>past. P (set past) \<Longrightarrow> templateSeen c (set past) \<Longrightarrow> partitionJustified c past p"
  shows "ht (seen c v P) (setStatefulSetPartition env p) (\<lambda>_. seen c v P) (\<lambda>_. sound c)"
proof -
  let ?P = "\<lambda>Z. P Z \<and> templateSeen c Z"
  have patch: "ht (seen c v ?P) (patchPartition env sts p) (\<lambda>_. seen c v P) (\<lambda>_. sound c)" for sts
    using assms by (auto simp: ht_def patchPartition_def wps seen_def sound_def split: option.split)
  have get: "ht (seen c v P) (getSts env (voterSet c)) (\<lambda>sts. seen c v (\<lambda>Z. P Z \<and> GetStsE (voterSet c) (Inr sts) \<in> Z)) (\<lambda>_. sound c)"
    by (rule ht_seen_obs [OF ht_error [OF ht_getSts_obs] assms(1)])
  show ?thesis
    unfolding setStatefulSetPartition_def Let_def
  proof (rule ht_cl, goal_cases)
    case (1 d)
    show ?case
      unfolding site_names(1) [OF 1(1)] site_names(5) [OF 1(1)]
    proof (intro ht_bnd [OF ht_wrap [OF get]] ht_if ht_try [OF ht_pre [OF patch]] ht_ret ht_fail)
    qed (auto simp: seen_def templateSeen_def)
  qed
qed

text \<open>One Pod done: the partition and the list of completed Pods move together.\<close>

lemma ht_recordCompleted:
  assumes "0 < q"
  shows "ht (seen c (Some q) P) (recordCompletedTargetPodUpgrade env (targetOf c q) n)
     (\<lambda>_ s. sound c s \<and> partitionOf (cl s) = Some (q - 1)) (\<lambda>_. sound c)"
proof -
  let ?f = "SetUpgradeProgress (q - 1) (q - 1)"
  have "at c (Some (q - 1)) {} (s\<lparr>cl := mapStatus ?f (cl s)\<rparr>)" if "seen c (Some q) P s" for s
  proof -
    from that obtain u where u: "progressOf (cl s) = Some u" "upCurrentPartition u = q" by (auto simp: seen_def)
    have "ssBlueGreen (?f st) = ssBlueGreen st" for st by (simp add: SetUpgradeProgress_def split: option.split)
    moreover have "progressOK (ssUpgrade (?f (clStatus (cl s))))"
      using progressOK_advance [OF _ u(1)] u(2) assms that by (auto simp: seen_def sound_def)
    moreover have "partitionOf (mapStatus ?f (cl s)) = Some (q - 1)"
      using u by (simp add: SetUpgradeProgress_def)
    ultimately show ?thesis using that by (auto simp: at_def seen_def sound_def)
  qed
  then have upd: "ht (seen c (Some q) P) (updCl (mapStatus ?f)) (\<lambda>_. at c (Some (q - 1)) {}) (\<lambda>_. sound c)"
    by (simp add: ht_def wps)
  show ?thesis
    unfolding recordCompletedTargetPodUpgrade_def targetOf_simps
  proof (intro ht_bnd [OF upd] ht_bnd [OF ht_calmE [OF keeps_modify_cl(3)]] ht_cl_at, goal_cases)
    case (1 _ _ d)
    then obtain u where "progressOf d = Some u" by auto
    then show ?case
      by simp (rule ht_conseq [OF ht_calmE [OF calm_emitMetrics]], auto simp: at_def)
  qed
qed

text \<open>What must be known before the partition may go below \<open>q\<close>.\<close>

definition ready :: "Cluster \<Rightarrow> int \<Rightarrow> event set \<Rightarrow> bool" where
  "ready c q Z \<longleftrightarrow> inForce c q Z \<and> (0 < q \<longrightarrow> othersHealthy c (q - 1) Z \<or> allReady c Z)"

lemma grows_inForce [simp, intro]: "grows (inForce c q)"
  unfolding grows_def inForce_def by (auto split: upgradeAction.splits)

lemma grows_ready [simp, intro]: "grows (ready c q)"
  unfolding ready_def by (auto simp: grows_def intro: evidence_mono grows_inForce [unfolded grows_def, rule_format])

lemma bnd_lift_Inr: "bnd (lift_res (Inr a)) k = k a" and bnd_ret: "bnd (ret a) k = k a"
  by (rule ext, simp add: bnd_def lift_res_def ret_def)+

lemma ht_performPod:
  "ht (seen c (Some q) (ready c q)) (performPodByPodUpgrade env)
     (\<lambda>done s. sound c s \<and> (\<exists>r. partitionOf (cl s) = Some r \<and> (done \<longrightarrow> r = 0))) (\<lambda>_. sound c)"
proof -
  let ?Q = "\<lambda>done s. sound c s \<and> (\<exists>r. partitionOf (cl s) = Some r \<and> (done \<longrightarrow> r = 0))"
  have lower: "ht (seen c (Some q) (\<lambda>Z. ready c q Z \<and> R Z)) (setStatefulSetPartition env (q - 1))
      (\<lambda>_. seen c (Some q) (\<lambda>Z. ready c q Z \<and> R Z)) (\<lambda>_. sound c)"
    if "0 < q" "grows R" "\<And>Z. R Z \<Longrightarrow> spReplicas (clSpec c) \<le> 1 \<or> alreadyRolled c (q - 1) Z \<or> leaderElsewhere c (q - 1) Z" for R
    by (rule ht_setPartition) (use that in \<open>auto simp: partitionJustified_def mayLower_def ready_def\<close>)
  have rec: "ht (seen c (Some q) P) (bnd (recordCompletedTargetPodUpgrade env (targetOf c q) n)
      (\<lambda>_. ret (q - 1 = 0))) ?Q (\<lambda>_. sound c)" if "0 < q" for P n
    by (rule ht_bnd [OF ht_recordCompleted [OF that]]) (auto intro: ht_ret)
  have no: "ht (seen c (Some q) P) (ret False) ?Q (\<lambda>_. sound c)" for P by (rule ht_ret) (auto simp: seen_def)
  show ?thesis
    unfolding performPodByPodUpgrade_def
  proof (rule ht_cl, goal_cases)
    case (1 d)
    show ?case
    proof (cases "q = 0")
      case True
      then show ?thesis using nextTarget(1) [OF 1] by (auto simp: ht_def wps seen_def)
    next
      case False
      then have q: "0 < q" using nextTarget(2) [OF 1] by simp
      have tgt: "nextRolloutTargetPod d = Inr (Some (targetOf c q))" using nextTarget(1) [OF 1] False by simp
      have resumed: "ht (seen c (Some q) (\<lambda>Z. ready c q Z \<and> (a \<longrightarrow> alreadyRolled c (q - 1) Z)))
          (bnd (wrap_err w (setStatefulSetPartition env (q - 1))) (\<lambda>_.
             bnd (recordCompletedTargetPodUpgrade env (targetOf c q) n) (\<lambda>_. ret (q - 1 = 0)))) ?Q (\<lambda>_. sound c)" if a for a n w
        by (rule ht_bnd [OF ht_wrap [OF ht_pre [OF lower [where R = "alreadyRolled c (q - 1)"]]] rec])
          (use that q in \<open>auto simp: seen_def\<close>)
      let ?R = "\<lambda>Z. spReplicas (clSpec c) \<le> 1 \<or> leaderElsewhere c (q - 1) Z"
      have R: "grows ?R" by auto
      have fresh: "ht (seen c (Some q) (\<lambda>Z. (ready c q Z \<and> P Z) \<and> (b \<longrightarrow> ?R Z)))
          (bnd (wrap_err w (setStatefulSetPartition env (q - 1))) (\<lambda>_.
             bnd (waitForTargetPodRollout env (targetOf c q)) (\<lambda>done. if \<not> done then ret False
               else bnd (recordCompletedTargetPodUpgrade env (targetOf c q) n) (\<lambda>_. ret (q - 1 = 0))))) ?Q (\<lambda>_. sound c)"
        if b for P b n w
        by (intro ht_bnd [OF ht_wrap [OF ht_pre [OF lower [OF q R]]]] ht_bnd [OF ht_seen [OF ht_rollout]] ht_if no rec [OF q])
          (use that R in \<open>auto simp: seen_def\<close>)
      show ?thesis
        unfolding tgt bnd_lift_Inr option.case targetOf_simps
        by (intro ht_bnd [OF ht_seen [OF ht_calmE [OF keeps_modify_cl(3)]]] ht_bnd [OF ht_seen_obs [OF ht_alreadyRolled]]
            ht_bnd [OF ht_seen_obs [OF ht_leadership]] ht_if resumed fresh no) auto
    qed
  qed
qed

end
