(* ===== verification/Rolling_Pass.thy ===== *)
theory Rolling_Pass
  imports Rolling_Steps
begin

text \<open>
  A whole rolling pass keeps \<open>sound\<close>: the status writes, the finalization, the start, the retry, the lock and the
  error paths, then the safety properties of the rolling upgrade that follow from it.
\<close>

section \<open>Status writes\<close>

text \<open>
  The named hypothesis: the manager is the only writer of the progress record and of the blue/green status.  As long as
  only records of the right form were written a read returns such a record, and the blue/green status it started
  from; right after a successful write a read returns what was written.
\<close>

definition soleWriter :: "env \<Rightarrow> BlueGreenStatus option \<Rightarrow> bool" where
  "soleWriter env b \<longleftrightarrow>
     (\<forall>tr c. list_all progressTyped tr \<longrightarrow> eGetCluster env tr = Inr c \<longrightarrow> blueGreen c = b \<and> progressOK (progressOf c))
   \<and> (\<forall>tr b' u k f c. eGetCluster env (tr @ [ApplyStatusE b' u k f None]) = Inr c \<longrightarrow> progressOf c = u)"

lemma sound_typed: "seen c v P s \<Longrightarrow> list_all progressTyped (trace s)"
  by (auto simp: seen_def sound_def dest: guarded_typed)

lemma wp_retry_inv:
  assumes "\<And>s. I s \<Longrightarrow> wp m Q (\<lambda>_. I) s" and "I s" shows "wp (retryOnConflict n m) Q (\<lambda>_. I) s"
  using assms(2)
proof (induction n arbitrary: s)
  case (Suc n)
  note IH = Suc(1) [of "snd (m s)"]
  from assms(1) [OF Suc(2)] IH show ?case by (auto simp: wp_def split: sum.splits prod.splits)
qed (simp add: wp_def)

text \<open>A write is permitted when every progress record it can produce is.\<close>

definition permitted :: "Cluster \<Rightarrow> (event set \<Rightarrow> bool) \<Rightarrow> (Cluster \<Rightarrow> Cluster) \<Rightarrow> bool" where
  "permitted c P f \<longleftrightarrow> grows P \<and> (\<forall>obj. progressOK (progressOf obj) \<longrightarrow> progressOK (progressOf (f obj)))
     \<and> (\<forall>obj past. P (set past) \<longrightarrow> GetClusterE (Inr obj) \<in> set past \<longrightarrow> progressOf (f obj) = None \<longrightarrow> clearingJustified c past)"

abbreviation writtenBy :: "(Cluster \<Rightarrow> Cluster) \<Rightarrow> st \<Rightarrow> bool" where
  "writtenBy f s \<equiv> \<exists>tr b obj k force. trace s = tr @ [ApplyStatusE b (progressOf (f obj)) k force None]"

lemma wp_applyOnce:
  assumes "soleWriter env (blueGreen c)" and "permitted c P f" and "seen c v P s"
  shows "wp (bnd (wrap_err w (getCluster env)) (\<lambda>current.
             bnd (lift_res (Inr (f current))) (\<lambda>desired. applyStatus env desired force)))
       (\<lambda>_ t. seen c v P t \<and> writtenBy f t) (\<lambda>_. seen c v P) s"
proof -
  have P: "grows P" using assms(2) by (simp add: permitted_def)
  have 1: "seen c v (\<lambda>Z. P Z \<and> GetClusterE r \<in> Z) (s\<lparr>trace := trace s @ [GetClusterE r]\<rparr>)" for r
    using assms(3) grows_insert [OF P] by (auto simp: seen_def sound_def)
  have 2: "seen c v P (t\<lparr>trace := trace t @ [ApplyStatusE b (progressOf (f obj)) k force r]\<rparr>)"
    if "seen c v (\<lambda>Z. P Z \<and> GetClusterE (Inr obj) \<in> Z) t" "progressOK (progressOf obj)" for t b r obj k
    using that assms(2) grows_insert [OF P] by (auto simp: seen_def sound_def permitted_def)
  show ?thesis
  proof (cases "eGetCluster env (trace s)")
    case (Inl e)
    then show ?thesis using 1 [of "Inl e"] by (auto simp: wps getCluster_def seen_def)
  next
    case (Inr obj)
    then have "progressOK (progressOf obj)" using assms(1) sound_typed [OF assms(3)] by (auto simp: soleWriter_def)
    from 2 [OF 1 this] show ?thesis using Inr
      by (auto simp: wps getCluster_def applyStatus_def split: option.split)
  qed
qed

lemma wp_MutateAndApply:
  assumes "soleWriter env (blueGreen c)" and "permitted c P f" and "seen c v P s"
  shows "wp (MutateAndApplyAdminOpsStatus env n (\<lambda>obj. Inr (f obj)) force)
     (\<lambda>up t. seen c v (\<lambda>Z. P Z \<and> GetClusterE (Inr up) \<in> Z) t \<and> blueGreen up = blueGreen c \<and> progressOK (progressOf up)
        \<and> progressOf up \<in> range (\<lambda>obj. progressOf (f obj))) (\<lambda>_. seen c v P) s"
proof -
  have P: "grows P" using assms(2) by (simp add: permitted_def)
  have read: "wp (wrap_err w (getCluster env)) (\<lambda>up t. seen c v (\<lambda>Z. P Z \<and> GetClusterE (Inr up) \<in> Z) t
      \<and> blueGreen up = blueGreen c \<and> progressOK (progressOf up) \<and> progressOf up \<in> range (\<lambda>obj. progressOf (f obj))) (\<lambda>_. seen c v P) t"
    if "seen c v P t \<and> writtenBy f t" for t w
  proof -
    have s: "seen c v (\<lambda>Z. P Z \<and> GetClusterE r \<in> Z) (t\<lparr>trace := trace t @ [GetClusterE r]\<rparr>)" for r
      using that grows_insert [OF P] by (auto simp: seen_def sound_def)
    from that obtain tr b obj k fc where tr: "trace t = tr @ [ApplyStatusE b (progressOf (f obj)) k fc None]" by blast
    have o: "blueGreen up = blueGreen c \<and> progressOK (progressOf up) \<and> progressOf up \<in> range (\<lambda>obj. progressOf (f obj))"
      if "eGetCluster env (trace t) = Inr up" for up
      using assms(1) [unfolded soleWriter_def, THEN conjunct1, rule_format, OF sound_typed [OF conjunct1 [OF \<open>seen c v P t \<and> writtenBy f t\<close>]] that]
        assms(1) [unfolded soleWriter_def, THEN conjunct2, rule_format, OF that [unfolded tr]] by simp
    show ?thesis using s o by (auto simp: wps getCluster_def seen_def split: sum.split)
  qed
  show ?thesis
    unfolding MutateAndApplyAdminOpsStatus_def wp_if wp_bnd wp_wrap_err [of _ "retryOnConflict _ _"] wp_failwith if_bool_eq_conj
    by (intro conjI impI, rule assms(3), rule wp_mono [OF wp_retry_inv [OF wp_applyOnce [OF assms(1,2)] assms(3)]])
      (erule read | assumption)+
qed

lemma ht_MutateWithReader:
  assumes "soleWriter env (blueGreen c)" and "permitted c P f"
  shows "ht (seen c v P) (MutateWithReader env (\<lambda>obj. Inr (f obj)) policy)
     (\<lambda>_ s. \<exists>up. seen c (partitionOf up) (\<lambda>Z. P Z \<and> GetClusterE (Inr up) \<in> Z) s \<and> progressOf up \<in> range (\<lambda>obj. progressOf (f obj))) (\<lambda>_. sound c)"
proof -
  let ?R = "\<lambda>up t. seen c v (\<lambda>Z. P Z \<and> GetClusterE (Inr up) \<in> Z) t \<and> blueGreen up = blueGreen c \<and> progressOK (progressOf up)
        \<and> progressOf up \<in> range (\<lambda>obj. progressOf (f obj))"
  let ?Q = "\<lambda>_ s. \<exists>up. seen c (partitionOf up) (\<lambda>Z. P Z \<and> GetClusterE (Inr up) \<in> Z) s \<and> progressOf up \<in> range (\<lambda>obj. progressOf (f obj))"
  have once: "ht (seen c v P) (MutateAndApplyAdminOpsStatus env n (\<lambda>obj. Inr (f obj)) force) ?R (\<lambda>_. seen c v P)" for n force
    using wp_MutateAndApply [OF assms] by (simp add: ht_def)
  have both: "ht (seen c v P) (attempt (MutateAndApplyAdminOpsStatus env n (\<lambda>obj. Inr (f obj)) force))
      (\<lambda>r. case r of Inl _ \<Rightarrow> seen c v P | Inr up \<Rightarrow> ?R up) (\<lambda>_. sound c)" for n force
    by (rule ht_attempt) (use once in simp)
  have copy: "ht (?R up) (updCl (\<lambda>c. (mapStatus (\<lambda>st. st\<lparr>
            ssAcceptedUpgradeStrategy := ssAcceptedUpgradeStrategy (clStatus up),
            ssUpgrade := ssUpgrade (clStatus up), ssUpgradeRequests := ssUpgradeRequests (clStatus up),
            ssBlueGreen := ssBlueGreen (clStatus up), ssBreakGlass := ssBreakGlass (clStatus up),
            ssBackup := ssBackup (clStatus up), ssAdminOps := ssAdminOps (clStatus up)\<rparr>) c)
              \<lparr>clResourceVersion := clResourceVersion up\<rparr>)) ?Q (\<lambda>_. sound c)" for up
  proof -
    have "site ((mapStatus (\<lambda>st. st\<lparr> ssAcceptedUpgradeStrategy := a, ssUpgrade := u, ssUpgradeRequests := r,
        ssBlueGreen := blueGreen c, ssBreakGlass := g, ssBackup := k, ssAdminOps := ao\<rparr>) d)\<lparr>clResourceVersion := n\<rparr>) = site c" if "site d = site c" for a u r g n d k ao
      using site_sel [OF that] by (simp add: site_def mapStatus_def)
    then show ?thesis
      by (auto simp: ht_def wps seen_def sound_def intro!: exI [of _ up])
  qed
  show ?thesis
    unfolding MutateWithReader_def
  proof (rule ht_cl, intro ht_bnd [OF both], goal_cases)
    case (1 d r1)
    show ?case
    proof (rule ht_bnd [where R = "\<lambda>r. case r of Inl _ \<Rightarrow> seen c v P | Inr up \<Rightarrow> ?R up"], goal_cases)
      case 1
      then show ?case by (cases r1) (auto intro: ht_ret both)
    next
      case (2 r2)
      then show ?case using copy by (cases r2) (auto intro!: ht_fail simp: seen_def)
    qed
  qed
qed

text \<open>The progress record of the pass is written as it is.\<close>

lemma ht_patchStatus:
  assumes "soleWriter env (blueGreen c)" and "grows P"
  shows "ht (seen c (Some q) P) (patchUpgradeStatus env) (\<lambda>_. seen c (Some q) P) (\<lambda>_. sound c)"
  unfolding patchUpgradeStatus_def patchStatusSSA_def
proof (intro ht_if ht_cl ht_wrap, goal_cases)
  case (2 d)
  have "permitted c P (\<lambda>obj. mapStatus (\<lambda>st. st\<lparr>ssUpgrade := progressOf d\<rparr>) obj)"
    using 2 assms(2) by (auto simp: permitted_def)
  from ht_MutateWithReader [OF assms(1) this] show ?case
    by (rule ht_post) (use 2 in \<open>auto simp: seen_def\<close>)
qed (auto intro: ht_fail simp: seen_def)

lemma ht_patchSound:
  assumes "soleWriter env (blueGreen c)"
  shows "ht (\<lambda>s. sound c s \<and> progressOf (cl s) \<noteq> None) (patchUpgradeStatus env) (\<lambda>_. sound c) (\<lambda>_. sound c)"
proof -
  have "ht (seen c (Some q) (\<lambda>_. True)) (patchUpgradeStatus env) (\<lambda>_. sound c) (\<lambda>_. sound c)" for q
    by (rule ht_post [OF ht_patchStatus [OF assms grows_evidence(9)]]) (simp_all add: seen_def)
  then show ?thesis by (auto simp: ht_def seen_def)
qed

lemma sound_resolve:
  assumes "resolveUpgradeFailure n r m (cl s) = (details, c')" and "sound c s"
  shows "sound c (s\<lparr>cl := c'\<rparr>)" "progressOf c' \<noteq> None"
  using assms sound_failed [OF assms(2)] 
  by (auto simp: resolveUpgradeFailure_def Let_def SetUpgradeFailed_def split: if_splits)

lemma ht_calmSound: "keeps (fr (\<lambda>c. (site c, progressOf c)) calm) m \<Longrightarrow> ht (sound c) m (\<lambda>_. sound c) (\<lambda>_. sound c)"
  by (auto simp: ht_def fr_def sound_def guarded_calm elim!: wp_keeps)

lemma ht_calmSoundP:
  "keeps (fr (\<lambda>c. (site c, progressOf c)) calm) m \<Longrightarrow>
   ht (\<lambda>s. sound c s \<and> progressOf (cl s) \<noteq> None) m (\<lambda>_ s. sound c s \<and> progressOf (cl s) \<noteq> None) (\<lambda>_. sound c)"
  by (auto simp: ht_def fr_def sound_def guarded_calm elim!: wp_keeps)

lemma ht_recordFailure:
  assumes "soleWriter env (blueGreen c)"
  shows "ht (sound c) (recordUpgradeFailure env strategy r m) (\<lambda>_. sound c) (\<lambda>_. sound c)"
  unfolding recordUpgradeFailure_def
proof (rule ht_bnd [OF ht_calmSound [OF keeps_modify_cl(3)]], rule ht_gets, goal_cases)
  case (1 n d)
  obtain details c' where r: "resolveUpgradeFailure n r m d = (details, c')" by (cases "resolveUpgradeFailure n r m d")
  let ?P = "\<lambda>s. sound c s \<and> progressOf (cl s) \<noteq> None"
  have set: "ht (\<lambda>s. sound c s \<and> cl s = d) (setCl c') (\<lambda>_. ?P) (\<lambda>_. sound c)"
    using r by (auto simp: ht_def wps dest: sound_resolve)
  have patch: "ht ?P (bnd (attempt (patchUpgradeStatus env)) (\<lambda>_. ret ())) (\<lambda>_. sound c) (\<lambda>_. sound c)"
    by (rule ht_bnd [OF ht_attempt [OF ht_patchSound [OF assms]]]) (auto intro: ht_ret)
  show ?case
    unfolding r prod.case
    by (intro ht_bnd [OF set] ht_bnd [OF ht_calmSoundP] patch) auto
qed

section \<open>Finalization\<close>

lemma grows_converged [simp, intro]: "grows (converged c)" "grows (\<lambda>Z. \<exists>sts. GetStsE n (Inr sts) \<in> Z \<and> B sts)"
  by (fastforce simp: grows_def converged_def Let_def)+

lemma ht_podHealthy:
  "ht (at c v X) (isPodHealthyForFinalization env n)
     (\<lambda>ok s. at c v X s \<and> (ok \<longrightarrow> IsHealthyE (ClusterPodURL c n) (Inr True) \<in> set (trace s))) (\<lambda>_. sound c)"
  unfolding isPodHealthyForFinalization_def
proof (intro ht_try [OF ht_calm [OF calm_calls(14)]] ht_client ht_if ht_ret ht_fail, goal_cases)
  case (1 ca cfg)
  show ?case
    by (rule ht_try [OF ht_IsHealthy]) (use 1 in \<open>auto intro!: ht_ret simp: at_def\<close>)
qed (auto intro: at_sound)

abbreviation podConverged :: "Cluster \<Rightarrow> string \<Rightarrow> event set \<Rightarrow> Pod \<Rightarrow> bool" where
  "podConverged c r Z p \<equiv> isPodReady p \<and> lookup_label (pdLabels p) ''controller-revision-hash'' = r
     \<and> IsHealthyE (ClusterPodURL c (pdName p)) (Inr True) \<in> Z"

lemma ht_podsConverged:
  "ht (at c v X) (podsConverged env r pods) (\<lambda>ok s. at c v X s \<and> (ok \<longrightarrow> (\<forall>p\<in>set pods. podConverged c r (set (trace s)) p))) (\<lambda>_. sound c)"
proof (induction pods arbitrary: X)
  case (Cons p ps)
  let ?Q = "\<lambda>ok s. at c v X s \<and> (ok \<longrightarrow> (\<forall>p\<in>set (p # ps). podConverged c r (set (trace s)) p))"
  let ?e = "IsHealthyE (ClusterPodURL c (pdName p)) (Inr True)"
  have go: "ht (\<lambda>s. at c v X s \<and> (ok \<longrightarrow> ?e \<in> set (trace s))) (if \<not> ok then ret False else podsConverged env r ps) ?Q (\<lambda>_. sound c)"
    if "isPodReady p" "lookup_label (pdLabels p) ''controller-revision-hash'' = r" for ok
  proof (cases ok)
    case True
    from Cons [of "insert ?e X"] have "ht (at c v (insert ?e X)) (podsConverged env r ps) ?Q (\<lambda>_. sound c)"
      by (rule ht_post) (use that in \<open>auto simp: at_def\<close>)
    with True show ?thesis by (auto elim: ht_pre simp: at_def)
  qed (auto intro: ht_ret)
  show ?case
    unfolding podsConverged.simps
    by (intro ht_if ht_bnd [OF ht_podHealthy] go) (auto intro: ht_ret)
qed (auto intro: ht_ret)

lemma ht_clusterPods:
  "ht (at c v X) (getClusterPods env) (\<lambda>voters s. at c v X s
     \<and> (\<exists>sel pods. ListPodsE sel (Inr pods) \<in> set (trace s) \<and> voters = statefulSetPods (voterSet c @ ''-'') pods)) (\<lambda>_. at c v X)"
  unfolding getClusterPods_def
proof (rule ht_cl_at, goal_cases)
  case (1 d)
  show ?case
    unfolding site_names(1) [OF 1(1)]
    by (rule ht_bnd [OF ht_listPods], rule ht_ret) (simp add: at_def, blast)
qed

lemma ht_finalConverged:
  "ht (at c (Some 0) X) (waitForFinalizationConverged env)
     (\<lambda>ok s. at c (Some 0) X s \<and> (ok \<longrightarrow> converged c (set (trace s)))) (\<lambda>_. sound c)"
  unfolding waitForFinalizationConverged_def Let_def
proof (rule ht_cl_at, goal_cases)
  case (1 d)
  note n = site_names(1) [OF 1(1)] site_sel(3) [OF 1(1)]
  let ?Q = "\<lambda>ok s. at c (Some 0) X s \<and> (ok \<longrightarrow> converged c (set (trace s)))"
  let ?S = "\<lambda>sts Z. X \<subseteq> Z \<and> GetStsE (voterSet c) (Inr sts) \<in> Z"
  have repair: "ht (seen c (Some 0) (?S sts)) (bnd (wrap_err w (setStatefulSetPartition env 0)) (\<lambda>_. ret False)) ?Q (\<lambda>_. sound c)"
    if "revisionsConverged c sts" for w sts
    by (rule ht_bnd [OF ht_wrap [OF ht_setPartition]])
      (use that in \<open>auto simp: partitionJustified_def seen_def at_def intro!: ht_ret\<close>)
  have final: "ht (seen c (Some 0) (\<lambda>Z. ?S sts Z \<and> (\<exists>sel pods. ListPodsE sel (Inr pods) \<in> Z
        \<and> voters = statefulSetPods (voterSet c @ ''-'') pods))) (podsConverged env (stUpdateRevision sts) voters) ?Q (\<lambda>_. sound c)"
    if "revisionsConverged c sts" "(case stPartition sts of None \<Rightarrow> 0 | Some p \<Rightarrow> p) = 0"
      "int (length voters) = spReplicas (clSpec c)" for sts voters
    by (rule ht_post [OF ht_seen_obs [OF ht_podsConverged]], fastforce simp: grows_def)
      (use that in \<open>auto simp: seen_def at_def converged_def Let_def split: option.splits\<close>)
  have no: "ht (seen c (Some 0) P) (ret False) ?Q (\<lambda>_. sound c)" if "\<And>Z. P Z \<Longrightarrow> X \<subseteq> Z" for P
    by (rule ht_ret) (use that in \<open>auto simp: seen_def at_def\<close>)
  have rest: "ht (seen c (Some 0) (?S sts)) (bnd (wrap_err w (getClusterPods env)) (\<lambda>pods.
       if int (length pods) \<noteq> spReplicas (clSpec c) then ret False else podsConverged env (stUpdateRevision sts) pods)) ?Q (\<lambda>_. sound c)"
    if "revisionsConverged c sts" "(case stPartition sts of None \<Rightarrow> 0 | Some p \<Rightarrow> p) = 0" for sts w
    by (rule ht_bnd [OF ht_wrap [OF ht_seen_obs [OF ht_error [OF ht_clusterPods]]]], fastforce simp: grows_def)
      (intro ht_if final no, use that in auto)
  have "ht (at c (Some 0) X) (wrap_err w (getSts env (voterSet c))) (\<lambda>sts. seen c (Some 0) (?S sts)) (\<lambda>_. sound c)" for w
    by (rule ht_wrap [OF ht_post [OF ht_getSts_obs]]) (auto simp: at_def seen_def)
  then show ?case
    unfolding n
    by (rule ht_bnd) (intro ht_if repair rest no, auto simp: revisionsConverged_def)
qed

lemma ht_finalize:
  assumes "soleWriter env (blueGreen c)"
  shows "ht (at c (Some 0) X) (finalizeConvergedUpgrade env strategy) (\<lambda>_. sound c) (\<lambda>_. sound c)"
proof -
  have requeue: "ht (seen c (Some 0) P) (requeueAfterProgressPatch env m) (\<lambda>_. sound c) (\<lambda>_. sound c)" for P m
    unfolding requeueAfterProgressPatch_def
    by (rule ht_bnd [OF ht_wrap [OF ht_pre [OF ht_patchSound [OF assms]]]]) (auto simp: seen_def intro: ht_ret)
  have clear: "ht (seen c (Some 0) (converged c)) (updCl (mapStatus (SetUpgradeComplete ver))) (\<lambda>_. seen c None (converged c)) (\<lambda>_. sound c)" for ver
    by (auto simp: ht_def wps seen_def sound_def SetUpgradeComplete_def progressOK_def)
  have perm: "permitted c (converged c) (\<lambda>obj. mapStatus (\<lambda>st. st\<lparr>ssUpgrade := None\<rparr>) obj)"
    by (auto simp: permitted_def progressOK_def clearingJustified_def)
  have patch: "ht (seen c None (converged c)) (patchFinalizedUpgradeStatus env) (\<lambda>_. sound c) (\<lambda>_. sound c)"
    unfolding patchFinalizedUpgradeStatus_def
    by (intro ht_if ht_fail ht_wrap ht_post [OF ht_MutateWithReader [OF assms perm]]) (auto simp: seen_def)
  have tail: "ht (sound c) (bnd (emitMetrics ms) (\<lambda>_. bnd (gets cl) (\<lambda>c'. bnd (audit a (g c')) (\<lambda>_.
       bnd (emitNormalEvent x y) (\<lambda>_. ret 0))))) (\<lambda>_. sound c) (\<lambda>_. sound c)" for ms a g x y
    by (rule ht_calmSound) auto
  show ?thesis
    unfolding finalizeConvergedUpgrade_def Let_def
    by (rule ht_bnd [OF ht_finalConverged], intro ht_if)
      (auto intro!: ht_pre [OF requeue] ht_pre [of "seen c (Some 0) (converged c)"] ht_cl ht_bnd [OF ht_seen [OF ht_calmE [OF keeps_modify_cl(3)]]]
        ht_bnd [OF clear] ht_bnd [OF ht_wrap [OF patch]] tail simp: seen_def at_def)
qed

lemma ht_execution:
  assumes "soleWriter env (blueGreen c)"
  shows "ht (\<lambda>s. \<exists>q. seen c (Some q) (ready c q) s) (reconcileUpgradeExecution env strategy) (\<lambda>_. sound c) (\<lambda>_. sound c)"
proof -
  have requeue: "ht (\<lambda>s. sound c s \<and> progressOf (cl s) \<noteq> None) (requeueAfterProgressPatch env m) (\<lambda>_. sound c) (\<lambda>_. sound c)" for m
    unfolding requeueAfterProgressPatch_def
    by (rule ht_bnd [OF ht_wrap [OF ht_patchSound [OF assms]]]) (auto intro: ht_ret)
  have failed: "ht (sound c) (handleUpgradeExecutionFailure env strategy e) (\<lambda>_. sound c) (\<lambda>_. sound c)" for e
    unfolding handleUpgradeExecutionFailure_def
    by (rule ht_bnd [OF ht_recordFailure [OF assms]]) (auto intro: ht_fail)
  have final: "ht (at c (Some 0) {}) (finalizeConvergedUpgrade env strategy) (\<lambda>_. sound c) (\<lambda>_. sound c)"
    by (rule ht_finalize [OF assms])
  show ?thesis
    unfolding reconcileUpgradeExecution_def
  proof (rule ht_ex, rule ht_try [OF ht_performPod], goal_cases)
    case (1 q fin)
    then show ?case
      by (intro ht_if) (auto intro!: ht_pre [OF requeue] ht_pre [OF final] simp: at_def)
  next
    case (2 q e)
    then show ?case
      by (intro ht_if failed) (auto intro!: ht_calmSound)
  qed
qed

section \<open>Preparation\<close>

text \<open>Where a pass stands after its decision was applied: the partition to work from, if there is one.\<close>

definition placed :: "Cluster \<Rightarrow> int option \<Rightarrow> event set \<Rightarrow> bool" where
  "placed c v Z \<longleftrightarrow> udAction (decideUpgrade c) \<notin> {upgradeIdle, upgradeWaitForRetry}
     \<and> (case v of Some q \<Rightarrow> inForce c q Z
        | None \<Rightarrow> udAction (decideUpgrade c) \<noteq> upgradeResume \<and> inForce c (spReplicas (clSpec c)) Z)"

lemma grows_placed [simp, intro]: "grows (placed c v)"
  using grows_inForce by (auto simp: grows_def placed_def split: option.splits)

lemma ht_retry:
  assumes "soleWriter env (blueGreen c)" and "udAction (decideUpgrade c) = upgradeRetry"
  shows "ht (at c v {}) (prepareFailedUpgradeRetry env req) (\<lambda>_ s. \<exists>v. seen c v (placed c v) s) (\<lambda>_. sound c)"
proof -
  let ?Q = "\<lambda>s. \<exists>v. seen c v (placed c v) s"
  have perm: "permitted c (\<lambda>_. True) (retryMutator n req)" for n
  proof -
    have "ssUpgrade (MarkRetryRequestHandled req st) = ssUpgrade st" for st by (simp add: mark_defs)
    then show ?thesis
      by (auto simp: permitted_def retryMutator_def progressOK_others clearingJustified_def)
        (auto simp: clearUpgradeFailureForRetry_def split: option.splits)
  qed
  have "seen c (partitionOf up) (placed c (partitionOf up)) s"
    if "seen c (partitionOf up) (\<lambda>Z. True \<and> GetClusterE (Inr up) \<in> Z) s" for up s
    using that assms(2) by (auto simp: seen_def placed_def inForce_def split: option.split)
  then have written: "ht (seen c v (\<lambda>_. True)) (MutateWithReader env (\<lambda>obj. Inr (retryMutator n req obj)) p) (\<lambda>_. ?Q) (\<lambda>_. sound c)" for n p v
    by (intro ht_post [OF ht_MutateWithReader [OF assms(1) perm]]) blast+
  have tail: "ht ?Q m (\<lambda>_. ?Q) (\<lambda>_. sound c)" if "keeps (fr (\<lambda>c. (site c, progressOf c)) calm) m" for m :: "unit op"
  proof (rule ht_ex)
    show "ht (seen c v (placed c v)) m (\<lambda>_. ?Q) (\<lambda>_. sound c)" for v
      by (rule ht_post [OF ht_seen [OF ht_calmE [OF that] grows_placed]]) auto
  qed
  have patch: "ht (at c v {}) (patchRetryStatusSSA env req) (\<lambda>_. ?Q) (\<lambda>_. sound c)" for v
    unfolding patchRetryStatusSSA_def
    by (intro ht_if ht_bnd [OF ht_calmE [OF keeps_modify_cl(3)]] ht_bnd [OF ht_wrap [OF ht_pre [OF written]]] tail)
      (auto intro: ht_fail at_sound simp: at_def seen_def)
  show ?thesis
    unfolding prepareFailedUpgradeRetry_def
  proof (rule ht_cl_at, goal_cases)
    case (1 d)
    then show ?case
      by (cases "progressOf d")
        (auto intro!: ht_fail ht_bnd [OF ht_calmE [OF calm_calls(9)]] ht_bnd [OF ht_calmE [OF calm_retryCleanup(1)]]
          ht_bnd [OF ht_calmE [OF calm_retryCleanup(2)]] ht_bnd [OF ht_wrap [OF patch]] tail intro: at_sound split: option.split)
  qed
qed

lemma ht_applyDecision:
  assumes "soleWriter env (blueGreen c)" and "udAction (decideUpgrade c) \<notin> {upgradeIdle, upgradeWaitForRetry}"
  shows "ht (at c (partitionOf c) {}) (applyUpgradeDecision env (decideUpgrade c)) (\<lambda>_ s. \<exists>v. seen c v (placed c v) s) (\<lambda>_. sound c)"
proof (cases "udAction (decideUpgrade c)")
  case upgradeRetry
  then show ?thesis using ht_retry [OF assms(1)] by (simp add: applyUpgradeDecision_def)
next
  case upgradeRetarget
  then have "placed c None Z" for Z by (simp add: placed_def inForce_def)
  with upgradeRetarget show ?thesis
    by (auto simp: applyUpgradeDecision_def ht_def wps at_def seen_def sound_def ClearUpgrade_def progressOK_def intro!: exI [of _ None])
next
  case upgradeStart
  then have "progressOf c = None" by (auto simp: decideUpgrade_def Let_def split: option.splits if_splits)
  with upgradeStart have "placed c (partitionOf c) Z" for Z by (simp add: placed_def inForce_def)
  then show ?thesis using upgradeStart by (auto intro!: ht_ret simp: applyUpgradeDecision_def seen_def at_def)
next
  case upgradeResume
  then obtain u where "progressOf c = Some u" by (auto simp: decideUpgrade_def Let_def split: option.splits if_splits)
  with upgradeResume have "placed c (partitionOf c) Z" for Z by (simp add: placed_def inForce_def)
  then show ?thesis using upgradeResume by (auto intro!: ht_ret simp: applyUpgradeDecision_def seen_def at_def)
qed (use assms(2) in auto)

lemma ht_start:
  assumes "soleWriter env (blueGreen c)" and "0 \<le> spReplicas (clSpec c)" "spReplicas (clSpec c) < 2 ^ 31"
  shows "ht (seen c v (\<lambda>Z. placed c v Z \<and> validated c v Z)) (startUpgradeExecutionIfNeeded env strategy)
     (\<lambda>_ s. \<exists>q. seen c (Some q) (ready c q) s) (\<lambda>_. sound c)"
proof (cases v)
  case (Some q)
  show ?thesis
    unfolding startUpgradeExecutionIfNeeded_def Let_def
    by (rule ht_cl) (use Some in \<open>auto intro!: ht_ret exI [of _ q] simp: seen_def placed_def validated_def ready_def\<close>)
next
  case None
  let ?r = "spReplicas (clSpec c)" and ?P = "\<lambda>Z. placed c None Z \<and> allReady c Z"
  have start: "ht (seen c None ?P) (updCl (mapStatus (SetUpgradeStarted n a b ?r))) (\<lambda>_. seen c (Some ?r) ?P) (\<lambda>_. sound c)" for n a b
    using assms(2,3) by (auto simp: ht_def wps seen_def sound_def SetUpgradeStarted_def progressOK_def)
  have lock: "ht (seen c (Some ?r) ?P) (setStatefulSetPartition env ?r) (\<lambda>_. seen c (Some ?r) ?P) (\<lambda>_. sound c)"
    by (rule ht_setPartition) (auto simp: partitionJustified_def placed_def)
  have patch: "ht (seen c (Some ?r) ?P) (patchUpgradeStatus env) (\<lambda>_. seen c (Some ?r) ?P) (\<lambda>_. sound c)"
    by (rule ht_patchStatus [OF assms(1)]) auto
  have "seen c (Some ?r) ?P s \<Longrightarrow> \<exists>q. seen c (Some q) (ready c q) s" for s
    by (auto simp: seen_def placed_def ready_def intro!: exI [of _ ?r])
  then have tail: "ht (seen c (Some ?r) ?P) m (\<lambda>_ s. \<exists>q. seen c (Some q) (ready c q) s) (\<lambda>_. sound c)"
    if "keeps (fr (\<lambda>c. (site c, progressOf c)) calm) m" for m :: "unit op"
    by (intro ht_post [OF ht_seen [OF ht_calmE [OF that]]]) auto
  have v: "validated c None = allReady c" by (auto simp: validated_def)
  show ?thesis
    unfolding startUpgradeExecutionIfNeeded_def Let_def None v
  proof (rule ht_cl, goal_cases)
    case (1 d)
    show ?case
      unfolding site_sel(3) [OF 1(1)]
      by (intro ht_if ht_bnd [OF ht_seen [OF ht_calmE [OF keeps_modify_cl(3)]]] ht_bnd [OF start] ht_bnd [OF ht_wrap [OF lock]]
          ht_bnd [OF ht_wrap [OF patch]] tail) (use 1 in \<open>auto intro: ht_ret\<close>)
  qed
qed

lemma ht_setUnlocked:
  "unlocked c' = unlocked d \<Longrightarrow> ht (\<lambda>s. sound c s \<and> cl s = d) (setCl c') (\<lambda>_. sound c) (\<lambda>_. sound c)"
  by (auto simp: ht_def wps sound_def dest: unlocked_rolling)

lemma ht_preStart:
  assumes "soleWriter env (blueGreen c)"
  shows "ht (sound c) (handlePreStartUpgradeFailure env e) (\<lambda>_. R) (\<lambda>_. sound c)"
proof -
  have persist: "ht (sound c) (persistValidationFailure env e) (\<lambda>_. sound c) (\<lambda>_. sound c)"
    unfolding persistValidationFailure_def
    by (rule ht_gets) (auto intro!: ht_if ht_ret ht_wrap ht_pre [OF ht_patchSound [OF assms]])
  have release: "ht (\<lambda>s. sound c s \<and> cl s = d) (ReleaseUpgradeLockOnErrorIfHeld (bgLockApi env) audit d b x m)
      (\<lambda>p s. sound c s \<and> cl s = d \<and> unlocked (fst p) = unlocked d) (\<lambda>_. sound c)" for d b x m
    unfolding ht_def
    by (intro allI impI, rule wp_keeps_yields [OF calm_releaseOnError [where V = "\<lambda>c. c"] yields_releaseOnError])
      (auto simp: fr_def sound_def guarded_calm)
  show ?thesis
    unfolding handlePreStartUpgradeFailure_def
  proof (rule ht_bnd [OF persist], rule ht_gets, rule ht_bnd [OF release], goal_cases)
    case (1 _ d p)
    show ?case
      by (cases p, simp, rule ht_assume [where B = "unlocked (fst p) = unlocked d"], simp)
        (auto intro!: ht_bnd [OF ht_pre [OF ht_setUnlocked]] ht_fail)
  qed
qed

lemma ht_prepare:
  assumes "soleWriter env (blueGreen c)" and "0 \<le> spReplicas (clSpec c)" "spReplicas (clSpec c) < 2 ^ 31"
    and "udAction (decideUpgrade c) \<notin> {upgradeIdle, upgradeWaitForRetry}"
  shows "ht (at c (partitionOf c) {}) (prepareUpgradeExecution env strategy (decideUpgrade c))
     (\<lambda>w. case w of Some _ \<Rightarrow> sound c | None \<Rightarrow> (\<lambda>s. \<exists>q. seen c (Some q) (ready c q) s)) (\<lambda>_. sound c)"
proof -
  let ?R = "\<lambda>s. \<exists>q. seen c (Some q) (ready c q) s"
  let ?Q = "\<lambda>w. case w of Some _ \<Rightarrow> sound c | None \<Rightarrow> ?R"
  have pre: "ht (seen c v (placed c v)) (ensureUpgradePrerequisites env) (\<lambda>_. seen c v (\<lambda>Z. placed c v Z \<and> validated c v Z)) (\<lambda>_. sound c)" for v
  proof -
    have acc: "ht (at c v X) (wrap_err w (callU f EnsureServiceAccountE)) (\<lambda>_. at c v X) (\<lambda>_. sound c)" for X w f
      by (rule ht_calmE) (auto intro!: keeps_fr_call)
    have val: "ht (at c v X) (validateUpgrade env) (\<lambda>_ s. at c v X s \<and> validated c v (set (trace s))) (\<lambda>_. sound c)" for X
      unfolding ht_def
    proof (intro allI impI)
      fix s assume s: "at c v X s"
      have "wp (validateUpgrade env) (\<lambda>_ t. X \<subseteq> set (trace t)) (\<lambda>_ t. X \<subseteq> set (trace t)) s"
        by (rule wp_keeps [OF calm_validateUpgrade [OF faultless_site]]) (use s in \<open>auto simp: fr_def at_def\<close>)
      from wp_conj [OF htD [OF ht_validate s] this]
      show "wp (validateUpgrade env) (\<lambda>_ s. at c v X s \<and> validated c v (set (trace s))) (\<lambda>_. sound c) s"
        by (rule wp_mono) (auto simp: at_def seen_def)
    qed
    show ?thesis unfolding ensureUpgradePrerequisites_def
      by (rule ht_cl) (intro ht_bnd [OF ht_seen [OF acc]] ht_seen_obs [OF val] grows_placed)
  qed
  have tail: "ht ?R (bnd (ensureReadReplicaPoolReadyForRollingUpgrade env) (\<lambda>w. bnd recordInProgressMetrics (\<lambda>_. ret w))) ?Q (\<lambda>_. sound c)"
    unfolding recordInProgressMetrics_def
  proof (rule ht_ex)
    show "ht (seen c (Some q) (ready c q)) (bnd (ensureReadReplicaPoolReadyForRollingUpgrade env) (\<lambda>w.
        bnd (bnd (gets cl) (\<lambda>c. emitMetrics (inProgressMetrics c))) (\<lambda>_. ret w))) ?Q (\<lambda>_. sound c)" for q
      by (rule ht_post [OF ht_seen [OF ht_calmE]]) (auto simp: seen_def split: option.split)
  qed
  show ?thesis
    unfolding prepareUpgradeExecution_def
  proof (rule ht_bnd [OF ht_applyDecision [OF assms(1,4)]], rule ht_ex, rule ht_try [OF pre], goal_cases)
    case (1 u v w)
    show ?case
      by (rule ht_unless_stop [where R = "seen c v (\<lambda>Z. placed c v Z \<and> validated c v Z)", OF ht_post [OF ht_seen [OF ht_calmE [OF calm_snapshot]]]])
        (auto intro!: ht_bnd [OF ht_start [OF assms(1-3)] tail] simp: seen_def split: option.split)
  next
    case (2 u v e)
    show ?case by (rule ht_post [OF ht_preStart [OF assms(1)]]) auto
  qed
qed

section \<open>The whole pass\<close>

lemma ht_lock:
  assumes "soleWriter env (blueGreen c)"
  shows "ht (at c v X) (ensureUpgradeLock env strategy action)
     (\<lambda>w. case w of Some _ \<Rightarrow> sound c | None \<Rightarrow> (\<lambda>s. at c v X s \<and> action \<notin> {upgradeIdle, upgradeWaitForRetry})) (\<lambda>_. sound c)"
proof -
  have blocked: "ht (at c v X) (handleBlockedUpgradeLock env strategy e) (\<lambda>_. at c v X) (\<lambda>_. sound c)" for e
    unfolding handleBlockedUpgradeLock_def
    by (intro ht_bnd [OF ht_calmE [OF calm_calls(10)]] ht_cl_at ht_if)
      (auto intro!: ht_ret ht_fail ht_bnd [OF ht_pre [OF ht_recordFailure [OF assms]]] intro: at_sound)
  have acquire: "ht (at c v X) (acquireUpgradeLock env strategy) (\<lambda>_. at c v X) (\<lambda>_. sound c)"
    unfolding acquireUpgradeLock_def
  proof (rule ht_gets, goal_cases)
    case (1 d)
    have "ht (\<lambda>s. at c v X s \<and> cl s = d) (AcquireUpgradeLock (bgLockApi env) audit d m)
        (\<lambda>p s. at c v X s \<and> unlocked (fst p) = unlocked (cl s)) (\<lambda>_. sound c)" for m
      unfolding ht_def
      by (intro allI impI, rule wp_keeps_yields [OF calm_acquire [where V = "\<lambda>c. c"] yields_acquire])
        (auto simp: fr_def at_def sound_def guarded_calm)
    moreover have "ht (\<lambda>s. at c v X s \<and> unlocked d' = unlocked (cl s)) (setCl d') (\<lambda>_. at c v X) (\<lambda>_. sound c)" for d'
      by (auto simp: ht_def wps at_def sound_def dest: unlocked_rolling)
    ultimately show ?case
      by (intro ht_bnd [OF ht_wrap])
        (auto intro!: ht_bnd ht_ret blocked split: prod.split option.split)
  qed
  have release: "ht (at c v X) (releaseUpgradeLockIfHeld env) (\<lambda>_. sound c) (\<lambda>_. sound c)"
    unfolding ht_def
    by (intro allI impI, rule wp_keeps [OF calm_releaseUpgradeLock])
      (auto simp: fr_def at_def sound_def guarded_calm dest: unlocked_rolling)
  show ?thesis
    unfolding ensureUpgradeLock_def
    by (intro ht_if ht_bnd [OF ht_calmE [OF calm_emitMetrics]] ht_bnd [OF acquire] ht_try [OF release] ht_ret)
      (auto intro: at_sound split: option.split)
qed

lemma ht_afterLock:
  assumes "soleWriter env (blueGreen c)" and "0 \<le> spReplicas (clSpec c)" "spReplicas (clSpec c) < 2 ^ 31"
    and "udAction (decideUpgrade c) \<notin> {upgradeIdle, upgradeWaitForRetry}"
  shows "ht (at c (partitionOf c) {}) (unless_done (prepareUpgradeExecution env strategy (decideUpgrade c))
     (reconcileUpgradeExecution env strategy)) (\<lambda>_. sound c) (\<lambda>_. sound c)"
  by (rule ht_unless_done [OF ht_prepare [OF assms] ht_execution [OF assms(1)]])

lemma sound_rolling:
  assumes "soleWriter env (blueGreen (cl s))" and "0 \<le> spReplicas (clSpec (cl s))" "spReplicas (clSpec (cl s)) < 2 ^ 31"
    and "progressOK (progressOf (cl s))" and "trace s = []"
  shows "sound (cl s) (snd (snd (RollingReconcile env s)))"
proof -
  let ?c = "cl s" and ?s = "s\<lparr>acks := noAcks\<rparr>"
  have s: "at ?c (partitionOf ?c) {} (?s\<lparr>acks := a\<rparr>)" for a using assms(4,5) by (simp add: at_def sound_def)
  have "ht (at ?c (partitionOf ?c) {}) (unless_done (ensureUpgradeLock env strategy (udAction (decideUpgrade ?c)))
       (unless_done (prepareUpgradeExecution env strategy (decideUpgrade ?c)) (reconcileUpgradeExecution env strategy)))
       (\<lambda>_. sound ?c) (\<lambda>_. sound ?c)" for strategy
  proof (rule ht_unless_done [OF ht_lock [OF assms(1)]], rule ht_assume [where B = "udAction (decideUpgrade ?c) \<notin> {upgradeIdle, upgradeWaitForRetry}"], goal_cases)
    case 2
    then show ?case by (auto intro!: ht_pre [OF ht_afterLock [OF assms(1-3)]])
  qed blast
  note run = htD [OF this s]
  have "wp (rollingReconcile env) (\<lambda>_. sound ?c) (\<lambda>_. sound ?c) ?s"
    unfolding rollingReconcile_def Let_def
    using run at_sound [OF s [of noAcks]]
    by (auto simp: wps sound_def split: option.split)
  then have "sound ?c (snd (rollingReconcile env ?s))" by (simp add: wp_snd)
  then show ?thesis by (auto simp: RollingReconcile_def split: prod.split)
qed

end
