(* ===== verification/Rolling_Liveness.thy ===== *)
theory Rolling_Liveness
  imports Rolling_Pass
begin

text \<open>
  Progress of a rolling upgrade.  The StatefulSet controller and the kubelet work asynchronously: while the Pod that the
  partition has released is being replaced, passes see it missing, terminating, at the old revision or not ready, for as
  many passes as it takes.  In steady surroundings (the API server accepts writes, the other voters are healthy and led by one of
  them, the deadline has not passed) no pass fails: it keeps the recorded progress, having written the partition, as long
  as the controller has not caught up with that partition, and advances as soon as it has.  The triples of this theory
  have \<open>False\<close> as error condition: the calls return normally.
\<close>

section \<open>Steady surroundings\<close>

text \<open>
  The cluster object is one whose upgrade is to be resumed: it is initialized, rolling and not in safe mode, the recorded target is the
  specified version, reachable from the running one, and no failure is recorded.  It has three voters or more, no
  pre-upgrade snapshot and no read replicas.
\<close>

definition undisturbed :: "Cluster \<Rightarrow> bool" where
  "undisturbed c \<longleftrightarrow> clName c \<noteq> [] \<and> (\<forall>n. shouldSkipUpgradeReconcile n c = None)
     \<and> udAction (decideUpgrade c) = upgradeResume
     \<and> ValidateUpgradeTargetVersion (ssCurrentVersion (clStatus c)) (spVersion (clSpec c)) = None
     \<and> (case spUpgrade (clSpec c) of None \<Rightarrow> True | Some u \<Rightarrow> \<not> ucPreUpgradeSnapshot u)
     \<and> desiredReadReplicaReplicas c = 0 \<and> 3 \<le> spReplicas (clSpec c)"

text \<open>The API server answers, accepts writes, and shows what was written last; nobody else holds the lock.\<close>

definition serves :: "env \<Rightarrow> Cluster \<Rightarrow> UpgradeProgress \<Rightarrow> bool" where
  "serves env c u \<longleftrightarrow> eHasAdminOpsMutator env \<and> (\<forall>d. eValidateSealPlugins env d = None)
     \<and> ValidateImageRefMatchesVersion (eParseReference env) (spVersion (clSpec c)) (spImage (clSpec c)) = None
     \<and> (\<forall>tr d. eEnsureServiceAccount env tr d = None) \<and> (\<forall>tr d f. eApplyStatus env tr d f = None)
     \<and> (\<forall>tr b l. \<exists>d. ePatchLock env tr b l = Inr d)
     \<and> (\<forall>tr. \<exists>d. eGetCluster env tr = Inr d \<and> (ssOperationLock (clStatus d) = None
          \<or> IsHeldBy upgradeOperationLock (ssOperationLock (clStatus d))))
     \<and> (\<forall>tr b v k f d. eGetCluster env (tr @ [ApplyStatusE b v k f None]) = Inr d \<longrightarrow> progressOf d = v)
     \<and> (\<forall>tr t. upStartedAt u = Some t \<longrightarrow> eNow env tr - t \<le> DefaultPodReadyTimeout)"

abbreviation tgtName :: "Cluster \<Rightarrow> int \<Rightarrow> string" where
  "tgtName c q \<equiv> StableVoterPodName (Some c) (q - 1)"

definition healthyAt :: "env \<Rightarrow> string \<Rightarrow> bool" where
  "healthyAt env url \<longleftrightarrow> (\<forall>tr cfg. ccBaseURL cfg = url \<longrightarrow> eIsHealthy env tr cfg = Inr True)"

text \<open>
  The voters other than the target: all listed, running and ready, exactly one of them labelled as the leader.  The target may be
  missing or in any state, but it is not labelled as the leader.
\<close>

definition goodVoters :: "Cluster \<Rightarrow> string \<Rightarrow> string \<Rightarrow> Pod list \<Rightarrow> bool" where
  "goodVoters c tgt l voters \<longleftrightarrow> spReplicas (clSpec c) - 1 \<le> int (length (filter (\<lambda>p. pdName p \<noteq> tgt) voters))
     \<and> (\<forall>p\<in>set voters. if pdName p = tgt then ParseBoolLabel (pdLabels p) ''openbao-active'' \<noteq> Inr (True, True)
          else isPodReady p \<and> pdPhase p = ''Running'' \<and> pdName p \<noteq> []
            \<and> ParseBoolLabel (pdLabels p) ''openbao-active'' = Inr (pdName p = l, True))
     \<and> length (filter (\<lambda>p. pdName p = l) voters) = 1
     \<and> (\<forall>n\<in>set (voterPodNames c). n \<noteq> tgt \<longrightarrow> podNamed voters n \<noteq> None)"

definition staffed :: "env \<Rightarrow> Cluster \<Rightarrow> string \<Rightarrow> bool" where
  "staffed env c tgt \<longleftrightarrow> (\<forall>tr d. \<exists>ca. eLoadCACert env tr d = Inr ca) \<and> (\<forall>tr cfg. eNewClient env tr cfg = None)
     \<and> (\<forall>n. n \<noteq> tgt \<longrightarrow> healthyAt env (ClusterPodURL c n))
     \<and> (\<forall>tr cfg. ccBaseURL cfg = ClusterPodURL c tgt \<longrightarrow> eIsLeader env tr cfg \<noteq> Inr True)
     \<and> (\<forall>tr sel. \<exists>pods l. eListPods env tr sel = Inr pods \<and> FindLeaderPodByLabel pods = Inr (Some l) \<and> l \<noteq> [] \<and> l \<noteq> tgt
          \<and> goodVoters c tgt l (statefulSetPods (voterSet c @ ''-'') pods))"

text \<open>
  The StatefulSet has observed the template of the upgrade, with the revision \<open>R\<close> and the image \<open>img\<close>, and a quorum is ready.  A Pod that
  is read or deleted may be missing.
\<close>

definition templated :: "env \<Rightarrow> Cluster \<Rightarrow> string \<Rightarrow> string \<Rightarrow> bool" where
  "templated env c R img \<longleftrightarrow> trim_space R = R \<and> R \<noteq> []
     \<and> (\<forall>tr sts p. ePatchPartition env tr sts p = None)
     \<and> (\<forall>tr. \<exists>sts. eGetSts env tr (voterSet c) = Inr sts)
     \<and> (\<forall>tr sts. eGetSts env tr (voterSet c) = Inr sts \<longrightarrow> statefulSetTemplateCurrent sts c \<and> stUpdateRevision sts = R
          \<and> trim_space (baoContainerImage (stContainers sts)) = img \<and> requiredQuorum (spReplicas (clSpec c)) \<le> stReadyReplicas sts)
     \<and> (\<forall>tr n e. eGetPod env tr n = Inl e \<longrightarrow> is_not_found e) \<and> (\<forall>tr p e. eDeletePod env tr p = Some e \<longrightarrow> is_not_found e)"

definition steady :: "env \<Rightarrow> Cluster \<Rightarrow> UpgradeProgress \<Rightarrow> bool" where
  "steady env c u \<longleftrightarrow> progressOf c = Some u \<and> 0 \<le> upCurrentPartition u \<and> upCurrentPartition u \<le> spReplicas (clSpec c)
     \<and> spReplicas (clSpec c) < 2 ^ 31
     \<and> undisturbed c \<and> serves env c u \<and> staffed env c (tgtName c (upCurrentPartition u)) \<and> (\<exists>R img. templated env c R img)"

text \<open>
  \<open>caughtUp env c p\<close>: the controller has done what the partition \<open>p\<close> asks for.  Every voter Pod from ordinal \<open>p\<close> on runs the revision and the image
  of the StatefulSet, is ready and healthy; with partition zero, the status of the StatefulSet and the listed voters say so too.
\<close>

definition replaced :: "StatefulSet \<Rightarrow> Pod \<Rightarrow> bool" where
  "replaced sts pod \<longleftrightarrow> omDeletionTimestamp (pdMeta pod) = None \<and> isPodReady pod
     \<and> trim_space (lookup_label (pdLabels pod) ''controller-revision-hash'') = trim_space (stUpdateRevision sts)
     \<and> trim_space (baoContainerImage (pdContainers pod)) = trim_space (baoContainerImage (stContainers sts))"

definition caughtUp :: "env \<Rightarrow> Cluster \<Rightarrow> int \<Rightarrow> bool" where
  "caughtUp env c p \<longleftrightarrow>
     (\<forall>i. p \<le> i \<and> i < spReplicas (clSpec c) \<longrightarrow> healthyAt env (ClusterPodURL c (StableVoterPodName (Some c) i))
        \<and> (\<forall>tr tr' sts. eGetSts env tr (voterSet c) = Inr sts
             \<longrightarrow> (\<exists>pod. eGetPod env tr' (StableVoterPodName (Some c) i) = Inr pod \<and> replaced sts pod)))
     \<and> (p = 0 \<longrightarrow> (\<forall>tr sts. eGetSts env tr (voterSet c) = Inr sts
          \<longrightarrow> revisionsConverged c sts \<and> (stPartition sts = None \<or> stPartition sts = Some 0)
            \<and> (\<forall>tr' sel pods. eListPods env tr' sel = Inr pods
                 \<longrightarrow> (let voters = statefulSetPods (voterSet c @ ''-'') pods in int (length voters) = spReplicas (clSpec c)
                      \<and> (\<forall>p\<in>set voters. isPodReady p \<and> lookup_label (pdLabels p) ''controller-revision-hash'' = stUpdateRevision sts)))))"

section \<open>Calls that succeed\<close>

abbreviation never :: "go_error \<Rightarrow> st \<Rightarrow> bool" where
  "never \<equiv> \<lambda>_ _. False"

text \<open>\<open>fit c u\<close>: the object is still the one of the pass, with the progress \<open>u\<close>.\<close>

definition fit :: "Cluster \<Rightarrow> UpgradeProgress \<Rightarrow> st \<Rightarrow> bool" where
  "fit c u s \<longleftrightarrow> site (cl s) = site c \<and> progressOf (cl s) = Some u
     \<and> ssCurrentVersion (clStatus (cl s)) = ssCurrentVersion (clStatus c)"

text \<open>\<open>freed c u p\<close>: moreover, the partition \<open>p\<close> has been written.\<close>

definition patched :: "int \<Rightarrow> st \<Rightarrow> bool" where
  "patched p s \<longleftrightarrow> (\<exists>n. PatchPartitionE n p None \<in> set (trace s))"

definition freed :: "Cluster \<Rightarrow> UpgradeProgress \<Rightarrow> int \<Rightarrow> st \<Rightarrow> bool" where
  "freed c u p s \<longleftrightarrow> fit c u s \<and> patched p s"

text \<open>What the reads of a pass keep: both of them.\<close>

definition sticky :: "Cluster \<Rightarrow> UpgradeProgress \<Rightarrow> (st \<Rightarrow> bool) \<Rightarrow> bool" where
  "sticky c u P \<longleftrightarrow> (\<forall>s. P s \<longrightarrow> fit c u s \<and> (\<forall>e. P (s\<lparr>trace := trace s @ [e]\<rparr>)))"

lemma fit_emit [simp]: "fit c u (s\<lparr>trace := tr\<rparr>) = fit c u s"
  by (simp add: fit_def)

lemma sticky_fit [simp, intro]: "sticky c u (fit c u)" "sticky c u (freed c u p)"
  by (auto simp: sticky_def freed_def patched_def)

lemma stickyD:
  assumes "sticky c u P" "P s"
  shows "fit c u s" "P (s\<lparr>trace := trace s @ [e]\<rparr>)" "site (cl s) = site c" "progressOf (cl s) = Some u"
  using assms by (auto simp: sticky_def fit_def)

lemma ok_cl:
  assumes "sticky c u P"
    and "\<And>d. site d = site c \<Longrightarrow> progressOf d = Some u \<Longrightarrow> ssCurrentVersion (clStatus d) = ssCurrentVersion (clStatus c) \<Longrightarrow> ht P (k d) Q E"
  shows "ht P (bnd (gets cl) k) Q E"
  using assms by (auto simp: ht_def wps fit_def sticky_def)

lemma ok_now: "ht P (now env) (\<lambda>_. P) never"
  by (simp add: ht_def wps)

lemma ok_metrics: "ht P (emitMetrics ms) (\<lambda>_. P) never" if "\<And>s e. P s \<Longrightarrow> P (s\<lparr>trace := trace s @ [e]\<rparr>)"
proof -
  have "ht P (emitAll es) (\<lambda>_. P) never" for es
    by (induction es) (auto simp: ht_def wps that)
  then show ?thesis by (simp add: emitMetrics_def)
qed

lemma serves_clock: "serves env c u \<Longrightarrow> upStartedAt u = Some t \<Longrightarrow> eNow env tr - t \<le> DefaultPodReadyTimeout"
  by (simp add: serves_def)

lemma ok_deadline:
  assumes "serves env c u" and "sticky c u P" and "DefaultPodReadyTimeout \<le> toDeadline spec"
  shows "ht P (failUpgradeIfStartedTimeout env spec) (\<lambda>_. P) never"
proof -
  have "eNow env tr - t \<le> toDeadline spec" if "upStartedAt u = Some t" for tr t
    using serves_clock [OF assms(1) that, of tr] assms(3) by linarith
  then show ?thesis using stickyD(4) [OF assms(2)]
    by (auto simp: ht_def wps failUpgradeIfStartedTimeout_def failUpgradeIfTimestampTimeout_def split: option.split)
qed

lemma deadlines_le [simp]:
  "DefaultPodReadyTimeout \<le> toDeadline (podRevisionTimeout n)" "DefaultPodReadyTimeout \<le> toDeadline (podReadyTimeout n)"
  "DefaultPodReadyTimeout \<le> toDeadline (podHealthTimeout n)"
  by (simp_all add: podRevisionTimeout_def podReadyTimeout_def podHealthTimeout_def DefaultHealthCheckTimeout_def)

section \<open>The lock\<close>

lemma ok_retry:
  assumes "wp m Q never s" and "0 < n" shows "wp (retryOnConflict n m) Q never s"
  using assms by (cases n) (auto simp: wp_def split: sum.splits prod.splits)

lemma wp_attempt_lock:
  assumes "serves env c u"
  shows "wp (lockAttempt (bgLockApi env) ns n (acquireMutator upgradeOperationLock opts)) (\<lambda>_ t. cl t = cl s) never s"
proof -
  obtain d where d: "eGetCluster env (trace s) = Inr d"
    "ssOperationLock (clStatus d) = None \<or> IsHeldBy upgradeOperationLock (ssOperationLock (clStatus d))"
    using assms unfolding serves_def by blast
  have p: "\<exists>d. ePatchLock env tr b l = Inr d" for tr b l using assms unfolding serves_def by blast
  show ?thesis
    using d p [of "trace s @ [GetClusterE (Inr d)]" d]
    by (cases "ssOperationLock (clStatus d)")
      (auto simp: lockAttempt_def bgLockApi_def getCluster_def wps acquireMutator_def Let_def split: sum.split, (metis sum.distinct(1))+)
qed

lemma ok_acquire:
  assumes "serves env c u" and "clName c \<noteq> []"
  shows "ht (fit c u) (acquireUpgradeLock env strategy) (\<lambda>r s. fit c u s \<and> r = 0) never"
proof -
  have acq0: "wp (AcquireUpgradeLock (bgLockApi env) audit (cl s) m) (\<lambda>p t. cl t = cl s \<and> snd p = None \<and> unlocked (fst p) = unlocked (cl s)) never s"
    if "fit c u s" for s m
  proof -
    have n: "clName (cl s) \<noteq> []" using that assms(2) by (metis fit_def site_sel(1))
    have m: "wp (MutateAndPatchLockStatus (bgLockApi env) (clNamespace (cl s)) (clName (cl s)) (acquireMutator upgradeOperationLock opts))
       (\<lambda>_ t. cl t = cl s) never s" for opts
      using n ok_retry [OF wp_attempt_lock [OF assms(1)]] by (simp add: MutateAndPatchLockStatus_def wps DefaultRetrySteps_def)
    have l: "olHolder upgradeOperationLock \<noteq> []" "olOperation upgradeOperationLock \<noteq> []" by (simp_all add: upgradeOperationLock_def)
    show ?thesis
      by (simp add: AcquireUpgradeLock_def AcquireUpgradeOperationLock_def AcquireWithReader_def AcquireWithReaderResult_def
          mutateOperationLockStatus_def wps Let_def l)
        (rule wp_mono [OF m], auto simp: wps audit_def split: prod.split)
  qed
  have acq: "ht (\<lambda>s. fit c u s \<and> cl s = d) (AcquireUpgradeLock (bgLockApi env) audit d m)
      (\<lambda>p s. fit c u s \<and> snd p = None \<and> unlocked (fst p) = unlocked (cl s)) never" for d m
    unfolding ht_def by (intro allI impI, elim conjE, hypsubst, rule wp_mono [OF acq0]) (auto simp: fit_def)
  have set: "ht (\<lambda>s. fit c u s \<and> b = None \<and> unlocked d = unlocked (cl s)) (bnd (setCl d) (\<lambda>_. case b of
      None \<Rightarrow> ret 0 | Some err \<Rightarrow> handleBlockedUpgradeLock env strategy err)) (\<lambda>r s. fit c u s \<and> r = 0) never" for d b
  proof -
    have "ssCurrentVersion (clStatus d) = ssCurrentVersion (clStatus c')" if "unlocked d = unlocked c'" for c'
      using arg_cong [OF that, of "\<lambda>x. ssCurrentVersion (clStatus x)"] by (simp add: unlocked_def setOperationLock_def)
    then show ?thesis by (auto simp: ht_def wps fit_def dest: unlocked_rolling)
  qed
  show ?thesis
    unfolding acquireUpgradeLock_def
    by (rule ht_gets, rule ht_bnd [OF ht_wrap [OF acq]]) (auto intro!: ht_pre [OF set] split: prod.split)
qed

section \<open>Health\<close>

lemma staffed_calls:
  assumes "staffed env c tgt"
  shows "\<exists>ca. eLoadCACert env tr d = Inr ca" "eNewClient env tr cfg = None" "n \<noteq> tgt \<Longrightarrow> healthyAt env (ClusterPodURL c n)"
    "ccBaseURL cfg = ClusterPodURL c tgt \<Longrightarrow> eIsLeader env tr cfg \<noteq> Inr True"
  using assms unfolding staffed_def by blast+

lemma ok_ca:
  assumes "staffed env c tgt" and "sticky c u P"
  shows "ht P (LoadClusterCACert env) (\<lambda>_. P) never"
proof -
  have "wp (LoadClusterCACert env) (\<lambda>_. P) never t" if "P t" for t
    using staffed_calls(1) [OF assms(1), of "trace t" "cl t"] that stickyD(2) [OF assms(2)] by (auto simp: LoadClusterCACert_def wps)
  then show ?thesis by (simp add: ht_def)
qed

lemma ok_newClient:
  assumes "staffed env c tgt" and "sticky c u P" and "n \<noteq> []" and "\<And>cfg. ccBaseURL cfg = ClusterPodURL c n \<Longrightarrow> ht P (k cfg) Q never"
  shows "ht P (bnd (attempt (NewClusterPodClient env n ca opts)) (\<lambda>h. case h of Inl e \<Rightarrow> h' e | Inr cfg \<Rightarrow> k cfg)) Q never"
proof (rule ht_try [where R' = "\<lambda>_. False" and R = "\<lambda>cfg s. P s \<and> ccBaseURL cfg = ClusterPodURL c n"])
  have "ClusterPodURL (cl s) n = ClusterPodURL c n" if "P s" for s using site_names(3) stickyD(3) [OF assms(2) that] by blast
  then show "ht P (NewClusterPodClient env n ca opts) (\<lambda>cfg s. P s \<and> ccBaseURL cfg = ClusterPodURL c n) never"
    using assms(3) staffed_calls(2) [OF assms(1)] stickyD(2) [OF assms(2)] by (auto simp: ht_def NewClusterPodClient_def wps Let_def)
  show "ht (\<lambda>s. P s \<and> ccBaseURL cfg = ClusterPodURL c n) (k cfg) Q never" for cfg
    by (rule ht_assume [where B = "ccBaseURL cfg = ClusterPodURL c n"], blast, rule ht_pre [OF assms(4)]) auto
qed (simp add: ht_def)

text \<open>A node that may be unhealthy is asked; the answer matters only where it is known to be healthy.\<close>

lemma ok_ask:
  assumes "sticky c u P" and "\<And>r. (healthyAt env (ccBaseURL cfg) \<longrightarrow> r = Inr True) \<Longrightarrow> ht P (k r) Q never"
  shows "ht P (bnd (attempt (IsHealthy env cfg)) k) Q never"
proof (rule ht_bnd [OF ht_attempt [where Q = "\<lambda>r s. P s \<and> (healthyAt env (ccBaseURL cfg) \<longrightarrow> r = Inr True)"]])
  show "ht P (IsHealthy env cfg) (\<lambda>a s. P s \<and> (healthyAt env (ccBaseURL cfg) \<longrightarrow> Inr a = Inr True))
     (\<lambda>e s. P s \<and> (healthyAt env (ccBaseURL cfg) \<longrightarrow> Inl e = Inr True))"
  proof -
    have "healthyAt env (ccBaseURL cfg) \<Longrightarrow> eIsHealthy env tr cfg = Inr True" for tr by (simp add: healthyAt_def)
    then show ?thesis
      using stickyD(2) [OF assms(1)] by (auto simp: ht_def IsHealthy_def wps split: sum.split)
  qed
  show "ht (\<lambda>s. P s \<and> (healthyAt env (ccBaseURL cfg) \<longrightarrow> r = Inr True)) (k r) Q never" for r
    by (rule ht_assume [where B = "healthyAt env (ccBaseURL cfg) \<longrightarrow> r = Inr True"], blast, rule ht_pre [OF assms(2)]) auto
qed

lemma ok_askLeader:
  assumes "staffed env c tgt" and "sticky c u P" and "ccBaseURL cfg = ClusterPodURL c tgt" and "\<And>r. r \<noteq> Inr True \<Longrightarrow> ht P (k r) Q never"
  shows "ht P (bnd (attempt (IsLeader env cfg)) k) Q never"
proof (rule ht_bnd [OF ht_attempt [where Q = "\<lambda>r s. P s \<and> r \<noteq> Inr True"]])
  show "ht P (IsLeader env cfg) (\<lambda>a s. P s \<and> Inr a \<noteq> Inr True) (\<lambda>e s. P s \<and> Inl e \<noteq> Inr True)"
    using staffed_calls(4) [OF assms(1,3)] stickyD(2) [OF assms(2)] by (auto simp: ht_def IsLeader_def wps split: sum.split)
  show "ht (\<lambda>s. P s \<and> r \<noteq> Inr True) (k r) Q never" for r
    by (rule ht_assume [where B = "r \<noteq> Inr True"], blast, rule ht_pre [OF assms(4)]) auto
qed

lemma staffed_pods:
  assumes "staffed env c tgt"
  obtains pods l where "eListPods env tr sel = Inr pods" "FindLeaderPodByLabel pods = Inr (Some l)" "l \<noteq> []" "l \<noteq> tgt"
    "goodVoters c tgt l (statefulSetPods (voterSet c @ ''-'') pods)"
  using assms unfolding staffed_def by metis

lemma ok_pods:
  assumes "staffed env c tgt" and "sticky c u P"
  shows "ht P (getClusterPods env) (\<lambda>vs s. P s \<and> (\<exists>l. l \<noteq> tgt \<and> goodVoters c tgt l vs)
     \<and> (\<exists>tr sel pods. eListPods env tr sel = Inr pods \<and> vs = statefulSetPods (voterSet c @ ''-'') pods)) never"
  unfolding getClusterPods_def
proof (rule ok_cl [OF assms(2)], goal_cases)
  case (1 d)
  let ?Q = "\<lambda>pods t. P t \<and> (\<exists>l. l \<noteq> tgt \<and> goodVoters c tgt l (statefulSetPods (voterSet c @ ''-'') pods)) \<and> (\<exists>tr sel. eListPods env tr sel = Inr pods)"
  have "wp (listPods env sel) ?Q never t" if "P t" for t sel
  proof -
    obtain pods l where "eListPods env (trace t) sel = Inr pods" "l \<noteq> tgt" "goodVoters c tgt l (statefulSetPods (voterSet c @ ''-'') pods)"
      using staffed_pods [OF assms(1)] by blast
    with stickyD(2) [OF assms(2) that] show ?thesis by (simp add: listPods_def wps, blast)
  qed
  then have "ht P (listPods env sel) ?Q never" for sel by (simp add: ht_def)
  then show ?case
    unfolding site_names(1) [OF 1(1)] by (rule ht_bnd) (rule ht_ret, blast)
qed

text \<open>The count over all Pods; only the target may be unhealthy.\<close>

lemma ok_count:
  assumes "staffed env c tgt" and "l \<noteq> tgt" and "tgt \<noteq> []"
    and "\<forall>p\<in>set pods. if pdName p = tgt then ParseBoolLabel (pdLabels p) ''openbao-active'' \<noteq> Inr (True, True)
      else pdPhase p = ''Running'' \<and> pdName p \<noteq> [] \<and> ParseBoolLabel (pdLabels p) ''openbao-active'' = Inr (pdName p = l, True)"
  shows "ht (fit c u) (countPodHealth env ca pods k) (\<lambda>r s. fit c u s
     \<and> chHealthyPods k + int (length (filter (\<lambda>p. pdName p \<noteq> tgt) pods)) \<le> chHealthyPods r
     \<and> chLeaderCount r = chLeaderCount k + int (length (filter (\<lambda>p. pdName p = l) pods))) never"
  using assms(4)
proof (induction pods arbitrary: k)
  case (Cons p ps)
  note ps = Cons.prems [simplified list.set ball_simps, THEN conjunct2]
  note IH = Cons.IH [OF ps]
  have lead: "ht (fit c u) (noteLeader n) (\<lambda>_. fit c u) never" for n
    by (simp add: ht_def noteLeader_def wps fit_def)
  let ?Q = "\<lambda>r s. fit c u s \<and> chHealthyPods k + int (length (filter (\<lambda>p. pdName p \<noteq> tgt) (p # ps))) \<le> chHealthyPods r
     \<and> chLeaderCount r = chLeaderCount k + int (length (filter (\<lambda>p. pdName p = l) (p # ps)))"
  show ?case
  proof (cases "pdName p = tgt")
    case True
    have rest: "ht (fit c u) (countPodHealth env ca ps k') ?Q never"
      if "chHealthyPods k \<le> chHealthyPods k'" "chLeaderCount k' = chLeaderCount k" for k'
      by (rule ht_post [OF IH]) (use that True assms(2) in auto)
    have label: "ParseBoolLabel (pdLabels p) ''openbao-active'' \<noteq> Inr (True, True)" using Cons.prems True by simp
    have asked: "ht (fit c u) (case ParseBoolLabel (pdLabels p) ''openbao-active'' of
          Inl _ \<Rightarrow> countPodHealth env ca ps k'
        | Inr (isLeader, present) \<Rightarrow>
            if present then (if isLeader then m else countPodHealth env ca ps k')
            else bnd (attempt (IsLeader env cfg)) (\<lambda>r. case r of
                Inl _ \<Rightarrow> countPodHealth env ca ps k'
              | Inr isLeader' \<Rightarrow> if isLeader' then m' else countPodHealth env ca ps k')) ?Q never"
      if "ccBaseURL cfg = ClusterPodURL c tgt" "chHealthyPods k \<le> chHealthyPods k'" "chLeaderCount k' = chLeaderCount k" for k' cfg m m'
      using rest [OF that(2,3)] label
      by (auto intro!: ok_askLeader [OF assms(1) sticky_fit(1) that(1)] split: sum.split prod.split if_splits)
    have answer: "ht (fit c u) (case r of Inl _ \<Rightarrow> countPodHealth env ca ps k
        | Inr healthy \<Rightarrow> K (if healthy then k\<lparr>chHealthyPods := chHealthyPods k + 1\<rparr> else k)) ?Q never"
      if "\<And>k'. chHealthyPods k \<le> chHealthyPods k' \<Longrightarrow> chLeaderCount k' = chLeaderCount k \<Longrightarrow> ht (fit c u) (K k') ?Q never"
      for r :: "go_error + bool" and K
    proof (cases r)
      case (Inl e)
      show ?thesis unfolding Inl sum.case by (rule rest) (rule order_refl refl)+
    next
      case (Inr h)
      show ?thesis unfolding Inr sum.case by (rule that) (cases h; simp)+
    qed
    have n: "pdName p \<noteq> []" using True assms(3) by simp
    show ?thesis
      unfolding countPodHealth.simps Let_def
    proof (rule ht_if, rule rest, simp_all only: order_refl, rule ok_newClient [OF assms(1) sticky_fit(1) n], rule ok_ask [OF sticky_fit(1)], goal_cases)
      case (1 cfg r)
      then have "ccBaseURL cfg = ClusterPodURL c tgt" using True by simp
      show ?case by (rule answer, rule asked [OF \<open>ccBaseURL cfg = ClusterPodURL c tgt\<close>])
    qed
  next
    case False
    then have p: "pdPhase p = ''Running''" "pdName p \<noteq> []" "ParseBoolLabel (pdLabels p) ''openbao-active'' = Inr (pdName p = l, True)"
      using Cons.prems by auto
    have healthy: "healthyAt env (ClusterPodURL c (pdName p))" by (rule staffed_calls(3) [OF assms(1) False])
    show ?thesis
      unfolding countPodHealth.simps Let_def p(1,3) if_False simp_thms sum.case prod.case if_True
      by (intro ok_newClient [OF assms(1) sticky_fit(1) p(2)] ok_ask [OF sticky_fit(1)])
        (use healthy False in \<open>auto intro!: ht_bnd [OF lead] ht_post [OF IH]\<close>)
  qed
qed (auto intro: ht_ret)

lemma quorum_le: "3 \<le> r \<Longrightarrow> requiredQuorum r \<le> r - 1"
  by (simp add: requiredQuorum_def)

lemma ok_quorum:
  assumes "staffed env c tgt" and "goodVoters c tgt l pods" and "l \<noteq> tgt" and "tgt \<noteq> []" and "3 \<le> spReplicas (clSpec c)"
  shows "ht (fit c u) (requireHealthyLeaderQuorum env pods) (\<lambda>_. fit c u) never"
proof -
  let ?r = "spReplicas (clSpec c)"
  have q: "requiredQuorum ?r \<le> ?r - 1" by (rule quorum_le [OF assms(5)])
  have pods: "\<forall>p\<in>set pods. if pdName p = tgt then ParseBoolLabel (pdLabels p) ''openbao-active'' \<noteq> Inr (True, True)
      else pdPhase p = ''Running'' \<and> pdName p \<noteq> [] \<and> ParseBoolLabel (pdLabels p) ''openbao-active'' = Inr (pdName p = l, True)"
    using assms(2) by (simp add: goodVoters_def)
  have check: "ht (fit c u) (checkPodHealth env pods) (\<lambda>r s. fit c u s \<and> ?r - 1 \<le> chHealthyPods r \<and> chLeaderCount r = 1) never"
    unfolding checkPodHealth_def
    by (rule ht_bnd [OF ht_wrap [OF ok_ca [OF assms(1) sticky_fit(1)]]], rule ht_post [OF ok_count [OF assms(1,3,4) pods]])
      (use assms(2) in \<open>auto simp: goodVoters_def\<close>)
  have rest: "ht (\<lambda>s. fit c u s \<and> ?r - 1 \<le> chHealthyPods r \<and> chLeaderCount r = 1) (bnd (gets cl) (\<lambda>d.
       if chHealthyPods r < requiredQuorum (spReplicas (clSpec d)) then failwith a
       else if chLeaderCount r = 0 then failwith b else if chLeaderCount r > 1 then failwith e else ret r)) (\<lambda>_. fit c u) never" for r a b e
    using q by (auto simp: ht_def wps fit_def dest: site_sel(3))
  show ?thesis unfolding requireHealthyLeaderQuorum_def by (rule ht_bnd [OF ht_wrap [OF check] rest])
qed

lemma ok_otherPods:
  assumes "staffed env c tgt'" and "goodVoters c tgt' l voters" and "set names \<subseteq> set (voterPodNames c)"
    and "\<forall>n\<in>set (voterPodNames c). n \<noteq> tgt \<longrightarrow> n \<noteq> tgt'"
  shows "ht (fit c u) (verifyOtherPods env ca voters tgt names) (\<lambda>_. fit c u) never"
  using assms(3)
proof (induction names)
  case (Cons n ns)
  show ?case
  proof (cases "n = tgt")
    case False
    with Cons.prems assms(4) have n: "n \<in> set (voterPodNames c)" "n \<noteq> tgt'" by auto
    then obtain p where p: "podNamed voters n = Some p" using assms(2) by (auto simp: goodVoters_def)
    then have "p \<in> set voters" "pdName p = n" by (auto simp: podNamed_def find_Some_iff) (metis nth_mem length_rev set_rev)
    then have r: "isPodReady p" using assms(2) n(2) by (auto simp: goodVoters_def)
    have healthy: "healthyAt env (ClusterPodURL c n)" by (rule staffed_calls(3) [OF assms(1) n(2)])
    have "n \<noteq> []" using n by (auto simp: voterPodNames_def StableVoterPodName_def)
    then have one: "ht (fit c u) (verifyOtherPod env ca voters tgt n) (\<lambda>_. fit c u) never"
      unfolding verifyOtherPod_def p option.case using r healthy
      by (simp, intro ok_newClient [OF assms(1) sticky_fit(1)] ok_ask [OF sticky_fit(1)]) (auto intro: ht_ret)
    from Cons False show ?thesis by (auto intro!: ht_bnd [OF one])
  qed (use Cons in simp)
qed (auto intro: ht_ret)

section \<open>Validation\<close>

text \<open>What every read of the StatefulSet shows.\<close>

definition atTemplate :: "env \<Rightarrow> Cluster \<Rightarrow> string \<Rightarrow> string \<Rightarrow> StatefulSet \<Rightarrow> bool" where
  "atTemplate env c R img sts \<longleftrightarrow> (\<exists>tr. eGetSts env tr (voterSet c) = Inr sts) \<and> statefulSetTemplateCurrent sts c \<and> stUpdateRevision sts = R
     \<and> trim_space (baoContainerImage (stContainers sts)) = img \<and> requiredQuorum (spReplicas (clSpec c)) \<le> stReadyReplicas sts"

lemma templated_sts:
  assumes "templated env c R img"
  obtains sts where "eGetSts env tr (voterSet c) = Inr sts" "atTemplate env c R img sts"
proof -
  from assms obtain sts where "eGetSts env tr (voterSet c) = Inr sts" unfolding templated_def by blast
  moreover have "\<forall>tr sts. eGetSts env tr (voterSet c) = Inr sts \<longrightarrow> statefulSetTemplateCurrent sts c \<and> stUpdateRevision sts = R
          \<and> trim_space (baoContainerImage (stContainers sts)) = img \<and> requiredQuorum (spReplicas (clSpec c)) \<le> stReadyReplicas sts"
    using assms unfolding templated_def by (elim conjE)
  ultimately show thesis using that unfolding atTemplate_def by blast
qed

lemma ok_sts:
  assumes "templated env c R img" and "sticky c u P" and "\<And>sts. atTemplate env c R img sts \<Longrightarrow> ht P (k sts) Q never"
  shows "ht P (bnd (wrap_err w (getSts env (voterSet c))) k) Q never"
proof (rule ht_bnd [OF ht_wrap, where R = "\<lambda>sts s. P s \<and> atTemplate env c R img sts"])
  show "ht P (getSts env (voterSet c)) (\<lambda>sts s. P s \<and> atTemplate env c R img sts) (\<lambda>e. never (w e))"
    unfolding ht_def
  proof (intro allI impI)
    fix s assume "P s"
    obtain sts where "eGetSts env (trace s) (voterSet c) = Inr sts" "atTemplate env c R img sts" using templated_sts [OF assms(1)] .
    then show "wp (getSts env (voterSet c)) (\<lambda>sts s. P s \<and> atTemplate env c R img sts) (\<lambda>e. never (w e)) s"
      using stickyD(2) [OF assms(2) \<open>P s\<close>] by (simp add: getSts_def wps)
  qed
  show "ht (\<lambda>s. P s \<and> atTemplate env c R img sts) (k sts) Q never" for sts
    by (rule ht_assume [where B = "atTemplate env c R img sts"], blast, rule ht_pre [OF assms(3)]) auto
qed

lemma steadyD:
  assumes "steady env c u"
  shows "undisturbed c" "serves env c u" "staffed env c (tgtName c (upCurrentPartition u))" "\<exists>R img. templated env c R img"
    "0 \<le> upCurrentPartition u" "upCurrentPartition u \<le> spReplicas (clSpec c)" "progressOf c = Some u" "upCurrentPartition u < 2 ^ 31"
    "3 \<le> spReplicas (clSpec c)" "clName c \<noteq> []"
  using assms by (auto simp: steady_def undisturbed_def)

lemma tgtName_not_Nil [simp]: "StableVoterPodName c i \<noteq> []"
  by (simp add: StableVoterPodName_def)

lemma resume_target:
  assumes "steady env c u" "site d = site c" "progressOf d = Some u"
  shows "\<forall>n\<in>set (voterPodNames c). n \<noteq> currentResumeTargetPodName d \<longrightarrow> n \<noteq> tgtName c (upCurrentPartition u)"
proof (cases "upCurrentPartition u = 0")
  case True
  have "int_str (int i) \<noteq> int_str (- 1)" for i
  proof -
    have "is_digit (hd (nat_str i))" using nat_str_digits [of i] by (simp add: list_all_iff)
    then show ?thesis by (auto simp: int_str_def is_digit_def)
  qed
  then show ?thesis using True by (auto simp: voterPodNames_def StableVoterPodName_def)
next
  case False
  then have "0 < upCurrentPartition u" using steadyD(5) [OF assms(1)] by simp
  then show ?thesis
    using assms(3) steadyD(8) [OF assms(1)] by (simp add: currentResumeTargetPodName_def int32_pred site_names(2) [OF assms(2)])
qed

lemma ok_validate:
  assumes st: "steady env c u"
  shows "ht (fit c u) (validateUpgrade env) (\<lambda>_. fit c u) never"
proof -
  let ?tgt = "tgtName c (upCurrentPartition u)" and ?r = "spReplicas (clSpec c)"
  note a = steadyD [OF st]
  obtain R img where tm: "templated env c R img" using a(4) by blast
  have q: "requiredQuorum ?r \<le> ?r - 1" by (rule quorum_le [OF a(9)])
  have sts: "ht (fit c u) (getUpgradeStatefulSet env) (\<lambda>sts s. fit c u s \<and> requiredQuorum ?r \<le> stReadyReplicas sts) never"
    unfolding getUpgradeStatefulSet_def
  proof (rule ok_cl [OF sticky_fit(1)], goal_cases)
    case (1 d)
    have "ht (fit c u) (getSts env (voterSet c)) (\<lambda>sts s. fit c u s \<and> atTemplate env c R img sts) never"
      unfolding ht_def
    proof (intro allI impI)
      fix s assume "fit c u s"
      obtain sts where "eGetSts env (trace s) (voterSet c) = Inr sts" "atTemplate env c R img sts" using templated_sts [OF tm] .
      with \<open>fit c u s\<close> show "wp (getSts env (voterSet c)) (\<lambda>sts s. fit c u s \<and> atTemplate env c R img sts) never s"
        by (simp add: getSts_def wps)
    qed
    then show ?case unfolding site_names(1) [OF 1(1)]
      by (rule ht_try) (auto simp: ht_def wps atTemplate_def)
  qed
  have others: "ht (fit c u) (verifyNonTargetPodsReadyAndHealthy env voters t) (\<lambda>_. fit c u) never"
    if "goodVoters c ?tgt l voters" "\<forall>n\<in>set (voterPodNames c). n \<noteq> t \<longrightarrow> n \<noteq> ?tgt" for voters t l
    unfolding verifyNonTargetPodsReadyAndHealthy_def
    by (intro ht_bnd [OF ht_wrap [OF ok_ca [OF a(3) sticky_fit(1)]]] ok_cl [OF sticky_fit(1)] ok_otherPods [OF a(3) that(1) _ that(2)])
      (drule site_names(4), simp)
  have rest: "ht (fit c u) (bnd (ensureResumePodQuorum env t (int (length pods)) (requiredQuorum ?r)) (\<lambda>_.
      bnd (verifyNonTargetPodsReadyAndHealthy env pods t) (\<lambda>_. bnd (requireHealthyLeaderQuorum env pods) (\<lambda>_. ret ())))) (\<lambda>_. fit c u) never"
    if l: "l \<noteq> ?tgt" "goodVoters c ?tgt l pods" and t: "\<forall>n\<in>set (voterPodNames c). n \<noteq> t \<longrightarrow> n \<noteq> ?tgt" for pods t l
  proof -
    have "?r - 1 \<le> int (length (filter (\<lambda>p. pdName p \<noteq> ?tgt) pods))" using l(2) unfolding goodVoters_def by blast
    then have "?r - 1 \<le> int (length pods)" using length_filter_le [of "\<lambda>p. pdName p \<noteq> ?tgt" pods] by linarith
    then have "ensureResumePodQuorum env t (int (length pods)) (requiredQuorum ?r) = ret ()"
      using q by (simp add: ensureResumePodQuorum_def)
    then show ?thesis
      by (simp only: bnd_ret) (intro ht_bnd [OF others [OF l(2) t]] ht_bnd [OF ok_quorum [OF a(3) l(2,1) tgtName_not_Nil a(9)]] ht_ret)
  qed
  have resume: "ht (fit c u) (verifyResumeClusterHealth env) (\<lambda>_. fit c u) never"
    unfolding verifyResumeClusterHealth_def Let_def
  proof (rule ht_bnd [OF sts], goal_cases)
    case (1 x)
    show ?case
    proof (rule ht_assume [where B = "requiredQuorum ?r \<le> stReadyReplicas x"], blast, rule ht_pre [of "fit c u"], rule ok_cl [OF sticky_fit(1)], goal_cases)
      case (1 d)
      then have "ensureResumeReadyReplicaQuorum env t (stReadyReplicas x) (requiredQuorum (spReplicas (clSpec d))) = ret ()" for t
        using site_sel(3) [of d c] by (simp add: ensureResumeReadyReplicaQuorum_def)
      then show ?case unfolding site_sel(3) [OF 1(2)]
        by (simp only: site_sel(3) [OF 1(2)] bnd_ret, intro ht_bnd [OF ht_wrap [OF ok_pods [OF a(3) sticky_fit(1)]]])
          (rule ht_assume [where B = "\<exists>l. l \<noteq> ?tgt \<and> goodVoters c ?tgt l _"], blast,
            use rest resume_target [OF st 1(2,3)] in \<open>blast intro: ht_pre\<close>)
    qed simp
  qed
  show ?thesis
    unfolding validateUpgrade_def
  proof (rule ok_cl [OF sticky_fit(1)], goal_cases)
    case (1 d)
    then show ?case using a(1,2) site_sel(3) [OF 1(1)] resume by (simp add: undisturbed_def serves_def)
  qed
qed

section \<open>The rollout of one Pod\<close>

text \<open>The target as it is read: there and replaced if the controller has caught up, possibly missing otherwise.\<close>

lemma ok_pod:
  assumes "templated env c R img" and "sticky c u P" and "q - 1 < spReplicas (clSpec c)"
    and "\<And>pod. (caughtUp env c (q - 1) \<Longrightarrow> omDeletionTimestamp (pdMeta pod) = None \<and> isPodReady pod
        \<and> trim_space (lookup_label (pdLabels pod) ''controller-revision-hash'') = R \<and> trim_space (baoContainerImage (pdContainers pod)) = img)
      \<Longrightarrow> ht P (k pod) Q never"
    and "\<And>e. is_not_found e \<Longrightarrow> \<not> caughtUp env c (q - 1) \<Longrightarrow> ht P (h e) Q never"
  shows "ht P (bnd (attempt (getPod env (tgtName c q))) (\<lambda>r. case r of Inl e \<Rightarrow> h e | Inr pod \<Rightarrow> k pod)) Q never"
proof -
  have seen: "\<exists>pod. eGetPod env tr (tgtName c q) = Inr pod \<and> omDeletionTimestamp (pdMeta pod) = None \<and> isPodReady pod
      \<and> trim_space (lookup_label (pdLabels pod) ''controller-revision-hash'') = R \<and> trim_space (baoContainerImage (pdContainers pod)) = img"
    if caught: "caughtUp env c (q - 1)" for tr
  proof -
    obtain sts where sts: "eGetSts env [] (voterSet c) = Inr sts" "atTemplate env c R img sts" using templated_sts [OF assms(1)] .
    then obtain pod where "eGetPod env tr (tgtName c q) = Inr pod" "replaced sts pod"
      using caught assms(3) unfolding caughtUp_def by blast
    moreover have "trim_space R = R" using assms(1) by (simp add: templated_def)
    ultimately show ?thesis using sts(2) by (auto simp: replaced_def atTemplate_def)
  qed
  have missing: "eGetPod env tr n = Inl e \<Longrightarrow> is_not_found e" for tr n e using assms(1) unfolding templated_def by blast
  show ?thesis
    unfolding ht_def
  proof (intro allI impI)
    fix s assume s: "P s"
    show "wp (bnd (attempt (getPod env (tgtName c q))) (\<lambda>r. case r of Inl e \<Rightarrow> h e | Inr pod \<Rightarrow> k pod)) Q never s"
    proof (cases "eGetPod env (trace s) (tgtName c q)")
      case (Inl e)
      then have "is_not_found e" "\<not> caughtUp env c (q - 1)" using missing seen [of "trace s"] by auto
      with Inl show ?thesis using htD [OF assms(5) stickyD(2) [OF assms(2) s]] by (simp add: getPod_def wps)
    next
      case (Inr pod)
      then have "caughtUp env c (q - 1) \<Longrightarrow> omDeletionTimestamp (pdMeta pod) = None \<and> isPodReady pod
        \<and> trim_space (lookup_label (pdLabels pod) ''controller-revision-hash'') = R \<and> trim_space (baoContainerImage (pdContainers pod)) = img"
        using seen [of "trace s"] by auto
      with Inr show ?thesis using htD [OF assms(4) stickyD(2) [OF assms(2) s]] by (simp add: getPod_def wps)
    qed
  qed
qed

lemma ok_delete:
  assumes "templated env c R img" and "sticky c u P"
  shows "ht P (bnd (attempt (deletePod env pod)) (\<lambda>d. case d of Inr _ \<Rightarrow> ret False
      | Inl err \<Rightarrow> if is_not_found err then ret False else failwith (w err))) (\<lambda>ok s. P s \<and> \<not> ok) never"
proof -
  have "eDeletePod env tr pod = Some e \<Longrightarrow> is_not_found e" for tr e using assms(1) unfolding templated_def by blast
  then show ?thesis using stickyD(2) [OF assms(2)]
    by (auto simp: ht_def deletePod_def wps split: option.split)
qed

lemma ok_revision:
  assumes "serves env c u" and "templated env c R img" and "sticky c u P" and "q - 1 < spReplicas (clSpec c)"
  shows "ht P (checkPodRevisionUpdated env (tgtName c q) b) (\<lambda>ok s. P s \<and> (caughtUp env c (q - 1) \<longrightarrow> ok)) never"
proof -
  have R: "trim_space R = R" "R \<noteq> []" using assms(2) by (auto simp: templated_def)
  show ?thesis
    unfolding checkPodRevisionUpdated_def Let_def
  proof (rule ht_bnd [OF ok_deadline [OF assms(1,3) deadlines_le(1)]], rule ok_cl [OF assms(3)], goal_cases)
    case (1 _ d)
    show ?case
      unfolding site_names(1) [OF 1(1)] site_names(5) [OF 1(1)]
    proof (rule ok_sts [OF assms(2,3)], goal_cases)
      case (1 sts)
      then have e: "statefulSetTemplateCurrent sts c = True" "trim_space (stUpdateRevision sts) = R"
        "trim_space (baoContainerImage (stContainers sts)) = img" "(R = []) = False" using R by (auto simp: atTemplate_def)
      show ?case
        unfolding e simp_thms if_False
        by (rule ok_pod [OF assms(2,3,4)])
          (auto intro!: ht_ret ht_post [OF ok_delete [OF assms(2,3)]])
    qed
  qed
qed

lemma ok_ready:
  assumes "serves env c u" and "templated env c R img" and "sticky c u P" and "q - 1 < spReplicas (clSpec c)"
  shows "ht P (waitForPodReady env (tgtName c q)) (\<lambda>ok s. P s \<and> (caughtUp env c (q - 1) \<longrightarrow> ok)) never"
  unfolding waitForPodReady_def
  by (rule ht_bnd [OF ok_deadline [OF assms(1,3) deadlines_le(2)]], rule ok_pod [OF assms(2-4)]) (auto intro!: ht_ret)

lemma ok_rollout:
  assumes "serves env c u" and "templated env c R img" and "staffed env c tgt" and "sticky c u P" and "q - 1 < spReplicas (clSpec c)"
  shows "ht P (waitForTargetPodRollout env (targetOf c q)) (\<lambda>ok s. P s \<and> (caughtUp env c (q - 1) \<longrightarrow> ok)) never"
proof -
  have url: "caughtUp env c (q - 1) \<Longrightarrow> healthyAt env (ClusterPodURL c (tgtName c q))"
    using assms(5) unfolding caughtUp_def by blast
  have healthy: "ht P (waitForPodHealthy env (tgtName c q)) (\<lambda>ok s. P s \<and> (caughtUp env c (q - 1) \<longrightarrow> ok)) never"
    unfolding waitForPodHealthy_def
    by (intro ht_bnd [OF ok_deadline [OF assms(1,4) deadlines_le(3)]] ht_try [OF ok_ca [OF assms(3,4)]]
        ok_newClient [OF assms(3,4) tgtName_not_Nil] ok_ask [OF assms(4)])
      (use url in \<open>auto intro!: ht_ret simp: ht_def [of "\<lambda>_. False"] split: sum.split\<close>)
  have go: "ht (\<lambda>s. P s \<and> (B \<longrightarrow> ok)) (if \<not> ok then ret False else k) (\<lambda>ok s. P s \<and> (B \<longrightarrow> ok)) never"
    if "ht P k (\<lambda>ok s. P s \<and> (B \<longrightarrow> ok)) never" for B ok k
    by (rule ht_if) (auto intro!: ht_ret ht_pre [OF that])
  show ?thesis
    unfolding waitForTargetPodRollout_def targetOf_simps waitForPodRevisionUpdated_def
    by (rule ht_bnd [OF ok_revision [OF assms(1,2,4,5)]], rule go, rule ht_bnd [OF ok_ready [OF assms(1,2,4,5)]], rule go, rule healthy)
qed

lemma ok_setPartition:
  assumes "templated env c R img"
  shows "ht (fit c u) (setStatefulSetPartition env p) (\<lambda>_. freed c u p) never"
proof -
  have "ePatchPartition env tr sts p = None" for tr sts using assms by (simp add: templated_def)
  then have patch: "ht (fit c u) (patchPartition env sts p) (\<lambda>_. freed c u p) never" for sts
    by (auto simp: ht_def patchPartition_def wps freed_def patched_def)
  show ?thesis
    unfolding setStatefulSetPartition_def Let_def
  proof (rule ok_cl [OF sticky_fit(1)], goal_cases)
    case (1 d)
    show ?case
      unfolding site_names(1) [OF 1(1)] site_names(5) [OF 1(1)]
      by (rule ok_sts [OF assms sticky_fit(1)], rule ht_if, simp add: atTemplate_def, rule ht_try [OF patch])
        (auto simp: ht_def wps)
  qed
qed

text \<open>The progress after one more Pod.\<close>

definition advanced :: "UpgradeProgress \<Rightarrow> UpgradeProgress" where
  "advanced u = u\<lparr>upCurrentPartition := upCurrentPartition u - 1,
     upCompletedPods := upCompletedPods u @ [upCurrentPartition u - 1]\<rparr>"

lemma ok_record:
  "ht (fit c u) (recordCompletedTargetPodUpgrade env (targetOf c (upCurrentPartition u)) n) (\<lambda>_. fit c (advanced u)) never"
proof -
  let ?P = "fit c (advanced u)"
  have upd: "ht (fit c u) (updCl (mapStatus (SetUpgradeProgress (upCurrentPartition u - 1) (upCurrentPartition u - 1)))) (\<lambda>_. ?P) never"
    by (auto simp: ht_def wps fit_def advanced_def SetUpgradeProgress_def site_def)
  have m: "ht ?P (emitMetrics ms) (\<lambda>_. ?P) never" for ms
    by (rule ok_metrics) simp
  show ?thesis
    unfolding recordCompletedTargetPodUpgrade_def targetOf_simps
    by (rule ht_bnd [OF upd], rule ht_bnd [OF ok_now], rule ok_cl [OF sticky_fit(1)]) (simp add: m)
qed

text \<open>
  One pass over one Pod: if it ends without having replaced the Pod, the partition has been written and the controller has not caught up with
  it; otherwise the answer says whether it was the last.
\<close>

lemma ok_performPod:
  assumes st: "steady env c u" and pos: "0 < upCurrentPartition u"
  defines "q \<equiv> upCurrentPartition u"
  shows "ht (fit c u) (performPodByPodUpgrade env) (\<lambda>fin s. \<not> fin \<and> \<not> caughtUp env c (q - 1) \<and> freed c u (q - 1) s
     \<or> fit c (advanced u) s \<and> (fin \<longleftrightarrow> q = 1)) never"
proof -
  note a = steadyD [OF st, folded q_def]
  obtain R img where tm: "templated env c R img" using a(4) by blast
  have q: "0 < q" "q - 1 < spReplicas (clSpec c)" using pos a(6) by (simp_all add: q_def)
  let ?S = "caughtUp env c (q - 1)"
  let ?Q = "\<lambda>fin s. \<not> fin \<and> \<not> ?S \<and> freed c u (q - 1) s \<or> fit c (advanced u) s \<and> (fin \<longleftrightarrow> q = 1)"
  have fin: "ht (freed c u (q - 1)) (bnd (recordCompletedTargetPodUpgrade env (targetOf c q) n) (\<lambda>_. ret (q - 1 = 0))) ?Q never" for n
    unfolding q_def by (rule ht_pre [OF ht_bnd [OF ok_record]]) (auto intro!: ht_ret simp: freed_def)
  have set: "ht (fit c u) (wrap_err w (setStatefulSetPartition env (q - 1))) (\<lambda>_. freed c u (q - 1)) never" for w
    by (rule ht_wrap) (rule ok_setPartition [OF tm])
  have old: "ht (fit c u) (targetPodAlreadyRolledOut env (targetOf c q)) (\<lambda>ok s. fit c u s \<and> (?S \<longrightarrow> ok)) never"
    unfolding targetPodAlreadyRolledOut_def podRevisionAlreadyUpdated_def targetOf_simps
    by (rule ht_bnd [OF ok_revision [OF a(2) tm sticky_fit(1) q(2)]], rule ht_if)
      (auto intro!: ht_ret ht_pre [OF ok_ready [OF a(2) tm sticky_fit(1) q(2)]])
  have label: "ht (fit c u) (currentLeaderPodByLabel env) (\<lambda>l s. fit c u s \<and> l \<noteq> [] \<and> l \<noteq> tgtName c q) never"
    unfolding currentLeaderPodByLabel_def
  proof (rule ok_cl [OF sticky_fit(1)], goal_cases)
    case (1 d)
    have "wp (listPods env sel) (\<lambda>pods t. fit c u t \<and> (\<exists>l. FindLeaderPodByLabel pods = Inr (Some l) \<and> l \<noteq> [] \<and> l \<noteq> tgtName c q)) never t"
      if "fit c u t" for t sel
    proof -
      obtain pods l where "eListPods env (trace t) sel = Inr pods" "FindLeaderPodByLabel pods = Inr (Some l)" "l \<noteq> []" "l \<noteq> tgtName c q"
        using staffed_pods [OF a(3)] by blast
      with that show ?thesis by (simp add: listPods_def wps)
    qed
    then have lp: "ht (fit c u) (listPods env sel) (\<lambda>pods t. fit c u t
        \<and> (\<exists>l. FindLeaderPodByLabel pods = Inr (Some l) \<and> l \<noteq> [] \<and> l \<noteq> tgtName c q)) never" for sel by (simp add: ht_def)
    show ?case by (rule ht_bnd [OF ht_wrap [OF lp]]) (auto simp: ht_def wps)
  qed
  have lead: "ht (fit c u) (ensureTargetPodLeadershipTransferred env (targetOf c q)) (\<lambda>ok s. fit c u s \<and> ok) never"
    unfolding ensureTargetPodLeadershipTransferred_def Let_def targetOf_simps
  proof (rule ok_cl [OF sticky_fit(1)], rule ht_if, simp add: ht_def wps, goal_cases)
    case (1 d)
    show ?case
      by (rule ht_bnd [OF ht_attempt [where Q = "\<lambda>r s. fit c u s \<and> (\<exists>l. r = Inr l \<and> l \<noteq> [] \<and> l \<noteq> tgtName c q)"]])
        (use label in \<open>auto simp: ht_def wps\<close>)
  qed
  have roll: "ht (freed c u (q - 1)) (bnd (waitForTargetPodRollout env (targetOf c q)) (\<lambda>ok. if \<not> ok then ret False
      else bnd (recordCompletedTargetPodUpgrade env (targetOf c q) n) (\<lambda>_. ret (q - 1 = 0)))) ?Q never" for n
    by (rule ht_bnd [OF ok_rollout [OF a(2) tm a(3) sticky_fit(2) q(2)]], rule ht_if)
      (auto intro!: ht_ret, rule ht_pre [OF fin [simplified]], simp)
  have move: "ht (\<lambda>s. fit c u s \<and> ok) (if \<not> ok then ret False else bnd (wrap_err w (setStatefulSetPartition env (q - 1))) (\<lambda>_.
      bnd (waitForTargetPodRollout env (targetOf c q)) (\<lambda>ok. if \<not> ok then ret False
      else bnd (recordCompletedTargetPodUpgrade env (targetOf c q) n) (\<lambda>_. ret (q - 1 = 0))))) ?Q never" for n ok w
    by (rule ht_if, simp add: ht_def, rule ht_pre [OF ht_bnd [OF set roll]], simp)
  have branch: "ht (\<lambda>s. fit c u s \<and> (?S \<longrightarrow> ok)) (if ok then m1 else m2) ?Q never"
    if "ht (fit c u) m1 ?Q never" "ht (fit c u) m2 ?Q never" for ok m1 m2
    by (rule ht_if) (auto intro: ht_pre [OF that(1)] ht_pre [OF that(2)])
  show ?thesis
    unfolding performPodByPodUpgrade_def
  proof (rule ok_cl [OF sticky_fit(1)], goal_cases)
    case (1 d)
    have "int32 (q - 1) = q - 1" using a(8) q(1) by (rule_tac int32_pred)
    then have "nextRolloutTargetPod d = Inr (Some (targetOf c q))"
      using 1(2) q(1) by (simp add: nextRolloutTargetPod_def targetOf_def Let_def site_names(2) [OF 1(1)] flip: q_def)
    then show ?case
      by (simp only: bnd_lift_Inr option.case targetOf_simps)
        (intro ht_bnd [OF ok_now] ht_bnd [OF old] branch ht_bnd [OF set fin] ht_bnd [OF lead move])
  qed
qed

section \<open>Finalization and the status write\<close>

lemma ok_write:
  assumes "serves env c u"
  shows "ht (\<lambda>s. clName (cl s) \<noteq> []) (MutateWithReader env (\<lambda>obj. Inr (f obj)) policy)
     (\<lambda>_ s. progressOf (cl s) \<in> range (\<lambda>obj. progressOf (f obj))) never"
proof -
  have get: "\<exists>d. eGetCluster env tr = Inr d" and app: "eApplyStatus env tr d b = None"
    and last: "eGetCluster env (tr @ [ApplyStatusE x v k b None]) = Inr d \<Longrightarrow> progressOf d = v" for tr d b x v k
    using assms unfolding serves_def by blast+
  have "wp (retryOnConflict DefaultRetrySteps (bnd (wrap_err w (getCluster env)) (\<lambda>current.
      bnd (lift_res (Inr (f current))) (\<lambda>desired. applyStatus env desired b)))) (\<lambda>_ t. cl t = cl s \<and> writtenBy f t) never s" for w b s
  proof (rule ok_retry)
    obtain d where "eGetCluster env (trace s) = Inr d" using get by blast
    then show "wp (bnd (wrap_err w (getCluster env)) (\<lambda>current.
      bnd (lift_res (Inr (f current))) (\<lambda>desired. applyStatus env desired b))) (\<lambda>_ t. cl t = cl s \<and> writtenBy f t) never s"
      by (auto simp: wps getCluster_def applyStatus_def app)
  qed (simp add: DefaultRetrySteps_def)
  note retry = this
  have mna: "wp (MutateAndApplyAdminOpsStatus env (clName (cl s)) (\<lambda>obj. Inr (f obj)) b)
      (\<lambda>up t. cl t = cl s \<and> progressOf up \<in> range (\<lambda>obj. progressOf (f obj))) never s" if "clName (cl s) \<noteq> []" for s b
  proof -
    have "wp (getCluster env) (\<lambda>up t. cl t = cl s \<and> progressOf up \<in> range (\<lambda>obj. progressOf (f obj))) never t"
      if "cl t = cl s \<and> writtenBy f t" for t
    proof -
      from that obtain tr x obj k fc where tr: "trace t = tr @ [ApplyStatusE x (progressOf (f obj)) k fc None]" by blast
      obtain d where d: "eGetCluster env (trace t) = Inr d" using get by blast
      then have "progressOf d = progressOf (f obj)" using last tr by metis
      then show ?thesis using d that by (simp add: getCluster_def wps)
    qed
    then show ?thesis using that
      by (simp add: MutateAndApplyAdminOpsStatus_def wps) (rule wp_mono [OF retry], auto simp: wps)
  qed
  show ?thesis
    unfolding MutateWithReader_def ht_def
    by (intro allI impI, simp add: wps, rule wp_mono [OF mna]) (simp_all add: wps)
qed

lemma ok_patch:
  assumes "serves env c u" and "clName c \<noteq> []"
  shows "ht (fit c u') (patchUpgradeStatus env) (\<lambda>_ s. progressOf (cl s) = Some u') never"
  unfolding patchUpgradeStatus_def patchStatusSSA_def
proof (rule ht_if)
  show "\<not> eHasAdminOpsMutator env \<Longrightarrow> ht (fit c u') (failwith e) (\<lambda>_ s. progressOf (cl s) = Some u') never" for e
    using assms(1) by (simp add: serves_def)
  show "ht (fit c u') (bnd (gets cl) (\<lambda>d. wrap_err w (MutateWithReader env (\<lambda>obj. Inr (mapStatus (\<lambda>st. st\<lparr>ssUpgrade := progressOf d\<rparr>) obj)) p)))
      (\<lambda>_ s. progressOf (cl s) = Some u') never" for w p
    by (intro ok_cl [OF sticky_fit(1)] ht_wrap, rule ht_conseq [OF ok_write [OF assms(1)]])
      (use assms(2) in \<open>auto simp: fit_def dest: site_sel(1)\<close>)
qed

text \<open>The trace only grows, so the write of the partition stays in it.\<close>

lemma patch_grows: "keeps (fr (\<lambda>_. ()) (\<lambda>_. True)) (patchUpgradeStatus env)"
  unfolding patchUpgradeStatus_def patchStatusSSA_def MutateWithReader_def MutateAndApplyAdminOpsStatus_def
  by (auto simp: getCluster_def applyStatus_def intro!: keeps_fr_call keeps_fr_upd split: sum.split)

lemma ok_requeue:
  assumes "serves env c u" and "clName c \<noteq> []"
  shows "ht (fit c u') (requeueAfterProgressPatch env m) (\<lambda>_ s. progressOf (cl s) = Some u') never"
    "ht (freed c u' p) (requeueAfterProgressPatch env m) (\<lambda>_ s. progressOf (cl s) = Some u' \<and> patched p s) never"
proof -
  show "ht (fit c u') (requeueAfterProgressPatch env m) (\<lambda>_ s. progressOf (cl s) = Some u') never"
    unfolding requeueAfterProgressPatch_def by (rule ht_bnd [OF ht_wrap [OF ok_patch [OF assms]]]) (rule ht_ret)
  have "ht (freed c u' p) (patchUpgradeStatus env) (\<lambda>_ s. progressOf (cl s) = Some u' \<and> patched p s) never"
    unfolding ht_def
  proof (intro allI impI)
    fix s assume s: "freed c u' p s"
    then have "wp (patchUpgradeStatus env) (\<lambda>_. patched p) (\<lambda>_. patched p) s"
      by (intro wp_keeps [OF patch_grows]) (auto simp: fr_def freed_def patched_def)
    with s have "wp (patchUpgradeStatus env) (\<lambda>_ s. progressOf (cl s) = Some u' \<and> patched p s) (\<lambda>e s. never e s \<and> patched p s) s"
      by (intro wp_conj htD [OF ok_patch [OF assms]]) (simp_all add: freed_def)
    then show "wp (patchUpgradeStatus env) (\<lambda>_ s. progressOf (cl s) = Some u' \<and> patched p s) never s" by simp
  qed
  then show "ht (freed c u' p) (requeueAfterProgressPatch env m) (\<lambda>_ s. progressOf (cl s) = Some u' \<and> patched p s) never"
    unfolding requeueAfterProgressPatch_def by (intro ht_bnd [OF ht_wrap]) (auto intro: ht_ret)
qed

lemma ok_podsConverged:
  assumes "staffed env c tgt" and "sticky c u P" and "\<forall>p\<in>set pods. pdName p \<noteq> []"
    and "\<And>p. B \<Longrightarrow> p \<in> set pods \<Longrightarrow> isPodReady p \<and> lookup_label (pdLabels p) ''controller-revision-hash'' = R
       \<and> healthyAt env (ClusterPodURL c (pdName p))"
  shows "ht P (podsConverged env R pods) (\<lambda>ok s. P s \<and> (B \<longrightarrow> ok)) never"
  using assms(3,4)
proof (induction pods)
  case (Cons p ps)
  then have n: "pdName p \<noteq> []" by simp
  have good: "B \<Longrightarrow> isPodReady p \<and> lookup_label (pdLabels p) ''controller-revision-hash'' = R \<and> healthyAt env (ClusterPodURL c (pdName p))"
    using Cons.prems(2) [of p] by simp
  have one: "ht P (isPodHealthyForFinalization env (pdName p)) (\<lambda>ok s. P s \<and> (B \<longrightarrow> ok)) never"
    unfolding isPodHealthyForFinalization_def
    by (intro ht_try [OF ok_ca [OF assms(1,2)]] ok_newClient [OF assms(1,2) n] ok_ask [OF assms(2)])
      (use good in \<open>auto intro!: ht_ret simp: ht_def [of "\<lambda>_. False"] split: sum.split\<close>)
  have rest: "ht P (podsConverged env R ps) (\<lambda>ok s. P s \<and> (B \<longrightarrow> ok)) never" using Cons by simp
  show ?case
    unfolding podsConverged.simps
    by (rule ht_if, rule ht_ret, use good in blast, rule ht_if, rule ht_ret, use good in blast, rule ht_bnd [OF one], rule ht_if, rule ht_ret, blast, rule ht_pre [OF rest], blast)
qed (auto intro: ht_ret)

lemma ok_converged:
  assumes "staffed env c (tgtName c q)" and "templated env c R img" and "0 \<le> q" "q \<le> 1" "3 \<le> spReplicas (clSpec c)"
  shows "ht (fit c u) (waitForFinalizationConverged env) (\<lambda>ok s. fit c u s \<and> (caughtUp env c 0 \<longrightarrow> ok)) never"
proof -
  let ?C = "caughtUp env c 0" and ?r = "spReplicas (clSpec c)"
  have healthy: "healthyAt env (ClusterPodURL c n)" if ?C "n \<noteq> tgtName c q \<or> q = 1" for n
  proof (cases "n = tgtName c q")
    case True
    with that have "n = StableVoterPodName (Some c) 0" by simp
    then show ?thesis using that(1) assms(5) unfolding caughtUp_def by auto
  qed (use staffed_calls(3) [OF assms(1)] in blast)
  have pods: "ht (\<lambda>s. fit c u s \<and> (\<exists>l. l \<noteq> tgtName c q \<and> goodVoters c (tgtName c q) l vs)
       \<and> (\<exists>tr sel pods. eListPods env tr sel = Inr pods \<and> vs = statefulSetPods (voterSet c @ ''-'') pods))
      (if int (length vs) \<noteq> ?r then ret False else podsConverged env R vs) (\<lambda>ok s. fit c u s \<and> (?C \<longrightarrow> ok)) never"
    if sts: "atTemplate env c R img sts" for vs sts
  proof (rule ht_assume [where B = "(\<exists>l. l \<noteq> tgtName c q \<and> goodVoters c (tgtName c q) l vs)
       \<and> (\<exists>tr sel pods. eListPods env tr sel = Inr pods \<and> vs = statefulSetPods (voterSet c @ ''-'') pods)"], blast, goal_cases)
    case 1
    then obtain l tr sel pods where l: "goodVoters c (tgtName c q) l vs"
      and vs: "eListPods env tr sel = Inr pods" "vs = statefulSetPods (voterSet c @ ''-'') pods" by blast
    obtain tr0 where tr0: "eGetSts env tr0 (voterSet c) = Inr sts" "stUpdateRevision sts = R" using sts by (auto simp: atTemplate_def)
    have all: "int (length vs) = ?r \<and> (\<forall>p\<in>set vs. isPodReady p \<and> lookup_label (pdLabels p) ''controller-revision-hash'' = R)" if ?C
      using that vs tr0 unfolding caughtUp_def Let_def by blast
    have names: "\<forall>p\<in>set vs. pdName p \<noteq> []" using l by (auto simp: goodVoters_def split: if_splits)
    have other: "pdName p \<noteq> tgtName c q \<or> q = 1" if "p \<in> set vs" for p
    proof -
      have "pdName p \<noteq> tgtName c 0"
      proof
        assume "pdName p = tgtName c 0"
        moreover have "isStatefulSetPod (voterSet c @ ''-'') p" using that vs(2) by (simp add: statefulSetPods_def)
        moreover have "int_str (- 1) = ''-1''" by code_simp
        then have "cut_prefix (tgtName c 0) (voterSet c @ ''-'') = Some ''-1''"
          by (simp add: StableVoterPodName_def cut_prefix_def has_prefix_def)
        moreover have "atoi ''-1'' = Some (-1)" by code_simp
        ultimately show False by (simp add: isStatefulSetPod_def)
      qed
      moreover have "q = 0 \<or> q = 1" using assms(3,4) by linarith
      ultimately show ?thesis by auto
    qed
    have conv: "ht (fit c u) (podsConverged env R vs) (\<lambda>ok s. fit c u s \<and> (?C \<longrightarrow> ok)) never"
      by (rule ok_podsConverged [OF assms(1) sticky_fit(1) names]) (use all healthy other in blast)
    show ?case
      by (rule ht_pre [of "fit c u"], rule ht_if) (use all in \<open>auto intro!: ht_ret conv\<close>)
  qed
  show ?thesis
    unfolding waitForFinalizationConverged_def Let_def
  proof (rule ok_cl [OF sticky_fit(1)], goal_cases)
    case (1 d)
    show ?case
      unfolding site_names(1) [OF 1(1)] site_sel(3) [OF 1(1)]
    proof (rule ok_sts [OF assms(2) sticky_fit(1)], goal_cases)
      case (1 sts)
      then have R: "stUpdateRevision sts = R" by (simp add: atTemplate_def)
      have conv: "revisionsConverged c sts" "(case stPartition sts of None \<Rightarrow> 0 | Some p \<Rightarrow> p) = 0" if ?C
      proof -
        have "revisionsConverged c sts \<and> (stPartition sts = None \<or> stPartition sts = Some 0)"
          using that 1 unfolding caughtUp_def atTemplate_def by blast
        then show "revisionsConverged c sts" "(case stPartition sts of None \<Rightarrow> 0 | Some p \<Rightarrow> p) = 0" by auto
      qed
      have repair: "ht (fit c u) (bnd (wrap_err w (setStatefulSetPartition env 0)) (\<lambda>_. ret False)) (\<lambda>ok s. fit c u s \<and> (?C \<longrightarrow> ok)) never"
        if "\<not> ?C" for w
        by (rule ht_bnd [OF ht_wrap [OF ok_setPartition [OF assms(2)]]]) (use that in \<open>auto intro!: ht_ret simp: freed_def\<close>)
      show ?case
        unfolding R
        by (rule ht_if, rule repair, use conv in blast, rule ht_if, rule ht_ret, use conv [unfolded revisionsConverged_def R] in blast,
            rule ht_bnd [OF ht_wrap [OF ok_pods [OF assms(1) sticky_fit(1)]] pods [OF 1]])
    qed
  qed
qed

lemma ok_finalize:
  assumes "steady env c u0" and "upCurrentPartition u0 \<le> 1"
  shows "ht (fit c u) (finalizeConvergedUpgrade env strategy) (\<lambda>_ s. progressOf (cl s) = None
     \<or> \<not> caughtUp env c 0 \<and> progressOf (cl s) = Some u) never"
proof -
  note a = steadyD [OF assms(1)]
  obtain R img where tm: "templated env c R img" using a(4) by blast
  let ?Q = "\<lambda>_ s. progressOf (cl s) = None \<or> \<not> caughtUp env c 0 \<and> progressOf (cl s) = Some u"
  have upd: "ht (fit c u) (updCl (mapStatus (SetUpgradeComplete v))) (\<lambda>_ s. clName (cl s) \<noteq> []) never" for v
    using a(10) by (auto simp: ht_def wps fit_def dest: site_sel(1))
  have "eHasAdminOpsMutator env" using a(2) by (simp add: serves_def)
  then have patch: "ht (\<lambda>s. clName (cl s) \<noteq> []) (patchFinalizedUpgradeStatus env) (\<lambda>_ s. progressOf (cl s) = None) never"
    unfolding patchFinalizedUpgradeStatus_def
    by (simp, intro ht_wrap ht_post [OF ok_write [OF a(2)]]) auto
  have m: "ht (\<lambda>s. progressOf (cl s) = None) (emitMetrics ms) (\<lambda>_ s. progressOf (cl s) = None) never" for ms
    by (rule ok_metrics) simp
  have tail: "ht (\<lambda>s. progressOf (cl s) = None) (bnd (gets cl) (\<lambda>c'. bnd (audit a (g c')) (\<lambda>_. bnd (emitNormalEvent x y) (\<lambda>_. ret 0)))) ?Q never" for a g x y
    by (simp add: ht_def wps audit_def emitNormalEvent_def)
  have rest: "ht (fit c u) (bnd (gets cl) (\<lambda>d. bnd (now env) (\<lambda>n. bnd (updCl (mapStatus (SetUpgradeComplete (v d)))) (\<lambda>_.
      bnd (wrap_err w (patchFinalizedUpgradeStatus env)) (\<lambda>_. bnd (emitMetrics (ms d n)) (\<lambda>_.
      bnd (gets cl) (\<lambda>c'. bnd (audit a (g c' d)) (\<lambda>_. bnd (emitNormalEvent x (y d)) (\<lambda>_. ret 0))))))))) ?Q never"
      for v w ms a g x y
    by (intro ok_cl [OF sticky_fit(1)] ht_bnd [OF ok_now] ht_bnd [OF upd] ht_bnd [OF ht_wrap [OF patch]] ht_bnd [OF m] tail)
  show ?thesis
    unfolding finalizeConvergedUpgrade_def Let_def
    by (rule ht_bnd [OF ok_converged [OF a(3) tm a(5) assms(2) a(9)]], rule ht_if,
        rule ht_assume [where B = "\<not> caughtUp env c 0"], blast, rule ht_conseq [OF ok_requeue(1) [OF a(2,10), of u]])
      (auto intro!: ht_pre [OF rest])
qed

section \<open>One pass\<close>

text \<open>What a pass leaves of the progress \<open>u\<close>.\<close>

definition outcome :: "env \<Rightarrow> Cluster \<Rightarrow> UpgradeProgress \<Rightarrow> st \<Rightarrow> bool" where
  "outcome env c u t \<longleftrightarrow> (let q = upCurrentPartition u in
       progressOf (cl t) = Some u
         \<and> (if q = 0 then \<not> caughtUp env c 0 else \<not> caughtUp env c (q - 1) \<and> patched (q - 1) t)
     \<or> 0 < q \<and> progressOf (cl t) = Some (advanced u) \<and> (q = 1 \<longrightarrow> \<not> caughtUp env c 0)
     \<or> q \<le> 1 \<and> progressOf (cl t) = None)"

lemma ok_execute:
  assumes st: "steady env c u"
  shows "ht (fit c u) (reconcileUpgradeExecution env strategy) (\<lambda>_. outcome env c u) never"
proof (cases "upCurrentPartition u = 0")
  case True
  have pod: "ht (fit c u) (performPodByPodUpgrade env) (\<lambda>r s. fit c u s \<and> r) never"
    unfolding performPodByPodUpgrade_def
    by (rule ok_cl [OF sticky_fit(1)]) (use True in \<open>auto simp: ht_def wps nextRolloutTargetPod_def\<close>)
  show ?thesis
    unfolding reconcileUpgradeExecution_def
    by (rule ht_try [OF pod], rule ht_if, simp add: ht_def, rule ht_conseq [OF ok_finalize [OF st, where u = u]])
      (use True in \<open>auto simp: ht_def outcome_def\<close>)
next
  case False
  note a = steadyD [OF st]
  let ?q = "upCurrentPartition u"
  have q: "0 < ?q" using False a(5) by simp
  have wait: "ht (freed c u (?q - 1)) (requeueAfterProgressPatch env m) (\<lambda>_. outcome env c u) never" if "\<not> caughtUp env c (?q - 1)" for m
    by (rule ht_post [OF ok_requeue(2) [OF a(2,10)]]) (use that q in \<open>auto simp: outcome_def\<close>)
  have onward: "ht (fit c (advanced u)) (requeueAfterProgressPatch env m) (\<lambda>_. outcome env c u) never" if "?q \<noteq> 1" for m
    by (rule ht_post [OF ok_requeue(1) [OF a(2,10)]]) (use that q in \<open>auto simp: outcome_def\<close>)
  have closing: "ht (fit c (advanced u)) (finalizeConvergedUpgrade env strategy) (\<lambda>_. outcome env c u) never" if "?q = 1"
    by (rule ht_post [OF ok_finalize [OF st]]) (use that in \<open>auto simp: outcome_def\<close>)
  have disj: "ht (\<lambda>s. P s \<or> P' s) m Q E" if "ht P m Q E" "ht P' m Q E" for P P' and m :: "Result op" and Q E
    using that by (auto simp: ht_def)
  show ?thesis
    unfolding reconcileUpgradeExecution_def
  proof (rule ht_try [OF ok_performPod [OF st q]], goal_cases)
    case (1 r)
    show ?case
      by (rule ht_if; rule disj)
        (auto simp: ht_def dest: htD [OF wait] htD [OF onward] htD [OF closing])
  qed (simp add: ht_def)
qed

lemma wp_pass:
  assumes st: "steady env (cl s) u"
  shows "wp (rollingReconcile env) (\<lambda>_. outcome env (cl s) u) never s"
proof -
  let ?c = "cl s" and ?Q = "\<lambda>_. outcome env (cl s) u"
  note a = steadyD [OF st]
  from a(1) have act: "udAction (decideUpgrade ?c) = upgradeResume"
    and snap: "case spUpgrade (clSpec ?c) of None \<Rightarrow> True | Some u \<Rightarrow> \<not> ucPreUpgradeSnapshot u"
    and rr: "desiredReadReplicaReplicas ?c = 0" by (auto simp: undisturbed_def)
  have pre: "ht (fit ?c u) (ensureUpgradePrerequisites env) (\<lambda>_. fit ?c u) never"
  proof -
    have "eEnsureServiceAccount env tr d = None" for tr d using a(2) by (simp add: serves_def)
    then have "ht (fit ?c u) (wrap_err w (callU (\<lambda>tr. eEnsureServiceAccount env tr d) EnsureServiceAccountE)) (\<lambda>_. fit ?c u) never" for w d
      by (simp add: ht_def wps)
    then show ?thesis unfolding ensureUpgradePrerequisites_def
      by (intro ok_cl [OF sticky_fit(1)]) (rule ht_bnd [OF _ ok_validate [OF st]])
  qed
  have prepare: "ht (fit ?c u) (prepareUpgradeExecution env strategy (decideUpgrade ?c)) (\<lambda>w s. fit ?c u s \<and> w = None) never" for strategy
  proof -
    have snapshot: "ht (fit ?c u) (ensurePreUpgradeSnapshotComplete env) (\<lambda>w s. fit ?c u s \<and> w = None) never"
      unfolding ensurePreUpgradeSnapshotComplete_def
      by (rule ok_cl [OF sticky_fit(1)]) (drule site_sel(3), use snap in \<open>simp add: ht_def wps\<close>)
    have start: "ht (fit ?c u) (startUpgradeExecutionIfNeeded env strategy) (\<lambda>_. fit ?c u) never"
      unfolding startUpgradeExecutionIfNeeded_def by (rule ok_cl [OF sticky_fit(1)]) (simp add: ht_def wps)
    have replicas: "ht (fit ?c u) (ensureReadReplicaPoolReadyForRollingUpgrade env) (\<lambda>w s. fit ?c u s \<and> w = None) never"
      unfolding ensureReadReplicaPoolReadyForRollingUpgrade_def Let_def
      by (rule ok_cl [OF sticky_fit(1)]) (drule site_sel(3), use rr in \<open>simp add: ht_def wps desiredReadReplicaReplicas_def\<close>)
    have metrics: "ht (\<lambda>s. fit ?c u s \<and> w = None) (bnd recordInProgressMetrics (\<lambda>_. ret w)) (\<lambda>w s. fit ?c u s \<and> w = None) never" for w :: "Result option"
    proof -
      have m: "ht (\<lambda>s. fit ?c u s \<and> w = None) (emitMetrics ms) (\<lambda>_ s. fit ?c u s \<and> w = None) never" for ms
        by (rule ok_metrics) simp
      show ?thesis unfolding recordInProgressMetrics_def
        by (rule ht_bnd [OF ht_gets [OF ht_pre [OF m]]]) (auto intro: ht_ret)
    qed
    have apply0: "applyUpgradeDecision env (decideUpgrade ?c) = ret ()" using act by (simp add: applyUpgradeDecision_def)
    show ?thesis
      unfolding prepareUpgradeExecution_def apply0 bnd_ret
      by (rule ht_try [OF pre], rule ht_unless_stop [where R = "fit ?c u", OF ht_post [OF snapshot]], auto simp: ht_def [of "\<lambda>_. False"]
          intro!: ht_bnd [OF start] ht_bnd [OF replicas] metrics split: option.split)
  qed
  have lock: "ht (fit ?c u) (ensureUpgradeLock env strategy upgradeResume) (\<lambda>w s. fit ?c u s \<and> w = None) never" for strategy
    unfolding ensureUpgradeLock_def by (simp, rule ht_bnd [OF ok_acquire [OF a(2,10)]]) (auto simp: ht_def wps)
  have whole: "ht (fit ?c u) (unless_done (ensureUpgradeLock env strategy (udAction (decideUpgrade ?c)))
      (unless_done (prepareUpgradeExecution env strategy (decideUpgrade ?c)) (reconcileUpgradeExecution env strategy))) ?Q never" for strategy
  proof -
    have through: "ht (fit ?c u) (unless_done m k) Q never"
      if "ht (fit ?c u) m (\<lambda>w s. fit ?c u s \<and> w = None) never" "ht (fit ?c u) k Q never" for m k and Q :: "Result \<Rightarrow> st \<Rightarrow> bool"
      by (rule ht_unless_done [where R = "fit ?c u", OF ht_post [OF that(1)] that(2)]) auto
    show ?thesis unfolding act by (intro through lock prepare ok_execute [OF st])
  qed
  have fit: "fit ?c u (s\<lparr>acks := b\<rparr>)" for b using a(7) by (simp add: fit_def)
  have "shouldSkipUpgradeReconcile k ?c = None" for k using a(1) by (simp add: undisturbed_def)
  moreover have "WrapPermanentConfig (eValidateSealPlugins env ?c) = None" using a(2) by (simp add: serves_def WrapPermanentConfig_def)
  ultimately show ?thesis
    unfolding rollingReconcile_def Let_def using htD [OF whole fit] by (simp add: wps)
qed

end
