(* ===== verification/Rolling_Runs.thy ===== *)
theory Rolling_Runs
  imports Rolling_Liveness BlueGreen_Runs
begin

text \<open>
  The properties of the rolling upgrade, over whole passes and runs of passes, with a concrete three-node cluster
  whose last Pod is about to be replaced for their witnesses.
\<close>

section \<open>Runs\<close>

text \<open>
  Passes one after the other, each in its own surroundings: a pass starts with an empty trace from an object whose upgrade record is
  the one the pass before left, as long as the upgrade is in progress.  Everything else of the object may have been written by
  others in between.
\<close>

definition rollingRun :: "(nat \<Rightarrow> env) \<Rightarrow> (nat \<Rightarrow> st) \<Rightarrow> bool" where
  "rollingRun envs ss \<longleftrightarrow> (\<forall>n. trace (ss n) = [] \<and> (progressOf (cl (ss n)) \<noteq> None
     \<longrightarrow> progressOf (cl (ss (Suc n))) = progressOf (cl (snd (snd (RollingReconcile (envs n) (ss n)))))))"

text \<open>The surroundings are steady as long as the upgrade is in progress.\<close>

definition steadyRun :: "(nat \<Rightarrow> env) \<Rightarrow> (nat \<Rightarrow> st) \<Rightarrow> bool" where
  "steadyRun envs ss \<longleftrightarrow> (\<forall>n u. progressOf (cl (ss n)) = Some u \<longrightarrow> steady (envs n) (cl (ss n)) u)"

text \<open>
  Fairness of the StatefulSet controller: it catches up with every partition that is recorded or that a pass has written, at some
  later pass, and it does not fall back while the upgrade is in progress.
\<close>

definition controllerFair :: "(nat \<Rightarrow> env) \<Rightarrow> (nat \<Rightarrow> st) \<Rightarrow> bool" where
  "controllerFair envs ss \<longleftrightarrow> (\<forall>n p. partitionOf (cl (ss n)) = Some p \<or> patched p (snd (snd (RollingReconcile (envs n) (ss n))))
     \<longrightarrow> (\<exists>m. \<forall>k\<ge>m. progressOf (cl (ss k)) \<noteq> None \<longrightarrow> caughtUp (envs k) (cl (ss k)) p))"

lemma pass_outcome:
  assumes "steady env (cl s) u"
  shows "\<exists>r. fst (RollingReconcile env s) = Inr r" "outcome env (cl s) u (snd (snd (RollingReconcile env s)))"
proof -
  have "wp (rollingReconcile env) (\<lambda>_. outcome env (cl s) u) never (s\<lparr>acks := noAcks\<rparr>)"
    using wp_pass [of env "s\<lparr>acks := noAcks\<rparr>" u] assms by simp
  then show "\<exists>r. fst (RollingReconcile env s) = Inr r" "outcome env (cl s) u (snd (snd (RollingReconcile env s)))"
    by (auto simp: RollingReconcile_def wp_def split: prod.splits sum.splits)
qed

text \<open>A record is left behind: the upgrade is over, or one more Pod is done.\<close>

lemma record_advances:
  assumes "rollingRun envs ss" "steadyRun envs ss" "controllerFair envs ss" and u: "progressOf (cl (ss n)) = Some u"
  obtains m where "progressOf (cl (ss m)) = None"
    | m where "0 < upCurrentPartition u" "progressOf (cl (ss m)) = Some (advanced u)"
proof -
  let ?q = "upCurrentPartition u"
  have out: "outcome (envs k) (cl (ss k)) u (snd (snd (RollingReconcile (envs k) (ss k))))" if "progressOf (cl (ss k)) = Some u" for k
    using assms(2) that pass_outcome(2) unfolding steadyRun_def by blast
  have left: "progressOf (cl (ss (Suc k))) = progressOf (cl (snd (snd (RollingReconcile (envs k) (ss k)))))"
    if "progressOf (cl (ss k)) = Some u" for k
    using assms(1) that by (simp add: rollingRun_def)
  show thesis
  proof (rule ccontr)
    assume "\<not> thesis"
    then have no: "progressOf (cl (ss m)) \<noteq> None" "\<not> (0 < ?q \<and> progressOf (cl (ss m)) = Some (advanced u))" for m
      using that by blast+
    have stay: "progressOf (cl (ss (n + k))) = Some u" for k
    proof (induction k)
      case (Suc k)
      then show ?case using out [OF Suc] no [of "n + Suc k"] left [OF Suc] by (auto simp: outcome_def Let_def)
    qed (simp add: u)
    let ?p = "if ?q = 0 then 0 else ?q - 1"
    have "partitionOf (cl (ss n)) = Some ?p \<or> patched ?p (snd (snd (RollingReconcile (envs n) (ss n))))"
      using out [OF u] no [of "Suc n"] left [OF u] u by (auto simp: outcome_def Let_def)
    then obtain m where m: "\<forall>k\<ge>m. progressOf (cl (ss k)) \<noteq> None \<longrightarrow> caughtUp (envs k) (cl (ss k)) ?p"
      using assms(3) unfolding controllerFair_def by blast
    then have "caughtUp (envs (n + m)) (cl (ss (n + m))) ?p" using stay [of m] by simp
    then show False
      using out [OF stay [of m]] no [of "Suc (n + m)"] left [OF stay [of m]] by (auto simp: outcome_def Let_def split: if_splits)
  qed
qed

lemma finishes:
  assumes "rollingRun envs ss" "steadyRun envs ss" "controllerFair envs ss"
  shows "\<exists>n. progressOf (cl (ss n)) = None"
proof -
  have "\<exists>m. progressOf (cl (ss m)) = None" if "progressOf (cl (ss n)) = Some u" "nat (upCurrentPartition u) = q" for n u q
    using that
  proof (induction q arbitrary: n u)
    case 0
    then show ?case using record_advances [OF assms 0(1)] by (metis nat_eq_iff2 order_less_irrefl zero_less_nat_eq)
  next
    case (Suc q)
    from record_advances [OF assms Suc.prems(1)] show ?case
    proof cases
      case (2 m)
      then show ?thesis using Suc.IH [of m "advanced u"] Suc.prems(2) by (simp add: advanced_def)
    qed blast
  qed
  then show ?thesis by (metis option.exhaust)
qed

section \<open>A concrete cluster\<close>

definition rollingProgress :: UpgradeProgress where
  "rollingProgress = \<lparr> upTargetVersion = ''2.4.1'', upFromVersion = ''2.4.0'', upStartedAt = Some 0, upCurrentPartition = 1,
     upCompletedPods = [2, 1], upLastStepDownTime = None, upFailure = None \<rparr>"

definition rollingCluster :: Cluster where
  "rollingCluster = mapStatus (\<lambda>st. st\<lparr>ssAcceptedUpgradeStrategy := RollingUpdate, ssUpgrade := Some rollingProgress\<rparr>)
     (exampleBase\<lparr>clSpec := (clSpec exampleBase)\<lparr>spVersion := ''2.4.1'', spImage := ''openbao:2.4.1''\<rparr>\<rparr>)"

definition rollingState :: st where
  "rollingState = \<lparr> cl = rollingCluster, trace = [], sess = (\<lambda>_. None), acks = noAcks, backupJobMetricsSeen = [] \<rparr>"

definition rollingMeta :: "string \<Rightarrow> labels \<Rightarrow> ObjectMeta" where
  "rollingMeta n ls = (jbMeta exampleJob)\<lparr>omName := n, omLabels := ls, omAnnotations := [(''openbao.org/cluster-generation'', ''4'')],
     omGeneration := 1, omDeletionTimestamp := None\<rparr>"

definition rollingPod :: "nat \<Rightarrow> Pod" where
  "rollingPod i = \<lparr> pdMeta = rollingMeta (''bao-'' @ nat_str i) [(''controller-revision-hash'', ''r2''),
       (''openbao-active'', if i = 1 then ''true'' else ''false'')], pdPhase = ''Running'',
     pdConditions = [\<lparr> cdType = ''Ready'', cdStatus = ''True'', cdReason = [], cdMessage = [], cdObservedGeneration = 0, cdLastTransitionTime = 0 \<rparr>],
     pdContainerStatuses = [], pdContainers = [(''openbao'', ''openbao:2.4.1'')], pdClaims = [], pdInitContainers = [],
     pdInitContainerStatuses = [], pdEphemeralContainers = [], pdEphemeralContainerStatuses = [] \<rparr>"

definition rollingSts :: StatefulSet where
  "rollingSts = \<lparr> stMeta = rollingMeta ''bao'' [], stSpecReplicas = Some 3, stTemplateLabels = [], stContainers = [(''openbao'', ''openbao:2.4.1'')],
     stOnDelete = False, stPartition = Some 0, stObservedGeneration = 1, stReplicas = 3, stReadyReplicas = 3, stCurrentReplicas = 3,
     stUpdatedReplicas = 3, stCurrentRevision = ''r2'', stUpdateRevision = ''r2'' \<rparr>"

text \<open>A healthy cluster whose Pods already run the new revision, and an API server that stores what is written.\<close>

definition rollingEnv :: env where
  "rollingEnv = exampleEnv\<lparr>eNow := (\<lambda>_. 60), eGetSts := (\<lambda>tr n. Inr rollingSts), eGetPod := (\<lambda>tr n. Inr (rollingPod 0)),
     eListPods := (\<lambda>tr sel. Inr (map rollingPod [0, 1, 2])),
     eGetCluster := (\<lambda>tr. case rev tr of
         ApplyStatusE b u k f None # _ \<Rightarrow> Inr (mapStatus (\<lambda>st. st\<lparr>ssUpgrade := u\<rparr>) rollingCluster)
       | _ \<Rightarrow> Inr rollingCluster)\<rparr>"

lemmas rolling_simps = rollingEnv_def exampleEnv_def rollingSts_def rollingPod_def rollingMeta_def rollingState_def rollingCluster_def
  rollingProgress_def exampleBase_def exampleBaseStatus_def

lemma rollingProgress_OK: "progressOK (progressOf rollingCluster)"
  by (simp add: rollingCluster_def rollingProgress_def progressOK_def upt_rec)

lemma rollingEnv_soleWriter: "soleWriter rollingEnv (blueGreen rollingCluster)"
proof -
  have last: "blueGreen c = blueGreen rollingCluster \<and> progressOK (progressOf c)"
    if "list_all progressTyped tr" "eGetCluster rollingEnv tr = Inr c" for tr c
    using that rollingProgress_OK
    by (cases tr rule: rev_cases) (auto simp: rollingEnv_def split: event.splits option.splits)
  then show ?thesis by (auto simp: soleWriter_def rollingEnv_def)
qed

lemma rolling_names:
  "voterSet rollingCluster = ''bao''" "voterPodNames rollingCluster = [''bao-0'', ''bao-1'', ''bao-2'']"
  "StableVoterPodName (Some rollingCluster) 0 = ''bao-0''"
  by code_simp+

lemma rolling_voters:
  "statefulSetPods ''bao-'' (map rollingPod [0, 1, 2]) = [rollingPod 2, rollingPod 1, rollingPod 0]"
  by code_simp

text \<open>The surroundings before the last Pod has been replaced: it still runs the old revision.\<close>

definition oldPod :: Pod where
  "oldPod = (rollingPod 0)\<lparr>pdMeta := rollingMeta ''bao-0'' [(''controller-revision-hash'', ''r1''), (''openbao-active'', ''false'')],
     pdContainers := [(''openbao'', ''openbao:2.4.0'')]\<rparr>"

definition oldSts :: StatefulSet where
  "oldSts = rollingSts\<lparr>stPartition := Some 1, stUpdatedReplicas := 2, stCurrentRevision := ''r1''\<rparr>"

definition oldEnv :: env where
  "oldEnv = rollingEnv\<lparr>eGetSts := (\<lambda>tr n. Inr oldSts), eGetPod := (\<lambda>tr n. Inr oldPod),
     eListPods := (\<lambda>tr sel. Inr [oldPod, rollingPod 1, rollingPod 2])\<rparr>"

definition rollingAt :: "UpgradeProgress option \<Rightarrow> Cluster" where
  "rollingAt v = mapStatus (\<lambda>st. st\<lparr>ssUpgrade := v\<rparr>) rollingCluster"

lemma rollingAt_simps [simp]:
  "progressOf (rollingAt v) = v" "clSpec (rollingAt v) = clSpec rollingCluster" "voterSet (rollingAt v) = ''bao''"
  "StableVoterPodName (Some (rollingAt v)) i = StableVoterPodName (Some rollingCluster) i" "voterPodNames (rollingAt v) = [''bao-0'', ''bao-1'', ''bao-2'']"
proof -
  have "site (rollingAt v) = site rollingCluster" by (simp add: rollingAt_def)
  note n = site_names [OF this]
  show "StableVoterPodName (Some (rollingAt v)) i = StableVoterPodName (Some rollingCluster) i" "voterSet (rollingAt v) = ''bao''"
    "voterPodNames (rollingAt v) = [''bao-0'', ''bao-1'', ''bao-2'']"
    using n rolling_names by auto
qed (simp_all add: rollingAt_def)

lemma rollingAt_same: "rollingAt (Some rollingProgress) = rollingCluster"
  by (simp add: rollingAt_def rollingCluster_def mapStatus_def)

lemma rolling_undisturbed: "undisturbed (rollingAt (Some rollingProgress))" "undisturbed (rollingAt (Some (advanced rollingProgress)))"
proof -
  have "undisturbed (rollingAt (Some u))" if "udAction (decideUpgrade (rollingAt (Some u))) = upgradeResume" for u
  proof -
    have "clName (rollingAt (Some u)) \<noteq> [] \<and> ssCurrentVersion (clStatus (rollingAt (Some u))) = ''2.4.0'' \<and> spVersion (clSpec rollingCluster) = ''2.4.1''
       \<and> spUpgrade (clSpec rollingCluster) = None \<and> desiredReadReplicaReplicas (rollingAt (Some u)) = 0 \<and> 3 \<le> spReplicas (clSpec rollingCluster)"
      by code_simp
    moreover have "ValidateUpgradeTargetVersion ''2.4.0'' ''2.4.1'' = None"
      by (simp add: ValidateUpgradeTargetVersion_def ValidateVersion_def IsDowngrade_def CompareVersions_def mmCompare_def compareSegment_def
          comparePrerelease_def comparePrePart_def parse_eval)
    moreover have "shouldSkipUpgradeReconcile n (rollingAt (Some u)) = None" for n
      by (simp add: shouldSkipUpgradeReconcile_def EffectiveStrategy_def rolling_simps rollingAt_def)
    ultimately show ?thesis using that by (simp add: undisturbed_def)
  qed
  moreover have "udAction (decideUpgrade (rollingAt (Some rollingProgress))) = upgradeResume"
    "udAction (decideUpgrade (rollingAt (Some (advanced rollingProgress)))) = upgradeResume"
    unfolding advanced_def by code_simp+
  ultimately show "undisturbed (rollingAt (Some rollingProgress))" "undisturbed (rollingAt (Some (advanced rollingProgress)))" by blast+
qed

lemma rolling_serves:
  assumes "upStartedAt u = Some 0"
  shows "serves rollingEnv (rollingAt (Some u)) u" "serves oldEnv (rollingAt (Some u)) u"
proof -
  have "ValidateImageRefMatchesVersion (eParseReference rollingEnv) (spVersion (clSpec rollingCluster)) (spImage (clSpec rollingCluster)) = None"
    by code_simp
  moreover have "\<exists>d. eGetCluster rollingEnv tr = Inr d \<and> ssOperationLock (clStatus d) = None" for tr
    by (cases tr rule: rev_cases) (auto simp: rolling_simps split: event.splits option.splits)
  moreover have "eNow rollingEnv tr - 0 \<le> DefaultPodReadyTimeout" for tr
    by (simp add: rollingEnv_def DefaultPodReadyTimeout_def)
  ultimately show r: "serves rollingEnv (rollingAt (Some u)) u"
    using assms unfolding serves_def by (auto simp: rollingEnv_def exampleEnv_def)
  then show "serves oldEnv (rollingAt (Some u)) u" by (simp add: serves_def oldEnv_def)
qed

lemma rolling_healthy: "healthyAt rollingEnv url" "healthyAt oldEnv url"
  by (simp_all add: healthyAt_def oldEnv_def rollingEnv_def exampleEnv_def)

lemma rolling_goodVoters:
  "goodVoters (rollingAt (Some u)) ''bao-0'' ''bao-1'' [rollingPod 2, rollingPod 1, rollingPod 0]"
  "goodVoters (rollingAt (Some u)) ''bao--1'' ''bao-1'' [rollingPod 2, rollingPod 1, rollingPod 0]"
  "goodVoters (rollingAt (Some u)) ''bao-0'' ''bao-1'' [rollingPod 2, rollingPod 1, oldPod]"
  unfolding goodVoters_def rollingAt_simps by code_simp+

lemma rolling_staffed:
  "staffed rollingEnv (rollingAt (Some u)) ''bao-0''" "staffed rollingEnv (rollingAt (Some u)) ''bao--1''"
  "staffed oldEnv (rollingAt (Some u)) ''bao-0''"
proof -
  have l: "FindLeaderPodByLabel (map rollingPod [0, 1, 2]) = Inr (Some ''bao-1'')"
    "FindLeaderPodByLabel [oldPod, rollingPod 1, rollingPod 2] = Inr (Some ''bao-1'')"
    "statefulSetPods ''bao-'' [oldPod, rollingPod 1, rollingPod 2] = [rollingPod 2, rollingPod 1, oldPod]"
    by code_simp+
  have e: "eListPods rollingEnv tr sel = Inr (map rollingPod [0, 1, 2])" "eListPods oldEnv tr sel = Inr [oldPod, rollingPod 1, rollingPod 2]"
    "eLoadCACert rollingEnv tr d = Inr ''ca''" "eNewClient rollingEnv tr cfg = None" "eIsLeader rollingEnv tr cfg = Inr False"
    "eLoadCACert oldEnv tr d = Inr ''ca''" "eNewClient oldEnv tr cfg = None" "eIsLeader oldEnv tr cfg = Inr False" for tr sel d cfg
    by (simp_all add: oldEnv_def rollingEnv_def exampleEnv_def)
  show "staffed rollingEnv (rollingAt (Some u)) ''bao-0''" "staffed rollingEnv (rollingAt (Some u)) ''bao--1''"
    using rolling_goodVoters l(1) rolling_voters unfolding staffed_def rollingAt_simps by (simp_all add: e rolling_healthy del: list.map)
  show "staffed oldEnv (rollingAt (Some u)) ''bao-0''"
    using rolling_goodVoters(3) l(2,3) unfolding staffed_def rollingAt_simps by (simp add: e rolling_healthy)
qed

lemma rolling_templated:
  "templated rollingEnv (rollingAt (Some u)) ''r2'' ''openbao:2.4.1''" "templated oldEnv (rollingAt (Some u)) ''r2'' ''openbao:2.4.1''"
proof -
  have f: "statefulSetTemplateCurrent rollingSts rollingCluster \<and> stUpdateRevision rollingSts = ''r2''
      \<and> trim_space (baoContainerImage (stContainers rollingSts)) = ''openbao:2.4.1''
      \<and> requiredQuorum (spReplicas (clSpec rollingCluster)) \<le> stReadyReplicas rollingSts"
    "statefulSetTemplateCurrent oldSts rollingCluster \<and> stUpdateRevision oldSts = ''r2''
      \<and> trim_space (baoContainerImage (stContainers oldSts)) = ''openbao:2.4.1''
      \<and> requiredQuorum (spReplicas (clSpec rollingCluster)) \<le> stReadyReplicas oldSts" "trim_space ''r2'' = ''r2''"
    by code_simp+
  have t: "statefulSetTemplateCurrent x (rollingAt v) = statefulSetTemplateCurrent x rollingCluster" for x v
    by (simp add: statefulSetTemplateCurrent_def rollingAt_def)
  show "templated rollingEnv (rollingAt (Some u)) ''r2'' ''openbao:2.4.1''" "templated oldEnv (rollingAt (Some u)) ''r2'' ''openbao:2.4.1''"
    using f unfolding templated_def rollingAt_simps t by (simp_all add: oldEnv_def rollingEnv_def exampleEnv_def)
qed

lemma rolling_steady:
  "steady rollingEnv (rollingAt (Some rollingProgress)) rollingProgress"
  "steady rollingEnv (rollingAt (Some (advanced rollingProgress))) (advanced rollingProgress)"
  "steady oldEnv (rollingAt (Some rollingProgress)) rollingProgress"
proof -
  have n: "StableVoterPodName (Some rollingCluster) (- 1) = ''bao--1''" "spReplicas (clSpec rollingCluster) = 3" by code_simp+
  have p: "upStartedAt rollingProgress = Some 0" "upStartedAt (advanced rollingProgress) = Some 0"
    "upCurrentPartition rollingProgress = 1" "upCurrentPartition (advanced rollingProgress) = 0"
    by (simp_all add: rollingProgress_def advanced_def)
  show "steady rollingEnv (rollingAt (Some rollingProgress)) rollingProgress"
    "steady rollingEnv (rollingAt (Some (advanced rollingProgress))) (advanced rollingProgress)"
    "steady oldEnv (rollingAt (Some rollingProgress)) rollingProgress"
    using rolling_undisturbed rolling_serves [OF p(1)] rolling_serves [OF p(2)] rolling_staffed rolling_templated
    unfolding steady_def by (simp_all add: n p rolling_names) blast+
qed

text \<open>Once the Pod has been replaced, the controller has caught up with every partition.\<close>

lemma rolling_caughtUp: "caughtUp rollingEnv (rollingAt (Some u)) p"
proof -
  have f: "replaced rollingSts (rollingPod 0)"
    "stPartition rollingSts = Some 0 \<and> stReadyReplicas rollingSts = spReplicas (clSpec rollingCluster)
      \<and> stUpdatedReplicas rollingSts = spReplicas (clSpec rollingCluster) \<and> stCurrentRevision rollingSts \<noteq> []
      \<and> stCurrentRevision rollingSts = stUpdateRevision rollingSts \<and> stUpdateRevision rollingSts \<noteq> []"
    "(let voters = [rollingPod 2, rollingPod 1, rollingPod 0] in int (length voters) = spReplicas (clSpec rollingCluster)
      \<and> (\<forall>p\<in>set voters. isPodReady p \<and> lookup_label (pdLabels p) ''controller-revision-hash'' = stUpdateRevision rollingSts))"
    unfolding replaced_def by code_simp+
  have e: "eGetSts rollingEnv tr n = Inr rollingSts" "eGetPod rollingEnv tr n = Inr (rollingPod 0)"
    "eListPods rollingEnv tr sel = Inr (map rollingPod [0, 1, 2])" for tr n sel
    by (simp_all add: rollingEnv_def)
  show ?thesis
    using f rolling_voters unfolding caughtUp_def rollingAt_simps e revisionsConverged_def by (simp add: rolling_healthy Let_def del: list.map)
qed

text \<open>
  A run: the first pass still sees the old Pod and writes the partition, from the second on the Pod has been replaced.  Each pass
  starts from the object with the upgrade record of the pass before.
\<close>

definition exampleEnvs :: "nat \<Rightarrow> env" where
  "exampleEnvs n = (if n = 0 then oldEnv else rollingEnv)"

primrec exampleRun :: "nat \<Rightarrow> st" where
  "exampleRun 0 = rollingState"
| "exampleRun (Suc n) = (if progressOf (cl (exampleRun n)) = None then exampleRun n
     else rollingState\<lparr>cl := rollingAt (progressOf (cl (snd (snd (RollingReconcile (exampleEnvs n) (exampleRun n))))))\<rparr>)"

lemma exampleRun_trace: "trace (exampleRun n) = []"
  by (induction n) (simp_all add: rollingState_def)

lemma exampleRun_steady:
  assumes "progressOf (cl (exampleRun n)) = Some u"
  shows "cl (exampleRun n) = rollingAt (Some u) \<and> steady (exampleEnvs n) (rollingAt (Some u)) u
    \<and> (u = rollingProgress \<or> 0 < n \<and> u = advanced rollingProgress)"
  using assms
proof (induction n arbitrary: u)
  case 0
  have "progressOf rollingCluster = Some rollingProgress" by (simp add: rollingCluster_def)
  then show ?case using 0 rolling_steady(3) by (auto simp: exampleEnvs_def rollingState_def rollingAt_same)
next
  case (Suc n)
  then obtain v where v: "progressOf (cl (exampleRun n)) = Some v" by (auto split: if_splits)
  note IH = Suc.IH [OF v]
  let ?s = "snd (snd (RollingReconcile (exampleEnvs n) (exampleRun n)))"
  have after: "exampleRun (Suc n) = rollingState\<lparr>cl := rollingAt (Some u)\<rparr>" "progressOf (cl ?s) = Some u"
    using Suc.prems v by auto
  have "outcome (exampleEnvs n) (cl (exampleRun n)) v ?s" by (rule pass_outcome(2)) (use IH in simp)
  then have "u = v \<or> 0 < upCurrentPartition v \<and> u = advanced v" using after(2) by (auto simp: outcome_def Let_def split: if_splits)
  then have "u = rollingProgress \<or> u = advanced rollingProgress"
    using IH by (auto simp: advanced_def rollingProgress_def)
  then show ?case using rolling_steady(1,2) after(1) by (auto simp: exampleEnvs_def)
qed

section \<open>Reports of a failure\<close>

text \<open>What reports a failed upgrade to the outside: the failure counter, the audit record and a warning event.\<close>

fun reportsFailure :: "event \<Rightarrow> bool" where
  "reportsFailure (MetricE IncrementFailure) = True"
| "reportsFailure (AuditE ty _) = (ty = ''UpgradeFailed'')"
| "reportsFailure (EventE warning _ _) = warning"
| "reportsFailure _ = False"

lemma patch_unreported: "keeps (fr (\<lambda>_. ()) (\<lambda>e. \<not> reportsFailure e)) (patchUpgradeStatus env)"
  unfolding patchUpgradeStatus_def patchStatusSSA_def MutateWithReader_def MutateAndApplyAdminOpsStatus_def
  by (auto simp: getCluster_def applyStatus_def intro!: keeps_fr_call keeps_fr_upd split: sum.split)

text \<open>A failure that already carries its time is shown in the status metric and written, and not reported.\<close>

lemma record_unreported:
  assumes "progressOf (cl s) = Some u" "upFailure u = Some f" "ceAt f \<noteq> None"
  shows "wp (recordUpgradeFailure env strategy reason message)
     (\<lambda>_ t. \<exists>ev. trace t = trace s @ MetricE (SetMetricStatus 3) # ev \<and> \<not> list_ex reportsFailure ev) never s"
proof -
  have first: "\<not> fdFirstFailure (fst (resolveUpgradeFailure n reason message (cl s)))" for n
    using assms by (simp add: resolveUpgradeFailure_def UpgradeFailureAt_def Let_def)
  let ?Q = "\<lambda>_ t. \<exists>ev. trace t = trace s @ MetricE (SetMetricStatus 3) # ev \<and> \<not> list_ex reportsFailure ev"
  have patch: "wp (patchUpgradeStatus env) ?Q ?Q t" if "trace t = trace s @ [MetricE (SetMetricStatus 3)]" for t
    by (rule wp_keeps [OF patch_unreported]) (use that in \<open>auto simp: fr_def list_ex_iff list_all_iff\<close>)
  show ?thesis
    using first [of "eNow env (trace s)"]
    by (auto simp: recordUpgradeFailure_def emitMetrics_def wps split: prod.split)
      (rule wp_mono [OF patch], auto simp: wps)
qed

section \<open>Properties\<close>

text \<open>Which writes of a pass are in order, as a rule for its trace.\<close>

fun partitionRule :: "Cluster \<Rightarrow> event list \<Rightarrow> event \<Rightarrow> bool" where
  "partitionRule c past (PatchPartitionE _ p _) = partitionJustified c past p"
| "partitionRule c past _ = True"

fun clearingRule :: "Cluster \<Rightarrow> event list \<Rightarrow> event \<Rightarrow> bool" where
  "clearingRule c past (ApplyStatusE _ None _ _ _) = clearingJustified c past"
| "clearingRule c past _ = True"

text \<open>
  C9: the rolling upgrade never releases a Pod blindly.  In every pass, on every path, a write of the StatefulSet
  partition either locks all Pods at the start of an upgrade, or repairs a stale partition of a converged
  StatefulSet, or lowers the partition in force by exactly one after the pass has seen the current template,
  healthy (or all ready) other voters and, with more than one replica, a leader other than the target or the
  target already at the new revision and ready.
\<close>

theorem partition_writes_justified:
  assumes "soleWriter env (blueGreen (cl s))" and "0 \<le> spReplicas (clSpec (cl s))" "spReplicas (clSpec (cl s)) < 2 ^ 31"
    and "progressOK (progressOf (cl s))" and "trace s = []"
  shows "guarded (partitionRule (cl s)) [] (trace (snd (snd (RollingReconcile env s))))"
proof -
  have "vet (cl s) past e \<Longrightarrow> partitionRule (cl s) past e" for past e by (cases e) auto
  then show ?thesis using sound_rolling [OF assms] by (auto simp: sound_def elim: guarded_mono)
qed

theorem partition_writes_justified_witness:
  "guarded (partitionRule rollingCluster) [] (trace (snd (snd (RollingReconcile rollingEnv rollingState))))"
  using partition_writes_justified [of rollingEnv rollingState] rollingEnv_soleWriter rollingProgress_OK
  by (simp add: rollingState_def) (simp add: rolling_simps)

text \<open>
  C13: the record of an upgrade in progress is erased only when the upgrade is finished.  A pass that writes an
  empty progress record has, in that pass, read a StatefulSet whose replicas are all ready and updated with
  partition zero, and found every voter Pod listed, ready, at the update revision and healthy; the only other
  empty write, of a retry, leaves a record empty that was already empty.
\<close>

theorem progress_erased_only_when_converged:
  assumes "soleWriter env (blueGreen (cl s))" and "0 \<le> spReplicas (clSpec (cl s))" "spReplicas (clSpec (cl s)) < 2 ^ 31"
    and "progressOK (progressOf (cl s))" and "trace s = []"
  shows "guarded (clearingRule (cl s)) [] (trace (snd (snd (RollingReconcile env s))))"
proof -
  have "vet (cl s) past e \<Longrightarrow> clearingRule (cl s) past e" for past e
    by (cases "(cl s, past, e)" rule: clearingRule.cases) auto
  then show ?thesis using sound_rolling [OF assms] by (auto simp: sound_def elim: guarded_mono)
qed

theorem progress_erased_only_when_converged_witness:
  "progressOf (cl (snd (snd (RollingReconcile rollingEnv rollingState)))) = None
   \<and> guarded (clearingRule rollingCluster) [] (trace (snd (snd (RollingReconcile rollingEnv rollingState))))"
proof -
  have p: "upCurrentPartition rollingProgress = 1" by (simp add: rollingProgress_def)
  have "outcome rollingEnv rollingCluster rollingProgress (snd (snd (RollingReconcile rollingEnv rollingState)))"
    using pass_outcome(2) [of rollingEnv rollingState rollingProgress] rolling_steady(1) by (simp add: rollingAt_same rollingState_def)
  then have "progressOf (cl (snd (snd (RollingReconcile rollingEnv rollingState)))) = None"
    using rolling_caughtUp [of rollingProgress 0] p by (simp add: outcome_def Let_def rollingAt_same)
  moreover have "guarded (clearingRule rollingCluster) [] (trace (snd (snd (RollingReconcile rollingEnv rollingState))))"
    using progress_erased_only_when_converged [of rollingEnv rollingState] rollingEnv_soleWriter rollingProgress_OK
    by (simp add: rollingState_def) (simp add: rolling_simps)
  ultimately show ?thesis ..
qed

text \<open>
  C14: the progress record is well-formed at every moment.  The recorded partition is within the 32-bit range and
  not negative, and the completed Pods are exactly the ordinals from the first one down to the partition, in
  the order they were replaced: in every record a pass writes and in the object it leaves, on every path.
\<close>

theorem progress_records_well_formed:
  assumes "soleWriter env (blueGreen (cl s))" and "0 \<le> spReplicas (clSpec (cl s))" "spReplicas (clSpec (cl s)) < 2 ^ 31"
    and "progressOK (progressOf (cl s))" and "trace s = []"
  shows "list_all progressTyped (trace (snd (snd (RollingReconcile env s))))
    \<and> progressOK (progressOf (cl (snd (snd (RollingReconcile env s)))))"
  using sound_rolling [OF assms] by (auto simp: sound_def guarded_typed)

theorem progress_records_well_formed_witness:
  "list_all progressTyped (trace (snd (snd (RollingReconcile rollingEnv rollingState))))
    \<and> progressOK (progressOf (cl (snd (snd (RollingReconcile rollingEnv rollingState)))))"
  using progress_records_well_formed [of rollingEnv rollingState] rollingEnv_soleWriter rollingProgress_OK
  by (simp add: rollingState_def) (simp add: rolling_simps)

text \<open>
  C10: a rolling upgrade in progress finishes, and no pass fails on the way.  The hypotheses: the upgrade is resumed (its
  target is the specified version and no failure is recorded), three or more voters, no pre-upgrade snapshot, no read replicas;
  while it is in progress the API server accepts writes, returns the record just written and nobody else holds the lock,
  the other voters are ready and healthy and one of them leads, the template is observed with a quorum ready, and the
  deadline is not reached.  The Pod to be replaced may be old, missing or not ready: the StatefulSet controller is
  asynchronous, and only fair, that is, after some number of passes it has caught up with a partition that was recorded
  or written.  Until then the passes wait.
\<close>

theorem rolling_upgrade_finishes:
  assumes "rollingRun envs ss" and "steadyRun envs ss" and "controllerFair envs ss"
  shows "(\<exists>n. progressOf (cl (ss n)) = None)
    \<and> (\<forall>n. progressOf (cl (ss n)) \<noteq> None \<longrightarrow> (\<exists>r. fst (RollingReconcile (envs n) (ss n)) = Inr r))"
proof (intro conjI allI impI)
  show "\<exists>n. progressOf (cl (ss n)) = None" using assms by (rule finishes)
  show "\<exists>r. fst (RollingReconcile (envs n) (ss n)) = Inr r" if "progressOf (cl (ss n)) \<noteq> None" for n
    using that assms(2) pass_outcome(1) unfolding steadyRun_def by blast
qed

theorem rolling_upgrade_finishes_witness:
  "progressOf (cl (exampleRun 0)) = Some rollingProgress \<and> (\<exists>n. progressOf (cl (exampleRun n)) = None)"
proof -
  have "rollingRun exampleEnvs exampleRun" by (simp add: rollingRun_def exampleRun_trace)
  moreover have "steadyRun exampleEnvs exampleRun" using exampleRun_steady by (metis steadyRun_def)
  moreover have "caughtUp (exampleEnvs k) (cl (exampleRun k)) p" if "1 \<le> k" "progressOf (cl (exampleRun k)) \<noteq> None" for k p
    using that exampleRun_steady [of k] rolling_caughtUp by (auto simp: exampleEnvs_def)
  then have "controllerFair exampleEnvs exampleRun" unfolding controllerFair_def by blast
  ultimately have "\<exists>n. progressOf (cl (exampleRun n)) = None" using rolling_upgrade_finishes by blast
  then show ?thesis by (simp add: rollingState_def rollingCluster_def)
qed

text \<open>
  C38: an upgrade that misses its deadline is not reported as failed.  When the execution stage of a pass finds that ten minutes have passed since
  the upgrade was started and a Pod is still to be replaced, the stage ends with an error and sets the status metric to failed, but among
  its calls there is no increment of the failure counter, no UpgradeFailed audit record and no warning event, even if this is the first
  failure of the upgrade: the deadline check marks the upgrade as failed, with the time of the failure, before the failure is
  recorded, and the recording takes the existing time as a sign that the failure was reported already.
\<close>

theorem timeout_not_reported:
  assumes "progressOf (cl s) = Some u" and "upCurrentPartition u \<noteq> 0"
    and "upStartedAt u = Some t" and "DefaultPodReadyTimeout < eNow env (trace s) - t"
  shows "\<exists>err ev. fst (reconcileUpgradeExecution env strategy s) = Inl err
    \<and> trace (snd (reconcileUpgradeExecution env strategy s)) = trace s @ MetricE (SetMetricStatus 3) # ev
    \<and> \<not> list_ex reportsFailure ev"
proof -
  obtain target where target: "nextRolloutTargetPod (cl s) = Inr (Some target)"
    using assms(1,2) by (simp add: nextRolloutTargetPod_def Let_def)
  let ?spec = "podRevisionTimeout (rtName target)"
  let ?s = "s\<lparr>cl := mapStatus (SetUpgradeFailed (eNow env (trace s)) (toReason ?spec) (toMessage ?spec)) (cl s)\<rparr>"
  let ?E = "\<lambda>_ t. \<exists>ev. trace t = trace s @ MetricE (SetMetricStatus 3) # ev \<and> \<not> list_ex reportsFailure ev"
  have late: "\<not> eNow env (trace s) - t \<le> toDeadline ?spec" using assms(4) by (simp add: podRevisionTimeout_def)
  have perform: "wp (performPodByPodUpgrade env) (\<lambda>_ _. False) (\<lambda>e t. e = errorf (toError ?spec) \<and> t = ?s) s"
    using assms(1,3) target late
    by (simp add: performPodByPodUpgrade_def targetPodAlreadyRolledOut_def podRevisionAlreadyUpdated_def checkPodRevisionUpdated_def
        failUpgradeIfStartedTimeout_def failUpgradeIfTimestampTimeout_def wps)
  obtain f where f: "progressOf (cl ?s) = Some (u\<lparr>upFailure := Some f\<rparr>)" "ceAt f \<noteq> None"
    using assms(1) by (simp add: SetUpgradeFailed_def Let_def)
  have "\<not> errors_is ErrPartitionRetry (errorf m)" for m by (simp add: errors_is_def)
  then have "wp (reconcileUpgradeExecution env strategy) (\<lambda>_ _. False) ?E s"
    unfolding reconcileUpgradeExecution_def wp_bnd wp_attempt handleUpgradeExecutionFailure_def
    by (intro wp_mono [OF perform]) (auto simp: wps intro!: wp_mono [OF record_unreported [OF f(1) _ f(2)]])
  then show ?thesis by (auto simp: wp_def split: prod.splits sum.splits)
qed

theorem timeout_not_reported_witness:
  "upFailure rollingProgress = None \<and> (\<exists>err ev. let r = reconcileUpgradeExecution (rollingEnv\<lparr>eNow := (\<lambda>_. seconds 601)\<rparr>) ''RollingUpdate'' rollingState in
     fst r = Inl err \<and> trace (snd r) = MetricE (SetMetricStatus 3) # ev \<and> \<not> list_ex reportsFailure ev)"
  using timeout_not_reported [of rollingState rollingProgress 0 "rollingEnv\<lparr>eNow := (\<lambda>_. seconds 601)\<rparr>" "''RollingUpdate''"]
  by (simp add: Let_def rollingState_def rollingCluster_def rollingProgress_def DefaultPodReadyTimeout_def)

end
