(* ===== verification/Raft_Types.thy ===== *)
theory Raft_Types
  imports BlueGreen_Stepper Complex_Main "HOL-Library.Word"
begin

text \<open>
  Data and pure decisions of the upgrade executor, the program the upgrade Jobs run
  (\<open>internal/service/upgrade/raftops\<close>: \<open>config.go\<close>, \<open>policy.go\<close>, \<open>autopilot.go\<close>, the pure parts of
  \<open>leader_search.go\<close>, \<open>leader_transfer.go\<close> and \<open>actions.go\<close>; \<open>internal/port/openbao\<close>: \<open>raft.go\<close>,
  \<open>autopilot.go\<close>, \<open>errors.go\<close>, \<open>client_config.go\<close>).  Raft indexes are 64-bit words.  A map of autopilot servers is an
  association list in the order in which Go's loop happens to visit it.  The host name of a Raft address is read with
  \<open>net/url\<close>, which is an argument of the definitions that need it.
\<close>

section \<open>Configuration\<close>

record ExecutorConfig =
  xcNamespace :: string
  xcName :: string
  xcReplicas :: int
  xcBlueReplicas :: int
  xcAction :: string
  xcJWTAuthRole :: string
  xcJWTAuthStrategy :: string
  xcJWTToken :: string
  xcBlueRevision :: string
  xcGreenRevision :: string
  xcSyncThreshold :: "64 word"
  xcTimeout :: int
  xcTLSCACert :: string
  xcTLSServerName :: string
  xcClientQPS :: real
  xcClientBurst :: int
  xcClientFailureThreshold :: int
  xcClientOpenDuration :: int

definition NormalizeJWTAuthStrategy :: "string \<Rightarrow> go_error + string" where
  "NormalizeJWTAuthStrategy strategy =
     (let normalized = to_lower (trim_space strategy)
      in if normalized = [] then Inr ''inline''
         else if normalized = ''inline'' \<or> normalized = ''standard'' then Inr normalized
         else Inl (errorf ''invalid OpenBao JWT auth strategy''))"

definition NormalizeJWTAuthStrategyOrDefault :: "string \<Rightarrow> string" where
  "NormalizeJWTAuthStrategyOrDefault strategy =
     (case NormalizeJWTAuthStrategy strategy of Inl _ \<Rightarrow> ''inline'' | Inr normalized \<Rightarrow> normalized)"

definition blueGreenAction :: "string \<Rightarrow> bool" where
  "blueGreenAction action \<longleftrightarrow> action \<in> set (map actionString
     [ActionJoinGreenNonVoters, ActionWaitGreenSynced, ActionPromoteGreenVoters, ActionDemoteBlueNonVotersStepDown,
      ActionRemoveBluePeers, ActionRemoveGreenPeers, ActionRepairConsensus])"

text \<open>\<open>Validate\<close> normalizes the authentication strategy in place once the required values are there.\<close>

definition Validate :: "ExecutorConfig \<Rightarrow> go_error option \<times> ExecutorConfig" where
  "Validate c =
     (if trim_space (xcNamespace c) = [] then (Some (errorf ''cluster namespace is required''), c)
      else if trim_space (xcName c) = [] then (Some (errorf ''cluster name is required''), c)
      else if xcReplicas c \<le> 0 then (Some (errorf ''cluster replicas must be greater than 0''), c)
      else if trim_space (xcAction c) = [] then (Some (errorf ''upgrade action is required''), c)
      else if trim_space (xcJWTAuthRole c) = [] then (Some (errorf ''JWT auth role is required''), c)
      else if trim_space (xcJWTToken c) = [] then (Some (errorf ''JWT token is required''), c)
      else case NormalizeJWTAuthStrategy (xcJWTAuthStrategy c) of Inl e \<Rightarrow> (Some e, c)
      | Inr jwtAuthStrategy \<Rightarrow>
          let c = c\<lparr> xcJWTAuthStrategy := jwtAuthStrategy \<rparr>
          in if blueGreenAction (xcAction c) \<and> trim_space (xcGreenRevision c) = []
             then (Some (errorf ''green revision is required for blue/green actions''), c)
             else if \<not> blueGreenAction (xcAction c) \<and> xcAction c \<noteq> actionString ActionRollingStepDownLeader
             then (Some (errorf ''unknown upgrade action''), c)
             else if xcSyncThreshold c = 0 then (Some (errorf ''sync threshold must be greater than 0''), c)
             else if xcTimeout c \<le> 0 then (Some (errorf ''timeout must be greater than 0''), c)
             else (None, c))"

definition blueReplicaCount :: "ExecutorConfig \<Rightarrow> int" where
  "blueReplicaCount c = (if xcBlueReplicas c > 0 then xcBlueReplicas c else xcReplicas c)"

section \<open>Raft configuration and autopilot state\<close>

record RaftServerEntry =
  rsNodeID :: string
  rsAddress :: string
  rsLeader :: bool
  rsVoter :: bool

record RaftConfiguration =
  rcServers :: "RaftServerEntry list"

record AutopilotServer =
  asID :: string
  asName :: string
  asAddress :: string
  asLastIndex :: "64 word"
  asHealthy :: bool
  asStatus :: string

record AutopilotState =
  apServers :: "(string \<times> AutopilotServer) list"
  apLeader :: string

section \<open>Pods of a revision\<close>

fun contains :: "string \<Rightarrow> string \<Rightarrow> bool" where
  "contains s sub = (has_prefix s sub \<or> (case s of [] \<Rightarrow> False | _ # t \<Rightarrow> contains t sub))"

declare contains.simps [simp del]

definition RevisionPodName :: "string \<Rightarrow> string \<Rightarrow> int \<Rightarrow> string" where
  "RevisionPodName clusterName revision ordinal =
     (if revision = [] then clusterName @ ''-'' @ int_str ordinal
      else clusterName @ ''-'' @ revision @ ''-'' @ int_str ordinal)"

definition PodURL :: "ExecutorConfig \<Rightarrow> string \<Rightarrow> int \<Rightarrow> string" where
  "PodURL cfg revision ordinal =
     (let podName = RevisionPodName (xcName cfg) revision ordinal;
          host = podName @ ''.'' @ xcName cfg @ ''.'' @ xcNamespace cfg @ ''.svc''
      in ''https://'' @ host @ '':8200'')"

definition ReplicaOrdinals :: "int \<Rightarrow> int list" where
  "ReplicaOrdinals replicas = (if replicas \<le> 0 then [] else map int [0..<nat replicas])"

definition AttemptOrdinals :: "int \<Rightarrow> int list" where
  "AttemptOrdinals maxAttempts = (if maxAttempts \<le> 0 then [] else map int [0..<nat maxAttempts])"

text \<open>
  \<open>RaftServerMatchesRevision\<close>: \<open>hostname\<close> is \<open>url.Parse\<close> followed by \<open>Hostname()\<close>, \<open>None\<close> when the address does not parse.
\<close>

definition RaftServerMatchesRevision ::
    "(string \<Rightarrow> string option) \<Rightarrow> string \<Rightarrow> string \<Rightarrow> string \<Rightarrow> string \<Rightarrow> int \<Rightarrow> bool" where
  "RaftServerMatchesRevision hostname nodeID address clusterName revision replicas =
     (let address = (if contains address ''://'' then address else ''tcp://'' @ address);
          hostPod = (case hostname address of None \<Rightarrow> [] | Some h \<Rightarrow> takeWhile (\<lambda>ch. ch \<noteq> CHR ''.'') h)
      in list_ex (\<lambda>i. nodeID = RevisionPodName clusterName revision i \<or> hostPod = RevisionPodName clusterName revision i)
           (ReplicaOrdinals replicas))"

definition IsBlueRaftServer :: "string \<Rightarrow> string \<Rightarrow> string \<Rightarrow> bool" where
  "IsBlueRaftServer nodeID address bluePrefix \<longleftrightarrow> has_prefix nodeID bluePrefix \<or> contains address bluePrefix"

text \<open>The leader of a configuration and whether it is a Pod of Blue.\<close>

definition RaftLeaderInfoForRevision ::
    "(string \<Rightarrow> string option) \<Rightarrow> RaftConfiguration \<Rightarrow> ExecutorConfig \<Rightarrow> string \<times> bool" where
  "RaftLeaderInfoForRevision hostname config cfg = (case find rsLeader (rcServers config) of
      None \<Rightarrow> ([], False)
    | Some server \<Rightarrow> (rsNodeID server, RaftServerMatchesRevision hostname (rsNodeID server) (rsAddress server)
        (xcName cfg) (xcBlueRevision cfg) (blueReplicaCount cfg)))"

definition raftQuorum :: "int \<Rightarrow> int" where
  "raftQuorum replicas = (if replicas \<le> 0 then 1 else replicas div 2 + 1)"

section \<open>Policies, outcomes and error classes\<close>

record LeaderSearchPolicy =
  lpPrimaryRevision :: string
  lpFallbackRevision :: string
  lpPrimaryLabel :: string
  lpFallbackLabel :: string
  lpAllowFallback :: bool

record RetryPolicy =
  rpMaxAttempts :: int
  rpAttemptInterval :: int
  rpElectionWait :: int

datatype BenignErrorClassification = Benign | Retryable | Fatal

record LeaderSearchOutcome =
  loValue :: string
  loDecisionPath :: string
  loReasonCode :: string
  loAttemptsUsed :: int
  loPrimaryError :: "go_error option"
  loFallbackError :: "go_error option"

record LeaderElectionOutcome =
  leValue :: string
  leDecisionPath :: string
  leReasonCode :: string
  leWaitError :: "go_error option"

definition NewExecutorReasonedError :: "string \<Rightarrow> string \<Rightarrow> go_error option \<Rightarrow> go_error" where
  "NewExecutorReasonedError reasonCode message err =
     Coded reasonCode message (case err of None \<Rightarrow> [] | Some e \<Rightarrow> [e])"

definition isCoded :: "go_error \<Rightarrow> bool" where
  "isCoded e = (case e of Coded _ _ _ \<Rightarrow> True | _ \<Rightarrow> False)"

definition ReasonCodeFromError :: "go_error \<Rightarrow> string" where
  "ReasonCodeFromError err = (case errors_as isCoded err of Some (Coded code _ _) \<Rightarrow> code | _ \<Rightarrow> [])"

definition ReasonCodeFromContextError :: "go_error \<Rightarrow> string" where
  "ReasonCodeFromContextError err =
     (if errors_is ErrContextCanceled err then ''reason_context_canceled''
      else if errors_is ErrDeadlineExceeded err then ''reason_deadline_exceeded''
      else [])"

definition DecisionPathFromReasonCode :: "string \<Rightarrow> string" where
  "DecisionPathFromReasonCode reasonCode =
     (if reasonCode = ''reason_context_canceled'' then ''context_canceled''
      else if reasonCode = ''reason_deadline_exceeded'' then ''deadline_exceeded''
      else if reasonCode = ''reason_election_timeout'' then ''election_timeout''
      else ''primary_failed_fallback_failed'')"

definition NewLeaderSearchPolicy :: "string \<Rightarrow> string \<Rightarrow> string \<Rightarrow> string \<Rightarrow> LeaderSearchPolicy" where
  "NewLeaderSearchPolicy primaryRevision fallbackRevision primaryLabel fallbackLabel =
     \<lparr> lpPrimaryRevision = primaryRevision, lpFallbackRevision = fallbackRevision,
       lpPrimaryLabel = primaryLabel, lpFallbackLabel = fallbackLabel,
       lpAllowFallback = (trim_space fallbackRevision \<noteq> [] \<and> fallbackRevision \<noteq> primaryRevision) \<rparr>"

definition NewLeaderSearchPolicyForRevisions :: "string \<Rightarrow> string \<Rightarrow> string \<Rightarrow> string \<Rightarrow> LeaderSearchPolicy" where
  "NewLeaderSearchPolicyForRevisions primaryRevision fallbackRevision primaryLabel fallbackLabel =
     (NewLeaderSearchPolicy primaryRevision fallbackRevision primaryLabel fallbackLabel)
       \<lparr> lpAllowFallback := (fallbackRevision \<noteq> primaryRevision) \<rparr>"

definition NormalizeRetryPolicy :: "RetryPolicy \<Rightarrow> RetryPolicy" where
  "NormalizeRetryPolicy policy =
     (let policy = (if rpMaxAttempts policy \<le> 0 then policy\<lparr> rpMaxAttempts := 1 \<rparr> else policy)
      in if rpAttemptInterval policy < 0 then policy\<lparr> rpAttemptInterval := 0 \<rparr> else policy)"

definition NormalizeLeaderTransferRetryPolicy :: "RetryPolicy \<Rightarrow> RetryPolicy" where
  "NormalizeLeaderTransferRetryPolicy policy =
     (if rpMaxAttempts policy \<le> 0 then policy\<lparr> rpMaxAttempts := 10 \<rparr> else policy)"

definition NormalizeElectionRetryPolicy :: "RetryPolicy \<Rightarrow> RetryPolicy" where
  "NormalizeElectionRetryPolicy policy =
     (let policy = (if rpAttemptInterval policy \<le> 0 then policy\<lparr> rpAttemptInterval := 500000000 \<rparr> else policy)
      in if rpElectionWait policy \<le> 0 then policy\<lparr> rpElectionWait := seconds 5 \<rparr> else policy)"

text \<open>\<open>portopenbao.StatusCode\<close>, \<open>IsStatus\<close>: the HTTP status of the first API error in the tree.\<close>

definition isBaoStatus :: "go_error \<Rightarrow> bool" where
  "isBaoStatus e = (case e of BaoStatus _ \<Rightarrow> True | _ \<Rightarrow> False)"

definition StatusCode :: "go_error \<Rightarrow> int option" where
  "StatusCode err = (case errors_as isBaoStatus err of Some (BaoStatus code) \<Rightarrow> Some code | _ \<Rightarrow> None)"

definition IsStatus :: "go_error \<Rightarrow> int \<Rightarrow> bool" where
  "IsStatus err statusCode \<longleftrightarrow> StatusCode err = Some statusCode"

definition isOpenBaoAuthzError :: "go_error \<Rightarrow> bool" where
  "isOpenBaoAuthzError err \<longleftrightarrow> IsStatus err 401 \<or> IsStatus err 403"

definition IsBenignJoinError :: "go_error \<Rightarrow> bool" where
  "IsBenignJoinError err \<longleftrightarrow> errors_is ErrAlreadyJoined err"

definition ClassifyJoinError :: "go_error \<Rightarrow> BenignErrorClassification" where
  "ClassifyJoinError err = (if IsBenignJoinError err then Benign else if isOpenBaoAuthzError err then Fatal else Fatal)"

definition IsBenignDemoteError :: "go_error \<Rightarrow> bool" where
  "IsBenignDemoteError err \<longleftrightarrow> errors_is ErrAlreadyNonVoter err"

definition ClassifyDemoteError :: "go_error \<Rightarrow> BenignErrorClassification" where
  "ClassifyDemoteError err =
     (if IsBenignDemoteError err then Benign else if isOpenBaoAuthzError err then Fatal else Retryable)"

definition ClassifyStepDownError :: "go_error \<Rightarrow> BenignErrorClassification" where
  "ClassifyStepDownError err = (if isOpenBaoAuthzError err then Fatal else Retryable)"

section \<open>Replication of Green\<close>

record GreenSyncEvaluation =
  geAllSynced :: bool
  geMaxDelta :: "64 word"
  geMissingGreen :: int
  geUnhealthyGreen :: int
  geMissingPods :: "string list"
  geUnhealthyServers :: "(string \<times> AutopilotServer) list"

definition RaftAutopilotServerMatchesPod :: "AutopilotServer \<Rightarrow> string \<Rightarrow> bool" where
  "RaftAutopilotServerMatchesPod server podName \<longleftrightarrow> podName \<noteq> []
     \<and> (asID server = podName \<or> asName server = podName \<or> contains (asAddress server) podName)"

text \<open>
  The servers of the answer are a Go map, which is iterated in an unspecified order, a new one for each loop.  \<open>apServers\<close> lists them in one
  order, arbitrary but the same for all lookups in one answer; when a Pod matches one server at most, the order does not matter.
\<close>

definition FindAutopilotServerForPod :: "AutopilotState \<Rightarrow> string \<Rightarrow> AutopilotServer option" where
  "FindAutopilotServerForPod state podName =
     find (\<lambda>server. RaftAutopilotServerMatchesPod server podName) (map snd (apServers state))"

definition evaluateGreenPod ::
    "ExecutorConfig \<Rightarrow> AutopilotState \<Rightarrow> 64 word \<Rightarrow> int \<Rightarrow> GreenSyncEvaluation \<Rightarrow> GreenSyncEvaluation" where
  "evaluateGreenPod cfg state targetIndex i ev =
     (let greenPodName = RevisionPodName (xcName cfg) (xcGreenRevision cfg) i
      in case FindAutopilotServerForPod state greenPodName of
           None \<Rightarrow> ev\<lparr> geAllSynced := False, geMissingGreen := geMissingGreen ev + 1,
                      geMissingPods := geMissingPods ev @ [greenPodName] \<rparr>
         | Some server \<Rightarrow>
             let ev = (if \<not> asHealthy server
                  then ev\<lparr> geUnhealthyGreen := geUnhealthyGreen ev + 1,
                           geUnhealthyServers := geUnhealthyServers ev @ [(greenPodName, server)] \<rparr> else ev);
                 delta = (if targetIndex > asLastIndex server then targetIndex - asLastIndex server else 0);
                 ev = (if delta > geMaxDelta ev then ev\<lparr> geMaxDelta := delta \<rparr> else ev)
             in if delta > xcSyncThreshold cfg then ev\<lparr> geAllSynced := False \<rparr> else ev)"

definition EvaluateGreenSyncFromAutopilot :: "ExecutorConfig \<Rightarrow> AutopilotState \<Rightarrow> 64 word \<Rightarrow> GreenSyncEvaluation" where
  "EvaluateGreenSyncFromAutopilot cfg state targetIndex =
     fold (evaluateGreenPod cfg state targetIndex) (ReplicaOrdinals (xcReplicas cfg))
       \<lparr> geAllSynced = True, geMaxDelta = 0, geMissingGreen = 0, geUnhealthyGreen = 0, geMissingPods = [],
         geUnhealthyServers = [] \<rparr>"

definition RaftAutopilotLeaderLastIndex :: "AutopilotState \<Rightarrow> (64 word) option" where
  "RaftAutopilotLeaderLastIndex state =
     (let servers = map snd (apServers state);
          byStatus = map_option asLastIndex (find (\<lambda>server. asStatus server = ''leader'') servers)
      in if apLeader state = [] then byStatus
         else case map_of (apServers state) (apLeader state) of
           Some server \<Rightarrow> Some (asLastIndex server)
         | None \<Rightarrow> (case find (\<lambda>server. asID server = apLeader state \<or> asName server = apLeader state
                         \<or> asStatus server = ''leader'') servers of
               Some server \<Rightarrow> Some (asLastIndex server)
             | None \<Rightarrow> byStatus))"

definition RaftAutopilotMaxLastIndex :: "AutopilotState \<Rightarrow> 64 word" where
  "RaftAutopilotMaxLastIndex state =
     fold (\<lambda>server m. if asLastIndex server > m then asLastIndex server else m) (map snd (apServers state)) 0"

definition CountMissingGreenServers :: "ExecutorConfig \<Rightarrow> RaftConfiguration \<Rightarrow> int" where
  "CountMissingGreenServers cfg config =
     int (length (filter (\<lambda>i.
       let greenPodName = RevisionPodName (xcName cfg) (xcGreenRevision cfg) i
       in \<not> list_ex (\<lambda>server. rsNodeID server = greenPodName \<or> contains (rsAddress server) greenPodName)
            (rcServers config)) (ReplicaOrdinals (xcReplicas cfg))))"

section \<open>Facts\<close>

lemma set_ReplicaOrdinals [simp]: "set (ReplicaOrdinals n) = {0..<n}"
  by (simp add: ReplicaOrdinals_def image_int_atLeastLessThan)

lemma length_AttemptOrdinals [simp]: "length (AttemptOrdinals n) = nat n"
  by (simp add: AttemptOrdinals_def)

end
