(* ===== verification/Raft_World.thy ===== *)
theory Raft_World
  imports Raft_Types
begin

text \<open>
  What the upgrade executor does to the cluster (\<open>internal/service/upgrade/raftops\<close>), as a trace: every request
  it sends to an OpenBao node, with the answer, and every pause.  The answers are functions of the
  whole trace before the request (\<open>xenv\<close>), so that nodes may change their mind at any time.  A client is its address and
  how it authenticates (\<open>internal/adapter/openbao/factory.go\<close>, \<open>auth.go\<close>).  A Raft configuration that was read is never
  nil (\<open>client_raft.go\<close> returns one or an error), and neither is a client factory.
\<close>

section \<open>Clients and events\<close>

datatype BaoClient = Anonymous string | WithToken string string | WithInlineJWT string string string

fun clientURL :: "BaoClient \<Rightarrow> string" where
  "clientURL (Anonymous url) = url"
| "clientURL (WithToken url _) = url"
| "clientURL (WithInlineJWT url _ _) = url"

datatype raftEvent =
    NewE string "go_error option"
  | LoginE string "go_error + string"
  | LeaderE string "go_error + bool"
  | ConfigE BaoClient "go_error + RaftConfiguration"
  | AutopilotE BaoClient "go_error + AutopilotState"
  | JoinE BaoClient string bool bool "go_error option"
  | PromoteE BaoClient string "go_error option"
  | DemoteE BaoClient string "go_error option"
  | RemoveE BaoClient string "go_error option"
  | StepDownE BaoClient "go_error option"
  | PauseE int "go_error option"
  | TickE "go_error option"

type_synonym raftTrace = "raftEvent list"

type_synonym 'a act = "(raftTrace, 'a) run"

text \<open>
  \<open>xPause env tr d\<close> is the outcome of a \<open>select\<close> between a timer of duration \<open>d\<close> and \<open>ctx.Done()\<close>: \<open>None\<close> when the
  timer fired, the context's error otherwise.  \<open>xTick\<close> is the same for the ticker of \<open>wait.PollUntilContextTimeout\<close>, with
  its check of the context.
\<close>

record xenv =
  xNew :: "raftTrace \<Rightarrow> string \<Rightarrow> go_error option"
  xLogin :: "raftTrace \<Rightarrow> string \<Rightarrow> string \<Rightarrow> string \<Rightarrow> go_error + string"
  xLeader :: "raftTrace \<Rightarrow> string \<Rightarrow> go_error + bool"
  xConfig :: "raftTrace \<Rightarrow> BaoClient \<Rightarrow> go_error + RaftConfiguration"
  xAutopilot :: "raftTrace \<Rightarrow> BaoClient \<Rightarrow> go_error + AutopilotState"
  xJoin :: "raftTrace \<Rightarrow> BaoClient \<Rightarrow> string \<Rightarrow> go_error option"
  xPromote :: "raftTrace \<Rightarrow> BaoClient \<Rightarrow> string \<Rightarrow> go_error option"
  xDemote :: "raftTrace \<Rightarrow> BaoClient \<Rightarrow> string \<Rightarrow> go_error option"
  xRemove :: "raftTrace \<Rightarrow> BaoClient \<Rightarrow> string \<Rightarrow> go_error option"
  xStepDown :: "raftTrace \<Rightarrow> BaoClient \<Rightarrow> go_error option"
  xPause :: "raftTrace \<Rightarrow> int \<Rightarrow> go_error option"
  xTick :: "raftTrace \<Rightarrow> go_error option"
  xCtxErr :: "raftTrace \<Rightarrow> go_error option"
  xHostname :: "string \<Rightarrow> string option"

section \<open>Requests\<close>

definition observe :: "(raftTrace \<Rightarrow> 'r) \<Rightarrow> ('r \<Rightarrow> raftEvent) \<Rightarrow> 'r act" where
  "observe f ev tr = (Inr (f tr), ev (f tr) # tr)"

definition request :: "(raftTrace \<Rightarrow> go_error + 'r) \<Rightarrow> (go_error + 'r \<Rightarrow> raftEvent) \<Rightarrow> 'r act" where
  "request f ev = bnd (observe f ev) lift_res"

definition submit :: "(raftTrace \<Rightarrow> go_error option) \<Rightarrow> (go_error option \<Rightarrow> raftEvent) \<Rightarrow> unit act" where
  "submit f ev = bnd (observe f ev) (\<lambda>r. case r of None \<Rightarrow> ret () | Some e \<Rightarrow> failwith e)"

definition factoryNew :: "xenv \<Rightarrow> string \<Rightarrow> BaoClient act" where
  "factoryNew env url = bnd (submit (\<lambda>tr. xNew env tr url) (NewE url)) (\<lambda>_. ret (Anonymous url))"

definition NewWithToken :: "xenv \<Rightarrow> string \<Rightarrow> string \<Rightarrow> BaoClient act" where
  "NewWithToken env url token = bnd (factoryNew env url) (\<lambda>_. ret (WithToken url token))"

definition newInlineJWTAuthorizer :: "string \<Rightarrow> string \<Rightarrow> go_error + string \<times> string" where
  "newInlineJWTAuthorizer role jwtToken =
     (if trim_space role = [] then Inl (errorf ''JWT auth role is required for inline authentication'')
      else if trim_space jwtToken = [] then Inl (errorf ''JWT token is required for inline authentication'')
      else Inr (trim_space role, trim_space jwtToken))"

definition NewWithInlineJWT :: "xenv \<Rightarrow> string \<Rightarrow> string \<Rightarrow> string \<Rightarrow> BaoClient act" where
  "NewWithInlineJWT env url role jwtToken = (case newInlineJWTAuthorizer role jwtToken of
      Inl e \<Rightarrow> failwith e
    | Inr (role, jwt) \<Rightarrow> bnd (factoryNew env url) (\<lambda>_. ret (WithInlineJWT url role jwt)))"

definition LoginJWT :: "xenv \<Rightarrow> string \<Rightarrow> string \<Rightarrow> string \<Rightarrow> string act" where
  "LoginJWT env url role jwtToken = request (\<lambda>tr. xLogin env tr url role jwtToken) (LoginE url)"

definition clientIsLeader :: "xenv \<Rightarrow> BaoClient \<Rightarrow> bool act" where
  "clientIsLeader env client = request (\<lambda>tr. xLeader env tr (clientURL client)) (LeaderE (clientURL client))"

definition ReadRaftConfiguration :: "xenv \<Rightarrow> BaoClient \<Rightarrow> RaftConfiguration act" where
  "ReadRaftConfiguration env client = request (\<lambda>tr. xConfig env tr client) (ConfigE client)"

definition ReadRaftAutopilotState :: "xenv \<Rightarrow> BaoClient \<Rightarrow> AutopilotState act" where
  "ReadRaftAutopilotState env client = request (\<lambda>tr. xAutopilot env tr client) (AutopilotE client)"

definition JoinRaftCluster :: "xenv \<Rightarrow> BaoClient \<Rightarrow> string \<Rightarrow> bool \<Rightarrow> bool \<Rightarrow> unit act" where
  "JoinRaftCluster env client leader retry nonVoter =
     submit (\<lambda>tr. xJoin env tr client leader) (JoinE client leader retry nonVoter)"

definition PromoteRaftPeer :: "xenv \<Rightarrow> BaoClient \<Rightarrow> string \<Rightarrow> unit act" where
  "PromoteRaftPeer env client serverID = submit (\<lambda>tr. xPromote env tr client serverID) (PromoteE client serverID)"

definition DemoteRaftPeer :: "xenv \<Rightarrow> BaoClient \<Rightarrow> string \<Rightarrow> unit act" where
  "DemoteRaftPeer env client serverID = submit (\<lambda>tr. xDemote env tr client serverID) (DemoteE client serverID)"

definition RemoveRaftPeer :: "xenv \<Rightarrow> BaoClient \<Rightarrow> string \<Rightarrow> unit act" where
  "RemoveRaftPeer env client serverID = submit (\<lambda>tr. xRemove env tr client serverID) (RemoveE client serverID)"

definition StepDown :: "xenv \<Rightarrow> BaoClient \<Rightarrow> unit act" where
  "StepDown env client = submit (\<lambda>tr. xStepDown env tr client) (StepDownE client)"

definition pause :: "xenv \<Rightarrow> int \<Rightarrow> go_error option act" where
  "pause env d = observe (\<lambda>tr. xPause env tr d) (PauseE d)"

section \<open>Traces that grow under a rule\<close>

text \<open>
  \<open>extends P tr tr'\<close>: \<open>tr'\<close> is \<open>tr\<close> with events added, each of which satisfies \<open>P\<close> on the trace before it.
\<close>

inductive extends :: "(raftEvent \<Rightarrow> raftTrace \<Rightarrow> bool) \<Rightarrow> raftTrace \<Rightarrow> raftTrace \<Rightarrow> bool" for P where
  extends_refl [simp, intro]: "extends P tr tr"
| extends_step: "extends P tr tr' \<Longrightarrow> P e tr' \<Longrightarrow> extends P tr (e # tr')"

lemma extends_trans: "extends P t u \<Longrightarrow> extends P s t \<Longrightarrow> extends P s u"
  by (induction rule: extends.induct) (auto intro: extends_step)

lemma extends_mono: "extends P s t \<Longrightarrow> (\<And>e tr. P e tr \<Longrightarrow> Q e tr) \<Longrightarrow> extends Q s t"
  by (induction rule: extends.induct) (auto intro: extends_step)

lemma extends_subset: "extends P s t \<Longrightarrow> set s \<subseteq> set t"
  by (induction rule: extends.induct) auto

lemma extends_single [simp]: "P e tr \<Longrightarrow> extends P tr (e # tr)"
  by (auto intro: extends_step)

text \<open>The rule holds at every event of a trace that grew from nothing.\<close>

lemma extends_at:
  assumes "extends P s t" "t = new @ e # old" "length s \<le> length old"
  shows "P e old"
  using assms
proof (induction arbitrary: new rule: extends.induct)
  case (extends_step tr tr' e')
  then show ?case by (cases new) auto
qed auto

lemma extends_prefix: "extends P s t \<Longrightarrow> \<exists>new. t = new @ s"
  by (induction rule: extends.induct) auto

interpretation ext: frame "extends P" for P
  by unfold_locales (auto intro: extends_trans)

text \<open>Requests that do not change the cluster.\<close>

fun changes :: "raftEvent \<Rightarrow> bool" where
  "changes (JoinE _ _ _ _ _) = True"
| "changes (PromoteE _ _ _) = True"
| "changes (DemoteE _ _ _) = True"
| "changes (RemoveE _ _ _) = True"
| "changes (StepDownE _ _) = True"
| "changes _ = False"

fun searches :: "raftEvent \<Rightarrow> bool" where
  "searches (NewE _ _) = True"
| "searches (LoginE _ _) = True"
| "searches (LeaderE _ _) = True"
| "searches (PauseE _ _) = True"
| "searches (TickE _) = True"
| "searches _ = False"

lemma searches_changes: "searches e \<Longrightarrow> \<not> changes e"
  by (cases e) auto

lemma keeps_observe [intro]: "(\<And>r tr. P (ev r) tr) \<Longrightarrow> keeps (extends P) (observe f ev)"
  by (simp add: keeps_def observe_def)

lemma keeps_request [intro]: "(\<And>r tr. P (ev r) tr) \<Longrightarrow> keeps (extends P) (request f ev)"
  unfolding request_def by blast

lemma keeps_submit [intro]: "(\<And>r tr. P (ev r) tr) \<Longrightarrow> keeps (extends P) (submit f ev)"
  unfolding submit_def by (auto split: option.split)

abbreviation searching :: "raftTrace \<Rightarrow> raftTrace \<Rightarrow> bool" where
  "searching \<equiv> extends (\<lambda>e _. searches e)"

lemma keeps_clients_searching [simp, intro]:
  "keeps searching (factoryNew env url)" "keeps searching (NewWithToken env url token)"
  "keeps searching (NewWithInlineJWT env url role jwt)" "keeps searching (LoginJWT env url role jwt)"
  "keeps searching (clientIsLeader env client)" "keeps searching (pause env d)"
  unfolding factoryNew_def NewWithToken_def NewWithInlineJWT_def LoginJWT_def clientIsLeader_def pause_def
  by (auto split: sum.split)

lemma wp_observe [wps]: "wp (observe f ev) Q E tr = Q (f tr) (ev (f tr) # tr)"
  by (simp add: wp_def observe_def)

lemma wp_request [wps]:
  "wp (request f ev) Q E tr = (case f tr of Inl e \<Rightarrow> E e (ev (Inl e) # tr) | Inr a \<Rightarrow> Q a (ev (Inr a) # tr))"
  by (simp add: request_def wps split: sum.split)

lemma wp_submit [wps]:
  "wp (submit f ev) Q E tr = (case f tr of Some e \<Rightarrow> E e (ev (Some e) # tr) | None \<Rightarrow> Q () (ev None # tr))"
  by (simp add: submit_def wps split: option.split)

lemmas client_defs = factoryNew_def NewWithToken_def NewWithInlineJWT_def

lemma wp_NewWithToken [wps]:
  "wp (NewWithToken env url token) Q E tr = (case xNew env tr url of
      Some e \<Rightarrow> E e (NewE url (Some e) # tr) | None \<Rightarrow> Q (WithToken url token) (NewE url None # tr))"
  by (simp add: client_defs wps split: option.split)

end
