(* ===== verification/Raft_Actions.thy ===== *)
theory Raft_Actions
  imports Raft_World
begin

text \<open>
  The upgrade executor (\<open>internal/service/upgrade/executor.go\<close> and \<open>internal/service/upgrade/raftops\<close>:
  \<open>leader_search.go\<close>, \<open>policy.go\<close>, \<open>leader_transfer.go\<close>, \<open>promote.go\<close>, \<open>actions.go\<close>), one definition per function, loops as
  recursion over the list they range over.  The polling of \<open>wait.PollUntilContextTimeout\<close> runs its condition at once and
  then at most once per interval that fits in the timeout.  Waiting for Green to catch up is the one loop without a bound of its own; it
  is a partial function, and \<open>None\<close> is a run that never returns.
\<close>

section \<open>Authentication\<close>

definition LoginJWTIfStandard :: "xenv \<Rightarrow> ExecutorConfig \<Rightarrow> string \<Rightarrow> string act" where
  "LoginJWTIfStandard env cfg baseURL = (case NormalizeJWTAuthStrategy (xcJWTAuthStrategy cfg) of
      Inl e \<Rightarrow> failwith e
    | Inr strategy \<Rightarrow> if strategy = ''inline'' then ret []
        else LoginJWT env baseURL (xcJWTAuthRole cfg) (xcJWTToken cfg))"

definition NewAuthenticatedClientWithToken :: "xenv \<Rightarrow> ExecutorConfig \<Rightarrow> string \<Rightarrow> string \<Rightarrow> BaoClient act" where
  "NewAuthenticatedClientWithToken env cfg baseURL standardToken = (case NormalizeJWTAuthStrategy (xcJWTAuthStrategy cfg) of
      Inl e \<Rightarrow> failwith e
    | Inr strategy \<Rightarrow>
        if strategy = ''inline'' then NewWithInlineJWT env baseURL (xcJWTAuthRole cfg) (xcJWTToken cfg)
        else bnd (if trim_space standardToken = []
                  then wrap_err (wrapf ''failed to authenticate'') (LoginJWT env baseURL (xcJWTAuthRole cfg) (xcJWTToken cfg))
                  else ret (trim_space standardToken)) (\<lambda>token.
             NewWithToken env baseURL token))"

definition NewAuthenticatedClient :: "xenv \<Rightarrow> ExecutorConfig \<Rightarrow> string \<Rightarrow> BaoClient act" where
  "NewAuthenticatedClient env cfg baseURL = NewAuthenticatedClientWithToken env cfg baseURL []"

section \<open>Leader search\<close>

fun scanPods :: "xenv \<Rightarrow> ExecutorConfig \<Rightarrow> string \<Rightarrow> int list \<Rightarrow> string option act" where
  "scanPods env cfg revision [] = ret None"
| "scanPods env cfg revision (i # ordinals) =
     (let url = PodURL cfg revision i
      in bnd (attempt (factoryNew env url)) (\<lambda>r. case r of
           Inl _ \<Rightarrow> scanPods env cfg revision ordinals
         | Inr client \<Rightarrow> bnd (attempt (clientIsLeader env client)) (\<lambda>r. case r of
             Inl _ \<Rightarrow> scanPods env cfg revision ordinals
           | Inr isLeader \<Rightarrow> if isLeader then ret (Some url) else scanPods env cfg revision ordinals)))"

definition FindLeaderInSingleScan :: "xenv \<Rightarrow> ExecutorConfig \<Rightarrow> string \<Rightarrow> string option act" where
  "FindLeaderInSingleScan env cfg revision =
     scanPods env cfg revision (ReplicaOrdinals
       (if revision = xcBlueRevision cfg then blueReplicaCount cfg else xcReplicas cfg))"

definition contextReason :: "go_error \<Rightarrow> string" where
  "contextReason ctxErr =
     (if ReasonCodeFromContextError ctxErr = [] then ''reason_context_canceled'' else ReasonCodeFromContextError ctxErr)"

fun leaderAttempts :: "xenv \<Rightarrow> ExecutorConfig \<Rightarrow> string \<Rightarrow> RetryPolicy \<Rightarrow> int list \<Rightarrow> string act" where
  "leaderAttempts env cfg revision policy [] =
     failwith (NewExecutorReasonedError ''reason_primary_leader_not_found''
       (''no leader found among '' @ int_str (xcReplicas cfg) @ '' pods'') None)"
| "leaderAttempts env cfg revision policy (_ # attempts) =
     bnd (FindLeaderInSingleScan env cfg revision) (\<lambda>found. case found of
         Some url \<Rightarrow> ret url
       | None \<Rightarrow>
           if rpAttemptInterval policy \<le> 0 then leaderAttempts env cfg revision policy attempts
           else bnd (pause env (rpAttemptInterval policy)) (\<lambda>p. case p of
               Some ctxErr \<Rightarrow> failwith (NewExecutorReasonedError (contextReason ctxErr)
                 ''context cancelled while finding leader'' (Some ctxErr))
             | None \<Rightarrow> leaderAttempts env cfg revision policy attempts))"

definition ResolveLeaderWithRetry :: "xenv \<Rightarrow> ExecutorConfig \<Rightarrow> string \<Rightarrow> RetryPolicy \<Rightarrow> string act" where
  "ResolveLeaderWithRetry env cfg revision policy0 =
     (let policy = NormalizeRetryPolicy policy0
      in leaderAttempts env cfg revision policy (AttemptOrdinals (rpMaxAttempts policy)))"

definition FindLeader :: "xenv \<Rightarrow> ExecutorConfig \<Rightarrow> string \<Rightarrow> string act" where
  "FindLeader env cfg revision = ResolveLeaderWithRetry env cfg revision
     \<lparr> rpMaxAttempts = 10, rpAttemptInterval = seconds 2, rpElectionWait = 0 \<rparr>"

definition FindLeaderOnce :: "xenv \<Rightarrow> ExecutorConfig \<Rightarrow> string \<Rightarrow> string option act" where
  "FindLeaderOnce env cfg revision =
     bnd (attempt (ResolveLeaderWithRetry env cfg revision
       \<lparr> rpMaxAttempts = 1, rpAttemptInterval = 0, rpElectionWait = 0 \<rparr>)) (\<lambda>r.
     case r of Inl _ \<Rightarrow> ret None | Inr leaderURL \<Rightarrow> ret (Some leaderURL))"

text \<open>\<open>ResolveLeaderWithPolicyUsing\<close>: one revision, then the other if the policy allows it.\<close>

definition noteContextError :: "go_error \<Rightarrow> LeaderSearchOutcome \<Rightarrow> LeaderSearchOutcome" where
  "noteContextError err outcome =
     (let reasonCode = ReasonCodeFromContextError err
      in if reasonCode \<noteq> []
         then outcome\<lparr> loDecisionPath := DecisionPathFromReasonCode reasonCode, loReasonCode := reasonCode \<rparr> else outcome)"

definition ResolveLeaderWithPolicyUsing ::
    "LeaderSearchPolicy \<Rightarrow> (string \<Rightarrow> string act) \<Rightarrow> LeaderSearchOutcome act" where
  "ResolveLeaderWithPolicyUsing policy finder =
     (let outcome = \<lparr> loValue = [], loDecisionPath = ''primary_failed_no_fallback'',
            loReasonCode = ''reason_primary_leader_not_found'', loAttemptsUsed = 1, loPrimaryError = None,
            loFallbackError = None \<rparr>
      in bnd (attempt (finder (lpPrimaryRevision policy))) (\<lambda>r. case r of
           Inr primaryURL \<Rightarrow> ret (outcome\<lparr> loValue := primaryURL, loDecisionPath := ''primary_success'',
             loReasonCode := ''reason_primary_leader_found'' \<rparr>)
         | Inl primaryErr \<Rightarrow>
             let outcome = noteContextError primaryErr (outcome\<lparr> loPrimaryError := Some primaryErr \<rparr>)
             in if \<not> lpAllowFallback policy then ret outcome
                else bnd (attempt (finder (lpFallbackRevision policy))) (\<lambda>r. case r of
                    Inr fallbackURL \<Rightarrow> ret (outcome\<lparr> loAttemptsUsed := 2, loValue := fallbackURL,
                      loDecisionPath := ''primary_failed_fallback_success'', loReasonCode := ''reason_fallback_leader_found'' \<rparr>)
                  | Inl fallbackErr \<Rightarrow> ret (noteContextError fallbackErr (outcome\<lparr> loAttemptsUsed := 2,
                      loFallbackError := Some fallbackErr, loDecisionPath := ''primary_failed_fallback_failed'',
                      loReasonCode := ''reason_fallback_leader_not_found'' \<rparr>)))))"

definition FindLeaderWithPolicyUsing :: "LeaderSearchPolicy \<Rightarrow> (string \<Rightarrow> string act) \<Rightarrow> string act" where
  "FindLeaderWithPolicyUsing policy finder =
     bnd (ResolveLeaderWithPolicyUsing policy finder) (\<lambda>outcome.
     if loValue outcome \<noteq> [] then ret (loValue outcome)
     else if lpAllowFallback policy
     then failwith (NewExecutorReasonedError (loReasonCode outcome)
       (''failed to find leader (checked '' @ lpPrimaryLabel policy @ '' and '' @ lpFallbackLabel policy @ '')'')
       (loFallbackError outcome))
     else failwith (NewExecutorReasonedError (loReasonCode outcome)
       (''failed to find leader among '' @ lpPrimaryLabel policy @ '' pods'') (loPrimaryError outcome)))"

definition FindLeaderWithPolicy :: "xenv \<Rightarrow> ExecutorConfig \<Rightarrow> LeaderSearchPolicy \<Rightarrow> string act" where
  "FindLeaderWithPolicy env cfg policy = FindLeaderWithPolicyUsing policy (FindLeader env cfg)"

definition FindPreferredLeaderWithFallback ::
    "xenv \<Rightarrow> ExecutorConfig \<Rightarrow> string \<Rightarrow> string \<Rightarrow> string \<Rightarrow> string \<Rightarrow> string act" where
  "FindPreferredLeaderWithFallback env cfg preferredRevision fallbackRevision preferredLabel fallbackLabel =
     FindLeaderWithPolicy env cfg (NewLeaderSearchPolicy preferredRevision fallbackRevision preferredLabel fallbackLabel)"

definition FindPreferredLeaderForRevisions ::
    "xenv \<Rightarrow> ExecutorConfig \<Rightarrow> string \<Rightarrow> string \<Rightarrow> string \<Rightarrow> string \<Rightarrow> string act" where
  "FindPreferredLeaderForRevisions env cfg preferredRevision fallbackRevision preferredLabel fallbackLabel =
     FindLeaderWithPolicy env cfg
       (NewLeaderSearchPolicyForRevisions preferredRevision fallbackRevision preferredLabel fallbackLabel)"

definition FindAnyLeader :: "xenv \<Rightarrow> ExecutorConfig \<Rightarrow> string \<Rightarrow> string \<Rightarrow> string act" where
  "FindAnyLeader env cfg firstRevision secondRevision =
     FindPreferredLeaderForRevisions env cfg firstRevision secondRevision ''first'' ''second''"

definition FindInitialLeader :: "xenv \<Rightarrow> ExecutorConfig \<Rightarrow> string act" where
  "FindInitialLeader env cfg = wrap_err (wrapf ''failed to find initial leader'')
     (FindPreferredLeaderForRevisions env cfg (xcGreenRevision cfg) (xcBlueRevision cfg) ''Green'' ''Blue'')"

section \<open>Waiting for an election\<close>

fun pollTicks ::
    "xenv \<Rightarrow> nat \<Rightarrow> ('v \<Rightarrow> (bool \<times> 'v) act) \<Rightarrow> 'v \<Rightarrow> (go_error option \<times> 'v) act" where
  "pollTicks env 0 condition v = ret (Some (Sentinel ErrDeadlineExceeded), v)"
| "pollTicks env (Suc n) condition v =
     bnd (observe (xTick env) TickE) (\<lambda>t. case t of
         Some ctxErr \<Rightarrow> ret (Some ctxErr, v)
       | None \<Rightarrow> bnd (condition v) (\<lambda>(ok, v). if ok then ret (None, v) else pollTicks env n condition v))"

definition PollUntilContextTimeout ::
    "xenv \<Rightarrow> int \<Rightarrow> int \<Rightarrow> ('v \<Rightarrow> (bool \<times> 'v) act) \<Rightarrow> 'v \<Rightarrow> (go_error option \<times> 'v) act" where
  "PollUntilContextTimeout env interval timeout condition v =
     bnd (condition v) (\<lambda>(ok, v).
     if ok then ret (None, v) else pollTicks env (nat (timeout div interval)) condition v)"

definition observedNewLeader :: "string \<Rightarrow> LeaderElectionOutcome \<Rightarrow> LeaderElectionOutcome" where
  "observedNewLeader url outcome = outcome\<lparr> leValue := url,
     leDecisionPath := ''election_observed_new_leader'', leReasonCode := ''reason_election_new_leader_found'' \<rparr>"

definition electionCondition ::
    "ExecutorConfig \<Rightarrow> string \<Rightarrow> (string \<Rightarrow> string option act) \<Rightarrow> LeaderElectionOutcome \<times> string
      \<Rightarrow> (bool \<times> LeaderElectionOutcome \<times> string) act" where
  "electionCondition cfg previousLeaderURL finder v = (case v of (outcome, lastObserved) \<Rightarrow>
     bnd (finder (xcGreenRevision cfg)) (\<lambda>green. case green of
         Some url \<Rightarrow> ret (True, observedNewLeader url outcome, lastObserved)
       | None \<Rightarrow> bnd (finder (xcBlueRevision cfg)) (\<lambda>blue. case blue of
             Some url \<Rightarrow> if url \<noteq> previousLeaderURL then ret (True, observedNewLeader url outcome, lastObserved)
               else ret (False, outcome, url)
           | None \<Rightarrow> ret (False, outcome, lastObserved))))"

definition isErr :: "sentinel \<Rightarrow> go_error option \<Rightarrow> bool" where
  "isErr t err = (case err of None \<Rightarrow> False | Some e \<Rightarrow> errors_is t e)"

definition WaitForLeaderElectionWithFinderAndPolicy ::
    "xenv \<Rightarrow> ExecutorConfig \<Rightarrow> string \<Rightarrow> RetryPolicy \<Rightarrow> (string \<Rightarrow> string option act) \<Rightarrow> LeaderElectionOutcome act" where
  "WaitForLeaderElectionWithFinderAndPolicy env cfg previousLeaderURL policy0 finder =
     (let policy = NormalizeElectionRetryPolicy policy0;
          outcome = \<lparr> leValue = [], leDecisionPath = ''election_timeout'', leReasonCode = ''reason_election_timeout'',
            leWaitError = None \<rparr>
      in bnd (PollUntilContextTimeout env (rpAttemptInterval policy) (rpElectionWait policy)
           (electionCondition cfg previousLeaderURL finder) (outcome, [])) (\<lambda>(err, outcome, lastObserved).
         case err of None \<Rightarrow> ret outcome
         | Some err \<Rightarrow> bnd (gets (xCtxErr env)) (\<lambda>ctxErr.
             if errors_is ErrDeadlineExceeded err \<and> \<not> isErr ErrDeadlineExceeded ctxErr \<and> \<not> isErr ErrContextCanceled ctxErr
             then let outcome = (if trim_space lastObserved \<noteq> []
                    then outcome\<lparr> leValue := lastObserved, leDecisionPath := ''election_observed_same_leader'',
                      leReasonCode := ''reason_election_same_leader_seen'' \<rparr> else outcome)
                  in ret (outcome\<lparr> leWaitError := Some (NewExecutorReasonedError ''reason_election_timeout''
                       ''leader election did not converge within wait duration'' (Some err)) \<rparr>)
             else let reasonCode = ReasonCodeFromContextError err
                  in if reasonCode \<noteq> []
                     then ret (outcome\<lparr> leDecisionPath := DecisionPathFromReasonCode reasonCode, leReasonCode := reasonCode,
                       leWaitError := Some (NewExecutorReasonedError reasonCode ''leader election was interrupted'' (Some err)) \<rparr>)
                     else ret (outcome\<lparr> leWaitError := Some (NewExecutorReasonedError ''reason_election_timeout''
                       ''leader election did not converge within wait duration'' (Some err)) \<rparr>))))"

definition WaitForLeaderElectionOutcome :: "xenv \<Rightarrow> ExecutorConfig \<Rightarrow> string \<Rightarrow> LeaderElectionOutcome act" where
  "WaitForLeaderElectionOutcome env cfg previousLeaderURL =
     WaitForLeaderElectionWithFinderAndPolicy env cfg previousLeaderURL
       \<lparr> rpMaxAttempts = 0, rpAttemptInterval = 500000000, rpElectionWait = seconds 5 \<rparr> (FindLeaderOnce env cfg)"

definition reasonOr :: "string \<Rightarrow> go_error \<Rightarrow> string" where
  "reasonOr other err = (if ReasonCodeFromError err = [] then other else ReasonCodeFromError err)"

definition WaitForNewLeaderURLWithFuncs ::
    "xenv \<Rightarrow> ExecutorConfig \<Rightarrow> string \<Rightarrow> (string \<Rightarrow> LeaderElectionOutcome act) \<Rightarrow> (string \<Rightarrow> string \<Rightarrow> string act)
      \<Rightarrow> string act" where
  "WaitForNewLeaderURLWithFuncs env cfg previousLeaderURL waitFn fallbackFn =
     bnd (waitFn previousLeaderURL) (\<lambda>waitOutcome.
     bnd (gets (xCtxErr env)) (\<lambda>ctxErr. case ctxErr of
         Some ctxErr \<Rightarrow> failwith (NewExecutorReasonedError (contextReason ctxErr)
           ''failed while waiting for new leader election'' (Some ctxErr))
       | None \<Rightarrow>
           if leWaitError waitOutcome \<noteq> None \<and> \<not> isErr ErrDeadlineExceeded (leWaitError waitOutcome)
             \<and> \<not> isErr ErrContextCanceled (leWaitError waitOutcome)
           then failwith (NewExecutorReasonedError (reasonOr ''reason_election_timeout'' (the (leWaitError waitOutcome)))
             ''failed while waiting for new leader election'' (leWaitError waitOutcome))
           else if leDecisionPath waitOutcome = ''election_observed_new_leader'' \<and> trim_space (leValue waitOutcome) \<noteq> []
           then ret (leValue waitOutcome)
           else if leDecisionPath waitOutcome = ''election_observed_same_leader'' \<and> trim_space (leValue waitOutcome) \<noteq> []
           then ret (leValue waitOutcome)
           else bnd (attempt (fallbackFn (xcGreenRevision cfg) (xcBlueRevision cfg))) (\<lambda>r. case r of
               Inl findErr \<Rightarrow> failwith (NewExecutorReasonedError (reasonOr ''reason_fallback_leader_not_found'' findErr)
                 ''failed to find new leader after step-down'' (Some findErr))
             | Inr leaderURL \<Rightarrow> ret leaderURL)))"

definition WaitForNewLeaderURL :: "xenv \<Rightarrow> ExecutorConfig \<Rightarrow> string \<Rightarrow> string act" where
  "WaitForNewLeaderURL env cfg previousLeaderURL =
     WaitForNewLeaderURLWithFuncs env cfg previousLeaderURL (WaitForLeaderElectionOutcome env cfg) (FindAnyLeader env cfg)"

section \<open>Leadership transfer\<close>

definition blueServer :: "xenv \<Rightarrow> ExecutorConfig \<Rightarrow> RaftServerEntry \<Rightarrow> bool" where
  "blueServer env cfg server = RaftServerMatchesRevision (xHostname env) (rsNodeID server) (rsAddress server)
     (xcName cfg) (xcBlueRevision cfg) (blueReplicaCount cfg)"

definition greenServer :: "xenv \<Rightarrow> ExecutorConfig \<Rightarrow> RaftServerEntry \<Rightarrow> bool" where
  "greenServer env cfg server = RaftServerMatchesRevision (xHostname env) (rsNodeID server) (rsAddress server)
     (xcName cfg) (xcGreenRevision cfg) (xcReplicas cfg)"

definition demotableBlue :: "xenv \<Rightarrow> ExecutorConfig \<Rightarrow> string \<Rightarrow> RaftServerEntry \<Rightarrow> bool" where
  "demotableBlue env cfg bluePrefix server =
     (if xcBlueRevision cfg = [] \<and> bluePrefix \<noteq> [] \<and> bluePrefix \<noteq> xcName cfg @ ''--''
      then IsBlueRaftServer (rsNodeID server) (rsAddress server) bluePrefix
      else blueServer env cfg server)"

fun demoteBlueVoters :: "xenv \<Rightarrow> ExecutorConfig \<Rightarrow> BaoClient \<Rightarrow> string \<Rightarrow> string \<Rightarrow> RaftServerEntry list \<Rightarrow> unit act" where
  "demoteBlueVoters env cfg client leaderID bluePrefix [] = ret ()"
| "demoteBlueVoters env cfg client leaderID bluePrefix (server # servers) =
     (if \<not> rsVoter server \<or> rsNodeID server = leaderID then demoteBlueVoters env cfg client leaderID bluePrefix servers
      else if \<not> demotableBlue env cfg bluePrefix server then demoteBlueVoters env cfg client leaderID bluePrefix servers
      else bnd (attempt (DemoteRaftPeer env client (rsNodeID server))) (\<lambda>r. case r of
          Inr _ \<Rightarrow> demoteBlueVoters env cfg client leaderID bluePrefix servers
        | Inl err \<Rightarrow>
            if ClassifyDemoteError err = Fatal
            then failwith (NewExecutorReasonedError ''reason_demote_fatal''
              (''failed to demote Blue peer '' @ rsNodeID server @ '' before step-down'') (Some err))
            else demoteBlueVoters env cfg client leaderID bluePrefix servers))"

definition DemoteBlueVotersExceptLeader ::
    "xenv \<Rightarrow> ExecutorConfig \<Rightarrow> BaoClient \<Rightarrow> RaftConfiguration \<Rightarrow> string \<Rightarrow> string \<Rightarrow> unit act" where
  "DemoteBlueVotersExceptLeader env cfg client config leaderID bluePrefix =
     demoteBlueVoters env cfg client leaderID bluePrefix (rcServers config)"

definition StepDownLeader :: "xenv \<Rightarrow> BaoClient \<Rightarrow> (BenignErrorClassification \<times> go_error option) act" where
  "StepDownLeader env client =
     bnd (attempt (StepDown env client)) (\<lambda>r. case r of
         Inl err \<Rightarrow> ret (ClassifyStepDownError err, Some err)
       | Inr _ \<Rightarrow> ret (Benign, None))"

definition stateFailed :: "string \<Rightarrow> go_error \<Rightarrow> go_error" where
  "stateFailed state err = NewExecutorReasonedError ''reason_leader_transfer_state_failed''
     (''leader transfer state '' @ state @ '' failed'') (Some err)"

text \<open>
  One attempt of \<open>EnsureGreenLeaderBySteppingDownBlueWithFuncs\<close>, from the state \<open>ResolveCurrentLeader\<close> to
  \<open>ValidateGreenLeader\<close>: \<open>Inl client\<close> when the leader is not Blue, otherwise the address of the next leader.
\<close>

definition transferAttempt ::
    "xenv \<Rightarrow> ExecutorConfig \<Rightarrow> (string \<Rightarrow> BaoClient act) \<Rightarrow> (string \<Rightarrow> string act) \<Rightarrow> string \<Rightarrow> (BaoClient + string) act" where
  "transferAttempt env cfg resolveClient waitForLeader leaderURL =
     bnd (wrap_err (stateFailed ''ResolveCurrentLeader'') (resolveClient leaderURL)) (\<lambda>client.
     bnd (wrap_err (stateFailed ''InspectRaftConfig'') (ReadRaftConfiguration env client)) (\<lambda>config.
     case RaftLeaderInfoForRevision (xHostname env) config cfg of (leaderID, leaderIsBlue) \<Rightarrow>
     if leaderID = [] then failwith (stateFailed ''InspectRaftConfig'' (errorf ''raft leader not found in configuration''))
     else if \<not> leaderIsBlue then ret (Inl client)
     else bnd (wrap_err (stateFailed ''BiasElection'')
            (DemoteBlueVotersExceptLeader env cfg client config leaderID
              (xcName cfg @ ''-'' @ xcBlueRevision cfg @ ''-''))) (\<lambda>_.
          bnd (StepDownLeader env client) (\<lambda>(classification, err).
          if err \<noteq> None \<and> classification = Fatal
          then failwith (NewExecutorReasonedError ''reason_stepdown_fatal'' ''leader transfer state StepDown failed'' err)
          else bnd (wrap_err (stateFailed ''AwaitNewLeader'') (waitForLeader leaderURL)) (\<lambda>newLeaderURL.
               ret (Inr newLeaderURL))))))"

fun transferAttempts ::
    "xenv \<Rightarrow> ExecutorConfig \<Rightarrow> (string \<Rightarrow> BaoClient act) \<Rightarrow> (string \<Rightarrow> string act) \<Rightarrow> int list \<Rightarrow> string \<Rightarrow> BaoClient act" where
  "transferAttempts env cfg resolveClient waitForLeader [] leaderURL =
     failwith (NewExecutorReasonedError ''reason_leader_transfer_retries_exhausted''
       ''failed to transfer leadership to Green node'' None)"
| "transferAttempts env cfg resolveClient waitForLeader (_ # attempts) leaderURL =
     bnd (transferAttempt env cfg resolveClient waitForLeader leaderURL) (\<lambda>r. case r of
         Inl client \<Rightarrow> ret client
       | Inr newLeaderURL \<Rightarrow> transferAttempts env cfg resolveClient waitForLeader attempts newLeaderURL)"

definition EnsureGreenLeaderBySteppingDownBlueWithFuncs ::
    "xenv \<Rightarrow> ExecutorConfig \<Rightarrow> string \<Rightarrow> RetryPolicy \<Rightarrow> (string \<Rightarrow> BaoClient act) \<Rightarrow> (string \<Rightarrow> string act) \<Rightarrow> BaoClient act" where
  "EnsureGreenLeaderBySteppingDownBlueWithFuncs env cfg leaderURL policy0 resolveClient waitForLeader =
     (let policy = NormalizeLeaderTransferRetryPolicy policy0
      in transferAttempts env cfg resolveClient waitForLeader (AttemptOrdinals (rpMaxAttempts policy)) leaderURL)"

definition clientForLeaderURL :: "xenv \<Rightarrow> ExecutorConfig \<Rightarrow> string \<Rightarrow> BaoClient act" where
  "clientForLeaderURL env cfg leaderURL =
     wrap_err (wrapf ''failed to create OpenBao client'') (NewAuthenticatedClient env cfg leaderURL)"

definition EnsureGreenLeaderBySteppingDownBlue :: "xenv \<Rightarrow> ExecutorConfig \<Rightarrow> string \<Rightarrow> BaoClient act" where
  "EnsureGreenLeaderBySteppingDownBlue env cfg leaderURL =
     EnsureGreenLeaderBySteppingDownBlueWithFuncs env cfg leaderURL
       \<lparr> rpMaxAttempts = 10, rpAttemptInterval = 0, rpElectionWait = 0 \<rparr>
       (clientForLeaderURL env cfg) (WaitForNewLeaderURL env cfg)"

fun demoteBluePods :: "xenv \<Rightarrow> ExecutorConfig \<Rightarrow> BaoClient \<Rightarrow> int list \<Rightarrow> unit act" where
  "demoteBluePods env cfg client [] = ret ()"
| "demoteBluePods env cfg client (i # ordinals) =
     (let bluePodName = RevisionPodName (xcName cfg) (xcBlueRevision cfg) i
      in bnd (attempt (DemoteRaftPeer env client bluePodName)) (\<lambda>r. case r of
           Inr _ \<Rightarrow> demoteBluePods env cfg client ordinals
         | Inl err \<Rightarrow> if IsBenignDemoteError err then demoteBluePods env cfg client ordinals
             else failwith (wrapf (''failed to demote Blue pod '' @ bluePodName @ '' to non-voter'') err)))"

definition DemoteAllBluePods :: "xenv \<Rightarrow> ExecutorConfig \<Rightarrow> BaoClient \<Rightarrow> unit act" where
  "DemoteAllBluePods env cfg client = demoteBluePods env cfg client (ReplicaOrdinals (blueReplicaCount cfg))"

section \<open>Promotion with verification\<close>

definition raftServerIsVoter :: "xenv \<Rightarrow> BaoClient \<Rightarrow> string \<Rightarrow> bool act" where
  "raftServerIsVoter env client serverID =
     bnd (ReadRaftConfiguration env client) (\<lambda>config.
     case find (\<lambda>server. rsNodeID server = serverID) (rcServers config) of
       None \<Rightarrow> ret False
     | Some server \<Rightarrow> ret (rsVoter server))"

definition waitForPromoteVerifyInterval :: "xenv \<Rightarrow> int \<Rightarrow> go_error option act" where
  "waitForPromoteVerifyInterval env interval = (if interval \<le> 0 then ret None else pause env interval)"

fun voterAttempts ::
    "xenv \<Rightarrow> BaoClient \<Rightarrow> string \<Rightarrow> RetryPolicy \<Rightarrow> int list \<Rightarrow> go_error option \<Rightarrow> bool \<Rightarrow> bool act" where
  "voterAttempts env client serverID policy [] lastErr lastReadFailed =
     (case lastErr of Some e \<Rightarrow> if lastReadFailed then failwith e else ret False | None \<Rightarrow> ret False)"
| "voterAttempts env client serverID policy (att # attempts) lastErr lastReadFailed =
     bnd (attempt (raftServerIsVoter env client serverID)) (\<lambda>r.
     if r = Inr True then ret True
     else let lastErr = (case r of Inl err \<Rightarrow> Some err | Inr _ \<Rightarrow> lastErr);
              lastReadFailed = (case r of Inl _ \<Rightarrow> True | Inr _ \<Rightarrow> False)
          in if att = rpMaxAttempts policy - 1 \<or> rpAttemptInterval policy \<le> 0
             then voterAttempts env client serverID policy attempts lastErr lastReadFailed
             else bnd (waitForPromoteVerifyInterval env (rpAttemptInterval policy)) (\<lambda>w. case w of
                 Some waitErr \<Rightarrow> failwith (if lastErr \<noteq> None then wrapf ''last read failed'' waitErr else waitErr)
               | None \<Rightarrow> voterAttempts env client serverID policy attempts lastErr lastReadFailed))"

definition waitForRaftServerVoter :: "xenv \<Rightarrow> BaoClient \<Rightarrow> string \<Rightarrow> RetryPolicy \<Rightarrow> bool act" where
  "waitForRaftServerVoter env client serverID policy0 =
     (let policy = NormalizeRetryPolicy policy0
      in voterAttempts env client serverID policy (AttemptOrdinals (rpMaxAttempts policy)) None False)"

definition promoteRaftPeerAndVerifyWithPolicy :: "xenv \<Rightarrow> BaoClient \<Rightarrow> string \<Rightarrow> RetryPolicy \<Rightarrow> bool act" where
  "promoteRaftPeerAndVerifyWithPolicy env client serverID policy =
     bnd (attempt (PromoteRaftPeer env client serverID)) (\<lambda>p.
     bnd (attempt (waitForRaftServerVoter env client serverID policy)) (\<lambda>v. case (p, v) of
         (Inl promoteErr, Inr True) \<Rightarrow> ret True
       | (Inr _, Inr True) \<Rightarrow> ret False
       | (Inl promoteErr, Inl verifyErr) \<Rightarrow> failwith (wrapf ''failed to verify raft voter state after promote error'' promoteErr)
       | (Inl promoteErr, Inr False) \<Rightarrow> failwith promoteErr
       | (Inr _, Inl verifyErr) \<Rightarrow> failwith (wrapf ''failed to verify raft voter state after promote request'' verifyErr)
       | (Inr _, Inr False) \<Rightarrow> failwith (errorf (''raft server '' @ serverID @ '' did not become a voter after promote request''))))"

definition promoteVerifyPolicy :: RetryPolicy where
  "promoteVerifyPolicy = \<lparr> rpMaxAttempts = 60, rpAttemptInterval = seconds 1, rpElectionWait = 0 \<rparr>"

definition promoteRaftPeerAndVerify :: "xenv \<Rightarrow> BaoClient \<Rightarrow> string \<Rightarrow> bool act" where
  "promoteRaftPeerAndVerify env client serverID =
     promoteRaftPeerAndVerifyWithPolicy env client serverID promoteVerifyPolicy"

section \<open>Actions\<close>

fun stepDownAttempts ::
    "xenv \<Rightarrow> ExecutorConfig \<Rightarrow> (string \<Rightarrow> string act) \<Rightarrow> (string \<Rightarrow> BaoClient act) \<Rightarrow> (string \<Rightarrow> string act)
      \<Rightarrow> int list \<Rightarrow> unit act" where
  "stepDownAttempts env cfg findLeader resolveClient waitForLeader [] =
     failwith (errorf ''leader step-down did not transfer leadership'')"
| "stepDownAttempts env cfg findLeader resolveClient waitForLeader (_ # attempts) =
     bnd (wrap_err (wrapf ''failed to find leader'') (findLeader (xcBlueRevision cfg))) (\<lambda>leaderURL.
     bnd (resolveClient leaderURL) (\<lambda>client.
     bnd (StepDownLeader env client) (\<lambda>(classification, err). case err of
         Some err \<Rightarrow> if classification = Fatal then failwith (wrapf ''failed to step down leader'' err)
           else stepDownAttempts env cfg findLeader resolveClient waitForLeader attempts
       | None \<Rightarrow>
           bnd (wrap_err (wrapf ''failed to wait for a new leader after step-down'') (waitForLeader leaderURL)) (\<lambda>nextLeaderURL.
           if trim_space nextLeaderURL = [] then stepDownAttempts env cfg findLeader resolveClient waitForLeader attempts
           else if nextLeaderURL = leaderURL then stepDownAttempts env cfg findLeader resolveClient waitForLeader attempts
           else ret ()))))"

definition runRollingStepDownLeaderWithFuncs ::
    "xenv \<Rightarrow> ExecutorConfig \<Rightarrow> RetryPolicy \<Rightarrow> (string \<Rightarrow> string act) \<Rightarrow> (string \<Rightarrow> BaoClient act) \<Rightarrow> (string \<Rightarrow> string act)
      \<Rightarrow> unit act" where
  "runRollingStepDownLeaderWithFuncs env cfg policy0 findLeader resolveClient waitForLeader =
     (let policy = NormalizeLeaderTransferRetryPolicy policy0
      in stepDownAttempts env cfg findLeader resolveClient waitForLeader (AttemptOrdinals (rpMaxAttempts policy)))"

definition RunRollingStepDownLeader :: "xenv \<Rightarrow> ExecutorConfig \<Rightarrow> unit act" where
  "RunRollingStepDownLeader env cfg = runRollingStepDownLeaderWithFuncs env cfg
     \<lparr> rpMaxAttempts = 10, rpAttemptInterval = 0, rpElectionWait = 0 \<rparr>
     (FindLeader env cfg) (clientForLeaderURL env cfg) (WaitForNewLeaderURL env cfg)"

fun joinGreenPods :: "xenv \<Rightarrow> ExecutorConfig \<Rightarrow> string \<Rightarrow> string \<Rightarrow> int list \<Rightarrow> unit act" where
  "joinGreenPods env cfg blueLeaderURL token [] = ret ()"
| "joinGreenPods env cfg blueLeaderURL token (i # ordinals) =
     (let greenPodURL = PodURL cfg (xcGreenRevision cfg) i
      in bnd (wrap_err (wrapf (''failed to create client for Green pod '' @ greenPodURL))
           (NewAuthenticatedClientWithToken env cfg greenPodURL token)) (\<lambda>client.
         bnd (attempt (JoinRaftCluster env client blueLeaderURL True True)) (\<lambda>r. case r of
           Inr _ \<Rightarrow> joinGreenPods env cfg blueLeaderURL token ordinals
         | Inl err \<Rightarrow> if ClassifyJoinError err = Benign then joinGreenPods env cfg blueLeaderURL token ordinals
             else failwith (wrapf (''failed to join Green pod '' @ greenPodURL @ '' as non-voter'') err))))"

definition findBlueLeader :: "xenv \<Rightarrow> ExecutorConfig \<Rightarrow> string act" where
  "findBlueLeader env cfg = wrap_err (wrapf ''failed to find Blue leader'') (FindLeader env cfg (xcBlueRevision cfg))"

definition RunBlueGreenJoinGreenNonVoters :: "xenv \<Rightarrow> ExecutorConfig \<Rightarrow> unit act" where
  "RunBlueGreenJoinGreenNonVoters env cfg =
     bnd (findBlueLeader env cfg) (\<lambda>blueLeaderURL.
     bnd (wrap_err (wrapf ''failed to authenticate'') (LoginJWTIfStandard env cfg blueLeaderURL)) (\<lambda>token.
     joinGreenPods env cfg blueLeaderURL token (ReplicaOrdinals (xcReplicas cfg))))"

definition greenSynced :: "ExecutorConfig \<Rightarrow> AutopilotState \<Rightarrow> bool" where
  "greenSynced cfg state =
     (let targetIndex = (case RaftAutopilotLeaderLastIndex state of
            Some i \<Rightarrow> i | None \<Rightarrow> RaftAutopilotMaxLastIndex state)
      in geAllSynced (EvaluateGreenSyncFromAutopilot cfg state targetIndex))"

partial_function (option) awaitGreenSync ::
    "xenv \<Rightarrow> ExecutorConfig \<Rightarrow> BaoClient \<Rightarrow> raftTrace \<Rightarrow> ((go_error + unit) \<times> raftTrace) option" where
  "awaitGreenSync env cfg client tr = (case ReadRaftAutopilotState env client tr of
      (Inl err, tr) \<Rightarrow> Some (Inl (wrapf ''failed to read raft autopilot state'' err), tr)
    | (Inr state, tr) \<Rightarrow>
        if greenSynced cfg state then Some (Inr (), tr)
        else (case pause env (seconds 2) tr of
            (Inl err, tr) \<Rightarrow> Some (Inl err, tr)
          | (Inr (Some ctxErr), tr) \<Rightarrow> Some (Inl (wrapf ''timed out waiting for Green sync'' ctxErr), tr)
          | (Inr None, tr) \<Rightarrow> awaitGreenSync env cfg client tr))"

text \<open>
  \<open>RunBlueGreenWaitGreenSynced\<close> up to its loop: \<open>None\<close> when autopilot is not available and every Green Pod is in the
  Raft configuration, the client to poll with otherwise.
\<close>

definition prepareGreenSync :: "xenv \<Rightarrow> ExecutorConfig \<Rightarrow> BaoClient option act" where
  "prepareGreenSync env cfg =
     bnd (findBlueLeader env cfg) (\<lambda>blueLeaderURL.
     bnd (clientForLeaderURL env cfg blueLeaderURL) (\<lambda>client.
     bnd (attempt (ReadRaftAutopilotState env client)) (\<lambda>r. case r of
         Inr _ \<Rightarrow> ret (Some client)
       | Inl err \<Rightarrow>
           if \<not> errors_is ErrAutopilotNotAvailable err then failwith (wrapf ''failed to read raft autopilot state'' err)
           else bnd (wrap_err (wrapf ''failed to read Raft configuration'') (ReadRaftConfiguration env client)) (\<lambda>config.
             if CountMissingGreenServers cfg config > 0
             then failwith (errorf ''green pods are missing from raft configuration'')
             else ret None))))"

definition RunBlueGreenWaitGreenSynced ::
    "xenv \<Rightarrow> ExecutorConfig \<Rightarrow> raftTrace \<Rightarrow> ((go_error + unit) \<times> raftTrace) option" where
  "RunBlueGreenWaitGreenSynced env cfg tr = (case prepareGreenSync env cfg tr of
      (Inl err, tr) \<Rightarrow> Some (Inl err, tr)
    | (Inr None, tr) \<Rightarrow> Some (Inr (), tr)
    | (Inr (Some client), tr) \<Rightarrow> awaitGreenSync env cfg client tr)"

fun promoteBluePeers :: "xenv \<Rightarrow> ExecutorConfig \<Rightarrow> BaoClient \<Rightarrow> RetryPolicy \<Rightarrow> RaftServerEntry list \<Rightarrow> unit act" where
  "promoteBluePeers env cfg client policy [] = ret ()"
| "promoteBluePeers env cfg client policy (server # servers) =
     (if \<not> blueServer env cfg server \<or> rsVoter server then promoteBluePeers env cfg client policy servers
      else bnd (wrap_err (wrapf (''failed to promote Blue peer '' @ rsNodeID server @ '' to voter during consensus repair''))
             (promoteRaftPeerAndVerifyWithPolicy env client (rsNodeID server) policy)) (\<lambda>_.
           promoteBluePeers env cfg client policy servers))"

fun demoteGreenPeers :: "xenv \<Rightarrow> ExecutorConfig \<Rightarrow> BaoClient \<Rightarrow> RaftServerEntry list \<Rightarrow> unit act" where
  "demoteGreenPeers env cfg client [] = ret ()"
| "demoteGreenPeers env cfg client (server # servers) =
     (if \<not> greenServer env cfg server \<or> \<not> rsVoter server then demoteGreenPeers env cfg client servers
      else bnd (attempt (DemoteRaftPeer env client (rsNodeID server))) (\<lambda>r. case r of
          Inr _ \<Rightarrow> demoteGreenPeers env cfg client servers
        | Inl err \<Rightarrow> if IsBenignDemoteError err then demoteGreenPeers env cfg client servers
            else failwith (wrapf (''failed to demote Green peer '' @ rsNodeID server @ '' to non-voter during consensus repair'') err)))"

definition bluePeers :: "xenv \<Rightarrow> ExecutorConfig \<Rightarrow> RaftConfiguration \<Rightarrow> int" where
  "bluePeers env cfg config = int (length (filter (blueServer env cfg) (rcServers config)))"

definition repairBlueGreenConsensus :: "xenv \<Rightarrow> ExecutorConfig \<Rightarrow> BaoClient \<Rightarrow> RetryPolicy \<Rightarrow> unit act" where
  "repairBlueGreenConsensus env cfg client promotePolicy =
     bnd (wrap_err (wrapf ''failed to read Raft configuration for consensus repair'') (ReadRaftConfiguration env client)) (\<lambda>config.
     if bluePeers env cfg config < raftQuorum (blueReplicaCount cfg)
     then failwith (errorf ''refusing consensus repair: too few Blue peers remain in the Raft configuration'')
     else bnd (promoteBluePeers env cfg client promotePolicy (rcServers config)) (\<lambda>_.
          demoteGreenPeers env cfg client (rcServers config)))"

definition RunBlueGreenRepairConsensus :: "xenv \<Rightarrow> ExecutorConfig \<Rightarrow> unit act" where
  "RunBlueGreenRepairConsensus env cfg =
     (if xcGreenRevision cfg = [] then failwith (errorf ''green revision is required for consensus repair'')
      else bnd (wrap_err (wrapf ''failed to find leader for consensus repair'')
             (FindPreferredLeaderWithFallback env cfg (xcBlueRevision cfg) (xcGreenRevision cfg) ''Blue'' ''Green'')) (\<lambda>leaderURL.
           bnd (wrap_err (wrapf ''failed to create OpenBao client for consensus repair'')
             (NewAuthenticatedClient env cfg leaderURL)) (\<lambda>client.
           repairBlueGreenConsensus env cfg client promoteVerifyPolicy)))"

definition voterStatus :: "RaftConfiguration \<Rightarrow> string \<Rightarrow> bool option" where
  "voterStatus config = fold (\<lambda>server m. m(rsNodeID server \<mapsto> rsVoter server)) (rcServers config) Map.empty"

fun promoteGreenPods :: "xenv \<Rightarrow> ExecutorConfig \<Rightarrow> BaoClient \<Rightarrow> RaftConfiguration \<Rightarrow> int list \<Rightarrow> unit act" where
  "promoteGreenPods env cfg client config [] = ret ()"
| "promoteGreenPods env cfg client config (i # ordinals) =
     (let greenPodName = RevisionPodName (xcName cfg) (xcGreenRevision cfg) i
      in if voterStatus config greenPodName = Some True then promoteGreenPods env cfg client config ordinals
         else bnd (wrap_err (wrapf (''failed to promote Green pod '' @ greenPodName @ '' to voter''))
                (promoteRaftPeerAndVerify env client greenPodName)) (\<lambda>_.
              promoteGreenPods env cfg client config ordinals))"

definition RunBlueGreenPromoteGreenVoters :: "xenv \<Rightarrow> ExecutorConfig \<Rightarrow> unit act" where
  "RunBlueGreenPromoteGreenVoters env cfg =
     bnd (findBlueLeader env cfg) (\<lambda>blueLeaderURL.
     bnd (clientForLeaderURL env cfg blueLeaderURL) (\<lambda>client.
     bnd (wrap_err (wrapf ''failed to read Raft configuration'') (ReadRaftConfiguration env client)) (\<lambda>config.
     promoteGreenPods env cfg client config (ReplicaOrdinals (xcReplicas cfg)))))"

definition RunBlueGreenDemoteBlueNonVotersStepDown :: "xenv \<Rightarrow> ExecutorConfig \<Rightarrow> unit act" where
  "RunBlueGreenDemoteBlueNonVotersStepDown env cfg =
     bnd (FindInitialLeader env cfg) (\<lambda>leaderURL.
     bnd (EnsureGreenLeaderBySteppingDownBlue env cfg leaderURL) (\<lambda>client.
     DemoteAllBluePods env cfg client))"

definition removable :: "xenv \<Rightarrow> ExecutorConfig \<Rightarrow> string \<Rightarrow> RaftServerEntry \<Rightarrow> bool" where
  "removable env cfg revisionToRemove server =
     (let replicas = (if revisionToRemove = xcBlueRevision cfg then blueReplicaCount cfg else xcReplicas cfg)
      in RaftServerMatchesRevision (xHostname env) (rsNodeID server) (rsAddress server) (xcName cfg) revisionToRemove replicas)"

fun removePeers :: "xenv \<Rightarrow> ExecutorConfig \<Rightarrow> string \<Rightarrow> BaoClient \<Rightarrow> RaftServerEntry list \<Rightarrow> unit act" where
  "removePeers env cfg revisionToRemove client [] = ret ()"
| "removePeers env cfg revisionToRemove client (server # servers) =
     (if \<not> removable env cfg revisionToRemove server then removePeers env cfg revisionToRemove client servers
      else bnd (wrap_err (wrapf (''failed to remove Raft peer '' @ rsNodeID server))
             (RemoveRaftPeer env client (rsNodeID server))) (\<lambda>_.
           removePeers env cfg revisionToRemove client servers))"

definition RunBlueGreenRemovePeers :: "xenv \<Rightarrow> ExecutorConfig \<Rightarrow> string \<Rightarrow> string \<Rightarrow> string \<Rightarrow> unit act" where
  "RunBlueGreenRemovePeers env cfg revisionToRemove preferredLeaderRevision fallbackLeaderRevision =
     bnd (wrap_err (wrapf ''failed to find leader'') (FindPreferredLeaderForRevisions env cfg
       preferredLeaderRevision fallbackLeaderRevision ''preferred'' ''fallback'')) (\<lambda>leaderURL.
     bnd (clientForLeaderURL env cfg leaderURL) (\<lambda>client.
     bnd (wrap_err (wrapf ''failed to read Raft configuration'') (ReadRaftConfiguration env client)) (\<lambda>config.
     removePeers env cfg revisionToRemove client (rcServers config))))"

definition RunBlueGreenRemoveBluePeers :: "xenv \<Rightarrow> ExecutorConfig \<Rightarrow> unit act" where
  "RunBlueGreenRemoveBluePeers env cfg =
     RunBlueGreenRemovePeers env cfg (xcBlueRevision cfg) (xcGreenRevision cfg) (xcBlueRevision cfg)"

definition RunBlueGreenRemoveGreenPeers :: "xenv \<Rightarrow> ExecutorConfig \<Rightarrow> unit act" where
  "RunBlueGreenRemoveGreenPeers env cfg =
     RunBlueGreenRemovePeers env cfg (xcGreenRevision cfg) (xcBlueRevision cfg) (xcGreenRevision cfg)"

section \<open>The executor\<close>

definition RunExecutor :: "xenv \<Rightarrow> ExecutorConfig \<Rightarrow> raftTrace \<Rightarrow> ((go_error + unit) \<times> raftTrace) option" where
  "RunExecutor env cfg tr =
     (if xcAction cfg = actionString ActionJoinGreenNonVoters then Some (RunBlueGreenJoinGreenNonVoters env cfg tr)
      else if xcAction cfg = actionString ActionWaitGreenSynced then RunBlueGreenWaitGreenSynced env cfg tr
      else if xcAction cfg = actionString ActionPromoteGreenVoters then Some (RunBlueGreenPromoteGreenVoters env cfg tr)
      else if xcAction cfg = actionString ActionDemoteBlueNonVotersStepDown
      then Some (RunBlueGreenDemoteBlueNonVotersStepDown env cfg tr)
      else if xcAction cfg = actionString ActionRemoveBluePeers then Some (RunBlueGreenRemoveBluePeers env cfg tr)
      else if xcAction cfg = actionString ActionRemoveGreenPeers then Some (RunBlueGreenRemoveGreenPeers env cfg tr)
      else if xcAction cfg = actionString ActionRepairConsensus then Some (RunBlueGreenRepairConsensus env cfg tr)
      else if xcAction cfg = actionString ActionRollingStepDownLeader then Some (RunRollingStepDownLeader env cfg tr)
      else Some (Inl (errorf ''unsupported action''), tr))"

end
