(* ===== verification/Raft_Safety.thy ===== *)
theory Raft_Safety
  imports Raft_Actions
begin

text \<open>
  What the trace of an executor run proves about the cluster, and the rules the actions follow.  A rule
  says, for every change of the Raft membership, what the executor must have observed before it asks for the
  change.  The search for the leader is an interface (\<open>leader_finder\<close>): the functions of \<open>policy.go\<close>, \<open>leader_transfer.go\<close>
  and \<open>actions.go\<close> that take a finder rely on no more than that it only searches and that the address it returns answered
  that it leads.
\<close>

section \<open>Evidence\<close>

definition leadsIn :: "string \<Rightarrow> raftTrace \<Rightarrow> bool" where
  "leadsIn url tr \<longleftrightarrow> LeaderE url (Inr True) \<in> set tr"

text \<open>The same, after the trace was \<open>s\<close>.\<close>

definition leadsSince :: "raftTrace \<Rightarrow> string \<Rightarrow> raftTrace \<Rightarrow> bool" where
  "leadsSince s url tr \<longleftrightarrow> (\<exists>new. tr = new @ s \<and> LeaderE url (Inr True) \<in> set new)"

fun lastConfig :: "raftTrace \<Rightarrow> (BaoClient \<times> RaftConfiguration) option" where
  "lastConfig [] = None"
| "lastConfig (ConfigE c (Inr config) # tr) = Some (c, config)"
| "lastConfig (_ # tr) = lastConfig tr"

definition readBy :: "BaoClient \<Rightarrow> RaftConfiguration \<Rightarrow> raftTrace \<Rightarrow> bool" where
  "readBy c config tr \<longleftrightarrow> ConfigE c (Inr config) \<in> set tr"

definition voterIn :: "RaftConfiguration \<Rightarrow> string \<Rightarrow> bool" where
  "voterIn config serverID \<longleftrightarrow> (\<exists>server \<in> set (rcServers config). rsNodeID server = serverID \<and> rsVoter server)"

definition seenVoter :: "BaoClient \<Rightarrow> string \<Rightarrow> raftTrace \<Rightarrow> bool" where
  "seenVoter c serverID tr \<longleftrightarrow> (\<exists>config. readBy c config tr \<and> voterIn config serverID)"

fun isStepDown :: "raftEvent \<Rightarrow> bool" where
  "isStepDown (StepDownE _ _) = True"
| "isStepDown _ = False"

definition stepDowns :: "raftTrace \<Rightarrow> nat" where
  "stepDowns tr = length (filter isStepDown tr)"

abbreviation greenPod :: "ExecutorConfig \<Rightarrow> int \<Rightarrow> string" where
  "greenPod cfg i \<equiv> RevisionPodName (xcName cfg) (xcGreenRevision cfg) i"

abbreviation bluePod :: "ExecutorConfig \<Rightarrow> int \<Rightarrow> string" where
  "bluePod cfg i \<equiv> RevisionPodName (xcName cfg) (xcBlueRevision cfg) i"

definition leaderIs :: "RaftConfiguration \<Rightarrow> RaftServerEntry \<Rightarrow> bool" where
  "leaderIs config server \<longleftrightarrow> find rsLeader (rcServers config) = Some server \<and> rsNodeID server \<noteq> []"

definition blueQuorum :: "xenv \<Rightarrow> ExecutorConfig \<Rightarrow> RaftConfiguration \<Rightarrow> bool" where
  "blueQuorum env cfg config \<longleftrightarrow> raftQuorum (blueReplicaCount cfg) \<le> bluePeers env cfg config"

text \<open>Every Blue peer of the configuration is a voter, there or in a configuration read from the same node.\<close>

definition blueVoters :: "xenv \<Rightarrow> ExecutorConfig \<Rightarrow> BaoClient \<Rightarrow> RaftConfiguration \<Rightarrow> raftTrace \<Rightarrow> bool" where
  "blueVoters env cfg c config tr \<longleftrightarrow>
     (\<forall>server \<in> set (rcServers config). blueServer env cfg server \<longrightarrow> seenVoter c (rsNodeID server) tr)"

section \<open>Rules\<close>

fun joinRule :: "ExecutorConfig \<Rightarrow> raftEvent \<Rightarrow> raftTrace \<Rightarrow> bool" where
  "joinRule cfg (JoinE c leader retry nonVoter _) tr \<longleftrightarrow>
     nonVoter \<and> leadsIn leader tr \<and> (\<exists>i. 0 \<le> i \<and> i < xcReplicas cfg \<and> clientURL c = PodURL cfg (xcGreenRevision cfg) i)"
| "joinRule cfg _ tr \<longleftrightarrow> False"

fun promoteRule :: "ExecutorConfig \<Rightarrow> raftEvent \<Rightarrow> raftTrace \<Rightarrow> bool" where
  "promoteRule cfg (PromoteE c serverID _) tr \<longleftrightarrow>
     leadsIn (clientURL c) tr \<and> (\<exists>i. 0 \<le> i \<and> i < xcReplicas cfg \<and> serverID = greenPod cfg i)"
| "promoteRule cfg _ tr \<longleftrightarrow> False"

text \<open>
  Handing over: demotions are aimed at Blue peers, never at the leader of the last configuration that was read, and only
  a Blue leader is asked to step down, at most ten times.
\<close>

fun transferRule :: "xenv \<Rightarrow> ExecutorConfig \<Rightarrow> raftEvent \<Rightarrow> raftTrace \<Rightarrow> bool" where
  "transferRule env cfg (DemoteE c serverID _) tr \<longleftrightarrow>
     leadsIn (clientURL c) tr \<and> (\<exists>config leader. lastConfig tr = Some (c, config) \<and> leaderIs config leader
       \<and> rsNodeID leader \<noteq> serverID
       \<and> ((\<exists>server \<in> set (rcServers config). rsNodeID server = serverID \<and> rsVoter server \<and> blueServer env cfg server)
          \<or> (\<not> blueServer env cfg leader \<and> (\<exists>i. 0 \<le> i \<and> i < blueReplicaCount cfg \<and> serverID = bluePod cfg i))))"
| "transferRule env cfg (StepDownE c _) tr \<longleftrightarrow>
     leadsIn (clientURL c) tr \<and> stepDowns tr < 10
       \<and> (\<exists>config leader. lastConfig tr = Some (c, config) \<and> leaderIs config leader \<and> blueServer env cfg leader)"
| "transferRule env cfg _ tr \<longleftrightarrow> False"

fun removeRule :: "xenv \<Rightarrow> ExecutorConfig \<Rightarrow> string \<Rightarrow> raftEvent \<Rightarrow> raftTrace \<Rightarrow> bool" where
  "removeRule env cfg revision (RemoveE c serverID _) tr \<longleftrightarrow>
     leadsIn (clientURL c) tr \<and> (\<exists>config. lastConfig tr = Some (c, config)
       \<and> (\<exists>server \<in> set (rcServers config). rsNodeID server = serverID \<and> removable env cfg revision server))"
| "removeRule env cfg revision _ tr \<longleftrightarrow> False"

text \<open>
  Repairing: nothing is changed unless the configuration read first has a quorum of Blue peers; only Blue non-voters are
  promoted, and only Green voters are demoted, once every Blue peer has been seen as a voter.
\<close>

fun repairRule :: "xenv \<Rightarrow> ExecutorConfig \<Rightarrow> raftEvent \<Rightarrow> raftTrace \<Rightarrow> bool" where
  "repairRule env cfg (PromoteE c serverID _) tr \<longleftrightarrow>
     leadsIn (clientURL c) tr \<and> (\<exists>config. readBy c config tr \<and> blueQuorum env cfg config
       \<and> (\<exists>server \<in> set (rcServers config). rsNodeID server = serverID \<and> \<not> rsVoter server \<and> blueServer env cfg server))"
| "repairRule env cfg (DemoteE c serverID _) tr \<longleftrightarrow>
     leadsIn (clientURL c) tr \<and> (\<exists>config. readBy c config tr \<and> blueQuorum env cfg config \<and> blueVoters env cfg c config tr
       \<and> (\<exists>server \<in> set (rcServers config). rsNodeID server = serverID \<and> rsVoter server \<and> greenServer env cfg server))"
| "repairRule env cfg _ tr \<longleftrightarrow> False"

fun stepDownRule :: "raftEvent \<Rightarrow> raftTrace \<Rightarrow> bool" where
  "stepDownRule (StepDownE c _) tr \<longleftrightarrow> leadsIn (clientURL c) tr \<and> stepDowns tr < 10"
| "stepDownRule _ tr \<longleftrightarrow> False"

fun membershipRule :: "xenv \<Rightarrow> ExecutorConfig \<Rightarrow> ExecutorAction \<Rightarrow> raftEvent \<Rightarrow> raftTrace \<Rightarrow> bool" where
  "membershipRule env cfg ActionJoinGreenNonVoters = joinRule cfg"
| "membershipRule env cfg ActionWaitGreenSynced = (\<lambda>_ _. False)"
| "membershipRule env cfg ActionPromoteGreenVoters = promoteRule cfg"
| "membershipRule env cfg ActionDemoteBlueNonVotersStepDown = transferRule env cfg"
| "membershipRule env cfg ActionRemoveBluePeers = removeRule env cfg (xcBlueRevision cfg)"
| "membershipRule env cfg ActionRemoveGreenPeers = removeRule env cfg (xcGreenRevision cfg)"
| "membershipRule env cfg ActionRepairConsensus = repairRule env cfg"
| "membershipRule env cfg ActionRollingStepDownLeader = stepDownRule"

definition follows :: "(raftEvent \<Rightarrow> raftTrace \<Rightarrow> bool) \<Rightarrow> raftTrace \<Rightarrow> bool" where
  "follows R tr \<longleftrightarrow> extends (\<lambda>e tr. changes e \<longrightarrow> R e tr) [] tr"

section \<open>Stability\<close>

text \<open>A property of traces is stable when a search does not destroy it.\<close>

definition stable :: "(raftTrace \<Rightarrow> bool) \<Rightarrow> bool" where
  "stable F \<longleftrightarrow> (\<forall>e tr. searches e \<longrightarrow> F tr \<longrightarrow> F (e # tr))"

named_theorems stability \<open>properties that a search keeps\<close>

lemma stableD:
  assumes "stable F" "searching s t" "F s" shows "F t"
  using assms(2,1,3) by (induction rule: extends.induct) (auto simp: stable_def)

lemma searching_extends: "searching s t \<Longrightarrow> (\<And>e tr. searches e \<Longrightarrow> P e tr) \<Longrightarrow> extends P s t"
  by (erule extends_mono)

lemma stable_conj [stability]: "stable F \<Longrightarrow> stable G \<Longrightarrow> stable (\<lambda>t. F t \<and> G t)"
  by (auto simp: stable_def)

lemma stable_const [stability]: "stable (\<lambda>_. b)"
  by (simp add: stable_def)

lemma stable_ex [stability]: "(\<And>x. stable (F x)) \<Longrightarrow> stable (\<lambda>t. \<exists>x. F x t)"
  by (auto simp: stable_def)

lemma stable_all [stability]: "(\<And>x. stable (F x)) \<Longrightarrow> stable (\<lambda>t. \<forall>x. F x t)"
  by (auto simp: stable_def)

lemma stable_ball [stability]: "(\<And>x. stable (F x)) \<Longrightarrow> stable (\<lambda>t. \<forall>x \<in> X. F x t)"
  by (auto simp: stable_def)

lemma stable_imp [stability]: "stable F \<Longrightarrow> stable (\<lambda>t. b \<longrightarrow> F t)"
  by (auto simp: stable_def)

lemma stable_searching [stability]: "stable (searching s)"
  by (auto simp: stable_def intro: extends_step)

lemma stable_leadsIn [stability]: "stable (leadsIn url)"
  by (simp add: stable_def leadsIn_def)

lemma stable_mem [stability]: "stable (\<lambda>t. e \<in> set t)"
  by (simp add: stable_def)

lemma stable_leadsSince [stability]: "stable (leadsSince s url)"
  by (fastforce simp: stable_def leadsSince_def)

lemma stable_follows [stability]: "stable (follows R)"
  by (auto simp: stable_def follows_def intro!: extends_step dest: searches_changes)

lemma stable_readBy [stability]: "stable (readBy c config)"
  by (simp add: stable_def readBy_def)

lemma lastConfig_searches: "searches e \<Longrightarrow> lastConfig (e # tr) = lastConfig tr"
  by (cases e) auto

lemma stable_lastConfig [stability]: "stable (\<lambda>t. lastConfig t = x)"
  by (simp add: stable_def lastConfig_searches)

lemma stepDowns_searches: "searches e \<Longrightarrow> stepDowns (e # tr) = stepDowns tr"
  by (cases e) (auto simp: stepDowns_def)

lemma stable_stepDowns [stability]: "stable (\<lambda>t. stepDowns t \<le> k)"
  by (simp add: stable_def stepDowns_searches)

lemma stepDowns_Cons: "stepDowns (e # tr) = (if isStepDown e then Suc (stepDowns tr) else stepDowns tr)"
  by (simp add: stepDowns_def)

lemma leadsIn_Cons: "leadsIn url tr \<Longrightarrow> leadsIn url (e # tr)"
  by (simp add: leadsIn_def)

lemma follows_Cons: "follows R tr \<Longrightarrow> (changes e \<Longrightarrow> R e tr) \<Longrightarrow> follows R (e # tr)"
  unfolding follows_def by (erule extends_step) blast

lemma seenVoter_mono: "seenVoter c i tr \<Longrightarrow> set tr \<subseteq> set tr' \<Longrightarrow> seenVoter c i tr'"
  unfolding seenVoter_def readBy_def by blast

lemma readBy_Cons: "readBy c config tr \<Longrightarrow> readBy c config (e # tr)"
  by (simp add: readBy_def)

lemma ht_search: "keeps searching m \<Longrightarrow> stable F \<Longrightarrow> ht F m (\<lambda>_. F) (\<lambda>_. F)"
  unfolding ht_def by (auto elim!: wp_keeps dest: stableD)

section \<open>Searching for the leader\<close>

definition finds :: "string act \<Rightarrow> bool" where
  "finds m \<longleftrightarrow> (\<forall>s. ht (searching s) m (\<lambda>url t. searching s t \<and> leadsSince s url t) (\<lambda>_. searching s))"

definition findsSome :: "string option act \<Rightarrow> bool" where
  "findsSome m \<longleftrightarrow> (\<forall>s. ht (searching s) m
     (\<lambda>found t. searching s t \<and> (\<forall>url. found = Some url \<longrightarrow> leadsSince s url t)) (\<lambda>_. searching s))"

lemma leadsSince_leads: "leadsSince s url t \<Longrightarrow> leadsIn url t"
  by (auto simp: leadsSince_def leadsIn_def)

lemma finds_keeps: "finds m \<Longrightarrow> keeps searching m"
  unfolding finds_def ht_def keeps_def wp_snd [symmetric] by (fast elim: wp_mono)

lemma finds_since: "finds m \<Longrightarrow> wp m (\<lambda>url t. searching s t \<and> leadsSince s url t) (\<lambda>_. searching s) s"
  unfolding finds_def ht_def by blast

lemma ht_finds:
  assumes "finds m" "stable F" shows "ht F m (\<lambda>url t. F t \<and> leadsIn url t) (\<lambda>_. F)"
  unfolding ht_def
proof (intro allI impI)
  fix s assume "F s"
  then show "wp m (\<lambda>url t. F t \<and> leadsIn url t) (\<lambda>_. F) s"
    using finds_since [OF assms(1), of s] by (elim wp_mono) (auto dest: stableD [OF assms(2)] leadsSince_leads)
qed

lemma ht_clientIsLeader:
  "ht (searching s) (clientIsLeader env c)
     (\<lambda>b t. searching s t \<and> (b \<longrightarrow> leadsSince s (clientURL c) t)) (\<lambda>_. searching s)"
proof -
  have "leadsSince s u (LeaderE u (Inr True) # t)" if "searching s t" for u t
    using extends_prefix [OF that] by (fastforce simp: leadsSince_def)
  then show ?thesis
    by (auto simp: ht_def clientIsLeader_def wps split: sum.split intro: extends_step)
qed

lemma ht_factoryNew: "stable F \<Longrightarrow> ht F (factoryNew env url) (\<lambda>c t. F t \<and> clientURL c = url) (\<lambda>_. F)"
  by (auto simp: ht_def factoryNew_def wps stable_def split: option.split)

lemma ht_attempted:
  assumes "ht P m A B" "\<And>a. ht (A a) (k (Inr a)) Q E" "\<And>e. ht (B e) (k (Inl e)) Q E"
  shows "ht P (bnd (attempt m) k) Q E"
proof (rule ht_bnd)
  show "ht P (attempt m) (\<lambda>r. case r of Inl e \<Rightarrow> B e | Inr a \<Rightarrow> A a) E"
    using assms(1) by (auto intro!: ht_attempt)
  show "ht (case r of Inl e \<Rightarrow> B e | Inr a \<Rightarrow> A a) (k r) Q E" for r
    using assms(2,3) by (cases r) auto
qed

lemma findsSome_scanPods: "findsSome (scanPods env cfg revision ordinals)"
  unfolding findsSome_def
proof (intro allI, induction ordinals)
  case Nil
  show ?case by (simp add: ht_ret)
next
  case (Cons i ordinals)
  note rest = Cons.IH [rule_format]
  show ?case (is "ht _ _ ?Q ?E")
    unfolding scanPods.simps Let_def
  proof (rule ht_attempted [OF ht_factoryNew [OF stable_searching]], simp_all only: sum.case)
    show "ht (searching s) (scanPods env cfg revision ordinals) ?Q ?E" by (rule rest)
  next
    fix client
    show "ht (\<lambda>t. searching s t \<and> clientURL client = PodURL cfg revision i)
        (bnd (attempt (clientIsLeader env client)) (\<lambda>r. case r of
             Inl _ \<Rightarrow> scanPods env cfg revision ordinals
           | Inr isLeader \<Rightarrow> if isLeader then ret (Some (PodURL cfg revision i)) else scanPods env cfg revision ordinals)) ?Q ?E"
    proof (rule ht_assume)
      assume url: "clientURL client = PodURL cfg revision i"
      show ?thesis
        by (rule ht_pre [OF ht_attempted [OF ht_clientIsLeader]])
          (auto simp: url intro!: ht_ret ht_pre [OF rest] split: if_split)
    qed simp
  qed
qed

lemma findsSome_FindLeaderInSingleScan: "findsSome (FindLeaderInSingleScan env cfg revision)"
  by (simp add: FindLeaderInSingleScan_def findsSome_scanPods)

lemma finds_leaderAttempts: "finds (leaderAttempts env cfg revision policy attempts)"
  unfolding finds_def
proof (intro allI, induction attempts)
  case Nil
  show ?case by (simp add: ht_fail)
next
  case (Cons i attempts)
  note rest = Cons.IH [rule_format]
  have pause: "ht (searching s) (pause env d) (\<lambda>_. searching s) (\<lambda>_. searching s)" for d
    by (rule ht_search) (auto intro: stability)
  show ?case
    unfolding leaderAttempts.simps
    by (rule ht_bnd [OF findsSome_FindLeaderInSingleScan [unfolded findsSome_def, rule_format]])
      (auto intro!: ht_ret ht_fail ht_if ht_pre [OF ht_bnd [OF pause]] ht_pre [OF rest] split: option.split)
qed

lemma finds_FindLeader: "finds (FindLeader env cfg revision)"
  by (simp add: FindLeader_def ResolveLeaderWithRetry_def Let_def finds_leaderAttempts)

lemma findsSome_FindLeaderOnce: "findsSome (FindLeaderOnce env cfg revision)"
  unfolding findsSome_def FindLeaderOnce_def ResolveLeaderWithRetry_def Let_def
  by (intro allI ht_attempted [OF finds_leaderAttempts [unfolded finds_def, rule_format]]) (auto intro!: ht_ret)

text \<open>The functions that take a finder rely on this interface.\<close>

locale leader_finder =
  fixes finder :: "string \<Rightarrow> string act"
  assumes finder_finds: "finds (finder revision)"
begin

lemma outcome_value:
  "ht (searching s) (ResolveLeaderWithPolicyUsing policy finder)
     (\<lambda>outcome t. searching s t \<and> (loValue outcome \<noteq> [] \<longrightarrow> leadsSince s (loValue outcome) t)) (\<lambda>_. searching s)"
proof -
  note found = finder_finds [unfolded finds_def, rule_format]
  have val: "loValue (noteContextError e out) = loValue out" for e out
    by (simp add: noteContextError_def Let_def)
  show ?thesis
    unfolding ResolveLeaderWithPolicyUsing_def Let_def
    by (rule ht_attempted [OF found])
      (auto simp: val intro!: ht_ret ht_if ht_attempted [OF found])
qed

lemma finds_FindLeaderWithPolicyUsing: "finds (FindLeaderWithPolicyUsing policy finder)"
  unfolding finds_def FindLeaderWithPolicyUsing_def
  by (intro allI ht_bnd [OF outcome_value]) (auto intro!: ht_ret ht_fail ht_if)

end

interpretation podFinder: leader_finder "FindLeader env cfg" for env cfg
  by unfold_locales (rule finds_FindLeader)

lemma finds_FindPreferred:
  "finds (FindPreferredLeaderWithFallback env cfg a b x y)" "finds (FindPreferredLeaderForRevisions env cfg a b x y)"
  by (simp_all add: FindPreferredLeaderWithFallback_def FindPreferredLeaderForRevisions_def FindLeaderWithPolicy_def
      podFinder.finds_FindLeaderWithPolicyUsing)

lemma finds_FindAnyLeader: "finds (FindAnyLeader env cfg a b)"
  by (simp add: FindAnyLeader_def finds_FindPreferred)

lemma finds_wrap: "finds m \<Longrightarrow> finds (wrap_err f m)"
  unfolding finds_def by (simp add: ht_wrap)

section \<open>Waiting for the election\<close>

definition electionObserved :: "raftTrace \<Rightarrow> LeaderElectionOutcome \<times> string \<Rightarrow> raftTrace \<Rightarrow> bool" where
  "electionObserved s v t \<longleftrightarrow> searching s t \<and> (leValue (fst v) \<noteq> [] \<longrightarrow> leadsSince s (leValue (fst v)) t)
     \<and> (snd v \<noteq> [] \<longrightarrow> leadsSince s (snd v) t)"

lemma stable_electionObserved: "stable (electionObserved s v)"
  unfolding electionObserved_def by (intro stability)

text \<open>A search from inside another search.\<close>

lemma leadsSince_trans: "leadsSince t url u \<Longrightarrow> searching s t \<Longrightarrow> leadsSince s url u"
  by (auto simp: leadsSince_def dest!: extends_prefix)

lemma ht_findsSome:
  assumes "findsSome m" "stable F" "\<And>t. F t \<Longrightarrow> searching s t"
  shows "ht F m (\<lambda>found t. F t \<and> (\<forall>url. found = Some url \<longrightarrow> leadsSince s url t)) (\<lambda>_. F)"
  unfolding ht_def
proof (intro allI impI)
  fix t assume F: "F t"
  have "wp m (\<lambda>found u. searching t u \<and> (\<forall>url. found = Some url \<longrightarrow> leadsSince t url u)) (\<lambda>_. searching t) t"
    using assms(1) unfolding findsSome_def ht_def by blast
  then show "wp m (\<lambda>found t. F t \<and> (\<forall>url. found = Some url \<longrightarrow> leadsSince s url t)) (\<lambda>_. F) t"
    using F assms(3) [OF F] by (elim wp_mono) (auto dest: stableD [OF assms(2)] intro: leadsSince_trans)
qed

lemma electionObserved_new: "electionObserved s (out, lst) t \<Longrightarrow> leadsSince s url t \<Longrightarrow> electionObserved s (observedNewLeader url out, lst) t"
  by (simp add: electionObserved_def observedNewLeader_def)

lemma electionObserved_last: "electionObserved s (out, lst) t \<Longrightarrow> leadsSince s url t \<Longrightarrow> electionObserved s (out, url) t"
  by (simp add: electionObserved_def)

lemma ht_electionCondition:
  assumes "\<And>r. findsSome (finder r)"
  shows "ht (electionObserved s v) (electionCondition cfg prev finder v) (\<lambda>r. electionObserved s (snd r)) (\<lambda>_. electionObserved s v)"
proof -
  obtain out lst where v: "v = (out, lst)" by (cases v)
  let ?P = "electionObserved s (out, lst)"
  have found: "ht ?P (finder r) (\<lambda>found t. ?P t \<and> (\<forall>url. found = Some url \<longrightarrow> leadsSince s url t)) (\<lambda>_. ?P)" for r
    by (rule ht_findsSome [OF assms stable_electionObserved]) (simp add: electionObserved_def)
  let ?blue = "\<lambda>blue. case blue of
      Some url \<Rightarrow> if url \<noteq> prev then ret (True, observedNewLeader url out, lst) else ret (False, out, url)
    | None \<Rightarrow> ret (False, out, lst)"
  have blue: "ht (\<lambda>t. ?P t \<and> (\<forall>url. r = Some url \<longrightarrow> leadsSince s url t)) (?blue r) (\<lambda>r. electionObserved s (snd r)) (\<lambda>_. ?P)" for r
    by (cases r) (auto intro!: ht_ret intro: electionObserved_new electionObserved_last)
  have green: "ht (\<lambda>t. ?P t \<and> (\<forall>url. r = Some url \<longrightarrow> leadsSince s url t))
     (case r of Some url \<Rightarrow> ret (True, observedNewLeader url out, lst) | None \<Rightarrow> bnd (finder (xcBlueRevision cfg)) ?blue)
     (\<lambda>r. electionObserved s (snd r)) (\<lambda>_. ?P)" for r
    by (cases r) (auto intro!: ht_ret ht_bnd [OF found blue] intro: electionObserved_new)
  show ?thesis
    unfolding electionCondition_def v prod.case by (rule ht_bnd [OF found green])
qed

lemma ht_pollTicks:
  assumes "\<And>v. ht (electionObserved s v) (condition v) (\<lambda>r. electionObserved s (snd r)) (\<lambda>_. searching s)"
  shows "ht (electionObserved s v) (pollTicks env n condition v) (\<lambda>r. electionObserved s (snd r)) (\<lambda>_. searching s)"
proof (induction n arbitrary: v)
  case (Suc n)
  have tick: "ht (electionObserved s v) (observe (xTick env) TickE) (\<lambda>_. electionObserved s v) (\<lambda>_. searching s)"
    using stable_electionObserved [of s v] by (simp add: ht_def wps stable_def)
  show ?case
    unfolding pollTicks.simps
    by (rule ht_bnd [OF tick]) (auto intro!: ht_ret ht_bnd [OF assms] Suc.IH split: option.split)
qed (simp add: ht_ret)

lemma ht_election:
  assumes "\<And>r. findsSome (finder r)"
  shows "ht (searching s) (WaitForLeaderElectionWithFinderAndPolicy env cfg prev policy finder)
    (\<lambda>out t. searching s t \<and> (leValue out \<noteq> [] \<longrightarrow> leadsSince s (leValue out) t)) (\<lambda>_. searching s)"
proof -
  let ?out = "\<lparr> leValue = [], leDecisionPath = ''election_timeout'', leReasonCode = ''reason_election_timeout'', leWaitError = None \<rparr>"
  have cond: "ht (electionObserved s v) (electionCondition cfg prev finder v) (\<lambda>r. electionObserved s (snd r)) (\<lambda>_. searching s)" for v
    by (rule ht_post [OF ht_electionCondition [OF assms]]) (auto simp: electionObserved_def)
  have poll: "ht (searching s) (PollUntilContextTimeout env i w (electionCondition cfg prev finder) (?out, []))
      (\<lambda>r. electionObserved s (snd r)) (\<lambda>_. searching s)" for i w
    unfolding PollUntilContextTimeout_def
    by (rule ht_pre [OF ht_bnd [OF cond]]) (auto simp: electionObserved_def intro!: ht_ret ht_pre [OF ht_pollTicks [OF cond]])
  show ?thesis
    unfolding WaitForLeaderElectionWithFinderAndPolicy_def Let_def
    by (rule ht_bnd [OF poll])
      (auto simp: electionObserved_def intro!: ht_ret ht_gets ht_if split: option.split prod.split)
qed

lemma finds_WaitForNewLeaderURL: "finds (WaitForNewLeaderURL env cfg prev)"
  unfolding finds_def WaitForNewLeaderURL_def WaitForNewLeaderURLWithFuncs_def WaitForLeaderElectionOutcome_def
proof (intro allI ht_bnd [OF ht_election [OF findsSome_FindLeaderOnce]] ht_gets)
  fix s out ctxErr
  have any: "ht (searching s) (FindAnyLeader env cfg a b) (\<lambda>url t. searching s t \<and> leadsSince s url t) (\<lambda>_. searching s)" for a b
    using finds_FindAnyLeader unfolding finds_def by blast
  have "trim_space v \<noteq> [] \<Longrightarrow> v \<noteq> []" for v by auto
  then show "ht (\<lambda>t. (searching s t \<and> (leValue out \<noteq> [] \<longrightarrow> leadsSince s (leValue out) t)) \<and> xCtxErr env t = ctxErr)
     (case ctxErr of
         Some ctxErr \<Rightarrow> failwith (NewExecutorReasonedError (contextReason ctxErr)
           ''failed while waiting for new leader election'' (Some ctxErr))
       | None \<Rightarrow>
           if leWaitError out \<noteq> None \<and> \<not> isErr ErrDeadlineExceeded (leWaitError out)
             \<and> \<not> isErr ErrContextCanceled (leWaitError out)
           then failwith (NewExecutorReasonedError (reasonOr ''reason_election_timeout'' (the (leWaitError out)))
             ''failed while waiting for new leader election'' (leWaitError out))
           else if leDecisionPath out = ''election_observed_new_leader'' \<and> trim_space (leValue out) \<noteq> []
           then ret (leValue out)
           else if leDecisionPath out = ''election_observed_same_leader'' \<and> trim_space (leValue out) \<noteq> []
           then ret (leValue out)
           else bnd (attempt (FindAnyLeader env cfg (xcGreenRevision cfg) (xcBlueRevision cfg))) (\<lambda>r. case r of
               Inl findErr \<Rightarrow> failwith (NewExecutorReasonedError (reasonOr ''reason_fallback_leader_not_found'' findErr)
                 ''failed to find new leader after step-down'' (Some findErr))
             | Inr leaderURL \<Rightarrow> ret leaderURL)) (\<lambda>url t. searching s t \<and> leadsSince s url t) (\<lambda>_. searching s)"
    by (cases ctxErr)
      (auto intro!: ht_ret ht_fail ht_if ht_pre [OF ht_attempted [OF any]] simp del: One_nat_def)
qed

section \<open>Clients\<close>

lemma ht_NewAuthenticatedClientWithToken:
  assumes "stable F"
  shows "ht F (NewAuthenticatedClientWithToken env cfg url token) (\<lambda>c t. F t \<and> clientURL c = url) (\<lambda>_. F)"
proof -
  have e: "searches e \<Longrightarrow> F t \<Longrightarrow> F (e # t)" for e t using assms by (simp add: stable_def)
  show ?thesis
    unfolding ht_def NewAuthenticatedClientWithToken_def NewWithInlineJWT_def LoginJWT_def factoryNew_def
    by (auto simp: wps e split: sum.split option.split prod.split)
qed

lemma ht_clientForLeaderURL:
  assumes "stable F" shows "ht F (clientForLeaderURL env cfg url) (\<lambda>c t. F t \<and> clientURL c = url) (\<lambda>_. F)"
  unfolding clientForLeaderURL_def NewAuthenticatedClient_def
  by (rule ht_wrap) (rule ht_NewAuthenticatedClientWithToken [OF assms])

lemma ht_LoginJWTIfStandard: "stable F \<Longrightarrow> ht F (LoginJWTIfStandard env cfg url) (\<lambda>_. F) (\<lambda>_. F)"
  unfolding LoginJWTIfStandard_def
  by (auto intro!: ht_ret ht_fail ht_search split: sum.split)

text \<open>Reading the configuration: what was known stays known, and the last configuration is the one that was read.\<close>

lemma ht_ReadRaftConfiguration:
  assumes "\<And>r t. F t \<Longrightarrow> F (ConfigE c r # t)"
  shows "ht F (ReadRaftConfiguration env c) (\<lambda>config t. F t \<and> lastConfig t = Some (c, config) \<and> readBy c config t) (\<lambda>_. F)"
  using assms by (auto simp: ht_def ReadRaftConfiguration_def readBy_def wps split: sum.split)

end
