(* ===== verification/Raft_Steps.thy ===== *)
theory Raft_Steps
  imports Raft_Safety
begin

text \<open>
  The actions of the upgrade executor follow their rules, and what each of them has made sure of when it
  reports success.  Every triple speaks about one definition of \<open>Raft_Actions\<close>: its precondition collects the evidence on
  the trace, its postcondition adds what the function observed or asked for.
\<close>

section \<open>Evidence of requests\<close>

definition accepted :: "sentinel \<Rightarrow> go_error option \<Rightarrow> bool" where
  "accepted t r \<longleftrightarrow> (\<forall>e. r = Some e \<longrightarrow> errors_is t e)"

definition joined :: "string \<Rightarrow> string \<Rightarrow> raftTrace \<Rightarrow> bool" where
  "joined url leader tr \<longleftrightarrow> (\<exists>c r. JoinE c leader True True r \<in> set tr \<and> clientURL c = url \<and> accepted ErrAlreadyJoined r)"

definition demoted :: "BaoClient \<Rightarrow> string \<Rightarrow> raftTrace \<Rightarrow> bool" where
  "demoted c serverID tr \<longleftrightarrow> (\<exists>r. DemoteE c serverID r \<in> set tr \<and> accepted ErrAlreadyNonVoter r)"

definition removed :: "BaoClient \<Rightarrow> string \<Rightarrow> raftTrace \<Rightarrow> bool" where
  "removed c serverID tr \<longleftrightarrow> RemoveE c serverID None \<in> set tr"

lemmas evidence_defs = joined_def demoted_def removed_def readBy_def leadsIn_def

lemma evidence_Cons:
  "joined u l tr \<Longrightarrow> joined u l (e # tr)" "demoted c i tr \<Longrightarrow> demoted c i (e # tr)" "removed c i tr \<Longrightarrow> removed c i (e # tr)"
  "seenVoter c i tr \<Longrightarrow> seenVoter c i (e # tr)"
  by (auto simp: evidence_defs seenVoter_def)

lemma stable_evidence [stability]:
  "stable (joined u l)" "stable (demoted c i)" "stable (removed c i)" "stable (seenVoter c i)"
  by (auto simp: stable_def evidence_Cons)

lemma stable_blueVoters [stability]: "stable (blueVoters env cfg c config)"
  by (auto simp: stable_def blueVoters_def evidence_Cons)

lemma ht_submit:
  assumes "\<And>t. P t \<Longrightarrow> Q () (ev None # t)" and "\<And>e t. P t \<Longrightarrow> E e (ev (Some e) # t)"
  shows "ht P (submit f ev) Q E"
  using assms by (auto simp: ht_def wps split: option.split)

text \<open>A known fact: kept by searches and by reading the configuration.\<close>

definition steady :: "(raftTrace \<Rightarrow> bool) \<Rightarrow> bool" where
  "steady F \<longleftrightarrow> stable F \<and> (\<forall>c r t. F t \<longrightarrow> F (ConfigE c r # t))"

named_theorems steadiness \<open>facts that searches and reads keep\<close>

lemma steady_conj [steadiness]: "steady F \<Longrightarrow> steady G \<Longrightarrow> steady (\<lambda>t. F t \<and> G t)"
  by (auto simp: steady_def stable_def)

lemma steady_ball [steadiness]: "(\<And>x. steady (F x)) \<Longrightarrow> steady (\<lambda>t. \<forall>x \<in> X. F x t)"
  by (auto simp: steady_def stable_def)

lemma steady_evidence [steadiness]:
  "steady (follows R)" "steady (leadsIn u)" "steady (readBy c config)" "steady (seenVoter c i)" "steady (demoted c i)"
  by (auto simp: steady_def stability leadsIn_Cons readBy_Cons evidence_Cons intro: follows_Cons)

lemma find_Some_member: "find P xs = Some x \<Longrightarrow> x \<in> set xs \<and> P x"
  by (induction xs) (auto split: if_splits)

section \<open>Promotion\<close>

lemma ht_raftServerIsVoter:
  assumes "steady F"
  shows "ht F (raftServerIsVoter env c i) (\<lambda>b t. F t \<and> (b \<longrightarrow> seenVoter c i t)) (\<lambda>_. F)"
proof -
  have F: "F t \<Longrightarrow> F (ConfigE c r # t)" for c r t using assms by (simp add: steady_def)
  have *: "readBy c config t \<Longrightarrow> find (\<lambda>server. rsNodeID server = i) (rcServers config) = Some server \<Longrightarrow> rsVoter server
      \<Longrightarrow> seenVoter c i t" for config server t
    by (auto simp: seenVoter_def voterIn_def dest!: find_Some_member)
  show ?thesis
    unfolding raftServerIsVoter_def
    by (rule ht_bnd [OF ht_ReadRaftConfiguration [where F = F]])
      (auto intro!: ht_ret intro: F * split: option.split)
qed

lemma ht_voterAttempts:
  assumes "steady F"
  shows "ht F (voterAttempts env c i policy attempts lastErr failed) (\<lambda>b t. F t \<and> (b \<longrightarrow> seenVoter c i t)) (\<lambda>_. F)"
proof (induction attempts arbitrary: lastErr failed)
  case Nil
  show ?case by (auto intro!: ht_ret ht_fail split: option.split)
next
  case (Cons a attempts)
  have F: "stable F" using assms by (simp add: steady_def)
  have wait: "ht F (waitForPromoteVerifyInterval env d) (\<lambda>_. F) (\<lambda>_. F)" for d
    unfolding waitForPromoteVerifyInterval_def by (auto intro!: ht_ret ht_search F)
  show ?case
    unfolding voterAttempts.simps Let_def
    by (rule ht_attempted [OF ht_raftServerIsVoter [OF assms]])
      (auto intro!: ht_if ht_ret ht_fail ht_pre [OF Cons.IH] ht_pre [OF ht_bnd [OF wait]] split: option.split)
qed

lemma ht_promote:
  assumes F: "steady F" and p: "\<And>r t. F t \<Longrightarrow> F (PromoteE c i r # t)"
  shows "ht F (promoteRaftPeerAndVerifyWithPolicy env c i policy) (\<lambda>_ t. F t \<and> seenVoter c i t) (\<lambda>_. F)"
proof -
  have req: "ht F (PromoteRaftPeer env c i) (\<lambda>_. F) (\<lambda>_. F)"
    unfolding PromoteRaftPeer_def by (rule ht_submit) (auto intro: p)
  have verify: "ht F (waitForRaftServerVoter env c i policy) (\<lambda>b t. F t \<and> (b \<longrightarrow> seenVoter c i t)) (\<lambda>_. F)"
    unfolding waitForRaftServerVoter_def Let_def by (rule ht_voterAttempts [OF F])
  show ?thesis
    unfolding promoteRaftPeerAndVerifyWithPolicy_def
    by (rule ht_attempted [OF req]; rule ht_attempted [OF verify])
      (auto intro!: ht_ret ht_fail split: bool.split)
qed

section \<open>Joining Green\<close>

lemma ht_findBlueLeader:
  "stable F \<Longrightarrow> ht F (findBlueLeader env cfg) (\<lambda>url t. F t \<and> leadsIn url t) (\<lambda>_. F)"
  unfolding findBlueLeader_def by (rule ht_finds [OF finds_wrap [OF finds_FindLeader]])

lemma ht_joinGreenPods:
  assumes "set ordinals \<subseteq> {0..<xcReplicas cfg}"
  shows "ht (\<lambda>t. follows (joinRule cfg) t \<and> leadsIn leader t \<and> (\<forall>i \<in> D. joined (PodURL cfg (xcGreenRevision cfg) i) leader t))
     (joinGreenPods env cfg leader token ordinals)
     (\<lambda>_ t. follows (joinRule cfg) t \<and> leadsIn leader t
       \<and> (\<forall>i \<in> D \<union> set ordinals. joined (PodURL cfg (xcGreenRevision cfg) i) leader t))
     (\<lambda>_. follows (joinRule cfg))"
  using assms
proof (induction ordinals arbitrary: D)
  case (Cons i ordinals)
  let ?url = "PodURL cfg (xcGreenRevision cfg)"
  let ?K = "\<lambda>D t. follows (joinRule cfg) t \<and> leadsIn leader t \<and> (\<forall>i \<in> D. joined (?url i) leader t)"
  have rest: "ht (?K (insert i D)) (joinGreenPods env cfg leader token ordinals)
      (\<lambda>_. ?K (D \<union> set (i # ordinals))) (\<lambda>_. follows (joinRule cfg))"
    using Cons.IH [of "insert i D"] Cons.prems by simp
  have K: "stable (?K D)" by (intro stability)
  have client: "ht (?K D) (NewAuthenticatedClientWithToken env cfg (?url i) token)
      (\<lambda>c t. ?K D t \<and> clientURL c = ?url i) (\<lambda>_. follows (joinRule cfg))"
    by (rule ht_post [OF ht_NewAuthenticatedClientWithToken [OF K]]) auto
  have join: "ht (\<lambda>t. ?K D t \<and> clientURL c = ?url i) (JoinRaftCluster env c leader True True)
      (\<lambda>_. ?K (insert i D)) (\<lambda>e t. follows (joinRule cfg) t \<and> (IsBenignJoinError e \<longrightarrow> ?K (insert i D) t))" for c
  proof -
    have rule: "follows (joinRule cfg) (JoinE c leader True True r # t)"
      if "?K D t \<and> clientURL c = ?url i" for r t
      using that Cons.prems by (intro follows_Cons) auto
    have new: "joined (?url i) leader (JoinE c leader True True r # t)" if "clientURL c = ?url i" "accepted ErrAlreadyJoined r" for r t
      using that by (auto simp: joined_def)
    show ?thesis
      unfolding JoinRaftCluster_def
      by (rule ht_submit) (auto simp: rule leadsIn_Cons evidence_Cons accepted_def IsBenignJoinError_def intro!: new)
  qed
  have benign: "ClassifyJoinError e = Benign \<longleftrightarrow> IsBenignJoinError e" for e by (simp add: ClassifyJoinError_def)
  show ?case
    unfolding joinGreenPods.simps Let_def
    by (rule ht_bnd [OF ht_wrap [OF client]], rule ht_attempted [OF join])
      (auto simp: benign intro!: ht_pre [OF rest] ht_if ht_fail simp del: set_simps)
qed (auto intro!: ht_ret)

lemma ht_RunJoin:
  "ht (follows (joinRule cfg)) (RunBlueGreenJoinGreenNonVoters env cfg)
     (\<lambda>_ t. follows (joinRule cfg) t \<and> (\<exists>leader. leadsIn leader t
       \<and> (\<forall>i \<in> {0..<xcReplicas cfg}. joined (PodURL cfg (xcGreenRevision cfg) i) leader t)))
     (\<lambda>_. follows (joinRule cfg))"
proof -
  let ?R = "joinRule cfg"
  have login: "ht (\<lambda>t. follows ?R t \<and> leadsIn u t) (LoginJWTIfStandard env cfg u) (\<lambda>_ t. follows ?R t \<and> leadsIn u t) (\<lambda>_. follows ?R)" for u
    by (rule ht_post [OF ht_LoginJWTIfStandard]) (auto intro: stability)
  show ?thesis
    unfolding RunBlueGreenJoinGreenNonVoters_def
    by (rule ht_bnd [OF ht_findBlueLeader], rule stability, rule ht_bnd [OF ht_wrap [OF login]],
        rule ht_conseq [OF ht_joinGreenPods [where D = "{}"]]) auto
qed

section \<open>Promoting Green\<close>

lemma voterStatus_voterIn:
  assumes "voterStatus config i = Some True" shows "voterIn config i"
proof -
  have "fold (\<lambda>server m. m(rsNodeID server \<mapsto> rsVoter server)) servers m i = Some True
      \<Longrightarrow> (\<exists>server \<in> set servers. rsNodeID server = i \<and> rsVoter server) \<or> m i = Some True" for servers and m :: "string \<Rightarrow> bool option"
    by (induction servers arbitrary: m) (fastforce split: if_splits)+
  from this [OF assms [unfolded voterStatus_def]] show ?thesis by (auto simp: voterIn_def)
qed

lemma ht_promoteGreenPods:
  assumes "set ordinals \<subseteq> {0..<xcReplicas cfg}"
  shows "ht (\<lambda>t. follows (promoteRule cfg) t \<and> leadsIn (clientURL c) t \<and> readBy c config t \<and> (\<forall>i \<in> D. seenVoter c (greenPod cfg i) t))
     (promoteGreenPods env cfg c config ordinals)
     (\<lambda>_ t. follows (promoteRule cfg) t \<and> leadsIn (clientURL c) t \<and> readBy c config t
       \<and> (\<forall>i \<in> D \<union> set ordinals. seenVoter c (greenPod cfg i) t))
     (\<lambda>_. follows (promoteRule cfg))"
  using assms
proof (induction ordinals arbitrary: D)
  case (Cons i ordinals)
  let ?R = "promoteRule cfg"
  let ?K = "\<lambda>D t. follows ?R t \<and> leadsIn (clientURL c) t \<and> readBy c config t \<and> (\<forall>i \<in> D. seenVoter c (greenPod cfg i) t)"
  have rest: "ht (?K (insert i D)) (promoteGreenPods env cfg c config ordinals) (\<lambda>_. ?K (D \<union> set (i # ordinals))) (\<lambda>_. follows ?R)"
    using Cons.IH [of "insert i D"] Cons.prems by simp
  have already: "?K D t \<Longrightarrow> ?K (insert i D) t" if "voterStatus config (greenPod cfg i) = Some True" for t
    using voterStatus_voterIn [OF that] by (auto simp: seenVoter_def)
  have promote: "ht (?K D) (promoteRaftPeerAndVerifyWithPolicy env c (greenPod cfg i) p)
      (\<lambda>_ t. ?K D t \<and> seenVoter c (greenPod cfg i) t) (\<lambda>_. ?K D)" for p
    by (rule ht_promote)
      (use Cons.prems in \<open>auto intro!: steadiness follows_Cons simp: leadsIn_Cons readBy_Cons evidence_Cons\<close>)
  then have promote: "ht (?K D) (promoteRaftPeerAndVerifyWithPolicy env c (greenPod cfg i) p)
      (\<lambda>_. ?K (insert i D)) (\<lambda>_. follows ?R)" for p
    by (rule ht_post) auto
  show ?case
    unfolding promoteGreenPods.simps Let_def promoteRaftPeerAndVerify_def
    by (rule ht_if, rule ht_pre [OF rest], erule already, assumption, rule ht_bnd [OF ht_wrap [OF promote] rest])
qed (auto intro!: ht_ret)

lemma ht_RunPromote:
  "ht (follows (promoteRule cfg)) (RunBlueGreenPromoteGreenVoters env cfg)
     (\<lambda>_ t. follows (promoteRule cfg) t \<and> (\<exists>c. leadsIn (clientURL c) t
       \<and> (\<forall>i \<in> {0..<xcReplicas cfg}. seenVoter c (greenPod cfg i) t)))
     (\<lambda>_. follows (promoteRule cfg))"
proof -
  let ?R = "promoteRule cfg"
  have client: "ht (\<lambda>t. follows ?R t \<and> leadsIn u t) (clientForLeaderURL env cfg u)
      (\<lambda>c t. follows ?R t \<and> leadsIn (clientURL c) t) (\<lambda>_. follows ?R)" for u
    by (rule ht_post [OF ht_clientForLeaderURL]) (auto intro: stability)
  have config: "ht (\<lambda>t. follows ?R t \<and> leadsIn (clientURL c) t) (ReadRaftConfiguration env c)
      (\<lambda>config t. follows ?R t \<and> leadsIn (clientURL c) t \<and> readBy c config t) (\<lambda>_. follows ?R)" for c
    by (rule ht_post [OF ht_ReadRaftConfiguration]) (auto intro: follows_Cons leadsIn_Cons)
  show ?thesis
    unfolding RunBlueGreenPromoteGreenVoters_def
    by (rule ht_bnd [OF ht_findBlueLeader], rule stability, rule ht_bnd [OF client], rule ht_bnd [OF ht_wrap [OF config]],
        rule ht_conseq [OF ht_promoteGreenPods [where D = "{}"]]) auto
qed

section \<open>Removing peers\<close>

lemma ht_removePeers:
  assumes "set servers \<subseteq> set (rcServers config)"
  shows "ht (\<lambda>t. follows (removeRule env cfg rvn) t \<and> leadsIn (clientURL c) t \<and> lastConfig t = Some (c, config)
       \<and> (\<forall>s \<in> D. removed c (rsNodeID s) t))
     (removePeers env cfg rvn c servers)
     (\<lambda>_ t. follows (removeRule env cfg rvn) t \<and> leadsIn (clientURL c) t \<and> lastConfig t = Some (c, config)
       \<and> (\<forall>s \<in> D \<union> {s \<in> set servers. removable env cfg rvn s}. removed c (rsNodeID s) t))
     (\<lambda>_. follows (removeRule env cfg rvn))"
  using assms
proof (induction servers arbitrary: D)
  case (Cons s servers)
  let ?R = "removeRule env cfg rvn"
  let ?K = "\<lambda>D t. follows ?R t \<and> leadsIn (clientURL c) t \<and> lastConfig t = Some (c, config) \<and> (\<forall>s \<in> D. removed c (rsNodeID s) t)"
  have rest: "ht (?K D) (removePeers env cfg rvn c servers)
      (\<lambda>_. ?K (D \<union> {s \<in> set servers. removable env cfg rvn s})) (\<lambda>_. follows ?R)" for D
    using Cons.IH [of D] Cons.prems by simp
  have remove: "ht (?K D) (RemoveRaftPeer env c (rsNodeID s)) (\<lambda>_. ?K (insert s D)) (\<lambda>_. follows ?R)" if "removable env cfg rvn s"
    unfolding RemoveRaftPeer_def
    by (rule ht_submit) (use Cons.prems that in \<open>auto intro!: follows_Cons simp: leadsIn_Cons evidence_Cons removed_def\<close>)
  show ?case
  proof (cases "removable env cfg rvn s")
    case True
    then have "D \<union> {x \<in> set (s # servers). removable env cfg rvn x} = insert s D \<union> {x \<in> set servers. removable env cfg rvn x}" by auto
    then show ?thesis using ht_bnd [OF ht_wrap [OF remove [OF True]] rest] True by simp
  next
    case False
    then have "{x \<in> set (s # servers). removable env cfg rvn x} = {x \<in> set servers. removable env cfg rvn x}" by auto
    then show ?thesis using rest False by simp
  qed
qed (auto intro!: ht_ret)

lemma ht_RunRemove:
  "ht (follows (removeRule env cfg rvn)) (RunBlueGreenRemovePeers env cfg rvn a b)
     (\<lambda>_ t. follows (removeRule env cfg rvn) t \<and> (\<exists>c config. leadsIn (clientURL c) t \<and> lastConfig t = Some (c, config)
       \<and> (\<forall>s \<in> set (rcServers config). removable env cfg rvn s \<longrightarrow> removed c (rsNodeID s) t)))
     (\<lambda>_. follows (removeRule env cfg rvn))"
proof -
  let ?R = "removeRule env cfg rvn"
  have client: "ht (\<lambda>t. follows ?R t \<and> leadsIn u t) (clientForLeaderURL env cfg u)
      (\<lambda>c t. follows ?R t \<and> leadsIn (clientURL c) t) (\<lambda>_. follows ?R)" for u
    by (rule ht_post [OF ht_clientForLeaderURL]) (auto intro: stability)
  have config: "ht (\<lambda>t. follows ?R t \<and> leadsIn (clientURL c) t) (ReadRaftConfiguration env c)
      (\<lambda>config t. follows ?R t \<and> leadsIn (clientURL c) t \<and> lastConfig t = Some (c, config)) (\<lambda>_. follows ?R)" for c
    by (rule ht_post [OF ht_ReadRaftConfiguration]) (auto intro: follows_Cons leadsIn_Cons)
  show ?thesis
    unfolding RunBlueGreenRemovePeers_def
    by (rule ht_bnd [OF ht_finds [OF finds_wrap [OF finds_FindPreferred(2)]]], rule stability, rule ht_bnd [OF client],
        rule ht_bnd [OF ht_wrap [OF config]], rule ht_conseq [OF ht_removePeers [where D = "{}", OF subset_refl]]) auto
qed

section \<open>Repairing consensus\<close>

lemma blueVoters_Cons: "blueVoters env cfg c config t \<Longrightarrow> blueVoters env cfg c config (e # t)"
  by (auto simp: blueVoters_def evidence_Cons)

lemma ht_promoteBluePeers:
  assumes "set servers \<subseteq> set (rcServers config)" "blueQuorum env cfg config"
  shows "ht (\<lambda>t. follows (repairRule env cfg) t \<and> leadsIn (clientURL c) t \<and> readBy c config t \<and> (\<forall>s \<in> D. seenVoter c (rsNodeID s) t))
     (promoteBluePeers env cfg c policy servers)
     (\<lambda>_ t. follows (repairRule env cfg) t \<and> leadsIn (clientURL c) t \<and> readBy c config t
       \<and> (\<forall>s \<in> D \<union> {s \<in> set servers. blueServer env cfg s}. seenVoter c (rsNodeID s) t))
     (\<lambda>_. follows (repairRule env cfg))"
  using assms(1)
proof (induction servers arbitrary: D)
  case (Cons s servers)
  let ?R = "repairRule env cfg"
  let ?K = "\<lambda>D t. follows ?R t \<and> leadsIn (clientURL c) t \<and> readBy c config t \<and> (\<forall>s \<in> D. seenVoter c (rsNodeID s) t)"
  have rest: "ht (?K D) (promoteBluePeers env cfg c policy servers)
      (\<lambda>_. ?K (D \<union> {s \<in> set servers. blueServer env cfg s})) (\<lambda>_. follows ?R)" for D
    using Cons.IH [of D] Cons.prems by simp
  have already: "?K D t \<Longrightarrow> ?K (insert s D) t" if "rsVoter s" for t
    using that Cons.prems by (auto simp: seenVoter_def voterIn_def)
  have promote: "ht (?K D) (promoteRaftPeerAndVerifyWithPolicy env c (rsNodeID s) policy) (\<lambda>_. ?K (insert s D)) (\<lambda>_. follows ?R)"
    if "blueServer env cfg s" "\<not> rsVoter s"
  proof -
    have steps: "?K D (PromoteE c (rsNodeID s) r # t)" if "?K D t" for r t
      using that Cons.prems assms(2) \<open>blueServer env cfg s\<close> \<open>\<not> rsVoter s\<close>
      by (auto intro!: follows_Cons exI [of _ config] bexI [of _ s] simp: leadsIn_Cons readBy_Cons evidence_Cons)
    show ?thesis
      by (rule ht_post [OF ht_promote [of "?K D"]]) (auto intro!: steadiness steps)
  qed
  show ?case
  proof (cases "blueServer env cfg s")
    case True
    then have "D \<union> {x \<in> set (s # servers). blueServer env cfg x} = insert s D \<union> {x \<in> set servers. blueServer env cfg x}" by auto
    then show ?thesis
      using ht_bnd [OF ht_wrap [OF promote [OF True]] rest] ht_pre [OF rest already] True by simp
  next
    case False
    then have "{x \<in> set (s # servers). blueServer env cfg x} = {x \<in> set servers. blueServer env cfg x}" by auto
    then show ?thesis using rest False by simp
  qed
qed (auto intro!: ht_ret)

lemma ht_demoteGreenPeers:
  assumes "set servers \<subseteq> set (rcServers config)" "blueQuorum env cfg config"
  shows "ht (\<lambda>t. follows (repairRule env cfg) t \<and> leadsIn (clientURL c) t \<and> readBy c config t \<and> blueVoters env cfg c config t
       \<and> (\<forall>s \<in> D. demoted c (rsNodeID s) t))
     (demoteGreenPeers env cfg c servers)
     (\<lambda>_ t. follows (repairRule env cfg) t \<and> leadsIn (clientURL c) t \<and> readBy c config t \<and> blueVoters env cfg c config t
       \<and> (\<forall>s \<in> D \<union> {s \<in> set servers. greenServer env cfg s \<and> rsVoter s}. demoted c (rsNodeID s) t))
     (\<lambda>_. follows (repairRule env cfg))"
  using assms(1)
proof (induction servers arbitrary: D)
  case (Cons s servers)
  let ?R = "repairRule env cfg"
  let ?G = "\<lambda>s. greenServer env cfg s \<and> rsVoter s"
  let ?K = "\<lambda>D t. follows ?R t \<and> leadsIn (clientURL c) t \<and> readBy c config t \<and> blueVoters env cfg c config t
    \<and> (\<forall>s \<in> D. demoted c (rsNodeID s) t)"
  have rest: "ht (?K D) (demoteGreenPeers env cfg c servers) (\<lambda>_. ?K (D \<union> {s \<in> set servers. ?G s})) (\<lambda>_. follows ?R)" for D
    using Cons.IH [of D] Cons.prems by simp
  have demote: "ht (?K D) (DemoteRaftPeer env c (rsNodeID s)) (\<lambda>_. ?K (insert s D))
      (\<lambda>e t. follows ?R t \<and> (IsBenignDemoteError e \<longrightarrow> ?K (insert s D) t))" if "?G s"
  proof -
    have rule: "follows ?R (DemoteE c (rsNodeID s) r # t)" if "?K D t" for r t
      using that Cons.prems assms(2) \<open>?G s\<close> by (intro follows_Cons) auto
    have new: "demoted c (rsNodeID s) (DemoteE c (rsNodeID s) r # t)" if "accepted ErrAlreadyNonVoter r" for r t
      using that by (auto simp: demoted_def)
    show ?thesis
      unfolding DemoteRaftPeer_def
      by (rule ht_submit) (auto simp: rule leadsIn_Cons readBy_Cons blueVoters_Cons evidence_Cons accepted_def
          IsBenignDemoteError_def intro!: new)
  qed
  show ?case
  proof (cases "?G s")
    case True
    then have e: "D \<union> {x \<in> set (s # servers). ?G x} = insert s D \<union> {x \<in> set servers. ?G x}" by auto
    have "ht (?K D) (bnd (attempt (DemoteRaftPeer env c (rsNodeID s))) (\<lambda>r. case r of
          Inr _ \<Rightarrow> demoteGreenPeers env cfg c servers
        | Inl err \<Rightarrow> if IsBenignDemoteError err then demoteGreenPeers env cfg c servers else failwith (f err)))
        (\<lambda>_. ?K (insert s D \<union> {x \<in> set servers. ?G x})) (\<lambda>_. follows ?R)" for f
      by (rule ht_attempted [OF demote [OF True]]; simp only: sum.case; (rule rest)?)
        (rule ht_if, rule ht_pre [OF rest], blast, rule ht_fail, blast)
    then show ?thesis unfolding e using True by simp
  next
    case False
    then have "{x \<in> set (s # servers). ?G x} = {x \<in> set servers. ?G x}" by auto
    then show ?thesis using rest False by auto
  qed
qed (auto intro!: ht_ret)

lemma ht_RunRepair:
  "ht (follows (repairRule env cfg)) (RunBlueGreenRepairConsensus env cfg)
     (\<lambda>_ t. follows (repairRule env cfg) t \<and> (\<exists>c config. leadsIn (clientURL c) t \<and> readBy c config t \<and> blueQuorum env cfg config
       \<and> blueVoters env cfg c config t
       \<and> (\<forall>s \<in> set (rcServers config). greenServer env cfg s \<and> rsVoter s \<longrightarrow> demoted c (rsNodeID s) t)))
     (\<lambda>_. follows (repairRule env cfg))"
proof -
  let ?R = "repairRule env cfg"
  let ?K = "\<lambda>c t. follows ?R t \<and> leadsIn (clientURL c) t"
  have client: "ht (\<lambda>t. follows ?R t \<and> leadsIn u t) (NewAuthenticatedClient env cfg u) (\<lambda>c. ?K c) (\<lambda>_. follows ?R)" for u
    unfolding NewAuthenticatedClient_def
    by (rule ht_post [OF ht_NewAuthenticatedClientWithToken]) (auto intro: stability)
  have config: "ht (?K c) (ReadRaftConfiguration env c) (\<lambda>config t. ?K c t \<and> readBy c config t) (\<lambda>_. follows ?R)" for c
    by (rule ht_post [OF ht_ReadRaftConfiguration]) (auto intro: follows_Cons leadsIn_Cons)
  have promote: "ht (\<lambda>t. ?K c t \<and> readBy c config t) (promoteBluePeers env cfg c policy (rcServers config))
      (\<lambda>_ t. ?K c t \<and> readBy c config t \<and> blueVoters env cfg c config t) (\<lambda>_. follows ?R)"
    if "blueQuorum env cfg config" for c config policy
    by (rule ht_conseq [OF ht_promoteBluePeers [where D = "{}", OF subset_refl that]]) (auto simp: blueVoters_def)
  have demote: "ht (\<lambda>t. ?K c t \<and> readBy c config t \<and> blueVoters env cfg c config t) (demoteGreenPeers env cfg c (rcServers config))
      (\<lambda>_ t. ?K c t \<and> readBy c config t \<and> blueVoters env cfg c config t
        \<and> (\<forall>s \<in> set (rcServers config). greenServer env cfg s \<and> rsVoter s \<longrightarrow> demoted c (rsNodeID s) t)) (\<lambda>_. follows ?R)"
    if "blueQuorum env cfg config" for c config
    by (rule ht_conseq [OF ht_demoteGreenPeers [where D = "{}", OF subset_refl that]]) auto
  have quorum: "\<not> bluePeers env cfg config < raftQuorum (blueReplicaCount cfg) \<Longrightarrow> blueQuorum env cfg config" for config
    by (simp add: blueQuorum_def)
  have repair: "ht (?K c) (repairBlueGreenConsensus env cfg c policy)
      (\<lambda>_ t. follows ?R t \<and> (\<exists>c config. leadsIn (clientURL c) t \<and> readBy c config t \<and> blueQuorum env cfg config
       \<and> blueVoters env cfg c config t
       \<and> (\<forall>s \<in> set (rcServers config). greenServer env cfg s \<and> rsVoter s \<longrightarrow> demoted c (rsNodeID s) t)))
      (\<lambda>_. follows ?R)" for c policy
    unfolding repairBlueGreenConsensus_def
    by (rule ht_bnd [OF ht_wrap [OF config]], rule ht_if, rule ht_fail, simp,
        rule ht_bnd [OF promote], erule quorum, rule ht_post [OF demote], erule quorum) (auto dest: quorum)
  show ?thesis
    unfolding RunBlueGreenRepairConsensus_def
    by (rule ht_if, rule ht_fail, assumption, rule ht_bnd [OF ht_finds [OF finds_wrap [OF finds_FindPreferred(1)]]],
        rule stability, rule ht_bnd [OF ht_wrap [OF client] repair])
qed

end
