(* ===== verification/Raft_Transfer.thy ===== *)
theory Raft_Transfer
  imports Raft_Steps
begin

text \<open>
  Handing leadership over (\<open>leader_transfer.go\<close>, \<open>actions.go\<close>).  The functions take the resolver of clients and the wait for a new
  leader as arguments, so that they rely on an interface (\<open>leader_transfer\<close>), which \<open>clientForLeaderURL\<close> and
  \<open>WaitForNewLeaderURL\<close> provide.
\<close>

definition handedOver :: "BaoClient \<Rightarrow> string \<Rightarrow> raftTrace \<Rightarrow> bool" where
  "handedOver c url t \<longleftrightarrow> (\<exists>new old. t = new @ StepDownE c None # old \<and> leadsIn url new)"

lemma leaderInfo:
  assumes "RaftLeaderInfoForRevision (xHostname env) config cfg = (leaderID, blue)" "leaderID \<noteq> []"
  shows "\<exists>l. leaderIs config l \<and> leaderID = rsNodeID l \<and> blue = blueServer env cfg l"
  using assms by (auto simp: RaftLeaderInfoForRevision_def leaderIs_def blueServer_def split: option.splits)

lemma demotableBlue_production:
  "demotableBlue env cfg (xcName cfg @ ''-'' @ xcBlueRevision cfg @ ''-'') s = blueServer env cfg s"
  by (simp add: demotableBlue_def)

lemma bluePod_blueServer:
  "\<not> blueServer env cfg s \<Longrightarrow> 0 \<le> i \<Longrightarrow> i < blueReplicaCount cfg \<Longrightarrow> rsNodeID s \<noteq> bluePod cfg i"
  unfolding blueServer_def RaftServerMatchesRevision_def Let_def list_ex_iff set_ReplicaOrdinals by fastforce

lemma ht_StepDownLeader:
  assumes "\<And>r t. P t \<Longrightarrow> Q (StepDownE c r # t)"
  shows "ht P (StepDownLeader env c) (\<lambda>r t. Q t \<and> (snd r = None \<longrightarrow> (\<exists>old. t = StepDownE c None # old))) E"
  using assms by (auto simp: ht_def StepDownLeader_def StepDown_def wps split: option.split)

section \<open>Demoting Blue\<close>

lemma ht_demoteBlueVoters:
  assumes l: "leaderIs config l" "set servers \<subseteq> set (rcServers config)"
  shows "ht (\<lambda>t. follows (transferRule env cfg) t \<and> leadsIn (clientURL c) t \<and> lastConfig t = Some (c, config) \<and> stepDowns t \<le> k)
     (demoteBlueVoters env cfg c (rsNodeID l) (xcName cfg @ ''-'' @ xcBlueRevision cfg @ ''-'') servers)
     (\<lambda>_ t. follows (transferRule env cfg) t \<and> leadsIn (clientURL c) t \<and> lastConfig t = Some (c, config) \<and> stepDowns t \<le> k)
     (\<lambda>_. follows (transferRule env cfg))"
  using l(2)
proof (induction servers)
  case (Cons s servers)
  let ?R = "transferRule env cfg"
  let ?K = "\<lambda>t. follows ?R t \<and> leadsIn (clientURL c) t \<and> lastConfig t = Some (c, config) \<and> stepDowns t \<le> k"
  have rest: "ht ?K (demoteBlueVoters env cfg c (rsNodeID l) (xcName cfg @ ''-'' @ xcBlueRevision cfg @ ''-'') servers)
      (\<lambda>_. ?K) (\<lambda>_. follows ?R)"
    using Cons by simp
  have demote: "ht ?K (DemoteRaftPeer env c (rsNodeID s)) (\<lambda>_. ?K) (\<lambda>_. ?K)"
    if "rsVoter s" "rsNodeID s \<noteq> rsNodeID l" "blueServer env cfg s"
  proof -
    have "?K (DemoteE c (rsNodeID s) r # t)" if "?K t" for r t
      using that Cons.prems l(1) \<open>rsVoter s\<close> \<open>rsNodeID s \<noteq> rsNodeID l\<close> \<open>blueServer env cfg s\<close>
      by (auto intro!: follows_Cons exI [of _ l] simp: leadsIn_Cons stepDowns_Cons)
    then show ?thesis unfolding DemoteRaftPeer_def by (intro ht_submit) auto
  qed
  show ?case
    unfolding demoteBlueVoters.simps demotableBlue_production
    by (intro ht_if rest; rule ht_attempted [OF demote]; (simp only: sum.case)?; (rule rest)?)
      (blast | (rule ht_if, rule ht_fail, blast, rule rest))+
qed (simp add: ht_ret)

lemma ht_demoteBluePods:
  assumes l: "leaderIs config l" "\<not> blueServer env cfg l" and "set ordinals \<subseteq> {0..<blueReplicaCount cfg}"
  shows "ht (\<lambda>t. follows (transferRule env cfg) t \<and> leadsIn (clientURL c) t \<and> lastConfig t = Some (c, config)
       \<and> (\<forall>i \<in> D. demoted c (bluePod cfg i) t))
     (demoteBluePods env cfg c ordinals)
     (\<lambda>_ t. follows (transferRule env cfg) t \<and> leadsIn (clientURL c) t \<and> lastConfig t = Some (c, config)
       \<and> (\<forall>i \<in> D \<union> set ordinals. demoted c (bluePod cfg i) t))
     (\<lambda>_. follows (transferRule env cfg))"
  using assms(3)
proof (induction ordinals arbitrary: D)
  case (Cons i ordinals)
  let ?R = "transferRule env cfg"
  let ?K = "\<lambda>D t. follows ?R t \<and> leadsIn (clientURL c) t \<and> lastConfig t = Some (c, config) \<and> (\<forall>i \<in> D. demoted c (bluePod cfg i) t)"
  have rest: "ht (?K (insert i D)) (demoteBluePods env cfg c ordinals) (\<lambda>_. ?K (D \<union> set (i # ordinals))) (\<lambda>_. follows ?R)"
    using Cons.IH [of "insert i D"] Cons.prems by simp
  have demote: "ht (?K D) (DemoteRaftPeer env c (bluePod cfg i)) (\<lambda>_. ?K (insert i D))
      (\<lambda>e t. follows ?R t \<and> (IsBenignDemoteError e \<longrightarrow> ?K (insert i D) t))"
  proof -
    have "rsNodeID l \<noteq> bluePod cfg i" using Cons.prems by (intro bluePod_blueServer [OF l(2)]) auto
    then have rule: "follows ?R (DemoteE c (bluePod cfg i) r # t)" if "?K D t" for r t
      using that Cons.prems l by (intro follows_Cons) auto
    have new: "demoted c (bluePod cfg i) (DemoteE c (bluePod cfg i) r # t)" if "accepted ErrAlreadyNonVoter r" for r t
      using that by (auto simp: demoted_def)
    show ?thesis
      unfolding DemoteRaftPeer_def
      by (rule ht_submit) (auto simp: rule leadsIn_Cons evidence_Cons accepted_def IsBenignDemoteError_def intro!: new)
  qed
  show ?case
    unfolding demoteBluePods.simps Let_def
    by (rule ht_attempted [OF demote]; simp only: sum.case; (rule rest)?)
      (rule ht_if, rule ht_pre [OF rest], blast, rule ht_fail, blast)
qed (auto intro!: ht_ret)

section \<open>Transfer\<close>

locale leader_transfer =
  fixes resolveClient :: "string \<Rightarrow> BaoClient act" and waitForLeader :: "string \<Rightarrow> string act"
  assumes resolves: "stable F \<Longrightarrow> ht F (resolveClient url) (\<lambda>c t. F t \<and> clientURL c = url) (\<lambda>_. F)"
    and waits: "finds (waitForLeader url)"
begin

lemma client_leads:
  assumes "stable F"
  shows "ht (\<lambda>t. F t \<and> leadsIn url t) (resolveClient url) (\<lambda>c t. F t \<and> leadsIn (clientURL c) t \<and> clientURL c = url) (\<lambda>_. F)"
  by (rule ht_post [OF resolves]) (auto intro: stability assms)

lemma attempt_transfers:
  assumes "k < 10"
  shows "ht (\<lambda>t. follows (transferRule env cfg) t \<and> stepDowns t \<le> k \<and> leadsIn url t)
     (transferAttempt env cfg resolveClient waitForLeader url)
     (\<lambda>r t. follows (transferRule env cfg) t \<and> (case r of
         Inl c \<Rightarrow> leadsIn (clientURL c) t \<and> (\<exists>config l. lastConfig t = Some (c, config) \<and> leaderIs config l \<and> \<not> blueServer env cfg l)
       | Inr url' \<Rightarrow> stepDowns t \<le> Suc k \<and> leadsIn url' t))
     (\<lambda>_. follows (transferRule env cfg))" (is "ht _ _ ?Q ?E")
proof -
  let ?R = "transferRule env cfg"
  let ?F = "\<lambda>t. follows ?R t \<and> stepDowns t \<le> k"
  let ?K = "\<lambda>c config t. follows ?R t \<and> leadsIn (clientURL c) t \<and> lastConfig t = Some (c, config) \<and> stepDowns t \<le> k"
  have client: "ht (\<lambda>t. follows ?R t \<and> stepDowns t \<le> k \<and> leadsIn url t) (resolveClient url) (\<lambda>c t. ?F t \<and> leadsIn (clientURL c) t) ?E"
    by (rule ht_conseq [OF client_leads [where F = ?F]]) (auto intro: stability)
  have config: "ht (\<lambda>t. ?F t \<and> leadsIn (clientURL c) t) (ReadRaftConfiguration env c) (\<lambda>config. ?K c config) ?E" for c
    by (rule ht_post [OF ht_ReadRaftConfiguration [where F = "\<lambda>t. ?F t \<and> leadsIn (clientURL c) t"]])
      (auto intro: follows_Cons simp: leadsIn_Cons stepDowns_Cons)
  have demote: "ht (?K c config) (DemoteBlueVotersExceptLeader env cfg c config (rsNodeID l)
      (xcName cfg @ ''-'' @ xcBlueRevision cfg @ ''-'')) (\<lambda>_. ?K c config) ?E" if "leaderIs config l" for c config l
    unfolding DemoteBlueVotersExceptLeader_def by (rule ht_demoteBlueVoters [OF that subset_refl])
  have step: "ht (?K c config) (StepDownLeader env c) (\<lambda>_ t. follows ?R t \<and> stepDowns t \<le> Suc k) ?E"
    if "leaderIs config l" "blueServer env cfg l" for c config l
    by (rule ht_post [OF ht_StepDownLeader [where Q = "\<lambda>t. follows ?R t \<and> stepDowns t \<le> Suc k"]])
      (use that assms in \<open>auto intro!: follows_Cons simp: stepDowns_Cons\<close>)
  have wait: "ht (\<lambda>t. follows ?R t \<and> stepDowns t \<le> Suc k) (waitForLeader url)
      (\<lambda>url' t. follows ?R t \<and> stepDowns t \<le> Suc k \<and> leadsIn url' t) ?E"
    by (rule ht_post [OF ht_finds [OF waits]]) (auto intro: stability)
  have inspect: "ht (?K c config) (if leaderID = [] then failwith e
      else if \<not> blue then ret (Inl c)
      else bnd (wrap_err f (DemoteBlueVotersExceptLeader env cfg c config leaderID
              (xcName cfg @ ''-'' @ xcBlueRevision cfg @ ''-''))) (\<lambda>_.
          bnd (StepDownLeader env c) (\<lambda>(classification, err).
          if err \<noteq> None \<and> classification = Fatal then failwith (g err)
          else bnd (wrap_err h (waitForLeader url)) (\<lambda>newLeaderURL. ret (Inr newLeaderURL))))) ?Q ?E"
    if "RaftLeaderInfoForRevision (xHostname env) config cfg = (leaderID, blue)" for c config leaderID blue e f g h
  proof (cases "leaderID = []")
    case False
    from leaderInfo [OF that False] obtain l where l: "leaderIs config l" "leaderID = rsNodeID l" "blue = blueServer env cfg l"
      by blast
    show ?thesis
      unfolding l(2)
      by (intro ht_if ht_fail ht_ret ht_bnd [OF ht_wrap [OF demote [OF l(1)]] ht_bnd [OF step [OF l(1)]]])
        (use l in \<open>auto intro!: ht_if ht_fail ht_bnd [OF ht_wrap [OF wait]] ht_ret split: prod.split\<close>)
  qed (auto intro!: ht_fail)
  show ?thesis
    unfolding transferAttempt_def
    by (rule ht_bnd [OF ht_wrap [OF client]], rule ht_bnd [OF ht_wrap [OF config]], split prod.split,
        intro allI impI, rule inspect, assumption)
qed

lemma attempts_transfer:
  assumes "length attempts + k \<le> 10"
  shows "ht (\<lambda>t. follows (transferRule env cfg) t \<and> stepDowns t \<le> k \<and> leadsIn url t)
     (transferAttempts env cfg resolveClient waitForLeader attempts url)
     (\<lambda>c t. follows (transferRule env cfg) t \<and> leadsIn (clientURL c) t
       \<and> (\<exists>config l. lastConfig t = Some (c, config) \<and> leaderIs config l \<and> \<not> blueServer env cfg l))
     (\<lambda>_. follows (transferRule env cfg))"
  using assms
proof (induction attempts arbitrary: k url)
  case (Cons a attempts)
  then have "k < 10" by simp
  from attempt_transfers [OF this] show ?case
    unfolding transferAttempts.simps
    by (rule ht_bnd) (use Cons in \<open>auto split: sum.split intro!: ht_ret ht_pre [OF Cons.IH [of "Suc k"]]\<close>)
qed (auto intro!: ht_fail)

lemma steps_down:
  assumes "length attempts + k \<le> 10" "\<And>r. finds (findLeader r)"
  shows "ht (\<lambda>t. follows stepDownRule t \<and> stepDowns t \<le> k)
     (stepDownAttempts env cfg findLeader resolveClient waitForLeader attempts)
     (\<lambda>_ t. follows stepDownRule t \<and> (\<exists>c url. handedOver c url t \<and> url \<noteq> clientURL c))
     (\<lambda>_. follows stepDownRule)"
  using assms(1)
proof (induction attempts arbitrary: k)
  case (Cons a attempts)
  let ?F = "\<lambda>k t. follows stepDownRule t \<and> stepDowns t \<le> k"
  let ?E = "\<lambda>_. follows stepDownRule"
  have F: "stable (?F k)" for k by (intro stability)
  have find: "ht (?F k) (findLeader r) (\<lambda>url t. ?F k t \<and> leadsIn url t) ?E" for r
    by (rule ht_post [OF ht_finds [OF assms(2) F]]) auto
  have client: "ht (\<lambda>t. ?F k t \<and> leadsIn url t) (resolveClient url) (\<lambda>c t. ?F k t \<and> leadsIn (clientURL c) t \<and> clientURL c = url) ?E" for url
    by (rule ht_post [OF client_leads [OF F]]) auto
  have step: "ht (\<lambda>t. ?F k t \<and> leadsIn (clientURL c) t \<and> clientURL c = url) (StepDownLeader env c)
      (\<lambda>r t. (?F (Suc k) t \<and> clientURL c = url) \<and> (snd r = None \<longrightarrow> (\<exists>old. t = StepDownE c None # old))) ?E" for c url
    by (rule ht_StepDownLeader) (use Cons.prems in \<open>auto intro!: follows_Cons simp: stepDowns_Cons\<close>)
  have wait: "ht (\<lambda>t. (?F (Suc k) t \<and> clientURL c = url) \<and> (\<exists>old. t = StepDownE c None # old)) (waitForLeader url)
      (\<lambda>url' t. ?F (Suc k) t \<and> handedOver c url' t \<and> clientURL c = url) ?E" for c url
    unfolding ht_def
  proof (intro allI impI)
    fix s assume s: "(?F (Suc k) s \<and> clientURL c = url) \<and> (\<exists>old. s = StepDownE c None # old)"
    have "wp (waitForLeader url) (\<lambda>url' t. searching s t \<and> leadsSince s url' t) (\<lambda>_. searching s) s" by (rule finds_since [OF waits])
    then show "wp (waitForLeader url) (\<lambda>url' t. ?F (Suc k) t \<and> handedOver c url' t \<and> clientURL c = url) ?E s"
      using s by (elim wp_mono) (auto simp: leadsSince_def handedOver_def leadsIn_def dest: stableD [OF F])
  qed
  have rest: "ht (?F (Suc k)) (stepDownAttempts env cfg findLeader resolveClient waitForLeader attempts)
      (\<lambda>_ t. follows stepDownRule t \<and> (\<exists>c url. handedOver c url t \<and> url \<noteq> clientURL c)) ?E"
    by (rule Cons.IH) (use Cons.prems in simp)
  show ?case
    unfolding stepDownAttempts.simps
    by (rule ht_bnd [OF ht_wrap [OF find]], rule ht_bnd [OF client], rule ht_bnd [OF step])
      (auto split: prod.split option.split
        intro!: ht_if ht_ret ht_fail ht_pre [OF rest] ht_pre [OF ht_bnd [OF ht_wrap [OF wait]]])
qed (auto intro!: ht_fail)

end

interpretation podTransfer: leader_transfer "clientForLeaderURL env cfg" "WaitForNewLeaderURL env cfg" for env cfg
  by unfold_locales (auto intro: ht_clientForLeaderURL finds_WaitForNewLeaderURL)

section \<open>The two actions\<close>

lemma ht_RunStepDown:
  "ht (\<lambda>t. follows stepDownRule t \<and> stepDowns t = 0) (RunRollingStepDownLeader env cfg)
     (\<lambda>_ t. follows stepDownRule t \<and> (\<exists>c url. handedOver c url t \<and> url \<noteq> clientURL c)) (\<lambda>_. follows stepDownRule)"
  unfolding RunRollingStepDownLeader_def runRollingStepDownLeaderWithFuncs_def Let_def
  by (rule ht_pre [OF podTransfer.steps_down [where k = 0]])
    (auto simp: NormalizeLeaderTransferRetryPolicy_def finds_FindLeader)

lemma ht_RunDemote:
  "ht (\<lambda>t. follows (transferRule env cfg) t \<and> stepDowns t = 0) (RunBlueGreenDemoteBlueNonVotersStepDown env cfg)
     (\<lambda>_ t. follows (transferRule env cfg) t \<and> (\<exists>c config l. leadsIn (clientURL c) t \<and> lastConfig t = Some (c, config)
       \<and> leaderIs config l \<and> \<not> blueServer env cfg l \<and> (\<forall>i \<in> {0..<blueReplicaCount cfg}. demoted c (bluePod cfg i) t)))
     (\<lambda>_. follows (transferRule env cfg))" (is "ht _ _ ?Q ?E")
proof -
  let ?R = "transferRule env cfg"
  have find: "ht (\<lambda>t. follows ?R t \<and> stepDowns t = 0) (FindInitialLeader env cfg)
      (\<lambda>url t. follows ?R t \<and> stepDowns t \<le> 0 \<and> leadsIn url t) ?E"
  proof -
    have "stable (\<lambda>t. follows ?R t \<and> stepDowns t \<le> 0)" by (intro stability)
    from ht_finds [OF finds_wrap [OF finds_FindPreferred(2)] this] show ?thesis
      unfolding FindInitialLeader_def by (rule ht_conseq) auto
  qed
  have transfer: "ht (\<lambda>t. follows ?R t \<and> stepDowns t \<le> 0 \<and> leadsIn url t) (EnsureGreenLeaderBySteppingDownBlue env cfg url)
      (\<lambda>c t. follows ?R t \<and> leadsIn (clientURL c) t \<and> (\<exists>config l. lastConfig t = Some (c, config) \<and> leaderIs config l \<and> \<not> blueServer env cfg l)) ?E" for url
    unfolding EnsureGreenLeaderBySteppingDownBlue_def EnsureGreenLeaderBySteppingDownBlueWithFuncs_def Let_def
    by (rule podTransfer.attempts_transfer) (simp add: NormalizeLeaderTransferRetryPolicy_def)
  have demote: "ht (\<lambda>t. follows ?R t \<and> leadsIn (clientURL c) t \<and> (\<exists>config l. lastConfig t = Some (c, config) \<and> leaderIs config l \<and> \<not> blueServer env cfg l))
      (DemoteAllBluePods env cfg c) ?Q ?E" for c
  proof -
    have "ht (\<lambda>t. \<exists>config l. (follows ?R t \<and> leadsIn (clientURL c) t \<and> lastConfig t = Some (c, config)) \<and> leaderIs config l \<and> \<not> blueServer env cfg l)
      (DemoteAllBluePods env cfg c) ?Q ?E"
    proof (intro ht_ex)
      fix config l
      show "ht (\<lambda>t. (follows ?R t \<and> leadsIn (clientURL c) t \<and> lastConfig t = Some (c, config)) \<and> leaderIs config l \<and> \<not> blueServer env cfg l)
          (DemoteAllBluePods env cfg c) ?Q ?E"
      proof (rule ht_assume)
        assume l: "leaderIs config l \<and> \<not> blueServer env cfg l"
        then show ?thesis
          unfolding DemoteAllBluePods_def
          by (intro ht_conseq [OF ht_demoteBluePods [where D = "{}", of config l]]) auto
      qed blast
    qed
    then show ?thesis by (rule ht_pre) blast
  qed
  show ?thesis
    unfolding RunBlueGreenDemoteBlueNonVotersStepDown_def
    by (rule ht_bnd [OF find], rule ht_bnd [OF transfer demote])
qed

end
