(* ===== verification/Raft_Runs.thy ===== *)
theory Raft_Runs
  imports Raft_Transfer
begin

text \<open>
  Runs of the upgrade executor (\<open>internal/service/upgrade/executor.go\<close>) from their first request on: every membership change is
  justified by what was observed before it, a run that reports success has made sure of what its action is for, and a run
  under a deadline returns.
\<close>

section \<open>Waiting for Green\<close>

abbreviation readOnly :: "raftTrace \<Rightarrow> bool" where
  "readOnly \<equiv> follows (\<lambda>_ _. False)"

definition greenCaughtUp :: "ExecutorConfig \<Rightarrow> raftTrace \<Rightarrow> bool" where
  "greenCaughtUp cfg tr \<longleftrightarrow> (\<exists>c state old. tr = AutopilotE c (Inr state) # old \<and> leadsIn (clientURL c) old \<and> greenSynced cfg state)"

definition greenPresent :: "ExecutorConfig \<Rightarrow> raftTrace \<Rightarrow> bool" where
  "greenPresent cfg tr \<longleftrightarrow> (\<exists>c config e. lastConfig tr = Some (c, config) \<and> leadsIn (clientURL c) tr
     \<and> AutopilotE c (Inl e) \<in> set tr \<and> errors_is ErrAutopilotNotAvailable e \<and> CountMissingGreenServers cfg config \<le> 0)"

lemma ht_ReadRaftAutopilotState:
  assumes "\<And>r t. F t \<Longrightarrow> F (AutopilotE c r # t)"
  shows "ht F (ReadRaftAutopilotState env c) (\<lambda>_. F) (\<lambda>e t. F t \<and> AutopilotE c (Inl e) \<in> set t)"
  using assms by (auto simp: ht_def ReadRaftAutopilotState_def wps split: sum.split)

lemma ht_prepareGreenSync:
  "ht readOnly (prepareGreenSync env cfg)
     (\<lambda>r t. readOnly t \<and> (case r of None \<Rightarrow> greenPresent cfg t | Some c \<Rightarrow> leadsIn (clientURL c) t)) (\<lambda>_. readOnly)"
proof -
  let ?K = "\<lambda>c t. readOnly t \<and> leadsIn (clientURL c) t"
  have client: "ht (\<lambda>t. readOnly t \<and> leadsIn u t) (clientForLeaderURL env cfg u) (\<lambda>c. ?K c) (\<lambda>_. readOnly)" for u
    by (rule ht_post [OF ht_clientForLeaderURL]) (auto intro: stability)
  have autopilot: "ht (?K c) (ReadRaftAutopilotState env c) (\<lambda>_. ?K c) (\<lambda>e t. ?K c t \<and> AutopilotE c (Inl e) \<in> set t)" for c
    by (rule ht_ReadRaftAutopilotState) (auto intro: follows_Cons leadsIn_Cons)
  have config: "ht (\<lambda>t. readOnly t \<and> leadsIn (clientURL c) t \<and> AutopilotE c (Inl e) \<in> set t) (ReadRaftConfiguration env c)
      (\<lambda>config t. (?K c t \<and> AutopilotE c (Inl e) \<in> set t) \<and> lastConfig t = Some (c, config)) (\<lambda>_. readOnly)" for c e
    by (rule ht_post [OF ht_ReadRaftConfiguration]) (auto intro: follows_Cons leadsIn_Cons)
  show ?thesis
    unfolding prepareGreenSync_def
    by (rule ht_bnd [OF ht_findBlueLeader], rule stability, rule ht_bnd [OF client], rule ht_attempted [OF autopilot])
      (auto intro!: ht_ret ht_if ht_fail ht_bnd [OF ht_wrap [OF config]] simp: greenPresent_def)
qed

lemma reading [simp]:
  "ReadRaftAutopilotState env c tr = (xAutopilot env tr c, AutopilotE c (xAutopilot env tr c) # tr)"
  by (simp add: ReadRaftAutopilotState_def request_def bnd_def observe_def lift_res_def)

lemma pausing [simp]: "pause env d tr = (Inr (xPause env tr d), PauseE d (xPause env tr d) # tr)"
  by (simp add: pause_def observe_def)

lemma awaitGreenSync_sound:
  assumes "awaitGreenSync env cfg c tr = Some (r, tr')" "readOnly tr" "leadsIn (clientURL c) tr"
  shows "readOnly tr' \<and> (r = Inr () \<longrightarrow> greenCaughtUp cfg tr')"
proof -
  let ?P = "\<lambda>env cfg c tr x. readOnly tr \<longrightarrow> leadsIn (clientURL c) tr
     \<longrightarrow> readOnly (snd x) \<and> (fst x = Inr () \<longrightarrow> greenCaughtUp cfg (snd x))"
  have "?P env cfg c tr (r, tr')"
  proof (rule awaitGreenSync.raw_induct [where P = ?P, OF _ assms(1)], intro impI)
    fix f env cfg c tr x
    assume IH: "\<And>env cfg c tr x. f env cfg c tr = Some x \<Longrightarrow> ?P env cfg c tr x"
      and tr: "readOnly tr" "leadsIn (clientURL c) tr"
      and body: "(case ReadRaftAutopilotState env c tr of
          (Inl err, tr) \<Rightarrow> Some (Inl (wrapf ''failed to read raft autopilot state'' err), tr)
        | (Inr state, tr) \<Rightarrow>
            if greenSynced cfg state then Some (Inr (), tr)
            else (case pause env (seconds 2) tr of
                (Inl err, tr) \<Rightarrow> Some (Inl err, tr)
              | (Inr (Some ctxErr), tr) \<Rightarrow> Some (Inl (wrapf ''timed out waiting for Green sync'' ctxErr), tr)
              | (Inr None, tr) \<Rightarrow> f env cfg c tr)) = Some x"
    have more: "readOnly (e # t)" if "\<not> changes e" "readOnly t" for e t using that by (intro follows_Cons) auto
    show "readOnly (snd x) \<and> (fst x = Inr () \<longrightarrow> greenCaughtUp cfg (snd x))"
      using body tr
      by (auto simp: greenCaughtUp_def more leadsIn_Cons split: sum.splits if_splits option.splits dest!: IH)
  qed
  with assms(2,3) show ?thesis by simp
qed

section \<open>What success means\<close>

fun achieved :: "xenv \<Rightarrow> ExecutorConfig \<Rightarrow> ExecutorAction \<Rightarrow> raftTrace \<Rightarrow> bool" where
  "achieved env cfg ActionJoinGreenNonVoters tr \<longleftrightarrow>
     (\<exists>leader. leadsIn leader tr \<and> (\<forall>i \<in> {0..<xcReplicas cfg}. joined (PodURL cfg (xcGreenRevision cfg) i) leader tr))"
| "achieved env cfg ActionWaitGreenSynced tr \<longleftrightarrow> greenCaughtUp cfg tr \<or> greenPresent cfg tr"
| "achieved env cfg ActionPromoteGreenVoters tr \<longleftrightarrow>
     (\<exists>c. leadsIn (clientURL c) tr \<and> (\<forall>i \<in> {0..<xcReplicas cfg}. seenVoter c (greenPod cfg i) tr))"
| "achieved env cfg ActionDemoteBlueNonVotersStepDown tr \<longleftrightarrow>
     (\<exists>c config l. leadsIn (clientURL c) tr \<and> lastConfig tr = Some (c, config) \<and> leaderIs config l \<and> \<not> blueServer env cfg l
       \<and> (\<forall>i \<in> {0..<blueReplicaCount cfg}. demoted c (bluePod cfg i) tr))"
| "achieved env cfg ActionRemoveBluePeers tr \<longleftrightarrow>
     (\<exists>c config. leadsIn (clientURL c) tr \<and> lastConfig tr = Some (c, config)
       \<and> (\<forall>s \<in> set (rcServers config). removable env cfg (xcBlueRevision cfg) s \<longrightarrow> removed c (rsNodeID s) tr))"
| "achieved env cfg ActionRemoveGreenPeers tr \<longleftrightarrow>
     (\<exists>c config. leadsIn (clientURL c) tr \<and> lastConfig tr = Some (c, config)
       \<and> (\<forall>s \<in> set (rcServers config). removable env cfg (xcGreenRevision cfg) s \<longrightarrow> removed c (rsNodeID s) tr))"
| "achieved env cfg ActionRepairConsensus tr \<longleftrightarrow>
     (\<exists>c config. leadsIn (clientURL c) tr \<and> readBy c config tr \<and> blueQuorum env cfg config \<and> blueVoters env cfg c config tr
       \<and> (\<forall>s \<in> set (rcServers config). greenServer env cfg s \<and> rsVoter s \<longrightarrow> demoted c (rsNodeID s) tr))"
| "achieved env cfg ActionRollingStepDownLeader tr \<longleftrightarrow> (\<exists>c url. handedOver c url tr \<and> url \<noteq> clientURL c)"

lemma ht_run:
  assumes "ht P m (\<lambda>_ t. follows R t \<and> A t) (\<lambda>_. follows R)" "P tr" "m tr = (r, tr')"
  shows "follows R tr' \<and> (r = Inr () \<longrightarrow> A tr')"
  using htD [OF assms(1,2)] assms(3) by (cases r) (auto simp: wp_def)

lemma RunExecutor_action:
  "xcAction cfg = actionString act \<Longrightarrow> RunExecutor env cfg tr = (case act of
      ActionJoinGreenNonVoters \<Rightarrow> Some (RunBlueGreenJoinGreenNonVoters env cfg tr)
    | ActionWaitGreenSynced \<Rightarrow> RunBlueGreenWaitGreenSynced env cfg tr
    | ActionPromoteGreenVoters \<Rightarrow> Some (RunBlueGreenPromoteGreenVoters env cfg tr)
    | ActionDemoteBlueNonVotersStepDown \<Rightarrow> Some (RunBlueGreenDemoteBlueNonVotersStepDown env cfg tr)
    | ActionRemoveBluePeers \<Rightarrow> Some (RunBlueGreenRemoveBluePeers env cfg tr)
    | ActionRemoveGreenPeers \<Rightarrow> Some (RunBlueGreenRemoveGreenPeers env cfg tr)
    | ActionRepairConsensus \<Rightarrow> Some (RunBlueGreenRepairConsensus env cfg tr)
    | ActionRollingStepDownLeader \<Rightarrow> Some (RunRollingStepDownLeader env cfg tr))"
  by (cases act) (simp_all add: RunExecutor_def)

lemma follows_Nil [simp]: "follows R []"
  by (simp add: follows_def)

lemma RunExecutor_sound:
  assumes act: "xcAction cfg = actionString act" and run: "RunExecutor env cfg [] = Some (r, tr)"
  shows "follows (membershipRule env cfg act) tr \<and> (r = Inr () \<longrightarrow> achieved env cfg act tr)"
proof (cases act)
  case ActionWaitGreenSynced
  obtain p t where p: "prepareGreenSync env cfg [] = (p, t)" by fastforce
  have pre: "wp (prepareGreenSync env cfg) (\<lambda>r t. readOnly t \<and> (case r of None \<Rightarrow> greenPresent cfg t
      | Some c \<Rightarrow> leadsIn (clientURL c) t)) (\<lambda>_. readOnly) []"
    by (rule htD [OF ht_prepareGreenSync]) simp
  show ?thesis
    using run pre p awaitGreenSync_sound [of env cfg _ t r tr]
    by (auto simp: ActionWaitGreenSynced RunExecutor_action [OF act] RunBlueGreenWaitGreenSynced_def wp_def
        split: sum.splits option.splits)
next
  case ActionJoinGreenNonVoters
  with run show ?thesis
    using ht_run [OF ht_RunJoin, of cfg "[]" env r tr] by (simp add: RunExecutor_action [OF act])
next
  case ActionPromoteGreenVoters
  with run show ?thesis
    using ht_run [OF ht_RunPromote, of cfg "[]" env r tr] by (simp add: RunExecutor_action [OF act])
next
  case ActionDemoteBlueNonVotersStepDown
  with run show ?thesis
    using ht_run [OF ht_RunDemote, of env cfg "[]" r tr] by (simp add: RunExecutor_action [OF act] stepDowns_def)
next
  case ActionRemoveBluePeers
  with run show ?thesis
    using ht_run [OF ht_RunRemove [of env cfg "xcBlueRevision cfg" "xcGreenRevision cfg" "xcBlueRevision cfg"], of "[]" r tr]
    by (simp add: RunExecutor_action [OF act] RunBlueGreenRemoveBluePeers_def)
next
  case ActionRemoveGreenPeers
  with run show ?thesis
    using ht_run [OF ht_RunRemove [of env cfg "xcGreenRevision cfg" "xcBlueRevision cfg" "xcGreenRevision cfg"], of "[]" r tr]
    by (simp add: RunExecutor_action [OF act] RunBlueGreenRemoveGreenPeers_def)
next
  case ActionRepairConsensus
  with run show ?thesis
    using ht_run [OF ht_RunRepair, of env cfg "[]" r tr] by (simp add: RunExecutor_action [OF act])
next
  case ActionRollingStepDownLeader
  with run show ?thesis
    using ht_run [OF ht_RunStepDown, of "[]" env cfg r tr] by (simp add: RunExecutor_action [OF act] stepDowns_def)
qed

section \<open>Returning\<close>

text \<open>The time the run has spent in pauses that ended because their timer fired.\<close>

fun slept :: "raftTrace \<Rightarrow> int" where
  "slept [] = 0"
| "slept (PauseE d None # tr) = d + slept tr"
| "slept (_ # tr) = slept tr"

text \<open>
  The context of the run expires after \<open>xcTimeout\<close> (\<open>context.WithTimeout\<close> in \<open>RunExecutor\<close>), and a request under an expired context
  fails.
\<close>

definition deadline :: "xenv \<Rightarrow> int \<Rightarrow> bool" where
  "deadline env timeout \<longleftrightarrow> (\<forall>tr c. timeout \<le> slept tr \<longrightarrow> (\<exists>e. xAutopilot env tr c = Inl e))"

lemma awaitGreenSync_returns:
  assumes "deadline env timeout" shows "\<exists>r. awaitGreenSync env cfg c tr = Some r"
proof (induction "nat (timeout - slept tr)" arbitrary: tr rule: less_induct)
  case less
  show ?case
  proof (cases "timeout \<le> slept tr")
    case True
    with assms obtain e where "xAutopilot env tr c = Inl e" unfolding deadline_def by blast
    then show ?thesis by (subst awaitGreenSync.simps) simp
  next
    case False
    let ?t = "PauseE (seconds 2) None # AutopilotE c (xAutopilot env tr c) # tr"
    have "nat (timeout - slept ?t) < nat (timeout - slept tr)" using False by (cases "xAutopilot env tr c") auto
    from less [OF this] show ?thesis
      by (subst awaitGreenSync.simps) (auto split: sum.split option.split)
  qed
qed

section \<open>Pod names and revisions\<close>

lemma hyphen_free: "CHR ''-'' \<notin> set (nat_str n)"
  using nat_str_digits [of n] by (auto simp: list_all_iff is_digit_def)

lemma hyphen_split:
  assumes "CHR ''-'' \<notin> set x" "CHR ''-'' \<notin> set y" "a @ CHR ''-'' # x = b @ CHR ''-'' # y" shows "a = b \<and> x = y"
  using assms by (auto simp: append_eq_append_conv2 append_eq_Cons_conv Cons_eq_append_conv)

lemma RevisionPodName_inj:
  assumes "0 \<le> i" "0 \<le> j" "RevisionPodName n r i = RevisionPodName n r' j" shows "r = r' \<and> i = j"
proof -
  have ij: "int_str i = nat_str (nat i)" "int_str j = nat_str (nat j)" using assms(1,2) by (simp_all add: int_str_def)
  have free: "nat_str m \<noteq> u @ CHR ''-'' # v" for m u v using hyphen_free [of m] by (metis in_set_conv_decomp)
  then have free': "u @ CHR ''-'' # v \<noteq> nat_str m" for m u v by metis
  have "nat i = nat j \<longleftrightarrow> i = j" using assms(1,2) by linarith
  then have split: "r @ CHR ''-'' # int_str i = r' @ CHR ''-'' # int_str j \<Longrightarrow> r = r' \<and> i = j"
    using hyphen_split [OF hyphen_free hyphen_free, of r "nat i" r' "nat j"] by (simp add: ij)
  show ?thesis
  proof (cases "r = [] \<longleftrightarrow> r' = []")
    case True
    then show ?thesis
      using assms(3) split \<open>nat i = nat j \<longleftrightarrow> i = j\<close> by (cases "r = []") (simp_all add: RevisionPodName_def ij)
  next
    case False
    then show ?thesis
      using assms(3) by (auto simp: RevisionPodName_def ij free free')
  qed
qed

section \<open>Replication of Green\<close>

definition greenDelta :: "ExecutorConfig \<Rightarrow> AutopilotState \<Rightarrow> 64 word \<Rightarrow> int \<Rightarrow> nat" where
  "greenDelta cfg state target i = (case FindAutopilotServerForPod state (greenPod cfg i) of
      None \<Rightarrow> 0 | Some server \<Rightarrow> unat target - unat (asLastIndex server))"

definition greenWithin :: "ExecutorConfig \<Rightarrow> AutopilotState \<Rightarrow> 64 word \<Rightarrow> int \<Rightarrow> bool" where
  "greenWithin cfg state target i \<longleftrightarrow> FindAutopilotServerForPod state (greenPod cfg i) \<noteq> None
     \<and> greenDelta cfg state target i \<le> unat (xcSyncThreshold cfg)"

lemma delta_word:
  fixes a b :: "64 word"
  shows "unat (if a > b then a - b else 0) = unat a - unat b"
  by (auto simp: word_less_nat_alt unat_sub_if')

lemma evaluateGreenPod_step:
  "geAllSynced (evaluateGreenPod cfg state target i ev) \<longleftrightarrow> geAllSynced ev \<and> greenWithin cfg state target i"
  "unat (geMaxDelta (evaluateGreenPod cfg state target i ev)) = max (unat (geMaxDelta ev)) (greenDelta cfg state target i)"
  using delta_word [of "asLastIndex s" target for s]
  by (auto simp: evaluateGreenPod_def greenWithin_def greenDelta_def Let_def word_less_nat_alt unat_sub_if' max_def
      split: option.split)

lemma evaluateGreenPods:
  "geAllSynced (fold (evaluateGreenPod cfg state target) is ev) \<longleftrightarrow>
     geAllSynced ev \<and> list_all (greenWithin cfg state target) is"
  "unat (geMaxDelta (fold (evaluateGreenPod cfg state target) is ev)) =
     fold max (map (greenDelta cfg state target) is) (unat (geMaxDelta ev))"
  by (induction "is" arbitrary: ev) (auto simp: evaluateGreenPod_step max.commute)

end
