(* ===== verification/Raft_Properties.thy ===== *)
theory Raft_Properties
  imports Raft_Runs
begin

text \<open>
  The properties of the upgrade executor, with a concrete two-node cluster in the middle of a rollback for their
  witnesses: Blue has one voter and one non-voter, both Green Pods are voters.
\<close>

section \<open>An example\<close>

definition exampleConfig :: "ExecutorAction \<Rightarrow> ExecutorConfig" where
  "exampleConfig act = \<lparr> xcNamespace = ''ns'', xcName = ''bao'', xcReplicas = 2, xcBlueReplicas = 2, xcAction = actionString act,
     xcJWTAuthRole = ''upgrade'', xcJWTAuthStrategy = ''inline'', xcJWTToken = ''jwt'', xcBlueRevision = ''b'',
     xcGreenRevision = ''g'', xcSyncThreshold = 100, xcTimeout = seconds 600, xcTLSCACert = [], xcTLSServerName = [],
     xcClientQPS = 0, xcClientBurst = 0, xcClientFailureThreshold = 0, xcClientOpenDuration = 0 \<rparr>"

definition exampleServer :: "string \<Rightarrow> bool \<Rightarrow> bool \<Rightarrow> RaftServerEntry" where
  "exampleServer name leader voter =
     \<lparr> rsNodeID = name, rsAddress = name @ ''.bao.ns.svc:8201'', rsLeader = leader, rsVoter = voter \<rparr>"

fun isPromotion :: "raftEvent \<Rightarrow> bool" where
  "isPromotion (PromoteE _ _ _) = True"
| "isPromotion _ = False"

definition exampleServers :: "raftTrace \<Rightarrow> RaftConfiguration" where
  "exampleServers tr = \<lparr> rcServers = [exampleServer ''bao-b-0'' True True, exampleServer ''bao-b-1'' False (list_ex isPromotion tr),
     exampleServer ''bao-g-0'' False True, exampleServer ''bao-g-1'' False True] \<rparr>"

text \<open>The host name of an address \<open>tcp://host:port\<close>.\<close>

definition exampleHostname :: "string \<Rightarrow> string option" where
  "exampleHostname address = Some (takeWhile (\<lambda>ch. ch \<noteq> CHR '':'') (drop 6 address))"

definition executorEnv :: xenv where
  "executorEnv = \<lparr> xNew = (\<lambda>tr url. None), xLogin = (\<lambda>tr url role jwt. Inr ''token''),
     xLeader = (\<lambda>tr url. Inr (url = ''https://bao-b-0.bao.ns.svc:8200'')), xConfig = (\<lambda>tr c. Inr (exampleServers tr)),
     xAutopilot = (\<lambda>tr c. if slept tr \<ge> seconds 600 then Inl (Sentinel ErrDeadlineExceeded)
       else Inr \<lparr> apServers = [], apLeader = [] \<rparr>),
     xJoin = (\<lambda>tr c leader. None), xPromote = (\<lambda>tr c i. None), xDemote = (\<lambda>tr c i. None), xRemove = (\<lambda>tr c i. None),
     xStepDown = (\<lambda>tr c. None), xPause = (\<lambda>tr d. None), xTick = (\<lambda>tr. None), xCtxErr = (\<lambda>tr. None),
     xHostname = exampleHostname \<rparr>"

definition repairTrace :: raftTrace where
  "repairTrace = snd (RunBlueGreenRepairConsensus executorEnv (exampleConfig ActionRepairConsensus) [])"

definition removeTrace :: raftTrace where
  "removeTrace = snd (RunBlueGreenRemoveGreenPeers executorEnv (exampleConfig ActionRemoveGreenPeers) [])"

lemma exampleConfig_action [simp]: "xcAction (exampleConfig act) = actionString act"
  by (simp add: exampleConfig_def)

lemma repair_run: "RunExecutor executorEnv (exampleConfig ActionRepairConsensus) [] = Some (Inr (), repairTrace)"
proof -
  have "fst (RunBlueGreenRepairConsensus executorEnv (exampleConfig ActionRepairConsensus) []) = Inr ()" by code_simp
  then show ?thesis
    by (simp add: RunExecutor_action [OF exampleConfig_action] repairTrace_def prod_eq_iff)
qed

lemma remove_run: "RunExecutor executorEnv (exampleConfig ActionRemoveGreenPeers) [] = Some (Inr (), removeTrace)"
proof -
  have "fst (RunBlueGreenRemoveGreenPeers executorEnv (exampleConfig ActionRemoveGreenPeers) []) = Inr ()" by code_simp
  then show ?thesis
    by (simp add: RunExecutor_action [OF exampleConfig_action] removeTrace_def prod_eq_iff)
qed

text \<open>A server that is listed under the first label of its address.\<close>

definition consistentServer :: "xenv \<Rightarrow> RaftServerEntry \<Rightarrow> bool" where
  "consistentServer env s \<longleftrightarrow>
     (case xHostname env (if contains (rsAddress s) ''://'' then rsAddress s else ''tcp://'' @ rsAddress s) of
        None \<Rightarrow> False | Some h \<Rightarrow> takeWhile (\<lambda>ch. ch \<noteq> CHR ''.'') h = rsNodeID s)"

lemma lastConfig_member: "lastConfig tr = Some (c, config) \<Longrightarrow> ConfigE c (Inr config) \<in> set tr"
  by (induction tr rule: lastConfig.induct) auto

lemma removable_consistent:
  assumes "removable env cfg revision s" "consistentServer env s"
  shows "\<exists>k. 0 \<le> k \<and> rsNodeID s = RevisionPodName (xcName cfg) revision k"
proof -
  have "\<exists>k \<in> {0..<n}. rsNodeID s = RevisionPodName (xcName cfg) revision k"
    if "RaftServerMatchesRevision (xHostname env) (rsNodeID s) (rsAddress s) (xcName cfg) revision n" for n
    using that assms(2) unfolding RaftServerMatchesRevision_def Let_def list_ex_iff set_ReplicaOrdinals consistentServer_def
    by (cases "xHostname env (if contains (rsAddress s) ''://'' then rsAddress s else ''tcp://'' @ rsAddress s)") auto
  from this [OF assms(1) [unfolded removable_def Let_def]] show ?thesis by (auto split: if_splits)
qed

text \<open>All Green Pods but one are listed, each under its name and host name; that one is not listed at all.\<close>

definition listsGreenExcept :: "ExecutorConfig \<Rightarrow> RaftConfiguration \<Rightarrow> int \<Rightarrow> bool" where
  "listsGreenExcept cfg config i \<longleftrightarrow>
     (\<forall>k\<in>{0..<xcReplicas cfg}. k \<noteq> i \<longrightarrow> (\<exists>s\<in>set (rcServers config).
        rsNodeID s = RevisionPodName (xcName cfg) (xcGreenRevision cfg) k
        \<and> has_prefix (rsAddress s) (RevisionPodName (xcName cfg) (xcGreenRevision cfg) k @ ''.'')))
     \<and> (\<forall>s\<in>set (rcServers config). rsNodeID s \<noteq> RevisionPodName (xcName cfg) (xcGreenRevision cfg) i
        \<and> \<not> has_prefix (rsAddress s) (RevisionPodName (xcName cfg) (xcGreenRevision cfg) i @ ''.''))"

lemma RevisionPodName_tenfold:
  assumes "1 \<le> i" shows "RevisionPodName c r (10 * i) = RevisionPodName c r i @ ''0''"
proof -
  have "nat (10 * i) = 10 * nat i" "0 < nat i" using assms by auto
  moreover have "digit_char 0 = CHR ''0''" by code_simp
  ultimately have "int_str (10 * i) = int_str i @ ''0''"
    using assms nat_str.simps [of "10 * nat i"] by (simp add: int_str_def)
  then show ?thesis by (simp add: RevisionPodName_def)
qed

lemma has_prefix_contains: "has_prefix s (p @ q) \<Longrightarrow> contains s p"
proof -
  assume "has_prefix s (p @ q)"
  then have "take (length p) s = p" by (metis append_eq_conv_conj has_prefix_def take_take min.absorb1 length_append le_add1)
  then show ?thesis by (subst contains.simps) (simp add: has_prefix_def)
qed

definition elevenPods :: ExecutorConfig where
  "elevenPods = (exampleConfig ActionWaitGreenSynced)\<lparr> xcReplicas := 11 \<rparr>"

definition elevenWithoutSecond :: RaftConfiguration where
  "elevenWithoutSecond = \<lparr> rcServers = map (\<lambda>i. exampleServer (RevisionPodName ''bao'' ''g'' i) False False)
     [0, 2, 3, 4, 5, 6, 7, 8, 9, 10] \<rparr>"

section \<open>Properties\<close>

text \<open>
  C11: every change of the Raft membership is justified by what the executor observed before it asked for it.  Whatever
  the nodes answer and whenever they change their answers, for every request of a run that changes the cluster: the node it is sent to
  (or, for a join, the leader it names) said in this run that it leads; Green joins as non-voter only; a hand-over demotes only Blue peers, never the
  leader of the configuration read last, asks only a Blue leader to step down, and at most ten times; a removal names a
  server of the configuration read last that belongs to the revision being removed; a consensus repair changes nothing unless a
  configuration with a quorum of Blue peers was read, and demotes a Green voter only after every Blue peer of it was
  seen as a voter; waiting for Green changes nothing.
\<close>

theorem executor_changes_justified:
  assumes "xcAction cfg = actionString act" and "RunExecutor env cfg [] = Some (r, new @ e # old)" and "changes e"
  shows "membershipRule env cfg act e old"
proof -
  have "follows (membershipRule env cfg act) (new @ e # old)" using RunExecutor_sound [OF assms(1,2)] by blast
  from extends_at [OF this [unfolded follows_def] refl] assms(3) show ?thesis by simp
qed

theorem executor_changes_justified_witness:
  "changes (hd repairTrace)
   \<and> membershipRule executorEnv (exampleConfig ActionRepairConsensus) ActionRepairConsensus (hd repairTrace) (tl repairTrace)"
proof -
  have c: "changes (hd repairTrace)" by code_simp
  have "repairTrace \<noteq> []" by code_simp
  then have "RunExecutor executorEnv (exampleConfig ActionRepairConsensus) [] = Some (Inr (), [] @ hd repairTrace # tl repairTrace)"
    using repair_run by simp
  from executor_changes_justified [OF exampleConfig_action this c] c show ?thesis by blast
qed



text \<open>
  C15: the executor returns.  Under a deadline (once the pauses of the run add up to the timeout, requests fail) every action
  ends with a result, also when Green never catches up.
\<close>

theorem executor_returns:
  assumes "deadline env (xcTimeout cfg)" shows "\<exists>r tr'. RunExecutor env cfg tr = Some (r, tr')"
proof -
  have "\<exists>x. RunBlueGreenWaitGreenSynced env cfg tr = Some x"
    using awaitGreenSync_returns [OF assms]
    by (auto simp: RunBlueGreenWaitGreenSynced_def split: prod.split sum.split option.split)
  then show ?thesis by (auto simp: RunExecutor_def)
qed

theorem executor_returns_witness:
  "\<exists>r tr'. RunExecutor executorEnv (exampleConfig ActionWaitGreenSynced) [] = Some (r, tr')"
proof -
  have "deadline executorEnv (xcTimeout (exampleConfig ActionWaitGreenSynced))"
    by (auto simp: deadline_def executorEnv_def exampleConfig_def)
  then show ?thesis by (rule executor_returns)
qed


text \<open>
  C28: removing the peers of one revision spares the other.  If every server of the configurations read in the run is listed under
  the identity that is the first label of its address, then no removal that a run of either removal action asks for names
  a Pod of the revision that stays.
\<close>

theorem removal_spares_other_revision:
  assumes "xcBlueRevision cfg \<noteq> xcGreenRevision cfg"
    and "act = ActionRemoveBluePeers \<and> stays = xcGreenRevision cfg \<or> act = ActionRemoveGreenPeers \<and> stays = xcBlueRevision cfg"
    and "xcAction cfg = actionString act" and "RunExecutor env cfg [] = Some (r, tr)"
    and "\<And>c config. ConfigE c (Inr config) \<in> set tr \<Longrightarrow> list_all (consistentServer env) (rcServers config)"
    and "RemoveE c serverID res \<in> set tr" and "0 \<le> i"
  shows "serverID \<noteq> RevisionPodName (xcName cfg) stays i"
proof -
  from assms(6) obtain new old where tr: "tr = new @ RemoveE c serverID res # old" by (meson split_list)
  have f: "follows (membershipRule env cfg act) tr" using RunExecutor_sound [OF assms(3,4)] by blast
  from extends_at [OF this [unfolded follows_def] tr] assms(2)
  obtain config s gone where read: "lastConfig old = Some (c, config)" and s: "s \<in> set (rcServers config)" "rsNodeID s = serverID"
    and gone: "removable env cfg gone s" "gone \<noteq> stays"
    using assms(1) by auto
  have "ConfigE c (Inr config) \<in> set tr" using lastConfig_member [OF read] by (simp add: tr)
  with assms(5) s(1) have "consistentServer env s" by (auto simp: list_all_iff)
  from removable_consistent [OF gone(1) this] obtain k where "0 \<le> k" "rsNodeID s = RevisionPodName (xcName cfg) gone k" by blast
  with RevisionPodName_inj [OF this(1) assms(7)] gone(2) s(2) show ?thesis by metis
qed

theorem removal_spares_other_revision_witness:
  "RemoveE (WithInlineJWT ''https://bao-b-0.bao.ns.svc:8200'' ''upgrade'' ''jwt'') ''bao-g-1'' None \<in> set removeTrace
   \<and> ''bao-g-1'' \<noteq> RevisionPodName ''bao'' ''b'' 1"
proof -
  have e: "RemoveE (WithInlineJWT ''https://bao-b-0.bao.ns.svc:8200'' ''upgrade'' ''jwt'') ''bao-g-1'' None \<in> set removeTrace"
    by code_simp
  have "list_all (\<lambda>e. case e of ConfigE c (Inr config) \<Rightarrow> list_all (consistentServer executorEnv) (rcServers config) | _ \<Rightarrow> True) removeTrace"
    by code_simp
  then have c: "ConfigE c (Inr config) \<in> set removeTrace \<Longrightarrow> list_all (consistentServer executorEnv) (rcServers config)" for c config
    by (auto simp: list_all_iff)
  have n: "xcName (exampleConfig ActionRemoveGreenPeers) = ''bao''" "xcBlueRevision (exampleConfig ActionRemoveGreenPeers) = ''b''"
    "xcBlueRevision (exampleConfig ActionRemoveGreenPeers) \<noteq> xcGreenRevision (exampleConfig ActionRemoveGreenPeers)"
    by (simp_all add: exampleConfig_def)
  have "''bao-g-1'' \<noteq> RevisionPodName (xcName (exampleConfig ActionRemoveGreenPeers)) ''b'' 1"
    by (rule removal_spares_other_revision [OF n(3) _ exampleConfig_action remove_run _ e]) (use c n in auto)
  with e n
  show ?thesis by simp
qed

text \<open>
  C39: the presence check of Green takes an absent Pod for present.  It looks for the Pod's name anywhere in a server's address, and the
  name of Pod \<open>i\<close> is the beginning of the name of Pod \<open>10 * i\<close>.  So for every cluster with more than ten Green Pods, every ordinal \<open>i\<close>
  from one on with \<open>10 * i\<close> among them, and every Raft configuration that lists all Green Pods but \<open>i\<close> under their names and host
  names, with no server of the name or host name of Pod \<open>i\<close>, the number of missing Green servers is counted as zero.
\<close>

theorem absent_green_pod_not_missed:
  assumes "1 \<le> i" and "10 * i < xcReplicas cfg" and "listsGreenExcept cfg config i"
  shows "CountMissingGreenServers cfg config = 0"
proof -
  let ?green = "RevisionPodName (xcName cfg) (xcGreenRevision cfg)"
  have listed: "\<exists>s\<in>set (rcServers config). rsNodeID s = ?green k \<and> has_prefix (rsAddress s) (?green k @ ''.'')"
    if "k \<in> {0..<xcReplicas cfg}" "k \<noteq> i" for k
    using assms(3) that by (simp add: listsGreenExcept_def)
  have "\<exists>s\<in>set (rcServers config). rsNodeID s = ?green k \<or> contains (rsAddress s) (?green k)" if "k \<in> {0..<xcReplicas cfg}" for k
  proof (cases "k = i")
    case True
    obtain s where s: "s \<in> set (rcServers config)" "has_prefix (rsAddress s) (?green (10 * i) @ ''.'')"
      using listed [of "10 * i"] assms(1,2) by auto
    have "?green (10 * i) @ ''.'' = ?green i @ ''0.''" using RevisionPodName_tenfold [OF assms(1)] by simp
    then have "contains (rsAddress s) (?green i)" using s(2) has_prefix_contains by metis
    with s(1) True show ?thesis by blast
  qed (use listed that in blast)
  then show ?thesis by (simp add: CountMissingGreenServers_def Let_def filter_empty_conv list_ex_iff)
qed

theorem absent_green_pod_not_missed_witness:
  "CountMissingGreenServers elevenPods elevenWithoutSecond = 0
   \<and> list_all (\<lambda>s. rsNodeID s \<noteq> RevisionPodName (xcName elevenPods) (xcGreenRevision elevenPods) 1) (rcServers elevenWithoutSecond)"
proof -
  have "listsGreenExcept elevenPods elevenWithoutSecond 1"
    unfolding listsGreenExcept_def by code_simp
  moreover have "(1::int) \<le> 1" "10 * 1 < xcReplicas elevenPods" by code_simp+
  ultimately show ?thesis
    using absent_green_pod_not_missed [of 1 elevenPods elevenWithoutSecond] by (simp add: listsGreenExcept_def list_all_iff)
qed

end
