(* ===== verification/Executor_Config.thy ===== *)
theory Executor_Config
  imports Raft_Types
begin

text \<open>
  How the configuration travels from the upgrade manager to the executor: the manager writes it into the environment of the
  Job's container (\<open>internal/service/upgrade/job_builder.go\<close>, \<open>buildUpgradeExecutorEnv\<close>), and the executor reads it back
  (\<open>raftops/config.go\<close>, \<open>LoadExecutorConfig\<close>) and validates it.  The process environment, the mounted files and Go's
  printers and parsers of floating point numbers and durations are arguments.
\<close>

section \<open>Writing\<close>

record ClientSettings =
  csJWTAuthStrategy :: string
  csRateLimitQPS :: real
  csRateLimitBurst :: int
  csFailureThreshold :: int
  csOpenDuration :: int

record goFormat =
  fmtFloat :: "real \<Rightarrow> string"
  fmtDuration :: "int \<Rightarrow> string"
  parseFloat :: "string \<Rightarrow> go_error + real"
  parseDuration :: "string \<Rightarrow> go_error + int"

definition buildUpgradeExecutorEnv ::
    "goFormat \<Rightarrow> Cluster \<Rightarrow> ExecutorAction \<Rightarrow> string \<Rightarrow> string \<Rightarrow> string \<Rightarrow> ClientSettings \<Rightarrow> string \<Rightarrow> bool
      \<Rightarrow> (string \<times> string) list" where
  "buildUpgradeExecutorEnv go cluster action jwtRole blueRevision greenRevision clientConfig tlsServerName useSystemRoots =
     [(''CLUSTER_NAMESPACE'', clNamespace cluster), (''CLUSTER_NAME'', clName cluster),
      (''CLUSTER_REPLICAS'', int_str (BlueGreenTargetReplicas cluster)), (''UPGRADE_ACTION'', actionString action),
      (''UPGRADE_JWT_AUTH_ROLE'', jwtRole),
      (''OPENBAO_JWT_AUTH_STRATEGY'', NormalizeJWTAuthStrategyOrDefault (csJWTAuthStrategy clientConfig))]
     @ (if tlsServerName \<noteq> [] then [(''TLS_SERVER_NAME'', tlsServerName)] else [])
     @ (if \<not> useSystemRoots then [(''TLS_CA_PATH'', ''/etc/bao/tls/ca.crt'')] else [])
     @ (case blueGreen cluster of None \<Rightarrow> []
        | Some b \<Rightarrow> if bgPhase b \<noteq> PhaseIdle \<and> bgBlueReplicas b > 0
            then [(''UPGRADE_BLUE_REPLICAS'', int_str (bgBlueReplicas b))] else [])
     @ (if blueRevision \<noteq> [] then [(''UPGRADE_BLUE_REVISION'', blueRevision)] else [])
     @ (if greenRevision \<noteq> [] then [(''UPGRADE_GREEN_REVISION'', greenRevision)] else [])
     @ (if csRateLimitQPS clientConfig > 0 then [(''OPENBAO_CLIENT_QPS'', fmtFloat go (csRateLimitQPS clientConfig))] else [])
     @ (if csRateLimitBurst clientConfig > 0 then [(''OPENBAO_CLIENT_BURST'', int_str (csRateLimitBurst clientConfig))] else [])
     @ (if csFailureThreshold clientConfig > 0
        then [(''OPENBAO_CLIENT_CB_FAILURE_THRESHOLD'', int_str (csFailureThreshold clientConfig))] else [])
     @ (if csOpenDuration clientConfig > 0
        then [(''OPENBAO_CLIENT_CB_OPEN_DURATION'', fmtDuration go (csOpenDuration clientConfig))] else [])"

section \<open>Reading\<close>

text \<open>\<open>strconv.ParseInt(s, 10, 32)\<close>\<close>

definition parseInt32 :: "string \<Rightarrow> int option" where
  "parseInt32 s = (case atoi s of None \<Rightarrow> None | Some v \<Rightarrow> if - (2 ^ 31) \<le> v \<and> v < 2 ^ 31 then Some v else None)"

record process =
  osEnviron :: "(string \<times> string) list"
  osReadFile :: "string \<Rightarrow> go_error + string"
  osIsNotExist :: "go_error \<Rightarrow> bool"

definition getenv :: "process \<Rightarrow> string \<Rightarrow> string" where
  "getenv os key = (case map_of (osEnviron os) key of None \<Rightarrow> [] | Some v \<Rightarrow> trim_space v)"

text \<open>A required variable, and one that is parsed only when it is set.\<close>

definition required :: "process \<Rightarrow> string \<Rightarrow> go_error + string" where
  "required os key = (if getenv os key = [] then Inl (errorf (key @ '' environment variable is required'')) else Inr (getenv os key))"

definition optional :: "process \<Rightarrow> string \<Rightarrow> (string \<Rightarrow> 'a option) \<Rightarrow> 'a \<Rightarrow> go_error + 'a" where
  "optional os key parse dflt =
     (if getenv os key = [] then Inr dflt
      else case parse (getenv os key) of None \<Rightarrow> Inl (errorf (''invalid '' @ key @ '' value'')) | Some v \<Rightarrow> Inr v)"

definition from_sum :: "go_error + 'a \<Rightarrow> 'a option" where
  "from_sum r = (case r of Inl _ \<Rightarrow> None | Inr v \<Rightarrow> Some v)"

definition loadCACert :: "process \<Rightarrow> go_error + string" where
  "loadCACert os = (case map_of (osEnviron os) ''TLS_CA_PATH'' of
      Some envPath \<Rightarrow>
        if trim_space envPath = [] then Inr []
        else (case osReadFile os (trim_space envPath) of
            Inl err \<Rightarrow> Inl (wrapf ''failed to read TLS CA certificate'' err) | Inr caCert \<Rightarrow> Inr caCert)
    | None \<Rightarrow> (case osReadFile os ''/etc/bao/tls/ca.crt'' of
          Inr caCert \<Rightarrow> Inr caCert
        | Inl err \<Rightarrow> if osIsNotExist os err then Inr [] else Inl (wrapf ''failed to read TLS CA certificate'' err)))"

definition loadJWTToken :: "process \<Rightarrow> go_error + string" where
  "loadJWTToken os =
     (let jwtTokenPath = (if getenv os ''JWT_TOKEN_PATH'' \<noteq> [] then getenv os ''JWT_TOKEN_PATH''
            else ''/var/run/secrets/tokens/openbao-token'')
      in case osReadFile os jwtTokenPath of
           Inl err \<Rightarrow> Inl (wrapf ''failed to read JWT token'' err) | Inr jwtToken \<Rightarrow> Inr (trim_space jwtToken))"

definition positiveInt32 :: "string \<Rightarrow> int option" where
  "positiveInt32 s = (case parseInt32 s of None \<Rightarrow> None | Some v \<Rightarrow> if v \<le> 0 then None else Some v)"

definition and_then :: "go_error + 'a \<Rightarrow> ('a \<Rightarrow> go_error + 'b) \<Rightarrow> go_error + 'b" where
  "and_then r k = (case r of Inl err \<Rightarrow> Inl err | Inr v \<Rightarrow> k v)"

definition LoadExecutorConfig :: "goFormat \<Rightarrow> process \<Rightarrow> go_error + ExecutorConfig" where
  "LoadExecutorConfig go os =
     and_then (required os ''CLUSTER_NAMESPACE'') (\<lambda>namespace.
     and_then (required os ''CLUSTER_NAME'') (\<lambda>name.
     and_then (required os ''CLUSTER_REPLICAS'') (\<lambda>replicasStr.
     and_then (case parseInt32 replicasStr of None \<Rightarrow> Inl (errorf ''invalid CLUSTER_REPLICAS value'') | Some v \<Rightarrow> Inr v) (\<lambda>replicas.
     and_then (optional os ''UPGRADE_BLUE_REPLICAS'' positiveInt32 0) (\<lambda>blueReplicas.
     and_then (required os ''UPGRADE_ACTION'') (\<lambda>action.
     and_then (required os ''UPGRADE_JWT_AUTH_ROLE'') (\<lambda>role.
     and_then (case NormalizeJWTAuthStrategy (getenv os ''OPENBAO_JWT_AUTH_STRATEGY'') of
         Inl err \<Rightarrow> Inl (wrapf ''invalid OPENBAO_JWT_AUTH_STRATEGY value'' err) | Inr s \<Rightarrow> Inr s) (\<lambda>strategy.
     and_then (loadJWTToken os) (\<lambda>token.
     and_then (loadCACert os) (\<lambda>caCert.
     and_then (optional os ''UPGRADE_SYNC_THRESHOLD'' (\<lambda>s. map_option of_nat (parse_uint 64 s)) 100) (\<lambda>threshold.
     and_then (optional os ''UPGRADE_TIMEOUT'' (\<lambda>s. from_sum (parseDuration go s)) (seconds 600)) (\<lambda>timeout.
     and_then (optional os ''OPENBAO_CLIENT_QPS'' (\<lambda>s. from_sum (parseFloat go s)) 0) (\<lambda>qps.
     and_then (optional os ''OPENBAO_CLIENT_BURST'' atoi 0) (\<lambda>burst.
     and_then (optional os ''OPENBAO_CLIENT_CB_FAILURE_THRESHOLD'' atoi 0) (\<lambda>failures.
     and_then (optional os ''OPENBAO_CLIENT_CB_OPEN_DURATION'' (\<lambda>s. from_sum (parseDuration go s)) 0) (\<lambda>openDuration.
     Inr \<lparr> xcNamespace = namespace, xcName = name, xcReplicas = replicas, xcBlueReplicas = blueReplicas, xcAction = action,
       xcJWTAuthRole = role, xcJWTAuthStrategy = strategy, xcJWTToken = token,
       xcBlueRevision = getenv os ''UPGRADE_BLUE_REVISION'', xcGreenRevision = getenv os ''UPGRADE_GREEN_REVISION'',
       xcSyncThreshold = threshold, xcTimeout = timeout, xcTLSCACert = caCert, xcTLSServerName = getenv os ''TLS_SERVER_NAME'',
       xcClientQPS = qps, xcClientBurst = burst, xcClientFailureThreshold = failures,
       xcClientOpenDuration = openDuration \<rparr>))))))))))))))))"

section \<open>Round trip\<close>

text \<open>A value that survives \<open>strings.TrimSpace\<close> and is not empty.\<close>

definition printable :: "string \<Rightarrow> bool" where
  "printable s \<longleftrightarrow> s \<noteq> [] \<and> trim_space s = s"

text \<open>
  What the API server and the manager guarantee of the values that are written: names are not blank, numbers fit their types,
  an action of a blue/green upgrade names the Green revision (the step-down Job of a rolling upgrade has none).  Of Go's formats:
  a printed duration is parsed back to itself, a printed rate (\<open>%f\<close>, six decimals) can be parsed.
\<close>

definition wellFormedRequest ::
    "goFormat \<Rightarrow> Cluster \<Rightarrow> ExecutorAction \<Rightarrow> string \<Rightarrow> string \<Rightarrow> string \<Rightarrow> ClientSettings \<Rightarrow> string \<Rightarrow> bool" where
  "wellFormedRequest go cluster action jwtRole blueRevision greenRevision clientConfig tlsServerName \<longleftrightarrow>
     printable (clNamespace cluster) \<and> printable (clName cluster) \<and> printable jwtRole
     \<and> trim_space blueRevision = blueRevision \<and> trim_space greenRevision = greenRevision
     \<and> (greenRevision = [] \<longrightarrow> action = ActionRollingStepDownLeader) \<and> trim_space tlsServerName = tlsServerName
     \<and> 0 < BlueGreenTargetReplicas cluster \<and> BlueGreenTargetReplicas cluster < 2 ^ 31
     \<and> (case blueGreen cluster of None \<Rightarrow> True | Some b \<Rightarrow> bgBlueReplicas b < 2 ^ 31)
     \<and> (csRateLimitQPS clientConfig > 0 \<longrightarrow> printable (fmtFloat go (csRateLimitQPS clientConfig))
          \<and> (\<exists>v. parseFloat go (fmtFloat go (csRateLimitQPS clientConfig)) = Inr v))
     \<and> csRateLimitBurst clientConfig < 2 ^ 63 \<and> csFailureThreshold clientConfig < 2 ^ 63
     \<and> (csOpenDuration clientConfig > 0 \<longrightarrow> printable (fmtDuration go (csOpenDuration clientConfig))
          \<and> parseDuration go (fmtDuration go (csOpenDuration clientConfig)) = Inr (csOpenDuration clientConfig))"

text \<open>The files of the Job's Pod: the projected token, and the CA certificate unless the system roots are used.\<close>

definition mounted :: "(string \<Rightarrow> go_error + string) \<Rightarrow> (go_error \<Rightarrow> bool) \<Rightarrow> string \<Rightarrow> bool \<Rightarrow> bool" where
  "mounted readFile notExist token useSystemRoots \<longleftrightarrow>
     printable token \<and> readFile ''/var/run/secrets/tokens/openbao-token'' = Inr token
     \<and> (case readFile ''/etc/bao/tls/ca.crt'' of Inl err \<Rightarrow> useSystemRoots \<and> notExist err | Inr _ \<Rightarrow> \<not> useSystemRoots)"

lemma trim_nat_str [simp]: "trim_space (nat_str n) = nat_str n"
proof -
  have "\<not> is_space ch" if "is_digit ch" for ch using that by (auto simp: is_digit_def is_space_def)
  then show ?thesis
    using nat_str_digits [of n] by (simp add: trim_space_eq_self list_all_iff)
qed

lemma atoi_nat_str: "n < 2 ^ 63 \<Longrightarrow> atoi (nat_str n) = Some (int n)"
proof -
  assume n: "n < 2 ^ 63"
  have "is_digit (hd (nat_str n))" using nat_str_digits [of n] by (simp add: list_all_iff)
  then have "hd (nat_str n) \<noteq> CHR ''+''" "hd (nat_str n) \<noteq> CHR ''-''" by (auto simp: is_digit_def)
  with n nat_str_digits [of n] show ?thesis by (simp add: atoi_def Let_def)
qed

lemma atoi_int_str: "0 \<le> v \<Longrightarrow> v < 2 ^ 63 \<Longrightarrow> atoi (int_str v) = Some v"
  using atoi_nat_str [of "nat v"] by (simp add: int_str_def nat_less_iff)

lemma parseInt32_int_str: "0 \<le> v \<Longrightarrow> v < 2 ^ 31 \<Longrightarrow> parseInt32 (int_str v) = Some v"
  by (simp add: parseInt32_def atoi_int_str)

lemma int_str_printable: "0 \<le> v \<Longrightarrow> printable (int_str v)"
  by (simp add: printable_def int_str_def)

lemma action_printable: "printable (actionString a)"
  by (cases a) (simp_all add: printable_def trim_space_eq_self is_space_def)

lemma strategy_normal:
  "NormalizeJWTAuthStrategyOrDefault s = ''inline'' \<or> NormalizeJWTAuthStrategyOrDefault s = ''standard''"
  by (auto simp: NormalizeJWTAuthStrategyOrDefault_def NormalizeJWTAuthStrategy_def Let_def)

lemma normalize_again:
  "NormalizeJWTAuthStrategy (trim_space (NormalizeJWTAuthStrategyOrDefault s)) = Inr (NormalizeJWTAuthStrategyOrDefault s)"
  "NormalizeJWTAuthStrategy (NormalizeJWTAuthStrategyOrDefault s) = Inr (NormalizeJWTAuthStrategyOrDefault s)"
proof -
  have "NormalizeJWTAuthStrategy (trim_space ''inline'') = Inr ''inline''" "NormalizeJWTAuthStrategy (trim_space ''standard'') = Inr ''standard''"
    "NormalizeJWTAuthStrategy ''inline'' = Inr ''inline''" "NormalizeJWTAuthStrategy ''standard'' = Inr ''standard''" by code_simp+
  then show "NormalizeJWTAuthStrategy (trim_space (NormalizeJWTAuthStrategyOrDefault s)) = Inr (NormalizeJWTAuthStrategyOrDefault s)"
    "NormalizeJWTAuthStrategy (NormalizeJWTAuthStrategyOrDefault s) = Inr (NormalizeJWTAuthStrategyOrDefault s)"
    using strategy_normal [of s] by auto
qed

lemma map_of_first: "map_of (xs @ ys) k = (case map_of xs k of None \<Rightarrow> map_of ys k | Some v \<Rightarrow> Some v)"
  by (simp add: map_add_def)

lemma map_of_entry:
  "map_of (if b then [(k', v)] else []) k = (if k = k' then (if b then Some v else None) else None)"
  "map_of (case x of None \<Rightarrow> [] | Some y \<Rightarrow> if P y then [(k', f y)] else []) k =
     (if k = k' then (case x of None \<Rightarrow> None | Some y \<Rightarrow> if P y then Some (f y) else None) else None)"
  by (auto split: option.split)

text \<open>Every variable as the executor sees it.\<close>

lemma environ:
  fixes go cluster a role blue green cs tls roots
  defines "env \<equiv> buildUpgradeExecutorEnv go cluster a role blue green cs tls roots"
  shows "map_of env ''CLUSTER_NAMESPACE'' = Some (clNamespace cluster)" "map_of env ''CLUSTER_NAME'' = Some (clName cluster)"
    "map_of env ''CLUSTER_REPLICAS'' = Some (int_str (BlueGreenTargetReplicas cluster))"
    "map_of env ''UPGRADE_ACTION'' = Some (actionString a)" "map_of env ''UPGRADE_JWT_AUTH_ROLE'' = Some role"
    "map_of env ''OPENBAO_JWT_AUTH_STRATEGY'' = Some (NormalizeJWTAuthStrategyOrDefault (csJWTAuthStrategy cs))"
    "map_of env ''TLS_SERVER_NAME'' = (if tls = [] then None else Some tls)"
    "map_of env ''TLS_CA_PATH'' = (if roots then None else Some ''/etc/bao/tls/ca.crt'')"
    "map_of env ''UPGRADE_BLUE_REPLICAS'' = (case blueGreen cluster of None \<Rightarrow> None
        | Some b \<Rightarrow> if bgPhase b \<noteq> PhaseIdle \<and> bgBlueReplicas b > 0 then Some (int_str (bgBlueReplicas b)) else None)"
    "map_of env ''UPGRADE_BLUE_REVISION'' = (if blue = [] then None else Some blue)"
    "map_of env ''UPGRADE_GREEN_REVISION'' = (if green = [] then None else Some green)"
    "map_of env ''OPENBAO_CLIENT_QPS'' = (if csRateLimitQPS cs > 0 then Some (fmtFloat go (csRateLimitQPS cs)) else None)"
    "map_of env ''OPENBAO_CLIENT_BURST'' = (if csRateLimitBurst cs > 0 then Some (int_str (csRateLimitBurst cs)) else None)"
    "map_of env ''OPENBAO_CLIENT_CB_FAILURE_THRESHOLD'' = (if csFailureThreshold cs > 0 then Some (int_str (csFailureThreshold cs)) else None)"
    "map_of env ''OPENBAO_CLIENT_CB_OPEN_DURATION'' = (if csOpenDuration cs > 0 then Some (fmtDuration go (csOpenDuration cs)) else None)"
    "map_of env ''JWT_TOKEN_PATH'' = None" "map_of env ''UPGRADE_SYNC_THRESHOLD'' = None" "map_of env ''UPGRADE_TIMEOUT'' = None"
  by (simp_all add: env_def buildUpgradeExecutorEnv_def map_of_first map_of_entry del: map_of_append)
    (auto split: option.split)

lemma required_ok: "map_of (osEnviron os) key = Some v \<Longrightarrow> printable v \<Longrightarrow> required os key = Inr v"
  by (simp add: required_def getenv_def printable_def)

lemma optional_unset: "map_of (osEnviron os) key = None \<Longrightarrow> optional os key parse d = Inr d"
  by (simp add: optional_def getenv_def)

lemma optional_set:
  "map_of (osEnviron os) key = Some v \<Longrightarrow> printable v \<Longrightarrow> parse v = Some x \<Longrightarrow> optional os key parse d = Inr x"
  by (simp add: optional_def getenv_def printable_def)

lemma optional_int:
  assumes "map_of (osEnviron os) key = (if n > 0 then Some (int_str n) else None)" "n < 2 ^ 63"
  shows "optional os key atoi 0 = Inr (max 0 n)"
proof (cases "n > 0")
  case True
  then show ?thesis using assms optional_set [of os key "int_str n" atoi n] by (simp add: int_str_printable atoi_int_str)
qed (use assms in \<open>simp add: optional_unset\<close>)

lemma optional_qps:
  assumes "map_of (osEnviron os) key = (if q > 0 then Some (fmtFloat go q) else None)"
    and "q > 0 \<longrightarrow> printable (fmtFloat go q) \<and> (\<exists>v. parseFloat go (fmtFloat go q) = Inr v)"
  obtains v where "optional os key (\<lambda>s. from_sum (parseFloat go s)) 0 = Inr v"
    "if q > 0 then parseFloat go (fmtFloat go q) = Inr v else v = 0"
proof (cases "q > 0")
  case True
  then obtain v where "parseFloat go (fmtFloat go q) = Inr v" using assms(2) by blast
  with True that [of v] assms show thesis
    using optional_set [of os key "fmtFloat go q" "\<lambda>s. from_sum (parseFloat go s)" v] by (simp add: from_sum_def)
next
  case False
  with that [of 0] assms(1) show thesis by (simp add: optional_unset)
qed

text \<open>The number of Blue replicas the manager pinned, if any.\<close>

definition pinnedBlue :: "Cluster \<Rightarrow> int" where
  "pinnedBlue cluster = (case blueGreen cluster of None \<Rightarrow> 0
     | Some b \<Rightarrow> if bgPhase b \<noteq> PhaseIdle \<and> bgBlueReplicas b > 0 then bgBlueReplicas b else 0)"

lemma optional_blue:
  assumes "map_of (osEnviron os) key = (case blueGreen cluster of None \<Rightarrow> None
        | Some b \<Rightarrow> if bgPhase b \<noteq> PhaseIdle \<and> bgBlueReplicas b > 0 then Some (int_str (bgBlueReplicas b)) else None)"
    and "case blueGreen cluster of None \<Rightarrow> True | Some b \<Rightarrow> bgBlueReplicas b < 2 ^ 31"
  shows "optional os key positiveInt32 0 = Inr (pinnedBlue cluster)"
proof -
  have "optional os key positiveInt32 0 = Inr v" if "map_of (osEnviron os) key = Some (int_str v)" "0 < v" "v < 2 ^ 31" for v
    using that by (intro optional_set) (auto simp: int_str_printable positiveInt32_def parseInt32_int_str)
  then show ?thesis
    using assms optional_unset [of os key positiveInt32 0]
    by (auto simp: pinnedBlue_def split: option.splits if_splits)
qed

lemma loadCACert_ok:
  assumes "mounted (osReadFile os) (osIsNotExist os) token roots"
    and "map_of (osEnviron os) ''TLS_CA_PATH'' = (if roots then None else Some ''/etc/bao/tls/ca.crt'')"
  shows "\<exists>ca. loadCACert os = Inr ca"
proof -
  have "trim_space ''/etc/bao/tls/ca.crt'' = ''/etc/bao/tls/ca.crt''" by code_simp
  with assms show ?thesis by (auto simp: loadCACert_def mounted_def split: sum.splits)
qed

lemma loadJWTToken_ok:
  "mounted (osReadFile os) ne token roots \<Longrightarrow> map_of (osEnviron os) ''JWT_TOKEN_PATH'' = None \<Longrightarrow> loadJWTToken os = Inr token"
  by (simp add: loadJWTToken_def mounted_def getenv_def printable_def)

text \<open>
  C26: the executor runs with the configuration the manager meant.  For every action and all settings, the variables the manager writes
  into the environment of the Job are read back by the executor as the same cluster, replica counts, action, role, authentication
  strategy, revisions, server name, burst, failure threshold and open duration, and as the rate its six-decimal print denotes
  (each setting that is not positive is left out and read as zero), and the executor accepts them.  It is assumed that the names are not blank
  or padded, the numbers fit their types, an empty Green revision occurs with the rolling step-down action only, Go parses back the
  durations and rates it prints, and the token and CA files are mounted.
\<close>

theorem executor_config_round_trip:
  assumes "wellFormedRequest go cluster act role blue green cs tls"
    and "mounted (osReadFile os) (osIsNotExist os) token roots"
    and "osEnviron os = buildUpgradeExecutorEnv go cluster act role blue green cs tls roots"
  shows "\<exists>cfg. LoadExecutorConfig go os = Inr cfg \<and> fst (Validate cfg) = None
     \<and> xcNamespace cfg = clNamespace cluster \<and> xcName cfg = clName cluster \<and> xcAction cfg = actionString act
     \<and> xcReplicas cfg = BlueGreenTargetReplicas cluster \<and> xcBlueReplicas cfg = pinnedBlue cluster
     \<and> xcBlueRevision cfg = blue \<and> xcGreenRevision cfg = green \<and> xcJWTAuthRole cfg = role \<and> xcJWTToken cfg = token
     \<and> xcTLSServerName cfg = tls \<and> xcJWTAuthStrategy cfg = NormalizeJWTAuthStrategyOrDefault (csJWTAuthStrategy cs)
     \<and> (if csRateLimitQPS cs > 0 then parseFloat go (fmtFloat go (csRateLimitQPS cs)) = Inr (xcClientQPS cfg) else xcClientQPS cfg = 0)
     \<and> xcClientBurst cfg = max 0 (csRateLimitBurst cs) \<and> xcClientFailureThreshold cfg = max 0 (csFailureThreshold cs)
     \<and> xcClientOpenDuration cfg = max 0 (csOpenDuration cs)"
proof -
  note env = environ [of go cluster act role blue green cs tls roots, folded assms(3)]
  note wf = assms(1) [unfolded wellFormedRequest_def]
  from loadCACert_ok [OF assms(2) env(8)] obtain ca where ca: "loadCACert os = Inr ca" by blast
  have req: "required os ''CLUSTER_NAMESPACE'' = Inr (clNamespace cluster)" "required os ''CLUSTER_NAME'' = Inr (clName cluster)"
    "required os ''CLUSTER_REPLICAS'' = Inr (int_str (BlueGreenTargetReplicas cluster))"
    "required os ''UPGRADE_ACTION'' = Inr (actionString act)" "required os ''UPGRADE_JWT_AUTH_ROLE'' = Inr role"
    using wf env(1-5) by (auto intro!: required_ok int_str_printable action_printable)
  have opt: "optional os ''UPGRADE_BLUE_REPLICAS'' positiveInt32 0 = Inr (pinnedBlue cluster)"
    using wf env(9) by (intro optional_blue) auto
  have nums: "optional os ''OPENBAO_CLIENT_BURST'' atoi 0 = Inr (max 0 (csRateLimitBurst cs))"
    "optional os ''OPENBAO_CLIENT_CB_FAILURE_THRESHOLD'' atoi 0 = Inr (max 0 (csFailureThreshold cs))"
    by (rule optional_int [OF env(13)], use wf in blast, rule optional_int [OF env(14)], use wf in blast)
  have dur: "optional os ''OPENBAO_CLIENT_CB_OPEN_DURATION'' (\<lambda>s. from_sum (parseDuration go s)) 0 =
      Inr (max 0 (csOpenDuration cs))"
    using wf env(15) by (cases "csOpenDuration cs > 0") (auto intro!: optional_set optional_unset simp: from_sum_def)
  have strategy: "NormalizeJWTAuthStrategy (getenv os ''OPENBAO_JWT_AUTH_STRATEGY'') =
      Inr (NormalizeJWTAuthStrategyOrDefault (csJWTAuthStrategy cs))"
    by (simp add: getenv_def env(6) normalize_again)
  obtain qps where qps: "optional os ''OPENBAO_CLIENT_QPS'' (\<lambda>s. from_sum (parseFloat go s)) 0 = Inr qps"
    "if csRateLimitQPS cs > 0 then parseFloat go (fmtFloat go (csRateLimitQPS cs)) = Inr qps else qps = 0"
    by (rule optional_qps [OF env(12)]) (use wf in blast)
  have defaults: "optional os ''UPGRADE_SYNC_THRESHOLD'' p100 x = Inr x" "optional os ''UPGRADE_TIMEOUT'' p y = Inr y" for p100 p x y
    using env(17,18) by (auto intro!: optional_unset)
  have strings: "getenv os ''UPGRADE_BLUE_REVISION'' = blue" "getenv os ''UPGRADE_GREEN_REVISION'' = green"
    "getenv os ''TLS_SERVER_NAME'' = tls"
    using wf env(7,10,11) by (auto simp: getenv_def printable_def)
  have number: "parseInt32 (int_str (BlueGreenTargetReplicas cluster)) = Some (BlueGreenTargetReplicas cluster)"
    using wf by (intro parseInt32_int_str) auto
  have known: "blueGreenAction (actionString act) \<longleftrightarrow> act \<noteq> ActionRollingStepDownLeader"
    "actionString act = actionString ActionRollingStepDownLeader \<longleftrightarrow> act = ActionRollingStepDownLeader"
    by (cases act; simp add: blueGreenAction_def)+
  have "printable token" using assms(2) by (simp add: mounted_def)
  then show ?thesis
    using wf known action_printable [of act] qps(2)
    by (auto simp: LoadExecutorConfig_def and_then_def req opt nums dur qps(1) strategy defaults strings number ca
        loadJWTToken_ok [OF assms(2) env(16)] Validate_def Let_def printable_def normalize_again)
qed

text \<open>The step-down Job of a rolling upgrade, with the operator's default rate.\<close>

definition plainFormat :: goFormat where
  "plainFormat = \<lparr> fmtFloat = (\<lambda>_. ''50.000000''), fmtDuration = (\<lambda>_. ''30s''), parseFloat = (\<lambda>_. Inr 50), parseDuration = (\<lambda>_. Inr (seconds 30)) \<rparr>"

definition plainSettings :: ClientSettings where
  "plainSettings = \<lparr> csJWTAuthStrategy = ''Standard '', csRateLimitQPS = 50, csRateLimitBurst = 4, csFailureThreshold = 0,
     csOpenDuration = seconds 30 \<rparr>"

definition plainProcess :: process where
  "plainProcess = \<lparr>
     osEnviron = buildUpgradeExecutorEnv plainFormat exampleBase ActionRollingStepDownLeader ''upgrade'' ''b1'' [] plainSettings [] False,
     osReadFile = (\<lambda>path. if path = ''/var/run/secrets/tokens/openbao-token'' then Inr ''jwt'' else Inr ''ca''),
     osIsNotExist = (\<lambda>_. False) \<rparr>"

theorem executor_config_round_trip_witness:
  "\<exists>cfg. LoadExecutorConfig plainFormat plainProcess = Inr cfg \<and> fst (Validate cfg) = None
     \<and> xcName cfg = clName exampleBase \<and> xcAction cfg = actionString ActionRollingStepDownLeader \<and> xcGreenRevision cfg = []
     \<and> xcClientQPS cfg = 50 \<and> xcClientOpenDuration cfg = seconds 30"
proof -
  have p: "printable (clNamespace exampleBase)" "printable (clName exampleBase)" "printable ''upgrade''" "trim_space ''b1'' = ''b1''"
    "printable ''30s''" "printable ''jwt''" "0 < BlueGreenTargetReplicas exampleBase" "BlueGreenTargetReplicas exampleBase < 2 ^ 31"
    "case blueGreen exampleBase of None \<Rightarrow> True | Some b \<Rightarrow> bgBlueReplicas b < 2 ^ 31" "printable ''50.000000''" "trim_space [] = []"
    by code_simp+
  have w: "wellFormedRequest plainFormat exampleBase ActionRollingStepDownLeader ''upgrade'' ''b1'' [] plainSettings []"
    unfolding wellFormedRequest_def using p by (simp add: plainFormat_def plainSettings_def)
  have m: "mounted (osReadFile plainProcess) (osIsNotExist plainProcess) ''jwt'' False"
    using p(6) by (simp add: mounted_def plainProcess_def)
  have e: "osEnviron plainProcess =
      buildUpgradeExecutorEnv plainFormat exampleBase ActionRollingStepDownLeader ''upgrade'' ''b1'' [] plainSettings [] False"
    by (simp add: plainProcess_def)
  from executor_config_round_trip [OF w m e] show ?thesis by (auto simp: plainSettings_def plainFormat_def)
qed

end
