(* ===== verification/Go_Time.thy ===== *)
theory Go_Time
  imports Go_Prelude
begin

text \<open>
  The part of Go's \<open>time\<close> package that names backups: the civil date of an instant, \<open>Format\<close> with the layouts
  \<open>RFC3339\<close> (in UTC) and \<open>20060102-150405\<close>, and \<open>Parse\<close> of an RFC 3339 instant of twenty bytes.  An instant is a
  number of nanoseconds since the Unix epoch, the calendar is the proleptic Gregorian one, and a day number counts
  from 0001-01-01, the zero time of Go.
\<close>

section \<open>Years\<close>

definition leapYear :: "int \<Rightarrow> bool" where
  "leapYear y \<longleftrightarrow> y mod 4 = 0 \<and> (y mod 100 \<noteq> 0 \<or> y mod 400 = 0)"

definition daysBeforeYear :: "int \<Rightarrow> int" where
  "daysBeforeYear y = 365 * (y - 1) + (y - 1) div 4 - (y - 1) div 100 + (y - 1) div 400"

text \<open>The year a day lies in, and the day within the year: cycles of 400, 100, 4 and 1 years are cut off in turn.\<close>

definition yearOf :: "int \<Rightarrow> int \<times> int" where
  "yearOf d =
     (let n400 = d div 146097; r = d mod 146097;
          n100 = min 3 (r div 36524); r = r - 36524 * n100;
          n4 = r div 1461; r = r mod 1461;
          n = min 3 (r div 365)
      in (400 * n400 + 100 * n100 + 4 * n4 + n + 1, r - 365 * n))"

lemma cut_cycles:
  fixes r q k :: int
  assumes "0 \<le> r" "0 < q" "0 \<le> k"
  shows "0 \<le> min k (r div q)" "min k (r div q) \<le> k" "0 \<le> r - q * min k (r div q)"
    "min k (r div q) < k \<Longrightarrow> r - q * min k (r div q) < q"
proof -
  have q: "r = q * (r div q) + r mod q" "0 \<le> r mod q" "r mod q < q" "0 \<le> r div q"
    using assms by (simp_all add: pos_imp_zdiv_nonneg_iff)
  show "0 \<le> min k (r div q)" "min k (r div q) \<le> k" using q(4) assms by auto
  have "q * min k (r div q) \<le> q * (r div q)" using assms by (simp add: mult_left_mono)
  then show "0 \<le> r - q * min k (r div q)" using q by linarith
  show "r - q * min k (r div q) < q" if "min k (r div q) < k"
    using that q by (simp add: min_def minus_mult_div_eq_mod split: if_splits)
qed

lemma yearOf_parts:
  obtains n400 n100 n4 n r where "yearOf d = (400 * n400 + 100 * n100 + 4 * n4 + n + 1, r)"
    "d = 146097 * n400 + 36524 * n100 + 1461 * n4 + 365 * n + r"
    "0 \<le> n100" "n100 \<le> 3" "0 \<le> n4" "n4 \<le> 24" "0 \<le> n" "n \<le> 3" "0 \<le> r" "r \<le> 365"
    "r = 365 \<Longrightarrow> n = 3 \<and> (n4 \<noteq> 24 \<or> n100 = 3)"
proof -
  define r0 where "r0 = d mod 146097"
  define n100 where "n100 = min 3 (r0 div 36524)"
  define r1 where "r1 = r0 - 36524 * n100"
  define n4 where "n4 = r1 div 1461"
  define r2 where "r2 = r1 mod 1461"
  define n where "n = min 3 (r2 div 365)"
  have r0: "0 \<le> r0" "r0 < 146097" "d = 146097 * (d div 146097) + r0" by (simp_all add: r0_def)
  note c = cut_cycles [of r0 36524 3, folded n100_def, folded r1_def]
  have r1: "0 \<le> r1" "0 \<le> n100" "n100 \<le> 3" "n100 < 3 \<Longrightarrow> r1 < 36524" using c r0 by simp_all
  have "r1 \<le> 36524" using r1 r0 by (cases "n100 < 3") (auto simp: r1_def)
  note r1 = r1 this
  have r2: "0 \<le> r2" "r2 < 1461" "r1 = 1461 * n4 + r2" by (simp_all add: r2_def n4_def)
  have n4: "0 \<le> n4" "n4 \<le> 24" using r1 r2 by linarith+
  have n: "0 \<le> n" "n \<le> 3" "0 \<le> r2 - 365 * n" "r2 - 365 * n \<le> 365" "r2 - 365 * n = 365 \<Longrightarrow> n = 3"
    using cut_cycles [of r2 365 3, folded n_def] r2 by (cases "n < 3"; force)+
  have last: "n100 = 3" if "r2 - 365 * n = 365" "n4 = 24"
    using that r1 r2 n by (cases "n100 < 3") auto
  have y: "yearOf d = (400 * (d div 146097) + 100 * n100 + 4 * n4 + n + 1, r2 - 365 * n)"
    by (simp only: yearOf_def Let_def r0_def n100_def r1_def n4_def r2_def n_def)
  have "d = 146097 * (d div 146097) + 36524 * n100 + 1461 * n4 + 365 * n + (r2 - 365 * n)"
    using r0(3) r2(3) r1_def by linarith
  then show ?thesis
    by (rule that [OF y _ r1(2,3) n4 n(1,2,3,4)]) (use n(5) last in blast)
qed

lemma yearOf_correct:
  assumes "yearOf d = (y, r)"
  shows "d = daysBeforeYear y + r" "0 \<le> r" "r < 365 + (if leapYear y then 1 else 0)"
proof -
  obtain n400 n100 n4 n r' where y: "yearOf d = (400 * n400 + 100 * n100 + 4 * n4 + n + 1, r')"
    and d: "d = 146097 * n400 + 36524 * n100 + 1461 * n4 + 365 * n + r'"
    and b: "0 \<le> n100" "n100 \<le> 3" "0 \<le> n4" "n4 \<le> 24" "0 \<le> n" "n \<le> 3" "0 \<le> r'" "r' \<le> 365"
    and l: "r' = 365 \<Longrightarrow> n = 3 \<and> (n4 \<noteq> 24 \<or> n100 = 3)"
    by (rule yearOf_parts [of d]) (rule that)
  let ?z = "400 * n400 + 100 * n100 + 4 * n4 + n"
  have q: "?z div 4 = 100 * n400 + 25 * n100 + n4" "?z div 100 = 4 * n400 + n100" "?z div 400 = n400"
    using b by (simp_all add: int_div_pos_eq [where r = n])
  from assms y have yr: "y = ?z + 1" "r = r'" by simp_all
  show "d = daysBeforeYear y + r" unfolding yr daysBeforeYear_def add_diff_cancel_right' q d by simp
  show "0 \<le> r" using b yr by simp
  have "leapYear y" if "r' = 365"
  proof (cases "n4 = 24")
    case True
    with l [OF that] have "y = 400 * (n400 + 1)" unfolding yr by simp
    then show ?thesis by (simp add: leapYear_def mod_mult_left_eq mult.commute [of 400])
  next
    case False
    with l [OF that] have y: "y = 100 * (4 * n400 + n100) + 4 * (n4 + 1)" "n4 < 24" using b unfolding yr by simp_all
    then have "y mod 100 = 4 * (n4 + 1)" using b by (intro int_mod_pos_eq [where q = "4 * n400 + n100"]) simp_all
    moreover have "y mod 4 = 0" by (simp add: y)
    ultimately have "y mod 100 = 4 * (n4 + 1)" "y mod 4 = 0" by auto
    then show ?thesis using b by (simp add: leapYear_def)
  qed
  then show "r < 365 + (if leapYear y then 1 else 0)" using b yr by (cases "r' = 365") auto
qed

section \<open>Months\<close>

definition daysBeforeMonth :: "bool \<Rightarrow> int \<Rightarrow> int" where
  "daysBeforeMonth leap m =
     [0, 31, 59, 90, 120, 151, 181, 212, 243, 273, 304, 334, 365] ! nat (m - 1) + (if leap \<and> m > 2 then 1 else 0)"

definition daysIn :: "bool \<Rightarrow> int \<Rightarrow> int" where
  "daysIn leap m = daysBeforeMonth leap (m + 1) - daysBeforeMonth leap m"

definition monthOf :: "bool \<Rightarrow> int \<Rightarrow> int \<times> int" where
  "monthOf leap r =
     (let m = int (length (filter (\<lambda>m. daysBeforeMonth leap m \<le> r) [1..12])) in (m, r - daysBeforeMonth leap m + 1))"

lemma daysBeforeMonth_simps [simp]:
  "daysBeforeMonth l 1 = 0" "daysBeforeMonth l 2 = 31" "daysBeforeMonth l 3 = (if l then 60 else 59)"
  "daysBeforeMonth l 4 = (if l then 91 else 90)" "daysBeforeMonth l 5 = (if l then 121 else 120)"
  "daysBeforeMonth l 6 = (if l then 152 else 151)" "daysBeforeMonth l 7 = (if l then 182 else 181)"
  "daysBeforeMonth l 8 = (if l then 213 else 212)" "daysBeforeMonth l 9 = (if l then 244 else 243)"
  "daysBeforeMonth l 10 = (if l then 274 else 273)" "daysBeforeMonth l 11 = (if l then 305 else 304)"
  "daysBeforeMonth l 12 = (if l then 335 else 334)" "daysBeforeMonth l 13 = (if l then 366 else 365)"
  by (simp_all add: daysBeforeMonth_def)

lemma months: "[1..12::int] = [1, 2, 3, 4, 5, 6, 7, 8, 9, 10, 11, 12]"
  by (simp add: upto_rec1)

lemma monthOf_correct:
  assumes "monthOf leap r = (m, d)" and "0 \<le> r" and "r < 365 + (if leap then 1 else 0)"
  shows "1 \<le> m" "m \<le> 12" "1 \<le> d" "d \<le> daysIn leap m" "daysBeforeMonth leap m + d - 1 = r"
  using assms unfolding monthOf_def months Let_def daysIn_def
  by (cases leap; auto split: if_splits)+

section \<open>Instants\<close>

definition secondsOf :: "int \<Rightarrow> int" where
  "secondsOf t = t div 1000000000"

definition dayOf :: "int \<Rightarrow> int" where
  "dayOf t = secondsOf t div 86400 + 719162"

definition yearAt :: "int \<Rightarrow> int" where
  "yearAt t = fst (yearOf (dayOf t))"

text \<open>The day and the clock as two-digit fields: month, day, hour, minute, second.\<close>

definition fieldsAt :: "int \<Rightarrow> int list" where
  "fieldsAt t = (let (y, r) = yearOf (dayOf t); (m, d) = monthOf (leapYear y) r; s = secondsOf t mod 86400
     in [m, d, s div 3600, s mod 3600 div 60, s mod 60])"

text \<open>\<open>time.Date\<close> in UTC, for fields in their ranges.\<close>

definition dateUTC :: "int \<Rightarrow> int list \<Rightarrow> int" where
  "dateUTC y fs = (case fs of [m, d, hh, mm, ss] \<Rightarrow>
       ((daysBeforeYear y + daysBeforeMonth (leapYear y) m + d - 1 - 719162) * 86400 + hh * 3600 + mm * 60 + ss) * 1000000000
     | _ \<Rightarrow> 0)"

definition fieldsInRange :: "int \<Rightarrow> int list \<Rightarrow> bool" where
  "fieldsInRange y fs = (case fs of [m, d, hh, mm, ss] \<Rightarrow>
       1 \<le> m \<and> m \<le> 12 \<and> 1 \<le> d \<and> d \<le> daysIn (leapYear y) m
       \<and> 0 \<le> hh \<and> hh < 24 \<and> 0 \<le> mm \<and> mm < 60 \<and> 0 \<le> ss \<and> ss < 60 | _ \<Rightarrow> False)"

lemma fieldsAt_correct:
  "fieldsInRange (yearAt t) (fieldsAt t)" "dateUTC (yearAt t) (fieldsAt t) = secondsOf t * 1000000000"
proof -
  obtain y r where y: "yearOf (dayOf t) = (y, r)" by fastforce
  obtain m d where m: "monthOf (leapYear y) r = (m, d)" by fastforce
  note r = yearOf_correct [OF y]
  note md = monthOf_correct [OF m r(2,3)]
  define s where "s = secondsOf t mod 86400"
  have s: "0 \<le> s" "s < 86400" by (simp_all add: s_def)
  have q: "3600 * (s div 3600) + s mod 3600 = s" "60 * (s mod 3600 div 60) + s mod 3600 mod 60 = s mod 3600"
    "s mod 3600 mod 60 = s mod 60" "0 \<le> s mod 3600" "s mod 3600 < 3600" "0 \<le> s mod 60" "s mod 60 < 60"
    by (simp_all only: mult_div_mod_eq) (simp_all add: mod_mod_cancel)
  then have c: "0 \<le> s div 3600" "s div 3600 < 24" "0 \<le> s mod 3600 div 60" "s mod 3600 div 60 < 60"
    using s by (auto simp: pos_imp_zdiv_nonneg_iff)
  have t: "s div 3600 * 3600 + s mod 3600 div 60 * 60 + s mod 60 = s" using q by linarith
  have "daysBeforeYear y + daysBeforeMonth (leapYear y) m + d - 1 = dayOf t" using r(1) md(5) by simp
  then have day: "daysBeforeYear y + daysBeforeMonth (leapYear y) m + d - 1 - 719162 = secondsOf t div 86400"
    by (simp add: dayOf_def)
  show "fieldsInRange (yearAt t) (fieldsAt t)"
    using md c by (simp add: fieldsInRange_def yearAt_def fieldsAt_def y m flip: s_def)
  show "dateUTC (yearAt t) (fieldsAt t) = secondsOf t * 1000000000"
  proof -
    have "secondsOf t div 86400 * 86400 + s = secondsOf t" by (simp add: s_def)
    then have "secondsOf t div 86400 * 86400 + s div 3600 * 3600 + s mod 3600 div 60 * 60 + s mod 60 = secondsOf t"
      using t by linarith
    then show ?thesis by (simp only: dateUTC_def yearAt_def fieldsAt_def y m day Let_def prod.case fst_conv list.case flip: s_def)
  qed
qed

section \<open>Layouts\<close>

text \<open>\<open>appendInt\<close>: decimal digits padded with zeros to a width, after the sign.\<close>

definition pad_nat :: "nat \<Rightarrow> nat \<Rightarrow> string" where
  "pad_nat w n = replicate (w - length (nat_str n)) (CHR ''0'') @ nat_str n"

definition appendInt :: "nat \<Rightarrow> int \<Rightarrow> string" where
  "appendInt w x = (if x < 0 then CHR ''-'' # pad_nat w (nat (- x)) else pad_nat w (nat x))"

text \<open>The layout \<open>2006-01-02T15:04:05Z07:00\<close> of an instant in UTC.\<close>

definition formatRFC3339 :: "int \<Rightarrow> string" where
  "formatRFC3339 t = (case fieldsAt t of [m, d, hh, mm, ss] \<Rightarrow>
       appendInt 4 (yearAt t) @ ''-'' @ appendInt 2 m @ ''-'' @ appendInt 2 d @ ''T''
       @ appendInt 2 hh @ '':'' @ appendInt 2 mm @ '':'' @ appendInt 2 ss @ ''Z'' | _ \<Rightarrow> [])"

text \<open>The layout \<open>20060102-150405\<close>.\<close>

definition formatCompact :: "int \<Rightarrow> string" where
  "formatCompact t = (case fieldsAt t of [m, d, hh, mm, ss] \<Rightarrow>
       appendInt 4 (yearAt t) @ appendInt 2 m @ appendInt 2 d @ ''-'' @ appendInt 2 hh @ appendInt 2 mm @ appendInt 2 ss
     | _ \<Rightarrow> [])"

text \<open>A run of digits at a fixed place of a string.\<close>

definition digitsAt :: "nat \<Rightarrow> nat \<Rightarrow> string \<Rightarrow> int option" where
  "digitsAt i w s = (let f = take w (drop i s) in
     if length f = w \<and> list_all is_digit f then Some (int (digits_val f)) else None)"

text \<open>
  \<open>time.Parse(time.RFC3339, s)\<close> for a string of twenty bytes: no fraction of a second and no numeric zone fits, so the fields are
  at fixed places.
\<close>

definition parseRFC3339 :: "string \<Rightarrow> int option" where
  "parseRFC3339 s =
     (if length s = 20 \<and> s ! 4 = CHR ''-'' \<and> s ! 7 = CHR ''-'' \<and> s ! 10 = CHR ''T''
         \<and> s ! 13 = CHR '':'' \<and> s ! 16 = CHR '':'' \<and> s ! 19 = CHR ''Z''
      then case (digitsAt 0 4 s, map (\<lambda>i. digitsAt i 2 s) [5, 8, 11, 14, 17]) of
          (Some y, [Some m, Some d, Some hh, Some mm, Some ss]) \<Rightarrow>
            if fieldsInRange y [m, d, hh, mm, ss] then Some (dateUTC y [m, d, hh, mm, ss]) else None
        | _ \<Rightarrow> None
      else None)"

section \<open>Printing and parsing\<close>

lemma nat_str_length: "n < 10 ^ w \<Longrightarrow> 0 < w \<Longrightarrow> length (nat_str n) \<le> w"
proof (induction w arbitrary: n)
  case (Suc w)
  show ?case
  proof (cases "n < 10")
    case True then show ?thesis by (simp add: nat_str.simps [of n])
  next
    case False
    then have "0 < w" using Suc.prems by (cases w) auto
    moreover have "n div 10 < 10 ^ w" using Suc.prems by (simp add: div_less_iff_less_mult mult.commute)
    ultimately show ?thesis using False Suc.IH [of "n div 10"] by (simp add: nat_str.simps [of n])
  qed
qed simp

lemma digits_val_zeros: "digits_val (replicate k (CHR ''0'') @ s) = digits_val s"
  by (induction k) (simp_all add: digits_val_def digit_val_def)

lemma pad_nat_field:
  assumes "n < 10 ^ w" "0 < w"
  shows "length (pad_nat w n) = w" "list_all is_digit (pad_nat w n)" "digits_val (pad_nat w n) = n"
  using nat_str_length [OF assms] nat_str_digits [of n]
  by (auto simp: pad_nat_def digits_val_zeros list_all_iff is_digit_def)

lemma appendInt_field:
  assumes "0 \<le> x" "x < 10 ^ w" "0 < w"
  shows "length (appendInt w x) = w" "list_all is_digit (appendInt w x)" "int (digits_val (appendInt w x)) = x"
proof -
  have "nat x < 10 ^ w" using assms by (simp add: nat_less_iff)
  from pad_nat_field [OF this assms(3)] show "length (appendInt w x) = w" "list_all is_digit (appendInt w x)"
    "int (digits_val (appendInt w x)) = x"
    using assms(1) by (simp_all add: appendInt_def)
qed

lemma digitsAt_field:
  assumes "length p = i" "length f = w" "list_all is_digit f"
  shows "digitsAt i w (p @ f @ q) = Some (int (digits_val f))"
  using assms by (simp add: digitsAt_def)

lemma list5: "length fs = 5 \<Longrightarrow> \<exists>a b c d e. fs = [a, b, c, d, e]"
  by (auto simp: length_Suc_conv numeral_eq_Suc)

text \<open>The shape of a printed instant: fields of digits between fixed separators.\<close>

lemma formatRFC3339_shape:
  assumes "0 \<le> yearAt t" "yearAt t \<le> 9999"
  obtains y m d hh mm ss where
    "formatRFC3339 t = y @ ''-'' @ m @ ''-'' @ d @ ''T'' @ hh @ '':'' @ mm @ '':'' @ ss @ ''Z''"
    "length y = 4" "list_all is_digit y" "list_all (\<lambda>f. length f = 2 \<and> list_all is_digit f) [m, d, hh, mm, ss]"
    "int (digits_val y) = yearAt t" "map (\<lambda>f. int (digits_val f)) [m, d, hh, mm, ss] = fieldsAt t"
proof -
  have r: "fieldsInRange (yearAt t) (fieldsAt t)" by (rule fieldsAt_correct)
  then obtain m d hh mm ss where f: "fieldsAt t = [m, d, hh, mm, ss]"
    by (auto simp: fieldsInRange_def split: list.splits)
  have "daysIn l m \<le> 31" if "1 \<le> m" "m \<le> 12" for l m
  proof -
    have "m \<in> set [1..12]" using that by simp
    then show ?thesis unfolding months by (auto simp: daysIn_def)
  qed
  then have "d \<le> 31" using r by (simp add: fieldsInRange_def f) (meson order_trans)
  then have b: "list_all (\<lambda>x. 0 \<le> x \<and> x < 10 ^ 2) [m, d, hh, mm, ss]"
    using r by (simp add: fieldsInRange_def f)
  show ?thesis
    by (rule that [of "appendInt 4 (yearAt t)" "appendInt 2 m" "appendInt 2 d" "appendInt 2 hh" "appendInt 2 mm" "appendInt 2 ss"])
      (use assms b in \<open>simp_all add: formatRFC3339_def f appendInt_field\<close>)
qed

lemma parse_format_RFC3339:
  assumes "0 \<le> yearAt t" "yearAt t \<le> 9999"
  shows "parseRFC3339 (formatRFC3339 t) = Some (secondsOf t * 1000000000)"
proof -
  obtain y m d hh mm ss where s: "formatRFC3339 t = y @ ''-'' @ m @ ''-'' @ d @ ''T'' @ hh @ '':'' @ mm @ '':'' @ ss @ ''Z''"
    and l: "length y = 4" "list_all is_digit y" "list_all (\<lambda>f. length f = 2 \<and> list_all is_digit f) [m, d, hh, mm, ss]"
    and v: "int (digits_val y) = yearAt t" "map (\<lambda>f. int (digits_val f)) [m, d, hh, mm, ss] = fieldsAt t"
    by (rule formatRFC3339_shape [OF assms])
  have at: "digitsAt 0 4 (formatRFC3339 t) = Some (yearAt t)"
    using digitsAt_field [of "[]" 0 y 4] l v by (simp add: s)
  have f: "digitsAt 5 2 (formatRFC3339 t) = Some (int (digits_val m))" "digitsAt 8 2 (formatRFC3339 t) = Some (int (digits_val d))"
    "digitsAt 11 2 (formatRFC3339 t) = Some (int (digits_val hh))" "digitsAt 14 2 (formatRFC3339 t) = Some (int (digits_val mm))"
    "digitsAt 17 2 (formatRFC3339 t) = Some (int (digits_val ss))"
    using l digitsAt_field [of "y @ ''-''" 5 m 2] digitsAt_field [of "y @ ''-'' @ m @ ''-''" 8 d 2]
      digitsAt_field [of "y @ ''-'' @ m @ ''-'' @ d @ ''T''" 11 hh 2]
      digitsAt_field [of "y @ ''-'' @ m @ ''-'' @ d @ ''T'' @ hh @ '':''" 14 mm 2]
      digitsAt_field [of "y @ ''-'' @ m @ ''-'' @ d @ ''T'' @ hh @ '':'' @ mm @ '':''" 17 ss 2]
    by (simp_all add: s)
  have sep: "length (formatRFC3339 t) = 20" "formatRFC3339 t ! 4 = CHR ''-''" "formatRFC3339 t ! 7 = CHR ''-''"
    "formatRFC3339 t ! 10 = CHR ''T''" "formatRFC3339 t ! 13 = CHR '':''" "formatRFC3339 t ! 16 = CHR '':''"
    "formatRFC3339 t ! 19 = CHR ''Z''"
    using l by (simp_all add: s nth_append)
  show ?thesis using fieldsAt_correct [of t] v(2)
    by (simp add: parseRFC3339_def sep at f)
qed

end
