(* ===== verification/Backup_Keys.thy ===== *)
theory Backup_Keys
  imports Go_Time
begin

text \<open>
  Object keys of backups (\<open>internal/service/backup/naming.go\<close>): how a key is built from the configured prefix, the namespace,
  the cluster, an instant and a random suffix, how it is read back, and which keys count as scheduled backups.  The
  functions of Go's \<open>strings\<close> and \<open>path\<close> packages that the file calls come first.  The random suffix is an argument.
\<close>

section \<open>Strings and paths\<close>

fun split_char :: "char \<Rightarrow> string \<Rightarrow> string list" where
  "split_char c [] = [[]]"
| "split_char c (x # xs) = (if x = c then [] # split_char c xs
     else (case split_char c xs of [] \<Rightarrow> [[x]] | w # ws \<Rightarrow> (x # w) # ws))"

fun join_char :: "char \<Rightarrow> string list \<Rightarrow> string" where
  "join_char c [] = []"
| "join_char c [w] = w"
| "join_char c (w # v # ws) = w @ c # join_char c (v # ws)"

definition trim_char :: "char \<Rightarrow> string \<Rightarrow> string" where
  "trim_char c s = trim_right_char c (dropWhile (\<lambda>x. x = c) s)"

definition has_suffix :: "string \<Rightarrow> string \<Rightarrow> bool" where
  "has_suffix s p \<longleftrightarrow> length p \<le> length s \<and> drop (length s - length p) s = p"

definition trim_suffix :: "string \<Rightarrow> string \<Rightarrow> string" where
  "trim_suffix s p = (if has_suffix s p then take (length s - length p) s else s)"

definition last_index :: "char \<Rightarrow> string \<Rightarrow> nat option" where
  "last_index c s = (if c \<in> set s then Some (length s - 1 - length (takeWhile (\<lambda>x. x \<noteq> c) (rev s))) else None)"

text \<open>\<open>path.Clean\<close> keeps a stack of path elements; \<open>..\<close> pops one, unless the path climbs above its start.\<close>

definition cleanStep :: "bool \<Rightarrow> string list \<Rightarrow> string \<Rightarrow> string list" where
  "cleanStep rooted out e =
     (if e = [] \<or> e = ''.'' then out
      else if e = ''..'' then
        (if out \<noteq> [] \<and> last out \<noteq> ''..'' then butlast out else if rooted then out else out @ [e])
      else out @ [e])"

definition cleaned :: "string \<Rightarrow> string list" where
  "cleaned s = foldl (cleanStep (s \<noteq> [] \<and> hd s = CHR ''/'')) [] (split_char (CHR ''/'') s)"

definition pathClean :: "string \<Rightarrow> string" where
  "pathClean s = (let r = (if s \<noteq> [] \<and> hd s = CHR ''/'' then ''/'' else []) @ join_char (CHR ''/'') (cleaned s)
     in if r = [] then ''.'' else r)"

definition pathJoin :: "string list \<Rightarrow> string" where
  "pathJoin es = (case dropWhile (\<lambda>e. e = []) es of [] \<Rightarrow> [] | es' \<Rightarrow> pathClean (join_char (CHR ''/'') es'))"

section \<open>Backup keys\<close>

definition BackupExtension :: string where
  "BackupExtension = ''.snap''"

definition ShortUUIDLength :: nat where
  "ShortUUIDLength = 8"

definition backupFilename :: "string \<Rightarrow> int \<Rightarrow> string \<Rightarrow> string" where
  "backupFilename filenamePrefix timestamp uuid =
     (let ts = replace_char (CHR '':'') (CHR ''-'') (formatRFC3339 timestamp) in
      if filenamePrefix \<noteq> [] then filenamePrefix @ ''-'' @ ts @ ''-'' @ uuid @ BackupExtension
      else ts @ ''-'' @ uuid @ BackupExtension)"

definition GenerateBackupKey :: "go_error + string \<Rightarrow> string \<Rightarrow> string \<Rightarrow> string \<Rightarrow> string \<Rightarrow> int \<Rightarrow> go_error + string" where
  "GenerateBackupKey shortUUID pathPrefix namespace cluster filenamePrefix timestamp =
     (case shortUUID of
        Inl err \<Rightarrow> Inl (wrapf ''failed to generate UUID for backup key'' err)
      | Inr uuid \<Rightarrow> Inr (let filename = backupFilename filenamePrefix timestamp uuid in
          if pathPrefix \<noteq> [] then pathJoin [trim_char (CHR ''/'') pathPrefix, namespace, cluster, filename]
          else pathJoin [namespace, cluster, filename]))"

definition GetBackupListPrefix :: "string \<Rightarrow> string \<Rightarrow> string \<Rightarrow> string" where
  "GetBackupListPrefix pathPrefix namespace cluster =
     (if pathPrefix \<noteq> [] then pathJoin [trim_char (CHR ''/'') pathPrefix, namespace, cluster] @ ''/''
      else pathJoin [namespace, cluster] @ ''/'')"

definition parseBackupTimestamp :: "string \<Rightarrow> string \<Rightarrow> go_error + int" where
  "parseBackupTimestamp filename remaining =
     (if length remaining < 20 then Inl (errorf (''invalid backup filename format (too short): '' @ filename))
      else let tsStr = drop (length remaining - 20) remaining;
               datePart = takeWhile (\<lambda>c. c \<noteq> CHR ''T'') tsStr;
               timePart = dropWhile (\<lambda>c. c \<noteq> CHR ''T'') tsStr
        in if timePart = [] then Inl (errorf (''invalid timestamp format in backup key: '' @ tsStr))
           else (case parseRFC3339 (datePart @ replace_char (CHR ''-'') (CHR '':'') timePart) of
               None \<Rightarrow> Inl (errorf ''failed to parse timestamp from backup key'')
             | Some t \<Rightarrow> Inr t))"

definition ParseBackupKey :: "string \<Rightarrow> go_error + (string \<times> string \<times> int \<times> string)" where
  "ParseBackupKey key =
     (let parts = split_char (CHR ''/'') key; n = length parts in
      if n < 3 then Inl (errorf (''invalid backup key format: '' @ key))
      else let filename = parts ! (n - 1); cluster = parts ! (n - 2); namespace = parts ! (n - 3) in
        if \<not> has_suffix filename BackupExtension then Inl (errorf (''invalid backup filename extension: '' @ filename))
        else let base = trim_suffix filename BackupExtension in
          (case last_index (CHR ''-'') base of
             None \<Rightarrow> Inl (errorf (''invalid backup filename format: '' @ filename))
           | Some lastDash \<Rightarrow>
               if lastDash + 1 + ShortUUIDLength \<noteq> length base
               then Inl (errorf (''invalid backup filename format: '' @ filename))
               else (case parseBackupTimestamp filename (take lastDash base) of
                   Inl err \<Rightarrow> Inl err
                 | Inr timestamp \<Rightarrow> Inr (namespace, cluster, timestamp, drop (lastDash + 1) base))))"

text \<open>The regular expression of a scheduled backup, one class of characters per position.\<close>

definition is_lower_hex :: "char \<Rightarrow> bool" where
  "is_lower_hex c \<longleftrightarrow> is_digit c \<or> c \<in> set ''abcdef''"

definition scheduledBackupFilename :: "(char \<Rightarrow> bool) list" where
  "scheduledBackupFilename =
     (let d = replicate 2 is_digit; dash = [\<lambda>c. c = CHR ''-''] in
      replicate 4 is_digit @ dash @ d @ dash @ d @ [\<lambda>c. c = CHR ''T''] @ d @ dash @ d @ dash @ d @ [\<lambda>c. c = CHR ''Z''] @ dash
      @ replicate 8 is_lower_hex @ map (\<lambda>x c. c = x) BackupExtension)"

definition IsScheduledBackupKey :: "string \<Rightarrow> string \<Rightarrow> bool" where
  "IsScheduledBackupKey key listPrefix = (case cut_prefix key listPrefix of
      None \<Rightarrow> False
    | Some name \<Rightarrow> CHR ''/'' \<notin> set name \<and> list_all2 (\<lambda>p c. p c) scheduledBackupFilename name)"

section \<open>Splitting and cleaning\<close>

lemma split_char_not_Nil [simp]: "split_char c s \<noteq> []"
  by (induction s) (auto split: list.split)

lemma split_char_append: "split_char c (x @ c # y) = split_char c x @ split_char c y"
  by (induction x) (auto split: list.split)

lemma split_char_atom [simp]: "c \<notin> set y \<Longrightarrow> split_char c y = [y]"
  by (induction y) auto

lemma split_char_last: "q = [] \<or> last q = c \<Longrightarrow> c \<notin> set y \<Longrightarrow> last (split_char c (q @ y)) = y"
  by (cases q rule: rev_cases) (auto simp: split_char_append)

text \<open>A path element that \<open>path.Clean\<close> keeps as it is.\<close>

definition pathElement :: "string \<Rightarrow> bool" where
  "pathElement e \<longleftrightarrow> e \<noteq> [] \<and> e \<noteq> ''.'' \<and> e \<noteq> ''..'' \<and> CHR ''/'' \<notin> set e"

lemma cleaned_snoc: "s \<noteq> [] \<Longrightarrow> pathElement e \<Longrightarrow> cleaned (s @ CHR ''/'' # e) = cleaned s @ [e]"
  by (cases s) (simp_all add: cleaned_def split_char_append pathElement_def cleanStep_def del: append_Cons flip: append_Cons)

lemma cleaned_atom: "pathElement e \<Longrightarrow> cleaned e = [e]"
  by (cases e) (auto simp: cleaned_def pathElement_def cleanStep_def)

lemma join_char_snoc: "ws \<noteq> [] \<Longrightarrow> join_char c (ws @ [w]) = join_char c ws @ c # w"
  by (induction ws rule: join_char.induct) auto

lemma cleanStep_not_Nil: "[] \<notin> set out \<Longrightarrow> [] \<notin> set (cleanStep r out e)"
  by (simp add: cleanStep_def) (metis in_set_butlastD)

lemma join_char_Nil: "[] \<notin> set ws \<Longrightarrow> join_char c ws = [] \<longleftrightarrow> ws = []"
  by (cases "(c, ws)" rule: join_char.cases) auto

lemma pathClean_snoc:
  assumes "s \<noteq> []" "pathElement e" "cleaned s \<noteq> []"
  shows "pathClean (s @ CHR ''/'' # e) = pathClean s @ CHR ''/'' # e"
proof -
  have "[] \<notin> set out \<Longrightarrow> [] \<notin> set (foldl (cleanStep r) out es)" for r out es
    by (induction es arbitrary: out) (simp_all add: cleanStep_not_Nil)
  then have "[] \<notin> set (cleaned s)" by (simp add: cleaned_def)
  then have "join_char (CHR ''/'') (cleaned s) \<noteq> []" using assms(3) by (simp add: join_char_Nil)
  then show ?thesis using assms by (simp add: pathClean_def Let_def cleaned_snoc join_char_snoc)
qed

lemma pathClean_atom: "pathElement e \<Longrightarrow> pathClean e = e"
  by (cases e) (auto simp: pathClean_def cleaned_atom pathElement_def)

lemma pathClean_last:
  assumes "s \<noteq> []" "pathElement e"
  shows "\<exists>q. pathClean (s @ CHR ''/'' # e) = q @ e \<and> (q = [] \<or> last q = CHR ''/'')"
proof (cases "cleaned s = []")
  case True
  then show ?thesis using assms by (auto simp: pathClean_def Let_def cleaned_snoc pathElement_def)
next
  case False
  then have "pathClean (s @ CHR ''/'' # e) = (pathClean s @ ''/'') @ e" using assms by (simp add: pathClean_snoc)
  then show ?thesis by (intro exI [of _ "pathClean s @ ''/''"]) simp
qed

lemma pathJoin_base:
  assumes "pathElement ns" "pathElement c"
  obtains q where "pathJoin [p, ns, c] = q @ ns @ CHR ''/'' # c" "q = [] \<or> last q = CHR ''/''"
    "\<And>f. pathElement f \<Longrightarrow> pathJoin [p, ns, c, f] = pathJoin [p, ns, c] @ CHR ''/'' # f"
proof (cases "p = []")
  case True
  then have "pathJoin [p, ns, c] = [] @ ns @ CHR ''/'' # c"
    using assms by (simp add: pathJoin_def pathElement_def pathClean_snoc pathClean_atom cleaned_atom)
  moreover have "pathJoin [p, ns, c, f] = pathJoin [p, ns, c] @ CHR ''/'' # f" if "pathElement f" for f
    using assms that True pathClean_snoc [of "ns @ CHR ''/'' # c" f]
    by (simp add: pathJoin_def pathElement_def cleaned_snoc)
  ultimately show ?thesis by (intro that [of "[]"]) simp_all
next
  case False
  obtain q where q: "pathClean (p @ CHR ''/'' # ns) = q @ ns" "q = [] \<or> last q = CHR ''/''"
    using pathClean_last [OF False assms(1)] by blast
  have "pathJoin [p, ns, c] = q @ ns @ CHR ''/'' # c"
    using False assms q(1) pathClean_snoc [of "p @ CHR ''/'' # ns" c] by (simp add: pathJoin_def cleaned_snoc)
  moreover have "pathJoin [p, ns, c, f] = pathJoin [p, ns, c] @ CHR ''/'' # f" if "pathElement f" for f
    using False assms that pathClean_snoc [of "p @ CHR ''/'' # ns @ CHR ''/'' # c" f] cleaned_snoc [of "p @ CHR ''/'' # ns" c]
    by (simp add: pathJoin_def)
  ultimately show ?thesis using q(2) by (intro that [of q])
qed

lemma pathJoin_Nil: "pathJoin [[], x, y] = pathJoin [x, y]" "pathJoin [[], x, y, z] = pathJoin [x, y, z]"
  by (simp_all add: pathJoin_def)

text \<open>A key is the prefix retention lists, followed by the file name.\<close>

lemma listPrefix_shape:
  assumes "pathElement ns" "pathElement c"
  obtains q where "GetBackupListPrefix p ns c = q @ ns @ ''/'' @ c @ ''/''" "q = [] \<or> last q = CHR ''/''"
    "\<And>u fp t. pathElement (backupFilename fp t u) \<Longrightarrow>
       GenerateBackupKey (Inr u) p ns c fp t = Inr (GetBackupListPrefix p ns c @ backupFilename fp t u)"
proof -
  define p' where "p' = (if p = [] then [] else trim_char (CHR ''/'') p)"
  have l: "GetBackupListPrefix p ns c = pathJoin [p', ns, c] @ ''/''"
    "GenerateBackupKey (Inr u) p ns c fp t = Inr (pathJoin [p', ns, c, backupFilename fp t u])" for u fp t
    by (simp_all add: GetBackupListPrefix_def GenerateBackupKey_def p'_def pathJoin_Nil)
  obtain q where "pathJoin [p', ns, c] = q @ ns @ CHR ''/'' # c" "q = [] \<or> last q = CHR ''/''"
    "\<And>f. pathElement f \<Longrightarrow> pathJoin [p', ns, c, f] = pathJoin [p', ns, c] @ CHR ''/'' # f"
    by (rule pathJoin_base [OF assms, of p']) (rule that)
  then show ?thesis by (intro that [of q]) (simp_all add: l)
qed

section \<open>Generating and parsing\<close>

lemma replace_char_append [simp]: "replace_char a b (x @ y) = replace_char a b x @ replace_char a b y"
  "replace_char a b (c # y) = (if c = a then b else c) # replace_char a b y" "replace_char a b [] = []"
  by (simp_all add: replace_char_def)

lemma replace_char_digits: "list_all is_digit f \<Longrightarrow> \<not> is_digit a \<Longrightarrow> replace_char a b f = f"
  by (induction f) (auto simp: replace_char_def)

lemma not_digits [simp]: "\<not> is_digit (CHR ''-'')" "\<not> is_digit (CHR '':'')" "\<not> is_digit (CHR ''T'')" "\<not> is_digit (CHR ''/'')"
  "\<not> is_digit (CHR ''Z'')"
  by (simp_all add: is_digit_def)

lemma digits_no: "list_all is_digit f \<Longrightarrow> \<not> is_digit c \<Longrightarrow> c \<notin> set f"
  by (auto simp: list_all_iff)

lemma takeWhile_field: "list_all is_digit f \<Longrightarrow> takeWhile (\<lambda>c. c \<noteq> CHR ''T'') (f @ r) = f @ takeWhile (\<lambda>c. c \<noteq> CHR ''T'') r"
  "list_all is_digit f \<Longrightarrow> dropWhile (\<lambda>c. c \<noteq> CHR ''T'') (f @ r) = dropWhile (\<lambda>c. c \<noteq> CHR ''T'') r"
  by (induction f) auto

text \<open>The timestamp of a key, and what the regular expression says of it.\<close>

lemma keyTimestamp:
  assumes "0 \<le> yearAt t" "yearAt t \<le> 9999"
  obtains ts where "replace_char (CHR '':'') (CHR ''-'') (formatRFC3339 t) = ts" "length ts = 20" "CHR ''/'' \<notin> set ts"
    "\<And>fn pre. parseBackupTimestamp fn (pre @ ts) = Inr (secondsOf t * 1000000000)"
    "\<And>qs w. list_all2 (\<lambda>p c. p c) scheduledBackupFilename (ts @ w) \<longleftrightarrow>
       list_all2 (\<lambda>p c. p c) ((\<lambda>c. c = CHR ''-'') # replicate 8 is_lower_hex @ map (\<lambda>x c. c = x) BackupExtension) w"
proof -
  obtain y m d hh mm ss where s: "formatRFC3339 t = y @ ''-'' @ m @ ''-'' @ d @ ''T'' @ hh @ '':'' @ mm @ '':'' @ ss @ ''Z''"
    and l: "length y = 4" "list_all is_digit y" "list_all (\<lambda>f. length f = 2 \<and> list_all is_digit f) [m, d, hh, mm, ss]"
    by (rule formatRFC3339_shape [OF assms])
  let ?ts = "y @ ''-'' @ m @ ''-'' @ d @ ''T'' @ hh @ ''-'' @ mm @ ''-'' @ ss @ ''Z''"
  have r: "replace_char (CHR '':'') (CHR ''-'') (formatRFC3339 t) = ?ts"
    using l by (simp add: s replace_char_digits)
  have "datePart @ replace_char (CHR ''-'') (CHR '':'') timePart = formatRFC3339 t"
    if "datePart = takeWhile (\<lambda>c. c \<noteq> CHR ''T'') ?ts" "timePart = dropWhile (\<lambda>c. c \<noteq> CHR ''T'') ?ts" for datePart timePart
    unfolding that using l by (simp add: s takeWhile_field replace_char_digits)
  then have p: "parseBackupTimestamp fn (pre @ ?ts) = Inr (secondsOf t * 1000000000)" for fn pre
    using l parse_format_RFC3339 [OF assms] by (simp add: parseBackupTimestamp_def Let_def takeWhile_field)
  have rep: "list_all2 (\<lambda>p c. p c) (replicate n P @ ps) (f @ w) \<longleftrightarrow> list_all2 (\<lambda>p c. p c) ps w"
    if "length f = n" "list_all P f" for n f P ps w
    using that by (induction f arbitrary: n) auto
  have "list_all2 (\<lambda>p c. p c) scheduledBackupFilename (?ts @ w) \<longleftrightarrow>
       list_all2 (\<lambda>p c. p c) ((\<lambda>c. c = CHR ''-'') # replicate 8 is_lower_hex @ map (\<lambda>x c. c = x) BackupExtension) w" for w
    using l by (simp add: scheduledBackupFilename_def Let_def rep)
  moreover have "CHR ''/'' \<notin> set ?ts" "length ?ts = 20" using l by (simp_all add: digits_no)
  ultimately show ?thesis using r p by (intro that)
qed

lemma last_index_snoc: "c \<notin> set b \<Longrightarrow> last_index c (a @ c # b) = Some (length a)"
proof -
  assume "c \<notin> set b"
  then have "takeWhile (\<lambda>x. x \<noteq> c) (rev b) = rev b" by (auto simp: takeWhile_eq_all_conv)
  then have "length (takeWhile (\<lambda>x. x \<noteq> c) (rev b)) = length b" by (metis length_rev)
  then show ?thesis by (simp add: last_index_def takeWhile_tail)
qed

lemma has_suffix_append [simp]: "has_suffix (a @ b) b" "trim_suffix (a @ b) b = a"
  by (simp_all add: has_suffix_def trim_suffix_def)

lemma backupFilename_parts:
  assumes "0 \<le> yearAt t" "yearAt t \<le> 9999" "length u = ShortUUIDLength" "list_all is_lower_hex u" "CHR ''/'' \<notin> set fp"
  shows "pathElement (backupFilename fp t u)"
    "list_all2 (\<lambda>p c. p c) scheduledBackupFilename (backupFilename fp t u) \<longleftrightarrow> fp = []"
    "\<exists>base. backupFilename fp t u = base @ ''-'' @ u @ BackupExtension
       \<and> (\<forall>fn. parseBackupTimestamp fn base = Inr (secondsOf t * 1000000000))"
proof -
  obtain ts where ts: "replace_char (CHR '':'') (CHR ''-'') (formatRFC3339 t) = ts" "length ts = 20" "CHR ''/'' \<notin> set ts"
    "\<And>fn pre. parseBackupTimestamp fn (pre @ ts) = Inr (secondsOf t * 1000000000)"
    "\<And>w. list_all2 (\<lambda>p c. p c) scheduledBackupFilename (ts @ w) \<longleftrightarrow>
       list_all2 (\<lambda>p c. p c) ((\<lambda>c. c = CHR ''-'') # replicate 8 is_lower_hex @ map (\<lambda>x c. c = x) BackupExtension) w"
    by (rule keyTimestamp [OF assms(1,2)]) (rule that)
  define pre where "pre = (if fp = [] then [] else fp @ ''-'')"
  have f: "backupFilename fp t u = (pre @ ts) @ ''-'' @ u @ BackupExtension"
    by (simp add: backupFilename_def pre_def ts(1))
  have "CHR ''/'' \<notin> set u" using assms(4) by (auto simp: list_all_iff is_lower_hex_def)
  then show "pathElement (backupFilename fp t u)" unfolding pathElement_def f
    using ts(2,3) assms(5) by (auto simp: pre_def BackupExtension_def Cons_eq_append_conv append_eq_Cons_conv)
  show "\<exists>base. backupFilename fp t u = base @ ''-'' @ u @ BackupExtension
       \<and> (\<forall>fn. parseBackupTimestamp fn base = Inr (secondsOf t * 1000000000))"
    using f ts(4) by (intro exI [of _ "pre @ ts"]) simp
  show "list_all2 (\<lambda>p c. p c) scheduledBackupFilename (backupFilename fp t u) \<longleftrightarrow> fp = []"
  proof (cases "fp = []")
    case True
    have "list_all2 (\<lambda>p c. p c) (replicate (length u) is_lower_hex) u"
      using assms(4) by (simp add: list_all2_conv_all_nth list_all_length)
    then show ?thesis unfolding f using True assms(3)
      by (simp add: pre_def ts(5) ShortUUIDLength_def BackupExtension_def list_all2_append)
  next
    case False
    have "length (backupFilename fp t u) \<noteq> length scheduledBackupFilename"
      using False assms(3) ts(2)
      by (simp add: f pre_def scheduledBackupFilename_def BackupExtension_def ShortUUIDLength_def Let_def)
    then show ?thesis using False list_all2_lengthD by metis
  qed
qed

text \<open>
  C20: The key of a backup can be told from its parts and back.  For every path prefix, namespace and cluster name, every
  file name prefix and every instant of the years 0 to 9999, the generated key lies directly under the prefix
  that retention lists, parses back to the namespace, the cluster, the instant to the second and the random suffix, and counts as a
  scheduled backup exactly when it has no file name prefix.
\<close>

theorem backup_key_roundtrip:
  assumes "pathElement namespace" "pathElement cluster" "CHR ''/'' \<notin> set filenamePrefix"
    and "0 \<le> yearAt t" "yearAt t \<le> 9999" "length u = ShortUUIDLength" "list_all is_lower_hex u"
  shows "\<exists>key. GenerateBackupKey (Inr u) pathPrefix namespace cluster filenamePrefix t = Inr key
      \<and> has_prefix key (GetBackupListPrefix pathPrefix namespace cluster)
      \<and> ParseBackupKey key = Inr (namespace, cluster, secondsOf t * 1000000000, u)
      \<and> (IsScheduledBackupKey key (GetBackupListPrefix pathPrefix namespace cluster) \<longleftrightarrow> filenamePrefix = [])"
proof -
  let ?f = "backupFilename filenamePrefix t u" and ?l = "GetBackupListPrefix pathPrefix namespace cluster"
  note f = backupFilename_parts [OF assms(4,5,6,7,3)]
  obtain base where base: "?f = base @ ''-'' @ u @ BackupExtension"
    "\<And>fn. parseBackupTimestamp fn base = Inr (secondsOf t * 1000000000)" using f(3) by blast
  obtain q where q: "?l = q @ namespace @ ''/'' @ cluster @ ''/''" "q = [] \<or> last q = CHR ''/''"
    "GenerateBackupKey (Inr u) pathPrefix namespace cluster filenamePrefix t = Inr (?l @ ?f)"
    by (rule listPrefix_shape [OF assms(1,2), of pathPrefix]) (use f(1) in blast)
  have slash: "CHR ''/'' \<notin> set namespace" "CHR ''/'' \<notin> set cluster" "CHR ''/'' \<notin> set ?f"
    using assms(1,2) f(1) by (simp_all add: pathElement_def)
  have "split_char (CHR ''/'') (?l @ ?f) = split_char (CHR ''/'') (q @ namespace) @ [cluster, ?f]"
    using slash split_char_append [of "CHR ''/''" "q @ namespace" "cluster @ ''/'' @ ?f"] split_char_append [of "CHR ''/''" cluster ?f]
    by (simp add: q(1))
  moreover obtain xs where "split_char (CHR ''/'') (q @ namespace) = xs @ [namespace]"
    using split_char_last [OF q(2) slash(1)] split_char_not_Nil append_butlast_last_id by metis
  ultimately have parts: "split_char (CHR ''/'') (?l @ ?f) = xs @ [namespace, cluster, ?f]" by simp
  have "CHR ''-'' \<notin> set u" using assms(7) by (auto simp: list_all_iff is_lower_hex_def)
  then have "last_index (CHR ''-'') (base @ ''-'' @ u) = Some (length base)"
    using last_index_snoc [of "CHR ''-''" u base] by simp
  moreover have suffix: "has_suffix ?f BackupExtension" "trim_suffix ?f BackupExtension = base @ ''-'' @ u"
    using has_suffix_append [of "base @ ''-'' @ u" BackupExtension] by (simp_all add: base(1))
  ultimately have "ParseBackupKey (?l @ ?f) = Inr (namespace, cluster, secondsOf t * 1000000000, u)"
    using assms(6) by (simp add: ParseBackupKey_def parts nth_append base(2))
  moreover have "IsScheduledBackupKey (?l @ ?f) ?l \<longleftrightarrow> filenamePrefix = []"
    using slash(3) f(2) by (simp add: IsScheduledBackupKey_def cut_prefix_def)
  ultimately show ?thesis using q(3) by simp
qed

theorem backup_key_roundtrip_witness:
  "\<exists>key. GenerateBackupKey (Inr ''0123abcd'') ''/backups/'' ''ns'' ''bao'' [] (1736910000 * 1000000000) = Inr key
      \<and> has_prefix key (GetBackupListPrefix ''/backups/'' ''ns'' ''bao'')
      \<and> ParseBackupKey key = Inr (''ns'', ''bao'', secondsOf (1736910000 * 1000000000) * 1000000000, ''0123abcd'')
      \<and> (IsScheduledBackupKey key (GetBackupListPrefix ''/backups/'' ''ns'' ''bao'') \<longleftrightarrow> [] = ([] :: string))"
  by (rule backup_key_roundtrip)
    (simp_all add: pathElement_def yearAt_def dayOf_def secondsOf_def yearOf_def ShortUUIDLength_def is_lower_hex_def is_digit_def)

lemma backup_key_example:
  "GenerateBackupKey (Inr ''0123abcd'') ''/backups/'' ''ns'' ''bao'' [] (1736910000 * 1000000000)
     = Inr ''backups/ns/bao/2025-01-15T03-00-00Z-0123abcd.snap''"
  by code_simp

end
