(* ===== verification/Backup_Status.thy ===== *)
theory Backup_Status
  imports BlueGreen_Jobs Backup_Keys
begin

text \<open>
  The backup manager's status and metrics (\<open>internal/service/backup\<close>: \<open>manager.go\<close>, \<open>manager_status.go\<close>,
  \<open>manager_metrics.go\<close>, \<open>metrics_state.go\<close>, the lock and status helpers of \<open>manager_reconcile.go\<close>, the failure helpers of
  \<open>job.go\<close>).  A gauge is recorded as the call that sets it; timestamps of metrics are Unix seconds, durations nanoseconds.
\<close>

section \<open>Status\<close>

abbreviation backupStatus :: "Cluster \<Rightarrow> BackupStatus option" where
  "backupStatus c \<equiv> ssBackup (clStatus c)"

text \<open>The zero value of the struct, \<open>&BackupStatus{}\<close>, and the zero instant of Go.\<close>

definition emptyBackupStatus :: BackupStatus where
  "emptyBackupStatus = \<lparr> bkSuccessfulBackups = 0, bkLatestSnapshot = None, bkRestoreTest = None, bkLastBackupTime = None,
     bkLastAttemptTime = None, bkLastAttemptScheduledTime = None, bkLastHandledManualTrigger = [], bkLastBackupSize = 0,
     bkLastBackupDuration = [], bkLastBackupName = [], bkNextScheduledBackup = None, bkConsecutiveFailures = 0,
     bkLastFailureReason = [], bkLastFailureMessage = [], bkLastFailureTime = None \<rparr>"

definition zeroTime :: time where
  "zeroTime = - 62135596800 * 1000000000"

text \<open>\<open>Time.Sub\<close> saturates at the range of a 64-bit duration.\<close>

definition timeSub :: "time \<Rightarrow> time \<Rightarrow> int" where
  "timeSub a b = max (- (2 ^ 63)) (min (2 ^ 63 - 1) (a - b))"

definition mapBackup :: "(BackupStatus \<Rightarrow> BackupStatus) \<Rightarrow> Cluster \<Rightarrow> Cluster" where
  "mapBackup f = mapStatus (\<lambda>st. st\<lparr>ssBackup := map_option f (ssBackup st)\<rparr>)"

definition updBackup :: "(BackupStatus \<Rightarrow> BackupStatus) \<Rightarrow> unit op" where
  "updBackup f = updCl (mapBackup f)"

text \<open>Reads through \<open>cluster.Status.Backup\<close> and \<open>cluster.Spec.Backup\<close>, which panic when the pointer is nil.\<close>

definition withBackup :: "(BackupStatus \<Rightarrow> 'a op) \<Rightarrow> 'a op" where
  "withBackup k = bnd (gets cl) (\<lambda>c. case backupStatus c of
      None \<Rightarrow> failwith (Panic ''status.backup'') | Some b \<Rightarrow> k b)"

definition withBackupSpec :: "(BackupSchedule \<Rightarrow> 'a op) \<Rightarrow> 'a op" where
  "withBackupSpec k = bnd (gets cl) (\<lambda>c. case spBackup (clSpec c) of
      None \<Rightarrow> failwith (Panic ''spec.backup'') | Some b \<Rightarrow> k b)"

text \<open>The restore test has a writer of its own; a backup observation keeps what is stored of it.\<close>

definition backupMutator :: "BackupStatus option \<Rightarrow> Cluster \<Rightarrow> Cluster" where
  "backupMutator observed = mapStatus (\<lambda>st. st\<lparr>ssBackup := (case (ssBackup st, observed) of
      (Some current, Some b) \<Rightarrow> Some (b\<lparr>bkRestoreTest := bkRestoreTest current\<rparr>)
    | _ \<Rightarrow> observed)\<rparr>)"

definition patchBackupStatusSSA :: "env \<Rightarrow> unit op" where
  "patchBackupStatusSSA env =
     (if \<not> eHasAdminOpsMutator env then failwith (errorf ''adminops status mutator is required'')
      else bnd (gets cl) (\<lambda>c.
        MutateWithReader env (\<lambda>obj. Inr (backupMutator (backupStatus c) obj)) ForceOwnershipOnConflict))"

definition ensureBackupStatus :: "env \<Rightarrow> unit op" where
  "ensureBackupStatus env = bnd (gets cl) (\<lambda>c.
     if backupStatus c \<noteq> None then ret ()
     else bnd (updCl (mapStatus (\<lambda>st. st\<lparr>ssBackup := Some emptyBackupStatus\<rparr>))) (\<lambda>_.
       wrap_err (wrapf ''failed to initialize backup status'') (patchBackupStatusSSA env)))"

definition recordBackupAttempt :: "env \<Rightarrow> time \<Rightarrow> time \<Rightarrow> time \<Rightarrow> string \<Rightarrow> unit op" where
  "recordBackupAttempt env tm scheduledTime nextScheduled manualTriggerToken =
     bnd (updCl (mapStatus (\<lambda>st. st\<lparr>ssBackup := Some ((case ssBackup st of None \<Rightarrow> emptyBackupStatus | Some b \<Rightarrow> b)
        \<lparr>bkLastAttemptTime := Some tm, bkLastAttemptScheduledTime := Some scheduledTime,
         bkLastHandledManualTrigger := manualTriggerToken, bkNextScheduledBackup := Some nextScheduled\<rparr>)\<rparr>))) (\<lambda>_.
     patchBackupStatusSSA env)"

section \<open>Failures\<close>

definition backupFailureMatches :: "BackupStatus option \<Rightarrow> string \<Rightarrow> string \<Rightarrow> bool" where
  "backupFailureMatches status reason message = (case status of None \<Rightarrow> False
     | Some b \<Rightarrow> bkLastFailureReason b = trim_space reason \<and> bkLastFailureMessage b = trim_space message)"

definition setBackupFailure :: "env \<Rightarrow> string \<Rightarrow> string \<Rightarrow> unit op" where
  "setBackupFailure env reason message = bnd (now env) (\<lambda>tm. updBackup (\<lambda>b. b\<lparr>
     bkLastFailureReason := trim_space reason, bkLastFailureMessage := trim_space message, bkLastFailureTime := Some tm\<rparr>))"

definition clearBackupFailure :: "BackupStatus \<Rightarrow> BackupStatus" where
  "clearBackupFailure b = b\<lparr>bkLastFailureReason := [], bkLastFailureMessage := [], bkLastFailureTime := None\<rparr>"

definition backupJobFailureMessage :: "Job option \<Rightarrow> string \<Rightarrow> string" where
  "backupJobFailureMessage job failureHint =
     (let message = (case job of
            None \<Rightarrow> ''Backup Job failed.''
          | Some j \<Rightarrow>
              (let name = omName (jbMeta j); logs = '' Check kubectl logs job/'' @ name @ '' -n '' @ omNamespace (jbMeta j) @ ''.'' in
               case find (\<lambda>c. cdType c = ''Failed'' \<and> cdStatus c = ''True'' \<and> cdMessage c \<noteq> []) (jbConditions j) of
                 Some c \<Rightarrow> ''Backup Job '' @ name @ '' failed: '' @ cdMessage c @ ''.'' @ logs
               | None \<Rightarrow> ''Backup Job '' @ name @ '' failed.'' @ logs))
      in if trim_space failureHint = [] then message else message @ '' '' @ trim_space failureHint)"

section \<open>The operation lock\<close>

definition backupOperationLock :: OperationLock where
  "backupOperationLock = \<lparr> olHolder = ''openbaocluster/backup'', olOperation = ''Backup'' \<rparr>"

definition backupLockFields :: "Cluster \<Rightarrow> labels" where
  "backupLockFields c = [(''cluster_namespace'', clNamespace c), (''cluster_name'', clName c),
     (''operation'', ''Backup''), (''holder'', ''openbaocluster/backup'')]"

definition releaseBackupLock :: "env \<Rightarrow> string \<Rightarrow> unit op" where
  "releaseBackupLock env contextNote = bnd (gets cl) (\<lambda>c.
     bnd (attempt (ReleaseWithReader (bgLockApi env) (Some c) backupOperationLock)) (\<lambda>r. case r of
        Inl err \<Rightarrow> if IsLockHeld (Some err) then ret ()
                   else failwith (wrapf (''failed to release backup operation lock '' @ contextNote) err)
      | Inr c' \<Rightarrow> bnd (setCl c') (\<lambda>_. audit ''OperationLockReleased'' (backupLockFields c'))))"

text \<open>\<open>Some result\<close>: another operation holds the lock.\<close>

definition acquireBackupLock :: "env \<Rightarrow> string \<Rightarrow> int option op" where
  "acquireBackupLock env jobName = bnd (gets cl) (\<lambda>c.
     bnd (attempt (AcquireWithReader (bgLockApi env) (Some c) backupOperationLock
            \<lparr> aoMessage = ''backup job '' @ jobName, aoForce = False, aoForceIf = None \<rparr>)) (\<lambda>r. case r of
        Inl err \<Rightarrow>
          if IsLockHeld (Some err)
          then bnd (audit ''OperationLockBlocked'' (AddHeldAuditFields (backupLockFields c) err)) (\<lambda>_.
               bnd (emitWarningEvent ''OperationLockBlocked'' (''Backup blocked by operation lock: '' @ eErrorText env err)) (\<lambda>_.
               ret (Some (RequeueDelay (eRequeueStandard env) RetryClassStandard))))
          else failwith (wrapf ''failed to acquire backup operation lock'' err)
      | Inr c' \<Rightarrow> bnd (setCl c') (\<lambda>_. ret None)))"

section \<open>Jobs\<close>

definition scheduledBackupJobName :: "Cluster \<Rightarrow> time \<Rightarrow> string" where
  "scheduledBackupJobName c scheduledTime = ''backup-'' @ clName c @ ''-'' @ formatCompact scheduledTime"

definition backupJobSelector :: "Cluster \<Rightarrow> string \<Rightarrow> labels" where
  "backupJobSelector c backupType = [(LabelAppInstance, clName c), (LabelAppManagedBy, ''openbao-operator''),
     (LabelOpenBaoCluster, clName c), (''openbao.org/component'', ''backup''), (''openbao.org/backup-type'', backupType)]"

definition requireJobOwner :: "Cluster \<Rightarrow> string \<Rightarrow> Job \<Rightarrow> go_error option" where
  "requireJobOwner c action job = RequireManagedJobOwner action (Some job) (Some (clusterMeta c)) openBaoClusterGVK"

definition backupJobKey :: "Job option \<Rightarrow> string" where
  "backupJobKey job = (case job of None \<Rightarrow> [] | Some j \<Rightarrow> lookup_label (omAnnotations (jbMeta j)) ''openbao.org/backup-key'')"

definition backupJobTimestamp :: "Job option \<Rightarrow> time" where
  "backupJobTimestamp job = (case job of None \<Rightarrow> zeroTime
     | Some j \<Rightarrow> (case jbCompletionTime j of Some t \<Rightarrow> t | None \<Rightarrow> omCreationTimestamp (jbMeta j)))"

definition newestBackupJob :: "Job option \<Rightarrow> Job option \<Rightarrow> Job option" where
  "newestBackupJob a b = (if a = None then b else if b = None then a
     else if backupJobTimestamp b > backupJobTimestamp a then b else a)"

definition jobDuration :: "Job \<Rightarrow> int option" where
  "jobDuration j = (case (jbStartTime j, jbCompletionTime j) of
      (Some a, Some b) \<Rightarrow> if timeSub b a \<le> 0 then None else Some (timeSub b a)
    | _ \<Rightarrow> None)"

section \<open>Metrics\<close>

fun emitBackupMetrics :: "backupMetric list \<Rightarrow> unit op" where
  "emitBackupMetrics [] = ret ()"
| "emitBackupMetrics (m # ms) = bnd (emit (BackupMetricE m)) (\<lambda>_. emitBackupMetrics ms)"

definition backupJobMetricsSeenKey :: "string \<Rightarrow> string \<Rightarrow> string \<Rightarrow> string \<Rightarrow> string" where
  "backupJobMetricsSeenKey namespace name jobUID outcome = namespace @ ''/'' @ name @ ''/'' @ jobUID @ ''/'' @ outcome"

definition markBackupJobMetricsSeen :: "string \<Rightarrow> string \<Rightarrow> string \<Rightarrow> string \<Rightarrow> bool op" where
  "markBackupJobMetricsSeen namespace name jobUID outcome =
     (let key = backupJobMetricsSeenKey namespace name jobUID outcome in
      bnd (gets backupJobMetricsSeen) (\<lambda>seen. if key \<in> set seen then ret False
        else bnd (modify (\<lambda>s. s\<lparr>backupJobMetricsSeen := key # seen\<rparr>)) (\<lambda>_. ret True)))"

definition backupStatusMetrics :: "env \<Rightarrow> BackupStatus \<Rightarrow> backupMetric list" where
  "backupStatusMetrics env b =
     [BackupConsecutiveFailures (bkConsecutiveFailures b)]
     @ (case bkLastAttemptTime b of None \<Rightarrow> [] | Some t \<Rightarrow> [BackupLastAttempt (secondsOf t)])
     @ (case bkLastBackupTime b of None \<Rightarrow> [] | Some t \<Rightarrow> [BackupLastSuccess (secondsOf t)])
     @ (if bkLastBackupSize b > 0 then [BackupLastSize (bkLastBackupSize b)] else [])
     @ (if bkLastBackupDuration b \<noteq> []
        then (case eParseDuration env (bkLastBackupDuration b) of Inl _ \<Rightarrow> [] | Inr d \<Rightarrow> [BackupLastDuration d]) else [])"

definition syncBackupStatusMetrics :: "env \<Rightarrow> unit op" where
  "syncBackupStatusMetrics env = bnd (gets cl) (\<lambda>c. case backupStatus c of
      None \<Rightarrow> ret () | Some b \<Rightarrow> emitBackupMetrics (backupStatusMetrics env b))"

record backupJobMetricsSnapshot =
  bmInProgress :: bool
  bmNewestSucceeded :: "Job option"
  bmNewestFailed :: "Job option"

fun collectJobMetrics :: "Cluster \<Rightarrow> Job list \<Rightarrow> backupJobMetricsSnapshot \<Rightarrow> backupJobMetricsSnapshot op" where
  "collectJobMetrics c [] snapshot = ret snapshot"
| "collectJobMetrics c (job # jobs) snapshot = (case requireJobOwner c ''collect backup metrics from'' job of
      Some e \<Rightarrow> failwith e
    | None \<Rightarrow>
        if JobSucceeded (Some job)
        then bnd (markBackupJobMetricsSeen (clNamespace c) (clName c) (omUID (jbMeta job)) ''success'') (\<lambda>fresh.
             bnd (if fresh then emit (BackupMetricE BackupSuccessTotal) else ret ()) (\<lambda>_.
             collectJobMetrics c jobs (snapshot\<lparr>bmNewestSucceeded := newestBackupJob (bmNewestSucceeded snapshot) (Some job)\<rparr>)))
        else if JobFailed (Some job)
        then bnd (markBackupJobMetricsSeen (clNamespace c) (clName c) (omUID (jbMeta job)) ''failure'') (\<lambda>fresh.
             bnd (if fresh then emit (BackupMetricE BackupFailureTotal) else ret ()) (\<lambda>_.
             collectJobMetrics c jobs (snapshot\<lparr>bmNewestFailed := newestBackupJob (bmNewestFailed snapshot) (Some job)\<rparr>)))
        else collectJobMetrics c jobs (snapshot\<lparr>bmInProgress := True\<rparr>))"

definition collectBackupJobMetricsSnapshot :: "env \<Rightarrow> backupJobMetricsSnapshot op" where
  "collectBackupJobMetricsSnapshot env = bnd (gets cl) (\<lambda>c.
     bnd (wrap_err (wrapf ''failed to list backup jobs for metrics sync'')
            (listJobs env (backupJobSelector c ''scheduled''))) (\<lambda>jobs.
     collectJobMetrics c jobs \<lparr> bmInProgress = False, bmNewestSucceeded = None, bmNewestFailed = None \<rparr>))"

definition latestBackupOutcome :: "backupJobMetricsSnapshot \<Rightarrow> (int \<times> time) option" where
  "latestBackupOutcome snapshot = (case (bmNewestSucceeded snapshot, bmNewestFailed snapshot) of
      (None, None) \<Rightarrow> None
    | (Some j, None) \<Rightarrow> Some (1, backupJobTimestamp (Some j))
    | (None, Some k) \<Rightarrow> Some (2, backupJobTimestamp (Some k))
    | (Some j, Some k) \<Rightarrow>
        if backupJobTimestamp (Some k) > backupJobTimestamp (Some j) then Some (2, backupJobTimestamp (Some k))
        else Some (1, backupJobTimestamp (Some j)))"

definition backupSnapshotMetrics :: "BackupStatus option \<Rightarrow> backupJobMetricsSnapshot \<Rightarrow> backupMetric list" where
  "backupSnapshotMetrics status snapshot =
     BackupInProgress (bmInProgress snapshot) #
     (if bmInProgress snapshot then [BackupState 3]
      else case latestBackupOutcome snapshot of
          Some (outcome, at) \<Rightarrow> (if at \<noteq> zeroTime then [BackupLastAttempt (secondsOf at)] else []) @ [BackupState outcome]
        | None \<Rightarrow> (case status of
            None \<Rightarrow> [BackupState 0]
          | Some b \<Rightarrow> if bkLastBackupTime b \<noteq> None then [BackupState 1]
                      else if bkConsecutiveFailures b > 0 then [BackupState 2] else [BackupState 0]))"

definition applyBackupJobSnapshotToMetrics :: "backupJobMetricsSnapshot \<Rightarrow> unit op" where
  "applyBackupJobSnapshotToMetrics snapshot = bnd (gets cl) (\<lambda>c.
     emitBackupMetrics (backupSnapshotMetrics (backupStatus c) snapshot))"

section \<open>Object storage\<close>

definition openBackupStorageClient :: "env \<Rightarrow> unit op" where
  "openBackupStorageClient env = bnd (gets cl) (\<lambda>c. callU (\<lambda>tr. kOpenStorage (eBackup env) tr c) OpenStorageE)"

definition shouldReadBackupSizeFromObjectStorage :: "Cluster \<Rightarrow> bool" where
  "shouldReadBackupSizeFromObjectStorage c = (case spBackup (clSpec c) of None \<Rightarrow> False
     | Some b \<Rightarrow> btRoleARN (bsTarget b) = []
         \<and> (case btCredentialsSecretRef (bsTarget b) of None \<Rightarrow> False | Some n \<Rightarrow> n \<noteq> []))"

definition readBackupSizeFromObjectStorage :: "env \<Rightarrow> string \<Rightarrow> int op" where
  "readBackupSizeFromObjectStorage env backupKey = bnd (gets cl) (\<lambda>c.
     if spBackup (clSpec c) = None \<or> backupKey = [] then ret 0
     else bnd (wrap_err (wrapf ''failed to create storage client'') (openBackupStorageClient env)) (\<lambda>_.
       bnd (wrap_err (wrapf ''failed to head object'')
              (call (\<lambda>tr. kStorageHead (eBackup env) tr backupKey) (StorageHeadE backupKey))) (\<lambda>info.
       ret (case info of None \<Rightarrow> 0 | Some sz \<Rightarrow> sz))))"

definition backfillDuration :: "env \<Rightarrow> Job \<Rightarrow> bool op" where
  "backfillDuration env job = (case jobDuration job of
      None \<Rightarrow> ret False
    | Some duration \<Rightarrow> bnd (emitBackupMetrics [BackupLastDuration duration]) (\<lambda>_. withBackup (\<lambda>b.
        if bkLastBackupDuration b \<noteq> [] then ret False
        else bnd (updBackup (\<lambda>b. b\<lparr>bkLastBackupDuration := kDurationString (eBackup env) duration\<rparr>)) (\<lambda>_. ret True))))"

definition backfillSize :: "env \<Rightarrow> Job \<Rightarrow> bool op" where
  "backfillSize env job = bnd (gets cl) (\<lambda>c.
     if backupJobKey (Some job) = [] \<or> \<not> shouldReadBackupSizeFromObjectStorage c then ret False
     else bnd (attempt (readBackupSizeFromObjectStorage env (backupJobKey (Some job)))) (\<lambda>r. case r of
         Inl _ \<Rightarrow> ret False
       | Inr sz \<Rightarrow>
           if sz \<le> 0 then ret False
           else bnd (emitBackupMetrics [BackupLastSize sz]) (\<lambda>_. withBackup (\<lambda>b.
             if bkLastBackupSize b \<noteq> 0 then ret False
             else bnd (updBackup (\<lambda>b. b\<lparr>bkLastBackupSize := sz\<rparr>)) (\<lambda>_. ret True)))))"

definition backfillBackupGaugesFromLatestSuccess :: "env \<Rightarrow> Job option \<Rightarrow> unit op" where
  "backfillBackupGaugesFromLatestSuccess env newestSucceeded = bnd (gets cl) (\<lambda>c.
     case (newestSucceeded, backupStatus c) of
       (Some job, Some b) \<Rightarrow>
         bnd (if bkLastBackupTime b = None
              then emitBackupMetrics [BackupLastSuccess (secondsOf (backupJobTimestamp (Some job)))] else ret ()) (\<lambda>_.
         bnd (backfillDuration env job) (\<lambda>changed1.
         bnd (backfillSize env job) (\<lambda>changed2.
         if changed1 \<or> changed2
         then wrap_err (wrapf ''failed to patch backup status after metrics backfill'') (patchBackupStatusSSA env)
         else ret ())))
     | _ \<Rightarrow> ret ())"

definition syncBackupMetrics :: "env \<Rightarrow> unit op" where
  "syncBackupMetrics env = bnd (syncBackupStatusMetrics env) (\<lambda>_.
     bnd (collectBackupJobMetricsSnapshot env) (\<lambda>snapshot.
     bnd (applyBackupJobSnapshotToMetrics snapshot) (\<lambda>_.
     backfillBackupGaugesFromLatestSuccess env (bmNewestSucceeded snapshot))))"

end
