(* ===== verification/Backup_Retention.thy ===== *)
theory Backup_Retention
  imports Backup_Status "HOL-Library.Multiset"
begin

text \<open>
  Retention of backups (\<open>internal/service/backup/retention.go\<close>, \<open>manager_retention.go\<close>): which of the listed objects are
  scheduled backups, which of those a policy removes, and the pass over the object store after a successful backup.
\<close>

section \<open>Policy\<close>

record RetentionPolicy =
  rpMaxCount :: int
  rpMaxAge :: int
  rpProtectedKey :: string
  rpRestoreTestKey :: string

record RetentionResult =
  rrTotalBackups :: nat
  rrSkippedObjects :: nat
  rrDeletedByCount :: nat
  rrDeletedByAge :: nat
  rrErrors :: "go_error list"

definition noRetention :: RetentionResult where
  "noRetention = \<lparr> rrTotalBackups = 0, rrSkippedObjects = 0, rrDeletedByCount = 0, rrDeletedByAge = 0, rrErrors = [] \<rparr>"

definition ParseRetentionMaxAge :: "(string \<Rightarrow> go_error + int) \<Rightarrow> string \<Rightarrow> go_error + int" where
  "ParseRetentionMaxAge parseDuration maxAge =
     (if maxAge = [] then Inr 0
      else case parseDuration maxAge of
          Inl err \<Rightarrow> Inl (wrapf ''invalid maxAge duration'' err)
        | Inr duration \<Rightarrow> if duration \<le> 0 then Inl (errorf ''maxAge must be a positive duration'') else Inr duration)"

text \<open>The scheduled backups among the listed objects, with their timestamps.\<close>

definition backupInfo :: "string \<Rightarrow> string \<Rightarrow> (string \<times> time) option" where
  "backupInfo prefix key =
     (if \<not> IsScheduledBackupKey key prefix then None
      else case ParseBackupKey key of Inl _ \<Rightarrow> None | Inr (_, _, timestamp, _) \<Rightarrow> Some (key, timestamp))"

definition backupInfos :: "string \<Rightarrow> string list \<Rightarrow> (string \<times> time) list" where
  "backupInfos prefix objects = List.map_filter (backupInfo prefix) objects"

datatype retentionChoice = KeepBackup | DeleteByCount | DeleteByAge

definition chooseRetention :: "RetentionPolicy \<Rightarrow> time \<Rightarrow> int \<Rightarrow> string \<times> time \<Rightarrow> retentionChoice" where
  "chooseRetention policy tm i b = (case b of (key, timestamp) \<Rightarrow>
     if i = 0 \<or> (rpRestoreTestKey policy \<noteq> [] \<and> key = rpRestoreTestKey policy)
        \<or> (rpProtectedKey policy \<noteq> [] \<and> key = rpProtectedKey policy) then KeepBackup
     else if rpMaxCount policy > 0 \<and> i \<ge> rpMaxCount policy then DeleteByCount
     else if rpMaxAge policy > 0 \<and> timeSub tm timestamp > rpMaxAge policy then DeleteByAge
     else KeepBackup)"

text \<open>The loop runs over an index of type \<open>int32\<close>.\<close>

definition retentionChoices :: "RetentionPolicy \<Rightarrow> time \<Rightarrow> (string \<times> time) list \<Rightarrow> (string \<times> retentionChoice) list" where
  "retentionChoices policy tm backups =
     (let n = nat (int32 (int (length backups))) in
      map (\<lambda>i. (fst (backups ! i), chooseRetention policy tm (int i) (backups ! i))) [0..<n])"

definition keysToDelete :: "(string \<times> retentionChoice) list \<Rightarrow> string list" where
  "keysToDelete choices = map fst (filter (\<lambda>(k, ch). ch \<noteq> KeepBackup) choices)"

definition countChoice :: "retentionChoice \<Rightarrow> (string \<times> retentionChoice) list \<Rightarrow> nat" where
  "countChoice ch choices = length (filter (\<lambda>p. snd p = ch) choices)"

definition ApplyRetention :: "env \<Rightarrow> string \<Rightarrow> RetentionPolicy \<Rightarrow> RetentionResult op" where
  "ApplyRetention env prefix policy =
     (if rpMaxCount policy = 0 \<and> rpMaxAge policy = 0 then ret noRetention
      else bnd (wrap_err (wrapf ''failed to list backups for retention'')
                  (call (\<lambda>tr. kStorageList (eBackup env) tr prefix) (StorageListE prefix))) (\<lambda>objects.
        if objects = [] then ret noRetention
        else let backups = kSortNewest (eBackup env) (backupInfos prefix objects) in
          bnd (now env) (\<lambda>tm.
          let choices = retentionChoices policy tm backups; keys = keysToDelete choices;
              result = \<lparr> rrTotalBackups = length backups, rrSkippedObjects = length objects - length backups,
                rrDeletedByCount = countChoice DeleteByCount choices, rrDeletedByAge = countChoice DeleteByAge choices,
                rrErrors = [] \<rparr>
          in if keys = [] then ret result
             else bnd (attempt (callU (\<lambda>tr. kStorageDelete (eBackup env) tr keys) (StorageDeleteE keys))) (\<lambda>r.
               ret (case r of Inr _ \<Rightarrow> result
                 | Inl err \<Rightarrow> result\<lparr>rrErrors := [wrapf ''failed to delete backups'' err]\<rparr>)))))"

section \<open>After a successful backup\<close>

definition activeRestoreTestKey :: "Cluster \<Rightarrow> string" where
  "activeRestoreTestKey live = (case backupStatus live of None \<Rightarrow> []
     | Some b \<Rightarrow> (case bkRestoreTest b of None \<Rightarrow> []
       | Some ts \<Rightarrow> (case tsActive ts of None \<Rightarrow> [] | Some run \<Rightarrow> tnKey run)))"

definition applyRetention :: "env \<Rightarrow> unit op" where
  "applyRetention env = withBackupSpec (\<lambda>spec. bnd (gets cl) (\<lambda>c.
     case bsRetention spec of
       None \<Rightarrow> ret ()
     | Some retention \<Rightarrow>
         if btRoleARN (bsTarget spec) \<noteq> [] then ret ()
         else if btCredentialsSecretRef (bsTarget spec) = None then ret ()
         else bnd (wrap_err (wrapf ''failed to parse retention maxAge'')
                     (lift_res (ParseRetentionMaxAge (eParseDuration env) (brMaxAge retention)))) (\<lambda>maxAge.
           bnd (wrap_err (wrapf ''failed to read restore test reservation for retention'') (getCluster env)) (\<lambda>live.
           let policy = \<lparr> rpMaxCount = brMaxCount retention, rpMaxAge = maxAge,
                 rpProtectedKey = (case backupStatus c of None \<Rightarrow> [] | Some b \<Rightarrow> bkLastBackupName b),
                 rpRestoreTestKey = activeRestoreTestKey live \<rparr>;
               prefix = GetBackupListPrefix (btPathPrefix (bsTarget spec)) (clNamespace c) (clName c)
           in bnd (wrap_err (wrapf ''failed to create storage client for retention'') (openBackupStorageClient env)) (\<lambda>_.
              bnd (ApplyRetention env prefix policy) (\<lambda>result.
              let totalDeleted = rrDeletedByCount result + rrDeletedByAge result in
              if totalDeleted > 0 then emitBackupMetrics [RetentionDeleted (int totalDeleted)] else ret ()))))))"

definition applyRetentionAfterSuccess :: "env \<Rightarrow> unit op" where
  "applyRetentionAfterSuccess env = bnd (gets cl) (\<lambda>c. case spBackup (clSpec c) of
      None \<Rightarrow> ret ()
    | Some b \<Rightarrow> if bsRetention b = None then ret () else bnd (attempt (applyRetention env)) (\<lambda>_. ret ()))"

section \<open>What a policy removes\<close>

lemma map_filter_set: "x \<in> set (List.map_filter f xs) \<longleftrightarrow> (\<exists>y \<in> set xs. f y = Some x)"
  by (induction xs) (auto simp: List.map_filter_def split: option.splits)

lemma backupInfo_Some:
  "backupInfo prefix key = Some (k, t) \<longleftrightarrow>
     k = key \<and> IsScheduledBackupKey key prefix \<and> (\<exists>ns c u. ParseBackupKey key = Inr (ns, c, t, u))"
  by (auto simp: backupInfo_def split: sum.splits)

lemma backupInfos_set:
  "(k, t) \<in> set (backupInfos prefix objects) \<longleftrightarrow>
     k \<in> set objects \<and> IsScheduledBackupKey k prefix \<and> (\<exists>ns c u. ParseBackupKey k = Inr (ns, c, t, u))"
  by (auto simp: backupInfos_def map_filter_set backupInfo_Some)

lemma backupInfos_distinct: "distinct objects \<Longrightarrow> distinct (map fst (backupInfos prefix objects))"
proof (induction objects)
  case (Cons k ks)
  have "(k, t) \<notin> set (backupInfos prefix ks)" for t using Cons.prems by (simp add: backupInfos_set)
  then show ?case using Cons
    by (cases "backupInfo prefix k") (auto simp: backupInfos_def List.map_filter_simps backupInfo_Some)
qed (simp add: backupInfos_def List.map_filter_simps)

lemma int32_length_le: "nat (int32 (int n)) \<le> n"
  using zmod_le_nonneg_dividend [of "int n + 2 ^ 31" "2 ^ 32"] by (simp add: int32_def)

text \<open>A removed key: its place in the order, and the reason.\<close>

lemma chooseRetention_iff:
  "chooseRetention policy tm i b \<noteq> KeepBackup \<longleftrightarrow> i \<noteq> 0
     \<and> \<not> (rpRestoreTestKey policy \<noteq> [] \<and> fst b = rpRestoreTestKey policy)
     \<and> \<not> (rpProtectedKey policy \<noteq> [] \<and> fst b = rpProtectedKey policy)
     \<and> (rpMaxCount policy > 0 \<and> i \<ge> rpMaxCount policy \<or> rpMaxAge policy > 0 \<and> timeSub tm (snd b) > rpMaxAge policy)"
  by (cases b) (simp add: chooseRetention_def)

lemma keysToDelete_iff:
  "k \<in> set (keysToDelete (retentionChoices policy tm backups)) \<longleftrightarrow>
     (\<exists>i < nat (int32 (int (length backups))). fst (backups ! i) = k
        \<and> chooseRetention policy tm (int i) (backups ! i) \<noteq> KeepBackup)"
  by (auto simp: keysToDelete_def retentionChoices_def Let_def image_iff) force

lemma IsScheduledBackupKey_not_Nil: "IsScheduledBackupKey k p \<Longrightarrow> k \<noteq> []"
proof
  assume "IsScheduledBackupKey k p" "k = []"
  then have "list_all2 (\<lambda>p c. p c) scheduledBackupFilename []"
    by (auto simp: IsScheduledBackupKey_def cut_prefix_def has_prefix_def split: if_splits)
  then have "scheduledBackupFilename = []" by simp
  then show False by (simp add: scheduledBackupFilename_def Let_def BackupExtension_def)
qed

text \<open>The contract of the sort: a permutation with the later timestamps first.\<close>

definition sortsNewestFirst :: "((string \<times> time) list \<Rightarrow> (string \<times> time) list) \<Rightarrow> bool" where
  "sortsNewestFirst srt \<longleftrightarrow> (\<forall>xs. mset (srt xs) = mset xs \<and> sorted_wrt (\<lambda>a b. snd b \<le> snd a) (srt xs))"

text \<open>
  What the keys of one batch delete satisfy, given the listed objects and the policy: only scheduled backups of the prefix, not
  the protected keys, each one past the count or past the age, and some backup at least as new as all of them stays.
\<close>

definition retirable :: "string \<Rightarrow> RetentionPolicy \<Rightarrow> time \<Rightarrow> string list \<Rightarrow> string \<Rightarrow> bool" where
  "retirable prefix policy tm objects k \<longleftrightarrow>
     k \<in> set objects \<and> IsScheduledBackupKey k prefix \<and> k \<noteq> rpProtectedKey policy \<and> k \<noteq> rpRestoreTestKey policy
     \<and> (\<exists>ns c t u. ParseBackupKey k = Inr (ns, c, t, u)
          \<and> (rpMaxCount policy > 0
               \<and> rpMaxCount policy \<le> int (length (filter (\<lambda>p. fst p \<noteq> k \<and> snd p \<ge> t) (backupInfos prefix objects)))
             \<or> rpMaxAge policy > 0 \<and> timeSub tm t > rpMaxAge policy))"

definition newestKept :: "string \<Rightarrow> string list \<Rightarrow> string list \<Rightarrow> bool" where
  "newestKept prefix objects keys \<longleftrightarrow> (\<exists>k0 t0. (k0, t0) \<in> set (backupInfos prefix objects) \<and> k0 \<notin> set keys
     \<and> (\<forall>(k, t) \<in> set (backupInfos prefix objects). t \<le> t0))"

lemma retention_batch:
  assumes srt: "sortsNewestFirst srt" and objs: "distinct objects"
    and keys: "keys = keysToDelete (retentionChoices policy tm (srt (backupInfos prefix objects)))" "keys \<noteq> []"
  shows "\<forall>k \<in> set keys. retirable prefix policy tm objects k" "newestKept prefix objects keys"
proof -
  let ?infos = "backupInfos prefix objects"
  define bs where "bs = srt ?infos"
  have perm: "mset bs = mset ?infos" and sorted: "sorted_wrt (\<lambda>a b. snd b \<le> snd a) bs"
    using srt by (simp_all add: sortsNewestFirst_def bs_def)
  have set: "set bs = set ?infos" using perm by (rule mset_eq_setD)
  have "mset (map fst bs) = mset (map fst ?infos)" using perm by simp
  then have dist: "distinct (map fst bs)" using backupInfos_distinct [OF objs] mset_eq_imp_distinct_iff by metis
  have place: "i = j" if "i < length bs" "j < length bs" "fst (bs ! i) = fst (bs ! j)" for i j
    using that dist by (auto simp: distinct_conv_nth)
  note del = keysToDelete_iff [of _ policy tm bs, folded keys(1) [folded bs_def]]
  have "retirable prefix policy tm objects k" if k: "k \<in> set keys" for k
  proof -
    obtain i where i: "i < length bs" "fst (bs ! i) = k"
      and p: "k \<noteq> rpProtectedKey policy \<or> rpProtectedKey policy = []" "k \<noteq> rpRestoreTestKey policy \<or> rpRestoreTestKey policy = []"
      and r: "rpMaxCount policy > 0 \<and> int i \<ge> rpMaxCount policy
           \<or> rpMaxAge policy > 0 \<and> timeSub tm (snd (bs ! i)) > rpMaxAge policy"
      using k int32_length_le [of "length bs"] unfolding del chooseRetention_iff by (auto dest: order_less_le_trans)
    obtain t where t: "bs ! i = (k, t)" using i(2) by (cases "bs ! i") auto
    then have "(k, t) \<in> set ?infos" using i(1) set nth_mem by metis
    then have o: "k \<in> set objects" "IsScheduledBackupKey k prefix" "\<exists>ns c u. ParseBackupKey k = Inr (ns, c, t, u)"
      by (simp_all add: backupInfos_set)
    have "i \<le> length (filter (\<lambda>p. fst p \<noteq> k \<and> snd p \<ge> t) bs)"
    proof -
      have "list_all (\<lambda>p. fst p \<noteq> k \<and> snd p \<ge> t) (take i bs)"
        unfolding list_all_length
      proof (intro allI impI conjI)
        fix j assume "j < length (take i bs)"
        then have j: "j < i" "j < length bs" "take i bs ! j = bs ! j" by simp_all
        show "fst (take i bs ! j) \<noteq> k" using place [of j i] i j by auto
        show "snd (take i bs ! j) \<ge> t" using sorted i(1) j t by (metis snd_conv sorted_wrt_nth_less)
      qed
      then have "filter (\<lambda>p. fst p \<noteq> k \<and> snd p \<ge> t) (take i bs) = take i bs" by (simp add: list_all_iff)
      moreover have "length (filter P (take i bs)) \<le> length (filter P bs)" for P :: "string \<times> time \<Rightarrow> bool"
        by (metis append_take_drop_id filter_append le_add1 length_append)
      ultimately show ?thesis using i(1) by (metis length_take min.absorb4)
    qed
    also have "\<dots> = length (filter (\<lambda>p. fst p \<noteq> k \<and> snd p \<ge> t) ?infos)"
      by (rule mset_eq_length) (simp add: perm)
    finally have n: "i \<le> length (filter (\<lambda>p. fst p \<noteq> k \<and> snd p \<ge> t) ?infos)" .
    have "k \<noteq> []" using o(2) by (rule IsScheduledBackupKey_not_Nil)
    then have "k \<noteq> rpProtectedKey policy" "k \<noteq> rpRestoreTestKey policy" using p by auto
    then show ?thesis using o r t n unfolding retirable_def by auto
  qed
  then show "\<forall>k \<in> set keys. retirable prefix policy tm objects k" by blast
  have "bs \<noteq> []" using keys by (auto simp: keysToDelete_def retentionChoices_def int32_def simp flip: bs_def)
  then obtain k0 t0 bs' where bs: "bs = (k0, t0) # bs'" by (cases bs) auto
  have "k0 \<notin> set keys"
  proof
    assume "k0 \<in> set keys"
    then obtain i where "i < length bs" "fst (bs ! i) = k0" "i \<noteq> 0"
      using int32_length_le [of "length bs"] unfolding del chooseRetention_iff by (auto dest: order_less_le_trans)
    then show False using place [of i 0] bs by simp
  qed
  moreover have "t \<le> t0" if "(k, t) \<in> set ?infos" for k t
    using that sorted by (auto simp: bs simp flip: set)
  ultimately show "newestKept prefix objects keys"
    unfolding newestKept_def set [symmetric] by (intro exI [of _ k0] exI [of _ t0]) (auto simp: bs)
qed

section \<open>The pass over the store\<close>

text \<open>The policy of a pass: the counts of the specification, the last recorded backup and the reservation read live.\<close>

definition retentionPolicyOf :: "Cluster \<Rightarrow> BackupRetention \<Rightarrow> int \<Rightarrow> Cluster \<Rightarrow> RetentionPolicy" where
  "retentionPolicyOf c retention maxAge live = \<lparr> rpMaxCount = brMaxCount retention, rpMaxAge = maxAge,
     rpProtectedKey = (case backupStatus c of None \<Rightarrow> [] | Some b \<Rightarrow> bkLastBackupName b),
     rpRestoreTestKey = activeRestoreTestKey live \<rparr>"

definition storeLists :: "env \<Rightarrow> bool" where
  "storeLists env \<longleftrightarrow> sortsNewestFirst (kSortNewest (eBackup env))
     \<and> (\<forall>tr p objects. kStorageList (eBackup env) tr p = Inr objects \<longrightarrow> distinct objects)"

text \<open>
  What the calls \<open>ev\<close> of a pass that began after \<open>tr\<close> say when they hold a batch delete: the age is the parsed one of the specification
  and the instant is the clock's, read between the listing and the delete.
\<close>

definition soundDelete :: "env \<Rightarrow> Cluster \<Rightarrow> event list \<Rightarrow> event list \<Rightarrow> string list \<Rightarrow> bool" where
  "soundDelete env c tr ev keys \<longleftrightarrow> (\<exists>spec retention maxAge live objects before.
     spBackup (clSpec c) = Some spec \<and> bsRetention spec = Some retention
     \<and> ParseRetentionMaxAge (eParseDuration env) (brMaxAge retention) = Inr maxAge
     \<and> GetClusterE (Inr live) \<in> set before
     \<and> (let prefix = GetBackupListPrefix (btPathPrefix (bsTarget spec)) (clNamespace c) (clName c);
            listed = before @ [StorageListE prefix (Inr objects)] in
        (\<exists>ans after. ev = listed @ StorageDeleteE keys ans # after) \<and> newestKept prefix objects keys
        \<and> (\<forall>k \<in> set keys. retirable prefix (retentionPolicyOf c retention maxAge live) (eNow env (tr @ listed)) objects k)))"

definition deletesSoundly :: "env \<Rightarrow> st \<Rightarrow> st \<Rightarrow> bool" where
  "deletesSoundly env s t \<longleftrightarrow> cl t = cl s \<and> (\<exists>ev. trace t = trace s @ ev
     \<and> (\<forall>keys ans. StorageDeleteE keys ans \<in> set ev \<longrightarrow> soundDelete env (cl s) (trace s) ev keys))"

lemma emitBackupMetrics_run:
  "emitBackupMetrics ms s = (Inr (), s\<lparr>trace := trace s @ map BackupMetricE ms\<rparr>)"
  by (induction ms arbitrary: s) (simp_all add: ret_def bnd_def emit_def modify_def)

lemma wp_emitBackupMetrics [wps]: "wp (emitBackupMetrics ms) Q E s = Q () (s\<lparr>trace := trace s @ map BackupMetricE ms\<rparr>)"
  by (simp add: wp_def emitBackupMetrics_run)

lemma countChoice_keys: "countChoice DeleteByCount cs + countChoice DeleteByAge cs = length (keysToDelete cs)"
proof (induction cs)
  case (Cons c cs) then show ?case by (cases "snd c") (auto simp: countChoice_def keysToDelete_def split: prod.splits)
qed (simp add: countChoice_def keysToDelete_def)

lemma wp_ApplyRetention:
  assumes "storeLists env"
  shows "wp (ApplyRetention env prefix policy)
     (\<lambda>result t. cl t = cl s \<and> (\<exists>ev. trace t = trace s @ ev \<and> (\<forall>keys ans. StorageDeleteE keys ans \<in> set ev \<longrightarrow>
        (\<exists>objects. ev = [StorageListE prefix (Inr objects), StorageDeleteE keys ans] \<and> newestKept prefix objects keys
           \<and> (\<forall>k \<in> set keys. retirable prefix policy (eNow env (trace s @ [StorageListE prefix (Inr objects)])) objects k)
           \<and> rrDeletedByCount result + rrDeletedByAge result = length keys \<and> keys \<noteq> []))))
     (\<lambda>e t. cl t = cl s \<and> (\<exists>ev. trace t = trace s @ ev \<and> (\<forall>keys ans. StorageDeleteE keys ans \<notin> set ev))) s"
proof -
  have batch: "newestKept prefix objects keys \<and> (\<forall>k \<in> set keys. retirable prefix policy tm objects k)"
    if "kStorageList (eBackup env) (trace s) prefix = Inr objects"
      "keys = keysToDelete (retentionChoices policy tm (kSortNewest (eBackup env) (backupInfos prefix objects)))" "keys \<noteq> []"
    for objects keys tm
    using assms that retention_batch [of "kSortNewest (eBackup env)" objects keys policy tm prefix] by (simp add: storeLists_def)
  show ?thesis
    unfolding ApplyRetention_def Let_def
    by (auto simp: wps countChoice_keys split: sum.split option.split dest!: batch)
qed

text \<open>Every way out of \<open>applyRetention\<close>: what was deleted was retirable, and every batch is counted, whatever the store answered.\<close>

definition countsDeletes :: "st \<Rightarrow> go_error + unit \<Rightarrow> st \<Rightarrow> bool" where
  "countsDeletes s r t \<longleftrightarrow> (\<forall>ev keys ans. trace t = trace s @ ev \<longrightarrow> StorageDeleteE keys ans \<in> set ev \<longrightarrow>
     r = Inr () \<and> BackupMetricE (RetentionDeleted (int (length keys))) \<in> set ev)"

lemma deletesNothing:
  assumes "cl t = cl s" "trace t = trace s @ ev" "\<And>keys ans. StorageDeleteE keys ans \<notin> set ev"
  shows "deletesSoundly env s t" "countsDeletes s r t"
  using assms by (auto simp: deletesSoundly_def countsDeletes_def)

text \<open>The store has been opened after the reservation was read; \<open>before\<close> are the calls up to there.\<close>

lemma wp_retentionTail:
  assumes lists: "storeLists env" and spec: "spBackup (clSpec (cl s)) = Some spec" "bsRetention spec = Some retention"
    and age: "ParseRetentionMaxAge (eParseDuration env) (brMaxAge retention) = Inr maxAge"
    and before: "cl t = cl s" "trace t = trace s @ before" "GetClusterE (Inr live) \<in> set before"
      "\<And>keys ans. StorageDeleteE keys ans \<notin> set before"
  shows "wp (ApplyRetention env (GetBackupListPrefix (btPathPrefix (bsTarget spec)) (clNamespace (cl s)) (clName (cl s)))
       (retentionPolicyOf (cl s) retention maxAge live))
     (\<lambda>result. wp (let totalDeleted = rrDeletedByCount result + rrDeletedByAge result in
          if totalDeleted > 0 then emitBackupMetrics [RetentionDeleted (int totalDeleted)] else ret ())
        (\<lambda>v t. deletesSoundly env s t \<and> countsDeletes s (Inr v) t) (\<lambda>e t. deletesSoundly env s t \<and> countsDeletes s (Inl e) t))
     (\<lambda>e t. deletesSoundly env s t \<and> countsDeletes s (Inl e) t) t"
proof (rule wp_mono [OF wp_ApplyRetention [OF lists]], goal_cases)
  case (1 result u)
  let ?p = "GetBackupListPrefix (btPathPrefix (bsTarget spec)) (clNamespace (cl s)) (clName (cl s))"
  from 1 obtain ev where u: "cl u = cl s" "trace u = trace s @ before @ ev"
    and del: "\<And>keys ans. StorageDeleteE keys ans \<in> set ev \<Longrightarrow> \<exists>objects.
        ev = [StorageListE ?p (Inr objects), StorageDeleteE keys ans]
        \<and> newestKept ?p objects keys
        \<and> (\<forall>k \<in> set keys. retirable ?p
            (retentionPolicyOf (cl s) retention maxAge live)
            (eNow env (trace t @ [StorageListE ?p (Inr objects)])) objects k)
        \<and> rrDeletedByCount result + rrDeletedByAge result = length keys \<and> keys \<noteq> []"
    using before(1,2) by auto
  have sound: "soundDelete env (cl s) (trace s) (before @ ev @ rest) keys" if k: "StorageDeleteE keys ans \<in> set ev" for keys ans rest
  proof -
    from del [OF k] obtain objects where o: "ev = [StorageListE ?p (Inr objects), StorageDeleteE keys ans]" "newestKept ?p objects keys"
      "\<forall>k \<in> set keys. retirable ?p (retentionPolicyOf (cl s) retention maxAge live) (eNow env (trace t @ [StorageListE ?p (Inr objects)])) objects k"
      by blast
    show ?thesis
      unfolding soundDelete_def Let_def
      by (intro exI [of _ spec] exI [of _ retention] exI [of _ maxAge] exI [of _ live] exI [of _ objects] exI [of _ before])
        (use o spec age before(2,3) in auto)
  qed
  show ?case
  proof (cases "\<exists>keys ans. StorageDeleteE keys ans \<in> set ev")
    case True
    then obtain keys ans where k: "StorageDeleteE keys ans \<in> set ev" by blast
    note d = del [OF k]
    have "keys' = keys" if "StorageDeleteE keys' ans' \<in> set ev" for keys' ans' using d that by auto
    then show ?thesis
      using d u before(4) sound [OF k]
      by (auto simp: Let_def wps deletesSoundly_def countsDeletes_def)
  next
    case False
    then show ?thesis
      using deletesNothing [of _ s] u before(4) by (auto simp: Let_def wps)
  qed
next
  case (2 e u)
  then show ?case using before by (auto intro: deletesNothing)
qed

lemma wp_applyRetention:
  assumes "storeLists env"
  shows "wp (applyRetention env) (\<lambda>u t. deletesSoundly env s t \<and> countsDeletes s (Inr u) t)
    (\<lambda>e t. deletesSoundly env s t \<and> countsDeletes s (Inl e) t) s"
proof (cases "spBackup (clSpec (cl s))")
  case None
  then show ?thesis by (simp add: applyRetention_def withBackupSpec_def wps deletesNothing)
next
  case (Some spec)
  show ?thesis
  proof (cases "bsRetention spec")
    case None
    then show ?thesis using Some by (simp add: applyRetention_def withBackupSpec_def wps deletesNothing)
  next
    case r: (Some retention)
    have tail: "wp (ApplyRetention env (GetBackupListPrefix (btPathPrefix (bsTarget spec)) (clNamespace (cl s)) (clName (cl s)))
       (retentionPolicyOf (cl s) retention maxAge live))
     (\<lambda>result. wp (let totalDeleted = rrDeletedByCount result + rrDeletedByAge result in
          if totalDeleted > 0 then emitBackupMetrics [RetentionDeleted (int totalDeleted)] else ret ())
        (\<lambda>v t. deletesSoundly env s t \<and> countsDeletes s (Inr v) t) (\<lambda>e t. deletesSoundly env s t \<and> countsDeletes s (Inl e) t))
     (\<lambda>e t. deletesSoundly env s t \<and> countsDeletes s (Inl e) t)
     (s\<lparr>trace := trace s @ [GetClusterE (Inr live), OpenStorageE None]\<rparr>)"
      if "ParseRetentionMaxAge (eParseDuration env) (brMaxAge retention) = Inr maxAge" for maxAge live
      by (rule wp_retentionTail [OF assms Some r that, where before = "[GetClusterE (Inr live), OpenStorageE None]"]) simp_all
    show ?thesis
      using Some r
      by (auto simp: applyRetention_def withBackupSpec_def getCluster_def openBackupStorageClient_def wps deletesNothing
          retentionPolicyOf_def [symmetric] Let_def [of "retentionPolicyOf _ _ _ _"] dest: tail [unfolded Let_def add_gr_0]
          split: sum.split option.split)
  qed
qed

end
