(* ===== verification/Backup_Jobs.thy ===== *)
theory Backup_Jobs
  imports Backup_Retention
begin

text \<open>
  Backup Jobs and what a backup waits for (\<open>internal/service/backup\<close>: \<open>manager_jobs.go\<close>, \<open>manager_preconditions.go\<close>,
  \<open>manager_schedule.go\<close>, \<open>manager_trigger.go\<close>, \<open>snapshot_summary.go\<close> and the rest of \<open>job.go\<close>).  Building the Job
  object is a parameter; its name, key, digest and target StatefulSet are what it is called with.
\<close>

section \<open>Observation of Jobs\<close>

record backupJobObservation =
  boHasActive :: bool
  boMostRecentTerminal :: "Job option"

fun observeJobs :: "Cluster \<Rightarrow> Job list \<Rightarrow> backupJobObservation \<Rightarrow> go_error + backupJobObservation" where
  "observeJobs c [] ob = Inr ob"
| "observeJobs c (job # jobs) ob = (case requireJobOwner c ''observe backup'' job of
      Some e \<Rightarrow> Inl e
    | None \<Rightarrow>
        if \<not> JobSucceeded (Some job) \<and> \<not> JobFailed (Some job) then observeJobs c jobs (ob\<lparr>boHasActive := True\<rparr>)
        else observeJobs c jobs (case boMostRecentTerminal ob of
            None \<Rightarrow> ob\<lparr>boMostRecentTerminal := Some job\<rparr>
          | Some latest \<Rightarrow> if omCreationTimestamp (jbMeta job) > omCreationTimestamp (jbMeta latest)
                           then ob\<lparr>boMostRecentTerminal := Some job\<rparr> else ob))"

definition noBackupJobs :: backupJobObservation where
  "noBackupJobs = \<lparr> boHasActive = False, boMostRecentTerminal = None \<rparr>"

definition observeBackupJobs :: "env \<Rightarrow> backupJobObservation op" where
  "observeBackupJobs env = bnd (gets cl) (\<lambda>c.
     bnd (wrap_err (wrapf ''failed to list backup jobs'') (listJobs env (backupJobSelector c ''scheduled''))) (\<lambda>jobs.
     lift_res (observeJobs c jobs noBackupJobs)))"

fun anyUnfinishedJob :: "Cluster \<Rightarrow> Job list \<Rightarrow> go_error + bool" where
  "anyUnfinishedJob c [] = Inr False"
| "anyUnfinishedJob c (job # jobs) = (case requireJobOwner c ''observe pre-upgrade backup'' job of
      Some e \<Rightarrow> Inl e
    | None \<Rightarrow> if \<not> JobSucceeded (Some job) \<and> \<not> JobFailed (Some job) then Inr True else anyUnfinishedJob c jobs)"

definition hasPreUpgradeBackupJob :: "env \<Rightarrow> bool op" where
  "hasPreUpgradeBackupJob env = bnd (gets cl) (\<lambda>c.
     bnd (wrap_err (wrapf ''failed to list pre-upgrade backup jobs'') (listJobs env (backupJobSelector c ''pre-upgrade''))) (\<lambda>jobs.
     lift_res (anyUnfinishedJob c jobs)))"

section \<open>Preconditions\<close>

record backupPreconditionError =
  pcReason :: string
  pcMessage :: string
  pcWarning :: bool

definition newBackupSkipError :: "string \<Rightarrow> backupPreconditionError" where
  "newBackupSkipError message = \<lparr> pcReason = ''BackupSkipped'', pcMessage = message, pcWarning = False \<rparr>"

definition newBackupWarningError :: "string \<Rightarrow> string \<Rightarrow> backupPreconditionError" where
  "newBackupWarningError reason message = \<lparr> pcReason = reason, pcMessage = message, pcWarning = True \<rparr>"

definition restoreUnfinished :: "Cluster \<Rightarrow> OpenBaoRestore \<Rightarrow> bool" where
  "restoreUnfinished c r \<longleftrightarrow> orsDeletionTimestamp r = None \<and> opCluster (orsSpec r) = clName c
     \<and> rsPhase (orsStatus r) \<noteq> RestorePhaseCompleted \<and> rsPhase (orsStatus r) \<noteq> RestorePhaseFailed"

definition hasInProgressRestore :: "env \<Rightarrow> bool op" where
  "hasInProgressRestore env = bnd (gets cl) (\<lambda>c.
     bnd (attempt (call (kListRestores (eBackup env)) ListRestoresE)) (\<lambda>r. case r of
        Inl err \<Rightarrow> if api_reason_of err = Some (OtherReason ''Forbidden'') then ret False
                   else failwith (wrapf ''failed to list OpenBaoRestore resources'' err)
      | Inr restores \<Rightarrow> ret (list_ex (restoreUnfinished c) restores)))"

text \<open>\<open>Some\<close> is a precondition error; every other error is returned as such.\<close>

definition checkPreconditions :: "env \<Rightarrow> backupPreconditionError option op" where
  "checkPreconditions env = bnd (gets cl) (\<lambda>c.
     if \<not> ssInitialized (clStatus c) then ret (Some (newBackupSkipError ''cluster is not initialized''))
     else if ssPhase (clStatus c) = ''Initializing'' then ret (Some (newBackupSkipError ''cluster is initializing''))
     else if ssCurrentVersion (clStatus c) \<noteq> [] \<and> spVersion (clSpec c) \<noteq> ssCurrentVersion (clStatus c)
     then ret (Some (newBackupSkipError
            (if (case spUpgrade (clSpec c) of Some u \<Rightarrow> ucPreUpgradeSnapshot u | None \<Rightarrow> False)
             then ''upgrade pending with pre-upgrade snapshot enabled'' else ''upgrade pending'')))
     else if ssUpgrade (clStatus c) \<noteq> None then ret (Some (newBackupSkipError ''upgrade in progress''))
     else bnd (wrap_err (wrapf ''failed to check for pre-upgrade backup job'') (hasPreUpgradeBackupJob env)) (\<lambda>preUpgrade.
       if preUpgrade then ret (Some (newBackupSkipError ''pre-upgrade backup in progress''))
       else bnd (wrap_err (wrapf ''failed to evaluate backup Job prerequisites'')
                   (call (\<lambda>tr. kBackupReadiness (eBackup env) tr c) BackupReadinessE)) (\<lambda>(status, reason, message).
         if status \<noteq> ''True'' then ret (Some (newBackupWarningError reason message)) else ret None)))"

definition validateBackupHardenedConfiguration :: "env \<Rightarrow> Cluster \<Rightarrow> go_error option" where
  "validateBackupHardenedConfiguration env c = (case spBackup (clSpec c) of
      None \<Rightarrow> None
    | Some b \<Rightarrow>
        if spProfile (clSpec c) \<noteq> ''Hardened'' then None
        else (case spNetworkEgressRules (clSpec c) of
            None \<Rightarrow> Some (permanentReason ''NetworkEgressRulesRequired'' (errorf ''hardened profile with backups enabled requires explicit spec.network.egressRules so backup Jobs can reach the object storage endpoint''))
          | Some rules \<Rightarrow>
              if rules = []
              then Some (permanentReason ''NetworkEgressRulesRequired'' (errorf ''hardened profile with backups enabled requires explicit spec.network.egressRules so backup Jobs can reach the object storage endpoint''))
              else if \<not> eEgressRulesExplicit env rules
              then Some (permanentReason ''SecurityViolation'' (errorf ''hardened profile with backups enabled requires spec.network.egressRules entries to be port-scoped and target explicit non-wildcard peers''))
              else (case EvaluateStorageTarget ''Backup'' (bsTarget b) of
                  None \<Rightarrow> None
                | Some v \<Rightarrow> Some (permanentReason (viReason v) (errorf (viMessage v))))))"

section \<open>Manual triggers\<close>

definition manualTriggerToken :: "Cluster \<Rightarrow> string" where
  "manualTriggerToken c = lookup_label (clAnnotations c) ''openbao.org/trigger-backup''"

definition recordManualTriggerDetected :: "string \<Rightarrow> unit op" where
  "recordManualTriggerDetected token = bnd (gets cl) (\<lambda>c.
     audit ''BackupManualTriggerDetected'' (clusterAuditFields c @ [(''trigger'', ''manual_annotation'')]))"

definition recordManualTriggerAccepted :: "string \<Rightarrow> unit op" where
  "recordManualTriggerAccepted token = bnd (recordManualTriggerDetected token) (\<lambda>_.
     emitNormalEvent ''BackupManualTriggerAccepted'' (''Accepted manual backup trigger '' @ token))"

text \<open>The annotation is gone from the object in memory even when the patch fails.\<close>

definition clearManualTriggerAnnotation :: "env \<Rightarrow> unit op" where
  "clearManualTriggerAnnotation env = bnd (gets cl) (\<lambda>c.
     let remaining = filter (\<lambda>p. fst p \<noteq> ''openbao.org/trigger-backup'') (clAnnotations c) in
     if map_of (clAnnotations c) ''openbao.org/trigger-backup'' = None then ret ()
     else bnd (setCl (c\<lparr>clAnnotations := remaining\<rparr>)) (\<lambda>_.
       bnd (wrap_err (wrapf ''failed to clear manual backup trigger annotation'')
              (call (\<lambda>tr. kPatchAnnotations (eBackup env) tr c remaining) (PatchAnnotationsE remaining))) setCl))"

definition skipManualTriggerForActiveJob :: "env \<Rightarrow> string \<Rightarrow> unit op" where
  "skipManualTriggerForActiveJob env token = bnd (recordManualTriggerDetected token) (\<lambda>_. bnd (gets cl) (\<lambda>c.
     bnd (audit ''BackupManualTriggerSkipped'' (clusterAuditFields c @ [(''reason'', ''active_job_in_progress'')])) (\<lambda>_.
     bnd (emitNormalEvent ''BackupSkipped'' ''Skipping manual backup because a backup Job is already in progress'') (\<lambda>_.
     clearManualTriggerAnnotation env))))"

section \<open>Creating a Job\<close>

definition backupVerificationPolicy :: "Cluster \<Rightarrow> string" where
  "backupVerificationPolicy c = (case spOperatorImageVerification (clSpec c) of
      None \<Rightarrow> ''Block'' | Some iv \<Rightarrow> if ivFailurePolicy iv = [] then ''Block'' else ivFailurePolicy iv)"

definition verifyBackupExecutor :: "env \<Rightarrow> string \<Rightarrow> string op" where
  "verifyBackupExecutor env executorImage = bnd (gets cl) (\<lambda>c.
     if executorImage = [] \<or> \<not> eOperatorVerification env c then ret []
     else bnd (attempt (call (\<lambda>tr. eVerifyOperator env tr c executorImage) (VerifyImageE executorImage))) (\<lambda>r. case r of
         Inr digest \<Rightarrow> ret digest
       | Inl err \<Rightarrow>
           bnd (if backupStatus c \<noteq> None
                then bnd (setBackupFailure env ''BackupExecutorImageVerificationFailed''
                       (''Backup executor image verification failed: '' @ eErrorText env err)) (\<lambda>_.
                     bnd (attempt (patchBackupStatusSSA env)) (\<lambda>_. ret ()))
                else ret ()) (\<lambda>_.
           if backupVerificationPolicy c = ''Block''
           then failwith (wrapf ''backup executor image verification failed (policy=Block)'' err)
           else ret [])))"

definition targetStatefulSetName :: "Cluster \<Rightarrow> string" where
  "targetStatefulSetName c = (case blueGreen c of
      Some b \<Rightarrow> if bgBlueRevision b \<noteq> [] then clName c @ ''-'' @ bgBlueRevision b else clName c
    | None \<Rightarrow> clName c)"

definition backupJobCreated :: "env \<Rightarrow> string \<Rightarrow> unit op" where
  "backupJobCreated env jobName = bnd (gets cl) (\<lambda>c.
     bnd (audit ''BackupJobCreated'' (clusterAuditFields c @ [(''job'', jobName)])) (\<lambda>_.
     bnd (case kIdentityMessage (eBackup env) c of
            None \<Rightarrow> ret () | Some message \<Rightarrow> emitNormalEvent ''BackupIdentityConfiguration'' message) (\<lambda>_.
     emitNormalEvent ''BackupJobCreated'' (''Created backup Job '' @ jobName))))"

definition createBackupJob :: "env \<Rightarrow> string \<Rightarrow> time \<Rightarrow> bool op" where
  "createBackupJob env jobName keyTime = withBackupSpec (\<lambda>spec. bnd (gets cl) (\<lambda>c.
     bnd (attempt (call (kShortUUID (eBackup env)) ShortUUIDE)) (\<lambda>uuid.
     bnd (wrap_err (wrapf ''failed to generate backup key'')
            (lift_res (GenerateBackupKey uuid (btPathPrefix (bsTarget spec)) (clNamespace c) (clName c) [] keyTime))) (\<lambda>backupKey.
     bnd (wrap_err (wrapf ''failed to get backup executor image'')
            (lift_res (resolveBackupExecutorImage (eDefaultBackupImage env) c))) (\<lambda>executorImage.
     bnd (verifyBackupExecutor env executorImage) (\<lambda>digest. bnd (gets cl) (\<lambda>c.
     bnd (wrap_err (wrapf (''failed to build backup Job '' @ jobName))
            (lift_res (kBuildBackupJob (eBackup env) c jobName backupKey digest (targetStatefulSetName c)))) (\<lambda>job.
     bnd (wrap_err (wrapf (''failed to prepare backup Job ownership '' @ jobName))
            (lift_res (PrepareManagedJobOwner (Some job) (Some (clusterMeta c)) (Some openBaoClusterGVK)))) (\<lambda>owned.
     bnd (attempt (createJob env owned)) (\<lambda>created. case created of
        Inr _ \<Rightarrow> bnd (backupJobCreated env jobName) (\<lambda>_. ret True)
      | Inl err \<Rightarrow>
          if is_already_exists err
          then bnd (wrap_err (wrapf ''backup Job create collided with an untrusted existing Job'')
                      (readManagedJob env jobName ''use existing backup'')) (\<lambda>_. ret True)
          else failwith (wrapf (''failed to create backup Job '' @ jobName) err)))))))))))"

definition ensureBackupJob :: "env \<Rightarrow> string \<Rightarrow> time \<Rightarrow> bool op" where
  "ensureBackupJob env jobName keyTime = bnd (gets cl) (\<lambda>c.
     bnd (attempt (getJob env jobName)) (\<lambda>r. case r of
        Inl err \<Rightarrow> if \<not> is_not_found err then failwith (wrapf (''failed to get backup Job '' @ jobName) err)
                   else createBackupJob env jobName keyTime
      | Inr job \<Rightarrow> (case requireJobOwner c ''observe backup'' job of
            Some e \<Rightarrow> failwith e
          | None \<Rightarrow> ret (\<not> JobSucceeded (Some job) \<and> \<not> JobFailed (Some job)))))"

section \<open>The result of a Job\<close>

definition snapshotDigestMatches :: "string \<Rightarrow> bool" where
  "snapshotDigestMatches s = (case cut_prefix s ''sha256:'' of
      None \<Rightarrow> False | Some h \<Rightarrow> length h = 64 \<and> list_all (\<lambda>c. is_digit c \<or> c \<in> set ''abcdef'') h)"

definition usableSummary :: "BackupSnapshotSummary \<Rightarrow> bool" where
  "usableSummary r \<longleftrightarrow> snapshotDigestMatches (ssmDigest r) \<and> 0 < ssmSize r \<and> ssmSize r \<le> 8 * 1024 * 1024 * 1024
     \<and> ssmClusterID r \<noteq> [] \<and> length (ssmClusterID r) \<le> 128 \<and> ssmVersion r \<noteq> [] \<and> length (ssmVersion r) \<le> 64"

definition containerSummary :: "env \<Rightarrow> ContainerStatus \<Rightarrow> BackupSnapshotSummary option" where
  "containerSummary env k =
     (if csName k \<noteq> ''backup'' \<or> csTerminatedExitCode k \<noteq> Some 0 \<or> length (csTerminatedMessage k) > 4096 then None
      else case kUnmarshalSummary (eBackup env) (csTerminatedMessage k) of
          None \<Rightarrow> None | Some r \<Rightarrow> if usableSummary r then Some r else None)"

definition podControlledBy :: "Job \<Rightarrow> Pod \<Rightarrow> bool" where
  "podControlledBy job pod = (case getControllerOf (pdMeta pod) of None \<Rightarrow> False | Some ref \<Rightarrow> orUID ref = omUID (jbMeta job))"

text \<open>Two executors that disagree leave no summary.\<close>

fun mergeSummaries :: "BackupSnapshotSummary option \<Rightarrow> BackupSnapshotSummary list \<Rightarrow> BackupSnapshotSummary option" where
  "mergeSummaries result [] = result"
| "mergeSummaries result (r # rs) = (if result \<noteq> None \<and> result \<noteq> Some r then None else mergeSummaries (Some r) rs)"

definition snapshotSummary :: "env \<Rightarrow> Job \<Rightarrow> BackupSnapshotSummary option op" where
  "snapshotSummary env job =
     bnd (listPods env [(''batch.kubernetes.io/job-name'', omName (jbMeta job))]) (\<lambda>pods.
       ret (mergeSummaries None
         (List.map_filter (containerSummary env) (concat (map pdContainerStatuses (filter (podControlledBy job) pods))))))"

record backupJobProcessResult =
  pjCompleted :: bool
  pjSuccessfulCompletion :: bool
  pjStatusUpdated :: bool

definition noBackupJobResult :: backupJobProcessResult where
  "noBackupJobResult = \<lparr> pjCompleted = False, pjSuccessfulCompletion = False, pjStatusUpdated = False \<rparr>"

text \<open>Two's complement at 64 bits, for the counter of successful backups.\<close>

definition int64 :: "int \<Rightarrow> int" where
  "int64 x = (x + 2 ^ 63) mod 2 ^ 64 - 2 ^ 63"

definition createdBefore :: "Job \<Rightarrow> time option \<Rightarrow> bool" where
  "createdBefore job t = (case t of None \<Rightarrow> False | Some u \<Rightarrow> omCreationTimestamp (jbMeta job) < u)"

definition processSucceededJob :: "env \<Rightarrow> Job \<Rightarrow> backupJobProcessResult op" where
  "processSucceededJob env job =
     (let backupKey = trim_space (backupJobKey (Some job)); jobName = omName (jbMeta job) in
      if backupKey = [] then failwith (errorf (''refusing to process successful backup Job '' @ jobName @ '' without openbao.org/backup-key''))
      else withBackup (\<lambda>b.
        if bkLastBackupName b = backupKey then ret (noBackupJobResult\<lparr>pjCompleted := True, pjSuccessfulCompletion := True\<rparr>)
        else if createdBefore job (bkLastBackupTime b) then ret (noBackupJobResult\<lparr>pjCompleted := True\<rparr>)
        else bnd (snapshotSummary env job) (\<lambda>summary. bnd (now env) (\<lambda>tm.
          bnd (updBackup (\<lambda>b. clearBackupFailure (b\<lparr>bkLatestSnapshot := summary,
                 bkSuccessfulBackups := int64 (bkSuccessfulBackups b + 1), bkLastBackupTime := Some tm,
                 bkLastBackupName := backupKey, bkConsecutiveFailures := 0\<rparr>))) (\<lambda>_.
          bnd (wrap_err (wrapf ''failed to patch backup status (success)'') (patchBackupStatusSSA env)) (\<lambda>_. bnd (gets cl) (\<lambda>c.
          bnd (audit ''BackupJobSucceeded'' (clusterAuditFields c @ [(''job'', jobName)])) (\<lambda>_.
          bnd (emitNormalEvent ''BackupCompleted'' (''Backup completed successfully from Job '' @ jobName)) (\<lambda>_.
          ret \<lparr> pjCompleted = True, pjSuccessfulCompletion = True, pjStatusUpdated = True \<rparr>)))))))))"

definition processFailedJob :: "env \<Rightarrow> Job \<Rightarrow> backupJobProcessResult op" where
  "processFailedJob env job = bnd (gets cl) (\<lambda>c.
     let jobName = omName (jbMeta job);
         failureHint = (if spBackup (clSpec c) = None then [] else kFailureHint (eBackup env) c);
         expected = backupJobFailureMessage (Some job) failureHint
     in if backupFailureMatches (backupStatus c) ''BackupFailed'' expected then ret (noBackupJobResult\<lparr>pjCompleted := True\<rparr>)
        else withBackup (\<lambda>b.
          if createdBefore job (bkLastBackupTime b) then ret (noBackupJobResult\<lparr>pjCompleted := True\<rparr>)
          else bnd (updBackup (\<lambda>b. b\<lparr>bkConsecutiveFailures := int32 (bkConsecutiveFailures b + 1)\<rparr>)) (\<lambda>_.
            bnd (setBackupFailure env ''BackupFailed'' expected) (\<lambda>_.
            bnd (wrap_err (wrapf ''failed to patch backup status (failed)'') (patchBackupStatusSSA env)) (\<lambda>_.
            withBackup (\<lambda>b. bnd (gets cl) (\<lambda>c.
            bnd (audit ''BackupJobFailed'' (clusterAuditFields c
                   @ [(''job'', jobName), (''consecutive_failures'', int_str (bkConsecutiveFailures b))])) (\<lambda>_.
            bnd (emitWarningEvent ''BackupFailed'' (''Backup Job '' @ jobName @ '' failed'')) (\<lambda>_.
            ret \<lparr> pjCompleted = True, pjSuccessfulCompletion = False, pjStatusUpdated = True \<rparr>)))))))))"

definition processBackupJob :: "env \<Rightarrow> Job option \<Rightarrow> backupJobProcessResult op" where
  "processBackupJob env job = (case job of
      None \<Rightarrow> ret noBackupJobResult
    | Some j \<Rightarrow> bnd (gets cl) (\<lambda>c. case requireJobOwner c ''process backup'' j of
          Some e \<Rightarrow> failwith e
        | None \<Rightarrow> if JobSucceeded (Some j) then processSucceededJob env j
                  else if JobFailed (Some j) then processFailedJob env j
                  else ret noBackupJobResult))"

definition processBackupJobResult :: "env \<Rightarrow> string \<Rightarrow> backupJobProcessResult op" where
  "processBackupJobResult env jobName = bnd (attempt (readManagedJob env jobName ''process backup'')) (\<lambda>r. case r of
      Inl err \<Rightarrow> if is_not_found err then ret noBackupJobResult else failwith (wrapf (''failed to get backup Job '' @ jobName) err)
    | Inr job \<Rightarrow> processBackupJob env (Some job))"

end
