(* ===== verification/Restore_Tests.thy ===== *)
theory Restore_Tests
  imports Backup_Jobs
begin

text \<open>
  Restore tests (\<open>internal/service/backup\<close>: \<open>restore_testing.go\<close>, \<open>restore_test_child.go\<close>, \<open>restore_test_result.go\<close>): when a test is
  due a run is reserved in the backup status, a disposable \<open>OpenBaoRestore\<close> is created for it, bound by its UID, observed,
  summarised and deleted.  Every change of the reservation is a compare-and-set on the stored status; the clock of
  \<open>releaseRestoreTestReservation\<close> is read once, before the update.
\<close>

section \<open>State\<close>

definition emptyRestoreTestStatus :: RestoreTestStatus where
  "emptyRestoreTestStatus = \<lparr> tsActive = None, tsLast = None, tsLastSuccessTime = None, tsLastScheduledAt = None,
     tsLastBackupCount = 0, tsConditions = [] \<rparr>"

definition emptyRestoreStatus :: OpenBaoRestoreStatus where
  "emptyRestoreStatus = \<lparr> rsTarget = None, rsSubmissionClaim = None, rsRestart = None,
     rsAdministratorDisposition = OtherDisposition [], rsPhase = OtherRestorePhase [], rsStartTime = None,
     rsCompletionTime = None, rsExecution = None, rsSnapshotKey = [], rsMessage = [], rsConditions = [] \<rparr>"

definition updRestoreTest :: "(RestoreTestStatus \<Rightarrow> RestoreTestStatus) \<Rightarrow> unit op" where
  "updRestoreTest f = updBackup (\<lambda>b. b\<lparr>bkRestoreTest := map_option f (bkRestoreTest b)\<rparr>)"

text \<open>Reads through \<open>cluster.Status.Backup.RestoreTest\<close> and its \<open>Active\<close>, which panic when a pointer is nil.\<close>

definition withRestoreTest :: "(RestoreTestStatus \<Rightarrow> 'a op) \<Rightarrow> 'a op" where
  "withRestoreTest k = withBackup (\<lambda>b. case bkRestoreTest b of
      None \<Rightarrow> failwith (Panic ''status.backup.restoreTest'') | Some ts \<Rightarrow> k ts)"

definition withActiveRun :: "(RestoreTestStatus \<Rightarrow> RestoreTestRun \<Rightarrow> 'a op) \<Rightarrow> 'a op" where
  "withActiveRun k = withRestoreTest (\<lambda>ts. case tsActive ts of
      None \<Rightarrow> failwith (Panic ''status.backup.restoreTest.active'') | Some run \<Rightarrow> k ts run)"

section \<open>Results\<close>

definition failedRestoreTestResult :: "RestoreTestRun \<Rightarrow> time \<Rightarrow> string \<Rightarrow> string \<Rightarrow> RestoreTestResult" where
  "failedRestoreTestResult run tm reason message = \<lparr> trName = tnName run, trFinishedAt = tm, trNamespace = tnNamespace run,
     trKey = tnKey run, trDigest = [], trReason = reason, trMessage = message, trOutcome = RestoreTestFailed \<rparr>"

definition snapshotApplied :: "OpenBaoRestore \<Rightarrow> bool" where
  "snapshotApplied child \<longleftrightarrow> rsPhase (orsStatus child) = RestorePhaseCompleted
     \<and> (case rsTarget (orsStatus child) of None \<Rightarrow> False | Some tg \<Rightarrow> tgAppliedAt tg \<noteq> None)"

definition restoreFailureMessages :: "(string \<times> string) list" where
  "restoreFailureMessages =
    [(''TargetBootstrapTimedOut'', ''Fresh target bootstrap exceeded its deadline; check scheduling, storage, unseal access, and readiness''),
     (''TargetIdentityMismatch'', ''Fresh target did not report the expected version and a distinct bootstrap identity''),
     (''DestinationRejected'', ''Destination admission rejected the fresh target; check namespace approval and configured resources''),
     (''TargetCollision'', ''A cluster or data PVC already used the requested fresh target name''),
     (''TargetStorageChanged'', ''Fresh target data PVC was replaced or lacked original ownership proof''),
     (''TargetUnavailable'', ''The reserved fresh target was missing, replaced, or deleting'')]"

definition childOutcome :: "OpenBaoRestore \<Rightarrow> RestoreTestOutcome \<times> string \<times> string" where
  "childOutcome child =
     (if rsAdministratorDisposition (orsStatus child) = AdministratorAbandon
      then (RestoreTestFailed, ''AdministratorAbandoned'', ''Administrator accepted responsibility for remaining target resources'')
      else if snapshotApplied child
      then (RestoreTestPassed, ''SnapshotApplied'', ''Fresh target confirmed the expected source identity and completed Kubernetes resource cleanup'')
      else if rsSubmissionClaim (orsStatus child) \<noteq> None
      then (RestoreTestFailed, ''ApplicationUnconfirmed'', ''Snapshot submission was claimed, but the expected source identity was not confirmed before cleanup'')
      else if rsExecution (orsStatus child) \<noteq> None
      then (RestoreTestFailed, ''ExecutorFailed'', ''Restore execution failed before snapshot submission; check executor logs in your external log store'')
      else (RestoreTestFailed, ''PreparationFailed'', ''Restore preparation failed; check target bootstrap, destination admission, and credentials''))"

definition summarizeRestoreTest :: "RestoreTestRun \<Rightarrow> OpenBaoRestore \<Rightarrow> time \<Rightarrow> RestoreTestResult" where
  "summarizeRestoreTest run child tm =
     (let (outcome, reason, message) = childOutcome child;
          result = (failedRestoreTestResult run tm reason message)\<lparr>trDigest := soExpectedDigest (opSource (orsSpec child)),
             trOutcome := outcome\<rparr>
      in if outcome = RestoreTestPassed \<or> rsAdministratorDisposition (orsStatus child) \<noteq> OtherDisposition [] then result
         else case findStatusCondition (rsConditions (orsStatus child)) ''RestoreComplete'' of
             None \<Rightarrow> result
           | Some cond \<Rightarrow> (case map_of restoreFailureMessages (cdReason cond) of
               None \<Rightarrow> result | Some known \<Rightarrow> result\<lparr>trReason := cdReason cond, trMessage := known\<rparr>))"

section \<open>Writing the reservation\<close>

definition backupMoved :: "BackupStatus \<Rightarrow> BackupStatus \<Rightarrow> bool" where
  "backupMoved current expected \<longleftrightarrow> bkRestoreTest current \<noteq> bkRestoreTest expected
     \<or> bkSuccessfulBackups current \<noteq> bkSuccessfulBackups expected
     \<or> bkLastBackupName current \<noteq> bkLastBackupName expected \<or> bkLatestSnapshot current \<noteq> bkLatestSnapshot expected"

definition restoreTestMutator ::
    "Cluster \<Rightarrow> bool \<Rightarrow> BackupStatus \<Rightarrow> RestoreTestStatus \<Rightarrow> Cluster \<Rightarrow> go_error + Cluster" where
  "restoreTestMutator c reserving expected ts current =
     (if reserving \<and> clDeletionTimestamp current \<noteq> None
      then Inl (errorf ''source is deleting; restore test cannot reserve a new request'')
      else if clUID current \<noteq> clUID c \<or> (reserving \<and> clGeneration current \<noteq> clGeneration c)
          \<or> (case backupStatus current of None \<Rightarrow> True | Some b \<Rightarrow> backupMoved b expected)
      then Inl (errorf ''backup changed before restore test status update; reconcile again'')
      else Inr (mapBackup (\<lambda>b. b\<lparr>bkRestoreTest := Some ts\<rparr>) current))"

definition patchRestoreTestStatus :: "env \<Rightarrow> BackupStatus \<Rightarrow> unit op" where
  "patchRestoreTestStatus env expected =
     (if \<not> eHasAdminOpsMutator env then failwith (errorf ''adminops status mutator is required'')
      else withRestoreTest (\<lambda>ts. bnd (gets cl) (\<lambda>c.
        let reserving = (tsActive ts \<noteq> None
              \<and> (case bkRestoreTest expected of None \<Rightarrow> True | Some e \<Rightarrow> tsActive e = None))
        in MutateWithReader env (restoreTestMutator c reserving expected ts) ForceOwnershipOnConflict)))"

definition restoreTestCondition :: "env \<Rightarrow> BackupStatus \<Rightarrow> string \<Rightarrow> string \<Rightarrow> string \<Rightarrow> unit op" where
  "restoreTestCondition env expected val reason message = withRestoreTest (\<lambda>ts. bnd (gets cl) (\<lambda>c. bnd (now env) (\<lambda>tm.
     let changed = (case findStatusCondition (tsConditions ts) ''Passed'' of
            None \<Rightarrow> True
          | Some k \<Rightarrow> cdStatus k \<noteq> val \<or> cdReason k \<noteq> reason \<or> cdObservedGeneration k \<noteq> clGeneration c);
         k = \<lparr> cdType = ''Passed'', cdStatus = val, cdReason = reason, cdMessage = message,
              cdObservedGeneration = clGeneration c, cdLastTransitionTime = tm \<rparr>
     in bnd (if changed then updRestoreTest (\<lambda>ts. ts\<lparr>tsConditions := setStatusCondition k (tsConditions ts)\<rparr>) else ret ()) (\<lambda>_.
        patchRestoreTestStatus env expected))))"

section \<open>The child\<close>

record restoreTestChild =
  rcRequest :: "OpenBaoRestore option"
  rcReason :: string
  rcMessage :: string

definition noRestoreTestChild :: restoreTestChild where
  "noRestoreTestChild = \<lparr> rcRequest = None, rcReason = [], rcMessage = [] \<rparr>"

definition readRestoreTestChild :: "env \<Rightarrow> restoreTestChild op" where
  "readRestoreTestChild env = withActiveRun (\<lambda>ts run. bnd (gets cl) (\<lambda>c.
     bnd (attempt (call (\<lambda>tr. kGetRestore (eBackup env) tr (tnNamespace run) (tnName run)) (GetRestoreE (tnNamespace run) (tnName run)))) (\<lambda>r.
     case r of
       Inl err \<Rightarrow>
         if \<not> is_not_found err then failwith err
         else if tnUID run = []
         then ret (noRestoreTestChild\<lparr>rcReason := ''RequestMissing'', rcMessage := ''Restore test creation is uncertain; inspect the destination, stop the old controller, then acknowledge this run with openbao.org/restore-test-acknowledge='' @ tnName run @ ''/Release''\<rparr>)
         else ret noRestoreTestChild
     | Inr child \<Rightarrow>
         if tnUID run \<noteq> [] \<and> tnUID run \<noteq> orsUID child then ret noRestoreTestChild
         else if lookup_label (orsAnnotations child) ''openbao.org/restore-test-source'' \<noteq> clUID c
         then ret (noRestoreTestChild\<lparr>rcReason := ''RequestReplaced'', rcMessage := ''Restore test request identity changed; inspect the destination, stop the old controller, then acknowledge this run with openbao.org/restore-test-acknowledge='' @ tnName run @ ''/Release''\<rparr>)
         else ret (noRestoreTestChild\<lparr>rcRequest := Some child\<rparr>))))"

definition releaseMutatorRT :: "Cluster \<Rightarrow> RestoreTestRun \<Rightarrow> time \<Rightarrow> Cluster \<Rightarrow> go_error + Cluster" where
  "releaseMutatorRT c run tm current =
     (let message = ''Administrator released the uncertain reservation and accepted responsibility for destination resources'' in
      case backupStatus current of
        Some b \<Rightarrow> (case bkRestoreTest b of
            Some ts \<Rightarrow>
              if clUID current \<noteq> clUID c
                 \<or> lookup_label (clAnnotations current) ''openbao.org/restore-test-acknowledge'' \<noteq> tnName run @ ''/Release''
                 \<or> tsActive ts \<noteq> Some run
              then Inl (errorf ''restore test reservation or acknowledgement changed before release'')
              else Inr (mapBackup (\<lambda>b. b\<lparr>bkRestoreTest := Some (ts\<lparr>
                  tsLast := Some (failedRestoreTestResult run tm ''AdministratorReleased'' message), tsActive := None,
                  tsConditions := setStatusCondition \<lparr> cdType = ''Passed'', cdStatus = ''False'', cdReason = ''AdministratorReleased'',
                    cdMessage = message, cdObservedGeneration = clGeneration current, cdLastTransitionTime = tm \<rparr> (tsConditions ts)\<rparr>)\<rparr>) current)
          | None \<Rightarrow> Inl (errorf ''restore test reservation or acknowledgement changed before release''))
      | None \<Rightarrow> Inl (errorf ''restore test reservation or acknowledgement changed before release''))"

definition releaseRestoreTestReservation :: "env \<Rightarrow> bool op" where
  "releaseRestoreTestReservation env = withActiveRun (\<lambda>ts run. bnd (gets cl) (\<lambda>c.
     if tnUID run \<noteq> [] \<or> lookup_label (clAnnotations c) ''openbao.org/restore-test-acknowledge'' \<noteq> tnName run @ ''/Release''
     then ret False
     else if \<not> eHasAdminOpsMutator env then failwith (errorf ''adminops status mutator is required'')
     else bnd (now env) (\<lambda>tm. bnd (MutateWithReader env (releaseMutatorRT c run tm) ForceOwnershipOnConflict) (\<lambda>_. ret True))))"

definition deleteRestoreTest :: "env \<Rightarrow> OpenBaoRestore \<Rightarrow> string \<Rightarrow> unit op" where
  "deleteRestoreTest env child uid = callU (\<lambda>tr. kDeleteRestore (eBackup env) tr child uid)
     (DeleteRestoreE (orsNamespace child) (orsName child) uid)"

definition ignoreNotFoundE :: "unit op \<Rightarrow> unit op" where
  "ignoreNotFoundE m = bnd (attempt m) (\<lambda>r. case r of
      Inr _ \<Rightarrow> ret () | Inl err \<Rightarrow> if is_not_found err then ret () else failwith err)"

definition absentResult :: "RestoreTestStatus \<Rightarrow> RestoreTestRun \<Rightarrow> time \<Rightarrow> RestoreTestResult" where
  "absentResult ts run tm =
     (let missing = failedRestoreTestResult run tm ''RequestMissing'' ''The bound request disappeared before its result was recorded''
      in case tsLast ts of None \<Rightarrow> missing | Some r \<Rightarrow> if trName r = tnName run then r else missing)"

definition outcomeString :: "RestoreTestOutcome \<Rightarrow> string" where
  "outcomeString x = (case x of RestoreTestPassed \<Rightarrow> ''Passed'' | RestoreTestFailed \<Rightarrow> ''Failed'' | OtherTestOutcome y \<Rightarrow> y)"

definition finishAbsentRestoreTest :: "env \<Rightarrow> BackupStatus \<Rightarrow> time \<Rightarrow> unit op" where
  "finishAbsentRestoreTest env expected tm = withActiveRun (\<lambda>ts run.
     let result = absentResult ts run tm in
     bnd (updRestoreTest (\<lambda>ts. ts\<lparr>tsLast := Some result, tsActive := None\<rparr>)) (\<lambda>_.
     restoreTestCondition env expected (if trOutcome result = RestoreTestPassed then ''True'' else ''False'')
       (outcomeString (trOutcome result)) ''Bound restore test request is absent; any unobserved result is recorded as failed''))"

text \<open>The rest of \<open>observeRestoreTest\<close>, once the bound child has been read.\<close>

definition concludeRestoreTest :: "env \<Rightarrow> BackupStatus \<Rightarrow> time \<Rightarrow> RestoreTestStatus \<Rightarrow> RestoreTestRun \<Rightarrow> OpenBaoRestore \<Rightarrow> unit op" where
  "concludeRestoreTest env expected tm ts run child =
     (let st = orsStatus child; abandoned = (rsAdministratorDisposition st = AdministratorAbandon) in
      if (case rsTarget st of None \<Rightarrow> False | Some tg \<Rightarrow> tgCleanup tg = CleanupFailed) \<and> \<not> abandoned
      then restoreTestCondition env expected ''False'' ''CleanupBlocked'' ''Disposable cleanup needs administrator inspection; no further restore test will start''
      else if rsPhase st \<noteq> RestorePhaseCompleted \<and> rsPhase st \<noteq> RestorePhaseFailed then ret ()
      else if (case rsTarget st of None \<Rightarrow> False | Some tg \<Rightarrow> tgCleanup tg \<noteq> CleanupComplete) \<and> \<not> abandoned then ret ()
      else if (case tsLast ts of None \<Rightarrow> True | Some r \<Rightarrow> trName r \<noteq> tnName run)
      then let result = summarizeRestoreTest run child tm; passed = snapshotApplied child in
        bnd (updRestoreTest (\<lambda>ts. ts\<lparr>tsLast := Some result,
               tsLastSuccessTime := (if passed then Some (trFinishedAt result) else tsLastSuccessTime ts)\<rparr>)) (\<lambda>_.
        restoreTestCondition env expected (if passed then ''True'' else ''False'') (if passed then ''Passed'' else ''Failed'') (trMessage result))
      else if orsDeletionTimestamp child = None then ignoreNotFoundE (deleteRestoreTest env child (tnUID run))
      else ret ())"

definition observeRestoreTest :: "env \<Rightarrow> BackupStatus \<Rightarrow> time \<Rightarrow> unit op" where
  "observeRestoreTest env expected tm = withActiveRun (\<lambda>ts run.
     bnd (readRestoreTestChild env) (\<lambda>observed.
     if rcReason observed \<noteq> []
     then bnd (releaseRestoreTestReservation env) (\<lambda>released. if released then ret ()
          else restoreTestCondition env expected ''False'' (rcReason observed) (rcMessage observed))
     else case rcRequest observed of
         None \<Rightarrow> finishAbsentRestoreTest env expected tm
       | Some child \<Rightarrow>
           if tnUID run = []
           then bnd (updRestoreTest (\<lambda>ts. ts\<lparr>tsActive := Some (run\<lparr>tnUID := orsUID child\<rparr>)\<rparr>)) (\<lambda>_. patchRestoreTestStatus env expected)
           else concludeRestoreTest env expected tm ts run child))"

section \<open>Starting a test\<close>

definition restoreTestDue :: "env \<Rightarrow> RestoreTest \<Rightarrow> RestoreTestStatus \<Rightarrow> int \<Rightarrow> time \<Rightarrow> time \<Rightarrow> go_error + bool" where
  "restoreTestDue env config ts successful created tm =
     (if tcEverySuccessfulBackups config > 0
      then Inr (int64 (successful - tsLastBackupCount ts) \<ge> tcEverySuccessfulBackups config)
      else case kParseSchedule (eBackup env) (tcSchedule config) of
          Inl err \<Rightarrow> Inl (wrapf ''invalid cron expression'' err)
        | Inr nextTime \<Rightarrow> Inr (\<not> nextTime (case tsLastScheduledAt ts of Some t \<Rightarrow> t | None \<Rightarrow> created) > tm))"

definition restoreTestName :: "Cluster \<Rightarrow> time \<Rightarrow> string" where
  "restoreTestName c tm = ''restore-test-'' @ take 12 (clUID c) @ ''-'' @ int_str tm"

definition restoreTestRequest :: "Cluster \<Rightarrow> BackupSchedule \<Rightarrow> RestoreTest \<Rightarrow> BackupStatus \<Rightarrow> BackupSnapshotSummary \<Rightarrow> string \<Rightarrow> OpenBaoRestore" where
  "restoreTestRequest c spec config b snapshot name = \<lparr> orsName = name, orsNamespace = tcNamespace config, orsUID = [],
     orsResourceVersion = 0, orsGeneration = 0, orsAnnotations = [(''openbao.org/restore-test-source'', clUID c)],
     orsFinalizers = [], orsDeletionTimestamp = None,
     orsSpec = \<lparr> opCleanupAfterSeconds = tcCleanupAfterSeconds config, opClusterTemplate = Some (tcClusterTemplate config),
       opTargetLifecycle = LifecycleDisposable, opCluster = name,
       opSource = \<lparr> soExpectedClusterID = ssmClusterID snapshot, soExpectedVersion = ssmVersion snapshot,
         soExpectedDigest = ssmDigest snapshot, soExpectedSize = ssmSize snapshot, soKey = bkLastBackupName b,
         soTarget = (bsTarget spec)\<lparr>btCredentialsSecretRef := tcCredentialsSecretRef config\<rparr> \<rparr>,
       opImage = bsImage spec, opForce = True, opOverrideOperationLock = False \<rparr>,
     orsStatus = emptyRestoreStatus \<rparr>"

definition createRestore :: "env \<Rightarrow> bool \<Rightarrow> OpenBaoRestore \<Rightarrow> unit op" where
  "createRestore env dryRun child = callU (\<lambda>tr. kCreateRestore (eBackup env) tr dryRun child) (CreateRestoreE dryRun child)"

definition admissionRejected :: "go_error \<Rightarrow> bool" where
  "admissionRejected err \<longleftrightarrow> api_reason_of err \<in> Some ` OtherReason ` {''Invalid'', ''Forbidden'', ''BadRequest'', ''Unauthorized''}"

text \<open>The reservation is stored before the request is created; a rejected request is recorded as a failed test.\<close>

definition createReservedRestoreTest :: "env \<Rightarrow> OpenBaoRestore \<Rightarrow> time \<Rightarrow> unit op" where
  "createReservedRestoreTest env child tm = bnd (attempt (createRestore env False child)) (\<lambda>r. case r of
      Inr _ \<Rightarrow> ret ()
    | Inl err \<Rightarrow>
        if \<not> admissionRejected err then failwith (wrapf ''create reserved restore test request'' err)
        else withBackup (\<lambda>expected. withActiveRun (\<lambda>ts run.
          bnd (updRestoreTest (\<lambda>ts. ts\<lparr>tsLast := Some ((failedRestoreTestResult run tm ''DestinationRejected''
                 ''Destination admission rejected the reserved restore test request'')\<lparr>trDigest := soExpectedDigest (opSource (orsSpec child))\<rparr>),
               tsActive := None\<rparr>)) (\<lambda>_.
          restoreTestCondition env expected ''False'' ''DestinationRejected'' ''Destination rejected the reserved restore test request''))))"

definition startRestoreTest :: "env \<Rightarrow> BackupStatus \<Rightarrow> BackupSchedule \<Rightarrow> RestoreTest \<Rightarrow> time \<Rightarrow> unit op" where
  "startRestoreTest env expected spec config tm = withBackup (\<lambda>b. bnd (gets cl) (\<lambda>c.
     case bkLatestSnapshot b of
       Some snapshot \<Rightarrow>
         if bkLastBackupName b = [] \<or> ssmClusterID snapshot = [] \<or> ssmVersion snapshot \<noteq> ctVersion (tcClusterTemplate config)
         then restoreTestCondition env expected ''False'' ''NoCompatibleSnapshot'' ''Waiting for a successful backup with a compatible source identity and version observation''
         else let name = restoreTestName c tm; child = restoreTestRequest c spec config b snapshot name in
           bnd (attempt (createRestore env True child)) (\<lambda>dry. case dry of
             Inl _ \<Rightarrow> restoreTestCondition env expected ''False'' ''DestinationRejected'' ''Destination admission rejected the restore test request; check namespace enrollment, restore-target approval, delegation, and referenced credentials''
           | Inr _ \<Rightarrow>
               bnd (updRestoreTest (\<lambda>ts. ts\<lparr>tsLastScheduledAt := Some tm, tsLastBackupCount := bkSuccessfulBackups b,
                      tsActive := Some \<lparr> tnNamespace = tcNamespace config, tnName = name, tnKey = bkLastBackupName b,
                        tnStartedAt = tm, tnUID = [] \<rparr>\<rparr>)) (\<lambda>_.
               bnd (restoreTestCondition env expected ''Unknown'' ''Running'' ''Disposable restore test is running'') (\<lambda>_.
               createReservedRestoreTest env child tm)))
     | None \<Rightarrow> restoreTestCondition env expected ''False'' ''NoCompatibleSnapshot'' ''Waiting for a successful backup with a compatible source identity and version observation''))"

definition restoreTestMetrics :: "RestoreTest option \<Rightarrow> RestoreTestStatus \<Rightarrow> backupMetric list" where
  "restoreTestMetrics config ts = (case config of
      None \<Rightarrow> [RestoreTestCleared]
    | Some _ \<Rightarrow> (case tsLast ts of None \<Rightarrow> [] | Some r \<Rightarrow> [RestoreTestValue (trOutcome r = RestoreTestPassed)])
        @ [RestoreTestLastSuccess (case tsLastSuccessTime ts of None \<Rightarrow> 0 | Some t \<Rightarrow> secondsOf t)])"

definition reconcileRestoreTest :: "env \<Rightarrow> time \<Rightarrow> unit op" where
  "reconcileRestoreTest env tm = bnd (gets cl) (\<lambda>c. case backupStatus c of
      None \<Rightarrow> ret ()
    | Some b \<Rightarrow>
        (let config = (case spBackup (clSpec c) of None \<Rightarrow> None | Some spec \<Rightarrow> bsRestoreTest spec) in
         if bkRestoreTest b = None \<and> config = None then ret ()
         else bnd (if bkRestoreTest b = None then updBackup (\<lambda>b. b\<lparr>bkRestoreTest := Some emptyRestoreTestStatus\<rparr>) else ret ()) (\<lambda>_.
           withRestoreTest (\<lambda>ts. bnd (emitBackupMetrics (restoreTestMetrics config ts)) (\<lambda>_.
           if tsActive ts \<noteq> None then observeRestoreTest env b tm
           else case (spBackup (clSpec c), config) of
               (Some spec, Some config) \<Rightarrow>
                 (case restoreTestDue env config ts (bkSuccessfulBackups b) (clCreationTimestamp c) tm of
                    Inl _ \<Rightarrow> restoreTestCondition env b ''False'' ''InvalidSchedule'' ''Restore test schedule is invalid''
                  | Inr due \<Rightarrow> if \<not> due then ret () else startRestoreTest env b spec config tm)
             | _ \<Rightarrow> ret ())))))"

section \<open>Deletion of the source\<close>

definition bindMutator :: "Cluster \<Rightarrow> RestoreTestRun \<Rightarrow> string \<Rightarrow> Cluster \<Rightarrow> go_error + Cluster" where
  "bindMutator c run uid current = (case backupStatus current of
      Some b \<Rightarrow> (case bkRestoreTest b of
          Some ts \<Rightarrow> if clUID current \<noteq> clUID c \<or> tsActive ts \<noteq> Some run
            then Inl (errorf ''restore test reservation changed before cancellation'')
            else Inr (mapBackup (\<lambda>b. b\<lparr>bkRestoreTest := Some (ts\<lparr>tsActive := Some (run\<lparr>tnUID := uid\<rparr>)\<rparr>)\<rparr>) current)
        | None \<Rightarrow> Inl (errorf ''restore test reservation changed before cancellation''))
    | None \<Rightarrow> Inl (errorf ''restore test reservation changed before cancellation''))"

text \<open>An answer without error: the finalizer of the source may go.\<close>

definition CancelRestoreTest :: "env \<Rightarrow> unit op" where
  "CancelRestoreTest env = bnd (gets cl) (\<lambda>c.
     case (case backupStatus c of None \<Rightarrow> None | Some b \<Rightarrow> (case bkRestoreTest b of None \<Rightarrow> None | Some ts \<Rightarrow> tsActive ts)) of
       None \<Rightarrow> ret ()
     | Some run \<Rightarrow>
         bnd (readRestoreTestChild env) (\<lambda>observed.
         if rcReason observed \<noteq> []
         then bnd (releaseRestoreTestReservation env) (\<lambda>released. if released then ret () else failwith (errorf (rcMessage observed)))
         else case rcRequest observed of
             None \<Rightarrow> ret ()
           | Some child \<Rightarrow>
               bnd (if tnUID run = []
                    then MutateWithReader env (bindMutator c run (orsUID child)) ForceOwnershipOnConflict else ret ()) (\<lambda>_.
               bnd (if orsDeletionTimestamp child = None then ignoreNotFoundE (deleteRestoreTest env child (orsUID child)) else ret ()) (\<lambda>_.
               failwith (errorf ''waiting for disposable restore test cleanup before source deletion'')))))"

end
