(* ===== verification/Backup_Manager.thy ===== *)
theory Backup_Manager
  imports Restore_Tests
begin

text \<open>
  The reconcile pass of the backup manager (\<open>internal/service/backup\<close>: \<open>manager_observation.go\<close>,
  \<open>manager_decision.go\<close>, \<open>manager_effects.go\<close>, \<open>manager_reconcile.go\<close>): observe the cluster, the Jobs, the restores and the
  preconditions, decide, and apply the decision.  The answer of a pass is the delay to the next one, 0 for none.
\<close>

section \<open>Observation and decision\<close>

datatype backupDecisionKind =
    backupDecisionIdle
  | backupDecisionBlocked
  | backupDecisionCreate
  | backupDecisionObserve
  | backupDecisionFinalize

datatype backupBlockerKind = backupNotBlocked | backupBlockedByRestore | backupBlockedByPrecondition

record backupObservation =
  obConfigured :: bool
  obOwnsLock :: bool
  obDue :: bool
  obManualTriggerToken :: string
  obNow :: time
  obScheduledTime :: time
  obInitialNextSchedule :: time
  obNextSchedule :: time
  obJobs :: backupJobObservation
  obBlocker :: backupBlockerKind
  obPrecondition :: "backupPreconditionError option"

definition decideBackup :: "backupObservation \<Rightarrow> backupDecisionKind" where
  "decideBackup ob =
     (if obOwnsLock ob \<and> boHasActive (obJobs ob) then backupDecisionObserve
      else if obOwnsLock ob then backupDecisionFinalize
      else if \<not> obConfigured ob then backupDecisionIdle
      else if boHasActive (obJobs ob) then backupDecisionObserve
      else if obBlocker ob \<noteq> backupNotBlocked then backupDecisionBlocked
      else if obDue ob then backupDecisionCreate
      else if boMostRecentTerminal (obJobs ob) \<noteq> None then backupDecisionFinalize
      else backupDecisionIdle)"

definition backupLockHeld :: "Cluster \<Rightarrow> bool" where
  "backupLockHeld c = IsHeldBy backupOperationLock (ssOperationLock (clStatus c))"

definition initialObservation :: "Cluster \<Rightarrow> time \<Rightarrow> backupObservation" where
  "initialObservation c tm = \<lparr> obConfigured = (spBackup (clSpec c) \<noteq> None), obOwnsLock = backupLockHeld c, obDue = False,
     obManualTriggerToken = manualTriggerToken c, obNow = tm, obScheduledTime = zeroTime, obInitialNextSchedule = zeroTime,
     obNextSchedule = zeroTime, obJobs = noBackupJobs, obBlocker = backupNotBlocked, obPrecondition = None \<rparr>"

text \<open>The schedule of a pass, from the stored next time or the next one after now.\<close>

definition scheduleObservation :: "(time \<Rightarrow> time) \<Rightarrow> Cluster \<Rightarrow> backupObservation \<Rightarrow> backupObservation" where
  "scheduleObservation nextTime c ob =
     (let tm = obNow ob;
          initial = (case backupStatus c of
              Some b \<Rightarrow> (case bkNextScheduledBackup b of Some t \<Rightarrow> t | None \<Rightarrow> nextTime tm)
            | None \<Rightarrow> nextTime tm);
          scheduled = (if obManualTriggerToken ob \<noteq> [] then tm else initial);
          following = nextTime scheduled
      in ob\<lparr>obInitialNextSchedule := initial, obScheduledTime := scheduled,
           obDue := (obManualTriggerToken ob \<noteq> [] \<or> \<not> tm < scheduled),
           obNextSchedule := (if \<not> following > tm then nextTime tm else following)\<rparr>)"

definition observeBlockers :: "env \<Rightarrow> backupObservation \<Rightarrow> backupObservation op" where
  "observeBlockers env ob = bnd (hasInProgressRestore env) (\<lambda>restoring.
     if restoring then ret (ob\<lparr>obBlocker := backupBlockedByRestore\<rparr>)
     else bnd (checkPreconditions env) (\<lambda>p. ret (case p of
         None \<Rightarrow> ob
       | Some e \<Rightarrow> ob\<lparr>obBlocker := backupBlockedByPrecondition, obPrecondition := Some e\<rparr>)))"

definition observeBackup :: "env \<Rightarrow> time \<Rightarrow> backupObservation op" where
  "observeBackup env tm = bnd (gets cl) (\<lambda>c.
     let ob = initialObservation c tm in
     if obOwnsLock ob
     then bnd (wrap_err (wrapf ''failed to observe owned backup Jobs'') (observeBackupJobs env)) (\<lambda>jobs. ret (ob\<lparr>obJobs := jobs\<rparr>))
     else case spBackup (clSpec c) of
         None \<Rightarrow> ret ob
       | Some spec \<Rightarrow>
           bnd (wrap_err (wrapf ''failed to parse backup schedule'') (lift_res (kParseSchedule (eBackup env) (bsSchedule spec)))) (\<lambda>nextTime.
           let ob = scheduleObservation nextTime c ob in
           bnd (wrap_err (wrapf ''failed to observe backup Jobs'') (observeBackupJobs env)) (\<lambda>jobs.
           if boHasActive jobs then ret (ob\<lparr>obJobs := jobs\<rparr>)
           else observeBlockers env (ob\<lparr>obJobs := jobs\<rparr>))))"

section \<open>Effects\<close>

definition applyInitialBackupSchedule :: "backupObservation \<Rightarrow> unit op" where
  "applyInitialBackupSchedule ob =
     (if \<not> obConfigured ob \<or> obInitialNextSchedule ob = zeroTime then ret ()
      else updBackup (\<lambda>b. if bkNextScheduledBackup b \<noteq> None then b
        else b\<lparr>bkNextScheduledBackup := Some (obInitialNextSchedule ob)\<rparr>))"

definition applyIdleBackup :: "backupObservation \<Rightarrow> int op" where
  "applyIdleBackup ob = (if \<not> obConfigured ob then ret 0 else ret (timeSub (obScheduledTime ob) (obNow ob)))"

definition applyBlockedBackup :: "env \<Rightarrow> backupObservation \<Rightarrow> int op" where
  "applyBlockedBackup env ob =
     bnd (if obManualTriggerToken ob \<noteq> [] then recordManualTriggerAccepted (obManualTriggerToken ob) else ret ()) (\<lambda>_.
     bnd (gets cl) (\<lambda>c. case obBlocker ob of
        backupBlockedByRestore \<Rightarrow>
          bnd (if obDue ob then emitNormalEvent ''BackupSkipped''
                 (''Skipping backup because a restore is in progress for cluster '' @ clName c) else ret ()) (\<lambda>_. ret requeueShort)
      | backupBlockedByPrecondition \<Rightarrow>
          (case obPrecondition ob of
             None \<Rightarrow> failwith (errorf ''backup precondition blocker is missing its reason'')
           | Some p \<Rightarrow> bnd (if obDue ob then emit (EventE (pcWarning p) (pcReason p) (pcMessage p)) else ret ()) (\<lambda>_.
               ret (eRequeueStandard env)))
      | backupNotBlocked \<Rightarrow> failwith (errorf ''unsupported backup blocker'')))"

definition applyCreateBackup :: "env \<Rightarrow> backupObservation \<Rightarrow> int op" where
  "applyCreateBackup env ob = bnd (gets cl) (\<lambda>c.
     let manualTrigger = (obManualTriggerToken ob \<noteq> []); jobName = scheduledBackupJobName c (obScheduledTime ob) in
     bnd (if manualTrigger then recordManualTriggerAccepted (obManualTriggerToken ob) else ret ()) (\<lambda>_.
     bnd (emitBackupMetrics [BackupInProgress True]) (\<lambda>_.
     let lockHeldByUs = backupLockHeld c in
     unless_done (acquireBackupLock env jobName)
       (bnd (gets cl) (\<lambda>c.
        bnd (if \<not> lockHeldByUs
             then bnd (audit ''OperationLockAcquired'' (backupLockFields c)) (\<lambda>_.
                  emitNormalEvent ''BackupStarted'' (''Backup started for schedule '' @ formatRFC3339 (obScheduledTime ob)))
             else ret ()) (\<lambda>_.
        bnd (attempt (ensureBackupJob env jobName (obNow ob))) (\<lambda>ensured. case ensured of
          Inl err \<Rightarrow>
            (let ensureErr = wrapf ''failed to ensure backup Job'' err in
             bnd (attempt (releaseBackupLock env ''after job ensure failure'')) (\<lambda>released. case released of
               Inl releaseErr \<Rightarrow> failwith (Wrapf ''join'' [ensureErr, releaseErr])
             | Inr _ \<Rightarrow> failwith ensureErr))
        | Inr _ \<Rightarrow>
            bnd (if manualTrigger then clearManualTriggerAnnotation env else ret ()) (\<lambda>_.
            bnd (attempt (recordBackupAttempt env (obNow ob) (obScheduledTime ob) (obNextSchedule ob) (obManualTriggerToken ob))) (\<lambda>_.
            ret requeueShort)))))))))"

definition applyObserveBackup :: "env \<Rightarrow> backupObservation \<Rightarrow> int op" where
  "applyObserveBackup env ob =
     (if obOwnsLock ob
      then bnd (if obManualTriggerToken ob \<noteq> []
                then wrap_err (wrapf ''failed to clear manual backup trigger while finishing owned operation'')
                       (clearManualTriggerAnnotation env) else ret ()) (\<lambda>_.
           bnd (applyBackupJobSnapshotToMetrics \<lparr> bmInProgress = True, bmNewestSucceeded = None, bmNewestFailed = None \<rparr>) (\<lambda>_.
           ret requeueShort))
      else bnd (if obManualTriggerToken ob \<noteq> [] then skipManualTriggerForActiveJob env (obManualTriggerToken ob) else ret ()) (\<lambda>_.
           ret requeueShort))"

definition applyFinalizeBackup :: "env \<Rightarrow> backupObservation \<Rightarrow> int op" where
  "applyFinalizeBackup env ob =
     bnd (if obOwnsLock ob \<and> obManualTriggerToken ob \<noteq> [] \<and> boMostRecentTerminal (obJobs ob) \<noteq> None
          then wrap_err (wrapf ''failed to clear manual backup trigger while finishing owned operation'')
                 (clearManualTriggerAnnotation env) else ret ()) (\<lambda>_.
     bnd (if boMostRecentTerminal (obJobs ob) = None then ret noBackupJobResult
          else wrap_err (wrapf ''failed to process backup Job'') (processBackupJob env (boMostRecentTerminal (obJobs ob)))) (\<lambda>jobResult.
     bnd (if pjSuccessfulCompletion jobResult \<and> pjStatusUpdated jobResult then applyRetentionAfterSuccess env else ret ()) (\<lambda>_.
     if obOwnsLock ob
     then bnd (attempt (releaseBackupLock env ''after owned Job observation'')) (\<lambda>_. ret requeueShort)
     else if pjStatusUpdated jobResult then ret requeueShort
     else ret (timeSub (obScheduledTime ob) (obNow ob)))))"

definition applyBackupDecision :: "env \<Rightarrow> backupObservation \<Rightarrow> int op" where
  "applyBackupDecision env ob = bnd (applyInitialBackupSchedule ob) (\<lambda>_. case decideBackup ob of
      backupDecisionIdle \<Rightarrow> applyIdleBackup ob
    | backupDecisionBlocked \<Rightarrow> applyBlockedBackup env ob
    | backupDecisionCreate \<Rightarrow> applyCreateBackup env ob
    | backupDecisionObserve \<Rightarrow> applyObserveBackup env ob
    | backupDecisionFinalize \<Rightarrow> applyFinalizeBackup env ob)"

section \<open>The pass\<close>

definition restoreTestPoll :: int where
  "restoreTestPoll = seconds 30"

definition prepareBackup :: "env \<Rightarrow> unit op" where
  "prepareBackup env = bnd (gets cl) (\<lambda>c.
     if backupLockHeld c then bnd (ensureBackupStatus env) (\<lambda>_. syncBackupStatusMetrics env)
     else if spBackup (clSpec c) = None then ret ()
     else case validateBackupHardenedConfiguration env c of
         Some e \<Rightarrow> failwith e
       | None \<Rightarrow>
           bnd (syncBackupMetrics env) (\<lambda>_. bnd (gets cl) (\<lambda>c.
           bnd (wrap_err (wrapf ''failed to ensure backup ServiceAccount'')
                  (callU (\<lambda>tr. eEnsureBackupAccount env tr c) EnsureBackupAccountE)) (\<lambda>_.
           bnd (wrap_err (wrapf ''failed to ensure backup RBAC'')
                  (callU (\<lambda>tr. eEnsureBackupRBAC env tr c) EnsureBackupRBACE)) (\<lambda>_.
           ensureBackupStatus env)))))"

definition restoreTestFollows :: "Cluster \<Rightarrow> bool" where
  "restoreTestFollows c \<longleftrightarrow> (case spBackup (clSpec c) of None \<Rightarrow> False | Some spec \<Rightarrow> bsRestoreTest spec \<noteq> None)
     \<or> (case backupStatus c of None \<Rightarrow> False
         | Some b \<Rightarrow> (case bkRestoreTest b of None \<Rightarrow> False | Some ts \<Rightarrow> tsActive ts \<noteq> None))"

definition BackupReconcile :: "env \<Rightarrow> int op" where
  "BackupReconcile env = bnd (now env) (\<lambda>tm. bnd (prepareBackup env) (\<lambda>_.
     bnd (observeBackup env tm) (\<lambda>ob. bnd (applyBackupDecision env ob) (\<lambda>result.
     bnd (reconcileRestoreTest env tm) (\<lambda>_. bnd (gets cl) (\<lambda>c.
     ret (if restoreTestFollows c \<and> (result = 0 \<or> result > restoreTestPoll) then restoreTestPoll else result)))))))"

end
