(* ===== verification/Backup_Frames.thy ===== *)
theory Backup_Frames
  imports Backup_Manager BlueGreen_Frames
begin

text \<open>
  What the parts of a backup pass do to the world.  \<open>bf P W\<close> is the frame "every call made satisfies \<open>P\<close>, and every status
  write directly follows a read of the cluster and relates to it by \<open>W\<close>".  It is a \<open>frame\<close> for every \<open>P\<close> and \<open>W\<close>;
  \<open>bf\<close> with the view \<open>hasBackup\<close> also keeps a backup status in memory.
\<close>

section \<open>Writes after reads\<close>

fun readOf :: "event \<Rightarrow> Cluster option" where
  "readOf (GetClusterE (Inr c)) = Some c"
| "readOf _ = None"

fun writeOf :: "event \<Rightarrow> BackupStatus option option" where
  "writeOf (ApplyStatusE _ _ k _ _) = Some k"
| "writeOf _ = None"

definition okWrite :: "(Cluster \<Rightarrow> BackupStatus option \<Rightarrow> bool) \<Rightarrow> event option \<Rightarrow> event \<Rightarrow> bool" where
  "okWrite W p e = (case writeOf e of None \<Rightarrow> True
     | Some k \<Rightarrow> (case Option.bind p readOf of None \<Rightarrow> False | Some cur \<Rightarrow> W cur k))"

fun okFrom :: "(Cluster \<Rightarrow> BackupStatus option \<Rightarrow> bool) \<Rightarrow> event option \<Rightarrow> event list \<Rightarrow> bool" where
  "okFrom W p [] = True"
| "okFrom W p (e # es) = (okWrite W p e \<and> okFrom W (Some e) es)"

definition writesOK :: "(Cluster \<Rightarrow> BackupStatus option \<Rightarrow> bool) \<Rightarrow> event list \<Rightarrow> bool" where
  "writesOK W ev = okFrom W None ev"

abbreviation isApply :: "event \<Rightarrow> bool" where
  "isApply e \<equiv> writeOf e \<noteq> None"

lemma okFrom_append: "okFrom W p (a @ b) \<longleftrightarrow> okFrom W p a \<and> okFrom W (if a = [] then p else Some (last a)) b"
  by (induction a arbitrary: p) auto

lemma okFrom_None: "okFrom W None ev \<Longrightarrow> okFrom W p ev"
  by (cases ev) (auto simp: okWrite_def split: option.splits)

lemma writesOK_calm: "list_all (\<lambda>e. \<not> isApply e) ev \<Longrightarrow> writesOK W ev"
proof -
  have "list_all (\<lambda>e. \<not> isApply e) ev \<Longrightarrow> okFrom W p ev" for p
    by (induction ev arbitrary: p) (simp_all add: okWrite_def)
  then show "list_all (\<lambda>e. \<not> isApply e) ev \<Longrightarrow> writesOK W ev" by (simp add: writesOK_def)
qed

lemma writesOK_append: "writesOK W ev \<Longrightarrow> writesOK W ev' \<Longrightarrow> writesOK W (ev @ ev')"
  unfolding writesOK_def okFrom_append using okFrom_None by simp

lemma writesOK_write: "W cur k \<Longrightarrow> writesOK W [GetClusterE (Inr cur), ApplyStatusE b u k f a]"
  by (simp add: writesOK_def okWrite_def)

text \<open>What a list of calls satisfies that is fine in this sense.\<close>

lemma writesOK_D:
  assumes "writesOK W (ev1 @ ApplyStatusE b u k f a # ev2)"
  shows "\<exists>before cur. ev1 = before @ [GetClusterE (Inr cur)] \<and> W cur k"
proof -
  have "okWrite W (if ev1 = [] then None else Some (last ev1)) (ApplyStatusE b u k f a)"
    using assms by (simp add: writesOK_def okFrom_append)
  then obtain cur where "ev1 \<noteq> []" "readOf (last ev1) = Some cur" "W cur k"
    by (auto simp: okWrite_def split: if_splits option.splits)
  moreover have "readOf e = Some cur \<Longrightarrow> e = GetClusterE (Inr cur)" for e
    by (induction e rule: readOf.induct) auto
  ultimately show ?thesis by (metis append_butlast_last_id)
qed

definition bf :: "(event \<Rightarrow> bool) \<Rightarrow> (Cluster \<Rightarrow> BackupStatus option \<Rightarrow> bool) \<Rightarrow> st \<Rightarrow> st \<Rightarrow> bool" where
  "bf P W s t \<longleftrightarrow> (\<exists>ev. trace t = trace s @ ev \<and> list_all P ev \<and> writesOK W ev)"

lemma bf_refl: "bf P W s s"
  by (simp add: bf_def writesOK_def)

lemma bf_trans: "bf P W s t \<Longrightarrow> bf P W t u \<Longrightarrow> bf P W s u"
  unfolding bf_def by (elim exE conjE, rule_tac x = "ev @ eva" in exI) (simp add: writesOK_append)

interpretation bf: frame "bf P W" for P W
  by unfold_locales (auto intro: bf_refl bf_trans)

text \<open>Steps that keep a backup status in memory as well.\<close>

definition hasBackup :: "st \<Rightarrow> bool" where
  "hasBackup s \<longleftrightarrow> backupStatus (cl s) \<noteq> None"

definition bfh :: "(event \<Rightarrow> bool) \<Rightarrow> (Cluster \<Rightarrow> BackupStatus option \<Rightarrow> bool) \<Rightarrow> st \<Rightarrow> st \<Rightarrow> bool" where
  "bfh P W s t \<longleftrightarrow> bf P W s t \<and> (hasBackup s \<longrightarrow> hasBackup t)"

interpretation bfh: frame "bfh P W" for P W
  by unfold_locales (auto simp: bfh_def intro: bf_refl bf_trans)

lemma keeps_bfh: "keeps (bfh P W) m \<Longrightarrow> keeps (bf P W) m"
  by (auto simp: keeps_def bfh_def)

section \<open>Calls\<close>

lemma bf_one: "P e \<Longrightarrow> \<not> isApply e \<Longrightarrow> trace t = trace s @ [e] \<Longrightarrow> bf P W s t"
  by (auto simp: bf_def intro!: exI [of _ "[e]"] writesOK_calm)

lemma keeps_bfh_call:
  "(\<And>r. P (ev r)) \<Longrightarrow> (\<And>r. \<not> isApply (ev r)) \<Longrightarrow> keeps (bfh P W) (call f ev)"
  "(\<And>r. P (ev' r)) \<Longrightarrow> (\<And>r. \<not> isApply (ev' r)) \<Longrightarrow> keeps (bfh P W) (callU g ev')"
  "P e \<Longrightarrow> \<not> isApply e \<Longrightarrow> keeps (bfh P W) (emit e)"
  by (auto simp: keeps_def bfh_def call_def callU_def emit_def modify_def Let_def hasBackup_def intro!: bf_one)

lemma keeps_bfh_state:
  "keeps (bfh P W) (now env)" "keeps (bfh P W) (updBackup f)" "keeps (bfh P W) (modify (\<lambda>s. s\<lparr>backupJobMetricsSeen := g s\<rparr>))"
  by (auto simp: keeps_def bfh_def bf_def now_def gets_def updBackup_def updCl_def modify_def mapBackup_def hasBackup_def
      writesOK_def intro: exI [of _ "[]"])

lemma keeps_bf_state: "keeps (bf P W) (setCl c)" "keeps (bf P W) (updCl h)" "keeps (bf P W) (now env)"
  "keeps (bf P W) (updBackup f)" "keeps (bf P W) (modify (\<lambda>s. s\<lparr>backupJobMetricsSeen := g s\<rparr>))"
  by (auto simp: keeps_def bf_def setCl_def updCl_def now_def gets_def modify_def updBackup_def writesOK_def)

lemmas keeps_bf_call = keeps_bfh_call [THEN keeps_bfh]

lemma keeps_bf_with [intro!]:
  "(\<And>b. keeps (bf P W) (k b)) \<Longrightarrow> keeps (bf P W) (withBackup k)"
  "(\<And>b. keeps (bf P W) (k' b)) \<Longrightarrow> keeps (bf P W) (withBackupSpec k')"
  "(\<And>b. keeps (bfh P W) (k2 b)) \<Longrightarrow> keeps (bfh P W) (withBackup k2)"
  "(\<And>b. keeps (bfh P W) (k3 b)) \<Longrightarrow> keeps (bfh P W) (withBackupSpec k3)"
  unfolding withBackup_def withBackupSpec_def by (auto split: option.split)

text \<open>The calls of a backup pass, apart from the creation of Jobs and restores, the deletion of restores and the status writes.\<close>

fun plain :: "event \<Rightarrow> bool" where
  "plain (CreateJobE _ _) = False"
| "plain (CreateRestoreE _ _ _) = False"
| "plain (DeleteRestoreE _ _ _ _) = False"
| "plain (ApplyStatusE _ _ _ _ _) = False"
| "plain _ = True"

lemma plain_calm: "plain e \<Longrightarrow> \<not> isApply e"
  by (cases e) auto

lemma plain_simps [simp]:
  "plain (GetClusterE x1)" "plain (GetJobE x2 x3)" "plain (ListPodsE x4 x5)" "plain (ListJobsE x6 x7)" "plain (AuditE x8 x9)"
  "plain (EventE x10 x11 x12)" "plain (VerifyImageE x13 x14)" "plain (ListRestoresE x15)" "plain (GetRestoreE x16 x17 x18)"
  "plain (PatchAnnotationsE x19 x20)" "plain (BackupReadinessE x21)" "plain (OpenStorageE x22)" "plain (StorageListE x23 x24)"
  "plain (StorageDeleteE x25 x26)" "plain (StorageHeadE x27 x28)" "plain (ShortUUIDE x29)" "plain (BackupMetricE x30)"
  "plain (EnsureBackupAccountE x31)" "plain (EnsureBackupRBACE x32)" "plain (PatchLockE x33 x34)"
  by simp_all

text \<open>\<open>wide P\<close>: the plain calls and the status writes satisfy \<open>P\<close>.\<close>

definition wide :: "(event \<Rightarrow> bool) \<Rightarrow> bool" where
  "wide P \<longleftrightarrow> (\<forall>e. plain e \<or> isApply e \<longrightarrow> P e)"

lemma wideD: "wide P \<Longrightarrow> plain e \<Longrightarrow> P e" "wide P \<Longrightarrow> P (ApplyStatusE b u k f a)"
  by (simp_all add: wide_def)

lemma keeps_bfh_plain:
  "wide P \<Longrightarrow> (\<And>r. plain (ev r)) \<Longrightarrow> keeps (bfh P W) (call f ev)"
  "wide P \<Longrightarrow> (\<And>r. plain (ev' r)) \<Longrightarrow> keeps (bfh P W) (callU g ev')"
  "wide P \<Longrightarrow> plain e \<Longrightarrow> keeps (bfh P W) (emit e)"
  using plain_calm by (simp_all add: wide_def keeps_bfh_call)

lemma keeps_bfh_emits [intro]:
  assumes "wide P"
  shows "keeps (bfh P W) (emitBackupMetrics ms)" "keeps (bfh P W) (audit ty flds)" "keeps (bfh P W) (emitNormalEvent x y)"
    "keeps (bfh P W) (emitWarningEvent x y)" "keeps (bfh P W) (getCluster env)" "keeps (bfh P W) (listJobs env sel)"
    "keeps (bfh P W) (listPods env sel)" "keeps (bfh P W) (getJob env n)" "keeps (bfh P W) (openBackupStorageClient env)"
proof -
  show "keeps (bfh P W) (emitBackupMetrics ms)" using assms by (induction ms) (auto intro!: keeps_bfh_plain)
qed (auto simp: audit_def emitNormalEvent_def emitWarningEvent_def getCluster_def listJobs_def listPods_def getJob_def
      openBackupStorageClient_def assms intro!: keeps_bfh_plain)

lemmas bfh_intros = keeps_bfh_emits keeps_bfh_plain keeps_bfh_state

section \<open>Status writes\<close>

lemma bf_retry:
  assumes "keeps (bf P W) m" shows "keeps (bf P W) (retryOnConflict n m)"
proof (induction n)
  case (Suc n)
  show ?case unfolding keeps_def
  proof
    fix s
    have "bf P W s (snd (m s))" using assms by (simp add: keeps_def)
    moreover have "bf P W t (snd (retryOnConflict n m t))" for t using Suc by (simp add: keeps_def)
    ultimately show "bf P W s (snd (retryOnConflict (Suc n) m s))"
      by (auto split: prod.split sum.split) (metis bf_trans snd_conv)+
  qed
qed (auto simp: keeps_def intro: bf_refl)

lemma bf_MutateAndApply:
  assumes "wide P" "\<And>cur d. mutate cur = Inr d \<Longrightarrow> W cur (backupStatus d)"
  shows "keeps (bf P W) (MutateAndApplyAdminOpsStatus env n mutate force)"
proof -
  have "wp (bnd (wrap_err w (getCluster env)) (\<lambda>cur. bnd (lift_res (mutate cur)) (\<lambda>d. applyStatus env d force)))
      (\<lambda>_. bf P W s) (\<lambda>_. bf P W s) s" for s w
  proof -
    have 1: "bf P W s (s\<lparr>trace := trace s @ [GetClusterE r]\<rparr>)" for r using assms(1) by (intro bf_one [where e = "GetClusterE r"]) (simp_all add: wideD)
    have 2: "bf P W s (s\<lparr>trace := trace s @ [GetClusterE (Inr cur), ApplyStatusE b u (backupStatus d) force r]\<rparr>)"
      if "mutate cur = Inr d" for cur d b u r
      unfolding bf_def using assms that
      by (intro exI [of _ "[GetClusterE (Inr cur), ApplyStatusE b u (backupStatus d) force r]"]) (simp add: writesOK_write wideD)
    show ?thesis using 1 2 by (auto simp: wps getCluster_def applyStatus_def split: sum.split option.split)
  qed
  then have once: "keeps (bf P W) (bnd (wrap_err w (getCluster env)) (\<lambda>cur. bnd (lift_res (mutate cur)) (\<lambda>d. applyStatus env d force)))" for w
    by (simp add: wp_snd keeps_def)
  have read: "keeps (bf P W) (wrap_err w (getCluster env))" for w
    by (rule bf.keeps_wrap_err, rule keeps_bfh, rule keeps_bfh_emits, rule assms)
  show ?thesis unfolding MutateAndApplyAdminOpsStatus_def
    by (cases "n = []") (simp_all add: bf.keeps_bnd [OF bf.keeps_wrap_err [OF bf_retry [OF once]] read])
qed

lemma bf_MutateWithReader:
  assumes "wide P" "\<And>cur d. mutate cur = Inr d \<Longrightarrow> W cur (backupStatus d)"
  shows "keeps (bf P W) (MutateWithReader env mutate ownership)"
  unfolding MutateWithReader_def using bf_MutateAndApply [of P mutate W, OF assms]
  by (auto intro!: keeps_bf_state split: sum.split)

text \<open>A patch of the backup status keeps the stored restore test.\<close>

definition keepsTest :: "Cluster \<Rightarrow> BackupStatus option \<Rightarrow> bool" where
  "keepsTest cur k \<longleftrightarrow> (case backupStatus cur of None \<Rightarrow> True
     | Some b \<Rightarrow> (\<exists>k'. k = Some k' \<and> bkRestoreTest k' = bkRestoreTest b))"

lemma keepsTest_backupMutator: "keepsTest cur (backupStatus (backupMutator (Some b) cur))"
  by (simp add: keepsTest_def backupMutator_def split: option.split)

definition bfk :: "(event \<Rightarrow> bool) \<Rightarrow> (Cluster \<Rightarrow> BackupStatus option \<Rightarrow> bool) \<Rightarrow> bool" where
  "bfk P W \<longleftrightarrow> wide P \<and> (\<forall>cur k. keepsTest cur k \<longrightarrow> W cur k)"

lemma bfkD: "bfk P W \<Longrightarrow> wide P" "bfk P W \<Longrightarrow> keepsTest cur k \<Longrightarrow> W cur k"
  by (simp_all add: bfk_def)

lemma wp_patchBackupStatusSSA:
  assumes "bfk P W" "hasBackup s" "bf P W s0 s"
  shows "wp (patchBackupStatusSSA env) (\<lambda>_. bf P W s0) (\<lambda>_. bf P W s0) s"
proof -
  obtain b where b: "backupStatus (cl s) = Some b" using assms(2) by (auto simp: hasBackup_def)
  have "keeps (bf P W) (MutateWithReader env (\<lambda>obj. Inr (backupMutator (Some b) obj)) ForceOwnershipOnConflict)"
    by (rule bf_MutateWithReader) (use assms(1) keepsTest_backupMutator in \<open>auto intro: bfkD\<close>)
  then show ?thesis unfolding patchBackupStatusSSA_def using assms(3) b
    by (auto simp: wps intro!: wp_keeps intro: bf_trans)
qed

text \<open>\<open>kb P W m\<close>: what \<open>m\<close> does from a state with a backup status; steps before a write have to keep that status.\<close>

definition kb :: "(event \<Rightarrow> bool) \<Rightarrow> (Cluster \<Rightarrow> BackupStatus option \<Rightarrow> bool) \<Rightarrow> 'a op \<Rightarrow> bool" where
  "kb P W m \<longleftrightarrow> (\<forall>s0 s. hasBackup s \<longrightarrow> bf P W s0 s \<longrightarrow> wp m (\<lambda>_. bf P W s0) (\<lambda>_. bf P W s0) s)"

lemma kbD: "kb P W m \<Longrightarrow> hasBackup s \<Longrightarrow> wp m (\<lambda>_. bf P W s) (\<lambda>_. bf P W s) s"
  by (simp add: kb_def bf_refl)

lemma kb_patch: "bfk P W \<Longrightarrow> kb P W (patchBackupStatusSSA env)"
  by (simp add: kb_def wp_patchBackupStatusSSA)

lemma kb_keeps: "keeps (bf P W) m \<Longrightarrow> kb P W m"
  unfolding kb_def by (auto intro!: wp_keeps intro: bf_trans)

lemma kb_pure [simp, intro]: "kb P W (ret a)" "kb P W (failwith e)"
  by (auto intro!: kb_keeps)

lemma kb_wrap: "kb P W m \<Longrightarrow> kb P W (wrap_err f m)" "kb P W m \<Longrightarrow> kb P W (attempt m)"
  by (simp_all add: kb_def wps)

lemma kb_then: "kb P W m \<Longrightarrow> (\<And>a. keeps (bf P W) (k a)) \<Longrightarrow> kb P W (bnd m k)"
  unfolding kb_def wp_bnd by (intro allI impI, rule wp_mono, blast) (auto intro!: wp_keeps intro: bf_trans)

lemma kb_bnd:
  assumes "keeps (bfh P W) m" "\<And>a. kb P W (k a)"
  shows "kb P W (bnd m k)"
  unfolding kb_def
proof (intro allI impI)
  fix s0 s assume "hasBackup s" "bf P W s0 s"
  then have "bf P W s0 t \<and> hasBackup t" if "bfh P W s t" for t
    using that by (auto simp: bfh_def intro: bf_trans)
  then show "wp (bnd m k) (\<lambda>_. bf P W s0) (\<lambda>_. bf P W s0) s"
    unfolding wp_bnd using assms(2) by (intro wp_keeps [OF assms(1)]) (auto simp: kb_def)
qed

lemma keeps_bf_withBackup: "(\<And>b. kb P W (k b)) \<Longrightarrow> keeps (bf P W) (withBackup k)"
  by (rule keepsI) (auto simp: withBackup_def wps bf_refl hasBackup_def intro!: kbD split: option.split)

lemma bf_ensureBackupStatus: "bfk P W \<Longrightarrow> keeps (bf P W) (ensureBackupStatus env)"
  unfolding ensureBackupStatus_def
  by (rule keepsI, simp add: wps bf_refl, intro impI, rule wp_patchBackupStatusSSA) (auto simp: hasBackup_def bf_def writesOK_def)

lemma bf_recordBackupAttempt: "bfk P W \<Longrightarrow> keeps (bf P W) (recordBackupAttempt env tm st nx tok)"
  unfolding recordBackupAttempt_def
  by (rule keepsI, simp add: wps, rule wp_patchBackupStatusSSA) (auto simp: hasBackup_def bf_def writesOK_def)

section \<open>Metrics\<close>

lemma bfh_metrics [intro]:
  assumes "wide P"
  shows "keeps (bfh P W) (markBackupJobMetricsSeen ns n u r)" "keeps (bfh P W) (syncBackupStatusMetrics env)"
    "keeps (bfh P W) (applyBackupJobSnapshotToMetrics snap)" "keeps (bfh P W) (readBackupSizeFromObjectStorage env key)"
    "keeps (bfh P W) (backfillDuration env job)" "keeps (bfh P W) (backfillSize env job)"
  using assms
  by (auto simp: markBackupJobMetricsSeen_def syncBackupStatusMetrics_def applyBackupJobSnapshotToMetrics_def
      readBackupSizeFromObjectStorage_def backfillDuration_def backfillSize_def Let_def
      intro!: bfh_intros split: option.split sum.split)

lemma bfh_collectJobMetrics: "wide P \<Longrightarrow> keeps (bfh P W) (collectJobMetrics c jobs snap)"
  by (induction c jobs snap rule: collectJobMetrics.induct) (auto intro!: bfh_intros bfh_metrics split: option.split)

lemma bfh_collect: "wide P \<Longrightarrow> keeps (bfh P W) (collectBackupJobMetricsSnapshot env)"
  unfolding collectBackupJobMetricsSnapshot_def by (auto intro!: bfh_intros bfh_collectJobMetrics)

lemma bf_backfill:
  assumes k: "bfk P W"
  shows "keeps (bf P W) (backfillBackupGaugesFromLatestSuccess env j)"
proof (rule keepsI)
  fix s
  note w = bfkD(1) [OF k]
  show "wp (backfillBackupGaugesFromLatestSuccess env j) (\<lambda>_. bf P W s) (\<lambda>_. bf P W s) s"
  proof (cases "j = None \<or> \<not> hasBackup s")
    case True
    then show ?thesis by (auto simp: backfillBackupGaugesFromLatestSuccess_def hasBackup_def wps bf_refl split: option.split)
  next
    case False
    then obtain job b where j: "j = Some job" "backupStatus (cl s) = Some b" by (auto simp: hasBackup_def)
    have "kb P W (if c then wrap_err f (patchBackupStatusSSA env) else ret ())" for c f
      by (auto intro!: kb_wrap kb_patch [OF k])
    then show ?thesis
      unfolding backfillBackupGaugesFromLatestSuccess_def wp_bnd [of "gets _"] wp_gets j option.case prod.case
      using w False by (intro kbD kb_bnd) (auto intro!: bfh_metrics bfh_intros)
  qed
qed

lemma bf_syncBackupMetrics: "bfk P W \<Longrightarrow> keeps (bf P W) (syncBackupMetrics env)"
  unfolding syncBackupMetrics_def
  by (auto intro!: bf_backfill keeps_bfh [OF bfh_collect] keeps_bfh [OF bfh_metrics(2)] keeps_bfh [OF bfh_metrics(3)] dest: bfkD)

lemma bf_prepareBackup: "bfk P W \<Longrightarrow> keeps (bf P W) (prepareBackup env)"
  unfolding prepareBackup_def
  by (auto intro!: bf_syncBackupMetrics bf_ensureBackupStatus keeps_bfh [OF bfh_metrics(2)] keeps_bfh [OF keeps_bfh_plain(2)]
      split: option.split dest: bfkD)

section \<open>Observation\<close>

lemma bfh_observe [intro]:
  assumes "wide P"
  shows "keeps (bfh P W) (observeBackupJobs env)" "keeps (bfh P W) (hasPreUpgradeBackupJob env)"
    "keeps (bfh P W) (hasInProgressRestore env)"
  using assms
  by (auto simp: observeBackupJobs_def hasPreUpgradeBackupJob_def hasInProgressRestore_def
      intro!: bfh_intros split: sum.split)

lemma bfh_checkPreconditions: "wide P \<Longrightarrow> keeps (bfh P W) (checkPreconditions env)"
  unfolding checkPreconditions_def by (auto intro!: bfh_intros bfh_observe split: prod.split)

lemma bfh_observeBackup: "wide P \<Longrightarrow> keeps (bfh P W) (observeBackup env tm)"
  unfolding observeBackup_def observeBlockers_def Let_def
  by (auto intro!: bfh_observe bfh_checkPreconditions split: option.split)

section \<open>Jobs\<close>

lemma bf_lock:
  assumes "wide P"
  shows "keeps (bf P W) (mutateOperationLockStatus (bgLockApi env) c mutate)"
  unfolding mutateOperationLockStatus_def MutateAndPatchLockStatus_def lockAttempt_def bgLockApi_def
  using assms
  by (auto intro!: bf_retry keeps_bfh [OF keeps_bfh_emits(5)] keeps_bfh [OF keeps_bfh_plain(1)] split: prod.split)

lemma bf_releaseBackupLock: "wide P \<Longrightarrow> keeps (bf P W) (releaseBackupLock env note)"
  unfolding releaseBackupLock_def ReleaseWithReader_def
  by (auto intro!: bf_lock keeps_bf_state keeps_bfh [OF keeps_bfh_emits(2)] split: sum.split prod.split)

lemma bf_acquireBackupLock: "wide P \<Longrightarrow> keeps (bf P W) (acquireBackupLock env n)"
  unfolding acquireBackupLock_def AcquireWithReader_def AcquireWithReaderResult_def
  by (auto intro!: bf_lock keeps_bf_state keeps_bfh [OF keeps_bfh_emits(2)] keeps_bfh [OF keeps_bfh_emits(4)] split: sum.split prod.split)

lemma bfh_setBackupFailure: "keeps (bfh P W) (setBackupFailure env r m)"
  unfolding setBackupFailure_def by (auto intro!: keeps_bfh_state)

lemma bf_verifyBackupExecutor:
  assumes k: "bfk P W"
  shows "keeps (bf P W) (verifyBackupExecutor env i)"
proof (rule keepsI)
  fix s
  have 1: "bf P W s (s\<lparr>trace := trace s @ [VerifyImageE i r]\<rparr>)" for r
    using bfkD(1) [OF k] by (intro bf_one [where e = "VerifyImageE i r"]) (simp_all add: wideD)
  have "kb P W (bnd (bnd (setBackupFailure env r m) (\<lambda>_. bnd (attempt (patchBackupStatusSSA env)) (\<lambda>_. ret ())))
      (\<lambda>_. if d then failwith e else ret []))" for r m d e
    by (rule kb_then, rule kb_bnd [OF bfh_setBackupFailure], rule kb_then, rule kb_wrap, rule kb_patch [OF k]) auto
  note 2 = this [unfolded kb_def, rule_format, where ?s0.0 = s]
  show "wp (verifyBackupExecutor env i) (\<lambda>_. bf P W s) (\<lambda>_. bf P W s) s"
  proof (cases "i = [] \<or> \<not> eOperatorVerification env (cl s)")
    case True
    then show ?thesis by (simp add: verifyBackupExecutor_def wps bf_refl)
  next
    case v: False
    show ?thesis
    proof (cases "eVerifyOperator env (trace s) (cl s) i")
      case (Inr d)
      then show ?thesis using v 1 by (simp add: verifyBackupExecutor_def wps)
    next
      case (Inl e)
      show ?thesis
      proof (cases "backupStatus (cl s)")
        case None
        then show ?thesis using v Inl 1 by (simp add: verifyBackupExecutor_def wps)
      next
        case (Some b)
        then have "hasBackup (s\<lparr>trace := trace s @ [VerifyImageE i (Inl e)]\<rparr>)" by (simp add: hasBackup_def)
        note 3 = 2 [OF this 1]
        show ?thesis
          unfolding verifyBackupExecutor_def wp_bnd [of "gets _"] wp_gets
          using v Inl Some 3 by (simp only: if_False simp_thms wp_bnd [of "attempt _"] wp_attempt wp_call sum.case option.distinct if_True)
      qed
    qed
  qed
qed

lemma bf_readManagedJob: "wide P \<Longrightarrow> keeps (bf P W) (readManagedJob env n a)"
  unfolding readManagedJob_def ReadManagedJob_def
  by (auto intro!: keeps_bfh [OF keeps_bfh_emits(8)] split: option.split)

lemma bf_backupJobCreated: "wide P \<Longrightarrow> keeps (bf P W) (backupJobCreated env n)"
  unfolding backupJobCreated_def
  by (auto intro!: keeps_bfh [OF keeps_bfh_emits(2)] keeps_bfh [OF keeps_bfh_emits(3)] split: option.split)

lemma bf_createJob: "(\<And>r. P (CreateJobE j r)) \<Longrightarrow> keeps (bf P W) (createJob env j)"
  unfolding createJob_def by (rule keeps_bf_call) simp_all

lemma bf_createBackupJob:
  assumes "bfk P W" "\<And>j r. P (CreateJobE j r)"
  shows "keeps (bf P W) (createBackupJob env n tm)"
  unfolding createBackupJob_def using bfkD(1) [OF assms(1)] assms
  by (auto intro!: bf_verifyBackupExecutor bf_createJob bf_backupJobCreated bf_readManagedJob keeps_bfh [OF keeps_bfh_plain(1)] split: sum.split)

lemma bf_ensureBackupJob:
  assumes "bfk P W" "\<And>j r. P (CreateJobE j r)"
  shows "keeps (bf P W) (ensureBackupJob env n tm)"
  unfolding ensureBackupJob_def using bfkD(1) [OF assms(1)] assms
  by (auto intro!: bf_createBackupJob keeps_bfh [OF keeps_bfh_emits(8)] split: sum.split option.split)

lemma bfh_snapshotSummary: "wide P \<Longrightarrow> keeps (bfh P W) (snapshotSummary env j)"
  unfolding snapshotSummary_def by (auto intro!: bfh_intros)

lemma bf_processSucceededJob:
  assumes k: "bfk P W"
  shows "keeps (bf P W) (processSucceededJob env job)"
proof -
  note w = bfkD(1) [OF k]
  have fin: "keeps (bf P W) (bnd (gets cl) (\<lambda>c. bnd (audit x1 (x2 c)) (\<lambda>_. bnd (emitNormalEvent x3 x4) (\<lambda>_. ret x5))))"
    for x1 x2 x3 x4 and x5 :: backupJobProcessResult
    using w by (auto intro!: keeps_bfh [OF keeps_bfh_emits(2)] keeps_bfh [OF keeps_bfh_emits(3)])
  have patch: "kb P W (bnd (wrap_err f (patchBackupStatusSSA env)) k')" if "\<And>a. keeps (bf P W) (k' a)"
    for f and k' :: "unit \<Rightarrow> backupJobProcessResult op"
    by (rule kb_then, rule kb_wrap, rule kb_patch [OF k], rule that)
  show ?thesis
    unfolding processSucceededJob_def Let_def
    by (auto intro!: keeps_bf_withBackup kb_bnd [OF bfh_snapshotSummary [OF w]] kb_bnd [OF keeps_bfh_state(1)]
        kb_bnd [OF keeps_bfh_state(2)] patch fin)
qed

lemma bf_processFailedJob:
  assumes k: "bfk P W"
  shows "keeps (bf P W) (processFailedJob env job)"
proof -
  note w = bfkD(1) [OF k]
  have fin: "keeps (bf P W) (withBackup (\<lambda>b. bnd (gets cl) (\<lambda>c. bnd (audit x1 (x2 c b)) (\<lambda>_. bnd (emitWarningEvent x3 x4) (\<lambda>_. ret x5)))))"
    for x1 x2 x3 x4 and x5 :: backupJobProcessResult
    using w by (auto intro!: keeps_bf_with keeps_bfh [OF keeps_bfh_emits(2)] keeps_bfh [OF keeps_bfh_emits(4)])
  have patch: "kb P W (bnd (wrap_err f (patchBackupStatusSSA env)) k')" if "\<And>a. keeps (bf P W) (k' a)"
    for f and k' :: "unit \<Rightarrow> backupJobProcessResult op"
    by (rule kb_then, rule kb_wrap, rule kb_patch [OF k], rule that)
  show ?thesis
    unfolding processFailedJob_def Let_def
    by (auto intro!: keeps_bf_withBackup kb_bnd [OF keeps_bfh_state(2)] kb_bnd [OF bfh_setBackupFailure] patch fin)
qed

lemma bf_processBackupJob: "bfk P W \<Longrightarrow> keeps (bf P W) (processBackupJob env j)"
  unfolding processBackupJob_def by (auto intro!: bf_processSucceededJob bf_processFailedJob split: option.split)

section \<open>Triggers and retention\<close>

lemma bf_clearManualTrigger: "wide P \<Longrightarrow> keeps (bf P W) (clearManualTriggerAnnotation env)"
  unfolding clearManualTriggerAnnotation_def Let_def
  by (auto intro!: keeps_bf_state keeps_bfh [OF keeps_bfh_plain(1)])

lemma bf_triggers:
  assumes "wide P"
  shows "keeps (bf P W) (recordManualTriggerAccepted tok)" "keeps (bf P W) (skipManualTriggerForActiveJob env tok)"
  using assms
  by (auto simp: recordManualTriggerAccepted_def skipManualTriggerForActiveJob_def recordManualTriggerDetected_def
      intro!: bf_clearManualTrigger keeps_bfh [OF keeps_bfh_emits(2)] keeps_bfh [OF keeps_bfh_emits(3)])

lemma bfh_ApplyRetention: "wide P \<Longrightarrow> keeps (bfh P W) (ApplyRetention env prefix policy)"
  unfolding ApplyRetention_def Let_def by (auto intro!: bfh_intros)

lemma bf_retention: "wide P \<Longrightarrow> keeps (bf P W) (applyRetentionAfterSuccess env)"
  unfolding applyRetentionAfterSuccess_def applyRetention_def Let_def
  by (auto intro!: keeps_bfh [OF bfh_ApplyRetention] keeps_bfh [OF keeps_bfh_emits(1)] keeps_bfh [OF keeps_bfh_emits(5)]
      keeps_bfh [OF keeps_bfh_emits(9)] keeps_bfh [OF keeps_bfh_plain(3)] split: option.split)

section \<open>Decisions\<close>

lemma bf_quietDecisions:
  assumes "bfk P W"
  shows "keeps (bf P W) (applyBlockedBackup env ob)" "keeps (bf P W) (applyObserveBackup env ob)"
    "keeps (bf P W) (applyFinalizeBackup env ob)" "keeps (bf P W) (applyIdleBackup ob)" "keeps (bf P W) (applyInitialBackupSchedule ob)"
proof -
  note w = bfkD(1) [OF assms]
  show "keeps (bf P W) (applyBlockedBackup env ob)" unfolding applyBlockedBackup_def using w
    by (auto intro!: bf_triggers keeps_bfh [OF keeps_bfh_emits(3)] keeps_bfh [OF keeps_bfh_plain(3)] split: option.split backupBlockerKind.split)
  show "keeps (bf P W) (applyObserveBackup env ob)" unfolding applyObserveBackup_def using w
    by (auto intro!: bf_triggers bf_clearManualTrigger keeps_bfh [OF bfh_metrics(3)])
  show "keeps (bf P W) (applyFinalizeBackup env ob)" unfolding applyFinalizeBackup_def using w assms
    by (auto intro!: bf_clearManualTrigger bf_processBackupJob bf_retention bf_releaseBackupLock)
  show "keeps (bf P W) (applyIdleBackup ob)" by (simp add: applyIdleBackup_def)
  show "keeps (bf P W) (applyInitialBackupSchedule ob)" by (simp add: applyInitialBackupSchedule_def keeps_bf_state)
qed

lemma bf_applyCreateBackup:
  assumes "bfk P W" "\<And>j r. P (CreateJobE j r)"
  shows "keeps (bf P W) (applyCreateBackup env ob)"
  unfolding applyCreateBackup_def Let_def using bfkD(1) [OF assms(1)] assms
  by (auto intro!: bf_triggers keeps_bfh [OF keeps_bfh_plain(3)] bf_acquireBackupLock keeps_bfh [OF keeps_bfh_emits(2)]
      keeps_bfh [OF keeps_bfh_emits(3)] bf_ensureBackupJob bf_releaseBackupLock bf_clearManualTrigger bf_recordBackupAttempt split: sum.split)

lemma bf_applyBackupDecision:
  assumes "bfk P W" "\<And>j r. P (CreateJobE j r)"
  shows "keeps (bf P W) (applyBackupDecision env ob)"
  unfolding applyBackupDecision_def using bf_quietDecisions [OF assms(1)] bf_applyCreateBackup [of P W, OF assms]
  by (auto split: backupDecisionKind.split)

section \<open>Restore tests\<close>

definition restoreTestOf :: "BackupStatus option \<Rightarrow> RestoreTestStatus option" where
  "restoreTestOf b = Option.bind b bkRestoreTest"

definition activeRun :: "RestoreTestStatus option \<Rightarrow> RestoreTestRun option" where
  "activeRun ts = Option.bind ts tsActive"

text \<open>A run in progress stays, with the UID it is bound to, or ends together with a recorded result.\<close>

definition runKept :: "RestoreTestStatus option \<Rightarrow> RestoreTestStatus option \<Rightarrow> bool" where
  "runKept old new \<longleftrightarrow> (case activeRun old of None \<Rightarrow> True
     | Some run \<Rightarrow> (case activeRun new of
          Some run' \<Rightarrow> tnName run' = tnName run \<and> tnNamespace run' = tnNamespace run \<and> tnKey run' = tnKey run
            \<and> (tnUID run \<noteq> [] \<longrightarrow> tnUID run' = tnUID run)
        | None \<Rightarrow> (\<exists>ts r. new = Some ts \<and> tsLast ts = Some r \<and> trName r = tnName run)))"

definition runConserved :: "Cluster \<Rightarrow> BackupStatus option \<Rightarrow> bool" where
  "runConserved cur k \<longleftrightarrow> runKept (restoreTestOf (backupStatus cur)) (restoreTestOf k)"

definition testWrite :: "Cluster \<Rightarrow> BackupStatus option \<Rightarrow> bool" where
  "testWrite cur k \<longleftrightarrow> runConserved cur k \<and> (\<exists>b ts. backupStatus cur = Some b \<and> k = Some (b\<lparr>bkRestoreTest := Some ts\<rparr>))"

lemma runKept_refl: "runKept ts ts"
  by (auto simp: runKept_def split: option.split)

lemma runConserved_keepsTest: "keepsTest cur k \<Longrightarrow> runConserved cur k"
  by (auto simp: keepsTest_def runConserved_def restoreTestOf_def runKept_refl split: option.splits)
    (simp add: runKept_def activeRun_def)

definition bfr :: "(event \<Rightarrow> bool) \<Rightarrow> (Cluster \<Rightarrow> BackupStatus option \<Rightarrow> bool) \<Rightarrow> bool" where
  "bfr P W \<longleftrightarrow> wide P \<and> (\<forall>d c r. P (CreateRestoreE d c r)) \<and> (\<forall>ns n u r. P (DeleteRestoreE ns n u r))
     \<and> (\<forall>cur k. testWrite cur k \<longrightarrow> W cur k)"

lemma bfrD: "bfr P W \<Longrightarrow> wide P" "bfr P W \<Longrightarrow> P (CreateRestoreE d c r)" "bfr P W \<Longrightarrow> P (DeleteRestoreE ns n u r)"
  "bfr P W \<Longrightarrow> testWrite cur k \<Longrightarrow> W cur k"
  by (simp_all add: bfr_def)

text \<open>\<open>follows expected s\<close>: what is in memory may replace the status \<open>expected\<close>.\<close>

definition follows :: "BackupStatus \<Rightarrow> st \<Rightarrow> bool" where
  "follows expected s \<longleftrightarrow> runKept (bkRestoreTest expected) (restoreTestOf (backupStatus (cl s)))"

definition kr :: "(event \<Rightarrow> bool) \<Rightarrow> (Cluster \<Rightarrow> BackupStatus option \<Rightarrow> bool) \<Rightarrow> BackupStatus \<Rightarrow> 'a op \<Rightarrow> bool" where
  "kr P W expected m \<longleftrightarrow> (\<forall>s0 s. follows expected s \<longrightarrow> bf P W s0 s \<longrightarrow> wp m (\<lambda>_. bf P W s0) (\<lambda>_. bf P W s0) s)"

lemma restoreTestMutator_write:
  assumes "restoreTestMutator c reserving expected ts cur = Inr d" "runKept (bkRestoreTest expected) (Some ts)"
  shows "testWrite cur (backupStatus d)"
  using assms
  by (auto simp: restoreTestMutator_def backupMoved_def testWrite_def runConserved_def restoreTestOf_def mapBackup_def
      split: if_splits option.splits)

lemma kr_patch:
  assumes "bfr P W" shows "kr P W expected (patchRestoreTestStatus env expected)"
  unfolding kr_def
proof (intro allI impI)
  fix s0 s assume f: "follows expected s" and b: "bf P W s0 s"
  show "wp (patchRestoreTestStatus env expected) (\<lambda>_. bf P W s0) (\<lambda>_. bf P W s0) s"
  proof (cases "restoreTestOf (backupStatus (cl s))")
    case None
    then show ?thesis using b
      by (auto simp: patchRestoreTestStatus_def withRestoreTest_def withBackup_def restoreTestOf_def wps split: option.splits)
  next
    case (Some ts)
    have "keeps (bf P W) (MutateWithReader env (restoreTestMutator c r expected ts) ForceOwnershipOnConflict)" for c r
      by (rule bf_MutateWithReader [OF bfrD(1) [OF assms]]) (use f Some assms in \<open>auto simp: follows_def intro: bfrD restoreTestMutator_write\<close>)
    then have "wp (MutateWithReader env (restoreTestMutator c r expected ts) ForceOwnershipOnConflict) (\<lambda>_. bf P W s0) (\<lambda>_. bf P W s0) s" for c r
      using b by (auto intro!: wp_keeps intro: bf_trans)
    then show ?thesis using b Some
      by (auto simp: patchRestoreTestStatus_def withRestoreTest_def withBackup_def restoreTestOf_def Let_def
          wp_bnd wp_gets wp_failwith wp_if bind_eq_Some_conv)
  qed
qed

text \<open>Rules for the steps before such a write: calls that leave the object alone, and updates that keep the run.\<close>

lemma kr_pure [simp, intro]: "kr P W x (ret a)" "kr P W x (failwith e)"
  by (simp_all add: kr_def wps)

lemma kr_keeps: "keeps (bf P W) m \<Longrightarrow> kr P W x m"
  unfolding kr_def by (auto intro!: wp_keeps intro: bf_trans)

lemma kr_then: "kr P W x m \<Longrightarrow> (\<And>a. keeps (bf P W) (k a)) \<Longrightarrow> kr P W x (bnd m k)"
  unfolding kr_def wp_bnd by (intro allI impI, rule wp_mono, blast) (auto intro!: wp_keeps intro: bf_trans)

lemma kr_call:
  assumes "keeps (bfh P W) m" "keeps sameCl m" "\<And>a. kr P W x (k a)"
  shows "kr P W x (bnd m k)"
  unfolding kr_def
proof (intro allI impI)
  have both: "keeps (\<lambda>s t. sameCl s t \<and> bfh P W s t) m" using assms(1,2) by (simp add: keeps_def)
  fix s0 s assume "follows x s" "bf P W s0 s"
  then have "follows x t \<and> bf P W s0 t" if "sameCl s t \<and> bfh P W s t" for t
    using that by (auto simp: follows_def sameCl_def bfh_def intro: bf_trans)
  then show "wp (bnd m k) (\<lambda>_. bf P W s0) (\<lambda>_. bf P W s0) s"
    unfolding wp_bnd using assms(3) by (intro wp_keeps [OF both]) (auto simp: kr_def)
qed

lemma kr_gets: "(\<And>c. kr P W x (k c)) \<Longrightarrow> kr P W x (bnd (gets f) k)"
  by (simp add: kr_def wps)

lemma kr_skip: "kr P W x (k a) \<Longrightarrow> kr P W x (bnd (ret a) k)"
  by (simp add: kr_def wps)

lemma kr_now: "(\<And>c. kr P W x (k c)) \<Longrightarrow> kr P W x (bnd (now env) k)"
  by (simp add: kr_def wps)

lemma kr_upd:
  assumes "\<And>ts. runKept (bkRestoreTest x) (Some ts) \<Longrightarrow> runKept (bkRestoreTest x) (Some (f ts))" "\<And>a. kr P W x (k a)"
  shows "kr P W x (bnd (updRestoreTest f) k)"
  unfolding kr_def
proof (intro allI impI)
  fix s0 s assume f: "follows x s" and b: "bf P W s0 s"
  have "follows x (s\<lparr>cl := mapBackup (\<lambda>b. b\<lparr>bkRestoreTest := map_option f (bkRestoreTest b)\<rparr>) (cl s)\<rparr>)"
    using f assms(1) by (cases "backupStatus (cl s)"; cases "restoreTestOf (backupStatus (cl s))")
      (auto simp: follows_def mapBackup_def restoreTestOf_def)
  moreover have "bf P W s0 (s\<lparr>cl := c\<rparr>)" for c using b by (simp add: bf_def)
  ultimately show "wp (bnd (updRestoreTest f) k) (\<lambda>_. bf P W s0) (\<lambda>_. bf P W s0) s"
    using assms(2) by (simp add: updRestoreTest_def updBackup_def wp_bnd wp_state kr_def)
qed

lemma kr_with:
  "(\<And>b. kr P W x (k b)) \<Longrightarrow> kr P W x (withBackup k)"
  "(\<And>ts. kr P W x (k2 ts)) \<Longrightarrow> kr P W x (withRestoreTest k2)"
  "(\<And>ts run. kr P W x (k3 ts run)) \<Longrightarrow> kr P W x (withActiveRun k3)"
  unfolding withActiveRun_def withRestoreTest_def withBackup_def by (auto intro!: kr_gets split: option.split)

lemma kr_condition: "bfr P W \<Longrightarrow> kr P W x (restoreTestCondition env x v r m)"
  unfolding restoreTestCondition_def Let_def
  by (auto intro!: kr_with kr_gets kr_now kr_skip kr_patch kr_upd simp: runKept_def activeRun_def split: option.splits)

lemma sameCl_restoreCalls:
  "keeps sameCl (createRestore env d c)" "keeps sameCl (deleteRestoreTest env c u)" "keeps sameCl (readRestoreTestChild env)"
  by (auto simp: createRestore_def deleteRestoreTest_def readRestoreTestChild_def withActiveRun_def withRestoreTest_def withBackup_def
      split: option.split sum.split)

lemma bfh_restoreCalls:
  assumes "bfr P W"
  shows "keeps (bfh P W) (createRestore env d c)" "keeps (bfh P W) (deleteRestoreTest env c u)" "keeps (bfh P W) (readRestoreTestChild env)"
proof -
  show "keeps (bfh P W) (createRestore env d c)" "keeps (bfh P W) (deleteRestoreTest env c u)"
    using bfrD(2,3) [OF assms] by (simp_all add: createRestore_def deleteRestoreTest_def keeps_bfh_call)
  show "keeps (bfh P W) (readRestoreTestChild env)"
    using bfrD(1) [OF assms]
    by (auto simp: readRestoreTestChild_def withActiveRun_def withRestoreTest_def intro!: keeps_bfh_plain split: option.split sum.split)
qed

lemma bfh_attempt: "keeps (bfh P W) m \<Longrightarrow> keeps (bfh P W) (attempt m)"
  by auto

lemma bf_release: 
  assumes "bfr P W" shows "keeps (bf P W) (releaseRestoreTestReservation env)"
proof -
  have "testWrite cur (backupStatus d)" if "releaseMutatorRT c run tm cur = Inr d" for c run tm cur d
    using that
    by (auto simp: releaseMutatorRT_def Let_def testWrite_def runConserved_def restoreTestOf_def runKept_def activeRun_def mapBackup_def
        failedRestoreTestResult_def split: option.splits if_splits)
  then have "keeps (bf P W) (MutateWithReader env (releaseMutatorRT c run tm) ForceOwnershipOnConflict)" for c run tm
    by (intro bf_MutateWithReader) (use assms in \<open>auto intro: bfrD\<close>)
  then show ?thesis
    unfolding releaseRestoreTestReservation_def withActiveRun_def withRestoreTest_def
    by (auto intro!: keeps_bf_state split: option.split)
qed

lemma bf_ignoreNotFoundE: "keeps (bf P W) m \<Longrightarrow> keeps (bf P W) (ignoreNotFoundE m)"
  unfolding ignoreNotFoundE_def by (auto split: sum.split)

lemma kr_withActive:
  assumes "\<And>ts run. runKept (bkRestoreTest x) (Some ts) \<Longrightarrow> tsActive ts = Some run \<Longrightarrow> kr P W x (k ts run)"
  shows "kr P W x (withActiveRun k)"
  unfolding kr_def
proof (intro allI impI)
  fix s0 s assume s: "follows x s" "bf P W s0 s"
  show "wp (withActiveRun k) (\<lambda>_. bf P W s0) (\<lambda>_. bf P W s0) s"
    using s assms
    by (auto simp: withActiveRun_def withRestoreTest_def withBackup_def wp_bnd wp_gets wp_failwith follows_def restoreTestOf_def kr_def
        split: option.split)
qed

lemma runKept_end:
  assumes "runKept old (Some ts)" "tsActive ts = Some run" "trName r = tnName run" "tsLast ts' = Some r"
    "tsActive ts' = None \<or> tsActive ts' = tsActive ts''" "runKept old (Some ts'')"
  shows "runKept old (Some ts')"
  using assms by (auto simp: runKept_def activeRun_def split: option.splits)

lemma summarize_name: "trName (summarizeRestoreTest run child tm) = tnName run"
  by (auto simp: summarizeRestoreTest_def failedRestoreTestResult_def Let_def split: prod.split option.split)

lemma kr_conclude:
  assumes b: "bfr P W" and t: "runKept (bkRestoreTest x) (Some ts)" "tsActive ts = Some run"
  shows "kr P W x (concludeRestoreTest env x tm ts run child)"
proof -
  have d: "kr P W x (ignoreNotFoundE (deleteRestoreTest env child u))" for u
    by (rule kr_keeps, rule bf_ignoreNotFoundE, rule keeps_bfh, rule bfh_restoreCalls, rule b)
  have "kr P W x (bnd (updRestoreTest (\<lambda>ts. ts\<lparr>tsLast := Some (summarizeRestoreTest run child tm), tsLastSuccessTime := f ts\<rparr>))
     (\<lambda>_. restoreTestCondition env x v r m))" for f v r m
    by (rule kr_upd [OF runKept_end [OF t summarize_name] kr_condition [OF b]]) auto
  note u = this [where f = "\<lambda>ts. if snapshotApplied child then Some (trFinishedAt (summarizeRestoreTest run child tm)) else tsLastSuccessTime ts"]
  show ?thesis unfolding concludeRestoreTest_def Let_def
    using d u kr_condition [OF b] by simp
qed

lemma absentResult_name: "trName (absentResult ts run tm) = tnName run"
  by (auto simp: absentResult_def failedRestoreTestResult_def Let_def split: option.split)

lemma kr_finishAbsent:
  assumes "bfr P W" shows "kr P W x (finishAbsentRestoreTest env x tm)"
  unfolding finishAbsentRestoreTest_def Let_def
  by (rule kr_withActive, rule kr_upd [OF runKept_end [OF _ _ absentResult_name] kr_condition [OF assms]]) auto

lemma wp_True: "wp m (\<lambda>_ _. True) (\<lambda>_ _. True) s"
  by (auto simp: wp_def split: prod.split sum.split)

lemma kr_released:
  assumes b: "bfr P W"
  shows "kr P W x (bnd (releaseRestoreTestReservation env) (\<lambda>released. if released then ret () else restoreTestCondition env x v r m))"
  unfolding kr_def
proof (intro allI impI)
  fix s0 s assume s: "follows x s" "bf P W s0 s"
  have "wp (releaseRestoreTestReservation env) (\<lambda>_ t. bf P W s0 t) (\<lambda>_ t. bf P W s0 t) s"
    using bf_release [OF b] s(2) by (auto intro!: wp_keeps intro: bf_trans)
  moreover have "wp (releaseRestoreTestReservation env) (\<lambda>released t. \<not> released \<longrightarrow> t = s) (\<lambda>_ _. True) s"
  proof -
    have m: "wp (MutateWithReader env f p) (\<lambda>a. wp (ret True) (\<lambda>released t. \<not> released \<longrightarrow> t = s) (\<lambda>_ _. True)) (\<lambda>_ _. True) u" for f p u
      by (rule wp_mono [OF wp_True]) (simp_all add: wp_ret)
    show ?thesis
      by (auto simp: releaseRestoreTestReservation_def withActiveRun_def withRestoreTest_def withBackup_def wp_bnd wp_gets wp_failwith wp_ret wp_if wp_state m
          split: option.split)
  qed
  ultimately have "wp (releaseRestoreTestReservation env) (\<lambda>released t. bf P W s0 t \<and> (\<not> released \<longrightarrow> t = s)) (\<lambda>_ t. bf P W s0 t \<and> True) s"
    by (rule wp_conj)
  then show "wp (bnd (releaseRestoreTestReservation env) (\<lambda>released. if released then ret () else restoreTestCondition env x v r m))
      (\<lambda>_. bf P W s0) (\<lambda>_. bf P W s0) s"
    unfolding wp_bnd using kr_condition [OF b] s by (elim wp_mono) (auto simp: wp_ret kr_def)
qed

lemma kr_observe:
  assumes b: "bfr P W" shows "kr P W x (observeRestoreTest env x tm)"
  unfolding observeRestoreTest_def
proof (rule kr_withActive, rule kr_call [OF bfh_restoreCalls(3) [OF b] sameCl_restoreCalls(3)])
  fix ts run observed assume t: "runKept (bkRestoreTest x) (Some ts)" "tsActive ts = Some run"
  have bind: "kr P W x (bnd (updRestoreTest (\<lambda>ts. ts\<lparr>tsActive := Some (run\<lparr>tnUID := u\<rparr>)\<rparr>)) (\<lambda>_. patchRestoreTestStatus env x))"
    if "tnUID run = []" for u
    by (rule kr_upd [OF _ kr_patch [OF b]]) (use t that in \<open>auto simp: runKept_def activeRun_def split: option.splits\<close>)
  show "kr P W x (if rcReason observed \<noteq> []
     then bnd (releaseRestoreTestReservation env) (\<lambda>released. if released then ret ()
          else restoreTestCondition env x ''False'' (rcReason observed) (rcMessage observed))
     else case rcRequest observed of
         None \<Rightarrow> finishAbsentRestoreTest env x tm
       | Some child \<Rightarrow>
           if tnUID run = []
           then bnd (updRestoreTest (\<lambda>ts. ts\<lparr>tsActive := Some (run\<lparr>tnUID := orsUID child\<rparr>)\<rparr>)) (\<lambda>_. patchRestoreTestStatus env x)
           else concludeRestoreTest env x tm ts run child)"
    using kr_released [OF b] kr_finishAbsent [OF b] kr_conclude [OF b t] bind by (auto split: option.split)
qed

lemma kr_createReserved:
  assumes b: "bfr P W" shows "keeps (bf P W) (createReservedRestoreTest env child tm)"
proof -
  have w: "wp (withBackup (\<lambda>x. withActiveRun (\<lambda>ts run. bnd (updRestoreTest (\<lambda>ts. ts\<lparr>tsLast := Some (f run), tsActive := None\<rparr>)) (\<lambda>_. restoreTestCondition env x v r m))))
      (\<lambda>_. bf P W s) (\<lambda>_. bf P W s) s" if "\<And>run. trName (f run) = tnName run" for s f v r m
  proof (cases "backupStatus (cl s)")
    case None
    then show ?thesis by (simp add: withBackup_def wps bf_refl)
  next
    case (Some x)
    have "kr P W x (withActiveRun (\<lambda>ts run. bnd (updRestoreTest (\<lambda>ts. ts\<lparr>tsLast := Some (f run), tsActive := None\<rparr>)) (\<lambda>_. restoreTestCondition env x v r m)))"
      by (rule kr_withActive, rule kr_upd [OF runKept_end [OF _ _ that] kr_condition [OF b]]) auto
    then show ?thesis using Some
      by (simp add: withBackup_def wp_bnd wp_gets kr_def follows_def restoreTestOf_def runKept_refl bf_refl)
  qed
  have r: "keeps (bf P W) (withBackup (\<lambda>x. withActiveRun (\<lambda>ts run. bnd (updRestoreTest (\<lambda>ts. ts\<lparr>tsLast :=
      Some ((failedRestoreTestResult run tm a e)\<lparr>trDigest := d\<rparr>), tsActive := None\<rparr>)) (\<lambda>_. restoreTestCondition env x v r m))))" for a e d v r m
    by (rule keepsI, rule w) (simp add: failedRestoreTestResult_def)
  show ?thesis
    unfolding createReservedRestoreTest_def
    by (auto intro!: keeps_bfh [OF bfh_restoreCalls(1) [OF b]] r split: sum.split)
qed

text \<open>A test that starts: the expected status has no run, so every reservation may replace it.\<close>

lemma kr_start:
  assumes b: "bfr P W" and x: "activeRun (bkRestoreTest x) = None"
  shows "kr P W x (startRestoreTest env x spec config tm)"
proof -
  have k: "runKept (bkRestoreTest x) y" for y using x by (simp add: runKept_def)
  note c = kr_condition [OF b]
  have "kr P W x (bnd (updRestoreTest f) (\<lambda>_. bnd (restoreTestCondition env x v r m) (\<lambda>_. createReservedRestoreTest env child tm)))" for f v r m child
    by (rule kr_upd [OF k], rule kr_then [OF c kr_createReserved [OF b]])
  then show ?thesis unfolding startRestoreTest_def Let_def
    by (auto intro!: kr_with kr_gets c split: option.split sum.split
        intro!: kr_call [OF bfh_attempt [OF bfh_restoreCalls(1) [OF b]] sameCl.keeps_attempt [OF sameCl_restoreCalls(1)]])
qed

lemma bf_reconcileRestoreTest:
  assumes b: "bfr P W" shows "keeps (bf P W) (reconcileRestoreTest env tm)"
proof (rule keepsI)
  fix s
  show "wp (reconcileRestoreTest env tm) (\<lambda>_. bf P W s) (\<lambda>_. bf P W s) s"
  proof (cases "backupStatus (cl s)")
    case None
    then show ?thesis by (simp add: reconcileRestoreTest_def wps bf_refl)
  next
    case (Some x)
    define config where "config = (case spBackup (clSpec (cl s)) of None \<Rightarrow> None | Some spec \<Rightarrow> bsRestoreTest spec)"
    define ts where "ts = (case bkRestoreTest x of None \<Rightarrow> emptyRestoreTestStatus | Some ts \<Rightarrow> ts)"
    have a: "activeRun (bkRestoreTest x) = tsActive ts" by (simp add: ts_def activeRun_def emptyRestoreTestStatus_def split: option.split)
    let ?rest = "if tsActive ts \<noteq> None then observeRestoreTest env x tm
           else case (spBackup (clSpec (cl s)), config) of
               (Some spec, Some config) \<Rightarrow>
                 (case restoreTestDue env config ts (bkSuccessfulBackups x) (clCreationTimestamp (cl s)) tm of
                    Inl _ \<Rightarrow> restoreTestCondition env x ''False'' ''InvalidSchedule'' ''Restore test schedule is invalid''
                  | Inr due \<Rightarrow> if \<not> due then ret () else startRestoreTest env x spec config tm)
             | _ \<Rightarrow> ret ()"
    have "kr P W x ?rest"
      using kr_observe [OF b] kr_start [OF b] kr_condition [OF b] a by (auto split: option.split sum.split)
    then have rest: "wp ?rest (\<lambda>_. bf P W s) (\<lambda>_. bf P W s) t" if "follows x t" "bf P W s t" for t
      using that by (simp add: kr_def)
    have m: "wp (emitBackupMetrics ms) (\<lambda>_. wp ?rest (\<lambda>_. bf P W s) (\<lambda>_. bf P W s)) (\<lambda>_. bf P W s) t"
      if "follows x t" "bf P W s t" for t ms
    proof -
      have "bf P W t (t\<lparr>trace := trace t @ map BackupMetricE ms\<rparr>)"
        using keeps_bfh [OF keeps_bfh_emits(1) [OF bfrD(1) [OF b]], of W ms] by (simp add: keeps_def emitBackupMetrics_run)
      then show ?thesis unfolding wp_emitBackupMetrics using that
        by (intro rest) (auto simp: follows_def intro: bf_trans)
    qed
    have f: "follows x s" using Some by (simp add: follows_def restoreTestOf_def runKept_refl)
    show ?thesis
    proof (cases "bkRestoreTest x")
      case t: None
      let ?s = "s\<lparr>cl := mapBackup (\<lambda>b. b\<lparr>bkRestoreTest := Some emptyRestoreTestStatus\<rparr>) (cl s)\<rparr>"
      have "follows x ?s" "bf P W s ?s" by (simp_all add: follows_def t runKept_def activeRun_def bf_def writesOK_def)
      note m [OF this, unfolded config_def ts_def t option.case]
      then show ?thesis using Some t
        by (simp add: reconcileRestoreTest_def withRestoreTest_def withBackup_def updBackup_def wp_bnd wp_gets wp_if wp_ret wp_state bf_refl
            mapBackup_def Let_def)
    next
      case t: (Some ts0)
      note m [OF f bf_refl, unfolded config_def ts_def t option.case]
      then show ?thesis using Some t
        by (simp add: reconcileRestoreTest_def withRestoreTest_def withBackup_def wp_bnd wp_gets wp_if wp_ret wp_state Let_def)
    qed
  qed
qed

end
