(* ===== verification/Backup_Safety.thy ===== *)
theory Backup_Safety
  imports Backup_Frames BlueGreen_Runs
begin

text \<open>
  Properties of a backup pass: runs of restore tests are conserved by every status write, retention removes only
  what its policy allows, and a Job is created only after every guard of the pass has been observed.
\<close>

section \<open>Restore-test runs\<close>

definition writesConserveRuns :: "st \<Rightarrow> st \<Rightarrow> bool" where
  "writesConserveRuns s t \<longleftrightarrow> (\<exists>ev. trace t = trace s @ ev
     \<and> (\<forall>ev1 b u k f a ev2. ev = ev1 @ ApplyStatusE b u k f a # ev2 \<longrightarrow>
          (\<exists>before cur. ev1 = before @ [GetClusterE (Inr cur)] \<and> runConserved cur k)))"

lemma bf_writesConserveRuns: "bf P runConserved s t \<Longrightarrow> writesConserveRuns s t"
  unfolding bf_def writesConserveRuns_def using writesOK_D by blast

lemma bf_BackupReconcile:
  assumes "bfk P W" "bfr P W" "\<And>j r. P (CreateJobE j r)"
  shows "keeps (bf P W) (BackupReconcile env)"
  unfolding BackupReconcile_def
  using bf_prepareBackup [OF assms(1)] bf_applyBackupDecision [OF assms(1,3)] bf_reconcileRestoreTest [OF assms(2)]
    keeps_bfh [OF bfh_observeBackup [OF bfkD(1) [OF assms(1)]]]
  by (auto intro!: keeps_bf_state)

text \<open>
  C19: a backup pass never loses a restore test.  Every status write of a pass directly follows a read of the cluster, and if the
  status read has a run in progress, the written one has the same run, still bound to the same child, or no run and a recorded
  result for it.
\<close>

theorem test_runs_conserved: "writesConserveRuns s (snd (BackupReconcile env s))"
proof -
  have "keeps (bf (\<lambda>_. True) runConserved) (BackupReconcile env)"
    by (rule bf_BackupReconcile) (auto simp: bfk_def bfr_def wide_def testWrite_def intro: runConserved_keepsTest)
  then show ?thesis by (auto simp: keeps_def intro: bf_writesConserveRuns)
qed

section \<open>Retention\<close>

text \<open>
  C18: retention removes only what the policy allows.  When the store lists no object twice and the library sort puts later
  timestamps first, then whatever else the calls of the pass answer, each batch it deletes follows the listing it was chosen
  from and holds only scheduled backups of this cluster's prefix that were listed; neither the last recorded backup nor the
  backup of a restore test that was running when the reservation was read; for each key, at least as many other listed
  backups are as new as the positive count of the specification, or it is older than the positive maximal age parsed from the
  specification, by the clock between the listing and the delete; and a newest backup of the listing stays.
\<close>

theorem retention_deletes_soundly:
  assumes "storeLists env"
  shows "deletesSoundly env s (snd (applyRetention env s))"
  using wp_mono [OF wp_applyRetention [OF assms], where Q' = "\<lambda>_. deletesSoundly env s" and E' = "\<lambda>_. deletesSoundly env s"]
  by (simp add: wp_snd)

text \<open>A store with three scheduled backups and a foreign object, which refuses every deletion.\<close>

definition exampleObjects :: "string list" where
  "exampleObjects = [''ns/bao/2025-01-14T03-00-00Z-0123abcd.snap'', ''ns/bao/2025-01-15T03-00-00Z-0123abcd.snap'',
     ''ns/bao/notes.txt'', ''ns/bao/2025-01-13T03-00-00Z-0123abcd.snap'']"

definition exampleSchedule :: BackupSchedule where
  "exampleSchedule = \<lparr> bsSchedule = ''0 3 * * *'', bsTarget = exampleBackupTarget, bsJWTAuthRole = [], bsTokenSecretRef = None,
     bsRetention = Some \<lparr> brMaxCount = 2, brMaxAge = [] \<rparr>, bsImage = ''backup:1'', bsRestoreTest = None \<rparr>"

definition exampleBackupCluster :: Cluster where
  "exampleBackupCluster = exampleBase\<lparr>clSpec := (clSpec exampleBase)\<lparr>spBackup := Some exampleSchedule\<rparr>\<rparr>"

definition exampleBackupState :: st where
  "exampleBackupState = \<lparr> cl = exampleBackupCluster, trace = [], sess = (\<lambda>_. None), acks = noAcks, backupJobMetricsSeen = [] \<rparr>"

definition exampleStoreEnv :: env where
  "exampleStoreEnv = exampleEnv\<lparr>eGetCluster := (\<lambda>tr. Inr exampleBackupCluster),
     eBackup := exampleBackupEnv\<lparr>kStorageList := (\<lambda>tr p. Inr exampleObjects),
       kStorageDelete := (\<lambda>tr ks. Some (ApiStatus (OtherReason ''Forbidden'') False))\<rparr>\<rparr>"

lemma sortsNewestFirst_sort_key: "sortsNewestFirst (sort_key (\<lambda>(k, t). - t))"
proof -
  have "sorted_wrt (\<lambda>a b. snd b \<le> snd a) (sort_key (\<lambda>(k, t). - t) xs)" for xs :: "(string \<times> time) list"
    using sorted_sort_key [of "\<lambda>(k, t). - t" xs] unfolding sorted_wrt_map by (rule sorted_wrt_mono_rel [rotated]) auto
  then show ?thesis by (simp add: sortsNewestFirst_def)
qed

lemma exampleStore_lists: "storeLists exampleStoreEnv"
  using sortsNewestFirst_sort_key
  by (simp add: storeLists_def exampleStoreEnv_def exampleBackupEnv_def exampleObjects_def)

lemma example_retention:
  "StorageDeleteE [''ns/bao/2025-01-13T03-00-00Z-0123abcd.snap''] (Some (ApiStatus (OtherReason ''Forbidden'') False))
     \<in> set (trace (snd (applyRetention exampleStoreEnv exampleBackupState)))"
proof -
  define infos where "infos = [(''ns/bao/2025-01-14T03-00-00Z-0123abcd.snap'', 1736823600000000000 :: int),
    (''ns/bao/2025-01-15T03-00-00Z-0123abcd.snap'', 1736910000000000000), (''ns/bao/2025-01-13T03-00-00Z-0123abcd.snap'', 1736737200000000000)]"
  have 1: "backupInfos ''ns/bao/'' exampleObjects = infos" unfolding infos_def by code_simp
  have 2: "sort_key (\<lambda>(k, t). - t) infos = [infos ! Suc 0, infos ! 0, infos ! 2]" unfolding infos_def by code_simp
  have 3: "GetBackupListPrefix [] ''ns'' ''bao'' = ''ns/bao/''" by code_simp
  have 4: "keysToDelete (retentionChoices \<lparr> rpMaxCount = 2, rpMaxAge = 0, rpProtectedKey = [], rpRestoreTestKey = [] \<rparr> tm
      [infos ! Suc 0, infos ! 0, infos ! 2]) = [''ns/bao/2025-01-13T03-00-00Z-0123abcd.snap'']" for tm
    by (simp add: retentionChoices_def keysToDelete_def chooseRetention_def int32_def infos_def upt_rec [of _ "Suc (Suc (Suc 0))"] numeral_3_eq_3)
  have e: "eGetCluster exampleStoreEnv tr = Inr exampleBackupCluster" "kStorageList (eBackup exampleStoreEnv) tr p = Inr exampleObjects"
      "kStorageDelete (eBackup exampleStoreEnv) tr ks = Some (ApiStatus (OtherReason ''Forbidden'') False)"
      "kSortNewest (eBackup exampleStoreEnv) = sort_key (\<lambda>(k, t). - t)" "kOpenStorage (eBackup exampleStoreEnv) tr c = None" for tr p ks c
    by (simp_all add: exampleStoreEnv_def exampleBackupEnv_def)
  have c: "spBackup (clSpec exampleBackupCluster) = Some exampleSchedule" "bsRetention exampleSchedule = Some \<lparr> brMaxCount = 2, brMaxAge = [] \<rparr>"
      "btRoleARN (bsTarget exampleSchedule) = []" "btCredentialsSecretRef (bsTarget exampleSchedule) = Some ''creds''"
      "btPathPrefix (bsTarget exampleSchedule) = []" "clName exampleBackupCluster = ''bao''" "clNamespace exampleBackupCluster = ''ns''"
      "backupStatus exampleBackupCluster = None" "cl exampleBackupState = exampleBackupCluster" "exampleObjects \<noteq> []"
    by (simp_all add: exampleBackupCluster_def exampleBase_def exampleSchedule_def exampleBackupTarget_def exampleBaseStatus_def
        exampleBackupState_def exampleObjects_def)
  have "wp (applyRetention exampleStoreEnv) (\<lambda>_ t. StorageDeleteE [''ns/bao/2025-01-13T03-00-00Z-0123abcd.snap'']
       (Some (ApiStatus (OtherReason ''Forbidden'') False)) \<in> set (trace t)) (\<lambda>_ _. False) exampleBackupState"
    by (simp add: applyRetention_def ApplyRetention_def withBackupSpec_def wps ParseRetentionMaxAge_def getCluster_def
        openBackupStorageClient_def activeRestoreTestKey_def Let_def c e 1 2 3 4)
  then show ?thesis by (auto simp: wp_def split: prod.splits sum.splits)
qed

theorem retention_deletes_soundly_witness:
  "deletesSoundly exampleStoreEnv exampleBackupState (snd (applyRetention exampleStoreEnv exampleBackupState))
   \<and> StorageDeleteE [''ns/bao/2025-01-13T03-00-00Z-0123abcd.snap''] (Some (ApiStatus (OtherReason ''Forbidden'') False))
     \<in> set (trace (snd (applyRetention exampleStoreEnv exampleBackupState)))"
  using retention_deletes_soundly [OF exampleStore_lists] example_retention by blast

text \<open>
  C37: every batch retention asks the store to delete is added to the counter of deleted backups and the pass reports success,
  whatever the store answered: the keys of a refused deletion are counted as deleted.
\<close>

theorem retention_counts_every_batch:
  assumes "storeLists env"
  shows "countsDeletes s (fst (applyRetention env s)) (snd (applyRetention env s))"
  using wp_applyRetention [OF assms, of s] by (auto simp: wp_def split: prod.splits sum.splits)

theorem retention_counts_every_batch_witness:
  "StorageDeleteE [''ns/bao/2025-01-13T03-00-00Z-0123abcd.snap''] (Some (ApiStatus (OtherReason ''Forbidden'') False))
     \<in> set (trace (snd (applyRetention exampleStoreEnv exampleBackupState)))
   \<and> BackupMetricE (RetentionDeleted 1) \<in> set (trace (snd (applyRetention exampleStoreEnv exampleBackupState)))"
  using retention_counts_every_batch [OF exampleStore_lists, of exampleBackupState] example_retention
  by (auto simp: countsDeletes_def exampleBackupState_def)

end
