(* ===== verification/Backup_Due.thy ===== *)
theory Backup_Due
  imports Backup_Safety
begin

text \<open>
  When a backup pass may act.  From a cluster without a stored next schedule, a pass neither creates a Job nor stores one; the
  frame \<open>idle\<close> carries that through the steps that prepare and observe, which keep the object in memory idle.
\<close>

section \<open>Idle clusters\<close>

definition unscheduled :: "BackupStatus option \<Rightarrow> bool" where
  "unscheduled k \<longleftrightarrow> (case k of None \<Rightarrow> True | Some b \<Rightarrow> bkNextScheduledBackup b = None)"

definition idleCluster :: "Cluster \<Rightarrow> bool" where
  "idleCluster c \<longleftrightarrow> unscheduled (backupStatus c) \<and> manualTriggerToken c = [] \<and> \<not> backupLockHeld c"

definition noJob :: "event \<Rightarrow> bool" where
  "noJob e \<longleftrightarrow> (case e of CreateJobE _ _ \<Rightarrow> False | _ \<Rightarrow> True)"

definition addsNoSchedule :: "Cluster \<Rightarrow> BackupStatus option \<Rightarrow> bool" where
  "addsNoSchedule cur k \<longleftrightarrow> (unscheduled (backupStatus cur) \<longrightarrow> unscheduled k)"

abbreviation quietly :: "st \<Rightarrow> st \<Rightarrow> bool" where
  "quietly \<equiv> bf noJob addsNoSchedule"

definition idle :: "st \<Rightarrow> st \<Rightarrow> bool" where
  "idle s t \<longleftrightarrow> (idleCluster (cl s) \<longrightarrow> idleCluster (cl t) \<and> quietly s t)"

interpretation idle: frame idle
  by unfold_locales (auto simp: idle_def intro: bf_refl bf_trans)

lemma wide_noJob: "wide noJob"
  unfolding wide_def
proof (intro allI impI)
  fix e assume "plain e \<or> isApply e" then show "noJob e" by (cases e) (auto simp: noJob_def)
qed

lemma idle_call: "keeps (bfh noJob addsNoSchedule) m \<Longrightarrow> keeps sameCl m \<Longrightarrow> keeps idle m"
  by (simp add: keeps_def idle_def bfh_def sameCl_def)

lemma idle_updBackup:
  "(\<And>b. bkNextScheduledBackup (f b) = bkNextScheduledBackup b) \<Longrightarrow> keeps idle (updBackup f)"
  by (auto simp: keeps_def idle_def updBackup_def updCl_def modify_def mapBackup_def idleCluster_def unscheduled_def
      manualTriggerToken_def backupLockHeld_def bf_def writesOK_def split: option.splits)

section \<open>Status writes\<close>

lemma sameCl_retry:
  assumes "keeps sameCl m" shows "keeps sameCl (retryOnConflict n m)"
proof (induction n)
  case (Suc n)
  show ?case unfolding keeps_def
  proof
    fix s
    have "sameCl s (snd (m s))" using assms by (simp add: keeps_def)
    moreover have "sameCl t (snd (retryOnConflict n m t))" for t using Suc by (simp add: keeps_def)
    ultimately show "sameCl s (snd (retryOnConflict (Suc n) m s))"
      by (auto split: prod.split sum.split) (metis sameCl.trans snd_conv)+
  qed
qed (auto simp: keeps_def sameCl.refl)

lemma sameCl_MutateAndApply: "keeps sameCl (MutateAndApplyAdminOpsStatus env n mutate force)"
  unfolding MutateAndApplyAdminOpsStatus_def by (auto intro!: sameCl_retry)

lemma yields_call: "(\<And>tr c. f tr = Inr c \<Longrightarrow> S c) \<Longrightarrow> yields S (call f ev)"
  by (auto simp: yields_def call_def Let_def)

lemma yields_MutateAndApply_stored:
  assumes "\<And>tr c. eGetCluster env tr = Inr c \<Longrightarrow> S c"
  shows "yields S (MutateAndApplyAdminOpsStatus env n mutate force)"
  using assms unfolding MutateAndApplyAdminOpsStatus_def
  by (auto intro!: yields_bnd yields_wrap yields_call simp: getCluster_def)

text \<open>Reads come without a schedule, and a schedule lies after the instant it is asked for.\<close>

definition freshStore :: "env \<Rightarrow> bool" where
  "freshStore env \<longleftrightarrow> (\<forall>tr c. eGetCluster env tr = Inr c \<longrightarrow> unscheduled (backupStatus c))
     \<and> (\<forall>tr sel js. eListJobs env tr sel = Inr js \<longrightarrow> js = [])
     \<and> (\<forall>e nextTime t. kParseSchedule (eBackup env) e = Inr nextTime \<longrightarrow> t < nextTime t)"

lemma wp_cl_MutateWithReader:
  assumes "freshStore env" "idleCluster (cl s)"
  shows "wp (MutateWithReader env mutate p) (\<lambda>_ t. idleCluster (cl t)) (\<lambda>_ t. idleCluster (cl t)) s"
proof -
  define g where "g force = MutateAndApplyAdminOpsStatus env (clName (cl s)) mutate force" for force
  have g: "wp (g force) (\<lambda>a t. cl t = cl s \<and> unscheduled (backupStatus a)) (\<lambda>_ t. cl t = cl s) u" if "cl u = cl s" for u force
    unfolding g_def
    by (rule wp_keeps_yields [OF sameCl_MutateAndApply yields_MutateAndApply_stored [where S = "\<lambda>c. unscheduled (backupStatus c)"]])
      (use assms that in \<open>auto simp: freshStore_def sameCl_def\<close>)
  have i: "idleCluster (mapStatus (\<lambda>st. st\<lparr>ssAcceptedUpgradeStrategy := x1, ssUpgrade := x2, ssUpgradeRequests := x3, ssBlueGreen := x4,
      ssBreakGlass := x5, ssBackup := k, ssAdminOps := x6\<rparr>) (cl s)\<lparr>clResourceVersion := v\<rparr>)" if "unscheduled k" for x1 x2 x3 x4 x5 x6 k v
    using assms(2) that by (simp add: idleCluster_def manualTriggerToken_def backupLockHeld_def mapStatus_def)
  show ?thesis
    unfolding MutateWithReader_def wp_bnd wp_gets wp_attempt g_def [symmetric]
    by (rule wp_mono [OF g]) (auto simp: wp_ret wp_attempt wp_failwith wp_state i assms(2) intro!: wp_mono [OF g])
qed

lemma idle_patch:
  assumes "freshStore env" shows "keeps idle (patchBackupStatusSSA env)"
proof (rule keepsI)
  fix s
  show "wp (patchBackupStatusSSA env) (\<lambda>_. idle s) (\<lambda>_. idle s) s"
  proof (cases "idleCluster (cl s) \<and> eHasAdminOpsMutator env")
    case True
    have "keeps quietly (MutateWithReader env (\<lambda>obj. Inr (backupMutator (backupStatus (cl s)) obj)) ForceOwnershipOnConflict)"
      by (rule bf_MutateWithReader [OF wide_noJob])
        (use True in \<open>auto simp: addsNoSchedule_def idleCluster_def backupMutator_def unscheduled_def split: option.splits\<close>)
    then have "wp (MutateWithReader env (\<lambda>obj. Inr (backupMutator (backupStatus (cl s)) obj)) ForceOwnershipOnConflict) (\<lambda>_. quietly s) (\<lambda>_. quietly s) s"
      by (rule wp_keeps)
    from wp_conj [OF this wp_cl_MutateWithReader [OF assms(1)]] True show ?thesis
      unfolding patchBackupStatusSSA_def wp_bnd wp_gets wp_if by (auto elim!: wp_mono simp: idle_def)
  next
    case False
    then have "\<not> idleCluster (cl s) \<or> \<not> eHasAdminOpsMutator env" by blast
    then show ?thesis
    proof
      assume "\<not> idleCluster (cl s)"
      then have "idle s = (\<lambda>_. True)" by (simp add: idle_def fun_eq_iff)
      then show ?thesis by (simp add: wp_True)
    qed (simp add: patchBackupStatusSSA_def wps idle.refl)
  qed
qed

section \<open>Preparing and observing\<close>

lemma idle_emits:
  "keeps idle (emitBackupMetrics ms)" "keeps idle (openBackupStorageClient env)" "keeps idle (syncBackupStatusMetrics env)"
  "keeps idle (emit (BackupMetricE m))"
proof -
  show "keeps idle (emit (BackupMetricE m))" by (rule idle_call [OF keeps_bfh_plain(3) [OF wide_noJob]]) auto
  have "keeps sameCl (emitBackupMetrics ms)" for ms by (induction ms) auto
  then show e: "keeps idle (emitBackupMetrics ms)" for ms by (intro idle_call keeps_bfh_emits wide_noJob)
  show "keeps idle (openBackupStorageClient env)"
    by (rule idle_call [OF keeps_bfh_emits(9) [OF wide_noJob]]) (auto simp: openBackupStorageClient_def)
  show "keeps idle (syncBackupStatusMetrics env)" using e by (auto simp: syncBackupStatusMetrics_def split: option.split)
qed

lemma idle_backfill:
  assumes "freshStore env"
  shows "keeps idle (backfillBackupGaugesFromLatestSuccess env j)"
proof -
  have "keeps idle (backfillDuration env job)" for job
    unfolding backfillDuration_def withBackup_def by (auto intro!: idle_emits idle_updBackup split: option.split)
  moreover have "keeps idle (readBackupSizeFromObjectStorage env key)" for key
    by (rule idle_call [OF bfh_metrics(4) [OF wide_noJob]]) (auto simp: readBackupSizeFromObjectStorage_def openBackupStorageClient_def)
  then have "keeps idle (backfillSize env job)" for job
    unfolding backfillSize_def withBackup_def by (auto intro!: idle_emits idle_updBackup split: option.split sum.split)
  ultimately show ?thesis
    unfolding backfillBackupGaugesFromLatestSuccess_def
    by (auto intro!: idle_emits idle_patch [OF assms] split: option.split)
qed

lemma idle_collect: "keeps idle (collectJobMetrics c jobs snap)"
proof -
  have "keeps sameCl (markBackupJobMetricsSeen ns n u r)" for ns n u r
    by (auto simp: markBackupJobMetricsSeen_def Let_def keeps_def sameCl_def bnd_def gets_def modify_def ret_def)
  then have m: "keeps sameCl (collectJobMetrics c jobs snap)" for c jobs snap
    by (induction c jobs snap rule: collectJobMetrics.induct) (auto split: option.split)
  show ?thesis by (rule idle_call [OF bfh_collectJobMetrics [OF wide_noJob] m])
qed

lemma idle_prepareBackup:
  assumes "freshStore env"
  shows "keeps idle (prepareBackup env)"
proof -
  have l: "keeps idle (listJobs env sel)" for sel by (rule idle_call [OF keeps_bfh_emits(6) [OF wide_noJob]]) auto
  have c: "keeps idle (callU f EnsureBackupAccountE)" "keeps idle (callU f EnsureBackupRBACE)" for f
    by (auto intro!: idle_call keeps_bfh_plain wide_noJob)
  have "keeps idle (updCl (mapStatus (\<lambda>st. st\<lparr>ssBackup := Some emptyBackupStatus\<rparr>)))"
    by (auto simp: keeps_def idle_def updCl_def modify_def idleCluster_def unscheduled_def manualTriggerToken_def backupLockHeld_def
        emptyBackupStatus_def bf_def writesOK_def)
  then have e: "keeps idle (ensureBackupStatus env)"
    unfolding ensureBackupStatus_def by (auto intro!: idle_patch [OF assms])
  show ?thesis
    unfolding prepareBackup_def syncBackupMetrics_def collectBackupJobMetricsSnapshot_def applyBackupJobSnapshotToMetrics_def
    by (auto intro!: e c l idle_collect idle_backfill [OF assms] idle_emits split: option.split)
qed

text \<open>What a pass over an idle cluster observes: no lock, no Jobs, no trigger, nothing due.\<close>

definition idleObservation :: "backupObservation \<Rightarrow> bool" where
  "idleObservation ob \<longleftrightarrow> \<not> obOwnsLock ob \<and> obJobs ob = noBackupJobs \<and> obManualTriggerToken ob = [] \<and> \<not> obDue ob"

lemma idle_decision: "idleObservation ob \<Longrightarrow> decideBackup ob \<in> {backupDecisionIdle, backupDecisionBlocked}"
  by (simp add: idleObservation_def decideBackup_def noBackupJobs_def)

lemma wp_observeBackup_idle:
  assumes "freshStore env" "idleCluster (cl s)"
  shows "wp (observeBackup env tm) (\<lambda>ob t. idleObservation ob \<and> quietly s t) (\<lambda>_ t. quietly s t) s"
proof -
  have j: "yields (\<lambda>jobs. jobs = noBackupJobs) (observeBackupJobs env)"
  proof -
    have "yields (\<lambda>js. js = []) (listJobs env sel)" for sel
      using assms(1) by (auto simp: listJobs_def freshStore_def intro!: yields_call)
    note r = yields_use [OF yields_wrap [OF this]]
    show ?thesis unfolding observeBackupJobs_def by (rule yields_bnd, rule r) (simp add: yields_def)
  qed
  have b: "yields idleObservation (observeBlockers env ob)" if "idleObservation ob" for ob
    unfolding observeBlockers_def using that by (auto simp: idleObservation_def split: option.split)
  have sched: "idleObservation ((scheduleObservation nextTime (cl s) (initialObservation (cl s) tm))\<lparr>obJobs := noBackupJobs\<rparr>)"
    if "\<And>t. t < nextTime t" for nextTime
    using assms(2) that [of tm]
    by (auto simp: idleObservation_def scheduleObservation_def initialObservation_def idleCluster_def unscheduled_def Let_def split: option.splits)
  have cron: "yields (\<lambda>nextTime. \<forall>t. t < nextTime t) (wrap_err w (lift_res (kParseSchedule (eBackup env) e)))" for w e
    using assms(1) by (auto simp: freshStore_def yields_def wrap_err_def lift_res_def split: sum.splits)
  have "wp (observeBackup env tm) (\<lambda>ob _. idleObservation ob) (\<lambda>_ _. True) s"
  proof (cases "spBackup (clSpec (cl s))")
    case None
    then show ?thesis using assms(2)
      by (simp add: observeBackup_def Let_def wp_bnd wp_gets wp_ret initialObservation_def idleCluster_def idleObservation_def)
  next
    case (Some spec)
    have o: "\<not> obOwnsLock (initialObservation (cl s) tm)" using assms(2) by (simp add: initialObservation_def idleCluster_def)
    have "yields idleObservation (bnd (wrap_err (wrapf ''failed to parse backup schedule'') (lift_res (kParseSchedule (eBackup env) (bsSchedule spec)))) (\<lambda>nextTime.
           let ob = scheduleObservation nextTime (cl s) (initialObservation (cl s) tm) in
           bnd (wrap_err (wrapf ''failed to observe backup Jobs'') (observeBackupJobs env)) (\<lambda>jobs.
           if boHasActive jobs then ret (ob\<lparr>obJobs := jobs\<rparr>)
           else observeBlockers env (ob\<lparr>obJobs := jobs\<rparr>))))"
      unfolding Let_def
      by (rule yields_use [OF cron], rule yields_use [OF yields_wrap [OF j]]) (use b sched in \<open>simp add: noBackupJobs_def\<close>)
    then show ?thesis using Some o unfolding observeBackup_def Let_def wp_bnd [of "gets _"] wp_gets yields_wp by simp
  qed
  moreover have "wp (observeBackup env tm) (\<lambda>_. quietly s) (\<lambda>_. quietly s) s"
    by (rule wp_keeps [OF keeps_bfh [OF bfh_observeBackup [OF wide_noJob]]])
  ultimately show ?thesis by (rule wp_mono [OF wp_conj]) auto
qed

section \<open>The pass\<close>

lemma quietly_idleDecision:
  assumes "idleObservation ob" shows "keeps quietly (applyBackupDecision env ob)"
proof -
  have "keeps quietly (applyBlockedBackup env ob)" unfolding applyBlockedBackup_def
    by (auto intro!: bf_triggers keeps_bfh [OF keeps_bfh_emits(3)] keeps_bfh [OF keeps_bfh_plain(3)] wide_noJob
        split: option.split backupBlockerKind.split)
  then show ?thesis
    unfolding applyBackupDecision_def using idle_decision [OF assms]
    by (auto simp: applyInitialBackupSchedule_def applyIdleBackup_def intro!: keeps_bf_state)
qed

lemma quietly_reconcileRestoreTest: "keeps quietly (reconcileRestoreTest env tm)"
proof (rule bf_reconcileRestoreTest)
  have "noJob (CreateRestoreE d c r)" "noJob (DeleteRestoreE n1 n2 n3 r')" for d c r n1 n2 n3 r' by (simp_all add: noJob_def)
  then show "bfr noJob addsNoSchedule"
    by (auto simp: bfr_def wide_noJob testWrite_def addsNoSchedule_def unscheduled_def)
qed

lemma wp_BackupReconcile_idle:
  assumes "freshStore env" "idleCluster (cl s)"
  shows "wp (BackupReconcile env) (\<lambda>_. quietly s) (\<lambda>_. quietly s) s"
proof -
  have tail: "wp (bnd (applyBackupDecision env ob) (\<lambda>result. bnd (reconcileRestoreTest env tm) (\<lambda>_. bnd (gets cl) (\<lambda>c. ret (f result c)))))
      (\<lambda>_. quietly s) (\<lambda>_. quietly s) t" if "idleObservation ob" "quietly s t" for ob tm t and f :: "int \<Rightarrow> Cluster \<Rightarrow> int"
  proof -
    have "keeps quietly (bnd (applyBackupDecision env ob) (\<lambda>result. bnd (reconcileRestoreTest env tm) (\<lambda>_. bnd (gets cl) (\<lambda>c. ret (f result c)))))"
      using quietly_idleDecision [OF that(1)] quietly_reconcileRestoreTest by auto
    then show ?thesis by (rule wp_keeps) (auto intro: bf_trans that)
  qed
  have observe: "wp (bnd (observeBackup env tm) (\<lambda>ob. bnd (applyBackupDecision env ob) (\<lambda>result.
       bnd (reconcileRestoreTest env tm) (\<lambda>_. bnd (gets cl) (\<lambda>c. ret (f result c))))))
      (\<lambda>_. quietly s) (\<lambda>_. quietly s) t" if "idleCluster (cl t)" "quietly s t" for tm t and f :: "int \<Rightarrow> Cluster \<Rightarrow> int"
    unfolding wp_bnd [of "observeBackup _ _"]
    by (rule wp_mono [OF wp_observeBackup_idle [OF assms(1) that(1)]]) (auto intro!: tail intro: bf_trans that)
  show ?thesis
    unfolding BackupReconcile_def wp_bnd [of "now _"] wp_state wp_bnd [of "prepareBackup _"]
    by (rule wp_keeps [OF idle_prepareBackup [OF assms(1)]]) (use assms(2) in \<open>auto simp: idle_def intro!: observe\<close>)
qed

definition leavesUnscheduled :: "st \<Rightarrow> st \<Rightarrow> bool" where
  "leavesUnscheduled s t \<longleftrightarrow> (\<exists>ev. trace t = trace s @ ev \<and> (\<forall>j r. CreateJobE j r \<notin> set ev)
     \<and> (\<forall>ev1 b u k f a ev2. ev = ev1 @ ApplyStatusE b u k f a # ev2 \<longrightarrow>
          (\<exists>before cur. ev1 = before @ [GetClusterE (Inr cur)] \<and> (unscheduled (backupStatus cur) \<longrightarrow> unscheduled k))))"

text \<open>
  C36: the first scheduled backup is never taken.  From a cluster whose stored status has no next schedule, with no Job, no manual
  trigger and no backup lock, a pass creates no Job and stores no next schedule: the one it computes is kept in memory only, so
  the next pass computes a new one, again after its own instant.
\<close>

theorem first_schedule_never_due:
  assumes "freshStore env" and "idleCluster (cl s)"
  shows "leavesUnscheduled s (snd (BackupReconcile env s))"
proof -
  have "quietly s (snd (BackupReconcile env s))" using wp_BackupReconcile_idle [OF assms] by (simp add: wp_snd)
  then obtain ev where ev: "trace (snd (BackupReconcile env s)) = trace s @ ev" "list_all noJob ev" "writesOK addsNoSchedule ev"
    by (auto simp: bf_def)
  have "CreateJobE j r \<notin> set ev" for j r using ev(2) by (auto simp: list_all_iff noJob_def)
  then show ?thesis
    unfolding leavesUnscheduled_def using ev(1) writesOK_D [of addsNoSchedule] ev(3) addsNoSchedule_def by blast
qed

definition exampleFreshEnv :: env where
  "exampleFreshEnv = exampleEnv\<lparr>eGetCluster := (\<lambda>tr. Inr exampleBackupCluster)\<rparr>"

theorem first_schedule_never_due_witness:
  "leavesUnscheduled exampleBackupState (snd (BackupReconcile exampleFreshEnv exampleBackupState))"
proof (rule first_schedule_never_due)
  show "freshStore exampleFreshEnv"
    by (simp add: freshStore_def exampleFreshEnv_def exampleBackupEnv_def exampleEnv_def unscheduled_def exampleBackupCluster_def
        exampleBase_def exampleBaseStatus_def)
  show "idleCluster (cl exampleBackupState)"
    by (simp add: idleCluster_def exampleBackupState_def exampleBackupCluster_def exampleBase_def exampleBaseStatus_def unscheduled_def
        manualTriggerToken_def lookup_label_def backupLockHeld_def IsHeldBy_def)
qed

end
