(* ===== verification/Backup_Create.thy ===== *)
theory Backup_Create
  imports Backup_Due
begin

text \<open>
  What precedes the creation of a backup Job.  \<open>adds E m s\<close> collects the calls an observation makes, as evidence \<open>E\<close> for what it
  answers; \<open>preceded G s t\<close> says that every Job created between two states comes after calls that satisfy \<open>G\<close> for that Job.
\<close>

section \<open>Evidence\<close>

definition adds :: "('a \<Rightarrow> event list \<Rightarrow> bool) \<Rightarrow> 'a op \<Rightarrow> st \<Rightarrow> bool" where
  "adds E m s \<longleftrightarrow> wp m (\<lambda>a t. cl t = cl s \<and> (\<exists>ev. trace t = trace s @ ev \<and> list_all noJob ev \<and> E a ev))
     (\<lambda>_ t. cl t = cl s \<and> (\<exists>ev. trace t = trace s @ ev \<and> list_all noJob ev)) s"

lemma adds_pure: "E a [] \<Longrightarrow> adds E (ret a) s" "adds E (failwith e) s"
  "(\<And>a. r = Inr a \<Longrightarrow> E a []) \<Longrightarrow> adds E (lift_res r) s"
  by (auto simp: adds_def wps split: sum.split)

lemma adds_gets: "adds E (k (cl s)) s \<Longrightarrow> adds E (bnd (gets cl) k) s"
  by (simp add: adds_def wps)

lemma adds_bnd:
  assumes "adds E1 m s" "\<And>a ev t. E1 a ev \<Longrightarrow> cl t = cl s \<Longrightarrow> adds (\<lambda>b ev'. E b (ev @ ev')) (k a) t"
  shows "adds E (bnd m k) s"
proof -
  have "wp (k a) (\<lambda>b u. cl u = cl s \<and> (\<exists>ev. trace u = trace s @ ev \<and> list_all noJob ev \<and> E b ev))
      (\<lambda>_ u. cl u = cl s \<and> (\<exists>ev. trace u = trace s @ ev \<and> list_all noJob ev)) t"
    if "cl t = cl s" "trace t = trace s @ ev" "list_all noJob ev" "E1 a ev" for a t ev
    by (rule wp_mono [OF assms(2) [OF that(4,1), unfolded adds_def]]) (use that in auto)
  then show ?thesis
    unfolding adds_def wp_bnd by (intro wp_mono [OF assms(1) [unfolded adds_def]]) auto
qed

lemma adds_mono: "adds E m s \<Longrightarrow> (\<And>a ev. E a ev \<Longrightarrow> E' a ev) \<Longrightarrow> adds E' m s"
  unfolding adds_def by (erule wp_mono) auto

lemma adds_wrap: "adds E m s \<Longrightarrow> adds E (wrap_err w m) s"
  by (simp add: adds_def wps)

lemma adds_call:
  "(\<And>r. noJob (ev r)) \<Longrightarrow> (\<And>a. E a [ev (Inr a)]) \<Longrightarrow> adds E (call f ev) s"
  "(\<And>r. noJob (ev r)) \<Longrightarrow> (\<And>r. E2 r [ev r]) \<Longrightarrow> adds E2 (attempt (call f ev)) s"
  by (auto simp: adds_def wps split: sum.split)

lemma noJob_simps [simp]:
  "noJob (ListJobsE x r1)" "noJob (ListRestoresE r2)" "noJob (BackupReadinessE r3)" "noJob (GetJobE y r4)"
  "noJob (PatchLockE z r5)" "noJob (GetClusterE r6)"
  by (simp_all add: noJob_def)

section \<open>Observation\<close>

definition finished :: "Job \<Rightarrow> bool" where
  "finished j \<longleftrightarrow> JobSucceeded (Some j) \<or> JobFailed (Some j)"

lemma observeJobs_finished:
  "observeJobs c js ob = Inr ob' \<Longrightarrow> \<not> boHasActive ob' \<Longrightarrow> \<not> boHasActive ob \<and> list_all finished js"
proof (induction c js ob rule: observeJobs.induct)
  case (2 c job jobs ob)
  then show ?case by (auto simp: finished_def split: option.splits if_splits)
qed simp

lemma anyUnfinishedJob_finished: "anyUnfinishedJob c js = Inr r \<Longrightarrow> r \<or> list_all finished js"
  by (induction c js rule: anyUnfinishedJob.induct) (auto simp: finished_def split: option.splits if_splits)

text \<open>No Job of the given kind is unfinished in some listing.\<close>

definition allFinished :: "Cluster \<Rightarrow> string \<Rightarrow> event list \<Rightarrow> bool" where
  "allFinished c kind ev \<longleftrightarrow> (\<exists>js. ListJobsE (backupJobSelector c kind) (Inr js) \<in> set ev \<and> list_all finished js)"

definition noRestore :: "Cluster \<Rightarrow> event list \<Rightarrow> bool" where
  "noRestore c ev \<longleftrightarrow> (\<exists>r. ListRestoresE r \<in> set ev \<and> (case r of
      Inl e \<Rightarrow> api_reason_of e = Some (OtherReason ''Forbidden'') | Inr rs \<Rightarrow> \<not> list_ex (restoreUnfinished c) rs))"

definition settled :: "Cluster \<Rightarrow> bool" where
  "settled c \<longleftrightarrow> ssInitialized (clStatus c) \<and> ssPhase (clStatus c) \<noteq> ''Initializing''
     \<and> (ssCurrentVersion (clStatus c) = [] \<or> spVersion (clSpec c) = ssCurrentVersion (clStatus c)) \<and> ssUpgrade (clStatus c) = None"

definition executorReady :: "event list \<Rightarrow> bool" where
  "executorReady ev \<longleftrightarrow> (\<exists>answer. BackupReadinessE (Inr answer) \<in> set ev \<and> fst answer = ''True'')"

lemma evidence_append [simp]:
  "allFinished c kind (ev @ ev') \<longleftrightarrow> allFinished c kind ev \<or> allFinished c kind ev'"
  "noRestore c (ev @ ev') \<longleftrightarrow> noRestore c ev \<or> noRestore c ev'"
  "executorReady (ev @ ev') \<longleftrightarrow> executorReady ev \<or> executorReady ev'"
  by (auto simp: allFinished_def noRestore_def executorReady_def)

definition nextOf :: "Cluster \<Rightarrow> time option" where
  "nextOf c = Option.bind (backupStatus c) bkNextScheduledBackup"

definition dueAt :: "env \<Rightarrow> Cluster \<Rightarrow> time \<Rightarrow> bool" where
  "dueAt env c tm \<longleftrightarrow> (\<exists>spec nextTime. spBackup (clSpec c) = Some spec \<and> kParseSchedule (eBackup env) (bsSchedule spec) = Inr nextTime
     \<and> (manualTriggerToken c \<noteq> [] \<or> (case nextOf c of Some t \<Rightarrow> t | None \<Rightarrow> nextTime tm) \<le> tm))"

definition observedClear :: "env \<Rightarrow> Cluster \<Rightarrow> time \<Rightarrow> event list \<Rightarrow> bool" where
  "observedClear env c tm ev \<longleftrightarrow> dueAt env c tm \<and> settled c \<and> \<not> backupLockHeld c
     \<and> allFinished c ''scheduled'' ev \<and> allFinished c ''pre-upgrade'' ev \<and> noRestore c ev \<and> executorReady ev"

lemma adds_listJobs: "adds (\<lambda>js ev. ListJobsE sel (Inr js) \<in> set ev) (listJobs env sel) s"
  unfolding listJobs_def by (rule adds_call) auto

lemma adds_observeBackupJobs:
  "adds (\<lambda>jobs ev. boHasActive jobs \<or> allFinished (cl s) ''scheduled'' ev) (observeBackupJobs env) s"
  unfolding observeBackupJobs_def
  by (rule adds_gets, rule adds_bnd [OF adds_wrap [OF adds_listJobs]], rule adds_pure)
    (auto simp: allFinished_def dest: observeJobs_finished)

lemma adds_hasInProgressRestore: "adds (\<lambda>r ev. r \<or> noRestore (cl s) ev) (hasInProgressRestore env) s"
  unfolding hasInProgressRestore_def
  by (rule adds_gets, rule adds_bnd [OF adds_call(2) [where ?E2.0 = "\<lambda>r ev. ListRestoresE r \<in> set ev"]])
    (auto simp: noRestore_def intro!: adds_pure split: sum.split)

lemma adds_hasPreUpgradeBackupJob: "adds (\<lambda>r ev. r \<or> allFinished (cl s) ''pre-upgrade'' ev) (hasPreUpgradeBackupJob env) s"
  unfolding hasPreUpgradeBackupJob_def
  by (rule adds_gets, rule adds_bnd [OF adds_wrap [OF adds_listJobs]], rule adds_pure)
    (auto simp: allFinished_def dest: anyUnfinishedJob_finished)

lemma adds_checkPreconditions:
  "adds (\<lambda>p ev. p = None \<longrightarrow> settled (cl s) \<and> allFinished (cl s) ''pre-upgrade'' ev \<and> executorReady ev) (checkPreconditions env) s"
proof -
  have ready: "adds (\<lambda>p ev. p = None \<longrightarrow> executorReady ev)
      (bnd (wrap_err w (call f BackupReadinessE)) (\<lambda>(status, reason, message).
         if status \<noteq> ''True'' then ret (Some (newBackupWarningError reason message)) else ret None)) t" for w f t
    by (rule adds_bnd [OF adds_wrap [OF adds_call(1) [where E = "\<lambda>a ev. BackupReadinessE (Inr a) \<in> set ev"]]])
      (auto simp: executorReady_def intro!: adds_pure split: prod.split)
  show ?thesis
    unfolding checkPreconditions_def
    by (rule adds_gets)
      (auto simp: settled_def intro!: adds_pure adds_bnd [OF adds_wrap [OF adds_hasPreUpgradeBackupJob]] adds_mono [OF ready])
qed

lemma adds_observeBlockers:
  "adds (\<lambda>ob' ev. ob' = ob\<lparr>obBlocker := obBlocker ob', obPrecondition := obPrecondition ob'\<rparr>
     \<and> (obBlocker ob' \<noteq> backupNotBlocked \<or> (settled (cl s) \<and> allFinished (cl s) ''pre-upgrade'' ev \<and> executorReady ev \<and> noRestore (cl s) ev)))
     (observeBlockers env ob) s"
  unfolding observeBlockers_def
  by (rule adds_bnd [OF adds_hasInProgressRestore])
    (auto intro!: adds_pure adds_bnd [OF adds_checkPreconditions] split: option.splits)

lemma due_scheduleObservation:
  assumes "obDue (scheduleObservation nextTime c (initialObservation c tm))" "spBackup (clSpec c) = Some spec"
    "kParseSchedule (eBackup env) (bsSchedule spec) = Inr nextTime"
  shows "dueAt env c tm"
  using assms
  by (auto simp: dueAt_def scheduleObservation_def initialObservation_def nextOf_def Let_def not_less split: option.splits if_splits)

lemma decide_create:
  "decideBackup ob = backupDecisionCreate \<longleftrightarrow> \<not> obOwnsLock ob \<and> obConfigured ob \<and> \<not> boHasActive (obJobs ob)
     \<and> obBlocker ob = backupNotBlocked \<and> obDue ob"
  by (simp add: decideBackup_def)

lemma adds_observeFree:
  assumes "obOwnsLock ob \<longleftrightarrow> backupLockHeld (cl s)" "obDue ob \<Longrightarrow> dueAt env (cl s) tm"
  shows "adds (\<lambda>ob ev. decideBackup ob = backupDecisionCreate \<longrightarrow> observedClear env (cl s) tm ev)
     (bnd (wrap_err w (observeBackupJobs env)) (\<lambda>jobs. if boHasActive jobs then ret (ob\<lparr>obJobs := jobs\<rparr>)
        else observeBlockers env (ob\<lparr>obJobs := jobs\<rparr>))) s"
proof (rule adds_bnd [OF adds_wrap [OF adds_observeBackupJobs]])
  fix jobs :: backupJobObservation and ev and t :: st
  assume j: "boHasActive jobs \<or> allFinished (cl s) ''scheduled'' ev" and t: "cl t = cl s"
  show "adds (\<lambda>b ev'. decideBackup b = backupDecisionCreate \<longrightarrow> observedClear env (cl s) tm (ev @ ev'))
     (if boHasActive jobs then ret (ob\<lparr>obJobs := jobs\<rparr>) else observeBlockers env (ob\<lparr>obJobs := jobs\<rparr>)) t"
  proof (cases "boHasActive jobs")
    case True
    then show ?thesis by (simp add: adds_pure decide_create)
  next
    case False
    have "observedClear env (cl s) tm (ev @ ev')"
      if "decideBackup b = backupDecisionCreate" "b = ob\<lparr>obJobs := jobs, obBlocker := obBlocker b, obPrecondition := obPrecondition b\<rparr>"
        "obBlocker b \<noteq> backupNotBlocked \<or> settled (cl s) \<and> allFinished (cl s) ''pre-upgrade'' ev' \<and> executorReady ev' \<and> noRestore (cl s) ev'"
      for b ev'
    proof -
      have "obOwnsLock b = obOwnsLock ob" "obDue b = obDue ob" using arg_cong [OF that(2), of obOwnsLock] arg_cong [OF that(2), of obDue] by simp_all
      then show ?thesis using that(1,3) j False assms
        unfolding observedClear_def decide_create by auto
    qed
    then show ?thesis using False t adds_observeBlockers [of "ob\<lparr>obJobs := jobs\<rparr>" t env] by (auto elim!: adds_mono)
  qed
qed

lemma adds_observeBackup:
  "adds (\<lambda>ob ev. decideBackup ob = backupDecisionCreate \<longrightarrow> observedClear env (cl s) tm ev) (observeBackup env tm) s"
  unfolding observeBackup_def Let_def
proof (rule adds_gets)
  define ob0 where "ob0 = initialObservation (cl s) tm"
  have o: "obOwnsLock ob0 \<longleftrightarrow> backupLockHeld (cl s)" "obConfigured ob0 \<longleftrightarrow> spBackup (clSpec (cl s)) \<noteq> None"
    by (simp_all add: ob0_def initialObservation_def)
  have due: "obDue (scheduleObservation nextTime (cl s) ob0) \<Longrightarrow> dueAt env (cl s) tm"
    "obOwnsLock (scheduleObservation nextTime (cl s) ob0) = obOwnsLock ob0"
    if "spBackup (clSpec (cl s)) = Some spec" "kParseSchedule (eBackup env) (bsSchedule spec) = Inr nextTime" for spec nextTime
    using due_scheduleObservation [OF _ that] by (simp_all add: ob0_def scheduleObservation_def Let_def)
  have parse: "adds (\<lambda>nextTime ev. kParseSchedule (eBackup env) e = Inr nextTime \<and> ev = [])
      (wrap_err w (lift_res (kParseSchedule (eBackup env) e))) t" for w t e
    by (intro adds_wrap adds_pure) simp
  let ?Q = "\<lambda>ob ev. decideBackup ob = backupDecisionCreate \<longrightarrow> observedClear env (cl s) tm ev"
  have 1: "adds ?Q (bnd (wrap_err w (observeBackupJobs env)) (\<lambda>jobs. ret (ob0\<lparr>obJobs := jobs\<rparr>))) s" if "obOwnsLock ob0" for w
    using that by (intro adds_bnd [OF adds_wrap [OF adds_observeBackupJobs]] adds_pure) (simp add: decide_create)
  have 2: "adds ?Q (ret ob0) s" if "spBackup (clSpec (cl s)) = None"
    using that o by (simp add: adds_pure decide_create)
  have 3: "adds ?Q (bnd (wrap_err w (lift_res (kParseSchedule (eBackup env) (bsSchedule spec))))
         (\<lambda>nextTime. bnd (wrap_err w' (observeBackupJobs env))
               (\<lambda>jobs. if boHasActive jobs then ret (scheduleObservation nextTime (cl s) ob0\<lparr>obJobs := jobs\<rparr>)
                  else observeBlockers env (scheduleObservation nextTime (cl s) ob0\<lparr>obJobs := jobs\<rparr>)))) s"
    if "spBackup (clSpec (cl s)) = Some spec" for spec w w'
  proof (rule adds_bnd [OF parse])
    fix nextTime and ev :: "event list" and t :: st
    assume "kParseSchedule (eBackup env) (bsSchedule spec) = Inr nextTime \<and> ev = []" and t: "cl t = cl s"
    then have n: "kParseSchedule (eBackup env) (bsSchedule spec) = Inr nextTime" "ev = []" by simp_all
    show "adds (\<lambda>ob ev'. ?Q ob (ev @ ev')) (bnd (wrap_err w' (observeBackupJobs env))
        (\<lambda>jobs. if boHasActive jobs then ret (scheduleObservation nextTime (cl s) ob0\<lparr>obJobs := jobs\<rparr>)
           else observeBlockers env (scheduleObservation nextTime (cl s) ob0\<lparr>obJobs := jobs\<rparr>))) t"
      using adds_observeFree [of "scheduleObservation nextTime (cl s) ob0" t env tm w'] due [OF that n(1)] o t n(2) by simp
  qed
  show "adds ?Q (if obOwnsLock (initialObservation (cl s) tm)
      then bnd (wrap_err (wrapf ''failed to observe owned backup Jobs'') (observeBackupJobs env))
             (\<lambda>jobs. ret (initialObservation (cl s) tm\<lparr>obJobs := jobs\<rparr>))
      else case spBackup (clSpec (cl s)) of
          None \<Rightarrow> ret (initialObservation (cl s) tm)
        | Some spec \<Rightarrow> bnd (wrap_err (wrapf ''failed to parse backup schedule'') (lift_res (kParseSchedule (eBackup env) (bsSchedule spec))))
            (\<lambda>nextTime. bnd (wrap_err (wrapf ''failed to observe backup Jobs'') (observeBackupJobs env))
               (\<lambda>jobs. if boHasActive jobs then ret (scheduleObservation nextTime (cl s) (initialObservation (cl s) tm)\<lparr>obJobs := jobs\<rparr>)
                  else observeBlockers env (scheduleObservation nextTime (cl s) (initialObservation (cl s) tm)\<lparr>obJobs := jobs\<rparr>)))) s"
    unfolding ob0_def [symmetric] using 1 2 3 by (simp split: option.split)
qed

section \<open>The lock\<close>

definition lockTaken :: "event list \<Rightarrow> bool" where
  "lockTaken ev \<longleftrightarrow> (\<exists>l. IsHeldBy backupOperationLock l
     \<and> ((\<exists>c. PatchLockE l (Inr c) \<in> set ev) \<or> (\<exists>c. GetClusterE (Inr c) \<in> set ev \<and> ssOperationLock (clStatus c) = l)))"

lemma lockTaken_append [simp]: "lockTaken (ev @ ev') \<longleftrightarrow> lockTaken ev \<or> lockTaken ev'"
  by (auto simp: lockTaken_def)

lemma acquireMutator_held:
  "acquireMutator backupOperationLock opts tm c = Inr (d, r) \<Longrightarrow> IsHeldBy backupOperationLock (ssOperationLock (clStatus d))"
  by (auto simp: acquireMutator_def Let_def IsHeldBy_def newOperationLockStatus_def split: option.splits if_splits)

lemma adds_retry:
  assumes "\<And>s. adds (\<lambda>_. E) m s" "\<And>ev ev'. E ev' \<Longrightarrow> E (ev @ ev')"
  shows "adds (\<lambda>_. E) (retryOnConflict n m) s"
proof (induction n arbitrary: s)
  case (Suc n)
  obtain r t where m: "m s = (r, t)" by (cases "m s")
  show ?case
  proof (cases r)
    case (Inr a)
    then show ?thesis using assms(1) [of s] m by (simp add: adds_def wp_def)
  next
    case (Inl e)
    then obtain ev where t: "cl t = cl s" "trace t = trace s @ ev" "list_all noJob ev"
      using assms(1) [of s] m by (auto simp: adds_def wp_def)
    show ?thesis
    proof (cases "is_conflict e \<and> n \<noteq> 0")
      case True
      then have "retryOnConflict (Suc n) m s = retryOnConflict n m t" using m Inl by simp
      then have "wp (retryOnConflict (Suc n) m) Q E' s \<longleftrightarrow> wp (retryOnConflict n m) Q E' t" for Q E' by (simp add: wp_def del: retryOnConflict.simps)
      then show ?thesis using Suc [of t] t assms(2) unfolding adds_def by (auto elim!: wp_mono)
    next
      case False
      then show ?thesis using m Inl t by (auto simp: adds_def wp_def)
    qed
  qed
qed (simp add: adds_def wp_def)

lemma adds_acquire:
  "adds (\<lambda>_. lockTaken) (MutateAndPatchLockStatus (bgLockApi env) ns n (acquireMutator backupOperationLock opts)) s"
proof -
  have "adds (\<lambda>_. lockTaken) (lockAttempt (bgLockApi env) ns n (acquireMutator backupOperationLock opts)) s" for s
    by (auto simp: adds_def lockAttempt_def bgLockApi_def getCluster_def wps lockTaken_def split: sum.split prod.split
        dest!: acquireMutator_held)
  then show ?thesis unfolding MutateAndPatchLockStatus_def by (auto intro!: adds_wrap adds_retry adds_pure)
qed

section \<open>The object in memory\<close>

text \<open>
  Before the decision, a pass keeps the specification, the names, the annotations and the part of the status that is not
  administrative; the upgrade and the schedule in memory are those of the object the pass started from or of one it read.
\<close>

definition fixedParts :: "Cluster \<Rightarrow> Cluster \<Rightarrow> bool" where
  "fixedParts c d \<longleftrightarrow> clSpec d = clSpec c \<and> clName d = clName c \<and> clNamespace d = clNamespace c \<and> clAnnotations d = clAnnotations c
     \<and> ssInitialized (clStatus d) = ssInitialized (clStatus c) \<and> ssPhase (clStatus d) = ssPhase (clStatus c)
     \<and> ssCurrentVersion (clStatus d) = ssCurrentVersion (clStatus c) \<and> ssOperationLock (clStatus d) = ssOperationLock (clStatus c)"

definition readParts :: "Cluster \<Rightarrow> Cluster \<Rightarrow> bool" where
  "readParts c d \<longleftrightarrow> ssUpgrade (clStatus d) = ssUpgrade (clStatus c) \<and> nextOf d = nextOf c"

definition inMemory :: "Cluster \<Rightarrow> event list \<Rightarrow> Cluster \<Rightarrow> bool" where
  "inMemory c0 ev c \<longleftrightarrow> fixedParts c0 c \<and> (\<exists>d. (d = c0 \<or> GetClusterE (Inr d) \<in> set ev) \<and> readParts d c)"

definition memory :: "st \<Rightarrow> st \<Rightarrow> bool" where
  "memory s t \<longleftrightarrow> (\<exists>ev. trace t = trace s @ ev \<and> inMemory (cl s) ev (cl t))"

lemma inMemory_append: "inMemory c0 ev c \<Longrightarrow> inMemory c0 (ev @ ev') c"
  by (auto simp: inMemory_def)

lemma inMemory_trans: "inMemory c0 ev c \<Longrightarrow> inMemory c ev' d \<Longrightarrow> inMemory c0 (ev @ ev') d"
  unfolding inMemory_def fixedParts_def readParts_def by auto

interpretation memory: frame memory
proof
  show "memory s s" for s by (simp add: memory_def inMemory_def fixedParts_def readParts_def)
  show "memory s t \<Longrightarrow> memory t u \<Longrightarrow> memory s u" for s t u
    unfolding memory_def by (metis append.assoc inMemory_trans)
qed

lemma memory_same: "keeps sameCl m \<Longrightarrow> keeps memory m"
  by (auto simp: keeps_def sameCl_def memory_def inMemory_def fixedParts_def readParts_def)

lemma memory_updBackup: "(\<And>b. bkNextScheduledBackup (f b) = bkNextScheduledBackup b) \<Longrightarrow> keeps memory (updBackup f)"
proof -
  assume "\<And>b. bkNextScheduledBackup (f b) = bkNextScheduledBackup b"
  then have "nextOf (mapBackup f c) = nextOf c" for c by (cases "backupStatus c") (simp_all add: nextOf_def mapBackup_def)
  then show ?thesis
    by (simp add: keeps_def updBackup_def updCl_def modify_def memory_def inMemory_def fixedParts_def readParts_def)
      (simp add: mapBackup_def)
qed

lemma wp_MutateAndApply_read:
  "wp (MutateAndApplyAdminOpsStatus env n mutate force)
     (\<lambda>upd t. cl t = cl s \<and> (\<exists>ev. trace t = trace s @ ev \<and> GetClusterE (Inr upd) \<in> set ev))
     (\<lambda>_ t. cl t = cl s \<and> (\<exists>ev. trace t = trace s @ ev)) s"
proof -
  have k: "keeps sameCl (wrap_err w (retryOnConflict k (bnd (wrap_err w' (getCluster env)) (\<lambda>current.
      bnd (lift_res (mutate current)) (\<lambda>desired. applyStatus env desired force)))))" for w w' k
    by (auto intro!: sameCl_retry)
  have "wp (wrap_err w (getCluster env)) (\<lambda>upd t. cl t = cl s \<and> (\<exists>ev. trace t = trace s @ ev \<and> GetClusterE (Inr upd) \<in> set ev))
     (\<lambda>_ t. cl t = cl s \<and> (\<exists>ev. trace t = trace s @ ev)) u" if "sameCl s u" for u w
    using that by (auto simp: sameCl_def getCluster_def wps split: sum.split)
  then show ?thesis
    unfolding MutateAndApplyAdminOpsStatus_def wp_if wp_failwith wp_bnd [of "wrap_err _ (retryOnConflict _ _)"]
    by (auto intro!: wp_keeps [OF k]) (auto simp: sameCl_def)
qed

lemma memory_MutateWithReader: "keeps memory (MutateWithReader env mutate p)"
proof (rule keepsI)
  fix s :: st
  define g where "g force = MutateAndApplyAdminOpsStatus env (clName (cl s)) mutate force" for force
  have read: "inMemory (cl s) ev (mapStatus (\<lambda>st. st\<lparr>ssAcceptedUpgradeStrategy := x1, ssUpgrade := ssUpgrade (clStatus a), ssUpgradeRequests := x3,
      ssBlueGreen := x4, ssBreakGlass := x5, ssBackup := backupStatus a, ssAdminOps := x6\<rparr>) (cl s)\<lparr>clResourceVersion := v\<rparr>)"
    if "GetClusterE (Inr a) \<in> set ev" for x1 x3 x4 x5 x6 a v ev
    using that by (auto simp: inMemory_def fixedParts_def readParts_def nextOf_def mapStatus_def)
  have same: "inMemory (cl s) ev (cl s)" for ev by (auto simp: inMemory_def fixedParts_def readParts_def)
  have g: "wp (g force) (\<lambda>upd t. cl t = cl s \<and> (\<exists>ev. trace t = trace s @ ev \<and> GetClusterE (Inr upd) \<in> set ev))
     (\<lambda>_ t. cl t = cl s \<and> (\<exists>ev. trace t = trace s @ ev)) u" if "cl u = cl s" "\<exists>ev. trace u = trace s @ ev" for u force
    unfolding g_def by (rule wp_mono [OF wp_MutateAndApply_read]) (use that in auto)
  show "wp (MutateWithReader env mutate p) (\<lambda>_. memory s) (\<lambda>_. memory s) s"
    unfolding MutateWithReader_def wp_bnd wp_gets wp_attempt g_def [symmetric]
    by (rule wp_mono [OF g])
      (auto simp: wp_ret wp_attempt wp_failwith wp_state memory_def same intro!: wp_mono [OF g] intro: read)
qed

lemma memory_prepareBackup: "keeps memory (prepareBackup env)"
proof -
  have emits: "keeps memory (emitBackupMetrics ms)" "keeps memory (emit e)" for ms e
    by (rule memory_same, induction ms, auto intro!: memory_same)
  have calls: "keeps memory (callU f ev)" "keeps memory (listJobs env sel)" for f ev sel
    by (auto intro!: memory_same)
  have seen: "keeps sameCl (markBackupJobMetricsSeen ns n u r)" for ns n u r
    by (auto simp: markBackupJobMetricsSeen_def Let_def keeps_def sameCl_def bnd_def gets_def modify_def ret_def)
  have collect: "keeps sameCl (collectJobMetrics c jobs snap)" for c jobs snap
    by (induction c jobs snap rule: collectJobMetrics.induct) (auto intro!: seen split: option.split)
  have patch: "keeps memory (patchBackupStatusSSA env)"
    unfolding patchBackupStatusSSA_def by (auto intro!: memory_MutateWithReader)
  have "keeps memory (backfillDuration env job)" for job
    unfolding backfillDuration_def withBackup_def by (auto intro!: emits memory_updBackup split: option.split)
  moreover have "keeps memory (readBackupSizeFromObjectStorage env key)" for key
    by (rule memory_same) (auto simp: readBackupSizeFromObjectStorage_def openBackupStorageClient_def)
  then have "keeps memory (backfillSize env job)" for job
    unfolding backfillSize_def withBackup_def by (auto intro!: emits memory_updBackup split: option.split sum.split)
  ultimately have fill: "keeps memory (backfillBackupGaugesFromLatestSuccess env j)" for j
    unfolding backfillBackupGaugesFromLatestSuccess_def by (auto intro!: emits patch split: option.split)
  have "memory s (s\<lparr>cl := mapStatus (\<lambda>st. st\<lparr>ssBackup := Some emptyBackupStatus\<rparr>) (cl s)\<rparr>)" if "backupStatus (cl s) = None" for s
    using that by (auto simp: memory_def inMemory_def fixedParts_def readParts_def nextOf_def emptyBackupStatus_def)
  then have ensure: "keeps memory (ensureBackupStatus env)"
    by (intro keepsI)
      (auto simp: ensureBackupStatus_def wp_bnd wp_gets wp_if wp_ret wp_state wp_wrap_err memory.refl intro!: wp_keeps [OF patch] intro: memory.trans)
  show ?thesis
    unfolding prepareBackup_def syncBackupMetrics_def syncBackupStatusMetrics_def collectBackupJobMetricsSnapshot_def
      applyBackupJobSnapshotToMetrics_def
    by (auto intro!: emits fill ensure memory_same [OF collect] calls split: option.split)
qed

section \<open>Job creations\<close>

definition preceded :: "(event list \<Rightarrow> Job \<Rightarrow> bool) \<Rightarrow> st \<Rightarrow> st \<Rightarrow> bool" where
  "preceded G s t \<longleftrightarrow> (\<exists>ev. trace t = trace s @ ev \<and> (\<forall>i < length ev. \<forall>j r. ev ! i = CreateJobE j r \<longrightarrow> G (take i ev) j))"

definition calm :: "st \<Rightarrow> st \<Rightarrow> bool" where
  "calm s t \<longleftrightarrow> (\<exists>ev. trace t = trace s @ ev \<and> list_all noJob ev)"

interpretation calm: frame calm
  by unfold_locales (auto simp: calm_def)

lemma calm_bf: "keeps (bf noJob (\<lambda>_ _. True)) m \<Longrightarrow> keeps calm m"
  by (auto simp: keeps_def bf_def calm_def)

lemma calm_kinds: "bfk noJob (\<lambda>_ _. True)" "bfr noJob (\<lambda>_ _. True)"
  using wide_noJob by (auto simp: bfk_def bfr_def wide_def noJob_def)

text \<open>\<open>createsOnly B\<close>: only Jobs with the property \<open>B\<close> are created.  If the guard holds for them, it holds before every later creation.\<close>

definition createsOnly :: "(Job \<Rightarrow> bool) \<Rightarrow> event \<Rightarrow> bool" where
  "createsOnly B e \<longleftrightarrow> (\<forall>j r. e = CreateJobE j r \<longrightarrow> B j)"

lemma preceded_more:
  assumes "preceded G s t" "trace t = trace s @ ev" "trace u = trace t @ ev'" "list_all (createsOnly B) ev'"
    and G: "\<And>ev' j. B j \<Longrightarrow> G (ev @ ev') j"
  shows "preceded G s u"
proof -
  have p: "\<forall>i < length ev. \<forall>j r. ev ! i = CreateJobE j r \<longrightarrow> G (take i ev) j" using assms(1,2) by (auto simp: preceded_def)
  have "G (take i (ev @ ev')) j" if i: "i < length (ev @ ev')" "(ev @ ev') ! i = CreateJobE j r" for i j r
  proof (cases "i < length ev")
    case False
    then have "CreateJobE j r \<in> set ev'" using i by (auto simp: nth_append in_set_conv_nth intro!: exI [of _ "i - length ev"])
    with assms(4) have "B j" by (auto simp: list_all_iff createsOnly_def)
    then show ?thesis using G False by simp
  qed (use p i in \<open>simp add: nth_append\<close>)
  then show ?thesis unfolding preceded_def using assms(2,3) by (intro exI [of _ "ev @ ev'"]) simp
qed

lemma preceded_calm:
  assumes "preceded G s t" "calm t u" shows "preceded G s u"
proof -
  obtain ev ev' where e: "trace t = trace s @ ev" "trace u = trace t @ ev'" "list_all noJob ev'"
    using assms by (auto simp: preceded_def calm_def)
  have "list_all (createsOnly (\<lambda>_. False)) ev'"
    using e(3) by (rule list.pred_mono_strong) (auto simp: noJob_def createsOnly_def)
  then show ?thesis by (rule preceded_more [OF assms(1) e(1,2)]) simp
qed

text \<open>The Job of a name: what the builder makes of the name, with the cluster as its owner.\<close>

definition builtFor :: "env \<Rightarrow> string \<Rightarrow> Job \<Rightarrow> bool" where
  "builtFor env n j \<longleftrightarrow> (\<exists>c key digest set job. kBuildBackupJob (eBackup env) c n key digest set = Inr job
     \<and> PrepareManagedJobOwner (Some job) (Some (clusterMeta c)) (Some openBaoClusterGVK) = Inr j)"

lemma createsOnly_kinds: "bfk (createsOnly B) (\<lambda>_ _. True)"
  using wide_noJob by (auto simp: bfk_def wide_def noJob_def createsOnly_def)

lemma keeps_lift: "(\<And>a. x = Inr a \<Longrightarrow> keeps R (k a)) \<Longrightarrow> (\<And>s. R s s) \<Longrightarrow> keeps R (bnd (wrap_err w (lift_res x)) k)"
  by (cases x) (auto simp: keeps_def bnd_def wrap_err_def lift_res_def ret_def failwith_def)

lemma creates_built: "keeps (bf (createsOnly (builtFor env n)) (\<lambda>_ _. True)) (createBackupJob env n tm)"
proof -
  note w = bfkD(1) [OF createsOnly_kinds]
  have create: "keeps (bf (createsOnly B) (\<lambda>_ _. True)) (createJob env j)" if "B j" for B j
    using that by (intro bf_createJob) (simp add: createsOnly_def)
  show ?thesis
    unfolding createBackupJob_def
    by (auto intro!: keeps_lift bf_refl bf_verifyBackupExecutor [OF createsOnly_kinds] create bf_backupJobCreated [OF w]
        bf_readManagedJob [OF w] keeps_bfh [OF keeps_bfh_plain(1) [OF w]] simp: builtFor_def split: sum.split) blast
qed

lemma wp_preceded_calm: "keeps calm m \<Longrightarrow> preceded G s t \<Longrightarrow> wp m (\<lambda>_. preceded G s) (\<lambda>_. preceded G s) t"
  by (rule wp_keeps [where R = calm]) (auto intro: preceded_calm)

definition absentJob :: "string \<Rightarrow> event list \<Rightarrow> bool" where
  "absentJob n ev \<longleftrightarrow> (\<exists>e. GetJobE n (Inl e) \<in> set ev \<and> is_not_found e)"

lemma wp_ensureBackupJob:
  assumes p: "preceded G s t" "trace t = trace s @ ev"
    and G: "\<And>e ev' j. is_not_found e \<Longrightarrow> builtFor env n j \<Longrightarrow> G (ev @ GetJobE n (Inl e) # ev') j"
  shows "wp (ensureBackupJob env n tm) (\<lambda>_. preceded G s) (\<lambda>_. preceded G s) t"
proof -
  have read: "preceded G s (t\<lparr>trace := trace s @ ev @ [GetJobE n r]\<rparr>)" for r
    using p(2) by (intro preceded_calm [OF p(1)]) (simp add: calm_def)
  have create: "wp (createBackupJob env n tm) (\<lambda>_. preceded G s) (\<lambda>_. preceded G s) (t\<lparr>trace := trace s @ ev @ [GetJobE n (Inl e)]\<rparr>)"
    if "is_not_found e" for e
    by (rule wp_keeps [OF creates_built], unfold bf_def)
      (auto intro!: preceded_more [OF read [of "Inl e"], where B = "builtFor env n"] G [OF that])
  show ?thesis
    using p(2) read create
    by (auto simp: ensureBackupJob_def getJob_def wp_bnd wp_gets wp_attempt wp_call wp_if wp_failwith wp_ret split: sum.split option.split)
qed

text \<open>
  The guards of a pass that starts in \<open>s\<close>, as evidence in the calls made before the creation of the Job \<open>j\<close>.  The name that was absent is the
  one the Job is built for; that the builder puts the name it is given on the Job is its contract.
\<close>

definition jobGuards :: "env \<Rightarrow> st \<Rightarrow> event list \<Rightarrow> Job \<Rightarrow> bool" where
  "jobGuards env s ev j \<longleftrightarrow> (\<exists>c. inMemory (cl s) ev c \<and> observedClear env c (eNow env (trace s)) ev)
     \<and> lockTaken ev \<and> (\<exists>t. absentJob (scheduledBackupJobName (cl s) t) ev \<and> builtFor env (scheduledBackupJobName (cl s) t) j)"

lemma observedClear_append: "observedClear env c tm ev \<Longrightarrow> observedClear env c tm (ev @ ev')"
  by (auto simp: observedClear_def)

lemma wp_acquireBackupLock:
  "wp (acquireBackupLock env n) (\<lambda>r t. \<exists>ev. trace t = trace s @ ev \<and> list_all noJob ev \<and> (r = None \<longrightarrow> lockTaken ev))
     (\<lambda>_ t. \<exists>ev. trace t = trace s @ ev \<and> list_all noJob ev) s"
proof -
  have "adds (\<lambda>_. lockTaken) (AcquireWithReader (bgLockApi env) (Some (cl s)) backupOperationLock opts) s" for opts
    unfolding AcquireWithReader_def AcquireWithReaderResult_def mutateOperationLockStatus_def
    by (simp add: backupOperationLock_def [THEN arg_cong, of olHolder] backupOperationLock_def [THEN arg_cong, of olOperation])
      (rule adds_bnd [where ?E1.0 = "\<lambda>_. lockTaken"], rule adds_bnd [OF adds_wrap [OF adds_acquire]], auto intro!: adds_pure split: prod.split)
  then show ?thesis
    unfolding acquireBackupLock_def wp_bnd wp_gets wp_attempt adds_def
    by (rule wp_mono) (auto simp: wps noJob_def audit_def emitWarningEvent_def)
qed

lemma wp_applyCreateBackup:
  assumes p: "preceded (jobGuards env s) s t" "trace t = trace s @ ev"
    and c: "inMemory (cl s) ev c" "observedClear env c (eNow env (trace s)) ev" "clName (cl t) = clName (cl s)"
  shows "wp (applyCreateBackup env ob) (\<lambda>_. preceded (jobGuards env s) s) (\<lambda>_. preceded (jobGuards env s) s) t"
proof -
  define n where "n = scheduledBackupJobName (cl t) (obScheduledTime ob)"
  let ?P = "\<lambda>_. preceded (jobGuards env s) s"
  have name: "n = scheduledBackupJobName (cl s) (obScheduledTime ob)" using c(3) by (simp add: n_def scheduledBackupJobName_def)
  note quiet = calm_bf [OF bf_triggers(1) [OF wide_noJob]] calm_bf [OF keeps_bfh [OF keeps_bfh_emits(1) [OF wide_noJob]]]
    calm_bf [OF keeps_bfh [OF keeps_bfh_emits(2) [OF wide_noJob]]] calm_bf [OF keeps_bfh [OF keeps_bfh_emits(3) [OF wide_noJob]]]
    calm_bf [OF bf_releaseBackupLock [OF wide_noJob]] calm_bf [OF bf_clearManualTrigger [OF wide_noJob]]
    calm_bf [OF bf_recordBackupAttempt [OF calm_kinds(1)]] calm_bf [OF keeps_bfh [OF keeps_bfh_plain(3) [OF wide_noJob]]]
  have guard: "jobGuards env s (ev @ ev1 @ ev2 @ GetJobE n (Inl e) # ev') j" if "lockTaken ev1" "is_not_found e" "builtFor env n j" for ev1 ev2 e ev' j
    unfolding jobGuards_def
  proof (intro conjI exI [of _ c] exI [of _ "obScheduledTime ob"])
    show "lockTaken (ev @ ev1 @ ev2 @ GetJobE n (Inl e) # ev')" using that(1) by simp
    show "absentJob (scheduledBackupJobName (cl s) (obScheduledTime ob)) (ev @ ev1 @ ev2 @ GetJobE n (Inl e) # ev')"
      using that(2) name by (auto simp: absentJob_def)
  qed (use that(3) name c(1,2) inMemory_append observedClear_append in auto)
  have ensure: "wp (ensureBackupJob env n tm) ?P ?P u"
    if "preceded (jobGuards env s) s u" "trace u = trace s @ ev @ ev1 @ ev2" "lockTaken ev1" for u ev1 ev2 tm
    by (rule wp_ensureBackupJob [OF that(1,2)]) (use guard [OF that(3)] in auto)
  have rest: "wp (bnd (attempt (ensureBackupJob env n tm)) k) ?P ?P u"
    if "preceded (jobGuards env s) s u" "trace u = trace s @ ev @ ev1 @ ev2" "lockTaken ev1" "\<And>r. keeps calm (k r)"
    for u ev1 ev2 tm and k :: "go_error + bool \<Rightarrow> int op"
    unfolding wp_bnd wp_attempt using wp_preceded_calm [OF that(4)] by (intro wp_mono [OF ensure [OF that(1-3)]]) auto
  define before where "before u \<longleftrightarrow> preceded (jobGuards env s) s u \<and> (\<exists>ev1. trace u = trace s @ ev @ ev1)" for u :: st
  define locked where "locked u \<longleftrightarrow> preceded (jobGuards env s) s u \<and> (\<exists>ev1. trace u = trace s @ ev @ ev1 \<and> lockTaken ev1)" for u :: st
  have stable: "before u \<Longrightarrow> calm u v \<Longrightarrow> before v" "locked u \<Longrightarrow> calm u v \<Longrightarrow> locked v" for u v
    by (auto simp: before_def locked_def preceded_calm, auto simp: calm_def)
  have held: "before u \<Longrightarrow> preceded (jobGuards env s) s u" "locked u \<Longrightarrow> preceded (jobGuards env s) s u" for u
    by (simp_all add: before_def locked_def)
  have chain: "wp (bnd m k) ?P ?P u" if "keeps calm m" "J u" "\<And>u v. J u \<Longrightarrow> calm u v \<Longrightarrow> J v \<and> preceded (jobGuards env s) s v"
      "\<And>a v. J v \<Longrightarrow> wp (k a) ?P ?P v" for m :: "unit op" and k :: "unit \<Rightarrow> int op" and J :: "st \<Rightarrow> bool" and u
    unfolding wp_bnd using that(2-4) by (intro wp_keeps [OF that(1)]) blast+
  have stepB: "wp (bnd m k) ?P ?P u" if "before u" "keeps calm m" "\<And>a v. before v \<Longrightarrow> wp (k a) ?P ?P v"
    for m :: "unit op" and k :: "unit \<Rightarrow> int op" and u
    by (rule chain [of m before u k]) (use that stable(1) held(1) in blast)+
  have stepL: "wp (bnd m k) ?P ?P u" if "locked u" "keeps calm m" "\<And>a v. locked v \<Longrightarrow> wp (k a) ?P ?P v"
    for m :: "unit op" and k :: "unit \<Rightarrow> int op" and u
    by (rule chain [of m locked u k]) (use that stable(2) held(2) in blast)+
  have acquire: "wp (unless_done (acquireBackupLock env n) m) ?P ?P u" if "before u" "\<And>v. locked v \<Longrightarrow> wp m ?P ?P v" for u m
  proof -
    have "preceded (jobGuards env s) s v" "lockTaken ev' \<Longrightarrow> locked v" if "trace v = trace u @ ev'" "list_all noJob ev'" for v ev'
      using \<open>before u\<close> preceded_calm [of _ s u v] that by (auto simp: calm_def before_def locked_def)
    then show ?thesis using that(2) unfolding wp_unless_done
      by (intro wp_mono [OF wp_acquireBackupLock [of env n u]]) (auto split: option.split)
  qed
  have k: "keeps calm (case r of Inl err \<Rightarrow> (let ensureErr = wrapf ''failed to ensure backup Job'' err in
             bnd (attempt (releaseBackupLock env ''after job ensure failure'')) (\<lambda>released. case released of
               Inl releaseErr \<Rightarrow> failwith (Wrapf ''join'' [ensureErr, releaseErr])
             | Inr _ \<Rightarrow> failwith ensureErr))
        | Inr _ \<Rightarrow>
            bnd (if obManualTriggerToken ob \<noteq> [] then clearManualTriggerAnnotation env else ret ()) (\<lambda>_.
            bnd (attempt (recordBackupAttempt env (obNow ob) (obScheduledTime ob) (obNextSchedule ob) (obManualTriggerToken ob))) (\<lambda>_.
            ret requeueShort)))" for r :: "go_error + bool"
    by (auto simp: Let_def intro!: quiet split: sum.split)
  have t: "before t" using p by (simp add: before_def)
  show ?thesis
    unfolding applyCreateBackup_def wp_bnd [of "gets _"] wp_gets Let_def n_def [symmetric]
  proof (rule stepB [OF t], goal_cases)
    case (2 a v)
    show ?case
    proof (rule stepB [OF 2], goal_cases)
      case (2 a w)
      show ?case
      proof (rule acquire [OF 2], unfold wp_bnd [of "gets _"] wp_gets, erule stepL, goal_cases)
        case (2 y a z)
        then obtain ev1 where z: "preceded (jobGuards env s) s z" "trace z = trace s @ ev @ ev1" "lockTaken ev1" by (auto simp: locked_def)
        show ?case by (rule rest [of z ev1 "[]"], simp_all only: z append_Nil2, rule k [unfolded Let_def])
      qed (auto intro!: quiet)
    qed (auto intro!: quiet)
  qed (auto intro!: quiet)
qed

section \<open>The pass\<close>

lemma wp_applyBackupDecision:
  assumes p: "preceded (jobGuards env s) s t" "trace t = trace s @ ev" "inMemory (cl s) ev (cl t)"
    and c: "decideBackup ob = backupDecisionCreate \<Longrightarrow> observedClear env (cl t) (eNow env (trace s)) ev"
  shows "wp (applyBackupDecision env ob) (\<lambda>_. preceded (jobGuards env s) s) (\<lambda>_. preceded (jobGuards env s) s) t"
proof -
  note quiet = bf_quietDecisions [OF calm_kinds(1), THEN calm_bf]
  show ?thesis
  proof (cases "decideBackup ob = backupDecisionCreate")
    case False
    then have "keeps calm (applyBackupDecision env ob)"
      unfolding applyBackupDecision_def by (cases "decideBackup ob") (auto intro!: quiet)
    then show ?thesis by (rule wp_preceded_calm [OF _ p(1)])
  next
    case True
    have "wp (applyCreateBackup env ob) (\<lambda>_. preceded (jobGuards env s) s) (\<lambda>_. preceded (jobGuards env s) s) u"
      if "trace u = trace t" "clName (cl u) = clName (cl t)" for u
    proof (rule wp_applyCreateBackup)
      show "preceded (jobGuards env s) s u" using p(1) that(1) by (simp add: preceded_def)
      show "trace u = trace s @ ev" using p(2) that(1) by simp
      show "clName (cl u) = clName (cl s)" using p(3) that(2) by (simp add: inMemory_def fixedParts_def)
    qed (use p(3) c [OF True] in auto)
    then show ?thesis using True
      by (simp add: applyBackupDecision_def applyInitialBackupSchedule_def wp_bnd wp_if wp_ret updBackup_def wp_state mapBackup_def)
  qed
qed

definition createsGuarded :: "env \<Rightarrow> st \<Rightarrow> st \<Rightarrow> bool" where
  "createsGuarded env s t \<longleftrightarrow> (\<exists>ev. trace t = trace s @ ev
     \<and> (\<forall>ev1 j r ev2. ev = ev1 @ CreateJobE j r # ev2 \<longrightarrow> jobGuards env s ev1 j))"

lemma preceded_split: "preceded (jobGuards env s) s t \<Longrightarrow> createsGuarded env s t"
  unfolding preceded_def createsGuarded_def
proof (elim exE conjE, intro exI conjI allI impI)
  fix ev ev1 j r ev2
  assume "\<forall>i<length ev. \<forall>j r. ev ! i = CreateJobE j r \<longrightarrow> jobGuards env s (take i ev) j" "ev = ev1 @ CreateJobE j r # ev2"
  then show "jobGuards env s ev1 j" by (auto dest: spec [of _ "length ev1"])
qed

text \<open>
  C17: a backup pass creates a Job only when it may.  Before every Job creation, the pass has seen: the backup configured and due,
  by a manual trigger or by the stored schedule, at the instant the pass began; the cluster initialized, on its version and not
  upgrading; no backup lock at the start and the operation lock taken since; every scheduled and pre-upgrade backup Job
  finished; no restore of the cluster unfinished, or no right to list restores; the executor's prerequisites met; and no Job of
  the scheduled name for which the created Job was built.
\<close>

theorem backup_job_guarded: "createsGuarded env s (snd (BackupReconcile env s))"
proof -
  let ?P = "\<lambda>_. preceded (jobGuards env s) s"
  have start: "preceded G s s" for G by (simp add: preceded_def)
  have test: "keeps calm (reconcileRestoreTest env tm)" for tm by (rule calm_bf [OF bf_reconcileRestoreTest [OF calm_kinds(2)]])
  have decide: "wp (bnd (applyBackupDecision env ob) (\<lambda>result. bnd (reconcileRestoreTest env tm) (\<lambda>_. bnd (gets cl) (\<lambda>c. ret (f result c))))) ?P ?P t"
    if "preceded (jobGuards env s) s t" "trace t = trace s @ ev" "inMemory (cl s) ev (cl t)"
      "decideBackup ob = backupDecisionCreate \<Longrightarrow> observedClear env (cl t) (eNow env (trace s)) ev"
    for ob t ev tm and f :: "int \<Rightarrow> Cluster \<Rightarrow> int"
  proof -
    have "keeps calm (bnd (reconcileRestoreTest env tm) (\<lambda>_. bnd (gets cl) (\<lambda>c. ret (f result c))))" for result using test by auto
    then show ?thesis unfolding wp_bnd [of "applyBackupDecision _ _"]
      by (intro wp_mono [OF wp_applyBackupDecision [OF that]] wp_preceded_calm)
  qed
  have observe: "wp (bnd (observeBackup env (eNow env (trace s))) (\<lambda>ob. bnd (applyBackupDecision env ob) (\<lambda>result.
       bnd (reconcileRestoreTest env tm) (\<lambda>_. bnd (gets cl) (\<lambda>c. ret (f result c)))))) ?P ?P t"
    if "memory s t" "preceded (jobGuards env s) s t" for t tm and f :: "int \<Rightarrow> Cluster \<Rightarrow> int"
  proof -
    from that(1) obtain ev where ev: "trace t = trace s @ ev" "inMemory (cl s) ev (cl t)" by (auto simp: memory_def)
    have later: "preceded (jobGuards env s) s u" if "trace u = trace t @ ev'" "list_all noJob ev'" for u ev'
      using that \<open>preceded (jobGuards env s) s t\<close> by (auto intro: preceded_calm simp: calm_def)
    have onward: "wp (bnd (applyBackupDecision env ob) (\<lambda>result. bnd (reconcileRestoreTest env tm) (\<lambda>_. bnd (gets cl) (\<lambda>c. ret (f result c))))) ?P ?P u"
      if "trace u = trace t @ ev'" "list_all noJob ev'" "cl u = cl t"
        "decideBackup ob = backupDecisionCreate \<longrightarrow> observedClear env (cl t) (eNow env (trace s)) ev'" for ob u ev'
    proof (rule decide [of u "ev @ ev'"])
      show "preceded (jobGuards env s) s u" by (rule later [OF that(1,2)])
      show "trace u = trace s @ ev @ ev'" using that(1) ev(1) by simp
      show "inMemory (cl s) (ev @ ev') (cl u)" using ev(2) that(3) inMemory_append by simp
      show "decideBackup ob = backupDecisionCreate \<Longrightarrow> observedClear env (cl u) (eNow env (trace s)) (ev @ ev')"
        using that(3,4) by (simp add: observedClear_def)
    qed
    show ?thesis unfolding wp_bnd [of "observeBackup _ _"]
      by (rule wp_mono [OF adds_observeBackup [unfolded adds_def]]) (auto intro: onward later)
  qed
  have "keeps (\<lambda>s t. memory s t \<and> calm s t) (prepareBackup env)"
    using memory_prepareBackup calm_bf [OF bf_prepareBackup [OF calm_kinds(1)]] by (simp add: keeps_def)
  then have "wp (BackupReconcile env) ?P ?P s"
    unfolding BackupReconcile_def wp_bnd [of "now _"] wp_state wp_bnd [of "prepareBackup _"]
    by (rule wp_keeps) (auto intro!: observe intro: preceded_calm [OF start])
  then show ?thesis by (intro preceded_split) (simp add: wp_snd)
qed

end
