(* ===== verification/Spec2Isabelle.thy ===== *)
theory Spec2Isabelle
  imports Lock_Server BlueGreen_Runs Strategy_Transition Restore_Parts Rolling_Runs Raft_Properties Executor_Config Backup_Create
begin

text \<open>
  A verification library of the OpenBao operator, a Kubernetes operator that runs OpenBao clusters.  Paths
  below are relative to \<open>src/internal/\<close> unless they start with \<open>api/\<close>.

  \<^bold>\<open>The program.\<close>  The operator watches \<open>OpenBaoCluster\<close> and \<open>OpenBaoRestore\<close> resources and moves the real
  system towards them in \<^emph>\<open>passes\<close>: a pass reads a resource, makes a few calls (to the Kubernetes API server,
  to OpenBao nodes, to packages that render objects), writes the status of the resource and asks to be called again.
  Everything a later pass must know is in the status.  Four long operations carry the risk and are the core
  of this library:

  \<^item> the \<^emph>\<open>blue/green upgrade\<close> (\<open>service/upgrade/bluegreen\<close>): a second set of nodes (Green) is deployed with the
    new version, joins as non-voters, is synchronised, promoted, and the old set (Blue) is demoted and removed;
    up to a point of no return it can be rolled back;
  \<^item> the \<^emph>\<open>rolling upgrade\<close> (\<open>service/upgrade/rolling\<close>): the Pods of one StatefulSet are replaced one by one, from the highest
    ordinal down, by lowering the partition of its update strategy, the leader being moved away first;
  \<^item> the \<^emph>\<open>restore\<close> (\<open>service/restore\<close>): a snapshot is submitted to a cluster at most once, by a Job whose creation is
    committed in the status first, and afterwards only an administrator or a proof of application releases the target;
  \<^item> the \<^emph>\<open>backup\<close> (\<open>service/backup\<close>): on a schedule or a manual trigger a Job stores a snapshot in an object store, old
    snapshots are removed by a retention policy, and restore tests apply the latest one to a disposable cluster.

  The Raft membership itself is changed by Jobs that run the \<^emph>\<open>upgrade executor\<close> (\<open>service/upgrade/raftops\<close>): one of eight
  actions per Job, with its configuration in the environment of the process.

  All of them take the \<^emph>\<open>operation lock\<close> in the cluster's status (\<open>service/opslifecycle/lock.go\<close>), so that upgrades,
  backups and restores exclude each other.  The \<^emph>\<open>strategy transition\<close>
  (\<open>service/upgrade/strategy_transition.go\<close>) decides when a cluster may switch between rolling and blue/green
  upgrades.

  \<^bold>\<open>Shape of the model.\<close>  An effectful Go function \<open>f(ctx, args) (T, error)\<close> is \<open>'s \<Rightarrow> (go_error + 'a) \<times> 's\<close>
  (\<open>op\<close>, \<open>rop\<close>): errors are values, the state is threaded, and the state keeps a trace of every call that leaves
  the process.  \<open>bnd\<close>, \<open>attempt\<close>, \<open>wrap_err\<close> and \<open>failwith\<close> (\<open>Go_Prelude\<close>) are the Go idioms \<open>if err != nil\<close>, a
  checked error, \<open>fmt.Errorf("...: %w")\<close> and \<open>return err\<close>; a nil dereference is the error \<open>Panic\<close>.  The
  text that a message renders of an error is left out; constant texts and identities are kept.

  The surroundings are records of functions, \<open>env\<close> for upgrades, \<open>renv\<close> for restores and \<open>xenv\<close> for the executor: an answer may depend on the whole
  trace, so one record is one arbitrary behaviour of the API server, the OpenBao nodes, the clock, random
  numbers and the packages that render objects or verify images.  Theorems quantify over these records: they
  hold when a cache is stale, a write is refused, or it is executed and its reply is lost.  Where a property needs more, the
  hypothesis is named: \<open>singleWriter\<close> (the object read right after an accepted status write shows the phase, the revisions and the promotion flag of that
  write; other fields and other reads are free) for the phase machine; \<open>soleWriter\<close> (nobody else writes the progress record or the blue/green status during a rolling pass);
  \<open>steadyRun\<close> and \<open>controllerFair\<close> for the liveness of a rolling upgrade: while one is in progress and resumed, without pre-upgrade snapshot
  and read replicas and with three or more voters, writes are accepted, the other voters are healthy and lead, the deadline is not reached, and
  the StatefulSet controller, which is asynchronous, catches up with a written partition at some later pass; \<open>storeLists\<close> (a listing has
  no duplicates and the sort is by time) for retention; \<open>deadline\<close> (a context with a
  timeout ends) for the termination of the executor; \<open>optimistic_lock_server\<close> (a patch with a stale resource version is refused) for the lock.
  Passes of one resource do not overlap, as in controller-runtime; other clients act between passes and, for
  the lock, between the calls of an acquisition.

  \<^bold>\<open>Theories.\<close>

  \<^item> \<open>Go_Prelude\<close>: Go strings and integers, error trees, the monad, its weakest preconditions \<open>wp\<close>, and the locales
    \<open>frame\<close> (what an operation leaves alone) and \<open>abandonable\<close> (an operation that keeps an invariant or fails having kept
    the stored state safe).  \<open>Api_Types\<close>: the \<open>OpenBaoCluster\<close> resource (\<open>api/v1alpha1\<close>), with the fields the modelled
    code reads or writes.
  \<^item> \<open>Operator_Errors\<close> (\<open>platform/errors\<close>), \<open>Ownership\<close> (\<open>platform/resourceownership\<close>, \<open>resourceidentity\<close>, managed
    Jobs), \<open>Sem_Version\<close> (\<open>platform/semver\<close>, \<open>upgrade/version.go\<close>), \<open>Upgrade_Requests\<close> (\<open>upgrade/requests.go\<close>,
    \<open>acknowledgements.go\<close>).
  \<^item> \<open>Operation_Lock\<close> (\<open>opslifecycle/lock.go\<close>, \<open>upgrade/core/lock.go\<close>) and \<open>Lock_Server\<close>: the lock against a server with
    resource versions and foreign writes between any two calls.  The retry is bounded by 5 attempts, as
    \<open>retry.DefaultRetry\<close> is.
  \<^item> \<open>BlueGreen_State\<close>, \<open>_Stepper\<close>, \<open>_World\<close>, \<open>_Jobs\<close>, \<open>_Hooks\<close>, \<open>_Rollback\<close>, \<open>_Phases\<close>, \<open>_Reconcile\<close>: the blue/green manager
    from its status record up to \<open>Reconcile\<close>; \<open>_Frames\<close>, \<open>_Pass\<close>, \<open>_Moves\<close>, \<open>_Runs\<close>: its proofs.
  \<^item> \<open>Strategy_Transition\<close>: the gate between the upgrade strategies.
  \<^item> \<open>Restore_Types\<close>, \<open>_World\<close>, \<open>_Execution\<close>, \<open>_Recovery\<close>, \<open>_Reconcile\<close>: the restore manager from the resource up to
    \<open>Reconcile\<close> and the executor's \<open>ClaimRestore\<close>; \<open>_Invariant\<close>, \<open>_Frames\<close>, \<open>_Safety\<close>, \<open>_Pass\<close>, \<open>_Running\<close>, \<open>_Runs\<close>,
    \<open>_Parts\<close>: its proofs.
  \<^item> \<open>Upgrade_Snapshot\<close> (\<open>upgrade/snapshot\<close>), \<open>Pod_Clients\<close> (\<open>raftops/pod_client.go\<close>, \<open>leader_observer.go\<close>), \<open>Rolling_State\<close>, \<open>_Rollout\<close>,
    \<open>_Manager\<close>: the rolling manager from its decisions up to \<open>Reconcile\<close>; \<open>_Frames\<close>, \<open>_Safety\<close>, \<open>_Steps\<close>, \<open>_Pass\<close>, \<open>_Liveness\<close>, \<open>_Runs\<close>: its
    proofs.
  \<^item> \<open>Raft_Types\<close>, \<open>_World\<close>, \<open>_Actions\<close>: the executor from \<open>RunExecutor\<close> down to its requests; \<open>_Safety\<close>, \<open>_Steps\<close>, \<open>_Transfer\<close>, \<open>_Runs\<close>,
    \<open>_Properties\<close>: its proofs.  \<open>Executor_Config\<close>: the environment of an executor Job, written by the operator
    (\<open>job_builder.go\<close>) and read back by \<open>LoadExecutorConfig\<close>.
  \<^item> \<open>Go_Time\<close>: the civil calendar and the two time formats the backups use, with their round trip.  \<open>Backup_Keys\<close> (\<open>naming.go\<close>),
    \<open>Backup_Status\<close> (status, lock, metrics), \<open>Backup_Retention\<close>, \<open>Backup_Jobs\<close>, \<open>Restore_Tests\<close>, \<open>Backup_Manager\<close>: the backup manager
    up to \<open>Reconcile\<close>, here \<open>BackupReconcile\<close>; \<open>Backup_Frames\<close>, \<open>_Safety\<close>, \<open>_Due\<close>, \<open>_Create\<close>: its proofs.

  \<^bold>\<open>What is shown.\<close>

  \<^item> Upgrades: every pass of \<open>Reconcile\<close> is a move of a small phase machine (\<open>BlueGreen_Moves\<close>), proved once for the
    composition of the pass by the locale \<open>pass_contract\<close>; lifted to runs with edits and other controllers, no phase is
    skipped on the way to Cleanup and the committed direction of an upgrade is never reversed.
  \<^item> The lock is taken from nobody and released only by its holder, under interleaved writers and lost replies.
  \<^item> Restores: an invariant of all stored versions and of the trace (\<open>Restore_Invariant\<close>) that every operation keeps, from any
    stored version a stale cache may serve.  It gives: at most one Job is created, after the commitment is stored; receipts
    and identities never move back; no submission claim follows a reported failure before submission; claims are
    exclusive; Completed needs confirmed application; only the bound disposable target is deleted.
  \<^item> Rolling upgrades: in every pass, a lowered partition is justified by what the pass read before it (the other Pods
    ready and healthy, the leader elsewhere, the template current) and the progress record is erased only when the rollout has
    converged (triples \<open>ht\<close> of \<open>Go_Prelude\<close> over the trace); records stay well formed; in steady surroundings with
    a fair StatefulSet controller, in any number of passes that wait for it, an upgrade finishes and no pass fails.  Two defects of the upgrades are
    stated as theorems: an upgrade that misses its deadline is not reported as failed, and with more than ten Green Pods an absent one may
    count as present.
  \<^item> The executor: every change of the membership is justified by what the run has read, a run that succeeds has made sure of
    what its action is for, and every run returns.  The locales \<open>leader_finder\<close> and \<open>leader_transfer\<close> state what the retry loops rely on.
  \<^item> Backups: a Job is created only after every guard has been observed in the same pass, the lock taken and the name it is built for
    found absent; retention deletes only what the count and the age of the specification allow and keeps a newest backup; no status write loses a restore test in progress; object keys parse back.
    Two defects are stated as theorems: the first scheduled backup is never due, and refused deletions are counted.
  \<^item> A change of strategy, from the accepted one or, when none is recorded, from the one the status shows, is accepted only for a steady, unlocked, idle cluster.
  \<^item> Functional facts of the parts: versions and their order, names and their bounds, ownership proofs, request
    acknowledgement, requeue policy, decisions of the steppers, the leader scan and restart order of a recovery.

  Loops over finite lists are structural recursion.  The paged listing of executor Pods reads a finite list of pages:
  the server ends every listing with an empty continue token.  The election poll of the executor runs as many ticks as its
  timeout has intervals.  Its wait for synchronisation has no bound of its own and is a partial function with values in
  \<open>option\<close>; that it returns is proved from the deadline of the context.

  \<^bold>\<open>Not modelled.\<close>  The construction of StatefulSet, ConfigMap, RBAC and Job bodies (data handed to the API server) and SHA-256
  are parameters, and so is the HTTP transport to OpenBao.  Storage clients, the cron parser (its contract, a next time
  after the instant asked for, is part of \<open>freshStore\<close>) and the order \<open>sort.Slice\<close> gives equal timestamps are parameters too.  The cluster
  controllers' status projection, the services that render workloads, configuration, certificates and network policies, and the
  provisioner mostly construct data for the API server.  Watch set-up, metrics export, logging, generated deep copies, command-line glue,
  charts and vendored code are left out.
\<close>

end
